(* ===== verification/Prelude.thy ===== *)
theory Prelude
  imports Main "HOL-Library.Word" "HOL-Library.Char_ord" "HOL-Library.List_Lexorder"
    "HOL-Library.AList" "HOL-Library.Multiset"
begin

text \<open>
  Shared vocabulary of the development.  It holds the collections of rewrite rules the component
  proofs use, the exception monad (a Python function that may raise is a function into
  \<open>'e + 'a\<close>), the string methods of Python the sources call, and lemmas on
  lists that several components need.

  A Python string is a HOL \<open>string\<close>: a list of code points below 256 (Latin-1).
  The string methods below (\<open>lower\<close>, \<open>strip\<close>, \<open>isspace\<close>, \<open>isdecimal\<close>) agree with
  CPython on every such code point.
\<close>

section \<open>Collections and type names\<close>

named_theorems exn_simps \<open>equations that read the outcome of a computation in the exception monad\<close>
named_theorems store_simps \<open>equations of the relational store operations\<close>

text \<open>A UUID is its 128-bit value; a timestamp is an instant in microseconds (UTC).\<close>

type_synonym uuid = "128 word"
type_synonym instant = int

section \<open>The exception monad\<close>

definition bindE :: "'e + 'a \<Rightarrow> ('a \<Rightarrow> 'e + 'b) \<Rightarrow> 'e + 'b" where
  "bindE m f = (case m of Inl e \<Rightarrow> Inl e | Inr x \<Rightarrow> f x)"

definition require :: "bool \<Rightarrow> 'e \<Rightarrow> 'e + unit" where
  "require b e = (if b then Inr () else Inl e)"

text \<open>\<open>except m h\<close> is \<open>try: m except: raise h(error)\<close>: the error is replaced.\<close>

definition except :: "'e + 'a \<Rightarrow> ('e \<Rightarrow> 'f) \<Rightarrow> 'f + 'a" where
  "except m h = (case m of Inl e \<Rightarrow> Inl (h e) | Inr x \<Rightarrow> Inr x)"

primrec mapE :: "('a \<Rightarrow> 'e + 'b) \<Rightarrow> 'a list \<Rightarrow> 'e + 'b list" where
  "mapE f [] = Inr []"
| "mapE f (x # xs) = bindE (f x) (\<lambda>y. bindE (mapE f xs) (\<lambda>ys. Inr (y # ys)))"

lemma bindE_Inl [simp]: "bindE (Inl e) f = Inl e"
  by (simp add: bindE_def)

lemma bindE_Inr [simp]: "bindE (Inr x) f = f x"
  by (simp add: bindE_def)

lemma bindE_eq_Inr [exn_simps]: "bindE m f = Inr y \<longleftrightarrow> (\<exists>x. m = Inr x \<and> f x = Inr y)"
  by (cases m) auto

lemma bindE_eq_Inl [exn_simps]:
  "bindE m f = Inl e \<longleftrightarrow> m = Inl e \<or> (\<exists>x. m = Inr x \<and> f x = Inl e)"
  by (cases m) auto

lemma bindE_cong [fundef_cong]:
  "m = m' \<Longrightarrow> (\<And>x. m' = Inr x \<Longrightarrow> f x = g x) \<Longrightarrow> bindE m f = bindE m' g"
  by (cases m') auto

lemma require_True [simp]: "require True e = Inr ()"
  by (simp add: require_def)

lemma require_False [simp]: "require False e = Inl e"
  by (simp add: require_def)

lemma require_eq_Inr [exn_simps]: "require b e = Inr u \<longleftrightarrow> b"
  by (simp add: require_def)

lemma require_eq_Inl [exn_simps]: "require b e = Inl e' \<longleftrightarrow> \<not> b \<and> e' = e"
  by (auto simp: require_def)

lemma except_Inr [simp]: "except (Inr x) h = Inr x"
  by (simp add: except_def)

lemma except_Inl [simp]: "except (Inl e) h = Inl (h e)"
  by (simp add: except_def)

lemma except_eq_Inr [exn_simps]: "except m h = Inr x \<longleftrightarrow> m = Inr x"
  by (cases m) auto

lemma except_eq_Inl [exn_simps]: "except m h = Inl e' \<longleftrightarrow> (\<exists>e. m = Inl e \<and> e' = h e)"
  by (cases m) auto

lemma mapE_eq_Inr [exn_simps]:
  "mapE f xs = Inr ys \<longleftrightarrow> list_all2 (\<lambda>x y. f x = Inr y) xs ys"
  by (induction xs arbitrary: ys) (auto simp: exn_simps list_all2_Cons1)

lemma mapE_length: "mapE f xs = Inr ys \<Longrightarrow> length ys = length xs"
  by (auto simp: exn_simps dest: list_all2_lengthD)

lemma mapE_map_Inr:
  "(\<And>y. y \<in> set ys \<Longrightarrow> f (g y) = Inr y) \<Longrightarrow> mapE f (map g ys) = Inr ys"
  by (induction ys) auto

lemma mapE_all:
  "mapE f xs = Inr ys \<Longrightarrow> (\<And>x y. f x = Inr y \<Longrightarrow> P y) \<Longrightarrow> \<forall>y \<in> set ys. P y"
  by (induction xs arbitrary: ys) (auto simp: exn_simps list_all2_Cons1)

lemma mapE_cong [fundef_cong]:
  "xs = ys \<Longrightarrow> (\<And>y. y \<in> set ys \<Longrightarrow> f y = g y) \<Longrightarrow> mapE f xs = mapE g ys"
proof -
  have "(\<And>y. y \<in> set ys \<Longrightarrow> f y = g y) \<Longrightarrow> mapE f ys = mapE g ys"
    by (induction ys) auto
  then show "xs = ys \<Longrightarrow> (\<And>y. y \<in> set ys \<Longrightarrow> f y = g y) \<Longrightarrow> mapE f xs = mapE g ys"
    by blast
qed

section \<open>Python string methods on Latin-1 text\<close>

definition code :: "char \<Rightarrow> nat" where
  "code c = of_char c"

definition is_space :: "char \<Rightarrow> bool" where
  "is_space c = (let n = code c in 9 \<le> n \<and> n \<le> 13 \<or> 28 \<le> n \<and> n \<le> 32 \<or> n = 133 \<or> n = 160)"

definition is_digit :: "char \<Rightarrow> bool" where
  "is_digit c = (48 \<le> code c \<and> code c \<le> 57)"

definition lower_char :: "char \<Rightarrow> char" where
  "lower_char c = (let n = code c in
     if 65 \<le> n \<and> n \<le> 90 \<or> 192 \<le> n \<and> n \<le> 222 \<and> n \<noteq> 215 then char_of (n + 32) else c)"

definition lower :: "string \<Rightarrow> string" where
  "lower s = map lower_char s"

definition lstrip_by :: "(char \<Rightarrow> bool) \<Rightarrow> string \<Rightarrow> string" where
  "lstrip_by p s = dropWhile p s"

definition rstrip_by :: "(char \<Rightarrow> bool) \<Rightarrow> string \<Rightarrow> string" where
  "rstrip_by p s = rev (dropWhile p (rev s))"

definition strip_by :: "(char \<Rightarrow> bool) \<Rightarrow> string \<Rightarrow> string" where
  "strip_by p s = rstrip_by p (lstrip_by p s)"

definition strip :: "string \<Rightarrow> string" where
  "strip s = strip_by is_space s"

definition starts_with :: "string \<Rightarrow> string \<Rightarrow> bool" where
  "starts_with p s = (take (length p) s = p)"

primrec str_in :: "string \<Rightarrow> string \<Rightarrow> bool" where
  "str_in p [] = (p = [])"
| "str_in p (c # cs) = (starts_with p (c # cs) \<or> str_in p cs)"

definition is_decimal :: "string \<Rightarrow> bool" where
  "is_decimal s = (s \<noteq> [] \<and> list_all is_digit s)"

function str_replace :: "string \<Rightarrow> string \<Rightarrow> string \<Rightarrow> string" where
  "str_replace old new [] = []"
| "str_replace old new (c # cs) =
     (if old \<noteq> [] \<and> starts_with old (c # cs)
      then new @ str_replace old new (drop (length old) (c # cs))
      else c # str_replace old new cs)"
  by pat_completeness auto
termination
  by (relation "measure (\<lambda>(old, new, s). length s)") (auto simp: neq_Nil_conv)

text \<open>\<open>s.split(c)\<close> and \<open>s.partition(c)\<close> for a one-character separator.\<close>

fun str_split :: "char \<Rightarrow> string \<Rightarrow> string list" where
  "str_split sep [] = [[]]"
| "str_split sep (c # cs) =
     (if c = sep then [] # str_split sep cs
      else case str_split sep cs of [] \<Rightarrow> [[c]] | w # ws \<Rightarrow> (c # w) # ws)"

definition partition_at :: "char \<Rightarrow> string \<Rightarrow> string \<times> bool \<times> string" where
  "partition_at sep s =
     (let before = takeWhile (\<lambda>c. c \<noteq> sep) s; rest = dropWhile (\<lambda>c. c \<noteq> sep) s
      in (before, rest \<noteq> [], tl rest))"

definition rpartition_at :: "char \<Rightarrow> string \<Rightarrow> string \<times> bool \<times> string" where
  "rpartition_at sep s =
     (case partition_at sep (rev s) of
        (after, True, before) \<Rightarrow> (rev before, True, rev after)
      | (after, False, _) \<Rightarrow> ([], False, s))"

primrec join :: "string \<Rightarrow> string list \<Rightarrow> string" where
  "join sep [] = []"
| "join sep (w # ws) = (if ws = [] then w else w @ sep @ join sep ws)"

subsection \<open>Facts about the string methods\<close>

lemma length_lower [simp]: "length (lower s) = length s"
  by (simp add: lower_def)

lemma dropWhile_idem [simp]: "dropWhile p (dropWhile p xs) = dropWhile p xs"
  by (induction xs) auto

lemma rstrip_by_idem [simp]: "rstrip_by p (rstrip_by p s) = rstrip_by p s"
  by (simp add: rstrip_by_def)

lemma lstrip_by_eq_self: "s = [] \<or> \<not> p (hd s) \<Longrightarrow> lstrip_by p s = s"
  by (cases s) (auto simp: lstrip_by_def)

lemma rstrip_by_eq_self: "s = [] \<or> \<not> p (last s) \<Longrightarrow> rstrip_by p s = s"
  by (cases s rule: rev_cases) (auto simp: rstrip_by_def)

lemma lstrip_by_hd: "lstrip_by p s = [] \<or> \<not> p (hd (lstrip_by p s))"
  unfolding lstrip_by_def by (metis hd_dropWhile)

lemma rstrip_by_prefix: "\<exists>t. s = rstrip_by p s @ t"
proof -
  have "rev s = takeWhile p (rev s) @ dropWhile p (rev s)" by simp
  then have "s = rev (dropWhile p (rev s)) @ rev (takeWhile p (rev s))"
    by (metis rev_append rev_rev_ident)
  then show ?thesis unfolding rstrip_by_def by blast
qed

lemma rstrip_by_hd: "rstrip_by p s \<noteq> [] \<Longrightarrow> hd (rstrip_by p s) = hd s"
  by (metis hd_append2 rstrip_by_prefix)

lemma rstrip_by_last: "rstrip_by p s = [] \<or> \<not> p (last (rstrip_by p s))"
  unfolding rstrip_by_def by (metis hd_dropWhile last_rev rev_is_Nil_conv)

lemma strip_by_ends:
  "strip_by p s = [] \<or> \<not> p (hd (strip_by p s)) \<and> \<not> p (last (strip_by p s))"
  unfolding strip_by_def using lstrip_by_hd [of p s] rstrip_by_last [of p "lstrip_by p s"]
    rstrip_by_hd [of p "lstrip_by p s"] by (metis append_is_Nil_conv rstrip_by_prefix)

lemma strip_by_eq_self: "s = [] \<or> \<not> p (hd s) \<and> \<not> p (last s) \<Longrightarrow> strip_by p s = s"
  unfolding strip_by_def by (metis lstrip_by_eq_self rstrip_by_eq_self)

lemma strip_by_idem [simp]: "strip_by p (strip_by p s) = strip_by p s"
  by (rule strip_by_eq_self) (rule strip_by_ends)

lemma strip_idem [simp]: "strip (strip s) = strip s"
  by (simp add: strip_def)

lemma lower_char_idem [simp]: "lower_char (lower_char c) = lower_char c"
proof -
  have "code c < 256" by (simp add: code_def)
  then show ?thesis by (auto simp: lower_char_def Let_def code_def)
qed

lemma lower_idem [simp]: "lower (lower s) = lower s"
  by (simp add: lower_def)

lemma str_split_nonempty [simp]: "str_split sep s \<noteq> []"
  by (induction sep s rule: str_split.induct) (auto split: list.splits)

lemma str_replace_absent:
  "\<not> str_in old s \<Longrightarrow> str_replace old new s = s"
  by (induction s) auto

section \<open>Lists and association lists\<close>

lemma distinct_map_length_set: "length (remdups xs) = length xs \<longleftrightarrow> distinct xs"
  by (metis length_remdups_card_conv card_distinct distinct_card)

lemma map_of_sort_key:
  assumes "distinct (map fst xs)"
  shows "map_of (sort_key fst xs) = map_of xs"
  using assms by (intro map_of_inject_set [THEN iffD2])
    (auto simp: distinct_map set_insort_key inj_on_def)

end
