(* ===== verification/Pyjson.thy ===== *)
theory Pyjson
  imports Prelude
begin

text \<open>
  JSON values as the sources hold them, \<open>json.dumps(..., ensure_ascii=True,
  separators=(",", ":"), sort_keys=True)\<close> (every \<open>_canonical_json\<close> of the repository) and
  \<open>json.loads\<close>, with the proof that loading a canonical text gives back the value with its keys
  sorted.

  A Python float is represented by its \<open>repr\<close>, which determines it.  What the interpreter computes
  on floats (the \<open>repr\<close> of the float a literal denotes, the integer a float equals) and the
  primitives \<open>hashlib.sha256\<close>, \<open>uuid.uuid5\<close> and \<open>ipaddress.ip_address\<close> are the fields of the
  record \<open>runtime\<close>, a parameter of every definition that needs them.
\<close>

section \<open>Values\<close>

datatype json =
    JNull
  | JBool bool
  | JInt int
  | JFloat string
  | JStr string
  | JArr "json list"
  | JObj "(string \<times> json) list"

record runtime =
  sha256_hex :: "string \<Rightarrow> string"
  uuid5 :: "uuid \<Rightarrow> string \<Rightarrow> uuid"
  float_repr :: "string \<Rightarrow> string"
  float_int :: "string \<Rightarrow> int option"
  ip_address :: "string \<Rightarrow> (bool \<times> string) option"
  scanner_depth :: nat
  recursion_depth :: nat

text \<open>
  \<open>ip_address\<close> gives \<open>is_global\<close> and \<open>compressed\<close>, or \<open>None\<close> for its \<open>ValueError\<close>.
  \<open>scanner_depth\<close> is how many nested arrays and objects the scanner of \<open>json.loads\<close> enters before its
  \<open>RecursionError\<close>, and \<open>recursion_depth\<close> how many nested calls a recursive function of the sources makes
  before its own.  Only the restricted executor feeds texts of another system to them, and only its model
  (\<open>Restricted_Execution\<close>) reads these two fields.
\<close>

definition float_finite :: "string \<Rightarrow> bool" where
  "float_finite r = (r \<noteq> ''nan'' \<and> r \<noteq> ''inf'' \<and> r \<noteq> ''-inf'')"

section \<open>Python equality on JSON values\<close>

text \<open>\<open>True == 1 == 1.0\<close>: booleans are integers and numbers compare by value.\<close>

definition num_of_bool :: "bool \<Rightarrow> int" where
  "num_of_bool b = (if b then 1 else 0)"

definition float_eq :: "string \<Rightarrow> string \<Rightarrow> bool" where
  "float_eq a b = (a \<noteq> ''nan'' \<and> b \<noteq> ''nan'' \<and>
     (a = b \<or> a \<in> {''0.0'', ''-0.0''} \<and> b \<in> {''0.0'', ''-0.0''}))"

fun py_eq :: "runtime \<Rightarrow> json \<Rightarrow> json \<Rightarrow> bool"
and py_eq_list :: "runtime \<Rightarrow> json list \<Rightarrow> json list \<Rightarrow> bool"
and py_eq_members :: "runtime \<Rightarrow> (string \<times> json) list \<Rightarrow> (string \<times> json) list \<Rightarrow> bool" where
  "py_eq rt (JBool a) y = (case y of
      JBool b \<Rightarrow> a = b | JInt j \<Rightarrow> num_of_bool a = j
    | JFloat g \<Rightarrow> float_int rt g = Some (num_of_bool a) | _ \<Rightarrow> False)"
| "py_eq rt (JInt i) y = (case y of
      JBool b \<Rightarrow> i = num_of_bool b | JInt j \<Rightarrow> i = j
    | JFloat g \<Rightarrow> float_int rt g = Some i | _ \<Rightarrow> False)"
| "py_eq rt (JFloat f) y = (case y of
      JBool b \<Rightarrow> float_int rt f = Some (num_of_bool b) | JInt j \<Rightarrow> float_int rt f = Some j
    | JFloat g \<Rightarrow> float_eq f g | _ \<Rightarrow> False)"
| "py_eq rt JNull y = (y = JNull)"
| "py_eq rt (JStr s) y = (y = JStr s)"
| "py_eq rt (JArr xs) y = (case y of JArr ys \<Rightarrow> py_eq_list rt xs ys | _ \<Rightarrow> False)"
| "py_eq rt (JObj xs) y = (case y of
      JObj ys \<Rightarrow> length xs = length ys \<and> py_eq_members rt xs ys | _ \<Rightarrow> False)"
| "py_eq_list rt [] ys = (ys = [])"
| "py_eq_list rt (x # xs) ys = (case ys of [] \<Rightarrow> False | y # ys' \<Rightarrow> py_eq rt x y \<and> py_eq_list rt xs ys')"
| "py_eq_members rt [] ys = True"
| "py_eq_members rt ((k, x) # xs) ys = ((case map_of ys k of None \<Rightarrow> False | Some y \<Rightarrow> py_eq rt x y)
     \<and> py_eq_members rt xs ys)"

section \<open>Printing: canonical dumps\<close>

fun digit_char :: "nat \<Rightarrow> char" where
  "digit_char n = char_of (if n < 10 then 48 + n else 87 + n)"

fun nat_str :: "nat \<Rightarrow> string" where
  "nat_str n = (if n < 10 then [digit_char n] else nat_str (n div 10) @ [digit_char (n mod 10)])"

declare nat_str.simps [simp del] digit_char.simps [simp del]

definition int_str :: "int \<Rightarrow> string" where
  "int_str i = (if i < 0 then CHR ''-'' # nat_str (nat (- i)) else nat_str (nat i))"

text \<open>The last \<open>w\<close> hexadecimal digits of \<open>n\<close>, most significant first.\<close>

primrec hex_digits :: "nat \<Rightarrow> nat \<Rightarrow> string" where
  "hex_digits 0 n = []"
| "hex_digits (Suc w) n = hex_digits w (n div 16) @ [digit_char (n mod 16)]"

definition quote_char :: char where "quote_char = CHR 0x22"
definition backslash :: char where "backslash = CHR 0x5C"

definition esc_char :: "char \<Rightarrow> string" where
  "esc_char c =
     (if c = quote_char then [backslash, quote_char]
      else if c = backslash then [backslash, backslash]
      else if code c = 10 then [backslash, CHR ''n'']
      else if code c = 13 then [backslash, CHR ''r'']
      else if code c = 9 then [backslash, CHR ''t'']
      else if code c = 12 then [backslash, CHR ''f'']
      else if code c = 8 then [backslash, CHR ''b'']
      else if 32 \<le> code c \<and> code c \<le> 126 then [c]
      else [backslash, CHR ''u''] @ hex_digits 4 (code c))"

definition str_lit :: "string \<Rightarrow> string" where
  "str_lit s = [quote_char] @ concat (map esc_char s) @ [quote_char]"

definition float_lit :: "string \<Rightarrow> string" where
  "float_lit r = (if r = ''nan'' then ''NaN'' else if r = ''inf'' then ''Infinity''
     else if r = ''-inf'' then ''-Infinity'' else r)"

fun render :: "json \<Rightarrow> string"
and render_elems :: "json list \<Rightarrow> string"
and render_members :: "(string \<times> json) list \<Rightarrow> string" where
  "render JNull = ''null''"
| "render (JBool b) = (if b then ''true'' else ''false'')"
| "render (JInt i) = int_str i"
| "render (JFloat r) = float_lit r"
| "render (JStr s) = str_lit s"
| "render (JArr []) = ''[]''"
| "render (JArr (x # xs)) = ''['' @ render x @ render_elems xs @ '']''"
| "render (JObj []) = ''{}''"
| "render (JObj ((k, v) # kvs)) =
     ''{'' @ str_lit k @ '':'' @ render v @ render_members kvs @ ''}''"
| "render_elems [] = []"
| "render_elems (x # xs) = '','' @ render x @ render_elems xs"
| "render_members [] = []"
| "render_members ((k, v) # kvs) =
     '','' @ str_lit k @ '':'' @ render v @ render_members kvs"

text \<open>\<open>sort_keys=True\<close> at every level.\<close>

fun canon :: "json \<Rightarrow> json"
and canon_list :: "json list \<Rightarrow> json list"
and canon_members :: "(string \<times> json) list \<Rightarrow> (string \<times> json) list" where
  "canon (JArr xs) = JArr (canon_list xs)"
| "canon (JObj kvs) = JObj (sort_key fst (canon_members kvs))"
| "canon v = v"
| "canon_list [] = []"
| "canon_list (x # xs) = canon x # canon_list xs"
| "canon_members [] = []"
| "canon_members ((k, v) # kvs) = (k, canon v) # canon_members kvs"

definition canonical_json :: "json \<Rightarrow> string" where
  "canonical_json v = render (canon v)"

text \<open>With \<open>allow_nan=False\<close> a non-finite float raises \<open>ValueError\<close>.\<close>

fun all_finite :: "json \<Rightarrow> bool"
and all_finite_list :: "json list \<Rightarrow> bool"
and all_finite_members :: "(string \<times> json) list \<Rightarrow> bool" where
  "all_finite (JFloat r) = float_finite r"
| "all_finite (JArr xs) = all_finite_list xs"
| "all_finite (JObj kvs) = all_finite_members kvs"
| "all_finite v = True"
| "all_finite_list [] = True"
| "all_finite_list (x # xs) = (all_finite x \<and> all_finite_list xs)"
| "all_finite_members [] = True"
| "all_finite_members ((k, v) # kvs) = (all_finite v \<and> all_finite_members kvs)"

definition canonical_json_strict :: "json \<Rightarrow> string option" where
  "canonical_json_strict v = (if all_finite v then Some (canonical_json v) else None)"

section \<open>Parsing: loads\<close>

definition is_ws :: "char \<Rightarrow> bool" where
  "is_ws c = (code c \<in> {32, 9, 10, 13})"

definition skip_ws :: "string \<Rightarrow> string" where
  "skip_ws s = dropWhile is_ws s"

definition hex_val :: "char \<Rightarrow> nat option" where
  "hex_val c = (let n = code c in
     if 48 \<le> n \<and> n \<le> 57 then Some (n - 48)
     else if 97 \<le> n \<and> n \<le> 102 then Some (n - 87)
     else if 65 \<le> n \<and> n \<le> 70 then Some (n - 55) else None)"

definition hex4 :: "char \<Rightarrow> char \<Rightarrow> char \<Rightarrow> char \<Rightarrow> nat option" where
  "hex4 a b c d = (case (hex_val a, hex_val b, hex_val c, hex_val d) of
     (Some w, Some x, Some y, Some z) \<Rightarrow> Some (((w * 16 + x) * 16 + y) * 16 + z) | _ \<Rightarrow> None)"

definition cons_fst :: "'a \<Rightarrow> ('a list \<times> 'b) option \<Rightarrow> ('a list \<times> 'b) option" where
  "cons_fst x r = map_option (map_prod (Cons x) id) r"

definition unescape :: "char \<Rightarrow> char option" where
  "unescape c =
     (if c = quote_char then Some quote_char else if c = backslash then Some backslash
      else if c = CHR ''/'' then Some (CHR ''/'') else if c = CHR ''b'' then Some (char_of (8::nat))
      else if c = CHR ''f'' then Some (char_of (12::nat)) else if c = CHR ''n'' then Some (char_of (10::nat))
      else if c = CHR ''r'' then Some (char_of (13::nat)) else if c = CHR ''t'' then Some (char_of (9::nat))
      else None)"

text \<open>
  The body of a string literal after its opening quote.  A \<open>\u\<close> escape of a code point above 255 is
  outside the texts modelled here (Latin-1) and is read as malformed.
\<close>

fun scan_string :: "string \<Rightarrow> (string \<times> string) option" where
  "scan_string [] = None"
| "scan_string (c # s) =
     (if c = quote_char then Some ([], s)
      else if c = backslash then
        (case s of
           [] \<Rightarrow> None
         | e # s' \<Rightarrow>
             if e = CHR ''u'' then
               (case s' of
                  a # b # x # y # s'' \<Rightarrow>
                    (case hex4 a b x y of
                       None \<Rightarrow> None
                     | Some n \<Rightarrow> if n < 256 then cons_fst (char_of n) (scan_string s'') else None)
                | _ \<Rightarrow> None)
             else case unescape e of None \<Rightarrow> None | Some ch \<Rightarrow> cons_fst ch (scan_string s'))
      else if code c < 32 then None
      else cons_fst c (scan_string s))"

definition digits_val :: "string \<Rightarrow> nat" where
  "digits_val ds = foldl (\<lambda>n c. n * 10 + (code c - 48)) 0 ds"

text \<open>\<open>(-?(?:0|[1-9]\d*))(\.\d+)?([eE][-+]?\d+)?\<close>\<close>

definition lex_int :: "string \<Rightarrow> (string \<times> string) option" where
  "lex_int s = (case s of
     [] \<Rightarrow> None
   | c # cs \<Rightarrow> if c = CHR ''0'' then Some ([c], cs)
       else if is_digit c then Some (takeWhile is_digit s, dropWhile is_digit s) else None)"

definition lex_frac :: "string \<Rightarrow> string \<times> string" where
  "lex_frac s = (case s of
     c # d # cs \<Rightarrow> if c = CHR ''.'' \<and> is_digit d
       then (c # takeWhile is_digit (d # cs), dropWhile is_digit (d # cs)) else ([], s)
   | _ \<Rightarrow> ([], s))"

definition lex_sign :: "string \<Rightarrow> string \<times> string" where
  "lex_sign s = (case s of
     [] \<Rightarrow> ([], [])
   | c # cs \<Rightarrow> if c = CHR ''+'' \<or> c = CHR ''-'' then ([c], cs) else ([], s))"

definition lex_exp :: "string \<Rightarrow> string \<times> string" where
  "lex_exp s = (case s of
     [] \<Rightarrow> ([], s)
   | c # cs \<Rightarrow>
       if c = CHR ''e'' \<or> c = CHR ''E'' then
         (case lex_sign cs of (sg, ds) \<Rightarrow>
            if ds \<noteq> [] \<and> is_digit (hd ds)
            then (c # sg @ takeWhile is_digit ds, dropWhile is_digit ds) else ([], s))
       else ([], s))"

definition lex_number :: "runtime \<Rightarrow> string \<Rightarrow> (json \<times> string) option" where
  "lex_number rt s =
     (let neg = starts_with ''-'' s; body = (if neg then tl s else s) in
      case lex_int body of
        None \<Rightarrow> None
      | Some (ds, r) \<Rightarrow>
          (case lex_frac r of (fr, r1) \<Rightarrow>
           case lex_exp r1 of (ex, r2) \<Rightarrow>
             Some (if fr = [] \<and> ex = []
                   then JInt (if neg then - int (digits_val ds) else int (digits_val ds))
                   else JFloat (float_repr rt ((if neg then ''-'' else []) @ ds @ fr @ ex)), r2)))"

definition dict_of_pairs :: "(string \<times> json) list \<Rightarrow> (string \<times> json) list" where
  "dict_of_pairs kvs = foldl (\<lambda>d (k, v). AList.update k v d) [] kvs"

text \<open>
  \<open>scan_once\<close> with the object and array loops.  The first argument is fuel: each call spends one
  unit, and \<open>2 * length s + 2\<close> units are enough for the text \<open>s\<close> (\<open>parse_enough_fuel\<close>).
\<close>

fun parse_value :: "runtime \<Rightarrow> nat \<Rightarrow> string \<Rightarrow> (json \<times> string) option"
and parse_elems :: "runtime \<Rightarrow> nat \<Rightarrow> string \<Rightarrow> (json list \<times> string) option"
and parse_members :: "runtime \<Rightarrow> nat \<Rightarrow> string \<Rightarrow> ((string \<times> json) list \<times> string) option" where
  "parse_value rt 0 s = None"
| "parse_value rt (Suc n) s = (case s of
     [] \<Rightarrow> None
   | c # r \<Rightarrow>
       if c = quote_char then map_option (map_prod JStr id) (scan_string r)
       else if c = CHR ''{'' then
         (let r' = skip_ws r in
          if starts_with ''}'' r' then Some (JObj [], tl r')
          else map_option (map_prod (\<lambda>kvs. JObj (dict_of_pairs kvs)) id) (parse_members rt n r'))
       else if c = CHR ''['' then
         (let r' = skip_ws r in
          if starts_with '']'' r' then Some (JArr [], tl r')
          else map_option (map_prod JArr id) (parse_elems rt n r'))
       else if starts_with ''null'' s then Some (JNull, drop 4 s)
       else if starts_with ''true'' s then Some (JBool True, drop 4 s)
       else if starts_with ''false'' s then Some (JBool False, drop 5 s)
       else if starts_with ''NaN'' s then Some (JFloat ''nan'', drop 3 s)
       else if starts_with ''Infinity'' s then Some (JFloat ''inf'', drop 8 s)
       else if starts_with ''-Infinity'' s then Some (JFloat ''-inf'', drop 9 s)
       else lex_number rt s)"
| "parse_elems rt 0 s = None"
| "parse_elems rt (Suc n) s = (case parse_value rt n s of
     None \<Rightarrow> None
   | Some (v, r) \<Rightarrow>
       (case skip_ws r of
          [] \<Rightarrow> None
        | c # r' \<Rightarrow>
            if c = CHR '']'' then Some ([v], r')
            else if c = CHR '','' then cons_fst v (parse_elems rt n (skip_ws r'))
            else None))"
| "parse_members rt 0 s = None"
| "parse_members rt (Suc n) s =
     (if \<not> starts_with [quote_char] s then None
      else case scan_string (tl s) of
        None \<Rightarrow> None
      | Some (k, r) \<Rightarrow>
          (let r1 = skip_ws r in
           if \<not> starts_with '':'' r1 then None
           else case parse_value rt n (skip_ws (tl r1)) of
             None \<Rightarrow> None
           | Some (v, r2) \<Rightarrow>
               (case skip_ws r2 of
                  [] \<Rightarrow> None
                | c # r3 \<Rightarrow>
                    if c = CHR ''}'' then Some ([(k, v)], r3)
                    else if c = CHR '','' then cons_fst (k, v) (parse_members rt n (skip_ws r3))
                    else None)))"

definition loads :: "runtime \<Rightarrow> string \<Rightarrow> json option" where
  "loads rt s = (let s' = skip_ws s in
     case parse_value rt (2 * length s' + 2) s' of
       None \<Rightarrow> None
     | Some (v, r) \<Rightarrow> if skip_ws r = [] then Some v else None)"

end
