(* ===== verification/Json_Roundtrip.thy ===== *)
theory Json_Roundtrip
  imports Pyjson
begin

text \<open>
  Loading a canonical text gives the value back with its object keys sorted, and the fuel of the
  parser is always enough.  The lemmas go from number and string literals to whole values.
\<close>

section \<open>Numbers\<close>

definition stops :: "string \<Rightarrow> bool" where
  "stops r = (r = [] \<or> hd r \<in> {CHR '','', CHR '']'', CHR ''}''})"

lemma code_less: "code c < 256"
  by (simp add: code_def)

lemma char_of_code [simp]: "char_of (code c) = c"
  by (simp add: code_def)

lemma code_digit [simp]: "n < 10 \<Longrightarrow> code (digit_char n) = 48 + n"
  by (simp add: code_def digit_char.simps)

lemma digit_char_0 [simp]: "digit_char 0 = CHR ''0''"
  by code_simp

lemma code_hex_digit: "n < 16 \<Longrightarrow> code (digit_char n) = (if n < 10 then 48 + n else 87 + n)"
  by (simp add: code_def digit_char.simps)

lemma code_zero [simp]: "code (CHR ''0'') = 48"
  by (simp add: code_def)

lemma is_digit_digit_char [simp]: "n < 10 \<Longrightarrow> is_digit (digit_char n)"
  by (simp add: is_digit_def)

lemma nat_str_digits: "list_all is_digit (nat_str n)"
  by (induction n rule: nat_str.induct) (subst nat_str.simps, simp)

lemma nat_str_nonempty [simp]: "nat_str n \<noteq> []"
  by (subst nat_str.simps) simp

lemma digits_val_snoc: "digits_val (ds @ [c]) = digits_val ds * 10 + (code c - 48)"
  by (simp add: digits_val_def)

lemma digits_val_nat_str [simp]: "digits_val (nat_str n) = n"
proof (induction n rule: nat_str.induct)
  case (1 n)
  show ?case
  proof (cases "n < 10")
    case True
    then show ?thesis by (subst nat_str.simps) (simp add: digits_val_def)
  next
    case False
    with 1 show ?thesis by (subst nat_str.simps) (simp add: digits_val_snoc)
  qed
qed

lemma nat_str_hd_zero: "hd (nat_str n) = CHR ''0'' \<longleftrightarrow> n = 0"
proof (induction n rule: nat_str.induct)
  case (1 n)
  show ?case
  proof (cases "n < 10")
    case True
    then have "digit_char n = CHR ''0'' \<longleftrightarrow> code (digit_char n) = code (CHR ''0'')"
      by (metis char_of_code)
    with True show ?thesis by (subst nat_str.simps) simp
  next
    case False
    with 1 show ?thesis by (subst nat_str.simps) (simp add: hd_append)
  qed
qed

lemma stops_not_digit: "stops r \<Longrightarrow> r \<noteq> [] \<Longrightarrow> \<not> is_digit (hd r)"
  by (auto simp: stops_def is_digit_def code_def)

lemma takeWhile_digits_stop:
  "list_all is_digit ds \<Longrightarrow> r = [] \<or> \<not> is_digit (hd r) \<Longrightarrow>
   takeWhile is_digit (ds @ r) = ds \<and> dropWhile is_digit (ds @ r) = r"
  by (induction ds) (cases r; auto)+

lemma lex_int_nat_str:
  assumes "r = [] \<or> \<not> is_digit (hd r)"
  shows "lex_int (nat_str n @ r) = Some (nat_str n, r)"
proof -
  obtain c cs where n: "nat_str n = c # cs" by (cases "nat_str n") auto
  have ds: "list_all is_digit (nat_str n)" by (rule nat_str_digits)
  show ?thesis
  proof (cases "c = CHR ''0''")
    case True
    with n have "n = 0" using nat_str_hd_zero [of n] by simp
    then have "nat_str n = ''0''" by (simp add: nat_str.simps)
    then show ?thesis by (simp add: lex_int_def)
  next
    case False
    with n ds takeWhile_digits_stop [OF ds assms] show ?thesis
      by (simp add: lex_int_def)
  qed
qed

lemma lex_frac_stop: "stops r \<Longrightarrow> lex_frac r = ([], r)"
  by (auto simp: lex_frac_def stops_def split: list.splits)

lemma lex_exp_stop: "stops r \<Longrightarrow> lex_exp r = ([], r)"
  by (auto simp: lex_exp_def stops_def split: list.splits)

lemma nat_str_not_minus: "hd (nat_str n @ r) \<noteq> CHR ''-''"
proof -
  have "is_digit (hd (nat_str n))"
    using nat_str_digits [of n] by (cases "nat_str n") auto
  then show ?thesis by (auto simp: is_digit_def code_def)
qed

lemma lex_number_int_str:
  assumes "stops r"
  shows "lex_number rt (int_str i @ r) = Some (JInt i, r)"
proof -
  have r: "r = [] \<or> \<not> is_digit (hd r)" using stops_not_digit [OF assms] by blast
  show ?thesis
  proof (cases "i < 0")
  case True
  with lex_int_nat_str [of r "nat (- i)"] r show ?thesis
    by (simp add: lex_number_def int_str_def starts_with_def lex_frac_stop lex_exp_stop assms)
next
  case False
  obtain c cs where n: "nat_str (nat i) = c # cs" by (cases "nat_str (nat i)") auto
  with nat_str_not_minus [of "nat i" r] have "c \<noteq> CHR ''-''" by simp
  with False n lex_int_nat_str [of r "nat i"] r digits_val_nat_str [of "nat i"] show ?thesis
    by (simp add: lex_number_def int_str_def starts_with_def lex_frac_stop lex_exp_stop assms)
qed
qed

section \<open>Strings\<close>

lemma hex_val_digit: "n < 16 \<Longrightarrow> hex_val (digit_char n) = Some n"
  by (simp add: hex_val_def Let_def code_hex_digit)

lemma nibbles_4:
  fixes n :: nat
  assumes "n < 65536"
  shows "(((n div 16 div 16 div 16 mod 16) * 16 + n div 16 div 16 mod 16) * 16
    + n div 16 mod 16) * 16 + n mod 16 = n"
proof -
  have "n div 16 div 16 div 16 < 16" using assms by (simp add: less_mult_imp_div_less)
  then show ?thesis by (simp add: div_mult_mod_eq)
qed

lemma hex_digits_4:
  assumes "n < 65536"
  shows "\<exists>a b c d. hex_digits 4 n = [a, b, c, d] \<and> hex4 a b c d = Some n"
proof -
  have "(4::nat) = Suc (Suc (Suc (Suc 0)))" by simp
  then have "hex_digits 4 n = [digit_char (n div 16 div 16 div 16 mod 16),
      digit_char (n div 16 div 16 mod 16), digit_char (n div 16 mod 16), digit_char (n mod 16)]"
    by (simp only: hex_digits.simps append.simps)
  then show ?thesis
    using nibbles_4 [OF assms] by (simp add: hex4_def hex_val_digit)
qed

lemma esc_char_short:
  assumes "c = quote_char \<or> c = backslash \<or> code c \<in> {10, 13, 9, 12, 8}"
  shows "\<exists>e. esc_char c = [backslash, e] \<and> e \<noteq> CHR ''u'' \<and> unescape e = Some c"
proof -
  have "char_of (code c) = c" by simp
  with assms show ?thesis
    by (auto simp: esc_char_def unescape_def quote_char_def backslash_def) (metis char_of_code)+
qed

lemma esc_char_cases:
  obtains (plain) "esc_char c = [c]" "c \<noteq> quote_char" "c \<noteq> backslash" "\<not> code c < 32"
  | (short) e where "esc_char c = [backslash, e]" "e \<noteq> CHR ''u''" "unescape e = Some c"
  | (long) "esc_char c = [backslash, CHR ''u''] @ hex_digits 4 (code c)"
proof (cases "c = quote_char \<or> c = backslash \<or> code c \<in> {10, 13, 9, 12, 8}")
  case True
  then show thesis using esc_char_short short by blast
next
  case False
  then show thesis
    by (cases "32 \<le> code c \<and> code c \<le> 126") (auto simp: esc_char_def intro: plain long)
qed

lemma backslash_neq_quote [simp]: "backslash \<noteq> quote_char" "quote_char \<noteq> backslash"
  by (simp_all add: backslash_def quote_char_def)

lemma scan_string_esc: "scan_string (esc_char c @ s) = cons_fst c (scan_string s)"
proof (cases c rule: esc_char_cases)
  case plain
  then show ?thesis by simp
next
  case (short e)
  then show ?thesis by simp
next
  case long
  obtain a b x y where h: "hex_digits 4 (code c) = [a, b, x, y]" and "hex4 a b x y = Some (code c)"
    using hex_digits_4 [of "code c"] code_less [of c] by auto
  with long code_less [of c] show ?thesis by simp
qed

lemma scan_string_lit: "scan_string (concat (map esc_char s) @ quote_char # r) = Some (s, r)"
  by (induction s) (simp_all add: scan_string_esc cons_fst_def del: scan_string.simps(2),
    simp add: scan_string.simps)

section \<open>Values that survive a round trip\<close>

text \<open>
  Object keys are distinct (a Python dict) and every float is one the interpreter prints and reads
  back: its \<open>repr\<close> is a JSON number with a fraction or an exponent, and reading it gives it again.
\<close>

definition float_ok :: "runtime \<Rightarrow> string \<Rightarrow> bool" where
  "float_ok rt r = (\<not> float_finite r \<or> lex_number rt r = Some (JFloat r, []))"

fun json_ok :: "runtime \<Rightarrow> json \<Rightarrow> bool"
and json_ok_list :: "runtime \<Rightarrow> json list \<Rightarrow> bool"
and json_ok_members :: "runtime \<Rightarrow> (string \<times> json) list \<Rightarrow> bool" where
  "json_ok rt (JFloat r) = float_ok rt r"
| "json_ok rt (JArr xs) = json_ok_list rt xs"
| "json_ok rt (JObj kvs) = (distinct (map fst kvs) \<and> json_ok_members rt kvs)"
| "json_ok rt v = True"
| "json_ok_list rt [] = True"
| "json_ok_list rt (x # xs) = (json_ok rt x \<and> json_ok_list rt xs)"
| "json_ok_members rt [] = True"
| "json_ok_members rt ((k, v) # kvs) = (json_ok rt v \<and> json_ok_members rt kvs)"

lemma json_ok_list_iff [simp]: "json_ok_list rt xs = (\<forall>x \<in> set xs. json_ok rt x)"
  by (induction xs) auto

lemma json_ok_members_iff [simp]:
  "json_ok_members rt kvs = (\<forall>(k, v) \<in> set kvs. json_ok rt v)"
  by (induction kvs) auto

lemma canon_list_map [simp]: "canon_list xs = map canon xs"
  by (induction xs) auto

lemma canon_members_map [simp]: "canon_members kvs = map (map_prod id canon) kvs"
  by (induction kvs) auto

lemma all_finite_list_iff [simp]: "all_finite_list xs = (\<forall>x \<in> set xs. all_finite x)"
  by (induction xs) auto

lemma all_finite_members_iff [simp]:
  "all_finite_members kvs = (\<forall>(k, v) \<in> set kvs. all_finite v)"
  by (induction kvs) auto

lemma map_fst_map_prod [simp]: "map fst (map (map_prod id f) kvs) = map fst kvs"
  by (induction kvs) auto

lemma distinct_fst_sort_key [simp]: "distinct (map fst (sort_key fst kvs)) = distinct (map fst kvs)"
  by (metis distinct_sort distinct_map mset_map mset_sort mset_eq_imp_distinct_iff)

lemma json_ok_canon: "json_ok rt v \<Longrightarrow> json_ok rt (canon v)"
proof (induction v)
  case (JObj kvs)
  then show ?case by (force simp del: map_map)
qed auto

lemma dict_of_pairs_snoc: "dict_of_pairs (kvs @ [(k, v)]) = AList.update k v (dict_of_pairs kvs)"
  by (simp add: dict_of_pairs_def)

lemma update_fresh: "k \<notin> fst ` set kvs \<Longrightarrow> AList.update k v kvs = kvs @ [(k, v)]"
  by (induction kvs) auto

lemma dict_of_pairs_distinct: "distinct (map fst kvs) \<Longrightarrow> dict_of_pairs kvs = kvs"
proof (induction kvs rule: rev_induct)
  case Nil
  then show ?case by (simp add: dict_of_pairs_def)
next
  case (snoc kv kvs)
  then show ?case by (cases kv) (auto simp: dict_of_pairs_snoc update_fresh)
qed

section \<open>Number literals in context\<close>

lemma digits_append_stop:
  assumes "stops r"
  shows "takeWhile is_digit (s @ r) = takeWhile is_digit s"
    and "dropWhile is_digit (s @ r) = dropWhile is_digit s @ r"
  using stops_not_digit [OF assms] by (induction s; cases r; auto)+

lemma lex_int_append: "lex_int s = Some (ds, r) \<Longrightarrow> stops t \<Longrightarrow> lex_int (s @ t) = Some (ds, r @ t)"
  using digits_append_stop [of t s] by (auto simp: lex_int_def split: list.splits if_splits)

lemma lex_frac_append: "lex_frac s = (f, r) \<Longrightarrow> stops t \<Longrightarrow> lex_frac (s @ t) = (f, r @ t)"
proof (induct s)
  case Nil
  then show ?case by (simp add: lex_frac_stop [of t], simp add: lex_frac_def)
next
  case (Cons c cs)
  show ?case
  proof (cases cs)
    case Nil
    with Cons.prems stops_not_digit [of t] show ?thesis
      by (cases t) (auto simp: lex_frac_def)
  next
    case (Cons d ds)
    with Cons.prems digits_append_stop [of t "d # ds"] show ?thesis
      by (auto simp: lex_frac_def split: if_splits)
  qed
qed

lemma lex_sign_append:
  "lex_sign s = (g, r) \<Longrightarrow> stops t \<Longrightarrow> s \<noteq> [] \<Longrightarrow> lex_sign (s @ t) = (g, r @ t)"
  by (auto simp: lex_sign_def split: list.splits if_splits)

lemma lex_sign_stop: "stops t \<Longrightarrow> lex_sign t = ([], t)"
  by (auto simp: lex_sign_def stops_def split: list.splits)

lemma lex_exp_append: "lex_exp s = (f, r) \<Longrightarrow> stops t \<Longrightarrow> lex_exp (s @ t) = (f, r @ t)"
proof (cases s)
  case Nil
  then show "lex_exp s = (f, r) \<Longrightarrow> stops t \<Longrightarrow> ?thesis"
    by (simp add: lex_exp_stop [of t], simp add: lex_exp_def)
next
  case (Cons c cs)
  assume e: "lex_exp s = (f, r)" and t: "stops t"
  obtain g ds where g: "lex_sign cs = (g, ds)" by fastforce
  have g': "lex_sign (cs @ t) = (g, ds @ t)"
    using lex_sign_append [OF g t] lex_sign_stop [OF t] g by (cases cs) (auto simp: lex_sign_def)
  have "is_digit (hd (ds @ t)) \<and> ds @ t \<noteq> [] \<longleftrightarrow> is_digit (hd ds) \<and> ds \<noteq> []"
    using stops_not_digit [OF t] by (cases ds) auto
  with e g g' Cons digits_append_stop [OF t, of ds] show ?thesis
    by (auto simp: lex_exp_def split: if_splits)
qed

lemma lex_number_append:
  assumes "lex_number rt s = Some (v, r)" and t: "stops t"
  shows "lex_number rt (s @ t) = Some (v, r @ t)"
proof -
  define neg where "neg = starts_with ''-'' s"
  define body where "body = (if neg then tl s else s)"
  from assms(1) obtain ds r1 where l: "lex_int body = Some (ds, r1)"
    by (auto simp: lex_number_def Let_def neg_def [symmetric] body_def [symmetric] split: option.splits)
  then have s: "s \<noteq> []" by (auto simp: body_def neg_def lex_int_def split: if_splits)
  then have n: "starts_with ''-'' (s @ t) = neg" and b: "(if neg then tl (s @ t) else s @ t) = body @ t"
    by (auto simp: neg_def body_def starts_with_def neq_Nil_conv)
  obtain f r2 where f: "lex_frac r1 = (f, r2)" by fastforce
  obtain x r3 where x: "lex_exp r2 = (x, r3)" by fastforce
  from assms(1) l f x lex_int_append [OF l t] lex_frac_append [OF f t] lex_exp_append [OF x t]
  show ?thesis
    by (auto simp: lex_number_def Let_def n b neg_def [symmetric] body_def [symmetric])
qed

lemma lex_number_start:
  assumes "lex_number rt s = Some (v, r)"
  shows "s \<noteq> [] \<and> (is_digit (hd s) \<or> hd s = CHR ''-'' \<and> tl s \<noteq> [] \<and> is_digit (hd (tl s)))"
proof -
  have d: "u \<noteq> [] \<and> is_digit (hd u)" if "lex_int u = Some (ds, w)" for u ds w
    using that by (auto simp: lex_int_def is_digit_def split: list.splits if_splits)
  from assms obtain ds w where "lex_int (if starts_with ''-'' s then tl s else s) = Some (ds, w)"
    by (auto simp: lex_number_def Let_def split: option.splits)
  from d [OF this] show ?thesis
    by (cases s) (auto simp: starts_with_def split: if_splits)
qed

section \<open>Loading a rendered value\<close>

definition loads_back :: "runtime \<Rightarrow> json \<Rightarrow> bool" where
  "loads_back rt v \<longleftrightarrow> (\<forall>n t. stops t \<longrightarrow> 2 * length (render v) \<le> n \<longrightarrow>
     parse_value rt n (render v @ t) = Some (v, t))"

definition solid :: "string \<Rightarrow> bool" where
  "solid s \<longleftrightarrow> s \<noteq> [] \<and> \<not> is_ws (hd s) \<and> hd s \<noteq> CHR '']''"

lemma solid_not_close: "solid s \<Longrightarrow> \<not> starts_with '']'' (s @ t)"
  by (cases s) (auto simp: solid_def starts_with_def)

lemma skip_ws_solid [simp]: "solid s \<Longrightarrow> skip_ws (s @ t) = s @ t"
  by (cases s) (auto simp: solid_def skip_ws_def)

lemma is_ws_consts [simp]:
  "\<not> is_ws (CHR '','')" "\<not> is_ws (CHR '']'')" "\<not> is_ws (CHR ''}'')" "\<not> is_ws (CHR '':'')"
  "\<not> is_ws quote_char" "\<not> is_ws (CHR ''{'')" "\<not> is_ws (CHR ''['')" "\<not> is_ws (CHR ''-'')"
  "\<not> is_ws (CHR 0x22)"
  by (simp_all add: is_ws_def code_def quote_char_def)

lemma skip_ws_Cons [simp]: "\<not> is_ws c \<Longrightarrow> skip_ws (c # s) = c # s"
  by (simp add: skip_ws_def)

lemma digit_not_ws: "is_digit c \<Longrightarrow> \<not> is_ws c \<and> c \<noteq> CHR '']''"
  by (auto simp: is_digit_def is_ws_def code_def)

lemma parse_value_number:
  assumes "lex_number rt s = Some p"
  shows "parse_value rt (Suc n) s = Some p"
proof -
  obtain c cs where s: "s = c # cs"
    and c: "is_digit c \<or> c = CHR ''-'' \<and> cs \<noteq> [] \<and> is_digit (hd cs)"
    using lex_number_start [of rt s "fst p" "snd p"] assms by (cases s) auto
  have "c \<notin> {quote_char, CHR ''{'', CHR ''['', CHR ''n'', CHR ''t'', CHR ''f'', CHR ''N'', CHR ''I''}"
    using c by (auto simp: is_digit_def code_def quote_char_def)
  moreover have "\<not> starts_with ''-Infinity'' s"
    using c s by (cases cs) (auto simp: starts_with_def is_digit_def code_def)
  ultimately show ?thesis using s assms by (auto simp: starts_with_def)
qed

lemma lex_number_float_lit:
  assumes "float_ok rt r" "float_finite r"
  shows "lex_number rt (float_lit r) = Some (JFloat r, [])"
  using assms by (auto simp: float_ok_def float_lit_def float_finite_def)

lemma lex_number_solid: "lex_number rt s = Some p \<Longrightarrow> solid s"
  using lex_number_start [of rt s "fst p" "snd p"] digit_not_ws
  by (auto simp: solid_def)

lemma render_solid: "json_ok rt v \<Longrightarrow> solid (render v)"
proof (cases v)
  case (JInt i)
  then show ?thesis using lex_number_solid [OF lex_number_int_str [of "[]" rt i]]
    by (simp add: stops_def)
next
  case (JFloat r)
  assume "json_ok rt v"
  with JFloat show ?thesis using lex_number_solid [OF lex_number_float_lit [of rt r]]
    by (cases "float_finite r") (auto simp: float_finite_def float_lit_def solid_def is_ws_def code_def)
next
  case (JArr xs)
  then show ?thesis by (cases xs) (auto simp: solid_def)
next
  case (JObj kvs)
  then show ?thesis by (cases kvs) (auto simp: solid_def)
qed (auto simp: solid_def str_lit_def is_ws_def code_def quote_char_def)

lemma stops_members: "stops (render_members kvs @ CHR ''}'' # t)"
  by (cases kvs) (auto simp: stops_def)

lemma stops_elems: "stops (render_elems xs @ CHR '']'' # t)"
  by (cases xs) (auto simp: stops_def)

lemma parse_elems_render:
  assumes "\<forall>y \<in> set (x # xs). json_ok rt y \<and> loads_back rt y"
    and "2 * length (render x @ render_elems xs) + 1 \<le> n"
  shows "parse_elems rt n (render x @ render_elems xs @ CHR '']'' # t) = Some (x # xs, t)"
  using assms
proof (induction xs arbitrary: x n)
  case Nil
  then obtain m where "n = Suc m" by (cases n) auto
  with Nil show ?case
    by (simp add: loads_back_def stops_def)
next
  case (Cons y ys)
  then obtain m where n: "n = Suc m" by (cases n) auto
  let ?rest = "render_elems (y # ys) @ CHR '']'' # t"
  have "parse_value rt m (render x @ ?rest) = Some (x, ?rest)"
    using Cons.prems n stops_elems [of "y # ys" t] by (simp add: loads_back_def)
  moreover have "parse_elems rt m (render y @ render_elems ys @ CHR '']'' # t) = Some (y # ys, t)"
    using Cons.prems n by (intro Cons.IH) auto
  moreover have "solid (render y)" using Cons.prems(1) render_solid by auto
  ultimately show ?case using n by (simp add: cons_fst_def)
qed

lemma parse_members_render:
  assumes "\<forall>(k', y) \<in> set ((k, v) # kvs). json_ok rt y \<and> loads_back rt y"
    and "2 * length (str_lit k @ '':'' @ render v @ render_members kvs) + 1 \<le> n"
  shows "parse_members rt n (str_lit k @ '':'' @ render v @ render_members kvs @ CHR ''}'' # t)
    = Some ((k, v) # kvs, t)"
  using assms
proof (induction kvs arbitrary: k v n)
  case Nil
  then obtain m where n: "n = Suc m" by (cases n) auto
  have "solid (render v)" using Nil.prems(1) render_solid by auto
  moreover have "parse_value rt m (render v @ CHR ''}'' # t) = Some (v, CHR ''}'' # t)"
    using Nil.prems n by (simp add: loads_back_def stops_def)
  ultimately show ?case using n
    by (simp add: str_lit_def starts_with_def scan_string_lit)
next
  case (Cons kv kvs)
  then obtain m where n: "n = Suc m" by (cases n) auto
  obtain k' v' where kv: "kv = (k', v')" by fastforce
  let ?rest = "render_members (kv # kvs) @ CHR ''}'' # t"
  have "parse_value rt m (render v @ ?rest) = Some (v, ?rest)"
    using Cons.prems n stops_members [of "kv # kvs" t] by (simp add: loads_back_def)
  moreover have "parse_members rt m (str_lit k' @ '':'' @ render v' @ render_members kvs @ CHR ''}'' # t)
      = Some (kv # kvs, t)"
    unfolding kv using Cons.prems n kv by (intro Cons.IH) auto
  moreover have "solid (render v)" using Cons.prems(1) render_solid by auto
  ultimately show ?case using n kv
    by (simp add: cons_fst_def str_lit_def starts_with_def scan_string_lit)
qed

lemma loads_backI:
  assumes "json_ok rt v"
    and "\<And>m t. stops t \<Longrightarrow> 2 * length (render v) \<le> Suc m \<Longrightarrow>
      parse_value rt (Suc m) (render v @ t) = Some (v, t)"
  shows "loads_back rt v"
  unfolding loads_back_def
proof (intro allI impI)
  fix n t assume t: "stops t" and n: "2 * length (render v) \<le> n"
  have "solid (render v)" using assms(1) by (rule render_solid)
  with n obtain m where "n = Suc m" by (cases n) (auto simp: solid_def)
  with assms(2) [OF t] n show "parse_value rt n (render v @ t) = Some (v, t)" by simp
qed

lemma loads_back_JArr:
  assumes "\<forall>y \<in> set xs. json_ok rt y \<and> loads_back rt y"
  shows "loads_back rt (JArr xs)"
proof (rule loads_backI)
  show "json_ok rt (JArr xs)" using assms by simp
next
  fix m t assume m: "2 * length (render (JArr xs)) \<le> Suc m"
  show "parse_value rt (Suc m) (render (JArr xs) @ t) = Some (JArr xs, t)"
  proof (cases xs)
    case Nil
    then show ?thesis by (simp add: starts_with_def quote_char_def)
  next
    case (Cons y ys)
    then have y: "solid (render y)" using assms render_solid by auto
    have "parse_elems rt m (render y @ render_elems ys @ CHR '']'' # t) = Some (y # ys, t)"
      using assms m Cons by (intro parse_elems_render) auto
    with y solid_not_close [OF y] Cons show ?thesis by (simp add: quote_char_def)
  qed
qed

lemma loads_back_JObj:
  assumes "\<forall>(k, y) \<in> set kvs. json_ok rt y \<and> loads_back rt y" and d: "distinct (map fst kvs)"
  shows "loads_back rt (JObj kvs)"
proof (rule loads_backI)
  show "json_ok rt (JObj kvs)" using assms by auto
next
  fix m t assume m: "2 * length (render (JObj kvs)) \<le> Suc m"
  show "parse_value rt (Suc m) (render (JObj kvs) @ t) = Some (JObj kvs, t)"
  proof (cases kvs)
    case Nil
    then show ?thesis by (simp add: starts_with_def quote_char_def)
  next
    case (Cons kv kvs')
    obtain k v where kv: "kv = (k, v)" by fastforce
    have "parse_members rt m (str_lit k @ '':'' @ render v @ render_members kvs' @ CHR ''}'' # t)
        = Some ((k, v) # kvs', t)"
      using assms m Cons kv by (intro parse_members_render) auto
    then show ?thesis using Cons kv dict_of_pairs_distinct [OF d]
      by (simp add: quote_char_def str_lit_def starts_with_def)
  qed
qed

lemma loads_back_all: "json_ok rt v \<Longrightarrow> loads_back rt v"
proof (induction v)
  case (JInt i)
  show ?case using parse_value_number [OF lex_number_int_str] by (intro loads_backI) auto
next
  case (JFloat r)
  show ?case
  proof (rule loads_backI [OF JFloat])
    fix m t assume t: "stops t"
    show "parse_value rt (Suc m) (render (JFloat r) @ t) = Some (JFloat r, t)"
    proof (cases "float_finite r")
      case True
      with JFloat have "lex_number rt (float_lit r @ t) = Some (JFloat r, [] @ t)"
        by (intro lex_number_append lex_number_float_lit t) auto
      from parse_value_number [OF this] show ?thesis by simp
    next
      case False
      then show ?thesis
        by (auto simp: float_finite_def float_lit_def starts_with_def quote_char_def)
    qed
  qed
next
  case (JArr xs)
  then show ?case by (intro loads_back_JArr) auto
next
  case (JObj kvs)
  then show ?case by (intro loads_back_JObj) fastforce+
qed (rule loads_backI; simp add: starts_with_def quote_char_def str_lit_def
      scan_string_lit [unfolded quote_char_def])+

section \<open>The round trip\<close>

lemma insort_key_map_prod:
  "insort_key fst (map_prod id f kv) (map (map_prod id f) kvs) =
     map (map_prod id f) (insort_key fst kv kvs)"
  by (induction kvs) auto

lemma sort_key_map_prod:
  "sort_key fst (map (map_prod id f) kvs) = map (map_prod id f) (sort_key fst kvs)"
  by (induction kvs) (simp_all only: sort_key_simps list.map insort_key_map_prod)

lemma canon_idem [simp]: "canon (canon v) = canon v"
proof (induction v)
  case (JObj kvs)
  have "map (map_prod id canon) (map (map_prod id canon) (sort_key fst kvs))
      = map (map_prod id canon) (sort_key fst kvs)"
    using JObj by force
  then show ?case by (simp add: sort_key_map_prod sort_key_id_if_sorted del: map_map)
qed auto

lemma canonical_json_canon [simp]: "canonical_json (canon v) = canonical_json v"
  by (simp add: canonical_json_def)

theorem loads_canonical_json:
  assumes "json_ok rt v"
  shows "loads rt (canonical_json v) = Some (canon v)"
proof -
  have ok: "json_ok rt (canon v)" using assms by (rule json_ok_canon)
  then have "parse_value rt (2 * length (render (canon v)) + 2) (render (canon v) @ [])
      = Some (canon v, [])"
    using loads_back_all unfolding loads_back_def by (metis le_add1 stops_def)
  moreover have "skip_ws (render (canon v)) = render (canon v)"
    using skip_ws_solid [OF render_solid [OF ok], of "[]"] by simp
  ultimately show ?thesis by (simp add: loads_def canonical_json_def skip_ws_def)
qed

lemma canonical_json_inj:
  assumes "json_ok rt v" "json_ok rt w" "canonical_json v = canonical_json w"
  shows "canon v = canon w"
  using loads_canonical_json [OF assms(1)] loads_canonical_json [OF assms(2)] assms(3) by simp

section \<open>The fuel of the parser is enough\<close>

lemma skip_ws_length: "length (skip_ws s) \<le> length s"
  by (simp add: skip_ws_def length_dropWhile_le)

lemma skip_ws_Cons_length: "skip_ws s = c # r \<Longrightarrow> length r < length s"
  using skip_ws_length [of s] by simp

lemma cons_fst_Some: "cons_fst x o' = Some (ys, r) \<longleftrightarrow> (\<exists>xs. o' = Some (xs, r) \<and> ys = x # xs)"
  by (cases o') (auto simp: cons_fst_def)

lemma scan_string_length: "scan_string s = Some (k, r) \<Longrightarrow> length r < length s"
  by (induction s arbitrary: k rule: scan_string.induct)
    (force simp: cons_fst_Some split: if_splits list.splits option.splits)+

lemma lex_number_length: "lex_number rt s = Some (v, r) \<Longrightarrow> length r < length s"
proof -
  assume a: "lex_number rt s = Some (v, r)"
  have i: "length w < length u" if "lex_int u = Some (ds, w)" for u ds w
    using that by (auto simp: lex_int_def le_imp_less_Suc length_dropWhile_le
      split: list.splits if_splits)
  have f: "length w \<le> length u" if "lex_frac u = (ds, w)" for u ds w
    using that by (auto simp: lex_frac_def intro: le_SucI length_dropWhile_le [THEN le_trans]
      split: list.splits if_splits)
  have x: "length w \<le> length u" if "lex_exp u = (ds, w)" for u ds w
    using that by (auto simp: lex_exp_def lex_sign_def intro: le_SucI length_dropWhile_le [THEN le_trans]
      split: list.splits if_splits)
  from a obtain ds r1 fr r2 ex where
    "lex_int (if starts_with ''-'' s then tl s else s) = Some (ds, r1)"
    "lex_frac r1 = (fr, r2)" "lex_exp r2 = (ex, r)"
    by (auto simp: lex_number_def Let_def split: option.splits prod.splits)
  from i [OF this(1)] f [OF this(2)] x [OF this(3)] show ?thesis
    by (auto split: if_splits)
qed


lemma starts_with_Suc: "starts_with (c # p) s \<longleftrightarrow> (\<exists>r. s = c # r \<and> starts_with p r)"
  by (cases s) (auto simp: starts_with_def)

lemma starts_with_Nil [simp]: "starts_with [] s"
  by (simp add: starts_with_def)

lemma parse_length:
  "parse_value rt n s = Some (v, r) \<Longrightarrow> length r < length s"
  "parse_elems rt n s = Some (vs, r) \<Longrightarrow> length r < length s"
  "parse_members rt n s = Some (kvs, r) \<Longrightarrow> length r < length s"
proof (induction rt n s and rt n s and rt n s arbitrary: v r and vs r and kvs r
    rule: parse_value_parse_elems_parse_members.induct)
  case (2 rt n s)
  then show ?case
    using skip_ws_length [of "tl s"] lex_number_length [of rt s v r]
    by (cases s) (auto simp: Let_def starts_with_Suc dest!: scan_string_length
      split: if_splits dest: less_le_trans, (meson less_SucI less_le_trans)+)
next
  case (4 rt n s)
  from 4(3) obtain v0 r0 c r1 where v: "parse_value rt n s = Some (v0, r0)" and w: "skip_ws r0 = c # r1"
    by (auto split: option.splits list.splits)
  have l: "length r0 < length s" using 4(1) [OF v] .
  have l1: "length r1 < length r0" using skip_ws_Cons_length [OF w] .
  show ?case
  proof (cases "c = CHR '']''")
    case True
    with 4(3) v w l l1 show ?thesis by simp
  next
    case False
    with 4(3) v w obtain ys where e: "parse_elems rt n (skip_ws r1) = Some (ys, r)" "c = CHR '',''"
      by (auto simp: cons_fst_Some split: if_splits)
    have "length r < length (skip_ws r1)"
      using 4(2) [OF v refl w False e(2) e(1)] .
    with l l1 skip_ws_length [of r1] show ?thesis by simp
  qed
next
  case (6 rt n s)
  from 6(3) obtain k r0 v0 r2 c r3 where q: "starts_with [quote_char] s" and k: "scan_string (tl s) = Some (k, r0)"
    and o: "starts_with '':'' (skip_ws r0)"
    and v: "parse_value rt n (skip_ws (tl (skip_ws r0))) = Some (v0, r2)" and w: "skip_ws r2 = c # r3"
    by (auto simp: Let_def split: option.splits list.splits if_splits)
  have "length r2 < length (skip_ws (tl (skip_ws r0)))"
    using 6(1) q k o v by auto
  then have l: "length r2 < length s"
    using scan_string_length [OF k] skip_ws_length [of "tl (skip_ws r0)"] skip_ws_length [of r0] by simp
  have l1: "length r3 < length r2" using skip_ws_Cons_length [OF w] .
  show ?case
  proof (cases "c = CHR ''}''")
    case True
    with 6(3) q k o v w l l1 show ?thesis by simp
  next
    case False
    with 6(3) q k o v w obtain ys where e: "parse_members rt n (skip_ws r3) = Some (ys, r)" "c = CHR '',''"
      by (auto simp: cons_fst_Some split: if_splits)
    have "length r < length (skip_ws r3)"
      using 6(2) q k o v w False e by auto
    with l l1 skip_ws_length [of r3] show ?thesis by simp
  qed
qed auto


lemma parse_fuel:
  "2 * length s + 1 \<le> n \<Longrightarrow> 2 * length s + 1 \<le> m \<Longrightarrow> parse_value rt n s = parse_value rt m s"
  "2 * length s + 2 \<le> n \<Longrightarrow> 2 * length s + 2 \<le> m \<Longrightarrow> parse_elems rt n s = parse_elems rt m s"
  "2 * length s + 2 \<le> n \<Longrightarrow> 2 * length s + 2 \<le> m \<Longrightarrow> parse_members rt n s = parse_members rt m s"
proof (induction rt n s and rt n s and rt n s arbitrary: m and m and m
    rule: parse_value_parse_elems_parse_members.induct)
  case (2 rt n s)
  obtain m' where m: "m = Suc m'" using 2(4) by (cases m) auto
  show ?case
  proof (cases s)
    case (Cons c r)
    have f: "2 * length (skip_ws r) + 2 \<le> n" "2 * length (skip_ws r) + 2 \<le> m'"
      using 2(3,4) m Cons skip_ws_length [of r] by auto
    have "parse_members rt n (skip_ws r) = parse_members rt m' (skip_ws r)"
      if "c = CHR ''{''" "\<not> starts_with ''}'' (skip_ws r)"
      by (rule 2(1) [OF Cons _ that(1) refl that(2) f]) (simp add: that quote_char_def)
    moreover have "parse_elems rt n (skip_ws r) = parse_elems rt m' (skip_ws r)"
      if "c = CHR ''[''" "\<not> starts_with '']'' (skip_ws r)"
      by (rule 2(2) [OF Cons _ _ that(1) refl that(2) f]) (simp_all add: that quote_char_def)
    ultimately show ?thesis unfolding Cons m parse_value.simps Let_def list.case
      by (simp cong: if_cong)
  qed (simp add: m)
next
  case (4 rt n s)
  obtain m' where m: "m = Suc m'" using 4(4) by (cases m) auto
  have v: "parse_value rt n s = parse_value rt m' s" by (rule 4(1)) (use 4(3,4) m in simp_all)
  have "parse_elems rt n (skip_ws r1) = parse_elems rt m' (skip_ws r1)"
    if p: "parse_value rt n s = Some (v0, r0)" and w: "skip_ws r0 = c # r1" and c: "c = CHR '',''"
    for v0 r0 c r1
  proof (rule 4(2) [OF p refl w _ c])
    show "c \<noteq> CHR '']''" using c by simp
    have "length (skip_ws r1) < length s"
      using parse_length(1) [OF p] skip_ws_Cons_length [OF w] skip_ws_length [of r1] by simp
    then show "2 * length (skip_ws r1) + 2 \<le> n" "2 * length (skip_ws r1) + 2 \<le> m'"
      using 4(3,4) m by simp_all
  qed
  then show ?case unfolding m parse_elems.simps v [symmetric]
    by (simp split: option.split list.split)
next
  case (6 rt n s)
  obtain m' where m: "m = Suc m'" using 6(4) by (cases m) auto
  have v: "parse_value rt n u = parse_value rt m' u"
    if q: "starts_with [quote_char] s" and k: "scan_string (tl s) = Some (k, r0)"
      and o: "starts_with '':'' (skip_ws r0)" and u: "u = skip_ws (tl (skip_ws r0))" for k r0 u
  proof -
    have "length u < length s"
      using scan_string_length [OF k] skip_ws_length [of "tl (skip_ws r0)"] skip_ws_length [of r0] u
      by simp
    then show ?thesis unfolding u using q o 6(3,4) m
      by (intro 6(1) [OF _ k refl refl]) (simp_all add: u)
  qed
  have "parse_members rt n (skip_ws r3) = parse_members rt m' (skip_ws r3)"
    if q: "starts_with [quote_char] s" and k: "scan_string (tl s) = Some (k, r0)"
      and o: "starts_with '':'' (skip_ws r0)"
      and p: "parse_value rt n (skip_ws (tl (skip_ws r0))) = Some (v0, r2)"
      and w: "skip_ws r2 = c # r3" and c: "c = CHR '',''" for k r0 v0 r2 c r3
  proof -
    have "length (skip_ws r3) < length s"
      using parse_length(1) [OF p] skip_ws_Cons_length [OF w] skip_ws_length [of r3]
        scan_string_length [OF k] skip_ws_length [of "tl (skip_ws r0)"] skip_ws_length [of r0] by simp
    then show ?thesis using q o c 6(3,4) m
      by (intro 6(2) [OF _ k refl refl _ p refl w]) simp_all
  qed
  then show ?case using m v
    by (simp add: Let_def split: option.splits list.splits)
qed auto

text \<open>More fuel than \<open>loads\<close> gives never changes what it reads.\<close>

lemma parse_enough_fuel:
  "2 * length s + 2 \<le> n \<Longrightarrow> parse_value rt n s = parse_value rt (2 * length s + 2) s"
  by (rule parse_fuel) auto

section \<open>What loads returns survives a round trip\<close>

lemma dict_of_pairs_laws:
  "distinct (map fst (dict_of_pairs kvs)) \<and> set (dict_of_pairs kvs) \<subseteq> set kvs
   \<and> length (dict_of_pairs kvs) \<le> length kvs"
proof (induction kvs rule: rev_induct)
  case Nil
  then show ?case by (simp add: dict_of_pairs_def)
next
  case (snoc kv kvs)
  obtain k v where kv: "kv = (k, v)" by fastforce
  have s: "set (AList.update k v d) \<subseteq> insert (k, v) (set d)" for d :: "(string \<times> json) list"
    by (induction d) auto
  have l: "length (AList.update k v d) \<le> Suc (length d)" for d :: "(string \<times> json) list"
    by (induction d) auto
  show ?case unfolding kv dict_of_pairs_snoc
    using snoc s [of "dict_of_pairs kvs"] l [of "dict_of_pairs kvs"]
    by (auto intro: distinct_update le_trans)
qed

text \<open>CPython's \<open>repr(float(s))\<close> is a literal that denotes the same float again.\<close>

definition floats_read_back :: "runtime \<Rightarrow> bool" where
  "floats_read_back rt \<longleftrightarrow> (\<forall>s. float_ok rt (float_repr rt s))"

lemma lex_number_ok: "floats_read_back rt \<Longrightarrow> lex_number rt s = Some (v, r) \<Longrightarrow> json_ok rt v"
  by (auto simp: lex_number_def floats_read_back_def Let_def split: option.splits prod.splits if_splits)

lemma parse_ok:
  assumes "floats_read_back rt"
  shows "parse_value rt n s = Some (v, r) \<Longrightarrow> json_ok rt v"
    and "parse_elems rt n s = Some (vs, r) \<Longrightarrow> json_ok_list rt vs"
    and "parse_members rt n s = Some (kvs, r) \<Longrightarrow> json_ok_members rt kvs"
  using assms
proof (induction rt n s and rt n s and rt n s arbitrary: v r and vs r and kvs r
    rule: parse_value_parse_elems_parse_members.induct)
  case (2 rt n s)
  show ?case
  proof (cases s)
    case (Cons c cs)
    have "json_ok rt (JObj (dict_of_pairs kvs))" if "json_ok_members rt kvs" for kvs
      using that dict_of_pairs_laws [of kvs] by auto
    with 2 Cons lex_number_ok [OF "2.prems"(2)] show ?thesis
      by (auto simp: Let_def float_ok_def float_finite_def simp del: json_ok_members_iff json_ok_list_iff
        split: if_splits)
  qed (use 2 in simp)
next
  case (4 rt n s)
  then show ?case
    by (auto simp: cons_fst_Some simp del: json_ok_list_iff split: option.splits list.splits if_splits)
next
  case (6 rt n s)
  then show ?case
    by (auto simp: cons_fst_Some Let_def simp del: json_ok_members_iff split: option.splits list.splits if_splits)
qed simp_all

lemma loads_json_ok: "floats_read_back rt \<Longrightarrow> loads rt s = Some v \<Longrightarrow> json_ok rt v"
  using parse_ok(1) by (auto simp: loads_def Let_def simp del: parse_value.simps
    split: option.splits prod.splits if_splits)

end
