(* ===== verification/Py_Uuid.thy ===== *)
theory Py_Uuid
  imports Json_Roundtrip
begin

text \<open>
  The text form of a UUID: \<open>str(u)\<close> and the constructor \<open>UUID(text)\<close> of the standard library,
  with everything the constructor accepts (a \<open>urn:\<close> or \<open>uuid:\<close> prefix, braces, hyphens anywhere and
  what \<open>int(text, 16)\<close> accepts), and the proof that the constructor reads back what \<open>str\<close> prints.
\<close>

section \<open>Definitions\<close>

definition uuid_str :: "uuid \<Rightarrow> string" where
  "uuid_str u = (let h = hex_digits 32 (unat u) in
     take 8 h @ ''-'' @ take 4 (drop 8 h) @ ''-'' @ take 4 (drop 12 h) @ ''-'' @
     take 4 (drop 16 h) @ ''-'' @ drop 20 h)"

definition int_space :: "char \<Rightarrow> bool" where
  "int_space c = (9 \<le> code c \<and> code c \<le> 13 \<or> code c \<in> {32, 133, 160})"

fun hex_run :: "nat \<Rightarrow> string \<Rightarrow> nat option" where
  "hex_run acc [] = Some acc"
| "hex_run acc (c # cs) =
     (if c = CHR ''_'' then
        (case cs of [] \<Rightarrow> None | d # ds \<Rightarrow>
           (case hex_val d of None \<Rightarrow> None | Some v \<Rightarrow> hex_run (acc * 16 + v) ds))
      else case hex_val c of None \<Rightarrow> None | Some v \<Rightarrow> hex_run (acc * 16 + v) cs)"

definition hex_literal :: "string \<Rightarrow> nat option" where
  "hex_literal s = (case s of [] \<Rightarrow> None | c # cs \<Rightarrow>
     (case hex_val c of None \<Rightarrow> None | Some v \<Rightarrow> hex_run v cs))"

definition int_base16 :: "string \<Rightarrow> int option" where
  "int_base16 s =
     (let t = strip_by int_space s;
          neg = starts_with ''-'' t;
          u = (if neg \<or> starts_with ''+'' t then tl t else t);
          w = (if starts_with ''0x'' u \<or> starts_with ''0X'' u
               then (let x = drop 2 u in if starts_with ''_'' x then tl x else x) else u)
      in map_option (\<lambda>n. if neg then - int n else int n) (hex_literal w))"

definition uuid_parse :: "string \<Rightarrow> uuid option" where
  "uuid_parse s =
     (let h = str_replace ''uuid:'' [] (str_replace ''urn:'' [] s);
          h = str_replace ''-'' [] (strip_by (\<lambda>c. c = CHR ''{'' \<or> c = CHR ''}'') h)
      in if length h \<noteq> 32 then None
         else case int_base16 h of
           None \<Rightarrow> None
         | Some i \<Rightarrow> if 0 \<le> i \<and> i < 2 ^ 128 then Some (word_of_int i) else None)"

section \<open>The round trip\<close>

definition hexish :: "char \<Rightarrow> bool" where
  "hexish c \<longleftrightarrow> (\<exists>n < 16. c = digit_char n)"

lemma hexish_hex_val: "hexish c \<Longrightarrow> \<exists>n. hex_val c = Some n"
  by (auto simp: hexish_def hex_val_digit)

lemma hexish_digit_char: "hexish (digit_char (n mod 16))"
  unfolding hexish_def by (rule exI [of _ "n mod 16"]) simp

lemma hex_digits_hexish: "c \<in> set (hex_digits w n) \<Longrightarrow> hexish c"
  by (induction w arbitrary: n) (auto simp: hexish_digit_char)

lemma length_hex_digits [simp]: "length (hex_digits w n) = w"
  by (induction w arbitrary: n) auto

lemma hexish_code: "hexish c \<Longrightarrow> 48 \<le> code c \<and> code c \<le> 57 \<or> 97 \<le> code c \<and> code c \<le> 102"
  by (auto simp: hexish_def code_hex_digit split: if_splits)

lemma hexish_not:
  assumes "hexish c"
  shows "c \<noteq> CHR ''_''" "c \<noteq> CHR ''-''" "c \<noteq> CHR ''+''" "c \<noteq> CHR ''x''" "c \<noteq> CHR ''X''"
    "c \<noteq> CHR ''u''" "c \<noteq> CHR ''{''" "c \<noteq> CHR ''}''" "\<not> int_space c"
  using hexish_code [OF assms] by (auto simp: code_def int_space_def)

lemma hex_run_foldl:
  "\<forall>c \<in> set s. hexish c \<Longrightarrow> hex_run acc s = Some (foldl (\<lambda>n c. n * 16 + the (hex_val c)) acc s)"
proof (induction s arbitrary: acc)
  case (Cons c s)
  then obtain n where "hex_val c = Some n" using hexish_hex_val [of c] by auto
  with Cons hexish_not [of c] show ?case by simp
qed simp

lemma foldl_hex_digits:
  "foldl (\<lambda>n c. n * 16 + the (hex_val c)) 0 (hex_digits w n) = n mod 16 ^ w"
proof (induction w arbitrary: n)
  case (Suc w)
  have "n mod (16 * 16 ^ w) = 16 * (n div 16 mod 16 ^ w) + n mod 16"
    by (simp add: mod_mult2_eq)
  with Suc show ?case by (simp add: hex_val_digit algebra_simps)
qed simp

lemma hex_literal_hex_digits: "hex_literal (hex_digits (Suc w) n) = Some (n mod 16 ^ Suc w)"
proof -
  let ?f = "\<lambda>n c. n * 16 + the (hex_val c)"
  obtain c cs where d: "hex_digits (Suc w) n = c # cs" by (cases "hex_digits (Suc w) n") auto
  then have h: "\<forall>x \<in> set (c # cs). hexish x" using hex_digits_hexish by metis
  then obtain v where v: "hex_val c = Some v" using hexish_hex_val by auto
  have "hex_literal (c # cs) = Some (foldl ?f v cs)"
    using v h by (simp add: hex_literal_def hex_run_foldl)
  also have "foldl ?f v cs = foldl ?f 0 (c # cs)" using v by simp
  also have "\<dots> = n mod 16 ^ Suc w" unfolding d [symmetric] by (rule foldl_hex_digits)
  finally show ?thesis by (simp only: d)
qed

lemma str_replace_char: "str_replace [c] [] s = filter (\<lambda>x. x \<noteq> c) s"
  by (induction s) (auto simp: starts_with_def)

lemma str_in_hd: "str_in (c # p) s \<Longrightarrow> c \<in> set s"
  by (induction s) (auto simp: starts_with_Suc)

lemma uuid_str_chars: "c \<in> set (uuid_str u) \<Longrightarrow> hexish c \<or> c = CHR ''-''"
  unfolding uuid_str_def Let_def
  using hex_digits_hexish [of c 32 "unat u"] by (auto dest: in_set_takeD in_set_dropD)

lemma take_drop_pieces:
  "take 8 h @ take 4 (drop 8 h) @ take 4 (drop 12 h) @ take 4 (drop 16 h) @ drop 20 h = h"
proof -
  have "take 4 (drop 16 h) @ drop 20 h = drop 16 h"
    using append_take_drop_id [of 4 "drop 16 h"] by simp
  moreover have "take 4 (drop 12 h) @ drop 16 h = drop 12 h"
    using append_take_drop_id [of 4 "drop 12 h"] by simp
  moreover have "take 4 (drop 8 h) @ drop 12 h = drop 8 h"
    using append_take_drop_id [of 4 "drop 8 h"] by simp
  ultimately show ?thesis by simp
qed

lemma filter_pieces:
  assumes "\<forall>c \<in> set h. P c" and "\<not> P d"
  shows "filter P (take 8 h @ [d] @ take 4 (drop 8 h) @ [d] @ take 4 (drop 12 h) @ [d] @
    take 4 (drop 16 h) @ [d] @ drop 20 h) = h"
proof -
  have "filter P (take i (drop j h)) = take i (drop j h)" "filter P (take i h) = take i h"
    "filter P (drop j h) = drop j h" for i j
    using assms(1) by (auto intro!: filter_True dest: in_set_takeD in_set_dropD)
  then show ?thesis using assms(2) by (simp only: filter_append filter.simps if_False append_Nil take_drop_pieces)
qed

lemma uuid_str_no_dashes: "filter (\<lambda>x. x \<noteq> CHR ''-'') (uuid_str u) = hex_digits 32 (unat u)"
  unfolding uuid_str_def Let_def using hex_digits_hexish hexish_not(2)
  by (intro filter_pieces) blast+

lemma strip_by_none: "\<forall>c \<in> set s. \<not> p c \<Longrightarrow> strip_by p s = s"
  by (rule strip_by_eq_self) (metis hd_in_set last_in_set)

lemma int_base16_plain:
  assumes "\<forall>c \<in> set (a # b # cs). hexish c"
  shows "int_base16 (a # b # cs) = map_option int (hex_literal (a # b # cs))"
proof -
  have "strip_by int_space (a # b # cs) = a # b # cs"
    using assms hexish_not(9) by (intro strip_by_none) blast
  moreover have "hexish a" "hexish b" using assms by auto
  ultimately show ?thesis using hexish_not [of a] hexish_not [of b]
    by (simp add: int_base16_def Let_def starts_with_def)
qed

lemma int_base16_hex_digits: "int_base16 (hex_digits 32 n) = Some (int (n mod 16 ^ 32))"
proof -
  have l: "length (hex_digits 32 n) = 32" by (rule length_hex_digits)
  then obtain a b cs where d: "hex_digits 32 n = a # b # cs"
    by (cases "hex_digits 32 n"; cases "tl (hex_digits 32 n)") auto
  have "\<forall>c \<in> set (hex_digits 32 n). hexish c" using hex_digits_hexish by blast
  then have "int_base16 (hex_digits 32 n) = map_option int (hex_literal (hex_digits 32 n))"
    unfolding d by (rule int_base16_plain)
  also have "hex_literal (hex_digits 32 n) = Some (n mod 16 ^ 32)"
    using hex_literal_hex_digits [of 31 n] by simp
  finally show ?thesis by simp
qed

lemma uuid_parse_str [simp]: "uuid_parse (uuid_str u) = Some u"
proof -
  have "\<not> str_in ''urn:'' (uuid_str u)" "\<not> str_in ''uuid:'' (uuid_str u)"
    using uuid_str_chars hexish_not(6) by (force dest!: str_in_hd)+
  moreover have "strip_by (\<lambda>c. c = CHR ''{'' \<or> c = CHR ''}'') (uuid_str u) = uuid_str u"
    using uuid_str_chars hexish_not(7,8) by (intro strip_by_none) force
  moreover have u: "unat u < 2 ^ 128" "uint u < 2 ^ 128" "0 \<le> uint u"
    using unsigned_less [of u] by (simp_all add: unsigned_less [of u])
  moreover have "int (unat u mod 16 ^ 32) = uint u"
    using u(1) by simp
  ultimately show ?thesis
    by (simp add: uuid_parse_def str_replace_absent str_replace_char uuid_str_no_dashes
      int_base16_hex_digits)
qed

lemma uuid_str_inject [simp]: "uuid_str u = uuid_str v \<longleftrightarrow> u = v"
  by (metis option.inject uuid_parse_str)

end
