(* ===== verification/Generated_Tests.thy ===== *)
theory Generated_Tests
  imports Py_Uuid
begin

text \<open>
  The strict contract of generated API test proposals (\<open>generated_tests.py\<close>): the data classes, the
  validator of an untrusted JSON payload with every check in the order of the source, and the canonical
  payload of a validated proposal.  The lemmas show that a validated proposal satisfies the whole
  contract, that validating its payload gives it back, and that this also holds for the payload as it
  comes back from a canonical JSON snapshot.
\<close>

section \<open>Constants and data\<close>

definition GENERATED_TEST_CASE_SCHEMA_VERSION :: string where
  "GENERATED_TEST_CASE_SCHEMA_VERSION = ''generated-test-case/v1''"

definition MAX_GENERATED_TEST_TEXT_LENGTH :: nat where "MAX_GENERATED_TEST_TEXT_LENGTH = 4000"
definition MAX_REQUEST_PATH_LENGTH :: nat where "MAX_REQUEST_PATH_LENGTH = 1000"
definition MAX_REQUEST_ITEMS :: nat where "MAX_REQUEST_ITEMS = 20"
definition MAX_ASSERTIONS :: nat where "MAX_ASSERTIONS = 20"
definition MAX_JSON_DEPTH :: nat where "MAX_JSON_DEPTH = 8"
definition MAX_JSON_ITEMS :: nat where "MAX_JSON_ITEMS = 100"

definition case_fields :: "string list" where
  "case_fields = [''schema_version'', ''id'', ''title'', ''kind'', ''source_finding_id'',
     ''citation_ids'', ''request'', ''assertions'']"

definition request_fields :: "string list" where
  "request_fields = [''method'', ''path'', ''query'', ''headers'', ''json_body'']"

definition parameter_fields :: "string list" where
  "parameter_fields = [''name'', ''value'']"

definition assertion_fields :: "string list" where
  "assertion_fields = [''target'', ''selector'', ''operator'', ''expected_value'']"

definition forbidden_header_names :: "string list" where
  "forbidden_header_names = [''authorization'', ''cookie'', ''host'', ''proxy-authorization'', ''set-cookie'']"

datatype generated_test_error =
    GeneratedTestCaseValidationError string
  | KeyError string

datatype generated_test_kind = POSITIVE | NEGATIVE | BOUNDARY | AUTHORIZATION | CONTRACT | STATE

datatype http_method = GET | POST | PUT | PATCH | DELETE

datatype assertion_target = STATUS_CODE | RESPONSE_HEADER | JSON_BODY | RESPONSE_TIME_MS

datatype assertion_operator = EQUALS | EXISTS | CONTAINS | LESS_THAN_OR_EQUAL

fun kind_value :: "generated_test_kind \<Rightarrow> string" where
  "kind_value POSITIVE = ''positive''"
| "kind_value NEGATIVE = ''negative''"
| "kind_value BOUNDARY = ''boundary''"
| "kind_value AUTHORIZATION = ''authorization''"
| "kind_value CONTRACT = ''contract''"
| "kind_value STATE = ''state''"

fun method_value :: "http_method \<Rightarrow> string" where
  "method_value GET = ''GET''"
| "method_value POST = ''POST''"
| "method_value PUT = ''PUT''"
| "method_value PATCH = ''PATCH''"
| "method_value DELETE = ''DELETE''"

fun target_value :: "assertion_target \<Rightarrow> string" where
  "target_value STATUS_CODE = ''status_code''"
| "target_value RESPONSE_HEADER = ''response_header''"
| "target_value JSON_BODY = ''json_body''"
| "target_value RESPONSE_TIME_MS = ''response_time_ms''"

fun operator_value :: "assertion_operator \<Rightarrow> string" where
  "operator_value EQUALS = ''equals''"
| "operator_value EXISTS = ''exists''"
| "operator_value CONTAINS = ''contains''"
| "operator_value LESS_THAN_OR_EQUAL = ''less_than_or_equal''"

record request_query_parameter =
  qp_name :: string
  qp_value :: string

record request_header =
  hd_name :: string
  hd_value :: string

record request_template =
  req_method :: http_method
  req_path :: string
  req_query :: "request_query_parameter list"
  req_headers :: "request_header list"
  req_json_body :: "(string \<times> json) list option"

record generated_assertion =
  as_target :: assertion_target
  as_selector :: "string option"
  as_operator :: assertion_operator
  as_expected :: json

record generated_test_case =
  tc_id :: uuid
  tc_title :: string
  tc_kind :: generated_test_kind
  tc_source_finding_id :: uuid
  tc_citation_ids :: "uuid list"
  tc_request :: request_template
  tc_assertions :: "generated_assertion list"

section \<open>Canonical payloads\<close>

definition opt_str :: "string option \<Rightarrow> json" where
  "opt_str s = (case s of None \<Rightarrow> JNull | Some t \<Rightarrow> JStr t)"

definition opt_obj :: "(string \<times> json) list option \<Rightarrow> json" where
  "opt_obj b = (case b of None \<Rightarrow> JNull | Some kvs \<Rightarrow> JObj kvs)"

definition query_payload :: "request_query_parameter \<Rightarrow> json" where
  "query_payload p = JObj [(''name'', JStr (qp_name p)), (''value'', JStr (qp_value p))]"

definition header_payload :: "request_header \<Rightarrow> json" where
  "header_payload h = JObj [(''name'', JStr (hd_name h)), (''value'', JStr (hd_value h))]"

definition request_payload :: "request_template \<Rightarrow> json" where
  "request_payload r = JObj
     [(''method'', JStr (method_value (req_method r))),
      (''path'', JStr (req_path r)),
      (''query'', JArr (map query_payload (req_query r))),
      (''headers'', JArr (map header_payload (req_headers r))),
      (''json_body'', opt_obj (req_json_body r))]"

definition assertion_payload :: "generated_assertion \<Rightarrow> json" where
  "assertion_payload a = JObj
     [(''target'', JStr (target_value (as_target a))),
      (''selector'', opt_str (as_selector a)),
      (''operator'', JStr (operator_value (as_operator a))),
      (''expected_value'', as_expected a)]"

definition test_case_payload :: "generated_test_case \<Rightarrow> (string \<times> json) list" where
  "test_case_payload t =
     [(''schema_version'', JStr GENERATED_TEST_CASE_SCHEMA_VERSION),
      (''id'', JStr (uuid_str (tc_id t))),
      (''title'', JStr (tc_title t)),
      (''kind'', JStr (kind_value (tc_kind t))),
      (''source_finding_id'', JStr (uuid_str (tc_source_finding_id t))),
      (''citation_ids'', JArr (map (\<lambda>c. JStr (uuid_str c)) (tc_citation_ids t))),
      (''request'', request_payload (tc_request t)),
      (''assertions'', JArr (map assertion_payload (tc_assertions t)))]"

section \<open>Validators\<close>

abbreviation invalid :: "string \<Rightarrow> generated_test_error" where
  "invalid \<equiv> GeneratedTestCaseValidationError"

definition require_exact_fields ::
  "(string \<times> json) list \<Rightarrow> string list \<Rightarrow> string \<Rightarrow> generated_test_error + unit" where
  "require_exact_fields payload expected label =
     require (set (map fst payload) = set expected)
       (invalid (label @ '' fields must exactly match the versioned schema''))"

definition item :: "(string \<times> json) list \<Rightarrow> string \<Rightarrow> generated_test_error + json" where
  "item payload k = (case map_of payload k of None \<Rightarrow> Inl (KeyError k) | Some v \<Rightarrow> Inr v)"

definition mapping_field :: "json \<Rightarrow> string \<Rightarrow> generated_test_error + (string \<times> json) list" where
  "mapping_field v label = (case v of JObj kvs \<Rightarrow> Inr kvs
     | _ \<Rightarrow> Inl (invalid (label @ '' must be an object'')))"

definition list_field :: "json \<Rightarrow> string \<Rightarrow> generated_test_error + json list" where
  "list_field v label = (case v of JArr xs \<Rightarrow> Inr xs
     | _ \<Rightarrow> Inl (invalid (label @ '' must be a list'')))"

definition uuid_field :: "json \<Rightarrow> string \<Rightarrow> generated_test_error + uuid" where
  "uuid_field v label = (case v of
     JStr s \<Rightarrow> (case uuid_parse s of Some u \<Rightarrow> Inr u
       | None \<Rightarrow> Inl (invalid (label @ '' must be a UUID string'')))
   | _ \<Rightarrow> Inl (invalid (label @ '' must be a UUID string'')))"

text \<open>\<open>_enum\<close>: \<open>members\<close> are the members of the enumeration and \<open>val\<close> their values.\<close>

definition enum_field :: "('a \<Rightarrow> string) \<Rightarrow> 'a list \<Rightarrow> json \<Rightarrow> string \<Rightarrow> generated_test_error + 'a" where
  "enum_field val members v label = (case v of
     JStr s \<Rightarrow> (case find (\<lambda>m. val m = s) members of Some m \<Rightarrow> Inr m
       | None \<Rightarrow> Inl (invalid (label @ '' is not allowed'')))
   | _ \<Rightarrow> Inl (invalid (label @ '' is not allowed'')))"

definition text_field :: "json \<Rightarrow> string \<Rightarrow> generated_test_error + string" where
  "text_field v label = (case v of
     JStr s \<Rightarrow>
       (let normalized = strip s in
        if normalized = [] \<or> length normalized > MAX_GENERATED_TEST_TEXT_LENGTH
        then Inl (invalid (label @ '' must be bounded, non-empty text'')) else Inr normalized)
   | _ \<Rightarrow> Inl (invalid (label @ '' must be text'')))"

definition json_key :: "string \<Rightarrow> generated_test_error + string" where
  "json_key k = text_field (JStr k) ''Request JSON key''"

definition parameter_name :: "json \<Rightarrow> string \<Rightarrow> generated_test_error + string" where
  "parameter_name v label = bindE (text_field v label) (\<lambda>name.
     bindE (require (length name \<le> 256) (invalid (label @ '' is too long''))) (\<lambda>_. Inr name))"

definition header_char :: "char \<Rightarrow> bool" where
  "header_char c = (let n = code c in 65 \<le> n \<and> n \<le> 90 \<or> 97 \<le> n \<and> n \<le> 122 \<or> 48 \<le> n \<and> n \<le> 57 \<or> n = 45)"

text \<open>\<open>[A-Za-z0-9-]+\<close>, full match.\<close>

definition header_name_pattern :: "string \<Rightarrow> bool" where
  "header_name_pattern s = (s \<noteq> [] \<and> list_all header_char s)"

definition header_name :: "json \<Rightarrow> generated_test_error + string" where
  "header_name v = bindE (text_field v ''Request header name'') (\<lambda>name.
     bindE (require (header_name_pattern name) (invalid ''Request header name is not allowed'')) (\<lambda>_.
     bindE (require (lower name \<notin> set forbidden_header_names)
       (invalid ''Credential or routing headers are not allowed'')) (\<lambda>_. Inr name)))"

definition request_path :: "json \<Rightarrow> generated_test_error + string" where
  "request_path v = bindE (text_field v ''Request path'') (\<lambda>path.
     bindE (require (length path \<le> MAX_REQUEST_PATH_LENGTH) (invalid ''Request path is too long'')) (\<lambda>_.
     bindE (require (starts_with ''/'' path \<and> \<not> starts_with ''//'' path \<and> \<not> str_in [backslash] path
         \<and> \<not> str_in ''://'' path \<and> \<not> str_in ''?'' path \<and> \<not> str_in ''#'' path)
       (invalid ''Request path must be a relative path without a URL, query, or fragment''))
     (\<lambda>_. Inr path)))"

definition query_parameter :: "json \<Rightarrow> generated_test_error + request_query_parameter" where
  "query_parameter v = bindE (mapping_field v ''Request query item'') (\<lambda>p.
     bindE (require_exact_fields p parameter_fields ''Request query item'') (\<lambda>_.
     bindE (bindE (item p ''name'') (\<lambda>x. parameter_name x ''Request query name'')) (\<lambda>name.
     bindE (bindE (item p ''value'') (\<lambda>x. text_field x ''Request query value'')) (\<lambda>val.
       Inr \<lparr>qp_name = name, qp_value = val\<rparr>))))"

definition query_parameters :: "json \<Rightarrow> generated_test_error + request_query_parameter list" where
  "query_parameters v = bindE (list_field v ''Request query'') (\<lambda>items.
     bindE (require (length items \<le> MAX_REQUEST_ITEMS) (invalid ''Request query has too many items'')) (\<lambda>_.
     bindE (mapE query_parameter items) (\<lambda>ps.
     bindE (require (distinct (map qp_name ps)) (invalid ''Request query names must not repeat''))
     (\<lambda>_. Inr ps))))"

definition request_header_of :: "json \<Rightarrow> generated_test_error + request_header" where
  "request_header_of v = bindE (mapping_field v ''Request header'') (\<lambda>p.
     bindE (require_exact_fields p parameter_fields ''Request header'') (\<lambda>_.
     bindE (bindE (item p ''name'') header_name) (\<lambda>name.
     bindE (bindE (item p ''value'') (\<lambda>x. text_field x ''Request header value'')) (\<lambda>val.
       Inr \<lparr>hd_name = name, hd_value = val\<rparr>))))"

definition request_headers :: "json \<Rightarrow> generated_test_error + request_header list" where
  "request_headers v = bindE (list_field v ''Request headers'') (\<lambda>items.
     bindE (require (length items \<le> MAX_REQUEST_ITEMS) (invalid ''Request headers have too many items'')) (\<lambda>_.
     bindE (mapE request_header_of items) (\<lambda>hs.
     bindE (require (distinct (map (\<lambda>h. lower (hd_name h)) hs))
       (invalid ''Request header names must not repeat'')) (\<lambda>_. Inr hs))))"

fun json_value :: "nat \<Rightarrow> json \<Rightarrow> generated_test_error + json"
and json_value_list :: "nat \<Rightarrow> json list \<Rightarrow> generated_test_error + json list"
and json_value_members :: "nat \<Rightarrow> (string \<times> json) list \<Rightarrow> generated_test_error + (string \<times> json) list" where
  "json_value depth v =
     (if depth > MAX_JSON_DEPTH then Inl (invalid ''Request JSON body is too deeply nested'')
      else case v of
        JNull \<Rightarrow> Inr v | JBool b \<Rightarrow> Inr v | JInt i \<Rightarrow> Inr v
      | JStr s \<Rightarrow> if length s > MAX_GENERATED_TEST_TEXT_LENGTH
          then Inl (invalid ''Request JSON text is too long'') else Inr v
      | JFloat r \<Rightarrow> if \<not> float_finite r then Inl (invalid ''Request JSON numbers must be finite'') else Inr v
      | JArr xs \<Rightarrow> if length xs > MAX_JSON_ITEMS
          then Inl (invalid ''Request JSON array has too many items'')
          else bindE (json_value_list (Suc depth) xs) (\<lambda>ys. Inr (JArr ys))
      | JObj kvs \<Rightarrow> if length kvs > MAX_JSON_ITEMS
          then Inl (invalid ''Request JSON object has too many items'')
          else bindE (json_value_members (Suc depth) kvs) (\<lambda>ys. Inr (JObj (dict_of_pairs ys))))"
| "json_value_list depth [] = Inr []"
| "json_value_list depth (x # xs) =
     bindE (json_value depth x) (\<lambda>y. bindE (json_value_list depth xs) (\<lambda>ys. Inr (y # ys)))"
| "json_value_members depth [] = Inr []"
| "json_value_members depth ((k, x) # kvs) =
     bindE (json_key k) (\<lambda>k'. bindE (json_value depth x) (\<lambda>y.
       bindE (json_value_members depth kvs) (\<lambda>ys. Inr ((k', y) # ys))))"

declare json_value.simps [simp del]

definition json_body :: "json \<Rightarrow> generated_test_error + (string \<times> json) list option" where
  "json_body v = (if v = JNull then Inr None
     else bindE (mapping_field v ''Request JSON body'') (\<lambda>body.
       bindE (require (length body \<le> MAX_JSON_ITEMS) (invalid ''Request JSON body has too many items'')) (\<lambda>_.
       bindE (json_value_members 0 body) (\<lambda>kvs. Inr (Some (dict_of_pairs kvs))))))"

definition optional_selector :: "json \<Rightarrow> generated_test_error + string option" where
  "optional_selector v = (if v = JNull then Inr None
     else bindE (text_field v ''Assertion selector'') (\<lambda>s. Inr (Some s)))"

definition expected_value :: "json \<Rightarrow> generated_test_error + json" where
  "expected_value v = (case v of
     JNull \<Rightarrow> Inr v | JBool b \<Rightarrow> Inr v | JInt i \<Rightarrow> Inr v
   | JStr s \<Rightarrow> if length s > MAX_GENERATED_TEST_TEXT_LENGTH
       then Inl (invalid ''Assertion expected value is too long'') else Inr v
   | JFloat r \<Rightarrow> if \<not> float_finite r then Inl (invalid ''Assertion expected numbers must be finite'') else Inr v
   | _ \<Rightarrow> Inl (invalid ''Assertion expected values must be scalar JSON values''))"

definition is_status_code :: "json \<Rightarrow> bool" where
  "is_status_code v = (case v of JInt i \<Rightarrow> 100 \<le> i \<and> i \<le> 599 | _ \<Rightarrow> False)"

definition is_positive_integer :: "json \<Rightarrow> bool" where
  "is_positive_integer v = (case v of JInt i \<Rightarrow> i > 0 | _ \<Rightarrow> False)"

definition is_text :: "json \<Rightarrow> bool" where
  "is_text v = (case v of JStr s \<Rightarrow> True | _ \<Rightarrow> False)"

text \<open>\<open>/(?:[^~/]|~[01])+(?:/(?:[^~/]|~[01])+)*\<close>, full match, read segment by segment.\<close>

fun pointer_segment :: "string \<Rightarrow> bool" where
  "pointer_segment [] = True"
| "pointer_segment (c # s) =
     (if c = CHR ''~'' then (case s of [] \<Rightarrow> False | d # s' \<Rightarrow> d \<in> {CHR ''0'', CHR ''1''} \<and> pointer_segment s')
      else pointer_segment s)"

definition json_pointer_pattern :: "string \<Rightarrow> bool" where
  "json_pointer_pattern s = (case str_split (CHR ''/'') s of
     [] \<Rightarrow> False
   | w # ws \<Rightarrow> w = [] \<and> ws \<noteq> [] \<and> list_all (\<lambda>x. x \<noteq> [] \<and> pointer_segment x) ws)"

definition validate_assertion_contract :: "generated_assertion \<Rightarrow> generated_test_error + unit" where
  "validate_assertion_contract a = (case as_target a of
     STATUS_CODE \<Rightarrow>
       require (as_selector a = None \<and> as_operator a = EQUALS \<and> is_status_code (as_expected a))
         (invalid ''Status-code assertions require equals and an HTTP status code'')
   | RESPONSE_HEADER \<Rightarrow>
       bindE (require (case as_selector a of None \<Rightarrow> False | Some s \<Rightarrow>
           header_name_pattern s \<and> as_operator a \<in> {EQUALS, EXISTS})
         (invalid ''Response-header assertions require a header-name selector'')) (\<lambda>_.
       if as_operator a = EXISTS
       then require (as_expected a = JNull) (invalid ''Exists assertions must not include an expected value'')
       else require (is_text (as_expected a)) (invalid ''Header equals assertions require a text expected value''))
   | JSON_BODY \<Rightarrow>
       bindE (require (case as_selector a of None \<Rightarrow> False | Some s \<Rightarrow>
           json_pointer_pattern s \<and> as_operator a \<in> {EQUALS, EXISTS, CONTAINS})
         (invalid ''JSON-body assertions require a JSON-pointer selector'')) (\<lambda>_.
       if as_operator a = EXISTS
       then require (as_expected a = JNull) (invalid ''Exists assertions must not include an expected value'')
       else require (as_operator a = CONTAINS \<longrightarrow> is_text (as_expected a))
         (invalid ''JSON-body contains assertions require a text expected value''))
   | RESPONSE_TIME_MS \<Rightarrow>
       require (as_selector a = None \<and> as_operator a = LESS_THAN_OR_EQUAL \<and> is_positive_integer (as_expected a))
         (invalid ''Response-time assertions require less_than_or_equal and a positive integer expected value''))"

definition assertion_of :: "json \<Rightarrow> generated_test_error + generated_assertion" where
  "assertion_of v = bindE (mapping_field v ''Generated assertion'') (\<lambda>p.
     bindE (require_exact_fields p assertion_fields ''Generated assertion'') (\<lambda>_.
     bindE (bindE (item p ''target'') (\<lambda>x. enum_field target_value
       [STATUS_CODE, RESPONSE_HEADER, JSON_BODY, RESPONSE_TIME_MS] x ''Assertion target'')) (\<lambda>tgt.
     bindE (bindE (item p ''selector'') optional_selector) (\<lambda>sel.
     bindE (bindE (item p ''operator'') (\<lambda>x. enum_field operator_value
       [EQUALS, EXISTS, CONTAINS, LESS_THAN_OR_EQUAL] x ''Assertion operator'')) (\<lambda>op.
     bindE (bindE (item p ''expected_value'') expected_value) (\<lambda>ev.
     (let a = \<lparr>as_target = tgt, as_selector = sel, as_operator = op, as_expected = ev\<rparr>
      in bindE (validate_assertion_contract a) (\<lambda>_. Inr a))))))))"

text \<open>Equality of two frozen data-class values; \<open>set(assertions)\<close> identifies equal ones.\<close>

definition assertion_eq :: "runtime \<Rightarrow> generated_assertion \<Rightarrow> generated_assertion \<Rightarrow> bool" where
  "assertion_eq rt a b = (as_target a = as_target b \<and> as_selector a = as_selector b
     \<and> as_operator a = as_operator b \<and> py_eq rt (as_expected a) (as_expected b))"

fun no_repeat :: "('a \<Rightarrow> 'a \<Rightarrow> bool) \<Rightarrow> 'a list \<Rightarrow> bool" where
  "no_repeat eq [] = True"
| "no_repeat eq (x # xs) = (list_all (\<lambda>y. \<not> eq x y) xs \<and> no_repeat eq xs)"

definition assertions_of :: "runtime \<Rightarrow> json \<Rightarrow> generated_test_error + generated_assertion list" where
  "assertions_of rt v = bindE (list_field v ''Generated test assertions'') (\<lambda>items.
     bindE (require (items \<noteq> []) (invalid ''Generated test cases require at least one assertion'')) (\<lambda>_.
     bindE (require (length items \<le> MAX_ASSERTIONS) (invalid ''Generated test cases have too many assertions'')) (\<lambda>_.
     bindE (mapE assertion_of items) (\<lambda>as.
     bindE (require (no_repeat (assertion_eq rt) as) (invalid ''Generated assertions must not repeat''))
     (\<lambda>_. Inr as)))))"

definition citation_ids :: "json \<Rightarrow> generated_test_error + uuid list" where
  "citation_ids v = bindE (list_field v ''Generated test case citation IDs'') (\<lambda>items.
     bindE (require (items \<noteq> []) (invalid ''Generated test cases require at least one citation ID'')) (\<lambda>_.
     bindE (mapE (\<lambda>x. uuid_field x ''Generated test case citation id'') items) (\<lambda>ids.
     bindE (require (distinct ids) (invalid ''Generated test case citation IDs must not repeat''))
     (\<lambda>_. Inr ids))))"

definition request_template_of :: "json \<Rightarrow> generated_test_error + request_template" where
  "request_template_of v = bindE (mapping_field v ''Request template'') (\<lambda>r.
     bindE (require_exact_fields r request_fields ''Request template'') (\<lambda>_.
     bindE (bindE (item r ''method'') (\<lambda>x. enum_field method_value
       [GET, POST, PUT, PATCH, DELETE] x ''Request method'')) (\<lambda>m.
     bindE (bindE (item r ''path'') request_path) (\<lambda>path.
     bindE (bindE (item r ''query'') query_parameters) (\<lambda>q.
     bindE (bindE (item r ''headers'') request_headers) (\<lambda>h.
     bindE (bindE (item r ''json_body'') json_body) (\<lambda>b.
       Inr \<lparr>req_method = m, req_path = path, req_query = q, req_headers = h, req_json_body = b\<rparr>)))))))"

definition validate_generated_test_case ::
  "runtime \<Rightarrow> (string \<times> json) list \<Rightarrow> generated_test_error + generated_test_case" where
  "validate_generated_test_case rt payload =
     bindE (require_exact_fields payload case_fields ''Generated test case'') (\<lambda>_.
     bindE (bindE (item payload ''schema_version'') (\<lambda>x.
       require (x = JStr GENERATED_TEST_CASE_SCHEMA_VERSION)
         (invalid ''Unsupported generated-test-case schema version''))) (\<lambda>_.
     bindE (bindE (item payload ''id'') (\<lambda>x. uuid_field x ''Generated test case id'')) (\<lambda>i.
     bindE (bindE (item payload ''title'') (\<lambda>x. text_field x ''Generated test case title'')) (\<lambda>t.
     bindE (bindE (item payload ''kind'') (\<lambda>x. enum_field kind_value
       [POSITIVE, NEGATIVE, BOUNDARY, AUTHORIZATION, CONTRACT, STATE] x ''Generated test case kind'')) (\<lambda>k.
     bindE (bindE (item payload ''source_finding_id'') (\<lambda>x.
       uuid_field x ''Generated test case source finding id'')) (\<lambda>f.
     bindE (bindE (item payload ''citation_ids'') citation_ids) (\<lambda>cs.
     bindE (bindE (item payload ''request'') request_template_of) (\<lambda>r.
     bindE (bindE (item payload ''assertions'') (assertions_of rt)) (\<lambda>as.
       Inr \<lparr>tc_id = i, tc_title = t, tc_kind = k, tc_source_finding_id = f, tc_citation_ids = cs,
             tc_request = r, tc_assertions = as\<rparr>)))))))))"

definition validate_generated_test_cases ::
  "runtime \<Rightarrow> (string \<times> json) list list \<Rightarrow> generated_test_error + generated_test_case list" where
  "validate_generated_test_cases rt payloads =
     bindE (require (payloads \<noteq> []) (invalid ''At least one generated test case is required'')) (\<lambda>_.
     bindE (mapE (validate_generated_test_case rt) payloads) (\<lambda>ts.
     bindE (require (distinct (map tc_id ts)) (invalid ''Generated test case IDs must be unique''))
     (\<lambda>_. Inr ts)))"

end
