(* ===== verification/Test_Case_Contract.thy ===== *)
theory Test_Case_Contract
  imports Generated_Tests
begin

text \<open>
  What the validator of \<open>generated_tests.py\<close> guarantees.  \<open>test_case_ok\<close> is the published contract of
  a proposal; the validator returns only such proposals, accepts the payload of every such
  proposal unchanged, and accepts it too after a canonical JSON snapshot.
\<close>

section \<open>The contract\<close>

definition text_ok :: "string \<Rightarrow> bool" where
  "text_ok s \<longleftrightarrow> strip s = s \<and> s \<noteq> [] \<and> length s \<le> MAX_GENERATED_TEST_TEXT_LENGTH"

definition scalar_ok :: "json \<Rightarrow> bool" where
  "scalar_ok v = (case v of
     JStr s \<Rightarrow> length s \<le> MAX_GENERATED_TEST_TEXT_LENGTH | JFloat r \<Rightarrow> float_finite r
   | JArr _ \<Rightarrow> False | JObj _ \<Rightarrow> False | _ \<Rightarrow> True)"

fun jv_ok :: "nat \<Rightarrow> json \<Rightarrow> bool"
and jv_ok_list :: "nat \<Rightarrow> json list \<Rightarrow> bool"
and jv_ok_members :: "nat \<Rightarrow> (string \<times> json) list \<Rightarrow> bool" where
  "jv_ok d (JArr xs) = (d \<le> MAX_JSON_DEPTH \<and> length xs \<le> MAX_JSON_ITEMS \<and> jv_ok_list (Suc d) xs)"
| "jv_ok d (JObj kvs) = (d \<le> MAX_JSON_DEPTH \<and> length kvs \<le> MAX_JSON_ITEMS
     \<and> distinct (map fst kvs) \<and> jv_ok_members (Suc d) kvs)"
| "jv_ok d v = (d \<le> MAX_JSON_DEPTH \<and> scalar_ok v)"
| "jv_ok_list d [] = True"
| "jv_ok_list d (x # xs) = (jv_ok d x \<and> jv_ok_list d xs)"
| "jv_ok_members d [] = True"
| "jv_ok_members d ((k, v) # kvs) = (text_ok k \<and> jv_ok d v \<and> jv_ok_members d kvs)"

definition body_ok :: "(string \<times> json) list \<Rightarrow> bool" where
  "body_ok kvs \<longleftrightarrow> length kvs \<le> MAX_JSON_ITEMS \<and> distinct (map fst kvs) \<and> jv_ok_members 0 kvs"

definition query_ok :: "request_query_parameter \<Rightarrow> bool" where
  "query_ok p \<longleftrightarrow> text_ok (qp_name p) \<and> length (qp_name p) \<le> 256 \<and> text_ok (qp_value p)"

definition header_ok :: "request_header \<Rightarrow> bool" where
  "header_ok h \<longleftrightarrow> text_ok (hd_name h) \<and> header_name_pattern (hd_name h)
     \<and> lower (hd_name h) \<notin> set forbidden_header_names \<and> text_ok (hd_value h)"

definition path_ok :: "string \<Rightarrow> bool" where
  "path_ok s \<longleftrightarrow> text_ok s \<and> length s \<le> MAX_REQUEST_PATH_LENGTH \<and> starts_with ''/'' s
     \<and> \<not> starts_with ''//'' s \<and> \<not> str_in [backslash] s \<and> \<not> str_in ''://'' s
     \<and> \<not> str_in ''?'' s \<and> \<not> str_in ''#'' s"

definition request_ok :: "request_template \<Rightarrow> bool" where
  "request_ok r \<longleftrightarrow> path_ok (req_path r)
     \<and> length (req_query r) \<le> MAX_REQUEST_ITEMS \<and> (\<forall>p \<in> set (req_query r). query_ok p)
     \<and> distinct (map qp_name (req_query r))
     \<and> length (req_headers r) \<le> MAX_REQUEST_ITEMS \<and> (\<forall>h \<in> set (req_headers r). header_ok h)
     \<and> distinct (map (\<lambda>h. lower (hd_name h)) (req_headers r))
     \<and> (\<forall>kvs. req_json_body r = Some kvs \<longrightarrow> body_ok kvs)"

definition assertion_ok :: "generated_assertion \<Rightarrow> bool" where
  "assertion_ok a \<longleftrightarrow> (\<forall>s. as_selector a = Some s \<longrightarrow> text_ok s) \<and> scalar_ok (as_expected a)
     \<and> validate_assertion_contract a = Inr ()"

definition test_case_ok :: "runtime \<Rightarrow> generated_test_case \<Rightarrow> bool" where
  "test_case_ok rt t \<longleftrightarrow> text_ok (tc_title t)
     \<and> tc_citation_ids t \<noteq> [] \<and> distinct (tc_citation_ids t)
     \<and> request_ok (tc_request t)
     \<and> tc_assertions t \<noteq> [] \<and> length (tc_assertions t) \<le> MAX_ASSERTIONS
     \<and> (\<forall>a \<in> set (tc_assertions t). assertion_ok a) \<and> no_repeat (assertion_eq rt) (tc_assertions t)"

section \<open>Text, enumerations and JSON data\<close>

lemma text_field_Inr [exn_simps]:
  "text_field v l = Inr t \<longleftrightarrow> (\<exists>s. v = JStr s \<and> t = strip s \<and> text_ok t)"
  by (auto simp: text_field_def text_ok_def Let_def not_less split: json.splits)

lemma text_field_ok [simp]: "text_ok t \<Longrightarrow> text_field (JStr t) l = Inr t"
  by (simp add: exn_simps text_ok_def)

lemma json_key_Inr [exn_simps]: "json_key k = Inr t \<longleftrightarrow> t = strip k \<and> text_ok t"
  by (auto simp: json_key_def exn_simps)

lemma text_ok_strip: "text_ok t \<Longrightarrow> strip t = t"
  by (simp add: text_ok_def)

lemma mapping_field_Inr [exn_simps]: "mapping_field v l = Inr kvs \<longleftrightarrow> v = JObj kvs"
  by (auto simp: mapping_field_def split: json.splits)

lemma list_field_Inr [exn_simps]: "list_field v l = Inr xs \<longleftrightarrow> v = JArr xs"
  by (auto simp: list_field_def split: json.splits)

lemma field_simps_JObj [simp]: "mapping_field (JObj kvs) l = Inr kvs" "list_field (JArr xs) l = Inr xs"
  by (simp_all add: exn_simps)

lemma uuid_field_str [simp]: "uuid_field (JStr (uuid_str u)) l = Inr u"
  by (simp add: uuid_field_def)

lemma enum_field_kind [simp]:
  "enum_field kind_value [POSITIVE, NEGATIVE, BOUNDARY, AUTHORIZATION, CONTRACT, STATE]
     (JStr (kind_value k)) l = Inr k"
  by (cases k) (simp_all add: enum_field_def)

lemma enum_field_method [simp]:
  "enum_field method_value [GET, POST, PUT, PATCH, DELETE] (JStr (method_value m)) l = Inr m"
  by (cases m) (simp_all add: enum_field_def)

lemma enum_field_target [simp]:
  "enum_field target_value [STATUS_CODE, RESPONSE_HEADER, JSON_BODY, RESPONSE_TIME_MS]
     (JStr (target_value t)) l = Inr t"
  by (cases t) (simp_all add: enum_field_def)

lemma enum_field_operator [simp]:
  "enum_field operator_value [EQUALS, EXISTS, CONTAINS, LESS_THAN_OR_EQUAL]
     (JStr (operator_value p)) l = Inr p"
  by (cases p) (simp_all add: enum_field_def)

lemma expected_value_Inr [exn_simps]: "expected_value v = Inr w \<longleftrightarrow> w = v \<and> scalar_ok v"
  by (auto simp: expected_value_def scalar_ok_def not_less split: json.splits if_splits)

lemma jv_ok_list_iff [simp]: "jv_ok_list d xs = (\<forall>x \<in> set xs. jv_ok d x)"
  by (induction xs) auto

lemma jv_ok_members_iff [simp]:
  "jv_ok_members d kvs = (\<forall>(k, v) \<in> set kvs. text_ok k \<and> jv_ok d v)"
  by (induction kvs) auto

lemma json_value_sound:
  "json_value d v = Inr w \<Longrightarrow> jv_ok d w"
  "json_value_list d xs = Inr ys \<Longrightarrow> length ys = length xs \<and> jv_ok_list d ys"
  "json_value_members d kvs = Inr ps \<Longrightarrow> length ps = length kvs \<and> jv_ok_members d ps"
proof (induction d v and d xs and d kvs arbitrary: w and ys and ps
    rule: json_value_json_value_list_json_value_members.induct)
  case (1 d v)
  show ?case
  proof (cases v)
    case (JObj kvs)
    with "1.prems" obtain ps where d: "d \<le> MAX_JSON_DEPTH" "length kvs \<le> MAX_JSON_ITEMS"
      and ps: "json_value_members (Suc d) kvs = Inr ps" "w = JObj (dict_of_pairs ps)"
      by (auto simp: json_value.simps exn_simps split: if_splits)
    have "length ps = length kvs \<and> jv_ok_members (Suc d) ps"
      using 1(2) JObj d ps by (simp add: not_less)
    with d ps dict_of_pairs_laws [of ps] show ?thesis by auto
  next
    case (JArr xs)
    with "1.prems" obtain ys where d: "d \<le> MAX_JSON_DEPTH" "length xs \<le> MAX_JSON_ITEMS"
      and ys: "json_value_list (Suc d) xs = Inr ys" "w = JArr ys"
      by (auto simp: json_value.simps exn_simps split: if_splits)
    have "length ys = length xs \<and> jv_ok_list (Suc d) ys"
      using 1(1) JArr d ys by (simp add: not_less)
    with d ys show ?thesis by simp
  qed (use "1.prems" in \<open>auto simp: json_value.simps scalar_ok_def split: if_splits\<close>)
qed (auto simp: exn_simps simp del: jv_ok_list_iff jv_ok_members_iff)

lemma json_value_fixed:
  "jv_ok d v \<Longrightarrow> json_value d v = Inr v"
  "jv_ok_list d xs \<Longrightarrow> json_value_list d xs = Inr xs"
  "jv_ok_members d kvs \<Longrightarrow> json_value_members d kvs = Inr kvs"
proof (induction d v and d xs and d kvs rule: json_value_json_value_list_json_value_members.induct)
  case (1 d v)
  then show ?case
    by (cases v) (auto simp: json_value.simps scalar_ok_def not_less dict_of_pairs_distinct
      simp del: jv_ok_list_iff jv_ok_members_iff)
qed (auto simp: json_key_def text_ok_strip simp del: jv_ok_list_iff jv_ok_members_iff)

lemma jv_ok_canon: "jv_ok d v \<Longrightarrow> jv_ok d (canon v)"
proof (induction v arbitrary: d)
  case (JObj kvs)
  then show ?case by (force simp del: map_map)
qed auto


section \<open>Sound: what the validator returns satisfies the contract\<close>

lemma parameter_name_Inr [exn_simps]:
  "parameter_name v l = Inr t \<longleftrightarrow> text_field v l = Inr t \<and> length t \<le> 256"
  by (auto simp: parameter_name_def exn_simps)

lemma header_name_Inr [exn_simps]:
  "header_name v = Inr t \<longleftrightarrow> text_field v ''Request header name'' = Inr t \<and> header_name_pattern t
     \<and> lower t \<notin> set forbidden_header_names"
  by (auto simp: header_name_def exn_simps)

lemma request_path_Inr [exn_simps]:
  "request_path v = Inr t \<longleftrightarrow> (\<exists>s. v = JStr s \<and> t = strip s \<and> path_ok t)"
  by (auto simp: request_path_def path_ok_def exn_simps)

lemma query_parameter_sound: "query_parameter v = Inr p \<Longrightarrow> query_ok p"
  by (auto simp: query_parameter_def query_ok_def exn_simps)

lemma request_header_sound: "request_header_of v = Inr h \<Longrightarrow> header_ok h"
  by (auto simp: request_header_of_def header_ok_def exn_simps)

lemma json_body_sound: "json_body v = Inr (Some kvs) \<Longrightarrow> body_ok kvs"
proof -
  assume "json_body v = Inr (Some kvs)"
  then obtain b ps where "length b \<le> MAX_JSON_ITEMS" and m: "json_value_members 0 b = Inr ps"
    and k: "kvs = dict_of_pairs ps"
    by (auto simp: json_body_def exn_simps split: if_splits)
  with json_value_sound(3) [OF m] dict_of_pairs_laws [of ps] show ?thesis
    by (auto simp: body_ok_def)
qed

lemma query_parameters_sound:
  "query_parameters v = Inr ps \<Longrightarrow>
   length ps \<le> MAX_REQUEST_ITEMS \<and> (\<forall>p \<in> set ps. query_ok p) \<and> distinct (map qp_name ps)"
  by (auto simp: query_parameters_def bindE_eq_Inr require_eq_Inr list_field_Inr mapE_length
    dest: mapE_all [OF _ query_parameter_sound])

lemma request_headers_sound:
  "request_headers v = Inr hs \<Longrightarrow> length hs \<le> MAX_REQUEST_ITEMS \<and> (\<forall>h \<in> set hs. header_ok h)
   \<and> distinct (map (\<lambda>h. lower (hd_name h)) hs)"
  by (auto simp: request_headers_def bindE_eq_Inr require_eq_Inr list_field_Inr mapE_length
    dest: mapE_all [OF _ request_header_sound])

lemma request_template_sound: "request_template_of v = Inr r \<Longrightarrow> request_ok r"
  by (auto simp: request_template_of_def request_ok_def bindE_eq_Inr request_path_Inr
    dest: query_parameters_sound request_headers_sound json_body_sound)

lemma optional_selector_Inr [exn_simps]:
  "optional_selector v = Inr s \<Longrightarrow> s = Some t \<Longrightarrow> text_ok t"
  by (auto simp: optional_selector_def exn_simps split: if_splits)

lemma assertion_of_sound: "assertion_of v = Inr a \<Longrightarrow> assertion_ok a"
  by (auto simp: assertion_of_def assertion_ok_def bindE_eq_Inr Let_def expected_value_Inr
    dest: optional_selector_Inr)

lemma assertions_of_sound:
  "assertions_of rt v = Inr as \<Longrightarrow> as \<noteq> [] \<and> length as \<le> MAX_ASSERTIONS
   \<and> (\<forall>a \<in> set as. assertion_ok a) \<and> no_repeat (assertion_eq rt) as"
  by (auto simp: assertions_of_def bindE_eq_Inr require_eq_Inr list_field_Inr
    dest: mapE_all [OF _ assertion_of_sound] mapE_length)

lemma citation_ids_sound: "citation_ids v = Inr ids \<Longrightarrow> ids \<noteq> [] \<and> distinct ids"
  by (auto simp: citation_ids_def bindE_eq_Inr require_eq_Inr list_field_Inr dest: mapE_length)

lemma validate_sound: "validate_generated_test_case rt p = Inr t \<Longrightarrow> test_case_ok rt t"
  by (auto simp: validate_generated_test_case_def test_case_ok_def bindE_eq_Inr text_field_Inr
    dest: citation_ids_sound request_template_sound assertions_of_sound)

section \<open>Complete: the payload of a proposal validates to that proposal\<close>

lemmas field_tables = case_fields_def request_fields_def parameter_fields_def assertion_fields_def

lemma query_payload_valid: "query_ok p \<Longrightarrow> query_parameter (query_payload p) = Inr p"
  by (simp add: query_parameter_def query_payload_def query_ok_def require_exact_fields_def
    field_tables item_def parameter_name_def)

lemma header_payload_valid: "header_ok h \<Longrightarrow> request_header_of (header_payload h) = Inr h"
  by (simp add: request_header_of_def header_payload_def header_ok_def require_exact_fields_def
    field_tables item_def header_name_def)

lemma body_payload_valid:
  "(\<And>kvs. b = Some kvs \<Longrightarrow> body_ok kvs) \<Longrightarrow> json_body (opt_obj b) = Inr b"
  by (cases b) (auto simp: json_body_def opt_obj_def body_ok_def json_value_fixed
    dict_of_pairs_distinct simp del: jv_ok_members_iff)

lemma path_payload_valid: "path_ok s \<Longrightarrow> request_path (JStr s) = Inr s"
  by (auto simp: request_path_Inr path_ok_def text_ok_def)

lemma query_payloads_valid:
  assumes "length ps \<le> MAX_REQUEST_ITEMS" "\<forall>p \<in> set ps. f p = query_payload p \<and> query_ok p"
    "distinct (map qp_name ps)"
  shows "query_parameters (JArr (map f ps)) = Inr ps"
proof -
  have "mapE query_parameter (map f ps) = Inr ps"
    using assms(2) query_payload_valid by (intro mapE_map_Inr) simp
  with assms show ?thesis by (simp add: query_parameters_def)
qed

lemma header_payloads_valid:
  assumes "length hs \<le> MAX_REQUEST_ITEMS" "\<forall>h \<in> set hs. f h = header_payload h \<and> header_ok h"
    "distinct (map (\<lambda>h. lower (hd_name h)) hs)"
  shows "request_headers (JArr (map f hs)) = Inr hs"
proof -
  have "mapE request_header_of (map f hs) = Inr hs"
    using assms(2) header_payload_valid by (intro mapE_map_Inr) simp
  with assms show ?thesis by (simp add: request_headers_def)
qed

lemma selector_payload_valid:
  "(\<And>s. o' = Some s \<Longrightarrow> text_ok s) \<Longrightarrow> optional_selector (opt_str o') = Inr o'"
  by (cases o') (auto simp: optional_selector_def opt_str_def)

lemma assertion_payload_valid: "assertion_ok a \<Longrightarrow> assertion_of (assertion_payload a) = Inr a"
  by (cases a) (simp add: assertion_of_def assertion_payload_def assertion_ok_def require_exact_fields_def
    field_tables item_def selector_payload_valid expected_value_Inr [THEN iffD2] Let_def)

section \<open>The canonical snapshot of a payload\<close>

definition canon_obj :: "(string \<times> json) list \<Rightarrow> (string \<times> json) list" where
  "canon_obj kvs = sort_key fst (map (map_prod id canon) kvs)"

lemma canon_JObj: "canon (JObj kvs) = JObj (canon_obj kvs)"
  by (simp add: canon_obj_def)

lemma canon_obj_distinct [simp]: "distinct (map fst (canon_obj kvs)) = distinct (map fst kvs)"
  by (simp add: canon_obj_def del: map_map)

lemma canon_obj_fields [simp]:
  "require_exact_fields (canon_obj kvs) e l = require_exact_fields kvs e l"
  by (simp add: require_exact_fields_def canon_obj_def image_comp)

lemma item_canon_obj:
  assumes "distinct (map fst kvs)"
  shows "item (canon_obj kvs) k = bindE (item kvs k) (\<lambda>v. Inr (canon v))"
proof -
  have m: "map_of (map (map_prod id canon) kvs) k = map_option canon (map_of kvs k)"
    by (induction kvs) auto
  have "distinct (map fst (map (map_prod id canon) kvs))"
    using assms by (simp del: map_map)
  from map_of_sort_key [OF this] m have "map_of (canon_obj kvs) k = map_option canon (map_of kvs k)"
    by (simp add: canon_obj_def)
  then show ?thesis by (simp add: item_def split: option.split)
qed

definition canon_case :: "generated_test_case \<Rightarrow> generated_test_case" where
  "canon_case t = t\<lparr>tc_request := (tc_request t)\<lparr>req_json_body :=
     map_option canon_obj (req_json_body (tc_request t))\<rparr>\<rparr>"

lemma body_ok_canon: "body_ok kvs \<Longrightarrow> body_ok (canon_obj kvs)"
  unfolding body_ok_def using jv_ok_canon
  by (simp add: canon_obj_def del: map_map) fastforce

lemma canon_scalar: "scalar_ok v \<Longrightarrow> canon v = v"
  by (cases v) (auto simp: scalar_ok_def)

lemma canon_opt [simp]: "canon (opt_str s) = opt_str s" "canon (opt_obj b) = opt_obj (map_option canon_obj b)"
  by (auto simp: opt_str_def opt_obj_def canon_JObj split: option.split simp del: canon.simps(2))


lemma canon_query_payload [simp]: "query_parameter (canon (query_payload p)) = query_parameter (query_payload p)"
  unfolding query_payload_def canon_JObj
  by (simp add: query_parameter_def item_canon_obj, simp add: item_def require_exact_fields_def field_tables)

lemma canon_header_payload [simp]:
  "request_header_of (canon (header_payload h)) = request_header_of (header_payload h)"
  unfolding header_payload_def canon_JObj
  by (simp add: request_header_of_def item_canon_obj, simp add: item_def require_exact_fields_def field_tables)

lemma canon_assertion_payload:
  assumes "assertion_ok a"
  shows "assertion_of (canon (assertion_payload a)) = Inr a"
proof -
  have "canon (as_expected a) = as_expected a"
    using assms canon_scalar by (simp add: assertion_ok_def)
  then have "assertion_of (canon (assertion_payload a)) = assertion_of (assertion_payload a)"
    unfolding assertion_payload_def canon_JObj
    by (simp add: assertion_of_def item_canon_obj, simp add: item_def require_exact_fields_def field_tables)
  with assms show ?thesis by (simp add: assertion_payload_valid)
qed

lemma request_canon_valid:
  assumes "request_ok r"
  shows "request_template_of (canon (request_payload r))
    = Inr (r\<lparr>req_json_body := map_option canon_obj (req_json_body r)\<rparr>)"
proof -
  have "query_parameters (canon (JArr (map query_payload (req_query r)))) = Inr (req_query r)"
  proof -
    have "mapE query_parameter (map (\<lambda>p. canon (query_payload p)) (req_query r)) = Inr (req_query r)"
      using assms by (intro mapE_map_Inr) (simp add: request_ok_def query_payload_valid)
    with assms show ?thesis by (simp add: query_parameters_def request_ok_def comp_def)
  qed
  moreover have "request_headers (canon (JArr (map header_payload (req_headers r)))) = Inr (req_headers r)"
  proof -
    have "mapE request_header_of (map (\<lambda>h. canon (header_payload h)) (req_headers r)) = Inr (req_headers r)"
      using assms by (intro mapE_map_Inr) (simp add: request_ok_def header_payload_valid)
    with assms show ?thesis by (simp add: request_headers_def request_ok_def comp_def)
  qed
  moreover have "json_body (canon (opt_obj (req_json_body r))) = Inr (map_option canon_obj (req_json_body r))"
    using assms body_ok_canon by (simp add: request_ok_def) (intro body_payload_valid, auto)
  ultimately show ?thesis
    using assms unfolding request_payload_def canon_JObj request_template_of_def
    by (simp add: item_canon_obj, simp add: item_def require_exact_fields_def field_tables
      path_payload_valid request_ok_def del: canon.simps(1))
qed

lemma request_valid:
  assumes "request_ok r"
  shows "request_template_of (request_payload r) = Inr r"
  using assms unfolding request_payload_def request_template_of_def
  by (simp add: item_def require_exact_fields_def field_tables path_payload_valid request_ok_def
    query_payloads_valid header_payloads_valid body_payload_valid)

lemma citations_valid:
  "ids \<noteq> [] \<Longrightarrow> distinct ids \<Longrightarrow> citation_ids (JArr (map (\<lambda>c. JStr (uuid_str c)) ids)) = Inr ids"
  using mapE_map_Inr [of ids "\<lambda>x. uuid_field x ''Generated test case citation id''" "\<lambda>c. JStr (uuid_str c)"]
  by (simp add: citation_ids_def)

lemma assertions_valid:
  assumes "as \<noteq> []" "length as \<le> MAX_ASSERTIONS" "\<forall>a \<in> set as. assertion_of (f a) = Inr a"
    "no_repeat (assertion_eq rt) as"
  shows "assertions_of rt (JArr (map f as)) = Inr as"
proof -
  have "mapE assertion_of (map f as) = Inr as"
    using assms(3) by (intro mapE_map_Inr) simp
  with assms show ?thesis by (simp add: assertions_of_def)
qed

lemma test_case_payload_distinct [simp]: "distinct (map fst (test_case_payload t))"
  by (simp add: test_case_payload_def)

theorem validate_payload:
  assumes "test_case_ok rt t"
  shows "validate_generated_test_case rt (test_case_payload t) = Inr t"
  using assms unfolding test_case_payload_def validate_generated_test_case_def
  by (simp add: item_def require_exact_fields_def field_tables test_case_ok_def request_valid
    citations_valid assertions_valid assertion_payload_valid)

theorem validate_canonical_payload:
  assumes "test_case_ok rt t"
  shows "validate_generated_test_case rt (canon_obj (test_case_payload t)) = Inr (canon_case t)"
proof -
  have "citation_ids (canon (JArr (map (\<lambda>c. JStr (uuid_str c)) (tc_citation_ids t)))) = Inr (tc_citation_ids t)"
    using assms by (simp add: test_case_ok_def citations_valid comp_def)
  moreover have "assertions_of rt (canon (JArr (map assertion_payload (tc_assertions t)))) = Inr (tc_assertions t)"
    using assms assertions_valid [of "tc_assertions t" "\<lambda>a. canon (assertion_payload a)" rt]
    by (simp add: test_case_ok_def comp_def canon_assertion_payload)
  moreover have "request_template_of (canon (request_payload (tc_request t)))
      = Inr ((tc_request t)\<lparr>req_json_body := map_option canon_obj (req_json_body (tc_request t))\<rparr>)"
    using assms by (simp add: request_canon_valid test_case_ok_def)
  ultimately show ?thesis
    using assms unfolding validate_generated_test_case_def
    by (simp add: item_canon_obj, simp add: test_case_payload_def item_def require_exact_fields_def
      field_tables test_case_ok_def canon_case_def del: canon.simps(1))
qed

section \<open>No lookup fails\<close>

text \<open>The field tables are checked first, so a \<open>KeyError\<close> cannot happen.\<close>

definition nokey :: "generated_test_error + 'a \<Rightarrow> bool" where
  "nokey m \<longleftrightarrow> (\<forall>k. m \<noteq> Inl (KeyError k))"

named_theorems nokey_intros \<open>validators that raise no KeyError\<close>

lemma nokey_Inr [nokey_intros]: "nokey (Inr x)"
  by (simp add: nokey_def)

lemma nokey_invalid [nokey_intros]: "nokey (Inl (invalid m))"
  by (simp add: nokey_def)

lemma nokey_require [nokey_intros]: "nokey (require b (invalid m))"
  by (simp add: nokey_def require_def)

lemma nokey_bindE: "nokey m \<Longrightarrow> (\<And>x. m = Inr x \<Longrightarrow> nokey (f x)) \<Longrightarrow> nokey (bindE m f)"
  by (cases m) (auto simp: nokey_def)

lemma nokey_mapE [nokey_intros]: "(\<And>x. nokey (f x)) \<Longrightarrow> nokey (mapE f xs)"
  by (induction xs) (auto intro!: nokey_bindE nokey_Inr)

lemma nokey_exact [nokey_intros]: "nokey (require_exact_fields p e l)"
  by (simp add: require_exact_fields_def nokey_require)

lemma nokey_item:
  assumes "require_exact_fields p e l = Inr u" "k \<in> set e"
  shows "nokey (item p k)"
proof -
  have "k \<in> fst ` set p" using assms by (auto simp: require_exact_fields_def exn_simps)
  then obtain v where "map_of p k = Some v" by (metis map_of_eq_None_iff not_None_eq)
  then show ?thesis by (simp add: item_def nokey_def)
qed

lemma nokey_fields [nokey_intros]:
  "nokey (mapping_field v l)" "nokey (list_field v l)" "nokey (uuid_field v l)" "nokey (text_field v l)"
  "nokey (enum_field val ms v l)" "nokey (expected_value v)"
  by (auto simp: nokey_def mapping_field_def list_field_def uuid_field_def text_field_def enum_field_def
    expected_value_def Let_def split: json.splits option.splits)

lemma nokey_json_value [nokey_intros]:
  "nokey (json_value d v)" "nokey (json_value_list d xs)" "nokey (json_value_members d kvs)"
proof (induction d v and d xs and d kvs rule: json_value_json_value_list_json_value_members.induct)
  case (1 d v)
  then show ?case
    by (subst json_value.simps) (auto simp: not_less split: json.splits intro!: nokey_bindE nokey_intros)
qed (auto simp: json_key_def intro!: nokey_bindE nokey_intros)

lemma nokey_leaves [nokey_intros]:
  "nokey (parameter_name v l)" "nokey (header_name v)" "nokey (request_path v)"
  "nokey (optional_selector v)" "nokey (json_body v)" "nokey (validate_assertion_contract a)"
  by (auto simp: parameter_name_def header_name_def request_path_def optional_selector_def json_body_def
    validate_assertion_contract_def split: assertion_target.split intro!: nokey_bindE nokey_intros)

lemma nokey_parts [nokey_intros]:
  "nokey (query_parameter v)" "nokey (request_header_of v)" "nokey (assertion_of v)"
  by (auto simp: query_parameter_def request_header_of_def assertion_of_def Let_def
    intro!: nokey_bindE nokey_intros intro: nokey_item simp: field_tables)

lemma nokey_groups [nokey_intros]:
  "nokey (query_parameters v)" "nokey (request_headers v)" "nokey (assertions_of rt v)" "nokey (citation_ids v)"
  by (auto simp: query_parameters_def request_headers_def assertions_of_def citation_ids_def
    intro!: nokey_bindE nokey_intros)

lemma nokey_request [nokey_intros]: "nokey (request_template_of v)"
  by (auto simp: request_template_of_def intro!: nokey_bindE nokey_intros intro: nokey_item simp: field_tables)

lemma nokey_case: "nokey (validate_generated_test_case rt p)"
  by (auto simp: validate_generated_test_case_def intro!: nokey_bindE nokey_intros intro: nokey_item
    simp: field_tables)

lemma validate_never_KeyError: "validate_generated_test_case rt p \<noteq> Inl (KeyError k)"
  using nokey_case by (simp add: nokey_def)

end
