(* ===== verification/Py_Text.thy ===== *)
theory Py_Text
  imports Pyjson
begin

text \<open>
  Text operations of Python the sources use: UTF-8 of texts below 256, \<open>splitlines\<close>, \<open>split\<close> on
  white space, and the backtracking of \<open>re\<close> for repetitions of a character class.
\<close>

section \<open>UTF-8\<close>

definition utf8_bytes :: "char \<Rightarrow> nat list" where
  "utf8_bytes c = (let n = code c in if n < 128 then [n] else [192 + n div 64, 128 + n mod 64])"

definition utf8_length :: "string \<Rightarrow> nat" where
  "utf8_length s = sum_list (map (\<lambda>c. length (utf8_bytes c)) s)"

definition utf8_encode :: "string \<Rightarrow> string" where
  "utf8_encode s = concat (map (\<lambda>c. map char_of (utf8_bytes c)) s)"

text \<open>
  \<open>bytes.decode("utf-8")\<close> for texts below 256: one byte, or the lead byte C2 or C3 and a continuation
  byte.
\<close>

fun utf8_decode :: "string \<Rightarrow> string option" where
  "utf8_decode [] = Some []"
| "utf8_decode (c # cs) =
     (if code c < 128 then map_option (Cons c) (utf8_decode cs)
      else case cs of
        [] \<Rightarrow> None
      | d # ds \<Rightarrow>
          if code c \<in> {194, 195} \<and> 128 \<le> code d \<and> code d < 192
          then map_option (Cons (char_of ((code c - 192) * 64 + (code d - 128)))) (utf8_decode ds)
          else None)"

lemma length_utf8_encode [simp]: "length (utf8_encode s) = utf8_length s"
  by (induction s) (auto simp: utf8_encode_def utf8_length_def)

lemma utf8_round_trip: "utf8_decode (utf8_encode s) = Some s"
proof (induction s)
  case (Cons c s)
  have c: "code c < 256" by (simp add: code_def)
  show ?case
  proof (cases "code c < 128")
    case True
    then have "utf8_encode (c # s) = c # utf8_encode s" by (simp add: utf8_encode_def utf8_bytes_def code_def)
    with True Cons show ?thesis by simp
  next
    case False
    let ?a = "char_of (192 + code c div 64) :: char" and ?b = "char_of (128 + code c mod 64) :: char"
    have e: "utf8_encode (c # s) = ?a # ?b # utf8_encode s" using False by (simp add: utf8_encode_def utf8_bytes_def Let_def)
    have d: "code c div 64 = 2 \<or> code c div 64 = 3" using False c by auto
    have a: "code ?a = 192 + code c div 64" using d by (auto simp: code_def)
    have b: "code ?b = 128 + code c mod 64" using mod_less_divisor [of 64 "code c"] unfolding code_def by simp
    have "char_of ((code ?a - 192) * 64 + (code ?b - 128)) = c" unfolding a b by (simp add: code_def)
    then show ?thesis using Cons a b d unfolding e by auto
  qed
qed (simp add: utf8_encode_def)

section \<open>Lines and words\<close>

text \<open>The line boundaries below 256; a carriage return takes a following line feed with it.\<close>

definition is_line_break :: "char \<Rightarrow> bool" where
  "is_line_break c \<longleftrightarrow> code c \<in> {10, 11, 12, 13, 28, 29, 30, 133}"

fun splitlines_acc :: "string \<Rightarrow> string \<Rightarrow> string list" where
  "splitlines_acc line [] = (if line = [] then [] else [line])"
| "splitlines_acc line [c] = (if is_line_break c then [line] else [line @ [c]])"
| "splitlines_acc line (c # d # cs) =
     (if code c = 13 \<and> code d = 10 then line # splitlines_acc [] cs
      else if is_line_break c then line # splitlines_acc [] (d # cs)
      else splitlines_acc (line @ [c]) (d # cs))"

definition splitlines :: "string \<Rightarrow> string list" where
  "splitlines s = splitlines_acc [] s"

fun split_acc :: "string \<Rightarrow> string \<Rightarrow> string list" where
  "split_acc w [] = (if w = [] then [] else [w])"
| "split_acc w (c # cs) =
     (if is_space c then (if w = [] then split_acc [] cs else w # split_acc [] cs) else split_acc (w @ [c]) cs)"

text \<open>\<open>s.split()\<close>.\<close>

definition split_ws :: "string \<Rightarrow> string list" where
  "split_ws s = split_acc [] s"

definition word_ok :: "string \<Rightarrow> bool" where
  "word_ok w \<longleftrightarrow> w \<noteq> [] \<and> list_all (\<lambda>c. \<not> is_space c) w"

lemma split_acc_ok: "list_all (\<lambda>c. \<not> is_space c) w \<Longrightarrow> v \<in> set (split_acc w s) \<Longrightarrow> word_ok v"
  by (induction w s rule: split_acc.induct) (auto simp: word_ok_def split: if_splits)

lemma split_ws_ok: "v \<in> set (split_ws s) \<Longrightarrow> word_ok v"
  unfolding split_ws_def by (rule split_acc_ok) auto

lemma split_acc_word: "list_all (\<lambda>c. \<not> is_space c) v \<Longrightarrow> split_acc w (v @ s) = split_acc (w @ v) s"
  by (induction v arbitrary: w) auto

lemma is_space_blank [simp]: "is_space (CHR '' '')"
  by (simp add: is_space_def code_def)

lemma split_ws_join:
  "list_all word_ok ws \<Longrightarrow> split_ws (join '' '' ws) = ws"
proof (induction ws)
  case (Cons w ws)
  then have w: "w \<noteq> []" "list_all (\<lambda>c. \<not> is_space c) w" by (auto simp: word_ok_def)
  show ?case
  proof (cases "ws = []")
    case True
    then show ?thesis using w split_acc_word [OF w(2), of "[]" "[]"] by (simp add: split_ws_def)
  next
    case False
    then show ?thesis
      using w Cons split_acc_word [OF w(2), of "[]" "CHR '' '' # join '' '' ws"] by (simp add: split_ws_def)
  qed
qed (simp add: split_ws_def)

lemma split_blank_join:
  "list_all word_ok ws \<Longrightarrow> ws \<noteq> [] \<Longrightarrow> str_split (CHR '' '') (join '' '' ws) = ws"
proof (induction ws)
  case (Cons w ws)
  then have w: "\<forall>c \<in> set w. c \<noteq> CHR '' ''" by (auto simp: word_ok_def list_all_iff)
  have one: "\<forall>c \<in> set w. c \<noteq> CHR '' '' \<Longrightarrow> str_split (CHR '' '') w = [w]" for w by (induction w) auto
  have more: "\<forall>c \<in> set w. c \<noteq> CHR '' '' \<Longrightarrow> str_split (CHR '' '') (w @ CHR '' '' # s) = w # str_split (CHR '' '') s" for w s
    by (induction w) auto
  show ?case using w Cons one more by (cases "ws = []") auto
qed simp

lemma split_ws_Nil: "split_ws s = [] \<longleftrightarrow> list_all is_space s"
proof -
  have "split_acc w s = [] \<longleftrightarrow> w = [] \<and> list_all is_space s" for w
    by (induction w s rule: split_acc.induct) auto
  then show ?thesis by (simp add: split_ws_def)
qed

text \<open>\<open>" ".join(s.split())\<close>, and \<open>" ".join(s.strip().split())\<close>.\<close>

definition normalize :: "string \<Rightarrow> string" where
  "normalize s = join '' '' (split_ws (strip s))"

lemma all_words: "list_all word_ok (split_ws s)"
  by (auto simp: list_all_iff intro: split_ws_ok)

lemma join_words_ends:
  "list_all word_ok ws \<Longrightarrow> ws \<noteq> [] \<Longrightarrow>
     join '' '' ws \<noteq> [] \<and> \<not> is_space (hd (join '' '' ws)) \<and> \<not> is_space (last (join '' '' ws))"
  by (induction ws) (auto simp: word_ok_def list_all_iff neq_Nil_conv)

lemma strip_join: "list_all word_ok ws \<Longrightarrow> strip (join '' '' ws) = join '' '' ws"
  using join_words_ends [of ws] unfolding strip_def by (cases "ws = []") (auto intro!: strip_by_eq_self)

lemma normalize_idem [simp]: "normalize (normalize s) = normalize s"
  by (simp add: normalize_def strip_join all_words split_ws_join)

lemma join_Nil_iff: "list_all word_ok ws \<Longrightarrow> join '' '' ws = [] \<longleftrightarrow> ws = []"
  using join_words_ends [of ws] by (cases ws) auto

section \<open>Backtracking repetition\<close>

text \<open>
  \<open>[p]*\<close> tries the longest match first, \<open>[p]*?\<close> the shortest; the continuation receives the matched
  text and the rest and may refuse.
\<close>

fun greedy :: "(char \<Rightarrow> bool) \<Rightarrow> (string \<Rightarrow> string \<Rightarrow> 'a option) \<Rightarrow> string \<Rightarrow> 'a option" where
  "greedy p k [] = k [] []"
| "greedy p k (c # cs) =
     (if p c then (case greedy p (\<lambda>m. k (c # m)) cs of Some x \<Rightarrow> Some x | None \<Rightarrow> k [] (c # cs)) else k [] (c # cs))"

fun greedy_upto :: "nat \<Rightarrow> (char \<Rightarrow> bool) \<Rightarrow> (string \<Rightarrow> string \<Rightarrow> 'a option) \<Rightarrow> string \<Rightarrow> 'a option" where
  "greedy_upto (Suc n) p k (c # cs) =
     (if p c then (case greedy_upto n p (\<lambda>m. k (c # m)) cs of Some x \<Rightarrow> Some x | None \<Rightarrow> k [] (c # cs)) else k [] (c # cs))"
| "greedy_upto n p k s = k [] s"

fun lazy :: "(char \<Rightarrow> bool) \<Rightarrow> (string \<Rightarrow> string \<Rightarrow> 'a option) \<Rightarrow> string \<Rightarrow> 'a option" where
  "lazy p k [] = k [] []"
| "lazy p k (c # cs) = (case k [] (c # cs) of Some x \<Rightarrow> Some x | None \<Rightarrow> if p c then lazy p (\<lambda>m. k (c # m)) cs else None)"

definition one :: "(char \<Rightarrow> bool) \<Rightarrow> (char \<Rightarrow> string \<Rightarrow> 'a option) \<Rightarrow> string \<Rightarrow> 'a option" where
  "one p k s = (case s of [] \<Rightarrow> None | c # cs \<Rightarrow> if p c then k c cs else None)"

definition plus :: "(char \<Rightarrow> bool) \<Rightarrow> (string \<Rightarrow> string \<Rightarrow> 'a option) \<Rightarrow> string \<Rightarrow> 'a option" where
  "plus p k s = one p (\<lambda>c. greedy p (\<lambda>m. k (c # m))) s"

definition lazy_plus :: "(char \<Rightarrow> bool) \<Rightarrow> (string \<Rightarrow> string \<Rightarrow> 'a option) \<Rightarrow> string \<Rightarrow> 'a option" where
  "lazy_plus p k s = one p (\<lambda>c. lazy p (\<lambda>m. k (c # m))) s"

text \<open>\<open>$\<close>, and \<open>.\<close>.\<close>

definition at_end :: "'a \<Rightarrow> string \<Rightarrow> 'a option" where
  "at_end x s = (if s = [] \<or> s = [CHR 0x0A] then Some x else None)"

definition dot :: "char \<Rightarrow> bool" where
  "dot c \<longleftrightarrow> c \<noteq> CHR 0x0A"

fun literal_ci :: "string \<Rightarrow> (string \<Rightarrow> string \<Rightarrow> 'a option) \<Rightarrow> string \<Rightarrow> 'a option" where
  "literal_ci [] k s = k [] s"
| "literal_ci (l # ls) k s = one (\<lambda>c. lower_char c = lower_char l) (\<lambda>c. literal_ci ls (\<lambda>m. k (c # m))) s"

subsection \<open>What was matched is part of the text\<close>

lemma match_nothing: "k [] s = Some x \<Longrightarrow> \<exists>m r. s = m @ r \<and> list_all p m \<and> k m r = Some x"
  by (rule exI [of _ "[]"]) simp

lemma match_more:
  assumes "p c" "\<exists>m r. cs = m @ r \<and> list_all p m \<and> k (c # m) r = Some x"
  shows "\<exists>m r. c # cs = m @ r \<and> list_all p m \<and> k m r = Some x"
proof -
  from assms(2) obtain m r where "cs = m @ r" "list_all p m" "k (c # m) r = Some x" by blast
  with assms(1) show ?thesis by (intro exI [of _ "c # m"] exI [of _ r]) simp
qed

lemma greedy_matched:
  "greedy p k s = Some x \<Longrightarrow> \<exists>m r. s = m @ r \<and> list_all p m \<and> k m r = Some x"
proof (induction s arbitrary: k)
  case (Cons c cs)
  then consider "p c" "greedy p (\<lambda>m. k (c # m)) cs = Some x" | "k [] (c # cs) = Some x"
    by (auto split: if_splits option.splits)
  then show ?case
  proof cases
    case 1
    show ?thesis by (rule match_more [of p, OF 1(1) Cons.IH [OF 1(2)]])
  qed (rule match_nothing)
qed (auto intro: match_nothing)

lemma greedy_upto_matched:
  "greedy_upto n p k s = Some x \<Longrightarrow> \<exists>m r. s = m @ r \<and> list_all p m \<and> k m r = Some x"
proof (induction n arbitrary: k s)
  case 0
  then show ?case by (intro match_nothing) simp
next
  case (Suc n)
  show ?case
  proof (cases s)
    case Nil
    then show ?thesis using Suc.prems by (intro match_nothing) simp
  next
    case (Cons c cs)
    with Suc.prems consider "p c" "greedy_upto n p (\<lambda>m. k (c # m)) cs = Some x" | "k [] s = Some x"
      by (auto split: if_splits option.splits)
    then show ?thesis
    proof cases
      case 1
      show ?thesis unfolding Cons by (rule match_more [of p, OF 1(1) Suc.IH [OF 1(2)]])
    qed (rule match_nothing)
  qed
qed

lemma lazy_matched:
  "lazy p k s = Some x \<Longrightarrow> \<exists>m r. s = m @ r \<and> list_all p m \<and> k m r = Some x"
proof (induction s arbitrary: k)
  case (Cons c cs)
  then consider "p c" "lazy p (\<lambda>m. k (c # m)) cs = Some x" | "k [] (c # cs) = Some x"
    by (auto split: if_splits option.splits)
  then show ?case
  proof cases
    case 1
    show ?thesis by (rule match_more [of p, OF 1(1) Cons.IH [OF 1(2)]])
  qed (rule match_nothing)
qed (auto intro: match_nothing)

lemma one_matched: "one p k s = Some x \<Longrightarrow> \<exists>c r. s = c # r \<and> p c \<and> k c r = Some x"
  by (auto simp: one_def split: list.splits if_splits)

lemma plus_matched: "plus p k s = Some x \<Longrightarrow> \<exists>m r. s = m @ r \<and> m \<noteq> [] \<and> list_all p m \<and> k m r = Some x"
proof -
  assume "plus p k s = Some x"
  then have "one p (\<lambda>c. greedy p (\<lambda>m. k (c # m))) s = Some x" by (simp add: plus_def)
  from one_matched [OF this] obtain c r where c: "s = c # r" "p c" "greedy p (\<lambda>m. k (c # m)) r = Some x" by auto
  from greedy_matched [OF c(3)] obtain m r' where "r = m @ r'" "list_all p m" "k (c # m) r' = Some x" by auto
  with c show ?thesis by (intro exI [of _ "c # m"] exI [of _ r']) simp
qed

lemma lazy_plus_matched:
  "lazy_plus p k s = Some x \<Longrightarrow> \<exists>m r. s = m @ r \<and> m \<noteq> [] \<and> list_all p m \<and> k m r = Some x"
proof -
  assume "lazy_plus p k s = Some x"
  then have "one p (\<lambda>c. lazy p (\<lambda>m. k (c # m))) s = Some x" by (simp add: lazy_plus_def)
  from one_matched [OF this] obtain c r where c: "s = c # r" "p c" "lazy p (\<lambda>m. k (c # m)) r = Some x" by auto
  from lazy_matched [OF c(3)] obtain m r' where "r = m @ r'" "list_all p m" "k (c # m) r' = Some x" by auto
  with c show ?thesis by (intro exI [of _ "c # m"] exI [of _ r']) simp
qed

lemma literal_ci_matched: "literal_ci l k s = Some x \<Longrightarrow> \<exists>m r. s = m @ r \<and> lower m = lower l \<and> k m r = Some x"
proof (induction l arbitrary: k s)
  case (Cons a l)
  then obtain c r where c: "s = c # r" "lower_char c = lower_char a" "literal_ci l (\<lambda>m. k (c # m)) r = Some x"
    by (auto dest: one_matched)
  from Cons.IH [OF c(3)] obtain m r' where "r = m @ r'" "lower m = lower l" "k (c # m) r' = Some x" by auto
  with c show ?case by (intro exI [of _ "c # m"] exI [of _ r']) (simp add: lower_def)
qed (auto intro: exI [of _ "[]"])


text \<open>The same as elimination rules.\<close>

lemma oneE: "one p k s = Some x \<Longrightarrow> (\<And>c r. s = c # r \<Longrightarrow> p c \<Longrightarrow> k c r = Some x \<Longrightarrow> P) \<Longrightarrow> P"
  using one_matched [of p k s x] by blast

lemma greedyE: "greedy p k s = Some x \<Longrightarrow> (\<And>m r. s = m @ r \<Longrightarrow> list_all p m \<Longrightarrow> k m r = Some x \<Longrightarrow> P) \<Longrightarrow> P"
  using greedy_matched [of p k s x] by blast

lemma greedy_uptoE: "greedy_upto n p k s = Some x \<Longrightarrow> (\<And>m r. s = m @ r \<Longrightarrow> list_all p m \<Longrightarrow> k m r = Some x \<Longrightarrow> P) \<Longrightarrow> P"
  using greedy_upto_matched [of n p k s x] by blast

lemma plusE: "plus p k s = Some x \<Longrightarrow> (\<And>m r. s = m @ r \<Longrightarrow> m \<noteq> [] \<Longrightarrow> list_all p m \<Longrightarrow> k m r = Some x \<Longrightarrow> P) \<Longrightarrow> P"
  using plus_matched [of p k s x] by blast

lemma lazy_plusE: "lazy_plus p k s = Some x \<Longrightarrow> (\<And>m r. s = m @ r \<Longrightarrow> m \<noteq> [] \<Longrightarrow> list_all p m \<Longrightarrow> k m r = Some x \<Longrightarrow> P) \<Longrightarrow> P"
  using lazy_plus_matched [of p k s x] by blast

lemma literal_ciE: "literal_ci l k s = Some x \<Longrightarrow> (\<And>m r. s = m @ r \<Longrightarrow> lower m = lower l \<Longrightarrow> k m r = Some x \<Longrightarrow> P) \<Longrightarrow> P"
  using literal_ci_matched [of l k s x] by blast

lemmas matchE = oneE greedyE greedy_uptoE plusE lazy_plusE literal_ciE

end
