(* ===== verification/Py_Url.thy ===== *)
theory Py_Url
  imports Py_Text
begin

text \<open>
  What the sources use of \<open>urllib.parse\<close>: \<open>urlsplit\<close> with the derived attributes \<open>hostname\<close>,
  \<open>port\<close>, \<open>username\<close> and \<open>password\<close>, \<open>urlunsplit\<close> and \<open>urlencode\<close> of pairs of strings.
  \<open>None\<close> stands for the \<open>ValueError\<close> of \<open>urlsplit\<close> and of \<open>port\<close>.
\<close>

record split_result =
  us_scheme :: string
  us_netloc :: string
  us_path :: string
  us_query :: string
  us_fragment :: string

definition is_alpha :: "char \<Rightarrow> bool" where
  "is_alpha c = (65 \<le> code c \<and> code c \<le> 90 \<or> 97 \<le> code c \<and> code c \<le> 122)"

definition scheme_char :: "char \<Rightarrow> bool" where
  "scheme_char c = (is_alpha c \<or> is_digit c \<or> c \<in> {CHR ''+'', CHR ''-'', CHR ''.''})"

definition split_scheme :: "string \<Rightarrow> string \<times> string" where
  "split_scheme url =
     (case partition_at (CHR '':'') url of (before, found, after) \<Rightarrow>
        if found \<and> before \<noteq> [] \<and> is_alpha (hd before) \<and> list_all scheme_char before
        then (lower before, after) else ([], url))"

definition split_netloc :: "string \<Rightarrow> string \<times> string" where
  "split_netloc url =
     (takeWhile (\<lambda>c. c \<notin> {CHR ''/'', CHR ''?'', CHR ''#''}) url,
      dropWhile (\<lambda>c. c \<notin> {CHR ''/'', CHR ''?'', CHR ''#''}) url)"

text \<open>\<open>v[a-fA-F0-9]+\..+\<close>, full match, where \<open>.\<close> matches anything but a line feed.\<close>

definition ip_future :: "string \<Rightarrow> bool" where
  "ip_future h =
     (let hs = takeWhile (\<lambda>c. hex_val c \<noteq> None) (tl h); r = dropWhile (\<lambda>c. hex_val c \<noteq> None) (tl h)
      in hs \<noteq> [] \<and> starts_with ''.'' r \<and> tl r \<noteq> [] \<and> list_all (\<lambda>c. code c \<noteq> 10) (tl r))"

definition bracketed_host_ok :: "runtime \<Rightarrow> string \<Rightarrow> bool" where
  "bracketed_host_ok rt h =
     (if starts_with ''v'' h then ip_future h
      else case ip_address rt h of None \<Rightarrow> False | Some (g, compressed) \<Rightarrow> str_in '':'' compressed)"

definition netloc_ok :: "runtime \<Rightarrow> string \<Rightarrow> bool" where
  "netloc_ok rt netloc =
     (if str_in ''['' netloc \<noteq> str_in '']'' netloc then False
      else if str_in ''['' netloc then
        (case rpartition_at (CHR ''@'') netloc of (_, _, hostinfo) \<Rightarrow>
         case partition_at (CHR ''['') hostinfo of (before, opened, bracketed) \<Rightarrow>
           if opened then
             (case partition_at (CHR '']'') bracketed of (h, _, port) \<Rightarrow>
                before = [] \<and> (port = [] \<or> starts_with '':'' port) \<and> bracketed_host_ok rt h)
           else (case partition_at (CHR '':'') hostinfo of (h, _, _) \<Rightarrow> bracketed_host_ok rt h))
      else True)"

definition clean_url :: "string \<Rightarrow> string" where
  "clean_url url = filter (\<lambda>c. code c \<notin> {9, 10, 13}) (lstrip_by (\<lambda>c. code c \<le> 32) url)"

definition urlsplit :: "runtime \<Rightarrow> string \<Rightarrow> split_result option" where
  "urlsplit rt raw =
     (case split_scheme (clean_url raw) of (scheme, url) \<Rightarrow>
      case (if starts_with ''//'' url then split_netloc (drop 2 url) else ([], url)) of (netloc, rest) \<Rightarrow>
        if \<not> netloc_ok rt netloc then None
        else (case partition_at (CHR ''#'') rest of (rest1, _, fragment) \<Rightarrow>
              case partition_at (CHR ''?'') rest1 of (path, _, query) \<Rightarrow>
                Some \<lparr>us_scheme = scheme, us_netloc = netloc, us_path = path, us_query = query,
                      us_fragment = fragment\<rparr>))"

definition userinfo :: "split_result \<Rightarrow> (string \<times> string option) option" where
  "userinfo u = (case rpartition_at (CHR ''@'') (us_netloc u) of (info, have_info, _) \<Rightarrow>
     if have_info then (case partition_at (CHR '':'') info of (username, have_password, password) \<Rightarrow>
       Some (username, if have_password then Some password else None)) else None)"

definition hostinfo :: "split_result \<Rightarrow> string \<times> string" where
  "hostinfo u = (case rpartition_at (CHR ''@'') (us_netloc u) of (_, _, info) \<Rightarrow>
     case partition_at (CHR ''['') info of (_, opened, bracketed) \<Rightarrow>
       if opened then (case partition_at (CHR '']'') bracketed of (h, _, after) \<Rightarrow>
         case partition_at (CHR '':'') after of (_, _, port) \<Rightarrow> (h, port))
       else (case partition_at (CHR '':'') info of (h, _, port) \<Rightarrow> (h, port)))"

definition hostname_of :: "split_result \<Rightarrow> string option" where
  "hostname_of u = (let h = fst (hostinfo u) in if h = [] then None
     else case partition_at (CHR ''%'') h of (name, percent, zone) \<Rightarrow>
       Some (lower name @ (if percent then ''%'' else []) @ zone))"

text \<open>\<open>Some None\<close>: no port.\<close>

definition port_of :: "split_result \<Rightarrow> nat option option" where
  "port_of u = (let p = snd (hostinfo u) in
     if p = [] then Some None
     else if is_decimal p \<and> digits_val p \<le> 65535 then Some (Some (digits_val p)) else None)"

definition uses_netloc :: "string list" where
  "uses_netloc = ['''', ''ftp'', ''http'', ''gopher'', ''nntp'', ''telnet'', ''imap'', ''wais'', ''file'',
     ''mms'', ''https'', ''shttp'', ''snews'', ''prospero'', ''rtsp'', ''rtsps'', ''rtspu'', ''rsync'', ''svn'',
     ''svn+ssh'', ''sftp'', ''nfs'', ''git'', ''git+ssh'', ''ws'', ''wss'', ''itms-services'']"

definition urlunsplit :: "string \<Rightarrow> string \<Rightarrow> string \<Rightarrow> string \<Rightarrow> string \<Rightarrow> string" where
  "urlunsplit scheme netloc path query fragment =
     (let url =
        (if netloc \<noteq> [] then
           ''//'' @ netloc @ (if path \<noteq> [] \<and> \<not> starts_with ''/'' path then ''/'' @ path else path)
         else if starts_with ''//'' path then ''//'' @ path
         else if scheme \<noteq> [] \<and> scheme \<in> set uses_netloc \<and> (path = [] \<or> starts_with ''/'' path)
         then ''//'' @ path else path);
        url = (if scheme \<noteq> [] then scheme @ '':'' @ url else url);
        url = (if query \<noteq> [] then url @ ''?'' @ query else url)
      in if fragment \<noteq> [] then url @ ''#'' @ fragment else url)"

subsection \<open>urlencode\<close>

definition upper_hex :: "nat \<Rightarrow> char" where
  "upper_hex n = char_of (if n < 10 then 48 + n else 55 + n)"

definition percent_byte :: "nat \<Rightarrow> string" where
  "percent_byte b = [CHR ''%'', upper_hex (b div 16), upper_hex (b mod 16)]"

definition quote_plus_char :: "char \<Rightarrow> string" where
  "quote_plus_char c =
     (if is_alpha c \<or> is_digit c \<or> c \<in> {CHR ''_'', CHR ''.'', CHR ''-'', CHR ''~''} then [c]
      else if c = CHR '' '' then ''+''
      else concat (map percent_byte (utf8_bytes c)))"

definition quote_plus :: "string \<Rightarrow> string" where
  "quote_plus s = concat (map quote_plus_char s)"

definition urlencode :: "(string \<times> string) list \<Rightarrow> string" where
  "urlencode kvs = join ''&'' (map (\<lambda>(k, v). quote_plus k @ ''='' @ quote_plus v) kvs)"

end
