(* ===== verification/Target_Registry.thy ===== *)
theory Target_Registry
  imports Py_Url
begin

text \<open>
  The closed registry of server-side execution targets and the default-deny network policy
  (\<open>target_registry.py\<close>), with the socket-backed resolver of \<open>restricted_execution_runtime.py\<close>.
  DNS answers are a parameter: the answer of each of the two resolver calls.
\<close>

section \<open>Data\<close>

definition TARGET_REGISTRY_SCHEMA_VERSION :: string where
  "TARGET_REGISTRY_SCHEMA_VERSION = ''target-registry/v1''"

definition DEFAULT_HTTPS_PORT :: nat where "DEFAULT_HTTPS_PORT = 443"

definition metadata_hosts :: "string list" where
  "metadata_hosts = [''instance-data'', ''instance-data.ec2.internal'', ''metadata.azure.internal'',
     ''metadata.google.internal'']"

datatype target_id = SYNTHETIC_ORDER_API

fun target_id_value :: "target_id \<Rightarrow> string" where
  "target_id_value SYNTHETIC_ORDER_API = ''synthetic-order-api''"

definition target_id_of :: "string \<Rightarrow> target_id option" where
  "target_id_of s = (if s = ''synthetic-order-api'' then Some SYNTHETIC_ORDER_API else None)"

datatype target_validation_boundary =
    UNKNOWN_TARGET_ID | DUPLICATE_TARGET_ID | EMPTY_REGISTRY | MALFORMED_URL | HTTPS_REQUIRED
  | USERINFO_FORBIDDEN | NONSTANDARD_PORT | PATH_FORBIDDEN | QUERY_OR_FRAGMENT_FORBIDDEN
  | REDIRECTS_ENABLED | METADATA_TARGET | LITERAL_IP | ALTERNATE_IP_NOTATION
  | EMPTY_RESOLVER_ANSWER | INVALID_RESOLVER_ANSWER | RESTRICTED_RESOLVER_ANSWER | DNS_REBINDING

text \<open>A \<open>TargetValidationError\<close> is its boundary.\<close>

record target_configuration =
  tg_id :: target_id
  tg_base_url :: string
  tg_redirects_allowed :: bool
  tg_schema_version :: string

record target_origin =
  or_hostname :: string
  or_port :: nat
  or_origin :: string

record validated_target =
  vt_id :: target_id
  vt_origin :: string
  vt_hostname :: string
  vt_port :: nat
  vt_resolved_addresses :: "string list"
  vt_redirects_allowed :: bool

type_synonym target_registry = "target_configuration list"

section \<open>Operations\<close>

definition parse_url :: "runtime \<Rightarrow> string \<Rightarrow> target_validation_boundary + split_result" where
  "parse_url rt value =
     (if value = [] \<or> value \<noteq> strip value \<or> str_in [CHR 0x00] value then Inl MALFORMED_URL
      else case urlsplit rt value of
        None \<Rightarrow> Inl MALFORMED_URL
      | Some parsed \<Rightarrow>
          if port_of parsed = None then Inl MALFORMED_URL
          else if us_scheme parsed = [] \<or> us_netloc parsed = [] \<or> hostname_of parsed = None
          then Inl MALFORMED_URL else Inr parsed)"

definition normalized_hostname :: "split_result \<Rightarrow> target_validation_boundary + string" where
  "normalized_hostname parsed = (case hostname_of parsed of
     None \<Rightarrow> Inl MALFORMED_URL | Some h \<Rightarrow> Inr (rstrip_by (\<lambda>c. c = CHR ''.'') (lower h)))"

definition is_literal_ip :: "runtime \<Rightarrow> string \<Rightarrow> bool" where
  "is_literal_ip rt h = (ip_address rt h \<noteq> None)"

definition looks_like_alternate_ip_notation :: "string \<Rightarrow> bool" where
  "looks_like_alternate_ip_notation h =
     (if starts_with ''0x'' (lower h) then True
      else if is_decimal h then True
      else (let labels = str_split (CHR ''.'') h in
        length labels = 4 \<and> list_all is_decimal labels
        \<and> list_ex (\<lambda>l. length l > 1 \<and> starts_with ''0'' l) labels))"

definition validate_hostname :: "runtime \<Rightarrow> string \<Rightarrow> target_validation_boundary + unit" where
  "validate_hostname rt h =
     bindE (require (h \<notin> set metadata_hosts) METADATA_TARGET) (\<lambda>_.
     bindE (require (\<not> is_literal_ip rt h) LITERAL_IP) (\<lambda>_.
     require (\<not> looks_like_alternate_ip_notation h) ALTERNATE_IP_NOTATION))"

definition parse_target_origin ::
  "runtime \<Rightarrow> target_configuration \<Rightarrow> target_validation_boundary + target_origin" where
  "parse_target_origin rt target =
     bindE (require (tg_schema_version target = TARGET_REGISTRY_SCHEMA_VERSION) MALFORMED_URL) (\<lambda>_.
     bindE (require (\<not> tg_redirects_allowed target) REDIRECTS_ENABLED) (\<lambda>_.
     bindE (parse_url rt (tg_base_url target)) (\<lambda>parsed.
     bindE (require (us_scheme parsed = ''https'') HTTPS_REQUIRED) (\<lambda>_.
     bindE (require (userinfo parsed = None) USERINFO_FORBIDDEN) (\<lambda>_.
     bindE (require (us_query parsed = [] \<and> us_fragment parsed = []) QUERY_OR_FRAGMENT_FORBIDDEN) (\<lambda>_.
     bindE (require (us_path parsed \<in> {[], ''/''}) PATH_FORBIDDEN) (\<lambda>_.
     bindE (normalized_hostname parsed) (\<lambda>hostname.
     bindE (validate_hostname rt hostname) (\<lambda>_.
     bindE (case port_of parsed of None \<Rightarrow> Inl MALFORMED_URL
       | Some None \<Rightarrow> Inr DEFAULT_HTTPS_PORT
       | Some (Some p) \<Rightarrow> Inr (if p = 0 then DEFAULT_HTTPS_PORT else p)) (\<lambda>port.
     bindE (require (port = DEFAULT_HTTPS_PORT) NONSTANDARD_PORT) (\<lambda>_.
       Inr \<lparr>or_hostname = hostname, or_port = port, or_origin = ''https://'' @ hostname\<rparr>)))))))))))"

text \<open>The constructor of \<open>TargetRegistry\<close> with its \<open>__post_init__\<close> checks.\<close>

definition target_registry_of ::
  "runtime \<Rightarrow> target_configuration list \<Rightarrow> target_validation_boundary + target_registry" where
  "target_registry_of rt targets =
     bindE (require (targets \<noteq> []) EMPTY_REGISTRY) (\<lambda>_.
     bindE (require (distinct (map tg_id targets)) DUPLICATE_TARGET_ID) (\<lambda>_.
     bindE (mapE (parse_target_origin rt) targets) (\<lambda>_. Inr targets)))"

definition registry_get :: "target_registry \<Rightarrow> string \<Rightarrow> target_validation_boundary + target_configuration" where
  "registry_get registry tid = (case target_id_of tid of
     None \<Rightarrow> Inl UNKNOWN_TARGET_ID
   | Some i \<Rightarrow> (case find (\<lambda>t. tg_id t = i) registry of
       None \<Rightarrow> Inl UNKNOWN_TARGET_ID | Some t \<Rightarrow> Inr t))"

primrec normalized_answers :: "runtime \<Rightarrow> string list \<Rightarrow> target_validation_boundary + string list" where
  "normalized_answers rt [] = Inr []"
| "normalized_answers rt (a # as) = (case ip_address rt a of
     None \<Rightarrow> Inl INVALID_RESOLVER_ANSWER
   | Some (is_global, compressed) \<Rightarrow>
       if \<not> is_global then Inl RESTRICTED_RESOLVER_ANSWER
       else bindE (normalized_answers rt as) (\<lambda>cs. Inr (compressed # cs)))"

definition validated_public_answers :: "runtime \<Rightarrow> string list \<Rightarrow> target_validation_boundary + string list" where
  "validated_public_answers rt addresses =
     bindE (require (addresses \<noteq> []) EMPTY_RESOLVER_ANSWER) (\<lambda>_.
     bindE (normalized_answers rt addresses) (\<lambda>cs. Inr (sort (remdups cs))))"

definition DEFAULT_TARGET_REGISTRY :: target_registry where
  "DEFAULT_TARGET_REGISTRY = [\<lparr>tg_id = SYNTHETIC_ORDER_API,
     tg_base_url = ''https://ai-qa-sandbox.onrender.com'', tg_redirects_allowed = False,
     tg_schema_version = TARGET_REGISTRY_SCHEMA_VERSION\<rparr>]"

text \<open>\<open>resolve n h\<close> is the answer of the \<open>n\<close>-th call of the injected resolver.\<close>

definition validate_registered_target ::
  "runtime \<Rightarrow> (nat \<Rightarrow> string \<Rightarrow> string list) \<Rightarrow> target_registry \<Rightarrow> string
     \<Rightarrow> target_validation_boundary + validated_target" where
  "validate_registered_target rt resolve registry tid =
     bindE (registry_get registry tid) (\<lambda>target.
     bindE (parse_target_origin rt target) (\<lambda>origin.
     bindE (validated_public_answers rt (resolve 0 (or_hostname origin))) (\<lambda>first.
     bindE (validated_public_answers rt (resolve 1 (or_hostname origin))) (\<lambda>second.
     bindE (require (first = second) DNS_REBINDING) (\<lambda>_.
       Inr \<lparr>vt_id = tg_id target, vt_origin = or_origin origin, vt_hostname = or_hostname origin,
             vt_port = or_port origin, vt_resolved_addresses = first,
             vt_redirects_allowed = False\<rparr>)))))"

section \<open>The socket-backed resolver\<close>

definition MAX_RESOLVED_ADDRESSES :: nat where "MAX_RESOLVED_ADDRESSES = 16"

text \<open>One pass of the loop over \<open>getaddrinfo\<close> records; \<open>None\<close> is a record without a text address.\<close>

fun collect_addresses :: "string option list \<Rightarrow> string list \<Rightarrow> string list" where
  "collect_addresses [] acc = acc"
| "collect_addresses (None # rs) acc = collect_addresses rs acc"
| "collect_addresses (Some a # rs) acc =
     (if a \<in> set acc then collect_addresses rs acc
      else if length (acc @ [a]) = MAX_RESOLVED_ADDRESSES then acc @ [a]
      else collect_addresses rs (acc @ [a]))"

text \<open>\<open>getaddrinfo h = None\<close> is the \<open>OSError\<close>.\<close>

definition socket_resolve :: "(string \<Rightarrow> string option list option) \<Rightarrow> string \<Rightarrow> string list" where
  "socket_resolve getaddrinfo h =
     (if h = [] \<or> h \<noteq> strip h \<or> str_in [CHR 0x00] h then []
      else case getaddrinfo h of None \<Rightarrow> [] | Some records \<Rightarrow> collect_addresses records [])"

section \<open>What a validated target is\<close>

lemma registry_get_Inr: "registry_get r s = Inr t \<Longrightarrow> t \<in> set r \<and> target_id_value (tg_id t) = s"
  by (auto simp: registry_get_def target_id_of_def find_Some_iff split: option.splits if_splits)

lemma parse_target_origin_Inr:
  assumes "parse_target_origin rt t = Inr og"
  shows "or_port og = DEFAULT_HTTPS_PORT \<and> or_origin og = ''https://'' @ or_hostname og
    \<and> \<not> tg_redirects_allowed t \<and> or_hostname og \<notin> set metadata_hosts
    \<and> ip_address rt (or_hostname og) = None \<and> \<not> looks_like_alternate_ip_notation (or_hostname og)"
  using assms unfolding parse_target_origin_def validate_hostname_def is_literal_ip_def bindE_eq_Inr
    require_eq_Inr by (elim exE conjE) (auto simp del: not_None_eq simp: not_None_eq [symmetric])

lemma normalized_answers_Inr:
  "normalized_answers rt as = Inr cs \<Longrightarrow>
   list_all2 (\<lambda>a c. ip_address rt a = Some (True, c)) as cs"
  by (induction as arbitrary: cs) (auto simp: exn_simps split: option.splits if_splits)

lemma validated_public_answers_Inr:
  assumes "validated_public_answers rt as = Inr cs"
  shows "cs \<noteq> [] \<and> sorted cs \<and> distinct cs
    \<and> set cs = {c. \<exists>a \<in> set as. ip_address rt a = Some (True, c)}
    \<and> (\<forall>a \<in> set as. \<exists>c. ip_address rt a = Some (True, c))"
proof -
  from assms obtain ns where a: "as \<noteq> []" and n: "normalized_answers rt as = Inr ns"
    and c: "cs = sort (remdups ns)"
    by (auto simp: validated_public_answers_def exn_simps)
  from normalized_answers_Inr [OF n] have l: "list_all2 (\<lambda>a c. ip_address rt a = Some (True, c)) as ns" .
  then have "ns \<noteq> []" using a by auto
  moreover have "set ns = {c. \<exists>a \<in> set as. ip_address rt a = Some (True, c)}"
    and "\<forall>a \<in> set as. \<exists>c. ip_address rt a = Some (True, c)"
    using l by (force simp: list_all2_conv_all_nth in_set_conv_nth)+
  ultimately show ?thesis using c by (metis distinct_remdups distinct_sort set_remdups set_sort sorted_sort
      length_0_conv length_sort remdups_eq_nil_iff)
qed

lemma collect_addresses_bounds:
  "distinct acc \<Longrightarrow> length acc < MAX_RESOLVED_ADDRESSES \<Longrightarrow>
   distinct (collect_addresses rs acc) \<and> length (collect_addresses rs acc) \<le> MAX_RESOLVED_ADDRESSES"
  by (induction rs acc rule: collect_addresses.induct) auto

lemma socket_resolve_bounds:
  "distinct (socket_resolve g h) \<and> length (socket_resolve g h) \<le> MAX_RESOLVED_ADDRESSES"
  using collect_addresses_bounds [of "[]"]
  by (auto simp: socket_resolve_def MAX_RESOLVED_ADDRESSES_def split: option.splits)

section \<open>A URL of the target goes to its origin\<close>

text \<open>The host of an origin comes out of the network location of a URL, so it has no character that ends a
  network location and none that \<open>urlsplit\<close> removes; a path appended to the origin cannot change the host.\<close>

definition netloc_char :: "char \<Rightarrow> bool" where
  "netloc_char c \<longleftrightarrow> code c \<notin> {9, 10, 13, 35, 47, 63}"

lemma netloc_end: "c \<in> {CHR ''/'', CHR ''?'', CHR ''#''} \<longleftrightarrow> code c \<in> {35, 47, 63}"
proof
  assume "code c \<in> {35, 47, 63}"
  then have "c = char_of (35::nat) \<or> c = char_of (47::nat) \<or> c = char_of (63::nat)"
    by (metis char_of_char code_def empty_iff insert_iff)
  then show "c \<in> {CHR ''/'', CHR ''?'', CHR ''#''}" by (auto simp: char_of_def bit_numeral_rec bit_simps)
qed (auto simp: code_def)

lemma lower_char_netloc: "netloc_char c \<Longrightarrow> netloc_char (lower_char c)"
  by (auto simp: netloc_char_def lower_char_def code_def Let_def)

lemma partition_at_sets:
  "partition_at sep s = (b, f, a) \<Longrightarrow> set b \<subseteq> set s \<and> set a \<subseteq> set s"
  by (auto simp: partition_at_def Let_def dest: set_takeWhileD)
    (metis list.set_sel(2) list.sel(2) set_dropWhileD)+

lemma rpartition_at_sets:
  "rpartition_at sep s = (b, f, a) \<Longrightarrow> set b \<subseteq> set s \<and> set a \<subseteq> set s"
  using partition_at_sets [of sep "rev s"] by (fastforce simp: rpartition_at_def split: prod.splits bool.splits)

lemma urlsplit_netloc:
  assumes "urlsplit rt v = Some u"
  shows "\<forall>c \<in> set (us_netloc u). netloc_char c"
proof
  fix c assume c: "c \<in> set (us_netloc u)"
  obtain sch url where s: "split_scheme (clean_url v) = (sch, url)" by fastforce
  from assms s have "us_netloc u = (if starts_with ''//'' url then fst (split_netloc (drop 2 url)) else [])"
    by (auto simp: urlsplit_def split_netloc_def split: if_splits prod.splits)
  with c have "c \<in> set (takeWhile (\<lambda>c. c \<notin> {CHR ''/'', CHR ''?'', CHR ''#''}) (drop 2 url))"
    by (auto simp: split_netloc_def split: if_splits)
  then have "c \<notin> {CHR ''/'', CHR ''?'', CHR ''#''}" "c \<in> set url" by (auto dest: set_takeWhileD in_set_dropD)
  moreover have "set url \<subseteq> set (clean_url v)"
    using s partition_at_sets [of "CHR '':''" "clean_url v"] by (auto simp: split_scheme_def split: prod.splits if_splits)
  then have "code c \<notin> {9, 10, 13}" using \<open>c \<in> set url\<close> by (auto simp: clean_url_def)
  ultimately show "netloc_char c" using netloc_end [of c] by (auto simp: netloc_char_def)
qed

lemma hostname_chars:
  assumes "hostname_of u = Some h" "\<forall>c \<in> set (us_netloc u). netloc_char c"
  shows "\<forall>c \<in> set h. netloc_char c"
proof -
  have "set (fst (hostinfo u)) \<subseteq> set (us_netloc u)"
    by (auto simp: hostinfo_def split: prod.splits if_splits dest!: rpartition_at_sets partition_at_sets)
  then have "\<forall>c \<in> set (fst (hostinfo u)). netloc_char c" using assms(2) by auto
  moreover have "netloc_char (CHR ''%'')" by (simp add: netloc_char_def code_def)
  moreover obtain b f a where p: "partition_at (CHR ''%'') (fst (hostinfo u)) = (b, f, a)" by (metis prod_cases3)
  then have "set b \<union> set a \<subseteq> set (fst (hostinfo u))" using partition_at_sets by blast
  moreover have "h = map lower_char b @ (if f then ''%'' else []) @ a"
    using assms(1) p by (simp add: hostname_of_def lower_def Let_def split: if_splits)
  ultimately show ?thesis by (auto intro: lower_char_netloc)
qed

lemma parse_target_origin_host:
  assumes "parse_target_origin rt t = Inr og"
  shows "\<forall>c \<in> set (or_hostname og). netloc_char c"
proof -
  from assms obtain parsed h where u: "urlsplit rt (tg_base_url t) = Some parsed"
    and h: "hostname_of parsed = Some h" and og: "or_hostname og = rstrip_by (\<lambda>c. c = CHR ''.'') (lower h)"
    by (auto simp: parse_target_origin_def parse_url_def normalized_hostname_def exn_simps
      split: if_splits option.splits)
  have "\<forall>c \<in> set h. netloc_char c" using hostname_chars [OF h urlsplit_netloc [OF u]] .
  then show ?thesis
    using lower_char_netloc by (auto simp: og lower_def rstrip_by_def dest!: set_dropWhileD)
qed

lemma takeWhile_netloc:
  assumes "\<forall>c \<in> set h. netloc_char c"
  shows "takeWhile (\<lambda>c. c \<notin> {CHR ''/'', CHR ''?'', CHR ''#''}) (h @ CHR ''/'' # r) = h"
  using assms by (induction h) (auto simp: netloc_char_def code_def)

lemma origin_urlsplit:
  assumes h: "\<forall>c \<in> set h. netloc_char c" and u: "urlsplit rt (''https://'' @ h @ CHR ''/'' # r) = Some u"
  shows "us_scheme u = ''https'' \<and> us_netloc u = h"
proof -
  let ?r = "filter (\<lambda>c. code c \<notin> {9, 10, 13}) r"
  have "filter (\<lambda>c. code c \<notin> {9, 10, 13}) h = h" using h by (auto simp: netloc_char_def intro!: filter_True)
  then have "clean_url (''https://'' @ h @ CHR ''/'' # r) = ''https://'' @ h @ CHR ''/'' # ?r"
    by (simp add: clean_url_def lstrip_by_def code_def)
  moreover have "split_scheme (''https://'' @ s) = (''https'', ''//'' @ s)" for s
    by (simp add: split_scheme_def partition_at_def is_alpha_def scheme_char_def code_def lower_def lower_char_def Let_def)
  ultimately have "split_scheme (clean_url (''https://'' @ h @ CHR ''/'' # r)) = (''https'', ''//'' @ h @ CHR ''/'' # ?r)"
    by (simp only:)
  then show ?thesis
    using u takeWhile_netloc [OF h, of ?r]
    by (auto simp: urlsplit_def starts_with_def split_netloc_def split: if_splits prod.splits)
qed

text \<open>A validated target: every URL made of its origin and a path from the root goes to its host over HTTPS.\<close>

lemma validated_target_url:
  assumes "validate_registered_target rt resolve registry tid = Inr v"
    and "urlsplit rt (vt_origin v @ CHR ''/'' # r) = Some u"
  shows "us_scheme u = ''https'' \<and> us_netloc u = vt_hostname v"
proof -
  from assms(1) obtain t og where "parse_target_origin rt t = Inr og" "vt_origin v = or_origin og" "vt_hostname v = or_hostname og"
    by (auto simp: validate_registered_target_def exn_simps)
  with parse_target_origin_Inr [of rt t og] parse_target_origin_host [of rt t og] assms(2) origin_urlsplit [of "vt_hostname v" rt r u]
  show ?thesis by simp
qed

lemma validated_target_answers:
  assumes "validate_registered_target rt resolve registry tid = Inr v" "a \<in> set (vt_resolved_addresses v)"
  shows "\<forall>n \<in> {0, 1}. \<exists>x \<in> set (resolve n (vt_hostname v)). ip_address rt x = Some (True, a)"
proof -
  have "validated_public_answers rt (resolve 0 (vt_hostname v)) = Inr (vt_resolved_addresses v)
      \<and> validated_public_answers rt (resolve 1 (vt_hostname v)) = Inr (vt_resolved_addresses v)"
    using assms(1) by (auto simp: validate_registered_target_def exn_simps)
  then show ?thesis using validated_public_answers_Inr assms(2) by fastforce
qed

end
