(* ===== verification/Execution_Plans.thy ===== *)
theory Execution_Plans
  imports Test_Case_Contract Target_Registry
begin

text \<open>
  Canonical, immutable execution plans (\<open>execution_plans.py\<close>): limits, estimate, the plan with its
  canonical test-case snapshot, building, validation and review.  A plan is bound by a SHA-256 over the
  canonical JSON of everything executable in it; the title of the proposal is display text and is left
  out of the hash.
\<close>

section \<open>Constants and data\<close>

definition EXECUTION_PLAN_SCHEMA_VERSION :: string where
  "EXECUTION_PLAN_SCHEMA_VERSION = ''execution-plan/v1''"

definition EXECUTION_PLAN_NAMESPACE :: uuid where
  "EXECUTION_PLAN_NAMESPACE = 0x72e8c9f088d44be38f03e43ce5486464"

definition MAX_REQUEST_TIMEOUT_MS :: int where "MAX_REQUEST_TIMEOUT_MS = 30000"
definition MAX_REQUEST_BODY_BYTES :: int where "MAX_REQUEST_BODY_BYTES = 1000000"
definition MAX_RESPONSE_BYTES :: int where "MAX_RESPONSE_BYTES = 1000000"
definition MAX_PLAN_ASSERTIONS :: int where "MAX_PLAN_ASSERTIONS = 20"

text \<open>\<open>PlanKeyError\<close> is a \<open>KeyError\<close> of the proposal validator, which no handler catches.\<close>

datatype plan_error =
    ExecutionPlanRejected string
  | PlanKeyError string

record execution_limits =
  request_timeout_ms :: int
  max_request_body_bytes :: int
  max_response_bytes :: int
  max_assertions :: int

definition DEFAULT_EXECUTION_LIMITS :: execution_limits where
  "DEFAULT_EXECUTION_LIMITS = \<lparr>request_timeout_ms = 10000, max_request_body_bytes = 64000,
     max_response_bytes = 256000, max_assertions = MAX_PLAN_ASSERTIONS\<rparr>"

record execution_estimate =
  request_count :: int
  request_body_bytes :: int
  assertion_count :: int
  maximum_response_bytes :: int
  maximum_duration_ms :: int

record execution_plan =
  pl_schema_version :: string
  pl_id :: uuid
  pl_target_id :: target_id
  pl_target_base_url :: string
  pl_target_schema_version :: string
  pl_test_case_id :: uuid
  pl_test_case_payload :: string
  pl_limits :: execution_limits
  pl_estimate :: execution_estimate
  pl_hash :: string

record execution_plan_review =
  rv_plan_id :: uuid
  rv_plan_hash :: string
  rv_target_id :: target_id
  rv_target_base_url :: string
  rv_test_case_id :: uuid
  rv_method :: string
  rv_path :: string
  rv_citation_ids :: "uuid list"
  rv_limits :: execution_limits
  rv_estimate :: execution_estimate

section \<open>Operations\<close>

definition limits_payload :: "execution_limits \<Rightarrow> (string \<times> json) list" where
  "limits_payload l =
     [(''request_timeout_ms'', JInt (request_timeout_ms l)),
      (''max_request_body_bytes'', JInt (max_request_body_bytes l)),
      (''max_response_bytes'', JInt (max_response_bytes l)),
      (''max_assertions'', JInt (max_assertions l))]"

definition estimate_payload :: "execution_estimate \<Rightarrow> (string \<times> json) list" where
  "estimate_payload e =
     [(''request_count'', JInt (request_count e)),
      (''request_body_bytes'', JInt (request_body_bytes e)),
      (''assertion_count'', JInt (assertion_count e)),
      (''maximum_response_bytes'', JInt (maximum_response_bytes e)),
      (''maximum_duration_ms'', JInt (maximum_duration_ms e))]"

definition registered_target :: "string \<Rightarrow> target_registry \<Rightarrow> plan_error + target_configuration" where
  "registered_target tid registry = except (registry_get registry tid)
     (\<lambda>_. ExecutionPlanRejected ''Execution plans require one registered server-side target ID'')"

fun rejected_proposal :: "string \<Rightarrow> generated_test_error \<Rightarrow> plan_error" where
  "rejected_proposal msg (GeneratedTestCaseValidationError m) = ExecutionPlanRejected msg"
| "rejected_proposal msg (KeyError k) = PlanKeyError k"

definition validated_test_case :: "runtime \<Rightarrow> generated_test_case \<Rightarrow> plan_error + generated_test_case" where
  "validated_test_case rt t = except (validate_generated_test_case rt (test_case_payload t))
     (rejected_proposal ''Execution plans require a valid generated-test proposal'')"

definition test_case_from_snapshot :: "runtime \<Rightarrow> string \<Rightarrow> plan_error + generated_test_case" where
  "test_case_from_snapshot rt snapshot = (case loads rt snapshot of
     None \<Rightarrow> Inl (ExecutionPlanRejected ''Execution plan test-case snapshot is not valid JSON'')
   | Some (JObj payload) \<Rightarrow> except (validate_generated_test_case rt payload)
       (rejected_proposal ''Execution plan test-case snapshot violates the generated-test contract'')
   | Some _ \<Rightarrow> Inl (ExecutionPlanRejected ''Execution plan test-case snapshot must be a JSON object''))"

definition require_bounded_positive_integer :: "int \<Rightarrow> string \<Rightarrow> int \<Rightarrow> plan_error + unit" where
  "require_bounded_positive_integer value label maximum =
     require (\<not> (value < 1 \<or> value > maximum))
       (ExecutionPlanRejected (label @ '' must be a bounded positive integer''))"

definition validated_limits :: "execution_limits \<Rightarrow> plan_error + execution_limits" where
  "validated_limits l =
     bindE (require_bounded_positive_integer (request_timeout_ms l) ''Request timeout'' MAX_REQUEST_TIMEOUT_MS) (\<lambda>_.
     bindE (require_bounded_positive_integer (max_request_body_bytes l) ''Maximum request-body size''
       MAX_REQUEST_BODY_BYTES) (\<lambda>_.
     bindE (require_bounded_positive_integer (max_response_bytes l) ''Maximum response size'' MAX_RESPONSE_BYTES) (\<lambda>_.
     bindE (require_bounded_positive_integer (max_assertions l) ''Maximum assertion count'' MAX_PLAN_ASSERTIONS)
     (\<lambda>_. Inr l))))"

text \<open>The canonical text is ASCII, so its UTF-8 encoding has one byte per character.\<close>

definition body_bytes :: "(string \<times> json) list option \<Rightarrow> int" where
  "body_bytes body = (case body of None \<Rightarrow> 0 | Some kvs \<Rightarrow> int (length (canonical_json (JObj kvs))))"

definition estimate :: "generated_test_case \<Rightarrow> execution_limits \<Rightarrow> plan_error + execution_estimate" where
  "estimate t l =
     (let n = int (length (tc_assertions t)); b = body_bytes (req_json_body (tc_request t)) in
      bindE (require (\<not> n > max_assertions l)
        (ExecutionPlanRejected ''Generated test exceeds the plan assertion-count limit'')) (\<lambda>_.
      bindE (require (\<not> b > max_request_body_bytes l)
        (ExecutionPlanRejected ''Generated test exceeds the plan request-body size limit'')) (\<lambda>_.
        Inr \<lparr>request_count = 1, request_body_bytes = b, assertion_count = n,
              maximum_response_bytes = max_response_bytes l,
              maximum_duration_ms = request_timeout_ms l\<rparr>)))"

definition material_test_case_payload :: "generated_test_case \<Rightarrow> (string \<times> json) list" where
  "material_test_case_payload t = filter (\<lambda>(k, _). k \<noteq> ''title'') (test_case_payload t)"

definition plan_material ::
  "target_configuration \<Rightarrow> generated_test_case \<Rightarrow> execution_limits \<Rightarrow> execution_estimate \<Rightarrow> json" where
  "plan_material tg t l e = JObj
     [(''schema_version'', JStr EXECUTION_PLAN_SCHEMA_VERSION),
      (''target'', JObj
        [(''id'', JStr (target_id_value (tg_id tg))), (''base_url'', JStr (tg_base_url tg)),
         (''schema_version'', JStr (tg_schema_version tg)),
         (''redirects_allowed'', JBool (tg_redirects_allowed tg))]),
      (''generated_test_case'', JObj (material_test_case_payload t)),
      (''limits'', JObj (limits_payload l)),
      (''estimate'', JObj (estimate_payload e))]"

definition plan_hash_payload ::
  "target_configuration \<Rightarrow> generated_test_case \<Rightarrow> execution_limits \<Rightarrow> execution_estimate \<Rightarrow> string" where
  "plan_hash_payload tg t l e = canonical_json (plan_material tg t l e)"

abbreviation plan_rejected :: "string \<Rightarrow> plan_error" where
  "plan_rejected \<equiv> ExecutionPlanRejected"

definition validate_execution_plan ::
  "runtime \<Rightarrow> execution_plan \<Rightarrow> target_registry \<Rightarrow> plan_error + execution_plan" where
  "validate_execution_plan rt plan registry =
     bindE (require (pl_schema_version plan = EXECUTION_PLAN_SCHEMA_VERSION)
       (plan_rejected ''Execution plan has an unsupported schema version'')) (\<lambda>_.
     bindE (test_case_from_snapshot rt (pl_test_case_payload plan)) (\<lambda>t.
     bindE (require (tc_id t = pl_test_case_id plan)
       (plan_rejected ''Execution plan test-case ID does not match its retained snapshot'')) (\<lambda>_.
     bindE (registered_target (target_id_value (pl_target_id plan)) registry) (\<lambda>tg.
     bindE (require (pl_target_base_url plan = tg_base_url tg
         \<and> pl_target_schema_version plan = tg_schema_version tg)
       (plan_rejected ''Execution plan target configuration changed after planning'')) (\<lambda>_.
     bindE (validated_limits (pl_limits plan)) (\<lambda>l.
     bindE (estimate t l) (\<lambda>e.
     bindE (require (pl_estimate plan = e)
       (plan_rejected ''Execution plan estimate does not match its test case and limits'')) (\<lambda>_.
     bindE (require (pl_hash plan = sha256_hex rt (plan_hash_payload tg t l e))
       (plan_rejected ''Execution plan material content does not match its SHA-256 hash'')) (\<lambda>_.
     bindE (require (pl_id plan = uuid5 rt EXECUTION_PLAN_NAMESPACE (sha256_hex rt (plan_hash_payload tg t l e)))
       (plan_rejected ''Execution plan ID does not match its canonical SHA-256 hash'')) (\<lambda>_.
       Inr plan))))))))))"

definition build_execution_plan ::
  "runtime \<Rightarrow> generated_test_case \<Rightarrow> string \<Rightarrow> execution_limits \<Rightarrow> target_registry \<Rightarrow> plan_error + execution_plan" where
  "build_execution_plan rt case0 tid limits registry =
     bindE (validated_test_case rt case0) (\<lambda>t.
     bindE (registered_target tid registry) (\<lambda>tg.
     bindE (validated_limits limits) (\<lambda>l.
     bindE (estimate t l) (\<lambda>e.
     (let h = sha256_hex rt (plan_hash_payload tg t l e) in
      validate_execution_plan rt
        \<lparr>pl_schema_version = EXECUTION_PLAN_SCHEMA_VERSION,
         pl_id = uuid5 rt EXECUTION_PLAN_NAMESPACE h,
         pl_target_id = tg_id tg,
         pl_target_base_url = tg_base_url tg,
         pl_target_schema_version = tg_schema_version tg,
         pl_test_case_id = tc_id t,
         pl_test_case_payload = canonical_json (JObj (test_case_payload t)),
         pl_limits = l,
         pl_estimate = e,
         pl_hash = h\<rparr> registry)))))"

definition plan_test_case :: "runtime \<Rightarrow> execution_plan \<Rightarrow> plan_error + generated_test_case" where
  "plan_test_case rt plan = test_case_from_snapshot rt (pl_test_case_payload plan)"

definition review_execution_plan ::
  "runtime \<Rightarrow> execution_plan \<Rightarrow> target_registry \<Rightarrow> plan_error + execution_plan_review" where
  "review_execution_plan rt plan registry =
     bindE (validate_execution_plan rt plan registry) (\<lambda>p.
     bindE (plan_test_case rt p) (\<lambda>t.
       Inr \<lparr>rv_plan_id = pl_id p, rv_plan_hash = pl_hash p, rv_target_id = pl_target_id p,
             rv_target_base_url = pl_target_base_url p, rv_test_case_id = pl_test_case_id p,
             rv_method = method_value (req_method (tc_request t)), rv_path = req_path (tc_request t),
             rv_citation_ids = tc_citation_ids t, rv_limits = pl_limits p, rv_estimate = pl_estimate p\<rparr>))"

section \<open>Snapshots\<close>

definition limits_ok :: "execution_limits \<Rightarrow> bool" where
  "limits_ok l \<longleftrightarrow> 1 \<le> request_timeout_ms l \<and> request_timeout_ms l \<le> MAX_REQUEST_TIMEOUT_MS
     \<and> 1 \<le> max_request_body_bytes l \<and> max_request_body_bytes l \<le> MAX_REQUEST_BODY_BYTES
     \<and> 1 \<le> max_response_bytes l \<and> max_response_bytes l \<le> MAX_RESPONSE_BYTES
     \<and> 1 \<le> max_assertions l \<and> max_assertions l \<le> MAX_PLAN_ASSERTIONS"

lemma validated_limits_Inr [exn_simps]: "validated_limits l = Inr m \<longleftrightarrow> m = l \<and> limits_ok l"
  by (auto simp: validated_limits_def require_bounded_positive_integer_def limits_ok_def exn_simps)

definition plan_fits :: "generated_test_case \<Rightarrow> execution_limits \<Rightarrow> bool" where
  "plan_fits t l \<longleftrightarrow> int (length (tc_assertions t)) \<le> max_assertions l
     \<and> body_bytes (req_json_body (tc_request t)) \<le> max_request_body_bytes l"

definition estimate_of :: "generated_test_case \<Rightarrow> execution_limits \<Rightarrow> execution_estimate" where
  "estimate_of t l = \<lparr>request_count = 1, request_body_bytes = body_bytes (req_json_body (tc_request t)),
     assertion_count = int (length (tc_assertions t)), maximum_response_bytes = max_response_bytes l,
     maximum_duration_ms = request_timeout_ms l\<rparr>"

lemma estimate_Inr [exn_simps]: "estimate t l = Inr e \<longleftrightarrow> plan_fits t l \<and> e = estimate_of t l"
  by (auto simp: estimate_def plan_fits_def estimate_of_def Let_def exn_simps)

lemma snapshot_round_trip:
  assumes "test_case_ok rt t" "json_ok rt (JObj (test_case_payload t))"
  shows "test_case_from_snapshot rt (canonical_json (JObj (test_case_payload t))) = Inr (canon_case t)"
  unfolding test_case_from_snapshot_def
  using loads_canonical_json [OF assms(2)] validate_canonical_payload [OF assms(1)]
  by (simp add: canon_JObj del: canon.simps)

lemma canon_case_simps [simp]:
  "tc_id (canon_case t) = tc_id t" "tc_assertions (canon_case t) = tc_assertions t"
  "tc_citation_ids (canon_case t) = tc_citation_ids t" "tc_title (canon_case t) = tc_title t"
  by (simp_all add: canon_case_def)

lemma canonical_json_canon_obj [simp]: "canonical_json (JObj (canon_obj kvs)) = canonical_json (JObj kvs)"
  using canonical_json_canon [of "JObj kvs"] by (simp add: canon_JObj del: canon.simps)

lemma body_bytes_canon [simp]: "body_bytes (map_option canon_obj b) = body_bytes b"
  by (simp add: body_bytes_def split: option.split)

lemma estimate_canon [simp]: "estimate (canon_case t) l = estimate t l"
  unfolding estimate_def by (simp add: canon_case_def)

lemma canon_obj_idem [simp]: "canon_obj (canon_obj kvs) = canon_obj kvs"
  using canon_idem [of "JObj kvs"] unfolding canon_JObj by simp

lemma canon_case_idem [simp]: "canon_case (canon_case t) = canon_case t"
  by (simp add: canon_case_def option.map_comp comp_def)

lemma canon_request_payload_canon [simp]:
  "canon (request_payload (tc_request (canon_case t))) = canon (request_payload (tc_request t))"
  by (simp add: request_payload_def canon_case_def option.map_comp comp_def)

lemma canon_material_canon [simp]:
  "canon (plan_material tg (canon_case t) l e) = canon (plan_material tg t l e)"
  by (simp add: plan_material_def material_test_case_payload_def test_case_payload_def)
    (simp add: canon_case_def)

lemma plan_hash_payload_canon [simp]: "plan_hash_payload tg (canon_case t) l e = plan_hash_payload tg t l e"
  by (simp add: plan_hash_payload_def canonical_json_def)

section \<open>Building and validating\<close>

definition plan_of :: "runtime \<Rightarrow> target_configuration \<Rightarrow> generated_test_case \<Rightarrow> execution_limits \<Rightarrow> execution_plan" where
  "plan_of rt tg t l =
     (let h = sha256_hex rt (plan_hash_payload tg t l (estimate_of t l)) in
      \<lparr>pl_schema_version = EXECUTION_PLAN_SCHEMA_VERSION,
       pl_id = uuid5 rt EXECUTION_PLAN_NAMESPACE h,
       pl_target_id = tg_id tg, pl_target_base_url = tg_base_url tg,
       pl_target_schema_version = tg_schema_version tg, pl_test_case_id = tc_id t,
       pl_test_case_payload = canonical_json (JObj (test_case_payload t)),
       pl_limits = l, pl_estimate = estimate_of t l, pl_hash = h\<rparr>)"

lemma validated_test_case_Inr [exn_simps]:
  "validated_test_case rt t = Inr u \<longleftrightarrow> validate_generated_test_case rt (test_case_payload t) = Inr u"
  by (simp add: validated_test_case_def exn_simps)

lemma registered_target_Inr [exn_simps]: "registered_target s r = Inr tg \<longleftrightarrow> registry_get r s = Inr tg"
  by (simp add: registered_target_def exn_simps)

lemma validate_execution_plan_Inr:
  "validate_execution_plan rt p r = Inr q \<longleftrightarrow> q = p \<and> pl_schema_version p = EXECUTION_PLAN_SCHEMA_VERSION \<and>
     (\<exists>t tg. plan_test_case rt p = Inr t \<and> registry_get r (target_id_value (pl_target_id p)) = Inr tg
       \<and> pl_test_case_id p = tc_id t \<and> pl_target_base_url p = tg_base_url tg
       \<and> pl_target_schema_version p = tg_schema_version tg \<and> limits_ok (pl_limits p)
       \<and> plan_fits t (pl_limits p) \<and> pl_estimate p = estimate_of t (pl_limits p)
       \<and> pl_hash p = sha256_hex rt (plan_hash_payload tg t (pl_limits p) (pl_estimate p))
       \<and> pl_id p = uuid5 rt EXECUTION_PLAN_NAMESPACE (pl_hash p))"
  by (auto simp: validate_execution_plan_def plan_test_case_def exn_simps)

lemma registry_get_self: "registry_get r s = Inr tg \<Longrightarrow> registry_get r (target_id_value (tg_id tg)) = Inr tg"
  using registry_get_Inr by force

lemma estimate_of_canon [simp]: "estimate_of (canon_case t) l = estimate_of t l"
  by (simp add: estimate_of_def) (simp add: canon_case_def)

lemma plan_fits_canon [simp]: "plan_fits (canon_case t) l = plan_fits t l"
  by (simp add: plan_fits_def) (simp add: canon_case_def)

lemma plan_of_valid:
  assumes "test_case_ok rt t" "json_ok rt (JObj (test_case_payload t))"
    and "registry_get r s = Inr tg" "limits_ok l" "plan_fits t l"
  shows "validate_execution_plan rt (plan_of rt tg t l) r = Inr (plan_of rt tg t l)"
    and "plan_test_case rt (plan_of rt tg t l) = Inr (canon_case t)"
proof -
  show c: "plan_test_case rt (plan_of rt tg t l) = Inr (canon_case t)"
    using snapshot_round_trip [OF assms(1,2)] by (simp add: plan_test_case_def plan_of_def Let_def)
  show "validate_execution_plan rt (plan_of rt tg t l) r = Inr (plan_of rt tg t l)"
    unfolding validate_execution_plan_Inr using assms registry_get_self [OF assms(3)] c
    by (simp add: plan_of_def Let_def)
qed

lemma build_execution_plan_Inr:
  assumes "test_case_ok rt t" "json_ok rt (JObj (test_case_payload t))"
  shows "build_execution_plan rt t s l r = Inr p \<longleftrightarrow> limits_ok l \<and> plan_fits t l
    \<and> (\<exists>tg. registry_get r s = Inr tg \<and> p = plan_of rt tg t l)"
proof -
  have "build_execution_plan rt t s l r = bindE (registered_target s r) (\<lambda>tg. bindE (validated_limits l) (\<lambda>m.
      bindE (estimate t m) (\<lambda>e. validate_execution_plan rt (plan_of rt tg t l) r)))"
    using validate_payload [OF assms(1)]
    by (auto simp: build_execution_plan_def validated_test_case_def plan_of_def Let_def exn_simps
      intro!: bindE_cong)
  then show ?thesis
    using plan_of_valid(1) [OF assms] validate_execution_plan_Inr by (auto simp: exn_simps)
qed

section \<open>What the hash binds\<close>

definition retitle :: "string \<Rightarrow> generated_test_case \<Rightarrow> generated_test_case" where
  "retitle s t = t\<lparr>tc_title := s\<rparr>"

lemma retitle_material [simp]:
  "material_test_case_payload (retitle s t) = material_test_case_payload t"
  "estimate_of (retitle s t) l = estimate_of t l" "plan_fits (retitle s t) l = plan_fits t l"
  "plan_hash_payload tg (retitle s t) l e = plan_hash_payload tg t l e"
  by (simp_all add: retitle_def material_test_case_payload_def test_case_payload_def estimate_of_def
    plan_fits_def plan_hash_payload_def plan_material_def)

lemma retitle_ok: "test_case_ok rt t \<Longrightarrow> text_ok s \<Longrightarrow> test_case_ok rt (retitle s t)"
  by (simp add: retitle_def test_case_ok_def)

lemma material_determines_case:
  assumes "test_case_ok rt t" "test_case_ok rt u"
    and "canon (JObj (material_test_case_payload t)) = canon (JObj (material_test_case_payload u))"
  shows "canon_case (retitle (tc_title u) t) = canon_case u"
proof -
  have "canon_obj (test_case_payload (retitle (tc_title u) t)) = canon_obj (test_case_payload u)"
    using assms(3) by (simp add: canon_obj_def material_test_case_payload_def test_case_payload_def retitle_def)
  moreover have "test_case_ok rt (retitle (tc_title u) t)"
    using assms by (intro retitle_ok) (simp_all add: test_case_ok_def)
  ultimately show ?thesis
    using validate_canonical_payload assms(2) by (metis sum.inject(2))
qed

lemma json_ok_material:
  assumes "json_ok rt (JObj (test_case_payload t))"
  shows "json_ok rt (plan_material tg t l e)"
  using assms by (auto simp: plan_material_def material_test_case_payload_def test_case_payload_def
    limits_payload_def estimate_payload_def)

lemma plan_hash_payload_inj:
  assumes "plan_hash_payload tg t l e = plan_hash_payload tg' u l' e'"
    and "json_ok rt (JObj (test_case_payload t))" "json_ok rt (JObj (test_case_payload u))"
  shows "target_id_value (tg_id tg) = target_id_value (tg_id tg') \<and> tg_base_url tg = tg_base_url tg'
    \<and> tg_schema_version tg = tg_schema_version tg' \<and> tg_redirects_allowed tg = tg_redirects_allowed tg'
    \<and> l = l' \<and> e = e'
    \<and> canon (JObj (material_test_case_payload t)) = canon (JObj (material_test_case_payload u))"
proof -
  have "canon (plan_material tg t l e) = canon (plan_material tg' u l' e')"
    using canonical_json_inj json_ok_material assms unfolding plan_hash_payload_def by blast
  then show ?thesis
    unfolding plan_material_def by (simp add: limits_payload_def estimate_payload_def)
qed

section \<open>No uncaught KeyError\<close>

lemma rejected_proposal_nokey:
  "except (validate_generated_test_case rt p) (rejected_proposal m) \<noteq> Inl (PlanKeyError k)"
proof
  assume "except (validate_generated_test_case rt p) (rejected_proposal m) = Inl (PlanKeyError k)"
  then obtain e where "validate_generated_test_case rt p = Inl e" "rejected_proposal m e = PlanKeyError k"
    by (auto simp: exn_simps)
  then show False using validate_never_KeyError by (cases e) auto
qed

lemma snapshot_never_KeyError: "test_case_from_snapshot rt s \<noteq> Inl (PlanKeyError k)"
  using rejected_proposal_nokey
  by (auto simp: test_case_from_snapshot_def split: option.splits json.splits)

lemma validate_plan_never_KeyError: "validate_execution_plan rt p r \<noteq> Inl (PlanKeyError k)"
  using snapshot_never_KeyError
  by (auto simp: validate_execution_plan_def registered_target_def validated_limits_def estimate_def
    require_bounded_positive_integer_def Let_def exn_simps)

end
