(* ===== verification/Store.thy ===== *)
theory Store
  imports Prelude "HOL-Library.Product_Lexorder"
begin

text \<open>
  What the sources use of the relational database through SQLAlchemy.  A table is the list of its
  rows; a statement reads or rewrites it, or fails with a \<open>db_error\<close>, in which case its transaction
  rolls back.  Declared CHECK constraints are a predicate on rows, declared primary keys and
  UNIQUE constraints a conflict relation between rows.

  The locale \<open>table\<close> is the interface between the store and the repositories: a table whose rows
  satisfy the checks and do not conflict keeps both under every statement, and a selection by a
  key returns at most one row.
\<close>

section \<open>Statements\<close>

datatype db_error = IntegrityError | DataError | OperationalError | MultipleResultsFound

text \<open>\<open>scalar_one_or_none()\<close> on the selected rows.\<close>

fun scalar_one_or_none :: "'r list \<Rightarrow> db_error + 'r option" where
  "scalar_one_or_none [] = Inr None"
| "scalar_one_or_none [r] = Inr (Some r)"
| "scalar_one_or_none (r # s # rs) = Inl MultipleResultsFound"

text \<open>\<open>order_by(key).limit(1)\<close>, then \<open>scalar_one_or_none()\<close>.\<close>

definition first_by :: "('r \<Rightarrow> 'k::linorder) \<Rightarrow> 'r list \<Rightarrow> 'r option" where
  "first_by key rows = (case sort_key key rows of [] \<Rightarrow> None | r # _ \<Rightarrow> Some r)"

text \<open>\<open>INSERT\<close>: a violated CHECK, key or reference is an \<open>IntegrityError\<close>.\<close>

definition insert_row :: "('r \<Rightarrow> bool) \<Rightarrow> ('r \<Rightarrow> 'r \<Rightarrow> bool) \<Rightarrow> 'r \<Rightarrow> 'r list \<Rightarrow> db_error + 'r list" where
  "insert_row checks conflict row rows =
     (if checks row \<and> list_all (\<lambda>r. \<not> conflict row r) rows then Inr (rows @ [row])
      else Inl IntegrityError)"

text \<open>\<open>UPDATE .. WHERE .. RETURNING\<close>: the new table and the rows written.\<close>

definition update_where ::
  "('r \<Rightarrow> bool) \<Rightarrow> ('r \<Rightarrow> bool) \<Rightarrow> ('r \<Rightarrow> 'r) \<Rightarrow> 'r list \<Rightarrow> db_error + ('r list \<times> 'r list)" where
  "update_where checks p f rows =
     (if list_all (\<lambda>r. p r \<longrightarrow> checks (f r)) rows
      then Inr (map (\<lambda>r. if p r then f r else r) rows, map f (filter p rows))
      else Inl IntegrityError)"

text \<open>SQL \<open>trim\<close> removes spaces only.\<close>

definition sql_trim :: "string \<Rightarrow> string" where
  "sql_trim s = strip_by (\<lambda>c. c = CHR '' '') s"

section \<open>The contract of a table\<close>

fun no_conflict :: "('r \<Rightarrow> 'r \<Rightarrow> bool) \<Rightarrow> 'r list \<Rightarrow> bool" where
  "no_conflict c [] = True"
| "no_conflict c (r # rs) = (list_all (\<lambda>s. \<not> c r s) rs \<and> no_conflict c rs)"

definition table_ok :: "('r \<Rightarrow> bool) \<Rightarrow> ('r \<Rightarrow> 'r \<Rightarrow> bool) \<Rightarrow> 'r list \<Rightarrow> bool" where
  "table_ok checks conflict rows \<longleftrightarrow> (\<forall>r \<in> set rows. checks r) \<and> no_conflict conflict rows"

lemma table_ok_Nil [simp]: "table_ok c k []"
  by (simp add: table_ok_def)

lemma scalar_one_or_none_Some [store_simps]:
  "scalar_one_or_none rs = Inr (Some r) \<longleftrightarrow> rs = [r]"
  by (cases rs rule: scalar_one_or_none.cases) auto

lemma scalar_one_or_none_None [store_simps]: "scalar_one_or_none rs = Inr None \<longleftrightarrow> rs = []"
  by (cases rs rule: scalar_one_or_none.cases) auto

lemma scalar_one_or_none_in: "scalar_one_or_none (filter p rows) = Inr (Some r) \<Longrightarrow> r \<in> set rows \<and> p r"
  by (auto simp: store_simps filter_eq_Cons_iff)

lemma first_by_in: "first_by key rows = Some r \<Longrightarrow> r \<in> set rows"
  unfolding first_by_def by (metis list.exhaust list.set_intros(1) list.simps(4,5) option.inject
      option.simps(3) set_sort)

lemma first_by_least: "first_by key rows = Some r \<Longrightarrow> s \<in> set rows \<Longrightarrow> key r \<le> key s"
proof -
  assume f: "first_by key rows = Some r" and s: "s \<in> set rows"
  then obtain rs where rs: "sort_key key rows = r # rs"
    by (auto simp: first_by_def split: list.splits)
  have "sorted (map key (r # rs))" using sorted_sort_key [of key rows] rs by simp
  moreover have "s \<in> set (r # rs)" using s rs by (metis set_sort)
  ultimately show "key r \<le> key s" by auto
qed

lemma first_by_None [store_simps]: "first_by key rows = None \<longleftrightarrow> rows = []"
proof -
  have "sort_key key rows = [] \<longleftrightarrow> rows = []" by (metis length_0_conv length_sort)
  then show ?thesis by (auto simp: first_by_def split: list.splits)
qed

lemma insert_row_Inr [store_simps]:
  "insert_row c k row rows = Inr rows' \<longleftrightarrow>
   c row \<and> (\<forall>r \<in> set rows. \<not> k row r) \<and> rows' = rows @ [row]"
  by (auto simp: insert_row_def list_all_iff)

lemma update_where_Inr [store_simps]:
  "update_where c p f rows = Inr (rows', out) \<longleftrightarrow>
   (\<forall>r \<in> set rows. p r \<longrightarrow> c (f r)) \<and> rows' = map (\<lambda>r. if p r then f r else r) rows
   \<and> out = map f (filter p rows)"
  by (auto simp: update_where_def list_all_iff)

lemma no_conflict_append:
  "no_conflict k (rs @ [r]) \<longleftrightarrow> no_conflict k rs \<and> (\<forall>s \<in> set rs. \<not> k s r)"
  by (induction rs) (auto simp: list_all_iff)

lemma no_conflict_map:
  "no_conflict k rs \<Longrightarrow> (\<And>r s. r \<in> set rs \<Longrightarrow> s \<in> set rs \<Longrightarrow> k (f r) (f s) \<Longrightarrow> k r s) \<Longrightarrow>
   no_conflict k (map f rs)"
  by (induction rs) (auto simp: list_all_iff)

lemma find_filter: "find p rs = (case filter p rs of [] \<Rightarrow> None | r # _ \<Rightarrow> Some r)"
  by (induction rs) auto

locale table =
  fixes checks :: "'r \<Rightarrow> bool" and conflict :: "'r \<Rightarrow> 'r \<Rightarrow> bool"
  assumes conflict_sym: "conflict r s \<Longrightarrow> conflict s r"
begin

abbreviation "ok \<equiv> table_ok checks conflict"

lemma insert_keeps: "ok rows \<Longrightarrow> insert_row checks conflict row rows = Inr rows' \<Longrightarrow> ok rows'"
  using conflict_sym by (auto simp: table_ok_def store_simps no_conflict_append)

lemma map_keeps:
  assumes "ok rows" and "\<And>r. r \<in> set rows \<Longrightarrow> checks (f r)"
    and "\<And>r s. r \<in> set rows \<Longrightarrow> s \<in> set rows \<Longrightarrow> conflict (f r) (f s) \<Longrightarrow> conflict r s"
  shows "ok (map f rows)"
  using assms no_conflict_map [of conflict rows f] by (auto simp: table_ok_def)

lemma update_keeps:
  assumes "ok rows" "update_where checks p f rows = Inr (rows', out)"
    and "\<And>r s. conflict (f r) s \<Longrightarrow> conflict r s"
  shows "ok rows'"
proof -
  have one: "conflict r s" if "conflict (if p r then f r else r) s" for r s
    using that assms(3) by presburger
  have k: "conflict r s" if "conflict (if p r then f r else r) (if p s then f s else s)" for r s
    using one [OF conflict_sym [OF one [OF that]]] by (rule conflict_sym)
  from assms(2) have r: "rows' = map (\<lambda>r. if p r then f r else r) rows"
    and c: "\<forall>r \<in> set rows. p r \<longrightarrow> checks (f r)"
    by (auto simp: store_simps)
  show ?thesis unfolding r
  proof (rule map_keeps [OF assms(1)])
    fix r assume "r \<in> set rows"
    with c assms(1) show "checks (if p r then f r else r)" by (simp add: table_ok_def)
  qed (rule k)
qed

lemma unique_row:
  assumes "ok rows" and "\<And>r s. p r \<Longrightarrow> p s \<Longrightarrow> conflict r s"
  shows "filter p rows = [] \<or> (\<exists>r \<in> set rows. p r \<and> filter p rows = [r])"
  using assms
proof (induction rows)
  case (Cons r rows)
  then have n: "list_all (\<lambda>s. \<not> conflict r s) rows" and o: "ok rows"
    by (auto simp: table_ok_def)
  show ?case
  proof (cases "p r")
    case True
    then have "filter p rows = []" using n Cons.prems(2) by (auto simp: list_all_iff filter_empty_conv)
    with True show ?thesis by simp
  next
    case False
    with Cons.IH [OF o Cons.prems(2)] show ?thesis by auto
  qed
qed simp

lemma unique_select:
  assumes "ok rows" and "\<And>r s. p r \<Longrightarrow> p s \<Longrightarrow> conflict r s"
  shows "scalar_one_or_none (filter p rows) = Inr (find p rows)"
proof -
  have "filter p rows = [] \<or> (\<exists>r \<in> set rows. p r \<and> filter p rows = [r])"
    by (rule unique_row) (use assms in auto)
  then show ?thesis by (auto simp: find_filter)
qed

lemma conflict_eq: "ok rows \<Longrightarrow> r \<in> set rows \<Longrightarrow> s \<in> set rows \<Longrightarrow> conflict r s \<Longrightarrow> r = s"
  using conflict_sym by (induction rows) (auto simp: table_ok_def list_all_iff)

end

end
