(* ===== verification/Auth.thy ===== *)
theory Auth
  imports Py_Url
begin

text \<open>
  Authentication (\<open>auth.py\<close>): settings from the environment, validation of Cognito access tokens, and
  the boundary that resolves a request to a principal.  PyJWT is a parameter: what its three calls
  return for a token, \<open>None\<close> standing for the exceptions the source maps to a credential error.
\<close>

section \<open>Data\<close>

definition COGNITO_SIGNING_ALGORITHM :: string where "COGNITO_SIGNING_ALGORITHM = ''RS256''"
definition COGNITO_TOKEN_USE :: string where "COGNITO_TOKEN_USE = ''access''"
definition OWNER_REQUIRED_DETAIL :: string where "OWNER_REQUIRED_DETAIL = ''Owner access required''"
definition INVALID_CREDENTIALS_DETAIL :: string where
  "INVALID_CREDENTIALS_DETAIL = ''Invalid or missing credentials''"
definition GUEST_READ_ONLY_DETAIL :: string where
  "GUEST_READ_ONLY_DETAIL = ''Guest access is read-only''"

text \<open>\<open>IssuerValueError\<close> is the \<open>ValueError\<close> of \<open>urlsplit\<close> on the issuer.\<close>

datatype auth_configuration_error = AuthConfigurationError string | IssuerValueError

datatype app_environment = LOCAL | PREVIEW | PRODUCTION

definition app_environment_of :: "string \<Rightarrow> app_environment option" where
  "app_environment_of s = (if s = ''local'' then Some LOCAL else if s = ''preview'' then Some PREVIEW
     else if s = ''production'' then Some PRODUCTION else None)"

record cognito_settings =
  cs_issuer :: string
  cs_client_id :: string
  cs_owner_subject :: string

record auth_settings =
  app_env :: app_environment
  local_auth_bypass_enabled :: bool
  cognito :: "cognito_settings option"

record cognito_identity =
  ci_issuer :: string
  ci_subject :: string

datatype owner_principal =
    CognitoOwnerPrincipal (owner_issuer: string) (owner_subject: string)
  | LocalDevelopmentOwnerPrincipal

datatype principal = Owner owner_principal | AnonymousGuest

fun authentication_source :: "owner_principal \<Rightarrow> string" where
  "authentication_source (CognitoOwnerPrincipal i s) = ''cognito''"
| "authentication_source LocalDevelopmentOwnerPrincipal = ''local_bypass''"

record owner_resolution_failure =
  of_status_code :: nat
  of_detail :: string
  of_reason :: string
  of_actor_id :: "string option"

record http_request =
  rq_method :: string
  rq_authorization :: "string option"

text \<open>
  \<open>get_unverified_header\<close>, \<open>get_signing_key_from_jwt\<close> (the algorithm name and the key), and
  \<open>decode token key issuer\<close> with the options the source passes (signature, expiry, not-before and
  issuer checks and the five required claims).
\<close>

record jwt_library =
  get_unverified_header :: "string \<Rightarrow> (string \<times> json) list option"
  get_signing_key_from_jwt :: "string \<Rightarrow> (string \<times> string) option"
  jwt_decode :: "string \<Rightarrow> string \<Rightarrow> string \<Rightarrow> (string \<times> json) list option"

section \<open>Settings\<close>

definition validate_cognito_settings :: "runtime \<Rightarrow> cognito_settings \<Rightarrow> auth_configuration_error + unit" where
  "validate_cognito_settings rt c =
     bindE (mapE (\<lambda>(name, value). require (value \<noteq> [] \<and> value = strip value)
         (AuthConfigurationError (name @ '' must be a non-empty value'')))
       [(''COGNITO_ISSUER'', cs_issuer c), (''COGNITO_CLIENT_ID'', cs_client_id c),
        (''COGNITO_OWNER_SUBJECT'', cs_owner_subject c)]) (\<lambda>_.
     case urlsplit rt (cs_issuer c) of
       None \<Rightarrow> Inl IssuerValueError
     | Some issuer \<Rightarrow>
         require (\<not> (us_scheme issuer \<noteq> ''https'' \<or> hostname_of issuer = None \<or> userinfo issuer \<noteq> None
             \<or> us_query issuer \<noteq> [] \<or> us_fragment issuer \<noteq> []))
           (AuthConfigurationError
             ''COGNITO_ISSUER must be an HTTPS issuer URL without credentials, query, or fragment''))"

definition validate_auth_settings :: "runtime \<Rightarrow> auth_settings \<Rightarrow> auth_configuration_error + unit" where
  "validate_auth_settings rt s =
     bindE (require (\<not> (local_auth_bypass_enabled s \<and> app_env s \<noteq> LOCAL))
       (AuthConfigurationError ''LOCAL_AUTH_BYPASS_ENABLED may be true only when APP_ENV=local'')) (\<lambda>_.
     bindE (case cognito s of None \<Rightarrow> Inr () | Some c \<Rightarrow> validate_cognito_settings rt c) (\<lambda>_.
     require (\<not> (app_env s \<noteq> LOCAL \<and> cognito s = None))
       (AuthConfigurationError ''Preview and production require complete Cognito configuration'')))"

definition env_get :: "(string \<times> string) list \<Rightarrow> string \<Rightarrow> string \<Rightarrow> string" where
  "env_get env name dflt = (case map_of env name of None \<Rightarrow> dflt | Some v \<Rightarrow> v)"

definition auth_settings_from_mapping ::
  "runtime \<Rightarrow> (string \<times> string) list \<Rightarrow> auth_configuration_error + auth_settings" where
  "auth_settings_from_mapping rt env =
     (let raw_app_env = strip (env_get env ''APP_ENV'' []) in
      bindE (require (raw_app_env \<noteq> []) (AuthConfigurationError ''APP_ENV must be explicitly configured'')) (\<lambda>_.
      case app_environment_of raw_app_env of
        None \<Rightarrow> Inl (AuthConfigurationError ''APP_ENV must be one of: local, preview, production'')
      | Some ae \<Rightarrow>
          (let bypass = lower (strip (env_get env ''LOCAL_AUTH_BYPASS_ENABLED'' ''false''));
               issuer = strip (env_get env ''COGNITO_ISSUER'' []);
               client_id = strip (env_get env ''COGNITO_CLIENT_ID'' []);
               owner_subject = strip (env_get env ''COGNITO_OWNER_SUBJECT'' []);
               configured = [issuer \<noteq> [], client_id \<noteq> [], owner_subject \<noteq> []] in
           bindE (require (bypass \<in> {''true'', ''false''})
             (AuthConfigurationError ''LOCAL_AUTH_BYPASS_ENABLED must be exactly true or false'')) (\<lambda>_.
           bindE (require (\<not> (list_ex id configured \<and> \<not> list_all id configured))
             (AuthConfigurationError
               ''COGNITO_ISSUER, COGNITO_CLIENT_ID, and COGNITO_OWNER_SUBJECT must be configured together'')) (\<lambda>_.
           (let settings = \<lparr>app_env = ae, local_auth_bypass_enabled = (bypass = ''true''),
                  cognito = (if list_all id configured
                    then Some \<lparr>cs_issuer = issuer, cs_client_id = client_id, cs_owner_subject = owner_subject\<rparr>
                    else None)\<rparr>
            in bindE (validate_auth_settings rt settings) (\<lambda>_. Inr settings)))))))"

section \<open>Token validation\<close>

definition required_string_claim :: "(string \<times> json) list \<Rightarrow> string \<Rightarrow> string + string" where
  "required_string_claim claims name = (case map_of claims name of
     Some (JStr v) \<Rightarrow> if v = [] then Inl (''Invalid '' @ name @ '' claim'') else Inr v
   | _ \<Rightarrow> Inl (''Invalid '' @ name @ '' claim''))"

text \<open>\<open>CognitoJwtValidator.validate\<close>; the error is the text of the \<open>InvalidCredentialsError\<close>.\<close>

definition validate_token :: "jwt_library \<Rightarrow> cognito_settings \<Rightarrow> string \<Rightarrow> string + cognito_identity" where
  "validate_token jwt c token =
     (case get_unverified_header jwt token of
        None \<Rightarrow> Inl ''Cognito token validation failed''
      | Some header \<Rightarrow>
          bindE (require (map_of header ''alg'' = Some (JStr COGNITO_SIGNING_ALGORITHM))
            ''Unapproved token algorithm'') (\<lambda>_.
          bindE (require (case map_of header ''kid'' of Some (JStr kid) \<Rightarrow> kid \<noteq> [] | _ \<Rightarrow> False)
            ''Missing token key identifier'') (\<lambda>_.
          case get_signing_key_from_jwt jwt token of
            None \<Rightarrow> Inl ''Cognito token validation failed''
          | Some (algorithm_name, key) \<Rightarrow>
              bindE (require (algorithm_name = COGNITO_SIGNING_ALGORITHM)
                ''Unapproved JWKS signing algorithm'') (\<lambda>_.
              case jwt_decode jwt token key (cs_issuer c) of
                None \<Rightarrow> Inl ''Cognito token validation failed''
              | Some claims \<Rightarrow>
                  bindE (required_string_claim claims ''iss'') (\<lambda>issuer.
                  bindE (required_string_claim claims ''sub'') (\<lambda>subject.
                  bindE (required_string_claim claims ''client_id'') (\<lambda>client_id.
                  bindE (required_string_claim claims ''token_use'') (\<lambda>token_use.
                  bindE (require (client_id = cs_client_id c) ''Unexpected Cognito client ID'') (\<lambda>_.
                  bindE (require (token_use = COGNITO_TOKEN_USE) ''Unexpected Cognito token use'') (\<lambda>_.
                    Inr \<lparr>ci_issuer = issuer, ci_subject = subject\<rparr>))))))))))"

section \<open>The boundary\<close>

definition bearer_token :: "string option \<Rightarrow> string option" where
  "bearer_token authorization = (case authorization of
     None \<Rightarrow> None
   | Some value \<Rightarrow>
       (case partition_at (CHR '' '') value of (scheme, separator, credentials) \<Rightarrow>
          let token = strip credentials in
          if \<not> separator \<or> lower scheme \<noteq> ''bearer'' \<or> token = [] \<or> list_ex is_space token
          then None else Some token))"

definition invalid_credentials :: owner_resolution_failure where
  "invalid_credentials = \<lparr>of_status_code = 401, of_detail = INVALID_CREDENTIALS_DETAIL,
     of_reason = ''invalid_or_missing_credentials'', of_actor_id = None\<rparr>"

definition resolve_owner ::
  "jwt_library \<Rightarrow> auth_settings \<Rightarrow> http_request \<Rightarrow> owner_resolution_failure + owner_principal" where
  "resolve_owner jwt s request =
     (if local_auth_bypass_enabled s then Inr LocalDevelopmentOwnerPrincipal
      else case (bearer_token (rq_authorization request), cognito s) of
        (Some token, Some c) \<Rightarrow>
          (case validate_token jwt c token of
             Inl _ \<Rightarrow> Inl invalid_credentials
           | Inr identity \<Rightarrow>
               if (ci_issuer identity, ci_subject identity) \<noteq> (cs_issuer c, cs_owner_subject c)
               then Inl \<lparr>of_status_code = 403, of_detail = OWNER_REQUIRED_DETAIL,
                     of_reason = ''valid_non_owner'', of_actor_id = Some (ci_subject identity)\<rparr>
               else Inr (CognitoOwnerPrincipal (ci_issuer identity) (ci_subject identity)))
      | _ \<Rightarrow> Inl invalid_credentials)"

definition resolve_public_demo_principal ::
  "jwt_library \<Rightarrow> auth_settings \<Rightarrow> http_request \<Rightarrow> owner_resolution_failure + principal" where
  "resolve_public_demo_principal jwt s request =
     (if local_auth_bypass_enabled s then Inr (Owner LocalDevelopmentOwnerPrincipal)
      else if rq_authorization request = None then Inr AnonymousGuest
      else bindE (resolve_owner jwt s request) (\<lambda>p. Inr (Owner p)))"

text \<open>The HTTP answer: status, detail and whether \<open>WWW-Authenticate: Bearer\<close> is set.\<close>

definition as_http_exception :: "owner_resolution_failure \<Rightarrow> nat \<times> string \<times> bool" where
  "as_http_exception e = (of_status_code e, of_detail e, of_status_code e = 401)"

definition require_owner ::
  "jwt_library \<Rightarrow> auth_settings \<Rightarrow> http_request \<Rightarrow> (nat \<times> string \<times> bool) + owner_principal" where
  "require_owner jwt s request = except (resolve_owner jwt s request) as_http_exception"

definition require_anonymous_guest_read :: "http_request \<Rightarrow> (nat \<times> string \<times> bool) + principal" where
  "require_anonymous_guest_read request =
     (if rq_method request \<notin> {''GET'', ''HEAD''} then Inl (403, GUEST_READ_ONLY_DETAIL, False)
      else Inr AnonymousGuest)"

section \<open>Who becomes the owner\<close>

lemma required_string_claim_Inr [exn_simps]:
  "required_string_claim claims n = Inr v \<longleftrightarrow> map_of claims n = Some (JStr v) \<and> v \<noteq> []"
  by (auto simp: required_string_claim_def split: option.splits json.splits if_splits)

lemma validate_token_Inr:
  "validate_token jwt c token = Inr i \<longleftrightarrow>
   (\<exists>header kid key claims. get_unverified_header jwt token = Some header
      \<and> map_of header ''alg'' = Some (JStr COGNITO_SIGNING_ALGORITHM)
      \<and> map_of header ''kid'' = Some (JStr kid) \<and> kid \<noteq> []
      \<and> get_signing_key_from_jwt jwt token = Some (COGNITO_SIGNING_ALGORITHM, key)
      \<and> jwt_decode jwt token key (cs_issuer c) = Some claims
      \<and> map_of claims ''iss'' = Some (JStr (ci_issuer i)) \<and> ci_issuer i \<noteq> []
      \<and> map_of claims ''sub'' = Some (JStr (ci_subject i)) \<and> ci_subject i \<noteq> []
      \<and> map_of claims ''client_id'' = Some (JStr (cs_client_id c)) \<and> cs_client_id c \<noteq> []
      \<and> map_of claims ''token_use'' = Some (JStr COGNITO_TOKEN_USE))"
  by (cases i) (auto simp: validate_token_def exn_simps COGNITO_TOKEN_USE_def split: option.splits json.splits)

lemma resolve_owner_Inr:
  "resolve_owner jwt s request = Inr p \<longleftrightarrow>
     local_auth_bypass_enabled s \<and> p = LocalDevelopmentOwnerPrincipal
   \<or> \<not> local_auth_bypass_enabled s \<and> (\<exists>token c i. bearer_token (rq_authorization request) = Some token
       \<and> cognito s = Some c \<and> validate_token jwt c token = Inr i
       \<and> ci_issuer i = cs_issuer c \<and> ci_subject i = cs_owner_subject c
       \<and> p = CognitoOwnerPrincipal (cs_issuer c) (cs_owner_subject c))"
  by (auto simp: resolve_owner_def split: option.splits sum.splits if_splits)

lemma auth_settings_from_mapping_bypass:
  "auth_settings_from_mapping rt env = Inr s \<Longrightarrow> validate_auth_settings rt s = Inr ()
   \<and> (local_auth_bypass_enabled s \<longrightarrow> app_env s = LOCAL)"
  by (auto simp: auth_settings_from_mapping_def validate_auth_settings_def Let_def exn_simps
    split: option.splits)

end
