(* ===== verification/Execution_Approvals.thy ===== *)
theory Execution_Approvals
  imports Execution_Plans Store Auth
begin

text \<open>
  Durable one-time approvals bound to immutable plans (\<open>execution_approvals.py\<close> and the table
  \<open>execution_approvals\<close> of \<open>documents.py\<close>): the snapshot of a plan, the row and its constraints,
  creation, reading and consumption of an approval, and the service that approves a plan.

  Every operation takes the table and returns its result with the table it leaves.  The boolean \<open>up\<close>
  says whether the database answers; \<open>now\<close> and \<open>new_id\<close> are what the injected clock and identifier
  factory return.
\<close>

section \<open>Data\<close>

definition EXECUTION_APPROVAL_TTL :: int where "EXECUTION_APPROVAL_TTL = 10 * 60 * 1000000"
definition MAX_EXECUTION_APPROVAL_COMMENT_LENGTH :: nat where
  "MAX_EXECUTION_APPROVAL_COMMENT_LENGTH = 1000"
definition LOCAL_DEVELOPMENT_APPROVER_ID :: string where
  "LOCAL_DEVELOPMENT_APPROVER_ID = ''local-development-owner''"

text \<open>\<open>ApprovalKeyError\<close> is a \<open>KeyError\<close> of the proposal validator, which no handler catches.\<close>

datatype approval_error =
    ExecutionApprovalUnavailable
  | ExecutionApprovalRejected string
  | ExecutionApprovalConflict string
  | ApprovalKeyError string

record execution_approval =
  ea_id :: uuid
  ea_project_id :: uuid
  ea_plan :: execution_plan
  ea_approver_id :: string
  ea_source :: string
  ea_comment :: "string option"
  ea_approved_at :: instant
  ea_expires_at :: instant
  ea_consumed_at :: "instant option"

record approval_row =
  ar_id :: uuid
  ar_project_id :: uuid
  ar_plan_id :: uuid
  ar_plan_hash :: string
  ar_plan_snapshot :: string
  ar_approver_id :: string
  ar_source :: string
  ar_comment :: "string option"
  ar_approved_at :: instant
  ar_expires_at :: instant
  ar_consumed_at :: "instant option"

definition approval_checks :: "approval_row \<Rightarrow> bool" where
  "approval_checks r \<longleftrightarrow> length (ar_plan_hash r) = 64 \<and> length (sql_trim (ar_plan_snapshot r)) > 0
     \<and> length (sql_trim (ar_approver_id r)) > 0 \<and> ar_source r \<in> {''cognito'', ''local_bypass''}
     \<and> ar_expires_at r > ar_approved_at r
     \<and> (case ar_consumed_at r of None \<Rightarrow> True | Some c \<Rightarrow> c \<ge> ar_approved_at r)"

definition approval_conflict :: "approval_row \<Rightarrow> approval_row \<Rightarrow> bool" where
  "approval_conflict r s \<longleftrightarrow> ar_id r = ar_id s
     \<or> ar_project_id r = ar_project_id s \<and> (ar_plan_id r = ar_plan_id s \<or> ar_plan_hash r = ar_plan_hash s)"

text \<open>A text wider than its column is a \<open>DataError\<close>.\<close>

definition approval_widths :: "approval_row \<Rightarrow> bool" where
  "approval_widths r \<longleftrightarrow> length (ar_plan_hash r) \<le> 64 \<and> length (ar_approver_id r) \<le> 512 \<and> length (ar_source r) \<le> 32"

section \<open>Plan snapshots\<close>

definition plan_snapshot_payload :: "execution_plan \<Rightarrow> (string \<times> json) list" where
  "plan_snapshot_payload p =
     [(''schema_version'', JStr (pl_schema_version p)),
      (''id'', JStr (uuid_str (pl_id p))),
      (''target_id'', JStr (target_id_value (pl_target_id p))),
      (''target_base_url'', JStr (pl_target_base_url p)),
      (''target_schema_version'', JStr (pl_target_schema_version p)),
      (''test_case_id'', JStr (uuid_str (pl_test_case_id p))),
      (''test_case_payload'', JStr (pl_test_case_payload p)),
      (''limits'', JObj (limits_payload (pl_limits p))),
      (''estimate'', JObj (estimate_payload (pl_estimate p))),
      (''plan_hash'', JStr (pl_hash p))]"

definition plan_snapshot :: "execution_plan \<Rightarrow> string" where
  "plan_snapshot p = canonical_json (JObj (plan_snapshot_payload p))"

text \<open>The readers raise \<open>ValueError\<close>, here \<open>None\<close>; \<open>payload.get\<close> gives \<open>None\<close> for a missing name.\<close>

definition mapping_of :: "json option \<Rightarrow> (string \<times> json) list option" where
  "mapping_of v = (case v of Some (JObj kvs) \<Rightarrow> Some kvs | _ \<Rightarrow> None)"

definition string_of :: "(string \<times> json) list \<Rightarrow> string \<Rightarrow> string option" where
  "string_of payload name = (case map_of payload name of
     Some (JStr s) \<Rightarrow> if s = [] then None else Some s | _ \<Rightarrow> None)"

definition integer_of :: "(string \<times> json) list \<Rightarrow> string \<Rightarrow> int option" where
  "integer_of payload name = (case map_of payload name of Some (JInt i) \<Rightarrow> Some i | _ \<Rightarrow> None)"

definition limits_of :: "(string \<times> json) list \<Rightarrow> execution_limits option" where
  "limits_of p = Option.bind (integer_of p ''request_timeout_ms'') (\<lambda>a.
     Option.bind (integer_of p ''max_request_body_bytes'') (\<lambda>b.
     Option.bind (integer_of p ''max_response_bytes'') (\<lambda>c.
     Option.bind (integer_of p ''max_assertions'') (\<lambda>d.
       Some \<lparr>request_timeout_ms = a, max_request_body_bytes = b, max_response_bytes = c,
              max_assertions = d\<rparr>))))"

definition snapshot_estimate :: "(string \<times> json) list \<Rightarrow> execution_estimate option" where
  "snapshot_estimate p = Option.bind (integer_of p ''request_count'') (\<lambda>a.
     Option.bind (integer_of p ''request_body_bytes'') (\<lambda>b.
     Option.bind (integer_of p ''assertion_count'') (\<lambda>c.
     Option.bind (integer_of p ''maximum_response_bytes'') (\<lambda>d.
     Option.bind (integer_of p ''maximum_duration_ms'') (\<lambda>e.
       Some \<lparr>request_count = a, request_body_bytes = b, assertion_count = c,
              maximum_response_bytes = d, maximum_duration_ms = e\<rparr>)))))"

definition plan_of_payload :: "(string \<times> json) list \<Rightarrow> execution_plan option" where
  "plan_of_payload p =
     Option.bind (string_of p ''schema_version'') (\<lambda>sv.
     Option.bind (Option.bind (string_of p ''id'') uuid_parse) (\<lambda>i.
     Option.bind (Option.bind (string_of p ''target_id'') target_id_of) (\<lambda>ti.
     Option.bind (string_of p ''target_base_url'') (\<lambda>bu.
     Option.bind (string_of p ''target_schema_version'') (\<lambda>tv.
     Option.bind (Option.bind (string_of p ''test_case_id'') uuid_parse) (\<lambda>ci.
     Option.bind (string_of p ''test_case_payload'') (\<lambda>cp.
     Option.bind (Option.bind (mapping_of (map_of p ''limits'')) limits_of) (\<lambda>l.
     Option.bind (Option.bind (mapping_of (map_of p ''estimate'')) snapshot_estimate) (\<lambda>e.
     Option.bind (string_of p ''plan_hash'') (\<lambda>h.
       Some \<lparr>pl_schema_version = sv, pl_id = i, pl_target_id = ti, pl_target_base_url = bu,
              pl_target_schema_version = tv, pl_test_case_id = ci, pl_test_case_payload = cp,
              pl_limits = l, pl_estimate = e, pl_hash = h\<rparr>))))))))))"

datatype snapshot_error = SnapshotMalformed | SnapshotPlanError plan_error

definition plan_from_snapshot :: "runtime \<Rightarrow> string \<Rightarrow> snapshot_error + execution_plan" where
  "plan_from_snapshot rt snapshot =
     (case Option.bind (mapping_of (loads rt snapshot)) plan_of_payload of
        None \<Rightarrow> Inl SnapshotMalformed
      | Some plan \<Rightarrow> except (validate_execution_plan rt plan DEFAULT_TARGET_REGISTRY) SnapshotPlanError)"

section \<open>Rows and approvals\<close>

fun unreadable :: "snapshot_error \<Rightarrow> approval_error" where
  "unreadable (SnapshotPlanError (PlanKeyError k)) = ApprovalKeyError k"
| "unreadable _ = ExecutionApprovalUnavailable"

definition approval_from_record :: "runtime \<Rightarrow> approval_row \<Rightarrow> approval_error + execution_approval" where
  "approval_from_record rt r =
     bindE (except (plan_from_snapshot rt (ar_plan_snapshot r)) unreadable) (\<lambda>plan.
     bindE (require (ar_plan_id r = pl_id plan \<and> ar_plan_hash r = pl_hash plan)
       ExecutionApprovalUnavailable) (\<lambda>_.
     bindE (require (\<not> (strip (ar_approver_id r) = [] \<or> ar_expires_at r \<le> ar_approved_at r
         \<or> (case ar_consumed_at r of None \<Rightarrow> False | Some c \<Rightarrow> c < ar_approved_at r)))
       ExecutionApprovalUnavailable) (\<lambda>_.
       Inr \<lparr>ea_id = ar_id r, ea_project_id = ar_project_id r, ea_plan = plan,
             ea_approver_id = ar_approver_id r, ea_source = ar_source r, ea_comment = ar_comment r,
             ea_approved_at = ar_approved_at r, ea_expires_at = ar_expires_at r,
             ea_consumed_at = ar_consumed_at r\<rparr>)))"

definition new_approval_row ::
  "uuid \<Rightarrow> instant \<Rightarrow> uuid \<Rightarrow> execution_plan \<Rightarrow> string \<Rightarrow> string \<Rightarrow> string option \<Rightarrow> approval_row" where
  "new_approval_row new_id now project plan approver source comment =
     \<lparr>ar_id = new_id, ar_project_id = project, ar_plan_id = pl_id plan, ar_plan_hash = pl_hash plan,
      ar_plan_snapshot = plan_snapshot plan, ar_approver_id = approver, ar_source = source,
      ar_comment = comment, ar_approved_at = now, ar_expires_at = now + EXECUTION_APPROVAL_TTL,
      ar_consumed_at = None\<rparr>"

text \<open>\<open>projects\<close> are the identifiers in the referenced table \<open>projects\<close>.\<close>

definition create_approval ::
  "runtime \<Rightarrow> bool \<Rightarrow> uuid list \<Rightarrow> uuid \<Rightarrow> instant \<Rightarrow> uuid \<Rightarrow> execution_plan \<Rightarrow> string \<Rightarrow> string \<Rightarrow> string option
     \<Rightarrow> approval_row list \<Rightarrow> (approval_error + execution_approval) \<times> approval_row list" where
  "create_approval rt up projects new_id now project plan approver source comment rows =
     (let row = new_approval_row new_id now project plan approver source comment in
      if \<not> up \<or> \<not> approval_widths row then (Inl ExecutionApprovalUnavailable, rows)
      else case insert_row (\<lambda>r. approval_checks r \<and> ar_project_id r \<in> set projects) approval_conflict row rows of
        Inl _ \<Rightarrow> (Inl (ExecutionApprovalConflict ''An approval already exists for this immutable plan''), rows)
      | Inr rows' \<Rightarrow> (approval_from_record rt row, rows'))"

definition get_approval ::
  "runtime \<Rightarrow> bool \<Rightarrow> uuid \<Rightarrow> uuid \<Rightarrow> approval_row list \<Rightarrow> approval_error + execution_approval option" where
  "get_approval rt up project approval_id rows =
     (if \<not> up then Inl ExecutionApprovalUnavailable
      else case scalar_one_or_none (filter (\<lambda>r. ar_id r = approval_id \<and> ar_project_id r = project) rows) of
        Inl _ \<Rightarrow> Inl ExecutionApprovalUnavailable
      | Inr None \<Rightarrow> Inr None
      | Inr (Some r) \<Rightarrow> bindE (approval_from_record rt r) (\<lambda>a. Inr (Some a)))"

text \<open>
  \<open>consume\<close> reads the approval and then claims it with one conditional \<open>UPDATE\<close>.  The two
  statements are separate definitions, since another transaction may commit between them.
\<close>

definition consume_read ::
  "runtime \<Rightarrow> instant \<Rightarrow> uuid \<Rightarrow> uuid \<Rightarrow> string \<Rightarrow> approval_row list \<Rightarrow> approval_error + execution_approval option" where
  "consume_read rt now project plan_id plan_hash rows =
     (case scalar_one_or_none (filter (\<lambda>r. ar_project_id r = project \<and> ar_plan_id r = plan_id
        \<and> ar_plan_hash r = plan_hash) rows) of
        Inl _ \<Rightarrow> Inl ExecutionApprovalUnavailable
      | Inr None \<Rightarrow> Inr None
      | Inr (Some r) \<Rightarrow> bindE (approval_from_record rt r) (\<lambda>a.
          if ea_consumed_at a \<noteq> None \<or> ea_expires_at a \<le> now then Inr None else Inr (Some a)))"

definition claimable :: "uuid \<Rightarrow> instant \<Rightarrow> approval_row \<Rightarrow> bool" where
  "claimable i now r \<longleftrightarrow> ar_id r = i \<and> ar_consumed_at r = None \<and> ar_expires_at r > now"

definition mark_consumed :: "instant \<Rightarrow> approval_row \<Rightarrow> approval_row" where
  "mark_consumed now r = r\<lparr>ar_consumed_at := Some now\<rparr>"

definition consume_claim ::
  "instant \<Rightarrow> uuid \<Rightarrow> approval_row list \<Rightarrow> db_error + (approval_row list \<times> uuid option)" where
  "consume_claim now i rows =
     bindE (update_where approval_checks (claimable i now) (mark_consumed now) rows) (\<lambda>(rows', out).
     bindE (scalar_one_or_none (map ar_id out)) (\<lambda>claimed. Inr (rows', claimed)))"

definition consume ::
  "runtime \<Rightarrow> bool \<Rightarrow> instant \<Rightarrow> uuid \<Rightarrow> uuid \<Rightarrow> string \<Rightarrow> approval_row list
     \<Rightarrow> (approval_error + execution_approval option) \<times> approval_row list" where
  "consume rt up now project plan_id plan_hash rows =
     (if \<not> up then (Inl ExecutionApprovalUnavailable, rows)
      else case consume_read rt now project plan_id plan_hash rows of
        Inl e \<Rightarrow> (Inl e, rows)
      | Inr None \<Rightarrow> (Inr None, rows)
      | Inr (Some a) \<Rightarrow>
          (case consume_claim now (ea_id a) rows of
             Inl _ \<Rightarrow> (Inl ExecutionApprovalUnavailable, rows)
           | Inr (rows', None) \<Rightarrow> (Inr None, rows')
           | Inr (rows', Some _) \<Rightarrow> (Inr (Some (a\<lparr>ea_consumed_at := Some now\<rparr>)), rows')))"

section \<open>The service\<close>

fun approver_provenance :: "owner_principal \<Rightarrow> string \<times> string" where
  "approver_provenance (CognitoOwnerPrincipal issuer subject) = (issuer @ ''|'' @ subject, ''cognito'')"
| "approver_provenance LocalDevelopmentOwnerPrincipal = (LOCAL_DEVELOPMENT_APPROVER_ID, ''local_bypass'')"

definition validate_comment :: "string option \<Rightarrow> approval_error + string option" where
  "validate_comment comment = (case comment of
     None \<Rightarrow> Inr None
   | Some c \<Rightarrow>
       (let normalized = strip c in
        if normalized = [] \<or> length normalized > MAX_EXECUTION_APPROVAL_COMMENT_LENGTH
        then Inl (ExecutionApprovalRejected ''Approval comment must be bounded, non-empty text'')
        else Inr (Some normalized)))"

fun approval_rejection :: "plan_error \<Rightarrow> approval_error" where
  "approval_rejection (ExecutionPlanRejected m) = ExecutionApprovalRejected m"
| "approval_rejection (PlanKeyError k) = ApprovalKeyError k"

definition approve ::
  "runtime \<Rightarrow> bool \<Rightarrow> uuid list \<Rightarrow> uuid \<Rightarrow> instant \<Rightarrow> uuid \<Rightarrow> execution_plan \<Rightarrow> string \<Rightarrow> owner_principal \<Rightarrow> string option
     \<Rightarrow> approval_row list \<Rightarrow> (approval_error + execution_approval) \<times> approval_row list" where
  "approve rt up projects new_id now project plan expected_plan_hash approver comment rows =
     (case except (validate_execution_plan rt plan DEFAULT_TARGET_REGISTRY) approval_rejection of
        Inl e \<Rightarrow> (Inl e, rows)
      | Inr validated \<Rightarrow>
          if length expected_plan_hash \<noteq> 64 \<or> expected_plan_hash \<noteq> pl_hash validated
          then (Inl (ExecutionApprovalRejected ''Expected plan hash does not match the rebuilt immutable plan''), rows)
          else (case validate_comment comment of
            Inl e \<Rightarrow> (Inl e, rows)
          | Inr c \<Rightarrow> create_approval rt up projects new_id now project validated
              (fst (approver_provenance approver)) (snd (approver_provenance approver)) c rows))"

section \<open>The table\<close>

interpretation approvals: table approval_checks approval_conflict
  by unfold_locales (auto simp: approval_conflict_def)

lemma approval_conflict_id: "ar_id r = i \<Longrightarrow> ar_id s = i \<Longrightarrow> approval_conflict r s"
  by (simp add: approval_conflict_def)

lemma mark_consumed_keys [simp]:
  "ar_id (mark_consumed now r) = ar_id r" "ar_project_id (mark_consumed now r) = ar_project_id r"
  "ar_plan_id (mark_consumed now r) = ar_plan_id r" "ar_plan_hash (mark_consumed now r) = ar_plan_hash r"
  "ar_consumed_at (mark_consumed now r) = Some now" "ar_approved_at (mark_consumed now r) = ar_approved_at r"
  "ar_expires_at (mark_consumed now r) = ar_expires_at r"
  "ar_plan_snapshot (mark_consumed now r) = ar_plan_snapshot r"
  by (simp_all add: mark_consumed_def)

abbreviation "approvals_ok \<equiv> table_ok approval_checks approval_conflict"

lemma insert_row_weaken:
  "insert_row (\<lambda>r. c r \<and> d r) k row rows = Inr rows' \<Longrightarrow> insert_row c k row rows = Inr rows'"
  by (simp add: store_simps)

lemma create_approval_ok:
  "approvals_ok rows \<Longrightarrow> create_approval rt up ps i now pr plan a s c rows = (res, rows') \<Longrightarrow> approvals_ok rows'"
  using approvals.insert_keeps insert_row_weaken
  by (fastforce simp: create_approval_def Let_def split: if_splits sum.splits)

lemma consume_claim_spec:
  assumes "approvals_ok rows" "consume_claim now i rows = Inr (rows', claimed)"
  shows "approvals_ok rows'"
    and "claimed = None \<Longrightarrow> rows' = rows \<and> (\<forall>r \<in> set rows. \<not> claimable i now r)"
    and "claimed = Some j \<Longrightarrow> j = i \<and> (\<exists>r \<in> set rows. claimable i now r \<and> ar_approved_at r \<le> now
        \<and> rows' = map (\<lambda>s. if s = r then mark_consumed now r else s) rows)"
proof -
  from assms(2) obtain out where u: "update_where approval_checks (claimable i now) (mark_consumed now) rows = Inr (rows', out)"
    and o: "scalar_one_or_none (map ar_id out) = Inr claimed"
    by (auto simp: consume_claim_def exn_simps)
  show "approvals_ok rows'"
    by (rule approvals.update_keeps [OF assms(1) u]) (simp add: approval_conflict_def)
  have r: "rows' = map (\<lambda>r. if claimable i now r then mark_consumed now r else r) rows"
    and c: "\<forall>r \<in> set rows. claimable i now r \<longrightarrow> approval_checks (mark_consumed now r)"
    and out: "out = map (mark_consumed now) (filter (claimable i now) rows)"
    using u by (auto simp: store_simps)
  show "rows' = rows \<and> (\<forall>r \<in> set rows. \<not> claimable i now r)" if "claimed = None"
    using o that r out by (auto simp: store_simps filter_empty_conv intro: map_idI)
  assume s: "claimed = Some j"
  then obtain q where q: "filter (claimable i now) rows = [q]" "j = ar_id q"
    using o out by (auto simp: store_simps)
  then have qin: "q \<in> set rows" "claimable i now q" by (auto simp: filter_eq_Cons_iff)
  have eq: "claimable i now s \<longleftrightarrow> s = q" if "s \<in> set rows" for s
    using that arg_cong [OF q(1), of set] by auto
  have "ar_approved_at q \<le> now" using c qin by (auto simp: approval_checks_def)
  moreover have "rows' = map (\<lambda>s. if s = q then mark_consumed now q else s) rows"
    unfolding r using eq by (intro map_cong) auto
  moreover have "j = i" using q qin by (simp add: claimable_def)
  ultimately show "j = i \<and> (\<exists>r \<in> set rows. claimable i now r \<and> ar_approved_at r \<le> now
      \<and> rows' = map (\<lambda>s. if s = r then mark_consumed now r else s) rows)"
    using qin by blast
qed

section \<open>Round trip of plan snapshots\<close>

lemma limits_of_payload [simp]:
  "limits_of (canon_obj (limits_payload l)) = Some l"
  by (simp add: canon_obj_def limits_payload_def limits_of_def integer_of_def)

lemma snapshot_estimate_payload [simp]: "snapshot_estimate (canon_obj (estimate_payload e)) = Some e"
  by (simp add: canon_obj_def estimate_payload_def snapshot_estimate_def integer_of_def)

lemma target_id_of_value [simp]: "target_id_of (target_id_value i) = Some i"
  by (cases i) (simp add: target_id_of_def)

lemma uuid_str_nonempty [simp]: "uuid_str u \<noteq> []"
proof
  assume "uuid_str u = []"
  then have "uuid_parse [] = Some u" by (metis uuid_parse_str)
  then show False by (simp add: uuid_parse_def Let_def strip_by_def lstrip_by_def rstrip_by_def)
qed

lemma target_id_value_nonempty [simp]: "target_id_value i \<noteq> []"
  by (cases i) simp

lemma loads_Nil [simp]: "loads rt [] = None"
  by (simp add: loads_def skip_ws_def Let_def)

lemma valid_plan_texts:
  assumes "validate_execution_plan rt p DEFAULT_TARGET_REGISTRY = Inr q"
  shows "pl_schema_version p \<noteq> [] \<and> pl_target_base_url p \<noteq> [] \<and> pl_target_schema_version p \<noteq> []
    \<and> pl_test_case_payload p \<noteq> []"
  using assms unfolding validate_execution_plan_Inr plan_test_case_def test_case_from_snapshot_def
  by (cases "pl_test_case_payload p = []")
    (auto simp: EXECUTION_PLAN_SCHEMA_VERSION_def registry_get_def DEFAULT_TARGET_REGISTRY_def
      TARGET_REGISTRY_SCHEMA_VERSION_def split: option.splits if_splits)

lemma map_of_canon_obj:
  "distinct (map fst kvs) \<Longrightarrow> map_of (canon_obj kvs) k = map_option canon (map_of kvs k)"
  using item_canon_obj [of kvs k] by (auto simp: item_def split: option.splits)

lemma plan_of_snapshot_payload:
  assumes "pl_schema_version p \<noteq> []" "pl_target_base_url p \<noteq> []" "pl_target_schema_version p \<noteq> []"
    "pl_test_case_payload p \<noteq> []" "pl_hash p \<noteq> []"
  shows "plan_of_payload (canon_obj (plan_snapshot_payload p)) = Some p"
proof -
  have d: "distinct (map fst (plan_snapshot_payload p))" by (simp add: plan_snapshot_payload_def)
  show ?thesis
    using assms unfolding plan_of_payload_def string_of_def map_of_canon_obj [OF d]
    by (simp add: plan_snapshot_payload_def mapping_of_def canon_JObj del: canon.simps(2))
qed

lemma plan_snapshot_round_trip:
  assumes "validate_execution_plan rt p DEFAULT_TARGET_REGISTRY = Inr p" "pl_hash p \<noteq> []"
  shows "plan_from_snapshot rt (plan_snapshot p) = Inr p"
proof -
  have "json_ok rt (JObj (plan_snapshot_payload p))"
    by (simp add: plan_snapshot_payload_def limits_payload_def estimate_payload_def)
  then have "loads rt (plan_snapshot p) = Some (JObj (canon_obj (plan_snapshot_payload p)))"
    using loads_canonical_json by (simp add: plan_snapshot_def canon_JObj del: canon.simps(2))
  then show ?thesis
    using assms plan_of_snapshot_payload valid_plan_texts [OF assms(1)]
    by (simp add: plan_from_snapshot_def mapping_of_def)
qed

section \<open>What an approval says\<close>

lemma approval_from_record_Inr:
  "approval_from_record rt r = Inr a \<longleftrightarrow>
     plan_from_snapshot rt (ar_plan_snapshot r) = Inr (ea_plan a) \<and> ar_plan_id r = pl_id (ea_plan a)
     \<and> ar_plan_hash r = pl_hash (ea_plan a) \<and> strip (ar_approver_id r) \<noteq> []
     \<and> ar_approved_at r < ar_expires_at r
     \<and> (\<forall>c. ar_consumed_at r = Some c \<longrightarrow> ar_approved_at r \<le> c)
     \<and> ea_id a = ar_id r \<and> ea_project_id a = ar_project_id r \<and> ea_approver_id a = ar_approver_id r
     \<and> ea_source a = ar_source r \<and> ea_comment a = ar_comment r \<and> ea_approved_at a = ar_approved_at r
     \<and> ea_expires_at a = ar_expires_at r \<and> ea_consumed_at a = ar_consumed_at r"
  by (cases a) (auto simp: approval_from_record_def exn_simps not_le not_less split: option.splits)

lemma plan_from_snapshot_valid:
  "plan_from_snapshot rt s = Inr p \<Longrightarrow> validate_execution_plan rt p DEFAULT_TARGET_REGISTRY = Inr p"
  by (auto simp: plan_from_snapshot_def exn_simps validate_execution_plan_Inr split: option.splits)

lemma create_approval_Inr:
  assumes "create_approval rt up ps i now pr plan who src c rows = (Inr a, rows')"
  shows "rows' = rows @ [new_approval_row i now pr plan who src c]
    \<and> approval_from_record rt (new_approval_row i now pr plan who src c) = Inr a
    \<and> approval_checks (new_approval_row i now pr plan who src c) \<and> pr \<in> set ps
    \<and> (\<forall>r \<in> set rows. \<not> approval_conflict (new_approval_row i now pr plan who src c) r)"
  using assms by (auto simp: create_approval_def Let_def store_simps new_approval_row_def
    split: if_splits sum.splits)

lemma approve_Inr:
  assumes "approve rt up ps i now pr plan h owner comment rows = (Inr a, rows')"
  shows "validate_execution_plan rt plan DEFAULT_TARGET_REGISTRY = Inr plan \<and> h = pl_hash plan \<and> length h = 64
    \<and> (\<exists>c. validate_comment comment = Inr c
        \<and> create_approval rt up ps i now pr plan (fst (approver_provenance owner)) (snd (approver_provenance owner)) c rows
          = (Inr a, rows'))"
  using assms by (auto simp: approve_def exn_simps validate_execution_plan_Inr split: sum.splits if_splits)

lemma new_approval_row_read:
  assumes "validate_execution_plan rt plan DEFAULT_TARGET_REGISTRY = Inr plan" "pl_hash plan \<noteq> []" "strip who \<noteq> []"
  shows "approval_from_record rt (new_approval_row i now pr plan who src c) = Inr
     \<lparr>ea_id = i, ea_project_id = pr, ea_plan = plan, ea_approver_id = who, ea_source = src, ea_comment = c,
      ea_approved_at = now, ea_expires_at = now + EXECUTION_APPROVAL_TTL, ea_consumed_at = None\<rparr>"
  using assms plan_snapshot_round_trip [OF assms(1,2)]
  by (simp add: approval_from_record_Inr new_approval_row_def EXECUTION_APPROVAL_TTL_def)

lemma get_approval_found:
  assumes "approvals_ok rows" "r \<in> set rows"
  shows "get_approval rt True (ar_project_id r) (ar_id r) rows = bindE (approval_from_record rt r) (\<lambda>a. Inr (Some a))"
proof -
  let ?p = "\<lambda>s. ar_id s = ar_id r \<and> ar_project_id s = ar_project_id r"
  have "filter ?p rows = [] \<or> (\<exists>s \<in> set rows. ?p s \<and> filter ?p rows = [s])"
    by (rule approvals.unique_row [OF assms(1)]) (simp add: approval_conflict_def)
  then obtain s where "s \<in> set rows" "?p s" "filter ?p rows = [s]"
    using assms(2) by (auto simp: filter_empty_conv)
  moreover from this have "s = r"
    using approvals.conflict_eq [OF assms(1) _ assms(2)] by (simp add: approval_conflict_def)
  ultimately show ?thesis by (simp add: get_approval_def)
qed

lemma get_approval_foreign:
  "get_approval rt True pr i rows = Inr (Some a) \<Longrightarrow> ea_project_id a = pr \<and> ea_id a = i"
  by (auto simp: get_approval_def exn_simps approval_from_record_Inr split: sum.splits option.splits
    dest!: scalar_one_or_none_in)

lemma consume_Some:
  assumes "approvals_ok rows" "consume rt up now pr pid h rows = (Inr (Some a), rows')"
  shows "\<exists>r \<in> set rows. approval_from_record rt r = Inr (a\<lparr>ea_consumed_at := None\<rparr>) \<and> ar_project_id r = pr
      \<and> ar_plan_id r = pid \<and> ar_plan_hash r = h \<and> ea_consumed_at a = Some now
      \<and> ar_approved_at r \<le> now \<and> now < ar_expires_at r \<and> ar_consumed_at r = None
      \<and> rows' = map (\<lambda>s. if s = r then mark_consumed now r else s) rows"
proof -
  from assms(2) obtain b j where read: "consume_read rt now pr pid h rows = Inr (Some b)"
    and claim: "consume_claim now (ea_id b) rows = Inr (rows', Some j)"
    and a: "a = b\<lparr>ea_consumed_at := Some now\<rparr>"
    by (auto simp: consume_def split: if_splits sum.splits option.splits prod.splits)
  from read obtain q where q: "q \<in> set rows" "ar_project_id q = pr" "ar_plan_id q = pid" "ar_plan_hash q = h"
    "approval_from_record rt q = Inr b" "ea_consumed_at b = None"
    by (auto simp: consume_read_def exn_simps split: sum.splits option.splits if_splits dest!: scalar_one_or_none_in)
  from consume_claim_spec(3) [OF assms(1) claim refl] obtain r where r: "r \<in> set rows" "claimable (ea_id b) now r"
    "ar_approved_at r \<le> now" "rows' = map (\<lambda>s. if s = r then mark_consumed now r else s) rows"
    by blast
  have "ar_id q = ea_id b" using q(5) by (simp add: approval_from_record_Inr)
  then have "q = r" using r(1,2) q(1) approvals.conflict_eq [OF assms(1) q(1) r(1)]
    by (simp add: approval_conflict_def claimable_def)
  moreover have "b\<lparr>ea_consumed_at := None\<rparr> = b" using q(6) by (cases b) simp
  ultimately show ?thesis using q r a by (intro bexI [of _ r]) (auto simp: claimable_def)
qed

lemma consume_ok:
  "approvals_ok rows \<Longrightarrow> consume rt up now pr pid h rows = (res, rows') \<Longrightarrow> approvals_ok rows'"
  using consume_claim_spec(1)
  by (fastforce simp: consume_def split: if_splits sum.splits option.splits prod.splits)

end
