(* ===== verification/Execution_Jobs.thy ===== *)
theory Execution_Jobs
  imports Execution_Approvals
begin

text \<open>
  The durable queue of approved executions (\<open>execution_jobs.py\<close> and the table \<open>execution_jobs\<close> of
  \<open>documents.py\<close>): idempotent enqueueing, the claim that starts a job and consumes its approval in one
  transaction, and cancellation of queued jobs.

  A row and the \<open>ExecutionJob\<close> read from it carry the same data, so both are the record
  \<open>execution_job\<close>.  \<open>locked\<close> are the rows other transactions hold, which
  \<open>FOR UPDATE SKIP LOCKED\<close> passes over.
\<close>

section \<open>Data\<close>

datatype job_state = QUEUED | RUNNING | CANCELLED | SUCCEEDED | FAILED

text \<open>\<open>JobKeyError\<close> is a \<open>KeyError\<close> of the proposal validator, which no handler catches.\<close>

datatype job_error = ExecutionJobQueueUnavailable | ExecutionJobRejected string | JobKeyError string

record execution_job =
  ej_id :: uuid
  ej_project_id :: uuid
  ej_approval_id :: uuid
  ej_plan_id :: uuid
  ej_plan_hash :: string
  ej_trace_id :: "uuid option"
  ej_state :: job_state
  ej_created_at :: instant
  ej_started_at :: "instant option"
  ej_finished_at :: "instant option"
  ej_cancel_requested_at :: "instant option"
  ej_cancelled_at :: "instant option"

record claimed_execution_job =
  cj_job :: execution_job
  cj_approval :: execution_approval

record execution_db =
  db_projects :: "uuid list"
  db_approvals :: "approval_row list"
  db_jobs :: "execution_job list"

text \<open>The CHECK constraints of the table.\<close>

definition job_lifecycle :: "job_state \<Rightarrow> bool \<Rightarrow> bool \<Rightarrow> bool \<Rightarrow> bool" where
  "job_lifecycle st started finished cancelled \<longleftrightarrow>
     st = QUEUED \<and> \<not> started \<and> \<not> finished \<and> \<not> cancelled
   \<or> st = RUNNING \<and> started \<and> \<not> finished \<and> \<not> cancelled
   \<or> st \<in> {SUCCEEDED, FAILED} \<and> started \<and> finished \<and> \<not> cancelled
   \<or> st = CANCELLED \<and> \<not> finished \<and> cancelled"

definition job_checks :: "execution_job \<Rightarrow> bool" where
  "job_checks j \<longleftrightarrow> length (ej_plan_hash j) = 64
     \<and> job_lifecycle (ej_state j) (ej_started_at j \<noteq> None) (ej_finished_at j \<noteq> None) (ej_cancelled_at j \<noteq> None)"

definition job_conflict :: "execution_job \<Rightarrow> execution_job \<Rightarrow> bool" where
  "job_conflict j k \<longleftrightarrow> ej_id j = ej_id k \<or> ej_approval_id j = ej_approval_id k"

section \<open>Operations\<close>

definition existing_job :: "bool \<Rightarrow> uuid \<Rightarrow> execution_job list \<Rightarrow> job_error + execution_job option" where
  "existing_job up approval_id jobs =
     (if \<not> up then Inl ExecutionJobQueueUnavailable
      else case scalar_one_or_none (filter (\<lambda>j. ej_approval_id j = approval_id) jobs) of
        Inl _ \<Rightarrow> Inl ExecutionJobQueueUnavailable | Inr r \<Rightarrow> Inr r)"

definition new_job :: "uuid \<Rightarrow> uuid option \<Rightarrow> instant \<Rightarrow> execution_approval \<Rightarrow> execution_job" where
  "new_job new_id trace now a =
     \<lparr>ej_id = new_id, ej_project_id = ea_project_id a, ej_approval_id = ea_id a,
      ej_plan_id = pl_id (ea_plan a), ej_plan_hash = pl_hash (ea_plan a), ej_trace_id = trace,
      ej_state = QUEUED, ej_created_at = now, ej_started_at = None, ej_finished_at = None,
      ej_cancel_requested_at = None, ej_cancelled_at = None\<rparr>"

text \<open>\<open>up\<close> is the insertion, \<open>up'\<close> the read of the existing job after a constraint violation.\<close>

definition enqueue ::
  "bool \<Rightarrow> bool \<Rightarrow> uuid \<Rightarrow> uuid option \<Rightarrow> instant \<Rightarrow> execution_approval \<Rightarrow> execution_db
     \<Rightarrow> (job_error + execution_job) \<times> execution_db" where
  "enqueue up up' new_id trace now a db =
     (if ea_consumed_at a \<noteq> None then (Inl (ExecutionJobRejected ''A consumed approval cannot create a job''), db)
      else if ea_expires_at a \<le> now then (Inl (ExecutionJobRejected ''An expired approval cannot create a job''), db)
      else if \<not> up \<or> length (ej_plan_hash (new_job new_id trace now a)) > 64 then (Inl ExecutionJobQueueUnavailable, db)
      else case insert_row (\<lambda>j. job_checks j \<and> ej_project_id j \<in> set (db_projects db)
             \<and> ej_approval_id j \<in> ar_id ` set (db_approvals db)) job_conflict (new_job new_id trace now a) (db_jobs db) of
        Inr jobs' \<Rightarrow> (Inr (new_job new_id trace now a), db\<lparr>db_jobs := jobs'\<rparr>)
      | Inl _ \<Rightarrow>
          (case existing_job up' (ea_id a) (db_jobs db) of
             Inl e \<Rightarrow> (Inl e, db)
           | Inr None \<Rightarrow> (Inl ExecutionJobQueueUnavailable, db)
           | Inr (Some j) \<Rightarrow> (Inr j, db)))"

definition get_job :: "bool \<Rightarrow> uuid \<Rightarrow> uuid \<Rightarrow> execution_db \<Rightarrow> job_error + execution_job option" where
  "get_job up project job_id db =
     (if \<not> up then Inl ExecutionJobQueueUnavailable
      else case scalar_one_or_none (filter (\<lambda>j. ej_id j = job_id \<and> ej_project_id j = project) (db_jobs db)) of
        Inl _ \<Rightarrow> Inl ExecutionJobQueueUnavailable | Inr r \<Rightarrow> Inr r)"

definition fail_job :: "instant \<Rightarrow> execution_job \<Rightarrow> execution_job" where
  "fail_job now j = j\<lparr>ej_state := FAILED, ej_started_at := Some now, ej_finished_at := Some now\<rparr>"

definition start_job :: "instant \<Rightarrow> execution_job \<Rightarrow> execution_job" where
  "start_job now j = j\<lparr>ej_state := RUNNING, ej_started_at := Some now\<rparr>"

text \<open>The flush of one changed row at commit.\<close>

definition write_job ::
  "(execution_job \<Rightarrow> execution_job) \<Rightarrow> execution_job \<Rightarrow> execution_job list \<Rightarrow> db_error + execution_job list" where
  "write_job f j jobs = bindE (update_where job_checks (\<lambda>k. ej_id k = ej_id j) f jobs) (\<lambda>(jobs', _). Inr jobs')"

definition fail_and_commit ::
  "instant \<Rightarrow> execution_job \<Rightarrow> execution_db \<Rightarrow> (job_error + claimed_execution_job option) \<times> execution_db" where
  "fail_and_commit now j db = (case write_job (fail_job now) j (db_jobs db) of
     Inl _ \<Rightarrow> (Inl ExecutionJobQueueUnavailable, db)
   | Inr jobs' \<Rightarrow> (Inr None, db\<lparr>db_jobs := jobs'\<rparr>))"

definition claim_next ::
  "runtime \<Rightarrow> bool \<Rightarrow> uuid list \<Rightarrow> instant \<Rightarrow> execution_db
     \<Rightarrow> (job_error + claimed_execution_job option) \<times> execution_db" where
  "claim_next rt up locked now db =
     (if \<not> up then (Inl ExecutionJobQueueUnavailable, db)
      else case first_by (\<lambda>j. (ej_created_at j, ej_id j))
             (filter (\<lambda>j. ej_state j = QUEUED \<and> ej_id j \<notin> set locked) (db_jobs db)) of
        None \<Rightarrow> (Inr None, db)
      | Some j \<Rightarrow>
          (case scalar_one_or_none (filter (\<lambda>r. ar_id r = ej_approval_id j \<and> ar_project_id r = ej_project_id j
               \<and> ar_plan_id r = ej_plan_id j \<and> ar_plan_hash r = ej_plan_hash j) (db_approvals db)) of
             Inl _ \<Rightarrow> (Inl ExecutionJobQueueUnavailable, db)
           | Inr None \<Rightarrow> fail_and_commit now j db
           | Inr (Some r) \<Rightarrow>
               (case approval_from_record rt r of
                  Inl (ApprovalKeyError k) \<Rightarrow> (Inl (JobKeyError k), db)
                | Inl _ \<Rightarrow> fail_and_commit now j db
                | Inr a \<Rightarrow>
                    if ea_consumed_at a \<noteq> None \<or> ea_expires_at a \<le> now then fail_and_commit now j db
                    else (case consume_claim now (ea_id a) (db_approvals db) of
                      Inl _ \<Rightarrow> (Inl ExecutionJobQueueUnavailable, db)
                    | Inr (approvals', None) \<Rightarrow> fail_and_commit now j (db\<lparr>db_approvals := approvals'\<rparr>)
                    | Inr (approvals', Some _) \<Rightarrow>
                        (case write_job (start_job now) j (db_jobs db) of
                           Inl _ \<Rightarrow> (Inl ExecutionJobQueueUnavailable, db)
                         | Inr jobs' \<Rightarrow>
                             (Inr (Some \<lparr>cj_job = start_job now j, cj_approval = a\<lparr>ea_consumed_at := Some now\<rparr>\<rparr>),
                              db\<lparr>db_approvals := approvals', db_jobs := jobs'\<rparr>))))))"

definition cancelled_job :: "instant \<Rightarrow> execution_job \<Rightarrow> execution_job" where
  "cancelled_job now j = j\<lparr>ej_state := CANCELLED, ej_cancel_requested_at := Some now, ej_cancelled_at := Some now\<rparr>"

definition cancel ::
  "bool \<Rightarrow> instant \<Rightarrow> uuid \<Rightarrow> uuid \<Rightarrow> execution_db \<Rightarrow> (job_error + execution_job option) \<times> execution_db" where
  "cancel up now project job_id db =
     (if \<not> up then (Inl ExecutionJobQueueUnavailable, db)
      else case update_where job_checks (\<lambda>j. ej_id j = job_id \<and> ej_project_id j = project \<and> ej_state j = QUEUED)
             (cancelled_job now) (db_jobs db) of
        Inl _ \<Rightarrow> (Inl ExecutionJobQueueUnavailable, db)
      | Inr (jobs', out) \<Rightarrow>
          (case scalar_one_or_none (map ej_id out) of
             Inl _ \<Rightarrow> (Inl ExecutionJobQueueUnavailable, db)
           | Inr None \<Rightarrow> (Inr None, db\<lparr>db_jobs := jobs'\<rparr>)
           | Inr (Some i) \<Rightarrow>
               (case find (\<lambda>j. ej_id j = i) jobs' of
                  None \<Rightarrow> (Inl ExecutionJobQueueUnavailable, db)
                | Some j \<Rightarrow> (Inr (Some j), db\<lparr>db_jobs := jobs'\<rparr>))))"

section \<open>The table\<close>

interpretation jobs: table job_checks job_conflict
  by unfold_locales (auto simp: job_conflict_def)

abbreviation "jobs_ok \<equiv> table_ok job_checks job_conflict"

lemma job_writers_keys [simp]:
  "ej_id (fail_job now j) = ej_id j" "ej_approval_id (fail_job now j) = ej_approval_id j"
  "ej_id (start_job now j) = ej_id j" "ej_approval_id (start_job now j) = ej_approval_id j"
  "ej_id (cancelled_job now j) = ej_id j" "ej_approval_id (cancelled_job now j) = ej_approval_id j"
  by (simp_all add: fail_job_def start_job_def cancelled_job_def)

lemma write_job_Inr:
  assumes "jobs_ok js" "j \<in> set js" "write_job f j js = Inr js'"
    and "\<And>k. ej_id (f k) = ej_id k \<and> ej_approval_id (f k) = ej_approval_id k"
  shows "jobs_ok js' \<and> js' = map (\<lambda>k. if k = j then f j else k) js"
proof -
  from assms(3) obtain out where u: "update_where job_checks (\<lambda>k. ej_id k = ej_id j) f js = Inr (js', out)"
    by (auto simp: write_job_def exn_simps)
  have "jobs_ok js'"
    by (rule jobs.update_keeps [OF assms(1) u]) (use assms(4) in \<open>simp add: job_conflict_def\<close>)
  moreover have "js' = map (\<lambda>k. if k = j then f j else k) js"
    using u jobs.conflict_eq [OF assms(1) _ assms(2)]
    by (auto simp: store_simps job_conflict_def intro!: map_cong)
  ultimately show ?thesis ..
qed

lemma write_job_succeeds:
  assumes "jobs_ok js" "j \<in> set js" "job_checks (f j)"
  shows "\<exists>js'. write_job f j js = Inr js'"
proof -
  have "\<forall>k \<in> set js. ej_id k = ej_id j \<longrightarrow> k = j"
    using jobs.conflict_eq [OF assms(1) _ assms(2)] by (simp add: job_conflict_def)
  then show ?thesis using assms(3) by (auto simp: write_job_def update_where_def list_all_iff)
qed

lemma queued_checks:
  assumes "job_checks j" "ej_state j = QUEUED"
  shows "job_checks (fail_job now j)" "job_checks (start_job now j)" "job_checks (cancelled_job now j)"
  using assms by (auto simp: job_checks_def job_lifecycle_def fail_job_def start_job_def cancelled_job_def)

section \<open>What a claim does\<close>

text \<open>
  A claim leaves the database alone, fails the oldest queued job that is not locked, or starts it and
  consumes its approval at the same instant.
\<close>

lemma fail_and_commit_cases:
  assumes "jobs_ok (db_jobs db)" "j \<in> set (db_jobs db)" "ej_state j = QUEUED"
  shows "fail_and_commit now j db =
    (Inr None, db\<lparr>db_jobs := map (\<lambda>k. if k = j then fail_job now j else k) (db_jobs db)\<rparr>)"
proof -
  have "job_checks j" using assms(1,2) by (simp add: table_ok_def)
  then obtain js where w: "write_job (fail_job now) j (db_jobs db) = Inr js"
    using write_job_succeeds [OF assms(1,2)] queued_checks(1) assms(3) by blast
  then have "js = map (\<lambda>k. if k = j then fail_job now j else k) (db_jobs db)"
    using write_job_Inr [OF assms(1,2) w] by simp
  with w show ?thesis by (simp add: fail_and_commit_def)
qed

definition job_order :: "execution_job \<Rightarrow> instant \<times> uuid" where
  "job_order j = (ej_created_at j, ej_id j)"

definition claim_candidate :: "uuid list \<Rightarrow> execution_job \<Rightarrow> execution_job list \<Rightarrow> bool" where
  "claim_candidate locked j js \<longleftrightarrow> j \<in> set js \<and> ej_state j = QUEUED \<and> ej_id j \<notin> set locked
     \<and> (\<forall>k \<in> set js. ej_state k = QUEUED \<longrightarrow> ej_id k \<notin> set locked \<longrightarrow> job_order j \<le> job_order k)"

lemma claim_next_cases:
  assumes "approvals_ok (db_approvals db)" "jobs_ok (db_jobs db)" "claim_next rt up locked now db = (res, db')"
  obtains (unchanged) "db' = db" "\<And>c. res \<noteq> Inr (Some c)"
  | (failed) j where "claim_candidate locked j (db_jobs db)" "res = Inr None"
      "db' = db\<lparr>db_jobs := map (\<lambda>k. if k = j then fail_job now j else k) (db_jobs db)\<rparr>"
  | (started) j r a where "claim_candidate locked j (db_jobs db)" "r \<in> set (db_approvals db)"
      "ar_id r = ej_approval_id j" "ar_project_id r = ej_project_id j" "ar_plan_id r = ej_plan_id j"
      "ar_plan_hash r = ej_plan_hash j" "ar_consumed_at r = None" "ar_approved_at r \<le> now" "now < ar_expires_at r"
      "approval_from_record rt r = Inr a"
      "res = Inr (Some \<lparr>cj_job = start_job now j, cj_approval = a\<lparr>ea_consumed_at := Some now\<rparr>\<rparr>)"
      "db' = db\<lparr>db_approvals := map (\<lambda>s. if s = r then mark_consumed now r else s) (db_approvals db),
              db_jobs := map (\<lambda>k. if k = j then start_job now j else k) (db_jobs db)\<rparr>"
proof (cases "first_by (\<lambda>j. (ej_created_at j, ej_id j))
    (filter (\<lambda>j. ej_state j = QUEUED \<and> ej_id j \<notin> set locked) (db_jobs db))")
  case None
  with assms(3) show thesis by (auto simp: claim_next_def split: if_splits intro: unchanged)
next
  case (Some j)
  have cand: "claim_candidate locked j (db_jobs db)"
    using first_by_in [OF Some] first_by_least [OF Some] by (simp add: claim_candidate_def job_order_def)
  then have j: "j \<in> set (db_jobs db)" "ej_state j = QUEUED" by (auto simp: claim_candidate_def)
  note fail = fail_and_commit_cases [OF assms(2) j]
  let ?sel = "scalar_one_or_none (filter (\<lambda>r. ar_id r = ej_approval_id j \<and> ar_project_id r = ej_project_id j
               \<and> ar_plan_id r = ej_plan_id j \<and> ar_plan_hash r = ej_plan_hash j) (db_approvals db))"
  show thesis
  proof (cases "up \<and> (\<exists>r a approvals' i. ?sel = Inr (Some r) \<and> approval_from_record rt r = Inr a
      \<and> ea_consumed_at a = None \<and> now < ea_expires_at a
      \<and> consume_claim now (ea_id a) (db_approvals db) = Inr (approvals', Some i))")
    case False
    have n: "db\<lparr>db_approvals := x\<rparr> = db" if "consume_claim now i (db_approvals db) = Inr (x, None)" for x i
      using consume_claim_spec(2) [OF assms(1) that] by simp
    from False show thesis using assms(3) Some fail unchanged failed [OF cand]
      by (auto simp: claim_next_def not_le split: if_splits sum.splits option.splits approval_error.splits prod.splits
        dest: n)
  next
    case True
    then obtain r a approvals' i where up: up and r: "?sel = Inr (Some r)" "approval_from_record rt r = Inr a"
      "ea_consumed_at a = None" "now < ea_expires_at a"
      and c: "consume_claim now (ea_id a) (db_approvals db) = Inr (approvals', Some i)" by blast
    have rin: "r \<in> set (db_approvals db)" "ar_id r = ej_approval_id j" "ar_project_id r = ej_project_id j"
      "ar_plan_id r = ej_plan_id j" "ar_plan_hash r = ej_plan_hash j"
      using scalar_one_or_none_in [OF r(1)] by auto
    have ids: "ea_id a = ar_id r" "ea_consumed_at a = ar_consumed_at r" "ea_expires_at a = ar_expires_at r"
      using r(2) by (simp_all add: approval_from_record_Inr)
    from consume_claim_spec(3) [OF assms(1) c refl] obtain q where q: "q \<in> set (db_approvals db)"
      "claimable (ea_id a) now q" "ar_approved_at q \<le> now"
      "approvals' = map (\<lambda>s. if s = q then mark_consumed now q else s) (db_approvals db)" by blast
    have "q = r" using approvals.conflict_eq [OF assms(1) q(1) rin(1)] q(2) ids
      by (simp add: claimable_def approval_conflict_def)
    obtain js where w: "write_job (start_job now) j (db_jobs db) = Inr js"
      using write_job_succeeds [OF assms(2) j(1)] queued_checks(2) assms(2) j by (meson table_ok_def)
    moreover have "js = map (\<lambda>k. if k = j then start_job now j else k) (db_jobs db)"
      using write_job_Inr [OF assms(2) j(1) w] by simp
    ultimately show thesis
      using started [OF cand rin] assms(3) Some up r c q \<open>q = r\<close> ids
      by (auto simp: claim_next_def)
  qed
qed

end
