(* ===== verification/Redaction.thy ===== *)
theory Redaction
  imports Py_Url
begin

text \<open>
  The redaction rules that \<open>restricted_execution.py\<close>, \<open>execution_worker.py\<close> and
  \<open>execution_results.py\<close> share: which names are sensitive, and the redaction of a URL query.
\<close>

definition sensitive_names :: "string list" where
  "sensitive_names = [''authorization'', ''cookie'', ''password'', ''secret'', ''set-cookie'', ''token'']"

definition REDACTED_VALUE :: string where "REDACTED_VALUE = ''[REDACTED]''"

definition is_sensitive_name :: "string \<Rightarrow> bool" where
  "is_sensitive_name name =
     (let normalized = str_replace ''_'' ''-'' (lower name) in
      list_ex (\<lambda>sensitive. str_in sensitive normalized) sensitive_names)"

definition redact_pair :: "string \<times> string \<Rightarrow> string \<times> string" where
  "redact_pair h = (fst h, if is_sensitive_name (fst h) then REDACTED_VALUE else snd h)"

definition redact_query_item :: "string \<Rightarrow> string" where
  "redact_query_item q = (case partition_at (CHR ''='') q of (name, found, value) \<Rightarrow>
     name @ (if found then ''='' else []) @ (if is_sensitive_name name then REDACTED_VALUE else value))"

text \<open>\<open>None\<close> is the \<open>ValueError\<close> of \<open>urlsplit\<close>.\<close>

definition redact_url :: "runtime \<Rightarrow> string \<Rightarrow> string option" where
  "redact_url rt url = (case urlsplit rt url of
     None \<Rightarrow> None
   | Some p \<Rightarrow> Some (urlunsplit (us_scheme p) (us_netloc p) (us_path p)
       (join ''&'' (map redact_query_item (str_split (CHR ''&'') (us_query p)))) []))"

section \<open>Redacted data\<close>

text \<open>Every member with a sensitive name holds the marker, at every depth.\<close>

fun redacted :: "json \<Rightarrow> bool"
and redacted_list :: "json list \<Rightarrow> bool"
and redacted_members :: "(string \<times> json) list \<Rightarrow> bool" where
  "redacted (JObj kvs) = redacted_members kvs"
| "redacted (JArr xs) = redacted_list xs"
| "redacted v = True"
| "redacted_list [] = True"
| "redacted_list (x # xs) = (redacted x \<and> redacted_list xs)"
| "redacted_members [] = True"
| "redacted_members ((k, v) # kvs) =
     ((is_sensitive_name k \<longrightarrow> v = JStr REDACTED_VALUE) \<and> redacted v \<and> redacted_members kvs)"

lemma redacted_list_iff [simp]: "redacted_list xs = (\<forall>x \<in> set xs. redacted x)"
  by (induction xs) auto

lemma redacted_members_iff [simp]:
  "redacted_members kvs = (\<forall>(k, v) \<in> set kvs. (is_sensitive_name k \<longrightarrow> v = JStr REDACTED_VALUE) \<and> redacted v)"
  by (induction kvs) auto

lemma redact_pair_redacted: "is_sensitive_name (fst h) \<Longrightarrow> snd (redact_pair h) = REDACTED_VALUE"
  by (simp add: redact_pair_def)

lemma redact_pair_idem [simp]: "redact_pair (redact_pair h) = redact_pair h"
  by (simp add: redact_pair_def)

end
