(* ===== verification/Restricted_Execution.thy ===== *)
theory Restricted_Execution
  imports Execution_Jobs Redaction
begin

text \<open>
  The restricted executor (\<open>restricted_execution.py\<close>) with the durable cancellation probe of
  \<open>restricted_execution_runtime.py\<close>.  \<open>execute\<close> returns its result together with the transport calls it
  made.  The injected adapters are parameters: \<open>resolve n\<close> is the answer of the \<open>n\<close>-th resolver call,
  \<open>probe n\<close> that of the \<open>n\<close>-th cancellation check, and \<open>transport\<close> what the transport does with a call.

  A response body is its bytes, one character per byte.
\<close>

section \<open>Data\<close>

definition forbidden_request_headers :: "string list" where
  "forbidden_request_headers = [''authorization'', ''cookie'', ''host'', ''proxy-authorization'',
     ''set-cookie'', ''x-forwarded-for'']"

datatype execution_outcome = OutcomeSucceeded | OutcomeFailed | OutcomeCancelled

datatype execution_failure_code =
    INVALID_CLAIM | APPROVAL_MISMATCH | APPROVAL_EXPIRED | APPROVAL_NOT_CONSUMED | PLAN_INVALID
  | PLAN_LIMIT_EXCEEDED | CODE_CANCELLED | TARGET_DENIED | FORBIDDEN_HEADER | TRANSPORT_TIMEOUT
  | TRANSPORT_ERROR | RESPONSE_TOO_LARGE | REDIRECT_RESPONSE | ASSERTIONS_FAILED

record transport_call =
  tr_method :: http_method
  tr_url :: string
  tr_headers :: "(string \<times> string) list"
  tr_body :: "string option"
  tr_timeout_ms :: int
  tr_max_response_bytes :: int
  tr_follow_redirects :: bool
  tr_resolved_address :: string

record transport_response =
  rs_status_code :: int
  rs_headers :: "(string \<times> string) list"
  rs_body :: string
  rs_elapsed_ms :: int

text \<open>\<open>send\<close> returns a response, raises \<open>TimeoutError\<close>, or raises anything else.\<close>

datatype transport_outcome = Response transport_response | TimedOut | Raised

record assertion_result =
  ar_target :: assertion_target
  ar_selector :: "string option"
  ar_operator :: assertion_operator
  ar_passed :: bool

record request_evidence =
  qe_method :: http_method
  qe_url :: string
  qe_headers :: "(string \<times> string) list"
  qe_json_body :: json

record response_evidence =
  se_status_code :: int
  se_headers :: "(string \<times> string) list"
  se_json_body :: json
  se_body_bytes :: int
  se_body_sha256 :: string
  se_elapsed_ms :: int

record execution_result =
  er_job_id :: "uuid option"
  er_outcome :: execution_outcome
  er_assertion_results :: "assertion_result list"
  er_request_evidence :: "request_evidence option"
  er_response_evidence :: "response_evidence option"
  er_error_code :: "execution_failure_code option"
  er_error_message :: "string option"
  er_transport_send_count :: int

text \<open>Exceptions that leave \<open>execute\<close>.\<close>

datatype execute_error = PlanRaised plan_error | UrlValueError | BodyLimitExceeded

section \<open>Checks on the claim and the plan\<close>

definition validate_claim :: "claimed_execution_job \<Rightarrow> instant \<Rightarrow> execution_failure_code option" where
  "validate_claim claimed now =
     (let job = cj_job claimed; approval = cj_approval claimed in
      if ej_state job \<noteq> RUNNING \<or> ej_started_at job = None \<or> ej_approval_id job \<noteq> ea_id approval
      then Some APPROVAL_MISMATCH
      else if ej_project_id job \<noteq> ea_project_id approval then Some APPROVAL_MISMATCH
      else if ea_consumed_at approval = None then Some APPROVAL_NOT_CONSUMED
      else if ea_expires_at approval \<le> now then Some APPROVAL_EXPIRED
      else None)"

definition job_matches_plan :: "claimed_execution_job \<Rightarrow> execution_plan \<Rightarrow> bool" where
  "job_matches_plan claimed plan \<longleftrightarrow>
     ej_plan_id (cj_job claimed) = pl_id plan \<and> ej_plan_hash (cj_job claimed) = pl_hash plan
     \<and> pl_id plan = pl_id (ea_plan (cj_approval claimed))
     \<and> pl_hash plan = pl_hash (ea_plan (cj_approval claimed))"

definition canonical_body :: "(string \<times> json) list option \<Rightarrow> string option" where
  "canonical_body v = map_option (\<lambda>kvs. canonical_json (JObj kvs)) v"

definition plan_limits_match :: "execution_plan \<Rightarrow> generated_test_case \<Rightarrow> bool" where
  "plan_limits_match plan t \<longleftrightarrow>
     request_count (pl_estimate plan) = 1
     \<and> assertion_count (pl_estimate plan) = int (length (tc_assertions t))
     \<and> assertion_count (pl_estimate plan) \<le> max_assertions (pl_limits plan)
     \<and> maximum_response_bytes (pl_estimate plan) = max_response_bytes (pl_limits plan)
     \<and> maximum_duration_ms (pl_estimate plan) = request_timeout_ms (pl_limits plan)
     \<and> request_body_bytes (pl_estimate plan) = (case canonical_body (req_json_body (tc_request t)) of
          None \<Rightarrow> 0 | Some b \<Rightarrow> int (length b))"

definition has_line_break :: "string \<Rightarrow> bool" where
  "has_line_break s = (str_in [CHR 0x0D] s \<or> str_in [CHR 0x0A] s)"

fun validated_headers :: "request_header list \<Rightarrow> execution_failure_code + (string \<times> string) list" where
  "validated_headers [] = Inr []"
| "validated_headers (h # hs) =
     (if has_line_break (hd_name h) \<or> has_line_break (hd_value h) then Inl PLAN_INVALID
      else if lower (hd_name h) \<in> set forbidden_request_headers then Inl FORBIDDEN_HEADER
      else bindE (validated_headers hs) (\<lambda>r. Inr ((hd_name h, hd_value h) # r)))"

definition request_url :: "execution_plan \<Rightarrow> generated_test_case \<Rightarrow> string" where
  "request_url plan t =
     (let query = urlencode (map (\<lambda>p. (qp_name p, qp_value p)) (req_query (tc_request t))) in
      pl_target_base_url plan @ req_path (tc_request t) @ (if query \<noteq> [] then ''?'' @ query else []))"

section \<open>Assertions on a response\<close>

definition parse_json_object_or_array :: "runtime \<Rightarrow> string \<Rightarrow> json option" where
  "parse_json_object_or_array rt body =
     (case Option.bind (utf8_decode body) (loads rt) of
        Some (JObj kvs) \<Rightarrow> Some (JObj kvs) | Some (JArr xs) \<Rightarrow> Some (JArr xs) | _ \<Rightarrow> None)"

text \<open>
  \<open>json.loads\<close> also raises outside \<open>JSONDecodeError\<close>: \<open>ValueError\<close> for an integer literal of more than
  \<open>sys.int_info.default_max_str_digits\<close> digits and \<open>RecursionError\<close> for nesting beyond \<open>scanner_depth\<close>.
  \<open>over_value\<close> follows \<open>parse_value\<close> (the same fuel) and says whether the scanner comes to such a literal or
  bracket before the value ends or a syntax error stops it; \<open>d\<close> is the number of open brackets.
\<close>

definition MAX_INT_DIGITS :: nat where "MAX_INT_DIGITS = 4300"

definition over_number :: "string \<Rightarrow> bool" where
  "over_number s = (case lex_int (if starts_with ''-'' s then tl s else s) of
     None \<Rightarrow> False
   | Some (ds, r) \<Rightarrow> fst (lex_frac r) = [] \<and> fst (lex_exp r) = [] \<and> MAX_INT_DIGITS < length ds)"

fun over_value :: "runtime \<Rightarrow> nat \<Rightarrow> nat \<Rightarrow> string \<Rightarrow> bool"
and over_elems :: "runtime \<Rightarrow> nat \<Rightarrow> nat \<Rightarrow> string \<Rightarrow> bool"
and over_members :: "runtime \<Rightarrow> nat \<Rightarrow> nat \<Rightarrow> string \<Rightarrow> bool" where
  "over_value rt 0 d s = False"
| "over_value rt (Suc n) d s = (case s of
     [] \<Rightarrow> False
   | c # r \<Rightarrow>
       if c = quote_char then False
       else if c = CHR ''{'' then
         scanner_depth rt \<le> d \<or> \<not> starts_with ''}'' (skip_ws r) \<and> over_members rt n (Suc d) (skip_ws r)
       else if c = CHR ''['' then
         scanner_depth rt \<le> d \<or> \<not> starts_with '']'' (skip_ws r) \<and> over_elems rt n (Suc d) (skip_ws r)
       else over_number s)"
| "over_elems rt 0 d s = False"
| "over_elems rt (Suc n) d s =
     (over_value rt n d s \<or> (case parse_value rt n s of
        None \<Rightarrow> False
      | Some (v, r) \<Rightarrow> (case skip_ws r of
          [] \<Rightarrow> False
        | c # r' \<Rightarrow> c = CHR '','' \<and> over_elems rt n d (skip_ws r'))))"
| "over_members rt 0 d s = False"
| "over_members rt (Suc n) d s =
     (starts_with [quote_char] s \<and> (case scan_string (tl s) of
        None \<Rightarrow> False
      | Some (k, r) \<Rightarrow> starts_with '':'' (skip_ws r) \<and>
          (over_value rt n d (skip_ws (tl (skip_ws r))) \<or> (case parse_value rt n (skip_ws (tl (skip_ws r))) of
             None \<Rightarrow> False
           | Some (v, r2) \<Rightarrow> (case skip_ws r2 of
               [] \<Rightarrow> False
             | c # r3 \<Rightarrow> c = CHR '','' \<and> over_members rt n d (skip_ws r3))))))"

definition loads_over_limits :: "runtime \<Rightarrow> string \<Rightarrow> bool" where
  "loads_over_limits rt s = over_value rt (2 * length (skip_ws s) + 2) 0 (skip_ws s)"

definition pointer_token :: "string \<Rightarrow> string" where
  "pointer_token s = str_replace ''~0'' ''~'' (str_replace ''~1'' ''/'' s)"

fun pointer_walk :: "json \<Rightarrow> string list \<Rightarrow> json option" where
  "pointer_walk current [] = Some current"
| "pointer_walk current (escaped # rest) =
     (let token = pointer_token escaped in
      case current of
        JObj kvs \<Rightarrow> (case map_of kvs token of None \<Rightarrow> None | Some v \<Rightarrow> pointer_walk v rest)
      | JArr xs \<Rightarrow>
          if is_decimal token \<and> (token = ''0'' \<or> \<not> starts_with ''0'' token) then
            (if digits_val token < length xs then pointer_walk (xs ! digits_val token) rest else None)
          else None
      | _ \<Rightarrow> None)"

definition json_pointer :: "json option \<Rightarrow> string \<Rightarrow> json option" where
  "json_pointer document pointer = (case document of
     None \<Rightarrow> None
   | Some d \<Rightarrow> if \<not> starts_with ''/'' pointer then None
       else pointer_walk d (str_split (CHR ''/'') (tl pointer)))"

text \<open>The response headers grouped by lower-case name.\<close>

definition header_values :: "(string \<times> string) list \<Rightarrow> string \<Rightarrow> string list option" where
  "header_values headers name =
     (let vs = map snd (filter (\<lambda>(n, _). lower n = name) headers) in if vs = [] then None else Some vs)"

datatype operand = Missing | Values "string list" | Value json

fun apply_operator :: "runtime \<Rightarrow> operand \<Rightarrow> assertion_operator \<Rightarrow> json \<Rightarrow> bool" where
  "apply_operator rt Missing op expected = False"
| "apply_operator rt (Values vs) op expected = (case op of
     EXISTS \<Rightarrow> True
   | EQUALS \<Rightarrow> list_ex (\<lambda>v. py_eq rt expected (JStr v)) vs
   | CONTAINS \<Rightarrow> list_ex (\<lambda>v. py_eq rt expected (JStr v)) vs
   | LESS_THAN_OR_EQUAL \<Rightarrow> False)"
| "apply_operator rt (Value v) op expected = (case op of
     EXISTS \<Rightarrow> True
   | EQUALS \<Rightarrow> py_eq rt v expected
   | CONTAINS \<Rightarrow> (case v of
       JStr s \<Rightarrow> (case expected of JStr e \<Rightarrow> str_in e s | _ \<Rightarrow> False)
     | JArr xs \<Rightarrow> list_ex (\<lambda>x. py_eq rt x expected) xs
     | JObj kvs \<Rightarrow> (case expected of JStr e \<Rightarrow> e \<in> fst ` set kvs | _ \<Rightarrow> False)
     | _ \<Rightarrow> False)
   | LESS_THAN_OR_EQUAL \<Rightarrow> (case (v, expected) of (JInt i, JInt e) \<Rightarrow> i \<le> e | _ \<Rightarrow> False))"

definition text_or_empty :: "string option \<Rightarrow> string" where
  "text_or_empty s = (case s of None \<Rightarrow> [] | Some t \<Rightarrow> t)"

definition evaluate_assertion ::
  "runtime \<Rightarrow> transport_response \<Rightarrow> json option \<Rightarrow> generated_assertion \<Rightarrow> bool" where
  "evaluate_assertion rt response body a = (case as_target a of
     STATUS_CODE \<Rightarrow> py_eq rt (JInt (rs_status_code response)) (as_expected a)
   | RESPONSE_TIME_MS \<Rightarrow> (case as_expected a of
       JInt e \<Rightarrow> e > 0 \<and> rs_elapsed_ms response \<le> e | _ \<Rightarrow> False)
   | RESPONSE_HEADER \<Rightarrow>
       apply_operator rt (case header_values (rs_headers response) (lower (text_or_empty (as_selector a))) of
         None \<Rightarrow> Missing | Some vs \<Rightarrow> Values vs) (as_operator a) (as_expected a)
   | JSON_BODY \<Rightarrow>
       apply_operator rt (case json_pointer body (text_or_empty (as_selector a)) of
         None \<Rightarrow> Missing | Some v \<Rightarrow> Value v) (as_operator a) (as_expected a))"

definition evaluate_assertions ::
  "runtime \<Rightarrow> generated_test_case \<Rightarrow> transport_response \<Rightarrow> assertion_result list" where
  "evaluate_assertions rt t response =
     (let body = parse_json_object_or_array rt (rs_body response) in
      map (\<lambda>a. \<lparr>ar_target = as_target a, ar_selector = as_selector a, ar_operator = as_operator a,
                 ar_passed = evaluate_assertion rt response body a\<rparr>) (tc_assertions t))"

section \<open>Evidence\<close>

fun redact_json :: "json \<Rightarrow> json"
and redact_json_list :: "json list \<Rightarrow> json list"
and redact_json_members :: "(string \<times> json) list \<Rightarrow> (string \<times> json) list" where
  "redact_json (JObj kvs) = JObj (redact_json_members kvs)"
| "redact_json (JArr xs) = JArr (redact_json_list xs)"
| "redact_json v = v"
| "redact_json_list [] = []"
| "redact_json_list (x # xs) = redact_json x # redact_json_list xs"
| "redact_json_members [] = []"
| "redact_json_members ((k, v) # kvs) =
     (k, if is_sensitive_name k then JStr REDACTED_VALUE else redact_json v) # redact_json_members kvs"

text \<open>The nested calls of \<open>_redact_json\<close> on a value; beyond \<open>recursion_depth\<close> of them it raises.\<close>

fun redact_calls :: "json \<Rightarrow> nat"
and redact_calls_list :: "json list \<Rightarrow> nat"
and redact_calls_members :: "(string \<times> json) list \<Rightarrow> nat" where
  "redact_calls (JObj kvs) = Suc (redact_calls_members kvs)"
| "redact_calls (JArr xs) = Suc (redact_calls_list xs)"
| "redact_calls v = 1"
| "redact_calls_list [] = 0"
| "redact_calls_list (x # xs) = max (redact_calls x) (redact_calls_list xs)"
| "redact_calls_members [] = 0"
| "redact_calls_members ((k, v) # kvs) =
     max (if is_sensitive_name k then 0 else redact_calls v) (redact_calls_members kvs)"

text \<open>Whether building the evidence of a response body raises: the \<open>except\<close> clause of
  \<open>_parse_json_object_or_array\<close> lists neither exception of \<open>json.loads\<close>, and nothing catches that of
  \<open>_redact_json\<close>.\<close>

definition body_over_limits :: "runtime \<Rightarrow> string \<Rightarrow> bool" where
  "body_over_limits rt body = (case utf8_decode body of
     None \<Rightarrow> False
   | Some s \<Rightarrow> loads_over_limits rt s \<or> (case parse_json_object_or_array rt body of
       None \<Rightarrow> False | Some v \<Rightarrow> recursion_depth rt < redact_calls v))"

definition redact_optional :: "json option \<Rightarrow> json" where
  "redact_optional v = (case v of None \<Rightarrow> JNull | Some j \<Rightarrow> redact_json j)"

definition response_evidence_of :: "runtime \<Rightarrow> transport_response \<Rightarrow> bool \<Rightarrow> response_evidence" where
  "response_evidence_of rt response include_json =
     \<lparr>se_status_code = rs_status_code response, se_headers = map redact_pair (rs_headers response),
      se_json_body = (if include_json then redact_optional (parse_json_object_or_array rt (rs_body response)) else JNull),
      se_body_bytes = int (length (rs_body response)), se_body_sha256 = sha256_hex rt (rs_body response),
      se_elapsed_ms = rs_elapsed_ms response\<rparr>"

definition valid_transport_response :: "transport_response \<Rightarrow> bool" where
  "valid_transport_response r \<longleftrightarrow> 100 \<le> rs_status_code r \<and> rs_status_code r \<le> 599 \<and> 0 \<le> rs_elapsed_ms r"

definition failed ::
  "uuid option \<Rightarrow> execution_failure_code \<Rightarrow> request_evidence option \<Rightarrow> response_evidence option
     \<Rightarrow> assertion_result list \<Rightarrow> int \<Rightarrow> execution_result" where
  "failed job c req resp results sends =
     \<lparr>er_job_id = job, er_outcome = OutcomeFailed, er_assertion_results = results,
      er_request_evidence = req, er_response_evidence = resp, er_error_code = Some c,
      er_error_message = Some ''Restricted execution was denied or did not complete safely.'',
      er_transport_send_count = sends\<rparr>"

definition cancelled ::
  "uuid \<Rightarrow> request_evidence \<Rightarrow> response_evidence option \<Rightarrow> assertion_result list \<Rightarrow> int \<Rightarrow> execution_result" where
  "cancelled job req resp results sends =
     \<lparr>er_job_id = Some job, er_outcome = OutcomeCancelled, er_assertion_results = results,
      er_request_evidence = Some req, er_response_evidence = resp, er_error_code = Some CODE_CANCELLED,
      er_error_message = Some ''Restricted execution was cancelled.'', er_transport_send_count = sends\<rparr>"

section \<open>Execution\<close>

text \<open>What happens after the transport was called, where no interpreter limit is met.\<close>

definition after_send ::
  "runtime \<Rightarrow> (nat \<Rightarrow> uuid \<Rightarrow> bool) \<Rightarrow> uuid \<Rightarrow> execution_plan \<Rightarrow> generated_test_case \<Rightarrow> request_evidence
     \<Rightarrow> transport_outcome \<Rightarrow> execution_result" where
  "after_send rt probe job plan t evidence sent = (case sent of
     TimedOut \<Rightarrow> failed (Some job) TRANSPORT_TIMEOUT (Some evidence) None [] 1
   | Raised \<Rightarrow> failed (Some job) TRANSPORT_ERROR (Some evidence) None [] 1
   | Response response \<Rightarrow>
       if \<not> valid_transport_response response then failed (Some job) TRANSPORT_ERROR (Some evidence) None [] 1
       else if int (length (rs_body response)) > max_response_bytes (pl_limits plan)
       then failed (Some job) RESPONSE_TOO_LARGE (Some evidence) (Some (response_evidence_of rt response False)) [] 1
       else (let resp = response_evidence_of rt response True in
         if 300 \<le> rs_status_code response \<and> rs_status_code response < 400
         then failed (Some job) REDIRECT_RESPONSE (Some evidence) (Some resp) [] 1
         else (let results = evaluate_assertions rt t response in
           if probe 2 job then cancelled job evidence (Some resp) results 1
           else if \<not> list_all ar_passed results
           then failed (Some job) ASSERTIONS_FAILED (Some evidence) (Some resp) results 1
           else \<lparr>er_job_id = Some job, er_outcome = OutcomeSucceeded, er_assertion_results = results,
                  er_request_evidence = Some evidence, er_response_evidence = Some resp,
                  er_error_code = None, er_error_message = None, er_transport_send_count = 1\<rparr>)))"

text \<open>A response whose evidence is built with its body, and whose body is over the limits: the exception
  leaves \<open>execute\<close>.\<close>

definition evidence_raises :: "runtime \<Rightarrow> execution_plan \<Rightarrow> transport_outcome \<Rightarrow> bool" where
  "evidence_raises rt plan sent = (case sent of
     Response response \<Rightarrow> valid_transport_response response
       \<and> int (length (rs_body response)) \<le> max_response_bytes (pl_limits plan)
       \<and> body_over_limits rt (rs_body response)
   | _ \<Rightarrow> False)"

definition finish_send ::
  "runtime \<Rightarrow> (nat \<Rightarrow> uuid \<Rightarrow> bool) \<Rightarrow> uuid \<Rightarrow> execution_plan \<Rightarrow> generated_test_case \<Rightarrow> request_evidence
     \<Rightarrow> transport_outcome \<Rightarrow> execute_error + execution_result" where
  "finish_send rt probe job plan t evidence sent =
     (if evidence_raises rt plan sent then Inl BodyLimitExceeded else Inr (after_send rt probe job plan t evidence sent))"

definition send_request ::
  "runtime \<Rightarrow> (nat \<Rightarrow> string \<Rightarrow> string list) \<Rightarrow> (nat \<Rightarrow> uuid \<Rightarrow> bool) \<Rightarrow> (transport_call \<Rightarrow> transport_outcome)
     \<Rightarrow> target_registry \<Rightarrow> uuid \<Rightarrow> execution_plan \<Rightarrow> generated_test_case \<Rightarrow> (string \<times> string) list \<Rightarrow> string option
     \<Rightarrow> request_evidence \<Rightarrow> (execute_error + execution_result) \<times> transport_call list" where
  "send_request rt resolve probe transport registry job plan t headers body evidence =
     (if probe 0 job then (Inr (cancelled job evidence None [] 0), [])
      else case validate_registered_target rt resolve registry (target_id_value (pl_target_id plan)) of
        Inl _ \<Rightarrow> (Inr (failed (Some job) TARGET_DENIED (Some evidence) None [] 0), [])
      | Inr target \<Rightarrow>
          if vt_id target \<noteq> pl_target_id plan \<or> vt_origin target \<noteq> pl_target_base_url plan
          then (Inr (failed (Some job) TARGET_DENIED (Some evidence) None [] 0), [])
          else if probe 1 job then (Inr (cancelled job evidence None [] 0), [])
          else (case vt_resolved_addresses target of
            [] \<Rightarrow> (Inr (after_send rt probe job plan t evidence Raised), [])
          | address # _ \<Rightarrow>
              (let call = \<lparr>tr_method = req_method (tc_request t), tr_url = request_url plan t,
                    tr_headers = headers, tr_body = body, tr_timeout_ms = request_timeout_ms (pl_limits plan),
                    tr_max_response_bytes = max_response_bytes (pl_limits plan),
                    tr_follow_redirects = False, tr_resolved_address = address\<rparr>
               in (finish_send rt probe job plan t evidence (transport call), [call]))))"

definition prepare_request ::
  "runtime \<Rightarrow> execution_plan \<Rightarrow> generated_test_case \<Rightarrow> uuid
     \<Rightarrow> (execute_error + execution_result) + ((string \<times> string) list \<times> string option \<times> request_evidence)" where
  "prepare_request rt plan t job =
     (let request = tc_request t; body = canonical_body (req_json_body request) in
      if \<not> plan_limits_match plan t then Inl (Inr (failed (Some job) PLAN_LIMIT_EXCEEDED None None [] 0))
      else case validated_headers (req_headers request) of
        Inl c \<Rightarrow> Inl (Inr (failed (Some job) c None None [] 0))
      | Inr headers \<Rightarrow>
          if (case body of None \<Rightarrow> False | Some b \<Rightarrow> int (length b) > max_request_body_bytes (pl_limits plan))
          then Inl (Inr (failed (Some job) PLAN_LIMIT_EXCEEDED None None [] 0))
          else (case redact_url rt (request_url plan t) of
            None \<Rightarrow> Inl (Inl UrlValueError)
          | Some url \<Rightarrow> Inr (headers, body,
              \<lparr>qe_method = req_method request, qe_url = url, qe_headers = map redact_pair headers,
               qe_json_body = redact_optional (map_option JObj (req_json_body request))\<rparr>)))"

definition execute ::
  "runtime \<Rightarrow> (nat \<Rightarrow> string \<Rightarrow> string list) \<Rightarrow> (nat \<Rightarrow> uuid \<Rightarrow> bool) \<Rightarrow> (transport_call \<Rightarrow> transport_outcome)
     \<Rightarrow> target_registry \<Rightarrow> instant \<Rightarrow> claimed_execution_job \<Rightarrow> (execute_error + execution_result) \<times> transport_call list" where
  "execute rt resolve probe transport registry now claimed =
     (let job = ej_id (cj_job claimed) in
      case validate_claim claimed now of
        Some c \<Rightarrow> (Inr (failed (Some job) c None None [] 0), [])
      | None \<Rightarrow>
          (case validate_execution_plan rt (ea_plan (cj_approval claimed)) registry of
             Inl (ExecutionPlanRejected _) \<Rightarrow> (Inr (failed (Some job) PLAN_INVALID None None [] 0), [])
           | Inl (PlanKeyError k) \<Rightarrow> (Inl (PlanRaised (PlanKeyError k)), [])
           | Inr plan \<Rightarrow>
               if \<not> job_matches_plan claimed plan then (Inr (failed (Some job) APPROVAL_MISMATCH None None [] 0), [])
               else (case plan_test_case rt plan of
                 Inl e \<Rightarrow> (Inl (PlanRaised e), [])
               | Inr t \<Rightarrow>
                   (case prepare_request rt plan t job of
                      Inl r \<Rightarrow> (r, [])
                    | Inr (headers, body, evidence) \<Rightarrow>
                        send_request rt resolve probe transport registry job plan t headers body evidence))))"

section \<open>The durable cancellation probe\<close>

definition is_cancel_requested :: "bool \<Rightarrow> uuid \<Rightarrow> execution_job list \<Rightarrow> bool" where
  "is_cancel_requested up job_id jobs =
     (if \<not> up then True
      else case scalar_one_or_none (filter (\<lambda>j. ej_id j = job_id) jobs) of
        Inl _ \<Rightarrow> True
      | Inr None \<Rightarrow> True
      | Inr (Some j) \<Rightarrow> ej_state j \<noteq> RUNNING \<or> ej_cancel_requested_at j \<noteq> None)"

section \<open>Evidence is redacted\<close>

lemma redact_json_list_map [simp]: "redact_json_list xs = map redact_json xs"
  by (induction xs) auto

lemma redact_json_members_map [simp]:
  "redact_json_members kvs = map (\<lambda>(k, v). (k, if is_sensitive_name k then JStr REDACTED_VALUE else redact_json v)) kvs"
  by (induction kvs) auto

lemma redact_json_redacted: "redacted (redact_json v)"
proof (induction v)
  case (JObj kvs)
  then show ?case by (fastforce split: if_splits)
qed auto

lemma redact_optional_redacted: "redacted (redact_optional v)"
  by (simp add: redact_optional_def redact_json_redacted split: option.split)

definition headers_redacted :: "(string \<times> string) list \<Rightarrow> bool" where
  "headers_redacted hs \<longleftrightarrow> (\<forall>(n, v) \<in> set hs. is_sensitive_name n \<longrightarrow> v = REDACTED_VALUE)"

lemma redact_pairs_redacted: "headers_redacted (map redact_pair hs)"
  by (auto simp: headers_redacted_def redact_pair_def)

definition evidence_redacted :: "execution_result \<Rightarrow> bool" where
  "evidence_redacted r \<longleftrightarrow>
     (\<forall>q. er_request_evidence r = Some q \<longrightarrow> redacted (qe_json_body q) \<and> headers_redacted (qe_headers q))
   \<and> (\<forall>s. er_response_evidence r = Some s \<longrightarrow> redacted (se_json_body s) \<and> headers_redacted (se_headers s))"

lemma response_evidence_redacted:
  "redacted (se_json_body (response_evidence_of rt resp b)) \<and> headers_redacted (se_headers (response_evidence_of rt resp b))"
  by (simp add: response_evidence_of_def redact_optional_redacted redact_pairs_redacted)

lemma prepare_request_Inr:
  assumes "prepare_request rt plan t job = Inr (headers, body, q)"
  shows "plan_limits_match plan t \<and> validated_headers (req_headers (tc_request t)) = Inr headers
    \<and> body = canonical_body (req_json_body (tc_request t))
    \<and> redacted (qe_json_body q) \<and> headers_redacted (qe_headers q)"
  using assms by (auto simp: prepare_request_def Let_def redact_optional_redacted redact_pairs_redacted
    split: if_splits sum.splits option.splits)

lemma prepare_request_bounds:
  assumes "prepare_request rt plan t job = Inr (headers, body, q)"
  shows "(\<forall>b. body = Some b \<longrightarrow> int (length b) \<le> max_request_body_bytes (pl_limits plan))
    \<and> (\<exists>u. urlsplit rt (request_url plan t) = Some u)"
  using assms by (auto simp: prepare_request_def redact_url_def Let_def split: if_splits sum.splits option.splits)

lemma validated_headers_Inr:
  "validated_headers hs = Inr r \<Longrightarrow> r = map (\<lambda>h. (hd_name h, hd_value h)) hs
     \<and> (\<forall>(n, v) \<in> set r. lower n \<notin> set forbidden_request_headers \<and> \<not> has_line_break n \<and> \<not> has_line_break v)"
  by (induction hs arbitrary: r) (auto simp: exn_simps split: if_splits)

lemma prepare_request_Inl:
  "prepare_request rt plan t job = Inl (Inr r) \<Longrightarrow>
   \<exists>c. r = failed (Some job) c None None [] 0"
  by (auto simp: prepare_request_def Let_def split: if_splits sum.splits option.splits)

lemma after_send_basic [simp]:
  "er_job_id (after_send rt probe job plan t q sent) = Some job"
  "er_transport_send_count (after_send rt probe job plan t q sent) = 1"
  "er_request_evidence (after_send rt probe job plan t q sent) = Some q"
  by (auto simp: after_send_def failed_def cancelled_def Let_def split: transport_outcome.split)

lemma after_send_redacted:
  "redacted (qe_json_body q) \<and> headers_redacted (qe_headers q) \<Longrightarrow>
   evidence_redacted (after_send rt probe job plan t q sent)"
  using response_evidence_redacted
  by (auto simp: after_send_def evidence_redacted_def failed_def cancelled_def Let_def
    split: transport_outcome.split)

section \<open>The transport is called at most once, and only after every check\<close>

lemma target_addresses_nonempty:
  "validate_registered_target rt resolve registry tid = Inr v \<Longrightarrow> vt_resolved_addresses v \<noteq> []"
  using validated_public_answers_Inr by (auto simp: validate_registered_target_def exn_simps)

lemma send_request_outcomes:
  assumes "send_request rt resolve probe transport registry job plan t headers body q = (res, calls)"
  obtains (quiet) r where "res = Inr r" "calls = []" "er_transport_send_count r = 0" "er_outcome r \<noteq> OutcomeSucceeded"
      "er_job_id r = Some job" "er_response_evidence r = None" "er_request_evidence r = Some q"
  | (sent) v a as call where
      "validate_registered_target rt resolve registry (target_id_value (pl_target_id plan)) = Inr v"
      "vt_id v = pl_target_id plan" "vt_origin v = pl_target_base_url plan" "\<not> probe 0 job" "\<not> probe 1 job"
      "vt_resolved_addresses v = a # as"
      "call = \<lparr>tr_method = req_method (tc_request t), tr_url = request_url plan t,
         tr_headers = headers, tr_body = body, tr_timeout_ms = request_timeout_ms (pl_limits plan),
         tr_max_response_bytes = max_response_bytes (pl_limits plan),
         tr_follow_redirects = False, tr_resolved_address = a\<rparr>"
      "calls = [call]" "res = finish_send rt probe job plan t q (transport call)"
  using assms
  by (auto simp: send_request_def Let_def failed_def cancelled_def split: if_splits sum.splits list.splits
    dest: target_addresses_nonempty)

lemma finish_send_Inr [simp]:
  "finish_send rt probe job plan t q sent = Inr r \<longleftrightarrow>
   \<not> evidence_raises rt plan sent \<and> r = after_send rt probe job plan t q sent"
  "finish_send rt probe job plan t q sent = Inl e \<longleftrightarrow> evidence_raises rt plan sent \<and> e = BodyLimitExceeded"
  by (auto simp: finish_send_def)

lemma send_request_cases:
  assumes "send_request rt resolve probe transport registry job plan t headers body q = (Inr r, calls)"
  obtains (quiet) "calls = []" "er_transport_send_count r = 0" "er_outcome r \<noteq> OutcomeSucceeded"
      "er_job_id r = Some job" "er_response_evidence r = None" "er_request_evidence r = Some q"
  | (sent) v a as call where
      "validate_registered_target rt resolve registry (target_id_value (pl_target_id plan)) = Inr v"
      "vt_id v = pl_target_id plan" "vt_origin v = pl_target_base_url plan" "\<not> probe 0 job" "\<not> probe 1 job"
      "vt_resolved_addresses v = a # as"
      "call = \<lparr>tr_method = req_method (tc_request t), tr_url = request_url plan t,
         tr_headers = headers, tr_body = body, tr_timeout_ms = request_timeout_ms (pl_limits plan),
         tr_max_response_bytes = max_response_bytes (pl_limits plan),
         tr_follow_redirects = False, tr_resolved_address = a\<rparr>"
      "calls = [call]" "\<not> evidence_raises rt plan (transport call)" "r = after_send rt probe job plan t q (transport call)"
  using assms
proof (cases rule: send_request_outcomes)
  case (sent v a as call)
  from sent(9) have "\<not> evidence_raises rt plan (transport call)" "r = after_send rt probe job plan t q (transport call)"
    by (metis finish_send_Inr(1))+
  with sent(1-8) show thesis by (rule that(2))
qed (use that(1) in auto)

lemma validate_claim_None:
  "validate_claim c now = None \<longleftrightarrow>
     ej_state (cj_job c) = RUNNING \<and> ej_started_at (cj_job c) \<noteq> None
     \<and> ej_approval_id (cj_job c) = ea_id (cj_approval c)
     \<and> ej_project_id (cj_job c) = ea_project_id (cj_approval c)
     \<and> ea_consumed_at (cj_approval c) \<noteq> None \<and> now < ea_expires_at (cj_approval c)"
  by (auto simp: validate_claim_def Let_def)

lemma execute_outcomes:
  assumes "execute rt resolve probe transport registry now c = (res, calls)"
  obtains (early) k where "calls = []" "res = Inr (failed (Some (ej_id (cj_job c))) k None None [] 0)"
  | (raised) e where "calls = []" "res = Inl e"
  | (ready) t headers body q where
      "validate_claim c now = None"
      "validate_execution_plan rt (ea_plan (cj_approval c)) registry = Inr (ea_plan (cj_approval c))"
      "job_matches_plan c (ea_plan (cj_approval c))"
      "plan_test_case rt (ea_plan (cj_approval c)) = Inr t"
      "prepare_request rt (ea_plan (cj_approval c)) t (ej_id (cj_job c)) = Inr (headers, body, q)"
      "send_request rt resolve probe transport registry (ej_id (cj_job c)) (ea_plan (cj_approval c)) t headers body q
         = (res, calls)"
proof -
  let ?p = "ea_plan (cj_approval c)"
  consider "\<exists>k. validate_claim c now = Some k" | "\<exists>e. validate_claim c now = None \<and> validate_execution_plan rt ?p registry = Inl e"
    | "validate_claim c now = None" "validate_execution_plan rt ?p registry = Inr ?p"
    by (metis not_None_eq sum.exhaust validate_execution_plan_Inr)
  then show thesis
  proof cases
    case 1
    with assms show thesis by (auto simp: execute_def Let_def intro: early)
  next
    case 2
    then obtain e where "validate_claim c now = None" "validate_execution_plan rt ?p registry = Inl e" by auto
    with assms show thesis by (cases e) (auto simp: execute_def Let_def intro: early raised)
  next
    case 3
    show thesis
    proof (cases "job_matches_plan c ?p \<and> (\<exists>t headers body q. plan_test_case rt ?p = Inr t
        \<and> prepare_request rt ?p t (ej_id (cj_job c)) = Inr (headers, body, q))")
      case True
      with 3 assms show thesis
        by (auto simp: execute_def Let_def split: prod.splits intro: ready)
    next
      case False
      with 3 assms show thesis
        by (auto simp: execute_def Let_def split: if_splits sum.splits prod.splits intro: early raised
          dest!: prepare_request_Inl) (metis old.sum.exhaust prepare_request_Inl early raised)+
    qed
  qed
qed

lemma execute_cases:
  assumes "execute rt resolve probe transport registry now c = (Inr r, calls)"
  obtains (early) k where "calls = []" "r = failed (Some (ej_id (cj_job c))) k None None [] 0"
  | (ready) t headers body q where
      "validate_claim c now = None"
      "validate_execution_plan rt (ea_plan (cj_approval c)) registry = Inr (ea_plan (cj_approval c))"
      "job_matches_plan c (ea_plan (cj_approval c))"
      "plan_test_case rt (ea_plan (cj_approval c)) = Inr t"
      "prepare_request rt (ea_plan (cj_approval c)) t (ej_id (cj_job c)) = Inr (headers, body, q)"
      "send_request rt resolve probe transport registry (ej_id (cj_job c)) (ea_plan (cj_approval c)) t headers body q
         = (Inr r, calls)"
  using assms
proof (cases rule: execute_outcomes)
  case (ready t headers body q)
  then show thesis by (rule that(2))
qed (auto intro: that(1))

section \<open>What success means\<close>

definition response_acceptable :: "runtime \<Rightarrow> execution_plan \<Rightarrow> generated_test_case \<Rightarrow> transport_response \<Rightarrow> bool" where
  "response_acceptable rt plan t resp \<longleftrightarrow> valid_transport_response resp
     \<and> int (length (rs_body resp)) \<le> max_response_bytes (pl_limits plan)
     \<and> \<not> (300 \<le> rs_status_code resp \<and> rs_status_code resp < 400)
     \<and> (\<forall>a \<in> set (tc_assertions t).
          evaluate_assertion rt resp (parse_json_object_or_array rt (rs_body resp)) a)"

lemma after_send_success:
  "er_outcome (after_send rt probe job plan t q sent) = OutcomeSucceeded \<longleftrightarrow>
   (\<exists>resp. sent = Response resp \<and> response_acceptable rt plan t resp \<and> \<not> probe 2 job)"
  by (auto simp: after_send_def failed_def cancelled_def Let_def response_acceptable_def
    evaluate_assertions_def list_all_iff not_less split: transport_outcome.split)

lemma after_send_evidence:
  "valid_transport_response resp \<Longrightarrow> int (length (rs_body resp)) \<le> max_response_bytes (pl_limits plan) \<Longrightarrow>
   er_response_evidence (after_send rt probe job plan t q (Response resp)) = Some (response_evidence_of rt resp True)"
  by (auto simp: after_send_def failed_def cancelled_def Let_def)

section \<open>When the executor returns a result\<close>

lemma default_target_url:
  "\<exists>u. urlsplit rt (''https://ai-qa-sandbox.onrender.com'' @ CHR ''/'' # p) = Some u"
  by (simp add: urlsplit_def clean_url_def lstrip_by_def split_scheme_def partition_at_def code_def
    is_alpha_def scheme_char_def is_digit_def lower_def lower_char_def Let_def starts_with_def
    split_netloc_def netloc_ok_def)

lemma snapshot_case_ok: "test_case_from_snapshot rt s = Inr t \<Longrightarrow> test_case_ok rt t"
  by (auto simp: test_case_from_snapshot_def exn_simps split: option.splits json.splits dest: validate_sound)

lemma plan_request_url:
  assumes "plan_test_case rt p = Inr t"
  shows "\<exists>r. request_url p t = pl_target_base_url p @ CHR ''/'' # r"
proof -
  have "path_ok (req_path (tc_request t))"
    using assms snapshot_case_ok by (fastforce simp: plan_test_case_def test_case_ok_def request_ok_def)
  then obtain r where "req_path (tc_request t) = CHR ''/'' # r"
    by (auto simp: path_ok_def starts_with_Suc)
  then show ?thesis by (simp add: request_url_def Let_def)
qed

lemma default_plan_url:
  assumes "validate_execution_plan rt p DEFAULT_TARGET_REGISTRY = Inr p" "plan_test_case rt p = Inr t"
  shows "redact_url rt (request_url p t) \<noteq> None"
proof -
  have base: "pl_target_base_url p = ''https://ai-qa-sandbox.onrender.com''"
    using assms(1) unfolding validate_execution_plan_Inr
    by (auto simp: registry_get_def DEFAULT_TARGET_REGISTRY_def split: option.splits if_splits)
  then obtain s where "request_url p t = ''https://ai-qa-sandbox.onrender.com'' @ CHR ''/'' # s"
    using plan_request_url [OF assms(2)] by auto
  then show ?thesis
    using default_target_url [of rt s] by (auto simp: redact_url_def)
qed

lemma execute_returns:
  assumes "execute rt resolve probe transport DEFAULT_TARGET_REGISTRY now c = (res, calls)"
  shows "if \<exists>call. calls = [call] \<and> evidence_raises rt (ea_plan (cj_approval c)) (transport call)
    then res = Inl BodyLimitExceeded else \<exists>r. res = Inr r"
  using assms
proof (cases rule: execute_outcomes)
  case (raised e)
  let ?p = "ea_plan (cj_approval c)" and ?res = "execute rt resolve probe transport DEFAULT_TARGET_REGISTRY now c"
  have "prepare_request rt ?p t (ej_id (cj_job c)) \<noteq> Inl (Inl e)"
    if "validate_execution_plan rt ?p DEFAULT_TARGET_REGISTRY = Inr ?p" "plan_test_case rt ?p = Inr t" for t
    using default_plan_url [OF that] by (auto simp: prepare_request_def Let_def split: sum.splits option.splits)
  moreover have "\<exists>t. plan_test_case rt ?p = Inr t" if "validate_execution_plan rt ?p DEFAULT_TARGET_REGISTRY = Inr ?p"
    using that by (auto simp: validate_execution_plan_Inr)
  moreover have "p = ?p" if "validate_execution_plan rt ?p DEFAULT_TARGET_REGISTRY = Inr p" for p
    using that by (simp add: validate_execution_plan_Inr)
  ultimately have False
    using assms raised validate_plan_never_KeyError [of rt ?p]
    by (auto simp: execute_def Let_def send_request_def finish_send_def split: option.splits sum.splits plan_error.splits if_splits prod.splits list.splits)
  then show ?thesis ..
next
  case (ready t headers body q)
  from ready(6) show ?thesis
  proof (cases rule: send_request_outcomes)
    case (sent v a as call)
    then show ?thesis by (auto simp: finish_send_def)
  qed simp
qed simp

section \<open>Bodies over the limits\<close>

lemma takeWhile_digits: "takeWhile is_digit (replicate n (CHR ''1'') @ '']'') = replicate n (CHR ''1'')"
  "dropWhile is_digit (replicate n (CHR ''1'') @ '']'') = '']''"
  by (induction n) (auto simp: is_digit_def code_def)

lemma ascii_utf8: "list_all (\<lambda>c. code c < 128) s \<Longrightarrow> utf8_decode s = Some s"
  by (induction s) auto

text \<open>An array holding one integer of more than 4300 digits.\<close>

lemma long_integer_over_limits:
  assumes "MAX_INT_DIGITS < n"
  shows "body_over_limits rt (''['' @ replicate n (CHR ''1'') @ '']'')"
proof -
  obtain m where n: "n = Suc m" using assms by (cases n) auto
  have "lex_int (replicate n (CHR ''1'') @ '']'') = Some (replicate n (CHR ''1''), '']'')"
    using takeWhile_digits [of n] n by (simp add: lex_int_def is_digit_def code_def)
  then have "over_number (replicate n (CHR ''1'') @ '']'')"
    using assms n by (simp add: over_number_def starts_with_def lex_frac_def lex_exp_def)
  then have "over_value rt (Suc k) d (replicate n (CHR ''1'') @ '']'')" for k d
    using n by (simp add: quote_char_def)
  then have "loads_over_limits rt (''['' @ replicate n (CHR ''1'') @ '']'')"
    using n by (simp add: loads_over_limits_def skip_ws_def is_ws_def code_def quote_char_def starts_with_def)
  moreover have "utf8_decode (''['' @ replicate n (CHR ''1'') @ '']'') = Some (''['' @ replicate n (CHR ''1'') @ '']'')"
    by (rule ascii_utf8) (simp add: code_def list_all_iff)
  ultimately show ?thesis by (simp add: body_over_limits_def)
qed

text \<open>More opening brackets than the scanner enters, whatever follows.\<close>

lemma brackets_over:
  "scanner_depth rt < d + n \<Longrightarrow> n \<le> f \<Longrightarrow> 0 < n \<Longrightarrow> over_value rt (f + f) d (replicate n (CHR ''['') @ s)"
proof (induction n arbitrary: d f)
  case (Suc n)
  then obtain g where f: "f = Suc g" by (cases f) auto
  show ?case
  proof (cases n)
    case 0
    with Suc.prems f show ?thesis by (simp add: quote_char_def)
  next
    case (Suc m)
    have "over_value rt (g + g) (Suc d) (replicate n (CHR ''['') @ s)"
      using Suc.IH [of "Suc d" g] Suc.prems Suc f by simp
    then have "over_elems rt (Suc (g + g)) (Suc d) (replicate n (CHR ''['') @ s)" by simp
    then show ?thesis
      using f Suc by (simp add: quote_char_def skip_ws_def is_ws_def code_def starts_with_def)
  qed
qed simp

lemma deep_brackets_over_limits:
  assumes "scanner_depth rt < n"
  shows "body_over_limits rt (replicate n (CHR ''[''))"
proof -
  have "skip_ws (replicate n (CHR ''['')) = replicate n (CHR ''['')"
    by (cases n) (simp_all add: skip_ws_def is_ws_def code_def)
  then have "loads_over_limits rt (replicate n (CHR ''[''))"
    using brackets_over [of rt 0 n "Suc n" "[]"] assms by (simp add: loads_over_limits_def mult_2)
  then show ?thesis
    using ascii_utf8 [of "replicate n (CHR ''['')"] by (simp add: body_over_limits_def list_all_iff code_def)
qed

end
