(* ===== verification/Execution_Results.thy ===== *)
theory Execution_Results
  imports Restricted_Execution
begin

text \<open>
  Durable terminal results (\<open>execution_results.py\<close> and the table \<open>execution_results\<close> of
  \<open>documents.py\<close>): the payload a worker may store, its validation with the second, independent check that
  sensitive values are redacted, and the transaction that completes a running job and stores its result.
\<close>

section \<open>Data\<close>

datatype result_outcome = ResultSucceeded | ResultFailed | ResultCancelled

text \<open>\<open>ResultValueError\<close> is a \<open>ValueError\<close> of the JSON functions that no handler catches.\<close>

datatype result_error = ExecutionResultUnavailable | ExecutionResultRejected string | ResultValueError

record result_payload =
  rp_outcome :: result_outcome
  rp_failure_code :: "string option"
  rp_assertion_results_json :: string
  rp_request_evidence_json :: "string option"
  rp_response_evidence_json :: "string option"
  rp_transport_send_count :: int

record result_row =
  rr_id :: uuid
  rr_job_id :: uuid
  rr_outcome :: result_outcome
  rr_failure_code :: "string option"
  rr_assertion_results :: json
  rr_request_evidence :: "json option"
  rr_response_evidence :: "json option"
  rr_transport_send_count :: int
  rr_recorded_at :: instant

record stored_result =
  sr_id :: uuid
  sr_job_id :: uuid
  sr_payload :: result_payload
  sr_recorded_at :: instant

text \<open>The last columns of a stored result are the six of the payload it was made from.\<close>

definition result_checks :: "result_row \<Rightarrow> bool" where
  "result_checks r \<longleftrightarrow> 0 \<le> rr_transport_send_count r \<and> rr_transport_send_count r \<le> 1
     \<and> (rr_outcome r = ResultSucceeded \<and> rr_failure_code r = None
        \<or> rr_outcome r \<in> {ResultFailed, ResultCancelled}
          \<and> (case rr_failure_code r of None \<Rightarrow> False | Some c \<Rightarrow> length (sql_trim c) > 0))"

definition result_conflict :: "result_row \<Rightarrow> result_row \<Rightarrow> bool" where
  "result_conflict r s \<longleftrightarrow> rr_id r = rr_id s \<or> rr_job_id r = rr_job_id s"

section \<open>Validation of a payload\<close>

abbreviation result_rejected :: "string \<Rightarrow> result_error" where
  "result_rejected \<equiv> ExecutionResultRejected"

text \<open>\<open>[a-z][a-z0-9_]{0,63}\<close>, full match.\<close>

definition lower_alpha :: "char \<Rightarrow> bool" where
  "lower_alpha c = (97 \<le> code c \<and> code c \<le> 122)"

definition safe_failure_code :: "string \<Rightarrow> bool" where
  "safe_failure_code s = (case s of [] \<Rightarrow> False
     | c # cs \<Rightarrow> lower_alpha c \<and> list_all (\<lambda>d. lower_alpha d \<or> is_digit d \<or> d = CHR ''_'') cs \<and> length cs \<le> 63)"

definition validated_failure_code :: "result_outcome \<Rightarrow> string option \<Rightarrow> result_error + string option" where
  "validated_failure_code outcome failure_code =
     (if outcome = ResultSucceeded then
        bindE (require (failure_code = None)
          (result_rejected ''A successful execution result cannot have a failure code'')) (\<lambda>_. Inr None)
      else
        bindE (require (case failure_code of None \<Rightarrow> False | Some c \<Rightarrow> safe_failure_code c)
          (result_rejected ''A failed or cancelled execution result requires a safe failure code''))
        (\<lambda>_. Inr failure_code))"

definition is_object :: "json \<Rightarrow> bool" where
  "is_object v = (case v of JObj _ \<Rightarrow> True | _ \<Rightarrow> False)"

definition is_array :: "json \<Rightarrow> bool" where
  "is_array v = (case v of JArr _ \<Rightarrow> True | _ \<Rightarrow> False)"

text \<open>\<open>_validate_json_value\<close> fails exactly on a non-finite number, which is \<open>all_finite\<close>.\<close>

definition canonical_result_json :: "runtime \<Rightarrow> string \<Rightarrow> bool \<Rightarrow> result_error + string" where
  "canonical_result_json rt value require_object = (case loads rt value of
     None \<Rightarrow> Inl (result_rejected ''Execution result JSON is malformed'')
   | Some parsed \<Rightarrow>
       if \<not> all_finite parsed then Inl (result_rejected ''Execution result JSON is malformed'')
       else if require_object \<and> \<not> is_object parsed
       then Inl (result_rejected ''Execution evidence must be a JSON object'')
       else Inr (canonical_json parsed))"

definition loads_or_raise :: "runtime \<Rightarrow> string \<Rightarrow> result_error + json" where
  "loads_or_raise rt s = (case loads rt s of None \<Rightarrow> Inl ResultValueError | Some v \<Rightarrow> Inr v)"

text \<open>\<open>_require_redacted_sensitive_values\<close>: \<open>True\<close> when it does not raise.\<close>

fun redaction_accepted :: "json \<Rightarrow> bool"
and redaction_accepted_list :: "json list \<Rightarrow> bool"
and redaction_accepted_members :: "(string \<times> json) list \<Rightarrow> bool" where
  "redaction_accepted (JObj kvs) = redaction_accepted_members kvs"
| "redaction_accepted (JArr xs) =
     (\<not> (case xs of [JStr name, v] \<Rightarrow> is_sensitive_name name \<and> v \<noteq> JStr REDACTED_VALUE | _ \<Rightarrow> False)
      \<and> redaction_accepted_list xs)"
| "redaction_accepted v = True"
| "redaction_accepted_list [] = True"
| "redaction_accepted_list (x # xs) = (redaction_accepted x \<and> redaction_accepted_list xs)"
| "redaction_accepted_members [] = True"
| "redaction_accepted_members ((k, v) # kvs) =
     (\<not> (is_sensitive_name k \<and> v \<noteq> JStr REDACTED_VALUE) \<and> redaction_accepted v \<and> redaction_accepted_members kvs)"

definition validated_evidence_json :: "runtime \<Rightarrow> string option \<Rightarrow> result_error + string option" where
  "validated_evidence_json rt value = (case value of
     None \<Rightarrow> Inr None
   | Some s \<Rightarrow>
       bindE (canonical_result_json rt s True) (\<lambda>canonical.
       bindE (loads_or_raise rt canonical) (\<lambda>parsed.
       bindE (require (redaction_accepted parsed)
         (result_rejected ''Sensitive execution evidence must be redacted'')) (\<lambda>_. Inr (Some canonical)))))"

definition validate_payload :: "runtime \<Rightarrow> result_payload \<Rightarrow> result_error + result_payload" where
  "validate_payload rt p =
     bindE (require (rp_transport_send_count p \<in> {0, 1})
       (result_rejected ''Restricted execution may record zero or one transport send'')) (\<lambda>_.
     bindE (validated_failure_code (rp_outcome p) (rp_failure_code p)) (\<lambda>c.
     bindE (canonical_result_json rt (rp_assertion_results_json p) False) (\<lambda>assertions.
     bindE (loads_or_raise rt assertions) (\<lambda>parsed.
     bindE (require (is_array parsed) (result_rejected ''Assertion results must be a JSON array'')) (\<lambda>_.
     bindE (validated_evidence_json rt (rp_request_evidence_json p)) (\<lambda>req.
     bindE (validated_evidence_json rt (rp_response_evidence_json p)) (\<lambda>resp.
       Inr \<lparr>rp_outcome = rp_outcome p, rp_failure_code = c, rp_assertion_results_json = assertions,
             rp_request_evidence_json = req, rp_response_evidence_json = resp,
             rp_transport_send_count = rp_transport_send_count p\<rparr>)))))))"

section \<open>Recording and reading\<close>

definition database_json :: "json \<Rightarrow> result_error + string" where
  "database_json v = (if all_finite v then Inr (canonical_json v) else Inl ResultValueError)"

definition optional_database_json :: "json option \<Rightarrow> result_error + string option" where
  "optional_database_json v = (case v of None \<Rightarrow> Inr None | Some j \<Rightarrow> bindE (database_json j) (\<lambda>s. Inr (Some s)))"

definition stored_result_from_record :: "result_row \<Rightarrow> result_error + stored_result" where
  "stored_result_from_record r =
     bindE (database_json (rr_assertion_results r)) (\<lambda>assertions.
     bindE (optional_database_json (rr_request_evidence r)) (\<lambda>req.
     bindE (optional_database_json (rr_response_evidence r)) (\<lambda>resp.
       Inr \<lparr>sr_id = rr_id r, sr_job_id = rr_job_id r,
             sr_payload = \<lparr>rp_outcome = rr_outcome r, rp_failure_code = rr_failure_code r,
               rp_assertion_results_json = assertions, rp_request_evidence_json = req,
               rp_response_evidence_json = resp, rp_transport_send_count = rr_transport_send_count r\<rparr>,
             sr_recorded_at = rr_recorded_at r\<rparr>)))"

definition complete_job :: "result_outcome \<Rightarrow> instant \<Rightarrow> execution_job \<Rightarrow> execution_job" where
  "complete_job outcome now j = (case outcome of
     ResultSucceeded \<Rightarrow> j\<lparr>ej_state := SUCCEEDED, ej_finished_at := Some now\<rparr>
   | ResultFailed \<Rightarrow> j\<lparr>ej_state := FAILED, ej_finished_at := Some now\<rparr>
   | ResultCancelled \<Rightarrow> j\<lparr>ej_state := CANCELLED, ej_finished_at := None,
       ej_cancel_requested_at := (case ej_cancel_requested_at j of None \<Rightarrow> Some now | Some t \<Rightarrow> Some t),
       ej_cancelled_at := Some now\<rparr>)"

definition optional_loads :: "runtime \<Rightarrow> string option \<Rightarrow> result_error + json option" where
  "optional_loads rt s = (case s of None \<Rightarrow> Inr None | Some t \<Rightarrow> bindE (loads_or_raise rt t) (\<lambda>v. Inr (Some v)))"

definition result_row_of ::
  "runtime \<Rightarrow> uuid \<Rightarrow> instant \<Rightarrow> uuid \<Rightarrow> result_payload \<Rightarrow> result_error + result_row" where
  "result_row_of rt new_id now job_id p =
     bindE (loads_or_raise rt (rp_assertion_results_json p)) (\<lambda>assertions.
     bindE (optional_loads rt (rp_request_evidence_json p)) (\<lambda>req.
     bindE (optional_loads rt (rp_response_evidence_json p)) (\<lambda>resp.
       Inr \<lparr>rr_id = new_id, rr_job_id = job_id, rr_outcome = rp_outcome p, rr_failure_code = rp_failure_code p,
             rr_assertion_results = assertions, rr_request_evidence = req, rr_response_evidence = resp,
             rr_transport_send_count = rp_transport_send_count p, rr_recorded_at = now\<rparr>)))"

text \<open>The body of the transaction once the job row and the result row of the job were read.\<close>

definition complete_and_store ::
  "runtime \<Rightarrow> uuid \<Rightarrow> instant \<Rightarrow> execution_job \<Rightarrow> result_payload \<Rightarrow> execution_db \<Rightarrow> result_row list
     \<Rightarrow> (result_error + stored_result) \<times> execution_db \<times> result_row list" where
  "complete_and_store rt new_id now j validated db results =
     (case result_row_of rt new_id now (ej_id j) validated of
        Inl e \<Rightarrow> (Inl e, db, results)
      | Inr row \<Rightarrow>
          (case (write_job (complete_job (rp_outcome validated) now) j (db_jobs db),
                 insert_row result_checks result_conflict row results) of
             (Inr jobs', Inr results') \<Rightarrow>
               (case stored_result_from_record row of
                  Inl e \<Rightarrow> (Inl e, db, results)
                | Inr stored \<Rightarrow> (Inr stored, db\<lparr>db_jobs := jobs'\<rparr>, results'))
           | _ \<Rightarrow> (Inl ExecutionResultUnavailable, db, results)))"

definition record_result ::
  "runtime \<Rightarrow> bool \<Rightarrow> uuid \<Rightarrow> instant \<Rightarrow> uuid \<Rightarrow> uuid \<Rightarrow> result_payload \<Rightarrow> execution_db \<Rightarrow> result_row list
     \<Rightarrow> (result_error + stored_result) \<times> execution_db \<times> result_row list" where
  "record_result rt up new_id now project job_id payload db results =
     (case validate_payload rt payload of
        Inl e \<Rightarrow> (Inl e, db, results)
      | Inr validated \<Rightarrow>
          if \<not> up then (Inl ExecutionResultUnavailable, db, results)
          else (case scalar_one_or_none (filter (\<lambda>j. ej_id j = job_id \<and> ej_project_id j = project) (db_jobs db)) of
            Inl _ \<Rightarrow> (Inl ExecutionResultUnavailable, db, results)
          | Inr None \<Rightarrow> (Inl (result_rejected ''Execution job does not belong to the supplied project''), db, results)
          | Inr (Some j) \<Rightarrow>
              (case scalar_one_or_none (filter (\<lambda>r. rr_job_id r = job_id) results) of
                 Inl _ \<Rightarrow> (Inl ExecutionResultUnavailable, db, results)
               | Inr (Some r) \<Rightarrow>
                   (case stored_result_from_record r of
                      Inl e \<Rightarrow> (Inl e, db, results)
                    | Inr existing \<Rightarrow>
                        if sr_payload existing = validated then (Inr existing, db, results)
                        else (Inl (result_rejected ''Execution job already has different terminal evidence''), db, results))
               | Inr None \<Rightarrow>
                   if ej_state j \<noteq> RUNNING \<or> ej_started_at j = None
                   then (Inl (result_rejected ''Only a claimed running execution job can be completed''), db, results)
                   else complete_and_store rt new_id now j validated db results)))"

definition get_result ::
  "bool \<Rightarrow> uuid \<Rightarrow> uuid \<Rightarrow> execution_db \<Rightarrow> result_row list \<Rightarrow> result_error + stored_result option" where
  "get_result up project job_id db results =
     (if \<not> up then Inl ExecutionResultUnavailable
      else case scalar_one_or_none (concat (map (\<lambda>j. filter (\<lambda>r. rr_job_id r = ej_id j) results)
             (filter (\<lambda>j. ej_id j = job_id \<and> ej_project_id j = project) (db_jobs db)))) of
        Inl _ \<Rightarrow> Inl ExecutionResultUnavailable
      | Inr None \<Rightarrow> Inr None
      | Inr (Some r) \<Rightarrow> bindE (stored_result_from_record r) (\<lambda>s. Inr (Some s)))"

section \<open>The table\<close>

interpretation results: table result_checks result_conflict
  by unfold_locales (auto simp: result_conflict_def)

abbreviation "results_ok \<equiv> table_ok result_checks result_conflict"

lemma complete_job_keys [simp]:
  "ej_id (complete_job out now j) = ej_id j" "ej_approval_id (complete_job out now j) = ej_approval_id j"
  "ej_project_id (complete_job out now j) = ej_project_id j" "ej_started_at (complete_job out now j) = ej_started_at j"
  "ej_plan_id (complete_job out now j) = ej_plan_id j" "ej_plan_hash (complete_job out now j) = ej_plan_hash j"
  by (simp_all add: complete_job_def split: result_outcome.split)

lemma running_complete_checks:
  "job_checks j \<Longrightarrow> ej_state j = RUNNING \<Longrightarrow> job_checks (complete_job out now j)"
  by (auto simp: job_checks_def job_lifecycle_def complete_job_def split: result_outcome.split)

end
