(* ===== verification/Execution_Worker.thy ===== *)
theory Execution_Worker
  imports Execution_Results
begin

text \<open>
  The one-shot worker (\<open>execution_worker.py\<close>): the conversion of an executor result into a durable
  payload, with its own redaction, and \<open>run_once\<close>, which claims, executes and records one job.
\<close>

section \<open>Data\<close>

datatype worker_error =
    ExecutionWorkerInvariantError string
  | WorkerJobError job_error
  | WorkerExecuteError execute_error
  | WorkerResultError result_error

record worker_run =
  wr_claimed_job_id :: "uuid option"
  wr_execution_result :: "execution_result option"
  wr_stored_result :: "stored_result option"

section \<open>The durable payload\<close>

fun durable_outcome :: "execution_outcome \<Rightarrow> result_outcome" where
  "durable_outcome OutcomeSucceeded = ResultSucceeded"
| "durable_outcome OutcomeFailed = ResultFailed"
| "durable_outcome OutcomeCancelled = ResultCancelled"

fun failure_code_value :: "execution_failure_code \<Rightarrow> string" where
  "failure_code_value INVALID_CLAIM = ''invalid_claim''"
| "failure_code_value APPROVAL_MISMATCH = ''approval_mismatch''"
| "failure_code_value APPROVAL_EXPIRED = ''approval_expired''"
| "failure_code_value APPROVAL_NOT_CONSUMED = ''approval_not_consumed''"
| "failure_code_value PLAN_INVALID = ''plan_invalid''"
| "failure_code_value PLAN_LIMIT_EXCEEDED = ''plan_limit_exceeded''"
| "failure_code_value CODE_CANCELLED = ''cancelled''"
| "failure_code_value TARGET_DENIED = ''target_denied''"
| "failure_code_value FORBIDDEN_HEADER = ''forbidden_header''"
| "failure_code_value TRANSPORT_TIMEOUT = ''transport_timeout''"
| "failure_code_value TRANSPORT_ERROR = ''transport_error''"
| "failure_code_value RESPONSE_TOO_LARGE = ''response_too_large''"
| "failure_code_value REDIRECT_RESPONSE = ''redirect_response''"
| "failure_code_value ASSERTIONS_FAILED = ''assertions_failed''"

definition worker_failure_code :: "execution_result \<Rightarrow> result_outcome \<Rightarrow> worker_error + string option" where
  "worker_failure_code r outcome =
     (if outcome = ResultSucceeded then
        bindE (require (er_error_code r = None)
          (ExecutionWorkerInvariantError ''A successful executor result cannot have a failure code'')) (\<lambda>_. Inr None)
      else case er_error_code r of
        None \<Rightarrow> Inl (ExecutionWorkerInvariantError ''A failed or cancelled executor result requires a failure code'')
      | Some c \<Rightarrow> Inr (Some (failure_code_value c)))"

definition transport_send_count :: "int \<Rightarrow> worker_error + int" where
  "transport_send_count n = bindE (require (n \<in> {0, 1})
     (ExecutionWorkerInvariantError ''Restricted execution may report zero or one transport send'')) (\<lambda>_. Inr n)"

definition assertion_result_payload :: "assertion_result \<Rightarrow> json" where
  "assertion_result_payload a = JObj
     [(''operator'', JStr (operator_value (ar_operator a))), (''passed'', JBool (ar_passed a)),
      (''selector'', opt_str (ar_selector a)), (''target'', JStr (target_value (ar_target a)))]"

definition redacted_headers_json :: "(string \<times> string) list \<Rightarrow> json" where
  "redacted_headers_json hs = JArr (map (\<lambda>h. JArr [JStr (fst (redact_pair h)), JStr (snd (redact_pair h))]) hs)"

fun worker_redact_json :: "json \<Rightarrow> worker_error + json"
and worker_redact_list :: "json list \<Rightarrow> worker_error + json list"
and worker_redact_members :: "(string \<times> json) list \<Rightarrow> worker_error + (string \<times> json) list" where
  "worker_redact_json (JFloat r) = bindE (require (float_finite r)
     (ExecutionWorkerInvariantError ''Execution evidence contains a non-finite number'')) (\<lambda>_. Inr (JFloat r))"
| "worker_redact_json (JArr xs) = bindE (worker_redact_list xs) (\<lambda>ys. Inr (JArr ys))"
| "worker_redact_json (JObj kvs) = bindE (worker_redact_members kvs) (\<lambda>ys. Inr (JObj ys))"
| "worker_redact_json v = Inr v"
| "worker_redact_list [] = Inr []"
| "worker_redact_list (x # xs) =
     bindE (worker_redact_json x) (\<lambda>y. bindE (worker_redact_list xs) (\<lambda>ys. Inr (y # ys)))"
| "worker_redact_members [] = Inr []"
| "worker_redact_members ((k, v) # kvs) =
     bindE (if is_sensitive_name k then Inr (JStr REDACTED_VALUE) else worker_redact_json v) (\<lambda>w.
     bindE (worker_redact_members kvs) (\<lambda>ys. Inr ((k, w) # ys)))"

definition worker_redact_url :: "runtime \<Rightarrow> string \<Rightarrow> worker_error + string" where
  "worker_redact_url rt url = (case redact_url rt url of
     None \<Rightarrow> Inl (ExecutionWorkerInvariantError ''Execution request evidence URL is malformed'')
   | Some u \<Rightarrow> Inr u)"

definition worker_canonical_json :: "json \<Rightarrow> worker_error + string" where
  "worker_canonical_json v = (case canonical_json_strict v of
     None \<Rightarrow> Inl (ExecutionWorkerInvariantError ''Execution evidence cannot be represented as JSON'')
   | Some s \<Rightarrow> Inr s)"

definition request_evidence_value :: "runtime \<Rightarrow> request_evidence \<Rightarrow> worker_error + json" where
  "request_evidence_value rt e =
     bindE (worker_redact_json (qe_json_body e)) (\<lambda>body.
     bindE (worker_redact_url rt (qe_url e)) (\<lambda>url.
       Inr (JObj [(''headers'', redacted_headers_json (qe_headers e)), (''json_body'', body),
             (''method'', JStr (method_value (qe_method e))), (''url'', JStr url)])))"

definition response_evidence_value :: "response_evidence \<Rightarrow> worker_error + json" where
  "response_evidence_value e =
     bindE (worker_redact_json (se_json_body e)) (\<lambda>body.
       Inr (JObj [(''body_bytes'', JInt (se_body_bytes e)), (''body_sha256'', JStr (se_body_sha256 e)),
             (''elapsed_ms'', JInt (se_elapsed_ms e)), (''headers'', redacted_headers_json (se_headers e)),
             (''json_body'', body), (''status_code'', JInt (se_status_code e))]))"

definition evidence_json :: "('e \<Rightarrow> worker_error + json) \<Rightarrow> 'e option \<Rightarrow> worker_error + string option" where
  "evidence_json f e = (case e of None \<Rightarrow> Inr None
     | Some v \<Rightarrow> bindE (bindE (f v) worker_canonical_json) (\<lambda>s. Inr (Some s)))"

definition execution_result_payload :: "runtime \<Rightarrow> execution_result \<Rightarrow> worker_error + result_payload" where
  "execution_result_payload rt r =
     (let outcome = durable_outcome (er_outcome r) in
      bindE (worker_failure_code r outcome) (\<lambda>c.
      bindE (worker_canonical_json (JArr (map assertion_result_payload (er_assertion_results r)))) (\<lambda>assertions.
      bindE (evidence_json (request_evidence_value rt) (er_request_evidence r)) (\<lambda>req.
      bindE (evidence_json response_evidence_value (er_response_evidence r)) (\<lambda>resp.
      bindE (transport_send_count (er_transport_send_count r)) (\<lambda>n.
        Inr \<lparr>rp_outcome = outcome, rp_failure_code = c, rp_assertion_results_json = assertions,
              rp_request_evidence_json = req, rp_response_evidence_json = resp,
              rp_transport_send_count = n\<rparr>))))))"

section \<open>One worker invocation\<close>

definition require_result_for_claim :: "execution_result \<Rightarrow> claimed_execution_job \<Rightarrow> worker_error + unit" where
  "require_result_for_claim r c = require (er_job_id r = Some (ej_id (cj_job c)))
     (ExecutionWorkerInvariantError ''The executor result does not belong to the claimed job'')"

text \<open>
  \<open>_execute_claimed_job\<close>: the executor runs at \<open>now\<close>, the result is recorded at \<open>now'\<close> under the
  identifier \<open>new_id\<close> when the database answers (\<open>up\<close>).
\<close>

definition execute_claimed_job ::
  "runtime \<Rightarrow> (nat \<Rightarrow> string \<Rightarrow> string list) \<Rightarrow> (nat \<Rightarrow> uuid \<Rightarrow> bool) \<Rightarrow> (transport_call \<Rightarrow> transport_outcome)
     \<Rightarrow> instant \<Rightarrow> bool \<Rightarrow> uuid \<Rightarrow> instant \<Rightarrow> claimed_execution_job \<Rightarrow> execution_db \<Rightarrow> result_row list
     \<Rightarrow> (worker_error + worker_run) \<times> transport_call list \<times> execution_db \<times> result_row list" where
  "execute_claimed_job rt resolve probe transport now up new_id now' claimed db results =
     (case execute rt resolve probe transport DEFAULT_TARGET_REGISTRY now claimed of
        (Inl e, calls) \<Rightarrow> (Inl (WorkerExecuteError e), calls, db, results)
      | (Inr r, calls) \<Rightarrow>
          (case bindE (require_result_for_claim r claimed) (\<lambda>_. execution_result_payload rt r) of
             Inl e \<Rightarrow> (Inl e, calls, db, results)
           | Inr payload \<Rightarrow>
               (case record_result rt up new_id now' (ej_project_id (cj_job claimed)) (ej_id (cj_job claimed))
                       payload db results of
                  (Inl e, db', results') \<Rightarrow> (Inl (WorkerResultError e), calls, db', results')
                | (Inr stored, db', results') \<Rightarrow>
                    (Inr \<lparr>wr_claimed_job_id = Some (ej_id (cj_job claimed)), wr_execution_result = Some r,
                           wr_stored_result = Some stored\<rparr>, calls, db', results'))))"

definition run_once ::
  "runtime \<Rightarrow> bool \<Rightarrow> uuid list \<Rightarrow> instant \<Rightarrow> (nat \<Rightarrow> string \<Rightarrow> string list) \<Rightarrow> (nat \<Rightarrow> uuid \<Rightarrow> bool)
     \<Rightarrow> (transport_call \<Rightarrow> transport_outcome) \<Rightarrow> instant \<Rightarrow> bool \<Rightarrow> uuid \<Rightarrow> instant \<Rightarrow> execution_db \<Rightarrow> result_row list
     \<Rightarrow> (worker_error + worker_run) \<times> transport_call list \<times> execution_db \<times> result_row list" where
  "run_once rt up locked claim_time resolve probe transport now up' new_id now' db results =
     (case claim_next rt up locked claim_time db of
        (Inl e, db') \<Rightarrow> (Inl (WorkerJobError e), [], db', results)
      | (Inr None, db') \<Rightarrow>
          (Inr \<lparr>wr_claimed_job_id = None, wr_execution_result = None, wr_stored_result = None\<rparr>, [], db', results)
      | (Inr (Some claimed), db') \<Rightarrow>
          execute_claimed_job rt resolve probe transport now up' new_id now' claimed db' results)"

end
