(* ===== verification/Worker_Correctness.thy ===== *)
theory Worker_Correctness
  imports Execution_Worker
begin

text \<open>
  The worker's side of the evidence contract: its second redaction changes nothing the executor already
  redacted, the payload it builds is canonical, and the result repository accepts it exactly when its
  own check on sensitive values does.
\<close>

section \<open>Redaction\<close>

lemma redaction_accepted_list_iff [simp]: "redaction_accepted_list xs = (\<forall>x \<in> set xs. redaction_accepted x)"
  by (induction xs) auto

lemma redaction_accepted_members_iff [simp]:
  "redaction_accepted_members kvs =
   (\<forall>(k, v) \<in> set kvs. (is_sensitive_name k \<longrightarrow> v = JStr REDACTED_VALUE) \<and> redaction_accepted v)"
  by (induction kvs) auto

lemma redaction_accepted_redacted: "redaction_accepted v \<Longrightarrow> redacted v"
proof (induction v)
  case (JObj kvs)
  then show ?case by fastforce
qed auto

lemma canon_eq_JStr [simp]: "canon v = JStr s \<longleftrightarrow> v = JStr s"
  by (cases v) auto

lemma redaction_accepted_canon [simp]: "redaction_accepted (canon v) = redaction_accepted v"
proof (induction v)
  case (JArr xs)
  have "(case map canon xs of [JStr n, w] \<Rightarrow> is_sensitive_name n \<and> w \<noteq> JStr REDACTED_VALUE | _ \<Rightarrow> False)
      = (case xs of [JStr n, w] \<Rightarrow> is_sensitive_name n \<and> w \<noteq> JStr REDACTED_VALUE | _ \<Rightarrow> False)"
    by (auto split: list.splits json.splits)
  with JArr show ?case by simp
next
  case (JObj kvs)
  then show ?case by (fastforce simp: image_iff)
qed auto

lemma all_finite_canon [simp]: "all_finite (canon v) = all_finite v"
proof (induction v)
  case (JObj kvs)
  then show ?case by (fastforce simp: image_iff)
qed auto

lemma redact_json_idem [simp]: "redact_json (redact_json v) = redact_json v"
proof (induction v)
  case (JObj kvs)
  then show ?case by (fastforce)
qed auto

lemma worker_redact_json_eq:
  "worker_redact_json v = (if all_finite (redact_json v) then Inr (redact_json v)
     else Inl (ExecutionWorkerInvariantError ''Execution evidence contains a non-finite number''))"
  "worker_redact_list xs = (if all_finite_list (redact_json_list xs) then Inr (redact_json_list xs)
     else Inl (ExecutionWorkerInvariantError ''Execution evidence contains a non-finite number''))"
  "worker_redact_members kvs = (if all_finite_members (redact_json_members kvs) then Inr (redact_json_members kvs)
     else Inl (ExecutionWorkerInvariantError ''Execution evidence contains a non-finite number''))"
  by (induction v and xs and kvs rule: worker_redact_json_worker_redact_list_worker_redact_members.induct)
    (auto simp del: redact_json_list_map redact_json_members_map all_finite_list_iff all_finite_members_iff)

lemma json_ok_redact: "json_ok rt v \<Longrightarrow> json_ok rt (redact_json v)"
proof (induction v)
  case (JObj kvs)
  have "map fst (map (\<lambda>(k, v). (k, if is_sensitive_name k then JStr REDACTED_VALUE else redact_json v)) kvs) = map fst kvs"
    by (induction kvs) auto
  with JObj show ?case by (fastforce simp del: map_map)
qed auto

section \<open>The repository reads back what the worker wrote\<close>

lemma canonical_result_json_back:
  assumes "json_ok rt v" "all_finite v"
  shows "canonical_result_json rt (canonical_json v) False = Inr (canonical_json v)"
    and "is_object v \<Longrightarrow> canonical_result_json rt (canonical_json v) True = Inr (canonical_json v)"
proof -
  have "is_object (canon v) = is_object v" by (cases v) (auto simp: is_object_def)
  then show "canonical_result_json rt (canonical_json v) False = Inr (canonical_json v)"
    and "is_object v \<Longrightarrow> canonical_result_json rt (canonical_json v) True = Inr (canonical_json v)"
    using loads_canonical_json [OF assms(1)] assms(2) by (simp_all add: canonical_result_json_def)
qed

lemma loads_or_raise_back: "json_ok rt v \<Longrightarrow> loads_or_raise rt (canonical_json v) = Inr (canon v)"
  by (simp add: loads_or_raise_def loads_canonical_json)

lemma validated_evidence_back:
  assumes "json_ok rt v" "all_finite v" "is_object v"
  shows "validated_evidence_json rt (Some (canonical_json v)) =
    (if redaction_accepted v then Inr (Some (canonical_json v))
     else Inl (ExecutionResultRejected ''Sensitive execution evidence must be redacted''))"
  using canonical_result_json_back(2) [OF assms] loads_or_raise_back [OF assms(1)]
  by (simp add: validated_evidence_json_def)

section \<open>What the executor hands to the worker\<close>

definition storable_json :: "json \<Rightarrow> bool" where
  "storable_json v \<longleftrightarrow> all_finite v \<and> redaction_accepted v"

text \<open>
  The evidence bodies carry no non-finite number and no two-element list whose first element is a
  sensitive name with an unredacted second one.
\<close>

definition evidence_storable :: "execution_result \<Rightarrow> bool" where
  "evidence_storable r \<longleftrightarrow>
     (\<forall>q. er_request_evidence r = Some q \<longrightarrow> storable_json (redact_json (qe_json_body q)))
   \<and> (\<forall>s. er_response_evidence r = Some s \<longrightarrow> storable_json (redact_json (se_json_body s)))"

definition result_shape :: "runtime \<Rightarrow> execution_result \<Rightarrow> bool" where
  "result_shape rt r \<longleftrightarrow>
     (er_outcome r = OutcomeSucceeded \<longleftrightarrow> er_error_code r = None) \<and> er_transport_send_count r \<in> {0, 1}
   \<and> (\<forall>q. er_request_evidence r = Some q \<longrightarrow> json_ok rt (qe_json_body q) \<and> redact_url rt (qe_url q) \<noteq> None)
   \<and> (\<forall>s. er_response_evidence r = Some s \<longrightarrow> json_ok rt (se_json_body s))"

lemma evidence_names [simp]:
  "\<not> is_sensitive_name ''headers''" "\<not> is_sensitive_name ''json_body''" "\<not> is_sensitive_name ''method''"
  "\<not> is_sensitive_name ''url''" "\<not> is_sensitive_name ''body_bytes''" "\<not> is_sensitive_name ''body_sha256''"
  "\<not> is_sensitive_name ''elapsed_ms''" "\<not> is_sensitive_name ''status_code''"
  by code_simp+

lemma redacted_headers_json_ok [simp]:
  "json_ok rt (redacted_headers_json hs)" "all_finite (redacted_headers_json hs)"
  "redaction_accepted (redacted_headers_json hs)"
  by (auto simp: redacted_headers_json_def redact_pair_def split: list.splits json.splits)

lemma request_evidence_stored:
  assumes "json_ok rt (qe_json_body q)" "redact_url rt (qe_url q) \<noteq> None" "storable_json (redact_json (qe_json_body q))"
  shows "\<exists>s. evidence_json (request_evidence_value rt) (Some q) = Inr (Some s)
    \<and> validated_evidence_json rt (Some s) = Inr (Some s)"
proof -
  obtain u where u: "redact_url rt (qe_url q) = Some u" using assms(2) by auto
  let ?v = "JObj [(''headers'', redacted_headers_json (qe_headers q)), (''json_body'', redact_json (qe_json_body q)),
    (''method'', JStr (method_value (qe_method q))), (''url'', JStr u)]"
  have v: "request_evidence_value rt q = Inr ?v"
    using assms(3) u by (simp add: request_evidence_value_def worker_redact_json_eq worker_redact_url_def storable_json_def)
  have ok: "json_ok rt ?v" "all_finite ?v" "redaction_accepted ?v" "is_object ?v"
    using assms json_ok_redact by (simp_all add: storable_json_def is_object_def)
  have "evidence_json (request_evidence_value rt) (Some q) = Inr (Some (canonical_json ?v))"
    using v ok(2) by (simp add: evidence_json_def worker_canonical_json_def canonical_json_strict_def del: all_finite.simps)
  moreover have "validated_evidence_json rt (Some (canonical_json ?v)) = Inr (Some (canonical_json ?v))"
    using validated_evidence_back [OF ok(1,2,4)] ok(3) by presburger
  ultimately show ?thesis by blast
qed

lemma response_evidence_stored:
  assumes "json_ok rt (se_json_body e)" "storable_json (redact_json (se_json_body e))"
  shows "\<exists>s. evidence_json response_evidence_value (Some e) = Inr (Some s)
    \<and> validated_evidence_json rt (Some s) = Inr (Some s)"
proof -
  let ?v = "JObj [(''body_bytes'', JInt (se_body_bytes e)), (''body_sha256'', JStr (se_body_sha256 e)),
    (''elapsed_ms'', JInt (se_elapsed_ms e)), (''headers'', redacted_headers_json (se_headers e)),
    (''json_body'', redact_json (se_json_body e)), (''status_code'', JInt (se_status_code e))]"
  have v: "response_evidence_value e = Inr ?v"
    using assms(2) by (simp add: response_evidence_value_def worker_redact_json_eq storable_json_def)
  have ok: "json_ok rt ?v" "all_finite ?v" "redaction_accepted ?v" "is_object ?v"
    using assms json_ok_redact by (simp_all add: storable_json_def is_object_def)
  have "evidence_json response_evidence_value (Some e) = Inr (Some (canonical_json ?v))"
    using v ok(2) by (simp add: evidence_json_def worker_canonical_json_def canonical_json_strict_def del: all_finite.simps)
  moreover have "validated_evidence_json rt (Some (canonical_json ?v)) = Inr (Some (canonical_json ?v))"
    using validated_evidence_back [OF ok(1,2,4)] ok(3) by presburger
  ultimately show ?thesis by blast
qed

lemma failure_code_safe [simp]: "safe_failure_code (failure_code_value c)"
  by (cases c) (simp_all add: safe_failure_code_def lower_alpha_def is_digit_def code_def)

lemma assertion_results_stored:
  "json_ok rt (JArr (map assertion_result_payload as))" "all_finite (JArr (map assertion_result_payload as))"
  by (auto simp: assertion_result_payload_def opt_str_def split: option.splits)

lemma worker_payload_accepted:
  assumes "result_shape rt r" "evidence_storable r"
  shows "\<exists>p. execution_result_payload rt r = Inr p \<and> validate_payload rt p = Inr p
    \<and> rp_outcome p = durable_outcome (er_outcome r) \<and> rp_transport_send_count p = er_transport_send_count r
    \<and> rp_failure_code p = map_option failure_code_value (er_error_code r)"
proof -
  let ?a = "JArr (map assertion_result_payload (er_assertion_results r))"
  have arr: "worker_canonical_json ?a = Inr (canonical_json ?a)"
    using assertion_results_stored(2) [of "er_assertion_results r"]
    by (simp add: worker_canonical_json_def canonical_json_strict_def del: all_finite.simps)
  have rb: "canonical_result_json rt (canonical_json ?a) False = Inr (canonical_json ?a)"
    "loads_or_raise rt (canonical_json ?a) = Inr (canon ?a)"
    using canonical_result_json_back(1) loads_or_raise_back assertion_results_stored by blast+
  have array: "is_array (canon ?a)" by (simp add: is_array_def)
  obtain q where q: "evidence_json (request_evidence_value rt) (er_request_evidence r) = Inr q"
    "validated_evidence_json rt q = Inr q"
  proof (cases "er_request_evidence r")
    case None
    then show thesis using that [of None] by (simp add: evidence_json_def validated_evidence_json_def)
  next
    case (Some e)
    then show thesis using that assms request_evidence_stored [of rt e]
      by (auto simp: result_shape_def evidence_storable_def)
  qed
  obtain s where s: "evidence_json response_evidence_value (er_response_evidence r) = Inr s"
    "validated_evidence_json rt s = Inr s"
  proof (cases "er_response_evidence r")
    case None
    then show thesis using that [of None] by (simp add: evidence_json_def validated_evidence_json_def)
  next
    case (Some e)
    then show thesis using that assms response_evidence_stored [of rt e]
      by (auto simp: result_shape_def evidence_storable_def)
  qed
  have fc: "worker_failure_code r (durable_outcome (er_outcome r)) = Inr (map_option failure_code_value (er_error_code r))"
    "validated_failure_code (durable_outcome (er_outcome r)) (map_option failure_code_value (er_error_code r))
       = Inr (map_option failure_code_value (er_error_code r))"
    using assms(1) by (cases "er_outcome r"; auto simp: worker_failure_code_def validated_failure_code_def result_shape_def)+
  show ?thesis
    using assms(1) arr rb array q s fc
    by (auto simp: execution_result_payload_def validate_payload_def transport_send_count_def result_shape_def Let_def
      simp del: canon.simps)
qed

section \<open>Every executor result has that shape\<close>

lemma json_value_json_ok:
  "json_value d v = Inr w \<Longrightarrow> json_ok rt v \<Longrightarrow> json_ok rt w"
  "json_value_list d xs = Inr ys \<Longrightarrow> json_ok_list rt xs \<Longrightarrow> json_ok_list rt ys"
  "json_value_members d kvs = Inr ps \<Longrightarrow> json_ok_members rt kvs \<Longrightarrow> json_ok_members rt ps"
proof (induction d v and d xs and d kvs arbitrary: w and ys and ps
    rule: json_value_json_value_list_json_value_members.induct)
  case (1 d v)
  show ?case
  proof (cases v)
    case (JObj kvs)
    with "1.prems" obtain ps where d: "d \<le> MAX_JSON_DEPTH" "length kvs \<le> MAX_JSON_ITEMS"
      and ps: "json_value_members (Suc d) kvs = Inr ps" "w = JObj (dict_of_pairs ps)"
      by (auto simp: json_value.simps exn_simps split: if_splits)
    have "json_ok_members rt ps" using 1(2) [OF _ JObj _ ps(1)] JObj d "1.prems"(2) by (auto simp: not_less)
    then show ?thesis using ps(2) dict_of_pairs_laws [of ps] by auto
  next
    case (JArr xs)
    with "1.prems" obtain ys where d: "d \<le> MAX_JSON_DEPTH" "length xs \<le> MAX_JSON_ITEMS"
      and ys: "json_value_list (Suc d) xs = Inr ys" "w = JArr ys"
      by (auto simp: json_value.simps exn_simps split: if_splits)
    then show ?thesis using 1(1) [OF _ JArr _ ys(1)] JArr "1.prems"(2) by (auto simp: not_less)
  qed (use "1.prems" in \<open>auto simp: json_value.simps split: if_splits\<close>)
qed (auto simp: exn_simps simp del: json_ok_list_iff json_ok_members_iff)

lemma item_in: "item p k = Inr v \<Longrightarrow> (k, v) \<in> set p"
  by (auto simp: item_def split: option.splits dest: map_of_SomeD)

lemma validated_body_json_ok:
  assumes "validate_generated_test_case rt p = Inr t" "json_ok_members rt p" "req_json_body (tc_request t) = Some kvs"
  shows "json_ok rt (JObj kvs)"
proof -
  from assms(1) obtain x where x: "item p ''request'' = Inr x" "request_template_of x = Inr (tc_request t)"
    by (auto simp: validate_generated_test_case_def bindE_eq_Inr)
  then obtain q bd where "x = JObj q" "bindE (item q ''json_body'') json_body = Inr bd" "req_json_body (tc_request t) = bd"
    by (auto simp: request_template_of_def bindE_eq_Inr mapping_field_Inr) (metis request_template.select_convs(5))
  then have q: "x = JObj q" "bindE (item q ''json_body'') json_body = Inr (Some kvs)" using assms(3) by simp_all
  then obtain b ps where b: "item q ''json_body'' = Inr (JObj b)" "json_value_members 0 b = Inr ps" "kvs = dict_of_pairs ps"
    by (auto simp: bindE_eq_Inr json_body_def require_eq_Inr mapping_field_Inr split: if_splits)
  have "json_ok rt x" using item_in [OF x(1)] assms(2) by auto
  then have "\<forall>(k, y) \<in> set q. json_ok rt y" using q(1) by simp
  then have "json_ok rt (JObj b)" using bspec [OF _ item_in [OF b(1)]] by (auto simp del: json_ok.simps)
  then have "json_ok_members rt ps" using json_value_json_ok(3) [OF b(2)] by simp
  then show ?thesis using b(3) dict_of_pairs_laws [of ps] by auto
qed

lemma snapshot_body_json_ok:
  assumes "floats_read_back rt" "test_case_from_snapshot rt s = Inr t" "req_json_body (tc_request t) = Some kvs"
  shows "json_ok rt (JObj kvs)"
proof -
  from assms(2) obtain p where "loads rt s = Some (JObj p)" "validate_generated_test_case rt p = Inr t"
    by (auto simp: test_case_from_snapshot_def exn_simps split: option.splits json.splits)
  with loads_json_ok [OF assms(1)] have "json_ok_members rt p" by fastforce
  with validated_body_json_ok \<open>validate_generated_test_case rt p = Inr t\<close> assms(3) show ?thesis by blast
qed

lemma parsed_body_json_ok:
  "floats_read_back rt \<Longrightarrow> json_ok rt (redact_optional (parse_json_object_or_array rt b))"
  using loads_json_ok [of rt] json_ok_redact
  by (auto simp: parse_json_object_or_array_def redact_optional_def simp del: redact_json.simps json_ok.simps(2,3)
    split: option.splits json.splits bind_splits)

lemma default_target_split:
  "\<exists>u r. urlsplit rt (''https://ai-qa-sandbox.onrender.com'' @ CHR ''/'' # p) = Some u
     \<and> us_scheme u = ''https'' \<and> us_netloc u = ''ai-qa-sandbox.onrender.com'' \<and> us_path u = CHR ''/'' # r"
  by (simp add: urlsplit_def clean_url_def lstrip_by_def split_scheme_def partition_at_def code_def
    is_alpha_def scheme_char_def is_digit_def lower_def lower_char_def Let_def starts_with_def
    split_netloc_def netloc_ok_def)

lemma redact_url_again:
  assumes "redact_url rt (''https://ai-qa-sandbox.onrender.com'' @ CHR ''/'' # p) = Some url"
  shows "redact_url rt url \<noteq> None"
proof -
  obtain u r where u: "urlsplit rt (''https://ai-qa-sandbox.onrender.com'' @ CHR ''/'' # p) = Some u"
    "us_scheme u = ''https''" "us_netloc u = ''ai-qa-sandbox.onrender.com''" "us_path u = CHR ''/'' # r"
    using default_target_split by blast
  define Q where "Q = join ''&'' (map redact_query_item (str_split (CHR ''&'') (us_query u)))"
  have "url = ''https://ai-qa-sandbox.onrender.com'' @ CHR ''/'' # (r @ (if Q \<noteq> [] then ''?'' @ Q else []))"
    using assms u by (auto simp: redact_url_def urlunsplit_def starts_with_def Let_def Q_def [symmetric])
  then obtain s where "url = ''https://ai-qa-sandbox.onrender.com'' @ CHR ''/'' # s" by blast
  then show ?thesis using default_target_split [of rt s] by (auto simp: redact_url_def)
qed

lemma default_plan_evidence_url:
  assumes "validate_execution_plan rt p DEFAULT_TARGET_REGISTRY = Inr p" "plan_test_case rt p = Inr t"
    and "prepare_request rt p t job = Inr (headers, body, q)"
  shows "redact_url rt (qe_url q) \<noteq> None"
proof -
  have base: "pl_target_base_url p = ''https://ai-qa-sandbox.onrender.com''"
    using assms(1) unfolding validate_execution_plan_Inr
    by (auto simp: registry_get_def DEFAULT_TARGET_REGISTRY_def split: option.splits if_splits)
  have "path_ok (req_path (tc_request t))"
    using assms(2) snapshot_case_ok by (fastforce simp: plan_test_case_def test_case_ok_def request_ok_def)
  then obtain r where "req_path (tc_request t) = CHR ''/'' # r"
    by (auto simp: path_ok_def starts_with_Suc)
  then obtain s where "request_url p t = ''https://ai-qa-sandbox.onrender.com'' @ CHR ''/'' # s"
    using base by (simp add: request_url_def Let_def)
  moreover have "redact_url rt (request_url p t) = Some (qe_url q)"
    using assms(3) by (auto simp: prepare_request_def Let_def split: if_splits sum.splits option.splits)
  ultimately show ?thesis using redact_url_again by metis
qed

lemma failed_shape [simp]:
  "result_shape rt (failed j c None None as 0)"
  by (simp add: result_shape_def failed_def)

lemma after_send_shape:
  assumes "floats_read_back rt" "json_ok rt (qe_json_body q)" "redact_url rt (qe_url q) \<noteq> None"
  shows "result_shape rt (after_send rt probe job plan t q sent)"
  using assms parsed_body_json_ok [OF assms(1)]
  by (auto simp: after_send_def result_shape_def failed_def cancelled_def response_evidence_of_def Let_def
    split: transport_outcome.split)

lemma send_request_shape:
  assumes "send_request rt resolve probe transport registry job plan t headers body q = (Inr r, calls)"
    and "floats_read_back rt" "json_ok rt (qe_json_body q)" "redact_url rt (qe_url q) \<noteq> None"
  shows "result_shape rt r"
  using assms(1) after_send_shape [OF assms(2-4)] assms(3,4)
  by (auto simp: send_request_def finish_send_def Let_def result_shape_def failed_def cancelled_def
    split: if_splits sum.splits list.splits)

lemma prepared_body_json_ok:
  assumes "floats_read_back rt" "plan_test_case rt p = Inr t" "prepare_request rt p t job = Inr (headers, body, q)"
  shows "json_ok rt (qe_json_body q)"
proof -
  have "qe_json_body q = redact_optional (map_option JObj (req_json_body (tc_request t)))"
    using assms(3) by (auto simp: prepare_request_def Let_def split: if_splits sum.splits option.splits)
  moreover have "json_ok rt (redact_json (JObj kvs))" if "req_json_body (tc_request t) = Some kvs" for kvs
    using snapshot_body_json_ok [OF assms(1) _ that] assms(2) json_ok_redact unfolding plan_test_case_def by blast
  ultimately show ?thesis
    by (auto simp: redact_optional_def simp del: redact_json.simps split: option.split)
qed

lemma execute_shape:
  assumes "floats_read_back rt" "execute rt resolve probe transport DEFAULT_TARGET_REGISTRY now c = (Inr r, calls)"
  shows "result_shape rt r \<and> er_job_id r = Some (ej_id (cj_job c))"
  using assms(2)
proof (cases rule: execute_cases)
  case (ready t headers body q)
  have "result_shape rt r"
    using send_request_shape [OF ready(6) assms(1) prepared_body_json_ok [OF assms(1) ready(4,5)]
      default_plan_evidence_url [OF ready(2,4,5)]] .
  moreover from ready(6) have "er_job_id r = Some (ej_id (cj_job c))"
    by (cases rule: send_request_cases) auto
  ultimately show ?thesis by simp
qed (auto simp: failed_def result_shape_def)

section \<open>Recording\<close>

lemma canonical_result_json_Inr:
  assumes "canonical_result_json rt s b = Inr c" "floats_read_back rt"
  shows "\<exists>v. loads_or_raise rt c = Inr v \<and> database_json v = Inr c"
proof -
  from assms(1) obtain v where v: "loads rt s = Some v" "all_finite v" "c = canonical_json v"
    by (auto simp: canonical_result_json_def split: option.splits if_splits)
  have "json_ok rt v" using loads_json_ok [OF assms(2) v(1)] .
  then have "loads_or_raise rt c = Inr (canon v)" using v(3) loads_or_raise_back by blast
  moreover have "database_json (canon v) = Inr c" using v(2,3) by (simp add: database_json_def)
  ultimately show ?thesis by blast
qed

lemma validated_evidence_json_Inr:
  assumes "validated_evidence_json rt s = Inr e" "floats_read_back rt"
  shows "\<exists>v. optional_loads rt e = Inr v \<and> optional_database_json v = Inr e"
proof (cases s)
  case None
  with assms(1) show ?thesis
    by (auto simp: validated_evidence_json_def optional_loads_def optional_database_json_def)
next
  case (Some x)
  with assms(1) obtain c where c: "canonical_result_json rt x True = Inr c" "e = Some c"
    by (auto simp: validated_evidence_json_def exn_simps)
  from canonical_result_json_Inr [OF c(1) assms(2)] obtain v where
    "loads_or_raise rt c = Inr v" "database_json v = Inr c" by blast
  with c(2) show ?thesis by (auto simp: optional_loads_def optional_database_json_def)
qed

lemma safe_code_trim: "safe_failure_code c \<Longrightarrow> sql_trim c \<noteq> []"
proof -
  assume "safe_failure_code c"
  then obtain x xs where c: "c = x # xs" and x: "lower_alpha x" by (cases c) (auto simp: safe_failure_code_def)
  from x have "x \<noteq> CHR '' ''" by (auto simp: lower_alpha_def code_def)
  then show ?thesis using c by (simp add: sql_trim_def strip_by_def lstrip_by_def rstrip_by_def)
qed

lemma stored_row:
  assumes "validate_payload rt p0 = Inr p" "floats_read_back rt"
  shows "\<exists>row. result_row_of rt i now j p = Inr row \<and> result_checks row \<and> rr_id row = i \<and> rr_job_id row = j
    \<and> rr_outcome row = rp_outcome p
    \<and> stored_result_from_record row = Inr \<lparr>sr_id = i, sr_job_id = j, sr_payload = p, sr_recorded_at = now\<rparr>"
proof -
  from assms(1) obtain s where n: "rp_transport_send_count p \<in> {0, 1}"
    and c: "validated_failure_code (rp_outcome p) (rp_failure_code p0) = Inr (rp_failure_code p)"
    and a: "canonical_result_json rt s False = Inr (rp_assertion_results_json p)"
    and q: "validated_evidence_json rt (rp_request_evidence_json p0) = Inr (rp_request_evidence_json p)"
    and r: "validated_evidence_json rt (rp_response_evidence_json p0) = Inr (rp_response_evidence_json p)"
    by (auto simp: validate_payload_def bindE_eq_Inr require_eq_Inr)
  obtain av where av: "loads_or_raise rt (rp_assertion_results_json p) = Inr av" "database_json av = Inr (rp_assertion_results_json p)"
    using canonical_result_json_Inr [OF a assms(2)] by blast
  obtain qv where qv: "optional_loads rt (rp_request_evidence_json p) = Inr qv"
    "optional_database_json qv = Inr (rp_request_evidence_json p)"
    using validated_evidence_json_Inr [OF q assms(2)] by blast
  obtain rv where rv: "optional_loads rt (rp_response_evidence_json p) = Inr rv"
    "optional_database_json rv = Inr (rp_response_evidence_json p)"
    using validated_evidence_json_Inr [OF r assms(2)] by blast
  have codes: "rp_outcome p = ResultSucceeded \<and> rp_failure_code p = None
      \<or> rp_outcome p \<noteq> ResultSucceeded \<and> (\<exists>f. rp_failure_code p = Some f \<and> safe_failure_code f)"
    using c by (auto simp: validated_failure_code_def exn_simps split: if_splits option.splits)
  then have "rp_outcome p = ResultSucceeded \<and> rp_failure_code p = None
      \<or> rp_outcome p \<in> {ResultFailed, ResultCancelled} \<and> (\<exists>f. rp_failure_code p = Some f \<and> sql_trim f \<noteq> [])"
    using safe_code_trim by (cases "rp_outcome p") auto
  then show ?thesis
    using av qv rv n by (auto simp: result_row_of_def stored_result_from_record_def result_checks_def)
qed

lemma record_result_completes:
  assumes "jobs_ok (db_jobs db)" "j \<in> set (db_jobs db)" "ej_state j = RUNNING" "floats_read_back rt"
    and v: "validate_payload rt p0 = Inr p"
    and fresh: "\<forall>r \<in> set results. rr_job_id r \<noteq> ej_id j \<and> rr_id r \<noteq> i"
  shows "\<exists>row. record_result rt True i now (ej_project_id j) (ej_id j) p0 db results =
      (Inr \<lparr>sr_id = i, sr_job_id = ej_id j, sr_payload = p, sr_recorded_at = now\<rparr>,
       db\<lparr>db_jobs := map (\<lambda>k. if k = j then complete_job (rp_outcome p) now j else k) (db_jobs db)\<rparr>,
       results @ [row])
    \<and> rr_id row = i \<and> rr_job_id row = ej_id j \<and> rr_outcome row = rp_outcome p \<and> result_checks row
    \<and> stored_result_from_record row = Inr \<lparr>sr_id = i, sr_job_id = ej_id j, sr_payload = p, sr_recorded_at = now\<rparr>"
proof -
  obtain row where row: "result_row_of rt i now (ej_id j) p = Inr row" "result_checks row" "rr_id row = i"
    "rr_job_id row = ej_id j" "rr_outcome row = rp_outcome p"
    "stored_result_from_record row = Inr \<lparr>sr_id = i, sr_job_id = ej_id j, sr_payload = p, sr_recorded_at = now\<rparr>"
    using stored_row [OF v assms(4)] by blast
  have jc: "job_checks j" using assms(1,2) by (simp add: table_ok_def)
  then have started: "ej_started_at j \<noteq> None" using assms(3) by (auto simp: job_checks_def job_lifecycle_def)
  let ?p = "\<lambda>k. ej_id k = ej_id j \<and> ej_project_id k = ej_project_id j"
  have "filter ?p (db_jobs db) = [] \<or> (\<exists>k \<in> set (db_jobs db). ?p k \<and> filter ?p (db_jobs db) = [k])"
    by (rule jobs.unique_row [OF assms(1)]) (simp add: job_conflict_def)
  then have sel: "filter ?p (db_jobs db) = [j]"
    using assms(2) jobs.conflict_eq [OF assms(1) _ assms(2)] by (auto simp: filter_empty_conv job_conflict_def)
  have none: "filter (\<lambda>r. rr_job_id r = ej_id j) results = []" using fresh by (simp add: filter_empty_conv)
  obtain js where w: "write_job (complete_job (rp_outcome p) now) j (db_jobs db) = Inr js"
    using write_job_succeeds [of "db_jobs db" j "complete_job (rp_outcome p) now"] assms(1,2)
      running_complete_checks [OF jc assms(3)] by auto
  then have "js = map (\<lambda>k. if k = j then complete_job (rp_outcome p) now j else k) (db_jobs db)"
    using write_job_Inr [OF assms(1,2) w] by simp
  moreover have "insert_row result_checks result_conflict row results = Inr (results @ [row])"
    using row fresh by (auto simp: insert_row_def result_conflict_def list_all_iff)
  ultimately have "record_result rt True i now (ej_project_id j) (ej_id j) p0 db results =
      (Inr \<lparr>sr_id = i, sr_job_id = ej_id j, sr_payload = p, sr_recorded_at = now\<rparr>,
       db\<lparr>db_jobs := map (\<lambda>k. if k = j then complete_job (rp_outcome p) now j else k) (db_jobs db)\<rparr>,
       results @ [row])"
    using v sel none started row w assms(3) by (simp add: record_result_def complete_and_store_def)
  with row show ?thesis by blast
qed

section \<open>Evidence the repository refuses\<close>

lemma response_evidence_refused:
  assumes "json_ok rt (se_json_body e)" "all_finite (redact_json (se_json_body e))" "\<not> redaction_accepted (redact_json (se_json_body e))"
  shows "\<exists>s. evidence_json response_evidence_value (Some e) = Inr (Some s)
    \<and> validated_evidence_json rt (Some s) = Inl (ExecutionResultRejected ''Sensitive execution evidence must be redacted'')"
proof -
  let ?v = "JObj [(''body_bytes'', JInt (se_body_bytes e)), (''body_sha256'', JStr (se_body_sha256 e)),
    (''elapsed_ms'', JInt (se_elapsed_ms e)), (''headers'', redacted_headers_json (se_headers e)),
    (''json_body'', redact_json (se_json_body e)), (''status_code'', JInt (se_status_code e))]"
  have v: "response_evidence_value e = Inr ?v"
    using assms(2) by (simp add: response_evidence_value_def worker_redact_json_eq)
  have ok: "json_ok rt ?v" "all_finite ?v" "is_object ?v" "\<not> redaction_accepted ?v"
    using assms json_ok_redact by (simp_all add: is_object_def)
  have "evidence_json response_evidence_value (Some e) = Inr (Some (canonical_json ?v))"
    using v ok(2) by (simp add: evidence_json_def worker_canonical_json_def canonical_json_strict_def del: all_finite.simps)
  moreover have "validated_evidence_json rt (Some (canonical_json ?v)) =
      Inl (ExecutionResultRejected ''Sensitive execution evidence must be redacted'')"
    using validated_evidence_back [OF ok(1-3)] ok(4) by presburger
  ultimately show ?thesis by blast
qed

lemma worker_payload_start:
  assumes "result_shape rt r"
    and "\<forall>q. er_request_evidence r = Some q \<longrightarrow> storable_json (redact_json (qe_json_body q))"
  obtains c a q where "worker_failure_code r (durable_outcome (er_outcome r)) = Inr c"
    "validated_failure_code (durable_outcome (er_outcome r)) c = Inr c"
    "worker_canonical_json (JArr (map assertion_result_payload (er_assertion_results r))) = Inr a"
    "canonical_result_json rt a False = Inr a" "\<exists>v. loads_or_raise rt a = Inr v \<and> is_array v"
    "evidence_json (request_evidence_value rt) (er_request_evidence r) = Inr q" "validated_evidence_json rt q = Inr q"
proof -
  let ?r = "r\<lparr>er_response_evidence := None\<rparr>"
  have "result_shape rt ?r" "evidence_storable ?r" using assms by (auto simp: result_shape_def evidence_storable_def)
  from worker_payload_accepted [OF this] obtain p where p: "execution_result_payload rt ?r = Inr p" "validate_payload rt p = Inr p"
    by blast
  have w: "worker_failure_code ?r = worker_failure_code r" by (auto simp: worker_failure_code_def fun_eq_iff)
  show thesis
    using p w that [of "rp_failure_code p" "rp_assertion_results_json p" "rp_request_evidence_json p"]
    by (auto simp: execution_result_payload_def validate_payload_def Let_def bindE_eq_Inr require_eq_Inr)
qed

lemma worker_payload_refused:
  assumes "result_shape rt r"
    and "\<forall>q. er_request_evidence r = Some q \<longrightarrow> storable_json (redact_json (qe_json_body q))"
    and "er_response_evidence r = Some e" "all_finite (redact_json (se_json_body e))" "\<not> redaction_accepted (redact_json (se_json_body e))"
  shows "\<exists>p. execution_result_payload rt r = Inr p
    \<and> validate_payload rt p = Inl (ExecutionResultRejected ''Sensitive execution evidence must be redacted'')"
proof -
  have "json_ok rt (se_json_body e)" "er_transport_send_count r \<in> {0, 1}" using assms(1,3) by (auto simp: result_shape_def)
  with response_evidence_refused [OF _ assms(4,5)] obtain s where s: "evidence_json response_evidence_value (Some e) = Inr (Some s)"
    "validated_evidence_json rt (Some s) = Inl (ExecutionResultRejected ''Sensitive execution evidence must be redacted'')"
    by blast
  from assms(1,2) show ?thesis
  proof (cases rule: worker_payload_start)
    case (1 c a q)
    with s assms(3) \<open>er_transport_send_count r \<in> {0, 1}\<close> show ?thesis
      by (auto simp: execution_result_payload_def validate_payload_def transport_send_count_def Let_def)
  qed
qed

lemma worker_payload_nonfinite:
  assumes "result_shape rt r"
    and "\<forall>q. er_request_evidence r = Some q \<longrightarrow> storable_json (redact_json (qe_json_body q))"
    and "er_response_evidence r = Some e" "\<not> all_finite (redact_json (se_json_body e))"
  shows "execution_result_payload rt r =
    Inl (ExecutionWorkerInvariantError ''Execution evidence contains a non-finite number'')"
  using assms(1,2)
proof (cases rule: worker_payload_start)
  case (1 c a q)
  with assms(3,4) show ?thesis
    by (simp add: execution_result_payload_def evidence_json_def response_evidence_value_def worker_redact_json_eq Let_def)
qed

section \<open>Recording twice\<close>

lemma record_result_stored:
  assumes "jobs_ok (db_jobs db)" "results_ok results" "floats_read_back rt"
    and "record_result rt up i now pr jid p0 db results = (Inr stored, db', results')"
  shows "\<exists>p row j. validate_payload rt p0 = Inr p \<and> sr_payload stored = p \<and> sr_job_id stored = jid
    \<and> row \<in> set results' \<and> rr_job_id row = jid \<and> stored_result_from_record row = Inr stored
    \<and> j \<in> set (db_jobs db') \<and> ej_id j = jid \<and> ej_project_id j = pr \<and> jobs_ok (db_jobs db') \<and> results_ok results'"
proof -
  from assms(4) obtain p j where p: "validate_payload rt p0 = Inr p"
    and j: "scalar_one_or_none (filter (\<lambda>j. ej_id j = jid \<and> ej_project_id j = pr) (db_jobs db)) = Inr (Some j)"
    and alt: "(\<exists>r. scalar_one_or_none (filter (\<lambda>r. rr_job_id r = jid) results) = Inr (Some r)
        \<and> stored_result_from_record r = Inr stored \<and> sr_payload stored = p \<and> db' = db \<and> results' = results)
      \<or> ej_state j = RUNNING \<and> complete_and_store rt i now j p db results = (Inr stored, db', results')"
    by (auto simp: record_result_def split: sum.splits if_splits option.splits)
  have jin: "j \<in> set (db_jobs db)" "ej_id j = jid" "ej_project_id j = pr" using scalar_one_or_none_in [OF j] by auto
  from alt show ?thesis
  proof
    assume "\<exists>r. scalar_one_or_none (filter (\<lambda>r. rr_job_id r = jid) results) = Inr (Some r)
        \<and> stored_result_from_record r = Inr stored \<and> sr_payload stored = p \<and> db' = db \<and> results' = results"
    then obtain r where r: "scalar_one_or_none (filter (\<lambda>r. rr_job_id r = jid) results) = Inr (Some r)"
      "stored_result_from_record r = Inr stored" "sr_payload stored = p" "db' = db" "results' = results" by blast
    have "sr_job_id stored = rr_job_id r" using r(2) by (auto simp: stored_result_from_record_def exn_simps)
    with r scalar_one_or_none_in [OF r(1)] p jin assms(1,2) show ?thesis by blast
  next
    assume c: "ej_state j = RUNNING \<and> complete_and_store rt i now j p db results = (Inr stored, db', results')"
    obtain row where row: "result_row_of rt i now (ej_id j) p = Inr row" "rr_job_id row = ej_id j"
      "stored_result_from_record row = Inr \<lparr>sr_id = i, sr_job_id = ej_id j, sr_payload = p, sr_recorded_at = now\<rparr>"
      using stored_row [OF p assms(3)] by blast
    with c obtain js where w: "write_job (complete_job (rp_outcome p) now) j (db_jobs db) = Inr js"
      and ins: "insert_row result_checks result_conflict row results = Inr results'" and d: "db' = db\<lparr>db_jobs := js\<rparr>"
      and s: "stored = \<lparr>sr_id = i, sr_job_id = ej_id j, sr_payload = p, sr_recorded_at = now\<rparr>"
      by (auto simp: complete_and_store_def split: sum.splits)
    have js: "jobs_ok js \<and> js = map (\<lambda>k. if k = j then complete_job (rp_outcome p) now j else k) (db_jobs db)"
      by (rule write_job_Inr [OF assms(1) jin(1) w]) simp
    then have "complete_job (rp_outcome p) now j \<in> set js" using jin(1) by force
    moreover have "jobs_ok js" using js by blast
    moreover have "results_ok results'" using results.insert_keeps [OF assms(2) ins] .
    moreover have "row \<in> set results'" using ins by (simp add: store_simps)
    ultimately show ?thesis using p row s d jin by (intro exI [of _ p] exI [of _ row] exI [of _ "complete_job (rp_outcome p) now j"]) simp
  qed
qed

lemma select_job:
  assumes "jobs_ok js" "j \<in> set js"
  shows "filter (\<lambda>k. ej_id k = ej_id j \<and> ej_project_id k = ej_project_id j) js = [j]"
proof -
  let ?p = "\<lambda>k. ej_id k = ej_id j \<and> ej_project_id k = ej_project_id j"
  have "filter ?p js = [] \<or> (\<exists>k \<in> set js. ?p k \<and> filter ?p js = [k])"
    by (rule jobs.unique_row [OF assms(1)]) (simp add: job_conflict_def)
  then show ?thesis using assms(2) jobs.conflict_eq [OF assms(1) _ assms(2)] by (auto simp: filter_empty_conv job_conflict_def)
qed

lemma select_result:
  assumes "results_ok rs" "r \<in> set rs"
  shows "filter (\<lambda>s. rr_job_id s = rr_job_id r) rs = [r]"
proof -
  let ?p = "\<lambda>s. rr_job_id s = rr_job_id r"
  have "filter ?p rs = [] \<or> (\<exists>k \<in> set rs. ?p k \<and> filter ?p rs = [k])"
    by (rule results.unique_row [OF assms(1)]) (simp add: result_conflict_def)
  then show ?thesis using assms(2) results.conflict_eq [OF assms(1) _ assms(2)] by (auto simp: filter_empty_conv result_conflict_def)
qed

lemma record_result_again:
  assumes "jobs_ok (db_jobs db)" "results_ok results" "floats_read_back rt"
    and "record_result rt up i now pr jid p0 db results = (Inr stored, db', results')"
  shows "record_result rt True i' now' pr jid p0 db' results' = (Inr stored, db', results')
    \<and> get_result True pr jid db' results' = Inr (Some stored)"
proof -
  obtain p row j where p: "validate_payload rt p0 = Inr p" "sr_payload stored = p" "row \<in> set results'" "rr_job_id row = jid"
    "stored_result_from_record row = Inr stored" "j \<in> set (db_jobs db')" "ej_id j = jid" "ej_project_id j = pr"
    "jobs_ok (db_jobs db')" "results_ok results'"
    using record_result_stored [OF assms] by blast
  have "filter (\<lambda>k. ej_id k = jid \<and> ej_project_id k = pr) (db_jobs db') = [j]" "filter (\<lambda>r. rr_job_id r = jid) results' = [row]"
    using select_job [OF p(9,6)] select_result [OF p(10,3)] p(4,7,8) by auto
  with p show ?thesis by (simp add: record_result_def get_result_def)
qed

end
