(* ===== verification/Execution_System.thy ===== *)
theory Execution_System
  imports Worker_Correctness
begin

text \<open>
  The approved-execution pipeline as a transition system: approvals are created and consumed, jobs are
  enqueued, claimed and cancelled, results are recorded, in any order, by any number of API processes
  and workers, with any clock readings and database outages.  Each step is one committed transaction of
  the modelled repositories.  The invariant ties the three tables together.
\<close>

record exec_system =
  sy_db :: execution_db
  sy_results :: "result_row list"

inductive exec_step :: "runtime \<Rightarrow> exec_system \<Rightarrow> exec_system \<Rightarrow> bool" for rt where
  create: "create_approval rt up (db_projects (sy_db s)) i now pr plan who src c (db_approvals (sy_db s)) = (res, rows')
     \<Longrightarrow> exec_step rt s (s\<lparr>sy_db := (sy_db s)\<lparr>db_approvals := rows'\<rparr>\<rparr>)"
| consume: "consume rt up now pr pid h (db_approvals (sy_db s)) = (res, rows')
     \<Longrightarrow> exec_step rt s (s\<lparr>sy_db := (sy_db s)\<lparr>db_approvals := rows'\<rparr>\<rparr>)"
| enqueue: "enqueue up up' i trace now a (sy_db s) = (res, db') \<Longrightarrow> exec_step rt s (s\<lparr>sy_db := db'\<rparr>)"
| claim: "claim_next rt up locked now (sy_db s) = (res, db') \<Longrightarrow> exec_step rt s (s\<lparr>sy_db := db'\<rparr>)"
| cancel: "cancel up now pr i (sy_db s) = (res, db') \<Longrightarrow> exec_step rt s (s\<lparr>sy_db := db'\<rparr>)"
| record_: "record_result rt up i now pr j p (sy_db s) (sy_results s) = (res, db', results')
     \<Longrightarrow> exec_step rt s (s\<lparr>sy_db := db', sy_results := results'\<rparr>)"

inductive exec_reachable :: "runtime \<Rightarrow> uuid list \<Rightarrow> exec_system \<Rightarrow> bool" for rt projects where
  init: "exec_reachable rt projects
     \<lparr>sy_db = \<lparr>db_projects = projects, db_approvals = [], db_jobs = []\<rparr>, sy_results = []\<rparr>"
| step: "exec_reachable rt projects s \<Longrightarrow> exec_step rt s t \<Longrightarrow> exec_reachable rt projects t"

section \<open>How one job may change\<close>

definition job_evolves :: "execution_job \<Rightarrow> execution_job \<Rightarrow> bool" where
  "job_evolves j k \<longleftrightarrow> k = j \<or> (\<exists>now. ej_state j = QUEUED \<and> k \<in> {start_job now j, fail_job now j, cancelled_job now j})
     \<or> (\<exists>out now. ej_state j = RUNNING \<and> k = complete_job out now j)"

definition jobs_evolve :: "execution_job list \<Rightarrow> execution_job list \<Rightarrow> bool" where
  "jobs_evolve js ks \<longleftrightarrow> length js \<le> length ks \<and> (\<forall>i < length js. job_evolves (js ! i) (ks ! i))"

lemma job_evolves_refl [simp]: "job_evolves j j"
  by (simp add: job_evolves_def)

lemma jobs_evolve_refl [simp]: "jobs_evolve js js"
  by (simp add: jobs_evolve_def)

lemma jobs_evolve_append [simp]: "jobs_evolve js (js @ ks)"
  by (simp add: jobs_evolve_def nth_append)

lemma jobs_evolve_map: "(\<And>j. j \<in> set js \<Longrightarrow> job_evolves j (f j)) \<Longrightarrow> jobs_evolve js (map f js)"
  by (simp add: jobs_evolve_def)

lemma job_evolves_terminal:
  "job_evolves j k \<Longrightarrow> ej_state j \<in> {SUCCEEDED, FAILED, CANCELLED} \<Longrightarrow> k = j"
  by (auto simp: job_evolves_def)

section \<open>The invariant\<close>

definition terminal_state :: "result_outcome \<Rightarrow> job_state" where
  "terminal_state out = (case out of ResultSucceeded \<Rightarrow> SUCCEEDED | ResultFailed \<Rightarrow> FAILED | ResultCancelled \<Rightarrow> CANCELLED)"

text \<open>A started job holds the approval it was started under, consumed at the start and in force then.\<close>

definition job_backed :: "approval_row list \<Rightarrow> execution_job \<Rightarrow> bool" where
  "job_backed rows j \<longleftrightarrow> (ej_state j \<in> {RUNNING, SUCCEEDED} \<longrightarrow>
     (\<exists>r \<in> set rows. \<exists>t. ar_id r = ej_approval_id j \<and> ar_project_id r = ej_project_id j \<and> ar_plan_id r = ej_plan_id j
        \<and> ar_plan_hash r = ej_plan_hash j \<and> ej_started_at j = Some t \<and> ar_consumed_at r = Some t
        \<and> ar_approved_at r \<le> t \<and> t < ar_expires_at r))"

definition job_resulted :: "result_row list \<Rightarrow> execution_job \<Rightarrow> bool" where
  "job_resulted results j \<longleftrightarrow> (ej_state j = SUCCEEDED \<longrightarrow>
     (\<exists>r \<in> set results. rr_job_id r = ej_id j \<and> rr_outcome r = ResultSucceeded))"

definition result_backed :: "execution_job list \<Rightarrow> result_row \<Rightarrow> bool" where
  "result_backed js r \<longleftrightarrow> (\<exists>j \<in> set js. ej_id j = rr_job_id r \<and> ej_state j = terminal_state (rr_outcome r))"

definition exec_inv :: "exec_system \<Rightarrow> bool" where
  "exec_inv s \<longleftrightarrow> approvals_ok (db_approvals (sy_db s)) \<and> jobs_ok (db_jobs (sy_db s)) \<and> results_ok (sy_results s)
     \<and> (\<forall>j \<in> set (db_jobs (sy_db s)). job_backed (db_approvals (sy_db s)) j \<and> job_resulted (sy_results s) j)
     \<and> (\<forall>r \<in> set (sy_results s). result_backed (db_jobs (sy_db s)) r)"

lemma complete_job_state [simp]: "ej_state (complete_job out now j) = terminal_state out"
  by (simp add: complete_job_def terminal_state_def split: result_outcome.split)

lemma job_backed_mono:
  "job_backed rows j \<Longrightarrow> (\<And>r. r \<in> set rows \<Longrightarrow> ar_consumed_at r \<noteq> None \<Longrightarrow> r \<in> set rows') \<Longrightarrow> job_backed rows' j"
  unfolding job_backed_def by (metis option.distinct(1))

lemma exec_inv_approvals:
  assumes "exec_inv s" "approvals_ok rows'"
    and "\<And>r. r \<in> set (db_approvals (sy_db s)) \<Longrightarrow> ar_consumed_at r \<noteq> None \<Longrightarrow> r \<in> set rows'"
  shows "exec_inv (s\<lparr>sy_db := (sy_db s)\<lparr>db_approvals := rows'\<rparr>\<rparr>)"
  using assms job_backed_mono [of "db_approvals (sy_db s)" _ rows'] by (simp add: exec_inv_def)

lemma result_backed_evolve:
  assumes "result_backed js r" "jobs_evolve js ks"
  shows "result_backed ks r"
proof -
  from assms(1) obtain i where i: "i < length js" "ej_id (js ! i) = rr_job_id r"
    "ej_state (js ! i) = terminal_state (rr_outcome r)"
    by (auto simp: result_backed_def in_set_conv_nth)
  moreover have "ks ! i = js ! i"
    using assms(2) i job_evolves_terminal [of "js ! i" "ks ! i"]
    by (auto simp: jobs_evolve_def terminal_state_def split: result_outcome.splits)
  moreover have "ks ! i \<in> set ks" using assms(2) i(1) by (simp add: jobs_evolve_def)
  ultimately show ?thesis unfolding result_backed_def by metis
qed

lemma exec_inv_jobs:
  assumes "exec_inv s" "jobs_ok ks" "jobs_evolve (db_jobs (sy_db s)) ks"
    and "approvals_ok rows'"
    and "\<And>k. k \<in> set ks \<Longrightarrow> job_backed rows' k \<and> job_resulted (sy_results s) k"
  shows "exec_inv (s\<lparr>sy_db := (sy_db s)\<lparr>db_approvals := rows', db_jobs := ks\<rparr>\<rparr>)"
  using assms result_backed_evolve [OF _ assms(3)] by (simp add: exec_inv_def)

section \<open>Every step keeps the invariant and lets jobs evolve\<close>

definition step_ok :: "exec_system \<Rightarrow> exec_system \<Rightarrow> bool" where
  "step_ok s t \<longleftrightarrow> exec_inv t \<and> jobs_evolve (db_jobs (sy_db s)) (db_jobs (sy_db t))"

lemma exec_inv_parts:
  assumes "exec_inv s"
  shows "approvals_ok (db_approvals (sy_db s))" "jobs_ok (db_jobs (sy_db s))" "results_ok (sy_results s)"
    "\<And>j. j \<in> set (db_jobs (sy_db s)) \<Longrightarrow> job_backed (db_approvals (sy_db s)) j \<and> job_resulted (sy_results s) j"
  using assms by (auto simp: exec_inv_def)

lemma consume_keeps_consumed:
  assumes "approvals_ok rows" "consume rt up now pr pid h rows = (res, rows')" "r \<in> set rows" "ar_consumed_at r \<noteq> None"
  shows "r \<in> set rows'"
proof (cases "\<exists>a. res = Inr (Some a)")
  case True
  then obtain q where "ar_consumed_at q = None" "rows' = map (\<lambda>s. if s = q then mark_consumed now q else s) rows"
    using consume_Some assms(1,2) by blast
  then show ?thesis using assms(3,4) by auto
next
  case False
  then have "rows' = rows"
    using assms(2) consume_claim_spec(2) [OF assms(1)]
    by (fastforce simp: consume_def split: if_splits sum.splits option.splits prod.splits)
  with assms(3) show ?thesis by simp
qed

lemma queued_backed: "ej_state j \<notin> {RUNNING, SUCCEEDED} \<Longrightarrow> job_backed rows j \<and> job_resulted results j"
  by (auto simp: job_backed_def job_resulted_def)

lemma enqueue_step: "exec_inv s \<Longrightarrow> enqueue up up' i trace now a (sy_db s) = (res, db') \<Longrightarrow> step_ok s (s\<lparr>sy_db := db'\<rparr>)"
proof -
  assume inv: "exec_inv s" and e: "enqueue up up' i trace now a (sy_db s) = (res, db')"
  let ?new = "new_job i trace now a"
  have cases: "db' = sy_db s \<or> (insert_row job_checks job_conflict ?new (db_jobs (sy_db s)) = Inr (db_jobs (sy_db s) @ [?new])
      \<and> db' = (sy_db s)\<lparr>db_jobs := db_jobs (sy_db s) @ [?new]\<rparr>)"
    using e by (auto simp: enqueue_def store_simps split: if_splits sum.splits option.splits)
  then show ?thesis
  proof
    assume "insert_row job_checks job_conflict ?new (db_jobs (sy_db s)) = Inr (db_jobs (sy_db s) @ [?new])
      \<and> db' = (sy_db s)\<lparr>db_jobs := db_jobs (sy_db s) @ [?new]\<rparr>"
    then have ins: "insert_row job_checks job_conflict ?new (db_jobs (sy_db s)) = Inr (db_jobs (sy_db s) @ [?new])"
      and d: "db' = (sy_db s)\<lparr>db_approvals := db_approvals (sy_db s), db_jobs := db_jobs (sy_db s) @ [?new]\<rparr>" by auto
    have "exec_inv (s\<lparr>sy_db := db'\<rparr>)" unfolding d
    proof (rule exec_inv_jobs [OF inv])
      show "jobs_ok (db_jobs (sy_db s) @ [?new])" using jobs.insert_keeps [OF exec_inv_parts(2) [OF inv] ins] .
      show "job_backed (db_approvals (sy_db s)) k \<and> job_resulted (sy_results s) k" if "k \<in> set (db_jobs (sy_db s) @ [?new])" for k
        using that exec_inv_parts(4) [OF inv] queued_backed [of ?new] by (auto simp: new_job_def)
    qed (use exec_inv_parts [OF inv] in simp_all)
    then show ?thesis using d by (simp add: step_ok_def)
  qed (use inv in \<open>simp add: step_ok_def\<close>)
qed

lemma map_one_step:
  assumes inv: "exec_inv s" and j: "j \<in> set (db_jobs (sy_db s))"
    and ev: "job_evolves j k" and keys: "ej_id k = ej_id j" "ej_approval_id k = ej_approval_id j" and ck: "job_checks k"
    and ap: "approvals_ok rows'"
    and keep: "\<And>r. r \<in> set (db_approvals (sy_db s)) \<Longrightarrow> ar_consumed_at r \<noteq> None \<Longrightarrow> r \<in> set rows'"
    and new: "job_backed rows' k" "job_resulted (sy_results s) k"
  shows "step_ok s (s\<lparr>sy_db := (sy_db s)\<lparr>db_approvals := rows',
    db_jobs := map (\<lambda>l. if l = j then k else l) (db_jobs (sy_db s))\<rparr>\<rparr>)"
proof -
  let ?ks = "map (\<lambda>l. if l = j then k else l) (db_jobs (sy_db s))"
  have "jobs_ok ?ks"
    by (rule jobs.map_keeps [OF exec_inv_parts(2) [OF inv]])
      (use exec_inv_parts(2) [OF inv] ck keys in \<open>auto simp: table_ok_def job_conflict_def split: if_splits\<close>)
  moreover have ev': "jobs_evolve (db_jobs (sy_db s)) ?ks" using ev by (intro jobs_evolve_map) simp
  moreover have "job_backed rows' l \<and> job_resulted (sy_results s) l" if "l \<in> set ?ks" for l
    using that new exec_inv_parts(4) [OF inv] job_backed_mono [OF _ keep] by (auto split: if_splits)
  ultimately have "exec_inv (s\<lparr>sy_db := (sy_db s)\<lparr>db_approvals := rows', db_jobs := ?ks\<rparr>\<rparr>)"
    using exec_inv_jobs [OF inv] ap by blast
  then show ?thesis using ev' by (simp add: step_ok_def)
qed

lemma claim_step: "exec_inv s \<Longrightarrow> claim_next rt up locked now (sy_db s) = (res, db') \<Longrightarrow> step_ok s (s\<lparr>sy_db := db'\<rparr>)"
proof -
  assume inv: "exec_inv s" and c: "claim_next rt up locked now (sy_db s) = (res, db')"
  note ok = exec_inv_parts [OF inv]
  have chk: "job_checks j" if "j \<in> set (db_jobs (sy_db s))" for j using that ok(2) by (simp add: table_ok_def)
  from ok(1,2) c show ?thesis
  proof (cases rule: claim_next_cases)
    case unchanged
    with inv show ?thesis by (simp add: step_ok_def)
  next
    case (failed j)
    then have j: "j \<in> set (db_jobs (sy_db s))" "ej_state j = QUEUED" by (auto simp: claim_candidate_def)
    have "job_evolves j (fail_job now j)" using j by (auto simp: job_evolves_def)
    with map_one_step [OF inv j(1), of "fail_job now j" "db_approvals (sy_db s)"] queued_checks(1) chk j ok(1)
      queued_backed [of "fail_job now j"] failed(3)
    show ?thesis by (simp add: fail_job_def)
  next
    case (started j r a)
    then have j: "j \<in> set (db_jobs (sy_db s))" "ej_state j = QUEUED" by (auto simp: claim_candidate_def)
    let ?rows = "map (\<lambda>s. if s = r then mark_consumed now r else s) (db_approvals (sy_db s))"
    have rc: "approval_checks (mark_consumed now r)"
      using started(2,8) ok(1) by (auto simp: table_ok_def approval_checks_def mark_consumed_def)
    have aok: "approvals_ok ?rows"
      by (rule approvals.map_keeps [OF ok(1)])
        (use ok(1) rc in \<open>auto simp: table_ok_def approval_conflict_def split: if_splits\<close>)
    have "mark_consumed now r \<in> set ?rows" using started(2) by force
    then have b: "job_backed ?rows (start_job now j)"
      using started(3-9) unfolding job_backed_def
      by (intro impI bexI [of _ "mark_consumed now r"]) (auto simp: start_job_def)
    have keep: "q \<in> set ?rows" if "q \<in> set (db_approvals (sy_db s))" "ar_consumed_at q \<noteq> None" for q
      using that started(7) by auto
    have "job_evolves j (start_job now j)" using j by (auto simp: job_evolves_def)
    from map_one_step [OF inv j(1) this _ _ queued_checks(2) [OF chk [OF j(1)] j(2)] aok keep b]
    show ?thesis using started(12) by (simp add: job_resulted_def start_job_def)
  qed
qed

lemma cancel_step: "exec_inv s \<Longrightarrow> cancel up now pr i (sy_db s) = (res, db') \<Longrightarrow> step_ok s (s\<lparr>sy_db := db'\<rparr>)"
proof -
  assume inv: "exec_inv s" and c: "cancel up now pr i (sy_db s) = (res, db')"
  note ok = exec_inv_parts [OF inv]
  let ?p = "\<lambda>j. ej_id j = i \<and> ej_project_id j = pr \<and> ej_state j = QUEUED"
  let ?ks = "map (\<lambda>j. if ?p j then cancelled_job now j else j) (db_jobs (sy_db s))"
  have "db' = sy_db s \<or> (\<exists>out. update_where job_checks ?p (cancelled_job now) (db_jobs (sy_db s)) = Inr (?ks, out)
      \<and> db' = (sy_db s)\<lparr>db_jobs := ?ks\<rparr>)"
    using c by (auto simp: cancel_def store_simps split: if_splits sum.splits option.splits prod.splits)
  then show ?thesis
  proof
    assume "\<exists>out. update_where job_checks ?p (cancelled_job now) (db_jobs (sy_db s)) = Inr (?ks, out)
      \<and> db' = (sy_db s)\<lparr>db_jobs := ?ks\<rparr>"
    then obtain out where u: "update_where job_checks ?p (cancelled_job now) (db_jobs (sy_db s)) = Inr (?ks, out)"
      and d: "db' = (sy_db s)\<lparr>db_approvals := db_approvals (sy_db s), db_jobs := ?ks\<rparr>" by auto
    have jok: "jobs_ok ?ks" by (rule jobs.update_keeps [OF ok(2) u]) (simp add: job_conflict_def)
    have ev: "jobs_evolve (db_jobs (sy_db s)) ?ks" by (rule jobs_evolve_map) (auto simp: job_evolves_def)
    have "exec_inv (s\<lparr>sy_db := db'\<rparr>)" unfolding d
    proof (rule exec_inv_jobs [OF inv jok ev ok(1)])
      fix k assume "k \<in> set ?ks"
      then show "job_backed (db_approvals (sy_db s)) k \<and> job_resulted (sy_results s) k"
        using ok(4) queued_backed [of "cancelled_job now j" for j] by (auto simp: cancelled_job_def split: if_splits)
    qed
    then show ?thesis using ev d by (simp add: step_ok_def)
  qed (use inv in \<open>simp add: step_ok_def\<close>)
qed

lemma record_result_cases:
  assumes "jobs_ok (db_jobs db)" "record_result rt up i now pr jid p db results = (res, db', results')"
  obtains (unchanged) "db' = db" "results' = results"
  | (completed) j out row where "j \<in> set (db_jobs db)" "ej_state j = RUNNING" "ej_id j = jid" "ej_project_id j = pr"
      "db' = db\<lparr>db_jobs := map (\<lambda>k. if k = j then complete_job out now j else k) (db_jobs db)\<rparr>"
      "insert_row result_checks result_conflict row results = Inr results'"
      "rr_job_id row = ej_id j" "rr_outcome row = out"
proof (cases "db' = db \<and> results' = results")
  case False
  then obtain v j where
    sel: "scalar_one_or_none (filter (\<lambda>j. ej_id j = jid \<and> ej_project_id j = pr) (db_jobs db)) = Inr (Some j)"
    and run: "ej_state j = RUNNING" and st: "complete_and_store rt i now j v db results = (res, db', results')"
    using assms(2)
    by (auto simp: record_result_def split: sum.splits if_splits option.splits)
  have j: "j \<in> set (db_jobs db)" "ej_id j = jid" "ej_project_id j = pr" using scalar_one_or_none_in [OF sel] by auto
  from st obtain row js where row: "result_row_of rt i now (ej_id j) v = Inr row"
    and w: "write_job (complete_job (rp_outcome v) now) j (db_jobs db) = Inr js"
    and ins: "insert_row result_checks result_conflict row results = Inr results'" and d: "db' = db\<lparr>db_jobs := js\<rparr>"
    using False by (auto simp: complete_and_store_def split: sum.splits)
  have "js = map (\<lambda>k. if k = j then complete_job (rp_outcome v) now j else k) (db_jobs db)"
    using write_job_Inr [OF assms(1) j(1) w] by simp
  moreover have "rr_job_id row = ej_id j" "rr_outcome row = rp_outcome v"
    using row by (auto simp: result_row_of_def exn_simps)
  ultimately show thesis using completed [OF j(1) run j(2,3) _ ins] d by blast
qed (use unchanged in blast)

lemma record_step:
  assumes inv: "exec_inv s" and r: "record_result rt up i now pr jid p (sy_db s) (sy_results s) = (res, db', results')"
  shows "step_ok s (s\<lparr>sy_db := db', sy_results := results'\<rparr>)"
proof -
  note ok = exec_inv_parts [OF inv]
  from ok(2) r show ?thesis
  proof (cases rule: record_result_cases)
    case unchanged
    with inv show ?thesis by (simp add: step_ok_def)
  next
    case (completed j out row)
    let ?k = "complete_job out now j"
    let ?ks = "map (\<lambda>k. if k = j then ?k else k) (db_jobs (sy_db s))"
    have chk: "job_checks ?k" using running_complete_checks completed(1,2) ok(2) by (simp add: table_ok_def)
    have res': "results' = sy_results s @ [row]" using completed(6) by (simp add: store_simps)
    have jok: "jobs_ok ?ks"
      by (rule jobs.map_keeps [OF ok(2)]) (use ok(2) chk in \<open>auto simp: table_ok_def job_conflict_def split: if_splits\<close>)
    have rok: "results_ok results'" using results.insert_keeps [OF ok(3) completed(6)] .
    have ev: "jobs_evolve (db_jobs (sy_db s)) ?ks"
      using completed(2) by (intro jobs_evolve_map) (auto simp: job_evolves_def)
    have kin: "?k \<in> set ?ks" using completed(1) by force
    have "job_backed (db_approvals (sy_db s)) l \<and> job_resulted results' l" if "l \<in> set ?ks" for l
    proof (cases "l = ?k")
      case True
      have "job_backed (db_approvals (sy_db s)) ?k"
        using ok(4) [OF completed(1)] completed(2) by (auto simp: job_backed_def)
      moreover have "job_resulted results' ?k"
        using completed(7,8) res' by (auto simp: job_resulted_def terminal_state_def split: result_outcome.splits)
      ultimately show ?thesis using True by simp
    next
      case False
      then have "l \<in> set (db_jobs (sy_db s))" using that by auto
      then show ?thesis using ok(4) res' by (auto simp: job_resulted_def)
    qed
    moreover have "result_backed ?ks q" if "q \<in> set results'" for q
    proof (cases "q = row")
      case True
      then show ?thesis using kin completed(7,8) unfolding result_backed_def by (intro bexI [of _ ?k]) auto
    next
      case False
      then show ?thesis using that res' inv result_backed_evolve [OF _ ev] by (auto simp: exec_inv_def)
    qed
    ultimately have "exec_inv (s\<lparr>sy_db := (sy_db s)\<lparr>db_jobs := ?ks\<rparr>, sy_results := results'\<rparr>)"
      using jok rok ok(1) by (simp add: exec_inv_def)
    then show ?thesis using ev completed(5) by (simp add: step_ok_def)
  qed
qed

lemma exec_step_ok: "exec_step rt s t \<Longrightarrow> exec_inv s \<Longrightarrow> step_ok s t"
proof (induction rule: exec_step.induct)
  case (create up s i now pr plan who src c res rows')
  have "set (db_approvals (sy_db s)) \<subseteq> set rows'"
    using create(1) by (auto simp: create_approval_def Let_def store_simps split: if_splits sum.splits)
  with create exec_inv_approvals [OF create(2) create_approval_ok [OF exec_inv_parts(1) [OF create(2)] create(1)]]
  show ?case by (auto simp: step_ok_def)
next
  case (consume up now pr pid h s res rows')
  note ok = exec_inv_parts(1) [OF consume(2)]
  from exec_inv_approvals [OF consume(2) consume_ok [OF ok consume(1)] consume_keeps_consumed [OF ok consume(1)]]
  show ?case by (simp add: step_ok_def)
qed (erule (1) enqueue_step [rotated] claim_step [rotated] cancel_step [rotated] record_step [rotated])+

lemma exec_inv_reachable: "exec_reachable rt projects s \<Longrightarrow> exec_inv s"
proof (induction rule: exec_reachable.induct)
  case (step s t)
  then show ?case using exec_step_ok by (simp add: step_ok_def)
qed (simp add: exec_inv_def)

lemma jobs_evolve_id: "jobs_evolve js ks \<Longrightarrow> j \<in> set js \<Longrightarrow> ej_state j \<in> {SUCCEEDED, FAILED, CANCELLED} \<Longrightarrow> j \<in> set ks"
  unfolding jobs_evolve_def in_set_conv_nth using job_evolves_terminal by (metis less_le_trans)

lemma exec_steps_terminal:
  assumes "(exec_step rt)\<^sup>*\<^sup>* s t" "exec_inv s" "j \<in> set (db_jobs (sy_db s))" "ej_state j \<in> {SUCCEEDED, FAILED, CANCELLED}"
  shows "exec_inv t \<and> j \<in> set (db_jobs (sy_db t))"
  using assms
proof (induction rule: rtranclp_induct)
  case (step t u)
  then show ?case using exec_step_ok jobs_evolve_id by (metis step_ok_def)
qed simp

end
