(* ===== verification/Demo.thy ===== *)
theory Demo
  imports Execution_System
begin

text \<open>
  One concrete run of the pipeline, used by the witnesses: a runtime whose hash, identifier and
  number primitives are constant functions, one proposal, its plan, its approval and its job.
\<close>

definition demo_rt :: runtime where
  "demo_rt = \<lparr>sha256_hex = (\<lambda>s. replicate 64 (CHR ''a'')), uuid5 = (\<lambda>n s. 7), float_repr = (\<lambda>s. ''0.5''),
     float_int = (\<lambda>s. None),
     ip_address = (\<lambda>s. if s = ''93.184.216.34'' then Some (True, s) else None),
     scanner_depth = 20, recursion_depth = 20\<rparr>"

definition demo_request :: request_template where
  "demo_request = \<lparr>req_method = POST, req_path = ''/orders'', req_query = [], req_headers = [],
     req_json_body = Some [(''item'', JStr ''tea'')]\<rparr>"

definition demo_assertion :: generated_assertion where
  "demo_assertion = \<lparr>as_target = STATUS_CODE, as_selector = None, as_operator = EQUALS, as_expected = JInt 201\<rparr>"

definition demo_case :: generated_test_case where
  "demo_case = \<lparr>tc_id = 1, tc_title = ''order'', tc_kind = POSITIVE, tc_source_finding_id = 2,
     tc_citation_ids = [3], tc_request = demo_request, tc_assertions = [demo_assertion]\<rparr>"

definition demo_target :: target_configuration where
  "demo_target = hd DEFAULT_TARGET_REGISTRY"

definition demo_plan :: execution_plan where
  "demo_plan = plan_of demo_rt demo_target demo_case DEFAULT_EXECUTION_LIMITS"

definition demo_row :: approval_row where
  "demo_row = new_approval_row 21 0 11 demo_plan LOCAL_DEVELOPMENT_APPROVER_ID ''local_bypass'' None"

definition demo_approval :: execution_approval where
  "demo_approval = \<lparr>ea_id = 21, ea_project_id = 11, ea_plan = demo_plan,
     ea_approver_id = LOCAL_DEVELOPMENT_APPROVER_ID, ea_source = ''local_bypass'', ea_comment = None,
     ea_approved_at = 0, ea_expires_at = EXECUTION_APPROVAL_TTL, ea_consumed_at = None\<rparr>"

definition demo_job :: execution_job where
  "demo_job = new_job 31 None 1 demo_approval"

definition demo_db :: execution_db where
  "demo_db = \<lparr>db_projects = [11], db_approvals = [demo_row], db_jobs = [demo_job]\<rparr>"

lemma demo_texts: "text_ok ''order''" "text_ok ''/orders''" "text_ok ''item''" "path_ok ''/orders''"
proof -
  have "(text_ok ''order'') \<and>
      (text_ok ''/orders'') \<and>
      (text_ok ''item'') \<and>
      (path_ok ''/orders'')" by code_simp
  then show "text_ok ''order''" "text_ok ''/orders''" "text_ok ''item''" "path_ok ''/orders''" by - (elim conjE, assumption)+
qed

lemma demo_case_ok: "test_case_ok demo_rt demo_case"
  using demo_texts
  by (simp add: test_case_ok_def demo_case_def request_ok_def demo_request_def demo_assertion_def assertion_ok_def
    validate_assertion_contract_def is_status_code_def scalar_ok_def body_ok_def MAX_JSON_ITEMS_def MAX_JSON_DEPTH_def
    MAX_ASSERTIONS_def MAX_GENERATED_TEST_TEXT_LENGTH_def)

lemma demo_json_ok: "json_ok demo_rt (JObj (test_case_payload demo_case))"
  by (simp add: test_case_payload_def demo_case_def request_payload_def demo_request_def opt_obj_def
    assertion_payload_def demo_assertion_def opt_str_def)

lemma demo_floats: "floats_read_back demo_rt"
proof -
  have "float_ok demo_rt ''0.5''" by code_simp
  then show ?thesis by (simp add: floats_read_back_def demo_rt_def)
qed

lemma demo_registered: "registry_get DEFAULT_TARGET_REGISTRY ''synthetic-order-api'' = Inr demo_target"
  by (simp add: registry_get_def target_id_of_def demo_target_def DEFAULT_TARGET_REGISTRY_def)

lemma demo_limits: "limits_ok DEFAULT_EXECUTION_LIMITS" "plan_fits demo_case DEFAULT_EXECUTION_LIMITS"
proof -
  have "(limits_ok DEFAULT_EXECUTION_LIMITS) \<and>
      (plan_fits demo_case DEFAULT_EXECUTION_LIMITS)" by code_simp
  then show "limits_ok DEFAULT_EXECUTION_LIMITS" "plan_fits demo_case DEFAULT_EXECUTION_LIMITS" by - (elim conjE, assumption)+
qed

lemma demo_plan_valid:
  "validate_execution_plan demo_rt demo_plan DEFAULT_TARGET_REGISTRY = Inr demo_plan"
  "plan_test_case demo_rt demo_plan = Inr (canon_case demo_case)"
  unfolding demo_plan_def
  using plan_of_valid [OF demo_case_ok demo_json_ok demo_registered demo_limits] by blast+

lemma demo_plan_fields [simp]:
  "pl_hash demo_plan = replicate 64 (CHR ''a'')" "pl_id demo_plan = 7" "length (pl_hash demo_plan) = 64"
  by (simp_all add: demo_plan_def plan_of_def Let_def demo_rt_def)

lemma demo_row_read: "approval_from_record demo_rt demo_row = Inr demo_approval"
proof -
  have "strip LOCAL_DEVELOPMENT_APPROVER_ID \<noteq> []" by code_simp
  then show ?thesis
    using new_approval_row_read [OF demo_plan_valid(1)] by (simp add: demo_row_def demo_approval_def)
qed

lemma demo_row_checks: "approval_checks demo_row" "approval_widths demo_row"
proof -
  have "sql_trim (plan_snapshot demo_plan) \<noteq> []"
    by (simp add: plan_snapshot_def canonical_json_def plan_snapshot_payload_def sql_trim_def strip_by_def
      lstrip_by_def rstrip_by_def)
  moreover have "sql_trim LOCAL_DEVELOPMENT_APPROVER_ID \<noteq> []" "length LOCAL_DEVELOPMENT_APPROVER_ID \<le> 512" by code_simp+
  ultimately show "approval_checks demo_row" "approval_widths demo_row"
    by (simp_all add: approval_checks_def approval_widths_def demo_row_def new_approval_row_def EXECUTION_APPROVAL_TTL_def)
qed

lemma demo_tables: "approvals_ok [demo_row]" "jobs_ok [demo_job]"
  using demo_row_checks
  by (simp_all add: table_ok_def job_checks_def job_lifecycle_def demo_job_def new_job_def demo_approval_def)

section \<open>One execution\<close>

definition demo_claim :: claimed_execution_job where
  "demo_claim = \<lparr>cj_job = start_job 5 demo_job, cj_approval = demo_approval\<lparr>ea_consumed_at := Some 5\<rparr>\<rparr>"

definition demo_resolve :: "nat \<Rightarrow> string \<Rightarrow> string list" where
  "demo_resolve n h = [''93.184.216.34'']"

definition demo_response :: transport_response where
  "demo_response = \<lparr>rs_status_code = 201, rs_headers = [], rs_body = ''{}'', rs_elapsed_ms = 3\<rparr>"

definition demo_evidence :: request_evidence where
  "demo_evidence = \<lparr>qe_method = POST, qe_url = ''https://ai-qa-sandbox.onrender.com/orders'', qe_headers = [],
     qe_json_body = JObj [(''item'', JStr ''tea'')]\<rparr>"

definition demo_call :: transport_call where
  "demo_call = \<lparr>tr_method = POST, tr_url = ''https://ai-qa-sandbox.onrender.com/orders'', tr_headers = [],
     tr_body = Some (canonical_json (JObj [(''item'', JStr ''tea'')])), tr_timeout_ms = 10000,
     tr_max_response_bytes = 256000, tr_follow_redirects = False, tr_resolved_address = ''93.184.216.34''\<rparr>"

definition demo_executed :: "transport_outcome \<Rightarrow> (execute_error + execution_result) \<times> transport_call list" where
  "demo_executed sent = execute demo_rt demo_resolve (\<lambda>n j. False) (\<lambda>c. sent) DEFAULT_TARGET_REGISTRY 6 demo_claim"

lemma demo_canon_case:
  "tc_request (canon_case demo_case) = demo_request" "tc_assertions (canon_case demo_case) = [demo_assertion]"
  "tc_request demo_case = demo_request" "tc_assertions demo_case = [demo_assertion]"
  by (simp_all add: demo_case_def canon_case_def demo_request_def canon_obj_def)

lemma demo_plan_parts:
  "pl_limits demo_plan = DEFAULT_EXECUTION_LIMITS" "pl_estimate demo_plan = estimate_of demo_case DEFAULT_EXECUTION_LIMITS"
  "pl_target_base_url demo_plan = ''https://ai-qa-sandbox.onrender.com''" "pl_target_id demo_plan = SYNTHETIC_ORDER_API"
  by (simp_all add: demo_plan_def plan_of_def Let_def demo_target_def DEFAULT_TARGET_REGISTRY_def)

lemma demo_url: "request_url demo_plan (canon_case demo_case) = ''https://ai-qa-sandbox.onrender.com/orders''"
  "redact_url demo_rt ''https://ai-qa-sandbox.onrender.com/orders'' = Some ''https://ai-qa-sandbox.onrender.com/orders''"
proof -
  show "request_url demo_plan (canon_case demo_case) = ''https://ai-qa-sandbox.onrender.com/orders''"
    by (simp add: request_url_def demo_plan_parts demo_canon_case demo_request_def urlencode_def)
  show "redact_url demo_rt ''https://ai-qa-sandbox.onrender.com/orders'' = Some ''https://ai-qa-sandbox.onrender.com/orders''"
    by code_simp
qed

lemma demo_names: "\<not> is_sensitive_name ''item''"
  by code_simp

lemma demo_body_length: "int (length (canonical_json (JObj [(''item'', JStr ''tea'')]))) = 14"
  by code_simp

lemma demo_prepared: "prepare_request demo_rt demo_plan (canon_case demo_case) 31 =
    Inr ([], Some (canonical_json (JObj [(''item'', JStr ''tea'')])), demo_evidence)"
  using demo_body_length
  by (simp add: prepare_request_def demo_canon_case demo_plan_parts demo_url demo_request_def canonical_body_def
    plan_limits_match_def estimate_of_def body_bytes_def DEFAULT_EXECUTION_LIMITS_def MAX_PLAN_ASSERTIONS_def
    demo_evidence_def redact_optional_def demo_names Let_def)

lemma demo_validated_target: "validate_registered_target demo_rt demo_resolve DEFAULT_TARGET_REGISTRY ''synthetic-order-api'' =
   Inr \<lparr>vt_id = SYNTHETIC_ORDER_API, vt_origin = ''https://ai-qa-sandbox.onrender.com'',
     vt_hostname = ''ai-qa-sandbox.onrender.com'', vt_port = 443, vt_resolved_addresses = [''93.184.216.34''],
     vt_redirects_allowed = False\<rparr>"
  by code_simp

lemma demo_finish: "demo_executed sent =
   (finish_send demo_rt (\<lambda>n j. False) 31 demo_plan (canon_case demo_case) demo_evidence sent, [demo_call])"
proof -
  have "validate_claim demo_claim 6 = None"
    by (simp add: validate_claim_None demo_claim_def start_job_def demo_job_def new_job_def demo_approval_def EXECUTION_APPROVAL_TTL_def)
  moreover have "ea_plan (cj_approval demo_claim) = demo_plan" "ej_id (cj_job demo_claim) = 31"
    "job_matches_plan demo_claim demo_plan"
    by (simp_all add: demo_claim_def demo_approval_def job_matches_plan_def start_job_def demo_job_def new_job_def)
  moreover have "send_request demo_rt demo_resolve (\<lambda>n j. False) (\<lambda>c. sent) DEFAULT_TARGET_REGISTRY 31 demo_plan
      (canon_case demo_case) [] (Some (canonical_json (JObj [(''item'', JStr ''tea'')]))) demo_evidence =
      (finish_send demo_rt (\<lambda>n j. False) 31 demo_plan (canon_case demo_case) demo_evidence sent, [demo_call])"
    using demo_validated_target
    by (simp add: send_request_def demo_plan_parts demo_canon_case demo_request_def demo_url demo_call_def
      DEFAULT_EXECUTION_LIMITS_def Let_def)
  ultimately show ?thesis
    using demo_plan_valid demo_prepared by (simp add: demo_executed_def execute_def Let_def)
qed

lemma demo_execute: "\<not> evidence_raises demo_rt demo_plan sent \<Longrightarrow> demo_executed sent =
   (Inr (after_send demo_rt (\<lambda>n j. False) 31 demo_plan (canon_case demo_case) demo_evidence sent), [demo_call])"
  by (simp add: demo_finish finish_send_def)

lemma demo_no_limit [simp]:
  "\<not> evidence_raises demo_rt demo_plan TimedOut" "\<not> evidence_raises demo_rt demo_plan Raised"
  "\<not> evidence_raises demo_rt demo_plan (Response demo_response)"
proof -
  have "\<not> body_over_limits demo_rt ''{}''" by code_simp
  then show "\<not> evidence_raises demo_rt demo_plan (Response demo_response)"
    by (simp add: evidence_raises_def demo_response_def)
qed (simp_all add: evidence_raises_def)

lemma demo_success: "response_acceptable demo_rt demo_plan (canon_case demo_case) demo_response"
  by (simp add: response_acceptable_def demo_response_def valid_transport_response_def demo_plan_parts
    DEFAULT_EXECUTION_LIMITS_def demo_canon_case demo_assertion_def evaluate_assertion_def)

end
