(* ===== verification/Approval_Interleaving.thy ===== *)
theory Approval_Interleaving
  imports Execution_Approvals
begin

text \<open>
  Concurrent consumption of approvals.  Each \<open>consume\<close> transaction reads its approval and later runs its
  conditional \<open>UPDATE\<close>; between the two, other transactions may create, consume or abort.  The step
  relation below interleaves the statements in every order.  \<open>pending\<close> are the transactions between
  their two statements, \<open>granted\<close> is the history of successful consumptions.
\<close>

record consume_system =
  sys_rows :: "approval_row list"
  sys_pending :: "(uuid \<times> instant) list"
  sys_granted :: "(uuid \<times> instant) list"

inductive consume_step :: "runtime \<Rightarrow> consume_system \<Rightarrow> consume_system \<Rightarrow> bool" for rt where
  create: "create_approval rt up ps i now pr plan who src c (sys_rows s) = (res, rows') \<Longrightarrow>
     consume_step rt s (s\<lparr>sys_rows := rows'\<rparr>)"
| read: "consume_read rt now pr pid h (sys_rows s) = Inr (Some a) \<Longrightarrow>
     consume_step rt s (s\<lparr>sys_pending := (ea_id a, now) # sys_pending s\<rparr>)"
| grant: "(i, now) \<in> set (sys_pending s) \<Longrightarrow> consume_claim now i (sys_rows s) = Inr (rows', Some j) \<Longrightarrow>
     consume_step rt s (s\<lparr>sys_rows := rows', sys_pending := remove1 (i, now) (sys_pending s),
                          sys_granted := (j, now) # sys_granted s\<rparr>)"
| refuse: "(i, now) \<in> set (sys_pending s) \<Longrightarrow> consume_claim now i (sys_rows s) = Inr (rows', None) \<Longrightarrow>
     consume_step rt s (s\<lparr>sys_rows := rows', sys_pending := remove1 (i, now) (sys_pending s)\<rparr>)"
| abort: "(i, now) \<in> set (sys_pending s) \<Longrightarrow>
     consume_step rt s (s\<lparr>sys_pending := remove1 (i, now) (sys_pending s)\<rparr>)"

inductive consume_reachable :: "runtime \<Rightarrow> consume_system \<Rightarrow> bool" for rt where
  empty: "consume_reachable rt \<lparr>sys_rows = [], sys_pending = [], sys_granted = []\<rparr>"
| step: "consume_reachable rt s \<Longrightarrow> consume_step rt s t \<Longrightarrow> consume_reachable rt t"

inductive_cases consume_step_cases: "consume_step rt s t"

text \<open>The invariant: the table keeps its constraints, and a granted approval is a consumed row.\<close>

definition consume_inv :: "consume_system \<Rightarrow> bool" where
  "consume_inv s \<longleftrightarrow> approvals_ok (sys_rows s) \<and> distinct (map fst (sys_granted s))
     \<and> (\<forall>(i, now) \<in> set (sys_granted s). \<exists>r \<in> set (sys_rows s). ar_id r = i \<and> ar_consumed_at r = Some now
          \<and> ar_approved_at r \<le> now \<and> now < ar_expires_at r)"

lemma consume_inv_rows:
  assumes "consume_inv s" "approvals_ok rows'"
    and "\<And>r. r \<in> set (sys_rows s) \<Longrightarrow> ar_consumed_at r \<noteq> None \<Longrightarrow> r \<in> set rows'"
  shows "consume_inv (s\<lparr>sys_rows := rows'\<rparr>)"
  using assms by (fastforce simp: consume_inv_def)

lemma create_approval_grows:
  "create_approval rt up ps i now pr plan who src c rs = (res, rows') \<Longrightarrow> set rs \<subseteq> set rows'"
  by (auto simp: create_approval_def Let_def store_simps split: if_splits sum.splits)

lemma consume_inv_grant:
  assumes inv: "consume_inv s" and claim: "consume_claim now i (sys_rows s) = Inr (rows', Some j)"
  shows "consume_inv (s\<lparr>sys_rows := rows', sys_pending := ps, sys_granted := (j, now) # sys_granted s\<rparr>)"
proof -
  have ok: "approvals_ok (sys_rows s)" using inv by (simp add: consume_inv_def)
  from consume_claim_spec(3) [OF ok claim refl] obtain r where j: "j = i" and r: "r \<in> set (sys_rows s)"
    "claimable i now r" "ar_approved_at r \<le> now"
    and rows': "rows' = map (\<lambda>s. if s = r then mark_consumed now r else s) (sys_rows s)"
    by blast
  have keep: "q \<in> set rows'" if "q \<in> set (sys_rows s)" "ar_consumed_at q \<noteq> None" for q
    using that r rows' by (auto simp: claimable_def)
  have "j \<notin> fst ` set (sys_granted s)"
  proof
    assume "j \<in> fst ` set (sys_granted s)"
    then obtain q where "q \<in> set (sys_rows s)" "ar_id q = j" "ar_consumed_at q \<noteq> None"
      using inv by (fastforce simp: consume_inv_def)
    moreover from this have "q = r"
      using approvals.conflict_eq [OF ok _ r(1)] r j by (simp add: approval_conflict_def claimable_def)
    ultimately show False using r by (simp add: claimable_def)
  qed
  moreover have "mark_consumed now r \<in> set rows'" using r rows' by force
  then have "\<exists>q \<in> set rows'. ar_id q = i \<and> ar_consumed_at q = Some now \<and> ar_approved_at q \<le> now \<and> now < ar_expires_at q"
    using r by (intro bexI [of _ "mark_consumed now r"]) (auto simp: claimable_def)
  ultimately show ?thesis
    using consume_inv_rows [OF inv consume_claim_spec(1) [OF ok claim] keep] r j
    by (auto simp: consume_inv_def claimable_def)
qed

lemma consume_inv_step: "consume_step rt s t \<Longrightarrow> consume_inv s \<Longrightarrow> consume_inv t"
proof (induction rule: consume_step.induct)
  case (create up ps i now pr plan who src c s res rows')
  then show ?case
    using create_approval_ok create_approval_grows consume_inv_rows [of s rows']
    by (metis consume_inv_def subsetD)
next
  case (grant i now s rows' j)
  then show ?case using consume_inv_grant by blast
next
  case (refuse i now s rows')
  then have "rows' = sys_rows s" using consume_claim_spec(2) by (fastforce simp: consume_inv_def)
  with refuse show ?case by (simp add: consume_inv_def)
qed (simp_all add: consume_inv_def)

lemma consume_inv_reachable: "consume_reachable rt s \<Longrightarrow> consume_inv s"
  by (induction rule: consume_reachable.induct) (simp add: consume_inv_def, rule consume_inv_step)

text \<open>A consumption with no other transaction in between is one read followed by one grant.\<close>

lemma consume_is_read_grant:
  assumes "consume rt True now pr pid h (sys_rows s) = (Inr (Some a), rows')"
  shows "\<exists>t u. consume_step rt s t \<and> consume_step rt t u \<and> sys_rows u = rows'
    \<and> sys_granted u = (ea_id a, now) # sys_granted s \<and> sys_pending u = sys_pending s"
proof -
  from assms obtain b j where read: "consume_read rt now pr pid h (sys_rows s) = Inr (Some b)"
    and claim: "consume_claim now (ea_id b) (sys_rows s) = Inr (rows', Some j)"
    and a: "ea_id a = ea_id b"
    by (auto simp: consume_def split: if_splits sum.splits option.splits prod.splits)
  have j: "j = ea_id b"
    using claim by (auto simp: consume_claim_def exn_simps store_simps claimable_def filter_eq_Cons_iff)
  let ?t = "s\<lparr>sys_pending := (ea_id b, now) # sys_pending s\<rparr>"
  have "consume_step rt s ?t" using read by (rule consume_step.read)
  moreover have "consume_step rt ?t (?t\<lparr>sys_rows := rows', sys_pending := remove1 (ea_id b, now) (sys_pending ?t),
      sys_granted := (j, now) # sys_granted ?t\<rparr>)"
    by (rule consume_step.grant) (use claim in auto)
  ultimately show ?thesis using a j by fastforce
qed

end
