(* ===== verification/Pipeline_Properties.thy ===== *)
theory Pipeline_Properties
  imports Demo Approval_Interleaving
begin

text \<open>
  The properties of the single components of the approved-execution pipeline, each with a witness at a
  concrete input: proposals, plans, targets, approvals, jobs, the executor and results.
\<close>

section \<open>Proposals\<close>

text \<open>C31: A proposal that \<open>validate_generated_test_case\<close> returns satisfies the whole published contract
  (bounded stripped texts, relative path, unique and permitted headers, bounded JSON body, one to twenty
  distinct well-formed assertions, unique citations), and validating its canonical payload returns the same
  proposal.\<close>

theorem validated_proposal_contract:
  assumes "validate_generated_test_case rt payload = Inr t"
  shows "test_case_ok rt t \<and> validate_generated_test_case rt (test_case_payload t) = Inr t"
  using validate_sound [OF assms] validate_payload by blast

theorem validated_proposal_contract_witness:
  "validate_generated_test_case demo_rt (test_case_payload demo_case) = Inr demo_case \<and> test_case_ok demo_rt demo_case"
  using validated_proposal_contract [OF validate_payload [OF demo_case_ok]] validate_payload [OF demo_case_ok] by blast

text \<open>Validation of an untrusted payload never fails with a \<open>KeyError\<close>: the only error is the
  declared \<open>GeneratedTestCaseValidationError\<close>.\<close>

theorem proposal_errors_declared:
  assumes "validate_generated_test_case rt payload = Inl e"
  shows "\<exists>m. e = GeneratedTestCaseValidationError m"
  using assms validate_never_KeyError by (cases e) auto

theorem proposal_errors_declared_witness:
  "\<exists>e m. validate_generated_test_case demo_rt [] = Inl e \<and> e = GeneratedTestCaseValidationError m"
proof -
  have "validate_generated_test_case demo_rt [] = Inl (GeneratedTestCaseValidationError
      ''Generated test case fields must exactly match the versioned schema'')"
    by code_simp
  with proposal_errors_declared [OF this] show ?thesis by blast
qed

section \<open>Canonical JSON\<close>

text \<open>Loading a canonical JSON text gives back the value with its object keys sorted, and two values
  with the same canonical text are equal up to key order.\<close>

theorem canonical_json_round_trip:
  assumes "json_ok rt v" "json_ok rt w"
  shows "loads rt (canonical_json v) = Some (canon v) \<and> (canonical_json v = canonical_json w \<longleftrightarrow> canon v = canon w)"
  using loads_canonical_json [OF assms(1)] canonical_json_inj [OF assms] by (auto simp: canonical_json_def)

theorem canonical_json_round_trip_witness:
  "loads demo_rt (canonical_json (JObj [(''b'', JInt 2), (''a'', JArr [JStr ''x'', JFloat ''0.5''])]))
   = Some (JObj [(''a'', JArr [JStr ''x'', JFloat ''0.5'']), (''b'', JInt 2)])"
proof -
  have "float_ok demo_rt ''0.5''" by code_simp
  then have "json_ok demo_rt (JObj [(''b'', JInt 2), (''a'', JArr [JStr ''x'', JFloat ''0.5''])])" by simp
  from canonical_json_round_trip [OF this this] show ?thesis by simp
qed

section \<open>Targets\<close>

text \<open>C15: A target passes validation only if its identifier is registered, its origin is
  \<open>https://host\<close> on port 443 with redirects off, the host is neither a metadata host nor an IP address in any
  notation, both DNS answers are non-empty, every address in both is globally routable, and both answers are
  the same set of addresses.\<close>

theorem validated_target_safe:
  assumes "validate_registered_target rt resolve registry tid = Inr v"
  shows "target_id_value (vt_id v) = tid \<and> (\<exists>t \<in> set registry. tg_id t = vt_id v \<and> \<not> tg_redirects_allowed t)
    \<and> vt_port v = DEFAULT_HTTPS_PORT \<and> \<not> vt_redirects_allowed v \<and> vt_origin v = ''https://'' @ vt_hostname v
    \<and> vt_hostname v \<notin> set metadata_hosts \<and> ip_address rt (vt_hostname v) = None
    \<and> \<not> looks_like_alternate_ip_notation (vt_hostname v)
    \<and> vt_resolved_addresses v \<noteq> []
    \<and> (\<forall>n \<in> {0, 1}. set (vt_resolved_addresses v) = {c. \<exists>a \<in> set (resolve n (vt_hostname v)). ip_address rt a = Some (True, c)}
         \<and> (\<forall>a \<in> set (resolve n (vt_hostname v)). \<exists>c. ip_address rt a = Some (True, c)))"
proof -
  from assms obtain t og where t: "registry_get registry tid = Inr t" and og: "parse_target_origin rt t = Inr og"
    and ans: "validated_public_answers rt (resolve 0 (or_hostname og)) = Inr (vt_resolved_addresses v)"
      "validated_public_answers rt (resolve 1 (or_hostname og)) = Inr (vt_resolved_addresses v)"
    and v: "vt_id v = tg_id t" "vt_origin v = or_origin og" "vt_hostname v = or_hostname og" "vt_port v = or_port og"
      "\<not> vt_redirects_allowed v"
    by (auto simp: validate_registered_target_def exn_simps)
  show ?thesis
    using registry_get_Inr [OF t] parse_target_origin_Inr [OF og] validated_public_answers_Inr [OF ans(1)]
      validated_public_answers_Inr [OF ans(2)] v by auto
qed

theorem validated_target_safe_witness:
  "\<exists>v. validate_registered_target demo_rt (\<lambda>n h. [''93.184.216.34'']) DEFAULT_TARGET_REGISTRY ''synthetic-order-api'' = Inr v
     \<and> vt_origin v = ''https://'' @ vt_hostname v \<and> vt_resolved_addresses v \<noteq> []"
proof -
  have "case validate_registered_target demo_rt (\<lambda>n h. [''93.184.216.34'']) DEFAULT_TARGET_REGISTRY ''synthetic-order-api''
      of Inl _ \<Rightarrow> False | Inr v \<Rightarrow> True"
    by code_simp
  then obtain v where "validate_registered_target demo_rt (\<lambda>n h. [''93.184.216.34'']) DEFAULT_TARGET_REGISTRY
    ''synthetic-order-api'' = Inr v" by (auto split: sum.splits)
  with validated_target_safe [OF this] show ?thesis by blast
qed

section \<open>Plans\<close>

text \<open>For a valid proposal whose floats print and read back, a plan is built exactly when the target is
  registered, the limits are in bounds and the proposal fits them; the plan then validates, and the proposal
  kept in it is the given one up to the key order of its body.\<close>

theorem build_plan_iff:
  assumes "test_case_ok rt t" "json_ok rt (JObj (test_case_payload t))"
  shows "((\<exists>p. build_execution_plan rt t tid l registry = Inr p) \<longleftrightarrow>
        limits_ok l \<and> plan_fits t l \<and> (\<exists>tg. registry_get registry tid = Inr tg))
    \<and> (\<forall>p. build_execution_plan rt t tid l registry = Inr p \<longrightarrow>
        validate_execution_plan rt p registry = Inr p \<and> plan_test_case rt p = Inr (canon_case t)
        \<and> pl_limits p = l \<and> pl_estimate p = estimate_of t l)"
  using build_execution_plan_Inr [OF assms] plan_of_valid [OF assms]
  by (auto simp: plan_of_def Let_def)

theorem build_plan_iff_witness:
  "\<exists>p. build_execution_plan demo_rt demo_case ''synthetic-order-api'' DEFAULT_EXECUTION_LIMITS DEFAULT_TARGET_REGISTRY = Inr p"
  using build_plan_iff [OF demo_case_ok demo_json_ok, of "''synthetic-order-api''" DEFAULT_EXECUTION_LIMITS
    DEFAULT_TARGET_REGISTRY] demo_limits demo_registered by blast

text \<open>C5: Two valid plans with the same hash carry the same target, limits, estimate and identifier, and
  proposals that differ at most in their title and in the key order of their bodies, unless their two
  canonical hash inputs are a SHA-256 collision.\<close>

theorem plan_hash_binds:
  assumes p: "validate_execution_plan rt p r = Inr p" "plan_test_case rt p = Inr t" "registry_get r (target_id_value (pl_target_id p)) = Inr tg"
    and q: "validate_execution_plan rt q r' = Inr q" "plan_test_case rt q = Inr u" "registry_get r' (target_id_value (pl_target_id q)) = Inr tg'"
    and floats: "json_ok rt (JObj (test_case_payload t))" "json_ok rt (JObj (test_case_payload u))"
    and same: "pl_hash p = pl_hash q"
    and no_collision: "inj_on (sha256_hex rt) {plan_hash_payload tg t (pl_limits p) (pl_estimate p),
      plan_hash_payload tg' u (pl_limits q) (pl_estimate q)}"
  shows "pl_id p = pl_id q \<and> pl_target_base_url p = pl_target_base_url q
    \<and> pl_target_schema_version p = pl_target_schema_version q \<and> pl_limits p = pl_limits q \<and> pl_estimate p = pl_estimate q
    \<and> canon_case (retitle (tc_title u) t) = canon_case u"
proof -
  have hp: "pl_hash p = sha256_hex rt (plan_hash_payload tg t (pl_limits p) (pl_estimate p))"
    "pl_id p = uuid5 rt EXECUTION_PLAN_NAMESPACE (pl_hash p)" "pl_target_base_url p = tg_base_url tg"
    "pl_target_schema_version p = tg_schema_version tg"
    using p unfolding validate_execution_plan_Inr by auto
  have hq: "pl_hash q = sha256_hex rt (plan_hash_payload tg' u (pl_limits q) (pl_estimate q))"
    "pl_id q = uuid5 rt EXECUTION_PLAN_NAMESPACE (pl_hash q)" "pl_target_base_url q = tg_base_url tg'"
    "pl_target_schema_version q = tg_schema_version tg'"
    using q unfolding validate_execution_plan_Inr by auto
  have "plan_hash_payload tg t (pl_limits p) (pl_estimate p) = plan_hash_payload tg' u (pl_limits q) (pl_estimate q)"
    by (rule inj_onD [OF no_collision]) (simp_all add: hp(1) [symmetric] hq(1) [symmetric] same)
  note m = plan_hash_payload_inj [OF this floats]
  have "test_case_ok rt t" "test_case_ok rt u"
    using p(2) q(2) snapshot_case_ok unfolding plan_test_case_def by blast+
  with m material_determines_case have "canon_case (retitle (tc_title u) t) = canon_case u" by blast
  moreover have "pl_id p = pl_id q" using hp(2) hq(2) same by metis
  ultimately show ?thesis using m hp(3,4) hq(3,4) by metis
qed

theorem plan_hash_binds_witness:
  "canon_case (retitle (tc_title (canon_case demo_case)) (canon_case demo_case)) = canon_case (canon_case demo_case)"
proof -
  have f: "json_ok demo_rt (JObj (test_case_payload (canon_case demo_case)))"
    by (simp add: test_case_payload_def demo_case_def canon_case_def request_payload_def demo_request_def opt_obj_def
      canon_obj_def assertion_payload_def demo_assertion_def opt_str_def)
  have r: "registry_get DEFAULT_TARGET_REGISTRY (target_id_value (pl_target_id demo_plan)) = Inr demo_target"
    by (cases "pl_target_id demo_plan") (simp add: demo_registered)
  show ?thesis
    using plan_hash_binds [OF demo_plan_valid r demo_plan_valid r f f refl] by simp
qed

text \<open>The title is display text: retitling a valid proposal gives a plan with the same hash and the same
  identifier.\<close>

theorem title_not_hashed:
  assumes "test_case_ok rt t" "text_ok s"
    and "json_ok rt (JObj (test_case_payload t))" "json_ok rt (JObj (test_case_payload (retitle s t)))"
    and "build_execution_plan rt t tid l registry = Inr p"
  shows "\<exists>q. build_execution_plan rt (retitle s t) tid l registry = Inr q \<and> pl_hash q = pl_hash p \<and> pl_id q = pl_id p"
proof -
  from assms(5) obtain tg where tg: "registry_get registry tid = Inr tg" "limits_ok l" "plan_fits t l" "p = plan_of rt tg t l"
    using build_execution_plan_Inr [OF assms(1,3)] by auto
  then have "build_execution_plan rt (retitle s t) tid l registry = Inr (plan_of rt tg (retitle s t) l)"
    using build_execution_plan_Inr [OF retitle_ok [OF assms(1,2)] assms(4)] by auto
  then show ?thesis using tg(4) by (auto simp: plan_of_def Let_def)
qed

theorem title_not_hashed_witness:
  "\<exists>q. build_execution_plan demo_rt (retitle ''item'' demo_case) ''synthetic-order-api'' DEFAULT_EXECUTION_LIMITS
      DEFAULT_TARGET_REGISTRY = Inr q \<and> pl_hash q = pl_hash demo_plan"
proof -
  have "json_ok demo_rt (JObj (test_case_payload (retitle ''item'' demo_case)))"
    using demo_json_ok by (simp add: retitle_def test_case_payload_def)
  moreover have "build_execution_plan demo_rt demo_case ''synthetic-order-api'' DEFAULT_EXECUTION_LIMITS
      DEFAULT_TARGET_REGISTRY = Inr demo_plan"
    using build_execution_plan_Inr [OF demo_case_ok demo_json_ok] demo_registered demo_limits by (simp add: demo_plan_def)
  ultimately obtain q where "build_execution_plan demo_rt (retitle ''item'' demo_case) ''synthetic-order-api''
      DEFAULT_EXECUTION_LIMITS DEFAULT_TARGET_REGISTRY = Inr q \<and> pl_hash q = pl_hash demo_plan"
    using title_not_hashed [OF demo_case_ok demo_texts(3) demo_json_ok] by metis
  then show ?thesis by (rule exI)
qed

section \<open>Approvals\<close>

text \<open>C13: A successful \<open>approve\<close> adds one row for a valid plan whose hash is the one the owner confirmed;
  the approval carries the server-side identity of the owner, expires ten minutes later, is not consumed, and
  reading it back in its project returns exactly that approval with the whole plan.\<close>

theorem approve_then_get:
  assumes "approvals_ok rows" "approve rt up projects new_id now project plan expected owner comment rows = (Inr a, rows')"
  shows "validate_execution_plan rt plan DEFAULT_TARGET_REGISTRY = Inr plan \<and> expected = pl_hash plan
    \<and> ea_plan a = plan \<and> ea_id a = new_id \<and> ea_project_id a = project
    \<and> (ea_approver_id a, ea_source a) = approver_provenance owner
    \<and> ea_approved_at a = now \<and> ea_expires_at a = now + EXECUTION_APPROVAL_TTL \<and> ea_consumed_at a = None
    \<and> length rows' = Suc (length rows) \<and> approvals_ok rows'
    \<and> get_approval rt True project new_id rows' = Inr (Some a)"
proof -
  obtain c where v: "validate_execution_plan rt plan DEFAULT_TARGET_REGISTRY = Inr plan" "expected = pl_hash plan"
    "length expected = 64" and cr: "create_approval rt up projects new_id now project plan (fst (approver_provenance owner))
      (snd (approver_provenance owner)) c rows = (Inr a, rows')"
    using approve_Inr [OF assms(2)] by blast
  let ?row = "new_approval_row new_id now project plan (fst (approver_provenance owner)) (snd (approver_provenance owner)) c"
  have r: "rows' = rows @ [?row]" "approval_from_record rt ?row = Inr a" using create_approval_Inr [OF cr] by blast+
  have h: "pl_hash plan \<noteq> []" using v(2,3) by auto
  have who: "strip (fst (approver_provenance owner)) \<noteq> []"
    using r(2) by (simp add: approval_from_record_Inr new_approval_row_def)
  from new_approval_row_read [OF v(1) h who] r(2)
  have a: "a = \<lparr>ea_id = new_id, ea_project_id = project, ea_plan = plan, ea_approver_id = fst (approver_provenance owner),
      ea_source = snd (approver_provenance owner), ea_comment = c, ea_approved_at = now,
      ea_expires_at = now + EXECUTION_APPROVAL_TTL, ea_consumed_at = None\<rparr>" by simp
  have ok: "approvals_ok rows'" using create_approval_ok [OF assms(1) cr] .
  have "get_approval rt True project new_id rows' = Inr (Some a)"
    using get_approval_found [OF ok, of ?row rt] r by (simp add: new_approval_row_def)
  then show ?thesis using v a r ok by simp
qed

theorem approve_then_get_witness:
  "\<exists>a rows'. approve demo_rt True [11] 21 0 11 demo_plan (pl_hash demo_plan) LocalDevelopmentOwnerPrincipal None []
      = (Inr a, rows') \<and> get_approval demo_rt True 11 21 rows' = Inr (Some a)"
proof -
  have "approve demo_rt True [11] 21 0 11 demo_plan (pl_hash demo_plan) LocalDevelopmentOwnerPrincipal None [] = (Inr demo_approval, [demo_row])"
    using demo_plan_valid(1) demo_row_checks demo_row_read
    by (simp add: approve_def validate_comment_def create_approval_def insert_row_def demo_row_def [symmetric])
      (simp add: demo_row_def new_approval_row_def)
  from approve_then_get [OF _ this] this show ?thesis by (intro exI) (auto simp: table_ok_def)
qed

text \<open>C3: Under every interleaving of the statements of any number of \<open>consume\<close> and \<open>create\<close>
  transactions, each approval is granted at most once, and only between its approval and its expiry.\<close>

theorem approval_consumed_once:
  assumes "consume_reachable rt s"
  shows "distinct (map fst (sys_granted s)) \<and> (\<forall>(i, now) \<in> set (sys_granted s). \<exists>r \<in> set (sys_rows s).
     ar_id r = i \<and> ar_consumed_at r = Some now \<and> ar_approved_at r \<le> now \<and> now < ar_expires_at r)"
  using consume_inv_reachable [OF assms] by (simp add: consume_inv_def)

lemma demo_consume_run:
  "\<exists>u. consume_reachable demo_rt u \<and> sys_granted u = [(21, 5)]"
proof -
  let ?s0 = "\<lparr>sys_rows = [], sys_pending = [], sys_granted = []\<rparr>"
  have cr: "create_approval demo_rt True [11] 21 0 11 demo_plan LOCAL_DEVELOPMENT_APPROVER_ID ''local_bypass'' None []
      = (Inr demo_approval, [demo_row])"
    using demo_row_checks demo_row_read
    by (simp add: create_approval_def insert_row_def demo_row_def [symmetric]) (simp add: demo_row_def new_approval_row_def)
  let ?s1 = "?s0\<lparr>sys_rows := [demo_row]\<rparr>"
  have r1: "consume_reachable demo_rt ?s1"
    by (rule consume_reachable.step [OF consume_reachable.empty consume_step.create]) (use cr in simp)
  have "consume demo_rt True 5 11 7 (pl_hash demo_plan) [demo_row] =
      (Inr (Some (demo_approval\<lparr>ea_consumed_at := Some 5\<rparr>)), [mark_consumed 5 demo_row])"
    using demo_row_read demo_row_checks(1)
    by (simp add: consume_def consume_read_def consume_claim_def update_where_def claimable_def demo_row_def
      new_approval_row_def demo_approval_def EXECUTION_APPROVAL_TTL_def approval_checks_def mark_consumed_def)
  then obtain t u where "consume_step demo_rt ?s1 t" "consume_step demo_rt t u" "sys_granted u = [(21, 5)]"
    using consume_is_read_grant [of demo_rt 5 11 7 "pl_hash demo_plan" ?s1] by (fastforce simp: demo_approval_def)
  with r1 show ?thesis by (meson consume_reachable.step)
qed

theorem approval_consumed_once_witness:
  "\<exists>u. consume_reachable demo_rt u \<and> sys_granted u = [(21, 5)] \<and> distinct (map fst (sys_granted u))"
  using demo_consume_run approval_consumed_once by blast

section \<open>Jobs\<close>

text \<open>Enqueueing is idempotent per approval: after a job was enqueued, every later enqueueing of the same
  unconsumed and unexpired approval returns that same stored job and leaves the database as it is.\<close>

theorem enqueue_idempotent:
  assumes "jobs_ok (db_jobs db)" "enqueue up up' i trace now a db = (Inr j, db')"
    and "ea_consumed_at a = None" "now' < ea_expires_at a"
  shows "j \<in> set (db_jobs db') \<and> ej_approval_id j = ea_id a \<and> jobs_ok (db_jobs db')
    \<and> enqueue True True i' trace' now' a db' = (Inr j, db')"
proof -
  have cases: "db' = db \<and> scalar_one_or_none (filter (\<lambda>j. ej_approval_id j = ea_id a) (db_jobs db)) = Inr (Some j)
      \<and> length (pl_hash (ea_plan a)) \<le> 64
    \<or> j = new_job i trace now a \<and> insert_row job_checks job_conflict j (db_jobs db) = Inr (db_jobs db')
      \<and> length (pl_hash (ea_plan a)) \<le> 64"
    using assms(2) by (auto simp: enqueue_def existing_job_def insert_row_def new_job_def split: if_splits sum.splits option.splits)
  have ok: "jobs_ok (db_jobs db')" using cases assms(1) jobs.insert_keeps by blast
  have jin: "j \<in> set (db_jobs db')" "ej_approval_id j = ea_id a"
    using cases by (auto simp: insert_row_Inr new_job_def dest: scalar_one_or_none_in)
  let ?p = "\<lambda>k. ej_approval_id k = ea_id a"
  have "filter ?p (db_jobs db') = [] \<or> (\<exists>k \<in> set (db_jobs db'). ?p k \<and> filter ?p (db_jobs db') = [k])"
    by (rule jobs.unique_row [OF ok]) (simp add: job_conflict_def)
  then have sel: "filter ?p (db_jobs db') = [j]"
    using jin jobs.conflict_eq [OF ok _ jin(1)] by (auto simp: filter_empty_conv job_conflict_def)
  have "\<not> list_all (\<lambda>k. \<not> job_conflict (new_job i' trace' now' a) k) (db_jobs db')"
    using jin by (auto simp: list_all_iff job_conflict_def new_job_def intro: bexI [of _ j])
  moreover have "length (ej_plan_hash (new_job i' trace' now' a)) \<le> 64" using cases by (auto simp: new_job_def)
  ultimately have "enqueue True True i' trace' now' a db' = (Inr j, db')"
    using assms(3,4) sel by (simp add: enqueue_def insert_row_def existing_job_def not_le)
  then show ?thesis using jin ok by blast
qed

theorem enqueue_idempotent_witness:
  "enqueue True True 99 None 2 demo_approval demo_db = (Inr demo_job, demo_db)"
proof -
  have "enqueue True True 31 None 1 demo_approval (demo_db\<lparr>db_jobs := []\<rparr>) = (Inr demo_job, demo_db)"
    by (simp add: enqueue_def insert_row_def demo_approval_def EXECUTION_APPROVAL_TTL_def demo_job_def demo_db_def
      new_job_def job_checks_def job_lifecycle_def demo_row_def new_approval_row_def)
  from enqueue_idempotent [OF _ this] show ?thesis by (simp add: demo_approval_def EXECUTION_APPROVAL_TTL_def)
qed

text \<open>C6: A worker that obtains a claim obtained the oldest queued job that no other transaction holds (by
  creation time, then identifier); its approval matched in project, plan and hash, was unconsumed and in force, and
  the same transaction marked it consumed and started the job, changing nothing else.\<close>

theorem claim_is_fifo_and_atomic:
  assumes "approvals_ok (db_approvals db)" "jobs_ok (db_jobs db)" "claim_next rt up locked now db = (Inr (Some c), db')"
  shows "\<exists>j r. claim_candidate locked j (db_jobs db) \<and> cj_job c = start_job now j \<and> r \<in> set (db_approvals db)
    \<and> approval_from_record rt r = Inr ((cj_approval c)\<lparr>ea_consumed_at := None\<rparr>) \<and> ea_consumed_at (cj_approval c) = Some now
    \<and> ar_id r = ej_approval_id j \<and> ar_project_id r = ej_project_id j \<and> ar_plan_id r = ej_plan_id j \<and> ar_plan_hash r = ej_plan_hash j
    \<and> ar_consumed_at r = None \<and> ar_approved_at r \<le> now \<and> now < ar_expires_at r
    \<and> db' = db\<lparr>db_approvals := map (\<lambda>s. if s = r then mark_consumed now r else s) (db_approvals db),
              db_jobs := map (\<lambda>k. if k = j then start_job now j else k) (db_jobs db)\<rparr>"
  using assms
proof (cases rule: claim_next_cases)
  case (started j r a)
  have "ea_consumed_at a = None" using started(7,10) by (simp add: approval_from_record_Inr)
  then have "a\<lparr>ea_consumed_at := None\<rparr> = a" by (cases a) simp
  with started show ?thesis by (intro exI [of _ j] exI [of _ r]) simp
qed auto

lemma demo_claim_next:
  "claim_next demo_rt True [] 5 demo_db = (Inr (Some demo_claim),
     demo_db\<lparr>db_approvals := [mark_consumed 5 demo_row], db_jobs := [start_job 5 demo_job]\<rparr>)"
proof -
  have "first_by f [demo_job] = Some demo_job" for f :: "execution_job \<Rightarrow> instant \<times> uuid" by (simp add: first_by_def)
  then show ?thesis
    using demo_row_read demo_row_checks(1)
    by (simp add: claim_next_def demo_db_def demo_claim_def)
      (simp add: demo_row_def new_approval_row_def demo_job_def new_job_def demo_approval_def consume_claim_def update_where_def
        claimable_def EXECUTION_APPROVAL_TTL_def write_job_def approval_checks_def mark_consumed_def start_job_def
        job_checks_def job_lifecycle_def)
qed

theorem claim_is_fifo_and_atomic_witness:
  "\<exists>c db'. claim_next demo_rt True [] 5 demo_db = (Inr (Some c), db') \<and> ea_consumed_at (cj_approval c) = Some 5"
proof -
  have "approvals_ok (db_approvals demo_db)" "jobs_ok (db_jobs demo_db)" using demo_tables by (simp_all add: demo_db_def)
  from claim_is_fifo_and_atomic [OF this demo_claim_next] demo_claim_next show ?thesis by blast
qed

section \<open>The restricted executor\<close>


text \<open>Such a body exists within the limits of every plan that allows 4303 bytes, so the second case is reached.\<close>

definition long_integer_response :: transport_response where
  "long_integer_response = demo_response\<lparr>rs_body := ''['' @ replicate 4301 (CHR ''1'') @ '']''\<rparr>"

lemma long_integer_escapes:
  "demo_executed (Response long_integer_response) = (Inl BodyLimitExceeded, [demo_call])"
proof -
  have "body_over_limits demo_rt (''['' @ replicate 4301 (CHR ''1'') @ '']'')"
    by (rule long_integer_over_limits) (simp add: MAX_INT_DIGITS_def)
  then have "evidence_raises demo_rt demo_plan (Response long_integer_response)"
    by (simp add: evidence_raises_def long_integer_response_def demo_response_def valid_transport_response_def
      demo_plan_parts DEFAULT_EXECUTION_LIMITS_def)
  then show ?thesis by (simp add: demo_finish finish_send_def)
qed

text \<open>The executor calls the transport at most once, and reports exactly as many sends as it made.\<close>

theorem at_most_one_send:
  assumes "execute rt resolve probe transport registry now claimed = (Inr r, calls)"
  shows "length calls \<le> 1 \<and> er_transport_send_count r = int (length calls) \<and> er_job_id r = Some (ej_id (cj_job claimed))"
  using assms
proof (cases rule: execute_cases)
  case (ready t headers body q)
  from ready(6) show ?thesis
    by (cases rule: send_request_cases) auto
qed (auto simp: failed_def)

theorem at_most_one_send_witness:
  "\<exists>r. demo_executed TimedOut = (Inr r, [demo_call]) \<and> er_transport_send_count r = 1"
  using at_most_one_send [OF demo_execute [OF demo_no_limit(1), unfolded demo_executed_def]] demo_execute [OF demo_no_limit(1)] by auto

text \<open>C2: A request is sent only for a running job under its own consumed and unexpired approval, for the valid plan
  both carry, after two negative cancellation checks.  It is the request of the plan: its method, its URL (HTTPS, to
  exactly the host of the validated target whose origin the plan names), its headers, none of which is forbidden, and
  its JSON body, within the body limit of the plan, sent with the timeout and the response limit of the plan, without
  redirects, to a globally routable address that both DNS answers for that host contain.  It is the only request.\<close>

theorem send_only_when_allowed:
  assumes "execute rt resolve probe transport registry now claimed = (res, call # calls)"
  shows "ej_state (cj_job claimed) = RUNNING \<and> ej_approval_id (cj_job claimed) = ea_id (cj_approval claimed)
    \<and> ej_project_id (cj_job claimed) = ea_project_id (cj_approval claimed)
    \<and> ea_consumed_at (cj_approval claimed) \<noteq> None \<and> now < ea_expires_at (cj_approval claimed)
    \<and> validate_execution_plan rt (ea_plan (cj_approval claimed)) registry = Inr (ea_plan (cj_approval claimed))
    \<and> ej_plan_hash (cj_job claimed) = pl_hash (ea_plan (cj_approval claimed))
    \<and> \<not> probe 0 (ej_id (cj_job claimed)) \<and> \<not> probe 1 (ej_id (cj_job claimed))
    \<and> (\<exists>t. plan_test_case rt (ea_plan (cj_approval claimed)) = Inr t
         \<and> tr_method call = req_method (tc_request t)
         \<and> tr_url call = request_url (ea_plan (cj_approval claimed)) t
         \<and> tr_headers call = map (\<lambda>h. (hd_name h, hd_value h)) (req_headers (tc_request t))
         \<and> tr_body call = canonical_body (req_json_body (tc_request t)))
    \<and> (\<forall>(n, v) \<in> set (tr_headers call). lower n \<notin> set forbidden_request_headers \<and> \<not> has_line_break n \<and> \<not> has_line_break v)
    \<and> (\<forall>b. tr_body call = Some b \<longrightarrow>
         int (length b) \<le> max_request_body_bytes (pl_limits (ea_plan (cj_approval claimed))))
    \<and> tr_timeout_ms call = request_timeout_ms (pl_limits (ea_plan (cj_approval claimed)))
    \<and> tr_max_response_bytes call = max_response_bytes (pl_limits (ea_plan (cj_approval claimed)))
    \<and> tr_timeout_ms call \<le> MAX_REQUEST_TIMEOUT_MS \<and> tr_max_response_bytes call \<le> MAX_RESPONSE_BYTES
    \<and> \<not> tr_follow_redirects call
    \<and> (\<exists>v u. validate_registered_target rt resolve registry (target_id_value (pl_target_id (ea_plan (cj_approval claimed)))) = Inr v
         \<and> vt_origin v = pl_target_base_url (ea_plan (cj_approval claimed))
         \<and> urlsplit rt (tr_url call) = Some u \<and> us_scheme u = ''https'' \<and> us_netloc u = vt_hostname v
         \<and> (\<forall>n \<in> {0, 1}. \<exists>a \<in> set (resolve n (vt_hostname v)). ip_address rt a = Some (True, tr_resolved_address call)))
    \<and> calls = []"
  using assms
proof (cases rule: execute_outcomes)
  case (ready t headers body q)
  have hs: "headers = map (\<lambda>h. (hd_name h, hd_value h)) (req_headers (tc_request t))
      \<and> (\<forall>(n, v) \<in> set headers. lower n \<notin> set forbidden_request_headers \<and> \<not> has_line_break n \<and> \<not> has_line_break v)"
    and body: "body = canonical_body (req_json_body (tc_request t))"
    using prepare_request_Inr [OF ready(5)] validated_headers_Inr by blast+
  have l: "limits_ok (pl_limits (ea_plan (cj_approval claimed)))"
    using ready(2) by (auto simp: validate_execution_plan_Inr)
  obtain u where u: "urlsplit rt (request_url (ea_plan (cj_approval claimed)) t) = Some u"
    and b: "\<forall>b. body = Some b \<longrightarrow> int (length b) \<le> max_request_body_bytes (pl_limits (ea_plan (cj_approval claimed)))"
    using prepare_request_bounds [OF ready(5)] by blast
  from ready(6) show ?thesis
  proof (cases rule: send_request_outcomes)
    case (sent v a as call')
    have "us_scheme u = ''https'' \<and> us_netloc u = vt_hostname v"
      using plan_request_url [OF ready(4)] u validated_target_url [OF sent(1)] sent(3) by metis
    moreover have "\<forall>n \<in> {0, 1}. \<exists>x \<in> set (resolve n (vt_hostname v)). ip_address rt x = Some (True, a)"
      using validated_target_answers [OF sent(1)] sent(6) by simp
    ultimately show ?thesis
      using sent ready(1-4) hs body l u b
      by (auto simp: validate_claim_None job_matches_plan_def limits_ok_def)
  qed simp
qed auto

theorem send_only_when_allowed_witness:
  "\<exists>res. demo_executed Raised = (res, [demo_call]) \<and> ej_state (cj_job demo_claim) = RUNNING \<and> \<not> tr_follow_redirects demo_call"
  using send_only_when_allowed [OF demo_execute [OF demo_no_limit(2), unfolded demo_executed_def]] demo_execute [OF demo_no_limit(2)] by auto

text \<open>C8: An execution succeeds exactly when one request was sent and answered by a well-formed response within
  the size limit that is no redirect, every assertion of the plan holds on it, and cancellation was not requested
  afterwards.\<close>

theorem success_iff:
  assumes "execute rt resolve probe transport registry now claimed = (Inr r, calls)"
  shows "er_outcome r = OutcomeSucceeded \<longleftrightarrow>
    (\<exists>call resp t. calls = [call] \<and> transport call = Response resp
       \<and> plan_test_case rt (ea_plan (cj_approval claimed)) = Inr t
       \<and> response_acceptable rt (ea_plan (cj_approval claimed)) t resp \<and> \<not> probe 2 (ej_id (cj_job claimed)))"
  using assms
proof (cases rule: execute_cases)
  case (ready t headers body q)
  from ready(6) show ?thesis
  proof (cases rule: send_request_cases)
    case (sent v a as call)
    then show ?thesis using ready(4) after_send_success by auto
  qed auto
qed (auto simp: failed_def)

theorem success_iff_witness:
  "\<exists>r. demo_executed (Response demo_response) = (Inr r, [demo_call]) \<and> er_outcome r = OutcomeSucceeded"
  using success_iff [OF demo_execute [OF demo_no_limit(3), unfolded demo_executed_def]]
    demo_execute [OF demo_no_limit(3)] demo_success demo_plan_valid(2)
  by (auto simp: demo_claim_def demo_approval_def)

text \<open>C35: Every result the executor returns is redacted: in the request and response evidence each header and each
  member of the JSON body, at any depth, whose name is sensitive holds the marker instead of its value.\<close>

theorem executor_evidence_redacted:
  assumes "execute rt resolve probe transport registry now claimed = (Inr r, calls)"
  shows "evidence_redacted r"
  using assms
proof (cases rule: execute_cases)
  case (ready t headers body q)
  have q: "redacted (qe_json_body q) \<and> headers_redacted (qe_headers q)" using prepare_request_Inr [OF ready(5)] by blast
  from ready(6) show ?thesis
  proof (cases rule: send_request_cases)
    case quiet
    then show ?thesis using q by (auto simp: evidence_redacted_def)
  next
    case (sent v a as call)
    then show ?thesis using after_send_redacted [OF q] by simp
  qed
qed (auto simp: failed_def evidence_redacted_def)

theorem executor_evidence_redacted_witness:
  "\<exists>r. demo_executed (Response demo_response) = (Inr r, [demo_call]) \<and> evidence_redacted r"
  using executor_evidence_redacted [OF demo_execute [OF demo_no_limit(3), unfolded demo_executed_def]]
    demo_execute [OF demo_no_limit(3)] by blast

end
