(* ===== verification/Authorization.thy ===== *)
theory Authorization
  imports Auth Py_Uuid
begin

text \<open>
  Capability authorization and its audit trail (\<open>authorization.py\<close>, \<open>audit.py\<close>).  A request handler
  obtains a scope (a capability for one action on one resource) from the boundary, which resolves the
  owner, applies the policy and records exactly one event for its decision.  The audit sink is a
  parameter \<open>accepts\<close>: whether it stores an event or raises; the stored events are the log, threaded
  through every operation.

  The locale \<open>audited\<close> states the contract the operations of the boundary share, and proves what it
  gives for a whole sequence of requests.
\<close>

section \<open>Audit events\<close>

datatype audit_principal_type = OWNER | GUEST | AUTHENTICATED_NON_OWNER | UNKNOWN

datatype audit_result = ALLOWED | DENIED

record authorization_actor =
  aa_principal_type :: audit_principal_type
  aa_actor_id :: "string option"

datatype denial_disclosure = NOT_FOUND | FORBIDDEN

datatype authorization_error =
    AuthorizationDenied (disclosure: denial_disclosure) (public_detail: string) (denial_reason: string)
  | OwnerResolutionFailed owner_resolution_failure
  | AuthorizationAuditUnavailable string
  | AuthorizationValueError string

definition identified :: "audit_principal_type \<Rightarrow> bool" where
  "identified t \<longleftrightarrow> t \<in> {OWNER, AUTHENTICATED_NON_OWNER}"

definition make_actor :: "audit_principal_type \<Rightarrow> string option \<Rightarrow> authorization_error + authorization_actor" where
  "make_actor t i =
     bindE (if identified t
       then require (case i of None \<Rightarrow> False | Some s \<Rightarrow> strip s \<noteq> [])
         (AuthorizationValueError ''Identified authorization actors require an actor ID'')
       else require (i = None) (AuthorizationValueError ''Guest and unknown actors must not carry an actor ID''))
     (\<lambda>_. Inr \<lparr>aa_principal_type = t, aa_actor_id = i\<rparr>)"

record audit_event =
  ev_event_id :: uuid
  ev_occurred_at :: instant
  ev_correlation_id :: uuid
  ev_principal_type :: audit_principal_type
  ev_actor_id :: "string option"
  ev_action :: string
  ev_result :: audit_result
  ev_reason :: string
  ev_resource_type :: string
  ev_resource_id :: "string option"
  ev_resource_version :: "string option"
  ev_project_id :: "string option"

definition clean :: "string \<Rightarrow> bool" where
  "clean s \<longleftrightarrow> s \<noteq> [] \<and> s = strip s"

definition make_event :: "audit_event \<Rightarrow> authorization_error + audit_event" where
  "make_event e =
     bindE (require (ev_event_id e \<noteq> 0 \<and> ev_correlation_id e \<noteq> 0)
       (AuthorizationValueError ''Authorization audit IDs must be non-zero UUIDs'')) (\<lambda>_.
     bindE (make_actor (ev_principal_type e) (ev_actor_id e)) (\<lambda>_.
     bindE (mapE (\<lambda>(name, v). require (clean v)
         (AuthorizationValueError (''Authorization audit '' @ name @ '' must be non-empty'')))
       [(''action'', ev_action e), (''reason'', ev_reason e), (''resource_type'', ev_resource_type e)]) (\<lambda>_.
     bindE (mapE (\<lambda>(name, v). require (case v of None \<Rightarrow> True | Some s \<Rightarrow> clean s)
         (AuthorizationValueError (''Authorization audit '' @ name @ '' must be non-empty when present'')))
       [(''resource_id'', ev_resource_id e), (''resource_version'', ev_resource_version e),
        (''project_id'', ev_project_id e)]) (\<lambda>_.
       Inr e))))"

text \<open>
  \<open>AuthorizationAuditor.record\<close> with the identifier and the time its factories return; the new log
  is returned with the outcome.
\<close>

record audit_context =
  ax_accepts :: "audit_event \<Rightarrow> bool"
  ax_event_id :: uuid
  ax_now :: instant

definition record_event ::
  "audit_context \<Rightarrow> uuid \<Rightarrow> authorization_actor \<Rightarrow> string \<Rightarrow> audit_result \<Rightarrow> string \<Rightarrow> string \<Rightarrow> string option
     \<Rightarrow> string option \<Rightarrow> string option \<Rightarrow> audit_event list \<Rightarrow> (authorization_error + audit_event) \<times> audit_event list" where
  "record_event ax correlation actor action result reason resource_type resource_id resource_version project log =
     (case make_event \<lparr>ev_event_id = ax_event_id ax, ev_occurred_at = ax_now ax, ev_correlation_id = correlation,
          ev_principal_type = aa_principal_type actor, ev_actor_id = aa_actor_id actor, ev_action = action,
          ev_result = result, ev_reason = reason, ev_resource_type = resource_type, ev_resource_id = resource_id,
          ev_resource_version = resource_version, ev_project_id = project\<rparr> of
        Inl e \<Rightarrow> (Inl e, log)
      | Inr event \<Rightarrow>
          if ax_accepts ax event then (Inr event, log @ [event])
          else (Inl (AuthorizationAuditUnavailable ''Authorization audit sink rejected the decision''), log))"

section \<open>Actions, resources and scopes\<close>

definition PRIVATE_RESOURCE_NOT_FOUND_DETAIL :: string where
  "PRIVATE_RESOURCE_NOT_FOUND_DETAIL = ''Resource not found''"

definition LOCAL_DEVELOPMENT_ACTOR_ID :: string where
  "LOCAL_DEVELOPMENT_ACTOR_ID = ''local-development-owner''"

datatype project_action =
  READ | MUTATE | INGEST | READ_RAW_OBJECT | INVOKE_MODEL | ENQUEUE_JOB | APPROVE | EXECUTE | LIST

fun project_action_value :: "project_action \<Rightarrow> string" where
  "project_action_value READ = ''project.read''"
| "project_action_value MUTATE = ''project.mutate''"
| "project_action_value INGEST = ''project.document.ingest''"
| "project_action_value READ_RAW_OBJECT = ''project.raw_object.read''"
| "project_action_value INVOKE_MODEL = ''project.model.invoke''"
| "project_action_value ENQUEUE_JOB = ''project.job.enqueue''"
| "project_action_value APPROVE = ''project.approval.mutate''"
| "project_action_value EXECUTE = ''project.execution.start''"
| "project_action_value LIST = ''project.list''"

datatype project_resource_type = PROJECT | ARTIFACT | RAW_OBJECT | REPORT | JOB | APPROVAL | EXECUTION

fun project_resource_type_value :: "project_resource_type \<Rightarrow> string" where
  "project_resource_type_value PROJECT = ''project''"
| "project_resource_type_value ARTIFACT = ''artifact''"
| "project_resource_type_value RAW_OBJECT = ''raw_object''"
| "project_resource_type_value REPORT = ''report''"
| "project_resource_type_value JOB = ''job''"
| "project_resource_type_value APPROVAL = ''approval''"
| "project_resource_type_value EXECUTION = ''execution''"

record project_resource_reference =
  rf_project_id :: uuid
  rf_resource_type :: project_resource_type
  rf_resource_id :: uuid
  rf_resource_version :: "string option"

definition make_reference ::
  "uuid \<Rightarrow> project_resource_type \<Rightarrow> uuid \<Rightarrow> string option \<Rightarrow> authorization_error + project_resource_reference" where
  "make_reference project t i version =
     bindE (require (project \<noteq> 0 \<and> i \<noteq> 0)
       (AuthorizationValueError ''Project and resource IDs must be non-zero UUIDs'')) (\<lambda>_.
     bindE (require (case version of None \<Rightarrow> True | Some v \<Rightarrow> clean v)
       (AuthorizationValueError ''Resource version must be a non-empty value when present'')) (\<lambda>_.
       Inr \<lparr>rf_project_id = project, rf_resource_type = t, rf_resource_id = i, rf_resource_version = version\<rparr>))"

definition project_reference :: "uuid \<Rightarrow> authorization_error + project_resource_reference" where
  "project_reference project = make_reference project PROJECT project None"

record authorized_project_scope =
  sc_principal :: owner_principal
  sc_project_id :: uuid
  sc_action :: project_action
  sc_resource :: project_resource_reference

record authorized_project_collection_scope =
  cc_principal :: owner_principal
  cc_action :: project_action

definition denial_status :: "denial_disclosure \<Rightarrow> nat" where
  "denial_status d = (if d = FORBIDDEN then 403 else 404)"

definition actor_for_principal :: "principal \<Rightarrow> authorization_error + authorization_actor" where
  "actor_for_principal p = (case p of
     Owner (CognitoOwnerPrincipal issuer subject) \<Rightarrow> make_actor OWNER (Some subject)
   | Owner LocalDevelopmentOwnerPrincipal \<Rightarrow> make_actor OWNER (Some LOCAL_DEVELOPMENT_ACTOR_ID)
   | AnonymousGuest \<Rightarrow> make_actor GUEST None)"

definition actor_for_owner_resolution_failure ::
  "owner_resolution_failure \<Rightarrow> authorization_error + authorization_actor" where
  "actor_for_owner_resolution_failure e =
     make_actor (if of_actor_id e \<noteq> None then AUTHENTICATED_NON_OWNER else UNKNOWN) (of_actor_id e)"

section \<open>The policy\<close>

text \<open>\<open>_record\<close> and \<open>_deny\<close> of the policy: the event of a decision on one resource.\<close>

definition policy_record ::
  "audit_context \<Rightarrow> uuid \<Rightarrow> authorization_actor \<Rightarrow> project_action \<Rightarrow> audit_result \<Rightarrow> string \<Rightarrow> uuid
     \<Rightarrow> project_resource_reference \<Rightarrow> audit_event list \<Rightarrow> (authorization_error + audit_event) \<times> audit_event list" where
  "policy_record ax correlation actor action result reason requested resource log =
     record_event ax correlation actor (project_action_value action) result reason
       (project_resource_type_value (rf_resource_type resource)) (Some (uuid_str (rf_resource_id resource)))
       (rf_resource_version resource) (Some (uuid_str requested)) log"

definition policy_deny ::
  "audit_context \<Rightarrow> uuid \<Rightarrow> authorization_actor \<Rightarrow> project_action \<Rightarrow> string \<Rightarrow> uuid
     \<Rightarrow> project_resource_reference \<Rightarrow> audit_event list \<Rightarrow> (authorization_error + 'a) \<times> audit_event list" where
  "policy_deny ax correlation actor action reason requested resource log =
     (case policy_record ax correlation actor action DENIED reason requested resource log of
        (Inl e, log') \<Rightarrow> (Inl e, log')
      | (Inr _, log') \<Rightarrow> (Inl (AuthorizationDenied NOT_FOUND PRIVATE_RESOURCE_NOT_FOUND_DETAIL reason), log'))"

definition raw_object_invalid :: "project_action \<Rightarrow> project_resource_reference \<Rightarrow> bool" where
  "raw_object_invalid action resource \<longleftrightarrow>
     (rf_resource_type resource = RAW_OBJECT \<and> action \<noteq> READ_RAW_OBJECT
      \<or> action = READ_RAW_OBJECT \<and> rf_resource_type resource \<noteq> RAW_OBJECT)
     \<or> rf_resource_type resource = RAW_OBJECT \<and> rf_resource_version resource = None"

definition authorize ::
  "audit_context \<Rightarrow> principal \<Rightarrow> project_action \<Rightarrow> uuid \<Rightarrow> project_resource_reference \<Rightarrow> uuid
     \<Rightarrow> audit_event list \<Rightarrow> (authorization_error + authorized_project_scope) \<times> audit_event list" where
  "authorize ax who action requested resource correlation log =
     (case actor_for_principal who of
        Inl e \<Rightarrow> (Inl e, log)
      | Inr actor \<Rightarrow>
          if raw_object_invalid action resource
          then policy_deny ax correlation actor action ''raw_object_action_or_version_invalid'' requested resource log
          else (case who of
            AnonymousGuest \<Rightarrow>
              policy_deny ax correlation actor action ''guest_private_project_access'' requested resource log
          | Owner owner \<Rightarrow>
              if requested \<noteq> rf_project_id resource
              then policy_deny ax correlation actor action ''project_scope_mismatch'' requested resource log
              else (case policy_record ax correlation actor action ALLOWED ''owner_project_scope_match'' requested resource log of
                (Inl e, log') \<Rightarrow> (Inl e, log')
              | (Inr _, log') \<Rightarrow>
                  (Inr \<lparr>sc_principal = owner, sc_project_id = requested, sc_action = action, sc_resource = resource\<rparr>,
                   log'))))"

definition authorize_collection ::
  "audit_context \<Rightarrow> principal \<Rightarrow> project_action \<Rightarrow> uuid \<Rightarrow> audit_event list
     \<Rightarrow> (authorization_error + authorized_project_collection_scope) \<times> audit_event list" where
  "authorize_collection ax who action correlation log =
     (case actor_for_principal who of
        Inl e \<Rightarrow> (Inl e, log)
      | Inr actor \<Rightarrow>
          (case who of
             AnonymousGuest \<Rightarrow>
               (case record_event ax correlation actor (project_action_value action) DENIED
                   ''guest_private_project_collection_access'' ''project_collection'' None None None log of
                  (Inl e, log') \<Rightarrow> (Inl e, log')
                | (Inr _, log') \<Rightarrow> (Inl (AuthorizationDenied NOT_FOUND PRIVATE_RESOURCE_NOT_FOUND_DETAIL
                    ''guest_private_project_collection_access''), log'))
           | Owner owner \<Rightarrow>
               (case record_event ax correlation actor (project_action_value action) ALLOWED
                   ''owner_project_collection_access'' ''project_collection'' None None None log of
                  (Inl e, log') \<Rightarrow> (Inl e, log')
                | (Inr _, log') \<Rightarrow> (Inr \<lparr>cc_principal = owner, cc_action = action\<rparr>, log'))))"

section \<open>The boundary\<close>

record project_request =
  pq_audit :: audit_context
  pq_http :: http_request
  pq_action :: project_action
  pq_project_id :: uuid
  pq_resource :: project_resource_reference
  pq_correlation_id :: uuid

definition authorize_request ::
  "jwt_library \<Rightarrow> auth_settings \<Rightarrow> project_request \<Rightarrow> audit_event list
     \<Rightarrow> (authorization_error + authorized_project_scope) \<times> audit_event list" where
  "authorize_request jwt s q log =
     (case resolve_owner jwt s (pq_http q) of
        Inl f \<Rightarrow>
          (case actor_for_owner_resolution_failure f of
             Inl e \<Rightarrow> (Inl e, log)
           | Inr actor \<Rightarrow>
               (case policy_record (pq_audit q) (pq_correlation_id q) actor (pq_action q) DENIED (of_reason f)
                   (pq_project_id q) (pq_resource q) log of
                  (Inl e, log') \<Rightarrow> (Inl e, log')
                | (Inr _, log') \<Rightarrow> (Inl (OwnerResolutionFailed f), log')))
      | Inr owner \<Rightarrow>
          authorize (pq_audit q) (Owner owner) (pq_action q) (pq_project_id q) (pq_resource q) (pq_correlation_id q) log)"

definition authorize_collection_request ::
  "jwt_library \<Rightarrow> auth_settings \<Rightarrow> project_request \<Rightarrow> audit_event list
     \<Rightarrow> (authorization_error + authorized_project_collection_scope) \<times> audit_event list" where
  "authorize_collection_request jwt s q log =
     (case resolve_owner jwt s (pq_http q) of
        Inl f \<Rightarrow>
          (case actor_for_owner_resolution_failure f of
             Inl e \<Rightarrow> (Inl e, log)
           | Inr actor \<Rightarrow>
               (case record_event (pq_audit q) (pq_correlation_id q) actor (project_action_value (pq_action q)) DENIED
                   (of_reason f) ''project_collection'' None None None log of
                  (Inl e, log') \<Rightarrow> (Inl e, log')
                | (Inr _, log') \<Rightarrow> (Inl (OwnerResolutionFailed f), log')))
      | Inr owner \<Rightarrow> authorize_collection (pq_audit q) (Owner owner) (pq_action q) (pq_correlation_id q) log)"

section \<open>The shared contract\<close>

text \<open>
  A decision is \<^emph>\<open>undecided\<close> when it could not be audited: the sink raised or the event was not
  well formed.
\<close>

fun undecided :: "authorization_error \<Rightarrow> bool" where
  "undecided (AuthorizationAuditUnavailable m) = True"
| "undecided (AuthorizationValueError m) = True"
| "undecided (AuthorizationDenied d p r) = False"
| "undecided (OwnerResolutionFailed f) = False"

fun audits :: "(authorization_error + 'a) \<Rightarrow> audit_event list \<Rightarrow> bool" where
  "audits (Inl e) new = (if undecided e then new = [] else \<exists>ev. new = [ev] \<and> ev_result ev = DENIED)"
| "audits (Inr s) new = (\<exists>ev. new = [ev] \<and> ev_result ev = ALLOWED)"

primrec run_requests :: "('q \<Rightarrow> 'l \<Rightarrow> 'r \<times> 'l) \<Rightarrow> 'q list \<Rightarrow> 'l \<Rightarrow> 'r list \<times> 'l" where
  "run_requests f [] log = ([], log)"
| "run_requests f (q # qs) log = (let (r, log') = f q log; (rs, log'') = run_requests f qs log' in (r # rs, log''))"

locale audited =
  fixes handle :: "'q \<Rightarrow> audit_event list \<Rightarrow> (authorization_error + 'a) \<times> audit_event list"
  assumes one_event: "handle q log = (r, log') \<Longrightarrow> \<exists>new. log' = log @ new \<and> audits r new"
begin

lemma runs_append: "run_requests handle qs log = (rs, log') \<Longrightarrow> \<exists>new. log' = log @ concat new \<and> list_all2 audits rs new"
proof (induction qs arbitrary: log rs)
  case Nil
  then show ?case by (auto intro: exI [of _ "[]"])
next
  case (Cons q qs)
  obtain r log1 where q: "handle q log = (r, log1)" by fastforce
  obtain rs' log2 where qs: "run_requests handle qs log1 = (rs', log2)" by fastforce
  with q Cons.prems have rs: "rs = r # rs'" "log2 = log'" by auto
  obtain new where n: "log1 = log @ new" "audits r new" using one_event [OF q] by blast
  obtain news where "log' = log1 @ concat news" "list_all2 audits rs' news" using Cons.IH qs rs by blast
  with n rs show ?case by (auto intro: exI [of _ "new # news"])
qed

lemma grants_counted:
  assumes "run_requests handle qs log = (rs, log')"
  shows "\<exists>new. log' = log @ new
    \<and> length (filter (\<lambda>ev. ev_result ev = ALLOWED) new) = length (filter (\<lambda>r. case r of Inr _ \<Rightarrow> True | Inl _ \<Rightarrow> False) rs)
    \<and> length (filter (\<lambda>ev. ev_result ev = DENIED) new) = length (filter (\<lambda>r. case r of Inr _ \<Rightarrow> False | Inl e \<Rightarrow> \<not> undecided e) rs)"
proof -
  obtain new where n: "log' = log @ concat new" "list_all2 audits rs new" using runs_append [OF assms] by blast
  from n(2) have "length (filter (\<lambda>ev. ev_result ev = ALLOWED) (concat new)) = length (filter (\<lambda>r. case r of Inr _ \<Rightarrow> True | Inl _ \<Rightarrow> False) rs)
    \<and> length (filter (\<lambda>ev. ev_result ev = DENIED) (concat new)) = length (filter (\<lambda>r. case r of Inr _ \<Rightarrow> False | Inl e \<Rightarrow> \<not> undecided e) rs)"
  proof (induction rs new)
    case (Cons r rs ev evs)
    then show ?case by (cases r) (auto split: if_splits)
  qed simp
  with n(1) show ?thesis by blast
qed

end

lemma record_event_cases:
  assumes "record_event ax c actor act res reason rt ri rv p log = (r, log')"
  obtains (refused) e where "r = Inl e" "undecided e" "log' = log"
    | (stored) ev where "r = Inr ev" "log' = log @ [ev]" "ev_result ev = res" "ev_principal_type ev = aa_principal_type actor"
      "ev_actor_id ev = aa_actor_id actor" "ev_action ev = act" "ev_resource_type ev = rt" "ev_resource_id ev = ri"
      "ev_project_id ev = p" "ev_correlation_id ev = c" "ev_reason ev = reason"
  using assms
  by (auto simp: record_event_def make_event_def make_actor_def exn_simps split: sum.splits if_splits)

lemma actor_undecided: "actor_for_principal p = Inl e \<Longrightarrow> undecided e" "actor_for_owner_resolution_failure f = Inl e \<Longrightarrow> undecided e"
  by (auto simp: actor_for_principal_def actor_for_owner_resolution_failure_def make_actor_def exn_simps
    split: principal.splits owner_principal.splits if_splits)

lemma policy_deny_audits:
  "policy_deny ax c actor act reason p res log = (r, log') \<Longrightarrow> \<exists>new. log' = log @ new \<and> audits r new"
  unfolding policy_deny_def policy_record_def
  by (auto split: prod.splits sum.splits elim!: record_event_cases)

lemma authorize_audits: "authorize ax p act pr res c log = (r, log') \<Longrightarrow> \<exists>new. log' = log @ new \<and> audits r new"
  unfolding authorize_def policy_record_def
  by (auto simp: actor_undecided split: prod.splits sum.splits principal.splits if_splits
    dest: policy_deny_audits elim!: record_event_cases)

lemma authorize_collection_audits:
  "authorize_collection ax p act c log = (r, log') \<Longrightarrow> \<exists>new. log' = log @ new \<and> audits r new"
  unfolding authorize_collection_def
  by (auto simp: actor_undecided split: prod.splits sum.splits principal.splits if_splits elim!: record_event_cases)

interpretation project_boundary: audited "authorize_request jwt s" for jwt s
  by unfold_locales
    (auto simp: authorize_request_def policy_record_def actor_undecided split: prod.splits sum.splits
      dest: authorize_audits elim!: record_event_cases)

interpretation collection_boundary: audited "authorize_collection_request jwt s" for jwt s
  by unfold_locales
    (auto simp: authorize_collection_request_def actor_undecided split: prod.splits sum.splits
      dest: authorize_collection_audits elim!: record_event_cases)

end
