(* ===== verification/Access_Properties.thy ===== *)
theory Access_Properties
  imports Authorization Demo
begin

text \<open>
  The properties of access control: who is resolved as the owner, which requests obtain a scope, and
  what the audit log says about them.
\<close>

section \<open>Well-formed events\<close>

lemma clean_uuid_str: "clean (uuid_str u)"
proof -
  have "\<forall>c \<in> set (uuid_str u). \<not> is_space c"
    using uuid_str_chars [of _ u] hexish_code by (fastforce simp: is_space_def Let_def code_def)
  then have "strip (uuid_str u) = uuid_str u" unfolding strip_def by (rule strip_by_none)
  moreover have "uuid_str u \<noteq> []" by (simp add: uuid_str_def Let_def)
  ultimately show ?thesis by (simp add: clean_def)
qed

lemma clean_action: "clean (project_action_value a)"
  by (cases a; simp; code_simp)

lemma clean_resource_type: "clean (project_resource_type_value t)"
  by (cases t; simp; code_simp)

lemma owner_actor:
  assumes "auth_settings_from_mapping rt env = Inr s" "resolve_owner jwt s request = Inr owner"
  shows "\<exists>i. actor_for_principal (Owner owner) = Inr \<lparr>aa_principal_type = OWNER, aa_actor_id = Some i\<rparr> \<and> strip i \<noteq> []"
proof (cases owner)
  case (CognitoOwnerPrincipal i u)
  then obtain c where c: "cognito s = Some c" "u = cs_owner_subject c" using assms(2) by (auto simp: resolve_owner_Inr)
  moreover have "validate_auth_settings rt s = Inr ()" using auth_settings_from_mapping_bypass [OF assms(1)] by simp
  ultimately have "u \<noteq> []" "u = strip u"
    by (auto simp: validate_auth_settings_def validate_cognito_settings_def exn_simps)
  then have "strip u \<noteq> []" by auto
  then show ?thesis using CognitoOwnerPrincipal by (simp add: actor_for_principal_def make_actor_def identified_def)
next
  case LocalDevelopmentOwnerPrincipal
  have "strip LOCAL_DEVELOPMENT_ACTOR_ID \<noteq> []" by code_simp
  then show ?thesis using LocalDevelopmentOwnerPrincipal by (simp add: actor_for_principal_def make_actor_def identified_def)
qed

lemma policy_record_stores:
  assumes "ax_event_id ax \<noteq> 0" "correlation \<noteq> 0" "\<forall>ev. ax_accepts ax ev" "strip i \<noteq> []" "clean reason"
    and "case rf_resource_version resource of None \<Rightarrow> True | Some v \<Rightarrow> clean v"
  shows "\<exists>ev. policy_record ax correlation \<lparr>aa_principal_type = OWNER, aa_actor_id = Some i\<rparr> action result reason requested resource log
      = (Inr ev, log @ [ev]) \<and> ev_result ev = result \<and> ev_principal_type ev = OWNER \<and> ev_actor_id ev = Some i
      \<and> ev_correlation_id ev = correlation \<and> ev_reason ev = reason"
  using assms clean_uuid_str clean_action [of action] clean_resource_type [of "rf_resource_type resource"]
  by (auto simp: policy_record_def record_event_def make_event_def make_actor_def identified_def)

section \<open>Authentication\<close>

text \<open>C32: With settings accepted from the environment, a request is resolved as the owner only if the local bypass
  is enabled, which is possible only in the local environment, or if it carries a bearer token that PyJWT
  verified for the configured issuer, signed with RS256 under a named key, whose client, use, issuer and subject
  claims are the configured client, \<open>access\<close>, the configured issuer and the configured owner.\<close>

theorem owner_resolution_sound:
  assumes "auth_settings_from_mapping rt env = Inr s" "resolve_owner jwt s request = Inr owner"
  shows "(app_env s = LOCAL \<and> local_auth_bypass_enabled s \<and> owner = LocalDevelopmentOwnerPrincipal)
    \<or> (\<exists>c token header kid key claims. cognito s = Some c \<and> bearer_token (rq_authorization request) = Some token
        \<and> owner = CognitoOwnerPrincipal (cs_issuer c) (cs_owner_subject c)
        \<and> get_unverified_header jwt token = Some header \<and> map_of header ''alg'' = Some (JStr COGNITO_SIGNING_ALGORITHM)
        \<and> map_of header ''kid'' = Some (JStr kid) \<and> kid \<noteq> []
        \<and> get_signing_key_from_jwt jwt token = Some (COGNITO_SIGNING_ALGORITHM, key)
        \<and> jwt_decode jwt token key (cs_issuer c) = Some claims
        \<and> map_of claims ''iss'' = Some (JStr (cs_issuer c)) \<and> map_of claims ''sub'' = Some (JStr (cs_owner_subject c))
        \<and> map_of claims ''client_id'' = Some (JStr (cs_client_id c))
        \<and> map_of claims ''token_use'' = Some (JStr COGNITO_TOKEN_USE))"
  using assms(2) auth_settings_from_mapping_bypass [OF assms(1)]
  unfolding resolve_owner_Inr validate_token_Inr by fastforce

definition demo_env :: "(string \<times> string) list" where
  "demo_env = [(''APP_ENV'', ''production''), (''COGNITO_ISSUER'', ''https://idp.example''),
     (''COGNITO_CLIENT_ID'', ''client''), (''COGNITO_OWNER_SUBJECT'', ''owner'')]"

definition demo_settings :: auth_settings where
  "demo_settings = \<lparr>app_env = PRODUCTION, local_auth_bypass_enabled = False,
     cognito = Some \<lparr>cs_issuer = ''https://idp.example'', cs_client_id = ''client'', cs_owner_subject = ''owner''\<rparr>\<rparr>"

definition demo_jwt :: jwt_library where
  "demo_jwt = \<lparr>get_unverified_header = (\<lambda>t. Some [(''alg'', JStr ''RS256''), (''kid'', JStr ''k'')]),
     get_signing_key_from_jwt = (\<lambda>t. Some (''RS256'', ''key'')),
     jwt_decode = (\<lambda>t k i. if t = ''good'' \<and> k = ''key''
       then Some [(''iss'', JStr i), (''sub'', JStr ''owner''), (''client_id'', JStr ''client''), (''token_use'', JStr ''access'')]
       else None)\<rparr>"

definition demo_http :: http_request where
  "demo_http = \<lparr>rq_method = ''GET'', rq_authorization = Some ''Bearer good''\<rparr>"

definition demo_owner :: owner_principal where
  "demo_owner = CognitoOwnerPrincipal ''https://idp.example'' ''owner''"

lemma demo_configured: "auth_settings_from_mapping demo_rt demo_env = Inr demo_settings"
  by code_simp

lemma demo_resolved: "resolve_owner demo_jwt demo_settings demo_http = Inr demo_owner"
  by code_simp

theorem owner_resolution_sound_witness:
  "resolve_owner demo_jwt demo_settings demo_http = Inr demo_owner \<and> bearer_token (rq_authorization demo_http) = Some ''good''"
proof -
  have "bearer_token (rq_authorization demo_http) = Some ''good''" by code_simp
  then show ?thesis
    using owner_resolution_sound [OF demo_configured demo_resolved] demo_resolved by (auto simp: demo_owner_def)
qed

section \<open>Scopes\<close>

text \<open>C33: A request obtains a scope only for its resolved owner, its own action and a resource of the requested
  project (a raw object only by its own action and with a version), and only after the sink stored an
  \<open>allowed\<close> event naming that owner, action, project and resource.\<close>

theorem scope_granted_safe:
  assumes "authorize_request jwt s q log = (Inr scope, log')"
  shows "resolve_owner jwt s (pq_http q) = Inr (sc_principal scope) \<and> sc_action scope = pq_action q
    \<and> sc_project_id scope = pq_project_id q \<and> sc_resource scope = pq_resource q
    \<and> rf_project_id (pq_resource q) = pq_project_id q
    \<and> (rf_resource_type (pq_resource q) = RAW_OBJECT \<longleftrightarrow> pq_action q = READ_RAW_OBJECT)
    \<and> (rf_resource_type (pq_resource q) = RAW_OBJECT \<longrightarrow> rf_resource_version (pq_resource q) \<noteq> None)
    \<and> (\<exists>ev actor. log' = log @ [ev] \<and> ev_result ev = ALLOWED \<and> ev_principal_type ev = OWNER
        \<and> actor_for_principal (Owner (sc_principal scope)) = Inr actor \<and> ev_actor_id ev = aa_actor_id actor
        \<and> ev_action ev = project_action_value (pq_action q) \<and> ev_project_id ev = Some (uuid_str (pq_project_id q))
        \<and> ev_resource_id ev = Some (uuid_str (rf_resource_id (pq_resource q))) \<and> ev_correlation_id ev = pq_correlation_id q)"
proof -
  obtain owner where o: "resolve_owner jwt s (pq_http q) = Inr owner"
    and a: "authorize (pq_audit q) (Owner owner) (pq_action q) (pq_project_id q) (pq_resource q) (pq_correlation_id q) log = (Inr scope, log')"
    using assms by (auto simp: authorize_request_def split: sum.splits prod.splits)
  obtain actor ev where r: "actor_for_principal (Owner owner) = Inr actor" "\<not> raw_object_invalid (pq_action q) (pq_resource q)"
      "pq_project_id q = rf_project_id (pq_resource q)"
      "scope = \<lparr>sc_principal = owner, sc_project_id = pq_project_id q, sc_action = pq_action q, sc_resource = pq_resource q\<rparr>"
    and e: "policy_record (pq_audit q) (pq_correlation_id q) actor (pq_action q) ALLOWED ''owner_project_scope_match''
      (pq_project_id q) (pq_resource q) log = (Inr ev, log')"
    using a by (auto simp: authorize_def policy_deny_def split: sum.splits prod.splits if_splits)
  have "aa_principal_type actor = OWNER"
    using r(1) by (auto simp: actor_for_principal_def make_actor_def exn_simps split: owner_principal.splits)
  then show ?thesis
    using e o r unfolding policy_record_def
    by (elim record_event_cases) (auto simp: raw_object_invalid_def)
qed

definition demo_resource :: project_resource_reference where
  "demo_resource = \<lparr>rf_project_id = 11, rf_resource_type = JOB, rf_resource_id = 31, rf_resource_version = None\<rparr>"

definition demo_project_request :: project_request where
  "demo_project_request = \<lparr>pq_audit = \<lparr>ax_accepts = (\<lambda>e. True), ax_event_id = 51, ax_now = 3\<rparr>, pq_http = demo_http,
     pq_action = READ, pq_project_id = 11, pq_resource = demo_resource, pq_correlation_id = 61\<rparr>"

definition demo_event :: audit_event where
  "demo_event = \<lparr>ev_event_id = 51, ev_occurred_at = 3, ev_correlation_id = 61, ev_principal_type = OWNER,
     ev_actor_id = Some ''owner'', ev_action = ''project.read'', ev_result = ALLOWED, ev_reason = ''owner_project_scope_match'',
     ev_resource_type = ''job'', ev_resource_id = Some (uuid_str 31), ev_resource_version = None,
     ev_project_id = Some (uuid_str 11)\<rparr>"

definition demo_scope :: authorized_project_scope where
  "demo_scope = \<lparr>sc_principal = demo_owner, sc_project_id = 11, sc_action = READ, sc_resource = demo_resource\<rparr>"

lemma demo_authorized: "authorize_request demo_jwt demo_settings demo_project_request [] = (Inr demo_scope, [demo_event])"
proof -
  have "strip ''owner'' \<noteq> []" "clean ''project.read''" "clean ''job''" "clean ''owner_project_scope_match''" by code_simp+
  then show ?thesis
    using clean_uuid_str demo_resolved
    by (simp add: authorize_request_def demo_project_request_def authorize_def actor_for_principal_def demo_owner_def
      make_actor_def identified_def raw_object_invalid_def demo_resource_def policy_record_def record_event_def make_event_def
      demo_event_def demo_scope_def)
qed

theorem scope_granted_safe_witness:
  "\<exists>scope log'. authorize_request demo_jwt demo_settings demo_project_request [] = (Inr scope, log')
     \<and> sc_project_id scope = 11 \<and> (\<exists>ev. log' = [ev] \<and> ev_result ev = ALLOWED)"
  using scope_granted_safe [OF demo_authorized] demo_authorized by (auto simp: demo_scope_def demo_event_def)

text \<open>With a working audit sink every request of the owner for a well-formed resource is decided: it is granted
  exactly when the requested project is the project of the resource and the raw-object rule holds, every denial
  is the same 404 answer, and exactly one event with the decision is stored.\<close>

theorem owner_request_decided:
  assumes "auth_settings_from_mapping rt env = Inr s" "resolve_owner jwt s (pq_http q) = Inr owner"
    and "make_reference a t i v = Inr (pq_resource q)"
    and "ax_event_id (pq_audit q) \<noteq> 0" "pq_correlation_id q \<noteq> 0" "\<forall>ev. ax_accepts (pq_audit q) ev"
  shows "\<exists>ev. authorize_request jwt s q log =
      (if raw_object_invalid (pq_action q) (pq_resource q)
       then Inl (AuthorizationDenied NOT_FOUND PRIVATE_RESOURCE_NOT_FOUND_DETAIL ''raw_object_action_or_version_invalid'')
       else if pq_project_id q \<noteq> rf_project_id (pq_resource q)
       then Inl (AuthorizationDenied NOT_FOUND PRIVATE_RESOURCE_NOT_FOUND_DETAIL ''project_scope_mismatch'')
       else Inr \<lparr>sc_principal = owner, sc_project_id = pq_project_id q, sc_action = pq_action q, sc_resource = pq_resource q\<rparr>,
       log @ [ev])
    \<and> ev_principal_type ev = OWNER
    \<and> (ev_result ev = ALLOWED \<longleftrightarrow> \<not> raw_object_invalid (pq_action q) (pq_resource q) \<and> pq_project_id q = rf_project_id (pq_resource q))"
proof -
  obtain n where n: "actor_for_principal (Owner owner) = Inr \<lparr>aa_principal_type = OWNER, aa_actor_id = Some n\<rparr>" "strip n \<noteq> []"
    using owner_actor [OF assms(1,2)] by blast
  have v: "case rf_resource_version (pq_resource q) of None \<Rightarrow> True | Some v \<Rightarrow> clean v"
    using assms(3) by (cases "pq_resource q") (auto simp: make_reference_def exn_simps)
  have c: "clean ''raw_object_action_or_version_invalid''" "clean ''project_scope_mismatch''" "clean ''owner_project_scope_match''"
  proof -
    have "(clean ''raw_object_action_or_version_invalid'') \<and>
      (clean ''project_scope_mismatch'') \<and>
      (clean ''owner_project_scope_match'')" by code_simp
    then show "clean ''raw_object_action_or_version_invalid''" "clean ''project_scope_mismatch''" "clean ''owner_project_scope_match''" by - (elim conjE, assumption)+
  qed
  note stores = policy_record_stores [OF assms(4-6) n(2) _ v, of _ "pq_action q" _ "pq_project_id q" log]
  show ?thesis
    using n(1) stores [OF c(1), of DENIED] stores [OF c(2), of DENIED] stores [OF c(3), of ALLOWED]
    by (auto simp: authorize_request_def assms(2) authorize_def policy_deny_def)
qed

theorem owner_request_decided_witness:
  "\<exists>ev. authorize_request demo_jwt demo_settings (demo_project_request\<lparr>pq_project_id := 12\<rparr>) [] =
     (Inl (AuthorizationDenied NOT_FOUND PRIVATE_RESOURCE_NOT_FOUND_DETAIL ''project_scope_mismatch''), [ev])"
proof -
  have "make_reference 11 JOB 31 None = Inr (pq_resource (demo_project_request\<lparr>pq_project_id := 12\<rparr>))"
    by (simp add: make_reference_def demo_project_request_def demo_resource_def)
  from owner_request_decided [OF demo_configured _ this, of demo_jwt demo_owner "[]"] demo_resolved show ?thesis
    by (auto simp: demo_project_request_def demo_resource_def raw_object_invalid_def)
qed

text \<open>Over every sequence of requests to the project boundary the audit log only grows, it gains one \<open>allowed\<close>
  event for each scope handed out and one \<open>denied\<close> event for each refusal; a decision that could not be
  audited hands out no scope.\<close>

theorem audit_log_complete:
  assumes "run_requests (authorize_request jwt s) qs log = (rs, log')"
  shows "\<exists>new. log' = log @ new
    \<and> length (filter (\<lambda>ev. ev_result ev = ALLOWED) new) = length (filter (\<lambda>r. case r of Inr _ \<Rightarrow> True | Inl _ \<Rightarrow> False) rs)
    \<and> length (filter (\<lambda>ev. ev_result ev = DENIED) new) = length (filter (\<lambda>r. case r of Inr _ \<Rightarrow> False | Inl e \<Rightarrow> \<not> undecided e) rs)"
  by (rule project_boundary.grants_counted [OF assms])

theorem audit_log_complete_witness:
  "\<exists>log'. run_requests (authorize_request demo_jwt demo_settings) [demo_project_request] [] = ([Inr demo_scope], log')
     \<and> length (filter (\<lambda>ev. ev_result ev = ALLOWED) log') = 1"
proof -
  have "run_requests (authorize_request demo_jwt demo_settings) [demo_project_request] [] = ([Inr demo_scope], [demo_event])"
    by (simp add: demo_authorized)
  from audit_log_complete [OF this] this show ?thesis by auto
qed

end
