(* ===== verification/Document_Tables.thy ===== *)
theory Document_Tables
  imports Store
begin

text \<open>
  The tables of \<open>documents.py\<close> that the document pipeline reads and writes: documents, their versions,
  parser versions, intakes, source locations, sections and the two job queues, with their CHECK and
  UNIQUE constraints.  A comparison with a missing value is unknown in SQL, and an unknown CHECK passes.
\<close>

definition sql_le :: "instant option \<Rightarrow> instant option \<Rightarrow> bool" where
  "sql_le a b = (case (a, b) of (Some x, Some y) \<Rightarrow> x \<le> y | _ \<Rightarrow> True)"

definition sql_less :: "instant option \<Rightarrow> instant option \<Rightarrow> bool" where
  "sql_less a b = (case (a, b) of (Some x, Some y) \<Rightarrow> x < y | _ \<Rightarrow> True)"

section \<open>Documents\<close>

record document_row =
  dr_id :: uuid
  dr_project_id :: uuid
  dr_document_type :: string
  dr_display_name :: string
  dr_created_at :: instant

record document_version_row =
  dv_id :: uuid
  dv_document_id :: uuid
  dv_parser_version_id :: uuid
  dv_version_number :: int
  dv_content_sha256 :: string
  dv_byte_size :: int
  dv_content_type :: string
  dv_created_at :: instant

record parser_version_row =
  pv_id :: uuid
  pv_parser_name :: string
  pv_parser_version :: string
  pv_normalization_version :: string
  pv_created_at :: instant

datatype document_intake_state = IntakeQuarantined | IntakeRejected

record document_intake_row =
  di_id :: uuid
  di_project_id :: uuid
  di_document_id :: "uuid option"
  di_document_version_id :: "uuid option"
  di_state :: document_intake_state
  di_quarantine_key :: "string option"
  di_original_filename :: string
  di_declared_content_type :: string
  di_byte_size :: int
  di_content_sha256 :: "string option"
  di_rejection_code :: "string option"
  di_created_at :: instant

definition document_checks :: "document_row \<Rightarrow> bool" where
  "document_checks d \<longleftrightarrow> length (sql_trim (dr_document_type d)) > 0 \<and> length (sql_trim (dr_display_name d)) > 0"

definition document_version_checks :: "document_version_row \<Rightarrow> bool" where
  "document_version_checks v \<longleftrightarrow> dv_version_number v > 0 \<and> dv_byte_size v \<ge> 0 \<and> length (dv_content_sha256 v) = 64"

definition document_version_conflict :: "document_version_row \<Rightarrow> document_version_row \<Rightarrow> bool" where
  "document_version_conflict v w \<longleftrightarrow> dv_id v = dv_id w
     \<or> dv_document_id v = dv_document_id w \<and> dv_version_number v = dv_version_number w"

definition parser_version_checks :: "parser_version_row \<Rightarrow> bool" where
  "parser_version_checks p \<longleftrightarrow> length (sql_trim (pv_parser_name p)) > 0
     \<and> length (sql_trim (pv_parser_version p)) > 0 \<and> length (sql_trim (pv_normalization_version p)) > 0"

definition parser_version_conflict :: "parser_version_row \<Rightarrow> parser_version_row \<Rightarrow> bool" where
  "parser_version_conflict p q \<longleftrightarrow> pv_id p = pv_id q
     \<or> pv_parser_name p = pv_parser_name q \<and> pv_parser_version p = pv_parser_version q
       \<and> pv_normalization_version p = pv_normalization_version q"

definition document_intake_checks :: "document_intake_row \<Rightarrow> bool" where
  "document_intake_checks d \<longleftrightarrow> length (sql_trim (di_original_filename d)) > 0
     \<and> length (sql_trim (di_declared_content_type d)) > 0 \<and> di_byte_size d \<ge> 0
     \<and> (di_state d = IntakeQuarantined \<and> di_document_id d \<noteq> None \<and> di_document_version_id d \<noteq> None
          \<and> di_quarantine_key d \<noteq> None \<and> di_content_sha256 d \<noteq> None \<and> di_rejection_code d = None
        \<or> di_state d = IntakeRejected \<and> di_document_id d = None \<and> di_document_version_id d = None
          \<and> di_quarantine_key d = None \<and> di_content_sha256 d = None \<and> di_rejection_code d \<noteq> None)"

definition document_intake_conflict :: "document_intake_row \<Rightarrow> document_intake_row \<Rightarrow> bool" where
  "document_intake_conflict d e \<longleftrightarrow> di_id d = di_id e
     \<or> di_document_version_id d \<noteq> None \<and> di_document_version_id d = di_document_version_id e
     \<or> di_quarantine_key d \<noteq> None \<and> di_quarantine_key d = di_quarantine_key e"

section \<open>Sections\<close>

record source_location_row =
  sl_id :: uuid
  sl_document_version_id :: uuid
  sl_location_kind :: string
  sl_heading :: "string option"
  sl_line_start :: "int option"
  sl_line_end :: "int option"
  sl_page_start :: "int option"
  sl_page_end :: "int option"
  sl_json_pointer :: "string option"

record document_section_row =
  ds_id :: uuid
  ds_document_version_id :: uuid
  ds_source_location_id :: uuid
  ds_ordinal :: int
  ds_section_key :: "string option"
  ds_normalized_text :: string
  ds_content_sha256 :: string

definition source_location_checks :: "source_location_row \<Rightarrow> bool" where
  "source_location_checks l \<longleftrightarrow> length (sql_trim (sl_location_kind l)) > 0
     \<and> sql_less (Some 0) (sl_line_start l) \<and> sql_less (Some 0) (sl_line_end l) \<and> sql_le (sl_line_start l) (sl_line_end l)
     \<and> sql_less (Some 0) (sl_page_start l) \<and> sql_less (Some 0) (sl_page_end l) \<and> sql_le (sl_page_start l) (sl_page_end l)"

definition source_location_conflict :: "source_location_row \<Rightarrow> source_location_row \<Rightarrow> bool" where
  "source_location_conflict l m \<longleftrightarrow> sl_id l = sl_id m"

definition document_section_checks :: "document_section_row \<Rightarrow> bool" where
  "document_section_checks s \<longleftrightarrow> ds_ordinal s \<ge> 0 \<and> length (sql_trim (ds_normalized_text s)) > 0
     \<and> length (ds_content_sha256 s) = 64"

definition document_section_conflict :: "document_section_row \<Rightarrow> document_section_row \<Rightarrow> bool" where
  "document_section_conflict s t \<longleftrightarrow> ds_id s = ds_id t
     \<or> ds_document_version_id s = ds_document_version_id t \<and> ds_ordinal s = ds_ordinal t"

section \<open>Parser jobs\<close>

datatype parser_job_state = ParserQueued | ParserClaimed | ParserAccepted | ParserRejected | ParserFailed

record parser_job_row =
  pj_id :: uuid
  pj_document_intake_id :: uuid
  pj_state :: parser_job_state
  pj_created_at :: instant
  pj_claim_token :: "uuid option"
  pj_claimed_at :: "instant option"
  pj_claim_expires_at :: "instant option"
  pj_completed_at :: "instant option"
  pj_failure_code :: "string option"

definition parser_job_lifecycle :: "parser_job_row \<Rightarrow> bool" where
  "parser_job_lifecycle j \<longleftrightarrow>
     (if pj_state j = ParserQueued then pj_claim_token j = None \<and> pj_claimed_at j = None \<and> pj_claim_expires_at j = None
      else pj_claim_token j \<noteq> None \<and> pj_claimed_at j \<noteq> None \<and> pj_claim_expires_at j \<noteq> None)
     \<and> (pj_completed_at j \<noteq> None \<longleftrightarrow> pj_state j \<in> {ParserAccepted, ParserRejected, ParserFailed})
     \<and> (pj_failure_code j \<noteq> None \<longleftrightarrow> pj_state j \<in> {ParserRejected, ParserFailed})"

definition parser_job_checks :: "parser_job_row \<Rightarrow> bool" where
  "parser_job_checks j \<longleftrightarrow> parser_job_lifecycle j
     \<and> (pj_claimed_at j = None \<or> sql_le (Some (pj_created_at j)) (pj_claimed_at j)
          \<and> sql_less (pj_claimed_at j) (pj_claim_expires_at j) \<and> sql_le (pj_claimed_at j) (pj_completed_at j))
     \<and> (case pj_failure_code j of None \<Rightarrow> True | Some c \<Rightarrow>
          pj_state j = ParserRejected \<and> c = ''PARSER_DOCUMENT_REJECTED''
        \<or> pj_state j = ParserFailed \<and> c \<in> {''PARSER_WORKER_FAILED'', ''PARSER_CLAIM_EXPIRED''})"

definition parser_job_conflict :: "parser_job_row \<Rightarrow> parser_job_row \<Rightarrow> bool" where
  "parser_job_conflict j k \<longleftrightarrow> pj_id j = pj_id k \<or> pj_document_intake_id j = pj_document_intake_id k"

section \<open>Indexing jobs\<close>

datatype indexing_job_state = IndexingQueued | IndexingClaimed | IndexingAccepted | IndexingFailed

record indexing_job_row =
  ij_id :: uuid
  ij_project_id :: uuid
  ij_document_version_id :: uuid
  ij_chunking_version :: string
  ij_embedding_model :: string
  ij_embedding_version :: string
  ij_state :: indexing_job_state
  ij_created_at :: instant
  ij_claim_token :: "uuid option"
  ij_claimed_at :: "instant option"
  ij_claim_expires_at :: "instant option"
  ij_completed_at :: "instant option"
  ij_failure_code :: "string option"

definition indexing_job_lifecycle :: "indexing_job_row \<Rightarrow> bool" where
  "indexing_job_lifecycle j \<longleftrightarrow>
     (if ij_state j = IndexingQueued then ij_claim_token j = None \<and> ij_claimed_at j = None \<and> ij_claim_expires_at j = None
      else ij_claim_token j \<noteq> None \<and> ij_claimed_at j \<noteq> None \<and> ij_claim_expires_at j \<noteq> None)
     \<and> (ij_completed_at j \<noteq> None \<longleftrightarrow> ij_state j \<in> {IndexingAccepted, IndexingFailed})
     \<and> (ij_failure_code j \<noteq> None \<longleftrightarrow> ij_state j = IndexingFailed)"

definition indexing_job_checks :: "indexing_job_row \<Rightarrow> bool" where
  "indexing_job_checks j \<longleftrightarrow> length (sql_trim (ij_chunking_version j)) > 0 \<and> length (sql_trim (ij_embedding_model j)) > 0
     \<and> length (sql_trim (ij_embedding_version j)) > 0 \<and> indexing_job_lifecycle j
     \<and> (ij_claimed_at j = None \<or> sql_le (Some (ij_created_at j)) (ij_claimed_at j)
          \<and> sql_less (ij_claimed_at j) (ij_claim_expires_at j) \<and> sql_le (ij_claimed_at j) (ij_completed_at j))
     \<and> (case ij_failure_code j of None \<Rightarrow> True
        | Some c \<Rightarrow> c \<in> {''INDEXING_WORKER_FAILED'', ''INDEXING_CLAIM_EXPIRED''})"

definition indexing_job_conflict :: "indexing_job_row \<Rightarrow> indexing_job_row \<Rightarrow> bool" where
  "indexing_job_conflict j k \<longleftrightarrow> ij_id j = ij_id k
     \<or> ij_document_version_id j = ij_document_version_id k \<and> ij_chunking_version j = ij_chunking_version k
       \<and> ij_embedding_model j = ij_embedding_model k \<and> ij_embedding_version j = ij_embedding_version k"

section \<open>The tables satisfy the store contract\<close>

interpretation document_versions: table document_version_checks document_version_conflict
  by unfold_locales (auto simp: document_version_conflict_def)

interpretation parser_versions: table parser_version_checks parser_version_conflict
  by unfold_locales (auto simp: parser_version_conflict_def)

interpretation document_intakes: table document_intake_checks document_intake_conflict
  by (unfold_locales; unfold document_intake_conflict_def; elim disjE conjE; simp)

interpretation source_locations: table source_location_checks source_location_conflict
  by unfold_locales (auto simp: source_location_conflict_def)

interpretation document_sections: table document_section_checks document_section_conflict
  by unfold_locales (auto simp: document_section_conflict_def)

interpretation parser_jobs: table parser_job_checks parser_job_conflict
  by unfold_locales (auto simp: parser_job_conflict_def)

interpretation indexing_jobs: table indexing_job_checks indexing_job_conflict
  by unfold_locales (auto simp: indexing_job_conflict_def)

abbreviation parser_jobs_ok :: "parser_job_row list \<Rightarrow> bool" where
  "parser_jobs_ok \<equiv> table_ok parser_job_checks parser_job_conflict"

abbreviation indexing_jobs_ok :: "indexing_job_row list \<Rightarrow> bool" where
  "indexing_jobs_ok \<equiv> table_ok indexing_job_checks indexing_job_conflict"

end
