(* ===== verification/Job_Leases.thy ===== *)
theory Job_Leases
  imports Store
begin

text \<open>
  What the durable queues with leases have in common.  A row waits, is leased to one holder under a
  token and a deadline, and is finished by its holder or by expiry.  The locale \<open>lease_queue\<close> is the
  contract a queue promises for every committed statement: rows are appended waiting or move one phase
  forward, and the events it reports are exactly the moves it made.  From it follow the facts the
  workers rely on, for every run of the queue: a job is leased at most once, closed at most once and
  under the lease it was granted, and what is closed never changes again.
\<close>

datatype lease_phase = Waiting | Held | Finished

record lease =
  ls_token :: uuid
  ls_claimed_at :: instant
  ls_expires_at :: instant

datatype lease_event = Granted (job_of: uuid) (lease_given: lease) | Closed (job_of: uuid) (lease_given: lease)

section \<open>Statements as moves of rows\<close>

definition moves :: "('r \<Rightarrow> lease_phase) \<Rightarrow> ('r \<Rightarrow> lease option) \<Rightarrow> 'r \<Rightarrow> 'r \<Rightarrow> bool" where
  "moves phase lease r r' \<longleftrightarrow> r' = r \<or> phase r = Waiting \<and> phase r' = Held \<and> lease r' \<noteq> None
     \<or> phase r = Held \<and> phase r' = Finished \<and> lease r' = lease r \<and> lease r \<noteq> None"

definition events :: "('r \<Rightarrow> uuid) \<Rightarrow> ('r \<Rightarrow> lease_phase) \<Rightarrow> ('r \<Rightarrow> lease option) \<Rightarrow> 'r \<Rightarrow> 'r \<Rightarrow> lease_event list" where
  "events rid phase lease r r' =
     (if phase r = Waiting \<and> phase r' = Held then [Granted (rid r) (the (lease r'))]
      else if phase r = Held \<and> phase r' = Finished then [Closed (rid r) (the (lease r'))] else [])"

definition appended :: "('r \<Rightarrow> uuid) \<Rightarrow> ('r \<Rightarrow> lease_phase) \<Rightarrow> 'r list \<Rightarrow> lease_event list \<Rightarrow> 'r list \<Rightarrow> bool" where
  "appended rid phase rows evs rows' \<longleftrightarrow>
     (\<exists>r. rows' = rows @ [r] \<and> phase r = Waiting \<and> rid r \<notin> rid ` set rows \<and> evs = [])"

definition advanced ::
  "('r \<Rightarrow> uuid) \<Rightarrow> ('r \<Rightarrow> lease_phase) \<Rightarrow> ('r \<Rightarrow> lease option) \<Rightarrow> 'r list \<Rightarrow> lease_event list \<Rightarrow> 'r list \<Rightarrow> bool" where
  "advanced rid phase lease rows evs rows' \<longleftrightarrow>
     (\<exists>f. rows' = map f rows \<and> (\<forall>r \<in> set rows. rid (f r) = rid r \<and> moves phase lease r (f r))
        \<and> evs = concat (map (\<lambda>r. events rid phase lease r (f r)) rows))"

lemma events_refl [simp]: "events rid phase lease r r = []"
  by (simp add: events_def)

lemma moves_refl [simp]: "moves phase lease r r"
  by (simp add: moves_def)

lemma advanced_refl: "advanced rid phase lease rows [] rows"
  unfolding advanced_def by (rule exI [of _ id]) auto

text \<open>An \<open>UPDATE\<close> that moves exactly the rows it selects.\<close>

lemma concat_map_filter: "concat (map (\<lambda>r. if p r then [h r] else []) rows) = map h (filter p rows)"
  by (induction rows) auto

lemma advanced_update:
  assumes "\<And>r. r \<in> set rows \<Longrightarrow> p r \<Longrightarrow> rid (g r) = rid r \<and> moves phase lease r (g r) \<and> events rid phase lease r (g r) = [h r]"
  shows "advanced rid phase lease rows (map h (filter p rows)) (map (\<lambda>r. if p r then g r else r) rows)"
proof -
  have "map (\<lambda>r. events rid phase lease r (if p r then g r else r)) rows = map (\<lambda>r. if p r then [h r] else []) rows"
    using assms by (intro map_cong) auto
  then have "map h (filter p rows) = concat (map (\<lambda>r. events rid phase lease r (if p r then g r else r)) rows)"
    by (simp only: concat_map_filter)
  then show ?thesis
    unfolding advanced_def using assms
    by (intro exI [of _ "\<lambda>r. if p r then g r else r"]) auto
qed

section \<open>Runs\<close>

inductive queue_run :: "('r list \<Rightarrow> lease_event list \<Rightarrow> 'r list \<Rightarrow> bool) \<Rightarrow> lease_event list \<Rightarrow> 'r list \<Rightarrow> bool"
  for step where
  start: "queue_run step [] []"
| continue: "queue_run step tr rows \<Longrightarrow> step rows evs rows' \<Longrightarrow> queue_run step (tr @ evs) rows'"

inductive queue_from :: "('r list \<Rightarrow> lease_event list \<Rightarrow> 'r list \<Rightarrow> bool) \<Rightarrow> 'r list \<Rightarrow> 'r list \<Rightarrow> bool"
  for step where
  here: "queue_from step rows rows"
| later: "queue_from step rows rows1 \<Longrightarrow> step rows1 evs rows2 \<Longrightarrow> queue_from step rows rows2"

locale lease_queue =
  fixes rid :: "'r \<Rightarrow> uuid" and phase :: "'r \<Rightarrow> lease_phase" and lease :: "'r \<Rightarrow> lease option"
    and step :: "'r list \<Rightarrow> lease_event list \<Rightarrow> 'r list \<Rightarrow> bool"
  assumes step_law: "step rows evs rows' \<Longrightarrow> appended rid phase rows evs rows' \<or> advanced rid phase lease rows evs rows'"
begin

lemma step_distinct: "step rows evs rows' \<Longrightarrow> distinct (map rid rows) \<Longrightarrow> distinct (map rid rows')"
proof -
  assume s: "step rows evs rows'" and d: "distinct (map rid rows)"
  from step_law [OF s] show ?thesis
  proof
    assume "advanced rid phase lease rows evs rows'"
    then obtain f where "rows' = map f rows" "\<forall>r \<in> set rows. rid (f r) = rid r" by (auto simp: advanced_def)
    then have "map rid rows' = map rid rows" by simp
    with d show ?thesis by simp
  qed (use d in \<open>auto simp: appended_def\<close>)
qed

lemma step_forward:
  assumes "step rows evs rows'" "r \<in> set rows"
  obtains r' where "r' \<in> set rows'" "rid r' = rid r" "moves phase lease r r'"
  using step_law [OF assms(1)] assms(2) by (fastforce simp: appended_def advanced_def moves_def)

text \<open>Later states of a row.\<close>

lemma from_forward:
  assumes "queue_from step rows rows'" "r \<in> set rows"
  shows "\<exists>r' \<in> set rows'. rid r' = rid r \<and> (phase r = Finished \<longrightarrow> r' = r)
    \<and> (phase r = Held \<longrightarrow> phase r' \<noteq> Waiting \<and> lease r' = lease r)"
  using assms
proof (induction rule: queue_from.induct)
  case (later rows rows1 evs rows2)
  then obtain q where q: "q \<in> set rows1" "rid q = rid r" "phase r = Finished \<longrightarrow> q = r"
    "phase r = Held \<longrightarrow> phase q \<noteq> Waiting \<and> lease q = lease r" by blast
  obtain r' where "r' \<in> set rows2" "rid r' = rid q" "moves phase lease q r'" using step_forward [OF later.hyps(2) q(1)] .
  with q show ?case by (intro bexI [of _ r']) (auto simp: moves_def)
qed auto

text \<open>The invariant of a run: the trace says what the rows are.\<close>

definition run_inv :: "lease_event list \<Rightarrow> 'r list \<Rightarrow> bool" where
  "run_inv tr rows \<longleftrightarrow> distinct (map rid rows) \<and> distinct tr
     \<and> (\<forall>i l. Granted i l \<in> set tr \<longleftrightarrow> (\<exists>r \<in> set rows. rid r = i \<and> phase r \<noteq> Waiting \<and> lease r = Some l))
     \<and> (\<forall>i l. Closed i l \<in> set tr \<longleftrightarrow> (\<exists>r \<in> set rows. rid r = i \<and> phase r = Finished \<and> lease r = Some l))
     \<and> (\<forall>r \<in> set rows. phase r \<noteq> Waiting \<longrightarrow> lease r \<noteq> None)"

lemma events_in:
  assumes "moves phase lease r r'" "rid r' = rid r"
  shows "Granted i l \<in> set (events rid phase lease r r') \<longleftrightarrow> rid r = i \<and> phase r = Waiting \<and> phase r' = Held \<and> lease r' = Some l"
    "Closed i l \<in> set (events rid phase lease r r') \<longleftrightarrow> rid r = i \<and> phase r = Held \<and> phase r' = Finished \<and> lease r' = Some l"
  using assms by (auto simp: moves_def events_def)

lemma distinct_events:
  assumes "distinct (map rid rows)" "\<forall>r \<in> set rows. rid (f r) = rid r"
  shows "distinct (concat (map (\<lambda>r. events rid phase lease r (f r)) rows))"
  using assms
proof (induction rows)
  case (Cons r rows)
  have j: "job_of e = rid r" if "e \<in> set (events rid phase lease r (f r))" for e r
    using that by (auto simp: events_def split: if_splits)
  have "e \<notin> set (events rid phase lease q (f q))" if "e \<in> set (events rid phase lease r (f r))" "q \<in> set rows" for e q
    using j [OF that(1)] j [of e q] that(2) Cons.prems(1) by auto
  then have "set (events rid phase lease r (f r)) \<inter> (\<Union>q \<in> set rows. set (events rid phase lease q (f q))) = {}"
    by blast
  moreover have "distinct (events rid phase lease r (f r))" by (simp add: events_def)
  ultimately show ?case using Cons by simp
qed simp

lemma run_inv_step:
  assumes "run_inv tr rows" "step rows evs rows'"
  shows "run_inv (tr @ evs) rows'"
  using step_law [OF assms(2)]
proof
  assume "appended rid phase rows evs rows'"
  then show ?thesis using assms(1) by (auto simp: run_inv_def appended_def)
next
  assume "advanced rid phase lease rows evs rows'"
  then obtain f where f: "rows' = map f rows" "\<forall>r \<in> set rows. rid (f r) = rid r \<and> moves phase lease r (f r)"
    "evs = concat (map (\<lambda>r. events rid phase lease r (f r)) rows)"
    by (auto simp: advanced_def)
  have d: "distinct (map rid rows')" using step_distinct [OF assms(2)] assms(1) by (simp add: run_inv_def)
  have g: "Granted i l \<in> set evs \<longleftrightarrow> (\<exists>r \<in> set rows. rid r = i \<and> phase r = Waiting \<and> phase (f r) = Held \<and> lease (f r) = Some l)"
    "Closed i l \<in> set evs \<longleftrightarrow> (\<exists>r \<in> set rows. rid r = i \<and> phase r = Held \<and> phase (f r) = Finished \<and> lease (f r) = Some l)" for i l
    using f(2) by (auto simp: f(3) events_in)
  have tr: "Granted i l \<in> set tr \<longleftrightarrow> (\<exists>r \<in> set rows. rid r = i \<and> phase r \<noteq> Waiting \<and> lease r = Some l)"
    "Closed i l \<in> set tr \<longleftrightarrow> (\<exists>r \<in> set rows. rid r = i \<and> phase r = Finished \<and> lease r = Some l)" for i l
    using assms(1) by (simp_all add: run_inv_def)
  have one: "r = q" if "r \<in> set rows" "q \<in> set rows" "rid r = rid q" for r q
    using that assms(1) by (auto simp: run_inv_def distinct_map inj_on_def)
  have disj: "e \<notin> set evs" if "e \<in> set tr" for e
  proof (cases e)
    case (Granted i l)
    then show ?thesis using that tr(1) [of i l] g(1) [of i l] one by fastforce
  next
    case (Closed i l)
    then show ?thesis using that tr(2) [of i l] g(2) [of i l] one by fastforce
  qed
  have "distinct evs" using assms(1) f distinct_events [of rows f] by (simp add: run_inv_def)
  with disj have dt: "distinct (tr @ evs)" using assms(1) by (auto simp: run_inv_def)
  have row: "(phase (f r) \<noteq> Waiting \<and> lease (f r) = Some l \<longleftrightarrow> phase r \<noteq> Waiting \<and> lease r = Some l
        \<or> phase r = Waiting \<and> phase (f r) = Held \<and> lease (f r) = Some l)
      \<and> (phase (f r) = Finished \<and> lease (f r) = Some l \<longleftrightarrow> phase r = Finished \<and> lease r = Some l
        \<or> phase r = Held \<and> phase (f r) = Finished \<and> lease (f r) = Some l)
      \<and> (phase (f r) \<noteq> Waiting \<longrightarrow> lease (f r) \<noteq> None)" if "r \<in> set rows" for r l
    using f(2) that assms(1) unfolding run_inv_def by (auto simp: moves_def)
  have rows': "(\<exists>r \<in> set rows'. rid r = i \<and> P r) \<longleftrightarrow> (\<exists>r \<in> set rows. rid r = i \<and> P (f r))" for i P
    using f(1,2) by auto
  have "Granted i l \<in> set (tr @ evs) \<longleftrightarrow> (\<exists>r \<in> set rows'. rid r = i \<and> phase r \<noteq> Waiting \<and> lease r = Some l)" for i l
    unfolding rows' set_append Un_iff tr g using row by blast
  moreover have "Closed i l \<in> set (tr @ evs) \<longleftrightarrow> (\<exists>r \<in> set rows'. rid r = i \<and> phase r = Finished \<and> lease r = Some l)" for i l
    unfolding rows' set_append Un_iff tr g using row by blast
  moreover have "\<forall>r \<in> set rows'. phase r \<noteq> Waiting \<longrightarrow> lease r \<noteq> None"
    using f(1) row by auto
  ultimately show ?thesis using d dt by (simp add: run_inv_def)
qed

lemma run_invariant: "queue_run step tr rows \<Longrightarrow> run_inv tr rows"
  by (induction rule: queue_run.induct) (auto simp: run_inv_def [of "[]"] run_inv_step)

lemma at_most_one_lease:
  assumes "queue_run step tr rows"
  shows "distinct tr \<and> (Granted i l \<in> set tr \<longrightarrow> Granted i l' \<in> set tr \<longrightarrow> l = l')
    \<and> (Closed i l \<in> set tr \<longrightarrow> Granted i l \<in> set tr)"
proof -
  from run_invariant [OF assms] have inv: "run_inv tr rows" .
  then have "r = q" if "r \<in> set rows" "q \<in> set rows" "rid r = rid q" for r q
    using that by (auto simp: run_inv_def distinct_map inj_on_def)
  moreover have "Granted i l \<in> set tr \<longleftrightarrow> (\<exists>r \<in> set rows. rid r = i \<and> phase r \<noteq> Waiting \<and> lease r = Some l)"
    "Closed i l \<in> set tr \<longleftrightarrow> (\<exists>r \<in> set rows. rid r = i \<and> phase r = Finished \<and> lease r = Some l)" "distinct tr" for i l
    using inv by (simp_all add: run_inv_def)
  ultimately show ?thesis by fastforce
qed

text \<open>A row is held exactly while its lease was granted and not closed.\<close>

lemma held_iff:
  assumes "queue_run step tr rows" "r \<in> set rows"
  shows "phase r = Held \<longleftrightarrow> (\<exists>l. Granted (rid r) l \<in> set tr \<and> Closed (rid r) l \<notin> set tr)"
proof -
  from run_invariant [OF assms(1)] have inv: "run_inv tr rows" .
  then have one: "q = r" if "q \<in> set rows" "rid q = rid r" for q
    using that assms(2) by (auto simp: run_inv_def distinct_map inj_on_def)
  have "Granted (rid r) l \<in> set tr \<longleftrightarrow> phase r \<noteq> Waiting \<and> lease r = Some l"
    "Closed (rid r) l \<in> set tr \<longleftrightarrow> phase r = Finished \<and> lease r = Some l" for l
    using inv assms(2) one by (auto simp: run_inv_def)
  moreover have "phase r \<noteq> Waiting \<longrightarrow> lease r \<noteq> None" using inv assms(2) by (simp add: run_inv_def)
  ultimately show ?thesis by (cases "phase r") auto
qed

end

end
