(* ===== verification/Parser_Claims.thy ===== *)
theory Parser_Claims
  imports Document_Tables Job_Leases
begin

text \<open>
  The parser queue: idempotent enqueueing (\<open>parser_queue.py\<close>), claims with a lease, their terminal
  outcomes and the reaper (\<open>parser_job_claims.py\<close>), and the configured claim durations
  (\<open>claim_durations.py\<close>).  The clock and the identifier factory are arguments; \<open>up\<close> says whether the
  database answers.
\<close>

section \<open>Claim durations\<close>

definition DEFAULT_CLAIM_DURATION :: int where "DEFAULT_CLAIM_DURATION = 60 * 1000000"
definition MAX_CLAIM_DURATION_SECONDS :: int where "MAX_CLAIM_DURATION_SECONDS = 3600"

datatype claim_duration_error = ClaimDurationConfigurationError string

text \<open>\<open>int(value)\<close> on a text of ASCII digits.\<close>

definition digits_value :: "string \<Rightarrow> int" where
  "digits_value s = foldl (\<lambda>n c. 10 * n + (int (code c) - 48)) 0 s"

definition claim_duration_from_environment :: "string \<Rightarrow> (string \<times> string) list \<Rightarrow> claim_duration_error + int" where
  "claim_duration_from_environment name environ = (case map_of environ name of
     None \<Rightarrow> Inr DEFAULT_CLAIM_DURATION
   | Some raw \<Rightarrow>
       (let value = strip raw in
        if \<not> (value \<noteq> [] \<and> list_all is_digit value) \<or> digits_value value \<le> 0
        then Inl (ClaimDurationConfigurationError ''Claim duration must be a positive integer number of seconds'')
        else if digits_value value > MAX_CLAIM_DURATION_SECONDS
        then Inl (ClaimDurationConfigurationError ''Claim duration must not exceed 3600 seconds'')
        else Inr (digits_value value * 1000000)))"

lemma claim_duration_bounds:
  "claim_duration_from_environment name environ = Inr d \<Longrightarrow> 0 < d \<and> d \<le> MAX_CLAIM_DURATION_SECONDS * 1000000"
  by (auto simp: claim_duration_from_environment_def DEFAULT_CLAIM_DURATION_def MAX_CLAIM_DURATION_SECONDS_def Let_def
    split: option.splits if_splits)

section \<open>Data\<close>

datatype parser_claim_error =
    ParserJobQueueUnavailable
  | ParserJobClaimRejected string
  | ParserClaimsValueError string

record claimed_parser_job =
  cp_job_id :: uuid
  cp_document_intake_id :: uuid
  cp_claim_token :: uuid
  cp_claimed_at :: instant
  cp_claim_expires_at :: instant

text \<open>The constructor of \<open>SqlAlchemyParserJobClaims\<close>.\<close>

record parser_claims =
  ps_duration :: int
  ps_intake_id :: "uuid option"
  ps_document_types :: "string list option"

definition make_parser_claims :: "int \<Rightarrow> uuid option \<Rightarrow> string list option \<Rightarrow> parser_claim_error + parser_claims" where
  "make_parser_claims duration intake types =
     bindE (require (duration > 0) (ParserClaimsValueError ''Parser claim duration must be positive'')) (\<lambda>_.
     bindE (require (types \<noteq> Some []) (ParserClaimsValueError ''Parser document-type scope must not be empty'')) (\<lambda>_.
       Inr \<lparr>ps_duration = duration, ps_intake_id = intake, ps_document_types = types\<rparr>))"

definition parser_scope :: "parser_claims \<Rightarrow> parser_job_row \<Rightarrow> bool" where
  "parser_scope c j = (case ps_intake_id c of None \<Rightarrow> True | Some i \<Rightarrow> pj_document_intake_id j = i)"

definition document_type_scope :: "parser_claims \<Rightarrow> document_row \<Rightarrow> bool" where
  "document_type_scope c d = (case ps_document_types c of None \<Rightarrow> True | Some ts \<Rightarrow> dr_document_type d \<in> set ts)"

section \<open>Operations\<close>

definition new_parser_job :: "uuid \<Rightarrow> uuid \<Rightarrow> instant \<Rightarrow> parser_job_row" where
  "new_parser_job i intake now =
     \<lparr>pj_id = i, pj_document_intake_id = intake, pj_state = ParserQueued, pj_created_at = now, pj_claim_token = None,
      pj_claimed_at = None, pj_claim_expires_at = None, pj_completed_at = None, pj_failure_code = None\<rparr>"

text \<open>\<open>up\<close> is the insertion, \<open>up'\<close> the read after a constraint violation.\<close>

definition parser_enqueue ::
  "bool \<Rightarrow> bool \<Rightarrow> uuid \<Rightarrow> instant \<Rightarrow> uuid \<Rightarrow> document_intake_row list \<Rightarrow> parser_job_row list
     \<Rightarrow> (parser_claim_error + unit) \<times> parser_job_row list" where
  "parser_enqueue up up' i now intake intakes rows =
     (if \<not> up then (Inl ParserJobQueueUnavailable, rows)
      else case insert_row (\<lambda>j. parser_job_checks j \<and> pj_document_intake_id j \<in> di_id ` set intakes) parser_job_conflict
             (new_parser_job i intake now) rows of
        Inr rows' \<Rightarrow> (Inr (), rows')
      | Inl _ \<Rightarrow>
          if \<not> up' then (Inl ParserJobQueueUnavailable, rows)
          else if find (\<lambda>j. pj_document_intake_id j = intake) rows \<noteq> None then (Inr (), rows)
          else (Inl ParserJobQueueUnavailable, rows))"

text \<open>The candidate subquery of \<open>claim_next\<close> on the joined tables.\<close>

definition parser_candidate ::
  "parser_claims \<Rightarrow> instant \<Rightarrow> document_intake_row list \<Rightarrow> document_row list \<Rightarrow> parser_job_row list \<Rightarrow> uuid option" where
  "parser_candidate c now intakes documents rows =
     map_option pj_id (first_by (\<lambda>j. (pj_created_at j, pj_id j))
       (filter (\<lambda>j. pj_state j = ParserQueued \<and> pj_created_at j \<le> now \<and> parser_scope c j
          \<and> list_ex (\<lambda>i. di_id i = pj_document_intake_id j \<and> di_state i = IntakeQuarantined
               \<and> list_ex (\<lambda>d. di_document_id i = Some (dr_id d) \<and> document_type_scope c d) documents) intakes) rows))"

text \<open>The conditional update, with the candidate its subquery found.\<close>

definition parser_claim_update ::
  "bool \<Rightarrow> int \<Rightarrow> instant \<Rightarrow> uuid \<Rightarrow> uuid option \<Rightarrow> parser_job_row list
     \<Rightarrow> (parser_claim_error + claimed_parser_job option) \<times> parser_job_row list" where
  "parser_claim_update up duration now token candidate rows =
     (if \<not> up then (Inl ParserJobQueueUnavailable, rows)
      else case update_where parser_job_checks (\<lambda>j. Some (pj_id j) = candidate \<and> pj_state j = ParserQueued)
             (\<lambda>j. j\<lparr>pj_state := ParserClaimed, pj_claim_token := Some token, pj_claimed_at := Some now,
                    pj_claim_expires_at := Some (now + duration)\<rparr>) rows of
        Inl _ \<Rightarrow> (Inl ParserJobQueueUnavailable, rows)
      | Inr (rows', out) \<Rightarrow>
          (case scalar_one_or_none out of
             Inl _ \<Rightarrow> (Inl ParserJobQueueUnavailable, rows)
           | Inr None \<Rightarrow> (Inr None, rows')
           | Inr (Some j) \<Rightarrow>
               (Inr (Some \<lparr>cp_job_id = pj_id j, cp_document_intake_id = pj_document_intake_id j, cp_claim_token = token,
                  cp_claimed_at = now, cp_claim_expires_at = now + duration\<rparr>), rows')))"

definition parser_claim_next ::
  "bool \<Rightarrow> parser_claims \<Rightarrow> instant \<Rightarrow> uuid \<Rightarrow> document_intake_row list \<Rightarrow> document_row list \<Rightarrow> parser_job_row list
     \<Rightarrow> (parser_claim_error + claimed_parser_job option) \<times> parser_job_row list" where
  "parser_claim_next up c now token intakes documents rows =
     parser_claim_update up (ps_duration c) now token (parser_candidate c now intakes documents rows) rows"

text \<open>The claim predicate of \<open>_finish\<close>: the exact lease, still running.\<close>

definition parser_claim_active :: "parser_claims \<Rightarrow> claimed_parser_job \<Rightarrow> instant \<Rightarrow> parser_job_row \<Rightarrow> bool" where
  "parser_claim_active c claim now j \<longleftrightarrow> pj_id j = cp_job_id claim \<and> parser_scope c j
     \<and> pj_document_intake_id j = cp_document_intake_id claim \<and> pj_state j = ParserClaimed
     \<and> pj_claim_token j = Some (cp_claim_token claim) \<and> pj_claimed_at j = Some (cp_claimed_at claim)
     \<and> pj_claim_expires_at j = Some (cp_claim_expires_at claim)
     \<and> cp_claimed_at claim \<le> now \<and> cp_claim_expires_at claim > now"

definition parser_finish ::
  "bool \<Rightarrow> parser_claims \<Rightarrow> instant \<Rightarrow> claimed_parser_job \<Rightarrow> parser_job_state \<Rightarrow> string \<Rightarrow> parser_job_row list
     \<Rightarrow> (parser_claim_error + unit) \<times> parser_job_row list" where
  "parser_finish up c now claim state failure rows =
     (if \<not> up then (Inl ParserJobQueueUnavailable, rows)
      else case update_where parser_job_checks (parser_claim_active c claim now)
             (\<lambda>j. j\<lparr>pj_state := state, pj_completed_at := Some now, pj_failure_code := Some failure\<rparr>) rows of
        Inl _ \<Rightarrow> (Inl ParserJobQueueUnavailable, rows)
      | Inr (rows', []) \<Rightarrow> (Inl (ParserJobClaimRejected ''Parser job claim is not active''), rows)
      | Inr (rows', j # js) \<Rightarrow> (Inr (), rows'))"

definition parser_reject ::
  "bool \<Rightarrow> parser_claims \<Rightarrow> instant \<Rightarrow> claimed_parser_job \<Rightarrow> parser_job_row list
     \<Rightarrow> (parser_claim_error + unit) \<times> parser_job_row list" where
  "parser_reject up c now claim rows = parser_finish up c now claim ParserRejected ''PARSER_DOCUMENT_REJECTED'' rows"

definition parser_fail ::
  "bool \<Rightarrow> parser_claims \<Rightarrow> instant \<Rightarrow> claimed_parser_job \<Rightarrow> parser_job_row list
     \<Rightarrow> (parser_claim_error + unit) \<times> parser_job_row list" where
  "parser_fail up c now claim rows = parser_finish up c now claim ParserFailed ''PARSER_WORKER_FAILED'' rows"

definition parser_expired :: "parser_claims \<Rightarrow> instant \<Rightarrow> parser_job_row \<Rightarrow> bool" where
  "parser_expired c now j \<longleftrightarrow> pj_state j = ParserClaimed \<and> parser_scope c j
     \<and> (case pj_claim_expires_at j of None \<Rightarrow> False | Some t \<Rightarrow> t \<le> now)"

definition parser_expire_claims ::
  "bool \<Rightarrow> parser_claims \<Rightarrow> instant \<Rightarrow> parser_job_row list \<Rightarrow> (parser_claim_error + nat) \<times> parser_job_row list" where
  "parser_expire_claims up c now rows =
     (if \<not> up then (Inl ParserJobQueueUnavailable, rows)
      else case update_where parser_job_checks (parser_expired c now)
             (\<lambda>j. j\<lparr>pj_state := ParserFailed, pj_completed_at := Some now, pj_failure_code := Some ''PARSER_CLAIM_EXPIRED''\<rparr>) rows of
        Inl _ \<Rightarrow> (Inl ParserJobQueueUnavailable, rows)
      | Inr (rows', out) \<Rightarrow> (Inr (length out), rows'))"

section \<open>The queue as a lease queue\<close>

definition parser_phase :: "parser_job_row \<Rightarrow> lease_phase" where
  "parser_phase j = (case pj_state j of ParserQueued \<Rightarrow> Waiting | ParserClaimed \<Rightarrow> Held | _ \<Rightarrow> Finished)"

definition parser_lease :: "parser_job_row \<Rightarrow> lease option" where
  "parser_lease j = (case (pj_claim_token j, pj_claimed_at j, pj_claim_expires_at j) of
     (Some t, Some a, Some e) \<Rightarrow> Some \<lparr>ls_token = t, ls_claimed_at = a, ls_expires_at = e\<rparr> | _ \<Rightarrow> None)"

definition claim_lease :: "claimed_parser_job \<Rightarrow> lease" where
  "claim_lease c = \<lparr>ls_token = cp_claim_token c, ls_claimed_at = cp_claimed_at c, ls_expires_at = cp_claim_expires_at c\<rparr>"

lemma parser_phase_iff [simp]:
  "parser_phase j = Waiting \<longleftrightarrow> pj_state j = ParserQueued" "parser_phase j = Held \<longleftrightarrow> pj_state j = ParserClaimed"
  "parser_phase j = Finished \<longleftrightarrow> pj_state j \<in> {ParserAccepted, ParserRejected, ParserFailed}"
  by (cases "pj_state j"; simp add: parser_phase_def)+

text \<open>
  Committed statements of any number of workers, producers and reapers, in any order.  The candidate
  of a claim may come from an older snapshot, so it is arbitrary here; \<open>accept\<close> is the update of a
  successful promotion.
\<close>

definition accept_job :: "instant \<Rightarrow> parser_job_row \<Rightarrow> parser_job_row" where
  "accept_job t j = j\<lparr>pj_state := ParserAccepted, pj_completed_at := Some t\<rparr>"

inductive parser_step :: "parser_job_row list \<Rightarrow> lease_event list \<Rightarrow> parser_job_row list \<Rightarrow> bool" where
  enqueue: "parser_enqueue up up' i now intake intakes rows = (Inr (), rows') \<Longrightarrow> parser_step rows [] rows'"
| claim: "parser_claim_update up d now token candidate rows = (Inr (Some c), rows') \<Longrightarrow>
    parser_step rows [Granted (cp_job_id c) (claim_lease c)] rows'"
| no_claim: "parser_claim_update up d now token candidate rows = (Inr None, rows') \<Longrightarrow> parser_step rows [] rows'"
| finish: "parser_jobs_ok rows \<Longrightarrow> parser_finish up cfg now c state failure rows = (Inr (), rows') \<Longrightarrow> parser_step rows [Closed (cp_job_id c) (claim_lease c)] rows'"
| accept: "parser_jobs_ok rows \<Longrightarrow> j \<in> set rows \<Longrightarrow> parser_claim_active cfg c now j \<Longrightarrow> parser_job_checks (accept_job t j) \<Longrightarrow>
    parser_step rows [Closed (cp_job_id c) (claim_lease c)] (map (\<lambda>k. if k = j then accept_job t k else k) rows)"
| expire: "parser_expire_claims up cfg now rows = (Inr n, rows') \<Longrightarrow>
    parser_step rows (map (\<lambda>j. Closed (pj_id j) (the (parser_lease j))) (filter (parser_expired cfg now) rows)) rows'"


text \<open>One law per statement.\<close>

lemma enqueue_appends:
  assumes "parser_enqueue up up' i now intake intakes rows = (Inr (), rows')"
  shows "rows' = rows \<or> appended pj_id parser_phase rows [] rows'"
  using assms
  by (auto simp: parser_enqueue_def appended_def store_simps new_parser_job_def parser_job_conflict_def image_iff
    split: if_splits sum.splits)

lemma finish_ends:
  assumes "parser_job_checks (j\<lparr>pj_state := state, pj_completed_at := Some now, pj_failure_code := Some failure\<rparr>)"
  shows "state \<in> {ParserRejected, ParserFailed}"
  using assms by (auto simp: parser_job_checks_def parser_job_lifecycle_def)

lemma active_lease:
  "parser_claim_active cfg c now j \<Longrightarrow> pj_state j = ParserClaimed \<and> pj_id j = cp_job_id c \<and> parser_lease j = Some (claim_lease c)"
  by (simp add: parser_claim_active_def parser_lease_def claim_lease_def)

lemma active_unique:
  assumes "parser_jobs_ok rows"
  shows "filter (parser_claim_active cfg c now) rows = []
    \<or> (\<exists>j \<in> set rows. parser_claim_active cfg c now j \<and> filter (parser_claim_active cfg c now) rows = [j])"
  by (rule parser_jobs.unique_row [OF assms]) (auto simp: parser_claim_active_def parser_job_conflict_def)

lemma claim_advances:
  assumes "parser_claim_update up d now token candidate rows = (Inr (Some c), rows')"
  shows "advanced pj_id parser_phase parser_lease rows [Granted (cp_job_id c) (claim_lease c)] rows'"
proof -
  let ?p = "\<lambda>j. Some (pj_id j) = candidate \<and> pj_state j = ParserQueued"
  let ?g = "\<lambda>j. j\<lparr>pj_state := ParserClaimed, pj_claim_token := Some token, pj_claimed_at := Some now,
              pj_claim_expires_at := Some (now + d)\<rparr>"
  from assms obtain j where j: "map ?g (filter ?p rows) = [j]" "rows' = map (\<lambda>r. if ?p r then ?g r else r) rows"
    "c = \<lparr>cp_job_id = pj_id j, cp_document_intake_id = pj_document_intake_id j, cp_claim_token = token,
          cp_claimed_at = now, cp_claim_expires_at = now + d\<rparr>"
    by (auto simp: parser_claim_update_def store_simps split: if_splits sum.splits option.splits)
  let ?h = "\<lambda>r. Granted (pj_id r) (claim_lease c)"
  have "advanced pj_id parser_phase parser_lease rows (map ?h (filter ?p rows)) (map (\<lambda>r. if ?p r then ?g r else r) rows)"
    by (rule advanced_update) (auto simp: moves_def events_def parser_lease_def claim_lease_def j(3))
  then show ?thesis using j by (auto simp: map_eq_Cons_conv)
qed

lemma finish_advances:
  assumes "parser_jobs_ok rows" "parser_finish up cfg now c state failure rows = (Inr (), rows')"
  shows "advanced pj_id parser_phase parser_lease rows [Closed (cp_job_id c) (claim_lease c)] rows'"
proof -
  let ?p = "parser_claim_active cfg c now"
  let ?g = "\<lambda>j. j\<lparr>pj_state := state, pj_completed_at := Some now, pj_failure_code := Some failure\<rparr>"
  from assms(2) have u: "\<forall>r \<in> set rows. ?p r \<longrightarrow> parser_job_checks (?g r)" "rows' = map (\<lambda>r. if ?p r then ?g r else r) rows"
      "filter ?p rows \<noteq> []"
    by (auto simp: parser_finish_def store_simps split: if_splits sum.splits list.splits prod.splits)
  then obtain j where j: "j \<in> set rows" "?p j" "filter ?p rows = [j]" using active_unique [OF assms(1)] by blast
  have st: "state \<in> {ParserRejected, ParserFailed}" using u(1) j finish_ends by blast
  let ?h = "\<lambda>r. Closed (pj_id r) (claim_lease c)"
  have "advanced pj_id parser_phase parser_lease rows (map ?h (filter ?p rows)) (map (\<lambda>r. if ?p r then ?g r else r) rows)"
  proof (rule advanced_update)
    fix r assume "r \<in> set rows" "?p r"
    moreover have "parser_lease (?g r) = parser_lease r" by (simp add: parser_lease_def)
    ultimately show "pj_id (?g r) = pj_id r \<and> moves parser_phase parser_lease r (?g r)
        \<and> events pj_id parser_phase parser_lease r (?g r) = [?h r]"
      using st active_lease [of cfg c now r] by (auto simp: moves_def events_def)
  qed
  then show ?thesis using j(2,3) u(2) active_lease by simp
qed

lemma accept_advances:
  assumes "parser_jobs_ok rows" "j \<in> set rows" "parser_claim_active cfg c now j"
  shows "advanced pj_id parser_phase parser_lease rows [Closed (cp_job_id c) (claim_lease c)]
    (map (\<lambda>k. if k = j then accept_job t k else k) rows)"
proof -
  have one: "filter (\<lambda>k. k = j) rows = [j]"
  proof -
    have "filter (\<lambda>k. k = j) rows = [] \<or> (\<exists>r \<in> set rows. r = j \<and> filter (\<lambda>k. k = j) rows = [r])"
      by (rule parser_jobs.unique_row [OF assms(1)]) (auto simp: parser_job_conflict_def)
    then show ?thesis using assms(2) by (auto simp: filter_empty_conv)
  qed
  have "advanced pj_id parser_phase parser_lease rows (map (\<lambda>k. Closed (pj_id k) (claim_lease c)) (filter (\<lambda>k. k = j) rows))
      (map (\<lambda>k. if k = j then accept_job t k else k) rows)"
    using active_lease [OF assms(3)]
    by (intro advanced_update) (auto simp: moves_def events_def accept_job_def parser_lease_def)
  then show ?thesis using one active_lease [OF assms(3)] by simp
qed

lemma expire_advances:
  assumes "parser_expire_claims up cfg now rows = (Inr n, rows')"
  shows "advanced pj_id parser_phase parser_lease rows
    (map (\<lambda>j. Closed (pj_id j) (the (parser_lease j))) (filter (parser_expired cfg now) rows)) rows'"
proof -
  let ?g = "\<lambda>j. j\<lparr>pj_state := ParserFailed, pj_completed_at := Some now, pj_failure_code := Some ''PARSER_CLAIM_EXPIRED''\<rparr>"
  from assms have u: "\<forall>r \<in> set rows. parser_expired cfg now r \<longrightarrow> parser_job_checks (?g r)"
      "rows' = map (\<lambda>r. if parser_expired cfg now r then ?g r else r) rows"
    by (auto simp: parser_expire_claims_def store_simps split: if_splits sum.splits prod.splits)
  have l: "parser_lease (?g r) = parser_lease r" for r by (simp add: parser_lease_def)
  have n: "parser_lease r \<noteq> None" if "parser_job_checks (?g r)" for r
    using that by (auto simp: parser_job_checks_def parser_job_lifecycle_def parser_lease_def)
  show ?thesis unfolding u(2)
    by (rule advanced_update) (use u(1) n l in \<open>auto simp: moves_def events_def parser_expired_def\<close>)
qed

interpretation parser_queue: lease_queue pj_id parser_phase parser_lease parser_step
proof
  fix rows rows' evs assume "parser_step rows evs rows'"
  then show "appended pj_id parser_phase rows evs rows' \<or> advanced pj_id parser_phase parser_lease rows evs rows'"
  proof cases
    case (enqueue up up' i now intake intakes)
    then show ?thesis using enqueue_appends advanced_refl by blast
  next
    case (no_claim up d now token candidate)
    then have "rows' = rows"
      by (auto simp: parser_claim_update_def store_simps filter_empty_conv split: if_splits sum.splits option.splits intro!: map_idI)
    then show ?thesis using no_claim(1) advanced_refl by blast
  next
    case claim
    then show ?thesis using claim_advances by metis
  next
    case finish
    then show ?thesis using finish_advances by metis
  next
    case accept
    then show ?thesis using accept_advances [OF accept(3-5)] by simp
  next
    case expire
    then show ?thesis using expire_advances by metis
  qed
qed


lemma parser_step_ok:
  assumes "parser_step rows evs rows'" "parser_jobs_ok rows"
  shows "parser_jobs_ok rows'"
  using assms
proof cases
  case (enqueue up up' i now intake intakes)
  then show ?thesis using assms(2) parser_jobs.insert_keeps
    by (auto simp: parser_enqueue_def store_simps split: if_splits sum.splits)
next
  case (claim up d now token candidate c)
  then show ?thesis
    by (auto simp: parser_claim_update_def split: if_splits sum.splits option.splits
      intro: parser_jobs.update_keeps [OF assms(2)] simp: parser_job_conflict_def)
next
  case (no_claim up d now token candidate)
  then show ?thesis
    by (auto simp: parser_claim_update_def split: if_splits sum.splits option.splits
      intro: parser_jobs.update_keeps [OF assms(2)] simp: parser_job_conflict_def)
next
  case (finish up cfg now c state failure)
  then show ?thesis
    by (auto simp: parser_finish_def split: if_splits sum.splits list.splits
      intro: parser_jobs.update_keeps [OF assms(2)] simp: parser_job_conflict_def)
next
  case (accept j cfg c now t)
  have "parser_jobs_ok (map (\<lambda>k. if k = j then accept_job t k else k) rows)"
    by (rule parser_jobs.map_keeps [OF assms(2)])
      (use accept assms(2) in \<open>auto simp: table_ok_def parser_job_conflict_def accept_job_def split: if_splits\<close>)
  then show ?thesis using accept by simp
next
  case (expire up cfg now n)
  then show ?thesis
    by (auto simp: parser_expire_claims_def split: if_splits sum.splits
      intro: parser_jobs.update_keeps [OF assms(2)] simp: parser_job_conflict_def)
qed

lemma parser_run_ok: "queue_run parser_step tr rows \<Longrightarrow> parser_jobs_ok rows"
  by (induction rule: queue_run.induct) (auto dest: parser_step_ok)

text \<open>When the holder may still finish a job, and when the reaper may.\<close>

lemma parser_finish_iff:
  assumes "parser_jobs_ok rows" "state = ParserRejected \<and> failure = ''PARSER_DOCUMENT_REJECTED'' \<or> state = ParserFailed \<and> failure = ''PARSER_WORKER_FAILED''"
  shows "(\<exists>rows'. parser_finish True cfg now c state failure rows = (Inr (), rows')) \<longleftrightarrow>
    (\<exists>j \<in> set rows. parser_claim_active cfg c now j)"
proof -
  have "parser_job_checks (j\<lparr>pj_state := state, pj_completed_at := Some now, pj_failure_code := Some failure\<rparr>)"
    if "j \<in> set rows" "parser_claim_active cfg c now j" for j
  proof -
    have "parser_job_checks j" using assms(1) that(1) by (simp add: table_ok_def)
    with that(2) assms(2) show ?thesis
      by (auto simp: parser_job_checks_def parser_job_lifecycle_def parser_claim_active_def sql_le_def sql_less_def)
  qed
  then have u: "update_where parser_job_checks (parser_claim_active cfg c now)
      (\<lambda>j. j\<lparr>pj_state := state, pj_completed_at := Some now, pj_failure_code := Some failure\<rparr>) rows
    = Inr (map (\<lambda>j. if parser_claim_active cfg c now j
             then j\<lparr>pj_state := state, pj_completed_at := Some now, pj_failure_code := Some failure\<rparr> else j) rows,
           map (\<lambda>j. j\<lparr>pj_state := state, pj_completed_at := Some now, pj_failure_code := Some failure\<rparr>)
             (filter (parser_claim_active cfg c now) rows))"
    by (auto simp: update_where_def list_all_iff)
  show ?thesis
    using active_unique [OF assms(1), of cfg c now] by (auto simp: parser_finish_def u filter_empty_conv split: list.splits)
qed

end
