(* ===== verification/Markdown_Parser.thy ===== *)
theory Markdown_Parser
  imports Py_Text
begin

text \<open>
  The Markdown and text requirement parser (\<open>markdown_parser.py\<close>).  The two regular expressions are
  written with the backtracking operators of \<open>Py_Text\<close> in the order of the patterns.  The input is the
  byte string; text beyond Latin-1 reads as malformed here, as everywhere in the development, so the
  em dash of the separator class cannot occur.
\<close>

section \<open>Data and patterns\<close>

definition MAX_TEXT_LINES :: nat where "MAX_TEXT_LINES = 100000"
definition MAX_TEXT_CODEPOINTS :: nat where "MAX_TEXT_CODEPOINTS = 500000"
definition MAX_TEXT_LINE_BYTES :: nat where "MAX_TEXT_LINE_BYTES = 16 * 1024"
definition PARSER_VERSION :: string where "PARSER_VERSION = ''markdown-text-v1''"
definition NORMALIZATION_VERSION :: string where "NORMALIZATION_VERSION = ''line-normalized-v1''"

datatype parse_rejection = DocumentParseRejected (rejection_code: string)

record parsed_requirement =
  pr_ordinal :: nat
  pr_requirement_id :: "string option"
  pr_heading :: "string option"
  pr_line_start :: nat
  pr_line_end :: nat
  pr_normalized_text :: string
  pr_content_sha256 :: string

definition is_hash :: "char \<Rightarrow> bool" where "is_hash c \<longleftrightarrow> c = CHR ''#''"
definition is_blank :: "char \<Rightarrow> bool" where "is_blank c \<longleftrightarrow> c = CHR '' '' \<or> c = CHR 0x09"

text \<open>\<open>^(#{1,6})[ \t]+(.+?)[ \t]*#*[ \t]*$\<close>; the result is the second group.\<close>

definition match_heading :: "string \<Rightarrow> string option" where
  "match_heading line =
     one is_hash (\<lambda>_. greedy_upto 5 is_hash (\<lambda>_. plus is_blank (\<lambda>_.
       lazy_plus dot (\<lambda>title. greedy is_blank (\<lambda>_. greedy is_hash (\<lambda>_. greedy is_blank (\<lambda>_. at_end title))))))) line"

definition is_ascii_alnum :: "char \<Rightarrow> bool" where
  "is_ascii_alnum c \<longleftrightarrow> 48 \<le> code c \<and> code c \<le> 57 \<or> 65 \<le> code c \<and> code c \<le> 90 \<or> 97 \<le> code c \<and> code c \<le> 122"

definition is_id_char :: "char \<Rightarrow> bool" where
  "is_id_char c \<longleftrightarrow> is_ascii_alnum c \<or> c = CHR ''_'' \<or> c = CHR ''-''"

definition is_bullet :: "char \<Rightarrow> bool" where
  "is_bullet c \<longleftrightarrow> c \<in> {CHR ''-'', CHR ''*'', CHR ''+''}"

definition is_separator :: "char \<Rightarrow> bool" where
  "is_separator c \<longleftrightarrow> c \<in> {CHR '':'', CHR ''-''}"

text \<open>
  The tail \<open>-[A-Z0-9][A-Z0-9_-]*)\s*[:-]\s*(.+?)\s*$\<close> after the keyword, then the whole pattern.
\<close>

definition match_requirement_tail :: "string \<Rightarrow> string \<Rightarrow> (string \<times> string) option" where
  "match_requirement_tail keyword s =
     one (\<lambda>c. c = CHR ''-'') (\<lambda>_. one is_ascii_alnum (\<lambda>a. greedy is_id_char (\<lambda>rest.
       greedy is_space (\<lambda>_. one is_separator (\<lambda>_. greedy is_space (\<lambda>_.
       lazy_plus dot (\<lambda>body. greedy is_space (\<lambda>_. at_end (keyword @ ''-'' @ a # rest, body))))))))) s"

definition match_requirement_id :: "string \<Rightarrow> (string \<times> string) option" where
  "match_requirement_id s =
     (case literal_ci ''REQ'' match_requirement_tail s of
        Some x \<Rightarrow> Some x | None \<Rightarrow> literal_ci ''REQUIREMENT'' match_requirement_tail s)"

definition match_requirement :: "string \<Rightarrow> (string \<times> string) option" where
  "match_requirement line =
     greedy is_space (\<lambda>_ s.
       case one is_bullet (\<lambda>_. plus is_space (\<lambda>_. match_requirement_id)) s of
         Some x \<Rightarrow> Some x | None \<Rightarrow> match_requirement_id s) line"

text \<open>\<open>str.upper\<close> on the ASCII identifiers the pattern admits.\<close>

definition upper_char :: "char \<Rightarrow> char" where
  "upper_char c = (if 97 \<le> code c \<and> code c \<le> 122 then char_of (code c - 32) else c)"

section \<open>The parser\<close>

definition line_unit :: "string \<Rightarrow> string \<Rightarrow> (string option \<times> string) option" where
  "line_unit document_type line =
     (case match_requirement line of
        Some (i, body) \<Rightarrow> Some (Some (map upper_char i), normalize body)
      | None \<Rightarrow> if document_type = ''text'' \<and> strip line \<noteq> [] then Some (None, normalize line) else None)"

fun parse_lines ::
  "runtime \<Rightarrow> string \<Rightarrow> string option \<Rightarrow> nat \<Rightarrow> parsed_requirement list \<Rightarrow> string list
     \<Rightarrow> parse_rejection + parsed_requirement list" where
  "parse_lines rt document_type heading n parsed [] = Inr parsed"
| "parse_lines rt document_type heading n parsed (line # lines) =
     (if utf8_length line > MAX_TEXT_LINE_BYTES then Inl (DocumentParseRejected ''PARSER_LINE_SIZE_LIMIT'')
      else case match_heading line of
        Some title \<Rightarrow> parse_lines rt document_type (Some (normalize title)) (Suc n) parsed lines
      | None \<Rightarrow>
          (case line_unit document_type line of
             None \<Rightarrow> parse_lines rt document_type heading (Suc n) parsed lines
           | Some (i, text) \<Rightarrow>
               if text = [] then parse_lines rt document_type heading (Suc n) parsed lines
               else parse_lines rt document_type heading (Suc n)
                 (parsed @ [\<lparr>pr_ordinal = length parsed, pr_requirement_id = i, pr_heading = heading, pr_line_start = n,
                    pr_line_end = n, pr_normalized_text = text, pr_content_sha256 = sha256_hex rt (utf8_encode text)\<rparr>]) lines))"

definition parse_markdown_or_text :: "runtime \<Rightarrow> string \<Rightarrow> string \<Rightarrow> parse_rejection + parsed_requirement list" where
  "parse_markdown_or_text rt document_type raw =
     (if document_type \<notin> {''markdown'', ''text''} then Inl (DocumentParseRejected ''PARSER_DOCUMENT_TYPE_UNSUPPORTED'')
      else case utf8_decode raw of
        None \<Rightarrow> Inl (DocumentParseRejected ''PARSER_TEXT_ENCODING_INVALID'')
      | Some text \<Rightarrow>
          if length text > MAX_TEXT_CODEPOINTS then Inl (DocumentParseRejected ''PARSER_TEXT_CODEPOINT_LIMIT'')
          else if length (splitlines text) > MAX_TEXT_LINES then Inl (DocumentParseRejected ''PARSER_LINE_COUNT_LIMIT'')
          else parse_lines rt document_type None 1 [] (splitlines text))"

section \<open>Provenance\<close>

text \<open>The text of a unit is the normal form of a part of its line.\<close>

definition part_of :: "string \<Rightarrow> string \<Rightarrow> bool" where
  "part_of s line \<longleftrightarrow> (\<exists>pre post. line = pre @ s @ post)"

lemma part_of_append: "part_of s r \<Longrightarrow> part_of s (m @ r)"
  unfolding part_of_def by (metis append.assoc)

lemma part_of_Cons: "part_of s r \<Longrightarrow> part_of s (c # r)"
  using part_of_append [of s r "[c]"] by simp

lemma part_of_prefix: "part_of s (s @ r)"
  unfolding part_of_def by (metis append.left_neutral)

lemma part_of_refl: "part_of s s"
  using part_of_prefix [of s "[]"] by simp

lemma at_end_Some: "at_end x s = Some y \<Longrightarrow> y = x"
  by (auto simp: at_end_def split: if_splits)

lemma requirement_tail_part: "match_requirement_tail keyword s = Some (i, body) \<Longrightarrow> part_of body s \<and> body \<noteq> []"
  unfolding match_requirement_tail_def
  by (elim matchE) (auto dest!: at_end_Some intro!: part_of_Cons part_of_append part_of_prefix)

lemma keyword_part: "literal_ci keyword match_requirement_tail s = Some (i, body) \<Longrightarrow> part_of body s"
  by (elim literal_ciE) (use requirement_tail_part part_of_append in blast)

lemma requirement_id_part: "match_requirement_id s = Some (i, body) \<Longrightarrow> part_of body s"
  unfolding match_requirement_id_def using keyword_part [of "''REQ''" s i body] keyword_part [of "''REQUIREMENT''" s i body]
  by (auto simp del: literal_ci.simps split: option.splits)

lemma requirement_part: "match_requirement s = Some (i, body) \<Longrightarrow> part_of body s"
  unfolding match_requirement_def
  by (elim greedyE) (auto split: option.splits elim!: oneE plusE dest!: requirement_id_part
    intro!: part_of_append part_of_Cons)

lemma line_unit_part: "line_unit document_type line = Some (i, t) \<Longrightarrow> \<exists>s. part_of s line \<and> t = normalize s"
  by (auto simp: line_unit_def split: option.splits if_splits prod.splits dest!: requirement_part intro: part_of_refl)

text \<open>What the loop maintains: every unit it collected is backed by its line.\<close>

definition backed :: "runtime \<Rightarrow> string list \<Rightarrow> parsed_requirement \<Rightarrow> bool" where
  "backed rt lines r \<longleftrightarrow> pr_line_end r = pr_line_start r \<and> 1 \<le> pr_line_start r \<and> pr_line_start r \<le> length lines
     \<and> (\<exists>s. part_of s (lines ! (pr_line_start r - 1)) \<and> pr_normalized_text r = normalize s)
     \<and> pr_normalized_text r \<noteq> [] \<and> pr_content_sha256 r = sha256_hex rt (utf8_encode (pr_normalized_text r))"

definition collected :: "runtime \<Rightarrow> string list \<Rightarrow> nat \<Rightarrow> parsed_requirement list \<Rightarrow> bool" where
  "collected rt lines n rs \<longleftrightarrow> map pr_ordinal rs = [0..<length rs] \<and> sorted_wrt (<) (map pr_line_start rs)
     \<and> (\<forall>r \<in> set rs. backed rt lines r \<and> pr_line_start r < n)"

lemma collected_snoc:
  assumes "collected rt lines n rs" "backed rt lines r" "pr_ordinal r = length rs" "pr_line_start r = n"
  shows "collected rt lines (Suc n) (rs @ [r])"
  using assms by (fastforce simp: collected_def sorted_wrt_append)

lemma collected_Suc: "collected rt lines n rs \<Longrightarrow> collected rt lines (Suc n) rs"
  by (fastforce simp: collected_def)

lemma parse_lines_collected:
  assumes "parse_lines rt dt heading (Suc (length done_lines)) parsed todo = Inr rs"
    "collected rt (done_lines @ todo) (Suc (length done_lines)) parsed"
  shows "collected rt (done_lines @ todo) (Suc (length (done_lines @ todo))) rs"
  using assms
proof (induction todo arbitrary: done_lines heading parsed)
  case (Cons line lines)
  have IH: "collected rt (done_lines @ line # lines) (Suc (length (done_lines @ line # lines))) rs"
    if "parse_lines rt dt h (Suc (Suc (length done_lines))) ps lines = Inr rs"
      "collected rt (done_lines @ line # lines) (Suc (Suc (length done_lines))) ps" for h ps
    using Cons.IH [of h "done_lines @ [line]" ps] that by simp
  have skip: "collected rt (done_lines @ line # lines) (Suc (Suc (length done_lines))) parsed"
    using Cons.prems(2) by (rule collected_Suc)
  show ?case
  proof (cases "match_heading line")
    case (Some title)
    then show ?thesis using Cons.prems(1) IH skip by (auto split: if_splits)
  next
    case None
    show ?thesis
    proof (cases "line_unit dt line")
      case (Some u)
      obtain i t where u: "u = (i, t)" by fastforce
      obtain s where s: "part_of s line" "t = normalize s" using line_unit_part Some u by blast
      show ?thesis
      proof (cases "t = []")
        case False
        let ?r = "\<lparr>pr_ordinal = length parsed, pr_requirement_id = i, pr_heading = heading, pr_line_start = Suc (length done_lines),
          pr_line_end = Suc (length done_lines), pr_normalized_text = t, pr_content_sha256 = sha256_hex rt (utf8_encode t)\<rparr>"
        have "backed rt (done_lines @ line # lines) ?r" using s False by (auto simp: backed_def)
        then have "collected rt (done_lines @ line # lines) (Suc (Suc (length done_lines))) (parsed @ [?r])"
          using collected_snoc [OF Cons.prems(2)] by simp
        then show ?thesis using Cons.prems(1) None Some u False IH by (auto split: if_splits)
      qed (use Cons.prems(1) None Some u IH skip in \<open>auto split: if_splits\<close>)
    qed (use Cons.prems(1) None IH skip in \<open>auto split: if_splits\<close>)
  qed
qed simp

lemma parse_lines_rejected:
  "parse_lines rt dt heading n parsed todo = Inl e \<Longrightarrow> e = DocumentParseRejected ''PARSER_LINE_SIZE_LIMIT''"
  by (induction todo arbitrary: heading n parsed) (auto split: if_splits option.splits)

lemma parse_lines_long: "(\<exists>line \<in> set todo. utf8_length line > MAX_TEXT_LINE_BYTES) \<longleftrightarrow> (\<exists>e. parse_lines rt dt heading n parsed todo = Inl e)"
  by (induction todo arbitrary: heading n parsed) (auto split: option.splits)

section \<open>The reference reading\<close>

text \<open>
  What a document says, line by line and without the state of the loop: the units are the lines that
  are no headings and have a unit with text, and the heading of a line is the nearest one above it.
\<close>

definition heading_at :: "string list \<Rightarrow> nat \<Rightarrow> string option" where
  "heading_at lines k = (case rev (filter (\<lambda>l. match_heading l \<noteq> None) (take k lines)) of
     [] \<Rightarrow> None | l # _ \<Rightarrow> map_option normalize (match_heading l))"

definition unit_at :: "string \<Rightarrow> string list \<Rightarrow> nat \<Rightarrow> (nat \<times> string option \<times> string option \<times> string) list" where
  "unit_at dt lines k = (case (match_heading (lines ! k), line_unit dt (lines ! k)) of
     (None, Some (i, t)) \<Rightarrow> if t = [] then [] else [(Suc k, i, heading_at lines k, t)] | _ \<Rightarrow> [])"

definition units_of :: "string \<Rightarrow> string list \<Rightarrow> nat \<Rightarrow> (nat \<times> string option \<times> string option \<times> string) list" where
  "units_of dt lines n = concat (map (unit_at dt lines) [0..<n])"

definition unit_of_requirement :: "parsed_requirement \<Rightarrow> nat \<times> string option \<times> string option \<times> string" where
  "unit_of_requirement r = (pr_line_start r, pr_requirement_id r, pr_heading r, pr_normalized_text r)"

lemma heading_at_0 [simp]: "heading_at lines 0 = None"
  by (simp add: heading_at_def)

lemma heading_at_Suc:
  "k < length lines \<Longrightarrow> heading_at lines (Suc k) =
     (case match_heading (lines ! k) of None \<Rightarrow> heading_at lines k | Some title \<Rightarrow> Some (normalize title))"
  by (simp add: heading_at_def take_Suc_conv_app_nth split: option.splits)

lemma units_of_Suc: "units_of dt lines (Suc n) = units_of dt lines n @ unit_at dt lines n"
  by (simp add: units_of_def)

lemma parse_lines_units:
  assumes "parse_lines rt dt (heading_at lines n) (Suc n) parsed (drop n lines) = Inr rs" "n \<le> length lines"
    "map unit_of_requirement parsed = units_of dt lines n"
  shows "map unit_of_requirement rs = units_of dt lines (length lines)"
  using assms
proof (induction "length lines - n" arbitrary: n parsed)
  case (Suc m)
  then have n: "n < length lines" "m = length lines - Suc n" by simp_all
  have d: "drop n lines = lines ! n # drop (Suc n) lines" using n by (simp add: Cons_nth_drop_Suc)
  show ?case
  proof (cases "match_heading (lines ! n)")
    case (Some title)
    then show ?thesis using Suc.prems n d Suc.hyps(1) [OF n(2), of parsed]
      by (simp add: heading_at_Suc units_of_Suc unit_at_def split: if_splits)
  next
    case None
    note IH = Suc.hyps(1) [OF n(2)]
    show ?thesis
    proof (cases "line_unit dt (lines ! n)")
      case u: (Some u)
      obtain i t where it: "u = (i, t)" by fastforce
      show ?thesis
        by (rule IH [of "if t = [] then parsed else parsed @ [\<lparr>pr_ordinal = length parsed, pr_requirement_id = i,
              pr_heading = heading_at lines n, pr_line_start = Suc n, pr_line_end = Suc n, pr_normalized_text = t,
              pr_content_sha256 = sha256_hex rt (utf8_encode t)\<rparr>]"])
          (use Suc.prems n d None u it in \<open>auto simp: heading_at_Suc units_of_Suc unit_at_def unit_of_requirement_def split: if_splits\<close>)
    next
      case u: None
      show ?thesis
        by (rule IH [of parsed]) (use Suc.prems n d None u in \<open>auto simp: heading_at_Suc units_of_Suc unit_at_def split: if_splits\<close>)
    qed
  qed
qed simp

lemma parse_accepted:
  assumes "parse_markdown_or_text rt dt raw = Inr rs"
  obtains body where "utf8_decode raw = Some body" "parse_lines rt dt None 1 [] (splitlines body) = Inr rs"
    "collected rt (splitlines body) (Suc (length (splitlines body))) rs" "dt \<in> {''markdown'', ''text''}"
proof -
  from assms obtain body where b: "utf8_decode raw = Some body" "parse_lines rt dt None 1 [] (splitlines body) = Inr rs"
    "dt \<in> {''markdown'', ''text''}"
    by (auto simp: parse_markdown_or_text_def split: if_splits option.splits)
  have "collected rt (splitlines body) (Suc (length (splitlines body))) rs"
    using parse_lines_collected [of rt dt None "[]" "[]" "splitlines body" rs] b(2) by (simp add: collected_def)
  with b that show thesis by blast
qed

end
