(* ===== verification/Chunking.thy ===== *)
theory Chunking
  imports Py_Text
begin

text \<open>
  Chunking of normalized sections (\<open>indexing.py\<close>): configurations, the word loop of \<open>_split_text\<close>
  with its overlap, and the drafts of a document.  The lemmas show that the chunks of a text are windows
  that cover all its words in order, and bound their length.
\<close>

section \<open>Configuration and data\<close>

definition DEFAULT_CHUNKING_VERSION :: string where "DEFAULT_CHUNKING_VERSION = ''chunking-v1''"
definition DEFAULT_EMBEDDING_MODEL :: string where "DEFAULT_EMBEDDING_MODEL = ''embedding-test-v1''"
definition DEFAULT_EMBEDDING_VERSION :: string where "DEFAULT_EMBEDDING_VERSION = ''embedding-v1''"

record chunking_configuration =
  ch_version :: string
  ch_max_characters :: int
  ch_overlap_characters :: int

record embedding_configuration =
  eb_model :: string
  eb_version :: string

datatype indexing_error =
    IndexingUnavailable string
  | EmbeddingProtocolError string
  | IndexingValueError string
  | IndexingKeyError string
  | AdapterError

definition validate_chunking :: "chunking_configuration \<Rightarrow> indexing_error + unit" where
  "validate_chunking c =
     bindE (require (strip (ch_version c) \<noteq> []) (IndexingValueError ''Chunking version must be non-empty'')) (\<lambda>_.
     bindE (require (ch_max_characters c \<ge> 1) (IndexingValueError ''Chunk maximum must be positive'')) (\<lambda>_.
       require (0 \<le> ch_overlap_characters c \<and> ch_overlap_characters c < ch_max_characters c)
         (IndexingValueError ''Chunk overlap must be non-negative and smaller than maximum'')))"

definition validate_embedding :: "embedding_configuration \<Rightarrow> indexing_error + unit" where
  "validate_embedding e = require (strip (eb_model e) \<noteq> [] \<and> strip (eb_version e) \<noteq> [])
     (IndexingValueError ''Embedding model and version must be non-empty'')"

record normalized_section =
  ns_id :: uuid
  ns_source_location_id :: uuid
  ns_ordinal :: int
  ns_normalized_text :: string

definition validate_section :: "normalized_section \<Rightarrow> indexing_error + unit" where
  "validate_section s = require (ns_ordinal s \<ge> 0 \<and> strip (ns_normalized_text s) \<noteq> [])
     (IndexingValueError ''Normalized sections require an ordinal and non-empty text'')"

record chunk_draft =
  cd_section_id :: uuid
  cd_source_location_id :: uuid
  cd_ordinal :: int
  cd_normalized_text :: string
  cd_content_sha256 :: string
  cd_chunking_version :: string

section \<open>Splitting a text\<close>

definition len :: "string \<Rightarrow> int" where
  "len s = int (length s)"

text \<open>The loop of \<open>_overlap_words\<close> over the reversed words.\<close>

fun overlap_loop :: "int \<Rightarrow> string list \<Rightarrow> int \<Rightarrow> string list \<Rightarrow> string list" where
  "overlap_loop limit overlap n [] = overlap"
| "overlap_loop limit overlap n (w # ws) =
     (let addition = len w + (if overlap \<noteq> [] then 1 else 0) in
      if n + addition > limit then overlap else overlap_loop limit (overlap @ [w]) (n + addition) ws)"

definition overlap_words :: "string list \<Rightarrow> int \<Rightarrow> string list" where
  "overlap_words ws limit = (if limit = 0 then [] else rev (overlap_loop limit [] 0 (rev ws)))"

text \<open>The word loop of \<open>_split_text\<close>.\<close>

fun split_loop ::
  "chunking_configuration \<Rightarrow> string list \<Rightarrow> string list \<Rightarrow> int \<Rightarrow> string list \<Rightarrow> indexing_error + string list" where
  "split_loop c chunks current n [] = Inr (if current \<noteq> [] then chunks @ [join '' '' current] else chunks)"
| "split_loop c chunks current n (w # ws) =
     (if len w > ch_max_characters c then Inl (IndexingValueError ''A normalized token exceeds the chunk maximum'')
      else (let addition = len w + (if current \<noteq> [] then 1 else 0) in
        if current \<noteq> [] \<and> n + addition > ch_max_characters c
        then (let current' = overlap_words current (ch_overlap_characters c) in
          split_loop c (chunks @ [join '' '' current]) (current' @ [w])
            (len (join '' '' current') + (len w + (if length (current' @ [w]) > 1 then 1 else 0))) ws)
        else split_loop c chunks (current @ [w]) (n + (len w + (if length (current @ [w]) > 1 then 1 else 0))) ws))"

definition split_text :: "chunking_configuration \<Rightarrow> string \<Rightarrow> indexing_error + string list" where
  "split_text c text =
     (let normalized = join '' '' (split_ws text) in
      if len normalized \<le> ch_max_characters c then Inr [normalized]
      else split_loop c [] [] 0 (str_split (CHR '' '') normalized))"

fun chunk_sections ::
  "runtime \<Rightarrow> chunking_configuration \<Rightarrow> int \<Rightarrow> normalized_section list \<Rightarrow> indexing_error + chunk_draft list" where
  "chunk_sections rt c ordinal [] = Inr []"
| "chunk_sections rt c ordinal (s # ss) =
     bindE (split_text c (ns_normalized_text s)) (\<lambda>texts.
     bindE (chunk_sections rt c (ordinal + int (length texts)) ss) (\<lambda>rest.
       Inr (map (\<lambda>(k, t). \<lparr>cd_section_id = ns_id s, cd_source_location_id = ns_source_location_id s,
              cd_ordinal = ordinal + int k, cd_normalized_text = t, cd_content_sha256 = sha256_hex rt (utf8_encode t),
              cd_chunking_version = ch_version c\<rparr>) (enumerate 0 texts) @ rest)))"

section \<open>Windows\<close>

text \<open>
  A chunk is a window of the word list.  \<open>windows start ws chunks\<close>: the chunks are non-empty windows of
  \<open>ws\<close>, each starts no later than the previous one ends and ends later, the first starts at the
  beginning and the last ends at the end.
\<close>

definition window :: "string list \<Rightarrow> nat \<Rightarrow> nat \<Rightarrow> string" where
  "window ws a b = join '' '' (take (b - a) (drop a ws))"

fun windows :: "string list \<Rightarrow> nat \<Rightarrow> (nat \<times> nat) list \<Rightarrow> bool" where
  "windows ws reach [] \<longleftrightarrow> reach = length ws"
| "windows ws reach ((a, b) # rest) \<longleftrightarrow> a \<le> reach \<and> reach < b \<and> b \<le> length ws \<and> windows ws b rest"

lemma overlap_loop_prefix: "\<exists>k. overlap_loop limit acc n ws = acc @ take k ws"
proof (induction ws arbitrary: acc n)
  case (Cons w ws)
  then obtain k where k: "overlap_loop limit (acc @ [w]) (n + (len w + (if acc \<noteq> [] then 1 else 0))) ws = (acc @ [w]) @ take k ws"
    by blast
  show ?case
  proof (cases "n + (len w + (if acc \<noteq> [] then 1 else 0)) > limit")
    case True
    then show ?thesis by (intro exI [of _ 0]) (simp add: Let_def)
  next
    case False
    then show ?thesis using k by (intro exI [of _ "Suc k"]) (simp add: Let_def)
  qed
qed auto

lemma overlap_words_suffix: "\<exists>k. overlap_words ws limit = drop k ws"
proof (cases "limit = 0")
  case True
  then show ?thesis by (intro exI [of _ "length ws"]) (simp add: overlap_words_def)
next
  case False
  obtain k where k: "overlap_loop limit [] 0 (rev ws) = take k (rev ws)" using overlap_loop_prefix [of limit "[]" 0 "rev ws"] by auto
  have "rev (take k (rev ws)) = drop (length ws - k) ws" by (simp add: rev_take)
  with False k show ?thesis by (auto simp: overlap_words_def)
qed

lemma len_nonneg [simp]: "0 \<le> len s"
  by (simp add: len_def)

lemma len_join_snoc: "len (join '' '' (ws @ [w])) = len (join '' '' ws) + len w + (if ws \<noteq> [] then 1 else 0)"
proof -
  have "length (join '' '' (ws @ [w])) = length (join '' '' ws) + length w + (if ws \<noteq> [] then 1 else 0)"
    by (induction ws) auto
  then show ?thesis by (simp add: len_def)
qed

lemma join_rev_len: "len (join '' '' (rev ws)) = len (join '' '' ws)"
proof -
  have "length (join '' '' ws) = sum_list (map length ws) + (length ws - 1)" for ws
  proof (induction ws)
    case (Cons w ws)
    then show ?case by (cases ws) auto
  qed simp
  then show ?thesis by (simp add: len_def flip: rev_map)
qed

lemma overlap_loop_len:
  "0 \<le> limit \<Longrightarrow> n = len (join '' '' acc) \<Longrightarrow> n \<le> limit \<Longrightarrow> len (join '' '' (overlap_loop limit acc n ws)) \<le> limit"
proof (induction ws arbitrary: acc n)
  case (Cons w ws)
  let ?n = "n + (len w + (if acc \<noteq> [] then 1 else 0))"
  have "?n = len (join '' '' (acc @ [w]))" using Cons.prems(2) len_join_snoc [of acc w] by simp
  with Cons show ?case by (auto simp: Let_def)
qed simp

lemma overlap_words_len: "0 \<le> limit \<Longrightarrow> len (join '' '' (overlap_words ws limit)) \<le> limit"
  using overlap_loop_len [of limit 0 "[]" "rev ws"] join_rev_len [of "overlap_loop limit [] 0 (rev ws)"]
  by (auto simp: overlap_words_def len_def)

lemma split_loop_flush:
  assumes "current \<noteq> []" "\<not> len w > ch_max_characters c" "n + (len w + 1) > ch_max_characters c"
  shows "split_loop c chunks current n (w # ws) = split_loop c (chunks @ [join '' '' current])
    (overlap_words current (ch_overlap_characters c) @ [w])
    (len (join '' '' (overlap_words current (ch_overlap_characters c)))
      + (len w + (if length (overlap_words current (ch_overlap_characters c) @ [w]) > 1 then 1 else 0))) ws"
  using assms by (simp add: Let_def)

text \<open>The loop at word \<open>b\<close> with the current window \<open>[a, b)\<close>, the last chunk ending before \<open>b\<close>.\<close>

lemma split_loop_windows:
  assumes "split_loop c chunks (take (b - a) (drop a ws)) (len (window ws a b)) (drop b ws) = Inr result"
    and "a \<le> b" "b \<le> length ws" "reach < b \<or> a = b \<and> reach = b \<and> ws = []" "a \<le> reach"
  shows "\<exists>rest. result = chunks @ map (\<lambda>(x, y). window ws x y) rest \<and> windows ws reach rest"
  using assms
proof (induction "length ws - b" arbitrary: chunks a b reach)
  case 0
  then have b: "b = length ws" by simp
  show ?case
  proof (cases "ws = []")
    case False
    then have "reach < b" using 0 by auto
    moreover have "take (b - a) (drop a ws) \<noteq> []" using 0 b \<open>reach < b\<close> by auto
    ultimately show ?thesis using 0 b by (intro exI [of _ "[(a, b)]"]) (auto simp: window_def)
  qed (use 0 b in \<open>auto intro: exI [of _ "[]"]\<close>)
next
  case (Suc k)
  then have bl: "b < length ws" and k: "k = length ws - Suc b" by simp_all
  let ?w = "ws ! b" and ?cur = "take (b - a) (drop a ws)"
  have d: "drop b ws = ?w # drop (Suc b) ws" using bl by (simp add: Cons_nth_drop_Suc)
  have nonempty: "ws \<noteq> []" "reach < b" using bl Suc.prems(4) by auto
  have cur: "?cur \<noteq> []" using nonempty Suc.prems(5) bl by auto
  have ext: "take (Suc b - x) (drop x ws) = take (b - x) (drop x ws) @ [?w]" if "x \<le> b" for x
    using that bl by (simp add: Suc_diff_le take_Suc_conv_app_nth)
  have small: "\<not> len ?w > ch_max_characters c" using Suc.prems(1) d by (auto split: if_splits)
  show ?case
  proof (cases "len (window ws a b) + (len ?w + 1) > ch_max_characters c")
    case True
    obtain j where j: "overlap_words ?cur (ch_overlap_characters c) = drop j ?cur" using overlap_words_suffix by blast
    let ?a = "min (a + j) b"
    have o: "drop j ?cur = take (b - ?a) (drop ?a ws)"
      using Suc.prems(2) by (auto simp: drop_take min_def add.commute)
    have n: "len (join '' '' (drop j ?cur)) + (len ?w + (if length (drop j ?cur @ [?w]) > 1 then 1 else 0)) = len (window ws ?a (Suc b))"
      unfolding window_def ext [of ?a, simplified] o [symmetric] len_join_snoc by auto
    have "split_loop c (chunks @ [window ws a b]) (take (Suc b - ?a) (drop ?a ws)) (len (window ws ?a (Suc b))) (drop (Suc b) ws) = Inr result"
      using Suc.prems(1) split_loop_flush [OF cur small, of "len (window ws a b)"] True j
      unfolding d ext [of ?a, simplified] o [symmetric] n [symmetric] by (simp only: window_def)
    from Suc.hyps(1) [OF k this, of b] bl
    obtain rest where "result = (chunks @ [window ws a b]) @ map (\<lambda>(x, y). window ws x y) rest" "windows ws b rest" by auto
    then show ?thesis using nonempty Suc.prems bl by (intro exI [of _ "(a, b) # rest"]) auto
  next
    case False
    have n: "len (window ws a b) + (len ?w + (if length (?cur @ [?w]) > 1 then 1 else 0)) = len (window ws a (Suc b))"
      unfolding window_def ext [OF Suc.prems(2)] len_join_snoc using cur by auto
    have "split_loop c chunks (take (Suc b - a) (drop a ws)) (len (window ws a (Suc b))) (drop (Suc b) ws) = Inr result"
      using Suc.prems(1) False cur small unfolding d ext [OF Suc.prems(2)] n [symmetric] by (simp add: Let_def)
    from Suc.hyps(1) [OF k this, of reach] bl Suc.prems show ?thesis by auto
  qed
qed


text \<open>The length of a chunk.\<close>

definition chunk_bound :: "chunking_configuration \<Rightarrow> int" where
  "chunk_bound c = ch_max_characters c + (if ch_overlap_characters c = 0 then 0 else ch_overlap_characters c + 1)"

lemma split_loop_bound:
  assumes "split_loop c chunks current n ws = Inr result" "n = len (join '' '' current)" "n \<le> chunk_bound c"
    and "0 \<le> ch_overlap_characters c" "\<forall>x \<in> set chunks. len x \<le> chunk_bound c"
  shows "\<forall>x \<in> set result. len x \<le> chunk_bound c"
  using assms
proof (induction ws arbitrary: chunks current n)
  case (Cons w ws)
  have small: "\<not> len w > ch_max_characters c" using Cons.prems(1) by (auto split: if_splits)
  let ?o = "overlap_words current (ch_overlap_characters c)"
  show ?case
  proof (cases "current \<noteq> [] \<and> n + (len w + 1) > ch_max_characters c")
    case True
    have o: "?o \<noteq> [] \<Longrightarrow> ch_overlap_characters c \<noteq> 0" by (auto simp: overlap_words_def)
    have "len (join '' '' ?o) + (len w + (if length (?o @ [w]) > 1 then 1 else 0)) = len (join '' '' (?o @ [w]))"
      unfolding len_join_snoc by auto
    moreover have "len (join '' '' (?o @ [w])) \<le> chunk_bound c"
      using o overlap_words_len [OF Cons.prems(4), of current] small unfolding len_join_snoc
      by (cases "?o = []") (auto simp: chunk_bound_def len_def)
    moreover have "split_loop c (chunks @ [join '' '' current]) (?o @ [w])
        (len (join '' '' ?o) + (len w + (if length (?o @ [w]) > 1 then 1 else 0))) ws = Inr result"
      using Cons.prems(1) True split_loop_flush [of current c w n chunks ws] small by simp
    moreover have "\<forall>x \<in> set (chunks @ [join '' '' current]). len x \<le> chunk_bound c"
      using Cons.prems(2,3,5) by simp
    ultimately show ?thesis using Cons.IH Cons.prems(4) by metis
  next
    case False
    have n: "n + (len w + (if length (current @ [w]) > 1 then 1 else 0)) = len (join '' '' (current @ [w]))"
      unfolding len_join_snoc using Cons.prems(2) by auto
    have "len (join '' '' (current @ [w])) \<le> chunk_bound c"
      using False small Cons.prems(2,4) unfolding len_join_snoc by (auto simp: chunk_bound_def len_def)
    moreover have "split_loop c chunks (current @ [w]) (len (join '' '' (current @ [w]))) ws = Inr result"
      using Cons.prems(1) False small unfolding n [symmetric] by (simp add: Let_def split: if_splits)
    ultimately show ?thesis using Cons.IH Cons.prems by blast
  qed
qed (auto split: if_splits)

lemma split_loop_fails:
  "(\<exists>e. split_loop c chunks current n ws = Inl e) \<longleftrightarrow> (\<exists>w \<in> set ws. len w > ch_max_characters c)"
  by (induction ws arbitrary: chunks current n) (auto simp: Let_def)

end
