(* ===== verification/Parser_Promotion.thy ===== *)
theory Parser_Promotion
  imports Parser_Claims Markdown_Parser Chunking
begin

text \<open>
  Promotion of parsed requirements to evidence (\<open>parser_evidence_promotion.py\<close>), the worker turn
  around it (\<open>parser_promotion_worker.py\<close>) and the runtime check that precedes it
  (\<open>parser_worker.py\<close>).  The quarantine storage is a parameter.  The outcome lines of the log are not
  modelled.
\<close>

section \<open>Data\<close>

definition MAX_PROMOTED_TEXT_BYTES :: nat where "MAX_PROMOTED_TEXT_BYTES = 2 * 1024 * 1024"
definition PARSER_NAME :: string where "PARSER_NAME = ''markdown-text''"

record document_db =
  dd_projects :: "uuid list"
  dd_documents :: "document_row list"
  dd_versions :: "document_version_row list"
  dd_parser_versions :: "parser_version_row list"
  dd_intakes :: "document_intake_row list"
  dd_parser_jobs :: "parser_job_row list"
  dd_locations :: "source_location_row list"
  dd_sections :: "document_section_row list"
  dd_indexing_jobs :: "indexing_job_row list"

text \<open>\<open>IntakeUnavailable\<close> and \<open>StorageRaised\<close> are what the storage may raise.\<close>

datatype promotion_error =
    PromotionRejected string
  | PromotionClaimRejected string
  | ParserEvidenceUnavailable string
  | IntakeUnavailable
  | StorageRaised

record claimed_document =
  cl_document_type :: string
  cl_raw :: string

record promoted_evidence =
  po_document_version_id :: uuid
  po_parser_version_id :: uuid
  po_section_ids :: "uuid list"
  po_indexing_job_id :: uuid

section \<open>Reading the claimed document\<close>

definition claim_predicate :: "claimed_parser_job \<Rightarrow> instant \<Rightarrow> parser_job_state \<Rightarrow> parser_job_row \<Rightarrow> bool" where
  "claim_predicate claim now state j \<longleftrightarrow> pj_id j = cp_job_id claim \<and> pj_document_intake_id j = cp_document_intake_id claim
     \<and> pj_state j = state \<and> pj_claim_token j = Some (cp_claim_token claim)
     \<and> pj_claimed_at j = Some (cp_claimed_at claim) \<and> pj_claim_expires_at j = Some (cp_claim_expires_at claim)
     \<and> cp_claimed_at claim \<le> now \<and> cp_claim_expires_at claim > now"

definition source_rows :: "document_db \<Rightarrow> claimed_parser_job \<Rightarrow> (document_intake_row \<times> document_row \<times> document_version_row) list" where
  "source_rows db claim =
     [(i, d, v). i \<leftarrow> dd_intakes db, d \<leftarrow> dd_documents db, v \<leftarrow> dd_versions db,
        di_document_id i = Some (dr_id d) \<and> di_document_version_id i = Some (dv_id v)
        \<and> di_id i = cp_document_intake_id claim \<and> di_state i = IntakeQuarantined
        \<and> dr_project_id d = di_project_id i \<and> dv_document_id v = dr_id d]"

text \<open>\<open>one_or_none\<close> on several rows raises an error of SQLAlchemy.\<close>

definition source_of ::
  "document_db \<Rightarrow> claimed_parser_job \<Rightarrow> promotion_error \<Rightarrow> promotion_error + (document_intake_row \<times> document_row \<times> document_version_row)" where
  "source_of db claim unavailable = (case scalar_one_or_none (source_rows db claim) of
     Inl _ \<Rightarrow> Inl unavailable
   | Inr None \<Rightarrow> Inl (PromotionRejected ''PARSER_SOURCE_PROVENANCE_INVALID'')
   | Inr (Some r) \<Rightarrow> Inr r)"

definition validate_source ::
  "runtime \<Rightarrow> document_intake_row \<Rightarrow> document_row \<Rightarrow> document_version_row \<Rightarrow> claimed_document \<Rightarrow> promotion_error + unit" where
  "validate_source rt intake document version parsed_input =
     bindE (require (dr_document_type document \<in> {''markdown'', ''text''})
       (PromotionRejected ''PARSER_DOCUMENT_TYPE_UNSUPPORTED'')) (\<lambda>_.
     let expected_type = (if dr_document_type document = ''markdown'' then ''text/markdown'' else ''text/plain'');
         n = length (cl_raw parsed_input) in
     require (\<not> (cl_document_type parsed_input \<noteq> dr_document_type document
         \<or> di_declared_content_type intake \<noteq> expected_type \<or> dv_content_type version \<noteq> expected_type
         \<or> di_quarantine_key intake = None \<or> \<not> (0 < n \<and> n \<le> MAX_PROMOTED_TEXT_BYTES)
         \<or> int n \<noteq> di_byte_size intake \<or> int n \<noteq> dv_byte_size version
         \<or> Some (sha256_hex rt (cl_raw parsed_input)) \<noteq> di_content_sha256 intake
         \<or> di_content_sha256 intake \<noteq> Some (dv_content_sha256 version)))
       (PromotionRejected ''PARSER_SOURCE_INTEGRITY_INVALID''))"

definition require_active :: "document_db \<Rightarrow> claimed_parser_job \<Rightarrow> instant \<Rightarrow> promotion_error + unit" where
  "require_active db claim now = require (list_ex (claim_predicate claim now ParserClaimed) (dd_parser_jobs db))
     (PromotionClaimRejected ''Parser job claim is not active'')"

text \<open>
  \<open>read\<close> looks at the database before and after the storage, so it takes two databases, two times and
  two outage flags.
\<close>

definition read_claimed ::
  "runtime \<Rightarrow> (string \<Rightarrow> promotion_error + (string \<times> string)) \<Rightarrow> bool \<Rightarrow> instant \<Rightarrow> document_db \<Rightarrow> bool \<Rightarrow> instant \<Rightarrow> document_db
     \<Rightarrow> claimed_parser_job \<Rightarrow> promotion_error + claimed_document" where
  "read_claimed rt storage up now db up' now' db' claim =
     (let unavailable = ParserEvidenceUnavailable ''Parser source could not be read'' in
      bindE (require up unavailable) (\<lambda>_.
      bindE (require_active db claim now) (\<lambda>_.
      bindE (source_of db claim unavailable) (\<lambda>(intake, document, _).
      bindE (case di_quarantine_key intake of None \<Rightarrow> Inl (PromotionRejected ''PARSER_SOURCE_PROVENANCE_INVALID'')
             | Some k \<Rightarrow> Inr k) (\<lambda>key.
      bindE (require (dr_document_type document \<in> {''markdown'', ''text''})
        (PromotionRejected ''PARSER_DOCUMENT_TYPE_UNSUPPORTED'')) (\<lambda>_.
      bindE (storage key) (\<lambda>(raw, content_type).
      let parsed_input = \<lparr>cl_document_type = dr_document_type document, cl_raw = raw\<rparr> in
      bindE (require up' unavailable) (\<lambda>_.
      bindE (require_active db' claim now') (\<lambda>_.
      bindE (source_of db' claim unavailable) (\<lambda>(intake', document', version').
      bindE (require (Some key = di_quarantine_key intake' \<and> content_type = dv_content_type version')
        (PromotionRejected ''PARSER_SOURCE_INTEGRITY_INVALID'')) (\<lambda>_.
      bindE (validate_source rt intake' document' version' parsed_input) (\<lambda>_.
        Inr parsed_input))))))))))))"

section \<open>Promotion\<close>

abbreviation not_stored :: promotion_error where
  "not_stored \<equiv> ParserEvidenceUnavailable ''Parser evidence could not be stored''"

definition stored_or :: "db_error + 'a \<Rightarrow> promotion_error + 'a" where
  "stored_or r = except r (\<lambda>_. not_stored)"

definition is_current_parser :: "parser_version_row \<Rightarrow> bool" where
  "is_current_parser p \<longleftrightarrow> pv_parser_name p = PARSER_NAME \<and> pv_parser_version p = PARSER_VERSION
     \<and> pv_normalization_version p = NORMALIZATION_VERSION"

text \<open>\<open>_parser_version\<close>: the identifier and the table; a key violation without an equal row is raised.\<close>

definition parser_version_of ::
  "uuid \<Rightarrow> instant \<Rightarrow> parser_version_row list \<Rightarrow> promotion_error + (uuid \<times> parser_version_row list)" where
  "parser_version_of fresh now rows = (case find is_current_parser rows of
     Some p \<Rightarrow> Inr (pv_id p, rows)
   | None \<Rightarrow> bindE (stored_or (insert_row parser_version_checks parser_version_conflict
       \<lparr>pv_id = fresh, pv_parser_name = PARSER_NAME, pv_parser_version = PARSER_VERSION,
        pv_normalization_version = NORMALIZATION_VERSION, pv_created_at = now\<rparr> rows)) (\<lambda>rows'. Inr (fresh, rows')))"

definition location_of :: "uuid \<Rightarrow> uuid \<Rightarrow> parsed_requirement \<Rightarrow> source_location_row" where
  "location_of i version r = \<lparr>sl_id = i, sl_document_version_id = version, sl_location_kind = ''line_range'',
     sl_heading = pr_heading r, sl_line_start = Some (int (pr_line_start r)), sl_line_end = Some (int (pr_line_end r)),
     sl_page_start = None, sl_page_end = None, sl_json_pointer = None\<rparr>"

definition section_row_of :: "uuid \<Rightarrow> uuid \<Rightarrow> uuid \<Rightarrow> parsed_requirement \<Rightarrow> document_section_row" where
  "section_row_of i version location r = \<lparr>ds_id = i, ds_document_version_id = version, ds_source_location_id = location,
     ds_ordinal = int (pr_ordinal r), ds_section_key = pr_requirement_id r, ds_normalized_text = pr_normalized_text r,
     ds_content_sha256 = pr_content_sha256 r\<rparr>"

text \<open>The loop over the requirements; the n-th fresh identifier is \<open>ids n\<close>.\<close>

fun insert_evidence ::
  "(nat \<Rightarrow> uuid) \<Rightarrow> nat \<Rightarrow> uuid \<Rightarrow> parsed_requirement list \<Rightarrow> source_location_row list \<Rightarrow> document_section_row list
     \<Rightarrow> promotion_error + (source_location_row list \<times> document_section_row list)" where
  "insert_evidence ids n version [] locations sections = Inr (locations, sections)"
| "insert_evidence ids n version (r # rs) locations sections =
     bindE (stored_or (insert_row source_location_checks source_location_conflict (location_of (ids n) version r) locations)) (\<lambda>ls.
     bindE (stored_or (insert_row document_section_checks document_section_conflict
         (section_row_of (ids (Suc n)) version (ids n) r) sections)) (\<lambda>ss.
       insert_evidence ids (Suc (Suc n)) version rs ls ss))"

definition new_indexing_job :: "uuid \<Rightarrow> uuid \<Rightarrow> uuid \<Rightarrow> instant \<Rightarrow> indexing_job_row" where
  "new_indexing_job i project version now =
     \<lparr>ij_id = i, ij_project_id = project, ij_document_version_id = version, ij_chunking_version = DEFAULT_CHUNKING_VERSION,
      ij_embedding_model = DEFAULT_EMBEDDING_MODEL, ij_embedding_version = DEFAULT_EMBEDDING_VERSION,
      ij_state = IndexingQueued, ij_created_at = now, ij_claim_token = None, ij_claimed_at = None,
      ij_claim_expires_at = None, ij_completed_at = None, ij_failure_code = None\<rparr>"

definition complete_claim ::
  "claimed_parser_job \<Rightarrow> instant \<Rightarrow> parser_job_state \<Rightarrow> string \<Rightarrow> parser_job_row list \<Rightarrow> promotion_error + parser_job_row list" where
  "complete_claim claim now state message rows =
     bindE (stored_or (update_where parser_job_checks (claim_predicate claim now state) (accept_job now) rows)) (\<lambda>(rows', out).
     bindE (require (out \<noteq> []) (PromotionClaimRejected message)) (\<lambda>_. Inr rows'))"

text \<open>The transaction; an error rolls it back.\<close>

definition promote_transaction ::
  "runtime \<Rightarrow> (nat \<Rightarrow> uuid) \<Rightarrow> uuid \<Rightarrow> instant \<Rightarrow> instant \<Rightarrow> claimed_parser_job \<Rightarrow> claimed_document \<Rightarrow> parsed_requirement list
     \<Rightarrow> document_db \<Rightarrow> promotion_error + (promoted_evidence \<times> document_db)" where
  "promote_transaction rt ids parser_id now finished claim document requirements db =
     bindE (complete_claim claim now ParserClaimed ''Parser job claim is not active'' (dd_parser_jobs db)) (\<lambda>jobs.
     bindE (source_of db claim not_stored) (\<lambda>(intake, source_document, version).
     bindE (validate_source rt intake source_document version document) (\<lambda>_.
     bindE (require (case find (\<lambda>p. pv_id p = dv_parser_version_id version) (dd_parser_versions db) of None \<Rightarrow> False
         | Some p \<Rightarrow> (pv_parser_name p, pv_parser_version p, pv_normalization_version p) = (''quarantine-pending'', ''v1'', ''pending''))
       (PromotionRejected ''PARSER_VERSION_NOT_PENDING'')) (\<lambda>_.
     bindE (require (\<not> list_ex (\<lambda>l. sl_document_version_id l = dv_id version) (dd_locations db)
         \<and> \<not> list_ex (\<lambda>s. ds_document_version_id s = dv_id version) (dd_sections db))
       (PromotionRejected ''PARSER_EVIDENCE_ALREADY_EXISTS'')) (\<lambda>_.
     bindE (parser_version_of parser_id now (dd_parser_versions db)) (\<lambda>(pid, parser_versions).
     bindE (stored_or (update_where document_version_checks (\<lambda>v. dv_id v = dv_id version)
         (\<lambda>v. v\<lparr>dv_parser_version_id := pid\<rparr>) (dd_versions db))) (\<lambda>(versions, _).
     bindE (insert_evidence ids 0 (dv_id version) requirements (dd_locations db) (dd_sections db)) (\<lambda>(locations, sections).
     bindE (stored_or (insert_row (\<lambda>j. indexing_job_checks j \<and> ij_project_id j \<in> set (dd_projects db)) indexing_job_conflict
         (new_indexing_job (ids (2 * length requirements)) (dr_project_id source_document) (dv_id version) now)
         (dd_indexing_jobs db))) (\<lambda>indexing.
     bindE (require (finished \<ge> now) (PromotionClaimRejected ''Parser job claim expired during promotion'')) (\<lambda>_.
     bindE (complete_claim claim finished ParserAccepted ''Parser job claim expired during promotion'' jobs) (\<lambda>jobs'.
       Inr (\<lparr>po_document_version_id = dv_id version, po_parser_version_id = pid,
              po_section_ids = map (\<lambda>k. ids (2 * k + 1)) [0..<length requirements],
              po_indexing_job_id = ids (2 * length requirements)\<rparr>,
            db\<lparr>dd_parser_jobs := jobs', dd_parser_versions := parser_versions, dd_versions := versions,
               dd_locations := locations, dd_sections := sections, dd_indexing_jobs := indexing\<rparr>))))))))))))"

definition parse_error :: "parse_rejection \<Rightarrow> promotion_error" where
  "parse_error e = PromotionRejected (rejection_code e)"

definition promote ::
  "runtime \<Rightarrow> bool \<Rightarrow> (nat \<Rightarrow> uuid) \<Rightarrow> uuid \<Rightarrow> instant \<Rightarrow> instant \<Rightarrow> claimed_parser_job \<Rightarrow> claimed_document \<Rightarrow> parsed_requirement list
     \<Rightarrow> document_db \<Rightarrow> (promotion_error + promoted_evidence) \<times> document_db" where
  "promote rt up ids parser_id now finished claim document requirements db =
     (case bindE (require (0 < length (cl_raw document) \<and> length (cl_raw document) \<le> MAX_PROMOTED_TEXT_BYTES)
             (PromotionRejected ''PARSER_SOURCE_INTEGRITY_INVALID'')) (\<lambda>_.
           bindE (except (parse_markdown_or_text rt (cl_document_type document) (cl_raw document)) parse_error) (\<lambda>expected.
           bindE (require (requirements \<noteq> [] \<and> requirements = expected) (PromotionRejected ''PARSER_EVIDENCE_INVALID'')) (\<lambda>_.
           bindE (require (\<not> list_ex (\<lambda>r. case pr_requirement_id r of None \<Rightarrow> False | Some i \<Rightarrow> length i > 255) requirements)
             (PromotionRejected ''PARSER_EVIDENCE_INVALID'')) (\<lambda>_.
           bindE (require up not_stored) (\<lambda>_.
             promote_transaction rt ids parser_id now finished claim document requirements db))))) of
        Inl e \<Rightarrow> (Inl e, db)
      | Inr (evidence, db') \<Rightarrow> (Inr evidence, db'))"

section \<open>The restricted runtime\<close>

definition PARSER_WORKER_ROLE :: string where "PARSER_WORKER_ROLE = ''restricted-parser''"

definition forbidden_credentials :: "string list" where
  "forbidden_credentials = [''OPENAI_API_KEY'', ''ANTHROPIC_API_KEY'', ''AWS_ACCESS_KEY_ID'', ''AWS_SECRET_ACCESS_KEY'', ''AWS_SESSION_TOKEN'']"

definition lambda_role_credentials :: "string list" where
  "lambda_role_credentials = [''AWS_ACCESS_KEY_ID'', ''AWS_SECRET_ACCESS_KEY'', ''AWS_SESSION_TOKEN'']"

definition getenv :: "(string \<times> string) list \<Rightarrow> string \<Rightarrow> string" where
  "getenv env name = (case map_of env name of None \<Rightarrow> [] | Some v \<Rightarrow> v)"

definition lambda_parser_credentials_allowed :: "(string \<times> string) list \<Rightarrow> bool" where
  "lambda_parser_credentials_allowed env \<longleftrightarrow>
     strip (getenv env ''AWS_LAMBDA_FUNCTION_NAME'') \<noteq> []
     \<and> starts_with ''ASIA'' (getenv env ''AWS_ACCESS_KEY_ID'') \<and> getenv env ''AWS_SECRET_ACCESS_KEY'' \<noteq> []
     \<and> strip (getenv env ''AWS_SESSION_TOKEN'') \<noteq> []
     \<and> map_of env ''PARSER_WORKER_ROLE'' = Some PARSER_WORKER_ROLE \<and> map_of env ''PARSER_WORKER_NETWORK'' = Some ''none''
     \<and> \<not> list_ex (\<lambda>n. getenv env n \<noteq> []) (filter (\<lambda>n. n \<notin> set lambda_role_credentials) forbidden_credentials)"

record parser_worker_runtime =
  pw_role :: string
  pw_network :: string
  pw_uid :: "int option"

datatype parser_worker_error = ParserWorkerConfigurationError string

definition parser_runtime_from_environment ::
  "(string \<times> string) list \<Rightarrow> int option \<Rightarrow> parser_worker_error + parser_worker_runtime" where
  "parser_runtime_from_environment env uid =
     (let forbidden = filter (\<lambda>n. getenv env n \<noteq> []) forbidden_credentials;
          runtime = \<lparr>pw_role = getenv env ''PARSER_WORKER_ROLE'', pw_network = getenv env ''PARSER_WORKER_NETWORK'', pw_uid = uid\<rparr> in
      bindE (require (\<not> (forbidden \<noteq> [] \<and> \<not> (set forbidden \<subseteq> set lambda_role_credentials \<and> lambda_parser_credentials_allowed env)))
        (ParserWorkerConfigurationError ''Parser worker received forbidden credential environment variables'')) (\<lambda>_.
      bindE (require (pw_role runtime = PARSER_WORKER_ROLE)
        (ParserWorkerConfigurationError ''Parser worker role is not restricted'')) (\<lambda>_.
      bindE (require (pw_network runtime = ''none'')
        (ParserWorkerConfigurationError ''Parser worker network is not denied'')) (\<lambda>_.
      bindE (require (pw_uid runtime \<noteq> Some 0)
        (ParserWorkerConfigurationError ''Parser worker must not run as root'')) (\<lambda>_.
        Inr runtime)))))"

section \<open>One worker turn\<close>

datatype parser_run_state = RunIdle | RunAccepted | RunRejected | RunFailed | RunNotPublished

record parser_promotion_run =
  pp_state :: parser_run_state
  pp_job_id :: "uuid option"
  pp_document_version_id :: "uuid option"
  pp_section_count :: nat

datatype turn_error = TurnConfiguration parser_worker_error | TurnClaim parser_claim_error | TurnRaised promotion_error

text \<open>The database calls of a turn are numbered 0 to 4; \<open>we_now\<close> are the clock readings.\<close>

record turn_env =
  we_environment :: "(string \<times> string) list"
  we_uid :: "int option"
  we_up :: "nat \<Rightarrow> bool"
  we_now :: "nat \<Rightarrow> instant"
  we_ids :: "nat \<Rightarrow> uuid"
  we_token :: uuid
  we_parser_id :: uuid
  we_storage :: "string \<Rightarrow> promotion_error + (string \<times> string)"

definition worker_claims :: parser_claims where
  "worker_claims = \<lparr>ps_duration = DEFAULT_CLAIM_DURATION, ps_intake_id = None, ps_document_types = Some [''markdown'', ''text'']\<rparr>"

definition terminalize ::
  "turn_env \<Rightarrow> claimed_parser_job \<Rightarrow> bool \<Rightarrow> document_db \<Rightarrow> (turn_error + parser_promotion_run) \<times> document_db" where
  "terminalize w claim rejected db =
     (case (if rejected then parser_reject else parser_fail) (we_up w 4) worker_claims (we_now w 5) claim (dd_parser_jobs db) of
        (Inl (ParserJobClaimRejected m), rows) \<Rightarrow>
          (Inr \<lparr>pp_state = RunNotPublished, pp_job_id = Some (cp_job_id claim), pp_document_version_id = None, pp_section_count = 0\<rparr>, db)
      | (Inl e, rows) \<Rightarrow> (Inl (TurnClaim e), db)
      | (Inr _, rows) \<Rightarrow>
          (Inr \<lparr>pp_state = (if rejected then RunRejected else RunFailed), pp_job_id = Some (cp_job_id claim),
                pp_document_version_id = None, pp_section_count = 0\<rparr>, db\<lparr>dd_parser_jobs := rows\<rparr>))"

definition handle_failure ::
  "turn_env \<Rightarrow> claimed_parser_job \<Rightarrow> promotion_error \<Rightarrow> document_db \<Rightarrow> (turn_error + parser_promotion_run) \<times> document_db" where
  "handle_failure w claim e db = (case e of
     PromotionRejected reason \<Rightarrow> terminalize w claim True db
   | IntakeUnavailable \<Rightarrow> terminalize w claim False db
   | ParserEvidenceUnavailable m \<Rightarrow> terminalize w claim False db
   | PromotionClaimRejected m \<Rightarrow>
       (Inr \<lparr>pp_state = RunNotPublished, pp_job_id = Some (cp_job_id claim), pp_document_version_id = None, pp_section_count = 0\<rparr>, db)
   | StorageRaised \<Rightarrow>
       (case terminalize w claim False db of (Inl e', db') \<Rightarrow> (Inl e', db') | (Inr _, db') \<Rightarrow> (Inl (TurnRaised StorageRaised), db')))"

definition process_claim ::
  "runtime \<Rightarrow> turn_env \<Rightarrow> claimed_parser_job \<Rightarrow> document_db \<Rightarrow> (turn_error + parser_promotion_run) \<times> document_db" where
  "process_claim rt w claim db =
     (case bindE (read_claimed rt (we_storage w) (we_up w 1) (we_now w 1) db (we_up w 2) (we_now w 2) db claim) (\<lambda>document.
           bindE (except (parse_markdown_or_text rt (cl_document_type document) (cl_raw document)) parse_error) (\<lambda>requirements.
             Inr (document, requirements))) of
        Inl e \<Rightarrow> handle_failure w claim e db
      | Inr (document, requirements) \<Rightarrow>
          (case promote rt (we_up w 3) (we_ids w) (we_parser_id w) (we_now w 3) (we_now w 4) claim document requirements db of
             (Inl e, db') \<Rightarrow> handle_failure w claim e db'
           | (Inr evidence, db') \<Rightarrow>
               (Inr \<lparr>pp_state = RunAccepted, pp_job_id = Some (cp_job_id claim),
                     pp_document_version_id = Some (po_document_version_id evidence),
                     pp_section_count = length (po_section_ids evidence)\<rparr>, db')))"

definition parser_run_once ::
  "runtime \<Rightarrow> turn_env \<Rightarrow> document_db \<Rightarrow> (turn_error + parser_promotion_run) \<times> document_db" where
  "parser_run_once rt w db =
     (case parser_runtime_from_environment (we_environment w) (we_uid w) of
        Inl e \<Rightarrow> (Inl (TurnConfiguration e), db)
      | Inr _ \<Rightarrow>
          (case parser_claim_next (we_up w 0) worker_claims (we_now w 0) (we_token w) (dd_intakes db) (dd_documents db)
                  (dd_parser_jobs db) of
             (Inl e, rows) \<Rightarrow> (Inl (TurnClaim e), db)
           | (Inr None, rows) \<Rightarrow>
               (Inr \<lparr>pp_state = RunIdle, pp_job_id = None, pp_document_version_id = None, pp_section_count = 0\<rparr>,
                db\<lparr>dd_parser_jobs := rows\<rparr>)
           | (Inr (Some claim), rows) \<Rightarrow> process_claim rt w claim (db\<lparr>dd_parser_jobs := rows\<rparr>)))"

end
