(* ===== verification/Promotion_Correct.thy ===== *)
theory Promotion_Correct
  imports Parser_Promotion
begin

text \<open>
  What a successful promotion publishes, that it closes the claim as one step of the lease queue, and
  how a worker turn leaves the job it claimed.
\<close>

lemma find_Some_in: "find p xs = Some x \<Longrightarrow> x \<in> set xs \<and> p x"
  by (induction xs) (auto split: if_splits)

section \<open>Closing the claim\<close>

lemma claim_predicate_unique:
  assumes "parser_jobs_ok rows" "j \<in> set rows" "claim_predicate claim now st j"
  shows "k \<in> set rows \<Longrightarrow> claim_predicate claim now' st' k \<Longrightarrow> k = j"
  using parser_jobs.conflict_eq [OF assms(1), of k j] assms(2,3) by (auto simp: claim_predicate_def parser_job_conflict_def)

lemma complete_claim_Inr:
  assumes "complete_claim claim now st m rows = Inr rows'" "parser_jobs_ok rows"
  obtains j where "j \<in> set rows" "claim_predicate claim now st j" "parser_job_checks (accept_job now j)"
    "rows' = map (\<lambda>k. if k = j then accept_job now k else k) rows"
proof -
  from assms(1) have u: "\<forall>r \<in> set rows. claim_predicate claim now st r \<longrightarrow> parser_job_checks (accept_job now r)"
    "rows' = map (\<lambda>r. if claim_predicate claim now st r then accept_job now r else r) rows"
    "filter (claim_predicate claim now st) rows \<noteq> []"
    by (auto simp: complete_claim_def stored_or_def exn_simps store_simps split: prod.splits)
  then obtain j where j: "j \<in> set rows" "claim_predicate claim now st j" by (auto simp: filter_empty_conv)
  have "rows' = map (\<lambda>k. if k = j then accept_job now k else k) rows"
  proof -
    have "claim_predicate claim now st k \<longleftrightarrow> k = j" if "k \<in> set rows" for k
      using j(2) claim_predicate_unique [OF assms(2) j that] by metis
    then show ?thesis unfolding u(2) by (intro map_cong refl) simp
  qed
  with that j u(1) show thesis by simp
qed

lemma accept_job_twice [simp]: "accept_job t (accept_job t' j) = accept_job t j"
  by (simp add: accept_job_def)

lemma accept_keys [simp]: "pj_id (accept_job t j) = pj_id j" "pj_document_intake_id (accept_job t j) = pj_document_intake_id j"
  "pj_state (accept_job t j) = ParserAccepted" "pj_claim_token (accept_job t j) = pj_claim_token j"
  "pj_claimed_at (accept_job t j) = pj_claimed_at j" "pj_claim_expires_at (accept_job t j) = pj_claim_expires_at j"
  "pj_completed_at (accept_job t j) = Some t" "pj_created_at (accept_job t j) = pj_created_at j"
  "pj_failure_code (accept_job t j) = pj_failure_code j"
  by (simp_all add: accept_job_def)

lemma complete_twice:
  assumes "parser_jobs_ok rows" "complete_claim claim now ParserClaimed m rows = Inr rows1"
    "complete_claim claim finished ParserAccepted m' rows1 = Inr rows2"
  obtains j where "j \<in> set rows" "claim_predicate claim now ParserClaimed j" "finished < cp_claim_expires_at claim"
    "parser_job_checks (accept_job finished j)" "rows2 = map (\<lambda>k. if k = j then accept_job finished k else k) rows"
proof -
  obtain j where j: "j \<in> set rows" "claim_predicate claim now ParserClaimed j" "parser_job_checks (accept_job now j)"
    and r1: "rows1 = map (\<lambda>k. if k = j then accept_job now k else k) rows"
    using complete_claim_Inr [OF assms(2,1)] .
  have ok1: "parser_jobs_ok rows1" unfolding r1
    by (rule parser_jobs.map_keeps [OF assms(1)]) (use assms(1) j in \<open>auto simp: table_ok_def parser_job_conflict_def split: if_splits\<close>)
  obtain i where i: "i \<in> set rows1" "claim_predicate claim finished ParserAccepted i" "parser_job_checks (accept_job finished i)"
    and r2: "rows2 = map (\<lambda>k. if k = i then accept_job finished k else k) rows1"
    using complete_claim_Inr [OF assms(3) ok1] .
  have in1: "accept_job now j \<in> set rows1" using j(1) r1 by auto
  have eq: "i = accept_job now j"
    using parser_jobs.conflict_eq [OF ok1 i(1) in1] i(2) j(2) by (simp add: claim_predicate_def parser_job_conflict_def)
  have "k = j" if "k \<in> set rows" "k = accept_job now j" for k
    using parser_jobs.conflict_eq [OF assms(1) that(1) j(1)] that(2) by (simp add: parser_job_conflict_def)
  then have "rows2 = map (\<lambda>k. if k = j then accept_job finished k else k) rows"
    unfolding r2 r1 eq map_map by (intro map_cong) auto
  moreover have "parser_job_checks (accept_job finished j)" "finished < cp_claim_expires_at claim"
    using i(2,3) eq by (simp_all add: claim_predicate_def)
  ultimately show thesis using that j by blast
qed

section \<open>The evidence\<close>

lemma insert_evidence_Inr:
  "insert_evidence ids n version rs ls ss = Inr (ls', ss') \<Longrightarrow>
     ls' = ls @ map (\<lambda>k. location_of (ids (n + 2 * k)) version (rs ! k)) [0..<length rs]
   \<and> ss' = ss @ map (\<lambda>k. section_row_of (ids (n + 2 * k + 1)) version (ids (n + 2 * k)) (rs ! k)) [0..<length rs]"
proof (induction rs arbitrary: n ls ss)
  case (Cons r rs)
  have shift: "map f [0..<length (r # rs)] = f 0 # map (\<lambda>k. f (Suc k)) [0..<length rs]" for f :: "nat \<Rightarrow> 'z"
    by (simp add: upt_conv_Cons map_Suc_upt [symmetric] del: upt_Suc)
  from Cons.prems have "insert_evidence ids (Suc (Suc n)) version rs (ls @ [location_of (ids n) version r])
      (ss @ [section_row_of (ids (Suc n)) version (ids n) r]) = Inr (ls', ss')"
    by (auto simp: exn_simps stored_or_def store_simps)
  from Cons.IH [OF this] show ?case unfolding shift by simp
qed simp

lemma promote_transaction_Inr:
  assumes "promote_transaction rt ids parser_id now finished claim document requirements db = Inr (evidence, db')"
  obtains intake sd version jobs pid where "source_of db claim not_stored = Inr (intake, sd, version)"
    "validate_source rt intake sd version document = Inr ()"
    "complete_claim claim now ParserClaimed ''Parser job claim is not active'' (dd_parser_jobs db) = Inr jobs"
    "complete_claim claim finished ParserAccepted ''Parser job claim expired during promotion'' jobs = Inr (dd_parser_jobs db')"
    "insert_evidence ids 0 (dv_id version) requirements (dd_locations db) (dd_sections db) = Inr (dd_locations db', dd_sections db')"
    "dd_indexing_jobs db' = dd_indexing_jobs db @ [new_indexing_job (ids (2 * length requirements)) (dr_project_id sd) (dv_id version) now]"
    "\<forall>l \<in> set (dd_locations db). sl_document_version_id l \<noteq> dv_id version"
    "\<forall>s \<in> set (dd_sections db). ds_document_version_id s \<noteq> dv_id version"
    "dd_versions db' = map (\<lambda>v. if dv_id v = dv_id version then v\<lparr>dv_parser_version_id := pid\<rparr> else v) (dd_versions db)"
    "\<exists>p \<in> set (dd_parser_versions db'). pv_id p = pid \<and> is_current_parser p"
    "evidence = \<lparr>po_document_version_id = dv_id version, po_parser_version_id = pid,
       po_section_ids = map (\<lambda>k. ids (2 * k + 1)) [0..<length requirements], po_indexing_job_id = ids (2 * length requirements)\<rparr>"
    "dd_documents db' = dd_documents db" "dd_intakes db' = dd_intakes db" "now \<le> finished"
proof -
  from assms obtain jobs intake sd version pid pvs versions x locations sections indexing jobs' where
    e: "complete_claim claim now ParserClaimed ''Parser job claim is not active'' (dd_parser_jobs db) = Inr jobs"
    "source_of db claim not_stored = Inr (intake, sd, version)" "validate_source rt intake sd version document = Inr ()"
    "\<not> list_ex (\<lambda>l. sl_document_version_id l = dv_id version) (dd_locations db)"
    "\<not> list_ex (\<lambda>s. ds_document_version_id s = dv_id version) (dd_sections db)"
    "parser_version_of parser_id now (dd_parser_versions db) = Inr (pid, pvs)"
    "stored_or (update_where document_version_checks (\<lambda>v. dv_id v = dv_id version)
         (\<lambda>v. v\<lparr>dv_parser_version_id := pid\<rparr>) (dd_versions db)) = Inr (versions, x)"
    "insert_evidence ids 0 (dv_id version) requirements (dd_locations db) (dd_sections db) = Inr (locations, sections)"
    "stored_or (insert_row (\<lambda>j. indexing_job_checks j \<and> ij_project_id j \<in> set (dd_projects db)) indexing_job_conflict
         (new_indexing_job (ids (2 * length requirements)) (dr_project_id sd) (dv_id version) now)
         (dd_indexing_jobs db)) = Inr indexing"
    "finished \<ge> now" "complete_claim claim finished ParserAccepted ''Parser job claim expired during promotion'' jobs = Inr jobs'"
    and r: "evidence = \<lparr>po_document_version_id = dv_id version, po_parser_version_id = pid,
              po_section_ids = map (\<lambda>k. ids (2 * k + 1)) [0..<length requirements],
              po_indexing_job_id = ids (2 * length requirements)\<rparr>"
    "db' = db\<lparr>dd_parser_jobs := jobs', dd_parser_versions := pvs, dd_versions := versions,
               dd_locations := locations, dd_sections := sections, dd_indexing_jobs := indexing\<rparr>"
    unfolding promote_transaction_def bindE_eq_Inr require_eq_Inr by (auto simp: bindE_eq_Inr require_eq_Inr)
  have p: "\<exists>p \<in> set pvs. pv_id p = pid \<and> is_current_parser p"
    using e(6) find_Some_in [of is_current_parser "dd_parser_versions db"]
    by (auto simp: parser_version_of_def exn_simps stored_or_def store_simps split: option.splits)
      (simp add: is_current_parser_def)
  show thesis
    by (rule that [of intake sd version jobs pid])
      (use e r p in \<open>auto simp: exn_simps stored_or_def store_simps list_ex_iff\<close>)
qed

text \<open>One published section per requirement, each with its own line location.\<close>

definition published :: "uuid \<Rightarrow> parsed_requirement list \<Rightarrow> document_db \<Rightarrow> bool" where
  "published version rs db \<longleftrightarrow>
     (\<exists>ls ss. ls = filter (\<lambda>l. sl_document_version_id l = version) (dd_locations db)
       \<and> ss = filter (\<lambda>s. ds_document_version_id s = version) (dd_sections db)
       \<and> list_all2 (\<lambda>s r. ds_ordinal s = int (pr_ordinal r) \<and> ds_section_key s = pr_requirement_id r
            \<and> ds_normalized_text s = pr_normalized_text r \<and> ds_content_sha256 s = pr_content_sha256 r) ss rs
       \<and> list_all2 (\<lambda>s l. ds_source_location_id s = sl_id l) ss ls
       \<and> list_all2 (\<lambda>l r. sl_line_start l = Some (int (pr_line_start r)) \<and> sl_line_end l = Some (int (pr_line_end r))
            \<and> sl_heading l = pr_heading r) ls rs)"

lemma insert_evidence_published:
  assumes "insert_evidence ids 0 version rs (dd_locations db) (dd_sections db) = Inr (dd_locations db', dd_sections db')"
    "\<forall>l \<in> set (dd_locations db). sl_document_version_id l \<noteq> version"
    "\<forall>s \<in> set (dd_sections db). ds_document_version_id s \<noteq> version"
  shows "published version rs db'"
proof -
  let ?ls = "map (\<lambda>k. location_of (ids (2 * k)) version (rs ! k)) [0..<length rs]"
  let ?ss = "map (\<lambda>k. section_row_of (ids (2 * k + 1)) version (ids (2 * k)) (rs ! k)) [0..<length rs]"
  have e: "dd_locations db' = dd_locations db @ ?ls" "dd_sections db' = dd_sections db @ ?ss"
    using insert_evidence_Inr [OF assms(1)] by simp_all
  have "filter (\<lambda>l. sl_document_version_id l = version) (dd_locations db') = ?ls"
    unfolding e using assms(2) by (auto simp: filter_empty_conv location_of_def)
  moreover have "filter (\<lambda>s. ds_document_version_id s = version) (dd_sections db') = ?ss"
    unfolding e using assms(3) by (auto simp: filter_empty_conv section_row_of_def)
  ultimately show ?thesis
    unfolding published_def by (intro exI [of _ ?ls] exI [of _ ?ss])
      (auto simp: list_all2_conv_all_nth location_of_def section_row_of_def)
qed


section \<open>The worker turn\<close>

text \<open>The row a claim leaves behind.\<close>

definition held_by :: "claimed_parser_job \<Rightarrow> parser_job_row \<Rightarrow> bool" where
  "held_by c j \<longleftrightarrow> pj_id j = cp_job_id c \<and> pj_document_intake_id j = cp_document_intake_id c \<and> pj_state j = ParserClaimed
     \<and> pj_claim_token j = Some (cp_claim_token c) \<and> pj_claimed_at j = Some (cp_claimed_at c)
     \<and> pj_claim_expires_at j = Some (cp_claim_expires_at c)"

lemma claim_held:
  assumes "parser_claim_next up cfg now token intakes documents rows = (Inr (Some c), rows')" "parser_jobs_ok rows"
  shows "(\<exists>j \<in> set rows'. held_by c j) \<and> parser_jobs_ok rows' \<and> cp_claimed_at c = now \<and> cp_claim_expires_at c = now + ps_duration cfg"
proof -
  let ?cand = "parser_candidate cfg now intakes documents rows"
  have u: "parser_claim_update up (ps_duration cfg) now token ?cand rows = (Inr (Some c), rows')"
    using assms(1) by (simp add: parser_claim_next_def)
  have ok: "parser_jobs_ok rows'" using parser_step_ok [OF parser_step.claim [OF u] assms(2)] .
  let ?p = "\<lambda>j. Some (pj_id j) = ?cand \<and> pj_state j = ParserQueued"
  let ?g = "\<lambda>j. j\<lparr>pj_state := ParserClaimed, pj_claim_token := Some token, pj_claimed_at := Some now,
              pj_claim_expires_at := Some (now + ps_duration cfg)\<rparr>"
  from u obtain j where j: "map ?g (filter ?p rows) = [j]" "rows' = map (\<lambda>r. if ?p r then ?g r else r) rows"
    "c = \<lparr>cp_job_id = pj_id j, cp_document_intake_id = pj_document_intake_id j, cp_claim_token = token,
          cp_claimed_at = now, cp_claim_expires_at = now + ps_duration cfg\<rparr>"
    by (auto simp: parser_claim_update_def store_simps split: if_splits sum.splits option.splits)
  have "j \<in> set (map ?g (filter ?p rows))" using j(1) by simp
  then obtain q where q: "q \<in> set rows" "?p q" "j = ?g q" unfolding set_map set_filter by blast
  then have "j \<in> set rows'" using j(2) by (force simp: image_iff)
  moreover have "held_by c j" using j(3) q(3) by (simp add: held_by_def)
  ultimately show ?thesis using ok j(3) by auto
qed

lemma held_active:
  assumes "held_by c j" "cp_claimed_at c \<le> t" "t < cp_claim_expires_at c"
  shows "claim_predicate c t ParserClaimed j" "parser_claim_active worker_claims c t j"
  using assms by (simp_all add: held_by_def claim_predicate_def parser_claim_active_def parser_scope_def worker_claims_def)

lemma terminalize_closes:
  assumes "parser_jobs_ok (dd_parser_jobs db)" "j \<in> set (dd_parser_jobs db)" "held_by c j" "we_up w 4"
    "cp_claimed_at c \<le> we_now w 5" "we_now w 5 < cp_claim_expires_at c"
  shows "\<exists>run db' k. terminalize w c rejected db = (Inr run, db') \<and> pp_state run = (if rejected then RunRejected else RunFailed)
    \<and> pp_job_id run = Some (cp_job_id c) \<and> k \<in> set (dd_parser_jobs db') \<and> pj_id k = cp_job_id c \<and> pj_state k = (if rejected then ParserRejected else ParserFailed)"
proof -
  note act = held_active(2) [OF assms(3,5,6)]
  let ?st = "if rejected then ParserRejected else ParserFailed"
  let ?code = "if rejected then ''PARSER_DOCUMENT_REJECTED'' else ''PARSER_WORKER_FAILED''"
  obtain rows where r: "parser_finish True worker_claims (we_now w 5) c ?st ?code (dd_parser_jobs db) = (Inr (), rows)"
    using parser_finish_iff [OF assms(1), of ?st ?code worker_claims "we_now w 5" c] act assms(2) by (cases rejected) auto
  then have "rows = map (\<lambda>k. if parser_claim_active worker_claims c (we_now w 5) k
      then k\<lparr>pj_state := ?st, pj_completed_at := Some (we_now w 5), pj_failure_code := Some ?code\<rparr> else k) (dd_parser_jobs db)"
    by (auto simp: parser_finish_def store_simps split: sum.splits list.splits prod.splits)
  then have "j\<lparr>pj_state := ?st, pj_completed_at := Some (we_now w 5), pj_failure_code := Some ?code\<rparr> \<in> set rows"
    using assms(2) act by (force simp: image_iff)
  moreover have "pj_id j = cp_job_id c" using assms(3) by (simp add: held_by_def)
  ultimately show ?thesis using r assms(4)
    by (intro exI [of _ "\<lparr>pp_state = (if rejected then RunRejected else RunFailed), pp_job_id = Some (cp_job_id c),
          pp_document_version_id = None, pp_section_count = 0\<rparr>"] exI [of _ "db\<lparr>dd_parser_jobs := rows\<rparr>"]
        exI [of _ "j\<lparr>pj_state := ?st, pj_completed_at := Some (we_now w 5), pj_failure_code := Some ?code\<rparr>"])
      (cases rejected; simp add: terminalize_def parser_reject_def parser_fail_def)
qed

lemma accept_held_checks:
  assumes "parser_job_checks j" "held_by c j" "cp_claimed_at c \<le> t"
  shows "parser_job_checks (accept_job t j)"
  using assms by (auto simp: parser_job_checks_def parser_job_lifecycle_def held_by_def sql_le_def sql_less_def)

text \<open>While the lease runs, closing it by promotion cannot be refused.\<close>

lemma complete_claim_ok:
  assumes "\<And>k. k \<in> set rows \<Longrightarrow> claim_predicate c t st k \<Longrightarrow> parser_job_checks (accept_job t k)"
    "j \<in> set rows" "claim_predicate c t st j"
  shows "complete_claim c t st m rows = Inr (map (\<lambda>k. if claim_predicate c t st k then accept_job t k else k) rows)"
proof -
  have "filter (claim_predicate c t st) rows \<noteq> []" using assms(2,3) by (auto simp: filter_empty_conv)
  then show ?thesis using assms(1) by (auto simp: complete_claim_def stored_or_def update_where_def list_all_iff)
qed

lemma complete_held:
  assumes "parser_jobs_ok rows" "j \<in> set rows" "held_by c j" "cp_claimed_at c \<le> t" "t < cp_claim_expires_at c"
  shows "complete_claim c t ParserClaimed m rows = Inr (map (\<lambda>k. if claim_predicate c t ParserClaimed k then accept_job t k else k) rows)"
  by (rule complete_claim_ok [OF _ assms(2) held_active(1) [OF assms(3-5)]])
    (use accept_held_checks [of _ c t] assms(1,4) in \<open>auto simp: table_ok_def claim_predicate_def held_by_def\<close>)

lemma complete_accepted:
  assumes "parser_jobs_ok rows" "j \<in> set rows" "held_by c j" "cp_claimed_at c \<le> t" "t < cp_claim_expires_at c"
    "cp_claimed_at c \<le> t'" "t' < cp_claim_expires_at c"
  shows "\<exists>rows'. complete_claim c t' ParserAccepted m (map (\<lambda>k. if claim_predicate c t ParserClaimed k then accept_job t k else k) rows)
    = Inr rows'"
proof -
  let ?rows1 = "map (\<lambda>k. if claim_predicate c t ParserClaimed k then accept_job t k else k) rows"
  note a = held_active(1) [OF assms(3-5)]
  have chk: "parser_job_checks (accept_job t' k)" if "k \<in> set ?rows1" "claim_predicate c t' ParserAccepted k" for k
  proof -
    from that(1) obtain q where q: "q \<in> set rows" "k = (if claim_predicate c t ParserClaimed q then accept_job t q else q)" by auto
    have "pj_id q = pj_id j" using q(2) that(2) assms(3) by (auto simp: claim_predicate_def held_by_def split: if_splits)
    then have "q = j" using parser_jobs.conflict_eq [OF assms(1) q(1) assms(2)] by (simp add: parser_job_conflict_def)
    with a q(2) have "k = accept_job t j" by simp
    then show ?thesis using accept_held_checks [OF _ assms(3,6)] assms(1,2) by (simp add: table_ok_def)
  qed
  have "accept_job t j \<in> set ?rows1" using assms(2) a by (force simp: image_iff)
  moreover have "claim_predicate c t' ParserAccepted (accept_job t j)"
    using assms(3,6,7) by (simp add: claim_predicate_def held_by_def)
  ultimately show ?thesis using complete_claim_ok [OF chk] by blast
qed

text \<open>Results that do not refuse the claim.\<close>

definition keeps_claim :: "promotion_error + 'a \<Rightarrow> bool" where
  "keeps_claim r \<longleftrightarrow> (\<forall>m. r \<noteq> Inl (PromotionClaimRejected m))"

lemma keeps_claim_intros [simp, intro!]:
  "keeps_claim (Inr x)" "keeps_claim (Inl (PromotionRejected m))" "keeps_claim (Inl (ParserEvidenceUnavailable m))"
  "keeps_claim (require b (PromotionRejected m))" "keeps_claim (require b (ParserEvidenceUnavailable m))"
  "keeps_claim (stored_or s)" "keeps_claim (except p parse_error)"
  by (auto simp: keeps_claim_def require_def stored_or_def except_def parse_error_def split: sum.splits)

lemma keeps_claim_bind: "keeps_claim r \<Longrightarrow> (\<And>x. r = Inr x \<Longrightarrow> keeps_claim (f x)) \<Longrightarrow> keeps_claim (bindE r f)"
  by (cases r) (auto simp: keeps_claim_def bindE_def)

lemma keeps_claim_bind2: "keeps_claim r \<Longrightarrow> (\<And>x y. keeps_claim (f x y)) \<Longrightarrow> keeps_claim (bindE r (\<lambda>(x, y). f x y))"
  by (auto intro: keeps_claim_bind)

lemma keeps_claim_bind3:
  "keeps_claim r \<Longrightarrow> (\<And>x y z. keeps_claim (f x y z)) \<Longrightarrow> keeps_claim (bindE r (\<lambda>(x, y, z). f x y z))"
  by (auto intro: keeps_claim_bind)

lemma keeps_claim_parts:
  "keeps_claim (source_of db c (ParserEvidenceUnavailable m))" "keeps_claim (validate_source rt i d v p)"
  "keeps_claim (parser_version_of pid now pvs)" "keeps_claim (insert_evidence ids n version rs ls ss)"
proof -
  show "keeps_claim (source_of db c (ParserEvidenceUnavailable m))"
    by (auto simp: source_of_def split: sum.splits option.splits)
  show "keeps_claim (validate_source rt i d v p)"
    unfolding validate_source_def Let_def by (intro keeps_claim_bind keeps_claim_intros)
  show "keeps_claim (parser_version_of pid now pvs)"
    unfolding parser_version_of_def by (auto split: option.splits intro!: keeps_claim_bind)
  show "keeps_claim (insert_evidence ids n version rs ls ss)"
    by (induction ids n version rs ls ss rule: insert_evidence.induct) (auto intro!: keeps_claim_bind)
qed

lemma promote_keeps_claim:
  assumes "parser_jobs_ok (dd_parser_jobs db)" "j \<in> set (dd_parser_jobs db)" "held_by c j" "cp_claimed_at c \<le> now"
    "now \<le> finished" "finished < cp_claim_expires_at c"
  shows "keeps_claim (fst (promote rt up ids pid now finished c document rs db))"
proof -
  let ?rows1 = "map (\<lambda>k. if claim_predicate c now ParserClaimed k then accept_job now k else k) (dd_parser_jobs db)"
  note c1 = complete_held [OF assms(1-4) order.strict_trans1 [OF assms(5,6)]]
  have c2: "keeps_claim (complete_claim c finished ParserAccepted m ?rows1)" for m
    using complete_accepted [OF assms(1-4) order.strict_trans1 [OF assms(5,6)] order.trans [OF assms(4,5)] assms(6), of m] by auto
  have "keeps_claim (promote_transaction rt ids pid now finished c document rs db)"
    unfolding promote_transaction_def c1
    by (intro keeps_claim_bind keeps_claim_intros) (auto simp: c2 assms(5) require_def intro!: keeps_claim_bind keeps_claim_parts)
  then have "keeps_claim (bindE (require (0 < length (cl_raw document) \<and> length (cl_raw document) \<le> MAX_PROMOTED_TEXT_BYTES)
             (PromotionRejected ''PARSER_SOURCE_INTEGRITY_INVALID'')) (\<lambda>_.
           bindE (except (parse_markdown_or_text rt (cl_document_type document) (cl_raw document)) parse_error) (\<lambda>expected.
           bindE (require (rs \<noteq> [] \<and> rs = expected) (PromotionRejected ''PARSER_EVIDENCE_INVALID'')) (\<lambda>_.
           bindE (require (\<not> list_ex (\<lambda>r. case pr_requirement_id r of None \<Rightarrow> False | Some i \<Rightarrow> length i > 255) rs)
             (PromotionRejected ''PARSER_EVIDENCE_INVALID'')) (\<lambda>_.
           bindE (require up not_stored) (\<lambda>_.
             promote_transaction rt ids pid now finished c document rs db))))))"
    by (intro keeps_claim_bind keeps_claim_intros)
  then show ?thesis unfolding promote_def by (auto simp: keeps_claim_def split: sum.splits)
qed


lemma read_keeps_claim:
  assumes "j \<in> set (dd_parser_jobs db)" "held_by c j" "cp_claimed_at c \<le> t" "t < cp_claim_expires_at c"
    "cp_claimed_at c \<le> t'" "t' < cp_claim_expires_at c" "\<And>key. keeps_claim (storage key)"
  shows "keeps_claim (read_claimed rt storage up t db up' t' db c)"
proof -
  have a: "require_active db c t = Inr ()" "require_active db c t' = Inr ()"
    using held_active(1) [OF assms(2-4)] held_active(1) [OF assms(2,5,6)] assms(1)
    by (auto simp: require_active_def require_def list_ex_iff)
  have key: "keeps_claim (case k of None \<Rightarrow> Inl (PromotionRejected m) | Some x \<Rightarrow> Inr x)" for k :: "string option" and m
    by (cases k) simp_all
  show ?thesis
    unfolding read_claimed_def a Let_def
    unfolding bindE_Inr
    by (intro keeps_claim_bind3 keeps_claim_bind2 keeps_claim_bind keeps_claim_intros(1-5) keeps_claim_parts(1,2) assms(7) key)
qed

text \<open>A failure that does not refuse the claim closes the job; a success has closed it.\<close>

definition turn_closed :: "claimed_parser_job \<Rightarrow> (turn_error + parser_promotion_run) \<times> document_db \<Rightarrow> bool" where
  "turn_closed c out \<longleftrightarrow> (\<exists>k \<in> set (dd_parser_jobs (snd out)). pj_id k = cp_job_id c \<and>
     (case fst out of
        Inr run \<Rightarrow> pp_job_id run = Some (cp_job_id c) \<and>
          (pp_state run, pj_state k) \<in> {(RunAccepted, ParserAccepted), (RunRejected, ParserRejected), (RunFailed, ParserFailed)}
      | Inl e \<Rightarrow> e = TurnRaised StorageRaised \<and> pj_state k = ParserFailed))"

lemma handle_failure_closes:
  assumes "parser_jobs_ok (dd_parser_jobs db)" "j \<in> set (dd_parser_jobs db)" "held_by c j" "we_up w 4"
    "cp_claimed_at c \<le> we_now w 5" "we_now w 5 < cp_claim_expires_at c" "\<And>m. e \<noteq> PromotionClaimRejected m"
  shows "turn_closed c (handle_failure w c e db)"
proof -
  from terminalize_closes [OF assms(1-6), of True] obtain run db' k where r: "terminalize w c True db = (Inr run, db')"
    "pp_state run = RunRejected" "pp_job_id run = Some (cp_job_id c)" "k \<in> set (dd_parser_jobs db')" "pj_id k = cp_job_id c"
    "pj_state k = ParserRejected" by auto
  from terminalize_closes [OF assms(1-6), of False] obtain run' db'' k' where f: "terminalize w c False db = (Inr run', db'')"
    "pp_state run' = RunFailed" "pp_job_id run' = Some (cp_job_id c)" "k' \<in> set (dd_parser_jobs db'')" "pj_id k' = cp_job_id c"
    "pj_state k' = ParserFailed" by auto
  have "turn_closed c (Inr run, db')" "turn_closed c (Inr run', db'')" "turn_closed c (Inl (TurnRaised StorageRaised), db'')"
    using r f by (auto simp: turn_closed_def)
  then show ?thesis using assms(7) by (cases e) (auto simp: handle_failure_def r(1) f(1))
qed

lemma promote_Inr_accepts:
  assumes "promote rt up ids pid now finished c document rs db = (Inr evidence, db')" "parser_jobs_ok (dd_parser_jobs db)"
  shows "\<exists>k \<in> set (dd_parser_jobs db'). pj_id k = cp_job_id c \<and> pj_state k = ParserAccepted"
proof -
  have "promote_transaction rt ids pid now finished c document rs db = Inr (evidence, db')"
    using assms(1) by (auto simp: promote_def bindE_eq_Inr split: sum.splits)
  then obtain jobs m m' where j: "complete_claim c now ParserClaimed m (dd_parser_jobs db) = Inr jobs"
    "complete_claim c finished ParserAccepted m' jobs = Inr (dd_parser_jobs db')"
    by (rule promote_transaction_Inr)
  obtain q where "q \<in> set (dd_parser_jobs db)" "claim_predicate c now ParserClaimed q"
    "dd_parser_jobs db' = map (\<lambda>k. if k = q then accept_job finished k else k) (dd_parser_jobs db)"
    using complete_twice [OF assms(2) j] .
  then show ?thesis by (intro bexI [of _ "accept_job finished q"]) (auto simp: claim_predicate_def)
qed

lemma promote_Inl_same: "promote rt up ids pid now finished c document rs db = (Inl e, db') \<Longrightarrow> db' = db"
  by (auto simp: promote_def split: sum.splits)

lemma process_claim_closes:
  assumes "parser_jobs_ok (dd_parser_jobs db)" "j \<in> set (dd_parser_jobs db)" "held_by c j" "we_up w 4"
    "\<And>i. i \<in> {1..5} \<Longrightarrow> cp_claimed_at c \<le> we_now w i \<and> we_now w i < cp_claim_expires_at c" "we_now w 3 \<le> we_now w 4"
    "\<And>key. keeps_claim (we_storage w key)"
  shows "turn_closed c (process_claim rt w c db)"
proof -
  let ?r = "bindE (read_claimed rt (we_storage w) (we_up w 1) (we_now w 1) db (we_up w 2) (we_now w 2) db c) (\<lambda>document.
           bindE (except (parse_markdown_or_text rt (cl_document_type document) (cl_raw document)) parse_error) (\<lambda>requirements.
             Inr (document, requirements)))"
  have r: "keeps_claim ?r"
    by (intro keeps_claim_bind keeps_claim_intros read_keeps_claim [OF assms(2,3)]) (use assms(5,7) in auto)
  have fail: "turn_closed c (handle_failure w c e db)" if "\<And>m. e \<noteq> PromotionClaimRejected m" for e
    by (rule handle_failure_closes [OF assms(1-4)]) (use assms(5) that in auto)
  show ?thesis
  proof (cases ?r)
    case (Inl e)
    then show ?thesis using r fail [of e] by (auto simp: process_claim_def keeps_claim_def)
  next
    case (Inr a)
    then obtain document rs where e: "?r = Inr (document, rs)" by (cases a) auto
    let ?p = "promote rt (we_up w 3) (we_ids w) (we_parser_id w) (we_now w 3) (we_now w 4) c document rs db"
    have k: "keeps_claim (fst ?p)" by (rule promote_keeps_claim [OF assms(1-3)]) (use assms(5,6) in auto)
    show ?thesis
    proof (cases ?p)
      case (Pair res db')
      show ?thesis
      proof (cases res)
        case (Inl x)
        then have "db' = db" "turn_closed c (handle_failure w c x db)"
          using promote_Inl_same Pair k fail [of x] by (blast, simp add: keeps_claim_def)
        then show ?thesis using e Pair Inl by (simp add: process_claim_def)
      next
        case (Inr ev)
        then show ?thesis using e Pair promote_Inr_accepts [OF _ assms(1)]
          by (auto simp: process_claim_def turn_closed_def)
      qed
    qed
  qed
qed

end
