(* ===== verification/Indexing.thy ===== *)
theory Indexing
  imports Chunking Document_Tables
begin

text \<open>
  The indexing service and its durable store (\<open>indexing.py\<close>).  Every method of the store is one
  transaction on the tables; \<open>ie_up n\<close> says whether the database answers the n-th call, and the n-th
  fresh identifier is \<open>ie_ids n\<close>.  The embedding adapter is a parameter; the requests made to it are
  recorded in the state.
\<close>

section \<open>Tables\<close>

record document_chunk_row =
  ck_id :: uuid
  ck_document_version_id :: uuid
  ck_document_section_id :: "uuid option"
  ck_source_location_id :: uuid
  ck_ordinal :: int
  ck_normalized_text :: string
  ck_content_sha256 :: string
  ck_chunking_version :: string

record embedding_cache_row =
  em_id :: uuid
  em_project_id :: uuid
  em_content_sha256 :: string
  em_embedding_model :: string
  em_embedding_version :: string
  em_dimensions :: int
  em_values :: "string list"
  em_created_at :: instant

record chunk_embedding_row =
  ce_id :: uuid
  ce_document_chunk_id :: uuid
  ce_embedding_cache_id :: uuid
  ce_embedding_model :: string
  ce_embedding_version :: string
  ce_created_at :: instant

definition document_chunk_checks :: "document_chunk_row \<Rightarrow> bool" where
  "document_chunk_checks k \<longleftrightarrow> ck_ordinal k \<ge> 0 \<and> length (sql_trim (ck_normalized_text k)) > 0
     \<and> length (ck_content_sha256 k) = 64 \<and> length (sql_trim (ck_chunking_version k)) > 0
     \<and> length (ck_chunking_version k) \<le> 64"

definition document_chunk_conflict :: "document_chunk_row \<Rightarrow> document_chunk_row \<Rightarrow> bool" where
  "document_chunk_conflict k l \<longleftrightarrow> ck_id k = ck_id l
     \<or> ck_document_version_id k = ck_document_version_id l \<and> ck_chunking_version k = ck_chunking_version l
       \<and> ck_ordinal k = ck_ordinal l"

definition embedding_cache_checks :: "embedding_cache_row \<Rightarrow> bool" where
  "embedding_cache_checks e \<longleftrightarrow> length (em_content_sha256 e) = 64 \<and> length (sql_trim (em_embedding_model e)) > 0
     \<and> length (sql_trim (em_embedding_version e)) > 0 \<and> em_dimensions e > 0
     \<and> length (em_embedding_model e) \<le> 128 \<and> length (em_embedding_version e) \<le> 64"

definition embedding_cache_conflict :: "embedding_cache_row \<Rightarrow> embedding_cache_row \<Rightarrow> bool" where
  "embedding_cache_conflict e f \<longleftrightarrow> em_id e = em_id f
     \<or> em_project_id e = em_project_id f \<and> em_content_sha256 e = em_content_sha256 f
       \<and> em_embedding_model e = em_embedding_model f \<and> em_embedding_version e = em_embedding_version f"

definition chunk_embedding_checks :: "chunk_embedding_row \<Rightarrow> bool" where
  "chunk_embedding_checks e \<longleftrightarrow> length (sql_trim (ce_embedding_model e)) > 0
     \<and> length (sql_trim (ce_embedding_version e)) > 0
     \<and> length (ce_embedding_model e) \<le> 128 \<and> length (ce_embedding_version e) \<le> 64"

definition chunk_embedding_conflict :: "chunk_embedding_row \<Rightarrow> chunk_embedding_row \<Rightarrow> bool" where
  "chunk_embedding_conflict e f \<longleftrightarrow> ce_id e = ce_id f
     \<or> ce_document_chunk_id e = ce_document_chunk_id f \<and> ce_embedding_model e = ce_embedding_model f
       \<and> ce_embedding_version e = ce_embedding_version f"

interpretation document_chunks: table document_chunk_checks document_chunk_conflict
  by unfold_locales (auto simp: document_chunk_conflict_def)

interpretation embedding_cache: table embedding_cache_checks embedding_cache_conflict
  by unfold_locales (auto simp: embedding_cache_conflict_def)

interpretation chunk_embeddings: table chunk_embedding_checks chunk_embedding_conflict
  by unfold_locales (auto simp: chunk_embedding_conflict_def)

section \<open>State\<close>

record indexed_chunk =
  ic_id :: uuid
  ic_content_sha256 :: string
  ic_normalized_text :: string

record cached_embedding =
  ca_id :: uuid
  ca_project_id :: uuid
  ca_content_sha256 :: string
  ca_configuration :: embedding_configuration
  ca_values :: "string list"

record indexing_result =
  ix_document_version_id :: uuid
  ix_chunk_count :: nat
  ix_chunks_created :: nat
  ix_embeddings_created :: nat
  ix_embedding_cache_hits :: nat

record index_store =
  is_projects :: "uuid list"
  is_documents :: "document_row list"
  is_versions :: "document_version_row list"
  is_sections :: "document_section_row list"
  is_chunks :: "document_chunk_row list"
  is_cache :: "embedding_cache_row list"
  is_links :: "chunk_embedding_row list"
  is_calls :: nat
  is_fresh :: nat
  is_requests :: "string list list"

record index_env =
  ie_up :: "nat \<Rightarrow> bool"
  ie_ids :: "nat \<Rightarrow> uuid"
  ie_now :: "nat \<Rightarrow> instant"

type_synonym 'a indexing = "index_store \<Rightarrow> (indexing_error + 'a) \<times> index_store"

definition ret :: "'a \<Rightarrow> 'a indexing" where
  "ret x s = (Inr x, s)"

definition fail_with :: "indexing_error \<Rightarrow> 'a indexing" where
  "fail_with e s = (Inl e, s)"

definition andthen :: "'a indexing \<Rightarrow> ('a \<Rightarrow> 'b indexing) \<Rightarrow> 'b indexing" where
  "andthen m f s = (case m s of (Inl e, s') \<Rightarrow> (Inl e, s') | (Inr x, s') \<Rightarrow> f x s')"

definition lift :: "indexing_error + 'a \<Rightarrow> 'a indexing" where
  "lift r s = (r, s)"

text \<open>A database call: an outage is \<open>IndexingUnavailable\<close> and leaves the tables as they are.\<close>

definition db_call :: "index_env \<Rightarrow> 'a indexing \<Rightarrow> 'a indexing" where
  "db_call env f s =
     (if ie_up env (is_calls s) then f (s\<lparr>is_calls := Suc (is_calls s)\<rparr>)
      else (Inl (IndexingUnavailable []), s\<lparr>is_calls := Suc (is_calls s)\<rparr>))"

lemma andthen_Inr: "andthen m f s = (Inr y, s') \<longleftrightarrow> (\<exists>x t. m s = (Inr x, t) \<and> f x t = (Inr y, s'))"
  by (auto simp: andthen_def split: prod.splits sum.splits)

lemma ret_Inr [simp]: "ret x s = (Inr y, s') \<longleftrightarrow> y = x \<and> s' = s"
  by (auto simp: ret_def)

lemma lift_Inr [simp]: "lift r s = (Inr y, s') \<longleftrightarrow> r = Inr y \<and> s' = s"
  by (auto simp: lift_def)

lemma fail_with_Inr [simp]: "fail_with e s \<noteq> (Inr y, s')"
  by (simp add: fail_with_def)

lemma andthen_Some [simp]: "m s = (Inr x, t) \<Longrightarrow> andthen m f s = f x t"
  by (simp add: andthen_def)

section \<open>The store\<close>

definition section_of :: "document_section_row \<Rightarrow> normalized_section" where
  "section_of r = \<lparr>ns_id = ds_id r, ns_source_location_id = ds_source_location_id r, ns_ordinal = ds_ordinal r,
     ns_normalized_text = ds_normalized_text r\<rparr>"

definition select_sections :: "uuid \<Rightarrow> uuid \<Rightarrow> index_store \<Rightarrow> document_section_row list" where
  "select_sections project version s =
     sort_key (\<lambda>r. (ds_ordinal r, ds_id r)) (filter (\<lambda>r. list_ex (\<lambda>v. dv_id v = ds_document_version_id r \<and> dv_id v = version
       \<and> list_ex (\<lambda>d. dr_id d = dv_document_id v \<and> dr_project_id d = project) (is_documents s)) (is_versions s)) (is_sections s))"

definition sections_for_version :: "index_env \<Rightarrow> uuid \<Rightarrow> uuid \<Rightarrow> normalized_section list indexing" where
  "sections_for_version env project version =
     db_call env (\<lambda>s. (Inr (map section_of (select_sections project version s)), s))"

definition indexed_chunk_of :: "document_chunk_row \<Rightarrow> indexed_chunk" where
  "indexed_chunk_of r = \<lparr>ic_id = ck_id r, ic_content_sha256 = ck_content_sha256 r, ic_normalized_text = ck_normalized_text r\<rparr>"

definition select_chunks :: "uuid \<Rightarrow> string \<Rightarrow> document_chunk_row list \<Rightarrow> document_chunk_row list" where
  "select_chunks version chunking rows = sort_key (\<lambda>r. (ck_ordinal r, ck_id r))
     (filter (\<lambda>r. ck_document_version_id r = version \<and> ck_chunking_version r = chunking) rows)"

definition chunks_for_version :: "index_env \<Rightarrow> uuid \<Rightarrow> string \<Rightarrow> indexed_chunk list indexing" where
  "chunks_for_version env version chunking =
     db_call env (\<lambda>s. (Inr (map indexed_chunk_of (select_chunks version chunking (is_chunks s))), s))"

definition chunk_row_of :: "uuid \<Rightarrow> uuid \<Rightarrow> chunk_draft \<Rightarrow> document_chunk_row" where
  "chunk_row_of version i d =
     \<lparr>ck_id = i, ck_document_version_id = version, ck_document_section_id = Some (cd_section_id d),
      ck_source_location_id = cd_source_location_id d, ck_ordinal = cd_ordinal d, ck_normalized_text = cd_normalized_text d,
      ck_content_sha256 = cd_content_sha256 d, ck_chunking_version = cd_chunking_version d\<rparr>"

text \<open>The references of a chunk: its version, and its section with its location in that version.\<close>

definition chunk_references :: "index_store \<Rightarrow> document_chunk_row \<Rightarrow> bool" where
  "chunk_references s k \<longleftrightarrow> list_ex (\<lambda>v. dv_id v = ck_document_version_id k) (is_versions s)
     \<and> list_ex (\<lambda>r. ds_document_version_id r = ck_document_version_id k \<and> Some (ds_id r) = ck_document_section_id k
         \<and> ds_source_location_id r = ck_source_location_id k) (is_sections s)"

fun insert_rows :: "('r \<Rightarrow> bool) \<Rightarrow> ('r \<Rightarrow> 'r \<Rightarrow> bool) \<Rightarrow> 'r list \<Rightarrow> 'r list \<Rightarrow> db_error + 'r list" where
  "insert_rows checks conflict [] rows = Inr rows"
| "insert_rows checks conflict (r # rs) rows = bindE (insert_row checks conflict r rows) (insert_rows checks conflict rs)"

definition create_chunks :: "index_env \<Rightarrow> uuid \<Rightarrow> chunk_draft list \<Rightarrow> indexed_chunk list indexing" where
  "create_chunks env version drafts =
     (case drafts of
        [] \<Rightarrow> ret []
      | d # ds \<Rightarrow>
          if list_ex (\<lambda>x. cd_chunking_version x \<noteq> cd_chunking_version d) drafts
          then fail_with (IndexingValueError ''All created chunks must use one chunking version'')
          else db_call env (\<lambda>s.
            let existing = select_chunks version (cd_chunking_version d) (is_chunks s) in
            if existing \<noteq> [] then (Inr (map indexed_chunk_of existing), s)
            else let new = map (\<lambda>(k, x). chunk_row_of version (ie_ids env (is_fresh s + k)) x) (enumerate 0 drafts);
                     s' = s\<lparr>is_fresh := is_fresh s + length drafts\<rparr> in
              (case insert_rows (\<lambda>k. document_chunk_checks k \<and> chunk_references s k) document_chunk_conflict new (is_chunks s) of
                 Inl _ \<Rightarrow> (Inl (IndexingUnavailable []), s')
               | Inr rows \<Rightarrow> (Inr (map indexed_chunk_of new), s'\<lparr>is_chunks := rows\<rparr>))))"

definition validate_cached :: "cached_embedding \<Rightarrow> indexing_error + unit" where
  "validate_cached c = require (ca_values c \<noteq> [] \<and> list_all float_finite (ca_values c))
     (EmbeddingProtocolError ''Embedding vectors must be finite and non-empty'')"

definition cached_embedding_of :: "embedding_cache_row \<Rightarrow> cached_embedding" where
  "cached_embedding_of r = \<lparr>ca_id = em_id r, ca_project_id = em_project_id r, ca_content_sha256 = em_content_sha256 r,
     ca_configuration = \<lparr>eb_model = em_embedding_model r, eb_version = em_embedding_version r\<rparr>, ca_values = em_values r\<rparr>"

definition cached_embedding_from_record :: "embedding_cache_row \<Rightarrow> indexing_error + cached_embedding" where
  "cached_embedding_from_record r = bindE (validate_cached (cached_embedding_of r)) (\<lambda>_. Inr (cached_embedding_of r))"

definition cache_key :: "uuid \<Rightarrow> string \<Rightarrow> embedding_configuration \<Rightarrow> embedding_cache_row \<Rightarrow> bool" where
  "cache_key project h eb r \<longleftrightarrow> em_project_id r = project \<and> em_content_sha256 r = h
     \<and> em_embedding_model r = eb_model eb \<and> em_embedding_version r = eb_version eb"

definition find_cached ::
  "index_env \<Rightarrow> uuid \<Rightarrow> string \<Rightarrow> embedding_configuration \<Rightarrow> cached_embedding option indexing" where
  "find_cached env project h eb = db_call env (\<lambda>s. (case find (cache_key project h eb) (is_cache s) of
     None \<Rightarrow> (Inr None, s)
   | Some r \<Rightarrow> (bindE (cached_embedding_from_record r) (\<lambda>c. Inr (Some c)), s)))"

definition create_embedding ::
  "index_env \<Rightarrow> uuid \<Rightarrow> string \<Rightarrow> embedding_configuration \<Rightarrow> string list \<Rightarrow> cached_embedding indexing" where
  "create_embedding env project h eb values s =
     (let i = ie_ids env (is_fresh s); s1 = s\<lparr>is_fresh := Suc (is_fresh s)\<rparr>;
          candidate = \<lparr>ca_id = i, ca_project_id = project, ca_content_sha256 = h, ca_configuration = eb, ca_values = values\<rparr> in
      case validate_cached candidate of
        Inl e \<Rightarrow> (Inl e, s1)
      | Inr _ \<Rightarrow> db_call env (\<lambda>s. (case find (cache_key project h eb) (is_cache s) of
            Some r \<Rightarrow> (cached_embedding_from_record r, s)
          | None \<Rightarrow>
              (case insert_row (\<lambda>e. embedding_cache_checks e \<and> em_project_id e \<in> set (is_projects s)) embedding_cache_conflict
                  \<lparr>em_id = i, em_project_id = project, em_content_sha256 = h, em_embedding_model = eb_model eb,
                   em_embedding_version = eb_version eb, em_dimensions = int (length values), em_values = values,
                   em_created_at = ie_now env (is_calls s)\<rparr> (is_cache s) of
                 Inl _ \<Rightarrow> (Inl (IndexingUnavailable []), s)
               | Inr rows \<Rightarrow> (Inr candidate, s\<lparr>is_cache := rows\<rparr>)))) s1)"

definition link_key :: "uuid \<Rightarrow> embedding_configuration \<Rightarrow> chunk_embedding_row \<Rightarrow> bool" where
  "link_key chunk eb l \<longleftrightarrow> ce_document_chunk_id l = chunk \<and> ce_embedding_model l = eb_model eb
     \<and> ce_embedding_version l = eb_version eb"

definition attach_embedding :: "index_env \<Rightarrow> uuid \<Rightarrow> uuid \<Rightarrow> embedding_configuration \<Rightarrow> unit indexing" where
  "attach_embedding env chunk embedding eb = db_call env (\<lambda>s. (case find (link_key chunk eb) (is_links s) of
     Some l \<Rightarrow> if ce_embedding_cache_id l \<noteq> embedding
       then (Inl (IndexingUnavailable ''Chunk embedding cache identity changed''), s) else (Inr (), s)
   | None \<Rightarrow>
       (let s' = s\<lparr>is_fresh := Suc (is_fresh s)\<rparr> in
        case insert_row (\<lambda>l. chunk_embedding_checks l \<and> ce_document_chunk_id l \<in> ck_id ` set (is_chunks s)
               \<and> ce_embedding_cache_id l \<in> em_id ` set (is_cache s)) chunk_embedding_conflict
             \<lparr>ce_id = ie_ids env (is_fresh s), ce_document_chunk_id = chunk, ce_embedding_cache_id = embedding,
              ce_embedding_model = eb_model eb, ce_embedding_version = eb_version eb,
              ce_created_at = ie_now env (is_calls s)\<rparr> (is_links s) of
          Inl _ \<Rightarrow> (Inl (IndexingUnavailable []), s')
        | Inr rows \<Rightarrow> (Inr (), s'\<lparr>is_links := rows\<rparr>))))"

section \<open>The service\<close>

text \<open>The dictionary \<open>misses\<close>, in insertion order.\<close>

definition setdefault :: "'k \<Rightarrow> 'v \<Rightarrow> ('k \<times> 'v) list \<Rightarrow> ('k \<times> 'v) list" where
  "setdefault k v d = (if k \<in> fst ` set d then d else d @ [(k, v)])"

fun lookup_loop ::
  "index_env \<Rightarrow> uuid \<Rightarrow> embedding_configuration \<Rightarrow> (string \<rightharpoonup> cached_embedding) \<Rightarrow> (string \<times> string) list \<Rightarrow> nat
     \<Rightarrow> indexed_chunk list \<Rightarrow> ((string \<rightharpoonup> cached_embedding) \<times> (string \<times> string) list \<times> nat) indexing" where
  "lookup_loop env project eb cache misses hits [] = ret (cache, misses, hits)"
| "lookup_loop env project eb cache misses hits (k # ks) =
     andthen (find_cached env project (ic_content_sha256 k) eb) (\<lambda>found. case found of
       None \<Rightarrow> lookup_loop env project eb cache (setdefault (ic_content_sha256 k) (ic_normalized_text k) misses) hits ks
     | Some c \<Rightarrow> andthen (lift (validate_cached c)) (\<lambda>_.
         lookup_loop env project eb (cache(ic_content_sha256 k \<mapsto> c)) misses (Suc hits) ks))"

fun create_loop ::
  "index_env \<Rightarrow> uuid \<Rightarrow> embedding_configuration \<Rightarrow> (string \<rightharpoonup> cached_embedding) \<Rightarrow> (string \<times> string list) list
     \<Rightarrow> (string \<rightharpoonup> cached_embedding) indexing" where
  "create_loop env project eb cache [] = ret cache"
| "create_loop env project eb cache ((h, values) # rest) =
     andthen (create_embedding env project h eb values) (\<lambda>c. andthen (lift (validate_cached c)) (\<lambda>_.
       create_loop env project eb (cache(h \<mapsto> c)) rest))"

fun attach_loop ::
  "index_env \<Rightarrow> embedding_configuration \<Rightarrow> (string \<rightharpoonup> cached_embedding) \<Rightarrow> indexed_chunk list \<Rightarrow> unit indexing" where
  "attach_loop env eb cache [] = ret ()"
| "attach_loop env eb cache (k # ks) = (case cache (ic_content_sha256 k) of
     None \<Rightarrow> fail_with (IndexingKeyError (ic_content_sha256 k))
   | Some c \<Rightarrow> andthen (attach_embedding env (ic_id k) (ca_id c) eb) (\<lambda>_. attach_loop env eb cache ks))"

definition request_embeddings ::
  "(string list \<Rightarrow> embedding_configuration \<Rightarrow> indexing_error + string list list) \<Rightarrow> string list \<Rightarrow> embedding_configuration
     \<Rightarrow> string list list indexing" where
  "request_embeddings adapter texts eb s = (adapter texts eb, s\<lparr>is_requests := is_requests s @ [texts]\<rparr>)"

definition embed_misses ::
  "index_env \<Rightarrow> (string list \<Rightarrow> embedding_configuration \<Rightarrow> indexing_error + string list list) \<Rightarrow> uuid \<Rightarrow> embedding_configuration
     \<Rightarrow> (string \<rightharpoonup> cached_embedding) \<Rightarrow> (string \<times> string) list \<Rightarrow> (string \<rightharpoonup> cached_embedding) indexing" where
  "embed_misses env adapter project eb cache misses =
     (if misses = [] then ret cache
      else andthen (request_embeddings adapter (map snd misses) eb) (\<lambda>vectors.
        if length vectors \<noteq> length misses
        then fail_with (EmbeddingProtocolError ''Embedding adapter returned an unexpected vector count'')
        else create_loop env project eb cache (zip (map fst misses) vectors)))"

definition obtain_chunks ::
  "runtime \<Rightarrow> index_env \<Rightarrow> chunking_configuration \<Rightarrow> uuid \<Rightarrow> normalized_section list \<Rightarrow> (indexed_chunk list \<times> nat) indexing" where
  "obtain_chunks rt env ch version sections =
     andthen (chunks_for_version env version (ch_version ch)) (\<lambda>chunks.
       if chunks \<noteq> [] then ret (chunks, 0)
       else andthen (lift (chunk_sections rt ch 0 sections)) (\<lambda>drafts.
         andthen (create_chunks env version drafts) (\<lambda>created. ret (created, length created))))"

definition index ::
  "runtime \<Rightarrow> index_env \<Rightarrow> (string list \<Rightarrow> embedding_configuration \<Rightarrow> indexing_error + string list list)
     \<Rightarrow> chunking_configuration \<Rightarrow> embedding_configuration \<Rightarrow> uuid \<Rightarrow> uuid \<Rightarrow> indexing_result indexing" where
  "index rt env adapter ch eb project version =
     andthen (sections_for_version env project version) (\<lambda>found.
     let sections = sort_key ns_ordinal found in
     andthen (lift (mapE validate_section sections)) (\<lambda>_.
     andthen (obtain_chunks rt env ch version sections) (\<lambda>(chunks, created).
     andthen (lookup_loop env project eb Map.empty [] 0 chunks) (\<lambda>(cache, misses, hits).
     andthen (embed_misses env adapter project eb cache misses) (\<lambda>cache'.
     andthen (attach_loop env eb cache' chunks) (\<lambda>_.
       ret \<lparr>ix_document_version_id = version, ix_chunk_count = length chunks, ix_chunks_created = created,
            ix_embeddings_created = length misses, ix_embedding_cache_hits = hits\<rparr>))))))"

end
