(* ===== verification/Indexing_Correct.thy ===== *)
theory Indexing_Correct
  imports Indexing
begin

text \<open>
  What a successful indexing run establishes, and that a second run finds everything in place.  The
  predicate \<open>indexed\<close> says that every chunk of a version has a cached embedding and is linked to it.
\<close>

section \<open>Drafts\<close>

lemma enumerate_ordinals:
  "map cd_ordinal (map (\<lambda>(k, t). \<lparr>cd_section_id = a, cd_source_location_id = b, cd_ordinal = n + int k, cd_normalized_text = t,
     cd_content_sha256 = f t, cd_chunking_version = v\<rparr>) (enumerate 0 ts)) = map (\<lambda>k. n + int k) [0..<length ts]"
  by (rule nth_equalityI) (auto simp: nth_enumerate_eq)

lemma shifted_upt: "map (\<lambda>k. n + int k) [0..<p] @ map (\<lambda>k. n + int p + int k) [0..<q] = map (\<lambda>k. n + int k) [0..<p + q]"
proof (induction q)
  case (Suc q)
  then show ?case by (simp flip: append_assoc)
qed simp

lemma chunk_sections_ordinals:
  "chunk_sections rt c n ss = Inr ds \<Longrightarrow> map cd_ordinal ds = map (\<lambda>k. n + int k) [0..<length ds]
     \<and> (\<forall>d \<in> set ds. cd_chunking_version d = ch_version c)"
proof (induction ss arbitrary: n ds)
  case (Cons s ss)
  then obtain texts rest where t: "split_text c (ns_normalized_text s) = Inr texts"
    and r: "chunk_sections rt c (n + int (length texts)) ss = Inr rest"
    and d: "ds = map (\<lambda>(k, t). \<lparr>cd_section_id = ns_id s, cd_source_location_id = ns_source_location_id s,
              cd_ordinal = n + int k, cd_normalized_text = t, cd_content_sha256 = sha256_hex rt (utf8_encode t),
              cd_chunking_version = ch_version c\<rparr>) (enumerate 0 texts) @ rest"
    by (auto simp: exn_simps)
  have "map cd_ordinal ds = map (\<lambda>k. n + int k) [0..<length texts] @ map (\<lambda>k. n + int (length texts) + int k) [0..<length rest]"
    unfolding d map_append enumerate_ordinals using Cons.IH [OF r] by simp
  also have "\<dots> = map (\<lambda>k. n + int k) [0..<length ds]" unfolding shifted_upt by (simp add: d)
  finally show ?case using Cons.IH [OF r] d by auto
qed simp

section \<open>Store\<close>

lemma insert_rows_Inr: "insert_rows c k rs rows = Inr rows' \<Longrightarrow> rows' = rows @ rs"
  by (induction rs arbitrary: rows) (fastforce simp: exn_simps store_simps)+

lemma sort_key_Nil: "sort_key f xs = [] \<longleftrightarrow> xs = []"
proof -
  have "length (sort_key f xs) = length xs" by simp
  then show ?thesis by (metis length_0_conv)
qed

lemma find_append: "find p xs = Some r \<Longrightarrow> find p (xs @ ys) = Some r"
  by (induction xs) auto

lemma find_snoc: "find p xs = None \<Longrightarrow> p y \<Longrightarrow> find p (xs @ [y]) = Some y"
  by (induction xs) (auto split: if_splits)

lemma db_call_Inr: "db_call env f s = (Inr x, s') \<longleftrightarrow> ie_up env (is_calls s) \<and> f (s\<lparr>is_calls := Suc (is_calls s)\<rparr>) = (Inr x, s')"
  by (auto simp: db_call_def)

text \<open>Two states with the same tables.\<close>

definition same_tables :: "index_store \<Rightarrow> index_store \<Rightarrow> bool" where
  "same_tables s t \<longleftrightarrow> is_projects t = is_projects s \<and> is_documents t = is_documents s \<and> is_versions t = is_versions s
     \<and> is_sections t = is_sections s \<and> is_chunks t = is_chunks s \<and> is_cache t = is_cache s \<and> is_links t = is_links s"

lemma same_tables_trans: "same_tables s t \<Longrightarrow> same_tables t u \<Longrightarrow> same_tables s u"
  by (simp add: same_tables_def)

text \<open>The stored chunks of a version are what \<open>obtain_chunks\<close> returns.\<close>

lemma sort_by_ordinal:
  assumes "map ck_ordinal rs = map (\<lambda>k. n + int k) [0..<length rs]"
  shows "sort_key (\<lambda>r. (ck_ordinal r, ck_id r)) rs = rs"
proof -
  have "ck_ordinal (rs ! i) = n + int i" if "i < length rs" for i
    using arg_cong [OF assms, of "\<lambda>xs. xs ! i"] that by simp
  then have "sorted (map (\<lambda>r. (ck_ordinal r, ck_id r)) rs)"
    by (auto simp: sorted_iff_nth_mono_less)
  then show ?thesis by (rule sort_key_id_if_sorted)
qed

lemma create_chunks_stored:
  assumes "create_chunks env version ds s = (Inr cs, s')" "map cd_ordinal ds = map (\<lambda>k. n + int k) [0..<length ds]"
    "\<forall>d \<in> set ds. cd_chunking_version d = v" "select_chunks version v (is_chunks s) = []"
  shows "cs = map indexed_chunk_of (select_chunks version v (is_chunks s')) \<and> is_sections s' = is_sections s
    \<and> is_cache s' = is_cache s \<and> is_links s' = is_links s \<and> is_requests s' = is_requests s
    \<and> is_projects s' = is_projects s \<and> is_documents s' = is_documents s \<and> is_versions s' = is_versions s"
proof (cases ds)
  case Nil
  then show ?thesis using assms by (simp add: create_chunks_def)
next
  case (Cons d ds')
  let ?new = "map (\<lambda>(k, x). chunk_row_of version (ie_ids env (is_fresh s + k)) x) (enumerate 0 ds)"
  have v: "cd_chunking_version d = v" using assms(3) Cons by simp
  from assms(1,4) v Cons obtain rows where ins: "insert_rows (\<lambda>k. document_chunk_checks k \<and> chunk_references (s\<lparr>is_calls := Suc (is_calls s)\<rparr>) k)
      document_chunk_conflict ?new (is_chunks s) = Inr rows"
    and r: "cs = map indexed_chunk_of ?new" "s' = s\<lparr>is_calls := Suc (is_calls s), is_fresh := is_fresh s + length ds, is_chunks := rows\<rparr>"
    by (auto simp: create_chunks_def db_call_Inr Let_def split: if_splits sum.splits)
  have o: "map ck_ordinal ?new = map (\<lambda>k. n + int k) [0..<length ?new]"
  proof -
    have "map ck_ordinal ?new = map cd_ordinal ds" by (rule nth_equalityI) (auto simp: nth_enumerate_eq chunk_row_of_def)
    with assms(2) show ?thesis by simp
  qed
  have old: "filter (\<lambda>r. ck_document_version_id r = version \<and> ck_chunking_version r = v) (is_chunks s) = []"
    using assms(4) by (simp add: select_chunks_def sort_key_Nil)
  have "set (enumerate 0 ds) \<subseteq> UNIV \<times> set ds" by (auto simp: in_set_enumerate_eq)
  then have "filter (\<lambda>r. ck_document_version_id r = version \<and> ck_chunking_version r = v) ?new = ?new"
    using assms(3) by (intro filter_True) (auto simp: chunk_row_of_def)
  then have "select_chunks version v (is_chunks s @ ?new) = ?new"
    using old sort_by_ordinal [OF o] by (simp add: select_chunks_def)
  then show ?thesis using r insert_rows_Inr [OF ins] by simp
qed

lemma obtain_chunks_stored:
  assumes "obtain_chunks rt env ch version sections s = (Inr (cs, n), s')"
  shows "cs = map indexed_chunk_of (select_chunks version (ch_version ch) (is_chunks s')) \<and> is_sections s' = is_sections s
    \<and> is_cache s' = is_cache s \<and> is_links s' = is_links s \<and> is_requests s' = is_requests s
    \<and> is_projects s' = is_projects s \<and> is_documents s' = is_documents s \<and> is_versions s' = is_versions s"
proof -
  let ?s1 = "s\<lparr>is_calls := Suc (is_calls s)\<rparr>"
  let ?have = "map indexed_chunk_of (select_chunks version (ch_version ch) (is_chunks s))"
  from assms consider "?have \<noteq> []" "cs = ?have" "s' = ?s1"
    | ds where "?have = []" "chunk_sections rt ch 0 sections = Inr ds" "create_chunks env version ds ?s1 = (Inr cs, s')"
    by (auto simp: obtain_chunks_def andthen_Inr chunks_for_version_def db_call_Inr split: if_splits)
  then show ?thesis
  proof cases
    case 2
    then show ?thesis using create_chunks_stored [OF 2(3), of 0 "ch_version ch"] chunk_sections_ordinals [OF 2(2)] by auto
  qed auto
qed

section \<open>The loops\<close>

text \<open>The dictionary agrees with the cache table.\<close>

definition cache_agrees :: "uuid \<Rightarrow> embedding_configuration \<Rightarrow> (string \<rightharpoonup> cached_embedding) \<Rightarrow> embedding_cache_row list \<Rightarrow> bool" where
  "cache_agrees project eb cache rows \<longleftrightarrow> (\<forall>h c. cache h = Some c \<longrightarrow>
     (\<exists>r. find (cache_key project h eb) rows = Some r \<and> cached_embedding_of r = c \<and> validate_cached c = Inr ()))"

lemma cache_agrees_append: "cache_agrees project eb cache rows \<Longrightarrow> cache_agrees project eb cache (rows @ added)"
  unfolding cache_agrees_def using find_append by metis

lemma find_cached_Inr:
  "find_cached env project h eb s = (Inr x, s') \<Longrightarrow> s' = s\<lparr>is_calls := Suc (is_calls s)\<rparr>
     \<and> (case x of None \<Rightarrow> find (cache_key project h eb) (is_cache s) = None
        | Some c \<Rightarrow> \<exists>r. find (cache_key project h eb) (is_cache s) = Some r \<and> cached_embedding_of r = c \<and> validate_cached c = Inr ())"
  by (auto simp: find_cached_def db_call_Inr cached_embedding_from_record_def exn_simps split: option.splits)

lemma lookup_loop_Inr:
  assumes "lookup_loop env project eb cache misses hits ks s = (Inr (cache', misses', hits'), s')"
    "cache_agrees project eb cache (is_cache s)"
  shows "same_tables s s' \<and> is_requests s' = is_requests s \<and> cache_agrees project eb cache' (is_cache s)
    \<and> hits' + length (filter (\<lambda>k. find (cache_key project (ic_content_sha256 k) eb) (is_cache s) = None) ks) = hits + length ks
    \<and> dom cache \<subseteq> dom cache' \<and> fst ` set misses \<subseteq> fst ` set misses'
    \<and> (\<forall>k \<in> set ks. ic_content_sha256 k \<in> dom cache' \<union> fst ` set misses')
    \<and> (\<forall>h \<in> fst ` set misses'. h \<in> fst ` set misses \<or> find (cache_key project h eb) (is_cache s) = None)
    \<and> (distinct (map fst misses) \<longrightarrow> distinct (map fst misses'))"
  using assms
proof (induction ks arbitrary: cache misses hits s)
  case (Cons k ks)
  let ?h = "ic_content_sha256 k" and ?s1 = "s\<lparr>is_calls := Suc (is_calls s)\<rparr>"
  obtain x where x: "find_cached env project ?h eb s = (Inr x, ?s1)"
    using Cons.prems(1) find_cached_Inr by (fastforce simp: andthen_Inr)
  have sel: "case x of None \<Rightarrow> find (cache_key project ?h eb) (is_cache s) = None
      | Some c \<Rightarrow> \<exists>r. find (cache_key project ?h eb) (is_cache s) = Some r \<and> cached_embedding_of r = c \<and> validate_cached c = Inr ()"
    using find_cached_Inr [OF x] by simp
  show ?case
  proof (cases x)
    case None
    let ?m = "setdefault ?h (ic_normalized_text k) misses"
    have m: "?h \<in> fst ` set ?m" "fst ` set misses \<subseteq> fst ` set ?m" "fst ` set ?m \<subseteq> insert ?h (fst ` set misses)"
      "distinct (map fst misses) \<Longrightarrow> distinct (map fst ?m)"
      by (auto simp: setdefault_def)
    have run: "lookup_loop env project eb cache ?m hits ks ?s1 = (Inr (cache', misses', hits'), s')"
      using Cons.prems(1) x None by simp
    have ag: "cache_agrees project eb cache (is_cache ?s1)" using Cons.prems(2) by simp
    have none: "find (cache_key project ?h eb) (is_cache s) = None" using sel None by simp
    note r = Cons.IH [OF run ag]
    have x1: "same_tables s s'" "is_requests s' = is_requests s" "cache_agrees project eb cache' (is_cache s)" "dom cache \<subseteq> dom cache'"
      "hits' + length (filter (\<lambda>k. find (cache_key project (ic_content_sha256 k) eb) (is_cache s) = None) (k # ks)) = hits + length (k # ks)"
      using r none by (auto simp: same_tables_def)
    have sub: "fst ` set ?m \<subseteq> fst ` set misses'" using r by simp
    have x2: "\<forall>k' \<in> set (k # ks). ic_content_sha256 k' \<in> dom cache' \<union> fst ` set misses'" using r m(1) sub by auto
    have x3: "\<forall>h \<in> fst ` set misses'. h \<in> fst ` set misses \<or> find (cache_key project h eb) (is_cache s) = None"
    proof
      fix h assume "h \<in> fst ` set misses'"
      then have "h \<in> fst ` set ?m \<or> find (cache_key project h eb) (is_cache s) = None" using r by auto
      then have "h \<in> insert ?h (fst ` set misses) \<or> find (cache_key project h eb) (is_cache s) = None"
        by (rule disj_forward) (rule subsetD [OF m(3)])
      then show "h \<in> fst ` set misses \<or> find (cache_key project h eb) (is_cache s) = None" using none by (elim disjE insertE) simp_all
    qed
    have x4: "distinct (map fst misses) \<longrightarrow> distinct (map fst misses')" using r m(4) by blast
    show ?thesis by (intro conjI x1 x2 x3 x4 subset_trans [OF m(2) sub])
  next
    case (Some c)
    have run: "lookup_loop env project eb (cache(?h \<mapsto> c)) misses (Suc hits) ks ?s1 = (Inr (cache', misses', hits'), s')"
      using Cons.prems(1) x Some sel by (auto simp: andthen_def lift_def)
    have ag: "cache_agrees project eb (cache(?h \<mapsto> c)) (is_cache ?s1)"
      using Cons.prems(2) sel Some by (auto simp: cache_agrees_def)
    have d: "dom (cache(?h \<mapsto> c)) = insert ?h (dom cache)" by simp
    show ?thesis using Cons.IH [OF run ag] sel Some unfolding d by (auto simp: same_tables_def)
  qed
qed (auto simp: same_tables_def)

lemma create_embedding_Inr:
  assumes "create_embedding env project h eb values s = (Inr c, s')"
  shows "(\<exists>added. is_cache s' = is_cache s @ added) \<and> is_chunks s' = is_chunks s \<and> is_sections s' = is_sections s
    \<and> is_links s' = is_links s \<and> is_requests s' = is_requests s \<and> is_projects s' = is_projects s \<and> is_documents s' = is_documents s
    \<and> is_versions s' = is_versions s
    \<and> (\<exists>r. find (cache_key project h eb) (is_cache s') = Some r \<and> cached_embedding_of r = c \<and> validate_cached c = Inr ())"
proof -
  let ?c = "\<lparr>ca_id = ie_ids env (is_fresh s), ca_project_id = project, ca_content_sha256 = h, ca_configuration = eb, ca_values = values\<rparr>"
  let ?s1 = "s\<lparr>is_fresh := Suc (is_fresh s), is_calls := Suc (is_calls s)\<rparr>"
  let ?r = "\<lparr>em_id = ie_ids env (is_fresh s), em_project_id = project, em_content_sha256 = h, em_embedding_model = eb_model eb,
                   em_embedding_version = eb_version eb, em_dimensions = int (length values), em_values = values,
                   em_created_at = ie_now env (Suc (is_calls s))\<rparr>"
  have v: "validate_cached ?c = Inr ()" using assms by (auto simp: create_embedding_def Let_def split: sum.splits)
  from assms v consider r where "find (cache_key project h eb) (is_cache s) = Some r" "cached_embedding_from_record r = Inr c" "s' = ?s1"
    | "find (cache_key project h eb) (is_cache s) = None" "c = ?c" "s' = ?s1\<lparr>is_cache := is_cache s @ [?r]\<rparr>"
    by (auto simp: create_embedding_def Let_def db_call_Inr store_simps split: option.splits sum.splits)
  then show ?thesis
  proof cases
    case 1
    then show ?thesis by (auto simp: cached_embedding_from_record_def exn_simps)
  next
    case 2
    have "cache_key project h eb ?r" by (simp add: cache_key_def)
    with 2 v show ?thesis using find_snoc [of "cache_key project h eb" "is_cache s" ?r] by (simp add: cached_embedding_of_def)
  qed
qed

lemma create_loop_Inr:
  assumes "create_loop env project eb cache hvs s = (Inr cache', s')" "cache_agrees project eb cache (is_cache s)"
  shows "(\<exists>added. is_cache s' = is_cache s @ added) \<and> is_chunks s' = is_chunks s \<and> is_sections s' = is_sections s
    \<and> is_links s' = is_links s \<and> is_requests s' = is_requests s \<and> is_projects s' = is_projects s \<and> is_documents s' = is_documents s
    \<and> is_versions s' = is_versions s \<and> cache_agrees project eb cache' (is_cache s') \<and> dom cache' = dom cache \<union> fst ` set hvs"
  using assms
proof (induction hvs arbitrary: cache s)
  case (Cons hv hvs)
  obtain h vs where hv: "hv = (h, vs)" by fastforce
  obtain c s1 where c: "create_embedding env project h eb vs s = (Inr c, s1)" "validate_cached c = Inr ()"
    and run: "create_loop env project eb (cache(h \<mapsto> c)) hvs s1 = (Inr cache', s')"
    using Cons.prems(1) unfolding hv by (auto simp: andthen_Inr)
  note e = create_embedding_Inr [OF c(1)]
  have "cache_agrees project eb cache (is_cache s1)" using e cache_agrees_append [OF Cons.prems(2)] by auto
  then have "cache_agrees project eb (cache(h \<mapsto> c)) (is_cache s1)" using e by (auto simp: cache_agrees_def)
  from Cons.IH [OF run this] e show ?case unfolding hv by auto
qed auto

lemma attach_Inr:
  assumes "attach_embedding env chunk i eb s = (Inr u, s')"
  shows "(\<exists>added. is_links s' = is_links s @ added) \<and> is_cache s' = is_cache s \<and> is_chunks s' = is_chunks s
    \<and> is_sections s' = is_sections s \<and> is_requests s' = is_requests s \<and> is_projects s' = is_projects s
    \<and> is_documents s' = is_documents s \<and> is_versions s' = is_versions s
    \<and> (\<exists>l. find (link_key chunk eb) (is_links s') = Some l \<and> ce_embedding_cache_id l = i)"
proof -
  let ?l = "\<lparr>ce_id = ie_ids env (is_fresh s), ce_document_chunk_id = chunk, ce_embedding_cache_id = i,
              ce_embedding_model = eb_model eb, ce_embedding_version = eb_version eb, ce_created_at = ie_now env (Suc (is_calls s))\<rparr>"
  let ?s1 = "s\<lparr>is_calls := Suc (is_calls s)\<rparr>"
  from assms consider l where "find (link_key chunk eb) (is_links s) = Some l" "ce_embedding_cache_id l = i" "s' = ?s1"
    | "find (link_key chunk eb) (is_links s) = None" "s' = ?s1\<lparr>is_fresh := Suc (is_fresh s), is_links := is_links s @ [?l]\<rparr>"
    by (auto simp: attach_embedding_def db_call_Inr Let_def store_simps split: option.splits sum.splits if_splits)
  then show ?thesis
  proof cases
    case 2
    have "link_key chunk eb ?l" by (simp add: link_key_def)
    with 2 show ?thesis using find_snoc [of "link_key chunk eb" "is_links s" ?l] by simp
  qed auto
qed

lemma attach_loop_Inr:
  assumes "attach_loop env eb cache ks s = (Inr u, s')"
  shows "(\<exists>added. is_links s' = is_links s @ added) \<and> is_cache s' = is_cache s \<and> is_chunks s' = is_chunks s
    \<and> is_sections s' = is_sections s \<and> is_requests s' = is_requests s \<and> is_projects s' = is_projects s
    \<and> is_documents s' = is_documents s \<and> is_versions s' = is_versions s
    \<and> (\<forall>k \<in> set ks. \<exists>c l. cache (ic_content_sha256 k) = Some c \<and> find (link_key (ic_id k) eb) (is_links s') = Some l
         \<and> ce_embedding_cache_id l = ca_id c)"
  using assms
proof (induction ks arbitrary: s)
  case (Cons k ks)
  obtain c s1 where c: "cache (ic_content_sha256 k) = Some c" "attach_embedding env (ic_id k) (ca_id c) eb s = (Inr (), s1)"
    and run: "attach_loop env eb cache ks s1 = (Inr u, s')"
    using Cons.prems by (auto simp: andthen_Inr split: option.splits)
  note a = attach_Inr [OF c(2)] and r = Cons.IH [OF run]
  obtain l where l: "find (link_key (ic_id k) eb) (is_links s1) = Some l" "ce_embedding_cache_id l = ca_id c" using a by blast
  obtain added where "is_links s' = is_links s1 @ added" using r by blast
  then have "find (link_key (ic_id k) eb) (is_links s') = Some l" using find_append [OF l(1)] by simp
  with c(1) l(2) a r show ?case by auto
qed auto


section \<open>The whole run\<close>

definition chunk_indexed :: "uuid \<Rightarrow> embedding_configuration \<Rightarrow> index_store \<Rightarrow> indexed_chunk \<Rightarrow> bool" where
  "chunk_indexed project eb s k \<longleftrightarrow> (\<exists>r l. find (cache_key project (ic_content_sha256 k) eb) (is_cache s) = Some r
     \<and> validate_cached (cached_embedding_of r) = Inr ()
     \<and> find (link_key (ic_id k) eb) (is_links s) = Some l \<and> ce_embedding_cache_id l = em_id r)"

definition version_chunks :: "chunking_configuration \<Rightarrow> uuid \<Rightarrow> index_store \<Rightarrow> indexed_chunk list" where
  "version_chunks ch version s = map indexed_chunk_of (select_chunks version (ch_version ch) (is_chunks s))"

definition sections_valid :: "uuid \<Rightarrow> uuid \<Rightarrow> index_store \<Rightarrow> bool" where
  "sections_valid project version s \<longleftrightarrow>
     (\<exists>us. mapE validate_section (sort_key ns_ordinal (map section_of (select_sections project version s))) = Inr us)"

lemma select_sections_calls [simp]: "select_sections project version (s\<lparr>is_calls := n\<rparr>) = select_sections project version s"
  by (simp add: select_sections_def)

lemma embed_misses_Inr:
  assumes "embed_misses env adapter project eb cache misses s = (Inr cache', s')" "cache_agrees project eb cache (is_cache s)"
  shows "is_chunks s' = is_chunks s \<and> is_sections s' = is_sections s \<and> is_documents s' = is_documents s \<and> is_versions s' = is_versions s
    \<and> cache_agrees project eb cache' (is_cache s') \<and> dom cache' = dom cache \<union> fst ` set misses
    \<and> is_requests s' = is_requests s @ (if misses = [] then [] else [map snd misses])"
proof (cases "misses = []")
  case False
  let ?s1 = "s\<lparr>is_requests := is_requests s @ [map snd misses]\<rparr>"
  obtain vs where v: "length vs = length misses" "create_loop env project eb cache (zip (map fst misses) vs) ?s1 = (Inr cache', s')"
    using assms(1) False by (auto simp: embed_misses_def andthen_Inr request_embeddings_def split: if_splits)
  have "fst ` set (zip (map fst misses) vs) = fst ` set misses"
    using v(1) by (metis length_map list.set_map map_fst_zip)
  then show ?thesis using create_loop_Inr [OF v(2)] assms(2) False by simp
qed (use assms in \<open>simp add: embed_misses_def\<close>)

lemma index_establishes:
  assumes "index rt env adapter ch eb project version s = (Inr res, s')"
  shows "sections_valid project version s' \<and> (\<forall>k \<in> set (version_chunks ch version s'). chunk_indexed project eb s' k)
    \<and> ix_chunk_count res = length (version_chunks ch version s')
    \<and> (\<exists>texts. is_requests s' = is_requests s @ texts \<and> length texts \<le> 1
        \<and> (texts = [] \<longleftrightarrow> ix_embeddings_created res = 0)
        \<and> (\<forall>ts \<in> set texts. length ts = ix_embeddings_created res))"
proof -
  let ?sec = "sort_key ns_ordinal (map section_of (select_sections project version s))"
  let ?s1 = "s\<lparr>is_calls := Suc (is_calls s)\<rparr>"
  obtain us cs n s2 cache misses hits s3 cache' s4 where
    val: "mapE validate_section ?sec = Inr us"
    and chunks: "obtain_chunks rt env ch version ?sec ?s1 = (Inr (cs, n), s2)"
    and look: "lookup_loop env project eb Map.empty [] 0 cs s2 = (Inr (cache, misses, hits), s3)"
    and emb: "embed_misses env adapter project eb cache misses s3 = (Inr cache', s4)"
    and att: "attach_loop env eb cache' cs s4 = (Inr (), s')"
    and res: "ix_chunk_count res = length cs" "ix_embeddings_created res = length misses"
    using assms by (auto simp: index_def andthen_Inr sections_for_version_def db_call_Inr Let_def)
  note o = obtain_chunks_stored [OF chunks]
  have "cache_agrees project eb Map.empty (is_cache s2)" by (simp add: cache_agrees_def)
  note l = lookup_loop_Inr [OF look this]
  have "cache_agrees project eb cache (is_cache s3)" using l by (simp add: same_tables_def)
  note e = embed_misses_Inr [OF emb this] and a = attach_loop_Inr [OF att]
  have vc: "version_chunks ch version s' = cs"
    using o l e a by (simp add: version_chunks_def same_tables_def)
  have "chunk_indexed project eb s' k" if k: "k \<in> set cs" for k
  proof -
    obtain c l' where c: "cache' (ic_content_sha256 k) = Some c" "find (link_key (ic_id k) eb) (is_links s') = Some l'"
      "ce_embedding_cache_id l' = ca_id c" using a k by blast
    obtain r where "find (cache_key project (ic_content_sha256 k) eb) (is_cache s4) = Some r" "cached_embedding_of r = c"
      "validate_cached c = Inr ()" using e c(1) unfolding cache_agrees_def by blast
    then show ?thesis using c a by (auto simp: chunk_indexed_def cached_embedding_of_def)
  qed
  moreover have "sections_valid project version s'"
    using val o l e a by (auto simp: sections_valid_def select_sections_def same_tables_def)
  moreover have "is_requests s' = is_requests s @ (if misses = [] then [] else [map snd misses])"
    using o l e a by simp
  ultimately show ?thesis using vc res
    by (intro conjI exI [of _ "if misses = [] then [] else [map snd misses]"]) auto
qed

lemma lookup_loop_hits:
  assumes "\<forall>k \<in> set ks. chunk_indexed project eb s k" "\<forall>n. ie_up env n" "cache_agrees project eb cache (is_cache s)"
  shows "\<exists>cache' s'. lookup_loop env project eb cache misses hits ks s = (Inr (cache', misses, hits + length ks), s')
    \<and> s' = s\<lparr>is_calls := is_calls s + length ks\<rparr> \<and> cache_agrees project eb cache' (is_cache s)
    \<and> dom cache' = dom cache \<union> ic_content_sha256 ` set ks"
  using assms
proof (induction ks arbitrary: cache hits s)
  case Nil
  then show ?case by (simp add: ret_def)
next
  case (Cons k ks)
  let ?s1 = "s\<lparr>is_calls := Suc (is_calls s)\<rparr>" and ?h = "ic_content_sha256 k"
  obtain r where r: "find (cache_key project ?h eb) (is_cache s) = Some r" "validate_cached (cached_embedding_of r) = Inr ()"
    using Cons.prems(1) by (auto simp: chunk_indexed_def)
  have f: "find_cached env project ?h eb s = (Inr (Some (cached_embedding_of r)), ?s1)"
    using r Cons.prems(2) by (simp add: find_cached_def db_call_def cached_embedding_from_record_def)
  have ag: "cache_agrees project eb (cache(?h \<mapsto> cached_embedding_of r)) (is_cache ?s1)"
    using Cons.prems(3) r by (auto simp: cache_agrees_def)
  have ci: "\<forall>k \<in> set ks. chunk_indexed project eb ?s1 k" using Cons.prems(1) by (auto simp: chunk_indexed_def)
  have "lookup_loop env project eb cache misses hits (k # ks) s =
      lookup_loop env project eb (cache(?h \<mapsto> cached_embedding_of r)) misses (Suc hits) ks ?s1"
    using f r(2) by (simp add: andthen_def lift_def)
  moreover obtain cache' where "lookup_loop env project eb (cache(?h \<mapsto> cached_embedding_of r)) misses (Suc hits) ks ?s1 =
      (Inr (cache', misses, Suc hits + length ks), ?s1\<lparr>is_calls := is_calls ?s1 + length ks\<rparr>)"
    "cache_agrees project eb cache' (is_cache ?s1)"
    "dom cache' = dom (cache(?h \<mapsto> cached_embedding_of r)) \<union> ic_content_sha256 ` set ks"
    using Cons.IH [OF ci Cons.prems(2) ag, of "Suc hits"] by blast
  ultimately show ?case by (intro exI [of _ cache']) (auto simp del: lookup_loop.simps)
qed

lemma attach_loop_present:
  assumes "\<forall>k \<in> set ks. chunk_indexed project eb s k" "\<forall>n. ie_up env n" "cache_agrees project eb cache (is_cache s)"
    "ic_content_sha256 ` set ks \<subseteq> dom cache"
  shows "attach_loop env eb cache ks s = (Inr (), s\<lparr>is_calls := is_calls s + length ks\<rparr>)"
  using assms
proof (induction ks arbitrary: s)
  case Nil
  then show ?case by (simp add: ret_def)
next
  case (Cons k ks)
  let ?s1 = "s\<lparr>is_calls := Suc (is_calls s)\<rparr>" and ?h = "ic_content_sha256 k"
  obtain r l where r: "find (cache_key project ?h eb) (is_cache s) = Some r"
      "find (link_key (ic_id k) eb) (is_links s) = Some l" "ce_embedding_cache_id l = em_id r"
    using Cons.prems(1) by (auto simp: chunk_indexed_def)
  obtain c where c: "cache ?h = Some c" using Cons.prems(4) by auto
  have "c = cached_embedding_of r" using Cons.prems(3) c r(1) by (fastforce simp: cache_agrees_def)
  then have "attach_embedding env (ic_id k) (ca_id c) eb s = (Inr (), ?s1)"
    using r Cons.prems(2) by (simp add: attach_embedding_def db_call_def cached_embedding_of_def)
  then have "attach_loop env eb cache (k # ks) s = attach_loop env eb cache ks ?s1" using c by simp
  moreover have "\<forall>k \<in> set ks. chunk_indexed project eb ?s1 k" using Cons.prems(1) by (auto simp: chunk_indexed_def)
  ultimately show ?case using Cons.IH [of ?s1] Cons.prems by simp
qed

lemma index_again:
  assumes "sections_valid project version s" "\<forall>k \<in> set (version_chunks ch version s). chunk_indexed project eb s k"
    "version_chunks ch version s \<noteq> []" "\<forall>n. ie_up env n"
  shows "\<exists>s'. index rt env adapter ch eb project version s =
      (Inr \<lparr>ix_document_version_id = version, ix_chunk_count = length (version_chunks ch version s), ix_chunks_created = 0,
            ix_embeddings_created = 0, ix_embedding_cache_hits = length (version_chunks ch version s)\<rparr>, s')
    \<and> same_tables s s' \<and> is_requests s' = is_requests s \<and> is_fresh s' = is_fresh s"
proof -
  let ?cs = "version_chunks ch version s"
  let ?s1 = "s\<lparr>is_calls := Suc (is_calls s)\<rparr>" and ?s2 = "s\<lparr>is_calls := Suc (Suc (is_calls s))\<rparr>"
  obtain us where us: "mapE validate_section (sort_key ns_ordinal (map section_of (select_sections project version s))) = Inr us"
    using assms(1) by (auto simp: sections_valid_def)
  have oc: "obtain_chunks rt env ch version ss ?s1 = (Inr (?cs, 0), ?s2)" for ss
    using assms(3,4) by (simp add: obtain_chunks_def andthen_def chunks_for_version_def db_call_def version_chunks_def ret_def)
  have ci: "\<forall>k \<in> set ?cs. chunk_indexed project eb ?s2 k" using assms(2) by (auto simp: chunk_indexed_def)
  have "cache_agrees project eb Map.empty (is_cache ?s2)" by (simp add: cache_agrees_def)
  from lookup_loop_hits [OF ci assms(4) this, of "[]" 0] obtain cache where
    l: "lookup_loop env project eb Map.empty [] 0 ?cs ?s2 = (Inr (cache, [], length ?cs), ?s2\<lparr>is_calls := is_calls ?s2 + length ?cs\<rparr>)"
    and c: "cache_agrees project eb cache (is_cache ?s2)" "dom cache = ic_content_sha256 ` set ?cs" by auto
  let ?s3 = "?s2\<lparr>is_calls := is_calls ?s2 + length ?cs\<rparr>"
  have ci3: "\<forall>k \<in> set ?cs. chunk_indexed project eb ?s3 k" using assms(2) by (auto simp: chunk_indexed_def)
  have "attach_loop env eb cache ?cs ?s3 = (Inr (), ?s3\<lparr>is_calls := is_calls ?s3 + length ?cs\<rparr>)"
    by (rule attach_loop_present [OF ci3 assms(4)]) (use c in auto)
  then show ?thesis
    using us oc l assms(4)
    by (simp add: index_def andthen_def sections_for_version_def db_call_def Let_def lift_def embed_misses_def ret_def same_tables_def)
qed

end
