(* ===== verification/Indexing_Claims.thy ===== *)
theory Indexing_Claims
  imports Document_Tables Job_Leases
begin

text \<open>
  Claims on indexing jobs (\<open>indexing_job_claims.py\<close>): the same lease discipline as the parser queue,
  restricted to one chunking and embedding configuration, with acceptance as a terminal outcome of the
  holder.
\<close>

section \<open>Data\<close>

datatype indexing_claim_error =
    IndexingJobUnavailable string
  | IndexingJobClaimRejected string
  | IndexingClaimsValueError string

record claimed_indexing_job =
  cx_job_id :: uuid
  cx_project_id :: uuid
  cx_document_version_id :: uuid
  cx_chunking_version :: string
  cx_embedding_model :: string
  cx_embedding_version :: string
  cx_claim_token :: uuid
  cx_claimed_at :: instant
  cx_claim_expires_at :: instant

record indexing_claims =
  xs_duration :: int
  xs_document_version_id :: "uuid option"
  xs_chunking_version :: string
  xs_embedding_model :: string
  xs_embedding_version :: string

definition make_indexing_claims ::
  "int \<Rightarrow> uuid option \<Rightarrow> string \<Rightarrow> string \<Rightarrow> string \<Rightarrow> indexing_claim_error + indexing_claims" where
  "make_indexing_claims duration version chunking model embedding =
     bindE (require (duration > 0) (IndexingClaimsValueError ''Indexing claim duration must be positive'')) (\<lambda>_.
     bindE (require (list_all (\<lambda>v. strip v \<noteq> []) [chunking, model, embedding])
       (IndexingClaimsValueError ''Indexing configuration values must be non-empty'')) (\<lambda>_.
       Inr \<lparr>xs_duration = duration, xs_document_version_id = version, xs_chunking_version = chunking,
             xs_embedding_model = model, xs_embedding_version = embedding\<rparr>))"

text \<open>The version scope and the configuration scope of every statement.\<close>

definition indexing_scope :: "indexing_claims \<Rightarrow> indexing_job_row \<Rightarrow> bool" where
  "indexing_scope c j \<longleftrightarrow> (case xs_document_version_id c of None \<Rightarrow> True | Some v \<Rightarrow> ij_document_version_id j = v)
     \<and> ij_chunking_version j = xs_chunking_version c \<and> ij_embedding_model j = xs_embedding_model c
     \<and> ij_embedding_version j = xs_embedding_version c"

section \<open>Operations\<close>

definition indexing_candidate :: "indexing_claims \<Rightarrow> instant \<Rightarrow> indexing_job_row list \<Rightarrow> uuid option" where
  "indexing_candidate c now rows =
     map_option ij_id (first_by (\<lambda>j. (ij_created_at j, ij_id j))
       (filter (\<lambda>j. ij_state j = IndexingQueued \<and> ij_created_at j \<le> now \<and> indexing_scope c j) rows))"

definition indexing_claim_update ::
  "bool \<Rightarrow> indexing_claims \<Rightarrow> instant \<Rightarrow> uuid \<Rightarrow> uuid option \<Rightarrow> indexing_job_row list
     \<Rightarrow> (indexing_claim_error + claimed_indexing_job option) \<times> indexing_job_row list" where
  "indexing_claim_update up c now token candidate rows =
     (if \<not> up then (Inl (IndexingJobUnavailable ''Indexing job claim could not be stored''), rows)
      else case update_where indexing_job_checks
             (\<lambda>j. Some (ij_id j) = candidate \<and> ij_state j = IndexingQueued \<and> indexing_scope c j)
             (\<lambda>j. j\<lparr>ij_state := IndexingClaimed, ij_claim_token := Some token, ij_claimed_at := Some now,
                    ij_claim_expires_at := Some (now + xs_duration c)\<rparr>) rows of
        Inl _ \<Rightarrow> (Inl (IndexingJobUnavailable ''Indexing job claim could not be stored''), rows)
      | Inr (rows', out) \<Rightarrow>
          (case scalar_one_or_none out of
             Inl _ \<Rightarrow> (Inl (IndexingJobUnavailable ''Indexing job claim could not be stored''), rows)
           | Inr None \<Rightarrow> (Inr None, rows')
           | Inr (Some j) \<Rightarrow>
               (Inr (Some \<lparr>cx_job_id = ij_id j, cx_project_id = ij_project_id j,
                  cx_document_version_id = ij_document_version_id j, cx_chunking_version = ij_chunking_version j,
                  cx_embedding_model = ij_embedding_model j, cx_embedding_version = ij_embedding_version j,
                  cx_claim_token = token, cx_claimed_at = now, cx_claim_expires_at = now + xs_duration c\<rparr>), rows')))"

definition indexing_claim_next ::
  "bool \<Rightarrow> indexing_claims \<Rightarrow> instant \<Rightarrow> uuid \<Rightarrow> indexing_job_row list
     \<Rightarrow> (indexing_claim_error + claimed_indexing_job option) \<times> indexing_job_row list" where
  "indexing_claim_next up c now token rows = indexing_claim_update up c now token (indexing_candidate c now rows) rows"

definition indexing_claim_active :: "indexing_claims \<Rightarrow> claimed_indexing_job \<Rightarrow> instant \<Rightarrow> indexing_job_row \<Rightarrow> bool" where
  "indexing_claim_active c claim now j \<longleftrightarrow> ij_id j = cx_job_id claim \<and> indexing_scope c j
     \<and> ij_project_id j = cx_project_id claim \<and> ij_document_version_id j = cx_document_version_id claim
     \<and> ij_chunking_version j = cx_chunking_version claim \<and> ij_embedding_model j = cx_embedding_model claim
     \<and> ij_embedding_version j = cx_embedding_version claim \<and> ij_state j = IndexingClaimed
     \<and> ij_claim_token j = Some (cx_claim_token claim) \<and> ij_claimed_at j = Some (cx_claimed_at claim)
     \<and> ij_claim_expires_at j = Some (cx_claim_expires_at claim)
     \<and> cx_claimed_at claim \<le> now \<and> cx_claim_expires_at claim > now"

definition indexing_finish ::
  "bool \<Rightarrow> indexing_claims \<Rightarrow> instant \<Rightarrow> claimed_indexing_job \<Rightarrow> indexing_job_state \<Rightarrow> string option \<Rightarrow> indexing_job_row list
     \<Rightarrow> (indexing_claim_error + unit) \<times> indexing_job_row list" where
  "indexing_finish up c now claim state failure rows =
     (if \<not> up then (Inl (IndexingJobUnavailable ''Indexing job completion could not be stored''), rows)
      else case update_where indexing_job_checks (indexing_claim_active c claim now)
             (\<lambda>j. j\<lparr>ij_state := state, ij_completed_at := Some now, ij_failure_code := failure\<rparr>) rows of
        Inl _ \<Rightarrow> (Inl (IndexingJobUnavailable ''Indexing job completion could not be stored''), rows)
      | Inr (rows', []) \<Rightarrow> (Inl (IndexingJobClaimRejected ''Indexing job claim is not active''), rows)
      | Inr (rows', j # js) \<Rightarrow> (Inr (), rows'))"

definition indexing_accept ::
  "bool \<Rightarrow> indexing_claims \<Rightarrow> instant \<Rightarrow> claimed_indexing_job \<Rightarrow> indexing_job_row list
     \<Rightarrow> (indexing_claim_error + unit) \<times> indexing_job_row list" where
  "indexing_accept up c now claim rows = indexing_finish up c now claim IndexingAccepted None rows"

definition indexing_fail ::
  "bool \<Rightarrow> indexing_claims \<Rightarrow> instant \<Rightarrow> claimed_indexing_job \<Rightarrow> indexing_job_row list
     \<Rightarrow> (indexing_claim_error + unit) \<times> indexing_job_row list" where
  "indexing_fail up c now claim rows = indexing_finish up c now claim IndexingFailed (Some ''INDEXING_WORKER_FAILED'') rows"

definition indexing_expired :: "indexing_claims \<Rightarrow> instant \<Rightarrow> indexing_job_row \<Rightarrow> bool" where
  "indexing_expired c now j \<longleftrightarrow> ij_state j = IndexingClaimed \<and> indexing_scope c j
     \<and> (case ij_claim_expires_at j of None \<Rightarrow> False | Some t \<Rightarrow> t \<le> now)"

definition indexing_expire_claims ::
  "bool \<Rightarrow> indexing_claims \<Rightarrow> instant \<Rightarrow> indexing_job_row list \<Rightarrow> (indexing_claim_error + nat) \<times> indexing_job_row list" where
  "indexing_expire_claims up c now rows =
     (if \<not> up then (Inl (IndexingJobUnavailable ''Expired indexing claims could not be stored''), rows)
      else case update_where indexing_job_checks (indexing_expired c now)
             (\<lambda>j. j\<lparr>ij_state := IndexingFailed, ij_completed_at := Some now, ij_failure_code := Some ''INDEXING_CLAIM_EXPIRED''\<rparr>) rows of
        Inl _ \<Rightarrow> (Inl (IndexingJobUnavailable ''Expired indexing claims could not be stored''), rows)
      | Inr (rows', out) \<Rightarrow> (Inr (length out), rows'))"

section \<open>The queue as a lease queue\<close>

definition indexing_phase :: "indexing_job_row \<Rightarrow> lease_phase" where
  "indexing_phase j = (case ij_state j of IndexingQueued \<Rightarrow> Waiting | IndexingClaimed \<Rightarrow> Held | _ \<Rightarrow> Finished)"

definition indexing_lease :: "indexing_job_row \<Rightarrow> lease option" where
  "indexing_lease j = (case (ij_claim_token j, ij_claimed_at j, ij_claim_expires_at j) of
     (Some t, Some a, Some e) \<Rightarrow> Some \<lparr>ls_token = t, ls_claimed_at = a, ls_expires_at = e\<rparr> | _ \<Rightarrow> None)"

definition indexing_claim_lease :: "claimed_indexing_job \<Rightarrow> lease" where
  "indexing_claim_lease c = \<lparr>ls_token = cx_claim_token c, ls_claimed_at = cx_claimed_at c, ls_expires_at = cx_claim_expires_at c\<rparr>"

lemma indexing_phase_iff [simp]:
  "indexing_phase j = Waiting \<longleftrightarrow> ij_state j = IndexingQueued" "indexing_phase j = Held \<longleftrightarrow> ij_state j = IndexingClaimed"
  "indexing_phase j = Finished \<longleftrightarrow> ij_state j \<in> {IndexingAccepted, IndexingFailed}"
  by (cases "ij_state j"; simp add: indexing_phase_def)+

text \<open>Committed statements; \<open>create\<close> is the insertion a promotion makes.\<close>

inductive indexing_step :: "indexing_job_row list \<Rightarrow> lease_event list \<Rightarrow> indexing_job_row list \<Rightarrow> bool" where
  create: "insert_row indexing_job_checks indexing_job_conflict j rows = Inr rows' \<Longrightarrow> ij_state j = IndexingQueued \<Longrightarrow>
    indexing_step rows [] rows'"
| claim: "indexing_claim_update up cfg now token candidate rows = (Inr (Some c), rows') \<Longrightarrow>
    indexing_step rows [Granted (cx_job_id c) (indexing_claim_lease c)] rows'"
| no_claim: "indexing_claim_update up cfg now token candidate rows = (Inr None, rows') \<Longrightarrow> indexing_step rows [] rows'"
| finish: "indexing_jobs_ok rows \<Longrightarrow> indexing_finish up cfg now c state failure rows = (Inr (), rows') \<Longrightarrow>
    indexing_step rows [Closed (cx_job_id c) (indexing_claim_lease c)] rows'"
| expire: "indexing_expire_claims up cfg now rows = (Inr n, rows') \<Longrightarrow>
    indexing_step rows (map (\<lambda>j. Closed (ij_id j) (the (indexing_lease j))) (filter (indexing_expired cfg now) rows)) rows'"

lemma indexing_finish_ends:
  assumes "indexing_job_checks (j\<lparr>ij_state := state, ij_completed_at := Some now, ij_failure_code := failure\<rparr>)"
  shows "state \<in> {IndexingAccepted, IndexingFailed}"
  using assms by (auto simp: indexing_job_checks_def indexing_job_lifecycle_def)

lemma indexing_active_lease:
  "indexing_claim_active cfg c now j \<Longrightarrow>
   ij_state j = IndexingClaimed \<and> ij_id j = cx_job_id c \<and> indexing_lease j = Some (indexing_claim_lease c)"
  by (simp add: indexing_claim_active_def indexing_lease_def indexing_claim_lease_def)

lemma indexing_active_unique:
  assumes "indexing_jobs_ok rows"
  shows "filter (indexing_claim_active cfg c now) rows = []
    \<or> (\<exists>j \<in> set rows. indexing_claim_active cfg c now j \<and> filter (indexing_claim_active cfg c now) rows = [j])"
  by (rule indexing_jobs.unique_row [OF assms]) (auto simp: indexing_claim_active_def indexing_job_conflict_def)

lemma indexing_claim_advances:
  assumes "indexing_claim_update up cfg now token candidate rows = (Inr (Some c), rows')"
  shows "advanced ij_id indexing_phase indexing_lease rows [Granted (cx_job_id c) (indexing_claim_lease c)] rows'"
proof -
  let ?p = "\<lambda>j. Some (ij_id j) = candidate \<and> ij_state j = IndexingQueued \<and> indexing_scope cfg j"
  let ?g = "\<lambda>j. j\<lparr>ij_state := IndexingClaimed, ij_claim_token := Some token, ij_claimed_at := Some now,
              ij_claim_expires_at := Some (now + xs_duration cfg)\<rparr>"
  from assms obtain j where j: "map ?g (filter ?p rows) = [j]" "rows' = map (\<lambda>r. if ?p r then ?g r else r) rows"
    and c: "cx_job_id c = ij_id j" "indexing_claim_lease c = \<lparr>ls_token = token, ls_claimed_at = now, ls_expires_at = now + xs_duration cfg\<rparr>"
    by (auto simp: indexing_claim_update_def store_simps indexing_claim_lease_def split: if_splits sum.splits option.splits)
  let ?h = "\<lambda>r. Granted (ij_id r) (indexing_claim_lease c)"
  have "advanced ij_id indexing_phase indexing_lease rows (map ?h (filter ?p rows)) (map (\<lambda>r. if ?p r then ?g r else r) rows)"
    by (rule advanced_update) (auto simp: moves_def events_def indexing_lease_def c(2))
  then show ?thesis using j c(1) by (auto simp: map_eq_Cons_conv)
qed

lemma indexing_finish_advances:
  assumes "indexing_jobs_ok rows" "indexing_finish up cfg now c state failure rows = (Inr (), rows')"
  shows "advanced ij_id indexing_phase indexing_lease rows [Closed (cx_job_id c) (indexing_claim_lease c)] rows'"
proof -
  let ?p = "indexing_claim_active cfg c now"
  let ?g = "\<lambda>j. j\<lparr>ij_state := state, ij_completed_at := Some now, ij_failure_code := failure\<rparr>"
  from assms(2) have u: "\<forall>r \<in> set rows. ?p r \<longrightarrow> indexing_job_checks (?g r)" "rows' = map (\<lambda>r. if ?p r then ?g r else r) rows"
      "filter ?p rows \<noteq> []"
    by (auto simp: indexing_finish_def store_simps split: if_splits sum.splits list.splits prod.splits)
  then obtain j where j: "j \<in> set rows" "?p j" "filter ?p rows = [j]" using indexing_active_unique [OF assms(1)] by blast
  have st: "state \<in> {IndexingAccepted, IndexingFailed}" using u(1) j indexing_finish_ends by blast
  let ?h = "\<lambda>r. Closed (ij_id r) (indexing_claim_lease c)"
  have "advanced ij_id indexing_phase indexing_lease rows (map ?h (filter ?p rows)) (map (\<lambda>r. if ?p r then ?g r else r) rows)"
  proof (rule advanced_update)
    fix r assume "r \<in> set rows" "?p r"
    moreover have "indexing_lease (?g r) = indexing_lease r" by (simp add: indexing_lease_def)
    ultimately show "ij_id (?g r) = ij_id r \<and> moves indexing_phase indexing_lease r (?g r)
        \<and> events ij_id indexing_phase indexing_lease r (?g r) = [?h r]"
      using st indexing_active_lease [of cfg c now r] by (auto simp: moves_def events_def)
  qed
  then show ?thesis using j(2,3) u(2) indexing_active_lease by simp
qed

lemma indexing_expire_advances:
  assumes "indexing_expire_claims up cfg now rows = (Inr n, rows')"
  shows "advanced ij_id indexing_phase indexing_lease rows
    (map (\<lambda>j. Closed (ij_id j) (the (indexing_lease j))) (filter (indexing_expired cfg now) rows)) rows'"
proof -
  let ?g = "\<lambda>j. j\<lparr>ij_state := IndexingFailed, ij_completed_at := Some now, ij_failure_code := Some ''INDEXING_CLAIM_EXPIRED''\<rparr>"
  from assms have u: "\<forall>r \<in> set rows. indexing_expired cfg now r \<longrightarrow> indexing_job_checks (?g r)"
      "rows' = map (\<lambda>r. if indexing_expired cfg now r then ?g r else r) rows"
    by (auto simp: indexing_expire_claims_def store_simps split: if_splits sum.splits prod.splits)
  have l: "indexing_lease (?g r) = indexing_lease r" for r by (simp add: indexing_lease_def)
  have n: "indexing_lease r \<noteq> None" if "indexing_job_checks (?g r)" for r
    using that by (auto simp: indexing_job_checks_def indexing_job_lifecycle_def indexing_lease_def)
  show ?thesis unfolding u(2)
    by (rule advanced_update) (use u(1) n l in \<open>auto simp: moves_def events_def indexing_expired_def\<close>)
qed

interpretation indexing_queue: lease_queue ij_id indexing_phase indexing_lease indexing_step
proof
  fix rows rows' evs assume "indexing_step rows evs rows'"
  then show "appended ij_id indexing_phase rows evs rows' \<or> advanced ij_id indexing_phase indexing_lease rows evs rows'"
  proof cases
    case (create j)
    then show ?thesis by (auto simp: appended_def store_simps indexing_job_conflict_def image_iff)
  next
    case (no_claim up cfg now token candidate)
    then have "rows' = rows"
      by (auto simp: indexing_claim_update_def store_simps filter_empty_conv split: if_splits sum.splits option.splits intro!: map_idI)
    then show ?thesis using no_claim(1) advanced_refl by blast
  next
    case claim
    then show ?thesis using indexing_claim_advances by metis
  next
    case finish
    then show ?thesis using indexing_finish_advances by metis
  next
    case expire
    then show ?thesis using indexing_expire_advances by metis
  qed
qed

end
