(* ===== verification/Document_Demo.thy ===== *)
theory Document_Demo
  imports Demo Promotion_Correct Indexing_Correct Indexing_Claims
begin

text \<open>
  One document on its way through the pipeline, used by the witnesses: a quarantined Markdown upload
  with one requirement, its parser job, the turn that promotes it and the index of its section.
\<close>

definition demo_hash :: string where "demo_hash = replicate 64 (CHR ''a'')"
definition demo_raw :: string where "demo_raw = ''# Orders'' @ [CHR 0x0A] @ ''REQ-1: Pay  once''"

definition demo_document_db :: document_db where
  "demo_document_db =
     \<lparr>dd_projects = [11],
      dd_documents = [\<lparr>dr_id = 41, dr_project_id = 11, dr_document_type = ''markdown'', dr_display_name = ''spec'', dr_created_at = 0\<rparr>],
      dd_versions = [\<lparr>dv_id = 42, dv_document_id = 41, dv_parser_version_id = 43, dv_version_number = 1,
         dv_content_sha256 = demo_hash, dv_byte_size = 25, dv_content_type = ''text/markdown'', dv_created_at = 0\<rparr>],
      dd_parser_versions = [\<lparr>pv_id = 43, pv_parser_name = ''quarantine-pending'', pv_parser_version = ''v1'',
         pv_normalization_version = ''pending'', pv_created_at = 0\<rparr>],
      dd_intakes = [\<lparr>di_id = 44, di_project_id = 11, di_document_id = Some 41, di_document_version_id = Some 42,
         di_state = IntakeQuarantined, di_quarantine_key = Some ''key'', di_original_filename = ''spec.md'',
         di_declared_content_type = ''text/markdown'', di_byte_size = 25, di_content_sha256 = Some demo_hash,
         di_rejection_code = None, di_created_at = 0\<rparr>],
      dd_parser_jobs = [new_parser_job 45 44 0],
      dd_locations = [], dd_sections = [], dd_indexing_jobs = []\<rparr>"

definition demo_turn :: turn_env where
  "demo_turn = \<lparr>we_environment = [(''PARSER_WORKER_ROLE'', ''restricted-parser''), (''PARSER_WORKER_NETWORK'', ''none'')],
     we_uid = Some 1000, we_up = (\<lambda>n. True), we_now = (\<lambda>n. 100 + int n), we_ids = (\<lambda>n. 60 + of_nat n), we_token = 50,
     we_parser_id = 51, we_storage = (\<lambda>k. Inr (demo_raw, ''text/markdown''))\<rparr>"

definition demo_parser_claim :: claimed_parser_job where
  "demo_parser_claim = \<lparr>cp_job_id = 45, cp_document_intake_id = 44, cp_claim_token = 50, cp_claimed_at = 100,
     cp_claim_expires_at = 60000100\<rparr>"

definition demo_claimed_rows :: "parser_job_row list" where
  "demo_claimed_rows = [(new_parser_job 45 44 0)\<lparr>pj_state := ParserClaimed, pj_claim_token := Some 50,
     pj_claimed_at := Some 100, pj_claim_expires_at := Some 60000100\<rparr>]"

definition demo_requirements :: "parsed_requirement list" where
  "demo_requirements = [\<lparr>pr_ordinal = 0, pr_requirement_id = Some ''REQ-1'', pr_heading = Some ''Orders'',
     pr_line_start = 2, pr_line_end = 2, pr_normalized_text = ''Pay once'', pr_content_sha256 = demo_hash\<rparr>]"

lemma demo_lines:
  "utf8_decode demo_raw = Some demo_raw" "splitlines demo_raw = [''# Orders'', ''REQ-1: Pay  once'']"
  "match_heading ''# Orders'' = Some ''Orders''" "match_heading ''REQ-1: Pay  once'' = None"
  "line_unit ''markdown'' ''REQ-1: Pay  once'' = Some (Some ''REQ-1'', ''Pay once'')" "normalize ''Orders'' = ''Orders''"
  "utf8_length ''# Orders'' = 8" "utf8_length ''REQ-1: Pay  once'' = 16" "length demo_raw = 25"
proof -
  have "(utf8_decode demo_raw = Some demo_raw) \<and>
      (splitlines demo_raw = [''# Orders'', ''REQ-1: Pay  once'']) \<and>
      (match_heading ''# Orders'' = Some ''Orders'') \<and>
      (match_heading ''REQ-1: Pay  once'' = None) \<and>
      (line_unit ''markdown'' ''REQ-1: Pay  once'' = Some (Some ''REQ-1'', ''Pay once'')) \<and>
      (normalize ''Orders'' = ''Orders'') \<and>
      (utf8_length ''# Orders'' = 8) \<and>
      (utf8_length ''REQ-1: Pay  once'' = 16) \<and>
      (length demo_raw = 25)" by code_simp
  then show
    "utf8_decode demo_raw = Some demo_raw" "splitlines demo_raw = [''# Orders'', ''REQ-1: Pay  once'']"
    "match_heading ''# Orders'' = Some ''Orders''" "match_heading ''REQ-1: Pay  once'' = None"
    "line_unit ''markdown'' ''REQ-1: Pay  once'' = Some (Some ''REQ-1'', ''Pay once'')" "normalize ''Orders'' = ''Orders''"
    "utf8_length ''# Orders'' = 8" "utf8_length ''REQ-1: Pay  once'' = 16" "length demo_raw = 25" by - (elim conjE, assumption)+
qed

lemma demo_parsed: "parse_markdown_or_text demo_rt ''markdown'' demo_raw = Inr demo_requirements"
  by (simp add: parse_markdown_or_text_def demo_lines MAX_TEXT_CODEPOINTS_def MAX_TEXT_LINES_def MAX_TEXT_LINE_BYTES_def
    demo_requirements_def demo_rt_def demo_hash_def)

lemma demo_runtime_allowed: "parser_runtime_from_environment (we_environment demo_turn) (we_uid demo_turn)
    = Inr \<lparr>pw_role = ''restricted-parser'', pw_network = ''none'', pw_uid = Some 1000\<rparr>"
  by code_simp

lemma demo_claims: "parser_claim_next True worker_claims 100 50 (dd_intakes demo_document_db) (dd_documents demo_document_db)
    (dd_parser_jobs demo_document_db) = (Inr (Some demo_parser_claim), demo_claimed_rows)"
  by code_simp

lemma demo_jobs_ok: "parser_jobs_ok (dd_parser_jobs demo_document_db)" "parser_jobs_ok demo_claimed_rows"
proof -
  have "(parser_jobs_ok (dd_parser_jobs demo_document_db)) \<and>
      (parser_jobs_ok demo_claimed_rows)" by code_simp
  then show "parser_jobs_ok (dd_parser_jobs demo_document_db)" "parser_jobs_ok demo_claimed_rows" by - (elim conjE, assumption)+
qed

definition demo_claimed_db :: document_db where
  "demo_claimed_db = demo_document_db\<lparr>dd_parser_jobs := demo_claimed_rows\<rparr>"

definition demo_claimed_document :: claimed_document where
  "demo_claimed_document = \<lparr>cl_document_type = ''markdown'', cl_raw = demo_raw\<rparr>"

definition demo_promoted :: "(promotion_error + promoted_evidence) \<times> document_db" where
  "demo_promoted = promote demo_rt True (we_ids demo_turn) 51 103 104 demo_parser_claim demo_claimed_document demo_requirements demo_claimed_db"

definition demo_accepted_rows :: "parser_job_row list" where
  "demo_accepted_rows = map (accept_job 104) demo_claimed_rows"

definition demo_promoted_db :: document_db where
  "demo_promoted_db = demo_claimed_db
     \<lparr>dd_parser_jobs := demo_accepted_rows,
      dd_parser_versions := dd_parser_versions demo_document_db @ [\<lparr>pv_id = 51, pv_parser_name = PARSER_NAME,
        pv_parser_version = PARSER_VERSION, pv_normalization_version = NORMALIZATION_VERSION, pv_created_at = 103\<rparr>],
      dd_versions := map (\<lambda>v. v\<lparr>dv_parser_version_id := 51\<rparr>) (dd_versions demo_document_db),
      dd_locations := [location_of 60 42 (hd demo_requirements)],
      dd_sections := [section_row_of 61 42 60 (hd demo_requirements)],
      dd_indexing_jobs := [new_indexing_job 62 11 42 103]\<rparr>"

abbreviation demo_intake :: document_intake_row where "demo_intake \<equiv> hd (dd_intakes demo_document_db)"
abbreviation demo_document :: document_row where "demo_document \<equiv> hd (dd_documents demo_document_db)"
abbreviation demo_version :: document_version_row where "demo_version \<equiv> hd (dd_versions demo_document_db)"

lemma demo_valid_source: "validate_source demo_rt demo_intake demo_document demo_version demo_claimed_document = Inr ()"
  by (simp add: validate_source_def demo_document_db_def demo_claimed_document_def demo_lines MAX_PROMOTED_TEXT_BYTES_def
    demo_rt_def demo_hash_def require_def)

lemma demo_transaction_steps:
  "complete_claim demo_parser_claim 103 ParserClaimed m demo_claimed_rows = Inr (map (accept_job 103) demo_claimed_rows)"
  "complete_claim demo_parser_claim 104 ParserAccepted m (map (accept_job 103) demo_claimed_rows) = Inr demo_accepted_rows"
  "source_of demo_claimed_db demo_parser_claim e = Inr (demo_intake, demo_document, demo_version)"
  "parser_version_of 51 103 (dd_parser_versions demo_claimed_db) = Inr (51, dd_parser_versions demo_promoted_db)"
  "insert_evidence (we_ids demo_turn) 0 42 demo_requirements [] [] = Inr (dd_locations demo_promoted_db, dd_sections demo_promoted_db)"
proof -
  have "(complete_claim demo_parser_claim 103 ParserClaimed m demo_claimed_rows = Inr (map (accept_job 103) demo_claimed_rows)) \<and>
      (complete_claim demo_parser_claim 104 ParserAccepted m (map (accept_job 103) demo_claimed_rows) = Inr demo_accepted_rows) \<and>
      (source_of demo_claimed_db demo_parser_claim e = Inr (demo_intake, demo_document, demo_version)) \<and>
      (parser_version_of 51 103 (dd_parser_versions demo_claimed_db) = Inr (51, dd_parser_versions demo_promoted_db)) \<and>
      (insert_evidence (we_ids demo_turn) 0 42 demo_requirements [] [] = Inr (dd_locations demo_promoted_db, dd_sections demo_promoted_db))" by code_simp
  then show
    "complete_claim demo_parser_claim 103 ParserClaimed m demo_claimed_rows = Inr (map (accept_job 103) demo_claimed_rows)"
    "complete_claim demo_parser_claim 104 ParserAccepted m (map (accept_job 103) demo_claimed_rows) = Inr demo_accepted_rows"
    "source_of demo_claimed_db demo_parser_claim e = Inr (demo_intake, demo_document, demo_version)"
    "parser_version_of 51 103 (dd_parser_versions demo_claimed_db) = Inr (51, dd_parser_versions demo_promoted_db)"
    "insert_evidence (we_ids demo_turn) 0 42 demo_requirements [] [] = Inr (dd_locations demo_promoted_db, dd_sections demo_promoted_db)" by - (elim conjE, assumption)+
qed

lemma demo_promotes: "demo_promoted = (Inr \<lparr>po_document_version_id = 42, po_parser_version_id = 51, po_section_ids = [61],
    po_indexing_job_id = 62\<rparr>, demo_promoted_db)"
proof -
  have db: "dv_id demo_version = 42" "dv_parser_version_id demo_version = 43" "dr_project_id demo_document = 11"
    "dd_locations demo_claimed_db = []" "dd_sections demo_claimed_db = []" "dd_parser_jobs demo_claimed_db = demo_claimed_rows"
    "find (\<lambda>p. pv_id p = 43) (dd_parser_versions demo_claimed_db) = Some (hd (dd_parser_versions demo_document_db))"
    "stored_or (update_where document_version_checks (\<lambda>v. dv_id v = 42) (\<lambda>v. v\<lparr>dv_parser_version_id := 51\<rparr>) (dd_versions demo_claimed_db))
      = Inr (dd_versions demo_promoted_db, dd_versions demo_promoted_db)"
    "stored_or (insert_row (\<lambda>j. indexing_job_checks j \<and> ij_project_id j \<in> set (dd_projects demo_claimed_db)) indexing_job_conflict
      (new_indexing_job 62 11 42 103) (dd_indexing_jobs demo_claimed_db)) = Inr (dd_indexing_jobs demo_promoted_db)"
    "(pv_parser_name (hd (dd_parser_versions demo_document_db)), pv_parser_version (hd (dd_parser_versions demo_document_db)),
      pv_normalization_version (hd (dd_parser_versions demo_document_db))) = (''quarantine-pending'', ''v1'', ''pending'')"
    "length demo_requirements = 1" "we_ids demo_turn 2 = 62" "we_ids demo_turn (Suc 0) = 61"
  proof -
    have "(dv_id demo_version = 42) \<and>
      (dv_parser_version_id demo_version = 43) \<and>
      (dr_project_id demo_document = 11) \<and>
      (dd_locations demo_claimed_db = []) \<and>
      (dd_sections demo_claimed_db = []) \<and>
      (dd_parser_jobs demo_claimed_db = demo_claimed_rows) \<and>
      (find (\<lambda>p. pv_id p = 43) (dd_parser_versions demo_claimed_db) = Some (hd (dd_parser_versions demo_document_db))) \<and>
      (stored_or (update_where document_version_checks (\<lambda>v. dv_id v = 42) (\<lambda>v. v\<lparr>dv_parser_version_id := 51\<rparr>) (dd_versions demo_claimed_db))
      = Inr (dd_versions demo_promoted_db, dd_versions demo_promoted_db)) \<and>
      (stored_or (insert_row (\<lambda>j. indexing_job_checks j \<and> ij_project_id j \<in> set (dd_projects demo_claimed_db)) indexing_job_conflict
      (new_indexing_job 62 11 42 103) (dd_indexing_jobs demo_claimed_db)) = Inr (dd_indexing_jobs demo_promoted_db)) \<and>
      ((pv_parser_name (hd (dd_parser_versions demo_document_db)), pv_parser_version (hd (dd_parser_versions demo_document_db)),
      pv_normalization_version (hd (dd_parser_versions demo_document_db))) = (''quarantine-pending'', ''v1'', ''pending'')) \<and>
      (length demo_requirements = 1) \<and>
      (we_ids demo_turn 2 = 62) \<and>
      (we_ids demo_turn (Suc 0) = 61)" by code_simp
    then show "dv_id demo_version = 42" "dv_parser_version_id demo_version = 43" "dr_project_id demo_document = 11"
      "dd_locations demo_claimed_db = []" "dd_sections demo_claimed_db = []" "dd_parser_jobs demo_claimed_db = demo_claimed_rows"
      "find (\<lambda>p. pv_id p = 43) (dd_parser_versions demo_claimed_db) = Some (hd (dd_parser_versions demo_document_db))"
      "stored_or (update_where document_version_checks (\<lambda>v. dv_id v = 42) (\<lambda>v. v\<lparr>dv_parser_version_id := 51\<rparr>) (dd_versions demo_claimed_db))
      = Inr (dd_versions demo_promoted_db, dd_versions demo_promoted_db)"
      "stored_or (insert_row (\<lambda>j. indexing_job_checks j \<and> ij_project_id j \<in> set (dd_projects demo_claimed_db)) indexing_job_conflict
      (new_indexing_job 62 11 42 103) (dd_indexing_jobs demo_claimed_db)) = Inr (dd_indexing_jobs demo_promoted_db)"
      "(pv_parser_name (hd (dd_parser_versions demo_document_db)), pv_parser_version (hd (dd_parser_versions demo_document_db)),
      pv_normalization_version (hd (dd_parser_versions demo_document_db))) = (''quarantine-pending'', ''v1'', ''pending'')"
      "length demo_requirements = 1" "we_ids demo_turn 2 = 62" "we_ids demo_turn (Suc 0) = 61" by - (elim conjE, assumption)+
  qed
  have "promote_transaction demo_rt (we_ids demo_turn) 51 103 104 demo_parser_claim demo_claimed_document demo_requirements demo_claimed_db
      = Inr (\<lparr>po_document_version_id = 42, po_parser_version_id = 51, po_section_ids = [61], po_indexing_job_id = 62\<rparr>, demo_promoted_db)"
    unfolding promote_transaction_def db demo_transaction_steps
    by (simp add: demo_transaction_steps demo_valid_source db require_def) (simp add: demo_promoted_db_def)
  moreover have "(case pr_requirement_id r of None \<Rightarrow> False | Some i \<Rightarrow> length i > 255) = False" if "r \<in> set demo_requirements" for r
    using that by (simp add: demo_requirements_def)
  ultimately show ?thesis using demo_parsed db(11)
    by (auto simp: demo_promoted_def promote_def demo_claimed_document_def demo_lines MAX_PROMOTED_TEXT_BYTES_def require_def
        except_def list_ex_iff)
qed

section \<open>The index of the promoted section\<close>

definition demo_index :: index_store where
  "demo_index = \<lparr>is_projects = [11], is_documents = dd_documents demo_promoted_db, is_versions = dd_versions demo_promoted_db,
     is_sections = dd_sections demo_promoted_db, is_chunks = [], is_cache = [], is_links = [], is_calls = 0, is_fresh = 0,
     is_requests = []\<rparr>"

definition demo_index_env :: index_env where
  "demo_index_env = \<lparr>ie_up = (\<lambda>n. True), ie_ids = (\<lambda>n. 70 + of_nat n), ie_now = int\<rparr>"

definition demo_adapter :: "string list \<Rightarrow> embedding_configuration \<Rightarrow> indexing_error + string list list" where
  "demo_adapter texts eb = Inr (map (\<lambda>t. [''0.5'']) texts)"

definition demo_chunking :: chunking_configuration where
  "demo_chunking = \<lparr>ch_version = ''chunking-v1'', ch_max_characters = 6, ch_overlap_characters = 2\<rparr>"

definition demo_embedding :: embedding_configuration where
  "demo_embedding = \<lparr>eb_model = ''m'', eb_version = ''v''\<rparr>"

definition demo_indexed :: "(indexing_error + indexing_result) \<times> index_store" where
  "demo_indexed = index demo_rt demo_index_env demo_adapter demo_chunking demo_embedding 11 42 demo_index"

lemma demo_indexes: "fst demo_indexed = Inr \<lparr>ix_document_version_id = 42, ix_chunk_count = 2, ix_chunks_created = 2,
    ix_embeddings_created = 1, ix_embedding_cache_hits = 0\<rparr>"
  by code_simp

lemma demo_index_chunks: "map ic_normalized_text (version_chunks demo_chunking 42 (snd demo_indexed)) = [''Pay'', ''once'']"
  by code_simp

end
