(* ===== verification/Document_Properties.thy ===== *)
theory Document_Properties
  imports Document_Demo
begin

text \<open>
  The properties of the document pipeline, from the queue of parser jobs over parsing and promotion to
  the index, each with a witness at a concrete input.
\<close>

section \<open>Leases\<close>

text \<open>C20: Whatever producers, parser workers and reapers commit, in any order: no event happens twice, a
  job is leased at most once, a lease that is closed was granted before, a job is in state CLAIMED exactly
  while its lease is granted and not closed, and every row satisfies the constraints of the table.\<close>

theorem lease_exclusive:
  assumes "queue_run parser_step tr rows"
  shows "distinct tr \<and> (Granted i l \<in> set tr \<longrightarrow> Granted i l' \<in> set tr \<longrightarrow> l = l')
    \<and> (Closed i l \<in> set tr \<longrightarrow> Granted i l \<in> set tr)
    \<and> (\<forall>j \<in> set rows. pj_state j = ParserClaimed \<longleftrightarrow>
         (\<exists>l. Granted (pj_id j) l \<in> set tr \<and> Closed (pj_id j) l \<notin> set tr))
    \<and> parser_jobs_ok rows"
  using parser_queue.at_most_one_lease [OF assms] parser_queue.held_iff [OF assms] parser_run_ok [OF assms] by simp

theorem lease_exclusive_witness:
  "\<exists>tr rows. queue_run parser_step tr rows \<and> tr = [Granted 45 (claim_lease demo_parser_claim)] \<and> distinct tr
     \<and> rows = demo_claimed_rows \<and> parser_jobs_ok rows"
proof -
  have "parser_enqueue True True 45 0 44 (dd_intakes demo_document_db) [] = (Inr (), [new_parser_job 45 44 0])" by code_simp
  from queue_run.continue [where step = parser_step, OF queue_run.start parser_step.enqueue [OF this]]
  have q: "queue_run parser_step [] [new_parser_job 45 44 0]" by simp
  have "parser_claim_update True (60 * 1000000) 100 50 (Some 45) [new_parser_job 45 44 0]
      = (Inr (Some demo_parser_claim), demo_claimed_rows)" by code_simp
  from queue_run.continue [where step = parser_step, OF q parser_step.claim [OF this]]
  have "queue_run parser_step [Granted 45 (claim_lease demo_parser_claim)] demo_claimed_rows"
    by (simp add: demo_parser_claim_def)
  with lease_exclusive [OF this] show ?thesis by blast
qed

text \<open>Later statements never take a leased indexing job back to the queue or change its lease, and the
  row of an accepted or failed indexing job never changes again.\<close>

theorem indexing_jobs_final:
  assumes "queue_from indexing_step rows rows'" "j \<in> set rows"
  shows "\<exists>j' \<in> set rows'. ij_id j' = ij_id j \<and> (ij_state j \<in> {IndexingAccepted, IndexingFailed} \<longrightarrow> j' = j)
    \<and> (ij_state j = IndexingClaimed \<longrightarrow> ij_state j' \<noteq> IndexingQueued \<and> indexing_lease j' = indexing_lease j)"
  using indexing_queue.from_forward [OF assms] by simp

theorem indexing_jobs_final_witness:
  "\<exists>rows rows' j'. queue_from indexing_step rows rows' \<and> rows = [new_indexing_job 62 11 42 103] \<and> j' \<in> set rows'
     \<and> ij_state j' = IndexingClaimed \<and> ij_id j' = 62"
proof -
  let ?cfg = "\<lparr>xs_duration = 7, xs_document_version_id = None, xs_chunking_version = DEFAULT_CHUNKING_VERSION,
    xs_embedding_model = DEFAULT_EMBEDDING_MODEL, xs_embedding_version = DEFAULT_EMBEDDING_VERSION\<rparr>"
  let ?j = "(new_indexing_job 62 11 42 103)\<lparr>ij_state := IndexingClaimed, ij_claim_token := Some 9,
    ij_claimed_at := Some 104, ij_claim_expires_at := Some 111\<rparr>"
  have "\<exists>c. indexing_claim_next True ?cfg 104 9 [new_indexing_job 62 11 42 103] = (Inr (Some c), [?j])"
    by (rule exI [of _ "\<lparr>cx_job_id = 62, cx_project_id = 11, cx_document_version_id = 42,
      cx_chunking_version = DEFAULT_CHUNKING_VERSION, cx_embedding_model = DEFAULT_EMBEDDING_MODEL,
      cx_embedding_version = DEFAULT_EMBEDDING_VERSION, cx_claim_token = 9, cx_claimed_at = 104,
      cx_claim_expires_at = 111\<rparr>"]) code_simp
  then obtain c where "indexing_claim_next True ?cfg 104 9 [new_indexing_job 62 11 42 103] = (Inr (Some c), [?j])" by blast
  then have q: "queue_from indexing_step [new_indexing_job 62 11 42 103] [?j]"
    unfolding indexing_claim_next_def using queue_from.later [where step = indexing_step, OF queue_from.here indexing_step.claim] by blast
  from indexing_jobs_final [OF q] have "\<exists>j' \<in> set [?j]. ij_id j' = 62" by (simp add: new_indexing_job_def)
  with q show ?thesis by auto
qed

text \<open>From its claim on, a leased parser job can be closed at every moment by exactly one side: its
  holder while the lease runs, the reaper from the deadline on.\<close>

theorem finish_or_expire:
  assumes "parser_jobs_ok rows" "j \<in> set rows" "held_by c j" "cp_claimed_at c \<le> now"
  shows "((\<exists>rows'. parser_fail True worker_claims now c rows = (Inr (), rows')) \<longleftrightarrow> now < cp_claim_expires_at c)
    \<and> ((\<exists>rows'. parser_reject True worker_claims now c rows = (Inr (), rows')) \<longleftrightarrow> now < cp_claim_expires_at c)
    \<and> (\<forall>n rows'. parser_expire_claims True worker_claims now rows = (Inr n, rows') \<longrightarrow>
         (j \<in> set rows' \<longleftrightarrow> now < cp_claim_expires_at c))"
proof -
  have h: "pj_id j = cp_job_id c" "pj_claim_expires_at j = Some (cp_claim_expires_at c)" "pj_state j = ParserClaimed"
    using assms(3) by (simp_all add: held_by_def)
  have a: "(\<exists>k \<in> set rows. parser_claim_active worker_claims c now k) \<longleftrightarrow> now < cp_claim_expires_at c"
    using assms(2,4) held_active(2) [OF assms(3,4)] by (auto simp: parser_claim_active_def)
  have e: "j \<in> set rows' \<longleftrightarrow> now < cp_claim_expires_at c"
    if "parser_expire_claims True worker_claims now rows = (Inr n, rows')" for n rows'
  proof -
    from that have r: "rows' = map (\<lambda>k. if parser_expired worker_claims now k
        then k\<lparr>pj_state := ParserFailed, pj_completed_at := Some now, pj_failure_code := Some ''PARSER_CLAIM_EXPIRED''\<rparr> else k) rows"
      by (auto simp: parser_expire_claims_def store_simps split: sum.splits prod.splits)
    have x: "parser_expired worker_claims now j \<longleftrightarrow> cp_claim_expires_at c \<le> now"
      using h by (simp add: parser_expired_def parser_scope_def worker_claims_def)
    have one: "k = j" if "k \<in> set rows" "pj_id k = pj_id j" for k
      using parser_jobs.conflict_eq [OF assms(1) that(1) assms(2)] that(2) by (simp add: parser_job_conflict_def)
    show ?thesis
    proof
      assume "j \<in> set rows'"
      then obtain k where k: "k \<in> set rows" "j = (if parser_expired worker_claims now k
          then k\<lparr>pj_state := ParserFailed, pj_completed_at := Some now, pj_failure_code := Some ''PARSER_CLAIM_EXPIRED''\<rparr> else k)"
        unfolding r by auto
      then have "\<not> parser_expired worker_claims now k" "pj_id k = pj_id j" using h(3) by (auto split: if_splits)
      then show "now < cp_claim_expires_at c" using one k(1) x by auto
    qed (use assms(2) x r in \<open>force simp: image_iff\<close>)
  qed
  show ?thesis
    using parser_finish_iff [OF assms(1), of ParserFailed "''PARSER_WORKER_FAILED''" worker_claims now c]
      parser_finish_iff [OF assms(1), of ParserRejected "''PARSER_DOCUMENT_REJECTED''" worker_claims now c] a e
    by (simp add: parser_fail_def parser_reject_def)
qed

theorem finish_or_expire_witness:
  "(\<exists>rows'. parser_fail True worker_claims 60000099 demo_parser_claim demo_claimed_rows = (Inr (), rows'))
   \<and> \<not> (\<exists>rows'. parser_fail True worker_claims 60000100 demo_parser_claim demo_claimed_rows = (Inr (), rows'))"
proof -
  let ?j = "hd demo_claimed_rows"
  have j: "?j \<in> set demo_claimed_rows" "held_by demo_parser_claim ?j"
    by (simp_all add: demo_claimed_rows_def held_by_def demo_parser_claim_def new_parser_job_def)
  show ?thesis
    using finish_or_expire [OF demo_jobs_ok(2) j, of 60000099] finish_or_expire [OF demo_jobs_ok(2) j, of 60000100]
    by (simp add: demo_parser_claim_def)
qed

section \<open>Parsing\<close>

text \<open>C27: An accepted document decodes as UTF-8, and its requirements are exactly those of the line-by-line
  reading: one for every line that is no heading and carries a unit with text, under the nearest heading above
  it.  They are numbered from zero, in line order, and each text is the normal form of a part of the cited line,
  with its digest.\<close>

theorem parse_equals_reading:
  assumes "parse_markdown_or_text rt dt raw = Inr rs"
  shows "\<exists>text. utf8_decode raw = Some text
    \<and> map unit_of_requirement rs = units_of dt (splitlines text) (length (splitlines text))
    \<and> collected rt (splitlines text) (Suc (length (splitlines text))) rs"
proof -
  obtain body where b: "utf8_decode raw = Some body" "parse_lines rt dt None 1 [] (splitlines body) = Inr rs"
    "collected rt (splitlines body) (Suc (length (splitlines body))) rs"
    using parse_accepted [OF assms] .
  have "map unit_of_requirement rs = units_of dt (splitlines body) (length (splitlines body))"
    using parse_lines_units [of rt dt "splitlines body" 0 "[]" rs] b(2) by (simp add: units_of_def)
  with b show ?thesis by blast
qed

theorem parse_equals_reading_witness:
  "units_of ''markdown'' [''# Orders'', ''REQ-1: Pay  once''] 2 = [(2, Some ''REQ-1'', Some ''Orders'', ''Pay once'')]"
  using parse_equals_reading [OF demo_parsed] demo_lines
  by (simp add: demo_requirements_def unit_of_requirement_def numeral_2_eq_2)

text \<open>A document is refused exactly when its type is not supported, its bytes are no UTF-8, or the text, the
  number of lines or one line is over its limit; the code names the first of these that applies.\<close>

theorem parse_errors_iff:
  "((\<exists>e. parse_markdown_or_text rt dt raw = Inl e) \<longleftrightarrow> dt \<notin> {''markdown'', ''text''} \<or> utf8_decode raw = None
      \<or> (\<exists>text. utf8_decode raw = Some text \<and> (length text > MAX_TEXT_CODEPOINTS \<or> length (splitlines text) > MAX_TEXT_LINES
           \<or> (\<exists>line \<in> set (splitlines text). utf8_length line > MAX_TEXT_LINE_BYTES))))
   \<and> (\<forall>e. parse_markdown_or_text rt dt raw = Inl e \<longrightarrow> rejection_code e =
        (if dt \<notin> {''markdown'', ''text''} then ''PARSER_DOCUMENT_TYPE_UNSUPPORTED''
         else case utf8_decode raw of None \<Rightarrow> ''PARSER_TEXT_ENCODING_INVALID''
         | Some text \<Rightarrow> if length text > MAX_TEXT_CODEPOINTS then ''PARSER_TEXT_CODEPOINT_LIMIT''
             else if length (splitlines text) > MAX_TEXT_LINES then ''PARSER_LINE_COUNT_LIMIT'' else ''PARSER_LINE_SIZE_LIMIT''))"
proof -
  have "(\<exists>e. parse_lines rt dt None (Suc 0) [] lines = Inl e) \<longleftrightarrow> (\<exists>line \<in> set lines. utf8_length line > MAX_TEXT_LINE_BYTES)"
    for lines using parse_lines_long by blast
  then show ?thesis
    by (cases "utf8_decode raw") (auto simp: parse_markdown_or_text_def dest: parse_lines_rejected split: if_splits)
qed

theorem parse_errors_iff_witness:
  "\<exists>e. parse_markdown_or_text demo_rt ''text'' [CHR 0xFF] = Inl e \<and> rejection_code e = ''PARSER_TEXT_ENCODING_INVALID''"
proof -
  have "utf8_decode [CHR 0xFF] = None" by code_simp
  then show ?thesis using parse_errors_iff [of demo_rt "''text''" "[CHR 0xFF]"] by auto
qed

section \<open>Chunks\<close>

text \<open>The chunks of a text are windows of consecutive words, in order: each starts no later than the last one
  ended and ends after it, and the last ends with the text.  So no word is lost, and the text is recovered from the
  chunks by dropping the overlaps.\<close>

theorem chunks_cover_text:
  assumes "split_text c text = Inr chunks" "split_ws text \<noteq> []"
  shows "\<exists>spans. chunks = map (\<lambda>(a, b). window (split_ws text) a b) spans \<and> windows (split_ws text) 0 spans"
proof -
  let ?ws = "split_ws text"
  show ?thesis
  proof (cases "len (join '' '' ?ws) \<le> ch_max_characters c")
    case True
    then show ?thesis using assms by (intro exI [of _ "[(0, length ?ws)]"]) (auto simp: split_text_def window_def)
  next
    case False
    have "list_all word_ok ?ws" by (rule all_words)
    then have "split_loop c [] [] 0 ?ws = Inr chunks"
      using assms False split_blank_join [of ?ws] by (simp add: split_text_def Let_def)
    then have "split_loop c [] (take (1 - 0) (drop 0 ?ws)) (len (window ?ws 0 1)) (drop 1 ?ws) = Inr chunks"
      using assms(2) by (cases ?ws) (auto simp: window_def Let_def split: if_splits)
    from split_loop_windows [OF this, of 0] assms(2) show ?thesis by (cases ?ws) auto
  qed
qed

theorem chunks_cover_text_witness:
  "\<exists>spans. [''aaaa bbbb'', ''bbbb cc''] = map (\<lambda>(a, b). window [''aaaa'', ''bbbb'', ''cc''] a b) spans
     \<and> windows [''aaaa'', ''bbbb'', ''cc''] 0 spans"
proof -
  let ?c = "\<lparr>ch_version = ''v'', ch_max_characters = 10, ch_overlap_characters = 4\<rparr>"
  have "split_text ?c ''aaaa bbbb cc'' = Inr [''aaaa bbbb'', ''bbbb cc'']" "split_ws ''aaaa bbbb cc'' = [''aaaa'', ''bbbb'', ''cc'']"
  proof -
    have "(split_text ?c ''aaaa bbbb cc'' = Inr [''aaaa bbbb'', ''bbbb cc'']) \<and>
      (split_ws ''aaaa bbbb cc'' = [''aaaa'', ''bbbb'', ''cc''])" by code_simp
    then show "split_text ?c ''aaaa bbbb cc'' = Inr [''aaaa bbbb'', ''bbbb cc'']" "split_ws ''aaaa bbbb cc'' = [''aaaa'', ''bbbb'', ''cc'']" by - (elim conjE, assumption)+
  qed
  with chunks_cover_text [of ?c "''aaaa bbbb cc''"] show ?thesis by simp
qed

lemma word_in_join: "w \<in> set ws \<Longrightarrow> length w \<le> length (join '' '' ws)"
proof (induction ws)
  case (Cons v ws)
  then show ?case by (cases ws) auto
qed simp

text \<open>C36: With a valid configuration no chunk is longer than the maximum plus one overlap and a blank, and without
  overlap none is longer than the maximum; splitting fails exactly when a text over the maximum has a word over it.\<close>

theorem chunk_length_bound:
  assumes "validate_chunking c = Inr ()"
  shows "(\<forall>chunks. split_text c text = Inr chunks \<longrightarrow> (\<forall>x \<in> set chunks. len x \<le> chunk_bound c))
    \<and> ((\<exists>e. split_text c text = Inl e) \<longleftrightarrow> (\<exists>w \<in> set (split_ws text). len w > ch_max_characters c))"
proof -
  let ?ws = "split_ws text" and ?m = "ch_max_characters c"
  have v: "1 \<le> ?m" "0 \<le> ch_overlap_characters c"
    using assms by (auto simp: validate_chunking_def exn_simps)
  have word: "len w \<le> len (join '' '' ws)" if "w \<in> set ws" for w ws
    using that word_in_join [of w ws] by (simp add: len_def)
  show ?thesis
  proof (cases "len (join '' '' ?ws) \<le> ?m")
    case True
    then have "split_text c text = Inr [join '' '' ?ws]" by (simp add: split_text_def Let_def)
    moreover have "\<not> (\<exists>w \<in> set ?ws. len w > ?m)" using word [of _ ?ws] True by fastforce
    ultimately show ?thesis using True v by (auto simp: chunk_bound_def)
  next
    case False
    have "?ws \<noteq> []" using False v by (auto simp: len_def)
    then have s: "split_text c text = split_loop c [] [] 0 ?ws"
      using False split_blank_join [OF all_words, of "text"] by (simp add: split_text_def Let_def)
    have "0 \<le> chunk_bound c" using v by (simp add: chunk_bound_def)
    then show ?thesis
      unfolding s using split_loop_bound [of c "[]" "[]" 0 ?ws] split_loop_fails [of c "[]" "[]" 0 ?ws] v
      by (auto simp: len_def)
  qed
qed

theorem chunk_length_bound_witness:
  "split_text demo_chunking ''Pay once'' = Inr [''Pay'', ''once''] \<and> len ''once'' \<le> chunk_bound demo_chunking"
proof -
  have s: "split_text demo_chunking ''Pay once'' = Inr [''Pay'', ''once'']" "validate_chunking demo_chunking = Inr ()" by code_simp+
  with chunk_length_bound [OF s(2), of "''Pay once''"] show ?thesis by simp
qed

text \<open>The configured maximum itself is not a bound: after a chunk is closed, the overlap kept from it and the next
  word are not measured against the maximum again.\<close>

theorem chunk_can_exceed_maximum:
  "\<exists>c text chunks x. validate_chunking c = Inr () \<and> split_text c text = Inr chunks \<and> x \<in> set chunks
     \<and> len x > ch_max_characters c"
proof (intro exI conjI)
  let ?c = "\<lparr>ch_version = ''v'', ch_max_characters = 10, ch_overlap_characters = 4\<rparr>"
  show "validate_chunking ?c = Inr ()" by code_simp
  show "split_text ?c ''aaaa bbbb cccccccccc'' = Inr [''aaaa bbbb'', ''bbbb cccccccccc'']" by code_simp
  show "''bbbb cccccccccc'' \<in> set [''aaaa bbbb'', ''bbbb cccccccccc'']" by simp
  show "len ''bbbb cccccccccc'' > ch_max_characters ?c" by code_simp
qed

section \<open>The index\<close>

text \<open>C29: Once a version with chunks has been indexed, indexing it again with any adapter changes no table, asks for no
  embedding and finds every chunk in the cache.\<close>

theorem index_idempotent:
  assumes "index rt env adapter ch eb project version s = (Inr res, s')" "ix_chunk_count res > 0" "\<forall>n. ie_up env' n"
  shows "\<exists>s''. index rt' env' adapter' ch eb project version s' =
      (Inr \<lparr>ix_document_version_id = version, ix_chunk_count = ix_chunk_count res, ix_chunks_created = 0,
            ix_embeddings_created = 0, ix_embedding_cache_hits = ix_chunk_count res\<rparr>, s'')
    \<and> same_tables s' s'' \<and> is_requests s'' = is_requests s'"
proof -
  have e: "sections_valid project version s'" "\<forall>k \<in> set (version_chunks ch version s'). chunk_indexed project eb s' k"
    "ix_chunk_count res = length (version_chunks ch version s')"
    using index_establishes [OF assms(1)] by blast+
  have "version_chunks ch version s' \<noteq> []" using e(3) assms(2) by auto
  from index_again [OF e(1,2) this assms(3)] show ?thesis unfolding e(3) by blast
qed

theorem index_idempotent_witness:
  "\<exists>s''. index demo_rt demo_index_env (\<lambda>ts eb. Inl (IndexingUnavailable [])) demo_chunking demo_embedding 11 42 (snd demo_indexed)
     = (Inr \<lparr>ix_document_version_id = 42, ix_chunk_count = 2, ix_chunks_created = 0, ix_embeddings_created = 0,
             ix_embedding_cache_hits = 2\<rparr>, s'') \<and> same_tables (snd demo_indexed) s''"
proof -
  have "index demo_rt demo_index_env demo_adapter demo_chunking demo_embedding 11 42 demo_index
      = (Inr \<lparr>ix_document_version_id = 42, ix_chunk_count = 2, ix_chunks_created = 2, ix_embeddings_created = 1,
              ix_embedding_cache_hits = 0\<rparr>, snd demo_indexed)"
    using demo_indexes by (simp add: demo_indexed_def prod_eq_iff)
  from index_idempotent [OF this, of demo_index_env demo_rt "\<lambda>ts eb. Inl (IndexingUnavailable [])"] show ?thesis
    by (auto simp: demo_index_env_def)
qed

section \<open>Promotion\<close>

text \<open>A promotion that succeeds has published exactly what parsing its bytes gives: one section per requirement
  with its own line location, for a version that had no evidence before, marked with the current parser version, and
  one queued indexing job for that version.\<close>

theorem promotion_publishes:
  assumes "promote rt up ids pid now finished c document rs db = (Inr evidence, db')"
  shows "parse_markdown_or_text rt (cl_document_type document) (cl_raw document) = Inr rs \<and> rs \<noteq> []
    \<and> published (po_document_version_id evidence) rs db' \<and> length (po_section_ids evidence) = length rs
    \<and> (\<forall>s \<in> set (dd_sections db). ds_document_version_id s \<noteq> po_document_version_id evidence)
    \<and> (\<forall>v \<in> set (dd_versions db'). dv_id v = po_document_version_id evidence \<longrightarrow> dv_parser_version_id v = po_parser_version_id evidence)
    \<and> (\<exists>p \<in> set (dd_parser_versions db'). pv_id p = po_parser_version_id evidence \<and> is_current_parser p)
    \<and> (\<exists>project. dd_indexing_jobs db' = dd_indexing_jobs db
         @ [new_indexing_job (po_indexing_job_id evidence) project (po_document_version_id evidence) now])"
proof -
  from assms have p: "parse_markdown_or_text rt (cl_document_type document) (cl_raw document) = Inr rs" "rs \<noteq> []"
    and t: "promote_transaction rt ids pid now finished c document rs db = Inr (evidence, db')"
    by (auto simp: promote_def bindE_eq_Inr exn_simps split: sum.splits)
  from t show ?thesis
    by (rule promote_transaction_Inr) (use p insert_evidence_published in auto)
qed

theorem promotion_publishes_witness:
  "published 42 demo_requirements demo_promoted_db"
  using promotion_publishes [OF demo_promotes [unfolded demo_promoted_def]] by simp

text \<open>C28: Promotion is one transaction: it leaves the database as it was, or its only change to the queue is that the
  claim it worked under is closed, as one step of the queue.\<close>

theorem promotion_closes_claim:
  assumes "promote rt up ids pid now finished c document rs db = (r, db')" "parser_jobs_ok (dd_parser_jobs db)"
  shows "(\<exists>e. r = Inl e \<and> db' = db) \<or> (\<exists>evidence. r = Inr evidence
      \<and> parser_step (dd_parser_jobs db) [Closed (cp_job_id c) (claim_lease c)] (dd_parser_jobs db'))"
proof (cases r)
  case (Inl e)
  then show ?thesis using assms(1) promote_Inl_same by blast
next
  case (Inr evidence)
  then have "promote_transaction rt ids pid now finished c document rs db = Inr (evidence, db')"
    using assms(1) by (auto simp: promote_def bindE_eq_Inr split: sum.splits)
  then obtain jobs m m' where j: "complete_claim c now ParserClaimed m (dd_parser_jobs db) = Inr jobs"
    "complete_claim c finished ParserAccepted m' jobs = Inr (dd_parser_jobs db')"
    by (rule promote_transaction_Inr)
  obtain q where q: "q \<in> set (dd_parser_jobs db)" "claim_predicate c now ParserClaimed q" "parser_job_checks (accept_job finished q)"
    "dd_parser_jobs db' = map (\<lambda>k. if k = q then accept_job finished k else k) (dd_parser_jobs db)"
    using complete_twice [OF assms(2) j] .
  have "parser_claim_active worker_claims c now q"
    using q(2) by (simp add: claim_predicate_def parser_claim_active_def parser_scope_def worker_claims_def)
  from parser_step.accept [OF assms(2) q(1) this q(3)] show ?thesis using Inr q(4) by simp
qed

theorem promotion_closes_claim_witness:
  "parser_step demo_claimed_rows [Closed 45 (claim_lease demo_parser_claim)] demo_accepted_rows"
  using promotion_closes_claim [OF demo_promotes [unfolded demo_promoted_def]] demo_jobs_ok(2)
  by (simp add: demo_claimed_db_def demo_promoted_db_def demo_parser_claim_def)

text \<open>C21: A turn of the parser worker that claims a job ends it: if the database answers, the clock readings stay inside the
  lease and the storage raises only its own errors, then after the turn the job is accepted, rejected or failed, and the
  run reports that outcome.\<close>

theorem parser_turn_finishes:
  assumes "parser_jobs_ok (dd_parser_jobs db)" "parser_runtime_from_environment (we_environment w) (we_uid w) = Inr r"
    "parser_claim_next (we_up w 0) worker_claims (we_now w 0) (we_token w) (dd_intakes db) (dd_documents db) (dd_parser_jobs db)
      = (Inr (Some c), rows)"
    "we_up w 4" "\<And>i. i \<in> {1..5} \<Longrightarrow> we_now w 0 \<le> we_now w i \<and> we_now w i < we_now w 0 + DEFAULT_CLAIM_DURATION"
    "we_now w 3 \<le> we_now w 4" "\<And>key e. we_storage w key = Inl e \<Longrightarrow> e \<in> {IntakeUnavailable, StorageRaised}"
  shows "turn_closed c (parser_run_once rt w db)"
proof -
  have c: "\<exists>j \<in> set rows. held_by c j" "parser_jobs_ok rows" "cp_claimed_at c = we_now w 0"
    "cp_claim_expires_at c = we_now w 0 + DEFAULT_CLAIM_DURATION"
    using claim_held [OF assms(3,1)] by (simp_all add: worker_claims_def)
  then obtain j where j: "j \<in> set rows" "held_by c j" by blast
  let ?db = "db\<lparr>dd_parser_jobs := rows\<rparr>"
  have "keeps_claim (we_storage w key)" for key using assms(7) [of key] by (auto simp: keeps_claim_def)
  then have "turn_closed c (process_claim rt w c ?db)"
    using process_claim_closes [of ?db j c w rt] c j assms(4-6) by simp
  then show ?thesis using assms(2,3) by (simp add: parser_run_once_def)
qed

theorem parser_turn_finishes_witness:
  "turn_closed demo_parser_claim (parser_run_once demo_rt demo_turn demo_document_db)"
  by (rule parser_turn_finishes [OF demo_jobs_ok(1) demo_runtime_allowed])
    (use demo_claims in \<open>auto simp: demo_turn_def DEFAULT_CLAIM_DURATION_def\<close>)

text \<open>A parser worker starts only in the restricted role, without network and not as root; a credential variable is
  tolerated only as one of the temporary role credentials of a Lambda function, and then no model key is set.\<close>

theorem restricted_runtime:
  assumes "parser_runtime_from_environment env uid = Inr r"
  shows "pw_role r = PARSER_WORKER_ROLE \<and> pw_network r = ''none'' \<and> uid \<noteq> Some 0
    \<and> getenv env ''OPENAI_API_KEY'' = [] \<and> getenv env ''ANTHROPIC_API_KEY'' = []
    \<and> (\<forall>n \<in> set lambda_role_credentials. getenv env n \<noteq> [] \<longrightarrow> strip (getenv env ''AWS_LAMBDA_FUNCTION_NAME'') \<noteq> []
         \<and> starts_with ''ASIA'' (getenv env ''AWS_ACCESS_KEY_ID'') \<and> strip (getenv env ''AWS_SESSION_TOKEN'') \<noteq> [])"
proof -
  let ?bad = "filter (\<lambda>n. getenv env n \<noteq> []) forbidden_credentials"
  from assms have r: "?bad = [] \<or> set ?bad \<subseteq> set lambda_role_credentials \<and> lambda_parser_credentials_allowed env"
    "pw_role r = PARSER_WORKER_ROLE" "pw_network r = ''none''" "uid \<noteq> Some 0"
    by (auto simp: parser_runtime_from_environment_def Let_def bindE_eq_Inr require_eq_Inr)
  then show ?thesis
    by (auto simp: forbidden_credentials_def lambda_role_credentials_def lambda_parser_credentials_allowed_def split: if_splits)
qed

theorem restricted_runtime_witness:
  "\<exists>r. parser_runtime_from_environment (we_environment demo_turn) (we_uid demo_turn) = Inr r \<and> pw_network r = ''none''
     \<and> getenv (we_environment demo_turn) ''OPENAI_API_KEY'' = []"
  using restricted_runtime [OF demo_runtime_allowed] demo_runtime_allowed by blast

end
