(* ===== verification/Document_Ingestion.thy ===== *)
theory Document_Ingestion
  imports Parser_Promotion Py_Uuid
begin

text \<open>
  Admission of uploads to private quarantine (\<open>ingestion.py\<close>): metadata, type and size checks, the
  bounded read of the stream, deduplication, project quotas, the write-once storage and the intake rows,
  then the parser job.  The storage is a record of its three operations over its own state; the fake of the
  source is one instance.  The stream is the list of its chunks.
\<close>

section \<open>Data\<close>

definition MAX_RAW_UPLOAD_BYTES :: int where "MAX_RAW_UPLOAD_BYTES = 10 * 1024 * 1024"
definition MAX_FILES_PER_PROJECT :: int where "MAX_FILES_PER_PROJECT = 20"
definition MAX_TOTAL_RAW_BYTES_PER_PROJECT :: int where "MAX_TOTAL_RAW_BYTES_PER_PROJECT = 50 * 1024 * 1024"

datatype intake_error =
    DocumentIntakeUnavailable
  | DocumentIntakeRejected string
  | UploadPolicyConfigurationError string
  | OtherStorageError

record upload_policy =
  lp_max_raw_bytes :: int
  lp_max_files_per_project :: int
  lp_max_total_bytes_per_project :: int

definition default_policy :: upload_policy where
  "default_policy = \<lparr>lp_max_raw_bytes = MAX_RAW_UPLOAD_BYTES, lp_max_files_per_project = MAX_FILES_PER_PROJECT,
     lp_max_total_bytes_per_project = MAX_TOTAL_RAW_BYTES_PER_PROJECT\<rparr>"

definition upload_policy_from_environment :: "(string \<times> string) list \<Rightarrow> intake_error + upload_policy" where
  "upload_policy_from_environment environ = (case map_of environ ''DOCUMENT_UPLOAD_MAX_BYTES'' of
     None \<Rightarrow> Inr default_policy
   | Some raw \<Rightarrow>
       (let value = strip raw in
        if \<not> is_decimal value \<or> digits_value value \<le> 0
        then Inl (UploadPolicyConfigurationError ''DOCUMENT_UPLOAD_MAX_BYTES must be a positive integer number of bytes'')
        else if digits_value value > MAX_RAW_UPLOAD_BYTES
        then Inl (UploadPolicyConfigurationError ''DOCUMENT_UPLOAD_MAX_BYTES must not exceed the hard maximum upload size'')
        else Inr (default_policy\<lparr>lp_max_raw_bytes := digits_value value\<rparr>)))"

record upload_metadata =
  um_filename :: string
  um_content_type :: string
  um_content_encoding :: string

record upload =
  ul_stream :: "string list"
  ul_filename :: "string option"
  ul_content_type :: "string option"
  ul_content_encoding :: "string option"
  ul_content_length :: "string option"

section \<open>Storage\<close>

record 's quarantine_storage =
  qs_put :: "string \<Rightarrow> string \<times> string \<Rightarrow> 's \<Rightarrow> (intake_error + unit) \<times> 's"
  qs_read :: "string \<Rightarrow> 's \<Rightarrow> intake_error + (string \<times> string)"
  qs_delete :: "string \<Rightarrow> 's \<Rightarrow> (intake_error + unit) \<times> 's"

type_synonym objects = "string \<rightharpoonup> (string \<times> string)"

definition memory_put :: "string \<Rightarrow> string \<times> string \<Rightarrow> objects \<Rightarrow> (intake_error + unit) \<times> objects" where
  "memory_put key content m = (if m key \<noteq> None then (Inl DocumentIntakeUnavailable, m) else (Inr (), m(key \<mapsto> content)))"

definition memory_read :: "string \<Rightarrow> objects \<Rightarrow> intake_error + (string \<times> string)" where
  "memory_read key m = (case m key of None \<Rightarrow> Inl DocumentIntakeUnavailable | Some c \<Rightarrow> Inr c)"

definition memory_delete :: "string \<Rightarrow> objects \<Rightarrow> (intake_error + unit) \<times> objects" where
  "memory_delete key m = (Inr (), m(key := None))"

definition memory_storage :: "objects quarantine_storage" where
  "memory_storage = \<lparr>qs_put = memory_put, qs_read = memory_read, qs_delete = memory_delete\<rparr>"

text \<open>What the service relies on: objects are written once and touched only under their own key.\<close>

locale write_once_storage =
  fixes storage :: "'s quarantine_storage"
  assumes put_reads: "qs_put storage k c s = (Inr (), s') \<Longrightarrow> qs_read storage k s' = Inr c"
    and put_other: "qs_put storage k c s = (r, s') \<Longrightarrow> k' \<noteq> k \<Longrightarrow> qs_read storage k' s' = qs_read storage k' s"
    and delete_other: "qs_delete storage k s = (r, s') \<Longrightarrow> k' \<noteq> k \<Longrightarrow> qs_read storage k' s' = qs_read storage k' s"

interpretation memory: write_once_storage memory_storage
  by unfold_locales (auto simp: memory_storage_def memory_put_def memory_read_def memory_delete_def split: if_splits)

section \<open>The repository\<close>

type_synonym intake_view = "document_intake_row \<times> bool"

definition document_conflict :: "document_row \<Rightarrow> document_row \<Rightarrow> bool" where
  "document_conflict d e \<longleftrightarrow> dr_id d = dr_id e"

interpretation documents: table document_checks document_conflict
  by unfold_locales (auto simp: document_conflict_def)

text \<open>The column types; \<open>Integer\<close> has 32 bits.\<close>

definition intake_widths :: "document_intake_row \<Rightarrow> bool" where
  "intake_widths r \<longleftrightarrow> di_byte_size r < 2 ^ 31 \<and> length (di_original_filename r) \<le> 255
     \<and> length (di_declared_content_type r) \<le> 128
     \<and> (case di_quarantine_key r of None \<Rightarrow> True | Some k \<Rightarrow> length k \<le> 512)
     \<and> (case di_content_sha256 r of None \<Rightarrow> True | Some h \<Rightarrow> length h \<le> 64)
     \<and> (case di_rejection_code r of None \<Rightarrow> True | Some c \<Rightarrow> length c \<le> 96)"

definition insert_intake :: "document_intake_row \<Rightarrow> document_db \<Rightarrow> db_error + document_db" where
  "insert_intake r db = bindE (insert_row (\<lambda>r. document_intake_checks r \<and> intake_widths r
       \<and> di_project_id r \<in> set (dd_projects db)
       \<and> (case di_document_id r of None \<Rightarrow> True | Some d \<Rightarrow> d \<in> dr_id ` set (dd_documents db))
       \<and> (case di_document_version_id r of None \<Rightarrow> True | Some v \<Rightarrow> v \<in> dv_id ` set (dd_versions db)))
     document_intake_conflict r (dd_intakes db)) (\<lambda>rows. Inr (db\<lparr>dd_intakes := rows\<rparr>))"

definition find_quarantined_hash :: "bool \<Rightarrow> uuid \<Rightarrow> string \<Rightarrow> document_db \<Rightarrow> intake_error + intake_view option" where
  "find_quarantined_hash up project h db =
     (if \<not> up then Inl DocumentIntakeUnavailable
      else Inr (map_option (\<lambda>r. (r, True)) (first_by (\<lambda>r. (di_created_at r, di_id r))
        (filter (\<lambda>r. di_project_id r = project \<and> di_state r = IntakeQuarantined \<and> di_content_sha256 r = Some h) (dd_intakes db)))))"

definition usage_rows :: "uuid \<Rightarrow> document_db \<Rightarrow> document_intake_row list" where
  "usage_rows project db = filter (\<lambda>r. di_project_id r = project \<and> di_state r = IntakeQuarantined) (dd_intakes db)"

definition project_usage :: "bool \<Rightarrow> uuid \<Rightarrow> document_db \<Rightarrow> intake_error + (int \<times> int)" where
  "project_usage up project db =
     (if \<not> up then Inl DocumentIntakeUnavailable
      else Inr (int (length (usage_rows project db)), sum_list (map di_byte_size (usage_rows project db))))"

definition record_rejection ::
  "bool \<Rightarrow> uuid \<Rightarrow> instant \<Rightarrow> uuid \<Rightarrow> upload_metadata \<Rightarrow> int \<Rightarrow> string \<Rightarrow> document_db \<Rightarrow> (intake_error + intake_view) \<times> document_db" where
  "record_rejection up i now project meta byte_size c db =
     (let r = \<lparr>di_id = i, di_project_id = project, di_document_id = None, di_document_version_id = None,
                di_state = IntakeRejected, di_quarantine_key = None, di_original_filename = um_filename meta,
                di_declared_content_type = um_content_type meta, di_byte_size = byte_size, di_content_sha256 = None,
                di_rejection_code = Some c, di_created_at = now\<rparr> in
      if \<not> up then (Inl DocumentIntakeUnavailable, db)
      else case insert_intake r db of Inl _ \<Rightarrow> (Inl DocumentIntakeUnavailable, db) | Inr db' \<Rightarrow> (Inr (r, False), db'))"

text \<open>\<open>create_quarantined\<close>, one transaction; its fresh identifiers are \<open>ids 1\<close> to \<open>ids 4\<close>.\<close>

definition same_document :: "uuid \<Rightarrow> string \<Rightarrow> string \<Rightarrow> document_row \<Rightarrow> bool" where
  "same_document project dtype name d \<longleftrightarrow> dr_project_id d = project \<and> dr_document_type d = dtype \<and> dr_display_name d = name"

definition obtain_document ::
  "uuid \<Rightarrow> instant \<Rightarrow> uuid \<Rightarrow> string \<Rightarrow> string \<Rightarrow> document_db \<Rightarrow> db_error + (uuid \<times> int \<times> document_db)" where
  "obtain_document i now project dtype name db =
     (case first_by (\<lambda>d. (dr_created_at d, dr_id d)) (filter (same_document project dtype name) (dd_documents db)) of
        Some d \<Rightarrow> Inr (dr_id d, foldr max (map dv_version_number (filter (\<lambda>v. dv_document_id v = dr_id d) (dd_versions db))) 0 + 1, db)
      | None \<Rightarrow>
          bindE (insert_row (\<lambda>d. document_checks d \<and> length (dr_document_type d) \<le> 32 \<and> length (dr_display_name d) \<le> 255
              \<and> dr_project_id d \<in> set (dd_projects db)) document_conflict
            \<lparr>dr_id = i, dr_project_id = project, dr_document_type = dtype, dr_display_name = name, dr_created_at = now\<rparr>
            (dd_documents db)) (\<lambda>rows. Inr (i, 1, db\<lparr>dd_documents := rows\<rparr>)))"

definition is_pending_parser :: "parser_version_row \<Rightarrow> bool" where
  "is_pending_parser p \<longleftrightarrow> pv_parser_name p = ''quarantine-pending'' \<and> pv_parser_version p = ''v1''
     \<and> pv_normalization_version p = ''pending''"

definition obtain_pending_parser :: "uuid \<Rightarrow> instant \<Rightarrow> document_db \<Rightarrow> db_error + (uuid \<times> document_db)" where
  "obtain_pending_parser i now db =
     (case find is_pending_parser (dd_parser_versions db) of
        Some p \<Rightarrow> Inr (pv_id p, db)
      | None \<Rightarrow>
          bindE (insert_row parser_version_checks parser_version_conflict
            \<lparr>pv_id = i, pv_parser_name = ''quarantine-pending'', pv_parser_version = ''v1'',
             pv_normalization_version = ''pending'', pv_created_at = now\<rparr> (dd_parser_versions db))
            (\<lambda>rows. Inr (i, db\<lparr>dd_parser_versions := rows\<rparr>)))"

definition insert_version :: "document_version_row \<Rightarrow> document_db \<Rightarrow> db_error + document_db" where
  "insert_version v db = bindE (insert_row (\<lambda>v. document_version_checks v \<and> dv_version_number v < 2 ^ 31 \<and> dv_byte_size v < 2 ^ 31
       \<and> length (dv_content_type v) \<le> 128 \<and> dv_document_id v \<in> dr_id ` set (dd_documents db)
       \<and> dv_parser_version_id v \<in> pv_id ` set (dd_parser_versions db)) document_version_conflict v (dd_versions db))
     (\<lambda>rows. Inr (db\<lparr>dd_versions := rows\<rparr>))"

definition create_transaction ::
  "(nat \<Rightarrow> uuid) \<Rightarrow> instant \<Rightarrow> uuid \<Rightarrow> upload_metadata \<Rightarrow> string \<Rightarrow> int \<Rightarrow> string \<Rightarrow> string \<Rightarrow> document_db
     \<Rightarrow> db_error + (document_intake_row \<times> document_db)" where
  "create_transaction ids now project meta dtype byte_size h key db =
     bindE (obtain_document (ids 1) now project dtype (um_filename meta) db) (\<lambda>(document, number, db1).
     bindE (obtain_pending_parser (ids 2) now db1) (\<lambda>(parser, db2).
     bindE (insert_version \<lparr>dv_id = ids 3, dv_document_id = document, dv_parser_version_id = parser, dv_version_number = number,
         dv_content_sha256 = h, dv_byte_size = byte_size, dv_content_type = um_content_type meta, dv_created_at = now\<rparr> db2) (\<lambda>db3.
     let r = \<lparr>di_id = ids 4, di_project_id = project, di_document_id = Some document, di_document_version_id = Some (ids 3),
               di_state = IntakeQuarantined, di_quarantine_key = Some key, di_original_filename = um_filename meta,
               di_declared_content_type = um_content_type meta, di_byte_size = byte_size, di_content_sha256 = Some h,
               di_rejection_code = None, di_created_at = now\<rparr> in
     bindE (insert_intake r db3) (\<lambda>db4. Inr (r, db4)))))"

definition create_quarantined ::
  "bool \<Rightarrow> (nat \<Rightarrow> uuid) \<Rightarrow> instant \<Rightarrow> uuid \<Rightarrow> upload_metadata \<Rightarrow> string \<Rightarrow> int \<Rightarrow> string \<Rightarrow> string \<Rightarrow> document_db
     \<Rightarrow> (intake_error + intake_view) \<times> document_db" where
  "create_quarantined up ids now project meta dtype byte_size h key db =
     (if \<not> up then (Inl DocumentIntakeUnavailable, db)
      else case create_transaction ids now project meta dtype byte_size h key db of
        Inl _ \<Rightarrow> (Inl DocumentIntakeUnavailable, db)
      | Inr (r, db') \<Rightarrow> (Inr (r, False), db'))"

section \<open>Checks on the request\<close>

text \<open>Well-formed UTF-8: the state holds how many bytes are due and the range of the next one.\<close>

definition utf8_lead :: "nat \<Rightarrow> (nat \<times> nat \<times> nat) option" where
  "utf8_lead n =
     (if 194 \<le> n \<and> n \<le> 223 then Some (1, 128, 191) else if n = 224 then Some (2, 160, 191)
      else if 225 \<le> n \<and> n \<le> 236 then Some (2, 128, 191) else if n = 237 then Some (2, 128, 159)
      else if 238 \<le> n \<and> n \<le> 239 then Some (2, 128, 191) else if n = 240 then Some (3, 144, 191)
      else if 241 \<le> n \<and> n \<le> 243 then Some (3, 128, 191) else if n = 244 then Some (3, 128, 143) else None)"

fun utf8_run :: "nat \<Rightarrow> nat \<Rightarrow> nat \<Rightarrow> string \<Rightarrow> bool" where
  "utf8_run due lo hi [] \<longleftrightarrow> due = 0"
| "utf8_run 0 lo hi (c # cs) \<longleftrightarrow>
     (if code c < 128 then utf8_run 0 0 0 cs
      else case utf8_lead (code c) of None \<Rightarrow> False | Some (due, lo', hi') \<Rightarrow> utf8_run due lo' hi' cs)"
| "utf8_run (Suc due) lo hi (c # cs) \<longleftrightarrow> lo \<le> code c \<and> code c \<le> hi \<and> utf8_run due 128 191 cs"

definition utf8_valid :: "string \<Rightarrow> bool" where
  "utf8_valid s = utf8_run 0 0 0 s"

text \<open>\<open>int(s)\<close>.\<close>

fun dec_run :: "int \<Rightarrow> string \<Rightarrow> int option" where
  "dec_run acc [] = Some acc"
| "dec_run acc (c # cs) =
     (if c = CHR ''_'' then
        (case cs of [] \<Rightarrow> None | d # ds \<Rightarrow> if is_digit d then dec_run (acc * 10 + (int (code d) - 48)) ds else None)
      else if is_digit c then dec_run (acc * 10 + (int (code c) - 48)) cs else None)"

definition py_int :: "string \<Rightarrow> int option" where
  "py_int s =
     (let t = strip_by int_space s; neg = starts_with ''-'' t; u = (if neg \<or> starts_with ''+'' t then tl t else t) in
      case u of [] \<Rightarrow> None
      | c # _ \<Rightarrow> if is_digit c then map_option (\<lambda>n. if neg then - n else n) (dec_run 0 u) else None)"

definition file_types :: "(string \<times> string \<times> string list \<times> int) list" where
  "file_types =
     [(''.md'', ''markdown'', [''text/markdown''], 2 * 1024 * 1024),
      (''.txt'', ''text'', [''text/plain''], 2 * 1024 * 1024),
      (''.pdf'', ''pdf'', [''application/pdf''], MAX_RAW_UPLOAD_BYTES),
      (''.yaml'', ''openapi-yaml'', [''application/yaml'', ''application/x-yaml'', ''text/yaml''], 5 * 1024 * 1024),
      (''.yml'', ''openapi-yaml'', [''application/yaml'', ''application/x-yaml'', ''text/yaml''], 5 * 1024 * 1024),
      (''.json'', ''openapi-json'', [''application/json''], 5 * 1024 * 1024)]"

text \<open>\<open>PurePath(name).name\<close> differs from a name without separators only for a single dot.\<close>

definition or_default :: "string option \<Rightarrow> string \<Rightarrow> string" where
  "or_default s d = (case s of None \<Rightarrow> d | Some [] \<Rightarrow> d | Some t \<Rightarrow> t)"

definition safe_metadata :: "string option \<Rightarrow> string option \<Rightarrow> string option \<Rightarrow> intake_error + upload_metadata" where
  "safe_metadata filename content_type content_encoding =
     (let raw_name = strip (or_default filename []) in
      bindE (require (\<not> (raw_name = [] \<or> length raw_name > 255 \<or> CHR 0x00 \<in> set raw_name))
        (DocumentIntakeRejected ''UPLOAD_FILENAME_INVALID'')) (\<lambda>_.
      bindE (require (\<not> (raw_name = ''.'' \<or> CHR ''/'' \<in> set raw_name \<or> CHR 0x5C \<in> set raw_name))
        (DocumentIntakeRejected ''UPLOAD_FILENAME_INVALID'')) (\<lambda>_.
      let media_type = lower (strip (takeWhile (\<lambda>c. c \<noteq> CHR '';'') (or_default content_type []))) in
      bindE (require (media_type \<noteq> []) (DocumentIntakeRejected ''UPLOAD_CONTENT_TYPE_REQUIRED'')) (\<lambda>_.
      let encoding = lower (strip (or_default content_encoding ''identity'')) in
      bindE (require (encoding = ''identity'') (DocumentIntakeRejected ''UPLOAD_CONTENT_ENCODING_UNSUPPORTED'')) (\<lambda>_.
        Inr \<lparr>um_filename = raw_name, um_content_type = media_type, um_content_encoding = encoding\<rparr>)))))"

text \<open>\<open>PurePath(name).suffix\<close>: from the last dot, unless it is the first or the last character.\<close>

definition path_suffix :: "string \<Rightarrow> string" where
  "path_suffix name = (case rpartition_at (CHR ''.'') name of
     (before, found, after) \<Rightarrow> if found \<and> before \<noteq> [] \<and> after \<noteq> [] then CHR ''.'' # after else [])"

section \<open>The service\<close>

text \<open>
  The database calls are numbered: 0 rejection, 1 hash, 2 usage, 3 creation, 4 and 5 the queue;
  \<open>iv_ids 0\<close> is the identifier of a rejection, 1 to 4 those of the creation, \<open>iv_key\<close> that of the key and
  \<open>iv_job\<close> that of the job.
\<close>

record intake_env =
  iv_up :: "nat \<Rightarrow> bool"
  iv_now :: "nat \<Rightarrow> instant"
  iv_ids :: "nat \<Rightarrow> uuid"
  iv_key :: uuid
  iv_job :: uuid

record 's intake_state =
  in_db :: document_db
  in_store :: 's

definition reject_upload ::
  "intake_env \<Rightarrow> uuid \<Rightarrow> upload_metadata \<Rightarrow> int \<Rightarrow> string \<Rightarrow> 's intake_state \<Rightarrow> (intake_error + intake_view) \<times> 's intake_state" where
  "reject_upload env project meta byte_size c s =
     (case record_rejection (iv_up env 0) (iv_ids env 0) (iv_now env 0) project meta byte_size c (in_db s) of
        (r, db) \<Rightarrow> (r, s\<lparr>in_db := db\<rparr>))"

definition enqueue_parser_job ::
  "intake_env \<Rightarrow> intake_view \<Rightarrow> 's intake_state \<Rightarrow> (intake_error + intake_view) \<times> 's intake_state" where
  "enqueue_parser_job env view s =
     (case parser_enqueue (iv_up env 4) (iv_up env 5) (iv_job env) (iv_now env 4) (di_id (fst view))
         (dd_intakes (in_db s)) (dd_parser_jobs (in_db s)) of
        (Inl _, rows) \<Rightarrow> (Inl DocumentIntakeUnavailable, s)
      | (Inr _, rows) \<Rightarrow> (Inr view, s\<lparr>in_db := (in_db s)\<lparr>dd_parser_jobs := rows\<rparr>\<rparr>))"

text \<open>The stream loop: the content, or the size at which the limit was passed.\<close>

fun read_stream :: "int \<Rightarrow> string \<Rightarrow> string list \<Rightarrow> int + string" where
  "read_stream limit acc [] = Inr acc"
| "read_stream limit acc (c # cs) =
     (if int (length acc + length c) > limit then Inl (int (length acc + length c)) else read_stream limit (acc @ c) cs)"

definition quarantine_key :: "uuid \<Rightarrow> uuid \<Rightarrow> string" where
  "quarantine_key project i = ''quarantine/'' @ uuid_str project @ ''/'' @ uuid_str i @ ''/raw''"

text \<open>Storing the object and its rows; a failure of either deletes the object again.\<close>

definition quarantine_upload ::
  "runtime \<Rightarrow> 's quarantine_storage \<Rightarrow> intake_env \<Rightarrow> uuid \<Rightarrow> upload_metadata \<Rightarrow> string \<Rightarrow> string \<Rightarrow> 's intake_state
     \<Rightarrow> (intake_error + intake_view) \<times> 's intake_state" where
  "quarantine_upload rt storage env project meta dtype content s =
     (let key = quarantine_key project (iv_key env);
          undo = (\<lambda>store db. case qs_delete storage key store of
            (Inl e, store') \<Rightarrow> (Inl e, s\<lparr>in_db := db, in_store := store'\<rparr>)
          | (Inr _, store') \<Rightarrow> (Inl DocumentIntakeUnavailable, s\<lparr>in_db := db, in_store := store'\<rparr>)) in
      case qs_put storage key (content, um_content_type meta) (in_store s) of
        (Inl DocumentIntakeUnavailable, store) \<Rightarrow> undo store (in_db s)
      | (Inl e, store) \<Rightarrow> (Inl e, s\<lparr>in_store := store\<rparr>)
      | (Inr _, store) \<Rightarrow>
          (case create_quarantined (iv_up env 3) (iv_ids env) (iv_now env 3) project meta dtype (int (length content))
              (sha256_hex rt content) key (in_db s) of
             (Inl _, db) \<Rightarrow> undo store db
           | (Inr view, db) \<Rightarrow> enqueue_parser_job env view (s\<lparr>in_db := db, in_store := store\<rparr>)))"

text \<open>From the content on: encoding and signature, deduplication, quotas, quarantine.\<close>

definition admit ::
  "runtime \<Rightarrow> 's quarantine_storage \<Rightarrow> upload_policy \<Rightarrow> intake_env \<Rightarrow> uuid \<Rightarrow> upload_metadata \<Rightarrow> string \<Rightarrow> string \<Rightarrow> 's intake_state
     \<Rightarrow> (intake_error + intake_view) \<times> 's intake_state" where
  "admit rt storage policy env project meta dtype content s =
     (let refuse = (\<lambda>c. reject_upload env project meta (int (length content)) c s) in
      if dtype \<in> {''markdown'', ''text''} \<and> \<not> utf8_valid content then refuse ''UPLOAD_TEXT_ENCODING_INVALID''
      else if dtype = ''pdf'' \<and> take 5 content \<noteq> ''%PDF-'' then refuse ''UPLOAD_SIGNATURE_MISMATCH''
      else case find_quarantined_hash (iv_up env 1) project (sha256_hex rt content) (in_db s) of
        Inl e \<Rightarrow> (Inl e, s)
      | Inr (Some existing) \<Rightarrow> enqueue_parser_job env existing s
      | Inr None \<Rightarrow>
          (case project_usage (iv_up env 2) project (in_db s) of
             Inl e \<Rightarrow> (Inl e, s)
           | Inr (file_count, byte_size) \<Rightarrow>
               if file_count \<ge> lp_max_files_per_project policy then refuse ''UPLOAD_FILE_COUNT_LIMIT''
               else if byte_size + int (length content) > lp_max_total_bytes_per_project policy
               then refuse ''UPLOAD_PROJECT_SIZE_LIMIT''
               else quarantine_upload rt storage env project meta dtype content s))"

definition rejected_metadata :: upload_metadata where
  "rejected_metadata = \<lparr>um_filename = ''rejected-upload'', um_content_type = ''application/octet-stream'',
     um_content_encoding = ''identity''\<rparr>"

text \<open>The declared length: a code and the size to record, if it refuses the upload.\<close>

definition content_length_refusal :: "int \<Rightarrow> string option \<Rightarrow> (string \<times> int) option" where
  "content_length_refusal limit content_length = (case content_length of
     None \<Rightarrow> None
   | Some s \<Rightarrow> (case py_int s of
       None \<Rightarrow> Some (''UPLOAD_CONTENT_LENGTH_INVALID'', 0)
     | Some n \<Rightarrow> if n < 0 then Some (''UPLOAD_CONTENT_LENGTH_INVALID'', 0)
         else if n > limit then Some (''UPLOAD_SIZE_LIMIT'', n) else None))"

definition receive ::
  "runtime \<Rightarrow> 's quarantine_storage \<Rightarrow> upload_policy \<Rightarrow> intake_env \<Rightarrow> uuid \<Rightarrow> upload \<Rightarrow> 's intake_state
     \<Rightarrow> (intake_error + intake_view) \<times> 's intake_state" where
  "receive rt storage policy env project u s =
     (case safe_metadata (ul_filename u) (ul_content_type u) (ul_content_encoding u) of
        Inl (DocumentIntakeRejected c) \<Rightarrow> reject_upload env project rejected_metadata 0 c s
      | Inl e \<Rightarrow> (Inl e, s)
      | Inr meta \<Rightarrow>
          (case map_of file_types (lower (path_suffix (um_filename meta))) of
             None \<Rightarrow> reject_upload env project meta 0 ''UPLOAD_TYPE_UNSUPPORTED'' s
           | Some (dtype, allowed, type_limit) \<Rightarrow>
               let limit = min type_limit (lp_max_raw_bytes policy) in
               if um_content_type meta \<notin> set allowed then reject_upload env project meta 0 ''UPLOAD_TYPE_MISMATCH'' s
               else case content_length_refusal limit (ul_content_length u) of
                 Some (c, n) \<Rightarrow> reject_upload env project meta n c s
               | None \<Rightarrow>
                   (case read_stream limit [] (ul_stream u) of
                      Inl n \<Rightarrow> reject_upload env project meta n ''UPLOAD_SIZE_LIMIT'' s
                    | Inr content \<Rightarrow> admit rt storage policy env project meta dtype content s)))"

end
