(* ===== verification/Ingestion_Correct.thy ===== *)
theory Ingestion_Correct
  imports Document_Ingestion
begin

text \<open>
  What admission keeps: the quotas of every project, the constraints of the tables, and that every
  quarantined row is backed by exactly the bytes, type and digest it names.
\<close>

section \<open>The invariant\<close>

definition quota_ok :: "upload_policy \<Rightarrow> document_db \<Rightarrow> bool" where
  "quota_ok policy db \<longleftrightarrow> (\<forall>project. int (length (usage_rows project db)) \<le> lp_max_files_per_project policy
     \<and> sum_list (map di_byte_size (usage_rows project db)) \<le> lp_max_total_bytes_per_project policy)"

text \<open>The document and version a quarantined row names.\<close>

definition linked :: "document_db \<Rightarrow> document_intake_row \<Rightarrow> bool" where
  "linked db i \<longleftrightarrow> (\<exists>d \<in> set (dd_documents db). \<exists>v \<in> set (dd_versions db).
     di_document_id i = Some (dr_id d) \<and> di_document_version_id i = Some (dv_id v) \<and> dv_document_id v = dr_id d
     \<and> dr_project_id d = di_project_id i \<and> dv_content_type v = di_declared_content_type i
     \<and> dv_byte_size v = di_byte_size i \<and> Some (dv_content_sha256 v) = di_content_sha256 i)"

definition object_backed :: "runtime \<Rightarrow> 's quarantine_storage \<Rightarrow> 's \<Rightarrow> document_intake_row \<Rightarrow> bool" where
  "object_backed rt storage store i \<longleftrightarrow> (\<exists>key raw. di_quarantine_key i = Some key
     \<and> qs_read storage key store = Inr (raw, di_declared_content_type i) \<and> int (length raw) = di_byte_size i
     \<and> di_content_sha256 i = Some (sha256_hex rt raw))"

definition intake_inv :: "runtime \<Rightarrow> 's quarantine_storage \<Rightarrow> upload_policy \<Rightarrow> 's intake_state \<Rightarrow> bool" where
  "intake_inv rt storage policy s \<longleftrightarrow> (let db = in_db s in
     table_ok document_checks document_conflict (dd_documents db)
     \<and> table_ok document_version_checks document_version_conflict (dd_versions db)
     \<and> table_ok parser_version_checks parser_version_conflict (dd_parser_versions db)
     \<and> table_ok document_intake_checks document_intake_conflict (dd_intakes db)
     \<and> parser_jobs_ok (dd_parser_jobs db) \<and> quota_ok policy db
     \<and> (\<forall>i \<in> set (dd_intakes db). di_state i = IntakeQuarantined \<longrightarrow> linked db i \<and> object_backed rt storage (in_store s) i))"

section \<open>The parts of a request\<close>

lemma reject_upload_cases:
  assumes "reject_upload env project meta n c s = (r, s')"
  obtains "s' = s" "r = Inl DocumentIntakeUnavailable"
  | row where "r = Inr (row, False)" "di_state row = IntakeRejected" "di_rejection_code row = Some c" "di_project_id row = project"
      "insert_intake row (in_db s) = Inr (in_db s')" "s' = s\<lparr>in_db := in_db s'\<rparr>"
  using assms by (fastforce simp: reject_upload_def record_rejection_def Let_def split: prod.splits if_splits sum.splits)

lemma insert_intake_Inr:
  assumes "insert_intake r db = Inr db'"
  shows "db' = db\<lparr>dd_intakes := dd_intakes db @ [r]\<rparr>" "document_intake_checks r"
    "\<forall>q \<in> set (dd_intakes db). \<not> document_intake_conflict r q" "di_project_id r \<in> set (dd_projects db)"
  using assms by (auto simp: insert_intake_def exn_simps store_simps)

lemma intakes_ok_insert:
  "insert_intake r db = Inr db' \<Longrightarrow> table_ok document_intake_checks document_intake_conflict (dd_intakes db) \<Longrightarrow>
   table_ok document_intake_checks document_intake_conflict (dd_intakes db')"
  using insert_intake_Inr [of r db db'] document_intakes.insert_keeps [of "dd_intakes db" r] by (auto simp: store_simps)

lemma linked_jobs [simp]: "linked (db\<lparr>dd_parser_jobs := js\<rparr>) i \<longleftrightarrow> linked db i" "linked (db\<lparr>dd_intakes := rs\<rparr>) i \<longleftrightarrow> linked db i"
  by (simp_all add: linked_def)

lemma usage_jobs [simp]: "usage_rows project (db\<lparr>dd_parser_jobs := js\<rparr>) = usage_rows project db"
  by (simp add: usage_rows_def)

lemma reject_keeps:
  assumes "reject_upload env project meta n c s = (r, s')" "intake_inv rt storage policy s"
  shows "intake_inv rt storage policy s'"
  using assms(1)
proof (cases rule: reject_upload_cases)
  case (2 row)
  have db: "in_db s' = (in_db s)\<lparr>dd_intakes := dd_intakes (in_db s) @ [row]\<rparr>" using insert_intake_Inr(1) [OF 2(5)] .
  have st: "in_store s' = in_store s" using 2(6) by (metis intake_state.ext_inject intake_state.surjective intake_state.update_convs(1))
  have "usage_rows p (in_db s') = usage_rows p (in_db s)" for p using 2(2) by (simp add: db usage_rows_def)
  then have "quota_ok policy (in_db s')" using assms(2) by (simp add: quota_ok_def intake_inv_def Let_def)
  moreover have "table_ok document_intake_checks document_intake_conflict (dd_intakes (in_db s'))"
    using intakes_ok_insert [OF 2(5)] assms(2) by (simp add: intake_inv_def Let_def)
  ultimately show ?thesis using assms(2) 2(2) by (auto simp: intake_inv_def Let_def db st)
qed (use assms(2) in simp)

lemma enqueue_job_cases:
  assumes "enqueue_parser_job env view s = (r, s')"
  obtains "s' = s" "r = Inl DocumentIntakeUnavailable"
  | rows where "r = Inr view" "s' = s\<lparr>in_db := (in_db s)\<lparr>dd_parser_jobs := rows\<rparr>\<rparr>"
      "parser_enqueue (iv_up env 4) (iv_up env 5) (iv_job env) (iv_now env 4) (di_id (fst view))
         (dd_intakes (in_db s)) (dd_parser_jobs (in_db s)) = (Inr (), rows)"
  using assms by (auto simp: enqueue_parser_job_def split: prod.splits sum.splits)

lemma parser_enqueue_ok:
  assumes "parser_enqueue up up' i now intake intakes rows = (Inr (), rows')" "parser_jobs_ok rows"
  shows "parser_jobs_ok rows'"
  by (rule parser_step_ok [OF parser_step.enqueue [OF assms(1)] assms(2)])

lemma enqueue_keeps:
  assumes "enqueue_parser_job env view s = (r, s')" "intake_inv rt storage policy s"
  shows "intake_inv rt storage policy s'"
  using assms(1)
proof (cases rule: enqueue_job_cases)
  case (2 rows)
  then have "parser_jobs_ok rows" using assms(2) parser_enqueue_ok by (simp add: intake_inv_def Let_def)
  then show ?thesis using assms(2) by (simp add: 2(2) intake_inv_def Let_def quota_ok_def)
qed (use assms(2) in simp)

section \<open>Creation\<close>

lemma first_by_filter: "first_by key (filter p rows) = Some r \<Longrightarrow> r \<in> set rows \<and> p r"
  using first_by_in [of key "filter p rows" r] by simp

lemma obtain_document_Inr:
  assumes "obtain_document i now project dtype name db = Inr (document, n, db1)"
  shows "\<exists>ds. db1 = db\<lparr>dd_documents := dd_documents db @ ds\<rparr>
    \<and> (table_ok document_checks document_conflict (dd_documents db) \<longrightarrow> table_ok document_checks document_conflict (dd_documents db @ ds))
    \<and> (\<exists>d \<in> set (dd_documents db @ ds). dr_id d = document \<and> same_document project dtype name d)"
proof (cases "first_by (\<lambda>d. (dr_created_at d, dr_id d)) (filter (same_document project dtype name) (dd_documents db))")
  case (Some d)
  with first_by_filter [OF Some] assms show ?thesis by (intro exI [of _ "[]"]) (auto simp: obtain_document_def)
next
  case None
  then obtain d where d: "insert_row (\<lambda>d. document_checks d \<and> length (dr_document_type d) \<le> 32 \<and> length (dr_display_name d) \<le> 255
      \<and> dr_project_id d \<in> set (dd_projects db)) document_conflict d (dd_documents db) = Inr (dd_documents db1)"
    "db1 = db\<lparr>dd_documents := dd_documents db1\<rparr>" "dr_id d = document" "same_document project dtype name d"
    using assms by (auto simp: obtain_document_def exn_simps same_document_def)
  then show ?thesis
    using documents.insert_keeps [of "dd_documents db" d "dd_documents db1"]
    by (intro exI [of _ "[d]"]) (auto simp: store_simps)
qed

lemma create_transaction_Inr:
  assumes "create_transaction ids now project meta dtype n h key db = Inr (r, db')"
  obtains ds ps v d where "d \<in> set (dd_documents db @ ds)" "same_document project dtype (um_filename meta) d"
    "db' = db\<lparr>dd_documents := dd_documents db @ ds, dd_parser_versions := dd_parser_versions db @ ps,
       dd_versions := dd_versions db @ [v], dd_intakes := dd_intakes db @ [r]\<rparr>"
    "table_ok document_checks document_conflict (dd_documents db) \<Longrightarrow> table_ok document_checks document_conflict (dd_documents db @ ds)"
    "document_version_checks v" "\<forall>w \<in> set (dd_versions db). \<not> document_version_conflict v w"
    "document_intake_checks r" "\<forall>q \<in> set (dd_intakes db). \<not> document_intake_conflict r q"
    "\<exists>p \<in> set (dd_parser_versions db @ ps). pv_id p = dv_parser_version_id v \<and> is_pending_parser p"
    "table_ok parser_version_checks parser_version_conflict (dd_parser_versions db) \<Longrightarrow>
     table_ok parser_version_checks parser_version_conflict (dd_parser_versions db @ ps)"
    "project \<in> set (dd_projects db)"
    "dv_document_id v = dr_id d" "dv_id v = ids 3" "dv_content_type v = um_content_type meta" "dv_byte_size v = n" "dv_content_sha256 v = h"
    "r = \<lparr>di_id = ids 4, di_project_id = project, di_document_id = Some (dr_id d), di_document_version_id = Some (ids 3),
          di_state = IntakeQuarantined, di_quarantine_key = Some key, di_original_filename = um_filename meta,
          di_declared_content_type = um_content_type meta, di_byte_size = n, di_content_sha256 = Some h,
          di_rejection_code = None, di_created_at = now\<rparr>"
proof -
  from assms obtain document number db1 parser db2 db3 where
    e: "obtain_document (ids 1) now project dtype (um_filename meta) db = Inr (document, number, db1)"
    "obtain_pending_parser (ids 2) now db1 = Inr (parser, db2)"
    "insert_version \<lparr>dv_id = ids 3, dv_document_id = document, dv_parser_version_id = parser, dv_version_number = number,
         dv_content_sha256 = h, dv_byte_size = n, dv_content_type = um_content_type meta, dv_created_at = now\<rparr> db2 = Inr db3"
    "insert_intake r db3 = Inr db'"
    and r: "r = \<lparr>di_id = ids 4, di_project_id = project, di_document_id = Some document, di_document_version_id = Some (ids 3),
          di_state = IntakeQuarantined, di_quarantine_key = Some key, di_original_filename = um_filename meta,
          di_declared_content_type = um_content_type meta, di_byte_size = n, di_content_sha256 = Some h,
          di_rejection_code = None, di_created_at = now\<rparr>"
    unfolding create_transaction_def Let_def bindE_eq_Inr by (auto simp: bindE_eq_Inr)
  obtain ds d where d: "db1 = db\<lparr>dd_documents := dd_documents db @ ds\<rparr>" "d \<in> set (dd_documents db @ ds)" "dr_id d = document"
    "same_document project dtype (um_filename meta) d"
    "table_ok document_checks document_conflict (dd_documents db) \<Longrightarrow> table_ok document_checks document_conflict (dd_documents db @ ds)"
    using obtain_document_Inr [OF e(1)] by blast
  obtain ps where p: "db2 = db1\<lparr>dd_parser_versions := dd_parser_versions db @ ps\<rparr>"
    "\<exists>p \<in> set (dd_parser_versions db @ ps). pv_id p = parser \<and> is_pending_parser p"
    "table_ok parser_version_checks parser_version_conflict (dd_parser_versions db) \<Longrightarrow>
     table_ok parser_version_checks parser_version_conflict (dd_parser_versions db @ ps)"
  proof (cases "find is_pending_parser (dd_parser_versions db1)")
    case None
    then obtain p where "insert_row parser_version_checks parser_version_conflict p (dd_parser_versions db) = Inr (dd_parser_versions db2)"
      "db2 = db1\<lparr>dd_parser_versions := dd_parser_versions db2\<rparr>" "pv_id p = parser" "is_pending_parser p"
      using e(2) d(1) by (auto simp: obtain_pending_parser_def exn_simps is_pending_parser_def)
    then show thesis using parser_versions.insert_keeps [of "dd_parser_versions db" p "dd_parser_versions db2"]
      by (intro that [of "[p]"]) (auto simp: store_simps)
  next
    case (Some p)
    then have "p \<in> set (dd_parser_versions db)" "is_pending_parser p" using d(1) by (auto simp: find_Some_iff)
    with Some e(2) d(1) show thesis by (intro that [of "[]"]) (auto simp: obtain_pending_parser_def)
  qed
  let ?v = "\<lparr>dv_id = ids 3, dv_document_id = document, dv_parser_version_id = parser, dv_version_number = number,
         dv_content_sha256 = h, dv_byte_size = n, dv_content_type = um_content_type meta, dv_created_at = now\<rparr>"
  have v: "db3 = db2\<lparr>dd_versions := dd_versions db2 @ [?v]\<rparr>" "document_version_checks ?v"
    "\<forall>w \<in> set (dd_versions db2). \<not> document_version_conflict ?v w"
    using e(3) unfolding insert_version_def bindE_eq_Inr insert_row_Inr by auto
  note i = insert_intake_Inr [OF e(4)]
  have db: "db3 = db\<lparr>dd_documents := dd_documents db @ ds, dd_parser_versions := dd_parser_versions db @ ps, dd_versions := dd_versions db @ [?v]\<rparr>"
    using v(1) p(1) d(1) by simp
  show thesis
    by (rule that [OF d(2,4), where ps = ps and v = ?v])
      (use i(2-4) v(2,3) p(2,3) d(1,3,5) r in \<open>simp_all add: i(1) db p(1)\<close>)
qed

section \<open>The invariant is kept\<close>

lemma linked_mono: "linked db i \<Longrightarrow> set (dd_documents db) \<subseteq> set (dd_documents db') \<Longrightarrow> set (dd_versions db) \<subseteq> set (dd_versions db') \<Longrightarrow> linked db' i"
  unfolding linked_def by blast

text \<open>What a request that admits a new upload has passed.\<close>

lemma read_stream_Inr: "read_stream limit acc cs = Inr content \<Longrightarrow> content = acc @ concat cs \<and> (cs \<noteq> [] \<longrightarrow> int (length content) \<le> limit)"
proof (induction cs arbitrary: acc)
  case (Cons c cs)
  then show ?case using Cons.IH [of "acc @ c"] by (cases cs) (auto split: if_splits)
qed simp

lemma reject_not_quarantined: "reject_upload env project meta n c s = (Inr (row, b), s') \<Longrightarrow> di_state row = IntakeRejected"
  by (erule reject_upload_cases) auto

lemma receive_admitted:
  assumes "receive rt storage policy env project u s = (Inr (row, False), s')" "di_state row = IntakeQuarantined"
  obtains meta dtype allowed lim store db where
    "map_of file_types (lower (path_suffix (um_filename meta))) = Some (dtype, allowed, lim)" "um_content_type meta \<in> set allowed"
    "concat (ul_stream u) = [] \<or> int (length (concat (ul_stream u))) \<le> lim"
    "qs_put storage (quarantine_key project (iv_key env)) (concat (ul_stream u), um_content_type meta) (in_store s) = (Inr (), store)"
    "create_transaction (iv_ids env) (iv_now env 3) project meta dtype (int (length (concat (ul_stream u))))
       (sha256_hex rt (concat (ul_stream u))) (quarantine_key project (iv_key env)) (in_db s) = Inr (row, db)"
    "\<exists>rows. s' = \<lparr>in_db = db\<lparr>dd_parser_jobs := rows\<rparr>, in_store = store\<rparr>"
proof -
  note no = reject_not_quarantined
  from assms obtain meta dtype allowed lim content where m:
    "map_of file_types (lower (path_suffix (um_filename meta))) = Some (dtype, allowed, lim)" "um_content_type meta \<in> set allowed"
    "read_stream (min lim (lp_max_raw_bytes policy)) [] (ul_stream u) = Inr content"
    "admit rt storage policy env project meta dtype content s = (Inr (row, False), s')"
    by (auto simp: receive_def Let_def dest!: no split: if_splits sum.splits option.splits prod.splits intake_error.splits)
  from m(4) assms(2) have q: "quarantine_upload rt storage env project meta dtype content s = (Inr (row, False), s')"
    by (auto simp: admit_def Let_def find_quarantined_hash_def dest!: no elim!: enqueue_job_cases
        split: if_splits sum.splits option.splits prod.splits)
  have c: "content = concat (ul_stream u)" "ul_stream u \<noteq> [] \<Longrightarrow> int (length content) \<le> lim"
    using read_stream_Inr [OF m(3)] by auto
  from q obtain store view db where s: "qs_put storage (quarantine_key project (iv_key env)) (content, um_content_type meta) (in_store s) = (Inr (), store)"
    "create_quarantined (iv_up env 3) (iv_ids env) (iv_now env 3) project meta dtype (int (length content)) (sha256_hex rt content)
       (quarantine_key project (iv_key env)) (in_db s) = (Inr view, db)"
    "enqueue_parser_job env view (s\<lparr>in_db := db, in_store := store\<rparr>) = (Inr (row, False), s')"
    by (auto simp: quarantine_upload_def Let_def split: prod.splits sum.splits intake_error.splits)
  have e: "view = (row, False)" "\<exists>rows. s' = \<lparr>in_db = db\<lparr>dd_parser_jobs := rows\<rparr>, in_store = store\<rparr>"
    using s(3) by (cases s; auto elim!: enqueue_job_cases)+
  then have "create_transaction (iv_ids env) (iv_now env 3) project meta dtype (int (length content)) (sha256_hex rt content)
      (quarantine_key project (iv_key env)) (in_db s) = Inr (row, db)"
    using s(2) by (auto simp: create_quarantined_def split: if_splits sum.splits)
  with that m(1,2) c s(1) e(2) show thesis by (cases "ul_stream u = []") auto
qed

context write_once_storage
begin

lemma undo_keeps:
  assumes "intake_inv rt storage policy s" "\<forall>i \<in> set (dd_intakes (in_db s)). di_quarantine_key i \<noteq> Some key"
    "qs_put storage key c (in_store s) = (r, store)"
  shows "intake_inv rt storage policy (s\<lparr>in_store := store\<rparr>)"
    "intake_inv rt storage policy (s\<lparr>in_store := snd (qs_delete storage key store)\<rparr>)"
proof -
  have "qs_read storage k store = qs_read storage k (in_store s)"
    "qs_read storage k (snd (qs_delete storage key store)) = qs_read storage k (in_store s)" if "k \<noteq> key" for k
    using put_other [OF assms(3) that] delete_other [OF prod.collapse [symmetric] that, of store] by simp_all
  then have "object_backed rt storage store i" "object_backed rt storage (snd (qs_delete storage key store)) i"
    if "i \<in> set (dd_intakes (in_db s))" "object_backed rt storage (in_store s) i" for i
    using that assms(2) by (fastforce simp: object_backed_def)+
  then show "intake_inv rt storage policy (s\<lparr>in_store := store\<rparr>)"
    "intake_inv rt storage policy (s\<lparr>in_store := snd (qs_delete storage key store)\<rparr>)"
    using assms(1) by (simp_all add: intake_inv_def Let_def)
qed

lemma create_keeps:
  assumes "create_transaction ids now project meta dtype (int (length content)) (sha256_hex rt content) key (in_db s) = Inr (r, db')"
    and "intake_inv rt storage policy (s\<lparr>in_store := store\<rparr>)" "qs_read storage key store = Inr (content, um_content_type meta)"
    and "int (length (usage_rows project (in_db s))) < lp_max_files_per_project policy"
    and "sum_list (map di_byte_size (usage_rows project (in_db s))) + int (length content) \<le> lp_max_total_bytes_per_project policy"
  shows "intake_inv rt storage policy (s\<lparr>in_db := db', in_store := store\<rparr>)"
proof -
  let ?db = "in_db s"
  obtain ds ps v d where d: "d \<in> set (dd_documents ?db @ ds)" "same_document project dtype (um_filename meta) d"
    "db' = ?db\<lparr>dd_documents := dd_documents ?db @ ds, dd_parser_versions := dd_parser_versions ?db @ ps,
       dd_versions := dd_versions ?db @ [v], dd_intakes := dd_intakes ?db @ [r]\<rparr>"
    "table_ok document_checks document_conflict (dd_documents ?db) \<Longrightarrow> table_ok document_checks document_conflict (dd_documents ?db @ ds)"
    "document_version_checks v" "\<forall>w \<in> set (dd_versions ?db). \<not> document_version_conflict v w"
    "document_intake_checks r" "\<forall>q \<in> set (dd_intakes ?db). \<not> document_intake_conflict r q"
    "table_ok parser_version_checks parser_version_conflict (dd_parser_versions ?db) \<Longrightarrow>
     table_ok parser_version_checks parser_version_conflict (dd_parser_versions ?db @ ps)"
    "dv_document_id v = dr_id d" "dv_id v = ids 3" "dv_content_type v = um_content_type meta" "dv_byte_size v = int (length content)"
    "dv_content_sha256 v = sha256_hex rt content"
    "r = \<lparr>di_id = ids 4, di_project_id = project, di_document_id = Some (dr_id d), di_document_version_id = Some (ids 3),
          di_state = IntakeQuarantined, di_quarantine_key = Some key, di_original_filename = um_filename meta,
          di_declared_content_type = um_content_type meta, di_byte_size = int (length content),
          di_content_sha256 = Some (sha256_hex rt content), di_rejection_code = None, di_created_at = now\<rparr>"
    using create_transaction_Inr [OF assms(1)] by metis
  have tables: "table_ok document_version_checks document_version_conflict (dd_versions ?db @ [v])"
    "table_ok document_intake_checks document_intake_conflict (dd_intakes ?db @ [r])"
    using assms(2) d(5-8) document_versions.insert_keeps [of "dd_versions ?db" v] document_intakes.insert_keeps [of "dd_intakes ?db" r]
    by (simp_all add: intake_inv_def Let_def insert_row_def list_all_iff)
  have "usage_rows p db' = usage_rows p ?db @ (if p = project then [r] else [])" for p
    using d(15) by (simp add: usage_rows_def d(3))
  then have quota: "quota_ok policy db'" using assms(2,4,5) d(15) by (auto simp: quota_ok_def intake_inv_def Let_def)
  have new: "linked db' r" "object_backed rt storage store r"
    using d(1,2,3,10-15) assms(3) by (auto simp: linked_def same_document_def object_backed_def)
  have "linked db' i" if "linked ?db i" for i by (rule linked_mono [OF that]) (auto simp: d(3))
  then show ?thesis using assms(2) new tables quota d(3,4,9) by (auto simp: intake_inv_def Let_def)
qed

lemma quarantine_keeps:
  assumes "quarantine_upload rt storage env project meta dtype content s = (r, s')" "intake_inv rt storage policy s"
    and "\<forall>i \<in> set (dd_intakes (in_db s)). di_quarantine_key i \<noteq> Some (quarantine_key project (iv_key env))"
    and "int (length (usage_rows project (in_db s))) < lp_max_files_per_project policy"
    and "sum_list (map di_byte_size (usage_rows project (in_db s))) + int (length content) \<le> lp_max_total_bytes_per_project policy"
  shows "intake_inv rt storage policy s'"
proof -
  let ?key = "quarantine_key project (iv_key env)"
  obtain p store where p: "qs_put storage ?key (content, um_content_type meta) (in_store s) = (p, store)" by fastforce
  note undo = undo_keeps [OF assms(2,3) p]
  have same: "s\<lparr>in_db := in_db s\<rparr> = s" by simp
  show ?thesis
  proof (cases p)
    case (Inl e)
    then show ?thesis using assms(1) p undo by (cases e) (auto simp: quarantine_upload_def Let_def split: sum.splits prod.splits)
  next
    case (Inr u)
    then have ok: "qs_read storage ?key store = Inr (content, um_content_type meta)" using put_reads p by simp
    show ?thesis
    proof (cases "\<exists>row db. create_quarantined (iv_up env 3) (iv_ids env) (iv_now env 3) project meta dtype (int (length content))
        (sha256_hex rt content) ?key (in_db s) = (Inr row, db)")
      case True
      then obtain row db where c: "create_quarantined (iv_up env 3) (iv_ids env) (iv_now env 3) project meta dtype (int (length content))
        (sha256_hex rt content) ?key (in_db s) = (Inr row, db)" by blast
      then obtain q where q: "create_transaction (iv_ids env) (iv_now env 3) project meta dtype (int (length content))
        (sha256_hex rt content) ?key (in_db s) = Inr (q, db)" by (auto simp: create_quarantined_def split: if_splits sum.splits)
      have "enqueue_parser_job env row (s\<lparr>in_db := db, in_store := store\<rparr>) = (r, s')"
        using assms(1) p Inr c by (simp add: quarantine_upload_def Let_def)
      then show ?thesis using enqueue_keeps create_keeps [OF q undo(1) ok assms(4,5)] by blast
    next
      case False
      then have "s' = s\<lparr>in_store := snd (qs_delete storage ?key store)\<rparr>"
        using assms(1) p Inr
        by (auto simp: quarantine_upload_def create_quarantined_def Let_def split: if_splits sum.splits prod.splits)
      then show ?thesis using undo(2) by simp
    qed
  qed
qed

lemma admit_keeps:
  assumes "admit rt storage policy env project meta dtype content s = (r, s')" "intake_inv rt storage policy s"
    and "\<forall>i \<in> set (dd_intakes (in_db s)). di_quarantine_key i \<noteq> Some (quarantine_key project (iv_key env))"
  shows "intake_inv rt storage policy s'"
  using assms
  by (auto simp: admit_def Let_def project_usage_def not_le not_less
      split: if_splits sum.splits option.splits prod.splits
      elim!: reject_keeps enqueue_keeps quarantine_keeps)

lemma receive_keeps:
  assumes "receive rt storage policy env project u s = (r, s')" "intake_inv rt storage policy s"
    and "\<forall>i \<in> set (dd_intakes (in_db s)). di_quarantine_key i \<noteq> Some (quarantine_key project (iv_key env))"
  shows "intake_inv rt storage policy s'"
  using assms
  by (auto simp: receive_def Let_def split: if_splits sum.splits option.splits prod.splits intake_error.splits
      elim!: reject_keeps admit_keeps)

end

end
