(* ===== verification/Promotion_Succeeds.thy ===== *)
theory Promotion_Succeeds
  imports Promotion_Correct Ingestion_Correct
begin

text \<open>
  When a promotion cannot fail: the source is linked and untouched, the lease runs and the fresh
  identifiers are fresh.  With it, an admitted text upload is published by the next turn on its job.
\<close>

section \<open>The source is found\<close>

lemma concat_single: "filter (\<lambda>x. g x \<noteq> []) xs = [x] \<Longrightarrow> concat (map g xs) = g x"
proof -
  have "concat (map g xs) = concat (map g (filter (\<lambda>x. g x \<noteq> []) xs))" by (induction xs) auto
  then show "filter (\<lambda>x. g x \<noteq> []) xs = [x] \<Longrightarrow> concat (map g xs) = g x" by simp
qed

text \<open>A join on a unique key.\<close>

context table
begin

lemma single_row:
  assumes "ok rows" "r \<in> set rows" "g r \<noteq> []" "\<And>r s. g r \<noteq> [] \<Longrightarrow> g s \<noteq> [] \<Longrightarrow> conflict r s"
  shows "concat (map g rows) = g r"
proof -
  have "r \<in> set (filter (\<lambda>x. g x \<noteq> []) rows)" using assms(2,3) by simp
  moreover have "filter (\<lambda>x. g x \<noteq> []) rows = [] \<or> (\<exists>s \<in> set rows. g s \<noteq> [] \<and> filter (\<lambda>x. g x \<noteq> []) rows = [s])"
    by (rule unique_row [OF assms(1)]) (rule assms(4))
  ultimately have "filter (\<lambda>x. g x \<noteq> []) rows = [r]" by (metis empty_iff list.set(1,2) singletonD)
  then show ?thesis by (rule concat_single)
qed

end

definition sources_ok :: "document_db \<Rightarrow> bool" where
  "sources_ok db \<longleftrightarrow> table_ok document_checks document_conflict (dd_documents db)
     \<and> table_ok document_version_checks document_version_conflict (dd_versions db)
     \<and> table_ok document_intake_checks document_intake_conflict (dd_intakes db)"

text \<open>The three rows a claim leads to.\<close>

definition source_chain :: "document_db \<Rightarrow> claimed_parser_job \<Rightarrow> document_intake_row \<Rightarrow> document_row \<Rightarrow> document_version_row \<Rightarrow> bool" where
  "source_chain db c i d v \<longleftrightarrow> i \<in> set (dd_intakes db) \<and> d \<in> set (dd_documents db) \<and> v \<in> set (dd_versions db)
     \<and> di_document_id i = Some (dr_id d) \<and> di_document_version_id i = Some (dv_id v) \<and> di_id i = cp_document_intake_id c
     \<and> di_state i = IntakeQuarantined \<and> dr_project_id d = di_project_id i \<and> dv_document_id v = dr_id d"

lemma source_of_chain:
  assumes "sources_ok db" "source_chain db c i d v"
  shows "source_of db c e = Inr (i, d, v)"
proof -
  let ?ok = "\<lambda>i d v. di_document_id i = Some (dr_id d) \<and> di_document_version_id i = Some (dv_id v)
        \<and> di_id i = cp_document_intake_id c \<and> di_state i = IntakeQuarantined
        \<and> dr_project_id d = di_project_id i \<and> dv_document_id v = dr_id d"
  let ?gv = "\<lambda>i d v. if ?ok i d v then [(i, d, v)] else []"
  let ?gd = "\<lambda>i d. concat (map (?gv i d) (dd_versions db))"
  let ?gi = "\<lambda>i. concat (map (?gd i) (dd_documents db))"
  note t = assms(1) [unfolded sources_ok_def]
  note m = assms(2) [unfolded source_chain_def]
  have "?gd i d = ?gv i d v"
    by (rule document_versions.single_row) (use t m in \<open>auto simp: document_version_conflict_def split: if_splits\<close>)
  then have v: "?gd i d = [(i, d, v)]" using m by simp
  have "?gi i = ?gd i d"
    by (rule documents.single_row) (use t m v in \<open>auto simp: document_conflict_def concat_eq_Nil_conv split: if_splits\<close>)
  then have d: "?gi i = [(i, d, v)]" using v by simp
  have "concat (map ?gi (dd_intakes db)) = ?gi i"
    by (rule document_intakes.single_row)
      (use t m d in \<open>auto simp: document_intake_conflict_def concat_eq_Nil_conv split: if_splits\<close>)
  then have "concat (map ?gi (dd_intakes db)) = [(i, d, v)]" using d by simp
  then show ?thesis by (simp add: source_of_def source_rows_def)
qed

section \<open>The evidence can be stored\<close>

lemma normalized_trim: "t \<noteq> [] \<Longrightarrow> t = normalize s \<Longrightarrow> sql_trim t \<noteq> []"
proof -
  assume t: "t \<noteq> []" "t = normalize s"
  then have "split_ws (strip s) \<noteq> []" by (auto simp: normalize_def)
  then have "\<not> is_space (hd t)" using join_words_ends [OF all_words] t(2) by (simp add: normalize_def)
  then have "hd t \<noteq> CHR '' ''" by (auto simp: is_space_def code_def)
  then have h: "lstrip_by (\<lambda>c. c = CHR '' '') t = t" by (intro lstrip_by_eq_self) simp
  have "rstrip_by (\<lambda>c. c = CHR '' '') t \<noteq> []"
    using t(1) \<open>hd t \<noteq> CHR '' ''\<close> by (cases t) (auto simp: rstrip_by_def dropWhile_eq_Nil_conv)
  then show "sql_trim t \<noteq> []" by (simp add: sql_trim_def strip_by_def h)
qed

definition fresh_from :: "(nat \<Rightarrow> uuid) \<Rightarrow> nat \<Rightarrow> nat \<Rightarrow> uuid set \<Rightarrow> bool" where
  "fresh_from ids n m used \<longleftrightarrow> inj_on ids {n..<m} \<and> ids ` {n..<m} \<inter> used = {}"

lemma insert_evidence_ok:
  assumes "\<forall>r \<in> set rs. 1 \<le> pr_line_start r \<and> pr_line_end r = pr_line_start r \<and> length (pr_content_sha256 r) = 64
      \<and> sql_trim (pr_normalized_text r) \<noteq> []"
    and "distinct (map pr_ordinal rs)"
    and "\<forall>s \<in> set ss. ds_document_version_id s = version \<longrightarrow> ds_ordinal s \<notin> int ` pr_ordinal ` set rs"
    and "fresh_from ids n (n + 2 * length rs) (sl_id ` set ls \<union> ds_id ` set ss)"
  shows "\<exists>ls' ss'. insert_evidence ids n version rs ls ss = Inr (ls', ss')"
  using assms
proof (induction rs arbitrary: n ls ss)
  case (Cons r rs)
  let ?l = "location_of (ids n) version r" and ?s = "section_row_of (ids (Suc n)) version (ids n) r"
  have inj: "inj_on ids {n..<n + 2 * length (r # rs)}" and used: "ids ` {n..<n + 2 * length (r # rs)} \<inter> (sl_id ` set ls \<union> ds_id ` set ss) = {}"
    using Cons.prems(4) by (simp_all add: fresh_from_def)
  have new: "ids n \<notin> sl_id ` set ls \<union> ds_id ` set ss" "ids (Suc n) \<notin> sl_id ` set ls \<union> ds_id ` set ss"
  proof -
    have "ids n \<in> ids ` {n..<n + 2 * length (r # rs)}" "ids (Suc n) \<in> ids ` {n..<n + 2 * length (r # rs)}"
      by (rule imageI, simp)+
    then show "ids n \<notin> sl_id ` set ls \<union> ds_id ` set ss" "ids (Suc n) \<notin> sl_id ` set ls \<union> ds_id ` set ss"
      using used by blast+
  qed
  have l: "insert_row source_location_checks source_location_conflict ?l ls = Inr (ls @ [?l])"
    using Cons.prems(1) new
    by (auto simp: insert_row_def list_all_iff source_location_checks_def location_of_def sql_trim_def strip_by_def
        lstrip_by_def rstrip_by_def sql_less_def sql_le_def source_location_conflict_def)
  have s: "insert_row document_section_checks document_section_conflict ?s ss = Inr (ss @ [?s])"
    using Cons.prems(1,3) new
    by (auto simp: insert_row_def list_all_iff document_section_checks_def section_row_of_def document_section_conflict_def image_iff)
  have "fresh_from ids (Suc (Suc n)) (Suc (Suc n) + 2 * length rs) (sl_id ` set (ls @ [?l]) \<union> ds_id ` set (ss @ [?s]))"
  proof -
    have "ids k \<noteq> ids n \<and> ids k \<noteq> ids (Suc n) \<and> ids k \<notin> sl_id ` set ls \<union> ds_id ` set ss" if "k \<in> {Suc (Suc n)..<Suc (Suc n) + 2 * length rs}" for k
    proof -
      have k: "k \<in> {n..<n + 2 * length (r # rs)}" "n \<in> {n..<n + 2 * length (r # rs)}" "Suc n \<in> {n..<n + 2 * length (r # rs)}"
        using that by auto
      then have "ids k \<in> ids ` {n..<n + 2 * length (r # rs)}" by blast
      moreover have "ids k \<noteq> ids n" "ids k \<noteq> ids (Suc n)"
        using inj_onD [OF inj _ k(1,2)] inj_onD [OF inj _ k(1,3)] that by auto
      ultimately show ?thesis using used by blast
    qed
    moreover have "inj_on ids {Suc (Suc n)..<Suc (Suc n) + 2 * length rs}" by (rule inj_on_subset [OF inj]) auto
    ultimately show ?thesis by (fastforce simp: fresh_from_def location_of_def section_row_of_def)
  qed
  moreover have "\<forall>q \<in> set (ss @ [?s]). ds_document_version_id q = version \<longrightarrow> ds_ordinal q \<notin> int ` pr_ordinal ` set rs"
    using Cons.prems(2,3) by (auto simp: section_row_of_def)
  ultimately have "\<exists>ls' ss'. insert_evidence ids (Suc (Suc n)) version rs (ls @ [?l]) (ss @ [?s]) = Inr (ls', ss')"
    using Cons.IH Cons.prems(1,2) by simp
  then show ?case by (simp add: l s stored_or_def except_def)
qed simp

section \<open>Promotion succeeds\<close>

definition ids_short :: "parsed_requirement list \<Rightarrow> bool" where
  "ids_short rs \<longleftrightarrow> (\<forall>r \<in> set rs. case pr_requirement_id r of None \<Rightarrow> True | Some i \<Rightarrow> length i \<le> 255)"

text \<open>A version waits: it has the pending parser version, no evidence and no indexing job.\<close>

definition version_pending :: "document_db \<Rightarrow> document_version_row \<Rightarrow> bool" where
  "version_pending db v \<longleftrightarrow> (\<exists>p. find (\<lambda>p. pv_id p = dv_parser_version_id v) (dd_parser_versions db) = Some p \<and> is_pending_parser p)
     \<and> (\<forall>l \<in> set (dd_locations db). sl_document_version_id l \<noteq> dv_id v)
     \<and> (\<forall>s \<in> set (dd_sections db). ds_document_version_id s \<noteq> dv_id v)
     \<and> (\<forall>j \<in> set (dd_indexing_jobs db). ij_document_version_id j \<noteq> dv_id v)"

definition ids_fresh :: "(nat \<Rightarrow> uuid) \<Rightarrow> uuid \<Rightarrow> nat \<Rightarrow> document_db \<Rightarrow> bool" where
  "ids_fresh ids pid n db \<longleftrightarrow> fresh_from ids 0 (2 * n) (sl_id ` set (dd_locations db) \<union> ds_id ` set (dd_sections db))
     \<and> ids (2 * n) \<notin> ij_id ` set (dd_indexing_jobs db) \<and> pid \<notin> pv_id ` set (dd_parser_versions db)"

lemma parsed_storable:
  assumes "parse_markdown_or_text rt dt raw = Inr rs" "\<And>s. length (sha256_hex rt s) = 64"
  shows "\<forall>r \<in> set rs. 1 \<le> pr_line_start r \<and> pr_line_end r = pr_line_start r \<and> length (pr_content_sha256 r) = 64
      \<and> sql_trim (pr_normalized_text r) \<noteq> []" "distinct (map pr_ordinal rs)"
proof -
  obtain lines where c: "collected rt lines (Suc (length lines)) rs"
    using parse_accepted [OF assms(1)] by blast
  then show "distinct (map pr_ordinal rs)" by (simp add: collected_def)
  show "\<forall>r \<in> set rs. 1 \<le> pr_line_start r \<and> pr_line_end r = pr_line_start r \<and> length (pr_content_sha256 r) = 64
      \<and> sql_trim (pr_normalized_text r) \<noteq> []"
    using c assms(2) normalized_trim unfolding collected_def backed_def by metis
qed

lemma parser_version_of_ok:
  assumes "pid \<notin> pv_id ` set pvs"
  shows "\<exists>x. parser_version_of pid now pvs = Inr x"
proof (cases "find is_current_parser pvs")
  case None
  then have "\<forall>p \<in> set pvs. \<not> is_current_parser p" by (auto simp: find_None_iff)
  then have n: "\<not> (pv_parser_name p = PARSER_NAME \<and> pv_parser_version p = PARSER_VERSION \<and> pv_normalization_version p = NORMALIZATION_VERSION)"
    if "p \<in> set pvs" for p using that by (auto simp: is_current_parser_def)
  have "sql_trim PARSER_NAME \<noteq> []" "sql_trim PARSER_VERSION \<noteq> []" "sql_trim NORMALIZATION_VERSION \<noteq> []" by code_simp+
  then show ?thesis using n assms None
    by (fastforce simp: parser_version_of_def stored_or_def except_def insert_row_def list_all_iff parser_version_checks_def
        parser_version_conflict_def)
qed (simp add: parser_version_of_def)

lemma indexing_defaults: "sql_trim DEFAULT_CHUNKING_VERSION \<noteq> []" "sql_trim DEFAULT_EMBEDDING_MODEL \<noteq> []" "sql_trim DEFAULT_EMBEDDING_VERSION \<noteq> []"
proof -
  have "(sql_trim DEFAULT_CHUNKING_VERSION \<noteq> []) \<and>
      (sql_trim DEFAULT_EMBEDDING_MODEL \<noteq> []) \<and>
      (sql_trim DEFAULT_EMBEDDING_VERSION \<noteq> [])" by code_simp
  then show "sql_trim DEFAULT_CHUNKING_VERSION \<noteq> []" "sql_trim DEFAULT_EMBEDDING_MODEL \<noteq> []" "sql_trim DEFAULT_EMBEDDING_VERSION \<noteq> []" by - (elim conjE, assumption)+
qed

lemma promote_transaction_ok:
  assumes "sources_ok db" "source_chain db c i d v" "version_pending db v" "validate_source rt i d v document = Inr ()"
    and "parser_jobs_ok (dd_parser_jobs db)" "j \<in> set (dd_parser_jobs db)" "held_by c j"
    and "cp_claimed_at c \<le> now" "now \<le> finished" "finished < cp_claim_expires_at c"
    and "parse_markdown_or_text rt dt raw = Inr rs" "\<And>s. length (sha256_hex rt s) = 64"
    and "ids_fresh ids pid (length rs) db" "dr_project_id d \<in> set (dd_projects db)"
  shows "\<exists>evidence db'. promote_transaction rt ids pid now finished c document rs db = Inr (evidence, db')"
proof -
  note c1 = complete_held [OF assms(5-8) order.strict_trans1 [OF assms(9,10)]]
  obtain jobs' where c2: "complete_claim c finished ParserAccepted ''Parser job claim expired during promotion''
      (map (\<lambda>k. if claim_predicate c now ParserClaimed k then accept_job now k else k) (dd_parser_jobs db)) = Inr jobs'"
    using complete_accepted [OF assms(5-8) order.strict_trans1 [OF assms(9,10)] order.trans [OF assms(8,9)] assms(10)] by blast
  note src = source_of_chain [OF assms(1,2)]
  obtain p where p: "find (\<lambda>p. pv_id p = dv_parser_version_id v) (dd_parser_versions db) = Some p" "is_pending_parser p"
    using assms(3) by (auto simp: version_pending_def)
  obtain parser pvs where pv: "parser_version_of pid now (dd_parser_versions db) = Inr (parser, pvs)"
    using parser_version_of_ok [of pid "dd_parser_versions db" now] assms(13) by (auto simp: ids_fresh_def)
  obtain ls ss where ev: "insert_evidence ids 0 (dv_id v) rs (dd_locations db) (dd_sections db) = Inr (ls, ss)"
    using insert_evidence_ok [of rs "dd_sections db" "dv_id v" ids 0 "dd_locations db"] parsed_storable [OF assms(11,12)] assms(3,13)
    by (auto simp: version_pending_def ids_fresh_def)
  have upd: "\<exists>x. stored_or (update_where document_version_checks (\<lambda>w. dv_id w = dv_id v)
      (\<lambda>w. w\<lparr>dv_parser_version_id := parser\<rparr>) (dd_versions db)) = Inr x"
    using assms(1) by (auto simp: stored_or_def except_def update_where_def list_all_iff sources_ok_def table_ok_def document_version_checks_def)
  have ij: "stored_or (insert_row (\<lambda>j. indexing_job_checks j \<and> ij_project_id j \<in> set (dd_projects db)) indexing_job_conflict
      (new_indexing_job (ids (2 * length rs)) (dr_project_id d) (dv_id v) now) (dd_indexing_jobs db))
    = Inr (dd_indexing_jobs db @ [new_indexing_job (ids (2 * length rs)) (dr_project_id d) (dv_id v) now])"
    using assms(3,13,14) indexing_defaults
    by (auto simp: stored_or_def except_def insert_row_def list_all_iff new_indexing_job_def indexing_job_checks_def
        indexing_job_lifecycle_def indexing_job_conflict_def version_pending_def ids_fresh_def)
  have none: "\<not> list_ex (\<lambda>l. sl_document_version_id l = dv_id v) (dd_locations db)" "\<not> list_ex (\<lambda>s. ds_document_version_id s = dv_id v) (dd_sections db)"
    using assms(3) by (auto simp: version_pending_def list_ex_iff)
  have "(pv_parser_name p, pv_parser_version p, pv_normalization_version p) = (''quarantine-pending'', ''v1'', ''pending'')"
    using p(2) by (simp add: is_pending_parser_def)
  then show ?thesis
    using upd assms(4,9) unfolding promote_transaction_def c1 bindE_Inr src
    by (auto simp: p(1) pv ev ij none c2 require_def simp del: insert_evidence.simps)
qed

section \<open>The turn accepts\<close>

lemma promote_ok:
  assumes "promote_transaction rt ids pid now finished c document rs db = Inr (evidence, db')"
    and "parse_markdown_or_text rt (cl_document_type document) (cl_raw document) = Inr rs" "rs \<noteq> []" "ids_short rs"
    and "0 < length (cl_raw document)" "length (cl_raw document) \<le> MAX_PROMOTED_TEXT_BYTES"
  shows "promote rt True ids pid now finished c document rs db = (Inr evidence, db')"
proof -
  have "\<not> list_ex (\<lambda>r. case pr_requirement_id r of None \<Rightarrow> False | Some i \<Rightarrow> length i > 255) rs"
    using assms(4) by (auto simp: ids_short_def list_ex_iff split: option.splits)
  then show ?thesis using assms by (simp add: promote_def require_def except_def)
qed

lemma process_claim_accepts:
  assumes src: "sources_ok db" "source_chain db c i d v" "version_pending db v" "dr_project_id d \<in> set (dd_projects db)"
    and object: "di_quarantine_key i = Some key" "we_storage w key = Inr (raw, dv_content_type v)"
    and valid: "validate_source rt i d v \<lparr>cl_document_type = dr_document_type d, cl_raw = raw\<rparr> = Inr ()"
    and job: "parser_jobs_ok (dd_parser_jobs db)" "j \<in> set (dd_parser_jobs db)" "held_by c j"
    and clock: "\<And>i. i \<in> {1..4} \<Longrightarrow> cp_claimed_at c \<le> we_now w i \<and> we_now w i < cp_claim_expires_at c" "we_now w 3 \<le> we_now w 4"
    and up: "\<And>n. we_up w n"
    and parsed: "parse_markdown_or_text rt (dr_document_type d) raw = Inr rs" "rs \<noteq> []" "ids_short rs" "\<And>s. length (sha256_hex rt s) = 64"
    and fresh: "ids_fresh (we_ids w) (we_parser_id w) (length rs) db"
  shows "\<exists>evidence db'. promote rt True (we_ids w) (we_parser_id w) (we_now w 3) (we_now w 4) c
        \<lparr>cl_document_type = dr_document_type d, cl_raw = raw\<rparr> rs db = (Inr evidence, db')
    \<and> po_document_version_id evidence = dv_id v \<and> published (dv_id v) rs db'
    \<and> process_claim rt w c db = (Inr \<lparr>pp_state = RunAccepted, pp_job_id = Some (cp_job_id c),
        pp_document_version_id = Some (dv_id v), pp_section_count = length rs\<rparr>, db')"
proof -
  let ?doc = "\<lparr>cl_document_type = dr_document_type d, cl_raw = raw\<rparr>"
  have t: "cp_claimed_at c \<le> we_now w i \<and> we_now w i < cp_claim_expires_at c" if "i \<in> {1, 2, 3, 4}" for i
    using clock(1) that by auto
  have active: "require_active db c (we_now w k) = Inr ()" if "k \<in> {1, 2}" for k
    using held_active(1) [OF job(3), of "we_now w k"] t [of k] that job(2) by (auto simp: require_active_def require_def list_ex_iff)
  from valid have type: "dr_document_type d \<in> {''markdown'', ''text''}" "0 < length raw" "length raw \<le> MAX_PROMOTED_TEXT_BYTES"
    by (auto simp: validate_source_def bindE_eq_Inr require_eq_Inr Let_def)
  have read: "read_claimed rt (we_storage w) True (we_now w 1) db True (we_now w 2) db c = Inr ?doc"
    using type(1) object valid active source_of_chain [OF src(1,2)]
    by (auto simp: read_claimed_def require_def Let_def)
  obtain evidence db' where p: "promote_transaction rt (we_ids w) (we_parser_id w) (we_now w 3) (we_now w 4) c ?doc rs db = Inr (evidence, db')"
    using promote_transaction_ok [OF src(1-3) valid job] t [of 3] t [of 4] clock(2) parsed(1,4) fresh src(4) by blast
  obtain intake sd version pid where f: "source_of db c not_stored = Inr (intake, sd, version)"
    "insert_evidence (we_ids w) 0 (dv_id version) rs (dd_locations db) (dd_sections db) = Inr (dd_locations db', dd_sections db')"
    "\<forall>l \<in> set (dd_locations db). sl_document_version_id l \<noteq> dv_id version"
    "\<forall>s \<in> set (dd_sections db). ds_document_version_id s \<noteq> dv_id version"
    "evidence = \<lparr>po_document_version_id = dv_id version, po_parser_version_id = pid,
       po_section_ids = map (\<lambda>k. we_ids w (2 * k + 1)) [0..<length rs], po_indexing_job_id = we_ids w (2 * length rs)\<rparr>"
    by (rule promote_transaction_Inr [OF p]) (rule that; assumption)
  have "version = v" using f(1) source_of_chain [OF src(1,2), of not_stored] by simp
  then have e: "po_document_version_id evidence = dv_id v" "length (po_section_ids evidence) = length rs"
    "published (dv_id v) rs db'"
    using insert_evidence_published [OF f(2-4)] f(5) by simp_all
  note ok = promote_ok [OF p] 
  show ?thesis
    using ok parsed read e up type by (auto simp: process_claim_def except_def)
qed

section \<open>From upload to evidence\<close>

text \<open>The references of evidence and indexing jobs to versions.\<close>

definition references_ok :: "document_db \<Rightarrow> bool" where
  "references_ok db \<longleftrightarrow> (\<forall>l \<in> set (dd_locations db). sl_document_version_id l \<in> dv_id ` set (dd_versions db))
     \<and> (\<forall>q \<in> set (dd_sections db). ds_document_version_id q \<in> dv_id ` set (dd_versions db))
     \<and> (\<forall>j \<in> set (dd_indexing_jobs db). ij_document_version_id j \<in> dv_id ` set (dd_versions db))"

lemma text_types:
  assumes "map_of file_types x = Some (dt, allowed, lim)" "dt \<in> {''markdown'', ''text''}"
  shows "set allowed = {if dt = ''markdown'' then ''text/markdown'' else ''text/plain''}" "lim = int MAX_PROMOTED_TEXT_BYTES"
  using assms by (auto simp: file_types_def MAX_PROMOTED_TEXT_BYTES_def split: if_splits)

lemma find_unique_parser:
  assumes "table_ok parser_version_checks parser_version_conflict pvs" "p \<in> set pvs"
  shows "find (\<lambda>q. pv_id q = pv_id p) pvs = Some p"
proof -
  obtain q where q: "find (\<lambda>q. pv_id q = pv_id p) pvs = Some q" using assms(2) by (cases "find (\<lambda>q. pv_id q = pv_id p) pvs") (auto simp: find_None_iff)
  then have "q \<in> set pvs" "pv_id q = pv_id p" using find_Some_in by fastforce+
  then have "q = p" using parser_versions.conflict_eq [OF assms(1) _ assms(2)] by (simp add: parser_version_conflict_def)
  with q show ?thesis by simp
qed

lemma admitted_ready:
  assumes storage: "write_once_storage storage" and inv: "intake_inv rt storage policy s" "references_ok (in_db s)"
    and fresh: "\<forall>i \<in> set (dd_intakes (in_db s)). di_quarantine_key i \<noteq> Some (quarantine_key project (iv_key env))"
    and rec: "receive rt storage policy env project u s = (Inr (row, False), s')" "di_state row = IntakeQuarantined"
    and parsed: "map_of file_types (lower (path_suffix (di_original_filename row))) = Some (dt, allowed, lim)"
      "parse_markdown_or_text rt dt (concat (ul_stream u)) = Inr rs" "rs \<noteq> []"
    and claim: "di_id row = cp_document_intake_id c"
  shows "\<exists>d v key. sources_ok (in_db s') \<and> source_chain (in_db s') c row d v \<and> version_pending (in_db s') v
    \<and> dr_project_id d \<in> set (dd_projects (in_db s')) \<and> dr_document_type d = dt
    \<and> di_quarantine_key row = Some key \<and> qs_read storage key (in_store s') = Inr (concat (ul_stream u), dv_content_type v)
    \<and> validate_source rt row d v \<lparr>cl_document_type = dt, cl_raw = concat (ul_stream u)\<rparr> = Inr ()"
proof -
  let ?raw = "concat (ul_stream u)" and ?key = "quarantine_key project (iv_key env)"
  obtain meta dtype al li store db where m:
    "map_of file_types (lower (path_suffix (um_filename meta))) = Some (dtype, al, li)" "um_content_type meta \<in> set al"
    "?raw = [] \<or> int (length ?raw) \<le> li"
    "qs_put storage ?key (?raw, um_content_type meta) (in_store s) = (Inr (), store)"
    "create_transaction (iv_ids env) (iv_now env 3) project meta dtype (int (length ?raw)) (sha256_hex rt ?raw) ?key (in_db s) = Inr (row, db)"
    "\<exists>rows. s' = \<lparr>in_db = db\<lparr>dd_parser_jobs := rows\<rparr>, in_store = store\<rparr>"
    by (rule receive_admitted [OF rec])
  obtain ds ps v d where d: "d \<in> set (dd_documents (in_db s) @ ds)" "same_document project dtype (um_filename meta) d"
    "db = (in_db s)\<lparr>dd_documents := dd_documents (in_db s) @ ds, dd_parser_versions := dd_parser_versions (in_db s) @ ps,
       dd_versions := dd_versions (in_db s) @ [v], dd_intakes := dd_intakes (in_db s) @ [row]\<rparr>"
    "\<forall>w \<in> set (dd_versions (in_db s)). \<not> document_version_conflict v w"
    "\<exists>p \<in> set (dd_parser_versions (in_db s) @ ps). pv_id p = dv_parser_version_id v \<and> is_pending_parser p"
    "project \<in> set (dd_projects (in_db s))"
    "dv_document_id v = dr_id d" "dv_id v = iv_ids env 3" "dv_content_type v = um_content_type meta" "dv_byte_size v = int (length ?raw)"
    "dv_content_sha256 v = sha256_hex rt ?raw"
    "row = \<lparr>di_id = iv_ids env 4, di_project_id = project, di_document_id = Some (dr_id d), di_document_version_id = Some (iv_ids env 3),
          di_state = IntakeQuarantined, di_quarantine_key = Some ?key, di_original_filename = um_filename meta,
          di_declared_content_type = um_content_type meta, di_byte_size = int (length ?raw),
          di_content_sha256 = Some (sha256_hex rt ?raw), di_rejection_code = None, di_created_at = iv_now env 3\<rparr>"
    using create_transaction_Inr [OF m(5)] by metis
  have inv': "intake_inv rt storage policy s'" using write_once_storage.receive_keeps [OF storage rec(1) inv(1) fresh] .
  have dt: "dt = dtype" "allowed = al" "lim = li" using parsed(1) m(1) d(12) by simp_all
  have textual: "dt \<in> {''markdown'', ''text''}" by (rule parse_accepted [OF parsed(2)])
  have empty: "parse_markdown_or_text rt dt [] = Inr []"
    using textual by (auto simp: parse_markdown_or_text_def splitlines_def)
  have raw: "?raw \<noteq> []"
  proof
    assume "?raw = []"
    from parsed(2) [unfolded this] empty parsed(3) show False by simp
  qed
  note types = text_types [OF parsed(1) textual]
  have db': "dd_documents (in_db s') = dd_documents (in_db s) @ ds" "dd_versions (in_db s') = dd_versions (in_db s) @ [v]"
    "dd_intakes (in_db s') = dd_intakes (in_db s) @ [row]" "dd_parser_versions (in_db s') = dd_parser_versions (in_db s) @ ps"
    "dd_projects (in_db s') = dd_projects (in_db s)" "dd_locations (in_db s') = dd_locations (in_db s)"
    "dd_sections (in_db s') = dd_sections (in_db s)" "dd_indexing_jobs (in_db s') = dd_indexing_jobs (in_db s)" "in_store s' = store"
    using m(6) d(3) by auto
  have ok: "sources_ok (in_db s')" using inv' by (simp add: sources_ok_def intake_inv_def Let_def)
  have chain: "source_chain (in_db s') c row d v"
    using d(1,2,7,8,12) claim by (simp add: source_chain_def db' same_document_def)
  have "dv_id v \<notin> dv_id ` set (dd_versions (in_db s))" using d(4) by (auto simp: document_version_conflict_def)
  then have unused: "\<forall>l \<in> set (dd_locations (in_db s)). sl_document_version_id l \<noteq> dv_id v"
    "\<forall>q \<in> set (dd_sections (in_db s)). ds_document_version_id q \<noteq> dv_id v"
    "\<forall>j \<in> set (dd_indexing_jobs (in_db s)). ij_document_version_id j \<noteq> dv_id v"
    using inv(2) unfolding references_ok_def by metis+
  obtain p where p: "p \<in> set (dd_parser_versions (in_db s'))" "pv_id p = dv_parser_version_id v" "is_pending_parser p"
    using d(5) db'(4) by auto
  have "table_ok parser_version_checks parser_version_conflict (dd_parser_versions (in_db s'))"
    using inv' by (simp add: intake_inv_def Let_def)
  from find_unique_parser [OF this p(1)]
  have pending: "find (\<lambda>q. pv_id q = dv_parser_version_id v) (dd_parser_versions (in_db s')) = Some p" by (simp add: p(2))
  have "version_pending (in_db s') v"
    using unused pending p(3) by (simp add: version_pending_def db')
  moreover have "qs_read storage ?key store = Inr (?raw, um_content_type meta)"
    using write_once_storage.put_reads [OF storage m(4)] .
  moreover have "validate_source rt row d v \<lparr>cl_document_type = dt, cl_raw = ?raw\<rparr> = Inr ()"
  proof -
    have "dr_document_type d = dt" using d(2) dt(1) by (simp add: same_document_def)
    moreover have "um_content_type meta = (if dt = ''markdown'' then ''text/markdown'' else ''text/plain'')"
      using m(2) types(1) dt(2) by simp
    moreover have "0 < length ?raw" "length ?raw \<le> MAX_PROMOTED_TEXT_BYTES"
      using raw m(3) types(2) dt(3) by (simp_all del: concat_eq_Nil_conv)
    moreover have "di_declared_content_type row = um_content_type meta" "di_byte_size row = int (length ?raw)"
      "di_content_sha256 row = Some (sha256_hex rt ?raw)" "di_quarantine_key row \<noteq> None"
      using d(12) by simp_all
    ultimately show ?thesis using textual d(9-11)
      by (simp add: validate_source_def require_def Let_def del: length_greater_0_conv length_concat)
  qed
  moreover have "dr_project_id d \<in> set (dd_projects (in_db s'))" "dr_document_type d = dt" "di_quarantine_key row = Some ?key"
    using d(2,6,12) dt(1) db'(5) by (simp_all add: same_document_def)
  ultimately show ?thesis unfolding db'(9) using ok chain d(9) by metis
qed

end
