(* ===== verification/Intake_Interleaving.thy ===== *)
theory Intake_Interleaving
  imports Ingestion_Correct
begin

text \<open>
  Uploads at the same time.  The service (\<open>ingestion.py\<close>) reads the hash, reads the usage, stores the object,
  creates the rows and enqueues the job in separate transactions, with no lock around them.  Here one upload is a
  machine whose step is one of them (\<open>upload_step\<close>); run alone it is \<open>receive\<close>
  (\<open>upload_steps_receive\<close>).  A run interleaves the steps of any number of uploads in any order.  The constraints
  of the tables and the objects behind the rows are kept by every run, the quotas only up to the uploads that have
  passed their check and not yet created their rows.
\<close>

section \<open>One upload\<close>

datatype upload_stage =
    Rejecting upload_metadata int string
  | LookingUp upload_metadata string string
  | Counting upload_metadata string string
  | Putting upload_metadata string string
  | Creating upload_metadata string string
  | Undoing
  | Queueing intake_view
  | Stopped "intake_error + intake_view"

text \<open>Up to the first transaction: metadata, type, declared length, the stream, encoding and signature.\<close>

definition upload_begin :: "upload_policy \<Rightarrow> upload \<Rightarrow> upload_stage" where
  "upload_begin policy u =
     (case safe_metadata (ul_filename u) (ul_content_type u) (ul_content_encoding u) of
        Inl (DocumentIntakeRejected c) \<Rightarrow> Rejecting rejected_metadata 0 c
      | Inl e \<Rightarrow> Stopped (Inl e)
      | Inr meta \<Rightarrow>
          (case map_of file_types (lower (path_suffix (um_filename meta))) of
             None \<Rightarrow> Rejecting meta 0 ''UPLOAD_TYPE_UNSUPPORTED''
           | Some (dtype, allowed, type_limit) \<Rightarrow>
               let limit = min type_limit (lp_max_raw_bytes policy) in
               if um_content_type meta \<notin> set allowed then Rejecting meta 0 ''UPLOAD_TYPE_MISMATCH''
               else case content_length_refusal limit (ul_content_length u) of
                 Some (c, n) \<Rightarrow> Rejecting meta n c
               | None \<Rightarrow>
                   (case read_stream limit [] (ul_stream u) of
                      Inl n \<Rightarrow> Rejecting meta n ''UPLOAD_SIZE_LIMIT''
                    | Inr content \<Rightarrow>
                        if dtype \<in> {''markdown'', ''text''} \<and> \<not> utf8_valid content
                        then Rejecting meta (int (length content)) ''UPLOAD_TEXT_ENCODING_INVALID''
                        else if dtype = ''pdf'' \<and> take 5 content \<noteq> ''%PDF-''
                        then Rejecting meta (int (length content)) ''UPLOAD_SIGNATURE_MISMATCH''
                        else LookingUp meta dtype content)))"

fun upload_step ::
  "runtime \<Rightarrow> 's quarantine_storage \<Rightarrow> upload_policy \<Rightarrow> intake_env \<Rightarrow> uuid \<Rightarrow> upload_stage \<Rightarrow> 's intake_state
     \<Rightarrow> upload_stage \<times> 's intake_state" where
  "upload_step rt storage policy env project (Rejecting meta n c) s =
     (case reject_upload env project meta n c s of (r, s') \<Rightarrow> (Stopped r, s'))"
| "upload_step rt storage policy env project (LookingUp meta dtype content) s =
     (case find_quarantined_hash (iv_up env 1) project (sha256_hex rt content) (in_db s) of
        Inl e \<Rightarrow> (Stopped (Inl e), s)
      | Inr (Some existing) \<Rightarrow> (Queueing existing, s)
      | Inr None \<Rightarrow> (Counting meta dtype content, s))"
| "upload_step rt storage policy env project (Counting meta dtype content) s =
     (case project_usage (iv_up env 2) project (in_db s) of
        Inl e \<Rightarrow> (Stopped (Inl e), s)
      | Inr (file_count, byte_size) \<Rightarrow>
          if file_count \<ge> lp_max_files_per_project policy
          then (Rejecting meta (int (length content)) ''UPLOAD_FILE_COUNT_LIMIT'', s)
          else if byte_size + int (length content) > lp_max_total_bytes_per_project policy
          then (Rejecting meta (int (length content)) ''UPLOAD_PROJECT_SIZE_LIMIT'', s)
          else (Putting meta dtype content, s))"
| "upload_step rt storage policy env project (Putting meta dtype content) s =
     (case qs_put storage (quarantine_key project (iv_key env)) (content, um_content_type meta) (in_store s) of
        (Inl DocumentIntakeUnavailable, store) \<Rightarrow> (Undoing, s\<lparr>in_store := store\<rparr>)
      | (Inl e, store) \<Rightarrow> (Stopped (Inl e), s\<lparr>in_store := store\<rparr>)
      | (Inr _, store) \<Rightarrow> (Creating meta dtype content, s\<lparr>in_store := store\<rparr>))"
| "upload_step rt storage policy env project (Creating meta dtype content) s =
     (case create_quarantined (iv_up env 3) (iv_ids env) (iv_now env 3) project meta dtype (int (length content))
         (sha256_hex rt content) (quarantine_key project (iv_key env)) (in_db s) of
        (Inl _, db) \<Rightarrow> (Undoing, s\<lparr>in_db := db\<rparr>)
      | (Inr view, db) \<Rightarrow> (Queueing view, s\<lparr>in_db := db\<rparr>))"
| "upload_step rt storage policy env project Undoing s =
     (case qs_delete storage (quarantine_key project (iv_key env)) (in_store s) of
        (Inl e, store) \<Rightarrow> (Stopped (Inl e), s\<lparr>in_store := store\<rparr>)
      | (Inr _, store) \<Rightarrow> (Stopped (Inl DocumentIntakeUnavailable), s\<lparr>in_store := store\<rparr>))"
| "upload_step rt storage policy env project (Queueing view) s =
     (case enqueue_parser_job env view s of (r, s') \<Rightarrow> (Stopped r, s'))"
| "upload_step rt storage policy env project (Stopped r) s = (Stopped r, s)"

text \<open>The steps of one upload with nothing between them are the request.\<close>

primrec upload_steps ::
  "runtime \<Rightarrow> 's quarantine_storage \<Rightarrow> upload_policy \<Rightarrow> intake_env \<Rightarrow> uuid \<Rightarrow> nat \<Rightarrow> upload_stage \<times> 's intake_state
     \<Rightarrow> upload_stage \<times> 's intake_state" where
  "upload_steps rt storage policy env project 0 x = x"
| "upload_steps rt storage policy env project (Suc n) x =
     upload_steps rt storage policy env project n (upload_step rt storage policy env project (fst x) (snd x))"

lemma upload_steps_stopped [simp]:
  "upload_steps rt storage policy env project n (Stopped r, s) = (Stopped r, s)"
  by (induction n) auto

lemma quarantine_steps:
  "upload_steps rt storage policy env project 3 (Putting meta dtype content, s)
     = (case quarantine_upload rt storage env project meta dtype content s of (r, s') \<Rightarrow> (Stopped r, s'))"
  by (cases s) (auto simp: eval_nat_numeral quarantine_upload_def Let_def split: prod.splits sum.splits intake_error.splits)

lemma admit_steps:
  "upload_steps rt storage policy env project 5 (LookingUp meta dtype content, s)
     = (case find_quarantined_hash (iv_up env 1) project (sha256_hex rt content) (in_db s) of
        Inl e \<Rightarrow> (Stopped (Inl e), s)
      | Inr (Some existing) \<Rightarrow> (case enqueue_parser_job env existing s of (r, s') \<Rightarrow> (Stopped r, s'))
      | Inr None \<Rightarrow> upload_steps rt storage policy env project 4 (Counting meta dtype content, s))"
  by (simp add: eval_nat_numeral split: prod.splits sum.splits option.splits)

lemma count_steps:
  "upload_steps rt storage policy env project 4 (Counting meta dtype content, s)
     = (case project_usage (iv_up env 2) project (in_db s) of
        Inl e \<Rightarrow> (Stopped (Inl e), s)
      | Inr (file_count, byte_size) \<Rightarrow>
          (case (if file_count \<ge> lp_max_files_per_project policy
             then reject_upload env project meta (int (length content)) ''UPLOAD_FILE_COUNT_LIMIT'' s
             else if byte_size + int (length content) > lp_max_total_bytes_per_project policy
             then reject_upload env project meta (int (length content)) ''UPLOAD_PROJECT_SIZE_LIMIT'' s
             else quarantine_upload rt storage env project meta dtype content s) of (r, s') \<Rightarrow> (Stopped r, s')))"
proof -
  have "upload_steps rt storage policy env project 4 (Counting meta dtype content, s) =
      upload_steps rt storage policy env project 3 (upload_step rt storage policy env project (Counting meta dtype content) s)"
    by (simp add: eval_nat_numeral)
  moreover have "upload_steps rt storage policy env project 3 (Rejecting meta n c, s) =
      (case reject_upload env project meta n c s of (r, s') \<Rightarrow> (Stopped r, s'))" for n c
    by (simp add: eval_nat_numeral split: prod.splits)
  ultimately show ?thesis by (simp add: quarantine_steps split: sum.split prod.split)
qed

lemma reject_steps:
  "upload_steps rt storage policy env project 5 (Rejecting meta n c, s)
     = (case reject_upload env project meta n c s of (r, s') \<Rightarrow> (Stopped r, s'))"
  by (simp add: eval_nat_numeral split: prod.splits)

lemma admit_begin_steps:
  "upload_steps rt storage policy env project 5
     (if dtype \<in> {''markdown'', ''text''} \<and> \<not> utf8_valid content
      then Rejecting meta (int (length content)) ''UPLOAD_TEXT_ENCODING_INVALID''
      else if dtype = ''pdf'' \<and> take 5 content \<noteq> ''%PDF-''
      then Rejecting meta (int (length content)) ''UPLOAD_SIGNATURE_MISMATCH'' else LookingUp meta dtype content, s)
   = (case admit rt storage policy env project meta dtype content s of (r, s') \<Rightarrow> (Stopped r, s'))"
proof -
  have "upload_steps rt storage policy env project 5 (LookingUp meta dtype content, s) =
      (\<lambda>(r, s'). (Stopped r, s')) (case find_quarantined_hash (iv_up env 1) project (sha256_hex rt content) (in_db s) of
        Inl e \<Rightarrow> (Inl e, s)
      | Inr (Some existing) \<Rightarrow> enqueue_parser_job env existing s
      | Inr None \<Rightarrow>
          (case project_usage (iv_up env 2) project (in_db s) of
             Inl e \<Rightarrow> (Inl e, s)
           | Inr (file_count, byte_size) \<Rightarrow>
               if file_count \<ge> lp_max_files_per_project policy
               then reject_upload env project meta (int (length content)) ''UPLOAD_FILE_COUNT_LIMIT'' s
               else if byte_size + int (length content) > lp_max_total_bytes_per_project policy
               then reject_upload env project meta (int (length content)) ''UPLOAD_PROJECT_SIZE_LIMIT'' s
               else quarantine_upload rt storage env project meta dtype content s))"
    unfolding admit_steps count_steps by (simp split: sum.split option.split)
  then show ?thesis by (simp add: admit_def Let_def reject_steps)
qed

theorem upload_steps_receive:
  "upload_steps rt storage policy env project 5 (upload_begin policy u, s)
     = (case receive rt storage policy env project u s of (r, s') \<Rightarrow> (Stopped r, s'))"
proof (cases "safe_metadata (ul_filename u) (ul_content_type u) (ul_content_encoding u)")
  case (Inl e)
  then show ?thesis by (cases e) (simp_all add: upload_begin_def receive_def reject_steps)
next
  case (Inr meta)
  show ?thesis
  proof (cases "map_of file_types (lower (path_suffix (um_filename meta)))")
    case None
    with Inr show ?thesis by (simp add: upload_begin_def receive_def reject_steps)
  next
    case (Some profile)
    then obtain dtype allowed lim where f: "map_of file_types (lower (path_suffix (um_filename meta))) = Some (dtype, allowed, lim)"
      by (cases profile) auto
    let ?limit = "min lim (lp_max_raw_bytes policy)"
    show ?thesis
    proof (cases "um_content_type meta \<in> set allowed \<and> content_length_refusal ?limit (ul_content_length u) = None")
      case True
      then show ?thesis
        using Inr f
        by (cases "read_stream ?limit [] (ul_stream u)")
          (simp_all only: upload_begin_def receive_def Let_def sum.case option.case prod.case reject_steps admit_begin_steps if_not_P not_not)
    next
      case False
      with Inr f show ?thesis by (auto simp: upload_begin_def receive_def Let_def reject_steps)
    qed
  qed
qed

section \<open>Runs\<close>

record upload_request =
  rq_env :: intake_env
  rq_project :: uuid
  rq_upload :: upload

definition request_key :: "upload_request \<Rightarrow> string" where
  "request_key q = quarantine_key (rq_project q) (iv_key (rq_env q))"

definition request_step ::
  "runtime \<Rightarrow> 's quarantine_storage \<Rightarrow> upload_policy \<Rightarrow> upload_request \<Rightarrow> upload_stage \<Rightarrow> 's intake_state \<Rightarrow> upload_stage \<times> 's intake_state" where
  "request_step rt storage policy q = upload_step rt storage policy (rq_env q) (rq_project q)"

text \<open>Between the check of the quota and the creation of the rows.\<close>

fun cleared_bytes :: "upload_stage \<Rightarrow> int" where
  "cleared_bytes (Putting meta dtype content) = int (length content)"
| "cleared_bytes (Creating meta dtype content) = int (length content)"
| "cleared_bytes _ = 0"

fun cleared :: "upload_stage \<Rightarrow> int" where
  "cleared (Putting meta dtype content) = 1"
| "cleared (Creating meta dtype content) = 1"
| "cleared _ = 0"

text \<open>The requests are numbered below \<open>n\<close>; what they hold for a project at one moment.\<close>

definition held :: "(nat \<Rightarrow> upload_request) \<Rightarrow> nat \<Rightarrow> (upload_stage \<Rightarrow> int) \<Rightarrow> uuid \<Rightarrow> (nat \<Rightarrow> upload_stage) \<Rightarrow> int" where
  "held reqs n f project st = (\<Sum>i<n. if rq_project (reqs i) = project then f (st i) else 0)"

text \<open>A run in which at most \<open>k\<close> uploads of one project are between check and creation at the same time.\<close>

inductive intake_run for rt storage policy reqs n k s0 where
  arrive: "intake_run rt storage policy reqs n k s0 (\<lambda>i. upload_begin policy (rq_upload (reqs i))) s0"
| advance: "intake_run rt storage policy reqs n k s0 st s \<Longrightarrow> i < n \<Longrightarrow>
    request_step rt storage policy (reqs i) (st i) s = (p, s') \<Longrightarrow> \<forall>project. held reqs n cleared project (st(i := p)) \<le> k \<Longrightarrow>
    intake_run rt storage policy reqs n k s0 (st(i := p)) s'"

text \<open>Distinct new keys.\<close>

definition keys_fresh :: "(nat \<Rightarrow> upload_request) \<Rightarrow> nat \<Rightarrow> document_db \<Rightarrow> bool" where
  "keys_fresh reqs n db \<longleftrightarrow> inj_on (\<lambda>i. request_key (reqs i)) {..<n}
     \<and> (\<forall>i<n. \<forall>r \<in> set (dd_intakes db). di_quarantine_key r \<noteq> Some (request_key (reqs i)))"

section \<open>Consistency without the quotas\<close>

definition intake_consistent :: "runtime \<Rightarrow> 's quarantine_storage \<Rightarrow> 's intake_state \<Rightarrow> bool" where
  "intake_consistent rt storage s \<longleftrightarrow> (let db = in_db s in
     table_ok document_checks document_conflict (dd_documents db)
     \<and> table_ok document_version_checks document_version_conflict (dd_versions db)
     \<and> table_ok parser_version_checks parser_version_conflict (dd_parser_versions db)
     \<and> table_ok document_intake_checks document_intake_conflict (dd_intakes db)
     \<and> parser_jobs_ok (dd_parser_jobs db)
     \<and> (\<forall>i \<in> set (dd_intakes db). di_state i = IntakeQuarantined \<longrightarrow> linked db i \<and> object_backed rt storage (in_store s) i))"

lemma intake_inv_split: "intake_inv rt storage policy s \<longleftrightarrow> intake_consistent rt storage s \<and> quota_ok policy (in_db s)"
  unfolding intake_inv_def intake_consistent_def Let_def by blast

lemma sum_list_filter_le_int:
  "\<forall>r \<in> set rows. 0 \<le> f r \<Longrightarrow> sum_list (map f (filter P rows)) \<le> sum_list (map f rows :: int list)"
  by (induction rows) auto

text \<open>Some quotas always hold, with room for one more upload; so what keeps the invariant keeps consistency.\<close>

lemma consistent_with_room:
  assumes "intake_consistent rt storage s" "0 \<le> n"
  obtains policy where "intake_inv rt storage policy s"
    "\<And>project. int (length (usage_rows project (in_db s))) < lp_max_files_per_project policy"
    "\<And>project. sum_list (map di_byte_size (usage_rows project (in_db s))) + n \<le> lp_max_total_bytes_per_project policy"
proof -
  let ?rows = "dd_intakes (in_db s)"
  let ?policy = "\<lparr>lp_max_raw_bytes = 0, lp_max_files_per_project = int (length ?rows) + 1,
    lp_max_total_bytes_per_project = sum_list (map di_byte_size ?rows) + n\<rparr>"
  have "\<forall>r \<in> set ?rows. 0 \<le> di_byte_size r"
    using assms(1) by (auto simp: intake_consistent_def Let_def table_ok_def list_all_iff document_intake_checks_def)
  then have size: "sum_list (map di_byte_size (filter P ?rows)) \<le> sum_list (map di_byte_size ?rows)" for P
    by (rule sum_list_filter_le_int)
  have files: "int (length (filter P ?rows)) < int (length ?rows) + 1" for P using length_filter_le [of P ?rows] by simp
  have "int (length (filter P ?rows)) \<le> int (length ?rows) + 1"
    "sum_list (map di_byte_size (filter P ?rows)) \<le> sum_list (map di_byte_size ?rows) + n" for P
    using size [of P] files [of P] assms(2) by linarith+
  then have "quota_ok ?policy (in_db s)" by (simp add: quota_ok_def usage_rows_def)
  with assms(1) size files show thesis
    by (intro that [of ?policy]) (simp_all add: intake_inv_split usage_rows_def)
qed

context write_once_storage
begin

lemma reject_consistent:
  assumes "reject_upload env project meta n c s = (r, s')" "intake_consistent rt storage s"
  shows "intake_consistent rt storage s'"
  using consistent_with_room [OF assms(2), of 0] reject_keeps [OF assms(1)] by (metis intake_inv_split order_refl)

lemma enqueue_consistent:
  assumes "enqueue_parser_job env view s = (r, s')" "intake_consistent rt storage s"
  shows "intake_consistent rt storage s'"
  using consistent_with_room [OF assms(2), of 0] enqueue_keeps [OF assms(1)] by (metis intake_inv_split order_refl)

lemma store_consistent:
  assumes "intake_consistent rt storage s" "\<forall>i \<in> set (dd_intakes (in_db s)). di_quarantine_key i \<noteq> Some key"
    and "\<And>k. k \<noteq> key \<Longrightarrow> qs_read storage k store = qs_read storage k (in_store s)"
  shows "intake_consistent rt storage (s\<lparr>in_store := store\<rparr>)"
proof -
  have "object_backed rt storage store i" if "i \<in> set (dd_intakes (in_db s))" "object_backed rt storage (in_store s) i" for i
    using that assms(2,3) by (fastforce simp: object_backed_def)
  then show ?thesis using assms(1) by (simp add: intake_consistent_def Let_def)
qed

lemma create_consistent:
  assumes "create_transaction ids now project meta dtype (int (length content)) (sha256_hex rt content) key (in_db s) = Inr (r, db')"
    and "intake_consistent rt storage s" "qs_read storage key (in_store s) = Inr (content, um_content_type meta)"
  shows "intake_consistent rt storage (s\<lparr>in_db := db'\<rparr>)"
proof -
  obtain policy where p: "intake_inv rt storage policy s"
    "int (length (usage_rows project (in_db s))) < lp_max_files_per_project policy"
    "sum_list (map di_byte_size (usage_rows project (in_db s))) + int (length content) \<le> lp_max_total_bytes_per_project policy"
    using consistent_with_room [OF assms(2), of "int (length content)"] by (metis of_nat_0_le_iff)
  have "intake_inv rt storage policy (s\<lparr>in_store := in_store s\<rparr>)" using p(1) by simp
  from create_keeps [OF assms(1) this assms(3) p(2,3)] show ?thesis by (simp add: intake_inv_split)
qed

end

section \<open>What one step does\<close>

fun content_of :: "upload_stage \<Rightarrow> string option" where
  "content_of (LookingUp meta dtype content) = Some content"
| "content_of (Counting meta dtype content) = Some content"
| "content_of (Putting meta dtype content) = Some content"
| "content_of (Creating meta dtype content) = Some content"
| "content_of _ = None"

text \<open>At its stage a request has read no more than the limit, its key is unused until its rows are created, and
  before that its object is stored.\<close>

definition stage_ok :: "'s quarantine_storage \<Rightarrow> upload_policy \<Rightarrow> upload_request \<Rightarrow> upload_stage \<Rightarrow> 's intake_state \<Rightarrow> bool" where
  "stage_ok storage policy q p s \<longleftrightarrow>
     (\<forall>content. content_of p = Some content \<longrightarrow> int (length content) \<le> lp_max_raw_bytes policy)
   \<and> (content_of p \<noteq> None \<or> p = Undoing \<longrightarrow> (\<forall>r \<in> set (dd_intakes (in_db s)). di_quarantine_key r \<noteq> Some (request_key q)))
   \<and> (\<forall>meta dtype content. p = Creating meta dtype content \<longrightarrow>
        qs_read storage (request_key q) (in_store s) = Inr (content, um_content_type meta))"

text \<open>It touches no other key, in the storage or in a row.\<close>

definition framed :: "'s quarantine_storage \<Rightarrow> upload_request \<Rightarrow> 's intake_state \<Rightarrow> 's intake_state \<Rightarrow> bool" where
  "framed storage q s s' \<longleftrightarrow> (\<forall>k. k \<noteq> request_key q \<longrightarrow> qs_read storage k (in_store s') = qs_read storage k (in_store s))
   \<and> (\<exists>rs. dd_intakes (in_db s') = dd_intakes (in_db s) @ rs
        \<and> (\<forall>r \<in> set rs. di_quarantine_key r = None \<or> di_quarantine_key r = Some (request_key q)))"

definition files_of :: "uuid \<Rightarrow> 's intake_state \<Rightarrow> int" where
  "files_of project s = int (length (usage_rows project (in_db s)))"

definition bytes_of :: "uuid \<Rightarrow> 's intake_state \<Rightarrow> int" where
  "bytes_of project s = sum_list (map di_byte_size (usage_rows project (in_db s)))"

text \<open>It adds to its own project what it was cleared for, or it is cleared by the check.\<close>

definition charged :: "upload_policy \<Rightarrow> upload_request \<Rightarrow> upload_stage \<Rightarrow> 's intake_state \<Rightarrow> upload_stage \<Rightarrow> 's intake_state \<Rightarrow> bool" where
  "charged policy q p s p' s' \<longleftrightarrow>
     (\<forall>project. project \<noteq> rq_project q \<longrightarrow> files_of project s' = files_of project s \<and> bytes_of project s' = bytes_of project s)
   \<and> (files_of (rq_project q) s' + cleared p' \<le> files_of (rq_project q) s + cleared p
        \<and> bytes_of (rq_project q) s' + cleared_bytes p' \<le> bytes_of (rq_project q) s + cleared_bytes p
      \<or> cleared p = 0 \<and> cleared_bytes p = 0 \<and> cleared p' = 1
        \<and> files_of (rq_project q) s' = files_of (rq_project q) s \<and> files_of (rq_project q) s < lp_max_files_per_project policy
        \<and> bytes_of (rq_project q) s' = bytes_of (rq_project q) s
        \<and> bytes_of (rq_project q) s + cleared_bytes p' \<le> lp_max_total_bytes_per_project policy)"

lemma files_bytes_store [simp]:
  "files_of project (s\<lparr>in_store := store\<rparr>) = files_of project s" "bytes_of project (s\<lparr>in_store := store\<rparr>) = bytes_of project s"
  by (simp_all add: files_of_def bytes_of_def)

lemma cleared_nonneg [simp]: "0 \<le> cleared p" "0 \<le> cleared_bytes p"
  by (cases p; simp)+

text \<open>What a step that adds no quarantined row does.\<close>

lemma quiet_step:
  assumes "in_store s' = in_store s" "dd_intakes (in_db s') = dd_intakes (in_db s) @ rs"
    and "\<forall>r \<in> set rs. di_quarantine_key r = None \<and> di_state r = IntakeRejected" "cleared p' = 0" "cleared_bytes p' = 0"
  shows "framed storage q s s'" "charged policy q p s p' s'"
proof -
  have "usage_rows project (in_db s') = usage_rows project (in_db s)" for project
    using assms(2,3) by (auto simp: usage_rows_def filter_empty_conv)
  with assms show "framed storage q s s'" "charged policy q p s p' s'"
    by (auto simp: framed_def charged_def files_of_def bytes_of_def)
qed

lemma reject_quiet:
  assumes "reject_upload env project meta n c s = (r, s')"
  shows "in_store s' = in_store s \<and> (\<exists>rs. dd_intakes (in_db s') = dd_intakes (in_db s) @ rs
    \<and> (\<forall>r \<in> set rs. di_quarantine_key r = None \<and> di_state r = IntakeRejected))"
  using assms
proof (cases rule: reject_upload_cases)
  case (2 row)
  have "in_store s' = in_store s" using 2(6) by (metis intake_state.ext_inject intake_state.surjective intake_state.update_convs(1))
  moreover have "di_quarantine_key row = None"
    using insert_intake_Inr(2) [OF 2(5)] 2(2) by (simp add: document_intake_checks_def)
  ultimately show ?thesis using insert_intake_Inr(1) [OF 2(5)] 2(2) by simp
qed simp

lemma enqueue_quiet:
  assumes "enqueue_parser_job env view s = (r, s')"
  shows "in_store s' = in_store s \<and> dd_intakes (in_db s') = dd_intakes (in_db s)"
  using assms by (cases rule: enqueue_job_cases) simp_all

lemma stage_ok_stopped: "content_of p = None \<Longrightarrow> p \<noteq> Undoing \<Longrightarrow> stage_ok storage policy q p s"
  by (auto simp: stage_ok_def)

lemma stage_ok_framed:
  assumes "stage_ok storage policy q p s" "framed storage q' s s'" "request_key q \<noteq> request_key q'"
  shows "stage_ok storage policy q p s'"
proof -
  obtain rs where "dd_intakes (in_db s') = dd_intakes (in_db s) @ rs"
    "\<forall>r \<in> set rs. di_quarantine_key r = None \<or> di_quarantine_key r = Some (request_key q')"
    using assms(2) by (auto simp: framed_def)
  then have "(\<forall>r \<in> set (dd_intakes (in_db s')). di_quarantine_key r \<noteq> Some (request_key q))
      \<longleftrightarrow> (\<forall>r \<in> set (dd_intakes (in_db s)). di_quarantine_key r \<noteq> Some (request_key q))"
    using assms(3) by force
  moreover have "qs_read storage (request_key q) (in_store s') = qs_read storage (request_key q) (in_store s)"
    using assms(2,3) by (simp add: framed_def)
  ultimately show ?thesis using assms(1) unfolding stage_ok_def by simp
qed

context write_once_storage
begin

definition good_step :: "runtime \<Rightarrow> upload_policy \<Rightarrow> upload_request \<Rightarrow> upload_stage \<Rightarrow> 's intake_state \<Rightarrow> upload_stage \<times> 's intake_state \<Rightarrow> bool" where
  "good_step rt policy q p s x \<longleftrightarrow> intake_consistent rt storage (snd x) \<and> stage_ok storage policy q (fst x) (snd x)
     \<and> framed storage q s (snd x) \<and> charged policy q p s (fst x) (snd x)"

lemma good_same:
  assumes "intake_consistent rt storage s" "stage_ok storage policy q p' s" "cleared p' = 0" "cleared_bytes p' = 0"
  shows "good_step rt policy q p s (p', s)"
  using assms quiet_step [where s = s and s' = s and rs = "[]" and p' = p'] by (simp add: good_step_def)

lemma good_store:
  assumes "intake_consistent rt storage s" "\<forall>r \<in> set (dd_intakes (in_db s)). di_quarantine_key r \<noteq> Some (request_key q)"
    and "\<And>k. k \<noteq> request_key q \<Longrightarrow> qs_read storage k store = qs_read storage k (in_store s)"
    and "stage_ok storage policy q p' (s\<lparr>in_store := store\<rparr>)" "cleared p' \<le> cleared p" "cleared_bytes p' \<le> cleared_bytes p"
  shows "good_step rt policy q p s (p', s\<lparr>in_store := store\<rparr>)"
  using store_consistent [OF assms(1-3)] assms(3-6) by (simp add: good_step_def framed_def charged_def)

lemma good_create:
  assumes "create_transaction ids now (rq_project q) meta dtype (int (length content)) (sha256_hex rt content) (request_key q) (in_db s) = Inr (r, db)"
    and "intake_consistent rt storage s" "qs_read storage (request_key q) (in_store s) = Inr (content, um_content_type meta)"
  shows "good_step rt policy q (Creating meta dtype content) s (Queueing view, s\<lparr>in_db := db\<rparr>)"
proof -
  have d: "dd_intakes db = dd_intakes (in_db s) @ [r]" "di_project_id r = rq_project q" "di_state r = IntakeQuarantined"
    "di_quarantine_key r = Some (request_key q)" "di_byte_size r = int (length content)"
    by (rule create_transaction_Inr [OF assms(1)]; simp)+
  have "usage_rows project db = usage_rows project (in_db s) @ (if project = rq_project q then [r] else [])" for project
    using d by (simp add: usage_rows_def)
  then show ?thesis
    using create_consistent [OF assms] d
    by (auto simp: good_step_def framed_def charged_def files_of_def bytes_of_def stage_ok_stopped)
qed

text \<open>Every step of a request keeps consistency and what holds at its stage.\<close>

lemma request_step_good:
  assumes "intake_consistent rt storage s" "stage_ok storage policy q p s"
  shows "good_step rt policy q p s (request_step rt storage policy q p s)"
proof (cases p)
  case (Rejecting meta n c)
  obtain r s' where r: "reject_upload (rq_env q) (rq_project q) meta n c s = (r, s')" by fastforce
  from reject_quiet [OF r] obtain rs where "in_store s' = in_store s" "dd_intakes (in_db s') = dd_intakes (in_db s) @ rs"
    "\<forall>r \<in> set rs. di_quarantine_key r = None \<and> di_state r = IntakeRejected" by blast
  from quiet_step [OF this, of "Stopped r"] reject_consistent [OF r assms(1)] show ?thesis
    by (simp add: Rejecting request_step_def r good_step_def stage_ok_stopped)
next
  case (LookingUp meta dtype content)
  have "stage_ok storage policy q (Counting meta dtype content) s" using assms(2) by (simp add: LookingUp stage_ok_def)
  then show ?thesis using assms(1)
    by (auto simp: LookingUp request_step_def stage_ok_stopped intro!: good_same split: sum.split option.split)
next
  case (Counting meta dtype content)
  have "good_step rt policy q p s (Putting meta dtype content, s)"
    if "files_of (rq_project q) s < lp_max_files_per_project policy"
      "bytes_of (rq_project q) s + int (length content) \<le> lp_max_total_bytes_per_project policy"
    using assms that by (simp add: Counting good_step_def stage_ok_def framed_def charged_def)
  then show ?thesis using assms(1)
    by (auto simp: Counting request_step_def stage_ok_stopped project_usage_def files_of_def bytes_of_def not_le not_less
        intro!: good_same split: sum.split)
next
  case (Putting meta dtype content)
  obtain r store where p: "qs_put storage (request_key q) (content, um_content_type meta) (in_store s) = (r, store)" by fastforce
  have k: "\<forall>r \<in> set (dd_intakes (in_db s)). di_quarantine_key r \<noteq> Some (request_key q)"
    and len: "int (length content) \<le> lp_max_raw_bytes policy" using assms(2) by (auto simp: Putting stage_ok_def)
  have "good_step rt policy q p s (p', s\<lparr>in_store := store\<rparr>)"
    if "stage_ok storage policy q p' (s\<lparr>in_store := store\<rparr>)" "cleared p' \<le> 1" "cleared_bytes p' \<le> int (length content)" for p'
    by (rule good_store [OF assms(1) k]) (use put_other [OF p] that in \<open>simp_all add: Putting\<close>)
  moreover have "stage_ok storage policy q (Creating meta dtype content) (s\<lparr>in_store := store\<rparr>)" if "r = Inr u" for u
    using put_reads [of "request_key q" "(content, um_content_type meta)" "in_store s" store] p that k len by (simp add: stage_ok_def)
  moreover have "stage_ok storage policy q Undoing (s\<lparr>in_store := store\<rparr>)" using k by (simp add: stage_ok_def)
  ultimately show ?thesis
    using p by (auto simp: Putting request_step_def request_key_def stage_ok_stopped split: sum.split intake_error.split)
next
  case (Creating meta dtype content)
  have k: "\<forall>r \<in> set (dd_intakes (in_db s)). di_quarantine_key r \<noteq> Some (request_key q)"
    and read: "qs_read storage (request_key q) (in_store s) = Inr (content, um_content_type meta)"
    using assms(2) by (auto simp: Creating stage_ok_def)
  have "good_step rt policy q p s (Undoing, s)"
    using assms(1) k by (intro good_same) (simp_all add: stage_ok_def)
  then show ?thesis
    using good_create [OF _ assms(1) read, of "iv_ids (rq_env q)" "iv_now (rq_env q) 3" dtype]
    by (auto simp: Creating request_step_def request_key_def create_quarantined_def split: sum.split)
next
  case Undoing
  obtain r store where d: "qs_delete storage (request_key q) (in_store s) = (r, store)" by fastforce
  have "good_step rt policy q p s (Stopped x, s\<lparr>in_store := store\<rparr>)" for x
    by (rule good_store [OF assms(1)]) (use assms(2) delete_other [OF d] in \<open>simp_all add: Undoing stage_ok_def\<close>)
  then show ?thesis using d by (simp add: Undoing request_step_def request_key_def split: sum.split)
next
  case (Queueing view)
  obtain r s' where r: "enqueue_parser_job (rq_env q) view s = (r, s')" by fastforce
  have "in_store s' = in_store s" "dd_intakes (in_db s') = dd_intakes (in_db s) @ []" using enqueue_quiet [OF r] by simp_all
  from quiet_step [OF this, of "Stopped r"] enqueue_consistent [OF r assms(1)] show ?thesis
    by (simp add: Queueing request_step_def r good_step_def stage_ok_stopped)
next
  case (Stopped r)
  then show ?thesis using assms by (simp add: request_step_def good_same)
qed

end

section \<open>What a run keeps\<close>

lemma held_update:
  assumes "i < n"
  shows "held reqs n f project (st(i := p)) = held reqs n f project st + (if rq_project (reqs i) = project then f p - f (st i) else 0)"
proof -
  have "held reqs n f project st' = (if rq_project (reqs i) = project then f (st' i) else 0)
      + (\<Sum>j \<in> {..<n} - {i}. if rq_project (reqs j) = project then f (st' j) else 0)" for st'
    unfolding held_def using assms by (intro sum.remove) simp_all
  moreover have "(\<Sum>j \<in> {..<n} - {i}. if rq_project (reqs j) = project then f ((st(i := p)) j) else 0)
      = (\<Sum>j \<in> {..<n} - {i}. if rq_project (reqs j) = project then f (st j) else 0)"
    by (intro sum.cong) auto
  ultimately show ?thesis by simp
qed

lemma held_bytes:
  assumes "\<forall>i<n. cleared_bytes (st i) \<le> cleared (st i) * raw"
  shows "held reqs n cleared_bytes project st \<le> held reqs n cleared project st * raw"
  unfolding held_def sum_distrib_right using assms by (intro sum_mono) auto

lemma held_count: "held reqs n cleared project st \<le> int n"
proof -
  have "cleared p \<le> 1" for p by (cases p) simp_all
  then have "held reqs n cleared project st \<le> (\<Sum>i<n. 1)" unfolding held_def by (intro sum_mono) auto
  then show ?thesis by simp
qed

definition within_slack :: "upload_policy \<Rightarrow> (nat \<Rightarrow> upload_request) \<Rightarrow> nat \<Rightarrow> int \<Rightarrow> (nat \<Rightarrow> upload_stage) \<Rightarrow> 's intake_state \<Rightarrow> bool" where
  "within_slack policy reqs n k st s \<longleftrightarrow> (\<forall>project.
     files_of project s + held reqs n cleared project st \<le> lp_max_files_per_project policy + (k - 1)
   \<and> bytes_of project s + held reqs n cleared_bytes project st \<le> lp_max_total_bytes_per_project policy + (k - 1) * lp_max_raw_bytes policy)"

text \<open>A cleared upload was cleared when its project was below the limits; the others cleared with it are fewer than \<open>k\<close>.\<close>

lemma slack_kept:
  assumes "within_slack policy reqs n k st s" "i < n" "charged policy (reqs i) (st i) s p s'"
    and "\<forall>project. held reqs n cleared project (st(i := p)) \<le> k"
    and "\<forall>i<n. cleared_bytes (st i) \<le> cleared (st i) * lp_max_raw_bytes policy" "0 \<le> lp_max_raw_bytes policy"
  shows "within_slack policy reqs n k (st(i := p)) s'"
  unfolding within_slack_def
proof
  fix project
  let ?W = "held reqs n cleared project st" and ?V = "held reqs n cleared_bytes project st" and ?raw = "lp_max_raw_bytes policy"
  note up = held_update [OF assms(2), of reqs _ project st p]
  have old: "files_of project s + ?W \<le> lp_max_files_per_project policy + (k - 1)"
    "bytes_of project s + ?V \<le> lp_max_total_bytes_per_project policy + (k - 1) * ?raw"
    using assms(1) by (simp_all add: within_slack_def)
  show "files_of project s' + held reqs n cleared project (st(i := p)) \<le> lp_max_files_per_project policy + (k - 1)
   \<and> bytes_of project s' + held reqs n cleared_bytes project (st(i := p)) \<le> lp_max_total_bytes_per_project policy + (k - 1) * ?raw"
  proof (cases "rq_project (reqs i) = project")
    case False
    with assms(3) old up show ?thesis by (auto simp: charged_def)
  next
    case True
    show ?thesis
    proof (cases "files_of project s' + cleared p \<le> files_of project s + cleared (st i)
        \<and> bytes_of project s' + cleared_bytes p \<le> bytes_of project s + cleared_bytes (st i)")
      case True
      with \<open>rq_project (reqs i) = project\<close> old up [of cleared] up [of cleared_bytes] show ?thesis by auto
    next
      case False
      then have c: "cleared (st i) = 0" "cleared_bytes (st i) = 0" "cleared p = 1" "files_of project s' = files_of project s"
        "files_of project s < lp_max_files_per_project policy" "bytes_of project s' = bytes_of project s"
        "bytes_of project s + cleared_bytes p \<le> lp_max_total_bytes_per_project policy"
        using assms(3) True by (auto simp: charged_def)
      have w: "?W + 1 \<le> k" using assms(4) up [of cleared] True c by (metis diff_zero)
      have "?V \<le> ?W * ?raw" by (rule held_bytes [OF assms(5)])
      also have "\<dots> \<le> (k - 1) * ?raw" using w assms(6) by (intro mult_right_mono) simp_all
      finally show ?thesis using w c True up [of cleared] up [of cleared_bytes] by simp
    qed
  qed
qed

lemma stage_bytes: "stage_ok storage policy q p s \<Longrightarrow> cleared_bytes p \<le> cleared p * lp_max_raw_bytes policy"
  by (cases p) (auto simp: stage_ok_def)

lemma begin_ok:
  assumes "0 \<le> lp_max_raw_bytes policy" "\<forall>r \<in> set (dd_intakes (in_db s)). di_quarantine_key r \<noteq> Some (request_key q)"
  shows "stage_ok storage policy q (upload_begin policy u) s" "cleared (upload_begin policy u) = 0" "cleared_bytes (upload_begin policy u) = 0"
proof -
  have c: "int (length content) \<le> lp_max_raw_bytes policy" if "read_stream (min lim (lp_max_raw_bytes policy)) [] cs = Inr content" for lim cs content
    using read_stream_Inr [OF that] assms(1) by (cases "cs = []") auto
  have "(\<exists>meta dtype content. upload_begin policy u = LookingUp meta dtype content \<and> int (length content) \<le> lp_max_raw_bytes policy)
      \<or> (\<exists>meta n c. upload_begin policy u = Rejecting meta n c) \<or> (\<exists>r. upload_begin policy u = Stopped r)"
    by (auto simp: upload_begin_def Let_def c split: sum.split option.split intake_error.split)
  then show "stage_ok storage policy q (upload_begin policy u) s" "cleared (upload_begin policy u) = 0" "cleared_bytes (upload_begin policy u) = 0"
    using assms(2) by (auto simp: stage_ok_def)
qed

definition run_ok :: "runtime \<Rightarrow> 's quarantine_storage \<Rightarrow> upload_policy \<Rightarrow> (nat \<Rightarrow> upload_request) \<Rightarrow> nat \<Rightarrow> int \<Rightarrow> (nat \<Rightarrow> upload_stage) \<Rightarrow> 's intake_state \<Rightarrow> bool" where
  "run_ok rt storage policy reqs n k st s \<longleftrightarrow> intake_consistent rt storage s \<and> (\<forall>i<n. stage_ok storage policy (reqs i) (st i) s)
     \<and> within_slack policy reqs n k st s"

lemma run_start:
  assumes "intake_inv rt storage policy s" "0 \<le> lp_max_raw_bytes policy" "1 \<le> k" "keys_fresh reqs n (in_db s)"
  shows "run_ok rt storage policy reqs n k (\<lambda>i. upload_begin policy (rq_upload (reqs i))) s"
proof -
  have "held reqs n f project (\<lambda>i. upload_begin policy (rq_upload (reqs i))) = 0" if "f \<in> {cleared, cleared_bytes}" for f project
    using that begin_ok(2,3) [OF assms(2), of "s\<lparr>in_db := (in_db s)\<lparr>dd_intakes := []\<rparr>\<rparr>"]
    unfolding held_def by (intro sum.neutral) auto
  then have "within_slack policy reqs n k (\<lambda>i. upload_begin policy (rq_upload (reqs i))) s"
    using assms(1-3) by (auto simp: within_slack_def intake_inv_split quota_ok_def files_of_def bytes_of_def intro: add_increasing2)
  moreover have "stage_ok storage policy (reqs i) (upload_begin policy (rq_upload (reqs i))) s" if "i < n" for i
    by (rule begin_ok(1) [OF assms(2)]) (use assms(4) that in \<open>simp add: keys_fresh_def\<close>)
  ultimately show ?thesis using assms(1) by (simp add: run_ok_def intake_inv_split)
qed

context write_once_storage
begin

lemma run_keeps:
  assumes "run_ok rt storage policy reqs n k st s" "i < n" "request_step rt storage policy (reqs i) (st i) s = (p, s')"
    and "\<forall>project. held reqs n cleared project (st(i := p)) \<le> k" "0 \<le> lp_max_raw_bytes policy"
    and "inj_on (\<lambda>i. request_key (reqs i)) {..<n}"
  shows "run_ok rt storage policy reqs n k (st(i := p)) s'"
proof -
  have ok: "intake_consistent rt storage s" "\<And>j. j < n \<Longrightarrow> stage_ok storage policy (reqs j) (st j) s" "within_slack policy reqs n k st s"
    using assms(1) by (simp_all add: run_ok_def)
  have g: "intake_consistent rt storage s'" "stage_ok storage policy (reqs i) p s'" "framed storage (reqs i) s s'"
    "charged policy (reqs i) (st i) s p s'"
    using request_step_good [OF ok(1) ok(2) [OF assms(2)]] assms(3) by (simp_all add: good_step_def)
  have "stage_ok storage policy (reqs j) ((st(i := p)) j) s'" if "j < n" for j
  proof (cases "j = i")
    case False
    then have "request_key (reqs j) \<noteq> request_key (reqs i)" using assms(2,6) that by (auto simp: inj_on_def)
    from stage_ok_framed [OF ok(2) [OF that] g(3) this] False show ?thesis by simp
  qed (use g(2) in simp)
  moreover have "within_slack policy reqs n k (st(i := p)) s'"
    using slack_kept [OF ok(3) assms(2) g(4) assms(4) _ assms(5)] stage_bytes ok(2) by blast
  ultimately show ?thesis using g(1) by (simp add: run_ok_def)
qed

lemma run_all_ok:
  assumes "intake_run rt storage policy reqs n k s0 st s"
    and "intake_inv rt storage policy s0" "0 \<le> lp_max_raw_bytes policy" "1 \<le> k" "keys_fresh reqs n (in_db s0)"
  shows "run_ok rt storage policy reqs n k st s"
  using assms(1)
proof induction
  case arrive
  show ?case by (rule run_start [OF assms(2-5)])
next
  case (advance st s i p s')
  show ?case by (rule run_keeps [OF advance(5,2,3,4) assms(3)]) (use assms(5) in \<open>simp add: keys_fresh_def\<close>)
qed

lemma run_bounds:
  assumes "run_ok rt storage policy reqs n k st s"
  shows "intake_consistent rt storage s
    \<and> files_of project s \<le> lp_max_files_per_project policy + (k - 1)
    \<and> bytes_of project s \<le> lp_max_total_bytes_per_project policy + (k - 1) * lp_max_raw_bytes policy"
proof -
  have "0 \<le> held reqs n f project st" if "f \<in> {cleared, cleared_bytes}" for f
    unfolding held_def using that by (intro sum_nonneg) auto
  then have "0 \<le> held reqs n cleared project st" "0 \<le> held reqs n cleared_bytes project st" by simp_all
  then show ?thesis using assms unfolding run_ok_def within_slack_def by (smt (verit))
qed

end

section \<open>Schedules\<close>

text \<open>The run that steps the requests in a given order.\<close>

fun run_schedule ::
  "runtime \<Rightarrow> 's quarantine_storage \<Rightarrow> upload_policy \<Rightarrow> (nat \<Rightarrow> upload_request) \<Rightarrow> nat list
     \<Rightarrow> (nat \<Rightarrow> upload_stage) \<times> 's intake_state \<Rightarrow> (nat \<Rightarrow> upload_stage) \<times> 's intake_state" where
  "run_schedule rt storage policy reqs [] x = x"
| "run_schedule rt storage policy reqs (i # sched) (st, s) =
     (case request_step rt storage policy (reqs i) (st i) s of
        (p, s') \<Rightarrow> run_schedule rt storage policy reqs sched (st(i := p), s'))"

lemma schedule_run:
  "intake_run rt storage policy reqs n (int n) s0 st s \<Longrightarrow> \<forall>i \<in> set sched. i < n \<Longrightarrow>
   run_schedule rt storage policy reqs sched (st, s) = (st', s') \<Longrightarrow> intake_run rt storage policy reqs n (int n) s0 st' s'"
proof (induction sched arbitrary: st s)
  case (Cons i sched)
  obtain p s1 where p: "request_step rt storage policy (reqs i) (st i) s = (p, s1)" by fastforce
  have "intake_run rt storage policy reqs n (int n) s0 (st(i := p)) s1"
    by (rule advance [OF Cons.prems(1) _ p]) (use Cons.prems(2) held_count in auto)
  then show ?case by (rule Cons.IH) (use Cons.prems(2,3) p in \<open>simp_all del: fun_upd_apply\<close>)
qed simp

end
