(* ===== verification/Indexing_Worker.thy ===== *)
theory Indexing_Worker
  imports Indexing_Claims Indexing Parser_Promotion
begin

text \<open>
  One turn of the indexing worker (\<open>indexing_worker.py\<close>): runtime check, claim, index, and the terminal
  outcome of the claim on every path.  The claim factory takes its configuration from the index's.
\<close>

datatype indexing_run_state = IndexIdle | IndexAccepted | IndexFailed | IndexNotPublished

record indexing_run =
  xr_state :: indexing_run_state
  xr_job_id :: "uuid option"
  xr_document_version_id :: "uuid option"
  xr_chunk_count :: nat
  xr_chunks_created :: nat
  xr_embeddings_created :: nat
  xr_embedding_cache_hits :: nat

datatype index_turn_error =
    IndexTurnConfiguration parser_worker_error
  | IndexTurnClaim indexing_claim_error
  | IndexTurnRaised indexing_error

text \<open>The claim statements of a turn are numbered 0 (claim), 1 (accept) and 2 (fail).\<close>

record index_turn =
  xw_environment :: "(string \<times> string) list"
  xw_uid :: "int option"
  xw_up :: "nat \<Rightarrow> bool"
  xw_now :: "nat \<Rightarrow> instant"
  xw_token :: uuid
  xw_index :: index_env
  xw_adapter :: "string list \<Rightarrow> embedding_configuration \<Rightarrow> indexing_error + string list list"
  xw_chunking :: chunking_configuration
  xw_embedding :: embedding_configuration

record index_db =
  xd_jobs :: "indexing_job_row list"
  xd_store :: index_store

definition short_run :: "indexing_run_state \<Rightarrow> uuid option \<Rightarrow> indexing_run" where
  "short_run state job = \<lparr>xr_state = state, xr_job_id = job, xr_document_version_id = None, xr_chunk_count = 0,
     xr_chunks_created = 0, xr_embeddings_created = 0, xr_embedding_cache_hits = 0\<rparr>"

definition turn_claims :: "index_turn \<Rightarrow> indexing_claims" where
  "turn_claims w = \<lparr>xs_duration = DEFAULT_CLAIM_DURATION, xs_document_version_id = None,
     xs_chunking_version = ch_version (xw_chunking w), xs_embedding_model = eb_model (xw_embedding w),
     xs_embedding_version = eb_version (xw_embedding w)\<rparr>"

definition index_terminalize ::
  "index_turn \<Rightarrow> claimed_indexing_job \<Rightarrow> index_db \<Rightarrow> (index_turn_error + indexing_run) \<times> index_db" where
  "index_terminalize w claim db =
     (case indexing_fail (xw_up w 2) (turn_claims w) (xw_now w 2) claim (xd_jobs db) of
        (Inl (IndexingJobClaimRejected m), rows) \<Rightarrow> (Inr (short_run IndexNotPublished (Some (cx_job_id claim))), db)
      | (Inl e, rows) \<Rightarrow> (Inl (IndexTurnClaim e), db)
      | (Inr _, rows) \<Rightarrow> (Inr (short_run IndexFailed (Some (cx_job_id claim))), db\<lparr>xd_jobs := rows\<rparr>))"

text \<open>The handlers of \<open>run_once\<close>: known failures end the turn, any other error is raised again.\<close>

definition index_reraise ::
  "index_turn \<Rightarrow> claimed_indexing_job \<Rightarrow> index_turn_error \<Rightarrow> index_db \<Rightarrow> (index_turn_error + indexing_run) \<times> index_db" where
  "index_reraise w claim e db = (case index_terminalize w claim db of
     (Inl e', db') \<Rightarrow> (Inl e', db') | (Inr _, db') \<Rightarrow> (Inl e, db'))"

definition index_handle ::
  "index_turn \<Rightarrow> claimed_indexing_job \<Rightarrow> indexing_error \<Rightarrow> index_db \<Rightarrow> (index_turn_error + indexing_run) \<times> index_db" where
  "index_handle w claim e db = (case e of
     IndexingUnavailable m \<Rightarrow> index_terminalize w claim db
   | EmbeddingProtocolError m \<Rightarrow> index_terminalize w claim db
   | IndexingValueError m \<Rightarrow> index_terminalize w claim db
   | IndexingKeyError k \<Rightarrow> index_reraise w claim (IndexTurnRaised e) db
   | AdapterError \<Rightarrow> index_reraise w claim (IndexTurnRaised e) db)"

definition index_claimed ::
  "runtime \<Rightarrow> index_turn \<Rightarrow> claimed_indexing_job \<Rightarrow> index_db \<Rightarrow> (index_turn_error + indexing_run) \<times> index_db" where
  "index_claimed rt w claim db =
     (case index rt (xw_index w) (xw_adapter w) (xw_chunking w) (xw_embedding w) (cx_project_id claim)
         (cx_document_version_id claim) (xd_store db) of
        (Inl e, store) \<Rightarrow> index_handle w claim e (db\<lparr>xd_store := store\<rparr>)
      | (Inr result, store) \<Rightarrow>
          (case indexing_accept (xw_up w 1) (turn_claims w) (xw_now w 1) claim (xd_jobs db) of
             (Inl (IndexingJobClaimRejected m), rows) \<Rightarrow>
               (Inr (short_run IndexNotPublished (Some (cx_job_id claim))), db\<lparr>xd_store := store\<rparr>)
           | (Inl e, rows) \<Rightarrow> index_reraise w claim (IndexTurnClaim e) (db\<lparr>xd_store := store\<rparr>)
           | (Inr _, rows) \<Rightarrow>
               (Inr \<lparr>xr_state = IndexAccepted, xr_job_id = Some (cx_job_id claim),
                     xr_document_version_id = Some (ix_document_version_id result), xr_chunk_count = ix_chunk_count result,
                     xr_chunks_created = ix_chunks_created result, xr_embeddings_created = ix_embeddings_created result,
                     xr_embedding_cache_hits = ix_embedding_cache_hits result\<rparr>,
                db\<lparr>xd_store := store, xd_jobs := rows\<rparr>)))"

definition indexing_run_once ::
  "runtime \<Rightarrow> index_turn \<Rightarrow> index_db \<Rightarrow> (index_turn_error + indexing_run) \<times> index_db" where
  "indexing_run_once rt w db =
     (case parser_runtime_from_environment (xw_environment w) (xw_uid w) of
        Inl e \<Rightarrow> (Inl (IndexTurnConfiguration e), db)
      | Inr _ \<Rightarrow>
          (case indexing_claim_next (xw_up w 0) (turn_claims w) (xw_now w 0) (xw_token w) (xd_jobs db) of
             (Inl e, rows) \<Rightarrow> (Inl (IndexTurnClaim e), db)
           | (Inr None, rows) \<Rightarrow> (Inr (short_run IndexIdle None), db\<lparr>xd_jobs := rows\<rparr>)
           | (Inr (Some claim), rows) \<Rightarrow> index_claimed rt w claim (db\<lparr>xd_jobs := rows\<rparr>)))"

section \<open>The claim is closed\<close>

lemma indexing_finish_ok:
  assumes "indexing_jobs_ok rows" "j \<in> set rows" "indexing_claim_active cfg c now j"
    "state = IndexingAccepted \<and> failure = None \<or> state = IndexingFailed \<and> failure = Some ''INDEXING_WORKER_FAILED''"
  shows "\<exists>rows'. indexing_finish True cfg now c state failure rows = (Inr (), rows')
    \<and> (\<exists>k \<in> set rows'. ij_id k = cx_job_id c \<and> ij_state k = state)"
proof -
  let ?g = "\<lambda>j. j\<lparr>ij_state := state, ij_completed_at := Some now, ij_failure_code := failure\<rparr>"
  have "indexing_job_checks (?g k)" if "k \<in> set rows" "indexing_claim_active cfg c now k" for k
  proof -
    have "indexing_job_checks k" using assms(1) that(1) by (simp add: table_ok_def)
    with that(2) assms(4) show ?thesis
      by (auto simp: indexing_job_checks_def indexing_job_lifecycle_def indexing_claim_active_def sql_le_def sql_less_def)
  qed
  then have u: "update_where indexing_job_checks (indexing_claim_active cfg c now) ?g rows
    = Inr (map (\<lambda>k. if indexing_claim_active cfg c now k then ?g k else k) rows,
           map ?g (filter (indexing_claim_active cfg c now) rows))"
    by (auto simp: update_where_def list_all_iff)
  have "filter (indexing_claim_active cfg c now) rows \<noteq> []" using assms(2,3) by (auto simp: filter_empty_conv)
  moreover have "?g j \<in> set (map (\<lambda>k. if indexing_claim_active cfg c now k then ?g k else k) rows)"
    using assms(2,3) by (force simp: image_iff)
  moreover have "ij_id (?g j) = cx_job_id c" using assms(3) by (simp add: indexing_claim_active_def)
  ultimately show ?thesis
    by (intro exI [of _ "map (\<lambda>k. if indexing_claim_active cfg c now k then ?g k else k) rows"] conjI bexI [of _ "?g j"])
      (auto simp: indexing_finish_def u split: list.splits)
qed

lemma indexing_step_ok:
  assumes "indexing_claim_update up cfg now token cand rows = (r, rows')" "indexing_jobs_ok rows"
  shows "indexing_jobs_ok rows'"
proof -
  let ?p = "\<lambda>j. Some (ij_id j) = cand \<and> ij_state j = IndexingQueued \<and> indexing_scope cfg j"
  let ?g = "\<lambda>j. j\<lparr>ij_state := IndexingClaimed, ij_claim_token := Some token, ij_claimed_at := Some now,
              ij_claim_expires_at := Some (now + xs_duration cfg)\<rparr>"
  have "rows' = rows \<or> (\<exists>out. update_where indexing_job_checks ?p ?g rows = Inr (rows', out))"
    using assms(1) by (auto simp: indexing_claim_update_def split: if_splits sum.splits option.splits)
  moreover have "indexing_jobs_ok rows'" if "update_where indexing_job_checks ?p ?g rows = Inr (rows', out)" for out
    by (rule indexing_jobs.update_keeps [OF assms(2) that]) (simp add: indexing_job_conflict_def)
  ultimately show ?thesis using assms(2) by blast
qed

lemma indexing_claim_held:
  assumes "indexing_claim_next up cfg now token rows = (Inr (Some c), rows')" "indexing_jobs_ok rows"
    "now \<le> t" "t < now + xs_duration cfg"
  shows "\<exists>j \<in> set rows'. indexing_claim_active cfg c t j"
proof -
  let ?p = "\<lambda>j. Some (ij_id j) = indexing_candidate cfg now rows \<and> ij_state j = IndexingQueued \<and> indexing_scope cfg j"
  let ?g = "\<lambda>j. j\<lparr>ij_state := IndexingClaimed, ij_claim_token := Some token, ij_claimed_at := Some now,
              ij_claim_expires_at := Some (now + xs_duration cfg)\<rparr>"
  from assms(1) obtain j where j: "map ?g (filter ?p rows) = [j]" "rows' = map (\<lambda>r. if ?p r then ?g r else r) rows"
    "c = \<lparr>cx_job_id = ij_id j, cx_project_id = ij_project_id j,
          cx_document_version_id = ij_document_version_id j, cx_chunking_version = ij_chunking_version j,
          cx_embedding_model = ij_embedding_model j, cx_embedding_version = ij_embedding_version j,
          cx_claim_token = token, cx_claimed_at = now, cx_claim_expires_at = now + xs_duration cfg\<rparr>"
    by (auto simp: indexing_claim_next_def indexing_claim_update_def store_simps split: if_splits sum.splits option.splits)
  have "j \<in> set (map ?g (filter ?p rows))" using j(1) by simp
  then obtain q where q: "q \<in> set rows" "?p q" "j = ?g q" unfolding set_map set_filter by blast
  then have "j \<in> set rows'" using j(2) by (force simp: image_iff)
  moreover have "indexing_claim_active cfg c t j"
    using j(3) q assms(3,4) by (auto simp: indexing_claim_active_def indexing_scope_def split: option.splits)
  ultimately show ?thesis by blast
qed

text \<open>What a turn leaves of the job it claimed.\<close>

definition index_turn_closed :: "claimed_indexing_job \<Rightarrow> (index_turn_error + indexing_run) \<times> index_db \<Rightarrow> bool" where
  "index_turn_closed c out \<longleftrightarrow> (\<exists>k \<in> set (xd_jobs (snd out)). ij_id k = cx_job_id c \<and>
     (case fst out of
        Inr run \<Rightarrow> xr_job_id run = Some (cx_job_id c)
          \<and> (xr_state run, ij_state k) \<in> {(IndexAccepted, IndexingAccepted), (IndexFailed, IndexingFailed)}
      | Inl e \<Rightarrow> ij_state k = IndexingFailed))"

lemma index_terminalize_closes:
  assumes "indexing_jobs_ok (xd_jobs db)" "j \<in> set (xd_jobs db)" "indexing_claim_active (turn_claims w) c (xw_now w 2) j" "xw_up w 2"
  shows "index_turn_closed c (index_terminalize w c db)" "index_turn_closed c (index_reraise w c e db)"
proof -
  obtain rows k where "indexing_fail True (turn_claims w) (xw_now w 2) c (xd_jobs db) = (Inr (), rows)"
    "k \<in> set rows" "ij_id k = cx_job_id c" "ij_state k = IndexingFailed"
    using indexing_finish_ok [OF assms(1-3), of IndexingFailed] by (auto simp: indexing_fail_def)
  then show "index_turn_closed c (index_terminalize w c db)" "index_turn_closed c (index_reraise w c e db)"
    using assms(4) by (auto simp: index_terminalize_def index_reraise_def index_turn_closed_def short_run_def)
qed

lemma index_claimed_closes:
  assumes "indexing_jobs_ok (xd_jobs db)" "xw_up w 2" "\<And>i. i \<in> {1, 2} \<Longrightarrow> \<exists>j \<in> set (xd_jobs db). indexing_claim_active (turn_claims w) c (xw_now w i) j"
  shows "index_turn_closed c (index_claimed rt w c db)"
proof -
  obtain j where j: "j \<in> set (xd_jobs db)" "indexing_claim_active (turn_claims w) c (xw_now w 1) j" using assms(3) by blast
  obtain i where i: "i \<in> set (xd_jobs db)" "indexing_claim_active (turn_claims w) c (xw_now w 2) i" using assms(3) by blast
  have fail: "index_turn_closed c (index_terminalize w c (db\<lparr>xd_store := s\<rparr>))"
    "index_turn_closed c (index_reraise w c e (db\<lparr>xd_store := s\<rparr>))" for s e
    using index_terminalize_closes(1) [where db = "db\<lparr>xd_store := s\<rparr>" and j = i and w = w and c = c]
      index_terminalize_closes(2) [where db = "db\<lparr>xd_store := s\<rparr>" and j = i and w = w and c = c and e = e] assms(1,2) i by simp_all
  obtain rows k where k: "indexing_accept True (turn_claims w) (xw_now w 1) c (xd_jobs db) = (Inr (), rows)"
    "k \<in> set rows" "ij_id k = cx_job_id c" "ij_state k = IndexingAccepted"
    using indexing_finish_ok [OF assms(1) j, of IndexingAccepted None] by (auto simp: indexing_accept_def)
  show ?thesis
  proof (cases "index rt (xw_index w) (xw_adapter w) (xw_chunking w) (xw_embedding w) (cx_project_id c)
      (cx_document_version_id c) (xd_store db)")
    case (Pair res store)
    show ?thesis
    proof (cases res)
      case (Inl e)
      then show ?thesis using Pair fail by (cases e) (simp_all add: index_claimed_def index_handle_def)
    next
      case (Inr r)
      show ?thesis
      proof (cases "xw_up w 1")
        case True
        then show ?thesis using Pair Inr k by (auto simp: index_claimed_def index_turn_closed_def)
      next
        case False
        then show ?thesis using Pair Inr fail by (simp add: index_claimed_def indexing_accept_def indexing_finish_def)
      qed
    qed
  qed
qed

end
