(* ===== verification/Document_Status.thy ===== *)
theory Document_Status
  imports Ingestion_Correct
begin

text \<open>
  The owner's view of uploads (\<open>document_status.py\<close>) and the wake-ups of the workers
  (\<open>general_wakeup.py\<close>, \<open>parser_wakeup.py\<close>).  The view joins every intake with its parser job; a
  wake-up carries no data and is sent at most once per interval unless an upload asks for it.
\<close>

section \<open>Status\<close>

definition DOCUMENT_STATUS_LIST_LIMIT :: int where "DOCUMENT_STATUS_LIST_LIMIT = 100"

datatype document_status = StatusRejected | StatusQuarantined | StatusParserQueued | StatusParsing | StatusParsed | StatusParseFailed

datatype indexing_status = INDEXING_NOT_ENABLED

datatype status_error = DocumentStatusUnavailable | StatusValueError string

record document_status_view =
  vw_id :: uuid
  vw_project_id :: uuid
  vw_document_id :: "uuid option"
  vw_filename :: string
  vw_content_type :: string
  vw_byte_size :: int
  vw_outcome :: document_intake_state
  vw_rejection_code :: "string option"
  vw_status :: document_status
  vw_parser_stage :: "parser_job_state option"
  vw_indexing :: "indexing_status option"
  vw_created_at :: instant

fun parser_status :: "parser_job_state \<Rightarrow> document_status" where
  "parser_status ParserQueued = StatusParserQueued"
| "parser_status ParserClaimed = StatusParsing"
| "parser_status ParserAccepted = StatusParsed"
| "parser_status ParserRejected = StatusParseFailed"
| "parser_status ParserFailed = StatusParseFailed"

definition derive_document_status :: "document_intake_state \<Rightarrow> parser_job_state option \<Rightarrow> status_error + document_status" where
  "derive_document_status outcome stage =
     (if outcome = IntakeRejected
      then (if stage \<noteq> None then Inl (StatusValueError ''A rejected upload cannot have a parser job'') else Inr StatusRejected)
      else case stage of None \<Rightarrow> Inr StatusQuarantined | Some s \<Rightarrow> Inr (parser_status s))"

text \<open>The outer join: one pair per job of an intake, or one without a job.\<close>

definition status_rows :: "document_db \<Rightarrow> (document_intake_row \<times> parser_job_state option) list" where
  "status_rows db = concat (map (\<lambda>i. case filter (\<lambda>j. pj_document_intake_id j = di_id i) (dd_parser_jobs db) of
     [] \<Rightarrow> [(i, None)] | js \<Rightarrow> map (\<lambda>j. (i, Some (pj_state j))) js) (dd_intakes db))"

definition view_of :: "document_intake_row \<times> parser_job_state option \<Rightarrow> status_error + document_status_view" where
  "view_of r = (case r of (i, stage) \<Rightarrow> bindE (derive_document_status (di_state i) stage) (\<lambda>status.
     Inr \<lparr>vw_id = di_id i, vw_project_id = di_project_id i, vw_document_id = di_document_id i, vw_filename = di_original_filename i,
           vw_content_type = di_declared_content_type i, vw_byte_size = di_byte_size i, vw_outcome = di_state i,
           vw_rejection_code = di_rejection_code i, vw_status = status, vw_parser_stage = stage,
           vw_indexing = (if status = StatusParsed then Some INDEXING_NOT_ENABLED else None), vw_created_at = di_created_at i\<rparr>))"

text \<open>Newest first, ties by identifier, both descending.\<close>

definition newest_first :: "(document_intake_row \<times> 'b) list \<Rightarrow> (document_intake_row \<times> 'b) list" where
  "newest_first rs = rev (sort_key (\<lambda>(i, _). (di_created_at i, di_id i)) rs)"

definition list_for_project :: "bool \<Rightarrow> uuid \<Rightarrow> int \<Rightarrow> document_db \<Rightarrow> status_error + document_status_view list" where
  "list_for_project up project lim db =
     (if \<not> up then Inl DocumentStatusUnavailable
      else except (mapE view_of (take (nat (max 1 (min lim DOCUMENT_STATUS_LIST_LIMIT)))
             (newest_first (filter (\<lambda>(i, _). di_project_id i = project) (status_rows db))))) (\<lambda>_. DocumentStatusUnavailable))"

definition get_for_project :: "bool \<Rightarrow> uuid \<Rightarrow> uuid \<Rightarrow> document_db \<Rightarrow> status_error + document_status_view option" where
  "get_for_project up project i db =
     (if \<not> up then Inl DocumentStatusUnavailable
      else case scalar_one_or_none (filter (\<lambda>(r, _). di_project_id r = project \<and> di_id r = i) (status_rows db)) of
        Inl _ \<Rightarrow> Inl DocumentStatusUnavailable
      | Inr None \<Rightarrow> Inr None
      | Inr (Some r) \<Rightarrow> except (bindE (view_of r) (\<lambda>v. Inr (Some v))) (\<lambda>_. DocumentStatusUnavailable))"

section \<open>Wake-ups\<close>

definition WAKEUP_MESSAGE_BODY :: string where "WAKEUP_MESSAGE_BODY = ''wake-up''"
definition WAKEUP_DELAY_SECONDS :: int where "WAKEUP_DELAY_SECONDS = 60"
definition MAX_SQS_DELAY_SECONDS :: int where "MAX_SQS_DELAY_SECONDS = 900"
definition PARSER_WAKEUP_DELAY_SECONDS :: int where "PARSER_WAKEUP_DELAY_SECONDS = 0"
definition PARSER_WAKEUP_RESEND_INTERVAL_SECONDS :: int where "PARSER_WAKEUP_RESEND_INTERVAL_SECONDS = 60"

record sqs_message =
  sq_queue_url :: string
  sq_message_body :: string
  sq_delay_seconds :: int

datatype wakeup_error = WakeupValueError string

text \<open>
  The sender and the log of the messages it got through: time, whether throttled, and text.  A monotonic clock reading is a number of seconds, and the
  client is the function that says whether the call succeeds.
\<close>

record queue_wakeup =
  qw_enabled :: bool
  qw_queue_url :: string
  qw_delay_seconds :: int
  qw_resend_interval :: int
  qw_last_sent :: "int option"
  qw_sent :: "(int \<times> bool \<times> sqs_message) list"

definition make_wakeup :: "bool \<Rightarrow> string option \<Rightarrow> int \<Rightarrow> int \<Rightarrow> wakeup_error + queue_wakeup" where
  "make_wakeup enabled queue_url delay interval =
     bindE (require (0 \<le> delay \<and> delay \<le> MAX_SQS_DELAY_SECONDS) (WakeupValueError ''Wake-up delay must be between 0 and 900 seconds'')) (\<lambda>_.
     bindE (require (interval \<ge> 0) (WakeupValueError ''Wake-up resend interval must not be negative'')) (\<lambda>_.
       Inr \<lparr>qw_enabled = (enabled \<and> or_default queue_url [] \<noteq> []), qw_queue_url = or_default queue_url [],
             qw_delay_seconds = delay, qw_resend_interval = interval, qw_last_sent = None, qw_sent = []\<rparr>))"

definition send_wakeup :: "(sqs_message \<Rightarrow> bool) \<Rightarrow> int \<Rightarrow> bool \<Rightarrow> queue_wakeup \<Rightarrow> bool \<times> queue_wakeup" where
  "send_wakeup client now throttled q =
     (let message = \<lparr>sq_queue_url = qw_queue_url q, sq_message_body = WAKEUP_MESSAGE_BODY, sq_delay_seconds = qw_delay_seconds q\<rparr> in
      if \<not> qw_enabled q then (False, q)
      else if throttled \<and> (case qw_last_sent q of None \<Rightarrow> False | Some t \<Rightarrow> now - t < qw_resend_interval q) then (False, q)
      else if \<not> client message then (False, q)
      else (True, q\<lparr>qw_last_sent := Some now, qw_sent := qw_sent q @ [(now, throttled, message)]\<rparr>))"

definition parser_wakeup_from_environment :: "(string \<times> string) list \<Rightarrow> wakeup_error + queue_wakeup" where
  "parser_wakeup_from_environment environ =
     make_wakeup (strip (getenv environ ''AI_QA_COPILOT_PARSER_WAKEUP_ENABLED'') = ''true'')
       (Some (strip (getenv environ ''PARSER_QUEUE_URL''))) PARSER_WAKEUP_DELAY_SECONDS PARSER_WAKEUP_RESEND_INTERVAL_SECONDS"

definition general_wakeup_from_environment :: "(string \<times> string) list \<Rightarrow> wakeup_error + queue_wakeup" where
  "general_wakeup_from_environment environ =
     make_wakeup (strip (getenv environ ''AI_QA_COPILOT_GENERAL_WAKEUP_ENABLED'') = ''true'')
       (Some (strip (getenv environ ''GENERAL_QUEUE_URL''))) WAKEUP_DELAY_SECONDS WAKEUP_DELAY_SECONDS"

definition notify_upload_accepted :: "(sqs_message \<Rightarrow> bool) \<Rightarrow> int \<Rightarrow> queue_wakeup \<Rightarrow> bool \<times> queue_wakeup" where
  "notify_upload_accepted client now q = send_wakeup client now False q"

definition notify_if :: "document_status \<Rightarrow> (sqs_message \<Rightarrow> bool) \<Rightarrow> int \<Rightarrow> document_status_view list \<Rightarrow> queue_wakeup \<Rightarrow> bool \<times> queue_wakeup" where
  "notify_if status client now documents q =
     (if \<not> qw_enabled q then (False, q)
      else if \<not> list_ex (\<lambda>v. vw_status v = status) documents then (False, q)
      else send_wakeup client now True q)"

definition notify_if_parser_queued :: "(sqs_message \<Rightarrow> bool) \<Rightarrow> int \<Rightarrow> document_status_view list \<Rightarrow> queue_wakeup \<Rightarrow> bool \<times> queue_wakeup" where
  "notify_if_parser_queued = notify_if StatusParserQueued"

definition notify_if_parsed_unindexed :: "(sqs_message \<Rightarrow> bool) \<Rightarrow> int \<Rightarrow> document_status_view list \<Rightarrow> queue_wakeup \<Rightarrow> bool \<times> queue_wakeup" where
  "notify_if_parsed_unindexed = notify_if StatusParsed"

text \<open>What happens to the parser's sender: an accepted upload, or a status read with what it found.\<close>

datatype wakeup_event = UploadAccepted | StatusRead "document_status_view list"

fun parser_wakeup_event :: "(sqs_message \<Rightarrow> bool) \<Rightarrow> int \<Rightarrow> wakeup_event \<Rightarrow> queue_wakeup \<Rightarrow> bool \<times> queue_wakeup" where
  "parser_wakeup_event client now UploadAccepted q = notify_upload_accepted client now q"
| "parser_wakeup_event client now (StatusRead documents) q = notify_if_parser_queued client now documents q"

definition parser_wakeup_run :: "queue_wakeup \<Rightarrow> ((sqs_message \<Rightarrow> bool) \<times> int \<times> wakeup_event) list \<Rightarrow> queue_wakeup" where
  "parser_wakeup_run = foldl (\<lambda>q (client, now, e). snd (parser_wakeup_event client now e q))"

section \<open>Spacing\<close>

text \<open>The log: every throttled message keeps its distance to the one before, and no message carries data.\<close>

fun spaced :: "int \<Rightarrow> int option \<Rightarrow> (int \<times> bool \<times> sqs_message) list \<Rightarrow> bool" where
  "spaced interval prev [] \<longleftrightarrow> True"
| "spaced interval prev ((t, throttled, m) # log) \<longleftrightarrow>
     (throttled \<longrightarrow> (case prev of None \<Rightarrow> True | Some t' \<Rightarrow> interval \<le> t - t')) \<and> spaced interval (Some t) log"

definition wakeups_ok :: "queue_wakeup \<Rightarrow> bool" where
  "wakeups_ok q \<longleftrightarrow> spaced (qw_resend_interval q) None (qw_sent q)
     \<and> list_all (\<lambda>(t, th, m). m = \<lparr>sq_queue_url = qw_queue_url q, sq_message_body = WAKEUP_MESSAGE_BODY, sq_delay_seconds = qw_delay_seconds q\<rparr>) (qw_sent q)
     \<and> qw_last_sent q = (if qw_sent q = [] then None else Some (fst (last (qw_sent q))))"

lemma spaced_append:
  "spaced interval prev (log @ [(t, th, m)]) \<longleftrightarrow> spaced interval prev log
     \<and> (th \<longrightarrow> (case (if log = [] then prev else Some (fst (last log))) of None \<Rightarrow> True | Some t' \<Rightarrow> interval \<le> t - t'))"
  by (induction interval prev log rule: spaced.induct) auto

lemma send_wakeup_ok: "wakeups_ok q \<Longrightarrow> wakeups_ok (snd (send_wakeup client now throttled q))"
  by (auto simp: send_wakeup_def Let_def wakeups_ok_def spaced_append split: option.splits if_splits)

lemma send_wakeup_disabled: "\<not> qw_enabled q \<Longrightarrow> send_wakeup client now throttled q = (False, q)"
  by (simp add: send_wakeup_def)

lemma wakeup_event_ok:
  assumes "wakeups_ok q"
  shows "wakeups_ok (snd (parser_wakeup_event client now e q))" "\<not> qw_enabled q \<Longrightarrow> snd (parser_wakeup_event client now e q) = q"
  using assms
  by (cases e; simp add: notify_upload_accepted_def notify_if_parser_queued_def notify_if_def send_wakeup_ok send_wakeup_disabled)+

lemma wakeup_run_ok:
  assumes "wakeups_ok q"
  shows "wakeups_ok (parser_wakeup_run q es)
    \<and> (\<not> qw_enabled q \<longrightarrow> qw_sent (parser_wakeup_run q es) = qw_sent q)"
  using assms by (induction es arbitrary: q) (auto simp: parser_wakeup_run_def wakeup_event_ok)

section \<open>Views of an admitted project\<close>

text \<open>With the tables of the intake the join has one row per intake and every status is defined.\<close>

definition jobs_follow :: "document_db \<Rightarrow> bool" where
  "jobs_follow db \<longleftrightarrow> (\<forall>j \<in> set (dd_parser_jobs db). \<exists>i \<in> set (dd_intakes db). pj_document_intake_id j = di_id i \<and> di_state i = IntakeQuarantined)"

definition job_stage :: "document_db \<Rightarrow> document_intake_row \<Rightarrow> parser_job_state option" where
  "job_stage db i = map_option pj_state (find (\<lambda>j. pj_document_intake_id j = di_id i) (dd_parser_jobs db))"

lemma status_rows_join:
  assumes "parser_jobs_ok (dd_parser_jobs db)"
  shows "status_rows db = map (\<lambda>i. (i, job_stage db i)) (dd_intakes db)"
proof -
  have one: "(case filter (\<lambda>j. pj_document_intake_id j = di_id i) (dd_parser_jobs db) of
     [] \<Rightarrow> [(i, None)] | js \<Rightarrow> map (\<lambda>j. (i, Some (pj_state j))) js) = [(i, job_stage db i)]" for i
  proof -
    have "filter (\<lambda>j. pj_document_intake_id j = di_id i) (dd_parser_jobs db) = []
      \<or> (\<exists>j \<in> set (dd_parser_jobs db). pj_document_intake_id j = di_id i
          \<and> filter (\<lambda>j. pj_document_intake_id j = di_id i) (dd_parser_jobs db) = [j])"
      by (rule parser_jobs.unique_row [OF assms]) (simp add: parser_job_conflict_def)
    then show ?thesis by (auto simp: job_stage_def find_filter)
  qed
  show ?thesis unfolding status_rows_def one by (simp add: concat_map_singleton)
qed

lemma job_stage_rejected:
  assumes "jobs_follow db" "table_ok document_intake_checks document_intake_conflict (dd_intakes db)" "i \<in> set (dd_intakes db)"
    "di_state i = IntakeRejected"
  shows "job_stage db i = None"
proof (rule ccontr)
  assume "job_stage db i \<noteq> None"
  then obtain j where j: "j \<in> set (dd_parser_jobs db)" "pj_document_intake_id j = di_id i"
    by (auto simp: job_stage_def find_Some_iff intro: nth_mem)
  with assms(1) obtain k where k: "k \<in> set (dd_intakes db)" "di_id k = di_id i" "di_state k = IntakeQuarantined"
    by (fastforce simp: jobs_follow_def)
  then have "k = i" using document_intakes.conflict_eq [OF assms(2) k(1) assms(3)] by (simp add: document_intake_conflict_def)
  with k(3) assms(4) show False by simp
qed

text \<open>The view of an intake, as a total function.\<close>

definition view_for :: "document_db \<Rightarrow> document_intake_row \<Rightarrow> document_status_view" where
  "view_for db i = (let status = (if di_state i = IntakeRejected then StatusRejected
         else case job_stage db i of None \<Rightarrow> StatusQuarantined | Some s \<Rightarrow> parser_status s) in
     \<lparr>vw_id = di_id i, vw_project_id = di_project_id i, vw_document_id = di_document_id i, vw_filename = di_original_filename i,
      vw_content_type = di_declared_content_type i, vw_byte_size = di_byte_size i, vw_outcome = di_state i,
      vw_rejection_code = di_rejection_code i, vw_status = status, vw_parser_stage = job_stage db i,
      vw_indexing = (if status = StatusParsed then Some INDEXING_NOT_ENABLED else None), vw_created_at = di_created_at i\<rparr>)"

lemma view_of_defined:
  assumes "jobs_follow db" "table_ok document_intake_checks document_intake_conflict (dd_intakes db)" "i \<in> set (dd_intakes db)"
  shows "view_of (i, job_stage db i) = Inr (view_for db i)"
  using job_stage_rejected [OF assms]
  by (cases "di_state i"; cases "job_stage db i") (auto simp: view_of_def derive_document_status_def view_for_def Let_def)

lemma mapE_total: "(\<And>x. x \<in> set xs \<Longrightarrow> f (h x) = Inr (g x)) \<Longrightarrow> mapE f (map h xs) = Inr (map g xs)"
  by (induction xs) simp_all

lemma insort_key_map: "insort_key f (g x) (map g xs) = map g (insort_key (\<lambda>x. f (g x)) x xs)"
  by (induction xs) auto

lemma sort_key_map: "sort_key f (map g xs) = map g (sort_key (\<lambda>x. f (g x)) xs)"
  by (induction xs) (simp_all add: insort_key_map)

lemma list_for_project_defined:
  assumes "jobs_follow db" "table_ok document_intake_checks document_intake_conflict (dd_intakes db)" "parser_jobs_ok (dd_parser_jobs db)"
  shows "list_for_project True project lim db = Inr (map (view_for db) (take (nat (max 1 (min lim DOCUMENT_STATUS_LIST_LIMIT)))
      (rev (sort_key (\<lambda>i. (di_created_at i, di_id i)) (filter (\<lambda>i. di_project_id i = project) (dd_intakes db))))))"
proof -
  let ?is = "take (nat (max 1 (min lim DOCUMENT_STATUS_LIST_LIMIT)))
      (rev (sort_key (\<lambda>i. (di_created_at i, di_id i)) (filter (\<lambda>i. di_project_id i = project) (dd_intakes db))))"
  have "set ?is \<subseteq> set (dd_intakes db)" by (rule subset_trans [OF set_take_subset]) auto
  then have "mapE view_of (map (\<lambda>i. (i, job_stage db i)) ?is) = Inr (map (view_for db) ?is)"
    using view_of_defined [OF assms(1,2)] by (intro mapE_total) auto
  then show ?thesis
    by (simp add: list_for_project_def status_rows_join [OF assms(3)] newest_first_def filter_map o_def sort_key_map rev_map take_map)
qed

lemma get_for_project_defined:
  assumes "jobs_follow db" "table_ok document_intake_checks document_intake_conflict (dd_intakes db)" "parser_jobs_ok (dd_parser_jobs db)"
  shows "get_for_project True project k db
    = Inr (map_option (view_for db) (find (\<lambda>i. di_project_id i = project \<and> di_id i = k) (dd_intakes db)))"
proof -
  let ?p = "\<lambda>i. di_project_id i = project \<and> di_id i = k"
  have "filter ?p (dd_intakes db) = [] \<or> (\<exists>i \<in> set (dd_intakes db). ?p i \<and> filter ?p (dd_intakes db) = [i])"
    by (rule document_intakes.unique_row [OF assms(2)]) (simp add: document_intake_conflict_def)
  then show ?thesis
    using view_of_defined [OF assms(1,2)]
    by (auto simp: get_for_project_def status_rows_join [OF assms(3)] filter_map o_def find_filter)
qed

section \<open>Well-formed views\<close>

definition view_ok :: "uuid \<Rightarrow> document_status_view \<Rightarrow> bool" where
  "view_ok project v \<longleftrightarrow> vw_project_id v = project
     \<and> (if vw_outcome v = IntakeRejected
        then vw_status v = StatusRejected \<and> vw_rejection_code v \<noteq> None \<and> vw_document_id v = None \<and> vw_parser_stage v = None
        else vw_rejection_code v = None \<and> vw_document_id v \<noteq> None
          \<and> vw_status v = (case vw_parser_stage v of None \<Rightarrow> StatusQuarantined | Some s \<Rightarrow> parser_status s))
     \<and> (vw_indexing v = Some INDEXING_NOT_ENABLED \<longleftrightarrow> vw_parser_stage v = Some ParserAccepted)"

lemma list_all2_right: "list_all2 (\<lambda>x. P) xs ys \<Longrightarrow> list_all P ys"
  by (induction rule: list_all2_induct) simp_all

lemma parser_status_eq:
  "StatusParsed = parser_status s \<longleftrightarrow> s = ParserAccepted" "parser_status s = StatusParsed \<longleftrightarrow> s = ParserAccepted"
  by (cases s; simp)+

lemma view_of_ok:
  assumes "view_of (i, stage) = Inr v" "document_intake_checks i"
  shows "view_ok (di_project_id i) v"
  using assms
  by (cases "di_state i"; cases stage)
    (auto simp: view_of_def derive_document_status_def view_ok_def document_intake_checks_def exn_simps parser_status_eq split: if_splits)

lemma status_rows_sound: "r \<in> set (status_rows db) \<Longrightarrow> fst r \<in> set (dd_intakes db)"
proof -
  assume "r \<in> set (status_rows db)"
  then obtain i where "i \<in> set (dd_intakes db)" and r: "r \<in> set (case filter (\<lambda>j. pj_document_intake_id j = di_id i) (dd_parser_jobs db) of
     [] \<Rightarrow> [(i, None)] | js \<Rightarrow> map (\<lambda>j. (i, Some (pj_state j))) js)"
    by (auto simp: status_rows_def)
  moreover from r have "fst r = i"
    by (cases "filter (\<lambda>j. pj_document_intake_id j = di_id i) (dd_parser_jobs db)") auto
  ultimately show ?thesis by simp
qed

end
