(* ===== verification/Upload_Properties.thy ===== *)
theory Upload_Properties
  imports Promotion_Succeeds Intake_Interleaving Document_Demo Indexing_Worker Document_Status
begin

text \<open>
  Properties of uploads: admission keeps the stored objects in every interleaving, and the quotas up to the uploads in
  flight, an admitted text is published
  by the parser turn that claims it, an indexing turn closes its claim, and the owner's view is defined.
\<close>

section \<open>A concrete upload\<close>

definition demo_upload :: upload where
  "demo_upload = \<lparr>ul_stream = [take 10 demo_raw, drop 10 demo_raw], ul_filename = Some '' spec.MD '',
     ul_content_type = Some ''text/markdown; charset=utf-8'', ul_content_encoding = None, ul_content_length = Some ''25''\<rparr>"

definition demo_intake_env :: intake_env where
  "demo_intake_env = \<lparr>iv_up = (\<lambda>n. True), iv_now = (\<lambda>n. 10 + int n), iv_ids = (\<lambda>n. 40 + of_nat n), iv_key = 30, iv_job = 45\<rparr>"

definition demo_empty_db :: document_db where
  "demo_empty_db = \<lparr>dd_projects = [11], dd_documents = [], dd_versions = [], dd_parser_versions = [], dd_intakes = [],
     dd_parser_jobs = [], dd_locations = [], dd_sections = [], dd_indexing_jobs = []\<rparr>"

definition demo_intake_state :: "objects intake_state" where
  "demo_intake_state = \<lparr>in_db = demo_empty_db, in_store = (\<lambda>k. None)\<rparr>"


definition demo_key :: string where
  "demo_key = ''quarantine/00000000-0000-0000-0000-00000000000b/00000000-0000-0000-0000-00000000001e/raw''"

definition demo_upload_row :: document_intake_row where
  "demo_upload_row = \<lparr>di_id = 44, di_project_id = 11, di_document_id = Some 41, di_document_version_id = Some 43,
     di_state = IntakeQuarantined, di_quarantine_key = Some demo_key, di_original_filename = ''spec.MD'',
     di_declared_content_type = ''text/markdown'', di_byte_size = 25, di_content_sha256 = Some demo_hash,
     di_rejection_code = None, di_created_at = 13\<rparr>"

definition demo_received_db :: document_db where
  "demo_received_db = demo_empty_db
     \<lparr>dd_documents := [\<lparr>dr_id = 41, dr_project_id = 11, dr_document_type = ''markdown'', dr_display_name = ''spec.MD'', dr_created_at = 13\<rparr>],
      dd_parser_versions := [\<lparr>pv_id = 42, pv_parser_name = ''quarantine-pending'', pv_parser_version = ''v1'',
         pv_normalization_version = ''pending'', pv_created_at = 13\<rparr>],
      dd_versions := [\<lparr>dv_id = 43, dv_document_id = 41, dv_parser_version_id = 42, dv_version_number = 1,
         dv_content_sha256 = demo_hash, dv_byte_size = 25, dv_content_type = ''text/markdown'', dv_created_at = 13\<rparr>],
      dd_intakes := [demo_upload_row], dd_parser_jobs := [new_parser_job 45 44 14]\<rparr>"


lemma demo_intake_inv: "intake_inv demo_rt memory_storage default_policy demo_intake_state" "references_ok demo_empty_db"
  by (simp_all add: intake_inv_def demo_intake_state_def demo_empty_db_def references_ok_def quota_ok_def usage_rows_def
    default_policy_def MAX_FILES_PER_PROJECT_def MAX_TOTAL_RAW_BYTES_PER_PROJECT_def table_ok_def)

section \<open>From upload to evidence\<close>








section \<open>Admission\<close>

text \<open>One request after another: admission keeps the quotas of every project too.\<close>

lemma intake_admission_alone:
  assumes "write_once_storage storage" "receive rt storage policy env project u s = (r, s')" "intake_inv rt storage policy s"
    "\<forall>i \<in> set (dd_intakes (in_db s)). di_quarantine_key i \<noteq> Some (quarantine_key project (iv_key env))"
  shows "intake_inv rt storage policy s'"
  using write_once_storage.receive_keeps [OF assms] .

text \<open>C10: Any number of uploads at the same time, each in its separate transactions and interleaved in any order, with
  any storage failures and database outages: the table constraints hold, every quarantined row names a document and
  version of its project and an object in storage with exactly its type, length and digest, and no project exceeds its
  number of files or bytes by more than what \<open>k - 1\<close> uploads can hold, where \<open>k\<close> bounds how many uploads of
  one project are between their quota check and their creation at once.  So the quotas are exact when these do not
  overlap (\<open>k = 1\<close>), and only then: the check and the insert are not one transaction.\<close>

theorem intake_admission:
  assumes "write_once_storage storage" "intake_inv rt storage policy s0" "0 \<le> lp_max_raw_bytes policy" "1 \<le> k"
    and "keys_fresh reqs n (in_db s0)" "intake_run rt storage policy reqs n k s0 st s"
  shows "intake_consistent rt storage s
    \<and> (\<forall>project. int (length (usage_rows project (in_db s))) \<le> lp_max_files_per_project policy + (k - 1)
         \<and> sum_list (map di_byte_size (usage_rows project (in_db s)))
           \<le> lp_max_total_bytes_per_project policy + (k - 1) * lp_max_raw_bytes policy)
    \<and> (k = 1 \<longrightarrow> intake_inv rt storage policy s)"
proof -
  have b: "intake_consistent rt storage s \<and> files_of project s \<le> lp_max_files_per_project policy + (k - 1)
      \<and> bytes_of project s \<le> lp_max_total_bytes_per_project policy + (k - 1) * lp_max_raw_bytes policy" for project
    by (rule write_once_storage.run_bounds [OF assms(1) write_once_storage.run_all_ok [OF assms(1,6,2-5)]])
  then have "k = 1 \<longrightarrow> intake_inv rt storage policy s"
    by (auto simp: files_of_def bytes_of_def intake_inv_split quota_ok_def)
  with b show ?thesis by (simp add: files_of_def bytes_of_def)
qed

text \<open>Two uploads to a project that may hold one file; their steps alternate.\<close>

definition one_file_policy :: upload_policy where
  "one_file_policy = default_policy\<lparr>lp_max_files_per_project := 1\<rparr>"

definition demo_requests :: "nat \<Rightarrow> upload_request" where
  "demo_requests i = (if i = 0 then \<lparr>rq_env = demo_intake_env, rq_project = 11, rq_upload = demo_upload\<rparr>
     else \<lparr>rq_env = demo_intake_env\<lparr>iv_ids := (\<lambda>n. 60 + of_nat n), iv_key := 31, iv_job := 65\<rparr>, rq_project = 11,
       rq_upload = demo_upload\<lparr>ul_filename := Some ''other.md''\<rparr>\<rparr>)"

definition demo_overlap :: "(nat \<Rightarrow> upload_stage) \<times> objects intake_state" where
  "demo_overlap = run_schedule demo_rt memory_storage one_file_policy demo_requests [0, 1, 0, 1, 0, 1, 0, 1, 0, 1]
     (\<lambda>i. upload_begin one_file_policy (rq_upload (demo_requests i)), demo_intake_state)"

lemma demo_overlap_keys: "keys_fresh demo_requests 2 (in_db demo_intake_state)"
proof -
  have "request_key (demo_requests 0) \<noteq> request_key (demo_requests 1)" by code_simp
  moreover have "{..<2 :: nat} = {0, 1}" by auto
  ultimately show ?thesis by (simp add: keys_fresh_def demo_intake_state_def demo_empty_db_def)
qed

lemma demo_overlap_usage: "map di_id (usage_rows 11 (in_db (snd demo_overlap))) = [44, 64]"
  by code_simp

lemma demo_overlap_run: "intake_run demo_rt memory_storage one_file_policy demo_requests 2 (int 2) demo_intake_state (fst demo_overlap) (snd demo_overlap)"
  by (rule schedule_run [OF intake_run.arrive, where sched = "[0, 1, 0, 1, 0, 1, 0, 1, 0, 1]"])
    (simp, simp only: demo_overlap_def prod.collapse)

text \<open>Both pass the check before either creates its rows, and the project ends with two files: the bound is met.\<close>

theorem intake_admission_witness:
  "intake_consistent demo_rt memory_storage (snd demo_overlap)
   \<and> int (length (usage_rows 11 (in_db (snd demo_overlap)))) = 2 \<and> lp_max_files_per_project one_file_policy = 1"
proof -
  have "intake_inv demo_rt memory_storage one_file_policy demo_intake_state"
    using demo_intake_inv(1) by (auto simp: intake_inv_split quota_ok_def one_file_policy_def demo_intake_state_def demo_empty_db_def
        usage_rows_def)
  from intake_admission [OF memory.write_once_storage_axioms this _ _ demo_overlap_keys demo_overlap_run] arg_cong [OF demo_overlap_usage, of length]
  show ?thesis by (simp add: one_file_policy_def default_policy_def MAX_RAW_UPLOAD_BYTES_def)
qed

text \<open>A request whose declared length does not fit the 32-bit size column cannot be recorded as rejected: \<open>receive\<close>
  reports the intake as unavailable and stores nothing, where \<open>UPLOAD_SIZE_LIMIT\<close> is meant.\<close>

theorem oversized_length_not_recorded:
  assumes "safe_metadata (ul_filename u) (ul_content_type u) (ul_content_encoding u) = Inr meta"
    "map_of file_types (lower (path_suffix (um_filename meta))) = Some (dtype, allowed, lim)" "um_content_type meta \<in> set allowed"
    "ul_content_length u = Some text" "py_int text = Some n" "2 ^ 31 \<le> n" "min lim (lp_max_raw_bytes policy) < n"
  shows "receive rt storage policy env project u s = (Inl DocumentIntakeUnavailable, s)"
proof -
  have "\<not> intake_widths r" if "di_byte_size r = n" for r using that assms(6) by (simp add: intake_widths_def)
  then show ?thesis using assms
    by (auto simp: receive_def Let_def content_length_refusal_def reject_upload_def record_rejection_def insert_intake_def insert_row_def)
qed

definition demo_oversized :: upload where
  "demo_oversized = demo_upload\<lparr>ul_content_length := Some ''3000000000''\<rparr>"

theorem oversized_length_not_recorded_witness:
  "receive demo_rt memory_storage default_policy demo_intake_env 11 demo_oversized demo_intake_state
    = (Inl DocumentIntakeUnavailable, demo_intake_state)"
proof -
  have e: "safe_metadata (ul_filename demo_oversized) (ul_content_type demo_oversized) (ul_content_encoding demo_oversized)
      = Inr \<lparr>um_filename = ''spec.MD'', um_content_type = ''text/markdown'', um_content_encoding = ''identity''\<rparr>"
    "map_of file_types (lower (path_suffix ''spec.MD'')) = Some (''markdown'', [''text/markdown''], 2097152)"
    "py_int ''3000000000'' = Some 3000000000" "ul_content_length demo_oversized = Some ''3000000000''"
  proof -
    have "(safe_metadata (ul_filename demo_oversized) (ul_content_type demo_oversized) (ul_content_encoding demo_oversized)
      = Inr \<lparr>um_filename = ''spec.MD'', um_content_type = ''text/markdown'', um_content_encoding = ''identity''\<rparr>) \<and>
      (map_of file_types (lower (path_suffix ''spec.MD'')) = Some (''markdown'', [''text/markdown''], 2097152)) \<and>
      (py_int ''3000000000'' = Some 3000000000) \<and>
      (ul_content_length demo_oversized = Some ''3000000000'')" by code_simp
    then show "safe_metadata (ul_filename demo_oversized) (ul_content_type demo_oversized) (ul_content_encoding demo_oversized)
      = Inr \<lparr>um_filename = ''spec.MD'', um_content_type = ''text/markdown'', um_content_encoding = ''identity''\<rparr>"
      "map_of file_types (lower (path_suffix ''spec.MD'')) = Some (''markdown'', [''text/markdown''], 2097152)"
      "py_int ''3000000000'' = Some 3000000000" "ul_content_length demo_oversized = Some ''3000000000''" by - (elim conjE, assumption)+
  qed
  have "min 2097152 (lp_max_raw_bytes default_policy) < 3000000000" by (simp add: min_def default_policy_def)
  then show ?thesis
    using oversized_length_not_recorded [OF e(1) _ _ e(4,3), of "''markdown''" "[''text/markdown'']" 2097152] e(2) by simp
qed

section \<open>Indexing\<close>






section \<open>The owner's view\<close>

text \<open>Every view the status repository returns is well formed: it belongs to the requested project, a rejected upload has
  a rejection code and neither document nor parser stage, any other has a document and no code, the status is the one of its
  parser stage, and the indexing notice stands exactly on parsed documents.\<close>

theorem status_views_typed:
  assumes "list_all document_intake_checks (dd_intakes db)"
    "list_for_project up project lim db = Inr vs" "get_for_project up project i db = Inr found"
  shows "list_all (view_ok project) (case found of None \<Rightarrow> vs | Some v \<Rightarrow> v # vs)"
proof -
  have ok: "view_ok (di_project_id (fst q)) v" if "q \<in> set (status_rows db)" "view_of q = Inr v" for q v
    using view_of_ok [of "fst q" "snd q" v] status_rows_sound [OF that(1)] that(2) assms(1) by (simp add: list_all_iff)
  have "list_all (view_ok project) vs"
  proof -
    let ?qs = "take (nat (max 1 (min lim DOCUMENT_STATUS_LIST_LIMIT)))
       (newest_first (filter (\<lambda>(i, _). di_project_id i = project) (status_rows db)))"
    have l: "list_all2 (\<lambda>q v. view_of q = Inr v) ?qs vs"
      using assms(2) by (auto simp: list_for_project_def exn_simps split: if_splits)
    have q: "q \<in> set (status_rows db) \<and> di_project_id (fst q) = project" if "q \<in> set ?qs" for q
      using in_set_takeD [OF that] by (auto simp: newest_first_def)
    have "view_ok project v" if "r \<in> set ?qs" "view_of r = Inr v" for r v
      using ok [OF _ that(2)] q [OF that(1)] by simp
    then have "list_all2 (\<lambda>q v. view_ok project v) ?qs vs" by (rule list.rel_mono_strong [OF l])
    then show ?thesis by (rule list_all2_right)
  qed
  moreover have "view_ok project v" if "found = Some v" for v
  proof -
    have "\<exists>q. q \<in> set (status_rows db) \<and> di_project_id (fst q) = project \<and> view_of q = Inr v"
      using assms(3) that
      by (fastforce simp: get_for_project_def exn_simps store_simps filter_eq_Cons_iff split: if_splits sum.splits option.splits)
    with ok show ?thesis by metis
  qed
  ultimately show ?thesis by (simp split: option.splits)
qed

text \<open>In a consistent state the status repository never fails while the database answers: a listing is the view of the
  newest intakes of the project, at least one and at most 100 of them by the requested limit, and a lookup is the view of
  the intake with that identifier if it belongs to the project.\<close>

theorem status_reads_defined:
  assumes "intake_inv rt storage policy s" "jobs_follow (in_db s)"
  shows "list_for_project True project lim (in_db s) = Inr (map (view_for (in_db s)) (take (nat (max 1 (min lim 100)))
      (rev (sort_key (\<lambda>i. (di_created_at i, di_id i)) (filter (\<lambda>i. di_project_id i = project) (dd_intakes (in_db s)))))))
    \<and> get_for_project True project k (in_db s)
      = Inr (map_option (view_for (in_db s)) (find (\<lambda>i. di_project_id i = project \<and> di_id i = k) (dd_intakes (in_db s))))"
  using assms list_for_project_defined get_for_project_defined
  by (simp add: intake_inv_def Let_def DOCUMENT_STATUS_LIST_LIMIT_def)

text \<open>Of the wake-ups of one sender, those sent by status reads keep the resend interval: each comes at least that long
  after the message sent before it, whatever the client does, and every message sent is the constant text.\<close>

theorem parser_wakeups_spaced:
  assumes "parser_wakeup_from_environment environ = Inr q"
  shows "wakeups_ok (parser_wakeup_run q es)
    \<and> (qw_sent (parser_wakeup_run q es) \<noteq> [] \<longrightarrow>
        strip (getenv environ ''AI_QA_COPILOT_PARSER_WAKEUP_ENABLED'') = ''true'' \<and> strip (getenv environ ''PARSER_QUEUE_URL'') \<noteq> [])"
proof -
  have q: "wakeups_ok q" "qw_sent q = []" "qw_enabled q \<Longrightarrow> strip (getenv environ ''AI_QA_COPILOT_PARSER_WAKEUP_ENABLED'') = ''true''"
    "qw_enabled q \<Longrightarrow> strip (getenv environ ''PARSER_QUEUE_URL'') \<noteq> []"
    using assms by (auto simp: parser_wakeup_from_environment_def make_wakeup_def exn_simps require_def wakeups_ok_def or_default_def
        split: if_splits option.splits list.splits)
  have "wakeups_ok (parser_wakeup_run q es) \<and> (\<not> qw_enabled q \<longrightarrow> qw_sent (parser_wakeup_run q es) = qw_sent q)"
    using q(1) by (rule wakeup_run_ok)
  with q(2-4) show ?thesis by auto
qed

definition demo_wakeup_environment :: "(string \<times> string) list" where
  "demo_wakeup_environment = [(''AI_QA_COPILOT_PARSER_WAKEUP_ENABLED'', ''true''), (''PARSER_QUEUE_URL'', ''q'')]"

definition demo_wakeup :: queue_wakeup where
  "demo_wakeup = \<lparr>qw_enabled = True, qw_queue_url = ''q'', qw_delay_seconds = 0, qw_resend_interval = 60, qw_last_sent = None, qw_sent = []\<rparr>"

theorem parser_wakeups_spaced_witness:
  "wakeups_ok (snd (parser_wakeup_event (\<lambda>m. True) 30 (StatusRead [])
     (snd (parser_wakeup_event (\<lambda>m. True) 5 UploadAccepted demo_wakeup))))"
proof -
  have "parser_wakeup_from_environment demo_wakeup_environment = Inr demo_wakeup" by code_simp
  from parser_wakeups_spaced [OF this, of "[(\<lambda>m. True, 5, UploadAccepted), (\<lambda>m. True, 30, StatusRead [])]"] show ?thesis by (simp add: parser_wakeup_run_def)
qed

section \<open>Witnesses of the views\<close>

lemma demo_status_tables: "list_all document_intake_checks (dd_intakes demo_received_db)" "jobs_follow demo_received_db"
  "list_for_project True 11 5 demo_received_db = Inr [view_for demo_received_db demo_upload_row]"
  "get_for_project True 11 44 demo_received_db = Inr (Some (view_for demo_received_db demo_upload_row))"
proof -
  have "(list_all document_intake_checks (dd_intakes demo_received_db)) \<and>
      (jobs_follow demo_received_db) \<and>
      (list_for_project True 11 5 demo_received_db = Inr [view_for demo_received_db demo_upload_row]) \<and>
      (get_for_project True 11 44 demo_received_db = Inr (Some (view_for demo_received_db demo_upload_row)))" by code_simp
  then show "list_all document_intake_checks (dd_intakes demo_received_db)" "jobs_follow demo_received_db"
    "list_for_project True 11 5 demo_received_db = Inr [view_for demo_received_db demo_upload_row]"
    "get_for_project True 11 44 demo_received_db = Inr (Some (view_for demo_received_db demo_upload_row))" by - (elim conjE, assumption)+
qed

theorem status_views_typed_witness: "list_all (view_ok 11) (replicate 2 (view_for demo_received_db demo_upload_row))"
  using status_views_typed [OF demo_status_tables(1,3,4)] by (simp add: numeral_2_eq_2)

theorem status_reads_defined_witness:
  "list_for_project True 11 500 demo_empty_db = Inr [] \<and> get_for_project True 11 44 demo_empty_db = Inr None"
  using status_reads_defined [OF demo_intake_inv(1), of 11 500 44]
  by (simp add: demo_intake_state_def demo_empty_db_def jobs_follow_def)

end
