(* ===== verification/Retrieval.thy ===== *)
theory Retrieval
  imports Indexing Py_Uuid
begin

text \<open>
  Hybrid retrieval (\<open>hybrid_retrieval.py\<close>): two ranked candidate lists of a project, their reciprocal-rank
  fusion and the durable trace.  PostgreSQL's text search and vector distance are the record \<open>ranking\<close>.
  Fusion scores are doubles, kept exactly as a number of units \<open>2 ^ - 70\<close> with the roundings of the division
  and of the sum written out.
\<close>

section \<open>Data\<close>

definition HYBRID_RETRIEVAL_VERSION :: string where "HYBRID_RETRIEVAL_VERSION = ''hybrid-v1''"
definition FUSION_METHOD :: string where "FUSION_METHOD = ''reciprocal-rank-fusion-v1''"
definition RECIPROCAL_RANK_OFFSET :: nat where "RECIPROCAL_RANK_OFFSET = 60"
definition MAX_HYBRID_RESULT_LIMIT :: int where "MAX_HYBRID_RESULT_LIMIT = 100"
definition MAX_QUERY_EMBEDDING_DIMENSIONS :: nat where "MAX_QUERY_EMBEDDING_DIMENSIONS = 2000"

datatype retrieval_error = HybridRetrievalUnavailable | HybridValueError string

record retrieval_filters =
  hf_embedding_model :: string
  hf_embedding_version :: string
  hf_document_version_ids :: "uuid list option"
  hf_document_types :: "string list option"
  hf_chunking_version :: "string option"

text \<open>A finite score or distance as an exact number of units; a distance may be \<open>nan\<close>, which sorts last.\<close>

type_synonym distance = "int option"

record hybrid_candidate =
  hc_chunk_id :: uuid
  hc_project_id :: uuid
  hc_document_version_id :: uuid
  hc_source_location_id :: uuid
  hc_document_type :: string
  hc_chunking_version :: string
  hc_ordinal :: int
  hc_normalized_text :: string
  hc_lexical_score :: "int option"
  hc_lexical_rank :: "nat option"
  hc_semantic_distance :: "distance option"
  hc_semantic_rank :: "nat option"
  hc_fusion_score :: nat
  hc_rank :: "nat option"

record hybrid_response =
  hr_retrieval_version :: string
  hr_fusion_method :: string
  hr_trace_id :: uuid
  hr_query :: string
  hr_project_id :: uuid
  hr_candidates :: "hybrid_candidate list"

record ranking =
  rk_matches :: "string \<Rightarrow> string \<Rightarrow> bool"
  rk_score :: "string \<Rightarrow> string \<Rightarrow> int"
  rk_distance :: "string list \<Rightarrow> string list \<Rightarrow> retrieval_error + distance"

record retrieval_trace_row =
  tr_id :: uuid
  tr_project_id :: uuid
  tr_retrieval_version :: string
  tr_fusion_method :: string
  tr_query :: string
  tr_query_embedding :: "string list"
  tr_embedding_model :: string
  tr_embedding_version :: string
  tr_document_version_ids :: "string list option"
  tr_document_types :: "string list option"
  tr_chunking_version :: "string option"
  tr_candidate_limit :: int
  tr_result_limit :: int
  tr_created_at :: instant

record trace_candidate_row =
  tk_id :: uuid
  tk_retrieval_trace_id :: uuid
  tk_document_chunk_id :: uuid
  tk_lexical_score :: "int option"
  tk_lexical_rank :: "nat option"
  tk_semantic_distance :: "distance option"
  tk_semantic_rank :: "nat option"
  tk_fusion_score :: nat
  tk_final_rank :: "nat option"

definition retrieval_trace_checks :: "retrieval_trace_row \<Rightarrow> bool" where
  "retrieval_trace_checks t \<longleftrightarrow> sql_trim (tr_retrieval_version t) \<noteq> [] \<and> sql_trim (tr_fusion_method t) \<noteq> []
     \<and> sql_trim (tr_query t) \<noteq> [] \<and> sql_trim (tr_embedding_model t) \<noteq> [] \<and> sql_trim (tr_embedding_version t) \<noteq> []
     \<and> tr_candidate_limit t > 0 \<and> tr_result_limit t > 0 \<and> tr_candidate_limit t \<ge> tr_result_limit t
     \<and> length (tr_embedding_model t) \<le> 128 \<and> length (tr_embedding_version t) \<le> 64
     \<and> (case tr_chunking_version t of None \<Rightarrow> True | Some c \<Rightarrow> length c \<le> 64)"

definition retrieval_trace_conflict :: "retrieval_trace_row \<Rightarrow> retrieval_trace_row \<Rightarrow> bool" where
  "retrieval_trace_conflict t u \<longleftrightarrow> tr_id t = tr_id u"

definition trace_candidate_checks :: "trace_candidate_row \<Rightarrow> bool" where
  "trace_candidate_checks k \<longleftrightarrow> tk_lexical_rank k \<noteq> Some 0 \<and> tk_semantic_rank k \<noteq> Some 0 \<and> tk_final_rank k \<noteq> Some 0
     \<and> (tk_lexical_rank k = None \<longleftrightarrow> tk_lexical_score k = None) \<and> (tk_semantic_rank k = None \<longleftrightarrow> tk_semantic_distance k = None)"

definition trace_candidate_conflict :: "trace_candidate_row \<Rightarrow> trace_candidate_row \<Rightarrow> bool" where
  "trace_candidate_conflict k l \<longleftrightarrow> tk_id k = tk_id l
     \<or> tk_retrieval_trace_id k = tk_retrieval_trace_id l \<and> tk_document_chunk_id k = tk_document_chunk_id l"

interpretation retrieval_traces: table retrieval_trace_checks retrieval_trace_conflict
  by unfold_locales (auto simp: retrieval_trace_conflict_def)

interpretation trace_candidates: table trace_candidate_checks trace_candidate_conflict
  by unfold_locales (auto simp: trace_candidate_conflict_def)

record citation_row =
  cr_id :: uuid
  cr_project_id :: uuid
  cr_retrieval_trace_id :: uuid
  cr_document_chunk_id :: uuid
  cr_document_version_id :: uuid
  cr_source_location_id :: uuid
  cr_created_at :: instant

text \<open>The tables retrieval and citations use.\<close>

record evidence_db =
  ed_projects :: "uuid list"
  ed_documents :: "document_row list"
  ed_versions :: "document_version_row list"
  ed_locations :: "source_location_row list"
  ed_chunks :: "document_chunk_row list"
  ed_cache :: "embedding_cache_row list"
  ed_links :: "chunk_embedding_row list"
  ed_traces :: "retrieval_trace_row list"
  ed_candidates :: "trace_candidate_row list"
  ed_citations :: "citation_row list"

section \<open>Validation\<close>

definition validate_filters :: "retrieval_filters \<Rightarrow> retrieval_error + unit" where
  "validate_filters f =
     bindE (require (strip (hf_embedding_model f) \<noteq> [] \<and> strip (hf_embedding_version f) \<noteq> [])
       (HybridValueError ''Embedding model and version must be non-empty'')) (\<lambda>_.
     bindE (require (case hf_document_types f of None \<Rightarrow> True | Some ts \<Rightarrow> ts \<noteq> [] \<and> list_all (\<lambda>t. strip t \<noteq> []) ts)
       (HybridValueError ''Document type filters must be non-empty'')) (\<lambda>_.
       require (case hf_chunking_version f of None \<Rightarrow> True | Some c \<Rightarrow> strip c \<noteq> [])
         (HybridValueError ''Chunking version filter must be non-empty'')))"

definition validate_query_embedding :: "string list \<Rightarrow> retrieval_error + unit" where
  "validate_query_embedding v =
     bindE (require (v \<noteq> [] \<and> length v \<le> MAX_QUERY_EMBEDDING_DIMENSIONS)
       (HybridValueError ''Query embedding must be non-empty and within the supported dimension limit'')) (\<lambda>_.
       require (list_all float_finite v) (HybridValueError ''Query embedding values must be finite''))"

text \<open>\<open>str.isalnum\<close> on one Latin-1 character.\<close>

definition is_alnum :: "char \<Rightarrow> bool" where
  "is_alnum c = (let n = code c in 48 \<le> n \<and> n \<le> 57 \<or> 65 \<le> n \<and> n \<le> 90 \<or> 97 \<le> n \<and> n \<le> 122
     \<or> n \<in> {170, 178, 179, 181, 185, 186, 188, 189, 190} \<or> 192 \<le> n \<and> n \<noteq> 215 \<and> n \<noteq> 247)"

section \<open>Candidates\<close>

definition passes_filters :: "retrieval_filters \<Rightarrow> document_chunk_row \<Rightarrow> document_row \<Rightarrow> bool" where
  "passes_filters f k d \<longleftrightarrow>
     (case hf_document_version_ids f of None \<Rightarrow> True | Some vs \<Rightarrow> ck_document_version_id k \<in> set vs)
     \<and> (case hf_document_types f of None \<Rightarrow> True | Some ts \<Rightarrow> dr_document_type d \<in> set ts)
     \<and> (case hf_chunking_version f of None \<Rightarrow> True | Some c \<Rightarrow> ck_chunking_version k = c)"

text \<open>\<open>_candidate_statement\<close>: the filtered join of chunk, version and document.\<close>

definition candidate_rows :: "uuid \<Rightarrow> retrieval_filters \<Rightarrow> evidence_db \<Rightarrow> (document_chunk_row \<times> document_row) list" where
  "candidate_rows project f db = concat (map (\<lambda>k. concat (map (\<lambda>v. concat (map (\<lambda>d.
     if ck_document_version_id k = dv_id v \<and> dv_document_id v = dr_id d \<and> dr_project_id d = project \<and> passes_filters f k d
     then [(k, d)] else []) (ed_documents db))) (ed_versions db))) (ed_chunks db))"

definition candidate_from_row :: "document_chunk_row \<times> document_row \<Rightarrow> hybrid_candidate" where
  "candidate_from_row r = (case r of (k, d) \<Rightarrow>
     \<lparr>hc_chunk_id = ck_id k, hc_project_id = dr_project_id d, hc_document_version_id = ck_document_version_id k,
      hc_source_location_id = ck_source_location_id k, hc_document_type = dr_document_type d,
      hc_chunking_version = ck_chunking_version k, hc_ordinal = ck_ordinal k, hc_normalized_text = ck_normalized_text k,
      hc_lexical_score = None, hc_lexical_rank = None, hc_semantic_distance = None, hc_semantic_rank = None,
      hc_fusion_score = 0, hc_rank = None\<rparr>)"

text \<open>\<open>enumerate(.., start=1)\<close>.\<close>

definition numbered :: "'a list \<Rightarrow> (nat \<times> 'a) list" where
  "numbered xs = zip [1..<Suc (length xs)] xs"

definition lexical_candidates ::
  "ranking \<Rightarrow> uuid \<Rightarrow> string \<Rightarrow> retrieval_filters \<Rightarrow> int \<Rightarrow> evidence_db \<Rightarrow> hybrid_candidate list" where
  "lexical_candidates rk project query f lim db =
     map (\<lambda>(i, r). (candidate_from_row r)\<lparr>hc_lexical_score := Some (rk_score rk (ck_normalized_text (fst r)) query), hc_lexical_rank := Some i\<rparr>)
       (numbered (take (nat lim) (sort_key (\<lambda>(k, d). (- rk_score rk (ck_normalized_text k) query, ck_ordinal k, ck_id k))
         (filter (\<lambda>(k, d). rk_matches rk (ck_normalized_text k) query) (candidate_rows project f db)))))"

definition embedded_rows ::
  "uuid \<Rightarrow> retrieval_filters \<Rightarrow> evidence_db \<Rightarrow> ((document_chunk_row \<times> document_row) \<times> string list) list" where
  "embedded_rows project f db = concat (map (\<lambda>r. concat (map (\<lambda>l. concat (map (\<lambda>e.
     if ce_document_chunk_id l = ck_id (fst r) \<and> ce_embedding_cache_id l = em_id e
       \<and> ce_embedding_model l = hf_embedding_model f \<and> ce_embedding_version l = hf_embedding_version f
       \<and> em_project_id e = project \<and> em_embedding_model e = hf_embedding_model f \<and> em_embedding_version e = hf_embedding_version f
     then [(r, em_values e)] else []) (ed_cache db))) (ed_links db))) (candidate_rows project f db))"

definition semantic_candidates ::
  "ranking \<Rightarrow> uuid \<Rightarrow> string list \<Rightarrow> retrieval_filters \<Rightarrow> int \<Rightarrow> evidence_db \<Rightarrow> retrieval_error + hybrid_candidate list" where
  "semantic_candidates rk project v f lim db =
     bindE (mapE (\<lambda>(r, e). bindE (rk_distance rk e v) (\<lambda>x. Inr (r, x))) (embedded_rows project f db)) (\<lambda>rows.
       Inr (map (\<lambda>(i, (r, x)). (candidate_from_row r)\<lparr>hc_semantic_distance := Some x, hc_semantic_rank := Some i\<rparr>)
         (numbered (take (nat lim) (sort_key (\<lambda>((k, d), x). ((case x of None \<Rightarrow> (1 :: int, 0) | Some y \<Rightarrow> (0, y)), ck_ordinal k, ck_id k)) rows)))))"

section \<open>Fusion\<close>

text \<open>The number of binary digits.\<close>

fun bit_length :: "nat \<Rightarrow> nat" where
  "bit_length n = (if n = 0 then 0 else Suc (bit_length (n div 2)))"

declare bit_length.simps [simp del]

text \<open>Rounding to 53 significant bits, half to even, of the quotient \<open>a / b\<close>.\<close>

definition div_even :: "nat \<Rightarrow> nat \<Rightarrow> nat" where
  "div_even a b = (let q = a div b; r = a mod b in if 2 * r > b \<or> 2 * r = b \<and> odd q then Suc q else q)"

definition round53 :: "nat \<Rightarrow> nat \<Rightarrow> nat" where
  "round53 a b = (let u = 2 ^ (bit_length (a div b) - 53) in div_even a (b * u) * u)"

definition reciprocal :: "nat \<Rightarrow> nat" where
  "reciprocal rank = round53 (2 ^ 70) (RECIPROCAL_RANK_OFFSET + rank)"

definition reciprocal_rank_score :: "nat option \<Rightarrow> nat option \<Rightarrow> nat" where
  "reciprocal_rank_score lexical semantic = (case (lexical, semantic) of
     (None, None) \<Rightarrow> 0 | (Some r, None) \<Rightarrow> reciprocal r | (None, Some r) \<Rightarrow> reciprocal r
   | (Some r, Some s) \<Rightarrow> round53 (reciprocal r + reciprocal s) 1)"

text \<open>A dictionary entry: replaced in place by \<open>merge\<close>, or appended.\<close>

fun put_candidate :: "(hybrid_candidate \<Rightarrow> hybrid_candidate \<Rightarrow> hybrid_candidate) \<Rightarrow> hybrid_candidate list \<Rightarrow> hybrid_candidate \<Rightarrow> hybrid_candidate list" where
  "put_candidate merge [] c = [c]"
| "put_candidate merge (x # xs) c =
     (if hc_chunk_id x = hc_chunk_id c then merge x c # xs else x # put_candidate merge xs c)"

definition merge_semantic :: "hybrid_candidate \<Rightarrow> hybrid_candidate \<Rightarrow> hybrid_candidate" where
  "merge_semantic x c = x\<lparr>hc_semantic_distance := hc_semantic_distance c, hc_semantic_rank := hc_semantic_rank c\<rparr>"

definition merged :: "hybrid_candidate list \<Rightarrow> hybrid_candidate list \<Rightarrow> hybrid_candidate list" where
  "merged lexical semantic = foldl (put_candidate merge_semantic) (foldl (put_candidate (\<lambda>x c. c)) [] lexical) semantic"

definition scored :: "hybrid_candidate \<Rightarrow> hybrid_candidate" where
  "scored c = c\<lparr>hc_fusion_score := reciprocal_rank_score (hc_lexical_rank c) (hc_semantic_rank c)\<rparr>"

definition fusion_key :: "hybrid_candidate \<Rightarrow> int \<times> int \<times> string" where
  "fusion_key c = (- int (hc_fusion_score c), hc_ordinal c, uuid_str (hc_chunk_id c))"

definition fuse_candidates ::
  "hybrid_candidate list \<Rightarrow> hybrid_candidate list \<Rightarrow> int \<Rightarrow> hybrid_candidate list \<times> hybrid_candidate list" where
  "fuse_candidates lexical semantic result_limit =
     (let ordered = sort_key fusion_key (map scored (merged lexical semantic));
          selected = hc_chunk_id ` set (take (nat result_limit) ordered);
          traced = map (\<lambda>(i, c). c\<lparr>hc_rank := if hc_chunk_id c \<in> selected then Some i else None\<rparr>) (numbered ordered) in
      (traced, filter (\<lambda>c. hc_rank c \<noteq> None) traced))"

section \<open>The trace\<close>

record retrieval_env =
  re_up :: bool
  re_now :: instant
  re_ids :: "nat \<Rightarrow> uuid"

definition trace_of ::
  "retrieval_env \<Rightarrow> uuid \<Rightarrow> string \<Rightarrow> string list \<Rightarrow> retrieval_filters \<Rightarrow> int \<Rightarrow> int \<Rightarrow> retrieval_trace_row" where
  "trace_of env project query v f candidate_limit result_limit =
     \<lparr>tr_id = re_ids env 0, tr_project_id = project, tr_retrieval_version = HYBRID_RETRIEVAL_VERSION,
      tr_fusion_method = FUSION_METHOD, tr_query = query, tr_query_embedding = v,
      tr_embedding_model = hf_embedding_model f, tr_embedding_version = hf_embedding_version f,
      tr_document_version_ids = map_option (map uuid_str) (hf_document_version_ids f),
      tr_document_types = (case hf_document_types f of Some [] \<Rightarrow> None | ts \<Rightarrow> ts), tr_chunking_version = hf_chunking_version f,
      tr_candidate_limit = candidate_limit, tr_result_limit = result_limit, tr_created_at = re_now env\<rparr>"

definition trace_candidate_of :: "uuid \<Rightarrow> uuid \<Rightarrow> hybrid_candidate \<Rightarrow> trace_candidate_row" where
  "trace_candidate_of i trace c =
     \<lparr>tk_id = i, tk_retrieval_trace_id = trace, tk_document_chunk_id = hc_chunk_id c, tk_lexical_score = hc_lexical_score c,
      tk_lexical_rank = hc_lexical_rank c, tk_semantic_distance = hc_semantic_distance c, tk_semantic_rank = hc_semantic_rank c,
      tk_fusion_score = hc_fusion_score c, tk_final_rank = hc_rank c\<rparr>"

text \<open>\<open>session.add_all\<close>: the rows in order, the n-th with the identifier \<open>ids (n + 1)\<close>.\<close>

fun insert_candidates ::
  "(nat \<Rightarrow> uuid) \<Rightarrow> uuid \<Rightarrow> document_chunk_row list \<Rightarrow> nat \<Rightarrow> hybrid_candidate list \<Rightarrow> trace_candidate_row list
     \<Rightarrow> db_error + trace_candidate_row list" where
  "insert_candidates ids trace chunks n [] rows = Inr rows"
| "insert_candidates ids trace chunks n (c # cs) rows =
     bindE (insert_row (\<lambda>k. trace_candidate_checks k \<and> tk_document_chunk_id k \<in> ck_id ` set chunks) trace_candidate_conflict
       (trace_candidate_of (ids n) trace c) rows) (insert_candidates ids trace chunks (Suc n) cs)"

definition store_retrieve ::
  "ranking \<Rightarrow> retrieval_env \<Rightarrow> uuid \<Rightarrow> string \<Rightarrow> string list \<Rightarrow> retrieval_filters \<Rightarrow> int \<Rightarrow> int \<Rightarrow> evidence_db
     \<Rightarrow> (retrieval_error + (uuid \<times> hybrid_candidate list)) \<times> evidence_db" where
  "store_retrieve rk env project query v f candidate_limit result_limit db =
     (case validate_filters f of Inl e \<Rightarrow> (Inl e, db) | Inr _ \<Rightarrow>
      if \<not> re_up env then (Inl HybridRetrievalUnavailable, db)
      else case semantic_candidates rk project v f candidate_limit db of Inl e \<Rightarrow> (Inl HybridRetrievalUnavailable, db)
      | Inr semantic \<Rightarrow>
          (case fuse_candidates (lexical_candidates rk project query f candidate_limit db) semantic result_limit of (traced, selected) \<Rightarrow>
             (case bindE (insert_row (\<lambda>t. retrieval_trace_checks t \<and> tr_project_id t \<in> set (ed_projects db)) retrieval_trace_conflict
                  (trace_of env project query v f candidate_limit result_limit) (ed_traces db)) (\<lambda>traces.
                bindE (insert_candidates (re_ids env) (re_ids env 0) (ed_chunks db) 1 traced (ed_candidates db)) (\<lambda>candidates.
                  Inr (db\<lparr>ed_traces := traces, ed_candidates := candidates\<rparr>))) of
                Inl _ \<Rightarrow> (Inl HybridRetrievalUnavailable, db)
              | Inr db' \<Rightarrow> (Inr (re_ids env 0, selected), db'))))"

definition hybrid_retrieve ::
  "ranking \<Rightarrow> retrieval_env \<Rightarrow> uuid \<Rightarrow> string \<Rightarrow> string list \<Rightarrow> retrieval_filters \<Rightarrow> int \<Rightarrow> int \<Rightarrow> evidence_db
     \<Rightarrow> (retrieval_error + hybrid_response) \<times> evidence_db" where
  "hybrid_retrieve rk env project query v f candidate_limit result_limit db =
     (let q = normalize query in
      case bindE (require (q \<noteq> [] \<and> list_ex is_alnum q) (HybridValueError ''Hybrid query must contain searchable text'')) (\<lambda>_.
           bindE (validate_query_embedding v) (\<lambda>_.
           bindE (require (1 \<le> result_limit \<and> result_limit \<le> MAX_HYBRID_RESULT_LIMIT)
             (HybridValueError ''Hybrid result limit must be between 1 and 100'')) (\<lambda>_.
           bindE (require (result_limit \<le> candidate_limit \<and> candidate_limit \<le> MAX_HYBRID_RESULT_LIMIT)
             (HybridValueError ''Hybrid candidate limit must be at least the result limit and at most 100'')) (\<lambda>_.
             validate_filters f)))) of
        Inl e \<Rightarrow> (Inl e, db)
      | Inr _ \<Rightarrow>
          (case store_retrieve rk env project q v f candidate_limit result_limit db of
             (Inl e, db') \<Rightarrow> (Inl e, db')
           | (Inr (trace, candidates), db') \<Rightarrow>
               (Inr \<lparr>hr_retrieval_version = HYBRID_RETRIEVAL_VERSION, hr_fusion_method = FUSION_METHOD, hr_trace_id = trace,
                     hr_query = q, hr_project_id = project, hr_candidates = candidates\<rparr>, db')))"

end
