(* ===== verification/Retrieval_Correct.thy ===== *)
theory Retrieval_Correct
  imports Retrieval
begin

text \<open>
  What fusion and the trace establish: the traced candidates are the union of both lists, once each and in
  order; the selected ones are the first of them with consecutive ranks; all come from the requested project
  and pass the filters; and a stored trace holds exactly the traced candidates.
\<close>

section \<open>Fusion\<close>

definition same_id :: "(hybrid_candidate \<Rightarrow> hybrid_candidate \<Rightarrow> hybrid_candidate) \<Rightarrow> bool" where
  "same_id merge \<longleftrightarrow> (\<forall>x c. hc_chunk_id x = hc_chunk_id c \<longrightarrow> hc_chunk_id (merge x c) = hc_chunk_id c)"

lemma merges_same_id [simp]: "same_id merge_semantic" "same_id (\<lambda>x c. c)"
  by (auto simp: same_id_def merge_semantic_def)

lemma put_candidate_ids:
  assumes "same_id merge"
  shows "map hc_chunk_id (put_candidate merge xs c)
    = (if hc_chunk_id c \<in> hc_chunk_id ` set xs then map hc_chunk_id xs else map hc_chunk_id xs @ [hc_chunk_id c])"
  using assms by (induction xs) (auto simp: same_id_def)

lemma put_all_ids:
  assumes "same_id merge" "distinct (map hc_chunk_id xs)"
  shows "distinct (map hc_chunk_id (foldl (put_candidate merge) xs cs))
    \<and> hc_chunk_id ` set (foldl (put_candidate merge) xs cs) = hc_chunk_id ` set xs \<union> hc_chunk_id ` set cs"
  using assms(2)
proof (induction cs arbitrary: xs)
  case (Cons c cs)
  have m: "map hc_chunk_id (put_candidate merge xs c)
    = (if hc_chunk_id c \<in> hc_chunk_id ` set xs then map hc_chunk_id xs else map hc_chunk_id xs @ [hc_chunk_id c])"
    by (rule put_candidate_ids [OF assms(1)])
  then have s: "hc_chunk_id ` set (put_candidate merge xs c) = insert (hc_chunk_id c) (hc_chunk_id ` set xs)"
    by (metis (no_types, lifting) insert_absorb list.set_map Un_insert_right list.simps(15) set_append sup_bot_right empty_set)
  have "distinct (map hc_chunk_id (put_candidate merge xs c))" unfolding m using Cons.prems by auto
  from Cons.IH [OF this] s show ?case by auto
qed simp

lemma merged_ids:
  "distinct (map hc_chunk_id (merged lexical semantic))"
  "hc_chunk_id ` set (merged lexical semantic) = hc_chunk_id ` set lexical \<union> hc_chunk_id ` set semantic"
proof -
  let ?l = "foldl (put_candidate (\<lambda>x c. c)) [] lexical"
  have l: "distinct (map hc_chunk_id ?l)" "hc_chunk_id ` set ?l = hc_chunk_id ` set lexical"
    using put_all_ids [of "\<lambda>x c. c" "[]" lexical] by simp_all
  from put_all_ids [OF merges_same_id(1) l(1), of semantic] l(2)
  show "distinct (map hc_chunk_id (merged lexical semantic))"
    "hc_chunk_id ` set (merged lexical semantic) = hc_chunk_id ` set lexical \<union> hc_chunk_id ` set semantic"
    by (simp_all add: merged_def)
qed

lemma put_candidate_all:
  assumes "\<And>x c. P x \<Longrightarrow> P c \<Longrightarrow> P (merge x c)" "list_all P xs" "P c"
  shows "list_all P (put_candidate merge xs c)"
  using assms by (induction xs) auto

lemma put_all:
  assumes "\<And>x c. P x \<Longrightarrow> P c \<Longrightarrow> P (merge x c)" "list_all P xs" "list_all P cs"
  shows "list_all P (foldl (put_candidate merge) xs cs)"
  using assms(2,3)
proof (induction cs arbitrary: xs)
  case (Cons c cs)
  have "list_all P (put_candidate merge xs c)" using Cons.prems by (intro put_candidate_all) (use assms(1) in simp_all)
  with Cons show ?case by simp
qed simp

lemma merged_all:
  assumes "\<And>x c. P x \<Longrightarrow> P c \<Longrightarrow> P (merge_semantic x c)" "list_all P lexical" "list_all P semantic"
  shows "list_all P (merged lexical semantic)"
  unfolding merged_def by (intro put_all [where merge = merge_semantic] put_all [where merge = "\<lambda>x c. c"]) (use assms in simp_all)

lemma length_numbered [simp]: "length (numbered xs) = length xs"
  by (simp add: numbered_def del: upt_Suc)

lemma numbered_nth [simp]: "i < length xs \<Longrightarrow> numbered xs ! i = (Suc i, xs ! i)"
  by (simp add: numbered_def del: upt_Suc)

lemma distinct_map_sort: "distinct (map f (sort_key k xs)) = distinct (map f xs)"
  by (simp add: distinct_map)

text \<open>The ordered candidates and their ranks.\<close>

definition fused :: "hybrid_candidate list \<Rightarrow> hybrid_candidate list \<Rightarrow> hybrid_candidate list" where
  "fused lexical semantic = sort_key fusion_key (map scored (merged lexical semantic))"

definition ranked :: "nat \<Rightarrow> hybrid_candidate list \<Rightarrow> hybrid_candidate list" where
  "ranked n cs = map (\<lambda>(i, c). c\<lparr>hc_rank := if i \<le> n then Some i else None\<rparr>) (numbered cs)"

lemma ranked_nth: "i < length cs \<Longrightarrow> ranked n cs ! i = (cs ! i)\<lparr>hc_rank := if Suc i \<le> n then Some (Suc i) else None\<rparr>"
  by (simp add: ranked_def)

lemma length_ranked [simp]: "length (ranked n cs) = length cs"
  by (simp add: ranked_def)

lemma ranked_id: "map hc_chunk_id (ranked n cs) = map hc_chunk_id cs"
  by (rule nth_equalityI) (simp_all add: ranked_nth)

lemma fusion_key_rank [simp]: "fusion_key (c\<lparr>hc_rank := r\<rparr>) = fusion_key c"
  by (simp add: fusion_key_def)

lemma ranked_key: "map fusion_key (ranked n cs) = map fusion_key cs"
  by (rule nth_equalityI) (simp_all add: ranked_nth)

lemma ranked_selected: "filter (\<lambda>c. hc_rank c \<noteq> None) (ranked n cs) = take n (ranked n cs)"
proof -
  have "filter (\<lambda>c. hc_rank c \<noteq> None) (take n (ranked n cs)) = take n (ranked n cs)"
    by (auto simp: filter_id_conv in_set_conv_nth ranked_nth)
  moreover have "filter (\<lambda>c. hc_rank c \<noteq> None) (drop n (ranked n cs)) = []"
    by (auto simp: filter_empty_conv in_set_conv_nth ranked_nth)
  ultimately show ?thesis by (metis append_Nil2 append_take_drop_id filter_append)
qed

lemma selected_iff:
  assumes "distinct (map f cs)" "i < length cs"
  shows "f (cs ! i) \<in> f ` set (take n cs) \<longleftrightarrow> i < n"
proof
  assume "f (cs ! i) \<in> f ` set (take n cs)"
  then obtain j where "j < n" "j < length cs" "f (cs ! j) = f (cs ! i)" by (auto simp: in_set_conv_nth)
  with assms nth_eq_iff_index_eq [OF assms(1), of i j] show "i < n" by simp
next
  assume "i < n"
  then have "cs ! i \<in> set (take n cs)" using assms(2) by (auto simp: in_set_conv_nth)
  then show "f (cs ! i) \<in> f ` set (take n cs)" by blast
qed

lemma fused_ids:
  "distinct (map hc_chunk_id (fused lexical semantic))"
  "hc_chunk_id ` set (fused lexical semantic) = hc_chunk_id ` set lexical \<union> hc_chunk_id ` set semantic"
proof -
  have s: "map hc_chunk_id (map scored cs) = map hc_chunk_id cs" for cs by (simp add: scored_def)
  have "distinct (map hc_chunk_id (map scored (merged lexical semantic)))" unfolding s by (rule merged_ids(1))
  then show "distinct (map hc_chunk_id (fused lexical semantic))"
    unfolding fused_def distinct_map_sort .
  show "hc_chunk_id ` set (fused lexical semantic) = hc_chunk_id ` set lexical \<union> hc_chunk_id ` set semantic"
    using merged_ids(2) [of lexical semantic] by (simp add: fused_def image_image scored_def)
qed

lemma fuse_candidates_ranked:
  "fuse_candidates lexical semantic n = (ranked (nat n) (fused lexical semantic), take (nat n) (ranked (nat n) (fused lexical semantic)))"
proof -
  let ?o = "fused lexical semantic"
  have "map (\<lambda>(i, c). c\<lparr>hc_rank := if hc_chunk_id c \<in> hc_chunk_id ` set (take (nat n) ?o) then Some i else None\<rparr>) (numbered ?o)
      = ranked (nat n) ?o"
    by (rule nth_equalityI)
      (simp_all add: ranked_nth selected_iff [OF fused_ids(1)] Suc_le_eq)
  then show ?thesis by (simp only: fuse_candidates_def Let_def fused_def [symmetric] ranked_selected)
qed

section \<open>Scope\<close>

text \<open>A candidate of a project that passes the filters.\<close>

definition in_scope :: "uuid \<Rightarrow> retrieval_filters \<Rightarrow> evidence_db \<Rightarrow> hybrid_candidate \<Rightarrow> bool" where
  "in_scope project f db c \<longleftrightarrow> (\<exists>k \<in> set (ed_chunks db). \<exists>v \<in> set (ed_versions db). \<exists>d \<in> set (ed_documents db).
     ck_document_version_id k = dv_id v \<and> dv_document_id v = dr_id d \<and> dr_project_id d = project \<and> passes_filters f k d
     \<and> hc_chunk_id c = ck_id k \<and> hc_project_id c = project \<and> hc_document_version_id c = ck_document_version_id k
     \<and> hc_source_location_id c = ck_source_location_id k \<and> hc_document_type c = dr_document_type d
     \<and> hc_chunking_version c = ck_chunking_version k \<and> hc_ordinal c = ck_ordinal k \<and> hc_normalized_text c = ck_normalized_text k)"

lemma in_scope_update [simp]:
  "in_scope project f db (c\<lparr>hc_lexical_score := a, hc_lexical_rank := b\<rparr>) = in_scope project f db c"
  "in_scope project f db (c\<lparr>hc_semantic_distance := x, hc_semantic_rank := b\<rparr>) = in_scope project f db c"
  "in_scope project f db (c\<lparr>hc_rank := r\<rparr>) = in_scope project f db c"
  "in_scope project f db (scored c) = in_scope project f db c"
  "in_scope project f db (merge_semantic c y) = in_scope project f db c"
  by (simp_all add: in_scope_def scored_def merge_semantic_def)

lemma candidate_rows_scope: "r \<in> set (candidate_rows project f db) \<Longrightarrow> in_scope project f db (candidate_from_row r)"
  by (cases r) (fastforce simp: candidate_rows_def in_scope_def candidate_from_row_def split: if_splits)

lemma numbered_in: "(i, r) \<in> set (numbered xs) \<Longrightarrow> r \<in> set xs \<and> i \<ge> 1"
  by (auto simp: numbered_def dest: set_zip_rightD set_zip_leftD simp del: upt_Suc)

lemma lexical_scope: "list_all (in_scope project f db) (lexical_candidates rk project query f n db)"
  using candidate_rows_scope
  by (fastforce simp: lexical_candidates_def list_all_iff dest!: numbered_in in_set_takeD)

lemma mapE_in: "mapE f xs = Inr ys \<Longrightarrow> y \<in> set ys \<Longrightarrow> \<exists>x \<in> set xs. f x = Inr y"
  by (induction xs arbitrary: ys) (auto simp: bindE_eq_Inr)

lemma semantic_scope:
  assumes "semantic_candidates rk project v f n db = Inr cs"
  shows "list_all (in_scope project f db) cs"
proof -
  obtain rows where rows: "mapE (\<lambda>(r, e). bindE (rk_distance rk e v) (\<lambda>x. Inr (r, x))) (embedded_rows project f db) = Inr rows"
    and cs: "cs = map (\<lambda>(i, (r, x)). (candidate_from_row r)\<lparr>hc_semantic_distance := Some x, hc_semantic_rank := Some i\<rparr>)
         (numbered (take (nat n) (sort_key (\<lambda>((k, d), x). ((case x of None \<Rightarrow> (1 :: int, 0) | Some y \<Rightarrow> (0, y)), ck_ordinal k, ck_id k)) rows)))"
    using assms by (auto simp: semantic_candidates_def bindE_eq_Inr)
  have "in_scope project f db (candidate_from_row r)" if m: "(r, x) \<in> set rows" for r x
  proof -
    obtain p where p: "p \<in> set (embedded_rows project f db)"
      "(case p of (r, e) \<Rightarrow> bindE (rk_distance rk e v) (\<lambda>x. Inr (r, x))) = Inr (r, x)"
      using mapE_in [OF rows m] by blast
    then have "fst p = r" by (auto simp: bindE_eq_Inr split: prod.splits)
    with p(1) have "r \<in> set (candidate_rows project f db)" by (auto simp: embedded_rows_def split: if_splits)
    then show ?thesis by (rule candidate_rows_scope)
  qed
  note rows_scope = this
  show ?thesis unfolding list_all_iff
  proof
    fix c assume "c \<in> set cs"
    then obtain i r x where c: "c = (candidate_from_row r)\<lparr>hc_semantic_distance := Some x, hc_semantic_rank := Some i\<rparr>"
      and m: "(i, (r, x)) \<in> set (numbered (take (nat n)
        (sort_key (\<lambda>((k, d), x). ((case x of None \<Rightarrow> (1 :: int, 0) | Some y \<Rightarrow> (0, y)), ck_ordinal k, ck_id k)) rows)))"
      by (auto simp: cs)
    have "(r, x) \<in> set rows" using in_set_takeD [OF numbered_in [OF m, THEN conjunct1]] by simp
    then show "in_scope project f db c" using rows_scope by (simp add: c)
  qed
qed

lemma fused_scope:
  assumes "list_all (in_scope project f db) lexical" "list_all (in_scope project f db) semantic"
  shows "list_all (in_scope project f db) (ranked n (fused lexical semantic))"
proof -
  have "list_all (in_scope project f db) (merged lexical semantic)" by (rule merged_all) (use assms in simp_all)
  then have "list_all (in_scope project f db) (fused lexical semantic)" by (simp add: fused_def list_all_iff)
  then show ?thesis by (simp add: list_all_length ranked_nth)
qed

end
