(* ===== verification/Citations.thy ===== *)
theory Citations
  imports Retrieval_Correct
begin

text \<open>
  Citations (\<open>citations.py\<close>) and their linkage to a retrieval (\<open>retrieval_citation_linkage.py\<close>): a citation is
  created only from a selected candidate of a trace of its project and read only through the join with the
  chunk, version, document and location it names.  The creation of a batch is one transaction.
\<close>

section \<open>Data\<close>

datatype citation_error =
    CitationUnavailable
  | CitationValidationError string
  | CitationKeyError uuid

record source_location =
  lo_id :: uuid
  lo_location_kind :: string
  lo_heading :: "string option"
  lo_line_start :: "int option"
  lo_line_end :: "int option"
  lo_page_start :: "int option"
  lo_page_end :: "int option"
  lo_json_pointer :: "string option"

record citation =
  ct_id :: uuid
  ct_project_id :: uuid
  ct_retrieval_trace_id :: uuid
  ct_document_chunk_id :: uuid
  ct_document_version_id :: uuid
  ct_source_location :: source_location
  ct_document_type :: string
  ct_display_name :: string
  ct_passage :: string
  ct_created_at :: instant

definition citation_conflict :: "citation_row \<Rightarrow> citation_row \<Rightarrow> bool" where
  "citation_conflict c d \<longleftrightarrow> cr_id c = cr_id d
     \<or> cr_retrieval_trace_id c = cr_retrieval_trace_id d \<and> cr_document_chunk_id c = cr_document_chunk_id d"

interpretation citation_table: table "\<lambda>c. True" citation_conflict
  by unfold_locales (auto simp: citation_conflict_def)

text \<open>The declared references of a citation.\<close>

definition citation_references :: "evidence_db \<Rightarrow> citation_row \<Rightarrow> bool" where
  "citation_references db c \<longleftrightarrow> cr_project_id c \<in> set (ed_projects db) \<and> cr_document_version_id c \<in> dv_id ` set (ed_versions db)
     \<and> cr_source_location_id c \<in> sl_id ` set (ed_locations db)
     \<and> (cr_retrieval_trace_id c, cr_document_chunk_id c) \<in> (\<lambda>k. (tk_retrieval_trace_id k, tk_document_chunk_id k)) ` set (ed_candidates db)"

section \<open>The two joins\<close>

text \<open>\<open>_selected_candidate_statement\<close>, with the conditions both methods add.\<close>

definition selected_chunk :: "evidence_db \<Rightarrow> uuid \<Rightarrow> uuid \<Rightarrow> document_chunk_row \<Rightarrow> trace_candidate_row \<Rightarrow> retrieval_trace_row
    \<Rightarrow> document_version_row \<Rightarrow> document_row \<Rightarrow> bool" where
  "selected_chunk db project trace k c t v d \<longleftrightarrow> tk_document_chunk_id c = ck_id k \<and> tk_retrieval_trace_id c = tr_id t
     \<and> ck_document_version_id k = dv_id v \<and> dv_document_id v = dr_id d \<and> tk_final_rank c \<noteq> None
     \<and> dr_project_id d = tr_project_id t \<and> tr_project_id t = project \<and> tk_retrieval_trace_id c = trace"

definition selected_rows :: "evidence_db \<Rightarrow> uuid \<Rightarrow> uuid \<Rightarrow> (uuid \<Rightarrow> bool) \<Rightarrow> document_chunk_row list" where
  "selected_rows db project trace wanted =
     concat (map (\<lambda>k. concat (map (\<lambda>c. concat (map (\<lambda>t. concat (map (\<lambda>v. concat (map (\<lambda>d.
       if selected_chunk db project trace k c t v d \<and> wanted (tk_document_chunk_id c) then [k] else [])
     (ed_documents db))) (ed_versions db))) (ed_traces db))) (ed_candidates db))) (ed_chunks db))"

definition citation_of :: "citation_row \<Rightarrow> document_chunk_row \<Rightarrow> document_row \<Rightarrow> source_location_row \<Rightarrow> citation" where
  "citation_of c k d l =
     \<lparr>ct_id = cr_id c, ct_project_id = cr_project_id c, ct_retrieval_trace_id = cr_retrieval_trace_id c,
      ct_document_chunk_id = cr_document_chunk_id c, ct_document_version_id = cr_document_version_id c,
      ct_source_location = \<lparr>lo_id = sl_id l, lo_location_kind = sl_location_kind l, lo_heading = sl_heading l,
        lo_line_start = sl_line_start l, lo_line_end = sl_line_end l, lo_page_start = sl_page_start l, lo_page_end = sl_page_end l,
        lo_json_pointer = sl_json_pointer l\<rparr>,
      ct_document_type = dr_document_type d, ct_display_name = dr_display_name d, ct_passage = ck_normalized_text k,
      ct_created_at = cr_created_at c\<rparr>"

definition cites :: "citation_row \<Rightarrow> document_chunk_row \<Rightarrow> document_version_row \<Rightarrow> document_row \<Rightarrow> source_location_row \<Rightarrow> bool" where
  "cites c k v d l \<longleftrightarrow> cr_document_chunk_id c = ck_id k \<and> cr_document_version_id c = dv_id v \<and> dv_document_id v = dr_id d
     \<and> cr_source_location_id c = sl_id l \<and> ck_document_version_id k = cr_document_version_id c
     \<and> ck_source_location_id k = cr_source_location_id c \<and> dr_project_id d = cr_project_id c"

definition citation_rows :: "evidence_db \<Rightarrow> (citation_row \<Rightarrow> bool) \<Rightarrow> citation list" where
  "citation_rows db p =
     concat (map (\<lambda>c. concat (map (\<lambda>k. concat (map (\<lambda>v. concat (map (\<lambda>d. concat (map (\<lambda>l.
       if p c \<and> cites c k v d l then [citation_of c k d l] else [])
     (ed_locations db))) (ed_documents db))) (ed_versions db))) (ed_chunks db))) (ed_citations db))"

section \<open>The repository\<close>

record citation_env =
  ze_up :: bool
  ze_now :: "nat \<Rightarrow> instant"
  ze_ids :: "nat \<Rightarrow> uuid"

definition new_citation :: "citation_env \<Rightarrow> nat \<Rightarrow> uuid \<Rightarrow> uuid \<Rightarrow> uuid \<Rightarrow> document_chunk_row \<Rightarrow> citation_row" where
  "new_citation env n project trace chunk k =
     \<lparr>cr_id = ze_ids env n, cr_project_id = project, cr_retrieval_trace_id = trace, cr_document_chunk_id = chunk,
      cr_document_version_id = ck_document_version_id k, cr_source_location_id = ck_source_location_id k,
      cr_created_at = ze_now env n\<rparr>"

definition insert_citation :: "citation_row \<Rightarrow> evidence_db \<Rightarrow> db_error + evidence_db" where
  "insert_citation c db = bindE (insert_row (citation_references db) citation_conflict c (ed_citations db)) (\<lambda>rows.
     Inr (db\<lparr>ed_citations := rows\<rparr>))"

text \<open>\<open>one_or_none()\<close> and \<open>one()\<close>; their failures are SQLAlchemy errors.\<close>

definition one_row :: "'r list \<Rightarrow> citation_error + 'r" where
  "one_row rs = (case rs of [r] \<Rightarrow> Inr r | _ \<Rightarrow> Inl CitationUnavailable)"

definition one_row_or_none :: "'r list \<Rightarrow> citation_error + 'r option" where
  "one_row_or_none rs = except (scalar_one_or_none rs) (\<lambda>_. CitationUnavailable)"

definition create_from_selected_candidate ::
  "citation_env \<Rightarrow> uuid \<Rightarrow> uuid \<Rightarrow> uuid \<Rightarrow> evidence_db \<Rightarrow> (citation_error + citation) \<times> evidence_db" where
  "create_from_selected_candidate env project trace chunk db =
     (if \<not> ze_up env then (Inl CitationUnavailable, db)
      else case one_row_or_none (citation_rows db (\<lambda>c. cr_project_id c = project \<and> cr_retrieval_trace_id c = trace
             \<and> cr_document_chunk_id c = chunk)) of
        Inl e \<Rightarrow> (Inl e, db)
      | Inr (Some c) \<Rightarrow> (Inr c, db)
      | Inr None \<Rightarrow>
          (case one_row_or_none (selected_rows db project trace (\<lambda>i. i = chunk)) of
             Inl e \<Rightarrow> (Inl e, db)
           | Inr None \<Rightarrow> (Inl (CitationValidationError ''Citation must reference a selected candidate in its project''), db)
           | Inr (Some k) \<Rightarrow>
               (case insert_citation (new_citation env 0 project trace chunk k) db of
                  Inl _ \<Rightarrow> (Inl CitationUnavailable, db)
                | Inr db' \<Rightarrow>
                    (case one_row (citation_rows db' (\<lambda>c. cr_id c = ze_ids env 0)) of
                       Inl e \<Rightarrow> (Inl e, db) | Inr c \<Rightarrow> (Inr c, db')))))"

text \<open>A dictionary built from rows in order: the last row of a key wins.\<close>

definition dict_by :: "('r \<Rightarrow> 'k) \<Rightarrow> 'r list \<Rightarrow> 'k \<rightharpoonup> 'r" where
  "dict_by key rows = map_of (rev (map (\<lambda>r. (key r, r)) rows))"

text \<open>The loop over the requested chunks: the rows to add for those without a citation.\<close>

fun missing_citations ::
  "citation_env \<Rightarrow> uuid \<Rightarrow> uuid \<Rightarrow> (uuid \<rightharpoonup> document_chunk_row) \<Rightarrow> (uuid \<rightharpoonup> citation) \<Rightarrow> nat \<Rightarrow> uuid list
     \<Rightarrow> citation_error + citation_row list" where
  "missing_citations env project trace selected existing n [] = Inr []"
| "missing_citations env project trace selected existing n (i # is) =
     (if existing i \<noteq> None then missing_citations env project trace selected existing n is
      else case selected i of None \<Rightarrow> Inl (CitationKeyError i)
      | Some k \<Rightarrow> bindE (missing_citations env project trace selected existing (Suc n) is) (\<lambda>cs.
          Inr (new_citation env n project trace i k # cs)))"

fun insert_citations :: "citation_row list \<Rightarrow> evidence_db \<Rightarrow> db_error + evidence_db" where
  "insert_citations [] db = Inr db"
| "insert_citations (c # cs) db = bindE (insert_citation c db) (insert_citations cs)"

definition look_up :: "(uuid \<rightharpoonup> citation) \<Rightarrow> uuid \<Rightarrow> citation_error + citation" where
  "look_up existing i = (case existing i of None \<Rightarrow> Inl (CitationKeyError i) | Some c \<Rightarrow> Inr c)"

definition create_batch_transaction ::
  "citation_env \<Rightarrow> uuid \<Rightarrow> uuid \<Rightarrow> uuid list \<Rightarrow> evidence_db \<Rightarrow> citation_error + (citation list \<times> evidence_db)" where
  "create_batch_transaction env project trace chunks db =
     (let rows = selected_rows db project trace (\<lambda>i. i \<in> set chunks); selected = dict_by ck_id rows in
      bindE (require (length (remdups (map ck_id rows)) = length chunks)
        (CitationValidationError ''Citation must reference selected candidates in its project'')) (\<lambda>_.
      let existing = dict_by ct_document_chunk_id (citation_rows db (\<lambda>c. cr_project_id c = project \<and> cr_retrieval_trace_id c = trace
            \<and> cr_document_chunk_id c \<in> set chunks)) in
      bindE (missing_citations env project trace selected existing 0 chunks) (\<lambda>created.
      bindE (except (insert_citations created db) (\<lambda>_. CitationUnavailable)) (\<lambda>db'.
      let known = (if created = [] then existing
            else existing ++ dict_by ct_document_chunk_id (citation_rows db' (\<lambda>c. cr_id c \<in> cr_id ` set created))) in
      bindE (mapE (look_up known) chunks) (\<lambda>cs. Inr (cs, db'))))))"

definition create_from_selected_candidates ::
  "citation_env \<Rightarrow> uuid \<Rightarrow> uuid \<Rightarrow> uuid list \<Rightarrow> evidence_db \<Rightarrow> (citation_error + citation list) \<times> evidence_db" where
  "create_from_selected_candidates env project trace chunks db =
     (if chunks = [] \<or> \<not> distinct chunks
      then (Inl (CitationValidationError ''Citation candidates must be a non-empty unique sequence''), db)
      else if \<not> ze_up env then (Inl CitationUnavailable, db)
      else case create_batch_transaction env project trace chunks db of
        Inl e \<Rightarrow> (Inl e, db) | Inr (cs, db') \<Rightarrow> (Inr cs, db'))"

definition get_citation :: "bool \<Rightarrow> uuid \<Rightarrow> uuid \<Rightarrow> evidence_db \<Rightarrow> citation_error + citation option" where
  "get_citation up project i db =
     (if \<not> up then Inl CitationUnavailable
      else one_row_or_none (citation_rows db (\<lambda>c. cr_id c = i \<and> cr_project_id c = project)))"

section \<open>Linkage\<close>

definition MAX_RETRIEVAL_QUERY_CHARACTERS :: nat where "MAX_RETRIEVAL_QUERY_CHARACTERS = 4000"

datatype linkage_error = RetrievalCitationUnavailable | LinkageRetrieval retrieval_error | LinkageCitation citation_error
  | LinkageIndexing indexing_error | LinkageValueError string

record linked_citation =
  lk_rank :: nat
  lk_candidate :: hybrid_candidate
  lk_citation :: citation

text \<open>\<open>_embed_query\<close>: one finite, non-empty vector.\<close>

definition embed_query ::
  "(string list \<Rightarrow> embedding_configuration \<Rightarrow> indexing_error + string list list) \<Rightarrow> embedding_configuration \<Rightarrow> string
     \<Rightarrow> indexing_error + string list" where
  "embed_query adapter eb query =
     bindE (adapter [query] eb) (\<lambda>vectors. case vectors of
       [v] \<Rightarrow> if v = [] \<or> \<not> list_all float_finite v
              then Inl (EmbeddingProtocolError ''Query embedding adapter must return finite non-empty vectors'') else Inr v
     | _ \<Rightarrow> Inl (EmbeddingProtocolError ''Query embedding adapter must return one vector''))"

definition link_citations :: "uuid \<Rightarrow> uuid \<Rightarrow> hybrid_candidate list \<Rightarrow> citation list \<Rightarrow> linkage_error + linked_citation list" where
  "link_citations project trace candidates citations =
     bindE (require (length citations = length candidates) RetrievalCitationUnavailable) (\<lambda>_.
     mapE (\<lambda>(k, c). case hc_rank k of None \<Rightarrow> Inl RetrievalCitationUnavailable
       | Some r \<Rightarrow> if ct_project_id c \<noteq> project \<or> ct_retrieval_trace_id c \<noteq> trace \<or> ct_document_chunk_id c \<noteq> hc_chunk_id k
           then Inl RetrievalCitationUnavailable else Inr \<lparr>lk_rank = r, lk_candidate = k, lk_citation = c\<rparr>)
       (zip candidates citations))"

definition retrieval_failure :: "retrieval_error \<Rightarrow> linkage_error" where
  "retrieval_failure e = (if e = HybridRetrievalUnavailable then RetrievalCitationUnavailable else LinkageRetrieval e)"

definition citation_failure :: "citation_error \<Rightarrow> linkage_error" where
  "citation_failure e = (if e = CitationUnavailable then RetrievalCitationUnavailable else LinkageCitation e)"

definition embedding_failure :: "indexing_error \<Rightarrow> linkage_error" where
  "embedding_failure e = (case e of EmbeddingProtocolError m \<Rightarrow> RetrievalCitationUnavailable | _ \<Rightarrow> LinkageIndexing e)"

definition retrieve_and_cite ::
  "ranking \<Rightarrow> retrieval_env \<Rightarrow> citation_env \<Rightarrow> (string list \<Rightarrow> embedding_configuration \<Rightarrow> indexing_error + string list list)
     \<Rightarrow> embedding_configuration \<Rightarrow> string \<Rightarrow> uuid \<Rightarrow> string \<Rightarrow> uuid list option \<Rightarrow> string list option \<Rightarrow> int \<Rightarrow> int \<Rightarrow> evidence_db
     \<Rightarrow> (linkage_error + (hybrid_response \<times> linked_citation list)) \<times> evidence_db" where
  "retrieve_and_cite rk renv cenv adapter eb chunking project query versions types candidate_limit result_limit db =
     (let q = normalize query;
          f = \<lparr>hf_embedding_model = eb_model eb, hf_embedding_version = eb_version eb, hf_document_version_ids = versions,
               hf_document_types = types, hf_chunking_version = Some chunking\<rparr> in
      if q = [] \<or> length q > MAX_RETRIEVAL_QUERY_CHARACTERS \<or> \<not> list_ex is_alnum q
      then (Inl (LinkageValueError ''Retrieval query must contain bounded searchable text''), db)
      else case embed_query adapter eb q of
        Inl e \<Rightarrow> (Inl (embedding_failure e), db)
      | Inr v \<Rightarrow>
          (case hybrid_retrieve rk renv project q v f candidate_limit result_limit db of
             (Inl e, db1) \<Rightarrow> (Inl (retrieval_failure e), db1)
           | (Inr response, db1) \<Rightarrow>
               if hr_project_id response \<noteq> project \<or> list_ex (\<lambda>c. hc_project_id c \<noteq> project) (hr_candidates response)
               then (Inl RetrievalCitationUnavailable, db1)
               else if hr_candidates response = [] then (Inr (response, []), db1)
               else if list_ex (\<lambda>c. hc_rank c = None \<or> hc_rank c = Some 0) (hr_candidates response)
               then (Inl RetrievalCitationUnavailable, db1)
               else (case create_from_selected_candidates cenv project (hr_trace_id response)
                       (map hc_chunk_id (hr_candidates response)) db1 of
                  (Inl e, db2) \<Rightarrow> (Inl (citation_failure e), db2)
                | (Inr citations, db2) \<Rightarrow>
                    (bindE (link_citations project (hr_trace_id response) (hr_candidates response) citations) (\<lambda>ls.
                       Inr (response, ls)), db2))))"

end
