(* ===== verification/Citations_Correct.thy ===== *)
theory Citations_Correct
  imports Citations
begin

text \<open>
  What citations establish: a citation read or created names a passage of its own project, a batch gives
  one citation per requested chunk in order, and the evidence a retrieval selected can always be cited.
\<close>

section \<open>The joins\<close>

lemma in_concat_map: "x \<in> set (concat (map f xs)) \<longleftrightarrow> (\<exists>y \<in> set xs. x \<in> set (f y))"
  by simp

lemma in_if_single: "x \<in> set (if b then [y] else []) \<longleftrightarrow> b \<and> x = y"
  by auto

lemma citation_rows_iff:
  "z \<in> set (citation_rows db p) \<longleftrightarrow> (\<exists>c \<in> set (ed_citations db). \<exists>k \<in> set (ed_chunks db). \<exists>v \<in> set (ed_versions db).
     \<exists>d \<in> set (ed_documents db). \<exists>l \<in> set (ed_locations db). p c \<and> cites c k v d l \<and> z = citation_of c k d l)"
  unfolding citation_rows_def in_concat_map in_if_single by (simp only: conj_assoc)

lemma citation_rows_mono: "set (citation_rows db p) \<subseteq> set (citation_rows (db\<lparr>ed_citations := ed_citations db @ cs\<rparr>) p)"
  by (simp add: citation_rows_def)

lemma selected_rows_iff:
  "k \<in> set (selected_rows db project trace wanted) \<longleftrightarrow> k \<in> set (ed_chunks db) \<and> wanted (ck_id k) \<and>
     (\<exists>c \<in> set (ed_candidates db). \<exists>t \<in> set (ed_traces db). \<exists>v \<in> set (ed_versions db). \<exists>d \<in> set (ed_documents db).
        selected_chunk db project trace k c t v d)"
proof -
  have "k \<in> set (selected_rows db project trace wanted) \<longleftrightarrow> (\<exists>k' \<in> set (ed_chunks db). \<exists>c \<in> set (ed_candidates db). \<exists>t \<in> set (ed_traces db).
      \<exists>v \<in> set (ed_versions db). \<exists>d \<in> set (ed_documents db). selected_chunk db project trace k' c t v d \<and> wanted (ck_id k') \<and> k = k')"
    unfolding selected_rows_def in_concat_map in_if_single selected_chunk_def by (simp only: conj_assoc cong: conj_cong)
  then show ?thesis by blast
qed

lemma citation_of_simps [simp]:
  "ct_id (citation_of c k d l) = cr_id c" "ct_project_id (citation_of c k d l) = cr_project_id c"
  "ct_retrieval_trace_id (citation_of c k d l) = cr_retrieval_trace_id c"
  "ct_document_chunk_id (citation_of c k d l) = cr_document_chunk_id c" "ct_passage (citation_of c k d l) = ck_normalized_text k"
  by (simp_all add: citation_of_def)

lemma dict_by_Some: "dict_by key rows i = Some r \<Longrightarrow> r \<in> set rows \<and> key r = i"
  unfolding dict_by_def by (drule map_of_SomeD) auto

lemma dict_by_None: "dict_by key rows i = None \<longleftrightarrow> i \<notin> key ` set rows"
  by (force simp: dict_by_def map_of_eq_None_iff)

text \<open>A citation of a project: it names a passage of a document of the project.\<close>

definition cited_in :: "evidence_db \<Rightarrow> uuid \<Rightarrow> citation \<Rightarrow> bool" where
  "cited_in db project z \<longleftrightarrow> ct_project_id z = project \<and> (\<exists>c \<in> set (ed_citations db). \<exists>k \<in> set (ed_chunks db).
     \<exists>v \<in> set (ed_versions db). \<exists>d \<in> set (ed_documents db). \<exists>l \<in> set (ed_locations db).
       cites c k v d l \<and> dr_project_id d = project \<and> z = citation_of c k d l)"

lemma citation_rows_cited:
  "z \<in> set (citation_rows db p) \<Longrightarrow> (\<And>c. p c \<Longrightarrow> c \<in> set (ed_citations db) \<Longrightarrow> cr_project_id c = project) \<Longrightarrow> cited_in db project z"
  unfolding citation_rows_iff cited_in_def by (fastforce simp: cites_def)

lemma get_citation_sound:
  "get_citation up project i db = Inr (Some z) \<Longrightarrow> cited_in db project z \<and> ct_id z = i"
proof -
  assume "get_citation up project i db = Inr (Some z)"
  then have "z \<in> set (citation_rows db (\<lambda>c. cr_id c = i \<and> cr_project_id c = project))"
    by (auto simp: get_citation_def one_row_or_none_def except_eq_Inr store_simps split: if_splits)
  moreover from this have "ct_id z = i" by (auto simp: citation_rows_iff)
  ultimately show ?thesis by (auto intro: citation_rows_cited)
qed

section \<open>The batch\<close>

lemma insert_citations_Inr:
  assumes "insert_citations cs db = Inr db'"
  shows "db' = db\<lparr>ed_citations := ed_citations db @ cs\<rparr>" "table_ok (\<lambda>c. True) citation_conflict (ed_citations db) \<Longrightarrow>
      table_ok (\<lambda>c. True) citation_conflict (ed_citations db')"
    "\<forall>c \<in> set cs. \<forall>r \<in> set (ed_citations db). \<not> citation_conflict c r"
proof -
  have "db' = db\<lparr>ed_citations := ed_citations db @ cs\<rparr> \<and> (table_ok (\<lambda>c. True) citation_conflict (ed_citations db) \<longrightarrow>
      table_ok (\<lambda>c. True) citation_conflict (ed_citations db')) \<and> (\<forall>c \<in> set cs. \<forall>r \<in> set (ed_citations db). \<not> citation_conflict c r)"
    using assms
  proof (induction cs arbitrary: db)
    case (Cons c cs)
    then obtain db1 where i: "insert_citation c db = Inr db1" "insert_citations cs db1 = Inr db'" by (auto simp: bindE_eq_Inr)
    from i(1) have d: "db1 = db\<lparr>ed_citations := ed_citations db @ [c]\<rparr>" "\<forall>r \<in> set (ed_citations db). \<not> citation_conflict c r"
      by (auto simp: insert_citation_def bindE_eq_Inr store_simps)
    then have "table_ok (\<lambda>c. True) citation_conflict (ed_citations db) \<longrightarrow> table_ok (\<lambda>c. True) citation_conflict (ed_citations db1)"
      using citation_table.insert_keeps [of "ed_citations db" c] by (auto simp: insert_row_def list_all_iff)
    with Cons.IH [OF i(2)] d show ?case by auto
  qed auto
  then show "db' = db\<lparr>ed_citations := ed_citations db @ cs\<rparr>" "table_ok (\<lambda>c. True) citation_conflict (ed_citations db) \<Longrightarrow>
      table_ok (\<lambda>c. True) citation_conflict (ed_citations db')"
    "\<forall>c \<in> set cs. \<forall>r \<in> set (ed_citations db). \<not> citation_conflict c r" by blast+
qed

text \<open>The rows to add, in the order of the chunks.\<close>

lemma missing_citations_spec:
  assumes "\<And>i. i \<in> set is \<Longrightarrow> existing i = None \<Longrightarrow> selected i \<noteq> None"
  shows "missing_citations env project trace selected existing n is
    = Inr (map (\<lambda>(m, i). new_citation env m project trace i (the (selected i)))
        (zip [n..<n + length (filter (\<lambda>i. existing i = None) is)] (filter (\<lambda>i. existing i = None) is)))"
  using assms
proof (induction "is" arbitrary: n)
  case (Cons i "is")
  have "missing_citations env project trace selected existing m is
    = Inr (map (\<lambda>(m, i). new_citation env m project trace i (the (selected i)))
        (zip [m..<m + length (filter (\<lambda>i. existing i = None) is)] (filter (\<lambda>i. existing i = None) is)))" for m
    using Cons by simp
  moreover have "selected i \<noteq> None" if "existing i = None" using Cons.prems [of i] that by simp
  ultimately show ?case by (cases "existing i") (auto simp: upt_conv_Cons simp del: upt_Suc)
qed simp

lemma missing_citations_rows:
  "missing_citations env project trace selected existing n is = Inr cs \<Longrightarrow> c \<in> set cs \<Longrightarrow>
   cr_project_id c = project \<and> cr_retrieval_trace_id c = trace \<and> cr_document_chunk_id c \<in> set is"
  by (induction "is" arbitrary: n cs) (auto simp: bindE_eq_Inr new_citation_def split: if_splits option.splits, blast+)

lemma create_batch_sound:
  assumes "create_batch_transaction env project trace chunks db = Inr (zs, db')"
  shows "map ct_document_chunk_id zs = chunks"
    "\<forall>z \<in> set zs. cited_in db' project z \<and> ct_retrieval_trace_id z = trace"
    "\<exists>cs. db' = db\<lparr>ed_citations := ed_citations db @ cs\<rparr>"
proof -
  let ?p = "\<lambda>c. cr_project_id c = project \<and> cr_retrieval_trace_id c = trace \<and> cr_document_chunk_id c \<in> set chunks"
  define selected where "selected = dict_by ck_id (selected_rows db project trace (\<lambda>i. i \<in> set chunks))"
  define existing where "existing = dict_by ct_document_chunk_id (citation_rows db ?p)"
  from assms obtain created known where c: "missing_citations env project trace selected existing 0 chunks = Inr created"
    "insert_citations created db = Inr db'" "mapE (look_up known) chunks = Inr zs"
    and known: "known = (if created = [] then existing
      else existing ++ dict_by ct_document_chunk_id (citation_rows db' (\<lambda>c. cr_id c \<in> cr_id ` set created)))"
    unfolding create_batch_transaction_def Let_def bindE_eq_Inr except_eq_Inr selected_def [symmetric] existing_def [symmetric]
    by auto
  note db' = insert_citations_Inr [OF c(2)]
  have old: "set (citation_rows db ?p) \<subseteq> set (citation_rows db' ?p)" unfolding db'(1) by (rule citation_rows_mono)
  have k: "ct_document_chunk_id z = i \<and> cited_in db' project z \<and> ct_retrieval_trace_id z = trace" if m: "known i = Some z" for i z
  proof -
    consider "existing i = Some z"
      | "dict_by ct_document_chunk_id (citation_rows db' (\<lambda>c. cr_id c \<in> cr_id ` set created)) i = Some z"
      using m by (auto simp: known map_add_Some_iff split: if_splits)
    then show ?thesis
    proof cases
      case 1
      then have "z \<in> set (citation_rows db' ?p)" "ct_document_chunk_id z = i" using old dict_by_Some [of _ _ i z] by (auto simp: existing_def)
      then show ?thesis using citation_rows_cited [of z db' ?p] by (auto simp: citation_rows_iff)
    next
      case 2
      then have z: "z \<in> set (citation_rows db' (\<lambda>c. cr_id c \<in> cr_id ` set created))" "ct_document_chunk_id z = i"
        using dict_by_Some by fastforce+
      have "c \<in> set created" if "c \<in> set (ed_citations db')" "cr_id c \<in> cr_id ` set created" for c
        using that db'(1,3) by (simp add: citation_conflict_def) (metis imageE)
      then have r: "cr_project_id c = project \<and> cr_retrieval_trace_id c = trace"
        if "c \<in> set (ed_citations db')" "cr_id c \<in> cr_id ` set created" for c
        using missing_citations_rows [OF c(1)] that by blast
      from z(1) have "ct_retrieval_trace_id z = trace" using r by (auto simp: citation_rows_iff)
      moreover have "cited_in db' project z" using citation_rows_cited [OF z(1)] r by blast
      ultimately show ?thesis using z(2) by simp
    qed
  qed
  have l: "list_all2 (\<lambda>i z. known i = Some z) chunks zs"
    using c(3) by (auto simp: mapE_eq_Inr look_up_def elim!: list_all2_mono split: option.splits)
  then show "map ct_document_chunk_id zs = chunks"
    by (induction rule: list_all2_induct) (use k in auto)
  from l show "\<forall>z \<in> set zs. cited_in db' project z \<and> ct_retrieval_trace_id z = trace"
    by (induction rule: list_all2_induct) (use k in auto)
  show "\<exists>cs. db' = db\<lparr>ed_citations := ed_citations db @ cs\<rparr>" using db'(1) by blast
qed

end
