(* ===== verification/Evidence.thy ===== *)
theory Evidence
  imports Citations_Correct
begin

text \<open>
  From retrieval to citation: the references the evidence tables keep, that a retrieval and a batch of
  citations keep them, and that the passages a retrieval selected can always be cited.
\<close>

section \<open>The invariant of the evidence tables\<close>

definition evidence_ok :: "evidence_db \<Rightarrow> bool" where
  "evidence_ok db \<longleftrightarrow>
     distinct (map ck_id (ed_chunks db)) \<and> distinct (map dv_id (ed_versions db)) \<and> distinct (map dr_id (ed_documents db))
     \<and> distinct (map sl_id (ed_locations db))
     \<and> list_all (\<lambda>k. ck_document_version_id k \<in> dv_id ` set (ed_versions db) \<and> ck_source_location_id k \<in> sl_id ` set (ed_locations db)) (ed_chunks db)
     \<and> list_all (\<lambda>v. dv_document_id v \<in> dr_id ` set (ed_documents db)) (ed_versions db)
     \<and> list_all (\<lambda>d. dr_project_id d \<in> set (ed_projects db)) (ed_documents db)
     \<and> table_ok retrieval_trace_checks retrieval_trace_conflict (ed_traces db)
     \<and> table_ok trace_candidate_checks trace_candidate_conflict (ed_candidates db)
     \<and> list_all (\<lambda>c. tk_document_chunk_id c \<in> ck_id ` set (ed_chunks db) \<and> tk_retrieval_trace_id c \<in> tr_id ` set (ed_traces db)) (ed_candidates db)
     \<and> table_ok (\<lambda>c. True) citation_conflict (ed_citations db)
     \<and> list_all (\<lambda>c. citation_references db c \<and> (\<exists>k \<in> set (ed_chunks db). \<exists>v \<in> set (ed_versions db). \<exists>d \<in> set (ed_documents db).
           \<exists>l \<in> set (ed_locations db). cites c k v d l)) (ed_citations db)"

text \<open>A selected chunk: a ranked candidate of a trace of the project, with its document in the project.\<close>

definition selectable :: "evidence_db \<Rightarrow> uuid \<Rightarrow> uuid \<Rightarrow> document_chunk_row \<Rightarrow> bool" where
  "selectable db project trace k \<longleftrightarrow> k \<in> set (ed_chunks db) \<and>
     (\<exists>c \<in> set (ed_candidates db). \<exists>t \<in> set (ed_traces db). \<exists>v \<in> set (ed_versions db). \<exists>d \<in> set (ed_documents db).
        selected_chunk db project trace k c t v d)"

lemma selectable_iff: "k \<in> set (selected_rows db project trace wanted) \<longleftrightarrow> selectable db project trace k \<and> wanted (ck_id k)"
  by (auto simp: selected_rows_iff selectable_def)

lemma key_unique: "distinct (map f xs) \<Longrightarrow> x \<in> set xs \<Longrightarrow> y \<in> set xs \<Longrightarrow> f x = f y \<Longrightarrow> x = y"
  by (auto simp: distinct_map inj_on_def)

lemma evidence_ok_keys:
  assumes "evidence_ok db"
  shows "k \<in> set (ed_chunks db) \<Longrightarrow> k' \<in> set (ed_chunks db) \<Longrightarrow> ck_id k = ck_id k' \<Longrightarrow> k = k'"
    "v \<in> set (ed_versions db) \<Longrightarrow> v' \<in> set (ed_versions db) \<Longrightarrow> dv_id v = dv_id v' \<Longrightarrow> v = v'"
    "d \<in> set (ed_documents db) \<Longrightarrow> d' \<in> set (ed_documents db) \<Longrightarrow> dr_id d = dr_id d' \<Longrightarrow> d = d'"
  using assms unfolding evidence_ok_def by (blast dest: key_unique)+

lemma new_citation_simps [simp]:
  "cr_id (new_citation env n project trace chunk k) = ze_ids env n" "cr_project_id (new_citation env n project trace chunk k) = project"
  "cr_retrieval_trace_id (new_citation env n project trace chunk k) = trace"
  "cr_document_chunk_id (new_citation env n project trace chunk k) = chunk"
  "cr_document_version_id (new_citation env n project trace chunk k) = ck_document_version_id k"
  "cr_source_location_id (new_citation env n project trace chunk k) = ck_source_location_id k"
  by (simp_all add: new_citation_def)

text \<open>A new citation of a selected chunk satisfies the declared references and is found by the join.\<close>

lemma new_citation_ok:
  assumes ok: "evidence_ok db" and s: "selectable db project trace k"
  shows "citation_references db (new_citation env n project trace (ck_id k) k)"
    "\<exists>v \<in> set (ed_versions db). \<exists>d \<in> set (ed_documents db). \<exists>l \<in> set (ed_locations db).
       cites (new_citation env n project trace (ck_id k) k) k v d l"
proof -
  from s obtain c t v d where m: "k \<in> set (ed_chunks db)" "c \<in> set (ed_candidates db)" "t \<in> set (ed_traces db)" "v \<in> set (ed_versions db)"
    "d \<in> set (ed_documents db)" "selected_chunk db project trace k c t v d" by (auto simp: selectable_def)
  from ok m(1) have "ck_source_location_id k \<in> sl_id ` set (ed_locations db)" by (auto simp: evidence_ok_def list_all_iff)
  then obtain l where l: "l \<in> set (ed_locations db)" "ck_source_location_id k = sl_id l" by blast
  from m(6) l(2) have "cites (new_citation env n project trace (ck_id k) k) k v d l"
    by (auto simp: cites_def selected_chunk_def)
  with m(4,5) l(1) show "\<exists>v \<in> set (ed_versions db). \<exists>d \<in> set (ed_documents db). \<exists>l \<in> set (ed_locations db).
       cites (new_citation env n project trace (ck_id k) k) k v d l" by blast
  have "dr_project_id d \<in> set (ed_projects db)" using ok m(5) by (auto simp: evidence_ok_def list_all_iff)
  moreover have "(trace, ck_id k) \<in> (\<lambda>k. (tk_retrieval_trace_id k, tk_document_chunk_id k)) ` set (ed_candidates db)"
    using m(2,6) by (auto simp: selected_chunk_def intro!: image_eqI [of _ _ c])
  ultimately show "citation_references db (new_citation env n project trace (ck_id k) k)"
    using m(4,6) l by (auto simp: citation_references_def selected_chunk_def)
qed

text \<open>A citation of a selected chunk belongs to the project of its trace.\<close>

lemma cited_project:
  assumes ok: "evidence_ok db" and s: "selectable db project trace k" and c: "c \<in> set (ed_citations db)" "cr_document_chunk_id c = ck_id k"
  shows "cr_project_id c = project" "\<exists>v \<in> set (ed_versions db). \<exists>d \<in> set (ed_documents db). \<exists>l \<in> set (ed_locations db). cites c k v d l"
proof -
  from ok c(1) obtain k' v d l where m: "k' \<in> set (ed_chunks db)" "v \<in> set (ed_versions db)" "d \<in> set (ed_documents db)"
    "l \<in> set (ed_locations db)" "cites c k' v d l" unfolding evidence_ok_def list_all_iff by blast
  from s obtain t x v' d' where n: "k \<in> set (ed_chunks db)" "v' \<in> set (ed_versions db)" "d' \<in> set (ed_documents db)"
    "selected_chunk db project trace k x t v' d'" by (auto simp: selectable_def)
  have "k' = k" using evidence_ok_keys(1) [OF ok m(1) n(1)] m(5) c(2) by (simp add: cites_def)
  moreover from this have "v = v'" using evidence_ok_keys(2) [OF ok m(2) n(2)] m(5) n(4) by (simp add: cites_def selected_chunk_def)
  moreover from this have "d = d'" using evidence_ok_keys(3) [OF ok m(3) n(3)] m(5) n(4) by (simp add: cites_def selected_chunk_def)
  ultimately show "cr_project_id c = project" "\<exists>v \<in> set (ed_versions db). \<exists>d \<in> set (ed_documents db). \<exists>l \<in> set (ed_locations db). cites c k v d l"
    using m n(4) by (auto simp: cites_def selected_chunk_def)
qed

section \<open>A batch of citations succeeds\<close>

lemma distinct_key: "distinct (map f (c # cs)) \<Longrightarrow> x \<in> set cs \<Longrightarrow> f x \<noteq> f c"
  by (metis distinct.simps(2) image_eqI list.set_map list.simps(9))

lemma insert_citations_succeeds:
  assumes "list_all (citation_references db) cs" "distinct (map cr_id cs)" "distinct (map (\<lambda>c. (cr_retrieval_trace_id c, cr_document_chunk_id c)) cs)"
    "\<forall>c \<in> set cs. \<forall>r \<in> set (ed_citations db). \<not> citation_conflict c r"
  shows "insert_citations cs db = Inr (db\<lparr>ed_citations := ed_citations db @ cs\<rparr>)"
  using assms
proof (induction cs arbitrary: db)
  case (Cons c cs)
  let ?db = "db\<lparr>ed_citations := ed_citations db @ [c]\<rparr>"
  have "insert_citation c db = Inr ?db" using Cons.prems by (simp add: insert_citation_def insert_row_def list_all_iff)
  moreover have "citation_references ?db = citation_references db" by (rule ext) (simp add: citation_references_def)
  moreover have "\<not> citation_conflict x c" if x: "x \<in> set cs" for x
  proof -
    have "cr_id x \<noteq> cr_id c" by (rule distinct_key [OF Cons.prems(2) x])
    moreover have "(cr_retrieval_trace_id x, cr_document_chunk_id x) \<noteq> (cr_retrieval_trace_id c, cr_document_chunk_id c)"
      by (rule distinct_key [OF Cons.prems(3) x])
    ultimately show ?thesis by (simp add: citation_conflict_def)
  qed
  ultimately show ?case using Cons.IH [of ?db] Cons.prems by simp
qed simp

lemma map_zip_fst: "map (\<lambda>(m, i). f m) (zip [0..<length ys] ys) = map f [0..<length ys]"
  by (rule nth_equalityI) simp_all

lemma map_zip_snd: "map (\<lambda>(m, i). f i) (zip [0..<length ys] ys) = map f ys"
  by (rule nth_equalityI) simp_all

text \<open>The rows a batch adds: one per missing chunk, in order.\<close>

definition added_citations :: "citation_env \<Rightarrow> uuid \<Rightarrow> uuid \<Rightarrow> (uuid \<Rightarrow> document_chunk_row) \<Rightarrow> uuid list \<Rightarrow> citation_row list" where
  "added_citations env project trace chunk is = map (\<lambda>(m, i). new_citation env m project trace i (chunk i)) (zip [0..<length is] is)"

lemma added_citations_maps:
  "map cr_id (added_citations env project trace chunk is) = map (ze_ids env) [0..<length is]"
  "map cr_document_chunk_id (added_citations env project trace chunk is) = is"
  "map (\<lambda>c. (cr_retrieval_trace_id c, cr_document_chunk_id c)) (added_citations env project trace chunk is) = map (Pair trace) is"
  using map_zip_fst [of "ze_ids env" "is"] map_zip_snd [of "\<lambda>i. i" "is"] map_zip_snd [of "Pair trace" "is"]
  by (simp_all add: added_citations_def case_prod_unfold comp_def)

lemma added_citations_in:
  "c \<in> set (added_citations env project trace chunk is) \<Longrightarrow>
   \<exists>m < length is. c = new_citation env m project trace (is ! m) (chunk (is ! m))"
  by (auto simp: added_citations_def set_zip in_set_conv_nth)

lemma added_citations_has: "i \<in> set is \<Longrightarrow> \<exists>m. new_citation env m project trace i (chunk i) \<in> set (added_citations env project trace chunk is)"
  by (auto simp: added_citations_def set_zip in_set_conv_nth image_iff)

lemma citation_rows_has:
  assumes "c \<in> set (ed_citations db)" "k \<in> set (ed_chunks db)" "p c"
    "\<exists>v \<in> set (ed_versions db). \<exists>d \<in> set (ed_documents db). \<exists>l \<in> set (ed_locations db). cites c k v d l"
  shows "cr_document_chunk_id c \<in> ct_document_chunk_id ` set (citation_rows db p)"
proof -
  from assms obtain v d l where "v \<in> set (ed_versions db)" "d \<in> set (ed_documents db)" "l \<in> set (ed_locations db)" "cites c k v d l" by blast
  then have "citation_of c k d l \<in> set (citation_rows db p)" unfolding citation_rows_iff using assms(1-3) by blast
  then show ?thesis by (intro image_eqI [of _ _ "citation_of c k d l"]) simp_all
qed

text \<open>The chunks of a batch, all selected in the trace.\<close>

definition all_selected :: "evidence_db \<Rightarrow> uuid \<Rightarrow> uuid \<Rightarrow> uuid list \<Rightarrow> bool" where
  "all_selected db project trace chunks \<longleftrightarrow> distinct chunks \<and> (\<forall>i \<in> set chunks. \<exists>k. ck_id k = i \<and> selectable db project trace k)"

definition selected_dict :: "evidence_db \<Rightarrow> uuid \<Rightarrow> uuid \<Rightarrow> uuid list \<Rightarrow> uuid \<rightharpoonup> document_chunk_row" where
  "selected_dict db project trace chunks = dict_by ck_id (selected_rows db project trace (\<lambda>i. i \<in> set chunks))"

definition cited_dict :: "evidence_db \<Rightarrow> uuid \<Rightarrow> uuid \<Rightarrow> uuid list \<Rightarrow> uuid \<rightharpoonup> citation" where
  "cited_dict db project trace chunks = dict_by ct_document_chunk_id (citation_rows db
     (\<lambda>c. cr_project_id c = project \<and> cr_retrieval_trace_id c = trace \<and> cr_document_chunk_id c \<in> set chunks))"

lemma selected_ids:
  assumes "all_selected db project trace chunks"
  shows "ck_id ` set (selected_rows db project trace (\<lambda>i. i \<in> set chunks)) = set chunks"
proof
  show "set chunks \<subseteq> ck_id ` set (selected_rows db project trace (\<lambda>i. i \<in> set chunks))"
  proof
    fix i assume i: "i \<in> set chunks"
    then obtain k where "ck_id k = i" "selectable db project trace k" using assms by (auto simp: all_selected_def)
    then show "i \<in> ck_id ` set (selected_rows db project trace (\<lambda>i. i \<in> set chunks))"
      using i by (intro image_eqI [of _ _ k]) (simp_all add: selectable_iff)
  qed
qed (auto simp: selectable_iff)

lemma selected_rows_all:
  assumes "all_selected db project trace chunks"
  shows "length (remdups (map ck_id (selected_rows db project trace (\<lambda>i. i \<in> set chunks)))) = length chunks"
  using selected_ids [OF assms] assms by (simp add: length_remdups_card_conv distinct_card all_selected_def)

lemma selected_dict_Some:
  assumes "all_selected db project trace chunks" "i \<in> set chunks"
  shows "\<exists>k. selected_dict db project trace chunks i = Some k \<and> ck_id k = i \<and> selectable db project trace k"
proof -
  have "i \<in> ck_id ` set (selected_rows db project trace (\<lambda>i. i \<in> set chunks))" using assms(2) selected_ids [OF assms(1)] by simp
  then obtain k where k: "selected_dict db project trace chunks i = Some k"
    unfolding selected_dict_def using dict_by_None by (metis option.exhaust)
  from dict_by_Some [OF this [unfolded selected_dict_def]] this show ?thesis by (simp add: selectable_iff)
qed

lemma cited_dict_has:
  assumes ok: "evidence_ok db" and k: "selectable db project trace k" "ck_id k \<in> set chunks"
    and r: "r \<in> set (ed_citations db)" "cr_document_chunk_id r = ck_id k" "cr_retrieval_trace_id r = trace"
  shows "cited_dict db project trace chunks (ck_id k) \<noteq> None"
proof -
  let ?p = "\<lambda>c. cr_project_id c = project \<and> cr_retrieval_trace_id c = trace \<and> cr_document_chunk_id c \<in> set chunks"
  have "?p r" using cited_project(1) [OF ok k(1) r(1,2)] r k(2) by simp
  moreover have "k \<in> set (ed_chunks db)" using k(1) by (simp add: selectable_def)
  ultimately have "cr_document_chunk_id r \<in> ct_document_chunk_id ` set (citation_rows db ?p)"
    using citation_rows_has [OF r(1), of k ?p] cited_project(2) [OF ok k(1) r(1,2)] by blast
  then show ?thesis unfolding cited_dict_def dict_by_None r(2) by blast
qed

text \<open>The citations a batch adds.\<close>

definition batch_rows :: "citation_env \<Rightarrow> evidence_db \<Rightarrow> uuid \<Rightarrow> uuid \<Rightarrow> uuid list \<Rightarrow> citation_row list" where
  "batch_rows env db project trace chunks = added_citations env project trace (\<lambda>i. the (selected_dict db project trace chunks i))
     (filter (\<lambda>i. cited_dict db project trace chunks i = None) chunks)"

lemma batch_rows_in:
  assumes s: "all_selected db project trace chunks" and c: "c \<in> set (batch_rows env db project trace chunks)"
  shows "\<exists>n k. n < length chunks \<and> ck_id k \<in> set chunks \<and> cited_dict db project trace chunks (ck_id k) = None
    \<and> selectable db project trace k \<and> c = new_citation env n project trace (ck_id k) k"
proof -
  let ?new = "filter (\<lambda>i. cited_dict db project trace chunks i = None) chunks"
  obtain n where n: "n < length ?new" "c = new_citation env n project trace (?new ! n) (the (selected_dict db project trace chunks (?new ! n)))"
    using added_citations_in [OF c [unfolded batch_rows_def]] by blast
  have new: "?new ! n \<in> set ?new" using n(1) by (rule nth_mem)
  then have i: "?new ! n \<in> set chunks" "cited_dict db project trace chunks (?new ! n) = None" by simp_all
  obtain k where k: "selected_dict db project trace chunks (?new ! n) = Some k" "ck_id k = ?new ! n" "selectable db project trace k"
    using selected_dict_Some [OF s i(1)] by blast
  have "n < length chunks" using n(1) length_filter_le [of "\<lambda>i. cited_dict db project trace chunks i = None" chunks] by linarith
  then show ?thesis using n(2) i k by (intro exI [of _ n] exI [of _ k]) simp
qed

lemma batch_rows_insert:
  assumes ok: "evidence_ok db" and s: "all_selected db project trace chunks"
    and ids: "inj_on (ze_ids env) {..<length chunks}" "\<forall>n < length chunks. ze_ids env n \<notin> cr_id ` set (ed_citations db)"
  shows "insert_citations (batch_rows env db project trace chunks) db
    = Inr (db\<lparr>ed_citations := ed_citations db @ batch_rows env db project trace chunks\<rparr>)"
proof (rule insert_citations_succeeds)
  let ?new = "filter (\<lambda>i. cited_dict db project trace chunks i = None) chunks"
  show "list_all (citation_references db) (batch_rows env db project trace chunks)"
    unfolding list_all_iff using batch_rows_in [OF s] new_citation_ok(1) [OF ok] by blast
  have "inj_on (ze_ids env) (set [0..<length ?new])"
    using ids(1) by (rule inj_on_subset) (auto intro: less_le_trans [OF _ length_filter_le])
  then show "distinct (map cr_id (batch_rows env db project trace chunks))"
    by (simp add: batch_rows_def added_citations_maps distinct_map)
  show "distinct (map (\<lambda>c. (cr_retrieval_trace_id c, cr_document_chunk_id c)) (batch_rows env db project trace chunks))"
    using s by (simp add: batch_rows_def added_citations_maps distinct_map inj_on_def all_selected_def)
  show "\<forall>c \<in> set (batch_rows env db project trace chunks). \<forall>r \<in> set (ed_citations db). \<not> citation_conflict c r"
  proof (intro ballI)
    fix c r assume c: "c \<in> set (batch_rows env db project trace chunks)" and r: "r \<in> set (ed_citations db)"
    obtain n k where n: "n < length chunks" "ck_id k \<in> set chunks" "cited_dict db project trace chunks (ck_id k) = None"
      "selectable db project trace k" "c = new_citation env n project trace (ck_id k) k" using batch_rows_in [OF s c] by blast
    have "ze_ids env n \<noteq> cr_id r" using ids(2) n(1) r by (metis image_eqI)
    moreover have "cr_document_chunk_id r = ck_id k \<Longrightarrow> cr_retrieval_trace_id r \<noteq> trace"
      using cited_dict_has [OF ok n(4,2) r] n(3) by blast
    ultimately show "\<not> citation_conflict c r" by (auto simp: n(5) citation_conflict_def)
  qed
qed

text \<open>A row just inserted is found again.\<close>

lemma batch_rows_found:
  assumes ok: "evidence_ok db" and s: "all_selected db project trace chunks"
    and i: "i \<in> set chunks" "cited_dict db project trace chunks i = None"
    and db': "db' = db\<lparr>ed_citations := ed_citations db @ batch_rows env db project trace chunks\<rparr>"
  shows "batch_rows env db project trace chunks \<noteq> []"
    "dict_by ct_document_chunk_id (citation_rows db' (\<lambda>c. cr_id c \<in> cr_id ` set (batch_rows env db project trace chunks))) i \<noteq> None"
proof -
  let ?rows = "batch_rows env db project trace chunks"
  have "i \<in> set (filter (\<lambda>i. cited_dict db project trace chunks i = None) chunks)" using i by simp
  from added_citations_has [OF this, of env project trace "\<lambda>i. the (selected_dict db project trace chunks i)"] obtain n where
    n: "new_citation env n project trace i (the (selected_dict db project trace chunks i)) \<in> set ?rows" unfolding batch_rows_def by blast
  then show "?rows \<noteq> []" by force
  obtain k where k: "selected_dict db project trace chunks i = Some k" "ck_id k = i" "selectable db project trace k"
    using selected_dict_Some [OF s i(1)] by blast
  let ?c = "new_citation env n project trace i k"
  have c: "?c \<in> set ?rows" using n k(1) by simp
  have "?c \<in> set (ed_citations db')" "k \<in> set (ed_chunks db')" using c k(3) by (simp_all add: db' selectable_def)
  moreover have "cr_id ?c \<in> cr_id ` set ?rows" using c by (rule imageI)
  moreover have "\<exists>v \<in> set (ed_versions db'). \<exists>d \<in> set (ed_documents db'). \<exists>l \<in> set (ed_locations db'). cites ?c k v d l"
    using new_citation_ok(2) [OF ok k(3), of env n] k(2) by (simp add: db')
  ultimately have "i \<in> ct_document_chunk_id ` set (citation_rows db' (\<lambda>c. cr_id c \<in> cr_id ` set ?rows))"
    using citation_rows_has [of ?c db' k "\<lambda>c. cr_id c \<in> cr_id ` set ?rows"] by (simp only: new_citation_simps)
  then show "dict_by ct_document_chunk_id (citation_rows db' (\<lambda>c. cr_id c \<in> cr_id ` set ?rows)) i \<noteq> None"
    using dict_by_None by metis
qed

lemma create_batch_succeeds:
  assumes ok: "evidence_ok db" and s: "all_selected db project trace chunks"
    and ids: "inj_on (ze_ids env) {..<length chunks}" "\<forall>n < length chunks. ze_ids env n \<notin> cr_id ` set (ed_citations db)"
  shows "\<exists>zs. create_batch_transaction env project trace chunks db
    = Inr (zs, db\<lparr>ed_citations := ed_citations db @ batch_rows env db project trace chunks\<rparr>)"
proof -
  let ?rows = "batch_rows env db project trace chunks"
  define db' where "db' = db\<lparr>ed_citations := ed_citations db @ ?rows\<rparr>"
  have m: "missing_citations env project trace (selected_dict db project trace chunks) (cited_dict db project trace chunks) 0 chunks = Inr ?rows"
    using missing_citations_spec [of chunks "cited_dict db project trace chunks" "selected_dict db project trace chunks" env project trace 0]
      selected_dict_Some [OF s] by (fastforce simp: batch_rows_def added_citations_def)
  define known where "known = (if ?rows = [] then cited_dict db project trace chunks
      else cited_dict db project trace chunks ++ dict_by ct_document_chunk_id (citation_rows db' (\<lambda>c. cr_id c \<in> cr_id ` set ?rows)))"
  have "known i \<noteq> None" if i: "i \<in> set chunks" for i
  proof (cases "cited_dict db project trace chunks i = None")
    case True
    from batch_rows_found [OF ok s i True db'_def] show ?thesis by (simp add: known_def map_add_None)
  qed (auto simp: known_def map_add_def split: option.splits)
  then have "\<exists>zs. mapE (look_up known) chunks = Inr zs"
    by (induction chunks) (auto simp: look_up_def bindE_eq_Inr split: option.splits)
  then obtain zs where zs: "mapE (look_up known) chunks = Inr zs" by blast
  have "create_batch_transaction env project trace chunks db = Inr (zs, db')"
    unfolding create_batch_transaction_def Let_def selected_rows_all [OF s] selected_dict_def [symmetric] cited_dict_def [symmetric] m
    using batch_rows_insert [OF ok s ids] zs by (simp add: known_def [symmetric] db'_def [symmetric])
  then show ?thesis unfolding db'_def by blast
qed

section \<open>What a stored retrieval is\<close>

lemma insert_candidates_Inr:
  assumes "insert_candidates ids trace chunks n cs rows = Inr rows'"
  shows "rows' = rows @ map (\<lambda>(i, c). trace_candidate_of (ids i) trace c) (zip [n..<n + length cs] cs)
    \<and> (table_ok trace_candidate_checks trace_candidate_conflict rows \<longrightarrow> table_ok trace_candidate_checks trace_candidate_conflict rows')
    \<and> (\<forall>c \<in> set cs. hc_chunk_id c \<in> ck_id ` set chunks)"
  using assms
proof (induction cs arbitrary: n rows)
  case (Cons c cs)
  let ?r = "trace_candidate_of (ids n) trace c"
  from Cons.prems obtain rows1 where i: "insert_row (\<lambda>k. trace_candidate_checks k \<and> tk_document_chunk_id k \<in> ck_id ` set chunks)
      trace_candidate_conflict ?r rows = Inr rows1" "insert_candidates ids trace chunks (Suc n) cs rows1 = Inr rows'"
    by (auto simp: bindE_eq_Inr)
  from i(1) have r: "rows1 = rows @ [?r]" "hc_chunk_id c \<in> ck_id ` set chunks" "insert_row trace_candidate_checks trace_candidate_conflict ?r rows = Inr rows1"
    by (auto simp: store_simps trace_candidate_of_def)
  from r(3) have "table_ok trace_candidate_checks trace_candidate_conflict rows \<longrightarrow> table_ok trace_candidate_checks trace_candidate_conflict rows1"
    using trace_candidates.insert_keeps by blast
  moreover have "zip [n..<n + length (c # cs)] (c # cs) = (n, c) # zip [Suc n..<Suc n + length cs] cs"
    by (simp add: upt_conv_Cons del: upt_Suc)
  ultimately show ?case using Cons.IH [OF i(2)] r(1,2) by (auto simp del: upt_Suc)
qed simp

text \<open>The candidates a retrieval traces, in fusion order.\<close>

definition traced_candidates ::
  "ranking \<Rightarrow> uuid \<Rightarrow> string \<Rightarrow> retrieval_filters \<Rightarrow> int \<Rightarrow> int \<Rightarrow> evidence_db \<Rightarrow> hybrid_candidate list \<Rightarrow> hybrid_candidate list" where
  "traced_candidates rk project query f candidate_limit result_limit db semantic =
     ranked (nat result_limit) (fused (lexical_candidates rk project (normalize query) f candidate_limit db) semantic)"

lemma hybrid_retrieve_Inr:
  assumes "hybrid_retrieve rk env project q v f cl rl db = (Inr response, db1)"
  obtains semantic cs where "semantic_candidates rk project v f cl db = Inr semantic" "cs = traced_candidates rk project q f cl rl db semantic"
    "1 \<le> rl" "rl \<le> MAX_HYBRID_RESULT_LIMIT"
    "response = \<lparr>hr_retrieval_version = HYBRID_RETRIEVAL_VERSION, hr_fusion_method = FUSION_METHOD, hr_trace_id = re_ids env 0,
       hr_query = normalize q, hr_project_id = project, hr_candidates = take (nat rl) cs\<rparr>"
    "db1 = db\<lparr>ed_traces := ed_traces db @ [trace_of env project (normalize q) v f cl rl],
       ed_candidates := ed_candidates db @ map (\<lambda>(i, c). trace_candidate_of (re_ids env i) (re_ids env 0) c) (zip [1..<1 + length cs] cs)\<rparr>"
    "insert_row (\<lambda>t. retrieval_trace_checks t \<and> tr_project_id t \<in> set (ed_projects db)) retrieval_trace_conflict
       (trace_of env project (normalize q) v f cl rl) (ed_traces db) = Inr (ed_traces db1)"
    "insert_candidates (re_ids env) (re_ids env 0) (ed_chunks db) 1 cs (ed_candidates db) = Inr (ed_candidates db1)"
proof -
  from assms have l: "1 \<le> rl" "rl \<le> MAX_HYBRID_RESULT_LIMIT"
    and s: "\<exists>trace cs. store_retrieve rk env project (normalize q) v f cl rl db = (Inr (trace, cs), db1)
      \<and> response = \<lparr>hr_retrieval_version = HYBRID_RETRIEVAL_VERSION, hr_fusion_method = FUSION_METHOD, hr_trace_id = trace,
         hr_query = normalize q, hr_project_id = project, hr_candidates = cs\<rparr>"
    by (auto simp: hybrid_retrieve_def Let_def bindE_eq_Inr require_eq_Inr split: sum.splits prod.splits)
  then obtain trace sel where st: "store_retrieve rk env project (normalize q) v f cl rl db = (Inr (trace, sel), db1)"
    and response: "response = \<lparr>hr_retrieval_version = HYBRID_RETRIEVAL_VERSION, hr_fusion_method = FUSION_METHOD, hr_trace_id = trace,
         hr_query = normalize q, hr_project_id = project, hr_candidates = sel\<rparr>" by blast
  from st obtain semantic where sem: "semantic_candidates rk project v f cl db = Inr semantic"
    unfolding store_retrieve_def by (auto split: sum.splits if_splits prod.splits)
  define cs where "cs = traced_candidates rk project q f cl rl db semantic"
  have f: "fuse_candidates (lexical_candidates rk project (normalize q) f cl db) semantic rl = (cs, take (nat rl) cs)"
    unfolding cs_def traced_candidates_def by (rule fuse_candidates_ranked)
  from st have r: "trace = re_ids env 0" "sel = take (nat rl) cs"
    "insert_row (\<lambda>t. retrieval_trace_checks t \<and> tr_project_id t \<in> set (ed_projects db)) retrieval_trace_conflict
       (trace_of env project (normalize q) v f cl rl) (ed_traces db) = Inr (ed_traces db1)"
    "insert_candidates (re_ids env) (re_ids env 0) (ed_chunks db) 1 cs (ed_candidates db) = Inr (ed_candidates db1)"
    "db1 = db\<lparr>ed_traces := ed_traces db1, ed_candidates := ed_candidates db1\<rparr>"
    by (auto simp: store_retrieve_def sem f bindE_eq_Inr split: sum.splits if_splits)
  have "ed_traces db1 = ed_traces db @ [trace_of env project (normalize q) v f cl rl]"
    using r(3) by (simp only: store_simps)
  moreover have "ed_candidates db1 = ed_candidates db @ map (\<lambda>(i, c). trace_candidate_of (re_ids env i) (re_ids env 0) c) (zip [1..<1 + length cs] cs)"
    using insert_candidates_Inr [OF r(4)] by blast
  ultimately have db1: "db1 = db\<lparr>ed_traces := ed_traces db @ [trace_of env project (normalize q) v f cl rl],
       ed_candidates := ed_candidates db @ map (\<lambda>(i, c). trace_candidate_of (re_ids env i) (re_ids env 0) c) (zip [1..<1 + length cs] cs)\<rparr>"
    using r(5) by simp
  show thesis by (rule that) (use sem cs_def l response r(1-4) db1 in simp_all)
qed

text \<open>Every traced candidate is in scope and has a row.\<close>

lemma traced_scope:
  assumes "semantic_candidates rk project v f cl db = Inr semantic"
  shows "list_all (in_scope project f db) (traced_candidates rk project q f cl rl db semantic)"
  unfolding traced_candidates_def by (rule fused_scope [OF lexical_scope semantic_scope [OF assms]])

lemma traced_ids: "distinct (map hc_chunk_id (traced_candidates rk project q f cl rl db semantic))"
  by (simp add: traced_candidates_def ranked_id fused_ids)

lemma traced_rank:
  "i < length (traced_candidates rk project q f cl rl db semantic) \<Longrightarrow>
   hc_rank (traced_candidates rk project q f cl rl db semantic ! i) = (if Suc i \<le> nat rl then Some (Suc i) else None)"
  by (simp add: traced_candidates_def ranked_nth)

lemma retrieval_keeps:
  assumes ok: "evidence_ok db" and r: "hybrid_retrieve rk env project q v f cl rl db = (Inr response, db1)"
  shows "evidence_ok db1"
proof -
  obtain semantic cs where cs: "semantic_candidates rk project v f cl db = Inr semantic" "cs = traced_candidates rk project q f cl rl db semantic"
    and db1: "db1 = db\<lparr>ed_traces := ed_traces db @ [trace_of env project (normalize q) v f cl rl],
       ed_candidates := ed_candidates db @ map (\<lambda>(i, c). trace_candidate_of (re_ids env i) (re_ids env 0) c) (zip [1..<1 + length cs] cs)\<rparr>"
    and t: "insert_row (\<lambda>t. retrieval_trace_checks t \<and> tr_project_id t \<in> set (ed_projects db)) retrieval_trace_conflict
       (trace_of env project (normalize q) v f cl rl) (ed_traces db) = Inr (ed_traces db1)"
    and k: "insert_candidates (re_ids env) (re_ids env 0) (ed_chunks db) 1 cs (ed_candidates db) = Inr (ed_candidates db1)"
    by (rule hybrid_retrieve_Inr [OF r]) blast
  have "insert_row retrieval_trace_checks retrieval_trace_conflict (trace_of env project (normalize q) v f cl rl) (ed_traces db) = Inr (ed_traces db1)"
    using t by (auto simp: store_simps)
  then have "table_ok retrieval_trace_checks retrieval_trace_conflict (ed_traces db1)"
    using ok retrieval_traces.insert_keeps by (auto simp: evidence_ok_def)
  moreover have "table_ok trace_candidate_checks trace_candidate_conflict (ed_candidates db1)"
    "\<forall>c \<in> set cs. hc_chunk_id c \<in> ck_id ` set (ed_chunks db)"
    using insert_candidates_Inr [OF k] ok by (auto simp: evidence_ok_def)
  moreover have "tr_id (trace_of env project (normalize q) v f cl rl) = re_ids env 0" by (simp add: trace_of_def)
  moreover have "citation_references db1 c" if "citation_references db c" for c
    using that by (auto simp: citation_references_def db1)
  ultimately show ?thesis using ok unfolding evidence_ok_def
    by (auto simp: db1 list_all_iff trace_candidate_of_def dest!: set_zip_rightD)
qed

lemma retrieval_selects:
  assumes r: "hybrid_retrieve rk env project q v f cl rl db = (Inr response, db1)"
  shows "all_selected db1 project (hr_trace_id response) (map hc_chunk_id (hr_candidates response))"
    "length (hr_candidates response) \<le> 100" "hr_project_id response = project"
    "i < length (hr_candidates response) \<Longrightarrow> hc_rank (hr_candidates response ! i) = Some (Suc i)"
    "list_all (in_scope project f db) (hr_candidates response)"
proof -
  obtain semantic cs where cs: "semantic_candidates rk project v f cl db = Inr semantic" "cs = traced_candidates rk project q f cl rl db semantic"
    and rl: "1 \<le> rl" "rl \<le> MAX_HYBRID_RESULT_LIMIT"
    and response: "response = \<lparr>hr_retrieval_version = HYBRID_RETRIEVAL_VERSION, hr_fusion_method = FUSION_METHOD, hr_trace_id = re_ids env 0,
       hr_query = normalize q, hr_project_id = project, hr_candidates = take (nat rl) cs\<rparr>"
    and db1: "db1 = db\<lparr>ed_traces := ed_traces db @ [trace_of env project (normalize q) v f cl rl],
       ed_candidates := ed_candidates db @ map (\<lambda>(i, c). trace_candidate_of (re_ids env i) (re_ids env 0) c) (zip [1..<1 + length cs] cs)\<rparr>"
    by (rule hybrid_retrieve_Inr [OF r]) blast
  have scope: "list_all (in_scope project f db) cs" unfolding cs(2) by (rule traced_scope [OF cs(1)])
  then show "list_all (in_scope project f db) (hr_candidates response)"
    by (auto simp: response list_all_iff dest: in_set_takeD)
  show "length (hr_candidates response) \<le> 100" "hr_project_id response = project"
    using rl by (simp_all add: response MAX_HYBRID_RESULT_LIMIT_def)
  show "i < length (hr_candidates response) \<Longrightarrow> hc_rank (hr_candidates response ! i) = Some (Suc i)"
    using traced_rank [of i rk project q f cl rl db semantic] by (simp add: response cs(2) Suc_le_eq)
  have "\<exists>k. ck_id k = hc_chunk_id (cs ! i) \<and> selectable db1 project (re_ids env 0) k" if i: "i < length cs" "i < nat rl" for i
  proof -
    have "in_scope project f db (cs ! i)" using scope i(1) by (simp add: list_all_length)
    then obtain k w d where k: "k \<in> set (ed_chunks db)" "w \<in> set (ed_versions db)" "d \<in> set (ed_documents db)"
      "ck_document_version_id k = dv_id w" "dv_document_id w = dr_id d" "dr_project_id d = project" "hc_chunk_id (cs ! i) = ck_id k"
      by (auto simp: in_scope_def)
    let ?c = "trace_candidate_of (re_ids env (Suc i)) (re_ids env 0) (cs ! i)"
    let ?t = "trace_of env project (normalize q) v f cl rl"
    have "(Suc i, cs ! i) \<in> set (numbered cs)" using nth_mem [of i "numbered cs"] i(1) by simp
    then have "(Suc i, cs ! i) \<in> set (zip [1..<1 + length cs] cs)" by (simp add: numbered_def del: upt_Suc)
    then have "?c \<in> (\<lambda>(i, c). trace_candidate_of (re_ids env i) (re_ids env 0) c) ` set (zip [1..<1 + length cs] cs)"
      by (rule rev_image_eqI) simp
    then have c: "?c \<in> set (ed_candidates db1)" by (simp add: db1 del: upt_Suc)
    have t: "?t \<in> set (ed_traces db1)" by (simp add: db1)
    have "selected_chunk db1 project (re_ids env 0) k ?c ?t w d"
      using k i traced_rank [of i rk project q f cl rl db semantic]
      by (simp add: selected_chunk_def trace_candidate_of_def trace_of_def cs(2))
    moreover have "k \<in> set (ed_chunks db1)" "w \<in> set (ed_versions db1)" "d \<in> set (ed_documents db1)" using k by (simp_all add: db1)
    ultimately show ?thesis using c t k(7) unfolding selectable_def by metis
  qed
  then show "all_selected db1 project (hr_trace_id response) (map hc_chunk_id (hr_candidates response))"
    using traced_ids [of rk project q f cl rl db semantic]
    by (auto simp: all_selected_def response cs(2) in_set_conv_nth take_map [symmetric])
qed

section \<open>The passages a retrieval selected can be cited\<close>

lemma batch_keeps:
  assumes ok: "evidence_ok db" and s: "all_selected db project trace chunks"
    and i: "insert_citations (batch_rows env db project trace chunks) db = Inr db'"
  shows "evidence_ok db'"
proof -
  note db' = insert_citations_Inr(1) [OF i]
  have "table_ok (\<lambda>c. True) citation_conflict (ed_citations db')" using insert_citations_Inr(2) [OF i] ok by (simp add: evidence_ok_def)
  moreover have "citation_references db' = citation_references db" by (rule ext) (simp add: citation_references_def db')
  moreover have "citation_references db c \<and> (\<exists>k \<in> set (ed_chunks db). \<exists>v \<in> set (ed_versions db). \<exists>d \<in> set (ed_documents db).
           \<exists>l \<in> set (ed_locations db). cites c k v d l)" if c: "c \<in> set (batch_rows env db project trace chunks)" for c
  proof -
    obtain n k where k: "selectable db project trace k" "c = new_citation env n project trace (ck_id k) k"
      using batch_rows_in [OF s c] by blast
    moreover have "k \<in> set (ed_chunks db)" using k(1) by (simp add: selectable_def)
    ultimately show ?thesis using new_citation_ok [OF ok k(1), of env n] by blast
  qed
  ultimately show ?thesis using ok unfolding evidence_ok_def by (simp add: db' list_all_iff ball_Un)
qed

text \<open>A citation of a candidate in scope shows the candidate's text.\<close>

lemma cited_passage:
  assumes ok: "evidence_ok db" and c: "in_scope project f db' c" and s: "set (ed_chunks db') = set (ed_chunks db)"
    and z: "cited_in db project z" "ct_document_chunk_id z = hc_chunk_id c"
  shows "ct_passage z = hc_normalized_text c"
proof -
  from z(1) obtain x k v d l where m: "k \<in> set (ed_chunks db)" "cites x k v d l" "z = citation_of x k d l" by (auto simp: cited_in_def)
  from c obtain k' where k': "k' \<in> set (ed_chunks db)" "hc_chunk_id c = ck_id k'" "hc_normalized_text c = ck_normalized_text k'"
    unfolding in_scope_def s by blast
  have "ck_id k = ck_id k'" using m(2,3) z(2) k'(2) by (simp add: cites_def)
  then have "k = k'" using evidence_ok_keys(1) [OF ok m(1) k'(1)] by blast
  then show ?thesis by (simp add: m(3) k'(3))
qed

lemma link_citations_Inr:
  assumes "list_all (\<lambda>c. hc_rank c \<noteq> None) cs" "map ct_document_chunk_id zs = map hc_chunk_id cs"
    "\<forall>z \<in> set zs. ct_project_id z = project \<and> ct_retrieval_trace_id z = trace"
  shows "link_citations project trace cs zs = Inr (map (\<lambda>(k, z). \<lparr>lk_rank = the (hc_rank k), lk_candidate = k, lk_citation = z\<rparr>) (zip cs zs))"
proof -
  have l: "length zs = length cs" using assms(2) by (metis length_map)
  have "mapE (\<lambda>(k, c). case hc_rank k of None \<Rightarrow> Inl RetrievalCitationUnavailable
       | Some r \<Rightarrow> if ct_project_id c \<noteq> project \<or> ct_retrieval_trace_id c \<noteq> trace \<or> ct_document_chunk_id c \<noteq> hc_chunk_id k
           then Inl RetrievalCitationUnavailable else Inr \<lparr>lk_rank = r, lk_candidate = k, lk_citation = c\<rparr>) (zip cs zs)
     = Inr (map (\<lambda>(k, z). \<lparr>lk_rank = the (hc_rank k), lk_candidate = k, lk_citation = z\<rparr>) (zip cs zs))"
    using l assms
  proof (induction zs cs rule: list_induct2)
    case (Cons z zs c cs)
    then show ?case by (cases "hc_rank c") simp_all
  qed simp
  then show ?thesis using l by (simp add: link_citations_def)
qed

lemma retrieval_citable:
  assumes ok: "evidence_ok db" and r: "hybrid_retrieve rk renv project q v f cl rl db = (Inr response, db1)"
    and ids: "ze_up cenv" "inj_on (ze_ids cenv) {..<100}" "\<forall>n < 100. ze_ids cenv n \<notin> cr_id ` set (ed_citations db)"
    and ne: "hr_candidates response \<noteq> []"
  shows "\<exists>zs db2. create_from_selected_candidates cenv project (hr_trace_id response) (map hc_chunk_id (hr_candidates response)) db1 = (Inr zs, db2)
    \<and> evidence_ok db2 \<and> link_citations project (hr_trace_id response) (hr_candidates response) zs
      = Inr (map (\<lambda>(k, z). \<lparr>lk_rank = the (hc_rank k), lk_candidate = k, lk_citation = z\<rparr>) (zip (hr_candidates response) zs))
    \<and> map ct_passage zs = map hc_normalized_text (hr_candidates response)"
proof -
  let ?cs = "hr_candidates response" let ?trace = "hr_trace_id response" let ?is = "map hc_chunk_id ?cs"
  note s = retrieval_selects(1) [OF r]
  have l: "length ?is \<le> 100" using retrieval_selects(2) [OF r] by simp
  have ok1: "evidence_ok db1" by (rule retrieval_keeps [OF ok r])
  obtain semantic cs where db1: "db1 = db\<lparr>ed_traces := ed_traces db @ [trace_of renv project (normalize q) v f cl rl],
       ed_candidates := ed_candidates db @ map (\<lambda>(i, c). trace_candidate_of (re_ids renv i) (re_ids renv 0) c) (zip [1..<1 + length cs] cs)\<rparr>"
    by (rule hybrid_retrieve_Inr [OF r]) blast
  have f: "inj_on (ze_ids cenv) {..<length ?is}" "\<forall>n < length ?is. ze_ids cenv n \<notin> cr_id ` set (ed_citations db1)"
    using ids(2,3) l by (auto simp: db1 elim!: inj_on_subset)
  from create_batch_succeeds [OF ok1 s f] obtain zs where
    b: "create_batch_transaction cenv project ?trace ?is db1
      = Inr (zs, db1\<lparr>ed_citations := ed_citations db1 @ batch_rows cenv db1 project ?trace ?is\<rparr>)" (is "_ = Inr (zs, ?db2)") by blast
  have ok2: "evidence_ok ?db2" by (rule batch_keeps [OF ok1 s batch_rows_insert [OF ok1 s f]])
  have c: "create_from_selected_candidates cenv project ?trace ?is db1 = (Inr zs, ?db2)"
    using ne s ids(1) b by (simp add: create_from_selected_candidates_def all_selected_def)
  note z = create_batch_sound(1,2) [OF b]
  have "list_all (\<lambda>c. hc_rank c \<noteq> None) ?cs" using retrieval_selects(4) [OF r] by (auto simp: list_all_length)
  then have "link_citations project ?trace ?cs zs
      = Inr (map (\<lambda>(k, z). \<lparr>lk_rank = the (hc_rank k), lk_candidate = k, lk_citation = z\<rparr>) (zip ?cs zs))"
    by (rule link_citations_Inr [OF _ z(1)]) (use z(2) in \<open>auto simp: cited_in_def\<close>)
  moreover have "map ct_passage zs = map hc_normalized_text ?cs"
  proof (rule nth_equalityI)
    show n: "length (map ct_passage zs) = length (map hc_normalized_text ?cs)" using arg_cong [OF z(1), of length] by simp
    fix i assume "i < length (map ct_passage zs)"
    then have i: "i < length zs" "i < length ?cs" using n by simp_all
    have "ct_document_chunk_id (zs ! i) = hc_chunk_id (?cs ! i)" using arg_cong [OF z(1), of "\<lambda>xs. xs ! i"] i by simp
    moreover have "in_scope project f db (?cs ! i)" using retrieval_selects(5) [OF r] i(2) by (simp add: list_all_length)
    moreover have "cited_in ?db2 project (zs ! i)" using z(2) i(1) by simp
    ultimately have "ct_passage (zs ! i) = hc_normalized_text (?cs ! i)" using cited_passage [OF ok2, of project f db] by (simp add: db1)
    then show "map ct_passage zs ! i = map hc_normalized_text ?cs ! i" using i by simp
  qed
  ultimately show ?thesis using c ok2 by blast
qed

end
