(* ===== verification/Retrieval_Fusion.thy ===== *)
theory Retrieval_Fusion
  imports Evidence
begin

text \<open>
  The fused ranking, element by element: each traced candidate carries its positions in the lexical and in
  the semantic list and the reciprocal-rank score of exactly these two positions.
\<close>

section \<open>Merging as a dictionary\<close>

definition entry :: "hybrid_candidate list \<Rightarrow> uuid \<rightharpoonup> hybrid_candidate" where
  "entry xs = map_of (map (\<lambda>c. (hc_chunk_id c, c)) xs)"

lemma entry_simps [simp]: "entry [] = Map.empty" "entry (c # cs) = (entry cs)(hc_chunk_id c \<mapsto> c)"
  by (simp_all add: entry_def)

lemma entry_None: "entry xs i = None \<longleftrightarrow> i \<notin> hc_chunk_id ` set xs"
  by (simp add: entry_def map_of_eq_None_iff image_image)

lemma entry_in: "distinct (map hc_chunk_id xs) \<Longrightarrow> c \<in> set xs \<Longrightarrow> entry xs (hc_chunk_id c) = Some c"
  by (simp add: entry_def map_of_eq_Some_iff comp_def)

lemma entry_put:
  assumes "same_id merge"
  shows "entry (put_candidate merge xs c)
    = (entry xs)(hc_chunk_id c \<mapsto> (case entry xs (hc_chunk_id c) of None \<Rightarrow> c | Some x \<Rightarrow> merge x c))"
proof (induction xs)
  case (Cons x xs)
  show ?case
  proof (cases "hc_chunk_id x = hc_chunk_id c")
    case True
    then show ?thesis using assms by (auto simp: same_id_def fun_eq_iff)
  qed (use Cons.IH in \<open>auto simp: fun_eq_iff\<close>)
qed simp

lemma entry_fold:
  assumes "same_id merge" "distinct (map hc_chunk_id cs)"
  shows "entry (foldl (put_candidate merge) xs cs) i = (case entry cs i of None \<Rightarrow> entry xs i
    | Some c \<Rightarrow> Some (case entry xs i of None \<Rightarrow> c | Some x \<Rightarrow> merge x c))"
  using assms(2)
proof (induction cs arbitrary: xs)
  case (Cons c cs)
  have "entry cs (hc_chunk_id c) = None" using Cons.prems by (simp add: entry_None)
  then show ?case using Cons by (auto simp: entry_put [OF assms(1)] split: option.splits)
qed simp

lemma entry_merged:
  assumes "distinct (map hc_chunk_id lexical)" "distinct (map hc_chunk_id semantic)"
  shows "entry (merged lexical semantic) i = (case entry semantic i of None \<Rightarrow> entry lexical i
    | Some c \<Rightarrow> Some (case entry lexical i of None \<Rightarrow> c | Some x \<Rightarrow> merge_semantic x c))"
proof -
  have "entry (foldl (put_candidate (\<lambda>x c. c)) [] lexical) = entry lexical"
    by (rule ext) (use entry_fold [OF merges_same_id(2) assms(1), of "[]"] in \<open>auto split: option.splits\<close>)
  then show ?thesis unfolding merged_def entry_fold [OF merges_same_id(1) assms(2)] by (simp only:)
qed

section \<open>Positions\<close>

definition rank_in :: "hybrid_candidate list \<Rightarrow> uuid \<Rightarrow> nat option" where
  "rank_in xs i = map_of (map (\<lambda>(n, c). (hc_chunk_id c, n)) (numbered xs)) i"

lemma rank_in_entry:
  assumes "\<And>n. n < length xs \<Longrightarrow> r (xs ! n) = Some (Suc n)"
  shows "rank_in xs i = (case entry xs i of None \<Rightarrow> None | Some c \<Rightarrow> r c)"
proof -
  have "map_of (map (\<lambda>(n, c). (hc_chunk_id c, n)) (zip [k..<k + length xs] xs)) i = (case entry xs i of None \<Rightarrow> None | Some c \<Rightarrow> r c)"
    if "\<And>n. n < length xs \<Longrightarrow> r (xs ! n) = Some (k + n)" for k
    using that
  proof (induction xs arbitrary: k)
    case (Cons x xs)
    have "r (xs ! n) = Some (Suc k + n)" if "n < length xs" for n using Cons.prems [of "Suc n"] that by simp
    from Cons.IH [OF this] Cons.prems [of 0] show ?case by (simp add: upt_conv_Cons del: upt_Suc)
  qed simp
  from this [of 1] assms show ?thesis by (simp add: rank_in_def numbered_def del: upt_Suc)
qed

lemma lexical_ranks:
  assumes "n < length (lexical_candidates rk project q f lim db)"
  shows "hc_lexical_rank (lexical_candidates rk project q f lim db ! n) = Some (Suc n)"
    "hc_semantic_rank (lexical_candidates rk project q f lim db ! n) = None"
  using assms by (auto simp: lexical_candidates_def candidate_from_row_def split: prod.splits)

lemma semantic_ranks:
  assumes "semantic_candidates rk project v f lim db = Inr cs" "n < length cs"
  shows "hc_semantic_rank (cs ! n) = Some (Suc n)" "hc_lexical_rank (cs ! n) = None"
  using assms by (auto simp: semantic_candidates_def bindE_eq_Inr candidate_from_row_def split: prod.splits)

lemma merged_ranks:
  assumes d: "distinct (map hc_chunk_id lexical)" "distinct (map hc_chunk_id semantic)"
    and l: "\<And>n. n < length lexical \<Longrightarrow> hc_lexical_rank (lexical ! n) = Some (Suc n) \<and> hc_semantic_rank (lexical ! n) = None"
    and s: "\<And>n. n < length semantic \<Longrightarrow> hc_semantic_rank (semantic ! n) = Some (Suc n) \<and> hc_lexical_rank (semantic ! n) = None"
    and c: "c \<in> set (merged lexical semantic)"
  shows "hc_lexical_rank c = rank_in lexical (hc_chunk_id c) \<and> hc_semantic_rank c = rank_in semantic (hc_chunk_id c)"
proof -
  let ?i = "hc_chunk_id c"
  have ls: "hc_semantic_rank x = None" if "entry lexical i = Some x" for x i
    using that l by (auto simp: entry_def in_set_conv_nth dest!: map_of_SomeD)
  have sl: "hc_lexical_rank x = None" if "entry semantic i = Some x" for x i
    using that s by (auto simp: entry_def in_set_conv_nth dest!: map_of_SomeD)
  have "entry (merged lexical semantic) ?i = Some c" by (rule entry_in [OF merged_ids(1) c])
  moreover have "rank_in lexical ?i = (case entry lexical ?i of None \<Rightarrow> None | Some c \<Rightarrow> hc_lexical_rank c)"
    by (rule rank_in_entry) (use l in blast)
  moreover have "rank_in semantic ?i = (case entry semantic ?i of None \<Rightarrow> None | Some c \<Rightarrow> hc_semantic_rank c)"
    by (rule rank_in_entry) (use s in blast)
  ultimately show ?thesis using ls sl
    by (auto simp: entry_merged [OF d] merge_semantic_def split: option.splits)
qed

section \<open>Each chunk is listed once\<close>

lemma keyed_single:
  assumes "distinct (map key xs)" "\<And>x. key x \<noteq> a \<Longrightarrow> f x = []" "\<And>x. length (f x) \<le> 1"
  shows "length (concat (map f xs)) \<le> 1"
  using assms(1)
proof (induction xs)
  case (Cons x xs)
  show ?case
  proof (cases "key x = a")
    case True
    then have "f y = []" if "y \<in> set xs" for y using Cons.prems that assms(2) [of y] by (metis distinct_key)
    then have e: "concat (map f xs) = []" by simp
    show ?thesis using assms(3) [of x] by (simp only: list.map concat.simps e append_Nil2)
  qed (use Cons assms(2) in simp)
qed simp

lemma distinct_concat_keyed:
  assumes "distinct (map key xs)" "\<And>x. x \<in> set xs \<Longrightarrow> length (f x) \<le> 1" "\<And>x y. x \<in> set xs \<Longrightarrow> y \<in> set (f x) \<Longrightarrow> key' y = key x"
  shows "distinct (map key' (concat (map f xs)))"
  using assms
proof (induction xs)
  case (Cons x xs)
  have "distinct (map key' (f x))" using Cons.prems(2) [of x] by (cases "f x") auto
  moreover have "key' ` set (f x) \<inter> key' ` set (concat (map f xs)) = {}"
    using Cons.prems(1,3) by (fastforce simp: image_iff)
  moreover have "distinct (map key' (concat (map f xs)))" using Cons by simp
  ultimately show ?case by (simp add: image_UN)
qed simp

definition embeddings_ok :: "evidence_db \<Rightarrow> bool" where
  "embeddings_ok db \<longleftrightarrow> table_ok chunk_embedding_checks chunk_embedding_conflict (ed_links db)
     \<and> table_ok embedding_cache_checks embedding_cache_conflict (ed_cache db)"

lemma no_conflict_distinct:
  "no_conflict c rows \<Longrightarrow> (\<And>r s. k r = k s \<Longrightarrow> c r s) \<Longrightarrow> distinct (map k rows)"
  by (induction rows) (auto simp: list_all_iff)

lemma embeddings_ok_keys:
  assumes "embeddings_ok db"
  shows "distinct (map (\<lambda>l. (ce_document_chunk_id l, ce_embedding_model l, ce_embedding_version l)) (ed_links db))"
    "distinct (map em_id (ed_cache db))"
  using assms
  by (auto simp: embeddings_ok_def table_ok_def chunk_embedding_conflict_def embedding_cache_conflict_def
      intro!: no_conflict_distinct [of chunk_embedding_conflict] no_conflict_distinct [of embedding_cache_conflict])

lemma candidate_rows_ids:
  assumes "evidence_ok db"
  shows "distinct (map (\<lambda>r. ck_id (fst r)) (candidate_rows project f db))"
  unfolding candidate_rows_def
proof (rule distinct_concat_keyed [where key = ck_id])
  show "distinct (map ck_id (ed_chunks db))" using assms by (simp add: evidence_ok_def)
next
  fix k
  show "length (concat (map (\<lambda>v. concat (map (\<lambda>d. if ck_document_version_id k = dv_id v \<and> dv_document_id v = dr_id d
      \<and> dr_project_id d = project \<and> passes_filters f k d then [(k, d)] else []) (ed_documents db))) (ed_versions db))) \<le> 1"
  proof (rule keyed_single [where key = dv_id and a = "ck_document_version_id k"])
    show "distinct (map dv_id (ed_versions db))" using assms by (simp add: evidence_ok_def)
  next
    fix v
    show "length (concat (map (\<lambda>d. if ck_document_version_id k = dv_id v \<and> dv_document_id v = dr_id d
      \<and> dr_project_id d = project \<and> passes_filters f k d then [(k, d)] else []) (ed_documents db))) \<le> 1"
      by (rule keyed_single [where key = dr_id and a = "dv_document_id v"]) (use assms in \<open>auto simp: evidence_ok_def\<close>)
  qed auto
qed (auto split: if_splits)

lemma embedded_rows_ids:
  assumes "evidence_ok db" "embeddings_ok db"
  shows "distinct (map (\<lambda>r. ck_id (fst (fst r))) (embedded_rows project f db))"
  unfolding embedded_rows_def
proof (rule distinct_concat_keyed [where key = "\<lambda>r. ck_id (fst r)"])
  show "distinct (map (\<lambda>r. ck_id (fst r)) (candidate_rows project f db))" by (rule candidate_rows_ids [OF assms(1)])
next
  fix r
  show "length (concat (map (\<lambda>l. concat (map (\<lambda>e. if ce_document_chunk_id l = ck_id (fst r) \<and> ce_embedding_cache_id l = em_id e
       \<and> ce_embedding_model l = hf_embedding_model f \<and> ce_embedding_version l = hf_embedding_version f
       \<and> em_project_id e = project \<and> em_embedding_model e = hf_embedding_model f \<and> em_embedding_version e = hf_embedding_version f
     then [(r, em_values e)] else []) (ed_cache db))) (ed_links db))) \<le> 1"
  proof (rule keyed_single [where key = "\<lambda>l. (ce_document_chunk_id l, ce_embedding_model l, ce_embedding_version l)"
      and a = "(ck_id (fst r), hf_embedding_model f, hf_embedding_version f)"])
    fix l
    show "length (concat (map (\<lambda>e. if ce_document_chunk_id l = ck_id (fst r) \<and> ce_embedding_cache_id l = em_id e
       \<and> ce_embedding_model l = hf_embedding_model f \<and> ce_embedding_version l = hf_embedding_version f
       \<and> em_project_id e = project \<and> em_embedding_model e = hf_embedding_model f \<and> em_embedding_version e = hf_embedding_version f
     then [(r, em_values e)] else []) (ed_cache db))) \<le> 1"
      by (rule keyed_single [where key = em_id and a = "ce_embedding_cache_id l"]) (use embeddings_ok_keys [OF assms(2)] in auto)
  qed (use embeddings_ok_keys [OF assms(2)] in auto)
qed (auto split: if_splits)

lemma candidate_from_row_id [simp]: "hc_chunk_id (candidate_from_row r) = ck_id (fst r)"
  by (simp add: candidate_from_row_def split: prod.splits)

lemma map_numbered: "map (\<lambda>(i, r). f r) (numbered xs) = map f xs"
  by (rule nth_equalityI) simp_all

lemma lexical_ids:
  assumes "evidence_ok db"
  shows "distinct (map hc_chunk_id (lexical_candidates rk project q f lim db))"
proof -
  let ?rows = "take (nat lim) (sort_key (\<lambda>(k, d). (- rk_score rk (ck_normalized_text k) q, ck_ordinal k, ck_id k))
         (filter (\<lambda>(k, d). rk_matches rk (ck_normalized_text k) q) (candidate_rows project f db)))"
  have "map hc_chunk_id (lexical_candidates rk project q f lim db) = map (\<lambda>r. ck_id (fst r)) ?rows"
    using map_numbered [of "\<lambda>r. ck_id (fst r)" ?rows] by (simp add: lexical_candidates_def comp_def case_prod_unfold)
  also have "distinct \<dots>"
    unfolding take_map [symmetric]
    by (intro distinct_take) (simp only: distinct_map_sort distinct_map_filter candidate_rows_ids [OF assms])
  finally show ?thesis .
qed

lemma mapE_pairs:
  "mapE (\<lambda>(r, e). bindE (g e) (\<lambda>x. Inr (r, x))) xs = Inr ys \<Longrightarrow> map fst ys = map fst xs"
  by (induction xs arbitrary: ys) (auto simp: bindE_eq_Inr)

lemma semantic_ids:
  assumes "evidence_ok db" "embeddings_ok db" "semantic_candidates rk project v f lim db = Inr cs"
  shows "distinct (map hc_chunk_id cs)"
proof -
  let ?key = "\<lambda>((k :: document_chunk_row, d :: document_row), x :: distance). ((case x of None \<Rightarrow> (1 :: int, 0) | Some y \<Rightarrow> (0, y)), ck_ordinal k, ck_id k)"
  obtain rows where rows: "mapE (\<lambda>(r, e). bindE (rk_distance rk e v) (\<lambda>x. Inr (r, x))) (embedded_rows project f db) = Inr rows"
    and cs: "cs = map (\<lambda>(i, (r, x)). (candidate_from_row r)\<lparr>hc_semantic_distance := Some x, hc_semantic_rank := Some i\<rparr>)
         (numbered (take (nat lim) (sort_key ?key rows)))"
    using assms(3) by (auto simp: semantic_candidates_def bindE_eq_Inr)
  have "map (\<lambda>r. ck_id (fst (fst r))) rows = map (\<lambda>r. ck_id (fst (fst r))) (embedded_rows project f db)"
    using arg_cong [OF mapE_pairs [OF rows], of "map (\<lambda>r. ck_id (fst r))"] by (simp add: comp_def)
  then have d: "distinct (map (\<lambda>r. ck_id (fst (fst r))) rows)" using embedded_rows_ids [OF assms(1,2)] by simp
  have "map hc_chunk_id cs = map (\<lambda>r. ck_id (fst (fst r))) (take (nat lim) (sort_key ?key rows))"
    using map_numbered [of "\<lambda>r. ck_id (fst (fst r))" "take (nat lim) (sort_key ?key rows)"] by (simp add: cs comp_def case_prod_unfold)
  also have "distinct \<dots>" unfolding take_map [symmetric] by (intro distinct_take) (simp only: distinct_map_sort d)
  finally show ?thesis .
qed

section \<open>The ranking of a retrieval\<close>

lemma traced_exact:
  assumes "evidence_ok db" "embeddings_ok db" "semantic_candidates rk project v f cl db = Inr semantic"
    and l: "lexical = lexical_candidates rk project (normalize q) f cl db"
    and c: "c \<in> set (traced_candidates rk project q f cl rl db semantic)"
  shows "hc_lexical_rank c = rank_in lexical (hc_chunk_id c)" "hc_semantic_rank c = rank_in semantic (hc_chunk_id c)"
    "hc_fusion_score c = reciprocal_rank_score (rank_in lexical (hc_chunk_id c)) (rank_in semantic (hc_chunk_id c))"
proof -
  from c obtain n where n: "n < length (fused lexical semantic)"
    "c = (fused lexical semantic ! n)\<lparr>hc_rank := if Suc n \<le> nat rl then Some (Suc n) else None\<rparr>"
    by (auto simp: traced_candidates_def l in_set_conv_nth ranked_nth)
  have "fused lexical semantic ! n \<in> set (fused lexical semantic)" using n(1) by (rule nth_mem)
  then obtain m where m: "m \<in> set (merged lexical semantic)" "fused lexical semantic ! n = scored m" by (auto simp: fused_def)
  have "hc_lexical_rank m = rank_in lexical (hc_chunk_id m) \<and> hc_semantic_rank m = rank_in semantic (hc_chunk_id m)"
    by (rule merged_ranks [OF _ semantic_ids [OF assms(1-3)] _ _ m(1)])
      (use lexical_ids [OF assms(1)] lexical_ranks semantic_ranks [OF assms(3)] in \<open>simp_all add: l\<close>)
  then show "hc_lexical_rank c = rank_in lexical (hc_chunk_id c)" "hc_semantic_rank c = rank_in semantic (hc_chunk_id c)"
    "hc_fusion_score c = reciprocal_rank_score (rank_in lexical (hc_chunk_id c)) (rank_in semantic (hc_chunk_id c))"
    by (simp_all add: n(2) m(2) scored_def)
qed

lemma traced_sorted: "sorted (map fusion_key (traced_candidates rk project q f cl rl db semantic))"
  by (simp add: traced_candidates_def ranked_key fused_def)

lemma traced_ids_set:
  "hc_chunk_id ` set (traced_candidates rk project q f cl rl db semantic)
    = hc_chunk_id ` set (lexical_candidates rk project (normalize q) f cl db) \<union> hc_chunk_id ` set semantic"
  using arg_cong [OF ranked_id, of set] by (simp add: traced_candidates_def fused_ids)

end
