(* ===== verification/Findings.thy ===== *)
theory Findings
  imports Generated_Tests
begin

text \<open>
  The strict contract of requirement findings (\<open>findings.py\<close>): the closed taxonomies, the validator of an
  untrusted payload with every check in the order of the source, and the canonical payload.  A confidence
  is kept by its \<open>repr\<close>, so its range check reads the decimal.
\<close>

section \<open>Data\<close>

definition REQUIREMENT_FINDING_SCHEMA_VERSION :: string where "REQUIREMENT_FINDING_SCHEMA_VERSION = ''requirement-finding/v1''"
definition MAX_FINDING_TEXT_LENGTH :: nat where "MAX_FINDING_TEXT_LENGTH = 4000"

datatype finding_category =
    AMBIGUITY | CONTRADICTION | MISSING_ACCEPTANCE_CRITERIA | VALIDATION_GAP | AUTHORIZATION_GAP | ERROR_HANDLING_GAP
  | STATE_TRANSITION_GAP | REQUIREMENTS_CONTRACT_MISMATCH | UNMAPPED_REQUIREMENT | UNMAPPED_OPERATION | SECURITY_RISK
  | PERFORMANCE_RISK | UNSUPPORTED_CLAIM

datatype finding_severity = CRITICAL | HIGH | MEDIUM | LOW | INFO

fun category_value :: "finding_category \<Rightarrow> string" where
  "category_value AMBIGUITY = ''ambiguity''"
| "category_value CONTRADICTION = ''contradiction''"
| "category_value MISSING_ACCEPTANCE_CRITERIA = ''missing_acceptance_criteria''"
| "category_value VALIDATION_GAP = ''validation_gap''"
| "category_value AUTHORIZATION_GAP = ''authorization_gap''"
| "category_value ERROR_HANDLING_GAP = ''error_handling_gap''"
| "category_value STATE_TRANSITION_GAP = ''state_transition_gap''"
| "category_value REQUIREMENTS_CONTRACT_MISMATCH = ''requirements_contract_mismatch''"
| "category_value UNMAPPED_REQUIREMENT = ''unmapped_requirement''"
| "category_value UNMAPPED_OPERATION = ''unmapped_operation''"
| "category_value SECURITY_RISK = ''security_risk''"
| "category_value PERFORMANCE_RISK = ''performance_risk''"
| "category_value UNSUPPORTED_CLAIM = ''unsupported_claim''"

fun severity_value :: "finding_severity \<Rightarrow> string" where
  "severity_value CRITICAL = ''critical''"
| "severity_value HIGH = ''high''"
| "severity_value MEDIUM = ''medium''"
| "severity_value LOW = ''low''"
| "severity_value INFO = ''info''"

definition finding_categories :: "finding_category list" where
  "finding_categories = [AMBIGUITY, CONTRADICTION, MISSING_ACCEPTANCE_CRITERIA, VALIDATION_GAP, AUTHORIZATION_GAP,
     ERROR_HANDLING_GAP, STATE_TRANSITION_GAP, REQUIREMENTS_CONTRACT_MISMATCH, UNMAPPED_REQUIREMENT, UNMAPPED_OPERATION,
     SECURITY_RISK, PERFORMANCE_RISK, UNSUPPORTED_CLAIM]"

definition finding_severities :: "finding_severity list" where
  "finding_severities = [CRITICAL, HIGH, MEDIUM, LOW, INFO]"

datatype finding_error =
    RequirementFindingValidationError string
  | FindingKeyError string
  | FindingOverflowError

record finding_evidence =
  fe_citation_id :: uuid
  fe_observed_fact :: string

record requirement_finding =
  rf_id :: uuid
  rf_category :: finding_category
  rf_severity :: finding_severity
  rf_evidence :: "finding_evidence list"
  rf_analysis :: string
  rf_confidence :: string
  rf_recommendation :: string
  rf_unsupported :: bool
  rf_unsupported_reason :: "string option"

definition evidence_payload :: "finding_evidence \<Rightarrow> json" where
  "evidence_payload e = JObj [(''citation_id'', JStr (uuid_str (fe_citation_id e))), (''observed_fact'', JStr (fe_observed_fact e))]"

definition finding_payload :: "requirement_finding \<Rightarrow> (string \<times> json) list" where
  "finding_payload f =
     [(''schema_version'', JStr REQUIREMENT_FINDING_SCHEMA_VERSION), (''id'', JStr (uuid_str (rf_id f))),
      (''category'', JStr (category_value (rf_category f))), (''severity'', JStr (severity_value (rf_severity f))),
      (''evidence'', JArr (map evidence_payload (rf_evidence f))), (''analysis'', JStr (rf_analysis f)),
      (''confidence'', JFloat (rf_confidence f)), (''recommendation'', JStr (rf_recommendation f)),
      (''unsupported'', JBool (rf_unsupported f)), (''unsupported_reason'', opt_str (rf_unsupported_reason f))]"

section \<open>Validators\<close>

definition finding_fields :: "string list" where
  "finding_fields = [''schema_version'', ''id'', ''category'', ''severity'', ''evidence'', ''analysis'', ''confidence'',
     ''recommendation'', ''unsupported'', ''unsupported_reason'']"

definition evidence_fields :: "string list" where "evidence_fields = [''citation_id'', ''observed_fact'']"

abbreviation bad_finding :: "string \<Rightarrow> finding_error" where "bad_finding \<equiv> RequirementFindingValidationError"

definition finding_exact_fields :: "(string \<times> json) list \<Rightarrow> string list \<Rightarrow> string \<Rightarrow> finding_error + unit" where
  "finding_exact_fields payload expected label = require (set (map fst payload) = set expected)
     (bad_finding (label @ '' fields must exactly match the versioned schema''))"

definition finding_item :: "(string \<times> json) list \<Rightarrow> string \<Rightarrow> finding_error + json" where
  "finding_item payload k = (case map_of payload k of None \<Rightarrow> Inl (FindingKeyError k) | Some v \<Rightarrow> Inr v)"

definition finding_uuid :: "string \<Rightarrow> json \<Rightarrow> finding_error + uuid" where
  "finding_uuid label v = (case v of
     JStr s \<Rightarrow> (case uuid_parse s of Some u \<Rightarrow> Inr u | None \<Rightarrow> Inl (bad_finding (label @ '' must be a UUID string'')))
   | _ \<Rightarrow> Inl (bad_finding (label @ '' must be a UUID string'')))"

definition finding_enum :: "('a \<Rightarrow> string) \<Rightarrow> 'a list \<Rightarrow> string \<Rightarrow> json \<Rightarrow> finding_error + 'a" where
  "finding_enum val members label v = (case v of
     JStr s \<Rightarrow> (case find (\<lambda>m. val m = s) members of Some m \<Rightarrow> Inr m | None \<Rightarrow> Inl (bad_finding (label @ '' is not allowed'')))
   | _ \<Rightarrow> Inl (bad_finding (label @ '' is not allowed'')))"

definition finding_text :: "string \<Rightarrow> json \<Rightarrow> finding_error + string" where
  "finding_text label v = (case v of
     JStr s \<Rightarrow> (let normalized = strip s in
        if normalized = [] \<or> length normalized > MAX_FINDING_TEXT_LENGTH
        then Inl (bad_finding (label @ '' must be bounded, non-empty text'')) else Inr normalized)
   | _ \<Rightarrow> Inl (bad_finding (label @ '' must be text'')))"

definition finding_optional_text :: "string \<Rightarrow> json \<Rightarrow> finding_error + string option" where
  "finding_optional_text label v =
     (if v = JNull then Inr None else bindE (finding_text label v) (\<lambda>t. Inr (Some t)))"

definition finding_bool :: "string \<Rightarrow> json \<Rightarrow> finding_error + bool" where
  "finding_bool label v = (case v of JBool b \<Rightarrow> Inr b | _ \<Rightarrow> Inl (bad_finding (label @ '' must be boolean'')))"

text \<open>
  \<open>0 \<le> x \<le> 1\<close> on the \<open>repr\<close> of a finite float: without an exponent the integer part decides, with one the
  value is below 1 exactly for a negative exponent.
\<close>

definition in_unit_interval :: "string \<Rightarrow> bool" where
  "in_unit_interval r =
     (case partition_at (CHR ''e'') r of (m, has_exp, e) \<Rightarrow>
        if has_exp then \<not> starts_with ''-'' m \<and> starts_with ''-'' e
        else case partition_at (CHR ''.'') m of (i, _, f) \<Rightarrow>
          i = ''0'' \<or> (i = ''1'' \<or> i = ''-0'') \<and> list_all (\<lambda>c. c = CHR ''0'') f)"

text \<open>\<open>float(i)\<close> of an integer overflows from the midpoint above the largest float on.\<close>

definition float_overflow_bound :: int where "float_overflow_bound = 2 ^ 1024 - 2 ^ 970"

definition finding_confidence :: "json \<Rightarrow> finding_error + string" where
  "finding_confidence v = (case v of
     JInt i \<Rightarrow>
       if \<bar>i\<bar> \<ge> float_overflow_bound then Inl FindingOverflowError
       else if i = 0 then Inr ''0.0'' else if i = 1 then Inr ''1.0''
       else Inl (bad_finding ''Finding confidence must be between 0 and 1'')
   | JFloat r \<Rightarrow>
       if float_finite r \<and> in_unit_interval r then Inr r
       else Inl (bad_finding ''Finding confidence must be between 0 and 1'')
   | _ \<Rightarrow> Inl (bad_finding ''Finding confidence must be numeric''))"

definition finding_evidence_item :: "json \<Rightarrow> finding_error + finding_evidence" where
  "finding_evidence_item v = (case v of
     JObj kvs \<Rightarrow>
       bindE (finding_exact_fields kvs evidence_fields ''Finding evidence'') (\<lambda>_.
       bindE (bindE (finding_item kvs ''citation_id'') (finding_uuid ''Citation id'')) (\<lambda>c.
       bindE (bindE (finding_item kvs ''observed_fact'') (finding_text ''Observed fact'')) (\<lambda>t.
         Inr \<lparr>fe_citation_id = c, fe_observed_fact = t\<rparr>)))
   | _ \<Rightarrow> Inl (bad_finding ''Finding evidence item must be an object''))"

definition finding_evidence_of :: "json \<Rightarrow> finding_error + finding_evidence list" where
  "finding_evidence_of v = (case v of
     JArr xs \<Rightarrow>
       bindE (mapE finding_evidence_item xs) (\<lambda>es.
       bindE (require (distinct es) (bad_finding ''Finding evidence must not repeat'')) (\<lambda>_. Inr es))
   | _ \<Rightarrow> Inl (bad_finding ''Finding evidence must be a list''))"

definition validate_evidence_state :: "requirement_finding \<Rightarrow> finding_error + unit" where
  "validate_evidence_state f =
     (if rf_unsupported f then
        bindE (require (rf_evidence f = []) (bad_finding ''Unsupported findings must not present evidence'')) (\<lambda>_.
        bindE (require (rf_category f = UNSUPPORTED_CLAIM)
          (bad_finding ''Unsupported findings must use the unsupported_claim category'')) (\<lambda>_.
        bindE (require (rf_severity f = INFO) (bad_finding ''Unsupported findings must use info severity'')) (\<lambda>_.
          require (rf_unsupported_reason f \<noteq> None) (bad_finding ''Unsupported findings require an evidence-gap reason''))))
      else
        bindE (require (rf_evidence f \<noteq> []) (bad_finding ''Supported findings require at least one citation'')) (\<lambda>_.
        bindE (require (rf_category f \<noteq> UNSUPPORTED_CLAIM)
          (bad_finding ''Supported findings must use a material finding category'')) (\<lambda>_.
          require (rf_unsupported_reason f = None)
            (bad_finding ''Supported findings must not include an unsupported reason''))))"

definition validate_requirement_finding :: "(string \<times> json) list \<Rightarrow> finding_error + requirement_finding" where
  "validate_requirement_finding payload =
     bindE (finding_exact_fields payload finding_fields ''Finding'') (\<lambda>_.
     bindE (bindE (finding_item payload ''schema_version'') (\<lambda>x.
       require (x = JStr REQUIREMENT_FINDING_SCHEMA_VERSION) (bad_finding ''Unsupported finding schema version''))) (\<lambda>_.
     bindE (bindE (finding_item payload ''id'') (finding_uuid ''Finding id'')) (\<lambda>i.
     bindE (bindE (finding_item payload ''category'') (finding_enum category_value finding_categories ''Finding category'')) (\<lambda>c.
     bindE (bindE (finding_item payload ''severity'') (finding_enum severity_value finding_severities ''Finding severity'')) (\<lambda>s.
     bindE (bindE (finding_item payload ''evidence'') finding_evidence_of) (\<lambda>es.
     bindE (bindE (finding_item payload ''analysis'') (finding_text ''Finding analysis'')) (\<lambda>a.
     bindE (bindE (finding_item payload ''confidence'') finding_confidence) (\<lambda>p.
     bindE (bindE (finding_item payload ''recommendation'') (finding_text ''Finding recommendation'')) (\<lambda>r.
     bindE (bindE (finding_item payload ''unsupported'') (finding_bool ''Finding unsupported state'')) (\<lambda>u.
     bindE (bindE (finding_item payload ''unsupported_reason'') (finding_optional_text ''Finding unsupported reason'')) (\<lambda>ur.
     let f = \<lparr>rf_id = i, rf_category = c, rf_severity = s, rf_evidence = es, rf_analysis = a, rf_confidence = p,
              rf_recommendation = r, rf_unsupported = u, rf_unsupported_reason = ur\<rparr> in
     bindE (validate_evidence_state f) (\<lambda>_. Inr f))))))))))))"

definition validate_requirement_findings :: "(string \<times> json) list list \<Rightarrow> finding_error + requirement_finding list" where
  "validate_requirement_findings payloads =
     bindE (require (payloads \<noteq> []) (bad_finding ''At least one finding is required'')) (\<lambda>_.
     bindE (mapE validate_requirement_finding payloads) (\<lambda>fs.
     bindE (require (distinct (map rf_id fs)) (bad_finding ''Finding IDs must be unique'')) (\<lambda>_. Inr fs)))"

section \<open>The contract\<close>

definition finding_text_ok :: "string \<Rightarrow> bool" where
  "finding_text_ok s \<longleftrightarrow> strip s = s \<and> s \<noteq> [] \<and> length s \<le> MAX_FINDING_TEXT_LENGTH"

definition confidence_ok :: "string \<Rightarrow> bool" where
  "confidence_ok r \<longleftrightarrow> float_finite r \<and> in_unit_interval r"

definition finding_ok :: "requirement_finding \<Rightarrow> bool" where
  "finding_ok f \<longleftrightarrow> list_all (\<lambda>e. finding_text_ok (fe_observed_fact e)) (rf_evidence f) \<and> distinct (rf_evidence f)
     \<and> finding_text_ok (rf_analysis f) \<and> confidence_ok (rf_confidence f) \<and> finding_text_ok (rf_recommendation f)
     \<and> (case rf_unsupported_reason f of None \<Rightarrow> True | Some t \<Rightarrow> finding_text_ok t)
     \<and> (if rf_unsupported f
        then rf_evidence f = [] \<and> rf_category f = UNSUPPORTED_CLAIM \<and> rf_severity f = INFO \<and> rf_unsupported_reason f \<noteq> None
        else rf_evidence f \<noteq> [] \<and> rf_category f \<noteq> UNSUPPORTED_CLAIM \<and> rf_unsupported_reason f = None)"

lemma finding_text_Inr [exn_simps]: "finding_text l v = Inr t \<longleftrightarrow> (\<exists>s. v = JStr s \<and> t = strip s \<and> finding_text_ok t)"
  by (auto simp: finding_text_def finding_text_ok_def Let_def not_less split: json.splits)

lemma finding_text_ok_strip: "finding_text_ok t \<Longrightarrow> strip t = t"
  by (simp add: finding_text_ok_def)

lemma finding_text_accepts [simp]: "finding_text_ok t \<Longrightarrow> finding_text l (JStr t) = Inr t"
  by (simp add: exn_simps finding_text_ok_strip)

lemma finding_uuid_str [simp]: "finding_uuid l (JStr (uuid_str u)) = Inr u"
  by (simp add: finding_uuid_def)

lemma finding_enum_category [simp]: "finding_enum category_value finding_categories l (JStr (category_value c)) = Inr c"
  by (cases c) (simp_all add: finding_enum_def finding_categories_def)

lemma finding_enum_severity [simp]: "finding_enum severity_value finding_severities l (JStr (severity_value c)) = Inr c"
  by (cases c) (simp_all add: finding_enum_def finding_severities_def)

lemma confidence_Inr: "finding_confidence v = Inr r \<Longrightarrow> confidence_ok r"
proof -
  have "in_unit_interval ''0.0''" "in_unit_interval ''1.0''" by (simp_all add: in_unit_interval_def partition_at_def)
  then show "finding_confidence v = Inr r \<Longrightarrow> confidence_ok r"
    by (auto simp: finding_confidence_def confidence_ok_def float_finite_def split: json.splits if_splits)
qed

lemma evidence_item_Inr:
  "finding_evidence_item v = Inr e \<Longrightarrow> finding_text_ok (fe_observed_fact e)"
  by (auto simp: finding_evidence_item_def exn_simps split: json.splits)

lemma evidence_item_payload [simp]:
  "finding_text_ok (fe_observed_fact e) \<Longrightarrow> finding_evidence_item (evidence_payload e) = Inr e"
  by (auto simp: finding_evidence_item_def evidence_payload_def finding_exact_fields_def evidence_fields_def finding_item_def)

lemma finding_evidence_Inr:
  "finding_evidence_of v = Inr es \<Longrightarrow> list_all (\<lambda>e. finding_text_ok (fe_observed_fact e)) es \<and> distinct es"
  using mapE_all [OF _ evidence_item_Inr]
  by (fastforce simp: finding_evidence_of_def bindE_eq_Inr require_eq_Inr list_all_iff split: json.splits)

lemma finding_evidence_payload [simp]:
  assumes "list_all (\<lambda>e. finding_text_ok (fe_observed_fact e)) es" "distinct es"
  shows "finding_evidence_of (JArr (map evidence_payload es)) = Inr es"
proof -
  have "mapE finding_evidence_item (map evidence_payload es) = Inr es"
    by (rule mapE_map_Inr) (use assms(1) in \<open>simp add: list_all_iff\<close>)
  then show ?thesis using assms(2) by (simp add: finding_evidence_of_def)
qed

lemma validate_evidence_state_Inr:
  "validate_evidence_state f = Inr u \<longleftrightarrow>
     (if rf_unsupported f
      then rf_evidence f = [] \<and> rf_category f = UNSUPPORTED_CLAIM \<and> rf_severity f = INFO \<and> rf_unsupported_reason f \<noteq> None
      else rf_evidence f \<noteq> [] \<and> rf_category f \<noteq> UNSUPPORTED_CLAIM \<and> rf_unsupported_reason f = None)"
  by (auto simp: validate_evidence_state_def bindE_eq_Inr require_eq_Inr)

lemma validate_finding_sound:
  assumes "validate_requirement_finding payload = Inr f"
  shows "finding_ok f"
proof -
  have reason: "finding_optional_text l v = Inr ur \<Longrightarrow> (case ur of None \<Rightarrow> True | Some t \<Rightarrow> finding_text_ok t)" for l v ur
    by (auto simp: finding_optional_text_def exn_simps split: if_splits)
  show ?thesis using assms
    by (auto simp: validate_requirement_finding_def bindE_eq_Inr Let_def finding_ok_def validate_evidence_state_Inr
        finding_text_Inr dest!: finding_evidence_Inr confidence_Inr reason)
qed

lemma validate_finding_payload:
  assumes "finding_ok f"
  shows "validate_requirement_finding (finding_payload f) = Inr f"
proof -
  have reason: "finding_optional_text l (opt_str (rf_unsupported_reason f)) = Inr (rf_unsupported_reason f)" for l
    using assms by (auto simp: finding_ok_def finding_optional_text_def opt_str_def split: option.splits)
  have conf: "finding_confidence (JFloat (rf_confidence f)) = Inr (rf_confidence f)"
    using assms by (simp add: finding_ok_def confidence_ok_def finding_confidence_def)
  have fields: "finding_exact_fields (finding_payload f) finding_fields l = Inr ()" for l
    by (simp add: finding_exact_fields_def finding_payload_def finding_fields_def)
  have items: "finding_item (finding_payload f) ''schema_version'' = Inr (JStr REQUIREMENT_FINDING_SCHEMA_VERSION)"
    "finding_item (finding_payload f) ''id'' = Inr (JStr (uuid_str (rf_id f)))"
    "finding_item (finding_payload f) ''category'' = Inr (JStr (category_value (rf_category f)))"
    "finding_item (finding_payload f) ''severity'' = Inr (JStr (severity_value (rf_severity f)))"
    "finding_item (finding_payload f) ''evidence'' = Inr (JArr (map evidence_payload (rf_evidence f)))"
    "finding_item (finding_payload f) ''analysis'' = Inr (JStr (rf_analysis f))"
    "finding_item (finding_payload f) ''confidence'' = Inr (JFloat (rf_confidence f))"
    "finding_item (finding_payload f) ''recommendation'' = Inr (JStr (rf_recommendation f))"
    "finding_item (finding_payload f) ''unsupported'' = Inr (JBool (rf_unsupported f))"
    "finding_item (finding_payload f) ''unsupported_reason'' = Inr (opt_str (rf_unsupported_reason f))"
    by (simp_all add: finding_item_def finding_payload_def)
  have eta: "\<lparr>rf_id = rf_id f, rf_category = rf_category f, rf_severity = rf_severity f, rf_evidence = rf_evidence f,
      rf_analysis = rf_analysis f, rf_confidence = rf_confidence f, rf_recommendation = rf_recommendation f,
      rf_unsupported = rf_unsupported f, rf_unsupported_reason = rf_unsupported_reason f\<rparr> = f" by simp
  have state: "validate_evidence_state f = Inr ()" using assms by (simp add: validate_evidence_state_Inr finding_ok_def)
  show ?thesis
    using assms by (simp add: validate_requirement_finding_def fields items reason conf finding_ok_def Let_def finding_bool_def eta state)
qed

end
