(* ===== verification/Requirements_Analysis.thy ===== *)
theory Requirements_Analysis
  imports Findings Evidence
begin

text \<open>
  Requirement-quality analysis (\<open>requirements_analysis.py\<close>): the deterministic rules over cited passages, the
  repository of runs and findings, and the service.  The service reads citations through the interface
  \<open>citation_reader\<close>, which the SQL repository and the unavailable one provide.
\<close>

section \<open>Data\<close>

definition ANALYZER_VERSION :: string where "ANALYZER_VERSION = ''requirement-quality-rules/v1''"
definition FINDING_NAMESPACE :: uuid where "FINDING_NAMESPACE = 0xf2e32d13e8fe4b5390e975443b896a35"

datatype analysis_error =
    RequirementAnalysisUnavailable
  | AnalysisValueError string
  | InvalidFinding finding_error
  | AnalysisCitation citation_error

record requirement_analysis_run =
  an_id :: uuid
  an_project_id :: uuid
  an_analyzer_version :: string
  an_citation_ids :: "uuid list"
  an_findings :: "requirement_finding list"
  an_created_at :: instant

record analysis_run_row =
  ay_id :: uuid
  ay_project_id :: uuid
  ay_analyzer_version :: string
  ay_citation_ids :: "string list"
  ay_created_at :: instant

record finding_row =
  fn_id :: uuid
  fn_project_id :: uuid
  fn_requirement_analysis_run_id :: uuid
  fn_category :: string
  fn_severity :: string
  fn_evidence :: "json list"
  fn_analysis :: string
  fn_confidence :: string
  fn_recommendation :: string
  fn_unsupported :: bool
  fn_unsupported_reason :: "string option"
  fn_created_at :: instant

record analysis_db =
  ab_projects :: "uuid list"
  ab_runs :: "analysis_run_row list"
  ab_findings :: "finding_row list"

definition analysis_run_conflict :: "analysis_run_row \<Rightarrow> analysis_run_row \<Rightarrow> bool" where
  "analysis_run_conflict r s \<longleftrightarrow> ay_id r = ay_id s"

definition finding_conflict :: "finding_row \<Rightarrow> finding_row \<Rightarrow> bool" where
  "finding_conflict f g \<longleftrightarrow> fn_id f = fn_id g"

interpretation analysis_runs: table "\<lambda>r. True" analysis_run_conflict
  by unfold_locales (simp add: analysis_run_conflict_def)

interpretation analysis_findings: table "\<lambda>f. True" finding_conflict
  by unfold_locales (simp add: finding_conflict_def)

section \<open>Text\<close>

text \<open>
  \<open>str.casefold\<close> on Latin-1.  The micro sign folds to a letter outside Latin-1 and is kept: both are word
  characters that occur in no term and in no class of the statement pattern.
\<close>

definition casefold :: "string \<Rightarrow> string" where
  "casefold s = concat (map (\<lambda>c. if code c = 223 then ''ss'' else [lower_char c]) s)"

definition word_char :: "char \<Rightarrow> bool" where
  "word_char c \<longleftrightarrow> is_alnum c \<or> c = CHR ''_''"

text \<open>\<open>\b\<close> after a text whose last character is \<open>prev\<close>.\<close>

definition boundary :: "char option \<Rightarrow> string \<Rightarrow> bool" where
  "boundary prev s \<longleftrightarrow> (case prev of None \<Rightarrow> False | Some c \<Rightarrow> word_char c) \<noteq> (case s of [] \<Rightarrow> False | c # cs \<Rightarrow> word_char c)"

fun word_search :: "string \<Rightarrow> char option \<Rightarrow> string \<Rightarrow> bool" where
  "word_search w prev s =
     (starts_with w s \<and> boundary prev s \<and> boundary (if w = [] then prev else Some (last w)) (drop (length w) s)
      \<or> (case s of [] \<Rightarrow> False | c # cs \<Rightarrow> word_search w (Some c) cs))"

declare word_search.simps [simp del]

definition requirement_marker :: "string \<Rightarrow> bool" where
  "requirement_marker s \<longleftrightarrow> list_ex (\<lambda>w. word_search w None s) [''must'', ''shall'', ''should'']"

definition AMBIGUOUS_TERMS :: "string list" where
  "AMBIGUOUS_TERMS = [''fast'', ''appropriate'', ''reasonable'', ''as needed'', ''user-friendly'']"
definition ACTION_TERMS :: "string list" where "ACTION_TERMS = [''delete'', ''update'', ''export'', ''approve'']"
definition AUTHORIZATION_TERMS :: "string list" where
  "AUTHORIZATION_TERMS = [''owner'', ''role'', ''authorized'', ''permission'', ''admin'']"
definition ERROR_TERMS :: "string list" where
  "ERROR_TERMS = [''error'', ''failure'', ''invalid'', ''not found'', ''reject'']"
definition PERFORMANCE_TERMS :: "string list" where
  "PERFORMANCE_TERMS = [''many'', ''large'', ''real time'', ''quickly'', ''high traffic'']"
definition ACCEPTANCE_MARKERS :: "string list" where
  "ACCEPTANCE_MARKERS = [''ac-'', ''acceptance criteria'', ''given'', ''when'', ''then'']"

definition mentions :: "string list \<Rightarrow> string \<Rightarrow> bool" where
  "mentions terms passage \<longleftrightarrow> list_ex (\<lambda>t. str_in t passage) terms"

definition has_measurable_bound :: "string \<Rightarrow> bool" where
  "has_measurable_bound s \<longleftrightarrow> list_ex is_digit s"

fun lazy_upto :: "nat \<Rightarrow> (char \<Rightarrow> bool) \<Rightarrow> (string \<Rightarrow> string \<Rightarrow> 'a option) \<Rightarrow> string \<Rightarrow> 'a option" where
  "lazy_upto (Suc n) p k (c # cs) =
     (case k [] (c # cs) of Some x \<Rightarrow> Some x | None \<Rightarrow> if p c then lazy_upto n p (\<lambda>m. k (c # m)) cs else None)"
| "lazy_upto n p k s = k [] s"

definition literal :: "string \<Rightarrow> (string \<Rightarrow> 'a option) \<Rightarrow> string \<Rightarrow> 'a option" where
  "literal l k s = (if starts_with l s then k (drop (length l) s) else None)"

definition lower_digit :: "char \<Rightarrow> bool" where
  "lower_digit c \<longleftrightarrow> 97 \<le> code c \<and> code c \<le> 122 \<or> is_digit c"

definition statement_char :: "char \<Rightarrow> bool" where
  "statement_char c \<longleftrightarrow> lower_digit c \<or> c \<in> {CHR '' '', CHR ''_'', CHR ''-''}"

text \<open>The predicate at the end of the text, and the statement pattern.\<close>

definition match_predicate :: "(string \<Rightarrow> 'a) \<Rightarrow> string \<Rightarrow> 'a option" where
  "match_predicate k s =
     one lower_digit (\<lambda>c. greedy_upto 160 statement_char (\<lambda>m rest. if rest = [] then Some (k (c # m)) else None)) s"

definition match_statement :: "string \<Rightarrow> (string \<times> bool \<times> string) option" where
  "match_statement s =
     one lower_digit (\<lambda>c. lazy_upto 120 statement_char (\<lambda>m. literal '' must '' (\<lambda>rest.
       case literal ''not '' (match_predicate (\<lambda>p. (c # m, True, p))) rest of
         Some x \<Rightarrow> Some x
       | None \<Rightarrow> match_predicate (\<lambda>p. (c # m, False, p)) rest))) s"

definition must_statement :: "string \<Rightarrow> (string \<times> bool \<times> string) option" where
  "must_statement passage =
     map_option (\<lambda>(subject, negative, predicate). (strip subject, negative, strip predicate))
       (match_statement (rstrip_by (\<lambda>c. c \<in> {CHR ''.'', CHR ''!'', CHR '';''}) (normalize (casefold passage))))"

section \<open>The rules\<close>

definition one_evidence :: "citation \<Rightarrow> string \<Rightarrow> finding_evidence list" where
  "one_evidence z observed = [\<lparr>fe_citation_id = ct_id z, fe_observed_fact = observed\<rparr>]"

definition supported_finding ::
  "runtime \<Rightarrow> string \<Rightarrow> finding_category \<Rightarrow> finding_severity \<Rightarrow> finding_evidence list \<Rightarrow> string \<Rightarrow> string \<Rightarrow> requirement_finding" where
  "supported_finding rt rule category severity evidence analysis recommendation =
     \<lparr>rf_id = uuid5 rt FINDING_NAMESPACE (rule @ '':'' @ join '':'' (map (\<lambda>e. uuid_str (fe_citation_id e)) evidence)),
      rf_category = category, rf_severity = severity, rf_evidence = evidence, rf_analysis = analysis, rf_confidence = ''1.0'',
      rf_recommendation = recommendation, rf_unsupported = False, rf_unsupported_reason = None\<rparr>"

definition acceptance_findings :: "runtime \<Rightarrow> citation \<Rightarrow> string \<Rightarrow> requirement_finding list" where
  "acceptance_findings rt z passage =
     (if requirement_marker passage \<and> \<not> mentions ACCEPTANCE_MARKERS passage
      then [supported_finding rt ''missing_acceptance_criteria'' MISSING_ACCEPTANCE_CRITERIA MEDIUM
        (one_evidence z ''The requirement contains a normative statement but no acceptance-criterion or Gherkin marker.'')
        ''The requirement cannot be verified consistently because its success and failure conditions are absent.''
        ''Add observable acceptance criteria, including expected success, boundary, and failure behavior.'']
      else [])"

definition quoted :: "string \<Rightarrow> string" where
  "quoted s = CHR 0x27 # s @ [CHR 0x27]"

definition ambiguity_finding :: "runtime \<Rightarrow> citation \<Rightarrow> string \<Rightarrow> requirement_finding" where
  "ambiguity_finding rt z t = supported_finding rt ''ambiguity'' AMBIGUITY MEDIUM
     (one_evidence z (''The passage uses the vague term '' @ quoted t @ ''.''))
     (quoted t @ '' is not objectively testable without a measurable definition.'')
     (''Replace '' @ quoted t @ '' with an observable threshold, time limit, or measurable acceptance criterion.'')"

definition performance_finding :: "runtime \<Rightarrow> citation \<Rightarrow> string \<Rightarrow> requirement_finding" where
  "performance_finding rt z t = supported_finding rt ''performance_risk'' PERFORMANCE_RISK MEDIUM
     (one_evidence z (''The passage uses the unbounded performance term '' @ quoted t @ ''.''))
     ''The performance expectation has no measurable volume, latency, or throughput target.''
     ''Specify workload, percentile, latency, throughput, or capacity limits.''"

text \<open>The unbounded terms of a passage, in the order of the table.\<close>

definition unbounded_terms :: "string list \<Rightarrow> string \<Rightarrow> string list" where
  "unbounded_terms terms passage = filter (\<lambda>t. str_in t passage \<and> \<not> has_measurable_bound passage) terms"

definition authorization_findings :: "runtime \<Rightarrow> citation \<Rightarrow> string \<Rightarrow> requirement_finding list" where
  "authorization_findings rt z passage =
     (if mentions ACTION_TERMS passage \<and> \<not> mentions AUTHORIZATION_TERMS passage
      then [supported_finding rt ''authorization_gap'' AUTHORIZATION_GAP HIGH
        (one_evidence z ''The passage describes a state-changing action without an explicit authorization term.'')
        ''The actor and permission boundary are not specified, so authorization behavior cannot be tested.''
        ''Specify the permitted actor, required role or ownership rule, and forbidden-access behavior.'']
      else [])"

definition error_handling_findings :: "runtime \<Rightarrow> citation \<Rightarrow> string \<Rightarrow> requirement_finding list" where
  "error_handling_findings rt z passage =
     (if mentions ACTION_TERMS passage \<and> \<not> mentions ERROR_TERMS passage
      then [supported_finding rt ''error_handling_gap'' ERROR_HANDLING_GAP MEDIUM
        (one_evidence z ''The passage describes an action without an explicit failure, invalid-input, or not-found outcome.'')
        ''The error behavior is not specified, preventing negative-path test design.''
        ''Add expected failure outcomes, error responses, and state-preservation behavior.'']
      else [])"

definition citation_findings :: "runtime \<Rightarrow> citation \<Rightarrow> requirement_finding list" where
  "citation_findings rt z =
     (let passage = casefold (ct_passage z) in
      acceptance_findings rt z passage @ map (ambiguity_finding rt z) (unbounded_terms AMBIGUOUS_TERMS passage)
      @ authorization_findings rt z passage @ error_handling_findings rt z passage
      @ map (performance_finding rt z) (unbounded_terms PERFORMANCE_TERMS passage))"

definition contradicts :: "citation \<Rightarrow> citation \<Rightarrow> bool" where
  "contradicts l r \<longleftrightarrow> (case (must_statement (ct_passage l), must_statement (ct_passage r)) of
     (Some (s, n, p), Some (s', n', p')) \<Rightarrow> s = s' \<and> p = p' \<and> n \<noteq> n' | _ \<Rightarrow> False)"

definition contradiction_finding :: "runtime \<Rightarrow> citation \<Rightarrow> citation \<Rightarrow> requirement_finding" where
  "contradiction_finding rt l r = supported_finding rt ''contradiction'' CONTRADICTION HIGH
     [\<lparr>fe_citation_id = ct_id l, fe_observed_fact = ct_passage l\<rparr>, \<lparr>fe_citation_id = ct_id r, fe_observed_fact = ct_passage r\<rparr>]
     ''The cited requirements state opposite mandatory behavior for the same normalized subject and action.''
     ''Resolve the conflict and retain one unambiguous requirement with testable acceptance criteria.''"

fun contradictions :: "runtime \<Rightarrow> citation list \<Rightarrow> requirement_finding list" where
  "contradictions rt [] = []"
| "contradictions rt (l # rs) = map (contradiction_finding rt l) (filter (contradicts l) rs) @ contradictions rt rs"

definition analyze_citations :: "runtime \<Rightarrow> citation list \<Rightarrow> requirement_finding list" where
  "analyze_citations rt citations =
     (let ordered = sort_key (\<lambda>z. uuid_str (ct_id z)) citations in
      concat (map (citation_findings rt) ordered) @ contradictions rt ordered)"

section \<open>The repository\<close>

record analysis_env =
  ae_up :: bool
  ae_now :: instant
  ae_run_id :: uuid

definition finding_record :: "uuid \<Rightarrow> uuid \<Rightarrow> instant \<Rightarrow> requirement_finding \<Rightarrow> finding_row" where
  "finding_record project run now f =
     \<lparr>fn_id = rf_id f, fn_project_id = project, fn_requirement_analysis_run_id = run, fn_category = category_value (rf_category f),
      fn_severity = severity_value (rf_severity f), fn_evidence = map evidence_payload (rf_evidence f), fn_analysis = rf_analysis f,
      fn_confidence = rf_confidence f, fn_recommendation = rf_recommendation f, fn_unsupported = rf_unsupported f,
      fn_unsupported_reason = rf_unsupported_reason f, fn_created_at = now\<rparr>"

fun insert_findings :: "finding_row list \<Rightarrow> finding_row list \<Rightarrow> db_error + finding_row list" where
  "insert_findings [] rows = Inr rows"
| "insert_findings (f # fs) rows = bindE (insert_row (\<lambda>f. True) finding_conflict f rows) (insert_findings fs)"

definition create_run ::
  "analysis_env \<Rightarrow> uuid \<Rightarrow> uuid list \<Rightarrow> requirement_finding list \<Rightarrow> analysis_db
     \<Rightarrow> (analysis_error + requirement_analysis_run) \<times> analysis_db" where
  "create_run env project citations findings db =
     (let ordered = sort_key (\<lambda>f. uuid_str (rf_id f)) findings;
          row = \<lparr>ay_id = ae_run_id env, ay_project_id = project, ay_analyzer_version = ANALYZER_VERSION,
            ay_citation_ids = map uuid_str citations, ay_created_at = ae_now env\<rparr> in
      if \<not> ae_up env then (Inl RequirementAnalysisUnavailable, db)
      else case bindE (insert_row (\<lambda>r. ay_project_id r \<in> set (ab_projects db)) analysis_run_conflict row (ab_runs db)) (\<lambda>runs.
             bindE (insert_findings (map (finding_record project (ae_run_id env) (ae_now env)) ordered) (ab_findings db)) (\<lambda>rows.
               Inr (db\<lparr>ab_runs := runs, ab_findings := rows\<rparr>))) of
        Inl _ \<Rightarrow> (Inl RequirementAnalysisUnavailable, db)
      | Inr db' \<Rightarrow> (Inr \<lparr>an_id = ae_run_id env, an_project_id = project, an_analyzer_version = ANALYZER_VERSION,
            an_citation_ids = citations, an_findings = ordered, an_created_at = ae_now env\<rparr>, db'))"

definition finding_from_record :: "finding_row \<Rightarrow> finding_error + requirement_finding" where
  "finding_from_record r = validate_requirement_finding
     [(''schema_version'', JStr REQUIREMENT_FINDING_SCHEMA_VERSION), (''id'', JStr (uuid_str (fn_id r))),
      (''category'', JStr (fn_category r)), (''severity'', JStr (fn_severity r)), (''evidence'', JArr (fn_evidence r)),
      (''analysis'', JStr (fn_analysis r)), (''confidence'', JFloat (fn_confidence r)),
      (''recommendation'', JStr (fn_recommendation r)), (''unsupported'', JBool (fn_unsupported r)),
      (''unsupported_reason'', opt_str (fn_unsupported_reason r))]"

definition stored_finding_failure :: "finding_error \<Rightarrow> analysis_error" where
  "stored_finding_failure e = (case e of RequirementFindingValidationError m \<Rightarrow> RequirementAnalysisUnavailable | _ \<Rightarrow> InvalidFinding e)"

definition stored_uuid :: "string \<Rightarrow> analysis_error + uuid" where
  "stored_uuid s = (case uuid_parse s of None \<Rightarrow> Inl RequirementAnalysisUnavailable | Some u \<Rightarrow> Inr u)"

definition get_run :: "bool \<Rightarrow> uuid \<Rightarrow> uuid \<Rightarrow> analysis_db \<Rightarrow> analysis_error + requirement_analysis_run option" where
  "get_run up project run db =
     (if \<not> up then Inl RequirementAnalysisUnavailable
      else bindE (except (scalar_one_or_none (filter (\<lambda>r. ay_id r = run \<and> ay_project_id r = project) (ab_runs db)))
             (\<lambda>_. RequirementAnalysisUnavailable)) (\<lambda>r. case r of None \<Rightarrow> Inr None
        | Some r \<Rightarrow>
            let rows = sort_key fn_id (filter (\<lambda>f. fn_requirement_analysis_run_id f = ay_id r \<and> fn_project_id f = project) (ab_findings db)) in
            bindE (mapE stored_uuid (ay_citation_ids r)) (\<lambda>citations.
            bindE (except (mapE finding_from_record rows) stored_finding_failure) (\<lambda>findings.
              Inr (Some \<lparr>an_id = ay_id r, an_project_id = ay_project_id r, an_analyzer_version = ay_analyzer_version r,
                an_citation_ids = citations, an_findings = findings, an_created_at = ay_created_at r\<rparr>)))))"

section \<open>The service\<close>

definition read_failure :: "citation_error \<Rightarrow> analysis_error" where
  "read_failure e = (if e = CitationUnavailable then RequirementAnalysisUnavailable else AnalysisCitation e)"

definition analyze ::
  "(uuid \<Rightarrow> uuid \<Rightarrow> citation_error + citation option) \<Rightarrow> runtime \<Rightarrow> analysis_env \<Rightarrow> uuid \<Rightarrow> uuid list \<Rightarrow> analysis_db
     \<Rightarrow> (analysis_error + requirement_analysis_run) \<times> analysis_db" where
  "analyze get rt env project citations db =
     (if citations = [] then (Inl (AnalysisValueError ''At least one citation is required''), db)
      else if \<not> distinct citations then (Inl (AnalysisValueError ''Citation IDs must not repeat''), db)
      else case except (mapE (get project) citations) read_failure of
        Inl e \<Rightarrow> (Inl e, db)
      | Inr found \<Rightarrow>
          if None \<in> set found then (Inl (AnalysisValueError ''Citation not found''), db)
          else case except (mapE (\<lambda>f. validate_requirement_finding (finding_payload f)) (analyze_citations rt (map the found))) InvalidFinding of
              Inl e \<Rightarrow> (Inl e, db)
            | Inr findings \<Rightarrow> create_run env project citations findings db)"

end
