(* ===== verification/Uuid_Order.thy ===== *)
theory Uuid_Order
  imports Py_Uuid
begin

text \<open>
  The text of a UUID orders as the UUID: sorting by \<open>str(id)\<close> in Python and by the column in SQL agree.
\<close>

lemma append_less:
  "length a = length b \<Longrightarrow> (a @ c < b @ d) = (a < b \<or> a = b \<and> c < (d :: 'a :: linorder list))"
  by (induction a b rule: list_induct2) auto

lemma digit_char_less: "m < 16 \<Longrightarrow> n < 16 \<Longrightarrow> digit_char m < digit_char n \<longleftrightarrow> m < n"
  by (simp add: less_char_def digit_char.simps)

lemma digit_char_eq: "m < 16 \<Longrightarrow> n < 16 \<Longrightarrow> digit_char m = digit_char n \<longleftrightarrow> m = n"
  using digit_char_less [of m n] digit_char_less [of n m] by (metis less_irrefl linorder_neqE_nat)

lemma mod_16_power: "(n :: nat) mod 16 ^ Suc w = 16 * (n div 16 mod 16 ^ w) + n mod 16"
  by (simp add: mod_mult2_eq)

lemma digits_order:
  "r < 16 \<Longrightarrow> s < 16 \<Longrightarrow> (16 * a + r < 16 * b + s) = (a < b \<or> a = b \<and> r < (s :: nat))"
  "r < 16 \<Longrightarrow> s < 16 \<Longrightarrow> (16 * a + r = 16 * b + s) = (a = b \<and> r = (s :: nat))"
  by (cases a b rule: linorder_cases; simp)+

lemma hex_digits_order:
  "(hex_digits w m < hex_digits w n) = (m mod 16 ^ w < n mod 16 ^ w)
   \<and> (hex_digits w m = hex_digits w n) = (m mod 16 ^ w = n mod 16 ^ w)"
proof (induction w arbitrary: m n)
  case (Suc w)
  let ?a = "m div 16 mod 16 ^ w" let ?b = "n div 16 mod 16 ^ w"
  have r: "m mod 16 < 16" "n mod 16 < 16" by simp_all
  have "hex_digits (Suc w) m < hex_digits (Suc w) n \<longleftrightarrow> ?a < ?b \<or> ?a = ?b \<and> m mod 16 < n mod 16"
    using Suc.IH [of "m div 16" "n div 16"] digit_char_less [OF r] by (simp add: append_less)
  moreover have "hex_digits (Suc w) m = hex_digits (Suc w) n \<longleftrightarrow> ?a = ?b \<and> m mod 16 = n mod 16"
    using Suc.IH [of "m div 16" "n div 16"] digit_char_eq [OF r] by simp
  moreover have "(16 * ?a + m mod 16 < 16 * ?b + n mod 16) = (?a < ?b \<or> ?a = ?b \<and> m mod 16 < n mod 16)"
    "(16 * ?a + m mod 16 = 16 * ?b + n mod 16) = (?a = ?b \<and> m mod 16 = n mod 16)"
    using r by (rule digits_order)+
  ultimately show ?case unfolding mod_16_power by (simp only:)
qed simp

lemma pieces_less:
  assumes "length x = length y"
  shows "(take n x @ s @ drop n x < take n y @ s @ drop n y) = (x < (y :: 'a :: linorder list))"
proof -
  have l: "length (take n x) = length (take n y)" using assms by simp
  have "(x < y) = (take n x < take n y \<or> take n x = take n y \<and> drop n x < drop n y)"
    using append_less [OF l, of "drop n x" "drop n y"] by simp
  moreover have "(s @ drop n x < s @ drop n y) = (drop n x < drop n y)" by (simp add: append_less)
  ultimately show ?thesis by (simp add: append_less [OF l])
qed

definition dashed :: "nat \<Rightarrow> string \<Rightarrow> string" where
  "dashed n x = take n x @ ''-'' @ drop n x"

lemma dashed_less: "length x = length y \<Longrightarrow> (dashed n x < dashed n y) = (x < y)"
  unfolding dashed_def by (rule pieces_less)

lemma length_dashed [simp]: "length (dashed n x) = Suc (length x)"
  by (simp add: dashed_def)

lemma uuid_str_dashed: "uuid_str u = dashed 8 (dashed 12 (dashed 16 (dashed 20 (hex_digits 32 (unat u)))))"
proof -
  let ?h = "hex_digits 32 (unat u)"
  have "length ?h = 32" by simp
  then obtain a b c d e where "?h = a @ b @ c @ d @ e" "length a = 8" "length b = 4" "length c = 4" "length d = 4" "length e = 12"
    using append_take_drop_id [of 8 ?h] append_take_drop_id [of 4 "drop 8 ?h"] append_take_drop_id [of 4 "drop 12 ?h"]
      append_take_drop_id [of 4 "drop 16 ?h"]
    by (auto intro!: that [of "take 8 ?h" "take 4 (drop 8 ?h)" "take 4 (drop 12 ?h)" "take 4 (drop 16 ?h)" "drop 20 ?h"])
  then show ?thesis by (simp add: uuid_str_def Let_def dashed_def)
qed

theorem uuid_str_less: "uuid_str u < uuid_str v \<longleftrightarrow> u < v"
proof -
  have "uuid_str u < uuid_str v \<longleftrightarrow> hex_digits 32 (unat u) < hex_digits 32 (unat v)"
    by (simp add: uuid_str_dashed dashed_less)
  also have "\<dots> \<longleftrightarrow> unat u mod 16 ^ 32 < unat v mod 16 ^ 32" using hex_digits_order by blast
  also have "\<dots> \<longleftrightarrow> unat u < unat v"
  proof -
    have "unat w < 16 ^ 32" for w :: uuid by (rule order.strict_trans2 [OF unsigned_less]) simp
    then show ?thesis by simp
  qed
  finally show ?thesis by (simp add: word_less_nat_alt)
qed

lemma uuid_str_le: "uuid_str u \<le> uuid_str v \<longleftrightarrow> u \<le> v"
  using uuid_str_less [of v u] by (simp add: not_less [symmetric])

lemma sort_key_uuid_str: "sort_key (\<lambda>x. uuid_str (k x)) xs = sort_key k xs"
proof -
  have i: "insort_key (\<lambda>x. uuid_str (k x)) x ys = insort_key k x ys" for x ys
    by (induction ys) (simp_all add: uuid_str_le)
  have "insort_key (\<lambda>x. uuid_str (k x)) = insort_key k" by (intro ext) (rule i)
  then show ?thesis by (simp add: sort_key_def)
qed

end
