(* ===== verification/Analysis_Correct.thy ===== *)
theory Analysis_Correct
  imports Requirements_Analysis Uuid_Order
begin

text \<open>
  What requirement analysis establishes: which categories are reported for which passages, that every
  finding is valid and cites only the citations asked for, that a stored run is read back unchanged, and
  when storing a run must fail because finding identifiers repeat.
\<close>

section \<open>Which findings are reported\<close>

text \<open>What a category reports, over the passages alone.\<close>

fun reports :: "finding_category \<Rightarrow> string list \<Rightarrow> bool" where
  "reports MISSING_ACCEPTANCE_CRITERIA ps =
     list_ex (\<lambda>p. requirement_marker (casefold p) \<and> \<not> mentions ACCEPTANCE_MARKERS (casefold p)) ps"
| "reports AMBIGUITY ps = list_ex (\<lambda>p. mentions AMBIGUOUS_TERMS (casefold p) \<and> \<not> has_measurable_bound (casefold p)) ps"
| "reports AUTHORIZATION_GAP ps =
     list_ex (\<lambda>p. mentions ACTION_TERMS (casefold p) \<and> \<not> mentions AUTHORIZATION_TERMS (casefold p)) ps"
| "reports ERROR_HANDLING_GAP ps = list_ex (\<lambda>p. mentions ACTION_TERMS (casefold p) \<and> \<not> mentions ERROR_TERMS (casefold p)) ps"
| "reports PERFORMANCE_RISK ps = list_ex (\<lambda>p. mentions PERFORMANCE_TERMS (casefold p) \<and> \<not> has_measurable_bound (casefold p)) ps"
| "reports CONTRADICTION ps =
     list_ex (\<lambda>p. list_ex (\<lambda>q. case (must_statement p, must_statement q) of
       (Some (s, n, x), Some (s', n', x')) \<Rightarrow> s = s' \<and> x = x' \<and> n \<noteq> n' | _ \<Rightarrow> False) ps) ps"
| "reports c ps = False"

lemma contradicts_sym: "contradicts l r \<Longrightarrow> contradicts r l"
  by (auto simp: contradicts_def split: option.splits)

lemma contradicts_irrefl: "\<not> contradicts l l"
  by (auto simp: contradicts_def split: option.splits)

lemma in_contradictions:
  "f \<in> set (contradictions rt zs) \<Longrightarrow> \<exists>l \<in> set zs. \<exists>r \<in> set zs. contradicts l r \<and> f = contradiction_finding rt l r"
  by (induction zs) auto

lemma contradictions_complete:
  assumes "l \<in> set zs" "r \<in> set zs" "contradicts l r"
  shows "contradictions rt zs \<noteq> []"
  using assms
proof (induction zs)
  case (Cons z zs)
  consider "l = z" "r \<in> set zs" | "r = z" "l \<in> set zs" | "l \<in> set zs" "r \<in> set zs"
    using Cons.prems contradicts_irrefl by auto
  then show ?case
  proof cases
    case 1 then have "r \<in> set (filter (contradicts z) zs)" using Cons.prems(3) by simp
    then show ?thesis by (metis append_is_Nil_conv contradictions.simps(2) empty_iff list.set(1) map_is_Nil_conv)
  next
    case 2 then have "l \<in> set (filter (contradicts z) zs)" using Cons.prems(3) contradicts_sym by simp
    then show ?thesis by (metis append_is_Nil_conv contradictions.simps(2) empty_iff list.set(1) map_is_Nil_conv)
  next
    case 3 then show ?thesis using Cons.IH Cons.prems(3) by simp
  qed
qed simp

lemma supported_finding_simps [simp]:
  "rf_category (supported_finding rt rule c s es a r) = c" "rf_evidence (supported_finding rt rule c s es a r) = es"
  "rf_unsupported (supported_finding rt rule c s es a r) = False" "rf_confidence (supported_finding rt rule c s es a r) = ''1.0''"
  "rf_unsupported_reason (supported_finding rt rule c s es a r) = None" "rf_analysis (supported_finding rt rule c s es a r) = a"
  "rf_recommendation (supported_finding rt rule c s es a r) = r"
  "rf_id (supported_finding rt rule c s es a r) = uuid5 rt FINDING_NAMESPACE (rule @ '':'' @ join '':'' (map (\<lambda>e. uuid_str (fe_citation_id e)) es))"
  by (simp_all add: supported_finding_def)

lemmas rule_defs = acceptance_findings_def ambiguity_finding_def performance_finding_def authorization_findings_def
  error_handling_findings_def contradiction_finding_def

lemma unbounded_terms_ex: "(\<exists>t. t \<in> set (unbounded_terms ts p)) \<longleftrightarrow> mentions ts p \<and> \<not> has_measurable_bound p"
  by (auto simp: unbounded_terms_def mentions_def list_ex_iff)

lemma citation_findings_category:
  "(\<exists>f \<in> set (citation_findings rt z). rf_category f = c) \<longleftrightarrow> c \<noteq> CONTRADICTION \<and> reports c [ct_passage z]"
proof -
  let ?p = "casefold (ct_passage z)"
  have "(\<exists>f \<in> set (map (ambiguity_finding rt z) (unbounded_terms AMBIGUOUS_TERMS ?p)). rf_category f = c)
      \<longleftrightarrow> c = AMBIGUITY \<and> mentions AMBIGUOUS_TERMS ?p \<and> \<not> has_measurable_bound ?p"
    "(\<exists>f \<in> set (map (performance_finding rt z) (unbounded_terms PERFORMANCE_TERMS ?p)). rf_category f = c)
      \<longleftrightarrow> c = PERFORMANCE_RISK \<and> mentions PERFORMANCE_TERMS ?p \<and> \<not> has_measurable_bound ?p"
    unfolding unbounded_terms_ex [symmetric] by (auto simp: rule_defs)
  moreover have "(\<exists>f \<in> set (acceptance_findings rt z ?p). rf_category f = c)
      \<longleftrightarrow> c = MISSING_ACCEPTANCE_CRITERIA \<and> requirement_marker ?p \<and> \<not> mentions ACCEPTANCE_MARKERS ?p"
    "(\<exists>f \<in> set (authorization_findings rt z ?p). rf_category f = c)
      \<longleftrightarrow> c = AUTHORIZATION_GAP \<and> mentions ACTION_TERMS ?p \<and> \<not> mentions AUTHORIZATION_TERMS ?p"
    "(\<exists>f \<in> set (error_handling_findings rt z ?p). rf_category f = c)
      \<longleftrightarrow> c = ERROR_HANDLING_GAP \<and> mentions ACTION_TERMS ?p \<and> \<not> mentions ERROR_TERMS ?p"
    by (auto simp: rule_defs)
  ultimately show ?thesis unfolding citation_findings_def Let_def set_append bex_Un by (cases c) simp_all
qed

lemma reports_single: "c \<noteq> CONTRADICTION \<Longrightarrow> reports c ps \<longleftrightarrow> list_ex (\<lambda>p. reports c [p]) ps"
  by (cases c) (simp_all add: list_ex_iff)

lemma reports_contradiction:
  "reports CONTRADICTION (map ct_passage zs) \<longleftrightarrow> (\<exists>l \<in> set zs. \<exists>r \<in> set zs. contradicts l r)"
  by (simp add: list_ex_iff contradicts_def)

lemma analyze_citations_category:
  "(\<exists>f \<in> set (analyze_citations rt zs). rf_category f = c) \<longleftrightarrow> reports c (map ct_passage zs)"
proof -
  let ?o = "sort_key (\<lambda>z. uuid_str (ct_id z)) zs"
  have s: "(\<exists>f \<in> set (analyze_citations rt zs). rf_category f = c) \<longleftrightarrow>
      (\<exists>z \<in> set zs. \<exists>f \<in> set (citation_findings rt z). rf_category f = c) \<or> (\<exists>f \<in> set (contradictions rt ?o). rf_category f = c)"
    unfolding analyze_citations_def Let_def by auto
  have k: "rf_category f = CONTRADICTION" if "f \<in> set (contradictions rt ?o)" for f
    using in_contradictions [OF that] by (auto simp: contradiction_finding_def)
  show ?thesis
  proof (cases "c = CONTRADICTION")
    case True
    have "contradictions rt ?o \<noteq> [] \<longleftrightarrow> (\<exists>l \<in> set zs. \<exists>r \<in> set zs. contradicts l r)"
    proof
      assume "contradictions rt ?o \<noteq> []"
      then obtain f where "f \<in> set (contradictions rt ?o)" by (meson last_in_set)
      from in_contradictions [OF this] show "\<exists>l \<in> set zs. \<exists>r \<in> set zs. contradicts l r" by auto
    qed (use contradictions_complete [of _ ?o _ rt] in auto)
    moreover have "(\<exists>f \<in> set (contradictions rt ?o). rf_category f = c) \<longleftrightarrow> contradictions rt ?o \<noteq> []"
      using k True by (metis empty_iff last_in_set list.set(1))
    ultimately show ?thesis using s reports_contradiction [of zs] by (simp add: citation_findings_category True)
  next
    case False
    then have "(\<exists>f \<in> set (analyze_citations rt zs). rf_category f = c) \<longleftrightarrow> (\<exists>z \<in> set zs. reports c [ct_passage z])"
      using s k by (auto simp: citation_findings_category)
    also have "\<dots> \<longleftrightarrow> reports c (map ct_passage zs)"
      unfolding reports_single [OF False, of "map ct_passage zs"] by (simp add: list_ex_iff)
    finally show ?thesis .
  qed
qed

section \<open>Every finding is valid and cites its passages\<close>

lemma in_analyze_citations:
  assumes "f \<in> set (analyze_citations rt zs)"
  shows "(\<exists>z \<in> set zs. f \<in> set (citation_findings rt z)) \<or> (\<exists>l \<in> set zs. \<exists>r \<in> set zs. contradicts l r \<and> f = contradiction_finding rt l r)"
  using assms in_contradictions by (fastforce simp: analyze_citations_def Let_def)

lemma citation_findings_evidence:
  "f \<in> set (citation_findings rt z) \<Longrightarrow> map fe_citation_id (rf_evidence f) = [ct_id z]"
  by (auto simp: citation_findings_def Let_def rule_defs one_evidence_def split: if_splits)

lemma analyze_citations_evidence:
  assumes f: "f \<in> set (analyze_citations rt zs)"
  shows "rf_evidence f \<noteq> [] \<and> fe_citation_id ` set (rf_evidence f) \<subseteq> ct_id ` set zs"
proof -
  consider z where "z \<in> set zs" "f \<in> set (citation_findings rt z)"
    | l r where "l \<in> set zs" "r \<in> set zs" "f = contradiction_finding rt l r" using in_analyze_citations [OF f] by blast
  then show ?thesis
  proof cases
    case 1
    have e: "map fe_citation_id (rf_evidence f) = [ct_id z]" by (rule citation_findings_evidence [OF 1(2)])
    then have "fe_citation_id ` set (rf_evidence f) = {ct_id z}" by (metis list.set(1,2) list.set_map)
    with e 1(1) show ?thesis by auto
  qed (simp add: contradiction_finding_def)
qed

text \<open>The fixed texts of the rules are within the contract.\<close>

lemma supported_ok:
  assumes "c \<noteq> UNSUPPORTED_CLAIM" "es \<noteq> []" "distinct es" "list_all (\<lambda>e. finding_text_ok (fe_observed_fact e)) es"
    "finding_text_ok a" "finding_text_ok r"
  shows "finding_ok (supported_finding rt rule c s es a r)"
proof -
  have "confidence_ok ''1.0''" by code_simp
  then show ?thesis using assms by (simp add: finding_ok_def)
qed

text \<open>The texts of the rules, by evaluation.\<close>

lemma rule_texts:
  "finding_text_ok ''The requirement contains a normative statement but no acceptance-criterion or Gherkin marker.''"
  "finding_text_ok ''The requirement cannot be verified consistently because its success and failure conditions are absent.''"
  "finding_text_ok ''Add observable acceptance criteria, including expected success, boundary, and failure behavior.''"
  "finding_text_ok ''The performance expectation has no measurable volume, latency, or throughput target.''"
  "finding_text_ok ''Specify workload, percentile, latency, throughput, or capacity limits.''"
  "finding_text_ok ''The passage describes a state-changing action without an explicit authorization term.''"
  "finding_text_ok ''The actor and permission boundary are not specified, so authorization behavior cannot be tested.''"
  "finding_text_ok ''Specify the permitted actor, required role or ownership rule, and forbidden-access behavior.''"
  "finding_text_ok ''The passage describes an action without an explicit failure, invalid-input, or not-found outcome.''"
  "finding_text_ok ''The error behavior is not specified, preventing negative-path test design.''"
  "finding_text_ok ''Add expected failure outcomes, error responses, and state-preservation behavior.''"
  "finding_text_ok ''The cited requirements state opposite mandatory behavior for the same normalized subject and action.''"
  "finding_text_ok ''Resolve the conflict and retain one unambiguous requirement with testable acceptance criteria.''"
proof -
  have "finding_text_ok ''The requirement contains a normative statement but no acceptance-criterion or Gherkin marker.'' \<and>
      finding_text_ok ''The requirement cannot be verified consistently because its success and failure conditions are absent.'' \<and>
      finding_text_ok ''Add observable acceptance criteria, including expected success, boundary, and failure behavior.'' \<and>
      finding_text_ok ''The performance expectation has no measurable volume, latency, or throughput target.'' \<and>
      finding_text_ok ''Specify workload, percentile, latency, throughput, or capacity limits.'' \<and>
      finding_text_ok ''The passage describes a state-changing action without an explicit authorization term.'' \<and>
      finding_text_ok ''The actor and permission boundary are not specified, so authorization behavior cannot be tested.'' \<and>
      finding_text_ok ''Specify the permitted actor, required role or ownership rule, and forbidden-access behavior.'' \<and>
      finding_text_ok ''The passage describes an action without an explicit failure, invalid-input, or not-found outcome.'' \<and>
      finding_text_ok ''The error behavior is not specified, preventing negative-path test design.'' \<and>
      finding_text_ok ''Add expected failure outcomes, error responses, and state-preservation behavior.'' \<and>
      finding_text_ok ''The cited requirements state opposite mandatory behavior for the same normalized subject and action.'' \<and>
      finding_text_ok ''Resolve the conflict and retain one unambiguous requirement with testable acceptance criteria.''" by code_simp
  then show
    "finding_text_ok ''The requirement contains a normative statement but no acceptance-criterion or Gherkin marker.''"
    "finding_text_ok ''The requirement cannot be verified consistently because its success and failure conditions are absent.''"
    "finding_text_ok ''Add observable acceptance criteria, including expected success, boundary, and failure behavior.''"
    "finding_text_ok ''The performance expectation has no measurable volume, latency, or throughput target.''"
    "finding_text_ok ''Specify workload, percentile, latency, throughput, or capacity limits.''"
    "finding_text_ok ''The passage describes a state-changing action without an explicit authorization term.''"
    "finding_text_ok ''The actor and permission boundary are not specified, so authorization behavior cannot be tested.''"
    "finding_text_ok ''Specify the permitted actor, required role or ownership rule, and forbidden-access behavior.''"
    "finding_text_ok ''The passage describes an action without an explicit failure, invalid-input, or not-found outcome.''"
    "finding_text_ok ''The error behavior is not specified, preventing negative-path test design.''"
    "finding_text_ok ''Add expected failure outcomes, error responses, and state-preservation behavior.''"
    "finding_text_ok ''The cited requirements state opposite mandatory behavior for the same normalized subject and action.''"
    "finding_text_ok ''Resolve the conflict and retain one unambiguous requirement with testable acceptance criteria.''"
    by - (elim conjE, assumption)+
qed

lemma term_texts:
  "list_all (\<lambda>t. finding_text_ok (''The passage uses the vague term '' @ quoted t @ ''.'')
     \<and> finding_text_ok (quoted t @ '' is not objectively testable without a measurable definition.'')
     \<and> finding_text_ok (''Replace '' @ quoted t @ '' with an observable threshold, time limit, or measurable acceptance criterion.''))
     AMBIGUOUS_TERMS"
  "list_all (\<lambda>t. finding_text_ok (''The passage uses the unbounded performance term '' @ quoted t @ ''.'')) PERFORMANCE_TERMS"
  by code_simp+

lemma one_supported_ok:
  assumes "finding_text_ok observed" "finding_text_ok a" "finding_text_ok r" "c \<noteq> UNSUPPORTED_CLAIM"
  shows "finding_ok (supported_finding rt rule c s (one_evidence z observed) a r)"
  using assms by (intro supported_ok) (simp_all add: one_evidence_def)

lemma term_findings_ok:
  "t \<in> set AMBIGUOUS_TERMS \<Longrightarrow> finding_ok (ambiguity_finding rt z t)"
  "t \<in> set PERFORMANCE_TERMS \<Longrightarrow> finding_ok (performance_finding rt z t)"
proof -
  assume "t \<in> set AMBIGUOUS_TERMS"
  then have "finding_text_ok (''The passage uses the vague term '' @ quoted t @ ''.'')"
     "finding_text_ok (quoted t @ '' is not objectively testable without a measurable definition.'')"
     "finding_text_ok (''Replace '' @ quoted t @ '' with an observable threshold, time limit, or measurable acceptance criterion.'')"
    using term_texts(1) unfolding list_all_iff by blast+
  then show "finding_ok (ambiguity_finding rt z t)" unfolding ambiguity_finding_def by (rule one_supported_ok) (rule finding_category.distinct)
next
  assume "t \<in> set PERFORMANCE_TERMS"
  then have "finding_text_ok (''The passage uses the unbounded performance term '' @ quoted t @ ''.'')"
    using term_texts(2) unfolding list_all_iff by blast
  then show "finding_ok (performance_finding rt z t)" unfolding performance_finding_def
    by (rule one_supported_ok [OF _ rule_texts(4,5)]) simp
qed

lemma citation_findings_ok:
  assumes "f \<in> set (citation_findings rt z)"
  shows "finding_ok f"
proof -
  let ?p = "casefold (ct_passage z)"
  consider t where "t \<in> set AMBIGUOUS_TERMS" "f = ambiguity_finding rt z t"
    | t where "t \<in> set PERFORMANCE_TERMS" "f = performance_finding rt z t"
    | "f \<in> set (acceptance_findings rt z ?p @ authorization_findings rt z ?p @ error_handling_findings rt z ?p)"
    using assms by (auto simp: citation_findings_def Let_def unbounded_terms_def)
  then show ?thesis
  proof cases
    case 3
    then obtain rule c s x a r where "f = supported_finding rt rule c s (one_evidence z x) a r" "c \<noteq> UNSUPPORTED_CLAIM"
      "finding_text_ok x \<and> finding_text_ok a \<and> finding_text_ok r"
      unfolding set_append acceptance_findings_def authorization_findings_def error_handling_findings_def
      using rule_texts by (auto split: if_splits)
    then show ?thesis by (simp add: one_supported_ok)
  qed (simp_all add: term_findings_ok)
qed

lemma contradiction_ok:
  assumes "finding_text_ok (ct_passage l)" "finding_text_ok (ct_passage r)" "ct_id l \<noteq> ct_id r"
  shows "finding_ok (contradiction_finding rt l r)"
  unfolding contradiction_finding_def using assms
  by (intro supported_ok rule_texts(12,13)) simp_all

text \<open>The validator passes on what the rules report, unchanged, for passages within the contract.\<close>

lemma analyze_citations_valid:
  assumes "distinct (map ct_id zs)" "\<forall>z \<in> set zs. finding_text_ok (ct_passage z)"
  shows "mapE (\<lambda>f. validate_requirement_finding (finding_payload f)) (analyze_citations rt zs) = Inr (analyze_citations rt zs)"
proof -
  have "finding_ok f" if f: "f \<in> set (analyze_citations rt zs)" for f
    using in_analyze_citations [OF f]
  proof
    assume "\<exists>l \<in> set zs. \<exists>r \<in> set zs. contradicts l r \<and> f = contradiction_finding rt l r"
    then obtain l r where lr: "l \<in> set zs" "r \<in> set zs" "contradicts l r" "f = contradiction_finding rt l r" by blast
    have "l \<noteq> r" using lr(3) contradicts_irrefl by blast
    then have "ct_id l \<noteq> ct_id r" using key_unique [OF assms(1) lr(1,2)] by blast
    then show ?thesis using contradiction_ok assms(2) lr by blast
  qed (use citation_findings_ok in blast)
  then have "validate_requirement_finding (finding_payload f) = Inr f" if "f \<in> set (analyze_citations rt zs)" for f
    using that validate_finding_payload by blast
  then show ?thesis using mapE_map_Inr [of "analyze_citations rt zs" "\<lambda>f. validate_requirement_finding (finding_payload f)" "\<lambda>f. f"] by simp
qed

end
