(* ===== verification/Analysis_Runs.thy ===== *)
theory Analysis_Runs
  imports Analysis_Correct
begin

text \<open>
  Stored analysis runs: when a run is stored, that it is read back as it was returned, and that the finding
  identifiers, which depend only on the rule and the citations, make a repeated analysis fail.
\<close>

section \<open>The invariant\<close>

definition stored_finding :: "finding_row \<Rightarrow> bool" where
  "stored_finding r \<longleftrightarrow> (\<exists>f. finding_ok f \<and> r = finding_record (fn_project_id r) (fn_requirement_analysis_run_id r) (fn_created_at r) f)"

definition analysis_ok :: "analysis_db \<Rightarrow> bool" where
  "analysis_ok db \<longleftrightarrow> table_ok (\<lambda>r. True) analysis_run_conflict (ab_runs db) \<and> table_ok (\<lambda>f. True) finding_conflict (ab_findings db)
     \<and> list_all (\<lambda>r. ay_project_id r \<in> set (ab_projects db)) (ab_runs db)
     \<and> list_all (\<lambda>f. stored_finding f \<and> fn_requirement_analysis_run_id f \<in> ay_id ` set (ab_runs db)) (ab_findings db)"

lemma finding_record_simps [simp]:
  "fn_id (finding_record p r t f) = rf_id f" "fn_project_id (finding_record p r t f) = p"
  "fn_requirement_analysis_run_id (finding_record p r t f) = r" "fn_created_at (finding_record p r t f) = t"
  by (simp_all add: finding_record_def)

lemma finding_from_record_eq: "finding_from_record (finding_record p r t f) = validate_requirement_finding (finding_payload f)"
  by (simp add: finding_from_record_def finding_record_def finding_payload_def)

lemma insert_findings_iff:
  "insert_findings fs rows = Inr rows' \<longleftrightarrow>
     rows' = rows @ fs \<and> distinct (map fn_id fs) \<and> fn_id ` set fs \<inter> fn_id ` set rows = {}"
proof (induction fs arbitrary: rows)
  case (Cons f fs)
  have "insert_findings (f # fs) rows = Inr rows' \<longleftrightarrow> fn_id f \<notin> fn_id ` set rows \<and> insert_findings fs (rows @ [f]) = Inr rows'"
    by (auto simp: bindE_eq_Inr store_simps finding_conflict_def)
  then show ?case unfolding Cons.IH by auto
qed auto

lemma no_conflict_key: "no_conflict (\<lambda>r s. k r = k s) rows = distinct (map k rows)"
  by (induction rows) (auto simp: list_all_iff image_iff)

lemma table_ok_ids:
  "table_ok (\<lambda>f. True) finding_conflict rows \<longleftrightarrow> distinct (map fn_id rows)"
  "table_ok (\<lambda>f. True) analysis_run_conflict runs \<longleftrightarrow> distinct (map ay_id runs)"
proof -
  have c: "finding_conflict = (\<lambda>r s. fn_id r = fn_id s)" "analysis_run_conflict = (\<lambda>r s. ay_id r = ay_id s)"
    by (simp_all add: fun_eq_iff finding_conflict_def analysis_run_conflict_def)
  show "table_ok (\<lambda>f. True) finding_conflict rows \<longleftrightarrow> distinct (map fn_id rows)"
    "table_ok (\<lambda>f. True) analysis_run_conflict runs \<longleftrightarrow> distinct (map ay_id runs)"
    unfolding table_ok_def c no_conflict_key by simp_all
qed

section \<open>Storing a run\<close>

definition run_row :: "analysis_env \<Rightarrow> uuid \<Rightarrow> uuid list \<Rightarrow> analysis_run_row" where
  "run_row env project citations = \<lparr>ay_id = ae_run_id env, ay_project_id = project, ay_analyzer_version = ANALYZER_VERSION,
     ay_citation_ids = map uuid_str citations, ay_created_at = ae_now env\<rparr>"

definition run_of :: "analysis_env \<Rightarrow> uuid \<Rightarrow> uuid list \<Rightarrow> requirement_finding list \<Rightarrow> requirement_analysis_run" where
  "run_of env project citations findings = \<lparr>an_id = ae_run_id env, an_project_id = project, an_analyzer_version = ANALYZER_VERSION,
     an_citation_ids = citations, an_findings = sort_key rf_id findings, an_created_at = ae_now env\<rparr>"

definition storable :: "analysis_env \<Rightarrow> uuid \<Rightarrow> requirement_finding list \<Rightarrow> analysis_db \<Rightarrow> bool" where
  "storable env project findings db \<longleftrightarrow> ae_up env \<and> project \<in> set (ab_projects db) \<and> ae_run_id env \<notin> ay_id ` set (ab_runs db)
     \<and> distinct (map rf_id findings) \<and> rf_id ` set findings \<inter> fn_id ` set (ab_findings db) = {}"

definition stored_db :: "analysis_env \<Rightarrow> uuid \<Rightarrow> uuid list \<Rightarrow> requirement_finding list \<Rightarrow> analysis_db \<Rightarrow> analysis_db" where
  "stored_db env project citations findings db = db\<lparr>ab_runs := ab_runs db @ [run_row env project citations],
     ab_findings := ab_findings db @ map (finding_record project (ae_run_id env) (ae_now env)) (sort_key rf_id findings)\<rparr>"

lemma create_run_iff:
  "create_run env project citations findings db =
     (if storable env project findings db then (Inr (run_of env project citations findings), stored_db env project citations findings db)
      else (Inl RequirementAnalysisUnavailable, db))"
proof -
  let ?fs = "map (finding_record project (ae_run_id env) (ae_now env)) (sort_key rf_id findings)"
  have d: "distinct (map fn_id ?fs) \<longleftrightarrow> distinct (map rf_id findings)" "fn_id ` set ?fs = rf_id ` set findings"
    by (simp_all add: distinct_map comp_def image_image)
  have r: "insert_row (\<lambda>r. ay_project_id r \<in> set (ab_projects db)) analysis_run_conflict (run_row env project citations) (ab_runs db)
      = (if project \<in> set (ab_projects db) \<and> ae_run_id env \<notin> ay_id ` set (ab_runs db) then Inr (ab_runs db @ [run_row env project citations])
         else Inl IntegrityError)"
    by (auto simp: insert_row_def run_row_def analysis_run_conflict_def list_all_iff image_iff)
  show ?thesis
  proof (cases "insert_findings ?fs (ab_findings db)")
    case (Inl e)
    then have "\<not> storable env project findings db" using insert_findings_iff [of ?fs "ab_findings db"] d by (auto simp: storable_def)
    then show ?thesis by (simp add: create_run_def Let_def sort_key_uuid_str run_row_def [symmetric] r Inl)
  next
    case (Inr rows)
    then have rows: "rows = ab_findings db @ ?fs" "distinct (map rf_id findings)" "rf_id ` set findings \<inter> fn_id ` set (ab_findings db) = {}"
      using insert_findings_iff [of ?fs "ab_findings db"] d by auto
    show ?thesis
      by (simp add: create_run_def Let_def sort_key_uuid_str run_row_def [symmetric] r Inr rows storable_def run_of_def stored_db_def)
  qed
qed

section \<open>Reading a run back\<close>

lemma store_keeps:
  assumes ok: "analysis_ok db" and s: "storable env project findings db" and f: "list_all finding_ok findings"
  shows "analysis_ok (stored_db env project citations findings db)"
proof -
  have "distinct (map fn_id (ab_findings (stored_db env project citations findings db)))"
    using ok s by (auto simp: analysis_ok_def table_ok_ids storable_def stored_db_def distinct_map comp_def image_image)
  moreover have "distinct (map ay_id (ab_runs (stored_db env project citations findings db)))"
    using ok s by (simp add: analysis_ok_def table_ok_ids storable_def stored_db_def run_row_def)
  moreover have "stored_finding (finding_record project (ae_run_id env) (ae_now env) g)" if "g \<in> set findings" for g
    using that f by (auto simp: stored_finding_def list_all_iff)
  ultimately show ?thesis using ok s unfolding analysis_ok_def table_ok_ids
    by (auto simp: storable_def stored_db_def run_row_def list_all_iff)
qed

lemma get_stored_run:
  assumes ok: "analysis_ok db" and s: "storable env project findings db" and f: "list_all finding_ok findings"
  shows "get_run True project (ae_run_id env) (stored_db env project citations findings db) = Inr (Some (run_of env project citations findings))"
proof -
  let ?db = "stored_db env project citations findings db" let ?r = "ae_run_id env"
  let ?rec = "finding_record project ?r (ae_now env)"
  have "filter (\<lambda>r. ay_id r = ?r \<and> ay_project_id r = project) (ab_runs ?db) = [run_row env project citations]"
    using s by (force simp: stored_db_def run_row_def storable_def filter_empty_conv)
  moreover have "filter (\<lambda>f. fn_requirement_analysis_run_id f = ?r \<and> fn_project_id f = project) (ab_findings ?db) = map ?rec (sort_key rf_id findings)"
  proof -
    have "fn_requirement_analysis_run_id f \<noteq> ?r" if "f \<in> set (ab_findings db)" for f
      using ok s that unfolding analysis_ok_def storable_def list_all_iff by metis
    then have "filter (\<lambda>f. fn_requirement_analysis_run_id f = ?r \<and> fn_project_id f = project) (ab_findings db) = []"
      by (simp add: filter_empty_conv)
    then show ?thesis by (simp add: stored_db_def filter_id_conv)
  qed
  moreover have "sort_key fn_id (map ?rec (sort_key rf_id findings)) = map ?rec (sort_key rf_id findings)"
    by (rule sort_key_id_if_sorted) (simp add: comp_def)
  moreover have "mapE finding_from_record (map ?rec (sort_key rf_id findings)) = Inr (sort_key rf_id findings)"
    by (rule mapE_map_Inr) (use f in \<open>simp add: finding_from_record_eq validate_finding_payload list_all_iff\<close>)
  moreover have "mapE stored_uuid (map uuid_str citations) = Inr citations"
    by (rule mapE_map_Inr) (simp add: stored_uuid_def)
  ultimately show ?thesis by (simp add: get_run_def run_row_def run_of_def)
qed

lemma get_run_sound:
  assumes "get_run up project run db = Inr (Some a)"
  shows "an_id a = run" "an_project_id a = project" "list_all finding_ok (an_findings a)"
proof -
  have m: "list_all finding_ok fs" if "mapE finding_from_record rows = Inr fs" for rows fs
    unfolding list_all_iff
  proof (rule mapE_all [OF that])
    show "finding_ok f" if "finding_from_record r = Inr f" for r f
      using validate_finding_sound that unfolding finding_from_record_def by blast
  qed
  from assms show "an_id a = run" "an_project_id a = project" "list_all finding_ok (an_findings a)"
    by (auto simp: get_run_def bindE_eq_Inr except_eq_Inr store_simps Let_def filter_eq_Cons_iff m split: if_splits option.splits)
qed

section \<open>Identifiers of findings\<close>

lemma validated_id:
  assumes "validate_requirement_finding (finding_payload f) = Inr g"
  shows "rf_id g = rf_id f"
proof -
  have i: "finding_item (finding_payload f) ''id'' = Inr (JStr (uuid_str (rf_id f)))"
    by (simp add: finding_item_def finding_payload_def)
  from assms show ?thesis by (auto simp: validate_requirement_finding_def bindE_eq_Inr i Let_def)
qed

lemma validated_ids:
  "mapE (\<lambda>f. validate_requirement_finding (finding_payload f)) fs = Inr gs \<Longrightarrow> map rf_id gs = map rf_id fs"
  by (induction fs arbitrary: gs) (auto simp: bindE_eq_Inr validated_id)

lemma validated_citations:
  assumes "validate_requirement_finding (finding_payload f) = Inr g"
  shows "map fe_citation_id (rf_evidence g) = map fe_citation_id (rf_evidence f)"
proof -
  have i: "finding_item (finding_payload f) ''evidence'' = Inr (JArr (map evidence_payload (rf_evidence f)))"
    by (simp add: finding_item_def finding_payload_def)
  have e: "fe_citation_id e' = fe_citation_id e" if "finding_evidence_item (evidence_payload e) = Inr e'" for e e'
    using that by (auto simp: finding_evidence_item_def evidence_payload_def bindE_eq_Inr finding_item_def)
  have m: "map fe_citation_id es' = map fe_citation_id es" if "mapE finding_evidence_item (map evidence_payload es) = Inr es'" for es es'
    using that by (induction es arbitrary: es') (auto simp: bindE_eq_Inr e)
  from assms have "finding_evidence_of (JArr (map evidence_payload (rf_evidence f))) = Inr (rf_evidence g)"
    by (auto simp: validate_requirement_finding_def bindE_eq_Inr i Let_def)
  then show ?thesis using m by (auto simp: finding_evidence_of_def bindE_eq_Inr)
qed

text \<open>Two unbounded terms of one table give two findings with one identifier.\<close>

lemma unbounded_ids:
  assumes z: "z \<in> set zs" and p: "p = casefold (ct_passage z)"
    and two: "2 \<le> length (unbounded_terms AMBIGUOUS_TERMS p) \<or> 2 \<le> length (unbounded_terms PERFORMANCE_TERMS p)"
  shows "\<not> distinct (map rf_id (analyze_citations rt zs))"
proof
  let ?o = "sort_key (\<lambda>z. uuid_str (ct_id z)) zs"
  assume "distinct (map rf_id (analyze_citations rt zs))"
  moreover have "z \<in> set ?o" using z by simp
  then obtain xs ys where "?o = xs @ z # ys" by (meson split_list)
  ultimately have d: "distinct (map rf_id (citation_findings rt z))" by (simp add: analyze_citations_def Let_def)
  have same: "\<not> distinct (map rf_id (map f ts))" if two: "2 \<le> length ts" and i: "\<And>t. rf_id (f t) = i" for f :: "string \<Rightarrow> requirement_finding" and ts i
  proof -
    obtain t t' us where "ts = t # t' # us" using two by (cases ts; cases "tl ts") auto
    then show ?thesis using i by simp
  qed
  have "rf_id (ambiguity_finding rt z t) = uuid5 rt FINDING_NAMESPACE (''ambiguity'' @ '':'' @ uuid_str (ct_id z))"
    "rf_id (performance_finding rt z t) = uuid5 rt FINDING_NAMESPACE (''performance_risk'' @ '':'' @ uuid_str (ct_id z))" for t
    by (simp_all add: rule_defs one_evidence_def)
  then have "\<not> distinct (map rf_id (map (ambiguity_finding rt z) (unbounded_terms AMBIGUOUS_TERMS p)))
      \<or> \<not> distinct (map rf_id (map (performance_finding rt z) (unbounded_terms PERFORMANCE_TERMS p)))"
    using two same by blast
  then show False using d unfolding citation_findings_def Let_def p [symmetric] map_append distinct_append by blast
qed

lemma mapE_at: "mapE f xs = Inr ys \<Longrightarrow> x \<in> set xs \<Longrightarrow> \<exists>y \<in> set ys. f x = Inr y"
  by (induction xs arbitrary: ys) (auto simp: bindE_eq_Inr)

section \<open>The service over any citation reader\<close>

text \<open>Readable citations with passages within the contract are analysed exactly when the run can be stored.\<close>

lemma analyze_readable:
  assumes "list_all2 (\<lambda>i z. get project i = Inr (Some z)) is zs" "is \<noteq> []" "distinct is" "map ct_id zs = is"
    and "\<forall>z \<in> set zs. finding_text_ok (ct_passage z)"
  shows "analyze get rt env project is db =
    (if storable env project (analyze_citations rt zs) db
     then (Inr (run_of env project is (analyze_citations rt zs)), stored_db env project is (analyze_citations rt zs) db)
     else (Inl RequirementAnalysisUnavailable, db))"
proof -
  have "mapE (get project) is = Inr (map Some zs)"
    using assms(1) by (simp add: mapE_eq_Inr list_all2_map2)
  moreover have "mapE (\<lambda>f. validate_requirement_finding (finding_payload f)) (analyze_citations rt zs) = Inr (analyze_citations rt zs)"
    by (rule analyze_citations_valid) (use assms(3-5) in simp_all)
  moreover have "map the (map Some zs) = zs" "None \<notin> set (map Some zs)" by (simp_all add: comp_def)
  ultimately show ?thesis using assms(2,3) by (simp add: analyze_def create_run_iff comp_def)
qed

text \<open>What the service relies on: a citation returned is the one asked for, of the project asked for.\<close>

locale citation_reader =
  fixes get :: "uuid \<Rightarrow> uuid \<Rightarrow> citation_error + citation option"
  assumes get_found: "get project i = Inr (Some z) \<Longrightarrow> ct_id z = i \<and> ct_project_id z = project"
begin

lemma read_all:
  assumes "mapE (get project) is = Inr found" "None \<notin> set found"
  shows "map ct_id (map the found) = is" "\<forall>z \<in> set (map the found). ct_project_id z = project"
proof -
  have "list_all2 (\<lambda>i x. get project i = Inr x) is found" using assms(1) by (simp add: mapE_eq_Inr)
  then have "map ct_id (map the found) = is \<and> (\<forall>z \<in> set (map the found). ct_project_id z = project)"
    using assms(2)
  proof (induction rule: list_all2_induct)
    case (Cons i "is" x found)
    then show ?case using get_found [of project i] by (cases x) auto
  qed simp
  then show "map ct_id (map the found) = is" "\<forall>z \<in> set (map the found). ct_project_id z = project" by blast+
qed

text \<open>A run that is returned was computed from the citations asked for, and is stored.\<close>

lemma analyze_Inr:
  assumes "analyze get rt env project is db = (Inr run, db')"
  obtains zs findings where "map ct_id zs = is" "is \<noteq> []" "distinct is" "\<forall>z \<in> set zs. ct_project_id z = project"
    "mapE (\<lambda>f. validate_requirement_finding (finding_payload f)) (analyze_citations rt zs) = Inr findings"
    "storable env project findings db" "run = run_of env project is findings" "db' = stored_db env project is findings db"
proof -
  from assms obtain found findings where f: "mapE (get project) is = Inr found" "None \<notin> set found" "is \<noteq> []" "distinct is"
    "mapE (\<lambda>f. validate_requirement_finding (finding_payload f)) (analyze_citations rt (map the found)) = Inr findings"
    "create_run env project is findings db = (Inr run, db')"
    by (auto simp: analyze_def except_eq_Inr split: if_splits sum.splits)
  from f(6) have "storable env project findings db" "run = run_of env project is findings" "db' = stored_db env project is findings db"
    by (auto simp: create_run_iff split: if_splits)
  then show thesis using read_all [OF f(1,2)] f(3-5) by (intro that [of "map the found" findings]) simp_all
qed

lemma analyze_read:
  assumes "analyze get rt env project is db = (Inr run, db')" "i \<in> set is"
  shows "\<exists>z. get project i = Inr (Some z)"
proof -
  from assms(1) obtain found where f: "mapE (get project) is = Inr found" "None \<notin> set found"
    by (auto simp: analyze_def except_eq_Inr split: if_splits sum.splits)
  obtain x where "x \<in> set found" "get project i = Inr x" using mapE_at [OF f(1) assms(2)] by blast
  then show ?thesis using f(2) by (metis option.exhaust)
qed

text \<open>A second analysis of the same citations reports the same identifiers, which are taken.\<close>

lemma analyze_again:
  assumes a: "analyze get rt env project is db = (Inr run, db1)" and ne: "an_findings run \<noteq> []"
    and sub: "set (ab_findings db1) \<subseteq> set (ab_findings db2)"
  shows "analyze get rt env2 project is db2 = (Inl RequirementAnalysisUnavailable, db2)"
proof -
  from a obtain found findings where f: "mapE (get project) is = Inr found" "None \<notin> set found" "is \<noteq> []" "distinct is"
    "mapE (\<lambda>f. validate_requirement_finding (finding_payload f)) (analyze_citations rt (map the found)) = Inr findings"
    "create_run env project is findings db = (Inr run, db1)"
    by (auto simp: analyze_def except_eq_Inr split: if_splits sum.splits)
  from f(6) have r: "run = run_of env project is findings" "db1 = stored_db env project is findings db"
    by (auto simp: create_run_iff split: if_splits)
  have "set findings \<noteq> {}" using ne by (metis r(1) run_of_def requirement_analysis_run.select_convs(5) set_empty set_sort)
  then obtain g where g: "g \<in> set findings" by (meson all_not_in_conv)
  have "rf_id g \<in> fn_id ` set (ab_findings db1)" using g by (auto simp: r(2) stored_db_def image_Un image_image)
  then have "rf_id g \<in> fn_id ` set (ab_findings db2)" using sub by blast
  with g have "\<not> storable env2 project findings db2" by (auto simp: storable_def)
  then show ?thesis using f(1-5) by (simp add: analyze_def create_run_iff)
qed

text \<open>Two unbounded terms of one table in one passage: no run is stored.\<close>

lemma analyze_rejects:
  assumes z: "get project i = Inr (Some z)" "i \<in> set is"
    and two: "2 \<le> length (unbounded_terms AMBIGUOUS_TERMS (casefold (ct_passage z)))
      \<or> 2 \<le> length (unbounded_terms PERFORMANCE_TERMS (casefold (ct_passage z)))"
  shows "\<exists>e. analyze get rt env project is db = (Inl e, db)"
proof (cases "analyze get rt env project is db")
  case (Pair r db')
  show ?thesis
  proof (cases r)
    case (Inl e)
    then show ?thesis using Pair
      by (auto simp: analyze_def create_run_iff split: if_splits sum.splits)
  next
    case (Inr run)
    from Pair Inr obtain found findings where f: "mapE (get project) is = Inr found" "None \<notin> set found"
      "mapE (\<lambda>f. validate_requirement_finding (finding_payload f)) (analyze_citations rt (map the found)) = Inr findings"
      "create_run env project is findings db = (Inr run, db')"
      by (auto simp: analyze_def except_eq_Inr split: if_splits sum.splits)
    have "Some z \<in> set found" using mapE_at [OF f(1) z(2)] z(1) by auto
    then have "z \<in> set (map the found)" by force
    then have "\<not> distinct (map rf_id findings)" using unbounded_ids [OF _ refl two] validated_ids [OF f(3)] by simp
    then show ?thesis using f(4) by (simp add: create_run_iff storable_def)
  qed
qed

end

interpretation sql_citations: citation_reader "\<lambda>project i. get_citation up project i db"
  by unfold_locales (use get_citation_sound in \<open>auto simp: cited_in_def\<close>)

interpretation no_citations: citation_reader "\<lambda>project i. Inl CitationUnavailable"
  by unfold_locales simp

end
