(* ===== verification/Finding_Feedback.thy ===== *)
theory Finding_Feedback
  imports Analysis_Runs Auth "HOL-Library.Multiset"
begin

text \<open>
  Owner feedback on findings (\<open>finding_feedback.py\<close>): the annotation rule, the look-up of a finding in its run,
  the provenance of the reviewer and the append-only table of events.  The service reads runs through the
  interface \<open>run_reader\<close>.
\<close>

section \<open>Data\<close>

definition MAX_FINDING_FEEDBACK_ANNOTATION_LENGTH :: nat where "MAX_FINDING_FEEDBACK_ANNOTATION_LENGTH = 4000"
definition LOCAL_DEVELOPMENT_REVIEWER_ID :: string where "LOCAL_DEVELOPMENT_REVIEWER_ID = ''local-development-owner''"

datatype feedback_action = ACCEPT | REJECT | ANNOTATE

fun feedback_action_value :: "feedback_action \<Rightarrow> string" where
  "feedback_action_value ACCEPT = ''accept''"
| "feedback_action_value REJECT = ''reject''"
| "feedback_action_value ANNOTATE = ''annotate''"

definition feedback_action_of :: "string \<Rightarrow> feedback_action option" where
  "feedback_action_of s = find (\<lambda>a. feedback_action_value a = s) [ACCEPT, REJECT, ANNOTATE]"

datatype feedback_error =
    FindingFeedbackUnavailable
  | FindingFeedbackNotFound string
  | FindingFeedbackValidationError string
  | FeedbackAnalysis analysis_error

record finding_feedback =
  fd_id :: uuid
  fd_project_id :: uuid
  fd_requirement_analysis_run_id :: uuid
  fd_requirement_finding_id :: uuid
  fd_citation_ids :: "uuid list"
  fd_action :: feedback_action
  fd_annotation :: "string option"
  fd_reviewer_id :: string
  fd_reviewer_authentication_source :: string
  fd_created_at :: instant

record feedback_row =
  fk_id :: uuid
  fk_project_id :: uuid
  fk_requirement_analysis_run_id :: uuid
  fk_requirement_finding_id :: uuid
  fk_citation_ids :: "string list"
  fk_action :: string
  fk_annotation :: "string option"
  fk_reviewer_id :: string
  fk_reviewer_authentication_source :: string
  fk_created_at :: instant

record feedback_db =
  fb_analysis :: analysis_db
  fb_rows :: "feedback_row list"

definition feedback_conflict :: "feedback_row \<Rightarrow> feedback_row \<Rightarrow> bool" where
  "feedback_conflict r s \<longleftrightarrow> fk_id r = fk_id s"

text \<open>The lengths of the columns, and the declared references.\<close>

definition feedback_lengths :: "feedback_row \<Rightarrow> bool" where
  "feedback_lengths r \<longleftrightarrow> length (fk_action r) \<le> 16 \<and> length (fk_reviewer_id r) \<le> 512 \<and> length (fk_reviewer_authentication_source r) \<le> 32"

definition feedback_references :: "analysis_db \<Rightarrow> feedback_row \<Rightarrow> bool" where
  "feedback_references db r \<longleftrightarrow> fk_project_id r \<in> set (ab_projects db) \<and> fk_requirement_analysis_run_id r \<in> ay_id ` set (ab_runs db)
     \<and> fk_requirement_finding_id r \<in> fn_id ` set (ab_findings db)"

interpretation feedback_table: table feedback_lengths feedback_conflict
  by unfold_locales (simp add: feedback_conflict_def)

record feedback_env =
  ke_up :: bool
  ke_now :: instant
  ke_id :: uuid

section \<open>The repository\<close>

definition feedback_from_record :: "feedback_row \<Rightarrow> feedback_error + finding_feedback" where
  "feedback_from_record r =
     bindE (mapE (\<lambda>s. case uuid_parse s of None \<Rightarrow> Inl FindingFeedbackUnavailable | Some u \<Rightarrow> Inr u) (fk_citation_ids r)) (\<lambda>is.
       case feedback_action_of (fk_action r) of None \<Rightarrow> Inl FindingFeedbackUnavailable
       | Some a \<Rightarrow> Inr \<lparr>fd_id = fk_id r, fd_project_id = fk_project_id r,
           fd_requirement_analysis_run_id = fk_requirement_analysis_run_id r, fd_requirement_finding_id = fk_requirement_finding_id r,
           fd_citation_ids = is, fd_action = a, fd_annotation = fk_annotation r, fd_reviewer_id = fk_reviewer_id r,
           fd_reviewer_authentication_source = fk_reviewer_authentication_source r, fd_created_at = fk_created_at r\<rparr>)"

definition new_feedback_row ::
  "feedback_env \<Rightarrow> uuid \<Rightarrow> uuid \<Rightarrow> uuid \<Rightarrow> uuid list \<Rightarrow> feedback_action \<Rightarrow> string option \<Rightarrow> string \<Rightarrow> string \<Rightarrow> feedback_row" where
  "new_feedback_row env project run finding citations action annotation reviewer source =
     \<lparr>fk_id = ke_id env, fk_project_id = project, fk_requirement_analysis_run_id = run, fk_requirement_finding_id = finding,
      fk_citation_ids = map uuid_str citations, fk_action = feedback_action_value action, fk_annotation = annotation,
      fk_reviewer_id = reviewer, fk_reviewer_authentication_source = source, fk_created_at = ke_now env\<rparr>"

definition create_feedback ::
  "feedback_env \<Rightarrow> uuid \<Rightarrow> uuid \<Rightarrow> uuid \<Rightarrow> uuid list \<Rightarrow> feedback_action \<Rightarrow> string option \<Rightarrow> string \<Rightarrow> string \<Rightarrow> feedback_db
     \<Rightarrow> (feedback_error + finding_feedback) \<times> feedback_db" where
  "create_feedback env project run finding citations action annotation reviewer source db =
     (let r = new_feedback_row env project run finding citations action annotation reviewer source in
      if \<not> ke_up env then (Inl FindingFeedbackUnavailable, db)
      else case insert_row (\<lambda>r. feedback_lengths r \<and> feedback_references (fb_analysis db) r) feedback_conflict r (fb_rows db) of
        Inl _ \<Rightarrow> (Inl FindingFeedbackUnavailable, db)
      | Inr rows \<Rightarrow> (feedback_from_record r, db\<lparr>fb_rows := rows\<rparr>))"

definition list_feedback :: "bool \<Rightarrow> uuid \<Rightarrow> uuid \<Rightarrow> uuid \<Rightarrow> feedback_db \<Rightarrow> feedback_error + finding_feedback list" where
  "list_feedback up project run finding db =
     (if \<not> up then Inl FindingFeedbackUnavailable
      else mapE feedback_from_record (sort_key (\<lambda>r. (fk_created_at r, fk_id r))
        (filter (\<lambda>r. fk_project_id r = project \<and> fk_requirement_analysis_run_id r = run \<and> fk_requirement_finding_id r = finding)
          (fb_rows db))))"

section \<open>The service\<close>

fun reviewer_provenance :: "owner_principal \<Rightarrow> string \<times> string" where
  "reviewer_provenance (CognitoOwnerPrincipal issuer subject) =
     (issuer @ ''|'' @ subject, authentication_source (CognitoOwnerPrincipal issuer subject))"
| "reviewer_provenance LocalDevelopmentOwnerPrincipal =
     (LOCAL_DEVELOPMENT_REVIEWER_ID, authentication_source LocalDevelopmentOwnerPrincipal)"

definition validate_annotation :: "feedback_action \<Rightarrow> string option \<Rightarrow> feedback_error + string option" where
  "validate_annotation action annotation = (case annotation of
     None \<Rightarrow> if action = ANNOTATE then Inl (FindingFeedbackValidationError ''Annotate feedback requires a non-empty annotation'')
       else Inr None
   | Some s \<Rightarrow>
       let normalized = strip s in
       if normalized = [] \<or> length normalized > MAX_FINDING_FEEDBACK_ANNOTATION_LENGTH
       then Inl (FindingFeedbackValidationError ''Feedback annotation must be bounded, non-empty text'')
       else if action \<noteq> ANNOTATE then Inl (FindingFeedbackValidationError ''Only annotate feedback may include an annotation'')
       else Inr (Some normalized))"

definition run_failure :: "analysis_error \<Rightarrow> feedback_error" where
  "run_failure e = (if e = RequirementAnalysisUnavailable then FindingFeedbackUnavailable else FeedbackAnalysis e)"

type_synonym run_read = "uuid \<Rightarrow> uuid \<Rightarrow> analysis_error + requirement_analysis_run option"

definition finding_for_project_run :: "run_read \<Rightarrow> uuid \<Rightarrow> uuid \<Rightarrow> uuid \<Rightarrow> feedback_error + requirement_finding" where
  "finding_for_project_run get project run finding =
     bindE (except (get project run) run_failure) (\<lambda>a. case a of
       None \<Rightarrow> Inl (FindingFeedbackNotFound ''Finding not found'')
     | Some a \<Rightarrow> (case find (\<lambda>f. rf_id f = finding) (an_findings a) of
         None \<Rightarrow> Inl (FindingFeedbackNotFound ''Finding not found'') | Some f \<Rightarrow> Inr f))"

definition record_feedback ::
  "run_read \<Rightarrow> feedback_env \<Rightarrow> uuid \<Rightarrow> uuid \<Rightarrow> uuid \<Rightarrow> feedback_action \<Rightarrow> string option \<Rightarrow> owner_principal \<Rightarrow> feedback_db
     \<Rightarrow> (feedback_error + finding_feedback) \<times> feedback_db" where
  "record_feedback get env project run finding action annotation reviewer db =
     (case bindE (validate_annotation action annotation) (\<lambda>a.
           bindE (finding_for_project_run get project run finding) (\<lambda>f.
           bindE (require (rf_evidence f \<noteq> []) (FindingFeedbackNotFound ''Finding has no cited provenance'')) (\<lambda>_.
             Inr (a, map fe_citation_id (rf_evidence f))))) of
        Inl e \<Rightarrow> (Inl e, db)
      | Inr (a, citations) \<Rightarrow>
          (case reviewer_provenance reviewer of (i, source) \<Rightarrow> create_feedback env project run finding citations action a i source db))"

definition list_for_finding :: "run_read \<Rightarrow> bool \<Rightarrow> uuid \<Rightarrow> uuid \<Rightarrow> uuid \<Rightarrow> feedback_db \<Rightarrow> feedback_error + finding_feedback list" where
  "list_for_finding get up project run finding db =
     bindE (finding_for_project_run get project run finding) (\<lambda>_. list_feedback up project run finding db)"

section \<open>What feedback establishes\<close>

lemma feedback_action_round [simp]: "feedback_action_of (feedback_action_value a) = Some a"
  by (cases a) (simp_all add: feedback_action_of_def)

lemma feedback_from_new:
  "feedback_from_record (new_feedback_row env project run finding citations action annotation reviewer source) =
     Inr \<lparr>fd_id = ke_id env, fd_project_id = project, fd_requirement_analysis_run_id = run, fd_requirement_finding_id = finding,
       fd_citation_ids = citations, fd_action = action, fd_annotation = annotation, fd_reviewer_id = reviewer,
       fd_reviewer_authentication_source = source, fd_created_at = ke_now env\<rparr>"
proof -
  have "mapE (\<lambda>s. case uuid_parse s of None \<Rightarrow> Inl FindingFeedbackUnavailable | Some u \<Rightarrow> Inr u) (map uuid_str citations) = Inr citations"
    by (rule mapE_map_Inr) simp
  then show ?thesis by (simp only: feedback_from_record_def new_feedback_row_def feedback_row.simps bindE_Inr feedback_action_round option.case)
qed

lemma create_feedback_Inr:
  "create_feedback env project run finding citations action annotation reviewer source db = (Inr d, db') \<Longrightarrow>
   (let r = new_feedback_row env project run finding citations action annotation reviewer source in
    ke_up env \<and> feedback_from_record r = Inr d \<and> db' = db\<lparr>fb_rows := fb_rows db @ [r]\<rparr> \<and> feedback_lengths r
    \<and> feedback_references (fb_analysis db) r \<and> list_all (\<lambda>s. \<not> feedback_conflict r s) (fb_rows db))"
  by (auto simp: create_feedback_def Let_def store_simps list_all_iff split: if_splits sum.splits)

lemma record_feedback_Inr:
  assumes "record_feedback get env project run finding action annotation reviewer db = (Inr d, db')"
  obtains a f where "validate_annotation action annotation = Inr a" "finding_for_project_run get project run finding = Inr f"
    "rf_evidence f \<noteq> []" "create_feedback env project run finding (map fe_citation_id (rf_evidence f)) action a
       (fst (reviewer_provenance reviewer)) (snd (reviewer_provenance reviewer)) db = (Inr d, db')"
  using assms by (auto simp: record_feedback_def bindE_eq_Inr require_eq_Inr split: sum.splits prod.splits)

lemma record_feedback_succeeds:
  assumes "validate_annotation action annotation = Inr a" "finding_for_project_run get project run finding = Inr f"
    "rf_evidence f \<noteq> []" "ke_up env" "fb_rows db = []"
    and r: "r = new_feedback_row env project run finding (map fe_citation_id (rf_evidence f)) action a
       (fst (reviewer_provenance reviewer)) (snd (reviewer_provenance reviewer))"
    and "feedback_lengths r" "feedback_references (fb_analysis db) r"
  shows "\<exists>d. record_feedback get env project run finding action annotation reviewer db = (Inr d, db\<lparr>fb_rows := [r]\<rparr>)"
proof -
  obtain d where "feedback_from_record r = Inr d" unfolding r feedback_from_new by blast
  then have "create_feedback env project run finding (map fe_citation_id (rf_evidence f)) action a
       (fst (reviewer_provenance reviewer)) (snd (reviewer_provenance reviewer)) db = (Inr d, db\<lparr>fb_rows := [r]\<rparr>)"
    using assms(4,5,7,8) by (simp add: create_feedback_def Let_def r [symmetric] insert_row_def)
  then show ?thesis using assms(1-3) by (auto simp: record_feedback_def split: prod.splits)
qed

text \<open>A run returned is the one asked for, and all its findings satisfy the contract.\<close>

locale run_reader =
  fixes get :: run_read
  assumes run_found: "get project run = Inr (Some a) \<Longrightarrow> an_id a = run \<and> an_project_id a = project \<and> list_all finding_ok (an_findings a)"
begin

lemma finding_found:
  assumes "finding_for_project_run get project run finding = Inr f"
  shows "rf_id f = finding \<and> finding_ok f
    \<and> (\<exists>a. get project run = Inr (Some a) \<and> an_id a = run \<and> an_project_id a = project \<and> f \<in> set (an_findings a))"
proof -
  from assms obtain a where a: "get project run = Inr (Some a)" "find (\<lambda>f. rf_id f = finding) (an_findings a) = Some f"
    by (auto simp: finding_for_project_run_def bindE_eq_Inr except_eq_Inr split: option.splits)
  moreover from a(2) have "f \<in> set (an_findings a)" "rf_id f = finding" by (auto simp: find_Some_iff)
  ultimately show ?thesis using run_found [OF a(1)] by (auto simp: list_all_iff)
qed

text \<open>Feedback is recorded only on a supported finding of the run, with the finding's citations.\<close>

lemma recorded_on_supported:
  assumes "record_feedback get env project run finding action annotation reviewer db = (Inr d, db')"
  shows "\<exists>a f. get project run = Inr (Some a) \<and> an_project_id a = project \<and> f \<in> set (an_findings a) \<and> rf_id f = finding
    \<and> \<not> rf_unsupported f \<and> rf_evidence f \<noteq> []
    \<and> d = \<lparr>fd_id = ke_id env, fd_project_id = project, fd_requirement_analysis_run_id = run, fd_requirement_finding_id = finding,
        fd_citation_ids = map fe_citation_id (rf_evidence f), fd_action = action, fd_annotation = map_option strip annotation,
        fd_reviewer_id = fst (reviewer_provenance reviewer), fd_reviewer_authentication_source = snd (reviewer_provenance reviewer),
        fd_created_at = ke_now env\<rparr>"
proof -
  from record_feedback_Inr [OF assms] obtain a f where f: "validate_annotation action annotation = Inr a"
    "finding_for_project_run get project run finding = Inr f" "rf_evidence f \<noteq> []"
    and c: "create_feedback env project run finding (map fe_citation_id (rf_evidence f)) action a
       (fst (reviewer_provenance reviewer)) (snd (reviewer_provenance reviewer)) db = (Inr d, db')" by blast
  have "a = map_option strip annotation" using f(1) by (auto simp: validate_annotation_def Let_def split: option.splits if_splits)
  moreover have "\<not> rf_unsupported f" using finding_found [OF f(2)] f(3) by (auto simp: finding_ok_def)
  ultimately show ?thesis using create_feedback_Inr [OF c] finding_found [OF f(2)] f(3)
    by (auto simp: Let_def feedback_from_new)
qed

end

interpretation sql_runs: run_reader "\<lambda>project run. get_run up project run db"
  by unfold_locales (use get_run_sound in blast)

interpretation no_runs: run_reader "\<lambda>project run. Inl RequirementAnalysisUnavailable"
  by unfold_locales simp

text \<open>Sorting rows and then reading them is reading them and then sorting.\<close>

lemma insort_mapE:
  assumes "\<And>x y. f x = Inr y \<Longrightarrow> k' y = (k x :: 'k :: linorder)" "f x = Inr y"
  shows "mapE f xs = Inr ys \<Longrightarrow> mapE f (insort_key k x xs) = Inr (insort_key k' y ys)"
proof (induction xs arbitrary: ys)
  case (Cons a xs)
  then obtain b bs where b: "f a = Inr b" "mapE f xs = Inr bs" "ys = b # bs" by (auto simp: bindE_eq_Inr)
  then show ?case using Cons.IH [of bs] assms(1) [OF b(1)] assms(1,2) by (simp add: assms(1) [OF assms(2)])
qed (simp add: assms)

lemma sort_mapE:
  assumes "\<And>x y. f x = Inr y \<Longrightarrow> k' y = (k x :: 'k :: linorder)"
  shows "mapE f xs = Inr ys \<Longrightarrow> mapE f (sort_key k xs) = Inr (sort_key k' ys)"
proof (induction xs arbitrary: ys)
  case (Cons a xs)
  then obtain b bs where b: "f a = Inr b" "mapE f xs = Inr bs" "ys = b # bs" by (auto simp: bindE_eq_Inr)
  then show ?case using insort_mapE [of f k' k, OF assms b(1) Cons.IH [OF b(2)]] by simp
qed simp

lemma sort_key_again: "sort_key k (sort_key k xs @ ys) = sort_key k (xs @ ys)"
proof (rule properties_for_sort_key)
  fix x assume "x \<in> set (sort_key k (xs @ ys))"
  show "filter (\<lambda>y. k x = k y) (sort_key k (xs @ ys)) = filter (\<lambda>y. k x = k y) (sort_key k xs @ ys)"
    using sort_key_stable [of k "k x"] by (simp add: eq_commute [of "k x"])
qed simp_all

text \<open>Recording adds exactly the returned event to the list of its finding and changes nothing else.\<close>

lemma record_feedback_listed:
  assumes "record_feedback get env project run finding action annotation reviewer db = (Inr d, db')"
    and old: "list_feedback True project run finding db = Inr ds"
  shows "list_feedback True project run finding db' = Inr (sort_key (\<lambda>d. (fd_created_at d, fd_id d)) (ds @ [d]))"
    "fb_analysis db' = fb_analysis db"
proof -
  obtain a and f :: requirement_finding where c: "create_feedback env project run finding (map fe_citation_id (rf_evidence f)) action a
       (fst (reviewer_provenance reviewer)) (snd (reviewer_provenance reviewer)) db = (Inr d, db')"
    by (rule record_feedback_Inr [OF assms(1)]) blast
  define r where "r = new_feedback_row env project run finding (map fe_citation_id (rf_evidence f)) action a
       (fst (reviewer_provenance reviewer)) (snd (reviewer_provenance reviewer))"
  have r: "db' = db\<lparr>fb_rows := fb_rows db @ [r]\<rparr>" "feedback_from_record r = Inr d"
    "fk_project_id r = project" "fk_requirement_analysis_run_id r = run" "fk_requirement_finding_id r = finding"
    using create_feedback_Inr [OF c] unfolding Let_def r_def [symmetric] by (simp_all add: r_def new_feedback_row_def)
  show "fb_analysis db' = fb_analysis db" by (simp add: r(1))
  let ?rows = "filter (\<lambda>r. fk_project_id r = project \<and> fk_requirement_analysis_run_id r = run \<and> fk_requirement_finding_id r = finding) (fb_rows db)"
  let ?k = "\<lambda>r. (fk_created_at r, fk_id r)" let ?k' = "\<lambda>d. (fd_created_at d, fd_id d)"
  have k: "?k' y = ?k x" if "feedback_from_record x = Inr y" for x y
    using that by (auto simp: feedback_from_record_def bindE_eq_Inr split: option.splits)
  have "mapE feedback_from_record (sort_key ?k ?rows) = Inr ds" using old by (simp add: list_feedback_def)
  then have "mapE feedback_from_record (sort_key ?k ?rows @ [r]) = Inr (ds @ [d])"
    using r(2) by (simp add: mapE_eq_Inr list_all2_appendI)
  then have "mapE feedback_from_record (sort_key ?k (sort_key ?k ?rows @ [r])) = Inr (sort_key ?k' (ds @ [d]))"
    using sort_mapE [of feedback_from_record ?k' ?k] k by blast
  then show "list_feedback True project run finding db' = Inr (sort_key ?k' (ds @ [d]))"
    by (simp add: list_feedback_def r sort_key_again)
qed

end
