(* ===== verification/Evidence_Demo.thy ===== *)
theory Evidence_Demo
  imports Retrieval_Fusion Finding_Feedback Demo
begin

text \<open>
  One indexed passage on its way to feedback, used by the witnesses: its retrieval, its citation, the
  analysis of the citation and the finding feedback is given on.
\<close>

definition demo_chunk :: document_chunk_row where
  "demo_chunk = \<lparr>ck_id = 71, ck_document_version_id = 42, ck_document_section_id = None, ck_source_location_id = 61, ck_ordinal = 0,
     ck_normalized_text = ''Orders must be paid'', ck_content_sha256 = replicate 64 (CHR ''a''), ck_chunking_version = ''v1''\<rparr>"

definition demo_passages :: evidence_db where
  "demo_passages = \<lparr>ed_projects = [11],
     ed_documents = [\<lparr>dr_id = 41, dr_project_id = 11, dr_document_type = ''markdown'', dr_display_name = ''spec'', dr_created_at = 0\<rparr>],
     ed_versions = [\<lparr>dv_id = 42, dv_document_id = 41, dv_parser_version_id = 43, dv_version_number = 1,
       dv_content_sha256 = replicate 64 (CHR ''a''), dv_byte_size = 25, dv_content_type = ''text/markdown'', dv_created_at = 0\<rparr>],
     ed_locations = [\<lparr>sl_id = 61, sl_document_version_id = 42, sl_location_kind = ''line'', sl_heading = None, sl_line_start = Some 1,
       sl_line_end = Some 1, sl_page_start = None, sl_page_end = None, sl_json_pointer = None\<rparr>],
     ed_chunks = [demo_chunk],
     ed_cache = [\<lparr>em_id = 81, em_project_id = 11, em_content_sha256 = replicate 64 (CHR ''a''), em_embedding_model = ''m'',
       em_embedding_version = ''1'', em_dimensions = 1, em_values = [''0.5''], em_created_at = 0\<rparr>],
     ed_links = [\<lparr>ce_id = 91, ce_document_chunk_id = 71, ce_embedding_cache_id = 81, ce_embedding_model = ''m'',
       ce_embedding_version = ''1'', ce_created_at = 0\<rparr>],
     ed_traces = [], ed_candidates = [], ed_citations = []\<rparr>"

definition demo_ranking :: ranking where
  "demo_ranking = \<lparr>rk_matches = (\<lambda>t q. True), rk_score = (\<lambda>t q. 3), rk_distance = (\<lambda>e v. Inr (Some 0))\<rparr>"

definition demo_retrieval :: retrieval_env where
  "demo_retrieval = \<lparr>re_up = True, re_now = 5, re_ids = (\<lambda>n. 200 + of_nat n)\<rparr>"

definition demo_citing :: citation_env where
  "demo_citing = \<lparr>ze_up = True, ze_now = (\<lambda>n. 6), ze_ids = (\<lambda>n. 300 + of_nat n)\<rparr>"

definition demo_filters :: retrieval_filters where
  "demo_filters = \<lparr>hf_embedding_model = ''m'', hf_embedding_version = ''1'', hf_document_version_ids = None, hf_document_types = None,
     hf_chunking_version = Some ''v1''\<rparr>"

definition demo_query_embedding :: embedding_configuration where
  "demo_query_embedding = \<lparr>eb_model = ''m'', eb_version = ''1''\<rparr>"

lemma demo_passages_ok: "evidence_ok demo_passages" "embeddings_ok demo_passages"
  by code_simp+

lemma demo_citing_ids:
  "ze_up demo_citing" "inj_on (ze_ids demo_citing) {..<100}" "\<forall>n < 100. ze_ids demo_citing n \<notin> cr_id ` set (ed_citations demo_passages)"
proof -
  have "unat (of_nat n :: uuid) = n" if "n < 100" for n
    using that by (simp add: unat_of_nat take_bit_nat_eq_self)
  then show "inj_on (ze_ids demo_citing) {..<100}" by (simp add: inj_on_def demo_citing_def) (metis lessThan_iff)
qed (simp_all add: demo_citing_def demo_passages_def)

section \<open>The retrieval\<close>

definition demo_hit :: hybrid_candidate where
  "demo_hit = \<lparr>hc_chunk_id = 71, hc_project_id = 11, hc_document_version_id = 42, hc_source_location_id = 61,
     hc_document_type = ''markdown'', hc_chunking_version = ''v1'', hc_ordinal = 0, hc_normalized_text = ''Orders must be paid'',
     hc_lexical_score = Some 3, hc_lexical_rank = Some 1, hc_semantic_distance = Some (Some 0), hc_semantic_rank = Some 1,
     hc_fusion_score = 0, hc_rank = None\<rparr>"

definition demo_result :: hybrid_candidate where
  "demo_result = demo_hit\<lparr>hc_fusion_score := reciprocal_rank_score (Some 1) (Some 1), hc_rank := Some 1\<rparr>"

definition demo_hits :: hybrid_response where
  "demo_hits = \<lparr>hr_retrieval_version = HYBRID_RETRIEVAL_VERSION, hr_fusion_method = FUSION_METHOD, hr_trace_id = 200,
     hr_query = ''orders'', hr_project_id = 11, hr_candidates = [demo_result]\<rparr>"

definition demo_traced :: evidence_db where
  "demo_traced = demo_passages\<lparr>ed_traces := [trace_of demo_retrieval 11 ''orders'' [''0.5''] demo_filters 5 5],
     ed_candidates := [trace_candidate_of 201 200 demo_result]\<rparr>"

lemma demo_lists:
  "lexical_candidates demo_ranking 11 ''orders'' demo_filters 5 demo_passages
     = [demo_hit\<lparr>hc_semantic_distance := None, hc_semantic_rank := None\<rparr>]
   \<and> semantic_candidates demo_ranking 11 [''0.5''] demo_filters 5 demo_passages
     = Inr [demo_hit\<lparr>hc_lexical_score := None, hc_lexical_rank := None\<rparr>]
   \<and> merged [demo_hit\<lparr>hc_semantic_distance := None, hc_semantic_rank := None\<rparr>]
       [demo_hit\<lparr>hc_lexical_score := None, hc_lexical_rank := None\<rparr>] = [demo_hit]
   \<and> normalize ''orders'' = ''orders'' \<and> list_ex is_alnum ''orders'' \<and> validate_query_embedding [''0.5''] = Inr ()
   \<and> validate_filters demo_filters = Inr () 
   \<and> retrieval_trace_checks (trace_of demo_retrieval 11 ''orders'' [''0.5''] demo_filters 5 5)
   \<and> re_ids demo_retrieval 0 = 200 \<and> re_ids demo_retrieval 1 = 201 \<and> ed_projects demo_passages = [11]
   \<and> ed_traces demo_passages = [] \<and> ed_candidates demo_passages = [] \<and> map ck_id (ed_chunks demo_passages) = [71]"
  by code_simp

lemma demo_fused: "fuse_candidates [demo_hit\<lparr>hc_semantic_distance := None, hc_semantic_rank := None\<rparr>]
       [demo_hit\<lparr>hc_lexical_score := None, hc_lexical_rank := None\<rparr>] 5 = ([demo_result], [demo_result])"
  by (simp add: fuse_candidates_def demo_lists scored_def numbered_def demo_result_def) (simp add: demo_hit_def)

lemma demo_retrieved:
  "hybrid_retrieve demo_ranking demo_retrieval 11 ''orders'' [''0.5''] demo_filters 5 5 demo_passages = (Inr demo_hits, demo_traced)"
proof -
  have c: "trace_candidate_checks (trace_candidate_of 201 200 demo_result)" "tk_document_chunk_id (trace_candidate_of 201 200 demo_result) = 71"
    by (simp_all add: trace_candidate_checks_def trace_candidate_of_def demo_result_def demo_hit_def)
  have "71 \<in> ck_id ` set (ed_chunks demo_passages)" using demo_lists by (metis list.set_intros(1) list.set_map)
  then show ?thesis using demo_lists demo_fused c
    by (simp add: hybrid_retrieve_def store_retrieve_def MAX_HYBRID_RESULT_LIMIT_def insert_row_def demo_hits_def demo_traced_def
      trace_of_def demo_retrieval_def Let_def)
qed


section \<open>The citation and its analysis\<close>

definition demo_cited :: evidence_db where
  "demo_cited = demo_passages\<lparr>ed_citations := [\<lparr>cr_id = 300, cr_project_id = 11, cr_retrieval_trace_id = 200, cr_document_chunk_id = 71,
     cr_document_version_id = 42, cr_source_location_id = 61, cr_created_at = 6\<rparr>]\<rparr>"

definition demo_analysis_env :: analysis_env where
  "demo_analysis_env = \<lparr>ae_up = True, ae_now = 7, ae_run_id = 401\<rparr>"

definition demo_analysis_db :: analysis_db where
  "demo_analysis_db = \<lparr>ab_projects = [11], ab_runs = [], ab_findings = []\<rparr>"

definition demo_citation :: citation where
  "demo_citation = \<lparr>ct_id = 300, ct_project_id = 11, ct_retrieval_trace_id = 200, ct_document_chunk_id = 71, ct_document_version_id = 42,
     ct_source_location = \<lparr>lo_id = 61, lo_location_kind = ''line'', lo_heading = None, lo_line_start = Some 1, lo_line_end = Some 1,
       lo_page_start = None, lo_page_end = None, lo_json_pointer = None\<rparr>,
     ct_document_type = ''markdown'', ct_display_name = ''spec'', ct_passage = ''Orders must be paid'', ct_created_at = 6\<rparr>"

lemma demo_get: "get_citation True 11 300 demo_cited = Inr (Some demo_citation) \<and> finding_text_ok (ct_passage demo_citation) \<and> ct_id demo_citation = 300"
  by code_simp

text \<open>The analysis reports one finding, the missing acceptance criteria.\<close>

lemma demo_rules:
  "(let p = casefold (ct_passage demo_citation) in requirement_marker p \<and> \<not> mentions ACCEPTANCE_MARKERS p
     \<and> \<not> mentions ACTION_TERMS p \<and> unbounded_terms AMBIGUOUS_TERMS p = [] \<and> unbounded_terms PERFORMANCE_TERMS p = [])"
  by code_simp

definition demo_findings :: "requirement_finding list" where
  "demo_findings = acceptance_findings demo_rt demo_citation (casefold (ct_passage demo_citation))"

lemma demo_findings: "analyze_citations demo_rt [demo_citation] = demo_findings" "length demo_findings = 1"
  using demo_rules
  by (simp_all add: analyze_citations_def citation_findings_def Let_def authorization_findings_def error_handling_findings_def
      demo_findings_def acceptance_findings_def)

lemma demo_analysed:
  "analyze (\<lambda>p i. get_citation True p i demo_cited) demo_rt demo_analysis_env 11 [300] demo_analysis_db
    = (Inr (run_of demo_analysis_env 11 [300] demo_findings), stored_db demo_analysis_env 11 [300] demo_findings demo_analysis_db)"
proof -
  obtain f where f: "demo_findings = [f]" using demo_findings(2) by (auto simp: length_Suc_conv)
  have "storable demo_analysis_env 11 demo_findings demo_analysis_db"
    unfolding f by (simp add: storable_def demo_analysis_env_def demo_analysis_db_def)
  then show ?thesis
    using analyze_readable [of "\<lambda>p i. get_citation True p i demo_cited" 11 "[300]" "[demo_citation]" demo_rt demo_analysis_env demo_analysis_db]
      demo_get demo_findings(1) by simp
qed

section \<open>Two vague terms\<close>

definition demo_vague :: evidence_db where
  "demo_vague = demo_cited\<lparr>ed_chunks := [demo_chunk\<lparr>ck_normalized_text := ''A fast and reasonable reply''\<rparr>]\<rparr>"

lemma demo_vague_get:
  "get_citation True 11 300 demo_vague = Inr (Some (demo_citation\<lparr>ct_passage := ''A fast and reasonable reply''\<rparr>))"
  by code_simp

lemma demo_vague_terms:
  "list_all (\<lambda>c. \<not> is_digit c) (casefold ''A fast and reasonable reply'')
   \<and> 2 \<le> length (filter (\<lambda>t. str_in t (casefold ''A fast and reasonable reply'')) AMBIGUOUS_TERMS)"
  by code_simp

section \<open>Feedback\<close>

definition demo_stored :: analysis_db where
  "demo_stored = stored_db demo_analysis_env 11 [300] demo_findings demo_analysis_db"

lemma demo_analysis_ok: "analysis_ok demo_analysis_db"
  by (simp add: analysis_ok_def demo_analysis_db_def table_ok_def)

definition demo_feedback_env :: feedback_env where
  "demo_feedback_env = \<lparr>ke_up = True, ke_now = 8, ke_id = 501\<rparr>"

definition demo_feedback_db :: feedback_db where
  "demo_feedback_db = \<lparr>fb_analysis = demo_stored, fb_rows = []\<rparr>"

definition demo_finding :: requirement_finding where
  "demo_finding = hd demo_findings"

lemma demo_finding: "demo_findings = [demo_finding]" "map fe_citation_id (rf_evidence demo_finding) = [300]" "rf_id demo_finding = 7"
  "finding_ok demo_finding"
proof -
  show f: "demo_findings = [demo_finding]" 
  proof -
    obtain f where "demo_findings = [f]" using demo_findings(2) by (auto simp: length_Suc_conv)
    then show ?thesis unfolding demo_finding_def by (metis list.sel(1))
  qed
  have "set demo_findings \<subseteq> set (citation_findings demo_rt demo_citation)"
    by (auto simp: demo_findings_def citation_findings_def Let_def)
  then have m: "demo_finding \<in> set (citation_findings demo_rt demo_citation)" by (simp add: f)
  show "finding_ok demo_finding" by (rule citation_findings_ok [OF m])
  show "map fe_citation_id (rf_evidence demo_finding) = [300]" using citation_findings_evidence [OF m] by (simp add: demo_citation_def)
  have "\<forall>g \<in> set demo_findings. rf_id g = 7"
    by (simp add: demo_findings_def acceptance_findings_def demo_rt_def)
  then show "rf_id demo_finding = 7" by (simp add: f)
qed

lemma demo_stored_run: "get_run True 11 401 demo_stored = Inr (Some (run_of demo_analysis_env 11 [300] [demo_finding]))"
proof -
  have "storable demo_analysis_env 11 [demo_finding] demo_analysis_db"
    by (simp add: storable_def demo_analysis_env_def demo_analysis_db_def)
  then show ?thesis
    using get_stored_run [OF demo_analysis_ok, of demo_analysis_env 11 "[demo_finding]" "[300]"] demo_finding(4)
    by (simp add: demo_finding(1) demo_stored_def demo_analysis_env_def)
qed

lemma demo_feedback:
  "\<exists>d db'. record_feedback (\<lambda>p r. get_run True p r demo_stored) demo_feedback_env 11 401 7 ACCEPT None LocalDevelopmentOwnerPrincipal
     demo_feedback_db = (Inr d, db')"
proof -
  let ?r = "new_feedback_row demo_feedback_env 11 401 7 [300] ACCEPT None LOCAL_DEVELOPMENT_REVIEWER_ID ''local_bypass''"
  have "feedback_lengths ?r"
    by (simp add: feedback_lengths_def new_feedback_row_def LOCAL_DEVELOPMENT_REVIEWER_ID_def)
  moreover have "feedback_references demo_stored ?r"
    by (simp add: feedback_references_def new_feedback_row_def demo_stored_def stored_db_def run_row_def demo_analysis_env_def
        demo_analysis_db_def demo_finding)
  moreover have "finding_for_project_run (\<lambda>p r. get_run True p r demo_stored) 11 401 7 = Inr demo_finding"
    by (simp add: finding_for_project_run_def demo_stored_run run_of_def demo_finding(3))
  moreover have "validate_annotation ACCEPT None = Inr None" "rf_evidence demo_finding \<noteq> []"
    using demo_finding(2) by (auto simp: validate_annotation_def)
  moreover have "ke_up demo_feedback_env" "fb_rows demo_feedback_db = []" "fb_analysis demo_feedback_db = demo_stored"
    by (simp_all add: demo_feedback_db_def demo_feedback_env_def)
  ultimately have "\<exists>d. record_feedback (\<lambda>p r. get_run True p r demo_stored) demo_feedback_env 11 401 7 ACCEPT None
      LocalDevelopmentOwnerPrincipal demo_feedback_db = (Inr d, demo_feedback_db\<lparr>fb_rows := [?r]\<rparr>)"
    by (intro record_feedback_succeeds)
      (assumption | simp only: demo_finding(2) reviewer_provenance.simps fst_conv snd_conv authentication_source.simps)+
  then show ?thesis by (elim exE) (intro exI)
qed

end
