(* ===== verification/Evidence_Properties.thy ===== *)
theory Evidence_Properties
  imports Evidence_Demo
begin

text \<open>
  The properties of the evidence chain, from retrieval over citations and requirement analysis to feedback,
  with their witnesses.
\<close>

section \<open>Retrieval and citations\<close>

text \<open>C12: In a consistent state a successful hybrid retrieval returns the first \<open>result_limit\<close> candidates of one
  ranking: every chunk of the lexical or the semantic list occurs in it once, ordered by descending fusion
  score, ordinal and identifier, where the fusion score is the reciprocal-rank score of exactly the chunk's
  positions in the two lists; each returned candidate carries its position, comes from the requested
  project and passes the filters.\<close>

theorem retrieval_ranking_exact:
  assumes "evidence_ok db" "embeddings_ok db"
    and "hybrid_retrieve rk env project q v f cl rl db = (Inr response, db1)"
  shows "\<exists>semantic ranking. semantic_candidates rk project v f cl db = Inr semantic
    \<and> (let lexical = lexical_candidates rk project (normalize q) f cl db in
       distinct (map hc_chunk_id ranking)
       \<and> hc_chunk_id ` set ranking = hc_chunk_id ` set lexical \<union> hc_chunk_id ` set semantic
       \<and> sorted (map fusion_key ranking)
       \<and> list_all (\<lambda>c. hc_fusion_score c = reciprocal_rank_score (rank_in lexical (hc_chunk_id c)) (rank_in semantic (hc_chunk_id c))) ranking
       \<and> hr_candidates response = take (nat rl) ranking)
    \<and> map hc_rank (hr_candidates response) = map Some [1..<Suc (length (hr_candidates response))]
    \<and> list_all (in_scope project f db) (hr_candidates response)"
proof -
  obtain semantic cs where s: "semantic_candidates rk project v f cl db = Inr semantic" and cs: "cs = traced_candidates rk project q f cl rl db semantic"
    and r: "response = \<lparr>hr_retrieval_version = HYBRID_RETRIEVAL_VERSION, hr_fusion_method = FUSION_METHOD, hr_trace_id = re_ids env 0,
       hr_query = normalize q, hr_project_id = project, hr_candidates = take (nat rl) cs\<rparr>"
    by (rule hybrid_retrieve_Inr [OF assms(3)]) blast
  have "map hc_rank (hr_candidates response) = map Some [1..<Suc (length (hr_candidates response))]"
    by (rule nth_equalityI) (simp_all add: retrieval_selects(4) [OF assms(3)] del: upt_Suc)
  moreover have "list_all (\<lambda>c. hc_fusion_score c = reciprocal_rank_score
      (rank_in (lexical_candidates rk project (normalize q) f cl db) (hc_chunk_id c)) (rank_in semantic (hc_chunk_id c))) cs"
    unfolding list_all_iff cs using traced_exact(3) [OF assms(1,2) s refl] by blast
  ultimately show ?thesis unfolding Let_def
    using s traced_ids traced_ids_set traced_sorted retrieval_selects(5) [OF assms(3)]
    by (intro exI [of _ semantic] exI [of _ cs]) (simp add: r cs)
qed

theorem retrieval_ranking_exact_witness:
  "list_all (in_scope 11 demo_filters demo_passages) (hr_candidates demo_hits) \<and> map hc_rank (hr_candidates demo_hits) = [Some 1]"
  using retrieval_ranking_exact [OF demo_passages_ok demo_retrieved] by (auto simp: demo_hits_def)

text \<open>C11: When the query embeds, the retrieval succeeds and the citation identifiers are fresh, the linked
  retrieval returns every retrieved candidate with its rank and with a citation of the same project and
  trace whose passage is the text retrieved, and the references of the evidence tables stay intact.\<close>

theorem retrieve_and_cite_succeeds:
  assumes "evidence_ok db" "list_ex is_alnum (normalize query)" "length (normalize query) \<le> MAX_RETRIEVAL_QUERY_CHARACTERS"
    and "embed_query adapter eb (normalize query) = Inr v"
    and "hybrid_retrieve rk renv project (normalize query) v \<lparr>hf_embedding_model = eb_model eb, hf_embedding_version = eb_version eb,
        hf_document_version_ids = versions, hf_document_types = types, hf_chunking_version = Some chunking\<rparr> cl rl db = (Inr response, db1)"
    and "ze_up cenv" "inj_on (ze_ids cenv) {..<100}" "ze_ids cenv ` {..<100} \<inter> cr_id ` set (ed_citations db) = {}"
  shows "\<exists>ls db2. retrieve_and_cite rk renv cenv adapter eb chunking project query versions types cl rl db = (Inr (response, ls), db2)
    \<and> evidence_ok db2 \<and> map lk_candidate ls = hr_candidates response \<and> map lk_rank ls = [1..<Suc (length ls)]
    \<and> map (\<lambda>l. ct_passage (lk_citation l)) ls = map hc_normalized_text (hr_candidates response)"
proof -
  have q: "normalize query \<noteq> []" using assms(2) by auto
  note sel = retrieval_selects [OF assms(5)]
  have p: "\<not> list_ex (\<lambda>c. hc_project_id c \<noteq> project) (hr_candidates response)"
    using sel(5) by (auto simp: list_ex_iff list_all_iff in_scope_def)
  have k: "\<not> list_ex (\<lambda>c. hc_rank c = None \<or> hc_rank c = Some 0) (hr_candidates response)"
    using sel(4) by (auto simp: list_ex_iff in_set_conv_nth)
  show ?thesis
  proof (cases "hr_candidates response = []")
    case True
    then show ?thesis using assms q p retrieval_keeps [OF assms(1,5)] sel(3)
      by (simp add: retrieve_and_cite_def Let_def not_less)
  next
    case False
    have fresh: "\<forall>n < 100. ze_ids cenv n \<notin> cr_id ` set (ed_citations db)" using assms(8) by auto
    obtain zs db2 where z: "create_from_selected_candidates cenv project (hr_trace_id response) (map hc_chunk_id (hr_candidates response)) db1 = (Inr zs, db2)"
      "evidence_ok db2" "link_citations project (hr_trace_id response) (hr_candidates response) zs
        = Inr (map (\<lambda>(k, z). \<lparr>lk_rank = the (hc_rank k), lk_candidate = k, lk_citation = z\<rparr>) (zip (hr_candidates response) zs))"
      "map ct_passage zs = map hc_normalized_text (hr_candidates response)"
      using retrieval_citable [OF assms(1,5,6,7) fresh False] by blast
    let ?ls = "map (\<lambda>(k, z). \<lparr>lk_rank = the (hc_rank k), lk_candidate = k, lk_citation = z\<rparr>) (zip (hr_candidates response) zs)"
    have l: "length zs = length (hr_candidates response)" using arg_cong [OF z(4), of length] by simp
    have "retrieve_and_cite rk renv cenv adapter eb chunking project query versions types cl rl db = (Inr (response, ?ls), db2)"
      using assms q p k False sel(3) z(1,3) by (simp add: retrieve_and_cite_def Let_def not_less)
    moreover have "map lk_rank ?ls = [1..<Suc (length ?ls)]"
      by (rule nth_equalityI) (use l sel(4) in \<open>simp_all del: upt_Suc\<close>)
    moreover have "map lk_candidate ?ls = hr_candidates response" "map (\<lambda>l. ct_passage (lk_citation l)) ?ls = map ct_passage zs"
      by (rule nth_equalityI; use l in simp)+
    ultimately show ?thesis using z(2,4) by (intro exI [of _ ?ls] exI [of _ db2]) simp
  qed
qed

theorem retrieve_and_cite_succeeds_witness:
  "\<exists>ls db2. retrieve_and_cite demo_ranking demo_retrieval demo_citing (\<lambda>ts eb. Inr [[''0.5'']]) demo_query_embedding ''v1'' 11 '' orders ''
     None None 5 5 demo_passages = (Inr (demo_hits, ls), db2) \<and> map (\<lambda>l. ct_passage (lk_citation l)) ls = [''Orders must be paid'']"
proof -
  have n: "list_ex is_alnum (normalize '' orders '') \<and> length (normalize '' orders '') \<le> MAX_RETRIEVAL_QUERY_CHARACTERS
    \<and> normalize '' orders '' = ''orders'' \<and> embed_query (\<lambda>ts eb. Inr [[''0.5'']]) demo_query_embedding ''orders'' = Inr [''0.5'']
    \<and> demo_filters = \<lparr>hf_embedding_model = eb_model demo_query_embedding, hf_embedding_version = eb_version demo_query_embedding,
        hf_document_version_ids = None, hf_document_types = None, hf_chunking_version = Some ''v1''\<rparr>" by code_simp
  have "ze_ids demo_citing ` {..<100} \<inter> cr_id ` set (ed_citations demo_passages) = {}" by (simp add: demo_passages_def)
  from retrieve_and_cite_succeeds [OF demo_passages_ok(1) _ _ _ _ demo_citing_ids(1,2) this, of "'' orders ''"
      "\<lambda>ts eb. Inr [[''0.5'']]" demo_query_embedding "[''0.5'']"] n demo_retrieved
  obtain ls db2 where "retrieve_and_cite demo_ranking demo_retrieval demo_citing (\<lambda>ts eb. Inr [[''0.5'']]) demo_query_embedding ''v1'' 11
      '' orders '' None None 5 5 demo_passages = (Inr (demo_hits, ls), db2)"
    "map (\<lambda>l. ct_passage (lk_citation l)) ls = map hc_normalized_text (hr_candidates demo_hits)" by metis
  moreover have "map hc_normalized_text (hr_candidates demo_hits) = [''Orders must be paid'']"
    by (simp add: demo_hits_def demo_result_def demo_hit_def)
  ultimately show ?thesis by (intro exI conjI) simp_all
qed

text \<open>A batch of citations, when it is created, gives one citation per requested chunk in the order of the
  request, each of the requested project and trace and joined to a passage of a document of that project; it
  only adds citation rows, and every chunk is a candidate of the trace that was ranked.\<close>

theorem batch_citations_sound:
  assumes "create_from_selected_candidates env project trace chunks db = (Inr zs, db')"
  shows "map ct_document_chunk_id zs = chunks \<and> distinct chunks
    \<and> list_all (\<lambda>z. cited_in db' project z \<and> ct_retrieval_trace_id z = trace) zs
    \<and> list_all (\<lambda>i. \<exists>c. c \<in> set (ed_candidates db) \<and> tk_retrieval_trace_id c = trace \<and> tk_document_chunk_id c = i
         \<and> tk_final_rank c \<noteq> None) chunks
    \<and> (\<exists>cs. db' = db\<lparr>ed_citations := ed_citations db @ cs\<rparr>)"
proof -
  from assms have b: "create_batch_transaction env project trace chunks db = Inr (zs, db')" and d: "distinct chunks"
    by (auto simp: create_from_selected_candidates_def split: if_splits sum.splits)
  then have n: "length (remdups (map ck_id (selected_rows db project trace (\<lambda>i. i \<in> set chunks)))) = length chunks"
    by (auto simp: create_batch_transaction_def bindE_eq_Inr require_eq_Inr Let_def)
  have "ck_id ` set (selected_rows db project trace (\<lambda>i. i \<in> set chunks)) = set chunks"
    by (rule card_subset_eq) (use n d in \<open>auto simp: selectable_iff length_remdups_card_conv distinct_card\<close>)
  then have e: "\<exists>c. c \<in> set (ed_candidates db) \<and> tk_retrieval_trace_id c = trace \<and> tk_document_chunk_id c = i \<and> tk_final_rank c \<noteq> None" if i: "i \<in> set chunks" for i
  proof -
    assume "ck_id ` set (selected_rows db project trace (\<lambda>i. i \<in> set chunks)) = set chunks"
    with i have "i \<in> ck_id ` set (selected_rows db project trace (\<lambda>i. i \<in> set chunks))" by blast
    then obtain k where "k \<in> set (selected_rows db project trace (\<lambda>i. i \<in> set chunks))" "ck_id k = i" by blast
    then show ?thesis by (auto simp: selectable_iff selectable_def selected_chunk_def)
  qed
  then show ?thesis using create_batch_sound [OF b] d by (simp add: list_all_iff)
qed

theorem batch_citations_sound_witness:
  "\<exists>zs db'. create_from_selected_candidates demo_citing 11 200 [71] demo_traced = (Inr zs, db') \<and> map ct_document_chunk_id zs = [71]"
proof -
  obtain zs db' where "create_from_selected_candidates demo_citing 11 200 [71] demo_traced = (Inr zs, db')"
    using retrieval_citable [OF demo_passages_ok(1) demo_retrieved demo_citing_ids] by (auto simp: demo_hits_def demo_result_def demo_hit_def)
  from this batch_citations_sound [OF this] show ?thesis by (elim conjE) (intro exI conjI)
qed

section \<open>Findings and analysis\<close>

text \<open>A finding the validator returns satisfies the whole contract (bounded trimmed texts, distinct
  evidence, a confidence in the unit interval, and the evidence, category, severity and reason of a supported
  or an unsupported finding), and its canonical payload validates to the same finding.\<close>

theorem validated_finding_contract:
  assumes "validate_requirement_finding payload = Inr f"
  shows "finding_ok f \<and> validate_requirement_finding (finding_payload f) = Inr f"
  using validate_finding_sound [OF assms] validate_finding_payload by blast

theorem validated_finding_contract_witness:
  "validate_requirement_finding (finding_payload (contradiction_finding demo_rt demo_citation (demo_citation\<lparr>ct_id := 301\<rparr>)))
    = Inr (contradiction_finding demo_rt demo_citation (demo_citation\<lparr>ct_id := 301\<rparr>))"
proof -
  have "finding_ok (contradiction_finding demo_rt demo_citation (demo_citation\<lparr>ct_id := 301\<rparr>))"
    by (rule contradiction_ok) (use demo_get in \<open>simp_all add: demo_citation_def\<close>)
  from validated_finding_contract [OF validate_finding_payload [OF this]] show ?thesis by blast
qed


text \<open>C14: An analysis that returns a run has stored it: reading it back in its project gives exactly that run,
  its findings satisfy the contract and cite only the citations asked for, all of the project, and the
  tables stay consistent.\<close>

theorem analysis_run_round_trip:
  assumes "analysis_ok db" "analyze (\<lambda>p i. get_citation up p i ev) rt env project is db = (Inr run, db')"
  shows "get_run True project (an_id run) db' = Inr (Some run) \<and> analysis_ok db'
    \<and> list_all (\<lambda>f. finding_ok f \<and> fe_citation_id ` set (rf_evidence f) \<subseteq> set is) (an_findings run)
    \<and> list_all (\<lambda>i. \<exists>z. cited_in ev project z \<and> ct_id z = i) is"
proof -
  let ?get = "\<lambda>p i. get_citation up p i ev"
  obtain zs findings where a: "map ct_id zs = is" "mapE (\<lambda>f. validate_requirement_finding (finding_payload f)) (analyze_citations rt zs) = Inr findings"
    "storable env project findings db" "run = run_of env project is findings" "db' = stored_db env project is findings db"
    by (rule sql_citations.analyze_Inr [OF assms(2)]) blast
  have v: "list_all2 (\<lambda>f g. validate_requirement_finding (finding_payload f) = Inr g) (analyze_citations rt zs) findings"
    using a(2) by (simp add: mapE_eq_Inr)
  have f: "finding_ok g \<and> fe_citation_id ` set (rf_evidence g) \<subseteq> set is" if g: "g \<in> set findings" for g
  proof -
    obtain f where f: "f \<in> set (analyze_citations rt zs)" "validate_requirement_finding (finding_payload f) = Inr g"
    proof -
      obtain n where n: "n < length findings" "findings ! n = g" using g unfolding in_set_conv_nth by blast
      with list_all2_nthD2 [OF v n(1)] list_all2_lengthD [OF v] show ?thesis by (intro that nth_mem) simp_all
    qed
    have "map fe_citation_id (rf_evidence g) = map fe_citation_id (rf_evidence f)" by (rule validated_citations [OF f(2)])
    from arg_cong [OF this, of set] have "fe_citation_id ` set (rf_evidence g) = fe_citation_id ` set (rf_evidence f)" by simp
    moreover have "set is = ct_id ` set zs" by (simp flip: a(1))
    ultimately show ?thesis using analyze_citations_evidence [OF f(1)] validate_finding_sound [OF f(2)] by simp
  qed
  then have ok: "list_all finding_ok findings" by (simp add: list_all_iff)
  have "\<exists>z. cited_in ev project z \<and> ct_id z = i" if "i \<in> set is" for i
    using sql_citations.analyze_read [OF assms(2) that] get_citation_sound by blast
  then show ?thesis
    using get_stored_run [OF assms(1) a(3) ok] store_keeps [OF assms(1) a(3) ok] f a(4,5)
    by (simp add: run_of_def list_all_iff)
qed

theorem analysis_run_round_trip_witness:
  "get_run True 11 401 (stored_db demo_analysis_env 11 [300] demo_findings demo_analysis_db)
    = Inr (Some (run_of demo_analysis_env 11 [300] demo_findings))"
proof -
  from analysis_run_round_trip [OF demo_analysis_ok demo_analysed] show ?thesis by (simp add: run_of_def demo_analysis_env_def)
qed

text \<open>C30: Finding identifiers depend only on the rule and the citations, and are primary keys across all runs:
  once an analysis that reported a finding is stored, analysing the same citations again fails as
  unavailable.\<close>

theorem repeated_analysis_fails:
  assumes "analyze (\<lambda>p i. get_citation up p i ev) rt env project is db = (Inr run, db1)" "an_findings run \<noteq> []"
    and "set (ab_findings db1) \<subseteq> set (ab_findings db2)"
  shows "analyze (\<lambda>p i. get_citation up p i ev) rt env2 project is db2 = (Inl RequirementAnalysisUnavailable, db2)"
  using sql_citations.analyze_again [OF assms] .

theorem repeated_analysis_fails_witness:
  "fst (analyze (\<lambda>p i. get_citation True p i demo_cited) demo_rt demo_analysis_env 11 [300]
     (stored_db demo_analysis_env 11 [300] demo_findings demo_analysis_db)) = Inl RequirementAnalysisUnavailable"
proof -
  have "an_findings (run_of demo_analysis_env 11 [300] demo_findings) \<noteq> []" by (simp add: run_of_def demo_finding(1))
  from repeated_analysis_fails [OF demo_analysed this subset_refl] show ?thesis by simp
qed

text \<open>A passage with two unbounded terms of one table and no digit can never be analysed: its two
  findings have one identifier, so no run that cites it is ever stored.\<close>

theorem two_vague_terms_never_stored:
  assumes "get_citation True project i ev = Inr (Some z)" "i \<in> set is" "list_all (\<lambda>c. \<not> is_digit c) (casefold (ct_passage z))"
    and "2 \<le> length (filter (\<lambda>t. str_in t (casefold (ct_passage z))) AMBIGUOUS_TERMS)
      \<or> 2 \<le> length (filter (\<lambda>t. str_in t (casefold (ct_passage z))) PERFORMANCE_TERMS)"
  shows "\<exists>e. analyze (\<lambda>p i. get_citation True p i ev) rt env project is db = (Inl e, db)"
proof -
  have b: "\<not> has_measurable_bound (casefold (ct_passage z))" using assms(3) by (auto simp: has_measurable_bound_def list_all_iff list_ex_iff)
  then have "2 \<le> length (unbounded_terms AMBIGUOUS_TERMS (casefold (ct_passage z)))
      \<or> 2 \<le> length (unbounded_terms PERFORMANCE_TERMS (casefold (ct_passage z)))"
    using assms(4) by (simp add: unbounded_terms_def)
  with sql_citations.analyze_rejects [OF assms(1,2)] show ?thesis by blast
qed

theorem two_vague_terms_never_stored_witness:
  "\<exists>e. analyze (\<lambda>p i. get_citation True p i demo_vague) demo_rt demo_analysis_env 11 [300] demo_analysis_db = (Inl e, demo_analysis_db)"
  by (rule two_vague_terms_never_stored [OF demo_vague_get]) (use demo_vague_terms in simp_all)

section \<open>Feedback\<close>

text \<open>Feedback is recorded only on a supported finding of a stored run of the project; the event holds the
  finding's citations, the trimmed annotation and the server-side reviewer identity.\<close>

theorem feedback_provenance:
  assumes "record_feedback (\<lambda>p r. get_run up p r adb) env project run finding action annotation reviewer db = (Inr d, db')"
  shows "\<exists>a f. get_run up project run adb = Inr (Some a) \<and> an_project_id a = project \<and> f \<in> set (an_findings a) \<and> rf_id f = finding
    \<and> \<not> rf_unsupported f \<and> rf_evidence f \<noteq> []
    \<and> d = \<lparr>fd_id = ke_id env, fd_project_id = project, fd_requirement_analysis_run_id = run, fd_requirement_finding_id = finding,
        fd_citation_ids = map fe_citation_id (rf_evidence f), fd_action = action, fd_annotation = map_option strip annotation,
        fd_reviewer_id = fst (reviewer_provenance reviewer), fd_reviewer_authentication_source = snd (reviewer_provenance reviewer),
        fd_created_at = ke_now env\<rparr>"
  using sql_runs.recorded_on_supported [OF assms] .

theorem feedback_provenance_witness:
  "\<exists>d db'. record_feedback (\<lambda>p r. get_run True p r demo_stored) demo_feedback_env 11 401 7 ACCEPT None LocalDevelopmentOwnerPrincipal
     demo_feedback_db = (Inr d, db') \<and> fd_citation_ids d = [300]"
proof -
  obtain d db' where r: "record_feedback (\<lambda>p r. get_run True p r demo_stored) demo_feedback_env 11 401 7 ACCEPT None
      LocalDevelopmentOwnerPrincipal demo_feedback_db = (Inr d, db')" using demo_feedback by blast
  from feedback_provenance [OF r] have "fd_citation_ids d = [300]" using demo_finding(2) by (auto simp: demo_stored_run run_of_def)
  with r show ?thesis by (intro exI conjI)
qed

text \<open>Feedback is append-only: recording adds exactly the returned event to the list of its finding, ordered
  by time and identifier, and changes neither the run nor its findings.\<close>

theorem feedback_append_only:
  assumes "record_feedback get env project run finding action annotation reviewer db = (Inr d, db')"
    and "list_feedback True project run finding db = Inr ds"
  shows "list_feedback True project run finding db' = Inr (sort_key (\<lambda>d. (fd_created_at d, fd_id d)) (ds @ [d]))
    \<and> fb_analysis db' = fb_analysis db"
  using record_feedback_listed [OF assms] by blast

theorem feedback_append_only_witness:
  "\<exists>d db'. record_feedback (\<lambda>p r. get_run True p r demo_stored) demo_feedback_env 11 401 7 ACCEPT None LocalDevelopmentOwnerPrincipal
     demo_feedback_db = (Inr d, db') \<and> list_feedback True 11 401 7 db' = Inr [d]"
proof -
  obtain d db' where r: "record_feedback (\<lambda>p r. get_run True p r demo_stored) demo_feedback_env 11 401 7 ACCEPT None
      LocalDevelopmentOwnerPrincipal demo_feedback_db = (Inr d, db')" using demo_feedback by blast
  have "list_feedback True 11 401 7 demo_feedback_db = Inr []" by (simp add: list_feedback_def demo_feedback_db_def)
  from feedback_append_only [OF r this] r show ?thesis by auto
qed

end
