(* ===== verification/Test_Generation.thy ===== *)
theory Test_Generation
  imports Analysis_Runs Test_Case_Contract
begin

text \<open>
  Grounded test generation (\<open>test_generation.py\<close>): proposals derived from cited findings, in a deterministic
  order.  The service reads citations through the interface \<open>citation_reader\<close>.
\<close>

section \<open>Data\<close>

definition GROUNDED_TEST_GENERATOR_VERSION :: string where "GROUNDED_TEST_GENERATOR_VERSION = ''grounded-test-generator/v1''"
definition GROUNDED_TEST_NAMESPACE :: uuid where "GROUNDED_TEST_NAMESPACE = 0xf83ebafb0d6c46c6a738b9af520b8fc0"
definition MAX_GENERATED_TEST_CASES :: nat where "MAX_GENERATED_TEST_CASES = 50"

datatype generation_error =
    TestGenerationEligibilityError string
  | TestGenerationUnavailable
  | GenerationCitation citation_error
  | GenerationTestCase generated_test_error

record test_generation_seed =
  sd_finding :: requirement_finding
  sd_kind :: generated_test_kind
  sd_request :: request_template
  sd_assertions :: "generated_assertion list"

definition seed_citation_ids :: "test_generation_seed \<Rightarrow> uuid list" where
  "seed_citation_ids s = map fe_citation_id (rf_evidence (sd_finding s))"

section \<open>Eligibility\<close>

abbreviation ineligible :: "string \<Rightarrow> generation_error" where "ineligible \<equiv> TestGenerationEligibilityError"

definition check_citation ::
  "(uuid \<Rightarrow> uuid \<Rightarrow> citation_error + citation option) \<Rightarrow> uuid \<Rightarrow> uuid \<Rightarrow> generation_error + unit" where
  "check_citation get project i =
     bindE (except (get project i) (\<lambda>e. if e = CitationUnavailable then TestGenerationUnavailable else GenerationCitation e)) (\<lambda>z.
       require (case z of None \<Rightarrow> False | Some c \<Rightarrow> ct_project_id c = project)
         (ineligible ''Grounded finding evidence must resolve in the project''))"

definition validate_test_generation_eligibility ::
  "(uuid \<Rightarrow> uuid \<Rightarrow> citation_error + citation option) \<Rightarrow> uuid \<Rightarrow> test_generation_seed \<Rightarrow> generation_error + unit" where
  "validate_test_generation_eligibility get project s =
     bindE (require (\<not> rf_unsupported (sd_finding s)) (ineligible ''Unsupported findings are not eligible for test generation'')) (\<lambda>_.
     bindE (require (rf_evidence (sd_finding s) \<noteq> []) (ineligible ''Grounded test generation requires cited finding evidence'')) (\<lambda>_.
     bindE (require (sd_assertions s \<noteq> []) (ineligible ''Grounded test generation requires at least one assertion'')) (\<lambda>_.
     bindE (require (distinct (seed_citation_ids s)) (ineligible ''Grounded finding evidence citation IDs must not repeat'')) (\<lambda>_.
     bindE (mapE (check_citation get project) (seed_citation_ids s)) (\<lambda>_. Inr ())))))"

section \<open>The proposal of a seed\<close>

text \<open>\<open>str.title\<close> on the ASCII texts it is applied to.\<close>

fun title_case :: "bool \<Rightarrow> string \<Rightarrow> string" where
  "title_case cased [] = []"
| "title_case cased (c # cs) =
     (let lower = 97 \<le> code c \<and> code c \<le> 122; upper = 65 \<le> code c \<and> code c \<le> 90 in
      (if lower \<and> \<not> cased then char_of (code c - 32) else if upper \<and> cased then char_of (code c + 32) else c)
        # title_case (lower \<or> upper) cs)"

definition with_spaces :: "string \<Rightarrow> string" where
  "with_spaces s = str_replace ''_'' '' '' s"

definition canonical_seed_payload :: "test_generation_seed \<Rightarrow> string" where
  "canonical_seed_payload s = canonical_json (JObj
     [(''generator_version'', JStr GROUNDED_TEST_GENERATOR_VERSION), (''finding_id'', JStr (uuid_str (rf_id (sd_finding s)))),
      (''kind'', JStr (kind_value (sd_kind s))), (''citation_ids'', JArr (map (\<lambda>i. JStr (uuid_str i)) (seed_citation_ids s))),
      (''request'', request_payload (sd_request s)), (''assertions'', JArr (map assertion_payload (sd_assertions s)))])"

definition seed_sort_key :: "test_generation_seed \<Rightarrow> string \<times> string \<times> string" where
  "seed_sort_key s = (uuid_str (rf_id (sd_finding s)), kind_value (sd_kind s), canonical_seed_payload s)"

definition candidate_case :: "runtime \<Rightarrow> test_generation_seed \<Rightarrow> generated_test_case" where
  "candidate_case rt s =
     \<lparr>tc_id = uuid5 rt GROUNDED_TEST_NAMESPACE (canonical_seed_payload s),
      tc_title = title_case False (with_spaces (kind_value (sd_kind s))) @ '' test for ''
        @ with_spaces (category_value (rf_category (sd_finding s))) @ '' finding'',
      tc_kind = sd_kind s, tc_source_finding_id = rf_id (sd_finding s), tc_citation_ids = seed_citation_ids s,
      tc_request = sd_request s, tc_assertions = sd_assertions s\<rparr>"

definition generated_of_seed :: "runtime \<Rightarrow> test_generation_seed \<Rightarrow> generation_error + generated_test_case" where
  "generated_of_seed rt s = except (validate_generated_test_case rt (test_case_payload (candidate_case rt s))) (\<lambda>e. case e of
     GeneratedTestCaseValidationError m \<Rightarrow> ineligible ''Grounded test-generation seed violates the generated-test contract''
   | _ \<Rightarrow> GenerationTestCase e)"

section \<open>The service\<close>

definition generate ::
  "(uuid \<Rightarrow> uuid \<Rightarrow> citation_error + citation option) \<Rightarrow> runtime \<Rightarrow> uuid \<Rightarrow> test_generation_seed list
     \<Rightarrow> generation_error + generated_test_case list" where
  "generate get rt project seeds =
     bindE (require (seeds \<noteq> []) (ineligible ''At least one grounded test-generation seed is required'')) (\<lambda>_.
     bindE (require (length seeds \<le> MAX_GENERATED_TEST_CASES)
       (ineligible ''Too many grounded test-generation seeds were supplied'')) (\<lambda>_.
     bindE (mapE (\<lambda>s. bindE (validate_test_generation_eligibility get project s) (\<lambda>_. generated_of_seed rt s)) (sort_key seed_sort_key seeds)) (\<lambda>ts.
     bindE (require (distinct (map tc_id ts)) (ineligible ''Grounded test-generation seeds must produce unique test cases'')) (\<lambda>_. Inr ts))))"

section \<open>What is generated\<close>

text \<open>A seed whose citations the reader finds in the project.\<close>

definition grounded :: "(uuid \<Rightarrow> uuid \<Rightarrow> citation_error + citation option) \<Rightarrow> uuid \<Rightarrow> test_generation_seed \<Rightarrow> bool" where
  "grounded get project s \<longleftrightarrow> \<not> rf_unsupported (sd_finding s) \<and> rf_evidence (sd_finding s) \<noteq> [] \<and> sd_assertions s \<noteq> []
     \<and> distinct (seed_citation_ids s) \<and> list_all (\<lambda>i. \<exists>z. get project i = Inr (Some z) \<and> ct_project_id z = project) (seed_citation_ids s)"

lemma check_citation_Inr [exn_simps]:
  "check_citation get project i = Inr u \<longleftrightarrow> (\<exists>z. get project i = Inr (Some z) \<and> ct_project_id z = project)"
  by (auto simp: check_citation_def exn_simps split: option.splits)

lemma mapE_unit: "(\<exists>us. mapE f xs = Inr us) \<longleftrightarrow> list_all (\<lambda>x. \<exists>u. f x = Inr u) xs"
  by (induction xs) (auto simp: bindE_eq_Inr)

lemma eligible_iff [exn_simps]: "validate_test_generation_eligibility get project s = Inr u \<longleftrightarrow> grounded get project s"
  using mapE_unit [of "check_citation get project" "seed_citation_ids s"]
  by (auto simp: validate_test_generation_eligibility_def grounded_def exn_simps)

lemma generated_of_seed_Inr [exn_simps]:
  "generated_of_seed rt s = Inr t \<longleftrightarrow> validate_generated_test_case rt (test_case_payload (candidate_case rt s)) = Inr t"
  by (cases "validate_generated_test_case rt (test_case_payload (candidate_case rt s))") (simp_all add: generated_of_seed_def)

text \<open>Validation keeps the identity, kind, source and citations of a payload.\<close>

lemma mapE_uuid_field [simp]: "mapE (\<lambda>x. uuid_field x l) (map (\<lambda>i. JStr (uuid_str i)) is) = Inr is"
  by (induction "is") simp_all

lemma bindE_InrE: "bindE m f = Inr y \<Longrightarrow> (\<And>x. m = Inr x \<Longrightarrow> f x = Inr y \<Longrightarrow> P) \<Longrightarrow> P"
  by (cases m) simp_all

lemma validated_fields:
  assumes "validate_generated_test_case rt p = Inr t"
  shows "\<exists>v l. item p ''id'' = Inr v \<and> uuid_field v l = Inr (tc_id t)"
    "\<exists>v l. item p ''kind'' = Inr v \<and> enum_field kind_value [POSITIVE, NEGATIVE, BOUNDARY, AUTHORIZATION, CONTRACT, STATE] v l = Inr (tc_kind t)"
    "\<exists>v l. item p ''source_finding_id'' = Inr v \<and> uuid_field v l = Inr (tc_source_finding_id t)"
    "\<exists>v. item p ''citation_ids'' = Inr v \<and> citation_ids v = Inr (tc_citation_ids t)"
  by (rule assms [unfolded validate_generated_test_case_def, THEN bindE_InrE]; elim bindE_InrE; clarsimp; blast)+

lemma validate_keeps:
  assumes "validate_generated_test_case rt (test_case_payload c) = Inr t"
  shows "tc_id t = tc_id c" "tc_kind t = tc_kind c" "tc_source_finding_id t = tc_source_finding_id c" "tc_citation_ids t = tc_citation_ids c"
proof -
  let ?p = "test_case_payload c"
  have "item ?p ''id'' = Inr (JStr (uuid_str (tc_id c)))" "item ?p ''kind'' = Inr (JStr (kind_value (tc_kind c)))"
    "item ?p ''source_finding_id'' = Inr (JStr (uuid_str (tc_source_finding_id c)))"
    "item ?p ''citation_ids'' = Inr (JArr (map (\<lambda>i. JStr (uuid_str i)) (tc_citation_ids c)))"
    by (simp_all add: test_case_payload_def item_def)
  then show "tc_id t = tc_id c" "tc_kind t = tc_kind c" "tc_source_finding_id t = tc_source_finding_id c"
    "tc_citation_ids t = tc_citation_ids c"
    using validated_fields [OF assms] by (auto simp: citation_ids_def bindE_eq_Inr list_field_def)
qed

text \<open>When the service returns proposals, and which.\<close>

lemma generate_iff:
  "generate get rt project seeds = Inr ts \<longleftrightarrow> seeds \<noteq> [] \<and> length seeds \<le> MAX_GENERATED_TEST_CASES \<and> distinct (map tc_id ts)
     \<and> list_all2 (\<lambda>s t. grounded get project s \<and> validate_generated_test_case rt (test_case_payload (candidate_case rt s)) = Inr t)
         (sort_key seed_sort_key seeds) ts"
proof -
  have "bindE (validate_test_generation_eligibility get project s) (\<lambda>_. generated_of_seed rt s) = Inr t
      \<longleftrightarrow> grounded get project s \<and> validate_generated_test_case rt (test_case_payload (candidate_case rt s)) = Inr t" for s t
    by (auto simp: bindE_eq_Inr eligible_iff generated_of_seed_Inr)
  then show ?thesis by (auto simp: generate_def bindE_eq_Inr require_eq_Inr mapE_eq_Inr)
qed

lemma generate_succeeds:
  assumes "seeds \<noteq> []" "length seeds \<le> MAX_GENERATED_TEST_CASES" "list_all (grounded get project) seeds"
    and "list_all (\<lambda>s. test_case_ok rt (candidate_case rt s)) seeds" "distinct (map (\<lambda>s. tc_id (candidate_case rt s)) seeds)"
  shows "generate get rt project seeds = Inr (map (candidate_case rt) (sort_key seed_sort_key seeds))"
  unfolding generate_iff using assms
  by (auto simp: list_all2_map2 list_all2_same list_all_iff validate_payload comp_def distinct_map)

lemma generated_ok:
  assumes "generate get rt project seeds = Inr ts"
  shows "list_all (test_case_ok rt) ts"
proof -
  have "test_case_ok rt t" if t: "t \<in> set ts" for t
  proof -
    obtain n where n: "n < length ts" "ts ! n = t" using t unfolding in_set_conv_nth by blast
    from assms have "list_all2 (\<lambda>s t. grounded get project s \<and> validate_generated_test_case rt (test_case_payload (candidate_case rt s)) = Inr t)
        (sort_key seed_sort_key seeds) ts" unfolding generate_iff by blast
    from list_all2_nthD2 [OF this n(1)] show ?thesis unfolding n(2) using validate_sound by blast
  qed
  then show ?thesis by (simp add: list_all_iff)
qed

lemma generated_provenance:
  assumes "generate get rt project seeds = Inr ts"
  shows "list_all2 (\<lambda>s t. grounded get project s \<and> tc_source_finding_id t = rf_id (sd_finding s) \<and> tc_kind t = sd_kind s
     \<and> tc_citation_ids t = seed_citation_ids s) (sort_key seed_sort_key seeds) ts"
proof -
  from assms have "list_all2 (\<lambda>s t. grounded get project s \<and> validate_generated_test_case rt (test_case_payload (candidate_case rt s)) = Inr t)
      (sort_key seed_sort_key seeds) ts" unfolding generate_iff by blast
  then show ?thesis by (rule list_all2_mono) (auto dest: validate_keeps simp: candidate_case_def)
qed

section \<open>Findings of an analysis ground tests\<close>

lemma analyzed_citations_distinct:
  assumes "distinct (map ct_id zs)" "f \<in> set (analyze_citations rt zs)"
  shows "distinct (map fe_citation_id (rf_evidence f))"
proof -
  consider z where "f \<in> set (citation_findings rt z)"
    | l r where "l \<in> set zs" "r \<in> set zs" "contradicts l r" "f = contradiction_finding rt l r"
    using in_analyze_citations [OF assms(2)] by blast
  then show ?thesis
  proof cases
    case 2
    then have "l \<noteq> r" using contradicts_irrefl by blast
    then have "ct_id l \<noteq> ct_id r" using 2(1,2) assms(1) by (auto simp: distinct_map inj_on_def)
    then show ?thesis by (simp add: 2(4) contradiction_finding_def)
  qed (simp add: citation_findings_evidence)
qed

context citation_reader
begin

lemma analyzed_grounded:
  assumes "analyze get rt env project is db = (Inr run, db')" "sd_finding s \<in> set (an_findings run)" "sd_assertions s \<noteq> []"
  shows "grounded get project s"
proof -
  obtain zs findings where a: "map ct_id zs = is" "distinct is" "mapE (\<lambda>f. validate_requirement_finding (finding_payload f)) (analyze_citations rt zs) = Inr findings"
    "run = run_of env project is findings"
    by (rule analyze_Inr [OF assms(1)]) blast
  have g: "sd_finding s \<in> set findings" using assms(2) by (simp add: a(4) run_of_def)
  have v: "list_all2 (\<lambda>f g. validate_requirement_finding (finding_payload f) = Inr g) (analyze_citations rt zs) findings"
    using a(3) by (simp add: mapE_eq_Inr)
  obtain n where n: "n < length findings" "findings ! n = sd_finding s" using g unfolding in_set_conv_nth by blast
  let ?f = "analyze_citations rt zs ! n"
  have f: "?f \<in> set (analyze_citations rt zs)" "validate_requirement_finding (finding_payload ?f) = Inr (sd_finding s)"
    using list_all2_nthD2 [OF v n(1)] list_all2_lengthD [OF v] n by simp_all
  have e: "seed_citation_ids s = map fe_citation_id (rf_evidence ?f)"
    unfolding seed_citation_ids_def by (rule validated_citations [OF f(2)])
  have d: "distinct (map ct_id zs)" using a(1,2) by simp
  have ne: "rf_evidence ?f \<noteq> []" and sub: "set (seed_citation_ids s) \<subseteq> set is"
    using analyze_citations_evidence [OF f(1)] by (simp_all add: e flip: a(1))
  from ne have "rf_evidence (sd_finding s) \<noteq> []" using e by (auto simp: seed_citation_ids_def)
  moreover from this have "\<not> rf_unsupported (sd_finding s)" using validate_finding_sound [OF f(2)] by (simp add: finding_ok_def split: if_splits)
  moreover have "distinct (seed_citation_ids s)" unfolding e by (rule analyzed_citations_distinct [OF d f(1)])
  moreover have "\<exists>z. get project i = Inr (Some z) \<and> ct_project_id z = project" if "i \<in> set (seed_citation_ids s)" for i
    using analyze_read [OF assms(1)] sub that get_found by blast
  ultimately show ?thesis using assms(3) by (simp add: grounded_def list_all_iff)
qed

end

end
