(* ===== verification/Test_Normalization.thy ===== *)
theory Test_Normalization
  imports Test_Case_Contract Json_Roundtrip Py_Text Uuid_Order "HOL-Library.Multiset"
begin

text \<open>
  Duplicate candidates among generated tests (\<open>test_normalization.py\<close>): the semantic payload that leaves out
  identity and provenance, its canonical text as comparison key, and the grouping of tests by that key.
  The Unicode tables behind \<open>normalize("NFKC", title).casefold()\<close> are the parameter \<open>fold_title\<close>; they only
  enter the normalized title.
\<close>

section \<open>The comparison view\<close>

definition TEST_NORMALIZATION_VERSION :: string where "TEST_NORMALIZATION_VERSION = ''generated-test-normalization/v1''"
definition DUPLICATE_GROUP_NAMESPACE :: uuid where "DUPLICATE_GROUP_NAMESPACE = 0xbfa7fa30b11c41b795d03b2fbd63d108"

datatype normalization_error = TestNormalizationError string

record normalized_test_case =
  nt_test_case_id :: uuid
  nt_normalized_title :: string
  nt_semantic_key :: string
  nt_semantic_fingerprint :: string

record duplicate_group =
  dg_id :: uuid
  dg_semantic_fingerprint :: string
  dg_test_case_ids :: "uuid list"

definition normalized_selector :: "assertion_target \<Rightarrow> string option \<Rightarrow> string option" where
  "normalized_selector target selector = (if target = RESPONSE_HEADER then map_option lower selector else selector)"

definition by_text :: "json list \<Rightarrow> json list" where
  "by_text = sort_key canonical_json"

definition semantic_payload :: "generated_test_case \<Rightarrow> json" where
  "semantic_payload t = JObj [(''normalization_version'', JStr TEST_NORMALIZATION_VERSION), (''kind'', JStr (kind_value (tc_kind t))),
     (''request'', JObj [(''method'', JStr (method_value (req_method (tc_request t)))), (''path'', JStr (req_path (tc_request t))),
        (''query'', JArr (by_text (map (\<lambda>p. JObj [(''name'', JStr (qp_name p)), (''value'', JStr (qp_value p))]) (req_query (tc_request t))))),
        (''headers'', JArr (by_text (map (\<lambda>h. JObj [(''name'', JStr (lower (hd_name h))), (''value'', JStr (strip (hd_value h)))])
           (req_headers (tc_request t))))),
        (''json_body'', opt_obj (req_json_body (tc_request t)))]),
     (''assertions'', JArr (by_text (map (\<lambda>a. JObj [(''target'', JStr (target_value (as_target a))),
        (''selector'', opt_str (normalized_selector (as_target a) (as_selector a))),
        (''operator'', JStr (operator_value (as_operator a))), (''expected_value'', as_expected a)]) (tc_assertions t))))]"

definition semantic_key :: "generated_test_case \<Rightarrow> string" where
  "semantic_key t = canonical_json (semantic_payload t)"

definition normalize_generated_test_case :: "runtime \<Rightarrow> (string \<Rightarrow> string) \<Rightarrow> generated_test_case \<Rightarrow> normalized_test_case" where
  "normalize_generated_test_case rt fold_title t =
     \<lparr>nt_test_case_id = tc_id t, nt_normalized_title = normalize (fold_title (tc_title t)),
      nt_semantic_key = semantic_key t, nt_semantic_fingerprint = sha256_hex rt (semantic_key t)\<rparr>"

section \<open>Grouping\<close>

text \<open>The two dictionaries the loop fills: the members of a key, in order, and its fingerprint.\<close>

fun collect_members :: "normalized_test_case list \<Rightarrow> (string \<rightharpoonup> uuid list) \<Rightarrow> (string \<rightharpoonup> string)
    \<Rightarrow> (string \<rightharpoonup> uuid list) \<times> (string \<rightharpoonup> string)" where
  "collect_members [] members fingerprints = (members, fingerprints)"
| "collect_members (n # ns) members fingerprints =
     collect_members ns
       (members(nt_semantic_key n \<mapsto> (case members (nt_semantic_key n) of None \<Rightarrow> [] | Some is \<Rightarrow> is) @ [nt_test_case_id n]))
       (fingerprints(nt_semantic_key n \<mapsto> nt_semantic_fingerprint n))"

definition group_duplicate_candidates ::
  "runtime \<Rightarrow> (string \<Rightarrow> string) \<Rightarrow> generated_test_case list \<Rightarrow> normalization_error + duplicate_group list" where
  "group_duplicate_candidates rt fold_title ts =
     bindE (require (distinct (map tc_id ts)) (TestNormalizationError ''Generated test case IDs must be unique'')) (\<lambda>_.
     let views = map (normalize_generated_test_case rt fold_title) ts in
     case collect_members views Map.empty Map.empty of (members, fingerprints) \<Rightarrow>
       Inr (concat (map (\<lambda>k.
         let member_ids = sort_key uuid_str (the (members k)) in
         if length member_ids < 2 then []
         else [\<lparr>dg_id = uuid5 rt DUPLICATE_GROUP_NAMESPACE k, dg_semantic_fingerprint = the (fingerprints k),
                dg_test_case_ids = member_ids\<rparr>]) (sort (remdups (map nt_semantic_key views))))))"

section \<open>What the groups are\<close>

definition with_key :: "generated_test_case list \<Rightarrow> string \<Rightarrow> uuid list" where
  "with_key ts k = map tc_id (filter (\<lambda>t. semantic_key t = k) ts)"

lemma with_key_simps [simp]:
  "with_key [] k = []" "with_key (t # ts) k = (if semantic_key t = k then tc_id t # with_key ts k else with_key ts k)"
  by (simp_all add: with_key_def)

lemma normalized_simps [simp]:
  "nt_test_case_id (normalize_generated_test_case rt fold_title t) = tc_id t"
  "nt_semantic_key (normalize_generated_test_case rt fold_title t) = semantic_key t"
  "nt_semantic_fingerprint (normalize_generated_test_case rt fold_title t) = sha256_hex rt (semantic_key t)"
  by (simp_all add: normalize_generated_test_case_def)

definition extended :: "uuid list option \<Rightarrow> uuid list \<Rightarrow> uuid list option" where
  "extended old is = (if is = [] then old else Some ((case old of None \<Rightarrow> [] | Some js \<Rightarrow> js) @ is))"

lemma extended_Cons: "extended (Some ((case old of None \<Rightarrow> [] | Some js \<Rightarrow> js) @ [i])) is = extended old (i # is)"
  by (simp add: extended_def)

lemma collect_members_eq:
  "fst (collect_members (map (normalize_generated_test_case rt fold_title) ts) members fingerprints) k = extended (members k) (with_key ts k)
   \<and> snd (collect_members (map (normalize_generated_test_case rt fold_title) ts) members fingerprints) k
     = (if with_key ts k = [] then fingerprints k else Some (sha256_hex rt k))"
proof (induction ts arbitrary: members fingerprints)
  case Nil
  show ?case by (simp add: extended_def)
next
  case (Cons t ts)
  show ?case
  proof (cases "semantic_key t = k")
    case True
    show ?thesis using Cons.IH True by (simp add: extended_Cons del: fun_upd_apply) (simp add: extended_Cons)
  next
    case False
    then show ?thesis using Cons.IH by simp
  qed
qed

text \<open>The groups in closed form.\<close>

definition duplicate_groups :: "runtime \<Rightarrow> generated_test_case list \<Rightarrow> duplicate_group list" where
  "duplicate_groups rt ts = map (\<lambda>k. \<lparr>dg_id = uuid5 rt DUPLICATE_GROUP_NAMESPACE k, dg_semantic_fingerprint = sha256_hex rt k,
       dg_test_case_ids = sort (with_key ts k)\<rparr>)
     (filter (\<lambda>k. 2 \<le> length (with_key ts k)) (sort (remdups (map semantic_key ts))))"

lemma group_duplicate_candidates_eq:
  "group_duplicate_candidates rt fold_title ts =
     (if distinct (map tc_id ts) then Inr (duplicate_groups rt ts)
      else Inl (TestNormalizationError ''Generated test case IDs must be unique''))"
proof -
  let ?views = "map (normalize_generated_test_case rt fold_title) ts"
  obtain m f where c: "collect_members ?views Map.empty Map.empty = (m, f)" by fastforce
  have s: "sort_key uuid_str = (sort :: uuid list \<Rightarrow> uuid list)" by (rule ext) (use sort_key_uuid_str [of "\<lambda>u. u"] in simp)
  let ?group = "\<lambda>k. \<lparr>dg_id = uuid5 rt DUPLICATE_GROUP_NAMESPACE k, dg_semantic_fingerprint = sha256_hex rt k,
     dg_test_case_ids = sort (with_key ts k)\<rparr>"
  have g: "the (m k) = with_key ts k \<and> the (f k) = sha256_hex rt k" if "k \<in> semantic_key ` set ts" for k
  proof -
    have "with_key ts k \<noteq> []" using that by (auto simp: with_key_def filter_empty_conv)
    then show ?thesis using collect_members_eq [of rt fold_title ts Map.empty Map.empty k] by (simp add: c extended_def)
  qed
  have v: "map nt_semantic_key ?views = map semantic_key ts" by simp
  have "concat (map (\<lambda>k. let member_ids = sort_key uuid_str (the (m k)) in if length member_ids < 2 then []
         else [\<lparr>dg_id = uuid5 rt DUPLICATE_GROUP_NAMESPACE k, dg_semantic_fingerprint = the (f k), dg_test_case_ids = member_ids\<rparr>]) ks)
      = map ?group (filter (\<lambda>k. 2 \<le> length (with_key ts k)) ks)" if "set ks \<subseteq> semantic_key ` set ts" for ks
    using that by (induction ks) (auto simp: g s)
  from this [of "sort (remdups (map semantic_key ts))"] show ?thesis
    by (simp add: group_duplicate_candidates_def Let_def c duplicate_groups_def comp_def require_def)
qed

lemma duplicate_groups_perm: "mset ts = mset us \<Longrightarrow> duplicate_groups rt ts = duplicate_groups rt us"
proof -
  assume m: "mset ts = mset us"
  have k: "mset (with_key ts k) = mset (with_key us k)" for k by (simp add: with_key_def m)
  have "sort (with_key ts k) = sort (with_key us k)" "length (with_key ts k) = length (with_key us k)" for k
    using k [of k] by (metis mset_sort sort_key_id_if_sorted sorted_sort properties_for_sort mset_eq_length)+
  moreover have "sort (remdups (map semantic_key ts)) = sort (remdups (map semantic_key us))"
    using mset_eq_setD [OF m] by (metis list.set_map sorted_list_of_set_sort_remdups)
  ultimately show ?thesis by (simp add: duplicate_groups_def)
qed

end
