(* ===== verification/Test_Revisions.thy ===== *)
theory Test_Revisions
  imports Test_Case_Contract
begin

text \<open>
  The immutable revision history of a generated test (\<open>test_revisions.py\<close>): canonical snapshots, the chain
  of attributed user edits, and the validation of a whole history before and after each append.
\<close>

section \<open>Data\<close>

definition MAX_EDITOR_ID_LENGTH :: nat where "MAX_EDITOR_ID_LENGTH = 255"

text \<open>A \<open>datetime\<close> with or without a time zone.\<close>

datatype timestamp = Aware instant | Naive instant

datatype revision_error = TestRevisionRejected string | RevisionTestCase generated_test_error

datatype revision_kind = GENERATED | USER_EDIT

record test_revision =
  tv_id :: uuid
  tv_test_case_id :: uuid
  tv_revision_number :: int
  tv_parent_revision_id :: "uuid option"
  tv_kind :: revision_kind
  tv_editor_id :: "string option"
  tv_created_at :: timestamp
  tv_test_case_payload :: string

record revision_history =
  th_test_case_id :: uuid
  th_revisions :: "test_revision list"

section \<open>Snapshots\<close>

definition revision_case :: "runtime \<Rightarrow> (string \<times> json) list \<Rightarrow> revision_error + generated_test_case" where
  "revision_case rt payload = except (validate_generated_test_case rt payload) (\<lambda>e. case e of
     GeneratedTestCaseValidationError m \<Rightarrow> TestRevisionRejected ''Test revision payload violates the generated-test contract''
   | e \<Rightarrow> RevisionTestCase e)"

definition canonical_snapshot :: "runtime \<Rightarrow> generated_test_case \<Rightarrow> revision_error + string" where
  "canonical_snapshot rt t =
     bindE (revision_case rt (test_case_payload t)) (\<lambda>v. Inr (canonical_json (JObj (test_case_payload v))))"

definition revision_test_case :: "runtime \<Rightarrow> string \<Rightarrow> revision_error + generated_test_case" where
  "revision_test_case rt snapshot = (case loads rt snapshot of
     None \<Rightarrow> Inl (TestRevisionRejected ''Test revision snapshot is not valid JSON'')
   | Some (JObj payload) \<Rightarrow> revision_case rt payload
   | Some _ \<Rightarrow> Inl (TestRevisionRejected ''Test revision snapshot must be a JSON object''))"

definition normalized_editor_id :: "string \<Rightarrow> revision_error + string" where
  "normalized_editor_id editor =
     (let normalized = strip editor in
      bindE (require (normalized \<noteq> [] \<and> length normalized \<le> MAX_EDITOR_ID_LENGTH)
        (TestRevisionRejected ''Editor identity must be bounded, non-empty text'')) (\<lambda>_. Inr normalized))"

definition require_aware_timestamp :: "timestamp \<Rightarrow> revision_error + instant" where
  "require_aware_timestamp x = (case x of
     Aware i \<Rightarrow> Inr i | Naive i \<Rightarrow> Inl (TestRevisionRejected ''Revision timestamps must include a timezone''))"

section \<open>Validation of a history\<close>

text \<open>The checks of one revision: its expected number, the identifiers before it and the revision before it.\<close>

definition validate_revision ::
  "runtime \<Rightarrow> uuid \<Rightarrow> nat \<Rightarrow> uuid set \<Rightarrow> (uuid \<times> instant) option \<Rightarrow> test_revision \<Rightarrow> revision_error + instant" where
  "validate_revision rt test_case n seen previous r =
     bindE (require (tv_id r \<notin> seen) (TestRevisionRejected ''Test revision IDs must be unique'')) (\<lambda>_.
     bindE (require (tv_test_case_id r = test_case)
       (TestRevisionRejected ''Every revision must retain the original generated test case ID'')) (\<lambda>_.
     bindE (require (tv_revision_number r = int n) (TestRevisionRejected ''Revision numbers must be contiguous'')) (\<lambda>_.
     bindE (revision_test_case rt (tv_test_case_payload r)) (\<lambda>t.
     bindE (require (tc_id t = test_case)
       (TestRevisionRejected ''Revision snapshots must retain the original generated test case ID'')) (\<lambda>_.
     bindE (require_aware_timestamp (tv_created_at r)) (\<lambda>now.
       case previous of
         None \<Rightarrow>
           bindE (require (tv_kind r = GENERATED \<and> tv_parent_revision_id r = None \<and> tv_editor_id r = None)
             (TestRevisionRejected ''The first revision must be unattributed generated output'')) (\<lambda>_. Inr now)
       | Some (parent, before) \<Rightarrow>
           (case tv_editor_id r of
              None \<Rightarrow> Inl (TestRevisionRejected ''User revisions must directly reference their parent revision'')
            | Some editor \<Rightarrow>
                bindE (require (tv_kind r = USER_EDIT \<and> tv_parent_revision_id r = Some parent)
                  (TestRevisionRejected ''User revisions must directly reference their parent revision'')) (\<lambda>_.
                bindE (normalized_editor_id editor) (\<lambda>_.
                bindE (require (before \<le> now)
                  (TestRevisionRejected ''Revision timestamps must not precede their parent revision'')) (\<lambda>_. Inr now))))))))))"

fun validate_revisions ::
  "runtime \<Rightarrow> uuid \<Rightarrow> nat \<Rightarrow> uuid set \<Rightarrow> (uuid \<times> instant) option \<Rightarrow> test_revision list \<Rightarrow> revision_error + unit" where
  "validate_revisions rt test_case n seen previous [] = Inr ()"
| "validate_revisions rt test_case n seen previous (r # rs) =
     bindE (validate_revision rt test_case n seen previous r) (\<lambda>now.
       validate_revisions rt test_case (Suc n) (insert (tv_id r) seen) (Some (tv_id r, now)) rs)"

definition validate_history :: "runtime \<Rightarrow> revision_history \<Rightarrow> revision_error + unit" where
  "validate_history rt h =
     bindE (require (th_revisions h \<noteq> []) (TestRevisionRejected ''Test revision history requires an original revision'')) (\<lambda>_.
       validate_revisions rt (th_test_case_id h) 1 {} None (th_revisions h))"

section \<open>Operations\<close>

definition create_test_revision_history ::
  "runtime \<Rightarrow> generated_test_case \<Rightarrow> timestamp \<Rightarrow> uuid \<Rightarrow> revision_error + revision_history" where
  "create_test_revision_history rt t created_at i =
     bindE (require_aware_timestamp created_at) (\<lambda>_.
     bindE (canonical_snapshot rt t) (\<lambda>snapshot.
     let h = \<lparr>th_test_case_id = tc_id t, th_revisions =
       [\<lparr>tv_id = i, tv_test_case_id = tc_id t, tv_revision_number = 1, tv_parent_revision_id = None, tv_kind = GENERATED,
         tv_editor_id = None, tv_created_at = created_at, tv_test_case_payload = snapshot\<rparr>]\<rparr> in
     bindE (validate_history rt h) (\<lambda>_. Inr h)))"

text \<open>A revision that follows \<open>parent\<close>; the comparison of the two times happens on validated, aware times.\<close>

definition precedes :: "timestamp \<Rightarrow> timestamp \<Rightarrow> bool" where
  "precedes s t \<longleftrightarrow> (case (s, t) of (Aware x, Aware y) \<Rightarrow> x < y | _ \<Rightarrow> False)"

definition append_user_test_revision ::
  "runtime \<Rightarrow> revision_history \<Rightarrow> (string \<times> json) list \<Rightarrow> string \<Rightarrow> timestamp \<Rightarrow> uuid \<Rightarrow> revision_error + revision_history" where
  "append_user_test_revision rt h edited editor created_at i =
     bindE (validate_history rt h) (\<lambda>_.
     bindE (require_aware_timestamp created_at) (\<lambda>_.
     bindE (normalized_editor_id editor) (\<lambda>editor_id.
     bindE (revision_case rt edited) (\<lambda>t.
     bindE (require (tc_id t = th_test_case_id h)
       (TestRevisionRejected ''User edits must retain the original generated test case ID'')) (\<lambda>_.
     bindE (canonical_snapshot rt t) (\<lambda>snapshot.
     let parent = last (th_revisions h) in
     bindE (require (snapshot \<noteq> tv_test_case_payload parent) (TestRevisionRejected ''User edits must change the prior revision'')) (\<lambda>_.
     bindE (require (\<not> precedes created_at (tv_created_at parent))
       (TestRevisionRejected ''User revision timestamps must not precede their parent revision'')) (\<lambda>_.
     bindE (require (i \<notin> tv_id ` set (th_revisions h)) (TestRevisionRejected ''Test revision IDs must be unique'')) (\<lambda>_.
     let h' = h\<lparr>th_revisions := th_revisions h @
       [\<lparr>tv_id = i, tv_test_case_id = th_test_case_id h, tv_revision_number = tv_revision_number parent + 1,
         tv_parent_revision_id = Some (tv_id parent), tv_kind = USER_EDIT, tv_editor_id = Some editor_id,
         tv_created_at = created_at, tv_test_case_payload = snapshot\<rparr>]\<rparr> in
     bindE (validate_history rt h') (\<lambda>_. Inr h'))))))))))"

section \<open>The contract of a history\<close>

text \<open>The declarative form: each revision by its position, number, parent and time.\<close>

definition stamp :: "test_revision \<Rightarrow> uuid \<times> instant" where
  "stamp r = (tv_id r, case tv_created_at r of Aware i \<Rightarrow> i | Naive i \<Rightarrow> i)"

definition editor_ok :: "string \<Rightarrow> bool" where
  "editor_ok e \<longleftrightarrow> strip e \<noteq> [] \<and> length (strip e) \<le> MAX_EDITOR_ID_LENGTH"

definition revision_ok :: "runtime \<Rightarrow> uuid \<Rightarrow> nat \<Rightarrow> (uuid \<times> instant) option \<Rightarrow> test_revision \<Rightarrow> bool" where
  "revision_ok rt c n previous r \<longleftrightarrow> tv_test_case_id r = c \<and> tv_revision_number r = int n
     \<and> (\<exists>t. revision_test_case rt (tv_test_case_payload r) = Inr t \<and> tc_id t = c) \<and> tv_created_at r = Aware (snd (stamp r))
     \<and> (case previous of
          None \<Rightarrow> tv_kind r = GENERATED \<and> tv_parent_revision_id r = None \<and> tv_editor_id r = None
        | Some (parent, before) \<Rightarrow> tv_kind r = USER_EDIT \<and> tv_parent_revision_id r = Some parent
            \<and> (\<exists>e. tv_editor_id r = Some e \<and> editor_ok e) \<and> before \<le> snd (stamp r))"

definition history_ok :: "runtime \<Rightarrow> revision_history \<Rightarrow> bool" where
  "history_ok rt h \<longleftrightarrow> (let rs = th_revisions h in rs \<noteq> [] \<and> distinct (map tv_id rs)
     \<and> (\<forall>i < length rs. revision_ok rt (th_test_case_id h) (Suc i) (if i = 0 then None else Some (stamp (rs ! (i - 1)))) (rs ! i)))"

lemma normalized_editor_id_Inr [exn_simps]: "normalized_editor_id e = Inr x \<longleftrightarrow> editor_ok e \<and> x = strip e"
  by (auto simp: normalized_editor_id_def editor_ok_def exn_simps Let_def)

lemma require_aware_timestamp_Inr [exn_simps]: "require_aware_timestamp x = Inr i \<longleftrightarrow> x = Aware i"
  by (auto simp: require_aware_timestamp_def split: timestamp.splits)

lemma validate_revision_Inr:
  "validate_revision rt c n seen previous r = Inr now \<longleftrightarrow> tv_id r \<notin> seen \<and> revision_ok rt c n previous r \<and> now = snd (stamp r)"
proof (cases previous)
  case None
  then show ?thesis by (auto simp: validate_revision_def exn_simps revision_ok_def stamp_def)
next
  case (Some p)
  then show ?thesis
    by (cases p; cases "tv_editor_id r") (auto simp: validate_revision_def exn_simps revision_ok_def stamp_def)
qed

lemma validate_revisions_Inr:
  "validate_revisions rt c n seen previous rs = Inr () \<longleftrightarrow> distinct (map tv_id rs) \<and> tv_id ` set rs \<inter> seen = {}
     \<and> (\<forall>i < length rs. revision_ok rt c (n + i) (if i = 0 then previous else Some (stamp (rs ! (i - 1)))) (rs ! i))"
proof (induction rs arbitrary: n seen previous)
  case (Cons r rs)
  have s: "(tv_id r, snd (stamp r)) = stamp r" by (simp add: stamp_def)
  have p: "(if i = 0 then Some (stamp r) else Some (stamp (rs ! (i - 1)))) = Some (stamp ((r # rs) ! i))" for i
    by (cases i) simp_all
  have "validate_revisions rt c n seen previous (r # rs) = Inr () \<longleftrightarrow> tv_id r \<notin> seen \<and> revision_ok rt c n previous r
      \<and> validate_revisions rt c (Suc n) (insert (tv_id r) seen) (Some (stamp r)) rs = Inr ()"
    by (auto simp: bindE_eq_Inr validate_revision_Inr s)
  then show ?case unfolding Cons.IH by (auto simp: All_less_Suc2 p)
qed simp

lemma validate_history_iff: "validate_history rt h = Inr () \<longleftrightarrow> history_ok rt h"
  by (simp add: validate_history_def bindE_eq_Inr require_eq_Inr validate_revisions_Inr history_ok_def Let_def)

lemma history_ok_snoc:
  assumes "th_revisions h \<noteq> []"
  shows "history_ok rt (h\<lparr>th_revisions := th_revisions h @ [r]\<rparr>) \<longleftrightarrow> history_ok rt h \<and> tv_id r \<notin> tv_id ` set (th_revisions h)
     \<and> revision_ok rt (th_test_case_id h) (Suc (length (th_revisions h))) (Some (stamp (last (th_revisions h)))) r"
  using assms by (auto simp: history_ok_def All_less_Suc nth_append last_conv_nth Let_def less_Suc_eq)

section \<open>Snapshots read back\<close>

lemma revision_case_Inr [exn_simps]:
  "revision_case rt p = Inr t \<longleftrightarrow> validate_generated_test_case rt p = Inr t"
  by (cases "validate_generated_test_case rt p") (simp_all add: revision_case_def)

lemma canonical_snapshot_ok: "test_case_ok rt t \<Longrightarrow> canonical_snapshot rt t = Inr (canonical_json (JObj (test_case_payload t)))"
  by (simp add: canonical_snapshot_def revision_case_def validate_payload)

lemma snapshot_reads_back:
  assumes "test_case_ok rt t" "json_ok rt (JObj (test_case_payload t))"
  shows "revision_test_case rt (canonical_json (JObj (test_case_payload t))) = Inr (canon_case t)"
  by (simp add: revision_test_case_def loads_canonical_json [OF assms(2)] canon_JObj exn_simps
      validate_canonical_payload [OF assms(1)] del: canon.simps)

section \<open>Creating and editing\<close>

lemma create_history_ok:
  assumes "create_test_revision_history rt t at i = Inr h"
  shows "history_ok rt h" "th_test_case_id h = tc_id t" "length (th_revisions h) = 1"
  using assms by (auto simp: create_test_revision_history_def bindE_eq_Inr validate_history_iff Let_def)

definition original_revision :: "generated_test_case \<Rightarrow> instant \<Rightarrow> uuid \<Rightarrow> test_revision" where
  "original_revision t now i = \<lparr>tv_id = i, tv_test_case_id = tc_id t, tv_revision_number = 1, tv_parent_revision_id = None, tv_kind = GENERATED,
     tv_editor_id = None, tv_created_at = Aware now, tv_test_case_payload = canonical_json (JObj (test_case_payload t))\<rparr>"

lemma create_history_succeeds:
  assumes "test_case_ok rt t" "json_ok rt (JObj (test_case_payload t))"
  shows "create_test_revision_history rt t (Aware now) i
    = Inr \<lparr>th_test_case_id = tc_id t, th_revisions = [original_revision t now i]\<rparr>"
proof -
  have "validate_history rt \<lparr>th_test_case_id = tc_id t, th_revisions = [original_revision t now i]\<rparr> = Inr ()"
    unfolding validate_history_iff using snapshot_reads_back [OF assms]
    by (simp add: history_ok_def revision_ok_def stamp_def canon_case_def original_revision_def)
  then show ?thesis using canonical_snapshot_ok [OF assms(1)]
    by (simp add: create_test_revision_history_def require_aware_timestamp_def Let_def original_revision_def)
qed

text \<open>The revision an accepted edit appends.\<close>

definition user_revision :: "revision_history \<Rightarrow> generated_test_case \<Rightarrow> string \<Rightarrow> instant \<Rightarrow> uuid \<Rightarrow> test_revision" where
  "user_revision h t editor now i = \<lparr>tv_id = i, tv_test_case_id = th_test_case_id h,
     tv_revision_number = tv_revision_number (last (th_revisions h)) + 1, tv_parent_revision_id = Some (tv_id (last (th_revisions h))),
     tv_kind = USER_EDIT, tv_editor_id = Some (strip editor), tv_created_at = Aware now,
     tv_test_case_payload = canonical_json (JObj (test_case_payload t))\<rparr>"

lemma append_Inr:
  assumes "append_user_test_revision rt h edited editor at i = Inr h'"
  obtains t now where "history_ok rt h" "at = Aware now" "editor_ok editor" "validate_generated_test_case rt edited = Inr t"
    "tc_id t = th_test_case_id h" "canonical_json (JObj (test_case_payload t)) \<noteq> tv_test_case_payload (last (th_revisions h))"
    "h' = h\<lparr>th_revisions := th_revisions h @ [user_revision h t editor now i]\<rparr>" "history_ok rt h'"
proof -
  obtain t where t: "validate_generated_test_case rt edited = Inr t"
    using assms by (auto simp: append_user_test_revision_def exn_simps)
  show thesis using assms that [of _ t]
    by (auto simp: append_user_test_revision_def exn_simps validate_history_iff Let_def t canonical_snapshot_ok [OF validate_sound [OF t]]
        user_revision_def)
qed

lemma last_revision:
  assumes "history_ok rt h"
  shows "tv_revision_number (last (th_revisions h)) = int (length (th_revisions h))"
    "tv_created_at (last (th_revisions h)) = Aware (snd (stamp (last (th_revisions h))))" "th_revisions h \<noteq> []"
proof -
  show ne: "th_revisions h \<noteq> []" using assms by (simp add: history_ok_def Let_def)
  then have "length (th_revisions h) - 1 < length (th_revisions h)" by simp
  with assms have "\<exists>p. revision_ok rt (th_test_case_id h) (Suc (length (th_revisions h) - 1)) p (last (th_revisions h))"
    unfolding history_ok_def Let_def last_conv_nth [OF ne] by blast
  then show "tv_revision_number (last (th_revisions h)) = int (length (th_revisions h))"
    "tv_created_at (last (th_revisions h)) = Aware (snd (stamp (last (th_revisions h))))"
    using ne by (auto simp: revision_ok_def)
qed

lemma append_succeeds:
  assumes h: "history_ok rt h" and t: "validate_generated_test_case rt edited = Inr t" "tc_id t = th_test_case_id h"
    and j: "json_ok rt (JObj (test_case_payload t))" and e: "editor_ok editor"
    and c: "canonical_json (JObj (test_case_payload t)) \<noteq> tv_test_case_payload (last (th_revisions h))"
    and n: "snd (stamp (last (th_revisions h))) \<le> now" "i \<notin> tv_id ` set (th_revisions h)"
  shows "append_user_test_revision rt h edited editor (Aware now) i = Inr (h\<lparr>th_revisions := th_revisions h @ [user_revision h t editor now i]\<rparr>)"
proof -
  note ok = validate_sound [OF t(1)]
  have "editor_ok (strip editor)" using e by (simp add: editor_ok_def)
  then have "revision_ok rt (th_test_case_id h) (Suc (length (th_revisions h))) (Some (stamp (last (th_revisions h)))) (user_revision h t editor now i)"
    using last_revision [OF h] n t(2) snapshot_reads_back [OF ok j]
    by (simp add: revision_ok_def user_revision_def stamp_def canon_case_def split: timestamp.splits)
  then have "history_ok rt (h\<lparr>th_revisions := th_revisions h @ [user_revision h t editor now i]\<rparr>)"
    using history_ok_snoc [OF last_revision(3) [OF h]] h n(2) by (simp add: user_revision_def)
  moreover have "\<not> precedes (Aware now) (tv_created_at (last (th_revisions h)))"
    unfolding last_revision(2) [OF h] using n(1) by (simp add: precedes_def)
  moreover have "normalized_editor_id editor = Inr (strip editor)" using e by (simp add: exn_simps)
  moreover have "revision_case rt edited = Inr t" using t(1) by (simp add: exn_simps)
  ultimately show ?thesis using h t(2) c n(2) canonical_snapshot_ok [OF ok]
    by (simp add: append_user_test_revision_def validate_history_iff [symmetric] require_aware_timestamp_def Let_def user_revision_def)
qed

section \<open>Histories reached\<close>

text \<open>All histories the two operations produce from a generated test.\<close>

inductive reached :: "runtime \<Rightarrow> revision_history \<Rightarrow> revision_history \<Rightarrow> bool" for rt where
  created: "create_test_revision_history rt t at i = Inr h \<Longrightarrow> reached rt h h"
| edited: "reached rt h0 h \<Longrightarrow> append_user_test_revision rt h payload editor at i = Inr h' \<Longrightarrow> reached rt h0 h'"

lemma reached_ok:
  assumes "reached rt h0 h"
  shows "history_ok rt h \<and> (\<exists>rs. th_revisions h = th_revisions h0 @ rs \<and> list_all (\<lambda>r. tv_kind r = USER_EDIT) rs)
    \<and> th_test_case_id h = th_test_case_id h0 \<and> length (th_revisions h0) = 1"
  using assms
proof (induction rule: reached.induct)
  case (created t at i h)
  then show ?case using create_history_ok by auto
next
  case (edited h0 h payload editor at i h')
  from append_Inr [OF edited.hyps(2)] obtain t now where
    "h' = h\<lparr>th_revisions := th_revisions h @ [user_revision h t editor now i]\<rparr>" "history_ok rt h'" by metis
  with edited.IH show ?case by (auto simp: user_revision_def)
qed

end
