(* ===== verification/Traceability.thy ===== *)
theory Traceability
  imports Generated_Tests "HOL-Library.Product_Lexorder"
begin

text \<open>
  Traceability matrices (\<open>traceability.py\<close>): links from requirements and operations to generated tests, and
  the refresh that marks links whose source is missing or revised as stale.
\<close>

section \<open>Data\<close>

definition MAX_TRACEABILITY_TEXT_LENGTH :: nat where "MAX_TRACEABILITY_TEXT_LENGTH = 1000"

datatype traceability_error = TraceabilityRejected string

datatype link_state = CURRENT | STALE

record requirement_source =
  rq_source_finding_id :: uuid
  rq_requirement_id :: string
  rq_revision :: string

record operation_source =
  oq_operation_id :: string
  oq_revision :: string

record requirement_link =
  rl_source_finding_id :: uuid
  rl_requirement_id :: string
  rl_source_revision :: string
  rl_test_case_id :: uuid
  rl_state :: link_state

record operation_link =
  ol_operation_id :: string
  ol_source_revision :: string
  ol_test_case_id :: uuid
  ol_state :: link_state

record traceability_matrices =
  tm_requirement_links :: "requirement_link list"
  tm_operation_links :: "operation_link list"

definition operation_id_for_test_case :: "generated_test_case \<Rightarrow> string" where
  "operation_id_for_test_case t = method_value (req_method (tc_request t)) @ '' '' @ req_path (tc_request t)"

section \<open>Indexing the sources\<close>

definition require_trace_text :: "string \<Rightarrow> string \<Rightarrow> traceability_error + unit" where
  "require_trace_text s label = require (s \<noteq> [] \<and> s = strip s \<and> length s \<le> MAX_TRACEABILITY_TEXT_LENGTH)
     (TraceabilityRejected (label @ '' must be bounded, non-empty canonical text''))"

text \<open>The loop that fills a dictionary and refuses a key seen before.\<close>

fun index_by ::
  "('s \<Rightarrow> 'k) \<Rightarrow> ('s \<Rightarrow> traceability_error + unit) \<Rightarrow> string \<Rightarrow> ('k \<rightharpoonup> 's) \<Rightarrow> 's list \<Rightarrow> traceability_error + ('k \<rightharpoonup> 's)" where
  "index_by key check repeated m [] = Inr m"
| "index_by key check repeated m (s # ss) =
     bindE (check s) (\<lambda>_.
     bindE (require (m (key s) = None) (TraceabilityRejected repeated)) (\<lambda>_.
       index_by key check repeated (m(key s \<mapsto> s)) ss))"

definition index_requirement_sources :: "requirement_source list \<Rightarrow> traceability_error + (uuid \<rightharpoonup> requirement_source)" where
  "index_requirement_sources = index_by rq_source_finding_id
     (\<lambda>s. bindE (require_trace_text (rq_requirement_id s) ''Requirement identifier'') (\<lambda>_.
        require_trace_text (rq_revision s) ''Requirement revision''))
     ''Requirement source finding IDs must be unique'' Map.empty"

definition index_operation_sources :: "operation_source list \<Rightarrow> traceability_error + (string \<rightharpoonup> operation_source)" where
  "index_operation_sources = index_by oq_operation_id
     (\<lambda>s. bindE (require_trace_text (oq_operation_id s) ''Operation identifier'') (\<lambda>_.
        require_trace_text (oq_revision s) ''Operation revision''))
     ''Operation identifiers must be unique'' Map.empty"

section \<open>Building the matrices\<close>

definition requirement_links :: "(uuid \<rightharpoonup> requirement_source) \<Rightarrow> generated_test_case list \<Rightarrow> requirement_link list" where
  "requirement_links sources tests = concat (map (\<lambda>t. case sources (tc_source_finding_id t) of None \<Rightarrow> []
     | Some s \<Rightarrow> [\<lparr>rl_source_finding_id = rq_source_finding_id s, rl_requirement_id = rq_requirement_id s,
         rl_source_revision = rq_revision s, rl_test_case_id = tc_id t, rl_state = CURRENT\<rparr>]) tests)"

definition operation_links :: "(string \<rightharpoonup> operation_source) \<Rightarrow> generated_test_case list \<Rightarrow> operation_link list" where
  "operation_links sources tests = concat (map (\<lambda>t. case sources (operation_id_for_test_case t) of None \<Rightarrow> []
     | Some s \<Rightarrow> [\<lparr>ol_operation_id = oq_operation_id s, ol_source_revision = oq_revision s, ol_test_case_id = tc_id t,
         ol_state = CURRENT\<rparr>]) tests)"

definition build_traceability_matrices ::
  "requirement_source list \<Rightarrow> operation_source list \<Rightarrow> generated_test_case list \<Rightarrow> traceability_error + traceability_matrices" where
  "build_traceability_matrices requirements operations tests =
     bindE (index_requirement_sources requirements) (\<lambda>by_finding.
     bindE (index_operation_sources operations) (\<lambda>by_id.
     bindE (require (distinct (map tc_id tests)) (TraceabilityRejected ''Generated test case IDs must be unique'')) (\<lambda>_.
     let ordered = sort_key (\<lambda>t. uuid_str (tc_id t)) tests in
       Inr \<lparr>tm_requirement_links = sort_key (\<lambda>l. (rl_requirement_id l, uuid_str (rl_source_finding_id l), uuid_str (rl_test_case_id l)))
              (requirement_links by_finding ordered),
            tm_operation_links = sort_key (\<lambda>l. (ol_operation_id l, uuid_str (ol_test_case_id l))) (operation_links by_id ordered)\<rparr>)))"

section \<open>Refreshing staleness\<close>

definition refresh_requirement_link :: "(uuid \<rightharpoonup> requirement_source) \<Rightarrow> requirement_link \<Rightarrow> requirement_link" where
  "refresh_requirement_link sources l = l\<lparr>rl_state := (case sources (rl_source_finding_id l) of None \<Rightarrow> STALE
     | Some s \<Rightarrow> if rq_requirement_id s = rl_requirement_id l \<and> rq_revision s = rl_source_revision l then CURRENT else STALE)\<rparr>"

definition refresh_operation_link :: "(string \<rightharpoonup> operation_source) \<Rightarrow> operation_link \<Rightarrow> operation_link" where
  "refresh_operation_link sources l = l\<lparr>ol_state := (case sources (ol_operation_id l) of None \<Rightarrow> STALE
     | Some s \<Rightarrow> if oq_revision s = ol_source_revision l then CURRENT else STALE)\<rparr>"

definition validate_matrix_links :: "traceability_matrices \<Rightarrow> traceability_error + unit" where
  "validate_matrix_links m =
     bindE (require (distinct (map (\<lambda>l. (rl_source_finding_id l, rl_test_case_id l)) (tm_requirement_links m)))
       (TraceabilityRejected ''Requirement/test traceability links must be unique'')) (\<lambda>_.
       require (distinct (map (\<lambda>l. (ol_operation_id l, ol_test_case_id l)) (tm_operation_links m)))
         (TraceabilityRejected ''Operation/test traceability links must be unique''))"

definition refresh_traceability_staleness ::
  "traceability_matrices \<Rightarrow> requirement_source list \<Rightarrow> operation_source list \<Rightarrow> traceability_error + traceability_matrices" where
  "refresh_traceability_staleness m requirements operations =
     bindE (index_requirement_sources requirements) (\<lambda>by_finding.
     bindE (index_operation_sources operations) (\<lambda>by_id.
     bindE (validate_matrix_links m) (\<lambda>_.
       Inr \<lparr>tm_requirement_links = map (refresh_requirement_link by_finding) (tm_requirement_links m),
            tm_operation_links = map (refresh_operation_link by_id) (tm_operation_links m)\<rparr>)))"

section \<open>What the matrices say\<close>

lemma index_by_Inr:
  assumes "index_by key check repeated m ss = Inr m'"
  shows "m' k = (case find (\<lambda>s. key s = k) ss of Some s \<Rightarrow> Some s | None \<Rightarrow> m k)"
    "list_all (\<lambda>s. check s = Inr ()) ss" "distinct (map key ss)"
proof -
  have "(\<forall>k. m' k = (case find (\<lambda>s. key s = k) ss of Some s \<Rightarrow> Some s | None \<Rightarrow> m k)) \<and> list_all (\<lambda>s. check s = Inr ()) ss
    \<and> distinct (map key ss) \<and> (\<forall>s \<in> set ss. m (key s) = None)"
    using assms
  proof (induction ss arbitrary: m)
    case (Cons s ss)
    then have c: "check s = Inr ()" "m (key s) = None" "index_by key check repeated (m(key s \<mapsto> s)) ss = Inr m'"
      by (auto simp: bindE_eq_Inr require_eq_Inr)
    note IH = Cons.IH [OF c(3)]
    then have new: "key x \<noteq> key s \<and> m (key x) = None" if "x \<in> set ss" for x using that by (auto split: if_splits)
    have "m' k = (case find (\<lambda>x. key x = k) (s # ss) of Some x \<Rightarrow> Some x | None \<Rightarrow> m k)" for k
    proof (cases "key s = k")
      case True
      then have "find (\<lambda>x. key x = k) ss = None" using new by (auto simp: find_None_iff)
      then show ?thesis using IH True by simp
    next
      case False
      then show ?thesis using IH by (cases "find (\<lambda>x. key x = k) ss") simp_all
    qed
    moreover have "key s \<notin> key ` set ss" using new by force
    ultimately show ?case using IH c(1,2) new by simp
  qed simp
  then show "m' k = (case find (\<lambda>s. key s = k) ss of Some s \<Rightarrow> Some s | None \<Rightarrow> m k)"
    "list_all (\<lambda>s. check s = Inr ()) ss" "distinct (map key ss)" by blast+
qed

lemma find_iff_set:
  assumes "distinct (map key ss)"
  shows "find (\<lambda>s. key s = k) ss = Some s \<longleftrightarrow> s \<in> set ss \<and> key s = k"
  using assms by (induction ss) force+

lemma index_requirement_sources_Inr:
  assumes "index_requirement_sources ss = Inr m"
  shows "m k = Some s \<longleftrightarrow> s \<in> set ss \<and> rq_source_finding_id s = k"
  using index_by_Inr(1) [OF assms [unfolded index_requirement_sources_def], of k]
    find_iff_set [OF index_by_Inr(3) [OF assms [unfolded index_requirement_sources_def]], of k s]
  by (cases "find (\<lambda>s. rq_source_finding_id s = k) ss") auto

lemma index_operation_sources_Inr:
  assumes "index_operation_sources ss = Inr m"
  shows "m k = Some s \<longleftrightarrow> s \<in> set ss \<and> oq_operation_id s = k"
  using index_by_Inr(1) [OF assms [unfolded index_operation_sources_def], of k]
    find_iff_set [OF index_by_Inr(3) [OF assms [unfolded index_operation_sources_def]], of k s]
  by (cases "find (\<lambda>s. oq_operation_id s = k) ss") auto

lemma requirement_links_set:
  "l \<in> set (requirement_links f ts) \<longleftrightarrow> (\<exists>t \<in> set ts. \<exists>s. f (tc_source_finding_id t) = Some s
     \<and> l = \<lparr>rl_source_finding_id = rq_source_finding_id s, rl_requirement_id = rq_requirement_id s,
         rl_source_revision = rq_revision s, rl_test_case_id = tc_id t, rl_state = CURRENT\<rparr>)"
  by (auto simp: requirement_links_def split: option.splits) force+

lemma operation_links_set:
  "l \<in> set (operation_links f ts) \<longleftrightarrow> (\<exists>t \<in> set ts. \<exists>s. f (operation_id_for_test_case t) = Some s
     \<and> l = \<lparr>ol_operation_id = oq_operation_id s, ol_source_revision = oq_revision s, ol_test_case_id = tc_id t, ol_state = CURRENT\<rparr>)"
  by (auto simp: operation_links_def split: option.splits) force+

lemma links_tests:
  "map rl_test_case_id (requirement_links f ts) = map tc_id (filter (\<lambda>t. f (tc_source_finding_id t) \<noteq> None) ts)"
  "map ol_test_case_id (operation_links g ts) = map tc_id (filter (\<lambda>t. g (operation_id_for_test_case t) \<noteq> None) ts)"
  by (induction ts) (auto simp: requirement_links_def operation_links_def split: option.splits)

lemma distinct_map_pair: "distinct (map g xs) \<Longrightarrow> distinct (map (\<lambda>x. (f x, g x)) xs)"
  by (auto simp: distinct_map inj_on_def)

lemma build_Inr:
  assumes "build_traceability_matrices requirements operations tests = Inr m"
  obtains f g where "index_requirement_sources requirements = Inr f" "index_operation_sources operations = Inr g" "distinct (map tc_id tests)"
    "set (tm_requirement_links m) = set (requirement_links f tests)" "set (tm_operation_links m) = set (operation_links g tests)"
    "distinct (map rl_test_case_id (tm_requirement_links m))" "distinct (map ol_test_case_id (tm_operation_links m))"
    "sorted (map (\<lambda>l. (rl_requirement_id l, uuid_str (rl_source_finding_id l), uuid_str (rl_test_case_id l))) (tm_requirement_links m))"
    "sorted (map (\<lambda>l. (ol_operation_id l, uuid_str (ol_test_case_id l))) (tm_operation_links m))"
proof -
  let ?ordered = "sort_key (\<lambda>t. uuid_str (tc_id t)) tests"
  let ?kr = "\<lambda>l. (rl_requirement_id l, uuid_str (rl_source_finding_id l), uuid_str (rl_test_case_id l))"
  let ?ko = "\<lambda>l. (ol_operation_id l, uuid_str (ol_test_case_id l))"
  obtain f g where i: "index_requirement_sources requirements = Inr f" "index_operation_sources operations = Inr g" "distinct (map tc_id tests)"
    and m: "tm_requirement_links m = sort_key ?kr (requirement_links f ?ordered)" "tm_operation_links m = sort_key ?ko (operation_links g ?ordered)"
    using assms by (auto simp: build_traceability_matrices_def bindE_eq_Inr require_eq_Inr Let_def)
  have d: "distinct (map tc_id ?ordered)" using i(3) by (simp add: distinct_map)
  have "distinct (map rl_test_case_id (requirement_links f ?ordered))" "distinct (map ol_test_case_id (operation_links g ?ordered))"
    unfolding links_tests by (rule distinct_map_filter [OF d])+
  then have "distinct (map rl_test_case_id (tm_requirement_links m))" "distinct (map ol_test_case_id (tm_operation_links m))"
    by (simp_all add: m distinct_map)
  moreover have "set (tm_requirement_links m) = set (requirement_links f tests)" "set (tm_operation_links m) = set (operation_links g tests)"
    by (simp_all add: m set_eq_iff requirement_links_set operation_links_set)
  ultimately show thesis using that i by (simp add: m)
qed

lemma refresh_operation_link_iff:
  assumes "index_operation_sources ss = Inr g"
  shows "ol_state (refresh_operation_link g l) = CURRENT
     \<longleftrightarrow> (\<exists>s \<in> set ss. oq_operation_id s = ol_operation_id l \<and> oq_revision s = ol_source_revision l)"
proof (cases "g (ol_operation_id l)")
  case None
  then have "\<not> (\<exists>s \<in> set ss. oq_operation_id s = ol_operation_id l)"
    using index_operation_sources_Inr [OF assms] by (metis option.distinct(1))
  then show ?thesis by (auto simp: refresh_operation_link_def None)
next
  case (Some s)
  then have "s' = s" if "s' \<in> set ss" "oq_operation_id s' = ol_operation_id l" for s'
    using that index_operation_sources_Inr [OF assms] by (metis option.inject)
  then show ?thesis using Some index_operation_sources_Inr [OF assms, of "ol_operation_id l" s] by (auto simp: refresh_operation_link_def)
qed

lemma refresh_requirement_link_iff:
  assumes "index_requirement_sources ss = Inr f"
  shows "rl_state (refresh_requirement_link f l) = CURRENT
     \<longleftrightarrow> (\<exists>s \<in> set ss. rq_source_finding_id s = rl_source_finding_id l \<and> rq_requirement_id s = rl_requirement_id l
          \<and> rq_revision s = rl_source_revision l)"
proof (cases "f (rl_source_finding_id l)")
  case None
  then have "\<not> (\<exists>s \<in> set ss. rq_source_finding_id s = rl_source_finding_id l)"
    using index_requirement_sources_Inr [OF assms] by (metis option.distinct(1))
  then show ?thesis by (auto simp: refresh_requirement_link_def None)
next
  case (Some s)
  then have "s' = s" if "s' \<in> set ss" "rq_source_finding_id s' = rl_source_finding_id l" for s'
    using that index_requirement_sources_Inr [OF assms] by (metis option.inject)
  then show ?thesis using Some index_requirement_sources_Inr [OF assms, of "rl_source_finding_id l" s]
    by (auto simp: refresh_requirement_link_def)
qed

text \<open>A matrix just built is unchanged by a refresh with the same sources.\<close>

lemma refresh_build:
  assumes "build_traceability_matrices requirements operations tests = Inr m"
  shows "refresh_traceability_staleness m requirements operations = Inr m"
proof -
  from assms obtain f g where b: "index_requirement_sources requirements = Inr f" "index_operation_sources operations = Inr g"
    "set (tm_requirement_links m) = set (requirement_links f tests)" "set (tm_operation_links m) = set (operation_links g tests)"
    "distinct (map rl_test_case_id (tm_requirement_links m))" "distinct (map ol_test_case_id (tm_operation_links m))"
    by (rule build_Inr)
  have "refresh_requirement_link f l = l" if l: "l \<in> set (tm_requirement_links m)" for l
  proof -
    have "rl_state l = CURRENT" "rl_state (refresh_requirement_link f l) = CURRENT"
      using l index_requirement_sources_Inr [OF b(1)] unfolding b(3) requirement_links_set refresh_requirement_link_iff [OF b(1)] by auto
    then show ?thesis by (simp add: refresh_requirement_link_def)
  qed
  moreover have "refresh_operation_link g l = l" if l: "l \<in> set (tm_operation_links m)" for l
  proof -
    have "ol_state l = CURRENT" "ol_state (refresh_operation_link g l) = CURRENT"
      using l index_operation_sources_Inr [OF b(2)] unfolding b(4) operation_links_set refresh_operation_link_iff [OF b(2)] by auto
    then show ?thesis by (simp add: refresh_operation_link_def)
  qed
  ultimately have "map (refresh_requirement_link f) (tm_requirement_links m) = tm_requirement_links m"
    "map (refresh_operation_link g) (tm_operation_links m) = tm_operation_links m"
    by (simp_all add: map_idI)
  moreover have "validate_matrix_links m = Inr ()"
    using b(5,6) by (simp add: validate_matrix_links_def require_def distinct_map_pair bindE_eq_Inr)
  ultimately show ?thesis by (simp add: refresh_traceability_staleness_def b(1,2))
qed

lemma refresh_Inr:
  assumes "refresh_traceability_staleness m requirements operations = Inr m'"
  obtains f g where "index_requirement_sources requirements = Inr f" "index_operation_sources operations = Inr g"
    "tm_requirement_links m' = map (refresh_requirement_link f) (tm_requirement_links m)"
    "tm_operation_links m' = map (refresh_operation_link g) (tm_operation_links m)"
  using assms by (auto simp: refresh_traceability_staleness_def bindE_eq_Inr)

end
