(* ===== verification/Metrics.thy ===== *)
theory Metrics
  imports Retrieval
begin

text \<open>
  Usage and cost accounting of model invocations (\<open>metrics.py\<close>).  A duration is kept in thousandths of a
  millisecond, the precision the gateway rounds to, and \<open>None\<close> when it is not finite; the success rate
  in thousandths of a percent.  Both percentile ranks and the rate are computed with the roundings of
  double arithmetic (\<open>round53\<close> of \<open>Retrieval\<close>).
\<close>

section \<open>Data\<close>

definition METRICS_SCHEMA_VERSION :: string where "METRICS_SCHEMA_VERSION = ''workflow-metrics/v1''"
definition TOKENS_PER_MILLION :: int where "TOKENS_PER_MILLION = 1000000"

datatype metrics_error = MetricsRejected string | MetricsIndexError

text \<open>A Python integer, of which a truth value is one.\<close>

datatype python_int = PyInt int | PyBool bool

fun python_int_value :: "python_int \<Rightarrow> int" where
  "python_int_value (PyInt i) = i"
| "python_int_value (PyBool b) = num_of_bool b"

record provider_pricing =
  pg_provider :: string
  pg_model_id :: string
  pg_pricing_version :: string
  pg_source_reference :: string
  pg_input_rate :: int
  pg_output_rate :: int

record measurement =
  mm_correlation_id :: uuid
  mm_trace_id :: "uuid option"
  mm_pricing :: provider_pricing
  mm_outcome :: string
  mm_duration :: int
  mm_retry_count :: int
  mm_input_tokens :: "int option"
  mm_output_tokens :: "int option"
  mm_total_tokens :: "int option"

record cost_summary =
  cs_pricing :: provider_pricing
  cs_invocation_count :: nat
  cs_success_count :: nat
  cs_failure_count :: nat
  cs_retry_count :: int
  cs_success_rate :: nat
  cs_input_tokens :: int
  cs_output_tokens :: int
  cs_total_tokens :: int
  cs_cost_microusd :: int
  cs_latency_p50 :: int
  cs_latency_p95 :: int

record cost_report =
  cp_schema_version :: string
  cp_summaries :: "cost_summary list"

section \<open>Construction\<close>

definition require_bounded_text :: "string \<Rightarrow> string \<Rightarrow> metrics_error + unit" where
  "require_bounded_text label s = require (s \<noteq> [] \<and> s = strip s \<and> length s \<le> 256) (MetricsRejected (label @ '' must be bounded canonical text''))"

definition require_non_negative_int :: "string \<Rightarrow> python_int \<Rightarrow> metrics_error + unit" where
  "require_non_negative_int label v =
     require (case v of PyInt i \<Rightarrow> 0 \<le> i | PyBool b \<Rightarrow> False) (MetricsRejected (label @ '' must be a non-negative integer''))"

definition make_pricing :: "string \<Rightarrow> string \<Rightarrow> string \<Rightarrow> string \<Rightarrow> python_int \<Rightarrow> python_int \<Rightarrow> metrics_error + provider_pricing" where
  "make_pricing provider model version source input_rate output_rate =
     bindE (require_bounded_text ''provider'' provider) (\<lambda>_.
     bindE (require_bounded_text ''model_id'' model) (\<lambda>_.
     bindE (require_bounded_text ''pricing_version'' version) (\<lambda>_.
     bindE (require_bounded_text ''source_reference'' source) (\<lambda>_.
     bindE (require_non_negative_int ''input_microusd_per_million_tokens'' input_rate) (\<lambda>_.
     bindE (require_non_negative_int ''output_microusd_per_million_tokens'' output_rate) (\<lambda>_.
       Inr \<lparr>pg_provider = provider, pg_model_id = model, pg_pricing_version = version, pg_source_reference = source,
         pg_input_rate = python_int_value input_rate, pg_output_rate = python_int_value output_rate\<rparr>))))))"

definition check_count :: "string \<Rightarrow> python_int option \<Rightarrow> metrics_error + unit" where
  "check_count label v = (case v of None \<Rightarrow> Inr () | Some i \<Rightarrow> require_non_negative_int label i)"

definition make_measurement ::
  "uuid \<Rightarrow> uuid option \<Rightarrow> provider_pricing \<Rightarrow> string \<Rightarrow> int option \<Rightarrow> python_int \<Rightarrow> python_int option \<Rightarrow> python_int option \<Rightarrow> python_int option
     \<Rightarrow> metrics_error + measurement" where
  "make_measurement correlation trace pricing outcome duration retries input_tokens output_tokens total_tokens =
     (let usage = [input_tokens, output_tokens, total_tokens]; has_usage = list_ex (\<lambda>v. v \<noteq> None) usage in
      bindE (require (correlation \<noteq> 0) (MetricsRejected ''A non-zero correlation UUID is required'')) (\<lambda>_.
      bindE (require (trace \<noteq> Some 0) (MetricsRejected ''Trace identifiers must be non-zero UUIDs'')) (\<lambda>_.
      bindE (require (outcome \<in> {''succeeded'', ''failed''}) (MetricsRejected ''Outcome must be succeeded or failed'')) (\<lambda>_.
      bindE (require (case duration of None \<Rightarrow> False | Some d \<Rightarrow> 0 \<le> d) (MetricsRejected ''Duration must be a finite non-negative number'')) (\<lambda>_.
      bindE (require_non_negative_int ''retry_count'' retries) (\<lambda>_.
      bindE (require (\<not> (has_usage \<and> \<not> list_all (\<lambda>v. v \<noteq> None) usage)) (MetricsRejected ''Provider usage fields must be present together'')) (\<lambda>_.
      bindE (require (\<not> (outcome = ''succeeded'' \<and> \<not> has_usage)) (MetricsRejected ''Successful invocations require provider usage'')) (\<lambda>_.
      bindE (require (\<not> (outcome = ''failed'' \<and> has_usage)) (MetricsRejected ''Failed invocations must not invent provider usage'')) (\<lambda>_.
      bindE (check_count ''input_tokens'' input_tokens) (\<lambda>_.
      bindE (check_count ''output_tokens'' output_tokens) (\<lambda>_.
      bindE (check_count ''total_tokens'' total_tokens) (\<lambda>_.
        Inr \<lparr>mm_correlation_id = correlation, mm_trace_id = trace, mm_pricing = pricing, mm_outcome = outcome,
          mm_duration = the duration, mm_retry_count = python_int_value retries, mm_input_tokens = map_option python_int_value input_tokens,
          mm_output_tokens = map_option python_int_value output_tokens, mm_total_tokens = map_option python_int_value total_tokens\<rparr>))))))))))))"

section \<open>The report\<close>

definition cost_microusd :: "provider_pricing \<Rightarrow> int \<Rightarrow> int \<Rightarrow> int" where
  "cost_microusd p input_tokens output_tokens =
     (input_tokens * pg_input_rate p + output_tokens * pg_output_rate p + TOKENS_PER_MILLION - 1) div TOKENS_PER_MILLION"

text \<open>The doubles \<open>0.50\<close> and \<open>0.95\<close> as multiples of \<open>2 ^ -53\<close>.\<close>

definition P50 :: nat where "P50 = 4503599627370496"
definition P95 :: nat where "P95 = 8556839292003942"

definition percentile_rank :: "nat \<Rightarrow> nat \<Rightarrow> nat" where
  "percentile_rank p n = max 1 ((round53 (p * n) 1 + 2 ^ 53 - 1) div 2 ^ 53)"

definition nearest_rank_percentile :: "nat \<Rightarrow> int list \<Rightarrow> metrics_error + int" where
  "nearest_rank_percentile p xs =
     (let ordered = sort xs; rank = percentile_rank p (length ordered) in
      bindE (require (ordered \<noteq> []) (MetricsRejected ''A percentile requires at least one measurement'')) (\<lambda>_.
      bindE (require (rank - 1 < length ordered) MetricsIndexError) (\<lambda>_. Inr (ordered ! (rank - 1)))))"

text \<open>\<open>round(s / n * 100, 3)\<close> in thousandths: the quotient and the product rounded to doubles, kept as
  multiples of \<open>2 ^ -(64 + bits of n)\<close>.\<close>

definition success_rate :: "nat \<Rightarrow> nat \<Rightarrow> nat" where
  "success_rate s n = (let scale = 2 ^ (64 + bit_length n) in div_even (1000 * round53 (100 * round53 (s * scale) n) 1) scale)"

definition token_sum :: "(measurement \<Rightarrow> int option) \<Rightarrow> measurement list \<Rightarrow> int" where
  "token_sum tokens ms = sum_list (map (\<lambda>m. case tokens m of None \<Rightarrow> 0 | Some i \<Rightarrow> i) ms)"

definition summary_for_pricing :: "provider_pricing \<Rightarrow> measurement list \<Rightarrow> metrics_error + cost_summary" where
  "summary_for_pricing p ms =
     (let successful = filter (\<lambda>m. mm_outcome m = ''succeeded'') ms;
          input_tokens = token_sum mm_input_tokens successful; output_tokens = token_sum mm_output_tokens successful in
      bindE (nearest_rank_percentile P50 (map mm_duration ms)) (\<lambda>p50.
      bindE (nearest_rank_percentile P95 (map mm_duration ms)) (\<lambda>p95.
        Inr \<lparr>cs_pricing = p, cs_invocation_count = length ms, cs_success_count = length successful,
          cs_failure_count = length ms - length successful, cs_retry_count = sum_list (map mm_retry_count ms),
          cs_success_rate = success_rate (length successful) (length ms), cs_input_tokens = input_tokens, cs_output_tokens = output_tokens,
          cs_total_tokens = token_sum mm_total_tokens successful, cs_cost_microusd = cost_microusd p input_tokens output_tokens,
          cs_latency_p50 = p50, cs_latency_p95 = p95\<rparr>)))"

text \<open>\<open>grouped.setdefault(measurement.pricing, []).append(measurement)\<close> on the entries in insertion order.\<close>

fun append_to_group :: "(provider_pricing \<times> measurement list) list \<Rightarrow> measurement \<Rightarrow> (provider_pricing \<times> measurement list) list" where
  "append_to_group [] m = [(mm_pricing m, [m])]"
| "append_to_group ((p, ms) # gs) m = (if p = mm_pricing m then (p, ms @ [m]) # gs else (p, ms) # append_to_group gs m)"

definition pricing_key :: "provider_pricing \<Rightarrow> string \<times> string \<times> string" where
  "pricing_key p = (pg_provider p, pg_model_id p, pg_pricing_version p)"

definition build_cost_success_report :: "measurement list \<Rightarrow> metrics_error + cost_report" where
  "build_cost_success_report ms =
     bindE (mapE (\<lambda>(p, group). summary_for_pricing p group) (sort_key (\<lambda>g. pricing_key (fst g)) (foldl append_to_group [] ms))) (\<lambda>summaries.
       Inr \<lparr>cp_schema_version = METRICS_SCHEMA_VERSION, cp_summaries = summaries\<rparr>)"

section \<open>Ranks are positions\<close>

lemma div_even_le:
  assumes "0 < u" "a \<le> u * k"
  shows "div_even a u \<le> k"
proof -
  have "a div u \<le> k" using assms by (metis div_le_mono nonzero_mult_div_cancel_left less_irrefl)
  moreover have "a mod u = 0" if "a div u = k"
    using assms(2) that by (metis mult_div_mod_eq add_le_same_cancel1 le_zero_eq)
  ultimately show ?thesis using assms(1) by (cases "a div u = k") (simp_all add: div_even_def Let_def)
qed

lemma bit_length_le: "a < 2 ^ k \<Longrightarrow> bit_length a \<le> k"
proof (induction k arbitrary: a)
  case 0
  then show ?case by (subst bit_length.simps) simp
next
  case (Suc k)
  then have "bit_length (a div 2) \<le> k" by simp
  then show ?case by (subst bit_length.simps) simp
qed

lemma percentile_rank_bounds:
  assumes "p \<le> 2 ^ 53" "0 < n" "n < 2 ^ 53"
  shows "1 \<le> percentile_rank p n \<and> percentile_rank p n \<le> n"
proof -
  let ?u = "2 ^ (bit_length (p * n) - 53) :: nat"
  have a: "p * n \<le> 2 ^ 53 * n" using assms(1) by simp
  have "p * n < 2 ^ 106"
  proof -
    have "p * n \<le> 2 ^ 53 * n" by (rule a)
    also have "\<dots> < 2 ^ 53 * 2 ^ 53" using assms(3) by (simp only: mult_less_mono2)
    finally show ?thesis by (simp flip: power_add)
  qed
  then have "bit_length (p * n) - 53 \<le> 53" using bit_length_le [of "p * n" 106] by simp
  then have "?u dvd 2 ^ 53" by (rule le_imp_power_dvd)
  then obtain k where k: "2 ^ 53 * n = ?u * k" by (metis dvd_def dvd_mult2)
  have "div_even (p * n) ?u \<le> k" by (rule div_even_le) (use a in \<open>simp_all only: k zero_less_power zero_less_numeral\<close>)
  then have "div_even (p * n) ?u * ?u \<le> 2 ^ 53 * n" unfolding k by (simp add: mult.commute)
  then have "round53 (p * n) 1 \<le> 2 ^ 53 * n" by (simp add: round53_def Let_def)
  then have "(round53 (p * n) 1 + 2 ^ 53 - 1) div 2 ^ 53 \<le> (2 ^ 53 * n + 2 ^ 53 - 1) div 2 ^ 53"
    by (intro div_le_mono) simp
  also have "\<dots> = n" by simp
  finally show ?thesis using assms(2) by (simp add: percentile_rank_def)
qed

lemma percentile_of:
  assumes "xs \<noteq> []" "length xs < 2 ^ 53" "p \<le> 2 ^ 53"
  shows "nearest_rank_percentile p xs = Inr (sort xs ! (percentile_rank p (length xs) - 1))"
    "percentile_rank p (length xs) - 1 < length xs"
proof -
  have b: "1 \<le> percentile_rank p (length xs) \<and> percentile_rank p (length xs) \<le> length xs"
    by (rule percentile_rank_bounds) (use assms in simp_all)
  then show "percentile_rank p (length xs) - 1 < length xs" by linarith
  moreover have "sort xs \<noteq> []" using assms(1) by (metis length_0_conv length_sort)
  ultimately show "nearest_rank_percentile p xs = Inr (sort xs ! (percentile_rank p (length xs) - 1))"
    by (simp add: nearest_rank_percentile_def Let_def require_def)
qed

section \<open>One summary per pricing\<close>

definition measured :: "measurement list \<Rightarrow> provider_pricing \<Rightarrow> measurement list" where
  "measured ms p = filter (\<lambda>m. mm_pricing m = p) ms"

lemma measured_snoc: "measured (ms @ [m]) p = (if p = mm_pricing m then measured ms p @ [m] else measured ms p)"
  by (simp add: measured_def)

lemma append_to_group_keys: "fst ` set (append_to_group gs m) = insert (mm_pricing m) (fst ` set gs)"
  by (induction gs m rule: append_to_group.induct) auto

lemma append_to_group_distinct: "distinct (map fst gs) \<Longrightarrow> distinct (map fst (append_to_group gs m))"
proof (induction gs m rule: append_to_group.induct)
  case (2 p ms gs m)
  then show ?case by (cases "p = mm_pricing m") (simp_all add: append_to_group_keys)
qed simp

lemma append_to_group_snd:
  "distinct (map fst gs) \<Longrightarrow> (p, ms) \<in> set (append_to_group gs m) \<longleftrightarrow>
     (if p = mm_pricing m then ms = (case map_of gs p of None \<Rightarrow> [] | Some old \<Rightarrow> old) @ [m] else (p, ms) \<in> set gs)"
  by (induction gs m rule: append_to_group.induct) (auto simp: image_iff split: option.splits dest: map_of_SomeD)

lemma groups:
  "distinct (map fst (foldl append_to_group [] ms)) \<and> fst ` set (foldl append_to_group [] ms) = mm_pricing ` set ms
   \<and> (\<forall>(p, group) \<in> set (foldl append_to_group [] ms). group = measured ms p)"
proof (induction ms rule: rev_induct)
  case (snoc m ms)
  let ?gs = "foldl append_to_group [] ms"
  have d: "distinct (map fst ?gs)" and f: "fst ` set ?gs = mm_pricing ` set ms" and g: "\<forall>(p, group) \<in> set ?gs. group = measured ms p"
    using snoc by blast+
  have o': "(case map_of ?gs (mm_pricing m) of None \<Rightarrow> [] | Some old \<Rightarrow> old) = measured ms (mm_pricing m)"
  proof (cases "map_of ?gs (mm_pricing m)")
    case None
    then have "mm_pricing m \<notin> mm_pricing ` set ms" using f by (simp add: map_of_eq_None_iff)
    then have "measured ms (mm_pricing m) = []" by (auto simp: measured_def filter_empty_conv image_iff)
    then show ?thesis by (simp add: None)
  next
    case (Some old)
    then show ?thesis using g by (fastforce dest: map_of_SomeD)
  qed
  have "group = measured (ms @ [m]) p" if "(p, group) \<in> set (append_to_group ?gs m)" for p group
    using that g unfolding append_to_group_snd [OF d] measured_snoc by (cases "p = mm_pricing m") (auto simp: o')
  then show ?case using append_to_group_keys [of ?gs m] append_to_group_distinct [OF d, of m] f by auto
qed simp

lemma summary_succeeds:
  assumes "ms \<noteq> []" "length ms < 2 ^ 53"
  shows "\<exists>s. summary_for_pricing p ms = Inr s \<and> cs_pricing s = p \<and> cs_invocation_count s = length ms
     \<and> cs_success_count s + cs_failure_count s = length ms
     \<and> cs_success_count s = length (filter (\<lambda>m. mm_outcome m = ''succeeded'') ms)
     \<and> cs_input_tokens s = token_sum mm_input_tokens (filter (\<lambda>m. mm_outcome m = ''succeeded'') ms)
     \<and> cs_output_tokens s = token_sum mm_output_tokens (filter (\<lambda>m. mm_outcome m = ''succeeded'') ms)
     \<and> cs_cost_microusd s = cost_microusd p (cs_input_tokens s) (cs_output_tokens s)
     \<and> cs_latency_p50 s \<in> mm_duration ` set ms \<and> cs_latency_p95 s \<in> mm_duration ` set ms"
proof -
  let ?xs = "map mm_duration ms"
  have p: "P50 \<le> 2 ^ 53" "P95 \<le> 2 ^ 53" by (simp_all add: P50_def P95_def)
  have x: "?xs \<noteq> []" "length ?xs < 2 ^ 53" using assms by simp_all
  have n: "sort ?xs ! (percentile_rank q (length ?xs) - 1) \<in> mm_duration ` set ms" if "q \<le> 2 ^ 53" for q
    using nth_mem [of "percentile_rank q (length ?xs) - 1" "sort ?xs"] percentile_of(2) [OF x that] by simp
  show ?thesis
    unfolding summary_for_pricing_def Let_def percentile_of(1) [OF x p(1)] percentile_of(1) [OF x p(2)]
    using n [OF p(1)] n [OF p(2)] by (simp add: length_filter_le)
qed

text \<open>The cost is the exact price rounded up.\<close>

lemma cost_bounds:
  fixes p :: provider_pricing
  defines "price \<equiv> \<lambda>i j. i * pg_input_rate p + j * pg_output_rate p"
  shows "price i j \<le> cost_microusd p i j * TOKENS_PER_MILLION" "cost_microusd p i j * TOKENS_PER_MILLION < price i j + TOKENS_PER_MILLION"
  by (simp_all add: cost_microusd_def price_def TOKENS_PER_MILLION_def)

text \<open>The whole report: one summary per pricing, in key order.\<close>

lemma report_succeeds:
  assumes "length ms < 2 ^ 53"
  shows "\<exists>r. build_cost_success_report ms = Inr r"
    "build_cost_success_report ms = Inr r \<Longrightarrow> distinct (map cs_pricing (cp_summaries r)) \<and> set (map cs_pricing (cp_summaries r)) = mm_pricing ` set ms
       \<and> sorted (map (\<lambda>s. pricing_key (cs_pricing s)) (cp_summaries r))
       \<and> list_all (\<lambda>s. summary_for_pricing (cs_pricing s) (measured ms (cs_pricing s)) = Inr s) (cp_summaries r)"
proof -
  let ?gs = "sort_key (\<lambda>g. pricing_key (fst g)) (foldl append_to_group [] ms)"
  have g: "distinct (map fst ?gs)" "fst ` set ?gs = mm_pricing ` set ms" "\<forall>(p, group) \<in> set ?gs. group = measured ms p"
    using groups [of ms] by (simp_all add: distinct_map)
  have one: "\<exists>s. summary_for_pricing p group = Inr s \<and> cs_pricing s = p" if "(p, group) \<in> set ?gs" for p group
  proof -
    have "group = measured ms p" using g(3) that by blast
    moreover have "p \<in> mm_pricing ` set ms" using that g(2) by force
    moreover have "length (measured ms p) < 2 ^ 53" unfolding measured_def by (rule le_less_trans [OF length_filter_le assms])
    ultimately have "group \<noteq> []" "length group < 2 ^ 53" by (auto simp: measured_def filter_empty_conv)
    then show ?thesis using summary_succeeds by blast
  qed
  let ?sum = "\<lambda>(p, group). summary_for_pricing p group"
  have all: "\<exists>ss. mapE ?sum gs = Inr ss" if "set gs \<subseteq> set ?gs" for gs
    using that
  proof (induction gs)
    case (Cons a gs)
    then obtain ss where "mapE ?sum gs = Inr ss" by auto
    moreover obtain s where "?sum a = Inr s" using one [of "fst a" "snd a"] Cons.prems by (cases a) auto
    ultimately show ?case by simp
  qed simp
  obtain ss where "mapE ?sum ?gs = Inr ss" using all [OF subset_refl] by blast
  then show "\<exists>r. build_cost_success_report ms = Inr r" unfolding build_cost_success_report_def by simp
  assume "build_cost_success_report ms = Inr r"
  then have m: "mapE ?sum ?gs = Inr (cp_summaries r)"
    by (auto simp: build_cost_success_report_def bindE_eq_Inr)
  have l: "list_all2 (\<lambda>g s. ?sum g = Inr s) ?gs (cp_summaries r)" using m by (simp add: mapE_eq_Inr)
  have l2: "list_all2 (\<lambda>g s. g \<in> set ?gs \<and> ?sum g = Inr s) ?gs (cp_summaries r)"
    using l by (rule list.rel_mono_strong) simp
  have p: "cs_pricing s = fst g" "summary_for_pricing (cs_pricing s) (measured ms (cs_pricing s)) = Inr s"
    if "g \<in> set ?gs \<and> ?sum g = Inr s" for g s
    using one [of "fst g" "snd g"] that g(3) by (cases g; fastforce)+
  have k: "map cs_pricing (cp_summaries r) = map fst ?gs"
    using l2 by (intro nth_equalityI) (auto simp: list_all2_conv_all_nth p(1))
  have "list_all (\<lambda>s. summary_for_pricing (cs_pricing s) (measured ms (cs_pricing s)) = Inr s) (cp_summaries r)"
    unfolding list_all_length using p(2) [OF list_all2_nthD2 [OF l2]] by blast
  moreover have "map (\<lambda>s. pricing_key (cs_pricing s)) (cp_summaries r) = map pricing_key (map cs_pricing (cp_summaries r))" by simp
  moreover have "sorted (map pricing_key (map fst ?gs))" by (simp add: comp_def)
  ultimately show "distinct (map cs_pricing (cp_summaries r)) \<and> set (map cs_pricing (cp_summaries r)) = mm_pricing ` set ms
       \<and> sorted (map (\<lambda>s. pricing_key (cs_pricing s)) (cp_summaries r))
       \<and> list_all (\<lambda>s. summary_for_pricing (cs_pricing s) (measured ms (cs_pricing s)) = Inr s) (cp_summaries r)"
    using g(1,2) unfolding k by (simp only: set_map k)
qed

end
