(* ===== verification/Model_Gateway.thy ===== *)
theory Model_Gateway
  imports Metrics Py_Text
begin

text \<open>
  The model gateway (\<open>model_gateway.py\<close>): provider selection and pinned settings, the two adapters with their
  strict reading of provider responses, the pinned HTTPS transport, and the gateway that measures each call.
  The network is a parameter of the transports, the clock difference of a call its duration.
\<close>

section \<open>Configuration\<close>

definition OPENAI_RESPONSES_URL :: string where "OPENAI_RESPONSES_URL = ''https://api.openai.com/v1/responses''"
definition B1_MODEL_ID :: string where "B1_MODEL_ID = ''gpt-5.6-terra''"
definition B1_REASONING_EFFORT :: string where "B1_REASONING_EFFORT = ''medium''"
definition MODEL_GATEWAY_TIMEOUT_SECONDS :: string where "MODEL_GATEWAY_TIMEOUT_SECONDS = ''10.0''"
definition MODEL_GATEWAY_CONFIGURATION_VERSION :: string where "MODEL_GATEWAY_CONFIGURATION_VERSION = ''B1/v1''"
definition MODEL_PROVIDER_OPENAI :: string where "MODEL_PROVIDER_OPENAI = ''openai''"
definition MODEL_PROVIDER_ANTHROPIC :: string where "MODEL_PROVIDER_ANTHROPIC = ''anthropic''"
definition MODEL_PROVIDERS :: "string list" where "MODEL_PROVIDERS = [MODEL_PROVIDER_OPENAI, MODEL_PROVIDER_ANTHROPIC]"
definition ANTHROPIC_MESSAGES_URL :: string where "ANTHROPIC_MESSAGES_URL = ''https://api.anthropic.com/v1/messages''"
definition ANTHROPIC_API_VERSION :: string where "ANTHROPIC_API_VERSION = ''2023-06-01''"
definition C1_MODEL_ID :: string where "C1_MODEL_ID = ''claude-sonnet-5-5''"
definition C1_EFFORT :: string where "C1_EFFORT = ''medium''"
definition C1_MAX_TOKENS :: int where "C1_MAX_TOKENS = 4096"
definition C1_TIMEOUT_SECONDS :: string where "C1_TIMEOUT_SECONDS = ''60.0''"
definition C1_CONFIGURATION_VERSION :: string where "C1_CONFIGURATION_VERSION = ''C1/v1''"

datatype gateway_error =
    ModelGatewayConfigurationError string
  | ModelGatewayUnavailable string
  | ModelGatewayTimeout string
  | ModelGatewayProtocolError string
  | ModelGatewayRefusal string
  | ModelGatewayTruncated string
  | GatewayValueError string
  | GatewayTypeError
  | GatewayHTTPException
  | GatewayMetrics metrics_error

record gateway_settings =
  gs_api_key :: string
  gs_model_id :: string
  gs_reasoning_effort :: string
  gs_timeout_seconds :: string

record anthropic_settings =
  ah_api_key :: string
  ah_model_id :: string
  ah_effort :: string
  ah_max_tokens :: int
  ah_timeout_seconds :: string

definition environment_text :: "(string \<rightharpoonup> string) \<Rightarrow> string \<Rightarrow> string" where
  "environment_text environment name = strip (case environment name of None \<Rightarrow> [] | Some v \<Rightarrow> v)"

definition gateway_settings_from_mapping :: "(string \<rightharpoonup> string) \<Rightarrow> gateway_settings" where
  "gateway_settings_from_mapping environment = \<lparr>gs_api_key = environment_text environment ''OPENAI_API_KEY'', gs_model_id = B1_MODEL_ID,
     gs_reasoning_effort = B1_REASONING_EFFORT, gs_timeout_seconds = MODEL_GATEWAY_TIMEOUT_SECONDS\<rparr>"

definition anthropic_settings_from_mapping :: "(string \<rightharpoonup> string) \<Rightarrow> anthropic_settings" where
  "anthropic_settings_from_mapping environment = \<lparr>ah_api_key = environment_text environment ''ANTHROPIC_API_KEY'', ah_model_id = C1_MODEL_ID,
     ah_effort = C1_EFFORT, ah_max_tokens = C1_MAX_TOKENS, ah_timeout_seconds = C1_TIMEOUT_SECONDS\<rparr>"

definition validate_gateway_settings :: "gateway_settings \<Rightarrow> gateway_error + unit" where
  "validate_gateway_settings s =
     bindE (require (gs_api_key s \<noteq> []) (ModelGatewayConfigurationError ''OPENAI_API_KEY must be configured'')) (\<lambda>_.
     bindE (require (gs_model_id s = B1_MODEL_ID) (ModelGatewayConfigurationError ''B1/v1 requires model gpt-5.6-terra'')) (\<lambda>_.
     bindE (require (gs_reasoning_effort s = B1_REASONING_EFFORT) (ModelGatewayConfigurationError ''B1/v1 requires medium reasoning effort'')) (\<lambda>_.
       require (gs_timeout_seconds s = MODEL_GATEWAY_TIMEOUT_SECONDS) (ModelGatewayConfigurationError ''B1/v1 requires a 10 second timeout''))))"

definition validate_anthropic_settings :: "anthropic_settings \<Rightarrow> gateway_error + unit" where
  "validate_anthropic_settings s =
     bindE (require (ah_api_key s \<noteq> []) (ModelGatewayConfigurationError ''ANTHROPIC_API_KEY must be configured'')) (\<lambda>_.
     bindE (require (ah_model_id s = C1_MODEL_ID) (ModelGatewayConfigurationError ''C1/v1 requires model claude-sonnet-5-5'')) (\<lambda>_.
     bindE (require (ah_effort s = C1_EFFORT) (ModelGatewayConfigurationError ''C1/v1 requires medium effort'')) (\<lambda>_.
     bindE (require (ah_max_tokens s = C1_MAX_TOKENS) (ModelGatewayConfigurationError ''C1/v1 requires 4096 max tokens'')) (\<lambda>_.
       require (ah_timeout_seconds s = C1_TIMEOUT_SECONDS) (ModelGatewayConfigurationError ''C1/v1 requires a 60 second timeout'')))))"

definition model_provider_from_mapping :: "(string \<rightharpoonup> string) \<Rightarrow> gateway_error + string" where
  "model_provider_from_mapping environment =
     (let provider = environment_text environment ''MODEL_PROVIDER'' in
      if provider = [] then Inr MODEL_PROVIDER_OPENAI
      else bindE (require (provider \<in> set MODEL_PROVIDERS) (ModelGatewayConfigurationError ''MODEL_PROVIDER must be openai or anthropic'')) (\<lambda>_.
        Inr provider))"

section \<open>Requests and responses\<close>

record model_request =
  mq_correlation_id :: uuid
  mq_developer_instruction :: string
  mq_user_input :: string
  mq_schema_name :: string
  mq_schema :: "(string \<times> json) list"

definition validate_model_request :: "model_request \<Rightarrow> gateway_error + unit" where
  "validate_model_request q =
     bindE (require (strip (mq_developer_instruction q) \<noteq> [] \<and> strip (mq_user_input q) \<noteq> [])
       (GatewayValueError ''Model instructions and input must be non-empty'')) (\<lambda>_.
       require (strip (mq_schema_name q) \<noteq> [] \<and> mq_schema q \<noteq> []) (GatewayValueError ''A versioned response schema is required''))"

record model_usage =
  us_input_tokens :: python_int
  us_output_tokens :: python_int
  us_total_tokens :: python_int

record model_response =
  ms_correlation_id :: uuid
  ms_response_id :: string
  ms_model_id :: string
  ms_output_json :: "(string \<times> json) list"
  ms_usage :: model_usage
  ms_configuration_version :: string
  ms_provider :: string

section \<open>Reading the responses\<close>

abbreviation protocol_error :: "string \<Rightarrow> gateway_error" where "protocol_error \<equiv> ModelGatewayProtocolError"

text \<open>\<open>dict.get\<close>: an absent member reads as \<open>None\<close>.\<close>

definition get_member :: "(string \<times> json) list \<Rightarrow> string \<Rightarrow> json" where
  "get_member p k = (case map_of p k of None \<Rightarrow> JNull | Some v \<Rightarrow> v)"

definition python_int_of :: "json \<Rightarrow> python_int option" where
  "python_int_of v = (case v of JInt i \<Rightarrow> Some (PyInt i) | JBool b \<Rightarrow> Some (PyBool b) | _ \<Rightarrow> None)"

definition non_negative :: "python_int option \<Rightarrow> bool" where
  "non_negative v = (case v of None \<Rightarrow> False | Some i \<Rightarrow> 0 \<le> python_int_value i)"

definition usage_from_payload :: "json \<Rightarrow> gateway_error + model_usage" where
  "usage_from_payload v = (case v of
     JObj p \<Rightarrow>
       let i = python_int_of (get_member p ''input_tokens''); out = python_int_of (get_member p ''output_tokens'');
           total = python_int_of (get_member p ''total_tokens'') in
       bindE (require (non_negative i \<and> non_negative out \<and> non_negative total) (protocol_error ''Model provider response has invalid usage'')) (\<lambda>_.
         Inr \<lparr>us_input_tokens = the i, us_output_tokens = the out, us_total_tokens = the total\<rparr>)
   | _ \<Rightarrow> Inl (protocol_error ''Model provider response is missing usage''))"

text \<open>The first text part of the first message that has one.\<close>

definition output_part :: "json \<Rightarrow> string option" where
  "output_part v = (case v of
     JObj p \<Rightarrow> if get_member p ''type'' = JStr ''output_text'' then (case get_member p ''text'' of JStr s \<Rightarrow> Some s | _ \<Rightarrow> None) else None
   | _ \<Rightarrow> None)"

definition message_parts :: "json \<Rightarrow> json list" where
  "message_parts v = (case v of
     JObj p \<Rightarrow> if get_member p ''type'' = JStr ''message'' then (case get_member p ''content'' of JArr parts \<Rightarrow> parts | _ \<Rightarrow> []) else []
   | _ \<Rightarrow> [])"

definition output_text :: "json \<Rightarrow> gateway_error + string" where
  "output_text v = (case v of
     JArr items \<Rightarrow> (case List.map_filter output_part (concat (map message_parts items)) of
         [] \<Rightarrow> Inl (protocol_error ''Model provider response is missing output text'') | s # _ \<Rightarrow> Inr s)
   | _ \<Rightarrow> Inl (protocol_error ''Model provider response is missing output''))"

definition parse_output :: "runtime \<Rightarrow> string \<Rightarrow> gateway_error + (string \<times> json) list" where
  "parse_output rt s = (case loads rt s of
     None \<Rightarrow> Inl (protocol_error ''Model provider did not return valid JSON'')
   | Some (JObj p) \<Rightarrow> Inr p
   | Some _ \<Rightarrow> Inl (protocol_error ''Model provider JSON output must be an object''))"

definition response_from_provider_payload ::
  "runtime \<Rightarrow> (string \<times> json) list \<Rightarrow> uuid \<Rightarrow> string \<Rightarrow> gateway_error + model_response" where
  "response_from_provider_payload rt p correlation expected =
     bindE (output_text (get_member p ''output'')) (\<lambda>text.
     bindE (usage_from_payload (get_member p ''usage'')) (\<lambda>usage.
     case (get_member p ''id'', get_member p ''model'') of
       (JStr response, JStr model) \<Rightarrow>
         bindE (require (model = expected) (protocol_error ''Model provider returned an unexpected model'')) (\<lambda>_.
         bindE (parse_output rt text) (\<lambda>out.
           Inr \<lparr>ms_correlation_id = correlation, ms_response_id = response, ms_model_id = model, ms_output_json = out, ms_usage = usage,
             ms_configuration_version = MODEL_GATEWAY_CONFIGURATION_VERSION, ms_provider = MODEL_PROVIDER_OPENAI\<rparr>))
     | _ \<Rightarrow> Inl (protocol_error ''Model provider response is missing provenance'')))"

definition ignored_block_types :: "string list" where
  "ignored_block_types = [''thinking'', ''redacted_thinking'']"

text \<open>Testing membership in a \<open>frozenset\<close> hashes the value; a list or dictionary cannot be hashed.\<close>

fun anthropic_texts :: "json list \<Rightarrow> gateway_error + string list" where
  "anthropic_texts [] = Inr []"
| "anthropic_texts (JObj b # bs) = (case get_member b ''type'' of
     JArr _ \<Rightarrow> Inl GatewayTypeError
   | JObj _ \<Rightarrow> Inl GatewayTypeError
   | v \<Rightarrow>
     if v \<in> JStr ` set ignored_block_types then anthropic_texts bs
     else if v \<noteq> JStr ''text'' then Inl (protocol_error ''Model provider returned an unexpected content block'')
     else (case get_member b ''text'' of
         JStr s \<Rightarrow> bindE (anthropic_texts bs) (\<lambda>ss. Inr (s # ss))
       | _ \<Rightarrow> Inl (protocol_error ''Model provider returned an invalid block'')))"
| "anthropic_texts (_ # bs) = Inl (protocol_error ''Model provider returned an invalid block'')"

definition anthropic_output_text :: "json \<Rightarrow> gateway_error + string" where
  "anthropic_output_text v = (case v of
     JArr blocks \<Rightarrow> bindE (anthropic_texts blocks) (\<lambda>texts. case texts of
         [] \<Rightarrow> Inl (protocol_error ''Model provider response is missing output text'')
       | [s] \<Rightarrow> Inr s
       | _ \<Rightarrow> Inl (protocol_error ''Model provider returned multiple text blocks''))
   | _ \<Rightarrow> Inl (protocol_error ''Model provider response is missing output''))"

definition strict_count :: "json \<Rightarrow> bool" where
  "strict_count v = (case v of JInt i \<Rightarrow> 0 \<le> i | _ \<Rightarrow> False)"

definition no_cache_tokens :: "runtime \<Rightarrow> json \<Rightarrow> bool" where
  "no_cache_tokens rt v = (v = JNull \<or> py_eq rt v (JInt 0) \<and> (case v of JBool b \<Rightarrow> False | _ \<Rightarrow> True))"

definition anthropic_usage_from_payload :: "runtime \<Rightarrow> json \<Rightarrow> gateway_error + model_usage" where
  "anthropic_usage_from_payload rt v = (case v of
     JObj p \<Rightarrow>
       let i = get_member p ''input_tokens''; out = get_member p ''output_tokens'' in
       bindE (require (strict_count i \<and> strict_count out) (protocol_error ''Model provider response has invalid usage'')) (\<lambda>_.
       bindE (require (list_all (\<lambda>k. no_cache_tokens rt (get_member p k)) [''cache_creation_input_tokens'', ''cache_read_input_tokens''])
         (protocol_error ''Model provider reported unpriced cache usage'')) (\<lambda>_.
       let n = python_int_value (the (python_int_of i)); m = python_int_value (the (python_int_of out)) in
         Inr \<lparr>us_input_tokens = PyInt n, us_output_tokens = PyInt m, us_total_tokens = PyInt (n + m)\<rparr>))
   | _ \<Rightarrow> Inl (protocol_error ''Model provider response is missing usage''))"

definition anthropic_response_from_payload ::
  "runtime \<Rightarrow> (string \<times> json) list \<Rightarrow> uuid \<Rightarrow> string \<Rightarrow> gateway_error + model_response" where
  "anthropic_response_from_payload rt p correlation expected =
     (case (get_member p ''id'', get_member p ''model'') of
       (JStr response, JStr model) \<Rightarrow>
         bindE (require (get_member p ''type'' = JStr ''message'' \<and> get_member p ''role'' = JStr ''assistant'' \<and> response \<noteq> [])
           (protocol_error ''Model provider response is missing provenance'')) (\<lambda>_.
         bindE (require (model = expected) (protocol_error ''Model provider returned an unexpected model'')) (\<lambda>_.
         bindE (anthropic_usage_from_payload rt (get_member p ''usage'')) (\<lambda>usage.
         let stop = get_member p ''stop_reason'' in
         bindE (require (stop \<noteq> JStr ''refusal'') (ModelGatewayRefusal ''Model provider declined the request'')) (\<lambda>_.
         bindE (require (stop \<noteq> JStr ''max_tokens'') (ModelGatewayTruncated ''Model provider output was truncated'')) (\<lambda>_.
         bindE (require (stop = JStr ''end_turn'') (protocol_error ''Model provider stopped unexpectedly'')) (\<lambda>_.
         bindE (anthropic_output_text (get_member p ''content'')) (\<lambda>text.
         bindE (parse_output rt text) (\<lambda>out.
           Inr \<lparr>ms_correlation_id = correlation, ms_response_id = response, ms_model_id = model, ms_output_json = out, ms_usage = usage,
             ms_configuration_version = C1_CONFIGURATION_VERSION, ms_provider = MODEL_PROVIDER_ANTHROPIC\<rparr>))))))))
     | _ \<Rightarrow> Inl (protocol_error ''Model provider response is missing provenance''))"

section \<open>Transport and adapters\<close>

text \<open>\<open>json.dumps\<close> with its default separators.\<close>

fun dumps :: "json \<Rightarrow> string"
and dumps_elems :: "json list \<Rightarrow> string"
and dumps_members :: "(string \<times> json) list \<Rightarrow> string" where
  "dumps (JArr []) = ''[]''"
| "dumps (JArr (x # xs)) = ''['' @ dumps x @ dumps_elems xs @ '']''"
| "dumps (JObj []) = ''{}''"
| "dumps (JObj ((k, v) # kvs)) = ''{'' @ str_lit k @ '': '' @ dumps v @ dumps_members kvs @ ''}''"
| "dumps v = render v"
| "dumps_elems [] = []"
| "dumps_elems (x # xs) = '', '' @ dumps x @ dumps_elems xs"
| "dumps_members [] = []"
| "dumps_members ((k, v) # kvs) = '', '' @ str_lit k @ '': '' @ dumps v @ dumps_members kvs"

subsection \<open>urlopen\<close>

text \<open>
  \<open>urllib.request.urlopen\<close> with the default opener, whose redirect handler follows redirects.  The network is
  a parameter: its answer to the \<open>n\<close>-th exchange of one call, either a 2xx answer with its bytes, a redirect
  with its status and the absolute URL its \<open>Location\<close> resolves to, or a failure.  \<open>HttpTimeout\<close> is
  \<open>TimeoutError\<close>, \<open>HttpUnavailable\<close> any other \<open>OSError\<close> (\<open>URLError\<close> and \<open>HTTPError\<close> are
  subclasses), \<open>HttpBroken\<close> an \<open>http.client.HTTPException\<close>, which is none of them.
\<close>

datatype http_failure = HttpTimeout | HttpUnavailable | HttpBroken

type_synonym http_headers = "(string \<times> string) list"

record http_exchange =
  hx_method :: string
  hx_url :: string
  hx_headers :: http_headers
  hx_body :: "string option"
  hx_timeout :: string

datatype http_answer = Answer string | Redirect nat string | Failure http_failure

type_synonym network = "nat \<Rightarrow> http_exchange \<Rightarrow> http_answer"
type_synonym json_post = "string \<Rightarrow> http_headers \<Rightarrow> json \<Rightarrow> string \<Rightarrow> (gateway_error + (string \<times> json) list) \<times> http_exchange list"

definition followed_schemes :: "string list" where
  "followed_schemes = [''http:'', ''https:'', ''ftp:'']"

definition content_headers :: "string list" where
  "content_headers = [''content-length'', ''content-type'']"

text \<open>\<open>HTTPRedirectHandler.redirect_request\<close>: the request that follows, a \<open>GET\<close> without a body but with every
  other header; \<open>None\<close> is its \<open>HTTPError\<close>.\<close>

definition redirected :: "http_exchange \<Rightarrow> nat \<Rightarrow> string \<Rightarrow> http_exchange option" where
  "redirected e status url =
     (if list_ex (\<lambda>s. starts_with s url) followed_schemes
         \<and> (status \<in> {301, 302, 303} \<or> status \<in> {307, 308} \<and> hx_method e = ''GET'')
      then Some \<lparr>hx_method = ''GET'', hx_url = url, hx_headers = filter (\<lambda>h. lower (fst h) \<notin> set content_headers) (hx_headers e),
        hx_body = None, hx_timeout = hx_timeout e\<rparr>
      else None)"

definition MAX_REPEATS :: nat where "MAX_REPEATS = 4"
definition MAX_REDIRECTIONS :: nat where "MAX_REDIRECTIONS = 10"

text \<open>The opener with the URLs it was redirected to so far, and the requests it sends.  The first argument is
  fuel: \<open>Suc (MAX_REPEATS * MAX_REDIRECTIONS)\<close> requests are enough (\<open>urlopen_enough_fuel\<close>).\<close>

fun open_from :: "network \<Rightarrow> nat \<Rightarrow> string list \<Rightarrow> http_exchange \<Rightarrow> (http_failure + string) \<times> http_exchange list" where
  "open_from net 0 visited e = (Inl HttpUnavailable, [])"
| "open_from net (Suc n) visited e = (case net (length visited) e of
     Answer bytes \<Rightarrow> (Inr bytes, [e])
   | Failure f \<Rightarrow> (Inl f, [e])
   | Redirect status url \<Rightarrow> (case redirected e status url of
       None \<Rightarrow> (Inl HttpUnavailable, [e])
     | Some e' \<Rightarrow>
         if MAX_REPEATS \<le> count_list visited url \<or> MAX_REDIRECTIONS \<le> length (remdups visited) then (Inl HttpUnavailable, [e])
         else map_prod id (Cons e) (open_from net n (visited @ [url]) e')))"

definition post_exchange :: "string \<Rightarrow> http_headers \<Rightarrow> string \<Rightarrow> string \<Rightarrow> http_exchange" where
  "post_exchange url headers body timeout =
     \<lparr>hx_method = ''POST'', hx_url = url, hx_headers = headers, hx_body = Some body, hx_timeout = timeout\<rparr>"

definition urlopen :: "network \<Rightarrow> http_exchange \<Rightarrow> (http_failure + string) \<times> http_exchange list" where
  "urlopen net e = open_from net (Suc (MAX_REPEATS * MAX_REDIRECTIONS)) [] e"

subsection \<open>The pinned transport\<close>

definition pinned_payload :: "runtime \<Rightarrow> http_failure + string \<Rightarrow> gateway_error + (string \<times> json) list" where
  "pinned_payload rt answer = (case answer of
     Inl HttpTimeout \<Rightarrow> Inl (ModelGatewayTimeout ''Model provider timed out'')
   | Inl HttpUnavailable \<Rightarrow> Inl (ModelGatewayUnavailable ''Model provider is unavailable'')
   | Inl HttpBroken \<Rightarrow> Inl GatewayHTTPException
   | Inr bytes \<Rightarrow> (case Option.bind (utf8_decode bytes) (loads rt) of
       Some (JObj p) \<Rightarrow> Inr p | _ \<Rightarrow> Inl (protocol_error ''Model provider returned an invalid response'')))"

definition post_pinned_json :: "runtime \<Rightarrow> network \<Rightarrow> string \<Rightarrow> string \<Rightarrow> json_post" where
  "post_pinned_json rt net pinned message url headers body timeout =
     (if url \<noteq> pinned then (Inl (ModelGatewayConfigurationError message), [])
      else map_prod (pinned_payload rt) id (urlopen net (post_exchange url headers (dumps body) timeout)))"

definition openai_post :: "runtime \<Rightarrow> network \<Rightarrow> json_post" where
  "openai_post rt net = post_pinned_json rt net OPENAI_RESPONSES_URL ''The model transport only permits the pinned OpenAI HTTPS endpoint''"

definition anthropic_post :: "runtime \<Rightarrow> network \<Rightarrow> json_post" where
  "anthropic_post rt net = post_pinned_json rt net ANTHROPIC_MESSAGES_URL ''The model transport only permits the pinned Anthropic HTTPS endpoint''"

definition text_part :: "string \<Rightarrow> string \<Rightarrow> json" where
  "text_part kind s = JObj [(''type'', JStr kind), (''text'', JStr s)]"

definition openai_headers :: "gateway_settings \<Rightarrow> http_headers" where
  "openai_headers s = [(''Authorization'', ''Bearer '' @ gs_api_key s), (''Content-Type'', ''application/json'')]"

definition openai_body :: "gateway_settings \<Rightarrow> model_request \<Rightarrow> json" where
  "openai_body s q = JObj [(''model'', JStr (gs_model_id s)),
     (''input'', JArr [JObj [(''role'', JStr ''developer''), (''content'', JArr [text_part ''input_text'' (mq_developer_instruction q)])],
        JObj [(''role'', JStr ''user''), (''content'', JArr [text_part ''input_text'' (mq_user_input q)])]]),
     (''reasoning'', JObj [(''effort'', JStr (gs_reasoning_effort s))]),
     (''text'', JObj [(''format'', JObj [(''type'', JStr ''json_schema''), (''name'', JStr (mq_schema_name q)), (''strict'', JBool True),
        (''schema'', JObj (mq_schema q))])])]"

text \<open>The reply of a valid request, with the exchanges of its transport.\<close>

definition after_post ::
  "model_request \<Rightarrow> ((string \<times> json) list \<Rightarrow> gateway_error + model_response)
     \<Rightarrow> (gateway_error + (string \<times> json) list) \<times> http_exchange list \<Rightarrow> (gateway_error + model_response) \<times> http_exchange list" where
  "after_post q reply posted = (case validate_model_request q of
     Inl e \<Rightarrow> (Inl e, []) | Inr _ \<Rightarrow> map_prod (\<lambda>p. bindE p reply) id posted)"

definition openai_generate ::
  "runtime \<Rightarrow> json_post \<Rightarrow> gateway_settings \<Rightarrow> model_request \<Rightarrow> (gateway_error + model_response) \<times> http_exchange list" where
  "openai_generate rt post s q =
     after_post q (\<lambda>p. response_from_provider_payload rt p (mq_correlation_id q) (gs_model_id s))
       (post OPENAI_RESPONSES_URL (openai_headers s) (openai_body s q) (gs_timeout_seconds s))"

definition anthropic_headers :: "anthropic_settings \<Rightarrow> http_headers" where
  "anthropic_headers s = [(''x-api-key'', ah_api_key s), (''anthropic-version'', ANTHROPIC_API_VERSION), (''Content-Type'', ''application/json'')]"

definition anthropic_body :: "anthropic_settings \<Rightarrow> model_request \<Rightarrow> json" where
  "anthropic_body s q = JObj [(''model'', JStr (ah_model_id s)), (''max_tokens'', JInt (ah_max_tokens s)),
     (''system'', JStr (mq_developer_instruction q)),
     (''messages'', JArr [JObj [(''role'', JStr ''user''), (''content'', JArr [text_part ''text'' (mq_user_input q)])]]),
     (''output_config'', JObj [(''effort'', JStr (ah_effort s)),
        (''format'', JObj [(''type'', JStr ''json_schema''), (''schema'', JObj (mq_schema q))])])]"

definition anthropic_generate ::
  "runtime \<Rightarrow> json_post \<Rightarrow> anthropic_settings \<Rightarrow> model_request \<Rightarrow> (gateway_error + model_response) \<times> http_exchange list" where
  "anthropic_generate rt post s q =
     after_post q (\<lambda>p. anthropic_response_from_payload rt p (mq_correlation_id q) (ah_model_id s))
       (post ANTHROPIC_MESSAGES_URL (anthropic_headers s) (anthropic_body s q) (ah_timeout_seconds s))"

datatype model_adapter = OpenAIResponsesAdapter gateway_settings | AnthropicMessagesAdapter anthropic_settings

definition model_adapter_from_mapping :: "(string \<rightharpoonup> string) \<Rightarrow> gateway_error + model_adapter" where
  "model_adapter_from_mapping environment =
     bindE (model_provider_from_mapping environment) (\<lambda>provider.
       if provider = MODEL_PROVIDER_ANTHROPIC
       then let s = anthropic_settings_from_mapping environment in bindE (validate_anthropic_settings s) (\<lambda>_. Inr (AnthropicMessagesAdapter s))
       else let s = gateway_settings_from_mapping environment in bindE (validate_gateway_settings s) (\<lambda>_. Inr (OpenAIResponsesAdapter s)))"

text \<open>The transport an adapter makes for itself, and the adapter with it: the reply and what was sent for it.\<close>

fun adapter_post :: "runtime \<Rightarrow> network \<Rightarrow> model_adapter \<Rightarrow> json_post" where
  "adapter_post rt net (OpenAIResponsesAdapter s) = openai_post rt net"
| "adapter_post rt net (AnthropicMessagesAdapter s) = anthropic_post rt net"

fun adapter_exchange :: "runtime \<Rightarrow> network \<Rightarrow> model_adapter \<Rightarrow> model_request \<Rightarrow> (gateway_error + model_response) \<times> http_exchange list" where
  "adapter_exchange rt net (OpenAIResponsesAdapter s) q = openai_generate rt (adapter_post rt net (OpenAIResponsesAdapter s)) s q"
| "adapter_exchange rt net (AnthropicMessagesAdapter s) q = anthropic_generate rt (adapter_post rt net (AnthropicMessagesAdapter s)) s q"

definition adapter_generate :: "runtime \<Rightarrow> network \<Rightarrow> model_adapter \<Rightarrow> model_request \<Rightarrow> gateway_error + model_response" where
  "adapter_generate rt net a q = fst (adapter_exchange rt net a q)"

section \<open>The gateway\<close>

definition record_measurement ::
  "provider_pricing \<Rightarrow> uuid option \<Rightarrow> model_request \<Rightarrow> int option \<Rightarrow> model_response option \<Rightarrow> measurement list
     \<Rightarrow> gateway_error + measurement list" where
  "record_measurement p trace q duration response log =
     bindE (require (case response of None \<Rightarrow> True | Some r \<Rightarrow> ms_model_id r = pg_model_id p \<and> ms_provider r = pg_provider p)
       (GatewayValueError ''Provider response model does not match configured pricing'')) (\<lambda>_.
     bindE (except (make_measurement (mq_correlation_id q) trace p (if response \<noteq> None then ''succeeded'' else ''failed'') duration (PyInt 0)
         (map_option (us_input_tokens \<circ> ms_usage) response) (map_option (us_output_tokens \<circ> ms_usage) response)
         (map_option (us_total_tokens \<circ> ms_usage) response)) GatewayMetrics) (\<lambda>m.
       Inr (log @ [m])))"

definition generate_structured ::
  "(model_request \<Rightarrow> gateway_error + model_response) \<Rightarrow> provider_pricing option \<Rightarrow> uuid option \<Rightarrow> int option \<Rightarrow> model_request
     \<Rightarrow> measurement list \<Rightarrow> (gateway_error + model_response) \<times> measurement list" where
  "generate_structured adapter pricing trace duration q log = (case pricing of
     None \<Rightarrow> (adapter q, log)
   | Some p \<Rightarrow> (case adapter q of
       Inl e \<Rightarrow> (case record_measurement p trace q duration None log of Inl e' \<Rightarrow> (Inl e', log) | Inr log' \<Rightarrow> (Inl e, log'))
     | Inr r \<Rightarrow> (case record_measurement p trace q duration (Some r) log of Inl e' \<Rightarrow> (Inl e', log) | Inr log' \<Rightarrow> (Inr r, log'))))"

end
