(* ===== verification/Gateway_Correct.thy ===== *)
theory Gateway_Correct
  imports Model_Gateway
begin

text \<open>
  What the model gateway guarantees: an adapter posts to its pinned endpoint only and returns replies of its
  pinned model, the exact replies the Anthropic reader accepts, and the accounting of a sequence of calls.
\<close>

section \<open>Adapters\<close>

fun endpoint :: "model_adapter \<Rightarrow> string" where
  "endpoint (OpenAIResponsesAdapter s) = OPENAI_RESPONSES_URL"
| "endpoint (AnthropicMessagesAdapter s) = ANTHROPIC_MESSAGES_URL"

text \<open>The request an adapter posts.\<close>

fun posted_by :: "model_adapter \<Rightarrow> model_request \<Rightarrow> http_exchange" where
  "posted_by (OpenAIResponsesAdapter s) q =
     post_exchange OPENAI_RESPONSES_URL (openai_headers s) (dumps (openai_body s q)) (gs_timeout_seconds s)"
| "posted_by (AnthropicMessagesAdapter s) q =
     post_exchange ANTHROPIC_MESSAGES_URL (anthropic_headers s) (dumps (anthropic_body s q)) (ah_timeout_seconds s)"

fun model_of :: "model_adapter \<Rightarrow> string" where
  "model_of (OpenAIResponsesAdapter s) = gs_model_id s"
| "model_of (AnthropicMessagesAdapter s) = ah_model_id s"

fun provider_of :: "model_adapter \<Rightarrow> string" where
  "provider_of (OpenAIResponsesAdapter s) = MODEL_PROVIDER_OPENAI"
| "provider_of (AnthropicMessagesAdapter s) = MODEL_PROVIDER_ANTHROPIC"

fun api_key_of :: "model_adapter \<Rightarrow> string" where
  "api_key_of (OpenAIResponsesAdapter s) = gs_api_key s"
| "api_key_of (AnthropicMessagesAdapter s) = ah_api_key s"

text \<open>The settings an adapter of the environment has.\<close>

fun pinned :: "model_adapter \<Rightarrow> bool" where
  "pinned (OpenAIResponsesAdapter s) \<longleftrightarrow> gs_api_key s \<noteq> [] \<and> gs_model_id s = B1_MODEL_ID \<and> gs_reasoning_effort s = B1_REASONING_EFFORT
     \<and> gs_timeout_seconds s = MODEL_GATEWAY_TIMEOUT_SECONDS"
| "pinned (AnthropicMessagesAdapter s) \<longleftrightarrow> ah_api_key s \<noteq> [] \<and> ah_model_id s = C1_MODEL_ID \<and> ah_effort s = C1_EFFORT
     \<and> ah_max_tokens s = C1_MAX_TOKENS \<and> ah_timeout_seconds s = C1_TIMEOUT_SECONDS"

lemma adapter_from_mapping_Inr:
  assumes "model_adapter_from_mapping environment = Inr a"
  shows "pinned a" "model_provider_from_mapping environment = Inr (provider_of a)"
    "api_key_of a = environment_text environment (if provider_of a = MODEL_PROVIDER_ANTHROPIC then ''ANTHROPIC_API_KEY'' else ''OPENAI_API_KEY'')"
proof -
  obtain p where p: "model_provider_from_mapping environment = Inr p" using assms by (auto simp: model_adapter_from_mapping_def bindE_eq_Inr)
  then have v: "p \<in> {MODEL_PROVIDER_OPENAI, MODEL_PROVIDER_ANTHROPIC}"
    by (auto simp: model_provider_from_mapping_def Let_def bindE_eq_Inr require_eq_Inr MODEL_PROVIDERS_def split: if_splits)
  have d: "MODEL_PROVIDER_OPENAI \<noteq> MODEL_PROVIDER_ANTHROPIC" by (simp add: MODEL_PROVIDER_OPENAI_def MODEL_PROVIDER_ANTHROPIC_def)
  show "pinned a" "model_provider_from_mapping environment = Inr (provider_of a)"
    "api_key_of a = environment_text environment (if provider_of a = MODEL_PROVIDER_ANTHROPIC then ''ANTHROPIC_API_KEY'' else ''OPENAI_API_KEY'')"
    using assms p v d
    by (auto simp: model_adapter_from_mapping_def bindE_eq_Inr require_eq_Inr validate_gateway_settings_def validate_anthropic_settings_def
        gateway_settings_from_mapping_def anthropic_settings_from_mapping_def Let_def split: if_splits)
qed

lemma posted_by_fields [simp]: "hx_method (posted_by a q) = ''POST''" "hx_url (posted_by a q) = endpoint a"
  by (cases a; simp add: post_exchange_def)+

text \<open>A transport refuses every other URL, and sends nothing for it.\<close>

lemma other_url_refused:
  "url \<noteq> endpoint a \<Longrightarrow> \<exists>m. adapter_post rt net a url headers body timeout = (Inl (ModelGatewayConfigurationError m), [])"
  by (cases a) (simp_all add: openai_post_def anthropic_post_def post_pinned_json_def)

section \<open>Redirects\<close>

text \<open>The redirects followed so far: no URL more than four times, and at most ten URLs.\<close>

definition visited_ok :: "string list \<Rightarrow> bool" where
  "visited_ok visited \<longleftrightarrow> (\<forall>u. count_list visited u \<le> MAX_REPEATS) \<and> card (set visited) \<le> MAX_REDIRECTIONS"

lemma visited_ok_length: "visited_ok visited \<Longrightarrow> length visited \<le> MAX_REPEATS * MAX_REDIRECTIONS"
proof -
  assume v: "visited_ok visited"
  have "length visited = (\<Sum>u \<in> set visited. count_list visited u)" by (simp add: sum_count_set)
  also have "\<dots> \<le> card (set visited) * MAX_REPEATS" using v by (intro sum_bounded_above [of _ _ MAX_REPEATS, simplified]) (simp add: visited_ok_def)
  also have "\<dots> \<le> MAX_REPEATS * MAX_REDIRECTIONS" using v by (simp add: visited_ok_def)
  finally show ?thesis .
qed

lemma visited_ok_snoc:
  assumes "visited_ok visited" "\<not> (MAX_REPEATS \<le> count_list visited url \<or> MAX_REDIRECTIONS \<le> length (remdups visited))"
  shows "visited_ok (visited @ [url])"
proof -
  have "card (set visited) < MAX_REDIRECTIONS" using assms(2) by (simp add: length_remdups_card_conv)
  then have "card (insert url (set visited)) \<le> MAX_REDIRECTIONS" using card_insert_le_m1 [of MAX_REDIRECTIONS "set visited" url]
    by (simp add: card_insert_if)
  moreover have "count_list (visited @ [url]) u \<le> MAX_REPEATS" for u
    using assms by (auto simp: visited_ok_def not_le)
  ultimately show ?thesis by (simp add: visited_ok_def)
qed

lemma open_from_enough:
  "visited_ok visited \<Longrightarrow> MAX_REPEATS * MAX_REDIRECTIONS < n + length visited \<Longrightarrow>
   open_from net (n + k) visited e = open_from net n visited e"
proof (induction n arbitrary: visited e)
  case 0
  with visited_ok_length [of visited] show ?case by simp
next
  case (Suc n)
  have "open_from net (n + k) (visited @ [url]) e' = open_from net n (visited @ [url]) e'"
    if "\<not> (MAX_REPEATS \<le> count_list visited url \<or> MAX_REDIRECTIONS \<le> length (remdups visited))" for url e'
    by (rule Suc.IH [OF visited_ok_snoc [OF Suc.prems(1) that]]) (use Suc.prems(2) in simp)
  then show ?case by (simp split: http_answer.split option.split)
qed

lemma urlopen_enough_fuel: "open_from net (Suc (MAX_REPEATS * MAX_REDIRECTIONS) + k) [] e = urlopen net e"
  unfolding urlopen_def by (rule open_from_enough) (simp_all add: visited_ok_def)

text \<open>What is sent: the request itself, and then one request for each redirect answered, and the bytes are the
  answer to the last.\<close>

fun follows :: "network \<Rightarrow> nat \<Rightarrow> http_exchange list \<Rightarrow> bool" where
  "follows net i (e # e' # es) \<longleftrightarrow> (\<exists>status. net i e = Redirect status (hx_url e') \<and> redirected e status (hx_url e') = Some e')
     \<and> follows net (Suc i) (e' # es)"
| "follows net i es \<longleftrightarrow> True"

lemma open_from_trace:
  "open_from net (Suc n) visited e = (res, sent) \<Longrightarrow> MAX_REPEATS * MAX_REDIRECTIONS < Suc n + length visited \<Longrightarrow> visited_ok visited \<Longrightarrow>
   (\<exists>es. sent = e # es) \<and> follows net (length visited) sent
   \<and> (\<forall>bytes. res = Inr bytes \<longrightarrow> net (length visited + (length sent - 1)) (last sent) = Answer bytes)"
proof (induction n arbitrary: visited e sent)
  case 0
  then show ?case using visited_ok_length [of visited] visited_ok_length [OF visited_ok_snoc, of visited]
    by (auto split: http_answer.splits option.splits if_splits)
next
  case (Suc n)
  show ?case
  proof (cases "net (length visited) e")
    case (Redirect status url)
    show ?thesis
    proof (cases "redirected e status url = None \<or> MAX_REPEATS \<le> count_list visited url \<or> MAX_REDIRECTIONS \<le> length (remdups visited)")
      case True
      with Suc.prems(1) Redirect show ?thesis by (auto split: option.splits if_splits)
    next
      case False
      then obtain e' where e': "redirected e status url = Some e'" by (cases "redirected e status url") auto
      then have url: "hx_url e' = url" by (auto simp: redirected_def split: if_splits)
      obtain sent' where o: "open_from net (Suc n) (visited @ [url]) e' = (res, sent')" "sent = e # sent'"
        using Suc.prems(1) Redirect False e' by (cases "open_from net (Suc n) (visited @ [url]) e'") (auto simp del: open_from.simps(2) simp: open_from.simps(2) [of net "Suc n"])
      have "(\<exists>es. sent' = e' # es) \<and> follows net (length (visited @ [url])) sent'
          \<and> (\<forall>bytes. res = Inr bytes \<longrightarrow> net (length (visited @ [url]) + (length sent' - 1)) (last sent') = Answer bytes)"
        by (rule Suc.IH [OF o(1)]) (use Suc.prems False visited_ok_snoc in auto)
      then show ?thesis using o(2) Redirect e' url by auto
    qed
  qed (use Suc.prems(1) in auto)
qed

lemma urlopen_trace:
  assumes "urlopen net e = (res, sent)"
  shows "(\<exists>es. sent = e # es) \<and> follows net 0 sent \<and> (\<forall>bytes. res = Inr bytes \<longrightarrow> net (length sent - 1) (last sent) = Answer bytes)"
  using open_from_trace [OF assms [unfolded urlopen_def]] by (simp add: visited_ok_def)

text \<open>Without a redirect there is one request, and nothing else of the network matters.\<close>

lemma urlopen_direct:
  assumes "\<forall>status url. net 0 e \<noteq> Redirect status url"
  shows "urlopen net e = (case net 0 e of Answer bytes \<Rightarrow> Inr bytes | Failure f \<Rightarrow> Inl f | _ \<Rightarrow> Inl HttpUnavailable, [e])"
  using assms by (simp add: urlopen_def split: http_answer.split)

definition usage_ok :: "model_usage \<Rightarrow> bool" where
  "usage_ok u \<longleftrightarrow> 0 \<le> python_int_value (us_input_tokens u) \<and> 0 \<le> python_int_value (us_output_tokens u) \<and> 0 \<le> python_int_value (us_total_tokens u)"

lemma non_negative_Some: "non_negative v \<longleftrightarrow> (\<exists>i. v = Some i \<and> 0 \<le> python_int_value i)"
  by (simp add: non_negative_def split: option.splits)

lemma usage_from_payload_ok: "usage_from_payload v = Inr u \<Longrightarrow> usage_ok u"
  by (auto simp: usage_from_payload_def usage_ok_def Let_def bindE_eq_Inr require_eq_Inr non_negative_Some split: json.splits)

lemma strict_count_iff: "strict_count v \<longleftrightarrow> (\<exists>i. v = JInt i \<and> 0 \<le> i)"
  by (simp add: strict_count_def split: json.splits)

lemma anthropic_usage_Inr:
  "anthropic_usage_from_payload rt v = Inr u \<longleftrightarrow> (\<exists>p i out. v = JObj p \<and> get_member p ''input_tokens'' = JInt i \<and> 0 \<le> i
     \<and> get_member p ''output_tokens'' = JInt out \<and> 0 \<le> out
     \<and> no_cache_tokens rt (get_member p ''cache_creation_input_tokens'') \<and> no_cache_tokens rt (get_member p ''cache_read_input_tokens'')
     \<and> u = \<lparr>us_input_tokens = PyInt i, us_output_tokens = PyInt out, us_total_tokens = PyInt (i + out)\<rparr>)"
  by (cases v) (auto simp: anthropic_usage_from_payload_def Let_def bindE_eq_Inr require_eq_Inr strict_count_iff python_int_of_def)

lemma parse_output_Inr: "parse_output rt s = Inr out \<longleftrightarrow> loads rt s = Some (JObj out)"
  by (auto simp: parse_output_def split: option.splits json.splits)

text \<open>The text block of an Anthropic reply: the only one, beside thinking blocks.\<close>

definition text_block :: "json \<Rightarrow> string option" where
  "text_block v = (case v of
     JObj b \<Rightarrow> if get_member b ''type'' = JStr ''text'' then (case get_member b ''text'' of JStr s \<Rightarrow> Some s | _ \<Rightarrow> None) else None | _ \<Rightarrow> None)"

definition thinking_block :: "json \<Rightarrow> bool" where
  "thinking_block v = (case v of JObj b \<Rightarrow> get_member b ''type'' \<in> JStr ` set ignored_block_types | _ \<Rightarrow> False)"

lemma thinking_no_text: "thinking_block v \<Longrightarrow> text_block v = None"
  by (auto simp: thinking_block_def text_block_def ignored_block_types_def split: json.splits)

lemma anthropic_texts_Cons:
  "anthropic_texts (v # bs) = Inr ss \<longleftrightarrow>
     (if thinking_block v then anthropic_texts bs = Inr ss
      else \<exists>s ss'. text_block v = Some s \<and> anthropic_texts bs = Inr ss' \<and> ss = s # ss')"
proof (cases v)
  case (JObj b)
  show ?thesis
  proof (cases "get_member b ''type''")
    case (JStr s)
    then show ?thesis
      by (cases "get_member b ''text''") (auto simp: JObj thinking_block_def text_block_def ignored_block_types_def bindE_eq_Inr)
  qed (auto simp: JObj thinking_block_def text_block_def ignored_block_types_def)
qed (simp_all add: thinking_block_def text_block_def)

lemma anthropic_texts_Inr:
  "anthropic_texts bs = Inr ss \<longleftrightarrow> list_all (\<lambda>b. thinking_block b \<or> text_block b \<noteq> None) bs \<and> ss = List.map_filter text_block bs"
proof (induction bs arbitrary: ss)
  case (Cons v bs)
  show ?case unfolding anthropic_texts_Cons Cons.IH using thinking_no_text [of v] by (auto simp: map_filter_simps split: option.splits)
qed (auto simp: map_filter_simps)

lemma anthropic_output_text_Inr:
  "anthropic_output_text v = Inr s \<longleftrightarrow> (\<exists>bs. v = JArr bs \<and> list_all (\<lambda>b. thinking_block b \<or> text_block b \<noteq> None) bs
     \<and> List.map_filter text_block bs = [s])"
  by (cases v) (auto simp: anthropic_output_text_def bindE_eq_Inr anthropic_texts_Inr split: list.splits)

text \<open>Exactly the replies the reader accepts.\<close>

lemma anthropic_response_Inr:
  "anthropic_response_from_payload rt p c model = Inr r \<longleftrightarrow>
     (\<exists>i u s out. get_member p ''type'' = JStr ''message'' \<and> get_member p ''role'' = JStr ''assistant'' \<and> get_member p ''id'' = JStr i \<and> i \<noteq> []
        \<and> get_member p ''model'' = JStr model \<and> get_member p ''stop_reason'' = JStr ''end_turn''
        \<and> anthropic_usage_from_payload rt (get_member p ''usage'') = Inr u
        \<and> anthropic_output_text (get_member p ''content'') = Inr s \<and> loads rt s = Some (JObj out)
        \<and> r = \<lparr>ms_correlation_id = c, ms_response_id = i, ms_model_id = model, ms_output_json = out, ms_usage = u,
             ms_configuration_version = C1_CONFIGURATION_VERSION, ms_provider = MODEL_PROVIDER_ANTHROPIC\<rparr>)"
  unfolding anthropic_response_from_payload_def
  by (cases "get_member p ''id''"; cases "get_member p ''model''") (auto simp: bindE_eq_Inr require_eq_Inr Let_def parse_output_Inr)

text \<open>A reply belongs to the request, the pinned model and what the endpoint sent.\<close>

lemma openai_response_Inr:
  assumes "response_from_provider_payload rt p c model = Inr r"
  shows "ms_correlation_id r = c \<and> ms_model_id r = model \<and> ms_provider r = MODEL_PROVIDER_OPENAI \<and> usage_ok (ms_usage r)"
  using assms unfolding response_from_provider_payload_def
  by (cases "get_member p ''id''"; cases "get_member p ''model''")
    (auto simp: bindE_eq_Inr require_eq_Inr dest: usage_from_payload_ok)

text \<open>How an adapter reads the payload of its request.\<close>

fun adapter_reads :: "runtime \<Rightarrow> model_adapter \<Rightarrow> model_request \<Rightarrow> (string \<times> json) list \<Rightarrow> gateway_error + model_response" where
  "adapter_reads rt (OpenAIResponsesAdapter s) q p = response_from_provider_payload rt p (mq_correlation_id q) (gs_model_id s)"
| "adapter_reads rt (AnthropicMessagesAdapter s) q p = anthropic_response_from_payload rt p (mq_correlation_id q) (ah_model_id s)"

lemma adapter_reads_fun:
  "adapter_reads rt (OpenAIResponsesAdapter s) q = (\<lambda>p. response_from_provider_payload rt p (mq_correlation_id q) (gs_model_id s))"
  "adapter_reads rt (AnthropicMessagesAdapter t) q = (\<lambda>p. anthropic_response_from_payload rt p (mq_correlation_id q) (ah_model_id t))"
  by (simp_all add: fun_eq_iff)

lemma adapter_exchange_eq:
  "adapter_exchange rt net a q = (case validate_model_request q of Inl e \<Rightarrow> (Inl e, [])
   | Inr _ \<Rightarrow> map_prod (\<lambda>answer. bindE (pinned_payload rt answer) (adapter_reads rt a q)) id
      (urlopen net (posted_by a q)))"
  by (cases a) (simp_all add: adapter_reads_fun openai_generate_def anthropic_generate_def after_post_def openai_post_def anthropic_post_def post_pinned_json_def
      prod.map_comp o_def id_def split: sum.split)

lemma pinned_payload_Inr: "pinned_payload rt answer = Inr p \<Longrightarrow> \<exists>bytes. answer = Inr bytes"
  by (auto simp: pinned_payload_def split: sum.splits http_failure.splits)

lemma adapter_exchange_Inr:
  assumes "adapter_exchange rt net a q = (Inr r, sent)"
  shows "ms_correlation_id r = mq_correlation_id q \<and> ms_model_id r = model_of a \<and> ms_provider r = provider_of a \<and> usage_ok (ms_usage r)
    \<and> validate_model_request q = Inr ()
    \<and> (\<exists>bytes p. urlopen net (posted_by a q) = (Inr bytes, sent) \<and> pinned_payload rt (Inr bytes) = Inr p \<and> adapter_reads rt a q p = Inr r)"
proof -
  obtain answer p where v: "validate_model_request q = Inr ()" and o: "urlopen net (posted_by a q) = (answer, sent)"
    and p: "pinned_payload rt answer = Inr p" and r: "adapter_reads rt a q p = Inr r"
    using assms unfolding adapter_exchange_eq by (auto simp: bindE_eq_Inr map_prod_def split: sum.splits prod.splits)
  have "ms_correlation_id r = mq_correlation_id q \<and> ms_model_id r = model_of a \<and> ms_provider r = provider_of a \<and> usage_ok (ms_usage r)"
  proof (cases a)
    case (OpenAIResponsesAdapter s)
    with r show ?thesis using openai_response_Inr by simp
  next
    case (AnthropicMessagesAdapter s)
    with r obtain u where "anthropic_usage_from_payload rt (get_member p ''usage'') = Inr u" "ms_usage r = u"
      "ms_correlation_id r = mq_correlation_id q" "ms_model_id r = ah_model_id s" "ms_provider r = MODEL_PROVIDER_ANTHROPIC"
      by (auto simp: anthropic_response_Inr)
    moreover from this(1) have "usage_ok u" by (auto simp: anthropic_usage_Inr usage_ok_def)
    ultimately show ?thesis by (simp add: AnthropicMessagesAdapter)
  qed
  moreover obtain bytes where "answer = Inr bytes" using pinned_payload_Inr [OF p] by blast
  ultimately show ?thesis using v o p r by blast
qed

section \<open>Accounting\<close>

lemma record_measurement_Inr:
  assumes "record_measurement p trace q duration response log = Inr log'"
  shows "\<exists>m. log' = log @ [m] \<and> mm_pricing m = p \<and> (case response of
     None \<Rightarrow> mm_outcome m = ''failed''
   | Some r \<Rightarrow> mm_outcome m = ''succeeded'' \<and> ms_model_id r = pg_model_id p \<and> ms_provider r = pg_provider p
       \<and> mm_input_tokens m = Some (python_int_value (us_input_tokens (ms_usage r)))
       \<and> mm_output_tokens m = Some (python_int_value (us_output_tokens (ms_usage r))))"
  using assms by (cases response) (auto simp: record_measurement_def bindE_eq_Inr require_eq_Inr except_eq_Inr make_measurement_def Let_def)

text \<open>A sequence of calls through one gateway: what each returned, and the log.\<close>

fun gateway_calls ::
  "(model_request \<Rightarrow> gateway_error + model_response) \<Rightarrow> provider_pricing \<Rightarrow> (uuid option \<times> int option \<times> model_request) list \<Rightarrow> measurement list
     \<Rightarrow> (gateway_error + model_response) list \<times> measurement list" where
  "gateway_calls adapter p [] log = ([], log)"
| "gateway_calls adapter p ((trace, duration, q) # calls) log =
     (case generate_structured adapter (Some p) trace duration q log of (res, log') \<Rightarrow>
        (case gateway_calls adapter p calls log' of (rs, log'') \<Rightarrow> (res # rs, log'')))"

definition replies :: "(gateway_error + model_response) list \<Rightarrow> model_response list" where
  "replies rs = List.map_filter (\<lambda>x. case x of Inl e \<Rightarrow> None | Inr r \<Rightarrow> Some r) rs"

definition succeeded :: "measurement list \<Rightarrow> measurement list" where
  "succeeded ms = filter (\<lambda>m. mm_outcome m = ''succeeded'') ms"

definition input_count :: "model_response \<Rightarrow> int" where "input_count r = python_int_value (us_input_tokens (ms_usage r))"
definition output_count :: "model_response \<Rightarrow> int" where "output_count r = python_int_value (us_output_tokens (ms_usage r))"

lemma generate_structured_log:
  assumes "generate_structured adapter (Some p) trace duration q log = (res, log')"
  shows "\<exists>ms. log' = log @ ms \<and> length ms \<le> 1 \<and> list_all (\<lambda>m. mm_pricing m = p) ms
    \<and> map mm_input_tokens (succeeded ms) = map (\<lambda>r. Some (input_count r)) (replies [res])
    \<and> map mm_output_tokens (succeeded ms) = map (\<lambda>r. Some (output_count r)) (replies [res])"
proof (cases "adapter q")
  case e: (Inl e)
  show ?thesis
  proof (cases "record_measurement p trace q duration None log")
    case (Inl e')
    with assms e have "res = Inl e' \<and> log' = log" by (simp add: generate_structured_def)
    then show ?thesis by (simp add: replies_def succeeded_def map_filter_simps)
  next
    case (Inr log1)
    with assms e have "res = Inl e \<and> log' = log1" by (simp add: generate_structured_def)
    with record_measurement_Inr [OF Inr] show ?thesis by (auto simp: replies_def succeeded_def map_filter_simps)
  qed
next
  case r: (Inr r)
  show ?thesis
  proof (cases "record_measurement p trace q duration (Some r) log")
    case (Inl e')
    with assms r have "res = Inl e' \<and> log' = log" by (simp add: generate_structured_def)
    then show ?thesis by (simp add: replies_def succeeded_def map_filter_simps)
  next
    case (Inr log1)
    with assms r have "res = Inr r \<and> log' = log1" by (simp add: generate_structured_def)
    with record_measurement_Inr [OF Inr] show ?thesis
      by (auto simp: replies_def succeeded_def map_filter_simps input_count_def output_count_def)
  qed
qed

lemma replies_Cons: "replies (x # rs) = replies [x] @ replies rs"
  by (simp add: replies_def map_filter_simps split: option.splits)

lemma gateway_calls_log:
  assumes "gateway_calls adapter p calls log = (rs, log')"
  shows "\<exists>ms. log' = log @ ms \<and> length ms \<le> length calls \<and> list_all (\<lambda>m. mm_pricing m = p) ms
    \<and> map mm_input_tokens (succeeded ms) = map (\<lambda>r. Some (input_count r)) (replies rs)
    \<and> map mm_output_tokens (succeeded ms) = map (\<lambda>r. Some (output_count r)) (replies rs)"
  using assms
proof (induction calls arbitrary: log rs)
  case Nil
  then show ?case by (simp add: replies_def succeeded_def map_filter_simps)
next
  case (Cons call calls)
  obtain trace duration q where c: "call = (trace, duration, q)" by (cases call) auto
  obtain res log1 rs1 where s: "generate_structured adapter (Some p) trace duration q log = (res, log1)"
    "gateway_calls adapter p calls log1 = (rs1, log')" "rs = res # rs1"
    using Cons.prems by (auto simp: c split: prod.splits)
  obtain ms where m: "log1 = log @ ms" "length ms \<le> 1" "list_all (\<lambda>m. mm_pricing m = p) ms"
    "map mm_input_tokens (succeeded ms) = map (\<lambda>r. Some (input_count r)) (replies [res])"
    "map mm_output_tokens (succeeded ms) = map (\<lambda>r. Some (output_count r)) (replies [res])"
    using generate_structured_log [OF s(1)] by blast
  obtain ns where n: "log' = log1 @ ns" "length ns \<le> length calls" "list_all (\<lambda>m. mm_pricing m = p) ns"
    "map mm_input_tokens (succeeded ns) = map (\<lambda>r. Some (input_count r)) (replies rs1)"
    "map mm_output_tokens (succeeded ns) = map (\<lambda>r. Some (output_count r)) (replies rs1)"
    using Cons.IH [OF s(2)] by blast
  have "succeeded (ms @ ns) = succeeded ms @ succeeded ns" by (simp add: succeeded_def)
  moreover have "replies rs = replies [res] @ replies rs1" unfolding s(3) by (rule replies_Cons)
  ultimately show ?case using m n by (intro exI [of _ "ms @ ns"]) simp
qed

text \<open>The report of the log accounts for every reply returned.\<close>

lemma token_sum_replies:
  assumes "map tokens ms = map (\<lambda>r. Some (n r)) rs"
  shows "token_sum tokens ms = sum_list (map n rs)"
proof -
  have "map (\<lambda>m. case tokens m of None \<Rightarrow> 0 | Some i \<Rightarrow> i) ms = map (\<lambda>x. case x of None \<Rightarrow> 0 | Some i \<Rightarrow> i) (map tokens ms)" by simp
  also have "\<dots> = map n rs" unfolding assms by simp
  finally show ?thesis by (simp add: token_sum_def)
qed

lemma report_of_calls:
  assumes "gateway_calls adapter p calls [] = (rs, log)" "log \<noteq> []" "length calls < 2 ^ 53"
  shows "\<exists>s. build_cost_success_report log = Inr \<lparr>cp_schema_version = METRICS_SCHEMA_VERSION, cp_summaries = [s]\<rparr>
    \<and> cs_pricing s = p \<and> cs_invocation_count s = length log \<and> cs_success_count s = length (replies rs)
    \<and> cs_input_tokens s = sum_list (map input_count (replies rs)) \<and> cs_output_tokens s = sum_list (map output_count (replies rs))
    \<and> cs_cost_microusd s = cost_microusd p (cs_input_tokens s) (cs_output_tokens s)"
proof -
  have l: "length log \<le> length calls" "list_all (\<lambda>m. mm_pricing m = p) log"
    "map mm_input_tokens (succeeded log) = map (\<lambda>r. Some (input_count r)) (replies rs)"
    "map mm_output_tokens (succeeded log) = map (\<lambda>r. Some (output_count r)) (replies rs)"
    using gateway_calls_log [OF assms(1)] by auto
  have n: "length log < 2 ^ 53" using l(1) assms(3) by simp
  obtain r where r: "build_cost_success_report log = Inr r" using report_succeeds(1) [OF n] by blast
  have "mm_pricing ` set log = {p}" using l(2) assms(2) by (force simp: list_all_iff neq_Nil_conv)
  then have d: "distinct (map cs_pricing (cp_summaries r))" "set (map cs_pricing (cp_summaries r)) = {p}"
    "list_all (\<lambda>s. summary_for_pricing (cs_pricing s) (measured log (cs_pricing s)) = Inr s) (cp_summaries r)"
    using report_succeeds(2) [OF n r] by simp_all
  then have "length (map cs_pricing (cp_summaries r)) = 1" using distinct_card [OF d(1)] by simp
  then obtain s where s: "cp_summaries r = [s]" by (auto simp: length_Suc_conv)
  have m: "measured log p = log" using l(2) by (simp add: measured_def filter_id_conv list_all_iff)
  have c: "summary_for_pricing p log = Inr s" "cs_pricing s = p" using d(2,3) by (simp_all add: s m)
  obtain s' where "summary_for_pricing p log = Inr s'" "cs_invocation_count s' = length log" "cs_success_count s' = length (succeeded log)"
    "cs_input_tokens s' = token_sum mm_input_tokens (succeeded log)" "cs_output_tokens s' = token_sum mm_output_tokens (succeeded log)"
    "cs_cost_microusd s' = cost_microusd p (cs_input_tokens s') (cs_output_tokens s')"
    using summary_succeeds [OF assms(2) n, of p] unfolding succeeded_def by blast
  moreover have "length (succeeded log) = length (replies rs)" using arg_cong [OF l(3), of length] by simp
  moreover have "r = \<lparr>cp_schema_version = METRICS_SCHEMA_VERSION, cp_summaries = [s]\<rparr>"
    using r s by (auto simp: build_cost_success_report_def bindE_eq_Inr)
  ultimately show ?thesis using r c token_sum_replies [OF l(3)] token_sum_replies [OF l(4)] by simp
qed

section \<open>A truth value as a token count\<close>

lemma boolean_count_rejected:
  assumes "adapter q = Inr r" "ms_model_id r = pg_model_id p" "ms_provider r = pg_provider p" "us_input_tokens (ms_usage r) = PyBool b"
    and "mq_correlation_id q \<noteq> 0" "trace \<noteq> Some 0" "0 \<le> d"
  shows "generate_structured adapter (Some p) trace (Some d) q log
    = (Inl (GatewayMetrics (MetricsRejected ''input_tokens must be a non-negative integer'')), log)"
  using assms by (simp add: generate_structured_def record_measurement_def make_measurement_def require_def check_count_def
      require_non_negative_int_def except_def Let_def)

text \<open>A content block whose type is a list raises \<open>TypeError\<close>, not a gateway error.\<close>

lemma unhashable_block: "get_member b ''type'' = JArr xs \<Longrightarrow> anthropic_output_text (JArr (JObj b # bs)) = Inl GatewayTypeError"
  by (simp add: anthropic_output_text_def)

end
