(* ===== verification/Design_Properties.thy ===== *)
theory Design_Properties
  imports Evidence_Demo Test_Generation Test_Normalization Test_Revisions Traceability Gateway_Correct
begin

text \<open>
  The properties of test design: from the findings of an analysis to grounded proposals, their duplicates,
  revisions and traces, and the model gateway with its accounting.
\<close>

section \<open>A concrete proposal\<close>

definition demo_seed :: test_generation_seed where
  "demo_seed = \<lparr>sd_finding = demo_finding, sd_kind = POSITIVE, sd_request = demo_request, sd_assertions = [demo_assertion]\<rparr>"

lemma demo_category: "rf_category demo_finding = MISSING_ACCEPTANCE_CRITERIA"
proof -
  have "\<forall>f \<in> set demo_findings. rf_category f = MISSING_ACCEPTANCE_CRITERIA" by (simp add: demo_findings_def acceptance_findings_def)
  then show ?thesis by (simp add: demo_finding(1))
qed

lemma demo_title:
  "text_ok (title_case False (with_spaces (kind_value POSITIVE)) @ '' test for '' @ with_spaces (category_value MISSING_ACCEPTANCE_CRITERIA) @ '' finding'')"
  by code_simp

lemma demo_seed_ids: "seed_citation_ids demo_seed = [300]"
  using demo_finding(2) by (simp add: seed_citation_ids_def demo_seed_def)

lemma demo_candidate_ok: "test_case_ok demo_rt (candidate_case demo_rt demo_seed)"
proof -
  have "tc_citation_ids (candidate_case demo_rt demo_seed) = [300]" "text_ok (tc_title (candidate_case demo_rt demo_seed))"
    "tc_request (candidate_case demo_rt demo_seed) = tc_request demo_case" "tc_assertions (candidate_case demo_rt demo_seed) = tc_assertions demo_case"
    using demo_title demo_seed_ids by (simp_all add: candidate_case_def demo_seed_def demo_category demo_case_def)
  then show ?thesis using demo_case_ok by (simp add: test_case_ok_def)
qed

section \<open>Generation\<close>

text \<open>C16: Supported findings of a stored analysis become tests: when every seed takes a finding of the run and
  its proposal is well formed and distinct, generation succeeds and returns exactly these proposals in the
  deterministic order, each valid and citing only citations of the project.\<close>

theorem findings_become_tests:
  assumes "analyze (\<lambda>p i. get_citation up p i ev) rt env project is db = (Inr run, db')"
    and "seeds \<noteq> []" "length seeds \<le> MAX_GENERATED_TEST_CASES" "sd_finding ` set seeds \<subseteq> set (an_findings run)"
    and "list_all (\<lambda>s. test_case_ok rt (candidate_case rt s)) seeds" "distinct (map (\<lambda>s. tc_id (candidate_case rt s)) seeds)"
  shows "generate (\<lambda>p i. get_citation up p i ev) rt project seeds = Inr (map (candidate_case rt) (sort_key seed_sort_key seeds))
    \<and> list_all (\<lambda>s. grounded (\<lambda>p i. get_citation up p i ev) project s) seeds"
proof -
  have "grounded (\<lambda>p i. get_citation up p i ev) project s" if "s \<in> set seeds" for s
  proof (rule sql_citations.analyzed_grounded [OF assms(1)])
    show "sd_finding s \<in> set (an_findings run)" using assms(4) that by blast
    show "sd_assertions s \<noteq> []" using assms(5) that by (auto simp: list_all_iff test_case_ok_def candidate_case_def)
  qed
  then have "list_all (grounded (\<lambda>p i. get_citation up p i ev) project) seeds" by (simp add: list_all_iff)
  with generate_succeeds [OF assms(2,3) this assms(5,6)] show ?thesis by blast
qed

theorem findings_become_tests_witness:
  "generate (\<lambda>p i. get_citation True p i demo_cited) demo_rt 11 [demo_seed] = Inr [candidate_case demo_rt demo_seed]"
proof -
  have "sd_finding ` set [demo_seed] \<subseteq> set (an_findings (run_of demo_analysis_env 11 [300] demo_findings))"
    by (simp add: run_of_def demo_finding(1) demo_seed_def)
  from findings_become_tests [OF demo_analysed _ _ this] show ?thesis
    using demo_candidate_ok by (simp add: MAX_GENERATED_TEST_CASES_def)
qed

lemma demo_grounded: "grounded (\<lambda>p i. get_citation True p i demo_cited) 11 demo_seed"
  by (rule sql_citations.analyzed_grounded [OF demo_analysed]) (simp_all add: run_of_def demo_finding(1) demo_seed_def)

text \<open>C17: Generated proposals are valid, distinct and grounded: the n-th is derived from the n-th seed in order,
  whose finding is supported, keeps its finding, kind and citations, and every citation is one of the
  project joined to its passage.\<close>

theorem generated_tests_grounded:
  assumes "generate (\<lambda>p i. get_citation up p i ev) rt project seeds = Inr ts"
  shows "list_all (test_case_ok rt) ts \<and> distinct (map tc_id ts)
    \<and> map tc_source_finding_id ts = map (\<lambda>s. rf_id (sd_finding s)) (sort_key seed_sort_key seeds)
    \<and> map tc_kind ts = map sd_kind (sort_key seed_sort_key seeds)
    \<and> map tc_citation_ids ts = map seed_citation_ids (sort_key seed_sort_key seeds)
    \<and> list_all (\<lambda>s. \<not> rf_unsupported (sd_finding s)) seeds
    \<and> list_all (\<lambda>t. list_all (\<lambda>i. \<exists>z. cited_in ev project z \<and> ct_id z = i) (tc_citation_ids t)) ts"
proof -
  let ?o = "sort_key seed_sort_key seeds" and ?get = "\<lambda>p i. get_citation up p i ev"
  note p = generated_provenance [OF assms]
  have c: "map tc_citation_ids ts = map seed_citation_ids ?o" "map tc_kind ts = map sd_kind ?o"
    "map tc_source_finding_id ts = map (\<lambda>s. rf_id (sd_finding s)) ?o"
    using p by (simp_all add: list_all2_conv_all_nth list_eq_iff_nth_eq)
  have g: "grounded ?get project s" if "s \<in> set seeds" for s
  proof -
    have "s \<in> set ?o" using that by simp
    then obtain n where "n < length ?o" "?o ! n = s" unfolding in_set_conv_nth by blast
    with list_all2_nthD [OF p] show ?thesis by blast
  qed
  have "\<exists>z. cited_in ev project z \<and> ct_id z = i" if tt: "t \<in> set ts" and ii: "i \<in> set (tc_citation_ids t)" for t i
  proof -
    have "tc_citation_ids t \<in> seed_citation_ids ` set seeds" using tt arg_cong [OF c(1), of set] by auto
    then obtain s where "s \<in> set seeds" "i \<in> set (seed_citation_ids s)" using ii by auto
    with g have "\<exists>z. get_citation up project i ev = Inr (Some z)" by (auto simp: grounded_def list_all_iff)
    then show ?thesis using get_citation_sound by blast
  qed
  moreover have "list_all (\<lambda>s. \<not> rf_unsupported (sd_finding s)) seeds" using g by (auto simp: list_all_iff grounded_def)
  moreover have "distinct (map tc_id ts)" using assms unfolding generate_iff by blast
  ultimately show ?thesis using generated_ok [OF assms] c by (simp add: list_all_iff)
qed

theorem generated_tests_grounded_witness:
  "\<exists>ts. generate (\<lambda>p i. get_citation True p i demo_cited) demo_rt 11 [demo_seed] = Inr ts \<and> map tc_citation_ids ts = [[300]]"
proof -
  have g: "generate (\<lambda>p i. get_citation True p i demo_cited) demo_rt 11 [demo_seed] = Inr (map (candidate_case demo_rt) (sort_key seed_sort_key [demo_seed]))"
    by (rule generate_succeeds) (use demo_grounded demo_candidate_ok in \<open>simp_all add: MAX_GENERATED_TEST_CASES_def\<close>)
  from generated_tests_grounded [OF g] g demo_seed_ids show ?thesis by simp
qed

section \<open>Duplicates\<close>



section \<open>Revisions\<close>


definition demo_edited :: generated_test_case where
  "demo_edited = demo_case\<lparr>tc_kind := NEGATIVE\<rparr>"

lemma demo_edited_ok: "test_case_ok demo_rt demo_edited" "json_ok demo_rt (JObj (test_case_payload demo_edited))"
  using demo_case_ok demo_json_ok by (simp_all add: test_case_ok_def demo_edited_def test_case_payload_def)

definition demo_history :: revision_history where
  "demo_history = \<lparr>th_test_case_id = 1, th_revisions = [original_revision demo_case 1 601]\<rparr>"

lemma demo_history: "create_test_revision_history demo_rt demo_case (Aware 1) 601 = Inr demo_history"
  unfolding demo_history_def create_history_succeeds [OF demo_case_ok demo_json_ok] by (simp add: demo_case_def)

lemma demo_snapshots: "canonical_json (JObj (test_case_payload demo_edited)) \<noteq> canonical_json (JObj (test_case_payload demo_case))"
proof
  assume "canonical_json (JObj (test_case_payload demo_edited)) = canonical_json (JObj (test_case_payload demo_case))"
  then have "canon_case demo_edited = canon_case demo_case"
    using snapshot_reads_back [OF demo_edited_ok] snapshot_reads_back [OF demo_case_ok demo_json_ok] by simp
  from arg_cong [OF this, of tc_kind] show False by (simp add: canon_case_def demo_edited_def demo_case_def)
qed



text \<open>A valid, changed edit by a bounded editor at a later time with a fresh identifier is appended to a valid
  history: nothing before it changes, the history stays valid, and the stored snapshot reads back to the
  edited proposal with the members of its body in key order.\<close>

theorem edit_round_trip:
  assumes "validate_history rt h = Inr ()" "validate_generated_test_case rt payload = Inr t" "tc_id t = th_test_case_id h"
    and "json_ok rt (JObj (test_case_payload t))" "strip editor \<noteq> []" "length (strip editor) \<le> MAX_EDITOR_ID_LENGTH"
    and "canonical_json (JObj (test_case_payload t)) \<noteq> tv_test_case_payload (last (th_revisions h))"
    and "snd (stamp (last (th_revisions h))) \<le> now" "i \<notin> tv_id ` set (th_revisions h)"
  shows "\<exists>r. append_user_test_revision rt h payload editor (Aware now) i = Inr (h\<lparr>th_revisions := th_revisions h @ [r]\<rparr>)
    \<and> validate_history rt (h\<lparr>th_revisions := th_revisions h @ [r]\<rparr>) = Inr ()
    \<and> revision_test_case rt (tv_test_case_payload r) = Inr (canon_case t)
    \<and> tv_id r = i \<and> tv_kind r = USER_EDIT \<and> tv_editor_id r = Some (strip editor) \<and> tv_created_at r = Aware now"
proof -
  let ?r = "user_revision h t editor now i"
  have a: "append_user_test_revision rt h payload editor (Aware now) i = Inr (h\<lparr>th_revisions := th_revisions h @ [?r]\<rparr>)"
    by (rule append_succeeds) (use assms in \<open>simp_all add: editor_ok_def flip: validate_history_iff\<close>)
  have "revision_test_case rt (tv_test_case_payload ?r) = Inr (canon_case t)"
    using snapshot_reads_back [OF validate_sound [OF assms(2)] assms(4)] by (simp add: user_revision_def)
  moreover have "validate_history rt (h\<lparr>th_revisions := th_revisions h @ [?r]\<rparr>) = Inr ()"
    unfolding validate_history_iff by (rule append_Inr [OF a]) simp
  ultimately show ?thesis using a by (intro exI [of _ ?r]) (simp add: user_revision_def)
qed

theorem edit_round_trip_witness:
  "\<exists>h r. append_user_test_revision demo_rt demo_history (test_case_payload demo_edited) ''qa'' (Aware 2) 602 = Inr h
     \<and> last (th_revisions h) = r \<and> revision_test_case demo_rt (tv_test_case_payload r) = Inr (canon_case demo_edited)"
proof -
  have e: "strip ''qa'' \<noteq> [] \<and> length (strip ''qa'') \<le> MAX_EDITOR_ID_LENGTH" by code_simp
  have h: "validate_history demo_rt demo_history = Inr ()" unfolding validate_history_iff by (rule create_history_ok [OF demo_history])
  have "\<exists>r. append_user_test_revision demo_rt demo_history (test_case_payload demo_edited) ''qa'' (Aware 2) 602
      = Inr (demo_history\<lparr>th_revisions := th_revisions demo_history @ [r]\<rparr>)
    \<and> revision_test_case demo_rt (tv_test_case_payload r) = Inr (canon_case demo_edited)"
    using edit_round_trip [OF h validate_payload [OF demo_edited_ok(1)] _ demo_edited_ok(2), of "''qa''" 2 602] e demo_snapshots
    by (auto simp: demo_history_def demo_edited_def demo_case_def original_revision_def stamp_def)
  then show ?thesis by auto
qed

section \<open>Traceability\<close>

text \<open>C40: The matrices link exactly the tests whose finding or operation has a source, with that source's revision,
  and a refresh with the same sources changes nothing; a later refresh keeps every link and marks it
  current exactly when a source with the same identity and revision is still there.\<close>

theorem traceability_exact:
  assumes "build_traceability_matrices requirements operations tests = Inr m"
    and "refresh_traceability_staleness m requirements' operations' = Inr m'"
  shows "(l \<in> set (tm_requirement_links m) \<longleftrightarrow> (\<exists>t \<in> set tests. \<exists>s \<in> set requirements. rq_source_finding_id s = tc_source_finding_id t
        \<and> l = \<lparr>rl_source_finding_id = rq_source_finding_id s, rl_requirement_id = rq_requirement_id s, rl_source_revision = rq_revision s,
              rl_test_case_id = tc_id t, rl_state = CURRENT\<rparr>))
    \<and> (k \<in> set (tm_operation_links m) \<longleftrightarrow> (\<exists>t \<in> set tests. \<exists>s \<in> set operations. oq_operation_id s = operation_id_for_test_case t
        \<and> k = \<lparr>ol_operation_id = oq_operation_id s, ol_source_revision = oq_revision s, ol_test_case_id = tc_id t, ol_state = CURRENT\<rparr>))
    \<and> refresh_traceability_staleness m requirements operations = Inr m
    \<and> map (rl_state_update (\<lambda>_. CURRENT)) (tm_requirement_links m') = tm_requirement_links m
    \<and> map (ol_state_update (\<lambda>_. CURRENT)) (tm_operation_links m') = tm_operation_links m
    \<and> list_all (\<lambda>l. rl_state l = CURRENT \<longleftrightarrow> (\<exists>s \<in> set requirements'. rq_source_finding_id s = rl_source_finding_id l
        \<and> rq_requirement_id s = rl_requirement_id l \<and> rq_revision s = rl_source_revision l)) (tm_requirement_links m')
    \<and> list_all (\<lambda>l. ol_state l = CURRENT \<longleftrightarrow> (\<exists>s \<in> set operations'. oq_operation_id s = ol_operation_id l
        \<and> oq_revision s = ol_source_revision l)) (tm_operation_links m')"
proof -
  from assms(1) obtain f g where b: "index_requirement_sources requirements = Inr f" "index_operation_sources operations = Inr g"
    "set (tm_requirement_links m) = set (requirement_links f tests)" "set (tm_operation_links m) = set (operation_links g tests)"
    by (rule build_Inr)
  from assms(2) obtain f' g' where r: "index_requirement_sources requirements' = Inr f'" "index_operation_sources operations' = Inr g'"
    "tm_requirement_links m' = map (refresh_requirement_link f') (tm_requirement_links m)"
    "tm_operation_links m' = map (refresh_operation_link g') (tm_operation_links m)" by (rule refresh_Inr)
  have links: "l \<in> set (tm_requirement_links m) \<longleftrightarrow> (\<exists>t \<in> set tests. \<exists>s \<in> set requirements. rq_source_finding_id s = tc_source_finding_id t
        \<and> l = \<lparr>rl_source_finding_id = rq_source_finding_id s, rl_requirement_id = rq_requirement_id s, rl_source_revision = rq_revision s,
              rl_test_case_id = tc_id t, rl_state = CURRENT\<rparr>)" for l
    unfolding b(3) requirement_links_set index_requirement_sources_Inr [OF b(1)] by blast
  have opers: "k \<in> set (tm_operation_links m) \<longleftrightarrow> (\<exists>t \<in> set tests. \<exists>s \<in> set operations. oq_operation_id s = operation_id_for_test_case t
        \<and> k = \<lparr>ol_operation_id = oq_operation_id s, ol_source_revision = oq_revision s, ol_test_case_id = tc_id t, ol_state = CURRENT\<rparr>)" for k
    unfolding b(4) operation_links_set index_operation_sources_Inr [OF b(2)] by blast
  have "map (rl_state_update (\<lambda>_. CURRENT)) (tm_requirement_links m') = tm_requirement_links m"
    unfolding r(3) map_map by (rule map_idI) (auto simp: links refresh_requirement_link_def)
  moreover have "map (ol_state_update (\<lambda>_. CURRENT)) (tm_operation_links m') = tm_operation_links m"
    unfolding r(4) map_map by (rule map_idI) (auto simp: opers refresh_operation_link_def)
  moreover have "list_all (\<lambda>l. rl_state l = CURRENT \<longleftrightarrow> (\<exists>s \<in> set requirements'. rq_source_finding_id s = rl_source_finding_id l
        \<and> rq_requirement_id s = rl_requirement_id l \<and> rq_revision s = rl_source_revision l)) (tm_requirement_links m')"
    unfolding r(3) list_all_iff set_map ball_simps refresh_requirement_link_iff [OF r(1)] by (simp add: refresh_requirement_link_def)
  moreover have "list_all (\<lambda>l. ol_state l = CURRENT \<longleftrightarrow> (\<exists>s \<in> set operations'. oq_operation_id s = ol_operation_id l
        \<and> oq_revision s = ol_source_revision l)) (tm_operation_links m')"
    unfolding r(4) list_all_iff set_map ball_simps refresh_operation_link_iff [OF r(2)] by (simp add: refresh_operation_link_def)
  ultimately show ?thesis using links opers refresh_build [OF assms(1)] by blast
qed

definition demo_source :: requirement_source where
  "demo_source = \<lparr>rq_source_finding_id = 2, rq_requirement_id = ''REQ-1'', rq_revision = ''1''\<rparr>"

theorem traceability_exact_witness:
  "\<exists>m m'. build_traceability_matrices [demo_source] [] [demo_case] = Inr m
     \<and> refresh_traceability_staleness m [demo_source\<lparr>rq_revision := ''2''\<rparr>] [] = Inr m'
     \<and> map rl_state (tm_requirement_links m') = [STALE]"
proof -
  have t: "require_trace_text ''REQ-1'' ''Requirement identifier'' = Inr () \<and> require_trace_text ''1'' ''Requirement revision'' = Inr ()
    \<and> require_trace_text ''2'' ''Requirement revision'' = Inr ()" by code_simp
  let ?l = "\<lparr>rl_source_finding_id = 2, rl_requirement_id = ''REQ-1'', rl_source_revision = ''1'', rl_test_case_id = 1, rl_state = CURRENT\<rparr>"
  let ?m = "\<lparr>tm_requirement_links = [?l], tm_operation_links = []\<rparr>"
  let ?m' = "\<lparr>tm_requirement_links = [?l\<lparr>rl_state := STALE\<rparr>], tm_operation_links = []\<rparr>"
  have b: "build_traceability_matrices [demo_source] [] [demo_case] = Inr ?m"
    using t by (simp add: build_traceability_matrices_def index_requirement_sources_def index_operation_sources_def demo_source_def
        requirement_links_def operation_links_def demo_case_def require_def)
  have r: "refresh_traceability_staleness ?m [demo_source\<lparr>rq_revision := ''2''\<rparr>] [] = Inr ?m'"
    using t by (simp add: refresh_traceability_staleness_def index_requirement_sources_def index_operation_sources_def demo_source_def
        validate_matrix_links_def refresh_requirement_link_def require_def)
  from traceability_exact [OF b r] have "map (rl_state_update (\<lambda>_. CURRENT)) (tm_requirement_links ?m') = tm_requirement_links ?m" by blast
  with b r show ?thesis by (intro exI [of _ ?m] exI [of _ ?m']) simp
qed

section \<open>The model gateway\<close>

text \<open>C19: The configured adapter has the pinned settings of the provider the environment selects, and its transport
  refuses every other URL without sending anything.  Of a call, the first request sent is the \<open>POST\<close> of the pinned
  endpoint, and each further one follows a redirect answered to the one before it, as a \<open>GET\<close> without the body; a
  reply is computed from the answer to the last, and belongs to the request, the provider and its pinned model, with
  non-negative token counts.  When the pinned endpoint answers without a redirect, nothing but its answer decides the
  outcome, and nothing is sent elsewhere.\<close>

theorem gateway_reply_pinned:
  assumes "model_adapter_from_mapping environment = Inr a" "adapter_exchange rt net a q = (res, sent)"
  shows "pinned a \<and> model_provider_from_mapping environment = Inr (provider_of a)
    \<and> (\<forall>url headers body timeout. url \<noteq> endpoint a \<longrightarrow>
         (\<exists>m. adapter_post rt net a url headers body timeout = (Inl (ModelGatewayConfigurationError m), [])))
    \<and> (sent = [] \<or> (\<exists>es. sent = posted_by a q # es)) \<and> follows net 0 sent
    \<and> (\<forall>r. res = Inr r \<longrightarrow> ms_provider r = provider_of a \<and> ms_model_id r = model_of a
         \<and> ms_correlation_id r = mq_correlation_id q \<and> usage_ok (ms_usage r)
         \<and> sent \<noteq> [] \<and> (\<exists>bytes p. net (length sent - 1) (last sent) = Answer bytes
              \<and> pinned_payload rt (Inr bytes) = Inr p \<and> adapter_reads rt a q p = Inr r))
    \<and> ((\<forall>status url. net 0 (posted_by a q) \<noteq> Redirect status url) \<longrightarrow>
         (\<forall>e \<in> set sent. hx_url e = endpoint a)
         \<and> (\<forall>net'. net' 0 (posted_by a q) = net 0 (posted_by a q) \<longrightarrow> adapter_exchange rt net' a q = (res, sent)))"
proof -
  obtain answer tr where o: "urlopen net (posted_by a q) = (answer, tr)" by fastforce
  note trace = urlopen_trace [OF o]
  have s: "sent = [] \<or> sent = tr" using assms(2) o by (auto simp: adapter_exchange_eq split: sum.splits)
  have reply: "ms_provider r = provider_of a \<and> ms_model_id r = model_of a \<and> ms_correlation_id r = mq_correlation_id q
      \<and> usage_ok (ms_usage r) \<and> sent \<noteq> [] \<and> (\<exists>bytes p. net (length sent - 1) (last sent) = Answer bytes
              \<and> pinned_payload rt (Inr bytes) = Inr p \<and> adapter_reads rt a q p = Inr r)" if "res = Inr r" for r
    using adapter_exchange_Inr [of rt net a q r sent] assms(2) that urlopen_trace by blast
  have direct: "(\<forall>e \<in> set sent. hx_url e = endpoint a)
      \<and> (\<forall>net'. net' 0 (posted_by a q) = net 0 (posted_by a q) \<longrightarrow> adapter_exchange rt net' a q = (res, sent))"
    if n: "\<forall>status url. net 0 (posted_by a q) \<noteq> Redirect status url"
  proof
    have "tr = [posted_by a q]" using urlopen_direct [of net "posted_by a q"] n o by simp
    then show "\<forall>e \<in> set sent. hx_url e = endpoint a" using s by auto
    show "\<forall>net'. net' 0 (posted_by a q) = net 0 (posted_by a q) \<longrightarrow> adapter_exchange rt net' a q = (res, sent)"
    proof (intro allI impI)
      fix net' :: network assume "net' 0 (posted_by a q) = net 0 (posted_by a q)"
      then have u: "urlopen net' (posted_by a q) = urlopen net (posted_by a q)"
        using urlopen_direct [of net "posted_by a q"] urlopen_direct [of net' "posted_by a q"] n by simp
      show "adapter_exchange rt net' a q = (res, sent)" using assms(2) unfolding adapter_exchange_eq u .
    qed
  qed
  have "follows net 0 sent" "sent = [] \<or> (\<exists>es. sent = posted_by a q # es)" using s trace by auto
  then show ?thesis
    using adapter_from_mapping_Inr(1,2) [OF assms(1)] other_url_refused [of _ a rt net] reply direct by blast
qed

definition demo_environment :: "string \<rightharpoonup> string" where
  "demo_environment = [''OPENAI_API_KEY'' \<mapsto> ''key'']"

definition demo_question :: model_request where
  "demo_question = \<lparr>mq_correlation_id = 701, mq_developer_instruction = ''Propose tests'', mq_user_input = ''Orders'', mq_schema_name = ''tests'',
     mq_schema = [(''type'', JStr ''object'')]\<rparr>"

definition demo_bytes :: "json \<Rightarrow> string" where
  "demo_bytes tokens = canonical_json (JObj [(''id'', JStr ''r1''), (''model'', JStr B1_MODEL_ID),
     (''output'', JArr [JObj [(''type'', JStr ''message''), (''content'', JArr [JObj [(''type'', JStr ''output_text''), (''text'', JStr ''{}'')]])]]),
     (''usage'', JObj [(''input_tokens'', tokens), (''output_tokens'', JInt 2), (''total_tokens'', JInt 3)])])"

definition demo_network :: network where
  "demo_network n e = Answer (demo_bytes (JInt 1))"

definition demo_gateway_settings :: gateway_settings where
  "demo_gateway_settings = gateway_settings_from_mapping demo_environment"

definition demo_reply :: model_response where
  "demo_reply = \<lparr>ms_correlation_id = 701, ms_response_id = ''r1'', ms_model_id = B1_MODEL_ID, ms_output_json = [],
     ms_usage = \<lparr>us_input_tokens = PyInt 1, us_output_tokens = PyInt 2, us_total_tokens = PyInt 3\<rparr>,
     ms_configuration_version = MODEL_GATEWAY_CONFIGURATION_VERSION, ms_provider = MODEL_PROVIDER_OPENAI\<rparr>"

lemma demo_adapter: "model_adapter_from_mapping demo_environment = Inr (OpenAIResponsesAdapter demo_gateway_settings)"
  by code_simp

lemma demo_generated: "adapter_generate demo_rt demo_network (OpenAIResponsesAdapter demo_gateway_settings) demo_question = Inr demo_reply"
  by code_simp

theorem gateway_reply_pinned_witness:
  "\<exists>sent. adapter_exchange demo_rt demo_network (OpenAIResponsesAdapter demo_gateway_settings) demo_question = (Inr demo_reply, sent)
   \<and> model_provider_from_mapping demo_environment = Inr (ms_provider demo_reply) \<and> (\<forall>e \<in> set sent. hx_url e = OPENAI_RESPONSES_URL)"
proof -
  obtain sent where x: "adapter_exchange demo_rt demo_network (OpenAIResponsesAdapter demo_gateway_settings) demo_question = (Inr demo_reply, sent)"
    using demo_generated by (metis adapter_generate_def prod.collapse)
  from gateway_reply_pinned [OF demo_adapter this] x show ?thesis by (auto simp: demo_network_def)
qed

text \<open>The pin holds for the first request only.  When the pinned endpoint answers \<open>302\<close>, the call goes on at the
  URL it names: the API key is sent there and what that host answers is returned as the reply.\<close>

definition elsewhere :: string where
  "elsewhere = ''https://elsewhere.example/v1''"

definition redirecting_network :: network where
  "redirecting_network n e =
     (if hx_url e = OPENAI_RESPONSES_URL then Redirect 302 elsewhere else Answer (demo_bytes (JInt 1)))"

theorem redirect_followed:
  "adapter_exchange demo_rt redirecting_network (OpenAIResponsesAdapter demo_gateway_settings) demo_question
     = (Inr demo_reply, [posted_by (OpenAIResponsesAdapter demo_gateway_settings) demo_question,
          \<lparr>hx_method = ''GET'', hx_url = elsewhere, hx_headers = [(''Authorization'', ''Bearer key'')], hx_body = None,
            hx_timeout = MODEL_GATEWAY_TIMEOUT_SECONDS\<rparr>])"
  by code_simp

text \<open>C18: A gateway with metrics accounts for every reply it returns: after any sequence of calls the report has one
  summary, which counts exactly the replies returned and the sum of their tokens, and whose cost is the
  exact price rounded up to a micro-dollar.\<close>

theorem gateway_spend_accounted:
  assumes "gateway_calls adapter p calls [] = (results, log)" "log \<noteq> []" "length calls < 2 ^ 53"
  shows "\<exists>s. build_cost_success_report log = Inr \<lparr>cp_schema_version = METRICS_SCHEMA_VERSION, cp_summaries = [s]\<rparr>
    \<and> cs_pricing s = p \<and> cs_success_count s = length (replies results)
    \<and> cs_input_tokens s = sum_list (map input_count (replies results)) \<and> cs_output_tokens s = sum_list (map output_count (replies results))
    \<and> cs_input_tokens s * pg_input_rate p + cs_output_tokens s * pg_output_rate p \<le> cs_cost_microusd s * TOKENS_PER_MILLION
    \<and> cs_cost_microusd s * TOKENS_PER_MILLION < cs_input_tokens s * pg_input_rate p + cs_output_tokens s * pg_output_rate p + TOKENS_PER_MILLION"
  using report_of_calls [OF assms] cost_bounds by metis

definition demo_pricing :: provider_pricing where
  "demo_pricing = \<lparr>pg_provider = MODEL_PROVIDER_OPENAI, pg_model_id = B1_MODEL_ID, pg_pricing_version = ''1'', pg_source_reference = ''list'',
     pg_input_rate = 2500000, pg_output_rate = 10000000\<rparr>"

lemma demo_calls:
  "gateway_calls (adapter_generate demo_rt demo_network (OpenAIResponsesAdapter demo_gateway_settings)) demo_pricing [(None, Some 12, demo_question)] []
    = ([Inr demo_reply], [\<lparr>mm_correlation_id = 701, mm_trace_id = None, mm_pricing = demo_pricing, mm_outcome = ''succeeded'', mm_duration = 12,
        mm_retry_count = 0, mm_input_tokens = Some 1, mm_output_tokens = Some 2, mm_total_tokens = Some 3\<rparr>])"
proof -
  have "record_measurement demo_pricing None demo_question (Some 12) (Some demo_reply) []
      = Inr [\<lparr>mm_correlation_id = 701, mm_trace_id = None, mm_pricing = demo_pricing, mm_outcome = ''succeeded'', mm_duration = 12,
        mm_retry_count = 0, mm_input_tokens = Some 1, mm_output_tokens = Some 2, mm_total_tokens = Some 3\<rparr>]"
    by (simp add: record_measurement_def make_measurement_def require_def require_non_negative_int_def check_count_def demo_question_def
        demo_reply_def demo_pricing_def except_def Let_def)
  then show ?thesis by (simp add: generate_structured_def demo_generated)
qed

theorem gateway_spend_accounted_witness:
  "\<exists>s log. build_cost_success_report log = Inr \<lparr>cp_schema_version = METRICS_SCHEMA_VERSION, cp_summaries = [s]\<rparr>
     \<and> cs_success_count s = 1 \<and> cs_input_tokens s = 1"
  using gateway_spend_accounted [OF demo_calls] by (auto simp: replies_def map_filter_simps input_count_def demo_reply_def)

end
