(* ===== verification/Openapi_Parser.thy ===== *)
theory Openapi_Parser
  imports Json_Roundtrip Py_Text
begin

text \<open>
  The OpenAPI parser (\<open>openapi_parser.py\<close>): strict JSON with refused duplicate keys and constants, the
  conversion of composed YAML nodes, the structural limits and the operations of a document.  PyYAML's
  \<open>scan\<close> and \<open>compose\<close> are the parameter \<open>yaml_library\<close>.
\<close>

section \<open>Data\<close>

definition MAX_DEPTH :: nat where "MAX_DEPTH = 40"
definition MAX_NODES :: nat where "MAX_NODES = 25000"
definition MAX_MEMBERS :: nat where "MAX_MEMBERS = 10000"
definition MAX_SCALAR_LENGTH :: nat where "MAX_SCALAR_LENGTH = 64 * 1024"
definition MAX_REFERENCES :: nat where "MAX_REFERENCES = 500"
definition MAX_OPERATIONS :: nat where "MAX_OPERATIONS = 500"
definition MAX_COMPONENTS :: nat where "MAX_COMPONENTS = 5000"

definition openapi_methods :: "string list" where
  "openapi_methods = [''get'', ''put'', ''post'', ''delete'', ''options'', ''head'', ''patch'', ''trace'']"

definition YAML_TAG_PREFIX :: string where "YAML_TAG_PREFIX = ''tag:yaml.org,2002:''"

datatype openapi_rejection = OpenApiParseRejected string

record openapi_operation =
  op_path :: string
  op_method :: string
  op_json_pointer :: string
  op_security :: "json list"

record openapi_schema =
  os_name :: string
  os_json_pointer :: string

record parsed_openapi =
  po_version :: string
  po_operations :: "openapi_operation list"
  po_schemas :: "openapi_schema list"
  po_security :: "json list"

section \<open>Strict JSON\<close>

text \<open>
  \<open>json.loads\<close> with \<open>_reject_duplicate_pairs\<close> and \<open>_reject_json_constant\<close>: the scanner of \<open>Pyjson\<close>, in which a
  repeated key and the three constants stop the parse.  Every failure is the same rejection.
\<close>

fun strict_value :: "runtime \<Rightarrow> nat \<Rightarrow> string \<Rightarrow> (json \<times> string) option"
and strict_elems :: "runtime \<Rightarrow> nat \<Rightarrow> string \<Rightarrow> (json list \<times> string) option"
and strict_members :: "runtime \<Rightarrow> nat \<Rightarrow> string \<Rightarrow> ((string \<times> json) list \<times> string) option" where
  "strict_value rt 0 s = None"
| "strict_value rt (Suc n) s = (case s of
     [] \<Rightarrow> None
   | c # r \<Rightarrow>
       if c = quote_char then map_option (map_prod JStr id) (scan_string r)
       else if c = CHR ''{'' then
         (let r' = skip_ws r in
          if starts_with ''}'' r' then Some (JObj [], tl r')
          else Option.bind (strict_members rt n r') (\<lambda>(kvs, r2). if distinct (map fst kvs) then Some (JObj kvs, r2) else None))
       else if c = CHR ''['' then
         (let r' = skip_ws r in
          if starts_with '']'' r' then Some (JArr [], tl r')
          else map_option (map_prod JArr id) (strict_elems rt n r'))
       else if starts_with ''null'' s then Some (JNull, drop 4 s)
       else if starts_with ''true'' s then Some (JBool True, drop 4 s)
       else if starts_with ''false'' s then Some (JBool False, drop 5 s)
       else if starts_with ''NaN'' s \<or> starts_with ''Infinity'' s \<or> starts_with ''-Infinity'' s then None
       else lex_number rt s)"
| "strict_elems rt 0 s = None"
| "strict_elems rt (Suc n) s = (case strict_value rt n s of
     None \<Rightarrow> None
   | Some (v, r) \<Rightarrow>
       (case skip_ws r of
          [] \<Rightarrow> None
        | c # r' \<Rightarrow>
            if c = CHR '']'' then Some ([v], r')
            else if c = CHR '','' then cons_fst v (strict_elems rt n (skip_ws r'))
            else None))"
| "strict_members rt 0 s = None"
| "strict_members rt (Suc n) s =
     (if \<not> starts_with [quote_char] s then None
      else case scan_string (tl s) of
        None \<Rightarrow> None
      | Some (k, r) \<Rightarrow>
          (let r1 = skip_ws r in
           if \<not> starts_with '':'' r1 then None
           else case strict_value rt n (skip_ws (tl r1)) of
             None \<Rightarrow> None
           | Some (v, r2) \<Rightarrow>
               (case skip_ws r2 of
                  [] \<Rightarrow> None
                | c # r3 \<Rightarrow>
                    if c = CHR ''}'' then Some ([(k, v)], r3)
                    else if c = CHR '','' then cons_fst (k, v) (strict_members rt n (skip_ws r3))
                    else None)))"

definition strict_loads :: "runtime \<Rightarrow> string \<Rightarrow> json option" where
  "strict_loads rt s = (let s' = skip_ws s in
     case strict_value rt (2 * length s' + 2) s' of
       None \<Rightarrow> None
     | Some (v, r) \<Rightarrow> if skip_ws r = [] then Some v else None)"

definition load_json :: "runtime \<Rightarrow> string \<Rightarrow> openapi_rejection + json" where
  "load_json rt s = (case strict_loads rt s of
     None \<Rightarrow> Inl (OpenApiParseRejected ''OPENAPI_JSON_SYNTAX_INVALID'') | Some v \<Rightarrow> Inr v)"

section \<open>YAML\<close>

datatype yaml_token = DirectiveOrDocument | AnchorAliasOrTag | OtherToken

datatype yaml_node =
    ScalarNode bool string string
  | SequenceNode bool string "yaml_node list"
  | MappingNode bool string "(yaml_node \<times> yaml_node) list"
  | OtherNode bool string

text \<open>A node's first component says whether it has an anchor, the second is its tag.\<close>

record yaml_library =
  yl_scan :: "string \<Rightarrow> yaml_token list \<times> bool"
  yl_compose :: "string \<Rightarrow> yaml_node option option"

text \<open>\<open>yl_scan\<close> gives the tokens before the first scanner error and whether there was one; \<open>yl_compose\<close> is
  \<open>None\<close> for an error.\<close>

definition rejected :: "string \<Rightarrow> openapi_rejection + 'a" where
  "rejected reason = Inl (OpenApiParseRejected reason)"

definition yaml_tags :: "string list" where
  "yaml_tags = map (\<lambda>t. YAML_TAG_PREFIX @ t) [''map'', ''seq'', ''str'', ''int'', ''float'', ''bool'', ''null'']"

text \<open>A scalar is read by \<open>json.loads\<close> with refused constants; a repeated key is not refused there, but only
  a scalar value passes the checks of the tag.\<close>

definition yaml_scalar_ok :: "string \<Rightarrow> json \<Rightarrow> bool" where
  "yaml_scalar_ok tag v = (case v of
     JNull \<Rightarrow> tag = YAML_TAG_PREFIX @ ''null''
   | JBool b \<Rightarrow> tag = YAML_TAG_PREFIX @ ''bool''
   | JInt i \<Rightarrow> tag = YAML_TAG_PREFIX @ ''int''
   | JFloat r \<Rightarrow> tag = YAML_TAG_PREFIX @ ''float'' \<and> float_finite r
   | _ \<Rightarrow> False)"

definition yaml_scalar_to_json :: "runtime \<Rightarrow> string \<Rightarrow> string \<Rightarrow> openapi_rejection + json" where
  "yaml_scalar_to_json rt tag s =
     (if tag = YAML_TAG_PREFIX @ ''str'' then Inr (JStr s)
      else case loads rt s of
        None \<Rightarrow> rejected ''OPENAPI_YAML_SCALAR_INVALID''
      | Some v \<Rightarrow> bindE (require (yaml_scalar_ok tag v) (OpenApiParseRejected ''OPENAPI_YAML_SCALAR_INVALID'')) (\<lambda>_. Inr v))"

definition supported_node :: "bool \<Rightarrow> string \<Rightarrow> openapi_rejection + unit" where
  "supported_node anchored tag = require (\<not> anchored \<and> tag \<in> set yaml_tags) (OpenApiParseRejected ''OPENAPI_YAML_TAG_OR_ALIAS_UNSUPPORTED'')"

definition yaml_key :: "(string \<times> json) list \<Rightarrow> json \<Rightarrow> openapi_rejection + string" where
  "yaml_key d k = (case k of
     JStr s \<Rightarrow> bindE (require (s \<notin> fst ` set d \<and> s \<noteq> ''<<'') (OpenApiParseRejected ''OPENAPI_YAML_KEY_OR_MERGE_INVALID'')) (\<lambda>_. Inr s)
   | _ \<Rightarrow> rejected ''OPENAPI_YAML_KEY_OR_MERGE_INVALID'')"

function yaml_node_to_json :: "runtime \<Rightarrow> yaml_node \<Rightarrow> openapi_rejection + json"
and yaml_nodes_to_json :: "runtime \<Rightarrow> yaml_node list \<Rightarrow> openapi_rejection + json list"
and yaml_pairs_to_json :: "runtime \<Rightarrow> (string \<times> json) list \<Rightarrow> (yaml_node \<times> yaml_node) list \<Rightarrow> openapi_rejection + (string \<times> json) list" where
  "yaml_node_to_json rt (ScalarNode anchored tag s) =
     bindE (require (s \<noteq> ''<<'') (OpenApiParseRejected ''OPENAPI_YAML_KEY_OR_MERGE_INVALID'')) (\<lambda>_.
     bindE (supported_node anchored tag) (\<lambda>_. yaml_scalar_to_json rt tag s))"
| "yaml_node_to_json rt (SequenceNode anchored tag ns) =
     bindE (supported_node anchored tag) (\<lambda>_. bindE (yaml_nodes_to_json rt ns) (\<lambda>vs. Inr (JArr vs)))"
| "yaml_node_to_json rt (MappingNode anchored tag ps) =
     bindE (supported_node anchored tag) (\<lambda>_. bindE (yaml_pairs_to_json rt [] ps) (\<lambda>d. Inr (JObj d)))"
| "yaml_node_to_json rt (OtherNode anchored tag) =
     bindE (supported_node anchored tag) (\<lambda>_. rejected ''OPENAPI_YAML_NODE_UNSUPPORTED'')"
| "yaml_nodes_to_json rt [] = Inr []"
| "yaml_nodes_to_json rt (n # ns) = bindE (yaml_node_to_json rt n) (\<lambda>v. bindE (yaml_nodes_to_json rt ns) (\<lambda>vs. Inr (v # vs)))"
| "yaml_pairs_to_json rt d [] = Inr d"
| "yaml_pairs_to_json rt d ((k, n) # ps) =
     bindE (yaml_node_to_json rt k) (\<lambda>key. bindE (yaml_key d key) (\<lambda>s.
     bindE (yaml_node_to_json rt n) (\<lambda>v. yaml_pairs_to_json rt (d @ [(s, v)]) ps)))"
  by pat_completeness auto

termination
  by (relation "measure (case_sum (\<lambda>(rt, n). size n) (case_sum (\<lambda>(rt, ns). size_list size ns)
        (\<lambda>(rt, d, ps). size_list (size_prod size size) ps)))") auto

fun check_tokens :: "yaml_token list \<Rightarrow> bool \<Rightarrow> openapi_rejection + unit" where
  "check_tokens [] failed = require (\<not> failed) (OpenApiParseRejected ''OPENAPI_YAML_SYNTAX_INVALID'')"
| "check_tokens (DirectiveOrDocument # ts) failed = rejected ''OPENAPI_YAML_DIRECTIVE_OR_MULTIDOCUMENT''"
| "check_tokens (AnchorAliasOrTag # ts) failed = rejected ''OPENAPI_YAML_TAG_OR_ALIAS_UNSUPPORTED''"
| "check_tokens (OtherToken # ts) failed = check_tokens ts failed"

definition load_yaml :: "runtime \<Rightarrow> yaml_library \<Rightarrow> string \<Rightarrow> openapi_rejection + json" where
  "load_yaml rt yl s =
     bindE (case yl_scan yl s of (tokens, failed) \<Rightarrow> check_tokens tokens failed) (\<lambda>_.
     case yl_compose yl s of
       None \<Rightarrow> rejected ''OPENAPI_YAML_SYNTAX_INVALID''
     | Some None \<Rightarrow> rejected ''OPENAPI_YAML_EMPTY''
     | Some (Some n) \<Rightarrow> yaml_node_to_json rt n)"

section \<open>Structure\<close>

text \<open>The running count of visited nodes is threaded through; a dictionary key is a node of its own.\<close>

definition visit :: "nat \<Rightarrow> nat \<Rightarrow> openapi_rejection + nat" where
  "visit depth nodes = bindE (require (depth \<le> MAX_DEPTH \<and> Suc nodes \<le> MAX_NODES) (OpenApiParseRejected ''OPENAPI_STRUCTURE_LIMIT''))
     (\<lambda>_. Inr (Suc nodes))"

definition check_scalar :: "string \<Rightarrow> openapi_rejection + unit" where
  "check_scalar s = require (length s \<le> MAX_SCALAR_LENGTH) (OpenApiParseRejected ''OPENAPI_SCALAR_LIMIT'')"

definition check_members :: "nat \<Rightarrow> openapi_rejection + unit" where
  "check_members n = require (n \<le> MAX_MEMBERS) (OpenApiParseRejected ''OPENAPI_COLLECTION_LIMIT'')"

fun validate_structure :: "nat \<Rightarrow> json \<Rightarrow> nat \<Rightarrow> openapi_rejection + nat"
and validate_items :: "nat \<Rightarrow> json list \<Rightarrow> nat \<Rightarrow> openapi_rejection + nat"
and validate_pairs :: "nat \<Rightarrow> (string \<times> json) list \<Rightarrow> nat \<Rightarrow> openapi_rejection + nat" where
  "validate_structure d (JObj kvs) n = bindE (visit d n) (\<lambda>n. bindE (check_members (length kvs)) (\<lambda>_. validate_pairs (Suc d) kvs n))"
| "validate_structure d (JArr xs) n = bindE (visit d n) (\<lambda>n. bindE (check_members (length xs)) (\<lambda>_. validate_items (Suc d) xs n))"
| "validate_structure d (JStr s) n = bindE (visit d n) (\<lambda>n. bindE (check_scalar s) (\<lambda>_. Inr n))"
| "validate_structure d v n = visit d n"
| "validate_items d [] n = Inr n"
| "validate_items d (x # xs) n = bindE (validate_structure d x n) (validate_items d xs)"
| "validate_pairs d [] n = Inr n"
| "validate_pairs d ((k, v) # kvs) n =
     bindE (bindE (visit d n) (\<lambda>n. bindE (check_scalar k) (\<lambda>_. Inr n))) (\<lambda>n. bindE (validate_structure d v n) (validate_pairs d kvs))"

definition local_reference :: "json \<Rightarrow> bool" where
  "local_reference v = (case v of JStr s \<Rightarrow> starts_with ''#/'' s \<and> CHR ''%'' \<notin> set s | _ \<Rightarrow> False)"

text \<open>The references of a value, counted; the first refused member raises.\<close>

fun references :: "json \<Rightarrow> openapi_rejection + nat"
and references_items :: "json list \<Rightarrow> openapi_rejection + nat"
and references_pairs :: "(string \<times> json) list \<Rightarrow> openapi_rejection + nat" where
  "references (JObj kvs) = references_pairs kvs"
| "references (JArr xs) = references_items xs"
| "references v = Inr 0"
| "references_items [] = Inr 0"
| "references_items (x # xs) = bindE (references x) (\<lambda>n. bindE (references_items xs) (\<lambda>m. Inr (n + m)))"
| "references_pairs [] = Inr 0"
| "references_pairs ((k, v) # kvs) =
     bindE (require (k \<noteq> ''$dynamicRef'') (OpenApiParseRejected ''OPENAPI_DYNAMIC_REFERENCE_UNSUPPORTED'')) (\<lambda>_.
     bindE (require (k \<noteq> ''$ref'' \<or> local_reference v) (OpenApiParseRejected ''OPENAPI_REFERENCE_UNSUPPORTED'')) (\<lambda>_.
     bindE (references v) (\<lambda>n. bindE (references_pairs kvs) (\<lambda>m. Inr ((if k = ''$ref'' then 1 else 0) + n + m)))))"

definition validate_references :: "json \<Rightarrow> openapi_rejection + unit" where
  "validate_references v = bindE (references v) (\<lambda>n.
     require (n \<le> MAX_REFERENCES) (OpenApiParseRejected ''OPENAPI_REFERENCE_LIMIT''))"

section \<open>The document\<close>

text \<open>\<open>value.get(key, {})\<close> when it must be a dictionary.\<close>

definition object_member :: "(string \<times> json) list \<Rightarrow> string \<Rightarrow> string \<Rightarrow> openapi_rejection + (string \<times> json) list" where
  "object_member v key reason = (case map_of v key of
     None \<Rightarrow> Inr [] | Some (JObj kvs) \<Rightarrow> Inr kvs | Some _ \<Rightarrow> rejected reason)"

text \<open>The checks of \<open>_parse_openapi_root\<close> on a value within the structural limits.\<close>

definition checked_root :: "json \<Rightarrow> openapi_rejection + (string \<times> (string \<times> json) list)" where
  "checked_root value = (case value of
     JObj root \<Rightarrow> (case map_of root ''openapi'' of
       Some (JStr version) \<Rightarrow>
         bindE (require (starts_with ''3.0.'' version \<or> starts_with ''3.1.'' version) (OpenApiParseRejected ''OPENAPI_VERSION_UNSUPPORTED'')) (\<lambda>_.
         bindE (validate_references value) (\<lambda>_.
         bindE (object_member root ''paths'' ''OPENAPI_PATHS_OBJECT_REQUIRED'') (\<lambda>_.
         bindE (object_member root ''components'' ''OPENAPI_COMPONENTS_OBJECT_REQUIRED'') (\<lambda>components.
         bindE (object_member components ''schemas'' ''OPENAPI_SCHEMAS_OBJECT_REQUIRED'') (\<lambda>schemas.
         bindE (require (length schemas \<le> MAX_COMPONENTS) (OpenApiParseRejected ''OPENAPI_COMPONENT_LIMIT'')) (\<lambda>_.
           Inr (version, root)))))))
     | _ \<Rightarrow> rejected ''OPENAPI_VERSION_UNSUPPORTED'')
   | _ \<Rightarrow> rejected ''OPENAPI_ROOT_OBJECT_REQUIRED'')"

definition parse_openapi_root :: "runtime \<Rightarrow> yaml_library \<Rightarrow> string \<Rightarrow> string \<Rightarrow> openapi_rejection + (string \<times> (string \<times> json) list)" where
  "parse_openapi_root rt yl document_type raw =
     bindE (require (document_type \<in> {''openapi-json'', ''openapi-yaml''}) (OpenApiParseRejected ''OPENAPI_DOCUMENT_TYPE_UNSUPPORTED'')) (\<lambda>_.
     bindE (case utf8_decode raw of None \<Rightarrow> rejected ''OPENAPI_TEXT_ENCODING_INVALID'' | Some s \<Rightarrow> Inr s) (\<lambda>s.
     bindE (if document_type = ''openapi-json'' then load_json rt s else load_yaml rt yl s) (\<lambda>value.
     bindE (validate_structure 0 value 0) (\<lambda>_. checked_root value))))"

definition escape_pointer :: "string \<Rightarrow> string" where
  "escape_pointer s = str_replace ''/'' ''~1'' (str_replace ''~'' ''~0'' s)"

definition security_of :: "json option \<Rightarrow> json list" where
  "security_of v = (case v of Some (JArr xs) \<Rightarrow> xs | _ \<Rightarrow> [])"

fun path_operations :: "json option \<Rightarrow> string \<Rightarrow> (string \<times> json) list \<Rightarrow> openapi_rejection + openapi_operation list" where
  "path_operations security path [] = Inr []"
| "path_operations security path ((key, v) # kvs) =
     (if lower key \<notin> set openapi_methods then path_operations security path kvs
      else case v of
        JObj operation \<Rightarrow> bindE (path_operations security path kvs) (\<lambda>ops.
          Inr (\<lparr>op_path = path, op_method = lower key, op_json_pointer = ''/paths/'' @ escape_pointer path @ ''/'' @ key,
                op_security = security_of (case map_of operation ''security'' of None \<Rightarrow> security | Some x \<Rightarrow> Some x)\<rparr> # ops))
      | _ \<Rightarrow> rejected ''OPENAPI_OPERATION_INVALID'')"

fun all_operations :: "json option \<Rightarrow> (string \<times> json) list \<Rightarrow> openapi_rejection + openapi_operation list" where
  "all_operations security [] = Inr []"
| "all_operations security ((path, v) # kvs) =
     (case v of
        JObj item \<Rightarrow> bindE (require (starts_with ''/'' path) (OpenApiParseRejected ''OPENAPI_PATH_ITEM_INVALID'')) (\<lambda>_.
          bindE (path_operations security path item) (\<lambda>ops. bindE (all_operations security kvs) (\<lambda>rest. Inr (ops @ rest))))
      | _ \<Rightarrow> rejected ''OPENAPI_PATH_ITEM_INVALID'')"

definition parse_openapi :: "runtime \<Rightarrow> yaml_library \<Rightarrow> string \<Rightarrow> string \<Rightarrow> openapi_rejection + parsed_openapi" where
  "parse_openapi rt yl document_type raw =
     bindE (parse_openapi_root rt yl document_type raw) (\<lambda>(version, root).
     bindE (object_member root ''paths'' ''OPENAPI_PATHS_OBJECT_REQUIRED'') (\<lambda>paths.
     bindE (all_operations (map_of root ''security'') paths) (\<lambda>operations.
     bindE (require (length operations \<le> MAX_OPERATIONS) (OpenApiParseRejected ''OPENAPI_OPERATION_LIMIT'')) (\<lambda>_.
     bindE (object_member root ''components'' ''OPENAPI_COMPONENTS_OBJECT_REQUIRED'') (\<lambda>components.
     bindE (object_member components ''schemas'' ''OPENAPI_SCHEMAS_OBJECT_REQUIRED'') (\<lambda>schemas.
     bindE (require (length schemas \<le> MAX_COMPONENTS) (OpenApiParseRejected ''OPENAPI_COMPONENT_LIMIT'')) (\<lambda>_.
       Inr \<lparr>po_version = version, po_operations = operations,
         po_schemas = map (\<lambda>(name, _). \<lparr>os_name = name, os_json_pointer = ''/components/schemas/'' @ escape_pointer name\<rparr>) schemas,
         po_security = security_of (map_of root ''security'')\<rparr>)))))))"

section \<open>What the parser accepts\<close>

text \<open>The number of nodes of a value with its keys, the depth of its deepest node, and the bounds on its parts.\<close>

fun nodes_of :: "json \<Rightarrow> nat"
and nodes_items :: "json list \<Rightarrow> nat"
and nodes_pairs :: "(string \<times> json) list \<Rightarrow> nat" where
  "nodes_of (JObj kvs) = Suc (nodes_pairs kvs)"
| "nodes_of (JArr xs) = Suc (nodes_items xs)"
| "nodes_of v = 1"
| "nodes_items [] = 0"
| "nodes_items (x # xs) = nodes_of x + nodes_items xs"
| "nodes_pairs [] = 0"
| "nodes_pairs ((k, v) # kvs) = Suc (nodes_of v + nodes_pairs kvs)"

fun depth_of :: "json \<Rightarrow> nat"
and depth_items :: "json list \<Rightarrow> nat"
and depth_pairs :: "(string \<times> json) list \<Rightarrow> nat" where
  "depth_of (JObj kvs) = depth_pairs kvs"
| "depth_of (JArr xs) = depth_items xs"
| "depth_of v = 0"
| "depth_items [] = 0"
| "depth_items (x # xs) = max (Suc (depth_of x)) (depth_items xs)"
| "depth_pairs [] = 0"
| "depth_pairs ((k, v) # kvs) = max (Suc (depth_of v)) (depth_pairs kvs)"

fun parts_bounded :: "json \<Rightarrow> bool"
and items_bounded :: "json list \<Rightarrow> bool"
and pairs_bounded :: "(string \<times> json) list \<Rightarrow> bool" where
  "parts_bounded (JObj kvs) = (length kvs \<le> 10000 \<and> pairs_bounded kvs)"
| "parts_bounded (JArr xs) = (length xs \<le> 10000 \<and> items_bounded xs)"
| "parts_bounded (JStr s) = (length s \<le> 65536)"
| "parts_bounded v = True"
| "items_bounded [] = True"
| "items_bounded (x # xs) = (parts_bounded x \<and> items_bounded xs)"
| "pairs_bounded [] = True"
| "pairs_bounded ((k, v) # kvs) = (length k \<le> 65536 \<and> parts_bounded v \<and> pairs_bounded kvs)"

fun unique_keys :: "json \<Rightarrow> bool"
and unique_keys_items :: "json list \<Rightarrow> bool"
and unique_keys_pairs :: "(string \<times> json) list \<Rightarrow> bool" where
  "unique_keys (JObj kvs) = (distinct (map fst kvs) \<and> unique_keys_pairs kvs)"
| "unique_keys (JArr xs) = unique_keys_items xs"
| "unique_keys v = True"
| "unique_keys_items [] = True"
| "unique_keys_items (x # xs) = (unique_keys x \<and> unique_keys_items xs)"
| "unique_keys_pairs [] = True"
| "unique_keys_pairs ((k, v) # kvs) = (unique_keys v \<and> unique_keys_pairs kvs)"

text \<open>The members of every object of a value.\<close>

fun members_of :: "json \<Rightarrow> (string \<times> json) list"
and members_items :: "json list \<Rightarrow> (string \<times> json) list"
and members_pairs :: "(string \<times> json) list \<Rightarrow> (string \<times> json) list" where
  "members_of (JObj kvs) = members_pairs kvs"
| "members_of (JArr xs) = members_items xs"
| "members_of v = []"
| "members_items [] = []"
| "members_items (x # xs) = members_of x @ members_items xs"
| "members_pairs [] = []"
| "members_pairs ((k, v) # kvs) = (k, v) # members_of v @ members_pairs kvs"

definition reference_member_ok :: "string \<times> json \<Rightarrow> bool" where
  "reference_member_ok m = (fst m \<noteq> ''$dynamicRef'' \<and> (fst m \<noteq> ''$ref'' \<or> local_reference (snd m)))"

lemma visit_Inr: "visit d n = Inr m \<longleftrightarrow> d \<le> MAX_DEPTH \<and> m = Suc n \<and> m \<le> MAX_NODES"
  by (auto simp: visit_def bindE_eq_Inr require_eq_Inr)

lemma validate_structure_iff:
  "validate_structure d v n = Inr m \<longleftrightarrow> d + depth_of v \<le> MAX_DEPTH \<and> m = n + nodes_of v \<and> m \<le> MAX_NODES \<and> parts_bounded v"
  "d \<le> MAX_DEPTH \<Longrightarrow> n \<le> MAX_NODES \<Longrightarrow> validate_items (Suc d) xs n = Inr m \<longleftrightarrow>
     d + depth_items xs \<le> MAX_DEPTH \<and> m = n + nodes_items xs \<and> m \<le> MAX_NODES \<and> items_bounded xs"
  "d \<le> MAX_DEPTH \<Longrightarrow> n \<le> MAX_NODES \<Longrightarrow> validate_pairs (Suc d) kvs n = Inr m \<longleftrightarrow>
     d + depth_pairs kvs \<le> MAX_DEPTH \<and> m = n + nodes_pairs kvs \<and> m \<le> MAX_NODES \<and> pairs_bounded kvs"
proof (induction v and xs and kvs arbitrary: d n m and d n m and d n m rule: nodes_of_nodes_items_nodes_pairs.induct)
  case (7 k v kvs)
  show ?case
    using 7 by (auto simp: bindE_eq_Inr visit_Inr check_scalar_def require_eq_Inr MAX_SCALAR_LENGTH_def)
qed (auto simp: bindE_eq_Inr visit_Inr check_scalar_def check_members_def require_eq_Inr MAX_SCALAR_LENGTH_def MAX_MEMBERS_def)

lemma references_iff:
  "references v = Inr n \<longleftrightarrow> list_all reference_member_ok (members_of v) \<and> n = length (filter (\<lambda>m. fst m = ''$ref'') (members_of v))"
  "references_items xs = Inr n \<longleftrightarrow> list_all reference_member_ok (members_items xs) \<and> n = length (filter (\<lambda>m. fst m = ''$ref'') (members_items xs))"
  "references_pairs kvs = Inr n \<longleftrightarrow> list_all reference_member_ok (members_pairs kvs) \<and> n = length (filter (\<lambda>m. fst m = ''$ref'') (members_pairs kvs))"
  by (induction v and xs and kvs arbitrary: n and n and n rule: members_of_members_items_members_pairs.induct)
     (auto simp: bindE_eq_Inr require_eq_Inr reference_member_ok_def)

lemma lex_number_unique: "lex_number rt s = Some (v, r) \<Longrightarrow> unique_keys v"
  by (auto simp: lex_number_def Let_def split: option.splits prod.splits if_splits)

lemma strict_value_agrees:
  "strict_value rt n s = Some (v, r) \<Longrightarrow> parse_value rt n s = Some (v, r) \<and> unique_keys v"
  "strict_elems rt n s = Some (xs, r) \<Longrightarrow> parse_elems rt n s = Some (xs, r) \<and> unique_keys_items xs"
  "strict_members rt n s = Some (kvs, r) \<Longrightarrow> parse_members rt n s = Some (kvs, r) \<and> unique_keys_pairs kvs"
proof (induction rt n s and rt n s and rt n s arbitrary: v r and xs r and kvs r rule: strict_value_strict_elems_strict_members.induct)
  case (2 rt n s)
  then show ?case
    by (auto split: list.splits if_splits simp: Let_def bind_eq_Some_conv dict_of_pairs_distinct lex_number_unique)
next
  case (6 rt n s)
  from 6(3) obtain k r0 v r2 c r3 where
    a: "starts_with [quote_char] s" "scan_string (tl s) = Some (k, r0)" "starts_with '':'' (skip_ws r0)"
      "strict_value rt n (skip_ws (tl (skip_ws r0))) = Some (v, r2)" "skip_ws r2 = c # r3"
    by (auto split: list.splits if_splits option.splits simp: Let_def)
  have v: "parse_value rt n (skip_ws (tl (skip_ws r0))) = Some (v, r2)" "unique_keys v"
    using 6(1) a by blast+
  show ?case
  proof (cases "c = CHR '',''")
    case True
    then have IH: "\<And>kvs r. strict_members rt n (skip_ws r3) = Some (kvs, r) \<Longrightarrow>
        parse_members rt n (skip_ws r3) = Some (kvs, r) \<and> unique_keys_pairs kvs"
      using 6(2) a True by blast
    show ?thesis
      using 6(3) a v True by (auto simp: Let_def cons_fst_def dest: IH)
  qed (use 6(3) a v in \<open>auto simp: Let_def split: if_splits\<close>)
qed (auto split: list.splits if_splits option.splits prod.splits simp: Let_def cons_fst_def)

lemma loads_strict: "strict_loads rt s = Some v \<Longrightarrow> loads rt s = Some v \<and> unique_keys v"
proof -
  assume s: "strict_loads rt s = Some v"
  let ?s = "skip_ws s"
  obtain r where r: "strict_value rt (2 * length ?s + 2) ?s = Some (v, r)" "skip_ws r = []"
    using s unfolding strict_loads_def Let_def
    by (cases "strict_value rt (2 * length ?s + 2) ?s") (auto simp del: strict_value.simps split: if_splits)
  show ?thesis
    using strict_value_agrees(1) [OF r(1)] r(2) unfolding loads_def Let_def by (simp del: parse_value.simps)
qed

lemma unique_keys_pairs_append: "unique_keys_pairs (kvs @ kvs') \<longleftrightarrow> unique_keys_pairs kvs \<and> unique_keys_pairs kvs'"
  by (induction kvs) auto

lemma yaml_scalar_unique: "yaml_scalar_to_json rt tag s = Inr v \<Longrightarrow> unique_keys v"
  by (auto simp: yaml_scalar_to_json_def rejected_def bindE_eq_Inr require_eq_Inr yaml_scalar_ok_def split: if_splits option.splits json.splits)

lemma yaml_key_Inr: "yaml_key d k = Inr s \<longleftrightarrow> k = JStr s \<and> s \<notin> fst ` set d \<and> s \<noteq> ''<<''"
  by (auto simp: yaml_key_def rejected_def bindE_eq_Inr require_eq_Inr split: json.splits)

lemma yaml_node_unique:
  "yaml_node_to_json rt n = Inr v \<Longrightarrow> unique_keys v"
  "yaml_nodes_to_json rt ns = Inr vs \<Longrightarrow> unique_keys_items vs"
  "yaml_pairs_to_json rt d ps = Inr d' \<Longrightarrow> distinct (map fst d) \<Longrightarrow> unique_keys_pairs d \<Longrightarrow> distinct (map fst d') \<and> unique_keys_pairs d'"
proof (induction rt n and rt ns and rt d ps arbitrary: v and vs and d' rule: yaml_node_to_json_yaml_nodes_to_json_yaml_pairs_to_json.induct)
  case (8 rt d k n ps)
  from 8(4) obtain key s v where kv: "yaml_node_to_json rt k = Inr key" "yaml_key d key = Inr s" "yaml_node_to_json rt n = Inr v"
    "yaml_pairs_to_json rt (d @ [(s, v)]) ps = Inr d'"
    by (auto simp: bindE_eq_Inr)
  have "unique_keys v"
    using 8(2) kv by blast
  then show ?case
    using 8(3) [OF kv(1,2,3,4)] kv(2) 8(5,6) by (simp add: yaml_key_Inr unique_keys_pairs_append)
qed (auto simp: bindE_eq_Inr rejected_def dest: yaml_scalar_unique)

lemma load_unique:
  "load_json rt s = Inr v \<Longrightarrow> loads rt s = Some v \<and> unique_keys v"
  "load_yaml rt yl s = Inr v \<Longrightarrow> unique_keys v"
  by (auto simp: load_json_def load_yaml_def rejected_def bindE_eq_Inr dest: loads_strict yaml_node_unique split: option.splits prod.splits)

lemma object_member_Inr: "object_member root key reason = Inr kvs \<longleftrightarrow>
    map_of root key = None \<and> kvs = [] \<or> map_of root key = Some (JObj kvs)"
  by (auto simp: object_member_def rejected_def split: option.splits json.splits)

text \<open>The mapping a key of an object names, empty when there is none (\<open>_mapping\<close>).\<close>

definition member_mapping :: "json option \<Rightarrow> (string \<times> json) list" where
  "member_mapping v = (case v of Some (JObj kvs) \<Rightarrow> kvs | _ \<Rightarrow> [])"

definition structure_ok :: "json \<Rightarrow> bool" where
  "structure_ok v \<longleftrightarrow> unique_keys v \<and> depth_of v \<le> 40 \<and> nodes_of v \<le> 25000 \<and> parts_bounded v
     \<and> list_all reference_member_ok (members_of v) \<and> length (filter (\<lambda>m. fst m = ''$ref'') (members_of v)) \<le> 500"

lemma object_member_mapping: "object_member root key reason = Inr kvs \<Longrightarrow> kvs = member_mapping (map_of root key)"
  by (auto simp: object_member_Inr member_mapping_def)

lemma checked_root_Inr:
  assumes "checked_root v = Inr (version, root)"
  shows "v = JObj root" "map_of root ''openapi'' = Some (JStr version)"
    "starts_with ''3.0.'' version \<or> starts_with ''3.1.'' version" "validate_references v = Inr ()"
    "length (member_mapping (map_of (member_mapping (map_of root ''components'')) ''schemas'')) \<le> 5000"
  using assms unfolding checked_root_def
  by (auto simp: rejected_def bindE_eq_Inr require_eq_Inr MAX_COMPONENTS_def dest!: object_member_mapping split: json.splits option.splits)

lemma parse_openapi_root_Inr:
  assumes "parse_openapi_root rt yl ty raw = Inr (version, root)"
  shows "structure_ok (JObj root)" "checked_root (JObj root) = Inr (version, root)"
    "ty = ''openapi-json'' \<Longrightarrow> \<exists>s. utf8_decode raw = Some s \<and> loads rt s = Some (JObj root)"
proof -
  from assms obtain s v n where
    dec: "utf8_decode raw = Some s" and load: "(if ty = ''openapi-json'' then load_json rt s else load_yaml rt yl s) = Inr v"
    and st: "validate_structure 0 v 0 = Inr n" and root: "checked_root v = Inr (version, root)"
    unfolding parse_openapi_root_def bindE_eq_Inr by (auto simp: rejected_def split: option.splits)
  have v: "v = JObj root" and ref: "validate_references v = Inr ()"
    using checked_root_Inr [OF root] by auto
  show "structure_ok (JObj root)"
    using load_unique load st ref
    unfolding structure_ok_def v validate_structure_iff validate_references_def bindE_eq_Inr references_iff require_eq_Inr
    by (auto simp: MAX_DEPTH_def MAX_NODES_def MAX_REFERENCES_def simp del: unique_keys.simps depth_of.simps nodes_of.simps parts_bounded.simps members_of.simps split: if_splits)
  show "checked_root (JObj root) = Inr (version, root)"
    using root v by simp
  show "\<exists>s. utf8_decode raw = Some s \<and> loads rt s = Some (JObj root)" if "ty = ''openapi-json''"
    using that dec load load_unique(1) v by auto
qed

text \<open>The operations a root declares, in the order of its paths and their keys.\<close>

definition declared_operations :: "(string \<times> json) list \<Rightarrow> (string \<times> string \<times> (string \<times> json) list) list" where
  "declared_operations paths = concat (map (\<lambda>(path, item). map (\<lambda>(key, v). (path, key, member_mapping (Some v)))
     (filter (\<lambda>(key, v). lower key \<in> set openapi_methods) (member_mapping (Some item)))) paths)"

definition operation_of :: "json option \<Rightarrow> string \<times> string \<times> (string \<times> json) list \<Rightarrow> openapi_operation" where
  "operation_of security d = (case d of (path, key, operation) \<Rightarrow>
     \<lparr>op_path = path, op_method = lower key, op_json_pointer = ''/paths/'' @ escape_pointer path @ ''/'' @ key,
      op_security = security_of (case map_of operation ''security'' of None \<Rightarrow> security | Some x \<Rightarrow> Some x)\<rparr>)"

lemma path_operations_Inr: "path_operations sec path kvs = Inr ops \<Longrightarrow>
    ops = map (\<lambda>(key, v). operation_of sec (path, key, member_mapping (Some v))) (filter (\<lambda>(key, v). lower key \<in> set openapi_methods) kvs)"
  by (induction sec path kvs arbitrary: ops rule: path_operations.induct)
     (auto simp: bindE_eq_Inr rejected_def operation_of_def member_mapping_def split: if_splits json.splits)

lemma all_operations_Inr: "all_operations sec paths = Inr ops \<Longrightarrow>
    ops = map (operation_of sec) (declared_operations paths) \<and> list_all (\<lambda>(path, item). starts_with ''/'' path) paths"
proof (induction paths arbitrary: ops)
  case (Cons p paths)
  obtain path v where p: "p = (path, v)"
    by (cases p)
  from Cons.prems obtain item ops1 rest where
    a: "v = JObj item" "starts_with ''/'' path" "path_operations sec path item = Inr ops1"
      "all_operations sec paths = Inr rest" "ops = ops1 @ rest"
    by (auto simp: p bindE_eq_Inr require_eq_Inr rejected_def split: json.splits)
  show ?case
    using Cons.IH [OF a(4)] path_operations_Inr [OF a(3)] a(1,2,5)
    by (simp add: p declared_operations_def member_mapping_def comp_def split_beta)
qed (simp add: declared_operations_def)

lemma parse_openapi_Inr:
  assumes "parse_openapi rt yl ty raw = Inr p"
  obtains root where "parse_openapi_root rt yl ty raw = Inr (po_version p, root)"
    "po_operations p = map (operation_of (map_of root ''security'')) (declared_operations (member_mapping (map_of root ''paths'')))"
    "list_all (\<lambda>(path, item). starts_with ''/'' path) (member_mapping (map_of root ''paths''))"
    "length (po_operations p) \<le> 500"
    "map os_name (po_schemas p) = map fst (member_mapping (map_of (member_mapping (map_of root ''components'')) ''schemas''))"
    "po_security p = security_of (map_of root ''security'')"
proof -
  from assms obtain version root paths operations components schemas where
    a: "parse_openapi_root rt yl ty raw = Inr (version, root)"
      "object_member root ''paths'' ''OPENAPI_PATHS_OBJECT_REQUIRED'' = Inr paths"
      "all_operations (map_of root ''security'') paths = Inr operations" "length operations \<le> MAX_OPERATIONS"
      "object_member root ''components'' ''OPENAPI_COMPONENTS_OBJECT_REQUIRED'' = Inr components"
      "object_member components ''schemas'' ''OPENAPI_SCHEMAS_OBJECT_REQUIRED'' = Inr schemas"
      "p = \<lparr>po_version = version, po_operations = operations,
         po_schemas = map (\<lambda>(name, _). \<lparr>os_name = name, os_json_pointer = ''/components/schemas/'' @ escape_pointer name\<rparr>) schemas,
         po_security = security_of (map_of root ''security'')\<rparr>"
    unfolding parse_openapi_def bindE_eq_Inr require_eq_Inr by (auto simp: bindE_eq_Inr require_eq_Inr)
  note m = object_member_mapping [OF a(2)] object_member_mapping [OF a(5)] object_member_mapping [OF a(6)]
  show thesis
    by (rule that [of root])
      (use a(1,4,7) all_operations_Inr [OF a(3)] m in \<open>simp_all add: MAX_OPERATIONS_def comp_def split_beta\<close>)
qed

end
