(* ===== verification/Openapi_Facts.thy ===== *)
theory Openapi_Facts
  imports Openapi_Parser "HOL-Library.List_Lexorder" "HOL-Library.Char_ord" "HOL-Library.Product_Lexorder" "HOL-Library.Multiset"
begin

text \<open>
  Contract facts of an OpenAPI document and their differences (\<open>openapi_facts.py\<close>).  Each extractor is the
  list of facts it appends, in the order it appends them; \<open>append_facts\<close> appends them one at a time under the
  limit.
\<close>

section \<open>Data\<close>

definition OPENAPI_FACT_SCHEMA_VERSION :: string where "OPENAPI_FACT_SCHEMA_VERSION = ''openapi-facts/v1''"
definition MAX_OPENAPI_FACTS :: nat where "MAX_OPENAPI_FACTS = 50000"

definition limit_fields :: "string list" where
  "limit_fields = [''minimum'', ''maximum'', ''exclusiveMinimum'', ''exclusiveMaximum'', ''multipleOf'', ''minLength'', ''maxLength'',
     ''minItems'', ''maxItems'', ''minProperties'', ''maxProperties'']"

datatype openapi_fact_kind = FactOperation | FactParameter | FactSchema | FactResponse | FactSecurity | FactEnum | FactLimit

fun fact_kind_value :: "openapi_fact_kind \<Rightarrow> string" where
  "fact_kind_value FactOperation = ''operation''"
| "fact_kind_value FactParameter = ''parameter''"
| "fact_kind_value FactSchema = ''schema''"
| "fact_kind_value FactResponse = ''response''"
| "fact_kind_value FactSecurity = ''security''"
| "fact_kind_value FactEnum = ''enum''"
| "fact_kind_value FactLimit = ''limit''"

datatype difference_kind = ADDED | REMOVED | CHANGED

datatype openapi_fact_error = FactsParse openapi_rejection | OpenApiFactExtractionRejected string | FactsValueError string

record openapi_fact =
  fa_kind :: openapi_fact_kind
  fa_identifier :: string
  fa_json_pointer :: string
  fa_attributes :: "(string \<times> string) list"

record openapi_facts_v1 =
  of_schema_version :: string
  of_openapi_version :: string
  of_facts :: "openapi_fact list"

record openapi_fact_difference =
  fd_kind :: difference_kind
  fd_fact_kind :: openapi_fact_kind
  fd_identifier :: string
  fd_before :: "openapi_fact option"
  fd_after :: "openapi_fact option"

section \<open>Extraction\<close>

definition sorted_items :: "(string \<times> json) list \<Rightarrow> (string \<times> json) list" where
  "sorted_items kvs = sort_key fst kvs"

definition fact_of :: "openapi_fact_kind \<Rightarrow> string \<Rightarrow> string \<Rightarrow> (string \<times> string) list \<Rightarrow> openapi_fact" where
  "fact_of kind identifier pointer attributes =
     \<lparr>fa_kind = kind, fa_identifier = identifier, fa_json_pointer = pointer, fa_attributes = attributes\<rparr>"

definition attributes_of :: "(string \<times> json) list \<Rightarrow> string list \<Rightarrow> (string \<times> string) list" where
  "attributes_of value names = concat (map (\<lambda>field. case map_of value field of None \<Rightarrow> [] | Some v \<Rightarrow> [(field, canonical_json v)]) names)"

text \<open>\<open>str.upper\<close> on the keys it is applied to, whose lower case is an ASCII method name.\<close>

definition upper_ascii :: "char \<Rightarrow> char" where
  "upper_ascii c = (let n = code c in if 97 \<le> n \<and> n \<le> 122 then char_of (n - 32) else c)"

definition upper :: "string \<Rightarrow> string" where
  "upper s = map upper_ascii s"

text \<open>The security of an operation that has none of its own is the parser's tuple, which is not a list.\<close>

datatype security_value = SecurityJson json | SecurityTuple "json list"

definition security_requirement_facts :: "string \<Rightarrow> string \<Rightarrow> security_value \<Rightarrow> bool \<Rightarrow> openapi_fact list" where
  "security_requirement_facts scope pointer value inherited = (case value of
     SecurityJson (JArr xs) \<Rightarrow> [fact_of FactSecurity (''requirement:'' @ scope) pointer
       [(''requirements'', canonical_json (JArr xs)), (''inherited'', canonical_json (JBool inherited))]]
   | _ \<Rightarrow> [])"

definition security_scheme_facts :: "(string \<times> json) list \<Rightarrow> openapi_fact list" where
  "security_scheme_facts schemes = map (\<lambda>(name, scheme). fact_of FactSecurity (''scheme:'' @ name)
     (''/components/securitySchemes/'' @ escape_pointer name)
     (attributes_of (member_mapping (Some scheme)) [''type'', ''scheme'', ''bearerFormat'', ''openIdConnectUrl'', ''$ref'']))
     (sorted_items schemes)"

text \<open>The facts of a schema itself, before those of its properties and items.\<close>

definition own_schema_facts :: "string \<Rightarrow> string \<Rightarrow> (string \<times> json) list \<Rightarrow> openapi_fact list" where
  "own_schema_facts identifier pointer schema =
     fact_of FactSchema identifier pointer (attributes_of schema [''type'', ''format'', ''nullable'', ''$ref''])
     # (case map_of schema ''enum'' of None \<Rightarrow> []
        | Some v \<Rightarrow> [fact_of FactEnum (identifier @ ''::enum'') pointer [(''values'', canonical_json v)]])
     @ concat (map (\<lambda>limit. case map_of schema limit of None \<Rightarrow> []
        | Some v \<Rightarrow> [fact_of FactLimit (identifier @ ''::'' @ limit) pointer [(''value'', canonical_json v)]]) limit_fields)"

lemma size_member: "map_of kvs k = Some v \<Longrightarrow> size v < size (JObj kvs)"
  by (induction kvs) (auto split: if_splits)

lemma size_listed: "(k, v) \<in> set kvs \<Longrightarrow> size v < size (JObj kvs)"
  by (induction kvs) auto

lemma size_mapping: "member_mapping (Some v) \<noteq> [] \<Longrightarrow> size (JObj (member_mapping (Some v))) = size v"
  by (auto simp: member_mapping_def split: json.splits)

lemma size_nested:
  assumes "(name, v) \<in> set (sorted_items (member_mapping (map_of schema k)))" "member_mapping (Some v) \<noteq> []"
  shows "size (JObj (member_mapping (Some v))) < size (JObj schema)"
proof -
  obtain w where w: "map_of schema k = Some w"
    using assms(1) by (cases "map_of schema k") (auto simp: sorted_items_def member_mapping_def)
  then have m: "(name, v) \<in> set (member_mapping (Some w))"
    using assms(1) by (simp add: sorted_items_def)
  then have "size v < size w"
    using size_listed [OF m] size_mapping [of w] by (cases "member_mapping (Some w) = []") auto
  then show ?thesis
    using size_member [OF w] size_mapping [OF assms(2)] by simp
qed

function schema_facts :: "string \<Rightarrow> string \<Rightarrow> (string \<times> json) list \<Rightarrow> openapi_fact list" where
  "schema_facts identifier pointer schema =
     own_schema_facts identifier pointer schema
     @ concat (map (\<lambda>(name, v). if member_mapping (Some v) = [] then []
         else schema_facts (identifier @ ''.'' @ name) (pointer @ ''/properties/'' @ escape_pointer name) (member_mapping (Some v)))
         (sorted_items (member_mapping (map_of schema ''properties''))))
     @ (if member_mapping (map_of schema ''items'') = [] then []
        else schema_facts (identifier @ ''[]'') (pointer @ ''/items'') (member_mapping (map_of schema ''items'')))"
  by pat_completeness auto

termination
proof (relation "measure (\<lambda>(i, p, schema). size (JObj schema))", goal_cases)
  case (2 i p schema z name v)
  then show ?case
    using size_nested [of name v schema "''properties''"] by auto
next
  case (3 i p schema)
  then obtain w where w: "map_of schema ''items'' = Some w"
    by (cases "map_of schema ''items''") (auto simp: member_mapping_def)
  then show ?case
    using size_member [OF w] size_mapping [of w] 3 by simp
qed simp

declare schema_facts.simps [simp del]

definition parameter_facts :: "string \<Rightarrow> string \<Rightarrow> json option \<Rightarrow> openapi_fact list" where
  "parameter_facts scope pointer value = (case value of
     Some (JArr xs) \<Rightarrow> concat (map (\<lambda>(index, item).
       let parameter = member_mapping (Some item);
           item_pointer = pointer @ ''/parameters/'' @ nat_str index;
           identifier = (case (map_of parameter ''name'', map_of parameter ''in'') of
             (Some (JStr name), Some (JStr location)) \<Rightarrow> scope @ ''::'' @ location @ '':'' @ name
           | _ \<Rightarrow> scope @ ''::parameter['' @ nat_str index @ '']'');
           schema = member_mapping (map_of parameter ''schema'')
       in fact_of FactParameter identifier item_pointer (attributes_of parameter [''name'', ''in'', ''required'', ''$ref''])
          # (if schema = [] then [] else schema_facts (''parameter:'' @ identifier) (item_pointer @ ''/schema'') schema))
       (List.enumerate 0 xs))
   | _ \<Rightarrow> [])"

definition response_facts :: "string \<Rightarrow> string \<Rightarrow> json option \<Rightarrow> openapi_fact list" where
  "response_facts operation_key pointer value = concat (map (\<lambda>(status, v).
     let response = member_mapping (Some v);
         response_pointer = pointer @ ''/responses/'' @ escape_pointer status;
         identifier = operation_key @ ''::'' @ status;
         content = member_mapping (map_of response ''content'')
     in fact_of FactResponse identifier response_pointer
          (attributes_of response [''$ref'']
           @ (if content = [] then [] else [(''media_types'', canonical_json (JArr (map JStr (sort (map fst content)))))]))
        # concat (map (\<lambda>(media_type, m).
            let schema = member_mapping (map_of (member_mapping (Some m)) ''schema'') in
            if schema = [] then []
            else schema_facts (''response:'' @ identifier @ '':'' @ media_type)
              (response_pointer @ ''/content/'' @ escape_pointer media_type @ ''/schema'') schema)
            (sorted_items content)))
     (sorted_items (member_mapping value)))"

definition component_schema_facts :: "(string \<times> json) list \<Rightarrow> openapi_fact list" where
  "component_schema_facts schemas = concat (map (\<lambda>(name, v).
     if member_mapping (Some v) = [] then []
     else schema_facts (''component:'' @ name) (''/components/schemas/'' @ escape_pointer name) (member_mapping (Some v)))
     (sorted_items schemas))"

definition operation_key_of :: "string \<Rightarrow> string \<Rightarrow> string" where
  "operation_key_of path key = upper key @ '' '' @ path"

definition one_operation_facts :: "json list \<Rightarrow> string \<Rightarrow> string \<times> json \<Rightarrow> openapi_fact list" where
  "one_operation_facts inherited_security path kv = (case kv of (key, v) \<Rightarrow>
     let operation = member_mapping (Some v);
         operation_key = operation_key_of path key;
         operation_pointer = ''/paths/'' @ escape_pointer path @ ''/'' @ escape_pointer key
     in fact_of FactOperation operation_key operation_pointer (attributes_of operation [''operationId'', ''deprecated''])
        # parameter_facts operation_key operation_pointer (map_of operation ''parameters'')
        @ response_facts operation_key operation_pointer (map_of operation ''responses'')
        @ security_requirement_facts operation_key (operation_pointer @ ''/security'')
            (case map_of operation ''security'' of Some s \<Rightarrow> SecurityJson s | None \<Rightarrow> SecurityTuple inherited_security)
            (map_of operation ''security'' = None))"

definition path_facts :: "json list \<Rightarrow> string \<times> json \<Rightarrow> openapi_fact list" where
  "path_facts inherited_security pv = (case pv of (path, v) \<Rightarrow>
     let path_item = member_mapping (Some v) in
     parameter_facts (''path:'' @ path) (''/paths/'' @ escape_pointer path) (map_of path_item ''parameters'')
     @ concat (map (one_operation_facts inherited_security path)
         (sorted_items (filter (\<lambda>(key, v). lower key \<in> set openapi_methods) path_item))))"

definition operation_facts :: "(string \<times> json) list \<Rightarrow> json list \<Rightarrow> openapi_fact list" where
  "operation_facts root inherited_security =
     concat (map (path_facts inherited_security) (sorted_items (member_mapping (map_of root ''paths''))))"

fun append_facts :: "openapi_fact list \<Rightarrow> openapi_fact list \<Rightarrow> openapi_fact_error + openapi_fact list" where
  "append_facts facts [] = Inr facts"
| "append_facts facts (f # fs) =
     bindE (require (length facts < MAX_OPENAPI_FACTS) (OpenApiFactExtractionRejected ''OPENAPI_FACT_LIMIT'')) (\<lambda>_. append_facts (facts @ [f]) fs)"

definition facts_of_root :: "(string \<times> json) list \<Rightarrow> json list \<Rightarrow> openapi_fact list" where
  "facts_of_root root security =
     security_requirement_facts ''global'' ''/security'' (SecurityJson (case map_of root ''security'' of None \<Rightarrow> JNull | Some v \<Rightarrow> v)) False
     @ security_scheme_facts (member_mapping (map_of (member_mapping (map_of root ''components'')) ''securitySchemes''))
     @ component_schema_facts (member_mapping (map_of (member_mapping (map_of root ''components'')) ''schemas''))
     @ operation_facts root security"

definition fact_order :: "openapi_fact \<Rightarrow> string \<times> string" where
  "fact_order f = (fact_kind_value (fa_kind f), fa_identifier f)"

definition extract_openapi_facts :: "runtime \<Rightarrow> yaml_library \<Rightarrow> string \<Rightarrow> string \<Rightarrow> openapi_fact_error + openapi_facts_v1" where
  "extract_openapi_facts rt yl document_type raw =
     bindE (except (parse_openapi rt yl document_type raw) FactsParse) (\<lambda>parsed.
     bindE (except (parse_openapi_root rt yl document_type raw) FactsParse) (\<lambda>(_, root).
     bindE (append_facts [] (facts_of_root root (po_security parsed))) (\<lambda>facts.
       Inr \<lparr>of_schema_version = OPENAPI_FACT_SCHEMA_VERSION, of_openapi_version = po_version parsed,
            of_facts = sort_key fact_order facts\<rparr>)))"

section \<open>Differences\<close>

definition fact_key :: "openapi_fact \<Rightarrow> openapi_fact_kind \<times> string" where
  "fact_key f = (fa_kind f, fa_identifier f)"

text \<open>A dictionary keyed by kind and identifier, in which the last fact of a key wins.\<close>

definition fact_dict :: "openapi_fact list \<Rightarrow> openapi_fact_kind \<times> string \<rightharpoonup> openapi_fact" where
  "fact_dict facts = map_of (map (\<lambda>f. (fact_key f, f)) (rev facts))"

definition index_facts :: "openapi_fact list \<Rightarrow> openapi_fact_error + (openapi_fact_kind \<times> string \<rightharpoonup> openapi_fact)" where
  "index_facts facts =
     bindE (require (length (remdups (map fact_key facts)) = length facts)
       (FactsValueError ''OpenAPI facts must have unique kind and identifier pairs'')) (\<lambda>_. Inr (fact_dict facts))"

definition difference_at ::
  "(openapi_fact_kind \<times> string \<rightharpoonup> openapi_fact) \<Rightarrow> (openapi_fact_kind \<times> string \<rightharpoonup> openapi_fact) \<Rightarrow> openapi_fact_kind \<times> string \<Rightarrow> openapi_fact_difference list" where
  "difference_at before after key = (case (before key, after key) of
     (None, None) \<Rightarrow> []
   | (None, Some right) \<Rightarrow> [\<lparr>fd_kind = ADDED, fd_fact_kind = fa_kind right, fd_identifier = fa_identifier right, fd_before = None, fd_after = Some right\<rparr>]
   | (Some left, None) \<Rightarrow> [\<lparr>fd_kind = REMOVED, fd_fact_kind = fa_kind left, fd_identifier = fa_identifier left, fd_before = Some left, fd_after = None\<rparr>]
   | (Some left, Some right) \<Rightarrow> if left = right then []
       else [\<lparr>fd_kind = CHANGED, fd_fact_kind = fa_kind left, fd_identifier = fa_identifier left, fd_before = Some left, fd_after = Some right\<rparr>])"

definition sorted_keys :: "openapi_fact list \<Rightarrow> openapi_fact list \<Rightarrow> (openapi_fact_kind \<times> string) list" where
  "sorted_keys before after = sort_key (\<lambda>(kind, identifier). (fact_kind_value kind, identifier)) (remdups (map fact_key before @ map fact_key after))"

definition diff_openapi_facts :: "openapi_facts_v1 \<Rightarrow> openapi_facts_v1 \<Rightarrow> openapi_fact_error + openapi_fact_difference list" where
  "diff_openapi_facts before after =
     bindE (require (of_schema_version before = OPENAPI_FACT_SCHEMA_VERSION \<and> of_schema_version after = OPENAPI_FACT_SCHEMA_VERSION)
       (FactsValueError ''OpenAPI facts must use the supported schema version'')) (\<lambda>_.
     bindE (index_facts (of_facts before)) (\<lambda>before_index.
     bindE (index_facts (of_facts after)) (\<lambda>after_index.
       Inr (concat (map (difference_at before_index after_index) (sorted_keys (of_facts before) (of_facts after)))))))"

section \<open>Differences as patches\<close>

definition difference_key :: "openapi_fact_difference \<Rightarrow> openapi_fact_kind \<times> string" where
  "difference_key d = (fd_fact_kind d, fd_identifier d)"

text \<open>Applying differences replaces the facts of their keys; the inverse of a difference swaps its sides.\<close>

definition apply_differences :: "openapi_fact_difference list \<Rightarrow> openapi_fact list \<Rightarrow> openapi_fact list" where
  "apply_differences ds facts = filter (\<lambda>f. fact_key f \<notin> set (map difference_key ds)) facts
     @ concat (map (\<lambda>d. case fd_after d of None \<Rightarrow> [] | Some f \<Rightarrow> [f]) ds)"

definition inverse_difference :: "openapi_fact_difference \<Rightarrow> openapi_fact_difference" where
  "inverse_difference d = d\<lparr>fd_kind := (case fd_kind d of ADDED \<Rightarrow> REMOVED | REMOVED \<Rightarrow> ADDED | CHANGED \<Rightarrow> CHANGED),
     fd_before := fd_after d, fd_after := fd_before d\<rparr>"

lemma append_facts_Inr: "append_facts facts fs = Inr r \<longleftrightarrow> r = facts @ fs \<and> (fs = [] \<or> length r \<le> 50000)"
proof (induction facts fs rule: append_facts.induct)
  case (2 facts f fs)
  then show ?case
    by (cases fs) (auto simp: bindE_eq_Inr require_eq_Inr MAX_OPENAPI_FACTS_def)
qed auto

lemma fact_dict_iff: "distinct (map fact_key facts) \<Longrightarrow> fact_dict facts k = Some f \<longleftrightarrow> f \<in> set facts \<and> fact_key f = k"
  unfolding fact_dict_def by (subst map_of_eq_Some_iff) (auto simp: comp_def rev_map [symmetric])

lemma index_facts_Inr: "index_facts facts = Inr m \<longleftrightarrow> distinct (map fact_key facts) \<and> m = fact_dict facts"
  by (auto simp: index_facts_def bindE_eq_Inr require_eq_Inr distinct_map_length_set [symmetric])

lemma difference_at_single:
  assumes b: "distinct (map fact_key before)" and a: "distinct (map fact_key after)"
  shows "difference_at (fact_dict before) (fact_dict after) k =
    (if fact_dict before k = fact_dict after k then []
     else [\<lparr>fd_kind = (if fact_dict before k = None then ADDED else if fact_dict after k = None then REMOVED else CHANGED),
       fd_fact_kind = fst k, fd_identifier = snd k, fd_before = fact_dict before k, fd_after = fact_dict after k\<rparr>])"
proof -
  have fb: "fa_kind f = fst k \<and> fa_identifier f = snd k" if "fact_dict before k = Some f" for f
    using that fact_dict_iff [OF b] by (auto simp: fact_key_def)
  have fa: "fa_kind f = fst k \<and> fa_identifier f = snd k" if "fact_dict after k = Some f" for f
    using that fact_dict_iff [OF a] by (auto simp: fact_key_def)
  show ?thesis
  proof (cases "fact_dict before k")
    case None
    then show ?thesis
      by (cases "fact_dict after k") (use None in \<open>simp_all add: difference_at_def fa\<close>)
  next
    case (Some l)
    note l = fb [OF Some]
    show ?thesis
      by (cases "fact_dict after k") (use Some l in \<open>simp_all add: difference_at_def\<close>)
  qed
qed

lemma diff_Inr:
  assumes "diff_openapi_facts before after = Inr ds"
  shows "distinct (map fact_key (of_facts before))" "distinct (map fact_key (of_facts after))"
    "ds = concat (map (difference_at (fact_dict (of_facts before)) (fact_dict (of_facts after))) (sorted_keys (of_facts before) (of_facts after)))"
  using assms by (auto simp: diff_openapi_facts_def bindE_eq_Inr index_facts_Inr)

lemma set_sorted_keys: "set (sorted_keys b a) = fact_key ` set b \<union> fact_key ` set a"
  by (auto simp: sorted_keys_def)

lemma fact_dict_None: "fact_dict facts k = None \<longleftrightarrow> k \<notin> fact_key ` set facts"
  unfolding fact_dict_def by (auto simp: map_of_eq_None_iff image_image)

lemma diff_keys:
  assumes "diff_openapi_facts before after = Inr ds"
  shows "map difference_key ds = filter (\<lambda>k. fact_dict (of_facts before) k \<noteq> fact_dict (of_facts after) k) (sorted_keys (of_facts before) (of_facts after))"
proof -
  note d = diff_Inr [OF assms]
  have "map difference_key (concat (map (difference_at (fact_dict (of_facts before)) (fact_dict (of_facts after))) ks)) =
      filter (\<lambda>k. fact_dict (of_facts before) k \<noteq> fact_dict (of_facts after) k) ks" for ks
    by (induction ks) (simp_all add: difference_at_single [OF d(1,2)] difference_key_def)
  then show ?thesis
    using d(3) by simp
qed

lemma diff_member:
  assumes "diff_openapi_facts before after = Inr ds"
  shows "k \<in> difference_key ` set ds \<longleftrightarrow> fact_dict (of_facts before) k \<noteq> fact_dict (of_facts after) k"
    "d \<in> set ds \<Longrightarrow> fd_before d = fact_dict (of_facts before) (difference_key d) \<and> fd_after d = fact_dict (of_facts after) (difference_key d)"
proof -
  show "k \<in> difference_key ` set ds \<longleftrightarrow> fact_dict (of_facts before) k \<noteq> fact_dict (of_facts after) k"
    using diff_keys [OF assms] fact_dict_None [of _ k]
    unfolding set_map [symmetric] by (auto simp: set_sorted_keys fact_dict_None) (metis fact_dict_None)+
  show "fd_before d = fact_dict (of_facts before) (difference_key d) \<and> fd_after d = fact_dict (of_facts after) (difference_key d)" if "d \<in> set ds"
    using that diff_Inr(3) [OF assms] by (auto simp: difference_at_single [OF diff_Inr(1,2) [OF assms]] difference_key_def split: if_splits)
qed

lemma in_apply: "f \<in> set (apply_differences ds facts) \<longleftrightarrow>
    f \<in> set facts \<and> fact_key f \<notin> difference_key ` set ds \<or> (\<exists>d\<in>set ds. fd_after d = Some f)"
  by (force simp: apply_differences_def split: option.splits)

lemma diff_side:
  assumes "diff_openapi_facts before after = Inr ds"
  shows "(\<exists>x\<in>set ds. fd_after x = Some f) \<longleftrightarrow> f \<in> set (of_facts after) \<and> fact_key f \<in> difference_key ` set ds"
    "(\<exists>x\<in>set ds. fd_before x = Some f) \<longleftrightarrow> f \<in> set (of_facts before) \<and> fact_key f \<in> difference_key ` set ds"
proof -
  note m = diff_member(2) [OF assms] and fb = fact_dict_iff [OF diff_Inr(1) [OF assms]] and fa = fact_dict_iff [OF diff_Inr(2) [OF assms]]
  show "(\<exists>x\<in>set ds. fd_after x = Some f) \<longleftrightarrow> f \<in> set (of_facts after) \<and> fact_key f \<in> difference_key ` set ds"
    using m fa by (fastforce simp: image_iff)
  show "(\<exists>x\<in>set ds. fd_before x = Some f) \<longleftrightarrow> f \<in> set (of_facts before) \<and> fact_key f \<in> difference_key ` set ds"
    using m fb by (fastforce simp: image_iff)
qed

lemma same_facts_iff:
  assumes "diff_openapi_facts before after = Inr ds" "fact_key f \<notin> difference_key ` set ds"
  shows "f \<in> set (of_facts before) \<longleftrightarrow> f \<in> set (of_facts after)"
  using assms(2) fact_dict_iff [OF diff_Inr(1) [OF assms(1)], of "fact_key f" f] fact_dict_iff [OF diff_Inr(2) [OF assms(1)], of "fact_key f" f]
  unfolding diff_member(1) [OF assms(1)] by simp

lemma diff_forward:
  assumes "diff_openapi_facts before after = Inr ds"
  shows "set (apply_differences ds (of_facts before)) = set (of_facts after)"
  using same_facts_iff [OF assms] unfolding set_eq_iff in_apply diff_side(1) [OF assms] by blast

lemma inverse_simps [simp]:
  "difference_key (inverse_difference x) = difference_key x" "fd_after (inverse_difference x) = fd_before x"
  by (simp_all add: inverse_difference_def difference_key_def)

lemma diff_backward:
  assumes "diff_openapi_facts before after = Inr ds"
  shows "set (apply_differences (map inverse_difference ds) (of_facts after)) = set (of_facts before)"
proof -
  have i: "(\<exists>x\<in>set (map inverse_difference ds). fd_after x = Some f) \<longleftrightarrow> (\<exists>x\<in>set ds. fd_before x = Some f)" for f
    by simp
  have k: "difference_key ` set (map inverse_difference ds) = difference_key ` set ds"
    by (simp add: image_image)
  show ?thesis
  proof (rule set_eqI)
    fix f show "f \<in> set (apply_differences (map inverse_difference ds) (of_facts after)) \<longleftrightarrow> f \<in> set (of_facts before)"
      unfolding in_apply i k diff_side(2) [OF assms] using same_facts_iff [OF assms, of f] by blast
  qed
qed

lemma diff_changes:
  assumes "diff_openapi_facts before after = Inr ds" "x \<in> set ds"
  shows "fd_before x \<noteq> fd_after x"
proof -
  have "difference_key x \<in> difference_key ` set ds"
    using assms(2) by (rule imageI)
  then show ?thesis
    unfolding diff_member(1) [OF assms(1)] by (simp only: diff_member(2) [OF assms] not_False_eq_True)
qed

lemma diff_order:
  assumes "diff_openapi_facts before after = Inr ds"
  shows "distinct (map difference_key ds)" "sorted (map (\<lambda>d. (fact_kind_value (fd_fact_kind d), fd_identifier d)) ds)"
proof -
  note k = diff_keys [OF assms]
  show "distinct (map difference_key ds)"
    unfolding k by (simp add: sorted_keys_def)
  have "sorted (map (\<lambda>(kind, identifier). (fact_kind_value kind, identifier)) (map difference_key ds))"
    unfolding k sorted_keys_def by (rule sorted_filter) simp
  then show "sorted (map (\<lambda>d. (fact_kind_value (fd_fact_kind d), fd_identifier d)) ds)"
    by (simp add: comp_def difference_key_def)
qed

lemma option_eqI: "(\<And>f. x = Some f \<longleftrightarrow> y = Some f) \<Longrightarrow> x = y"
  by (cases x; cases y) auto

lemma diff_same:
  assumes "diff_openapi_facts before after = Inr ds" "set (of_facts before) = set (of_facts after)"
  shows "ds = []"
proof -
  have "fact_dict (of_facts before) q = Some f \<longleftrightarrow> fact_dict (of_facts after) q = Some f" for q f
    unfolding fact_dict_iff [OF diff_Inr(1) [OF assms(1)]] fact_dict_iff [OF diff_Inr(2) [OF assms(1)]] assms(2) by (rule refl)
  then have "fact_dict (of_facts before) q = fact_dict (of_facts after) q" for q
    by (rule option_eqI)
  then have no: "k \<notin> difference_key ` set ds" for k
    unfolding diff_member(1) [OF assms(1)] by (simp only: not_not)
  show ?thesis
  proof (cases ds)
    case (Cons x xs)
    then show ?thesis
      using no [of "difference_key x"] by simp
  qed simp
qed

end
