(* ===== verification/Openapi_Correct.thy ===== *)
theory Openapi_Correct
  imports Openapi_Facts
begin

text \<open>
  What the extracted facts are: one operation fact for each operation the parser found, no requirement fact
  for an operation that inherits its security, sorted and within the limit.
\<close>

section \<open>Operations\<close>

definition operation_fact :: "openapi_fact \<Rightarrow> bool" where
  "operation_fact f = (fa_kind f = FactOperation)"

text \<open>A fact that is of another kind and, if it records an \<open>inherited\<close> attribute, records \<open>false\<close>.\<close>

definition plain_fact :: "openapi_fact \<Rightarrow> bool" where
  "plain_fact f = list_all (\<lambda>(name, v). name = ''inherited'' \<longrightarrow> v = ''false'') (fa_attributes f)"

definition side_fact :: "openapi_fact \<Rightarrow> bool" where
  "side_fact f = (\<not> operation_fact f \<and> plain_fact f)"

lemma fact_of_simps [simp]:
  "fa_kind (fact_of k i p a) = k" "fa_identifier (fact_of k i p a) = i" "fa_attributes (fact_of k i p a) = a"
  "operation_fact (fact_of k i p a) \<longleftrightarrow> k = FactOperation"
  "plain_fact (fact_of k i p a) \<longleftrightarrow> list_all (\<lambda>(name, v). name = ''inherited'' \<longrightarrow> v = ''false'') a"
  by (simp_all add: fact_of_def operation_fact_def plain_fact_def)

lemma attributes_plain [simp]:
  "''inherited'' \<notin> set names \<Longrightarrow> list_all (\<lambda>(name, v). name = ''inherited'' \<longrightarrow> v = ''false'') (attributes_of kvs names)"
  by (auto simp: attributes_of_def list_all_iff split: option.splits)

lemma side_fact_of [simp]:
  "side_fact (fact_of k i p a) \<longleftrightarrow> k \<noteq> FactOperation \<and> list_all (\<lambda>(name, v). name = ''inherited'' \<longrightarrow> v = ''false'') a"
  by (simp add: side_fact_def)

lemma list_all_concat: "list_all P (concat xss) \<longleftrightarrow> list_all (list_all P) xss"
  by (induction xss) auto

lemma own_schema_side: "list_all side_fact (own_schema_facts i p s)"
  by (auto simp: own_schema_facts_def list_all_concat list_all_iff [where P = "\<lambda>xs. list_all side_fact xs"] split: option.splits)

lemma schema_side: "list_all side_fact (schema_facts i p s)"
proof (induction i p s rule: schema_facts.induct)
  case (1 i p s)
  show ?case
    using 1 by (subst schema_facts.simps) (auto simp: own_schema_side list_all_concat list_all_iff [where P = "\<lambda>xs. list_all side_fact xs"])
qed

lemma side_lists:
  "list_all side_fact (security_scheme_facts kvs)" "list_all side_fact (component_schema_facts kvs)"
  "list_all side_fact (parameter_facts s p v)" "list_all side_fact (response_facts k p v)"
  "list_all side_fact (security_requirement_facts s p w False)"
  by (auto simp: security_scheme_facts_def component_schema_facts_def parameter_facts_def response_facts_def
      security_requirement_facts_def list_all_concat schema_side Let_def canonical_json_def list_all_iff [where P = "\<lambda>xs. list_all side_fact xs"]
      list_all_iff [where xs = "map f xs" for f xs] split: option.splits json.splits security_value.splits)

lemma no_operation: "list_all side_fact fs \<Longrightarrow> filter operation_fact fs = []"
  by (induction fs) (auto simp: side_fact_def)

lemma side_plain: "list_all side_fact fs \<Longrightarrow> list_all plain_fact fs"
  by (auto simp: list_all_iff side_fact_def)

lemma inherited_side: "list_all side_fact (security_requirement_facts s p
    (case map_of operation ''security'' of Some x \<Rightarrow> SecurityJson x | None \<Rightarrow> SecurityTuple xs) (map_of operation ''security'' = None))"
proof (cases "map_of operation ''security''")
  case (Some x)
  then show ?thesis using side_lists(5) [of s p "SecurityJson x"] by simp
qed (simp add: security_requirement_facts_def)

lemma one_operation: "map fa_identifier (filter operation_fact (one_operation_facts sec path (key, v))) = [operation_key_of path key]"
    "list_all plain_fact (one_operation_facts sec path kv)"
  using side_lists inherited_side
  by (auto simp: one_operation_facts_def Let_def no_operation split_beta intro!: side_plain)

lemma path_operation_facts:
  "map fa_identifier (filter operation_fact (path_facts sec (path, v))) =
     map (\<lambda>(key, _). operation_key_of path key) (sorted_items (filter (\<lambda>(key, v). lower key \<in> set openapi_methods) (member_mapping (Some v))))"
  "list_all plain_fact (path_facts sec pv)"
proof -
  have "map fa_identifier (filter operation_fact (concat (map (one_operation_facts sec path) kvs))) = map (\<lambda>(key, _). operation_key_of path key) kvs" for kvs
    by (induction kvs) (auto simp: one_operation)
  then show "map fa_identifier (filter operation_fact (path_facts sec (path, v))) =
     map (\<lambda>(key, _). operation_key_of path key) (sorted_items (filter (\<lambda>(key, v). lower key \<in> set openapi_methods) (member_mapping (Some v))))"
    by (simp add: path_facts_def Let_def no_operation side_lists)
  show "list_all plain_fact (path_facts sec pv)"
    by (auto simp: path_facts_def Let_def list_all_concat side_plain side_lists split_beta one_operation
        list_all_iff [where P = "\<lambda>xs. list_all plain_fact xs"])
qed

lemma mset_concat_sort: "mset (concat (map f (sort_key k xs))) = mset (concat (map f xs))"
proof -
  have "mset (concat (map f ys)) = (\<Sum>x\<in>#mset ys. mset (f x))" for ys
    by (induction ys) simp_all
  then show ?thesis by simp
qed

lemma map_filter_concat: "map g (filter P (concat xss)) = concat (map (\<lambda>xs. map g (filter P xs)) xss)"
  by (induction xss) auto

lemma operation_identifiers:
  "mset (map fa_identifier (filter operation_fact (operation_facts root sec))) =
   mset (map (\<lambda>(path, key, _). operation_key_of path key) (declared_operations (member_mapping (map_of root ''paths''))))"
proof -
  let ?P = "\<lambda>(key, v). lower key \<in> set openapi_methods"
  let ?f = "\<lambda>(path, v). map (\<lambda>(key, _). operation_key_of path key) (sorted_items (filter ?P (member_mapping (Some v))))"
  let ?g = "\<lambda>(path, v). map (\<lambda>(key, _). operation_key_of path key) (filter ?P (member_mapping (Some v)))"
  have m: "mset (concat (map ?f ps)) = mset (concat (map ?g ps))" for ps
    by (induction ps) (auto simp: sorted_items_def mset_map [symmetric] simp del: mset_map, simp add: mset_map)
  have d: "map (\<lambda>(path, key, _). operation_key_of path key) (declared_operations ps) = concat (map ?g ps)" for ps
    by (induction ps) (auto simp: declared_operations_def)
  have e: "map fa_identifier (filter operation_fact (operation_facts root sec)) = concat (map ?f (sorted_items (member_mapping (map_of root ''paths''))))"
    unfolding operation_facts_def map_filter_concat map_map comp_def
    by (rule arg_cong [where f = concat], rule map_cong) (auto simp: path_operation_facts)
  show ?thesis
    by (simp only: e d m sorted_items_def [of "member_mapping (map_of root ''paths'')"] mset_concat_sort)
qed

text \<open>Upper case undoes lower case on the method names.\<close>

lemma upper_ascii_lower: "code (lower_char c) < 128 \<Longrightarrow> upper_ascii (lower_char c) = upper_ascii c"
  by (auto simp: upper_ascii_def lower_char_def Let_def code_def)

lemma upper_lower: "lower key \<in> set openapi_methods \<Longrightarrow> upper (lower key) = upper key"
proof -
  assume m: "lower key \<in> set openapi_methods"
  have "list_all (list_all (\<lambda>c. code c < 128)) openapi_methods"
    by code_simp
  then have "list_all (\<lambda>c. code c < 128) (lower key)"
    using m by (simp add: list_all_iff)
  then show ?thesis
    by (simp add: upper_def lower_def list_all_iff upper_ascii_lower)
qed

lemma declared_method: "(path, key, operation) \<in> set (declared_operations paths) \<Longrightarrow> lower key \<in> set openapi_methods"
  by (auto simp: declared_operations_def)

section \<open>The extracted facts\<close>

lemma extract_Inr:
  assumes "extract_openapi_facts rt yl ty raw = Inr f"
  obtains p root where "parse_openapi rt yl ty raw = Inr p" "parse_openapi_root rt yl ty raw = Inr (po_version p, root)"
    "of_schema_version f = OPENAPI_FACT_SCHEMA_VERSION" "of_openapi_version f = po_version p"
    "of_facts f = sort_key fact_order (facts_of_root root (po_security p))" "length (of_facts f) \<le> 50000"
    "po_operations p = map (operation_of (map_of root ''security'')) (declared_operations (member_mapping (map_of root ''paths'')))"
proof -
  from assms obtain p version root fs where
    e: "parse_openapi rt yl ty raw = Inr p" "parse_openapi_root rt yl ty raw = Inr (version, root)"
      "append_facts [] (facts_of_root root (po_security p)) = Inr fs"
      "f = \<lparr>of_schema_version = OPENAPI_FACT_SCHEMA_VERSION, of_openapi_version = po_version p, of_facts = sort_key fact_order fs\<rparr>"
    by (auto simp: extract_openapi_facts_def bindE_eq_Inr except_eq_Inr)
  obtain root' where r: "parse_openapi_root rt yl ty raw = Inr (po_version p, root')"
    "po_operations p = map (operation_of (map_of root' ''security'')) (declared_operations (member_mapping (map_of root' ''paths'')))"
    by (rule parse_openapi_Inr [OF e(1)])
  have "root' = root"
    using r(1) e(2) by simp
  moreover have "fs = facts_of_root root (po_security p)" "length fs \<le> 50000"
    using e(3) by (auto simp: append_facts_Inr)
  ultimately show thesis
    using e r by (intro that [of p root]) simp_all
qed

lemma root_facts:
  "mset (map fa_identifier (filter operation_fact (facts_of_root root sec))) =
     mset (map (\<lambda>(path, key, _). operation_key_of path key) (declared_operations (member_mapping (map_of root ''paths''))))"
  "list_all plain_fact (facts_of_root root sec)"
proof -
  show "mset (map fa_identifier (filter operation_fact (facts_of_root root sec))) =
     mset (map (\<lambda>(path, key, _). operation_key_of path key) (declared_operations (member_mapping (map_of root ''paths''))))"
    by (simp only: facts_of_root_def filter_append no_operation side_lists append_Nil operation_identifiers)
  have "list_all plain_fact (operation_facts root sec)"
    by (auto simp: operation_facts_def list_all_concat path_operation_facts list_all_iff [where P = "\<lambda>xs. list_all plain_fact xs"])
  then show "list_all plain_fact (facts_of_root root sec)"
    by (simp add: facts_of_root_def side_plain side_lists)
qed

lemma operation_identifier: "d \<in> set (declared_operations paths) \<Longrightarrow>
    (case d of (path, key, _) \<Rightarrow> operation_key_of path key) = operation_key_of (op_path (operation_of sec d)) (op_method (operation_of sec d))"
  by (cases d) (auto simp: operation_of_def operation_key_of_def upper_lower dest: declared_method)

lemma extracted_operations:
  assumes "extract_openapi_facts rt yl ty raw = Inr f" "parse_openapi rt yl ty raw = Inr p"
  shows "mset (map fa_identifier (filter operation_fact (of_facts f))) = mset (map (\<lambda>x. operation_key_of (op_path x) (op_method x)) (po_operations p))"
proof -
  obtain p' root where e: "parse_openapi rt yl ty raw = Inr p'" "of_facts f = sort_key fact_order (facts_of_root root (po_security p'))"
    "po_operations p' = map (operation_of (map_of root ''security'')) (declared_operations (member_mapping (map_of root ''paths'')))"
    by (rule extract_Inr [OF assms(1)])
  let ?ds = "declared_operations (member_mapping (map_of root ''paths''))"
  have "map (\<lambda>(path, key, _). operation_key_of path key) ?ds = map (\<lambda>x. operation_key_of (op_path x) (op_method x)) (po_operations p')"
    unfolding e(3) map_map comp_def by (rule map_cong [OF refl operation_identifier])
  moreover have "mset (map fa_identifier (filter operation_fact (of_facts f))) = mset (map fa_identifier (filter operation_fact (facts_of_root root (po_security p'))))"
    by (simp add: e(2) mset_filter)
  moreover have "p' = p"
    using e(1) assms(2) by simp
  ultimately show ?thesis
    unfolding root_facts(1) by metis
qed

lemma extracted_shape:
  assumes "extract_openapi_facts rt yl ty raw = Inr f"
  shows "list_all plain_fact (of_facts f)" "sorted (map fact_order (of_facts f))" "length (of_facts f) \<le> 50000"
    "of_schema_version f = OPENAPI_FACT_SCHEMA_VERSION"
proof -
  obtain p :: parsed_openapi and root where e: "of_facts f = sort_key fact_order (facts_of_root root (po_security p))" "length (of_facts f) \<le> 50000"
    "of_schema_version f = OPENAPI_FACT_SCHEMA_VERSION"
    by (rule extract_Inr [OF assms])
  show "list_all plain_fact (of_facts f)"
    using root_facts(2) by (simp add: e(1) list_all_iff)
  show "sorted (map fact_order (of_facts f))" "length (of_facts f) \<le> 50000" "of_schema_version f = OPENAPI_FACT_SCHEMA_VERSION"
    using e by simp_all
qed

text \<open>Two operations of one path and method give one key to two facts.\<close>

lemma repeated_operation_keys:
  assumes "extract_openapi_facts rt yl ty raw = Inr f" "parse_openapi rt yl ty raw = Inr p"
    "\<not> distinct (map (\<lambda>x. (op_path x, op_method x)) (po_operations p))"
  shows "\<not> distinct (map fact_key (of_facts f))"
proof
  assume d: "distinct (map fact_key (of_facts f))"
  have k: "fact_key x = (FactOperation, fa_identifier x)" if "x \<in> set (filter operation_fact (of_facts f))" for x
    using that by (simp add: fact_key_def operation_fact_def)
  have "distinct (map fact_key (filter operation_fact (of_facts f)))"
    using d by (simp add: distinct_map_filter)
  moreover have "map fact_key (filter operation_fact (of_facts f)) = map (Pair FactOperation) (map fa_identifier (filter operation_fact (of_facts f)))"
    unfolding map_map comp_def by (rule map_cong [OF refl k])
  ultimately have "distinct (map (Pair FactOperation) (map fa_identifier (filter operation_fact (of_facts f))))"
    by metis
  then have "distinct (map fa_identifier (filter operation_fact (of_facts f)))"
    by (rule distinct_map [THEN iffD1, THEN conjunct1])
  then have "distinct (map (\<lambda>x. operation_key_of (op_path x) (op_method x)) (po_operations p))"
    using mset_eq_imp_distinct_iff [OF extracted_operations [OF assms(1,2)]] by blast
  then have "distinct (map ((\<lambda>(path, m). operation_key_of path m)) (map (\<lambda>x. (op_path x, op_method x)) (po_operations p)))"
    by (simp add: comp_def)
  then show False
    using assms(3) unfolding distinct_map by blast
qed

lemma index_repeated: "\<not> distinct (map fact_key fs) \<Longrightarrow>
    index_facts fs = Inl (FactsValueError ''OpenAPI facts must have unique kind and identifier pairs'')"
  by (simp add: index_facts_def distinct_map_length_set [symmetric])

end
