(* ===== verification/Openapi_Consistency.thy ===== *)
theory Openapi_Consistency
  imports Openapi_Facts Findings Citations
begin

text \<open>
  The comparison of cited requirement expectations with the facts of an OpenAPI document
  (\<open>openapi_consistency.py\<close>).  The ellipsis U+2026 that ends a shortened passage is outside the texts
  modelled here: it is the parameter \<open>ellipsis\<close>.
\<close>

section \<open>Data\<close>

definition OPENAPI_CONSISTENCY_ANALYZER_VERSION :: string where
  "OPENAPI_CONSISTENCY_ANALYZER_VERSION = ''openapi-consistency-rules/v1''"
definition OPENAPI_CONSISTENCY_FINDING_NAMESPACE :: uuid where
  "OPENAPI_CONSISTENCY_FINDING_NAMESPACE = 0x4b4a0ff02b7c4a109d1bc1d8c8e7ad93"
definition MAX_FACT_IDENTIFIER_LENGTH :: nat where "MAX_FACT_IDENTIFIER_LENGTH = 1000"

datatype consistency_kind = FieldExpectation | ResponseExpectation | EnumExpectation | SecurityExpectation | OperationExpectation | LimitExpectation

fun consistency_kind_value :: "consistency_kind \<Rightarrow> string" where
  "consistency_kind_value FieldExpectation = ''field''"
| "consistency_kind_value ResponseExpectation = ''response''"
| "consistency_kind_value EnumExpectation = ''enum''"
| "consistency_kind_value SecurityExpectation = ''security''"
| "consistency_kind_value OperationExpectation = ''operation''"
| "consistency_kind_value LimitExpectation = ''limit''"

fun expected_fact_kind :: "consistency_kind \<Rightarrow> openapi_fact_kind" where
  "expected_fact_kind FieldExpectation = FactSchema"
| "expected_fact_kind ResponseExpectation = FactResponse"
| "expected_fact_kind EnumExpectation = FactEnum"
| "expected_fact_kind SecurityExpectation = FactSecurity"
| "expected_fact_kind OperationExpectation = FactOperation"
| "expected_fact_kind LimitExpectation = FactLimit"

record consistency_expectation =
  ce_citation :: citation
  ce_kind :: consistency_kind
  ce_fact_identifier :: string
  ce_expected :: "(string \<times> string) list"

record consistency_mismatch =
  cm_kind :: consistency_kind
  cm_fact_identifier :: string
  cm_expected :: "(string \<times> string) list"
  cm_actual :: "(string \<times> string) list option"
  cm_finding :: requirement_finding

text \<open>The recall is kept as the two integers whose quotient the source stores.\<close>

record seeded_baseline =
  sb_total_seeded_defects :: nat
  sb_detected_defects :: nat
  sb_recall :: "nat \<times> nat"
  sb_false_positives :: nat

datatype consistency_error = OpenApiConsistencyRejected string | ConsistencyFinding finding_error | ConsistencyIndexError

type_synonym consistency_key = "string \<times> string \<times> string \<times> (string \<times> string) list"

section \<open>Keys\<close>

definition expectation_sort_key :: "consistency_expectation \<Rightarrow> string \<times> string \<times> string" where
  "expectation_sort_key e = (consistency_kind_value (ce_kind e), ce_fact_identifier e, uuid_str (ct_id (ce_citation e)))"

definition expectation_key :: "consistency_expectation \<Rightarrow> consistency_key" where
  "expectation_key e = (uuid_str (ct_id (ce_citation e)), consistency_kind_value (ce_kind e), ce_fact_identifier e, ce_expected e)"

definition mismatch_key :: "consistency_mismatch \<Rightarrow> consistency_error + consistency_key" where
  "mismatch_key m = (case rf_evidence (cm_finding m) of
     [] \<Rightarrow> Inl ConsistencyIndexError
   | e # _ \<Rightarrow> Inr (uuid_str (fe_citation_id e), consistency_kind_value (cm_kind m), cm_fact_identifier m, cm_expected m))"

section \<open>Expectations\<close>

definition require_canonical_json :: "runtime \<Rightarrow> string \<Rightarrow> consistency_error + unit" where
  "require_canonical_json rt value = (case loads rt value of
     None \<Rightarrow> Inl (OpenApiConsistencyRejected ''Expected attributes must use canonical JSON values'')
   | Some parsed \<Rightarrow> require (canonical_json parsed = value) (OpenApiConsistencyRejected ''Expected attributes must use canonical JSON values''))"

fun validate_expectations :: "runtime \<Rightarrow> consistency_key list \<Rightarrow> consistency_expectation list \<Rightarrow> consistency_error + unit" where
  "validate_expectations rt keys [] = Inr ()"
| "validate_expectations rt keys (e # es) =
     bindE (require (strip (ce_fact_identifier e) \<noteq> [] \<and> length (ce_fact_identifier e) \<le> MAX_FACT_IDENTIFIER_LENGTH)
       (OpenApiConsistencyRejected ''Fact identifiers must be bounded, non-empty text'')) (\<lambda>_.
     bindE (require (ce_kind e = OperationExpectation \<or> ce_expected e \<noteq> [])
       (OpenApiConsistencyRejected ''Non-operation expectations require at least one attribute'')) (\<lambda>_.
     bindE (require (sort (ce_expected e) = ce_expected e)
       (OpenApiConsistencyRejected ''Expected attributes must be sorted deterministically'')) (\<lambda>_.
     bindE (require (distinct (map fst (ce_expected e)))
       (OpenApiConsistencyRejected ''Expected attribute names must not repeat'')) (\<lambda>_.
     bindE (mapE (\<lambda>(_, value). require_canonical_json rt value) (ce_expected e)) (\<lambda>_.
     bindE (require (expectation_key e \<notin> set keys)
       (OpenApiConsistencyRejected ''Cited consistency expectations must not repeat'')) (\<lambda>_.
       validate_expectations rt (keys @ [expectation_key e]) es))))))"

definition index_consistency_facts :: "openapi_fact list \<Rightarrow> consistency_error + (openapi_fact_kind \<times> string \<rightharpoonup> openapi_fact)" where
  "index_consistency_facts facts =
     bindE (require (length (remdups (map fact_key facts)) = length facts)
       (OpenApiConsistencyRejected ''OpenAPI facts must have unique kind and identifier pairs'')) (\<lambda>_. Inr (fact_dict facts))"

text \<open>\<open>dict(fact.attributes)\<close> keeps the last value of a name.\<close>

definition matches_expectation :: "consistency_expectation \<Rightarrow> openapi_fact option \<Rightarrow> bool" where
  "matches_expectation e fo = (case fo of
     None \<Rightarrow> False
   | Some f \<Rightarrow> list_all (\<lambda>(name, value). map_of (rev (fa_attributes f)) name = Some value) (ce_expected e))"

section \<open>Findings\<close>

definition attributes_description :: "(string \<times> string) list \<Rightarrow> string" where
  "attributes_description attributes = join '', '' (map (\<lambda>(name, value). name @ ''='' @ value) attributes)"

definition bounded_evidence_text :: "char \<Rightarrow> string \<Rightarrow> consistency_error + string" where
  "bounded_evidence_text ellipsis passage = (let normalized = strip passage in
     if normalized = [] then Inl (OpenApiConsistencyRejected ''Cited requirement passages must contain non-empty text'')
     else if length normalized \<le> MAX_FINDING_TEXT_LENGTH then Inr normalized
     else Inr (take (MAX_FINDING_TEXT_LENGTH - 1) normalized @ [ellipsis]))"

definition pairs_json :: "(string \<times> string) list \<Rightarrow> json" where
  "pairs_json attributes = JArr (map (\<lambda>(name, value). JArr [JStr name, JStr value]) attributes)"

definition finding_identity :: "consistency_expectation \<Rightarrow> (string \<times> string) list option \<Rightarrow> string" where
  "finding_identity e actual = canonical_json (JObj
     [(''analyzer_version'', JStr OPENAPI_CONSISTENCY_ANALYZER_VERSION),
      (''citation_id'', JStr (uuid_str (ct_id (ce_citation e)))),
      (''kind'', JStr (consistency_kind_value (ce_kind e))),
      (''fact_identifier'', JStr (ce_fact_identifier e)),
      (''expected_attributes'', pairs_json (ce_expected e)),
      (''actual_attributes'', case actual of None \<Rightarrow> JNull | Some attributes \<Rightarrow> pairs_json attributes)])"

definition apostrophe :: string where "apostrophe = [CHR 0x27]"

definition mismatch_analysis :: "consistency_expectation \<Rightarrow> (string \<times> string) list option \<Rightarrow> string" where
  "mismatch_analysis e actual = consistency_kind_value (ce_kind e) @ '' mismatch for '' @ apostrophe @ ce_fact_identifier e @ apostrophe
     @ '': expected '' @ attributes_description (ce_expected e) @ ''; observed ''
     @ (case actual of Some attributes \<Rightarrow> attributes_description attributes | None \<Rightarrow> ''the OpenAPI fact is missing'') @ ''.''"

definition mismatch_recommendation :: "consistency_expectation \<Rightarrow> string" where
  "mismatch_recommendation e = ''Align the requirement and OpenAPI contract for '' @ apostrophe @ ce_fact_identifier e @ apostrophe @ ''.''"

definition unchecked_finding :: "runtime \<Rightarrow> consistency_expectation \<Rightarrow> (string \<times> string) list option \<Rightarrow> string \<Rightarrow> requirement_finding" where
  "unchecked_finding rt e actual observed =
     \<lparr>rf_id = uuid5 rt OPENAPI_CONSISTENCY_FINDING_NAMESPACE (finding_identity e actual),
      rf_category = REQUIREMENTS_CONTRACT_MISMATCH,
      rf_severity = (if ce_kind e = SecurityExpectation then HIGH else MEDIUM),
      rf_evidence = [\<lparr>fe_citation_id = ct_id (ce_citation e), fe_observed_fact = observed\<rparr>],
      rf_analysis = mismatch_analysis e actual, rf_confidence = ''1.0'', rf_recommendation = mismatch_recommendation e,
      rf_unsupported = False, rf_unsupported_reason = None\<rparr>"

definition finding_for_mismatch :: "runtime \<Rightarrow> char \<Rightarrow> consistency_expectation \<Rightarrow> (string \<times> string) list option \<Rightarrow> consistency_error + requirement_finding" where
  "finding_for_mismatch rt ellipsis e actual =
     bindE (bounded_evidence_text ellipsis (ct_passage (ce_citation e))) (\<lambda>observed.
       except (validate_requirement_finding (finding_payload (unchecked_finding rt e actual observed))) ConsistencyFinding)"

section \<open>Analysis\<close>

fun mismatches_of :: "runtime \<Rightarrow> char \<Rightarrow> (openapi_fact_kind \<times> string \<rightharpoonup> openapi_fact) \<Rightarrow> consistency_expectation list \<Rightarrow> consistency_error + consistency_mismatch list" where
  "mismatches_of rt ellipsis dict [] = Inr []"
| "mismatches_of rt ellipsis dict (e # es) =
     (let fo = dict (expected_fact_kind (ce_kind e), ce_fact_identifier e) in
      if matches_expectation e fo then mismatches_of rt ellipsis dict es
      else let actual = map_option fa_attributes fo in
        bindE (finding_for_mismatch rt ellipsis e actual) (\<lambda>finding.
        bindE (mismatches_of rt ellipsis dict es) (\<lambda>ms.
          Inr (\<lparr>cm_kind = ce_kind e, cm_fact_identifier = ce_fact_identifier e, cm_expected = ce_expected e,
                cm_actual = actual, cm_finding = finding\<rparr> # ms))))"

definition analyze_openapi_consistency :: "runtime \<Rightarrow> char \<Rightarrow> consistency_expectation list \<Rightarrow> openapi_facts_v1 \<Rightarrow> consistency_error + consistency_mismatch list" where
  "analyze_openapi_consistency rt ellipsis expectations facts =
     bindE (require (of_schema_version facts = OPENAPI_FACT_SCHEMA_VERSION)
       (OpenApiConsistencyRejected ''Unsupported OpenAPI facts schema version'')) (\<lambda>_.
     bindE (validate_expectations rt [] expectations) (\<lambda>_.
     bindE (index_consistency_facts (of_facts facts)) (\<lambda>dict.
       mismatches_of rt ellipsis dict (sort_key expectation_sort_key expectations))))"

definition measure_seeded_consistency_baseline :: "consistency_expectation list \<Rightarrow> consistency_mismatch list \<Rightarrow> consistency_error + seeded_baseline" where
  "measure_seeded_consistency_baseline seeded_defects mismatches =
     bindE (require (seeded_defects \<noteq> []) (OpenApiConsistencyRejected ''At least one seeded defect is required'')) (\<lambda>_.
     let expected_keys = remdups (map expectation_key seeded_defects) in
     bindE (mapE mismatch_key mismatches) (\<lambda>keys.
     let detected_keys = remdups keys;
         detected_defects = length (filter (\<lambda>k. k \<in> set detected_keys) expected_keys) in
       Inr \<lparr>sb_total_seeded_defects = length expected_keys, sb_detected_defects = detected_defects,
            sb_recall = (detected_defects, length expected_keys),
            sb_false_positives = length (filter (\<lambda>k. k \<notin> set expected_keys) detected_keys)\<rparr>))"

section \<open>What an analysis reports\<close>

text \<open>An expectation holds of the facts when the fact it names has the attributes it expects.\<close>

definition expectation_holds :: "openapi_fact list \<Rightarrow> consistency_expectation \<Rightarrow> bool" where
  "expectation_holds facts e = list_ex (\<lambda>f. fa_kind f = expected_fact_kind (ce_kind e) \<and> fa_identifier f = ce_fact_identifier e
     \<and> list_all (\<lambda>(name, value). map_of (rev (fa_attributes f)) name = Some value) (ce_expected e)) facts"

definition actual_attributes :: "openapi_fact list \<Rightarrow> consistency_expectation \<Rightarrow> (string \<times> string) list option" where
  "actual_attributes facts e = map_option fa_attributes (fact_dict facts (expected_fact_kind (ce_kind e), ce_fact_identifier e))"

definition reports_violation :: "openapi_fact list \<Rightarrow> consistency_expectation \<Rightarrow> consistency_mismatch \<Rightarrow> bool" where
  "reports_violation facts e m \<longleftrightarrow> cm_kind m = ce_kind e \<and> cm_fact_identifier m = ce_fact_identifier e \<and> cm_expected m = ce_expected e
     \<and> cm_actual m = actual_attributes facts e \<and> finding_ok (cm_finding m)
     \<and> rf_category (cm_finding m) = REQUIREMENTS_CONTRACT_MISMATCH
     \<and> rf_severity (cm_finding m) = (if ce_kind e = SecurityExpectation then HIGH else MEDIUM)
     \<and> map fe_citation_id (rf_evidence (cm_finding m)) = [ct_id (ce_citation e)]
     \<and> rf_analysis (cm_finding m) = mismatch_analysis e (actual_attributes facts e)"

lemma matches_iff:
  assumes "distinct (map fact_key facts)"
  shows "matches_expectation e (fact_dict facts (expected_fact_kind (ce_kind e), ce_fact_identifier e)) \<longleftrightarrow> expectation_holds facts e"
proof -
  let ?k = "(expected_fact_kind (ce_kind e), ce_fact_identifier e)"
  have "expectation_holds facts e \<longleftrightarrow> (\<exists>f. fact_dict facts ?k = Some f \<and> list_all (\<lambda>(name, value). map_of (rev (fa_attributes f)) name = Some value) (ce_expected e))"
    unfolding fact_dict_iff [OF assms] expectation_holds_def list_ex_iff fact_key_def by auto
  then show ?thesis
    by (simp add: matches_expectation_def split: option.splits)
qed

lemma mismatch_analysis_strip: "strip (mismatch_analysis e a) = mismatch_analysis e a"
proof -
  have "mismatch_analysis e a \<noteq> [] \<and> \<not> is_space (hd (mismatch_analysis e a)) \<and> \<not> is_space (last (mismatch_analysis e a))"
    by (cases "ce_kind e") (simp_all add: mismatch_analysis_def is_space_def code_def split: option.splits)
  then show ?thesis
    unfolding strip_def by (intro strip_by_eq_self) auto
qed

lemma mismatch_recommendation_ok: "length (ce_fact_identifier e) \<le> 1000 \<Longrightarrow> finding_text_ok (mismatch_recommendation e)"
proof -
  assume l: "length (ce_fact_identifier e) \<le> 1000"
  have "strip (mismatch_recommendation e) = mismatch_recommendation e"
    unfolding strip_def by (intro strip_by_eq_self) (simp_all add: mismatch_recommendation_def is_space_def code_def)
  then show ?thesis
    using l by (simp add: finding_text_ok_def mismatch_recommendation_def apostrophe_def MAX_FINDING_TEXT_LENGTH_def)
qed

lemma bounded_evidence_ok:
  assumes "strip passage \<noteq> []" "\<not> is_space ellipsis"
  obtains t where "bounded_evidence_text ellipsis passage = Inr t" "finding_text_ok t"
proof (cases "length (strip passage) \<le> MAX_FINDING_TEXT_LENGTH")
  case True
  then show thesis
    using assms(1) by (intro that [of "strip passage"]) (simp_all add: bounded_evidence_text_def finding_text_ok_def)
next
  case False
  let ?t = "take (MAX_FINDING_TEXT_LENGTH - 1) (strip passage) @ [ellipsis]"
  have ne: "take (MAX_FINDING_TEXT_LENGTH - 1) (strip passage) \<noteq> []"
    using assms(1) by (simp add: MAX_FINDING_TEXT_LENGTH_def)
  then have "hd ?t = hd (strip passage)"
    by simp
  moreover have "\<not> is_space (hd (strip passage))"
    using strip_by_ends assms(1) unfolding strip_def by blast
  ultimately have "strip ?t = ?t"
    using assms(2) unfolding strip_def by (intro strip_by_eq_self) auto
  then show thesis
    using False assms(1) by (intro that [of ?t]) (simp_all add: bounded_evidence_text_def finding_text_ok_def MAX_FINDING_TEXT_LENGTH_def Let_def)
qed

lemma confidence_one: "confidence_ok ''1.0''"
  by code_simp

lemma unchecked_ok:
  assumes "length (ce_fact_identifier e) \<le> 1000" "finding_text_ok ob"
  shows "finding_ok (unchecked_finding rt e a ob) \<longleftrightarrow> length (mismatch_analysis e a) \<le> 4000"
proof -
  have "mismatch_analysis e a \<noteq> []"
    by (simp add: mismatch_analysis_def)
  then have "finding_text_ok (mismatch_analysis e a) \<longleftrightarrow> length (mismatch_analysis e a) \<le> 4000"
    by (simp add: finding_text_ok_def mismatch_analysis_strip MAX_FINDING_TEXT_LENGTH_def)
  then show ?thesis
    using assms mismatch_recommendation_ok [OF assms(1)] by (simp add: finding_ok_def unchecked_finding_def confidence_one)
qed

lemma finding_for_mismatch_iff:
  assumes "length (ce_fact_identifier e) \<le> 1000" "bounded_evidence_text ellipsis (ct_passage (ce_citation e)) = Inr ob" "finding_text_ok ob"
  shows "finding_for_mismatch rt ellipsis e a = Inr f \<longleftrightarrow> length (mismatch_analysis e a) \<le> 4000 \<and> f = unchecked_finding rt e a ob"
proof (cases "length (mismatch_analysis e a) \<le> 4000")
  case True
  then have "finding_ok (unchecked_finding rt e a ob)"
    using unchecked_ok assms(1,3) by blast
  then show ?thesis
    using True assms(2) by (auto simp: finding_for_mismatch_def validate_finding_payload)
next
  case False
  have "\<not> finding_text_ok (strip (mismatch_analysis e a))"
    using False by (simp add: mismatch_analysis_strip finding_text_ok_def MAX_FINDING_TEXT_LENGTH_def)
  then have "validate_requirement_finding (finding_payload (unchecked_finding rt e a ob)) \<noteq> Inr f"
    by (auto simp: validate_requirement_finding_def bindE_eq_Inr finding_item_def finding_payload_def unchecked_finding_def finding_text_Inr)
  then show ?thesis
    using False assms(2) by (auto simp: finding_for_mismatch_def except_eq_Inr)
qed

lemma validate_expectations_Inr:
  "validate_expectations rt keys es = Inr () \<longleftrightarrow>
     list_all (\<lambda>e. strip (ce_fact_identifier e) \<noteq> [] \<and> length (ce_fact_identifier e) \<le> 1000
       \<and> (ce_kind e = OperationExpectation \<or> ce_expected e \<noteq> []) \<and> sort (ce_expected e) = ce_expected e \<and> distinct (map fst (ce_expected e))
       \<and> list_all (\<lambda>(_, value). \<exists>v. loads rt value = Some v \<and> canonical_json v = value) (ce_expected e)) es
     \<and> distinct (map expectation_key es) \<and> set keys \<inter> expectation_key ` set es = {}"
proof (induction rt keys es rule: validate_expectations.induct)
  case (2 rt keys e es)
  have c: "require_canonical_json rt w = Inr () \<longleftrightarrow> (\<exists>v. loads rt w = Some v \<and> canonical_json v = w)" for w
    by (auto simp: require_canonical_json_def require_eq_Inr split: option.splits)
  have m: "(\<exists>us. mapE (\<lambda>(_, value). require_canonical_json rt value) kvs = Inr us) \<longleftrightarrow>
      list_all (\<lambda>(_, value). \<exists>v. loads rt value = Some v \<and> canonical_json v = value) kvs" for kvs
    by (induction kvs) (auto simp: bindE_eq_Inr c)
  show ?case
    using 2 m [of "ce_expected e"]
    by (auto simp: bindE_eq_Inr require_eq_Inr MAX_FACT_IDENTIFIER_LENGTH_def)
qed simp

text \<open>The mismatches of checked expectations, in order, when every text of a violated one is within the limit.\<close>

definition analysis_fits :: "openapi_fact list \<Rightarrow> consistency_expectation \<Rightarrow> bool" where
  "analysis_fits facts e \<longleftrightarrow> expectation_holds facts e \<or> length (mismatch_analysis e (actual_attributes facts e)) \<le> 4000"

lemma mismatches_cases:
  assumes d: "distinct (map fact_key facts)" and sp: "\<not> is_space ellipsis"
    and es: "list_all (\<lambda>e. length (ce_fact_identifier e) \<le> 1000 \<and> strip (ct_passage (ce_citation e)) \<noteq> []) es"
  shows "case mismatches_of rt ellipsis (fact_dict facts) es of
      Inr ms \<Rightarrow> list_all (analysis_fits facts) es \<and> list_all2 (reports_violation facts) (filter (\<lambda>e. \<not> expectation_holds facts e) es) ms
    | Inl _ \<Rightarrow> \<not> list_all (analysis_fits facts) es"
  using es
proof (induction es)
  case (Cons e es)
  obtain ob where ob: "bounded_evidence_text ellipsis (ct_passage (ce_citation e)) = Inr ob" "finding_text_ok ob"
    using bounded_evidence_ok [OF _ sp, of "ct_passage (ce_citation e)"] Cons.prems by auto
  have le: "length (ce_fact_identifier e) \<le> 1000"
    using Cons.prems by simp
  note found = finding_for_mismatch_iff [OF le ob]
  let ?a = "actual_attributes facts e"
  let ?m = "\<lparr>cm_kind = ce_kind e, cm_fact_identifier = ce_fact_identifier e, cm_expected = ce_expected e,
      cm_actual = ?a, cm_finding = unchecked_finding rt e ?a ob\<rparr>"
  have step: "mismatches_of rt ellipsis (fact_dict facts) (e # es) =
     (if expectation_holds facts e then mismatches_of rt ellipsis (fact_dict facts) es
      else bindE (finding_for_mismatch rt ellipsis e ?a) (\<lambda>f. bindE (mismatches_of rt ellipsis (fact_dict facts) es) (\<lambda>ms.
        Inr (\<lparr>cm_kind = ce_kind e, cm_fact_identifier = ce_fact_identifier e, cm_expected = ce_expected e, cm_actual = ?a, cm_finding = f\<rparr> # ms))))"
    by (simp add: Let_def matches_iff [OF d] actual_attributes_def)
  have IH: "case mismatches_of rt ellipsis (fact_dict facts) es of
      Inr ms \<Rightarrow> list_all (analysis_fits facts) es \<and> list_all2 (reports_violation facts) (filter (\<lambda>e. \<not> expectation_holds facts e) es) ms
    | Inl _ \<Rightarrow> \<not> list_all (analysis_fits facts) es"
    using Cons by simp
  show ?case
  proof (cases "expectation_holds facts e \<or> length (mismatch_analysis e ?a) \<le> 4000")
    case True
    then have "finding_for_mismatch rt ellipsis e ?a = Inr (unchecked_finding rt e ?a ob) \<and> reports_violation facts e ?m" if "\<not> expectation_holds facts e"
      using that found unchecked_ok [OF le ob(2)] by (simp add: reports_violation_def unchecked_finding_def)
    moreover have "analysis_fits facts e"
      using True by (simp add: analysis_fits_def)
    ultimately show ?thesis
      using IH unfolding step by (auto split: sum.splits)
  next
    case False
    then have "finding_for_mismatch rt ellipsis e ?a \<noteq> Inr f" for f
      using found by simp
    then obtain err where "finding_for_mismatch rt ellipsis e ?a = Inl err"
      by (cases "finding_for_mismatch rt ellipsis e ?a") auto
    then show ?thesis
      using False unfolding step by (simp add: analysis_fits_def)
  qed
qed simp

lemma sorted_expectations: "list_all P (sort_key k es) \<longleftrightarrow> list_all P es"
  by (simp add: list_all_iff)

text \<open>An analysis of valid inputs succeeds exactly when every violated expectation has an analysis text in bounds.\<close>

definition consistency_inputs_ok :: "runtime \<Rightarrow> consistency_expectation list \<Rightarrow> openapi_facts_v1 \<Rightarrow> bool" where
  "consistency_inputs_ok rt es facts \<longleftrightarrow> of_schema_version facts = OPENAPI_FACT_SCHEMA_VERSION \<and> validate_expectations rt [] es = Inr ()
     \<and> distinct (map fact_key (of_facts facts)) \<and> list_all (\<lambda>e. strip (ct_passage (ce_citation e)) \<noteq> []) es"

lemma index_consistency_Inr: "index_consistency_facts facts = Inr m \<longleftrightarrow> distinct (map fact_key facts) \<and> m = fact_dict facts"
  by (auto simp: index_consistency_facts_def bindE_eq_Inr require_eq_Inr distinct_map_length_set [symmetric])

lemma bounded_evidence_nonblank: "bounded_evidence_text ellipsis passage = Inr t \<Longrightarrow> strip passage \<noteq> []"
  by (auto simp: bounded_evidence_text_def)

lemma analysis_cases:
  assumes "consistency_inputs_ok rt es facts" "\<not> is_space ellipsis"
  shows "case analyze_openapi_consistency rt ellipsis es facts of
      Inr ms \<Rightarrow> list_all (analysis_fits (of_facts facts)) es
        \<and> list_all2 (reports_violation (of_facts facts)) (filter (\<lambda>e. \<not> expectation_holds (of_facts facts) e) (sort_key expectation_sort_key es)) ms
    | Inl _ \<Rightarrow> \<not> list_all (analysis_fits (of_facts facts)) es"
proof -
  let ?s = "sort_key expectation_sort_key es"
  have v: "of_schema_version facts = OPENAPI_FACT_SCHEMA_VERSION" "validate_expectations rt [] es = Inr ()"
      "distinct (map fact_key (of_facts facts))" "list_all (\<lambda>e. strip (ct_passage (ce_citation e)) \<noteq> []) es"
    using assms(1) by (simp_all add: consistency_inputs_ok_def)
  have "list_all (\<lambda>e. length (ce_fact_identifier e) \<le> 1000 \<and> strip (ct_passage (ce_citation e)) \<noteq> []) ?s"
    using v(2,4) by (auto simp: validate_expectations_Inr list_all_iff)
  note c = mismatches_cases [OF v(3) assms(2) this, of rt, unfolded sorted_expectations]
  have i: "index_consistency_facts (of_facts facts) = Inr (fact_dict (of_facts facts))"
    using v(3) by (simp add: index_consistency_Inr)
  have "analyze_openapi_consistency rt ellipsis es facts = mismatches_of rt ellipsis (fact_dict (of_facts facts)) ?s"
    using v(1,2) i by (simp add: analyze_openapi_consistency_def)
  then show ?thesis
    using c by simp
qed

text \<open>The measured baseline counts the seeded defects that the facts violate and the other violations.\<close>

definition violation_keys :: "openapi_fact list \<Rightarrow> consistency_expectation list \<Rightarrow> consistency_key set" where
  "violation_keys facts es = expectation_key ` set (filter (\<lambda>e. \<not> expectation_holds facts e) es)"

lemma mismatch_keys: "list_all2 (reports_violation facts) es ms \<Longrightarrow> mapE mismatch_key ms = Inr (map expectation_key es)"
proof (induction rule: list_all2_induct)
  case (Cons e es m ms)
  then obtain w where "rf_evidence (cm_finding m) = [w]" "fe_citation_id w = ct_id (ce_citation e)"
    by (auto simp: reports_violation_def map_eq_Cons_conv)
  then show ?case
    using Cons by (simp add: mismatch_key_def expectation_key_def reports_violation_def)
qed simp

lemma baseline_exact:
  assumes "consistency_inputs_ok rt es facts" "\<not> is_space ellipsis" "analyze_openapi_consistency rt ellipsis es facts = Inr ms" "seeded \<noteq> []"
  shows "measure_seeded_consistency_baseline seeded ms = Inr
    \<lparr>sb_total_seeded_defects = card (expectation_key ` set seeded),
     sb_detected_defects = card (expectation_key ` set seeded \<inter> violation_keys (of_facts facts) es),
     sb_recall = (card (expectation_key ` set seeded \<inter> violation_keys (of_facts facts) es), card (expectation_key ` set seeded)),
     sb_false_positives = card (violation_keys (of_facts facts) es - expectation_key ` set seeded)\<rparr>"
proof -
  let ?v = "filter (\<lambda>e. \<not> expectation_holds (of_facts facts) e) (sort_key expectation_sort_key es)"
  have "list_all2 (reports_violation (of_facts facts)) ?v ms"
    using analysis_cases [OF assms(1,2)] assms(3) by simp
  note k = mismatch_keys [OF this]
  have s: "set (map expectation_key ?v) = violation_keys (of_facts facts) es"
    by (simp add: violation_keys_def)
  have c: "length (filter P (remdups xs)) = card {x \<in> set xs. P x}" for P and xs :: "consistency_key list"
    using distinct_card [of "filter P (remdups xs)"] by simp
  have "{x \<in> expectation_key ` set seeded. x \<in> violation_keys (of_facts facts) es} = expectation_key ` set seeded \<inter> violation_keys (of_facts facts) es"
    "{x \<in> violation_keys (of_facts facts) es. x \<notin> expectation_key ` set seeded} = violation_keys (of_facts facts) es - expectation_key ` set seeded"
    by auto
  then show ?thesis
    using assms(4) s by (simp add: measure_seeded_consistency_baseline_def k c Let_def length_remdups_card_conv del: set_map) (simp add: violation_keys_def)
qed

end
