(* ===== verification/Openapi_Properties.thy ===== *)
theory Openapi_Properties
  imports Openapi_Correct Openapi_Consistency Evidence_Demo
begin

text \<open>
  The properties of the OpenAPI chain: what the parser accepts, what the facts record, differences as patches
  and the consistency analysis, each with a witness on one small document.
\<close>

section \<open>One document\<close>

definition demo_scalar :: "string \<Rightarrow> yaml_node" where
  "demo_scalar s = ScalarNode False (YAML_TAG_PREFIX @ ''str'') s"

definition demo_map :: "(string \<times> yaml_node) list \<Rightarrow> yaml_node" where
  "demo_map kns = MappingNode False (YAML_TAG_PREFIX @ ''map'') (map (\<lambda>(k, n). (demo_scalar k, n)) kns)"

definition demo_openapi_document :: yaml_node where
  "demo_openapi_document = demo_map [(''openapi'', demo_scalar ''3.0.1''),
     (''security'', SequenceNode False (YAML_TAG_PREFIX @ ''seq'') [demo_map [(''key'', SequenceNode False (YAML_TAG_PREFIX @ ''seq'') [])]]),
     (''paths'', demo_map [(''/a'', demo_map [(''get'', demo_map [(''operationId'', demo_scalar ''list'')])])])]"

definition demo_yaml :: yaml_library where
  "demo_yaml = \<lparr>yl_scan = (\<lambda>s. ([OtherToken], False)), yl_compose = (\<lambda>s. Some (Some demo_openapi_document))\<rparr>"

definition demo_root :: "(string \<times> json) list" where
  "demo_root = [(''openapi'', JStr ''3.0.1''), (''security'', JArr [JObj [(''key'', JArr [])]]),
     (''paths'', JObj [(''/a'', JObj [(''get'', JObj [(''operationId'', JStr ''list'')])])])]"

lemma demo_openapi_root: "parse_openapi_root demo_rt demo_yaml ''openapi-yaml'' ''x'' = Inr (''3.0.1'', demo_root)"
proof -
  have load: "load_yaml demo_rt demo_yaml ''x'' = Inr (JObj demo_root)" and dec: "utf8_decode ''x'' = Some ''x''"
    by code_simp+
  have "references (JObj demo_root) = Inr 0"
    by code_simp
  then have "validate_references (JObj demo_root) = Inr ()"
    by (simp add: validate_references_def)
  then have "checked_root (JObj demo_root) = Inr (''3.0.1'', demo_root)"
    by (simp add: checked_root_def demo_root_def object_member_def starts_with_def)
  moreover have "\<exists>n. validate_structure 0 (JObj demo_root) 0 = Inr n"
    unfolding validate_structure_iff by (simp add: demo_root_def MAX_DEPTH_def MAX_NODES_def)
  ultimately show ?thesis
    using load dec by (auto simp: parse_openapi_root_def)
qed

lemma demo_openapi_parsed:
  "\<exists>p f. parse_openapi demo_rt demo_yaml ''openapi-yaml'' ''x'' = Inr p \<and> length (po_operations p) = 1
     \<and> extract_openapi_facts demo_rt demo_yaml ''openapi-yaml'' ''x'' = Inr f
     \<and> length (of_facts f) = 2"
proof -
  have "all_operations (map_of demo_root ''security'') (member_mapping (map_of demo_root ''paths'')) \<noteq> Inl x" for x
    by (simp add: demo_root_def member_mapping_def starts_with_def openapi_methods_def lower_def lower_char_def code_def)
  then obtain ops where ops: "all_operations (map_of demo_root ''security'') (member_mapping (map_of demo_root ''paths'')) = Inr ops"
    by (cases "all_operations (map_of demo_root ''security'') (member_mapping (map_of demo_root ''paths''))") auto
  have d: "length (declared_operations (member_mapping (map_of demo_root ''paths''))) = 1"
    by code_simp
  have one: "length ops = 1"
    using all_operations_Inr [OF ops] d by simp
  have m: "object_member demo_root ''paths'' r = Inr (member_mapping (map_of demo_root ''paths''))" "object_member demo_root ''components'' r = Inr []" for r
    by (simp_all add: object_member_def demo_root_def member_mapping_def)
  obtain p where p: "parse_openapi demo_rt demo_yaml ''openapi-yaml'' ''x'' = Inr p" "po_operations p = ops"
    using ops one by (auto simp: parse_openapi_def demo_openapi_root m MAX_OPERATIONS_def object_member_def [of "[]"])
  have "length (facts_of_root demo_root sec) = 2" for sec
    by (simp add: facts_of_root_def security_requirement_facts_def security_scheme_facts_def component_schema_facts_def operation_facts_def
        path_facts_def one_operation_facts_def parameter_facts_def response_facts_def sorted_items_def demo_root_def member_mapping_def
        openapi_methods_def lower_def lower_char_def code_def)
  then have "append_facts [] (facts_of_root demo_root (po_security p)) = Inr (facts_of_root demo_root (po_security p))" "length (facts_of_root demo_root (po_security p)) = 2"
    by (simp_all add: append_facts_Inr)
  then show ?thesis
    using p one by (simp add: extract_openapi_facts_def demo_openapi_root)
qed

section \<open>Properties\<close>



text \<open>C23: The extracted facts are at most 50000, sorted by kind and identifier, and hold exactly one operation fact for
  each operation the parser found, under its method and path.\<close>

theorem operation_facts_exact:
  assumes "extract_openapi_facts rt yl ty raw = Inr f"
  shows "\<exists>p. parse_openapi rt yl ty raw = Inr p \<and> of_openapi_version f = po_version p
    \<and> mset (map fa_identifier (filter operation_fact (of_facts f))) = mset (map (\<lambda>x. upper (op_method x) @ '' '' @ op_path x) (po_operations p))
    \<and> sorted (map fact_order (of_facts f)) \<and> length (of_facts f) \<le> 50000"
proof -
  obtain p :: parsed_openapi where p: "parse_openapi rt yl ty raw = Inr p" "of_openapi_version f = po_version p"
    by (rule extract_Inr [OF assms])
  have "mset (map fa_identifier (filter operation_fact (of_facts f))) = mset (map (\<lambda>x. upper (op_method x) @ '' '' @ op_path x) (po_operations p))"
    by (rule extracted_operations [OF assms p(1), unfolded operation_key_of_def])
  then show ?thesis
    using p extracted_shape [OF assms] by blast
qed

theorem operation_facts_exact_witness:
  "\<exists>f p. extract_openapi_facts demo_rt demo_yaml ''openapi-yaml'' ''x'' = Inr f \<and> parse_openapi demo_rt demo_yaml ''openapi-yaml'' ''x'' = Inr p
     \<and> mset (map fa_identifier (filter operation_fact (of_facts f))) = mset (map (\<lambda>x. upper (op_method x) @ '' '' @ op_path x) (po_operations p))
     \<and> length (of_facts f) = 2"
proof -
  obtain f where f: "extract_openapi_facts demo_rt demo_yaml ''openapi-yaml'' ''x'' = Inr f" "length (of_facts f) = 2"
    using demo_openapi_parsed by blast
  then show ?thesis
    using operation_facts_exact [OF f(1)] by blast
qed

text \<open>C25: The differences of two fact sets are a patch: applied to the facts before they give the facts after, their
  inverses lead back, each names one key once, in order, and changes it, and there are none exactly when the
  facts are the same.\<close>

theorem fact_diff_is_patch:
  assumes "diff_openapi_facts before after = Inr ds"
  shows "set (apply_differences ds (of_facts before)) = set (of_facts after)
    \<and> set (apply_differences (map inverse_difference ds) (of_facts after)) = set (of_facts before)
    \<and> distinct (map difference_key ds) \<and> sorted (map (\<lambda>d. (fact_kind_value (fd_fact_kind d), fd_identifier d)) ds)
    \<and> list_all (\<lambda>d. fd_before d \<noteq> fd_after d) ds
    \<and> (ds = [] \<longleftrightarrow> set (of_facts before) = set (of_facts after))"
proof -
  have "set (of_facts before) = set (of_facts after)" if "ds = []"
    using diff_forward [OF assms] that by (simp add: apply_differences_def)
  then show ?thesis
    using diff_forward [OF assms] diff_backward [OF assms] diff_order [OF assms] diff_changes [OF assms] diff_same [OF assms]
    by (auto simp: list_all_iff)
qed

definition demo_facts_before :: openapi_facts_v1 where
  "demo_facts_before = \<lparr>of_schema_version = OPENAPI_FACT_SCHEMA_VERSION, of_openapi_version = ''3.0.1'',
     of_facts = [fact_of FactOperation ''GET /a'' ''/paths/~1a/get'' [], fact_of FactOperation ''GET /b'' ''/paths/~1b/get'' []]\<rparr>"

definition demo_facts_after :: openapi_facts_v1 where
  "demo_facts_after = \<lparr>of_schema_version = OPENAPI_FACT_SCHEMA_VERSION, of_openapi_version = ''3.0.1'',
     of_facts = [fact_of FactOperation ''GET /a'' ''/paths/~1a/get'' [(''deprecated'', ''true'')], fact_of FactOperation ''PUT /b'' ''/paths/~1b/put'' []]\<rparr>"

theorem fact_diff_is_patch_witness:
  "\<exists>ds. diff_openapi_facts demo_facts_before demo_facts_after = Inr ds \<and> length ds = 3
     \<and> set (apply_differences ds (of_facts demo_facts_before)) = set (of_facts demo_facts_after)"
proof -
  have "case diff_openapi_facts demo_facts_before demo_facts_after of Inr ds \<Rightarrow> length ds = 3 | Inl _ \<Rightarrow> False"
    by code_simp
  then obtain ds where "diff_openapi_facts demo_facts_before demo_facts_after = Inr ds" "length ds = 3"
    by (auto split: sum.splits)
  then show ?thesis
    using fact_diff_is_patch by blast
qed

text \<open>C24: On valid expectations and facts the consistency analysis reports exactly the violated expectations, in their
  order, each with a contract finding that cites its requirement; it fails exactly when a violated expectation
  has a description beyond the limit of a finding.\<close>

theorem consistency_exact:
  assumes "consistency_inputs_ok rt es facts" "\<not> is_space ellipsis"
  shows "((\<exists>ms. analyze_openapi_consistency rt ellipsis es facts = Inr ms) \<longleftrightarrow> list_all (analysis_fits (of_facts facts)) es)
    \<and> (\<forall>ms. analyze_openapi_consistency rt ellipsis es facts = Inr ms \<longrightarrow>
        list_all2 (reports_violation (of_facts facts)) (filter (\<lambda>e. \<not> expectation_holds (of_facts facts) e) (sort_key expectation_sort_key es)) ms)"
  using analysis_cases [OF assms] by (auto split: sum.splits)

definition demo_expectation :: consistency_expectation where
  "demo_expectation = \<lparr>ce_citation = demo_citation, ce_kind = OperationExpectation, ce_fact_identifier = ''GET /c'', ce_expected = [(''deprecated'', ''true'')]\<rparr>"

theorem consistency_exact_witness:
  "\<exists>m. analyze_openapi_consistency demo_rt (CHR ''~'') [demo_expectation, demo_expectation\<lparr>ce_fact_identifier := ''GET /a''\<rparr>] demo_facts_after = Inr [m]
     \<and> reports_violation (of_facts demo_facts_after) demo_expectation m"
proof -
  let ?es = "[demo_expectation, demo_expectation\<lparr>ce_fact_identifier := ''GET /a''\<rparr>]"
  have ok: "consistency_inputs_ok demo_rt ?es demo_facts_after"
    by code_simp
  have sp: "\<not> is_space (CHR ''~'')"
    by code_simp
  have fits: "list_all (analysis_fits (of_facts demo_facts_after)) ?es"
    by code_simp
  have violated: "filter (\<lambda>e. \<not> expectation_holds (of_facts demo_facts_after) e) (sort_key expectation_sort_key ?es) = [demo_expectation]"
  proof -
    have "\<not> ''GET /c'' \<le> ''GET /a''" "''GET /a'' \<le> ''GET /c''"
      by code_simp+
    then have "sort_key expectation_sort_key ?es = [demo_expectation\<lparr>ce_fact_identifier := ''GET /a''\<rparr>, demo_expectation]"
      by (simp add: expectation_sort_key_def demo_expectation_def less_eq_prod_def)
    moreover have "expectation_holds (of_facts demo_facts_after) (demo_expectation\<lparr>ce_fact_identifier := ''GET /a''\<rparr>)"
        "\<not> expectation_holds (of_facts demo_facts_after) demo_expectation"
      by code_simp+
    ultimately show ?thesis
      by simp
  qed
  show ?thesis
    using consistency_exact [OF ok sp] fits unfolding violated by (auto simp: list_all2_Cons1)
qed

section \<open>Where the chain loses information\<close>

text \<open>An operation without security of its own inherits the global one as the parser's tuple, which the extractor
  does not take for a list: no fact ever records an inherited requirement.\<close>

lemma inherited_never_recorded:
  assumes "extract_openapi_facts rt yl ty raw = Inr f" "x \<in> set (of_facts f)" "(''inherited'', v) \<in> set (fa_attributes x)"
  shows "v = ''false''"
  using extracted_shape(1) [OF assms(1)] assms(2,3) by (force simp: list_all_iff plain_fact_def)

text \<open>The parser accepts two spellings of one method (\<open>get\<close> and \<open>GET\<close>) under a path, but their facts share a key and
  every difference with such facts raises.\<close>

lemma repeated_methods_break_differences:
  assumes "extract_openapi_facts rt yl ty raw = Inr f" "parse_openapi rt yl ty raw = Inr p"
    "\<not> distinct (map (\<lambda>x. (op_path x, op_method x)) (po_operations p))" "of_schema_version g = OPENAPI_FACT_SCHEMA_VERSION"
  shows "diff_openapi_facts f g = Inl (FactsValueError ''OpenAPI facts must have unique kind and identifier pairs'')"
  using index_repeated [OF repeated_operation_keys [OF assms(1-3)]] extracted_shape(4) [OF assms(1)] assms(4)
  by (simp add: diff_openapi_facts_def)

end
