(* ===== verification/Spec2Isabelle.thy ===== *)
theory Spec2Isabelle
  imports Pipeline_Properties Access_Properties Document_Properties Upload_Properties Evidence_Properties Design_Properties Openapi_Properties
begin

text \<open>
  \<^bold>\<open>The approved-execution pipeline of the QA copilot.\<close> The repository is a FastAPI backend
  (\<open>src/apps/api/src/ai_qa_copilot_api/\<close>) in which a language model proposes API tests, an owner approves
  one immutable plan, and a worker executes it once against a registered target. The safety argument of the
  product is this pipeline: only a valid proposal becomes a plan, only the plan the owner confirmed is
  approved, an approval is used once, a job runs only under its approval, the executor sends at most one
  request to a validated public address, and the stored evidence is redacted. Beside it stands the document pipeline that feeds the model: an uploaded
  specification waits in a parser queue, a restricted worker parses it and promotes its requirements to cited
  sections, and the index splits the sections into chunks and embeds each text once. On top of the index runs the
  evidence chain: a hybrid retrieval ranks chunks, citations pin what was retrieved, a deterministic analysis
  reports findings on cited passages, the owner gives feedback on them, and grounded tests are generated from
  them, grouped, revised and traced. Model calls go through one gateway that pins its provider and accounts
  for what it returns.

  \<^bold>\<open>Layers, and what each theory models.\<close>

  \<^item> \<open>Prelude\<close>: results as \<open>error + 'a\<close> with \<open>bindE\<close>, \<open>except\<close>, \<open>require\<close> and their simplification rules
    (collection \<open>exn_simps\<close>), Python string operations, the record \<open>runtime\<close> of primitives.
  \<^item> \<open>Pyjson\<close>, \<open>Json_Roundtrip\<close>: \<open>json.dumps\<close> (sorted keys, compact separators, ASCII) and \<open>json.loads\<close>;
    loading a printed value gives it back with sorted keys.
  \<^item> \<open>Py_Uuid\<close>, \<open>Py_Url\<close>: \<open>uuid.UUID\<close> and \<open>str(UUID)\<close> over 128-bit words with their round trip;
    \<open>urlsplit\<close>, \<open>urlencode\<close> as far as the sources use them.
  \<^item> \<open>Generated_Tests\<close>, \<open>Test_Case_Contract\<close> (\<open>generated_tests.py\<close>): the validator of proposals, its
    contract as the predicate \<open>test_case_ok\<close>, soundness, completeness on canonical payloads, error behaviour.
  \<^item> \<open>Target_Registry\<close> (\<open>target_registry.py\<close>, the resolver of \<open>restricted_execution_runtime.py\<close>): registered
    origins and the DNS checks.
  \<^item> \<open>Execution_Plans\<close> (\<open>execution_plans.py\<close>): \<open>build_execution_plan\<close>, \<open>validate_execution_plan\<close>, the review
    and the hash input; \<open>plan_of\<close> is the abstract plan both refine to.
  \<^item> \<open>Store\<close>: a table as a list of rows with a row check and a conflict relation, INSERT, UPDATE ... WHERE
    and SELECT on it. The locale \<open>table\<close> states the constraints of a PostgreSQL table and proves once that every
    operation keeps them and that a select on a unique key is deterministic; it is interpreted for
    every table of the model.
  \<^item> \<open>Auth\<close> (\<open>auth.py\<close>): configuration, Cognito tokens, owner and guest resolution.
  \<^item> \<open>Execution_Approvals\<close> (\<open>execution_approvals.py\<close>), \<open>Execution_Jobs\<close> (\<open>execution_jobs.py\<close>),
    \<open>Execution_Results\<close> (\<open>execution_results.py\<close>): the three repositories, every method as a function from the
    database to a result and the new database; \<open>documents.py\<close> gives their tables and CHECK constraints.
  \<^item> \<open>Redaction\<close>, \<open>Restricted_Execution\<close> (\<open>restricted_execution.py\<close>): the executor. It returns the result and
    the list of transport calls it made, or the exception that leaves it; \<open>body_over_limits\<close> follows the scanner of
    \<open>json.loads\<close> to the integers and nesting at which the interpreter raises.
  \<^item> \<open>Execution_Worker\<close>, \<open>Worker_Correctness\<close> (\<open>execution_worker.py\<close>): conversion of a result to a durable
    payload and one worker run.
  \<^item> \<open>Approval_Interleaving\<close>: the statements of concurrent \<open>consume\<close> and \<open>create\<close> transactions as a step relation.
  \<^item> \<open>Execution_System\<close>: create, consume, enqueue, claim, cancel and record as the step relation \<open>exec_step\<close> on
    the three tables, with the invariant \<open>exec_inv\<close> by rule induction.
  \<^item> \<open>Demo\<close>: the concrete runtime, proposal, plan and database of the witnesses.
  \<^item> \<open>Authorization\<close> (\<open>authorization.py\<close>, \<open>audit.py\<close>): scopes, policy, boundary and auditor. The locale
    \<open>audited\<close> is the contract of the two boundary operations (one event per decision) and counts grants and
    refusals over a sequence of requests.
  \<^item> \<open>Pipeline_Properties\<close>, \<open>Access_Properties\<close>: the properties of the components with their witnesses; this
    theory holds those that span components.
  \<^item> \<open>Py_Text\<close>: UTF-8, \<open>splitlines\<close>, \<open>split\<close> and the regular-expression combinators (greedy, lazy, bounded) of the
    parsers; a match is the first one in Python's order of backtracking.
  \<^item> \<open>Job_Leases\<close>: the locale \<open>lease_queue\<close>, the contract of a durable queue with leases, with its trace of granted
    and closed leases; \<open>Document_Tables\<close>: the tables of the document pipeline (\<open>documents.py\<close>).
  \<^item> \<open>Parser_Claims\<close> (\<open>parser_queue.py\<close>, \<open>parser_job_claims.py\<close>, \<open>claim_durations.py\<close>), \<open>Indexing_Claims\<close>
    (\<open>indexing_job_claims.py\<close>): the two queues, each shown to be a \<open>lease_queue\<close>. A claim takes its candidate
    as an argument in the step relation, because the subquery may see an older snapshot.
  \<^item> \<open>Markdown_Parser\<close> (\<open>markdown_parser.py\<close>): both patterns, the limits and the line loop, and the stateless
    line-by-line reading \<open>units_of\<close> it is equal to.
  \<^item> \<open>Chunking\<close>, \<open>Indexing\<close>, \<open>Indexing_Correct\<close> (\<open>indexing.py\<close>): splitting into windows of words; the durable
    store and the service as functions on a state with numbered database calls; what an index run establishes.
  \<^item> \<open>Parser_Promotion\<close>, \<open>Promotion_Correct\<close> (\<open>parser_evidence_promotion.py\<close>, \<open>parser_promotion_worker.py\<close>,
    \<open>parser_worker.py\<close>): reading the claimed source, the promotion transaction, the worker turn with its error
    paths, the runtime check; \<open>turn_closed\<close> is what a turn leaves of the job it claimed.
  \<^item> \<open>Document_Demo\<close>, \<open>Document_Properties\<close>: a concrete document on its way, and the properties of the pipeline.
  \<^item> \<open>Document_Ingestion\<close>, \<open>Ingestion_Correct\<close> (\<open>ingestion.py\<close>): an upload request from its headers to the
    parser job. The storage is a record of operations with the contract \<open>write_once_storage\<close>, interpreted on the
    in-memory storage of the source; \<open>intake_inv\<close> is the invariant of admission, one request after another.
  \<^item> \<open>Intake_Interleaving\<close>: an upload as a machine whose steps are its transactions, equal to \<open>receive\<close> when it runs
    alone, and runs that interleave any number of uploads; what such runs keep, and by how much the quotas can slip.
  \<^item> \<open>Promotion_Succeeds\<close>: when a promotion cannot fail, and that an admitted text upload is ready for it.
  \<^item> \<open>Indexing_Worker\<close> (\<open>indexing_worker.py\<close>): one turn with its handlers; \<open>index_turn_closed\<close> is what it leaves of
    the claimed job.
  \<^item> \<open>Document_Status\<close> (\<open>document_status.py\<close>, \<open>general_wakeup.py\<close>, \<open>parser_wakeup.py\<close>): the owner's view of uploads
    and the wake-up senders with a log of what they sent.
  \<^item> \<open>Upload_Properties\<close>: the properties of uploads, of the indexing turn, the views and the wake-ups.
  \<^item> \<open>Retrieval\<close>, \<open>Retrieval_Correct\<close>, \<open>Retrieval_Fusion\<close> (\<open>hybrid_retrieval.py\<close>): the lexical and the semantic
    candidates, their fusion, the stored trace. A fusion score is the double of the source as a multiple of
    \<open>2 ^ -70\<close>, each operation rounded to 53 bits; \<open>entry\<close> reads the fused list as a map.
  \<^item> \<open>Citations\<close>, \<open>Citations_Correct\<close>, \<open>Evidence\<close> (\<open>citations.py\<close>, \<open>retrieval_citation_linkage.py\<close>): creation of one
    citation and of a batch, the project read, and the linked retrieval; \<open>evidence_ok\<close> is the agreement of the
    tables a citation joins.
  \<^item> \<open>Findings\<close> (\<open>findings.py\<close>): the validator of findings and its contract \<open>finding_ok\<close>.
  \<^item> \<open>Requirements_Analysis\<close>, \<open>Analysis_Correct\<close>, \<open>Analysis_Runs\<close> (\<open>requirements_analysis.py\<close>): the rules over cited
    passages, the run repository and the service. \<open>reports\<close> is the declarative rule table; the locale
    \<open>citation_reader\<close> is what the service relies on of a citation repository, interpreted on the SQL one and the
    unavailable one. \<open>Uuid_Order\<close>: the order of identifiers is the order of their texts.
  \<^item> \<open>Finding_Feedback\<close> (\<open>finding_feedback.py\<close>): feedback on a finding of a stored run; the locale \<open>run_reader\<close> is
    its interface to the analysis.
  \<^item> \<open>Evidence_Demo\<close>, \<open>Evidence_Properties\<close>: one passage from retrieval to feedback, and the properties of the chain.
  \<^item> \<open>Test_Generation\<close> (\<open>test_generation.py\<close>): eligibility and proposals of seeds; \<open>grounded\<close> is what a seed must
    satisfy. The service uses the interface \<open>citation_reader\<close>, through which findings of an analysis ground tests.
  \<^item> \<open>Test_Normalization\<close>, \<open>Test_Revisions\<close>, \<open>Traceability\<close> (\<open>test_normalization.py\<close>, \<open>test_revisions.py\<close>,
    \<open>traceability.py\<close>): duplicate groups in closed form (\<open>duplicate_groups\<close>), the contract \<open>history_ok\<close> the
    validation of a history is equal to and the histories \<open>reached\<close>, the matrices and their refresh.
  \<^item> \<open>Metrics\<close>, \<open>Model_Gateway\<close>, \<open>Gateway_Correct\<close> (\<open>metrics.py\<close>, \<open>model_gateway.py\<close>): pricing, measurements and the
    cost report; pinned settings and transports, the strict readers of both providers, the measuring gateway;
    \<open>urlopen\<close> follows redirects as \<open>urllib\<close> does and returns what it sent.
    A duration is in thousandths of a millisecond, the precision the gateway rounds to.
  \<^item> \<open>Design_Properties\<close>: the properties of test design and of the gateway.
  \<^item> \<open>Openapi_Parser\<close>, \<open>Openapi_Facts\<close>, \<open>Openapi_Correct\<close> (\<open>openapi_parser.py\<close>, \<open>openapi_facts.py\<close>): the strict reader
    (PyYAML is the parameter \<open>yaml_library\<close>), the structural limits with their declarative form \<open>structure_ok\<close>, the
    facts as the lists each extractor appends, and their differences; \<open>apply_differences\<close> is the patch they are.
  \<^item> \<open>Openapi_Consistency\<close> (\<open>openapi_consistency.py\<close>): the comparison of cited expectations with facts;
    \<open>expectation_holds\<close> and \<open>reports_violation\<close> are its specification.
  \<^item> \<open>Openapi_Properties\<close>: the properties of the OpenAPI chain.

  \<^bold>\<open>Parameters.\<close> Code outside the repository is an argument of the definitions: SHA-256, \<open>uuid5\<close>, float
  printing and reading and \<open>ipaddress\<close> are fields of \<open>runtime\<close>; PyJWT, the resolver, the cancellation probe, the
  transport, the quarantine storage, the embedding adapter, the network behind \<open>urlopen\<close>, the Unicode tables behind NFKC and PostgreSQL's text rank and vector distance are function arguments, the n-th call of a probe or resolver being its value at n and a network answering each request of a call
  with bytes, a redirect or a failure. The resolver answers addresses and does not raise, as the socket resolver of the repository
  does; PyJWT is called with constant algorithms and options, which its parameter does not repeat. A hypothesis
  names what is used of them: \<open>json_ok\<close> and \<open>floats_read_back\<close> (a printed float reads back),
  absence of a SHA-256 collision between two given texts.

  \<^bold>\<open>Conventions.\<close> Strings are lists of the 256 Latin-1 characters; a \<open>\u\<close> escape from 256 on and UTF-8 beyond
  Latin-1 read as malformed. Floats are kept by their \<open>repr\<close>. A time is an instant in microseconds after \<open>_utc_datetime\<close>; an
  identifier is a 128-bit word. A database call takes a flag \<open>up\<close>: an outage is the declared \<open>Unavailable\<close>
  error with the tables unchanged. A violated CHECK, UNIQUE or foreign key is an \<open>IntegrityError\<close>, an oversized column a
  \<open>DataError\<close>; rows skipped by \<open>FOR UPDATE SKIP LOCKED\<close> are the argument \<open>locked\<close>. Checks by \<open>isinstance\<close> on
  values whose model type already has that type are discharged by the type. Two definitions have fuel.
  \<open>loads\<close> has \<open>2 * length s + 2\<close> (its companion \<open>loads_over_limits\<close> the same); \<open>parse_enough_fuel\<close> shows that on every
  text more fuel changes no result, so the bound never cuts a parse short. \<open>urlopen\<close> has 41, one more than the redirects
  \<open>urllib\<close> follows; \<open>urlopen_enough_fuel\<close> shows that more changes nothing.

  \<^bold>\<open>Concurrency.\<close> A repository method is one transaction, and a service that calls several is not atomic. Where it
  matters the transactions, or their statements, are the steps of a relation over which runs interleave:
  \<open>Approval_Interleaving\<close>, \<open>Execution_System\<close>, the lease queues, \<open>Intake_Interleaving\<close>. The functions that take a whole
  request (\<open>receive\<close>, \<open>execute_claimed_job\<close>, the worker turns, \<open>index\<close>, \<open>analyze\<close>) run it with nothing between, and the theorems on
  them are about that run; what concurrent requests do to the quotas is \<open>intake_admission\<close>.

  \<^bold>\<open>Not modelled.\<close> Interpreter limits (recursion depth, 4300-digit integers) except where the
  executor reads a response body, the \<open>TypeError\<close> of \<open>hmac.compare_digest\<close> on a hash that is not ASCII, tracing and metrics, sockets and
  TLS of the HTTP transport, the API routes, the S3 adapter, PDF parsing, PyYAML, the outcome log lines, a commit whose outcome is unknown, NUL characters in
  stored text (which PostgreSQL refuses), the lexical baseline, the prompted baselines, reports, the evaluation
  harness and deployment code; the manifest lists each file.

  \<^bold>\<open>Findings.\<close> Twelve theorems state behaviour that is not intended: \<open>over_limit_response_strands_job\<close>, \<open>demo_overlap_usage\<close>,
  \<open>redirect_followed\<close>, \<open>pair_list_evidence_rejected\<close>,
  \<open>nonfinite_evidence_stops_worker\<close>, \<open>forwarded_for_never_sent\<close>, \<open>chunk_can_exceed_maximum\<close>,
  \<open>oversized_length_not_recorded\<close>, \<open>repeated_analysis_fails\<close>,
  \<open>two_vague_terms_never_stored\<close>, \<open>inherited_never_recorded\<close> and \<open>repeated_methods_break_differences\<close>.
\<close>

section \<open>The pipeline as a whole\<close>

text \<open>C1: In every reachable state of the pipeline, whatever the interleaving, a job that runs or has succeeded
  belongs to an approval of the same project, plan and hash that was consumed exactly when the job started, after
  it was approved and before it expired; a succeeded job has a stored successful result, and every stored result
  belongs to a job in the terminal state of its outcome.\<close>

theorem pipeline_invariant:
  assumes "exec_reachable rt projects s"
  shows "(\<forall>j \<in> set (db_jobs (sy_db s)). job_backed (db_approvals (sy_db s)) j \<and> job_resulted (sy_results s) j)
    \<and> (\<forall>r \<in> set (sy_results s). result_backed (db_jobs (sy_db s)) r)
    \<and> approvals_ok (db_approvals (sy_db s)) \<and> jobs_ok (db_jobs (sy_db s)) \<and> results_ok (sy_results s)"
  using exec_inv_reachable [OF assms] by (simp add: exec_inv_def)

lemma demo_queued: "exec_reachable demo_rt [11] \<lparr>sy_db = demo_db, sy_results = []\<rparr>"
proof -
  let ?db0 = "\<lparr>db_projects = [11], db_approvals = [], db_jobs = []\<rparr>"
  let ?s0 = "\<lparr>sy_db = ?db0, sy_results = []\<rparr>"
  have cr: "create_approval demo_rt True [11] 21 0 11 demo_plan LOCAL_DEVELOPMENT_APPROVER_ID ''local_bypass'' None []
      = (Inr demo_approval, [demo_row])"
    using demo_row_checks demo_row_read
    by (simp add: create_approval_def insert_row_def demo_row_def [symmetric]) (simp add: demo_row_def new_approval_row_def)
  let ?s1 = "?s0\<lparr>sy_db := ?db0\<lparr>db_approvals := [demo_row]\<rparr>\<rparr>"
  have "exec_step demo_rt ?s0 (?s0\<lparr>sy_db := (sy_db ?s0)\<lparr>db_approvals := [demo_row]\<rparr>\<rparr>)"
    by (rule exec_step.create) (use cr in simp)
  then have r1: "exec_reachable demo_rt [11] ?s1" using exec_reachable.step [OF exec_reachable.init] by simp
  have "enqueue True True 31 None 1 demo_approval (sy_db ?s1) = (Inr demo_job, demo_db)"
    by (simp add: enqueue_def insert_row_def demo_approval_def EXECUTION_APPROVAL_TTL_def demo_job_def demo_db_def
      new_job_def job_checks_def job_lifecycle_def demo_row_def new_approval_row_def)
  from exec_reachable.step [OF r1 exec_step.enqueue [OF this]] show ?thesis by simp
qed

lemma demo_running:
  "\<exists>s. exec_reachable demo_rt [11] s \<and> db_jobs (sy_db s) = [start_job 5 demo_job]"
proof -
  have "claim_next demo_rt True [] 5 (sy_db \<lparr>sy_db = demo_db, sy_results = []\<rparr>) = (Inr (Some demo_claim),
     demo_db\<lparr>db_approvals := [mark_consumed 5 demo_row], db_jobs := [start_job 5 demo_job]\<rparr>)"
    using demo_claim_next by simp
  from exec_reachable.step [OF demo_queued exec_step.claim [OF this]] show ?thesis by fastforce
qed

lemma demo_cancelled:
  "\<exists>s. exec_reachable demo_rt [11] s \<and> db_jobs (sy_db s) = [cancelled_job 2 demo_job]"
proof -
  have "cancel True 2 11 31 (sy_db \<lparr>sy_db = demo_db, sy_results = []\<rparr>) = (Inr (Some (cancelled_job 2 demo_job)),
     demo_db\<lparr>db_jobs := [cancelled_job 2 demo_job]\<rparr>)"
    by (simp add: cancel_def update_where_def demo_db_def demo_job_def new_job_def demo_approval_def cancelled_job_def
      job_checks_def job_lifecycle_def)
  from exec_reachable.step [OF demo_queued exec_step.cancel [OF this]] show ?thesis by fastforce
qed

theorem pipeline_invariant_witness:
  "\<exists>s. exec_reachable demo_rt [11] s \<and> job_backed (db_approvals (sy_db s)) (start_job 5 demo_job)
     \<and> ej_state (start_job 5 demo_job) = RUNNING"
proof -
  obtain s where s: "exec_reachable demo_rt [11] s" "db_jobs (sy_db s) = [start_job 5 demo_job]"
    using demo_running by blast
  from pipeline_invariant [OF s(1)] s show ?thesis by (auto simp: start_job_def)
qed

text \<open>C7: A terminal job (succeeded, failed or cancelled) is final: no later transaction of the pipeline changes
  its row, so it is never claimed, cancelled or completed again.\<close>

theorem terminal_jobs_final:
  assumes "exec_reachable rt projects s" "(exec_step rt)\<^sup>*\<^sup>* s t"
    and "j \<in> set (db_jobs (sy_db s))" "ej_state j \<in> {SUCCEEDED, FAILED, CANCELLED}"
  shows "j \<in> set (db_jobs (sy_db t)) \<and> (\<forall>k \<in> set (db_jobs (sy_db t)). ej_id k = ej_id j \<longrightarrow> k = j)"
proof -
  have "exec_inv t \<and> j \<in> set (db_jobs (sy_db t))"
    using exec_steps_terminal [OF assms(2) exec_inv_reachable [OF assms(1)] assms(3,4)] .
  then show ?thesis using jobs.conflict_eq [OF exec_inv_parts(2)] by (auto simp: job_conflict_def)
qed

theorem terminal_jobs_final_witness:
  "\<exists>s. exec_reachable demo_rt [11] s \<and> cancelled_job 2 demo_job \<in> set (db_jobs (sy_db s))
     \<and> (\<forall>k \<in> set (db_jobs (sy_db s)). ej_id k = 31 \<longrightarrow> ej_state k = CANCELLED)"
proof -
  obtain s where s: "exec_reachable demo_rt [11] s" "db_jobs (sy_db s) = [cancelled_job 2 demo_job]"
    using demo_cancelled by blast
  have c: "ej_state (cancelled_job 2 demo_job) = CANCELLED" "ej_id (cancelled_job 2 demo_job) = 31"
    by (simp_all add: cancelled_job_def demo_job_def new_job_def)
  from terminal_jobs_final [OF s(1) rtranclp.rtrancl_refl, of "cancelled_job 2 demo_job"] s c show ?thesis by auto
qed

text \<open>C4: A claimed job whose execution result can be stored is completed by its worker: if the database
  answers and no result exists yet, \<open>execute_claimed_job\<close> stores exactly one result for the job, with the outcome,
  failure code and send count of the execution, and moves the job to the terminal state of that outcome, leaving
  every other row as it is.\<close>

theorem worker_completes:
  assumes "floats_read_back rt" "jobs_ok (db_jobs db)" "cj_job claimed \<in> set (db_jobs db)" "ej_state (cj_job claimed) = RUNNING"
    and exec: "execute rt resolve probe transport DEFAULT_TARGET_REGISTRY now claimed = (Inr r, calls)"
    and "evidence_storable r" "\<forall>q \<in> set results. rr_job_id q \<noteq> ej_id (cj_job claimed) \<and> rr_id q \<noteq> new_id"
  shows "\<exists>stored row. execute_claimed_job rt resolve probe transport now True new_id now' claimed db results =
      (Inr \<lparr>wr_claimed_job_id = Some (ej_id (cj_job claimed)), wr_execution_result = Some r, wr_stored_result = Some stored\<rparr>,
       calls,
       db\<lparr>db_jobs := map (\<lambda>k. if k = cj_job claimed then complete_job (durable_outcome (er_outcome r)) now' k else k) (db_jobs db)\<rparr>,
       results @ [row])
    \<and> sr_job_id stored = ej_id (cj_job claimed) \<and> rp_outcome (sr_payload stored) = durable_outcome (er_outcome r)
    \<and> rp_failure_code (sr_payload stored) = map_option failure_code_value (er_error_code r)
    \<and> rp_transport_send_count (sr_payload stored) = int (length calls)
    \<and> rr_job_id row = ej_id (cj_job claimed) \<and> stored_result_from_record row = Inr stored
    \<and> ej_state (complete_job (durable_outcome (er_outcome r)) now' (cj_job claimed)) =
        (case er_outcome r of OutcomeSucceeded \<Rightarrow> SUCCEEDED | OutcomeFailed \<Rightarrow> FAILED | OutcomeCancelled \<Rightarrow> CANCELLED)"
proof -
  have shape: "result_shape rt r" "er_job_id r = Some (ej_id (cj_job claimed))" using execute_shape [OF assms(1) exec] by blast+
  obtain p where p: "execution_result_payload rt r = Inr p" "validate_payload rt p = Inr p"
    "rp_outcome p = durable_outcome (er_outcome r)" "rp_transport_send_count p = er_transport_send_count r"
    "rp_failure_code p = map_option failure_code_value (er_error_code r)"
    using worker_payload_accepted [OF shape(1) assms(6)] by blast
  have sends: "er_transport_send_count r = int (length calls)"
    using exec
  proof (cases rule: execute_cases)
    case (ready t headers body q)
    from ready(6) show ?thesis by (cases rule: send_request_cases) auto
  qed (auto simp: failed_def)
  obtain row where row: "record_result rt True new_id now' (ej_project_id (cj_job claimed)) (ej_id (cj_job claimed)) p db results =
      (Inr \<lparr>sr_id = new_id, sr_job_id = ej_id (cj_job claimed), sr_payload = p, sr_recorded_at = now'\<rparr>,
       db\<lparr>db_jobs := map (\<lambda>k. if k = cj_job claimed then complete_job (rp_outcome p) now' (cj_job claimed) else k) (db_jobs db)\<rparr>,
       results @ [row])" "rr_job_id row = ej_id (cj_job claimed)"
    "stored_result_from_record row = Inr \<lparr>sr_id = new_id, sr_job_id = ej_id (cj_job claimed), sr_payload = p, sr_recorded_at = now'\<rparr>"
    using record_result_completes [OF assms(2-4,1) p(2) assms(7)] by blast
  have st: "ej_state (complete_job (durable_outcome (er_outcome r)) now' (cj_job claimed)) =
      (case er_outcome r of OutcomeSucceeded \<Rightarrow> SUCCEEDED | OutcomeFailed \<Rightarrow> FAILED | OutcomeCancelled \<Rightarrow> CANCELLED)"
    by (cases "er_outcome r") (simp_all add: complete_job_def)
  show ?thesis
    by (rule exI [of _ "\<lparr>sr_id = new_id, sr_job_id = ej_id (cj_job claimed), sr_payload = p, sr_recorded_at = now'\<rparr>"], rule exI [of _ row])
      (use exec shape(2) p row sends st in \<open>auto simp: execute_claimed_job_def require_result_for_claim_def intro!: map_cong\<close>)
qed

theorem worker_completes_witness:
  "\<exists>run db' row. execute_claimed_job demo_rt demo_resolve (\<lambda>n j. False) (\<lambda>c. Response demo_response) 6 True 41 7 demo_claim
     (demo_db\<lparr>db_jobs := [start_job 5 demo_job]\<rparr>) [] = (Inr run, [demo_call], db', [row])
   \<and> db_jobs db' = [complete_job ResultSucceeded 7 (start_job 5 demo_job)]"
proof -
  let ?r = "after_send demo_rt (\<lambda>n j. False) 31 demo_plan (canon_case demo_case) demo_evidence (Response demo_response)"
  let ?db = "demo_db\<lparr>db_jobs := [start_job 5 demo_job]\<rparr>"
  have out: "er_outcome ?r = OutcomeSucceeded" using demo_success after_send_success by blast
  have "parse_json_object_or_array demo_rt (rs_body demo_response) = Some (JObj [])" by code_simp
  then have "se_json_body e = JObj []" if "er_response_evidence ?r = Some e" for e
    using that out by (auto simp: after_send_def response_evidence_of_def failed_def cancelled_def Let_def redact_optional_def
      split: if_splits)
  then have st: "evidence_storable ?r"
    using demo_names by (auto simp: evidence_storable_def demo_evidence_def storable_json_def)
  have "jobs_ok [start_job 5 demo_job]" "cj_job demo_claim = start_job 5 demo_job" "ej_state (start_job 5 demo_job) = RUNNING"
    using queued_checks(2) [of demo_job 5] demo_tables(2)
    by (auto simp: table_ok_def demo_claim_def start_job_def demo_job_def new_job_def)
  with worker_completes [OF demo_floats, of ?db demo_claim demo_resolve "\<lambda>n j. False" "\<lambda>c. Response demo_response" 6 ?r "[demo_call]" "[]" 41 7]
    demo_execute [OF demo_no_limit(3), unfolded demo_executed_def] st out
  show ?thesis by auto
qed

section \<open>Results and findings\<close>

text \<open>Recording is idempotent: once a result was recorded for a job, recording the same payload again
  returns the same stored result and changes nothing, and reading the result of the job in its project returns it.\<close>

theorem record_idempotent:
  assumes "jobs_ok (db_jobs db)" "results_ok results" "floats_read_back rt"
    and "record_result rt up i now pr jid payload db results = (Inr stored, db', results')"
  shows "record_result rt True i' now' pr jid payload db' results' = (Inr stored, db', results')
    \<and> get_result True pr jid db' results' = Inr (Some stored)"
  by (rule record_result_again [OF assms])

definition demo_payload :: result_payload where
  "demo_payload = \<lparr>rp_outcome = ResultFailed, rp_failure_code = Some ''transport_timeout'', rp_assertion_results_json = ''[]'',
     rp_request_evidence_json = None, rp_response_evidence_json = None, rp_transport_send_count = 1\<rparr>"

theorem record_idempotent_witness:
  "\<exists>stored db' results'. record_result demo_rt True 41 7 11 31 demo_payload (demo_db\<lparr>db_jobs := [start_job 5 demo_job]\<rparr>) []
      = (Inr stored, db', results')
   \<and> record_result demo_rt True 42 8 11 31 demo_payload db' results' = (Inr stored, db', results')"
proof -
  have v: "validate_payload demo_rt demo_payload = Inr demo_payload" by code_simp
  have j: "jobs_ok [start_job 5 demo_job]" "ej_state (start_job 5 demo_job) = RUNNING"
    "ej_project_id (start_job 5 demo_job) = 11" "ej_id (start_job 5 demo_job) = 31"
    using queued_checks(2) [of demo_job 5] demo_tables(2)
    by (auto simp: table_ok_def start_job_def demo_job_def new_job_def demo_approval_def)
  let ?db = "demo_db\<lparr>db_jobs := [start_job 5 demo_job]\<rparr>"
  obtain stored db' results' where r: "record_result demo_rt True 41 7 11 31 demo_payload ?db [] = (Inr stored, db', results')"
    using record_result_completes [of ?db "start_job 5 demo_job" demo_rt demo_payload demo_payload "[]" 41 7] j v demo_floats
    by auto
  from record_idempotent [OF _ _ demo_floats r] j(1) r show ?thesis by auto
qed

text \<open>Executor and repository disagree on two-element lists: when the response body holds, outside every sensitive
  member, a two-element list whose first element is a sensitive name and whose second is not the marker, the executor
  keeps the list, the repository rejects the result, and the worker stops after the request was sent: nothing is
  recorded and the job stays running although its approval is consumed.\<close>

theorem pair_list_evidence_rejected:
  assumes "floats_read_back rt" and exec: "execute rt resolve probe transport DEFAULT_TARGET_REGISTRY now claimed = (Inr r, calls)"
    and "\<forall>q. er_request_evidence r = Some q \<longrightarrow> storable_json (redact_json (qe_json_body q))"
    and "er_response_evidence r = Some e" "all_finite (redact_json (se_json_body e))" "\<not> redaction_accepted (redact_json (se_json_body e))"
  shows "execute_claimed_job rt resolve probe transport now up new_id now' claimed db results =
    (Inl (WorkerResultError (ExecutionResultRejected ''Sensitive execution evidence must be redacted'')), calls, db, results)
    \<and> length calls = 1"
proof -
  have shape: "result_shape rt r" "er_job_id r = Some (ej_id (cj_job claimed))" using execute_shape [OF assms(1) exec] by blast+
  obtain p where "execution_result_payload rt r = Inr p"
    "validate_payload rt p = Inl (ExecutionResultRejected ''Sensitive execution evidence must be redacted'')"
    using worker_payload_refused [OF shape(1) assms(3-6)] by blast
  moreover have "length calls = 1"
    using exec
  proof (cases rule: execute_cases)
    case (ready t headers body q)
    from ready(6) show ?thesis using assms(4) by (cases rule: send_request_cases) auto
  qed (use assms(4) in \<open>auto simp: failed_def\<close>)
  ultimately show ?thesis using exec shape(2)
    by (simp add: execute_claimed_job_def require_result_for_claim_def record_result_def)
qed

definition pair_response :: transport_response where
  "pair_response = demo_response\<lparr>rs_body := ''{'' @ [quote_char] @ ''a'' @ [quote_char] @ '':['' @ [quote_char] @ ''token''
     @ [quote_char] @ '','' @ [quote_char] @ ''x'' @ [quote_char] @ '']}''\<rparr>"

theorem pair_list_evidence_rejected_witness:
  "execute_claimed_job demo_rt demo_resolve (\<lambda>n j. False) (\<lambda>c. Response pair_response) 6 True 41 7 demo_claim
     (demo_db\<lparr>db_jobs := [start_job 5 demo_job]\<rparr>) [] =
   (Inl (WorkerResultError (ExecutionResultRejected ''Sensitive execution evidence must be redacted'')), [demo_call],
    demo_db\<lparr>db_jobs := [start_job 5 demo_job]\<rparr>, [])"
proof -
  let ?r = "after_send demo_rt (\<lambda>n j. False) 31 demo_plan (canon_case demo_case) demo_evidence (Response pair_response)"
  have no_limit: "\<not> evidence_raises demo_rt demo_plan (Response pair_response)"
  proof -
    have "\<not> body_over_limits demo_rt (rs_body pair_response)" by code_simp
    then show ?thesis by (simp add: evidence_raises_def)
  qed
  have p: "parse_json_object_or_array demo_rt (rs_body pair_response) = Some (JObj [(''a'', JArr [JStr ''token'', JStr ''x''])])"
    by code_simp
  have n: "is_sensitive_name ''token''" "\<not> is_sensitive_name ''a''" by code_simp+
  have b: "rs_status_code pair_response = 201" "valid_transport_response pair_response" "int (length (rs_body pair_response)) \<le> 256000"
  proof -
    have "(rs_status_code pair_response = 201) \<and>
      (valid_transport_response pair_response) \<and>
      (int (length (rs_body pair_response)) \<le> 256000)" by code_simp
    then show "rs_status_code pair_response = 201" "valid_transport_response pair_response" "int (length (rs_body pair_response)) \<le> 256000" by - (elim conjE, assumption)+
  qed
  obtain e where e: "er_response_evidence ?r = Some e" "se_json_body e = JObj [(''a'', JArr [JStr ''token'', JStr ''x''])]"
    using b p n after_send_evidence [of _ demo_plan]
    by (auto simp: response_evidence_of_def redact_optional_def demo_plan_parts DEFAULT_EXECUTION_LIMITS_def)
  have "storable_json (redact_json (qe_json_body demo_evidence))"
    using demo_names by (simp add: demo_evidence_def storable_json_def)
  then show ?thesis
    using pair_list_evidence_rejected [OF demo_floats demo_execute [OF no_limit, unfolded demo_executed_def] _ e(1)]
      e(2) n by (simp add: REDACTED_VALUE_def)
qed

text \<open>A response body with a non-finite number (\<open>json.loads\<close> accepts \<open>NaN\<close>) outside every sensitive member stops
  the worker with an invariant error after the request was sent: nothing is recorded and the job stays running.\<close>

theorem nonfinite_evidence_stops_worker:
  assumes "floats_read_back rt" and exec: "execute rt resolve probe transport DEFAULT_TARGET_REGISTRY now claimed = (Inr r, calls)"
    and "\<forall>q. er_request_evidence r = Some q \<longrightarrow> storable_json (redact_json (qe_json_body q))"
    and "er_response_evidence r = Some e" "\<not> all_finite (redact_json (se_json_body e))"
  shows "execute_claimed_job rt resolve probe transport now up new_id now' claimed db results =
    (Inl (ExecutionWorkerInvariantError ''Execution evidence contains a non-finite number''), calls, db, results)
    \<and> length calls = 1"
proof -
  have shape: "result_shape rt r" "er_job_id r = Some (ej_id (cj_job claimed))" using execute_shape [OF assms(1) exec] by blast+
  have "execution_result_payload rt r = Inl (ExecutionWorkerInvariantError ''Execution evidence contains a non-finite number'')"
    by (rule worker_payload_nonfinite [OF shape(1) assms(3-5)])
  moreover have "length calls = 1"
    using exec
  proof (cases rule: execute_cases)
    case (ready t headers body q)
    from ready(6) show ?thesis using assms(4) by (cases rule: send_request_cases) auto
  qed (use assms(4) in \<open>auto simp: failed_def\<close>)
  ultimately show ?thesis using exec shape(2)
    by (simp add: execute_claimed_job_def require_result_for_claim_def)
qed

definition nan_response :: transport_response where
  "nan_response = demo_response\<lparr>rs_body := ''[NaN]''\<rparr>"

theorem nonfinite_evidence_stops_worker_witness:
  "execute_claimed_job demo_rt demo_resolve (\<lambda>n j. False) (\<lambda>c. Response nan_response) 6 True 41 7 demo_claim
     (demo_db\<lparr>db_jobs := [start_job 5 demo_job]\<rparr>) [] =
   (Inl (ExecutionWorkerInvariantError ''Execution evidence contains a non-finite number''), [demo_call],
    demo_db\<lparr>db_jobs := [start_job 5 demo_job]\<rparr>, [])"
proof -
  let ?r = "after_send demo_rt (\<lambda>n j. False) 31 demo_plan (canon_case demo_case) demo_evidence (Response nan_response)"
  have no_limit: "\<not> evidence_raises demo_rt demo_plan (Response nan_response)"
  proof -
    have "\<not> body_over_limits demo_rt (rs_body nan_response)" by code_simp
    then show ?thesis by (simp add: evidence_raises_def)
  qed
  have p: "parse_json_object_or_array demo_rt (rs_body nan_response) = Some (JArr [JFloat ''nan''])" by code_simp
  have b: "rs_status_code nan_response = 201" "valid_transport_response nan_response" "int (length (rs_body nan_response)) \<le> 256000"
  proof -
    have "(rs_status_code nan_response = 201) \<and>
      (valid_transport_response nan_response) \<and>
      (int (length (rs_body nan_response)) \<le> 256000)" by code_simp
    then show "rs_status_code nan_response = 201" "valid_transport_response nan_response" "int (length (rs_body nan_response)) \<le> 256000" by - (elim conjE, assumption)+
  qed
  obtain e where e: "er_response_evidence ?r = Some e" "se_json_body e = JArr [JFloat ''nan'']"
    using b p after_send_evidence [of _ demo_plan]
    by (auto simp: response_evidence_of_def redact_optional_def demo_plan_parts DEFAULT_EXECUTION_LIMITS_def)
  have "storable_json (redact_json (qe_json_body demo_evidence))"
    using demo_names by (simp add: demo_evidence_def storable_json_def)
  then show ?thesis
    using nonfinite_evidence_stops_worker [OF demo_floats demo_execute [OF no_limit, unfolded demo_executed_def] _ e(1)]
      e(2) by (simp add: float_finite_def)
qed

text \<open>A response body with an integer of more than 4300 digits does the same through the exception that leaves the
  executor: the request was sent, nothing is recorded, and the claimed job stays running.\<close>

theorem over_limit_response_strands_job:
  "execute_claimed_job demo_rt demo_resolve (\<lambda>n j. False) (\<lambda>c. Response long_integer_response) 6 up new_id now' demo_claim db results =
   (Inl (WorkerExecuteError BodyLimitExceeded), [demo_call], db, results)"
  using long_integer_escapes by (simp add: demo_executed_def execute_claimed_job_def)

text \<open>A proposal may carry an \<open>X-Forwarded-For\<close> header, which the proposal contract allows; no execution of a
  plan with such a header ever sends a request.\<close>

theorem forwarded_for_never_sent:
  assumes "text_ok v"
    and "plan_test_case rt (ea_plan (cj_approval claimed)) = Inr t"
    and "\<lparr>hd_name = ''X-Forwarded-For'', hd_value = v\<rparr> \<in> set (req_headers (tc_request t))"
  shows "header_ok \<lparr>hd_name = ''X-Forwarded-For'', hd_value = v\<rparr>
    \<and> snd (execute rt resolve probe transport registry now claimed) = []"
proof -
  have h: "text_ok ''X-Forwarded-For''" "header_name_pattern ''X-Forwarded-For''"
    "lower ''X-Forwarded-For'' \<notin> set forbidden_header_names" "lower ''X-Forwarded-For'' \<in> set forbidden_request_headers"
  proof -
    have "(text_ok ''X-Forwarded-For'') \<and>
      (header_name_pattern ''X-Forwarded-For'') \<and>
      (lower ''X-Forwarded-For'' \<notin> set forbidden_header_names) \<and>
      (lower ''X-Forwarded-For'' \<in> set forbidden_request_headers)" by code_simp
    then show "text_ok ''X-Forwarded-For''" "header_name_pattern ''X-Forwarded-For''"
      "lower ''X-Forwarded-For'' \<notin> set forbidden_header_names" "lower ''X-Forwarded-For'' \<in> set forbidden_request_headers" by - (elim conjE, assumption)+
  qed
  obtain res calls where x: "execute rt resolve probe transport registry now claimed = (res, calls)" by fastforce
  then have "calls = []"
  proof (cases rule: execute_outcomes)
    case (ready t' headers body q)
    have "validated_headers (req_headers (tc_request t)) = Inr headers"
      using prepare_request_Inr [OF ready(5)] assms(2) ready(4) by simp
    moreover have "validated_headers hs = Inr hs' \<Longrightarrow> h \<in> set hs \<Longrightarrow> lower (hd_name h) \<notin> set forbidden_request_headers" for h hs hs'
      by (induction hs arbitrary: hs') (auto simp: exn_simps split: if_splits)
    ultimately show ?thesis using assms(3) h(4) by fastforce
  qed auto
  with x h assms(1) show ?thesis by (simp add: header_ok_def)
qed

definition forwarded_case :: generated_test_case where
  "forwarded_case = demo_case\<lparr>tc_request := demo_request\<lparr>req_headers := [\<lparr>hd_name = ''X-Forwarded-For'', hd_value = ''item''\<rparr>]\<rparr>\<rparr>"

definition forwarded_claim :: claimed_execution_job where
  "forwarded_claim = demo_claim\<lparr>cj_approval := demo_approval\<lparr>ea_plan :=
     plan_of demo_rt demo_target forwarded_case DEFAULT_EXECUTION_LIMITS\<rparr>\<rparr>"

lemma forwarded_case_ok: "test_case_ok demo_rt forwarded_case"
proof -
  have "header_ok \<lparr>hd_name = ''X-Forwarded-For'', hd_value = ''item''\<rparr>" by code_simp
  then show ?thesis
    using demo_case_ok by (simp add: forwarded_case_def test_case_ok_def request_ok_def demo_request_def demo_canon_case MAX_REQUEST_ITEMS_def)
qed

theorem forwarded_for_never_sent_witness:
  "header_ok \<lparr>hd_name = ''X-Forwarded-For'', hd_value = ''item''\<rparr>
   \<and> snd (execute demo_rt demo_resolve (\<lambda>n j. False) (\<lambda>c. Response demo_response) DEFAULT_TARGET_REGISTRY 6 forwarded_claim) = []"
proof -
  have "json_ok demo_rt (JObj (test_case_payload forwarded_case))"
    by (simp add: test_case_payload_def forwarded_case_def demo_case_def request_payload_def demo_request_def opt_obj_def
      header_payload_def assertion_payload_def demo_assertion_def opt_str_def)
  from plan_of_valid(2) [OF forwarded_case_ok this demo_registered demo_limits(1)]
  have "plan_test_case demo_rt (ea_plan (cj_approval forwarded_claim)) = Inr (canon_case forwarded_case)"
    using demo_limits(2)
    by (simp add: forwarded_claim_def plan_fits_def forwarded_case_def demo_canon_case demo_request_def)
  moreover have "\<lparr>hd_name = ''X-Forwarded-For'', hd_value = ''item''\<rparr> \<in> set (req_headers (tc_request (canon_case forwarded_case)))"
    by (simp add: forwarded_case_def canon_case_def)
  ultimately show ?thesis by (intro forwarded_for_never_sent [OF demo_texts(3)])
qed

end
